(* ===== verification/Prelude.thy ===== *)
theory Prelude
  imports Main "HOL-Library.Word"
begin

text \<open>
  Shared vocabulary of the development.

  \<^item> Go strings are byte sequences, so they are modelled by HOL's \<^typ>\<open>string\<close>, whose characters
    are bytes. The functions of package strings that the program uses are defined here with
    the meaning of the Go documentation.
  \<^item> A \<^verbatim>\<open>time.Time\<close> is an \<^typ>\<open>int\<close> counting nanoseconds from the Unix epoch, a
    \<^verbatim>\<open>time.Duration\<close> an \<^typ>\<open>int\<close> counting nanoseconds.
  \<^item> Errors are values of \<open>err\<close>: the sentinel errors of the program, a text made by
    \<^verbatim>\<open>fmt.Errorf\<close> without wrapping, one made with a single \<^verbatim>\<open>%w\<close>, and the
    stage error of package workspace. \<open>err_text\<close> is \<^verbatim>\<open>Error()\<close> and \<open>err_is\<close> is
    \<^verbatim>\<open>errors.Is\<close>.
  Operator-facing messages that the source writes in Japanese are given by a short English
  gloss; no code of the program reads them back.
\<close>

section \<open>Strings\<close>

definition has_prefix :: "string \<Rightarrow> string \<Rightarrow> bool" where
  "has_prefix s p \<longleftrightarrow> take (length p) s = p"

definition cut_prefix :: "string \<Rightarrow> string \<Rightarrow> string option" where
  "cut_prefix s p = (if has_prefix s p then Some (drop (length p) s) else None)"

definition has_suffix :: "string \<Rightarrow> string \<Rightarrow> bool" where
  "has_suffix s p \<longleftrightarrow> length p \<le> length s \<and> drop (length s - length p) s = p"

definition cut_suffix :: "string \<Rightarrow> string \<Rightarrow> string option" where
  "cut_suffix s p = (if has_suffix s p then Some (take (length s - length p) s) else None)"

text \<open>\<^verbatim>\<open>strings.Cut\<close> for a separator of one byte: the parts around the first occurrence.\<close>

fun cut_at :: "char \<Rightarrow> string \<Rightarrow> string \<times> string option" where
  "cut_at c [] = ([], None)"
| "cut_at c (x # xs) =
     (if x = c then ([], Some xs)
      else (let (a, b) = cut_at c xs in (x # a, b)))"

fun contains :: "string \<Rightarrow> string \<Rightarrow> bool" where
  "contains [] p = (p = [])"
| "contains (x # xs) p = (has_prefix (x # xs) p \<or> contains xs p)"

text \<open>\<^verbatim>\<open>strings.Split\<close> for a separator of one byte: never empty.\<close>

fun split_on :: "char \<Rightarrow> string \<Rightarrow> string list" where
  "split_on c [] = [[]]"
| "split_on c (x # xs) =
     (if x = c then [] # split_on c xs
      else (case split_on c xs of [] \<Rightarrow> [[x]] | y # ys \<Rightarrow> (x # y) # ys))"

fun join_with :: "string \<Rightarrow> string list \<Rightarrow> string" where
  "join_with sep [] = []"
| "join_with sep [x] = x"
| "join_with sep (x # y # ys) = x @ sep @ join_with sep (y # ys)"

lemma has_prefix_append [simp]: "has_prefix (p @ s) p"
  by (simp add: has_prefix_def)

lemma has_prefix_iff: "has_prefix s p \<longleftrightarrow> (\<exists>r. s = p @ r)"
proof
  assume "has_prefix s p"
  then have "s = p @ drop (length p) s"
    using append_take_drop_id [of "length p" s] by (simp add: has_prefix_def)
  then show "\<exists>r. s = p @ r" ..
next
  assume "\<exists>r. s = p @ r"
  then show "has_prefix s p" by auto
qed

lemma has_prefix_Nil [simp]: "has_prefix s []"
  by (simp add: has_prefix_def)

lemma cut_prefix_Some: "cut_prefix s p = Some r \<longleftrightarrow> s = p @ r"
  by (auto simp: cut_prefix_def has_prefix_iff)

lemma cut_prefix_append [simp]: "cut_prefix (p @ r) p = Some r"
  by (simp add: cut_prefix_Some)

lemma has_suffix_iff: "has_suffix s p \<longleftrightarrow> (\<exists>r. s = r @ p)"
proof
  assume "has_suffix s p"
  then have "s = take (length s - length p) s @ p"
    using append_take_drop_id [of "length s - length p" s] by (simp add: has_suffix_def)
  then show "\<exists>r. s = r @ p" ..
next
  assume "\<exists>r. s = r @ p"
  then show "has_suffix s p" by (auto simp: has_suffix_def)
qed

lemma has_suffix_append [simp]: "has_suffix (r @ p) p"
  by (auto simp: has_suffix_iff)

lemma cut_suffix_Some: "cut_suffix s p = Some r \<longleftrightarrow> s = r @ p"
  by (auto simp: cut_suffix_def has_suffix_iff)

lemma cut_at_None: "cut_at c s = (a, None) \<longleftrightarrow> a = s \<and> c \<notin> set s"
proof (induction s arbitrary: a)
  case Nil
  then show ?case by auto
next
  case (Cons x xs)
  then show ?case by (cases "cut_at c xs") auto
qed

lemma cut_at_Some: "cut_at c s = (a, Some b) \<longleftrightarrow> s = a @ c # b \<and> c \<notin> set a"
proof (induction s arbitrary: a)
  case Nil
  then show ?case by simp
next
  case (Cons x xs)
  obtain u v where uv: "cut_at c xs = (u, v)" by (cases "cut_at c xs")
  show ?case
  proof (cases a)
    case Nil
    with uv show ?thesis by auto
  next
    case (Cons y ys)
    with uv Cons.IH [of ys] show ?thesis by auto
  qed
qed

lemma cut_at_append [simp]: "c \<notin> set a \<Longrightarrow> cut_at c (a @ c # b) = (a, Some b)"
  by (simp add: cut_at_Some)

lemma split_on_not_Nil [simp]: "split_on c s \<noteq> []"
  by (induction s) (auto split: list.splits)

lemma split_on_no_sep: "c \<notin> set s \<Longrightarrow> split_on c s = [s]"
  by (induction s) auto

lemma split_on_append: "c \<notin> set a \<Longrightarrow> split_on c (a @ c # b) = a # split_on c b"
  by (induction a) auto

lemma join_split_on: "join_with [c] (split_on c s) = s"
proof (induction s)
  case Nil
  then show ?case by simp
next
  case (Cons x xs)
  obtain y ys where s: "split_on c xs = y # ys"
    by (cases "split_on c xs") auto
  with Cons show ?case by (cases ys) auto
qed

lemma split_on_parts: "t \<in> set (split_on c s) \<Longrightarrow> c \<notin> set t"
proof (induction s arbitrary: t)
  case Nil
  then show ?case by simp
next
  case (Cons x xs)
  then show ?case by (cases "split_on c xs") (auto split: if_splits)
qed

lemma split_on_set: "t \<in> set (split_on c s) \<Longrightarrow> set t \<subseteq> set s"
proof (induction s arbitrary: t)
  case Nil
  then show ?case by simp
next
  case (Cons x xs)
  show ?case
  proof
    fix d
    assume d: "d \<in> set t"
    with Cons show "d \<in> set (x # xs)"
      by (cases "split_on c xs"; cases "x = c"; cases "d = x") fastforce+
  qed
qed

section \<open>Decimal numbers\<close>

definition digit_char :: "nat \<Rightarrow> char" where
  "digit_char d = char_of (48 + d)"

fun show_nat :: "nat \<Rightarrow> string" where
  "show_nat n = (if n < 10 then [digit_char n] else show_nat (n div 10) @ [digit_char (n mod 10)])"

declare show_nat.simps [simp del]

definition show_int :: "int \<Rightarrow> string" where
  "show_int i = (if i < 0 then CHR ''-'' # show_nat (nat (- i)) else show_nat (nat i))"

definition is_digit :: "char \<Rightarrow> bool" where
  "is_digit c \<longleftrightarrow> 48 \<le> (of_char c :: nat) \<and> (of_char c :: nat) \<le> 57"

definition digit_val :: "char \<Rightarrow> nat" where
  "digit_val c = of_char c - 48"

fun read_digits :: "nat \<Rightarrow> string \<Rightarrow> nat" where
  "read_digits acc [] = acc"
| "read_digits acc (c # cs) = read_digits (10 * acc + digit_val c) cs"

lemma of_char_digit [simp]: "d < 10 \<Longrightarrow> of_char (digit_char d) = (48 + d :: nat)"
  by (simp add: digit_char_def)

lemma is_digit_char [simp]: "d < 10 \<Longrightarrow> is_digit (digit_char d)"
  by (simp add: is_digit_def)

lemma digit_val_char [simp]: "d < 10 \<Longrightarrow> digit_val (digit_char d) = d"
  by (simp add: digit_val_def)

lemma show_nat_not_Nil [simp]: "show_nat n \<noteq> []"
  by (subst show_nat.simps) simp

lemma show_nat_digits: "c \<in> set (show_nat n) \<Longrightarrow> is_digit c"
proof (induction n rule: show_nat.induct)
  case (1 n)
  then show ?case
    by (cases "n < 10") (auto simp: show_nat.simps [of n])
qed

lemma read_digits_append: "read_digits acc (xs @ ys) = read_digits (read_digits acc xs) ys"
  by (induction xs arbitrary: acc) auto

lemma read_show_nat: "read_digits 0 (show_nat n) = n"
proof (induction n rule: show_nat.induct)
  case (1 n)
  show ?case
  proof (cases "n < 10")
    case True
    then show ?thesis by (simp add: show_nat.simps [of n])
  next
    case False
    with 1 show ?thesis
      by (simp add: show_nat.simps [of n] read_digits_append)
  qed
qed

lemma show_nat_inject [simp]: "show_nat m = show_nat n \<longleftrightarrow> m = n"
  by (metis read_show_nat)

text \<open>\<^verbatim>\<open>strconv.Atoi\<close>: an optional sign and digits, within 64 bits.\<close>

definition atoi :: "string \<Rightarrow> int option" where
  "atoi s =
     (let neg = (s \<noteq> [] \<and> hd s = CHR ''-'');
          ds = (if s \<noteq> [] \<and> hd s \<in> {CHR ''-'', CHR ''+''} then tl s else s);
          v = (if neg then - int (read_digits 0 ds) else int (read_digits 0 ds))
      in if ds \<noteq> [] \<and> list_all is_digit ds \<and> - (2 ^ 63) \<le> v \<and> v < 2 ^ 63 then Some v else None)"

lemma atoi_show_nat: "int n < 2 ^ 63 \<Longrightarrow> atoi (show_nat n) = Some (int n)"
proof -
  assume n: "int n < 2 ^ 63"
  have "hd (show_nat n) \<in> set (show_nat n)" by simp
  then have "is_digit (hd (show_nat n))" by (rule show_nat_digits)
  then have "hd (show_nat n) \<notin> {CHR ''-'', CHR ''+''}" by (auto simp: is_digit_def)
  moreover have "list_all is_digit (show_nat n)" by (auto simp: list_all_iff show_nat_digits)
  ultimately show ?thesis using n by (simp add: atoi_def read_show_nat)
qed

section \<open>White space\<close>

definition is_space :: "char \<Rightarrow> bool" where
  "is_space c \<longleftrightarrow> c \<in> set [CHR '' '', CHR 0x09, CHR 0x0A, CHR 0x0B, CHR 0x0C, CHR 0x0D]"

text \<open>
  The white space of Unicode beyond ASCII, in UTF-8: U+0085, U+00A0, U+1680, U+2000 to U+200A,
  U+2028, U+2029, U+202F, U+205F and U+3000. No encoding is a part of another character.
\<close>

definition wide_space :: "string \<Rightarrow> bool" where
  "wide_space u \<longleftrightarrow> u \<in> set
     [[CHR 0xC2, CHR 0x85], [CHR 0xC2, CHR 0xA0], [CHR 0xE1, CHR 0x9A, CHR 0x80],
      [CHR 0xE2, CHR 0x80, CHR 0x80], [CHR 0xE2, CHR 0x80, CHR 0x81], [CHR 0xE2, CHR 0x80, CHR 0x82],
      [CHR 0xE2, CHR 0x80, CHR 0x83], [CHR 0xE2, CHR 0x80, CHR 0x84], [CHR 0xE2, CHR 0x80, CHR 0x85],
      [CHR 0xE2, CHR 0x80, CHR 0x86], [CHR 0xE2, CHR 0x80, CHR 0x87], [CHR 0xE2, CHR 0x80, CHR 0x88],
      [CHR 0xE2, CHR 0x80, CHR 0x89], [CHR 0xE2, CHR 0x80, CHR 0x8A], [CHR 0xE2, CHR 0x80, CHR 0xA8],
      [CHR 0xE2, CHR 0x80, CHR 0xA9], [CHR 0xE2, CHR 0x80, CHR 0xAF], [CHR 0xE2, CHR 0x81, CHR 0x9F],
      [CHR 0xE3, CHR 0x80, CHR 0x80]]"

text \<open>The bytes of the white space at the head of a text, and at the head of a reversed one.\<close>

definition space_width :: "(string \<Rightarrow> string) \<Rightarrow> string \<Rightarrow> nat" where
  "space_width f s =
     (if s \<noteq> [] \<and> is_space (hd s) then 1
      else if wide_space (f (take 2 s)) then 2
      else if wide_space (f (take 3 s)) then 3 else 0)"

function drop_spaces :: "(string \<Rightarrow> string) \<Rightarrow> string \<Rightarrow> string" where
  "drop_spaces f s =
     (let n = space_width f s in if n = 0 \<or> s = [] then s else drop_spaces f (drop n s))"
  by pat_completeness auto
termination by (relation "measure (\<lambda>(f, s). length s)") (auto simp: Let_def)

declare drop_spaces.simps [simp del]

text \<open>\<^verbatim>\<open>strings.TrimSpace\<close> and \<^verbatim>\<open>strings.Fields\<close>, on any bytes.\<close>

definition trim_space :: "string \<Rightarrow> string" where
  "trim_space s = rev (drop_spaces rev (rev (drop_spaces (\<lambda>u. u) s)))"

function fields_from :: "string \<Rightarrow> string \<Rightarrow> string list" where
  "fields_from cur s =
     (if s = [] then (if cur = [] then [] else [cur])
      else let n = space_width (\<lambda>u. u) s in
        if n = 0 then fields_from (cur @ [hd s]) (tl s)
        else (if cur = [] then [] else [cur]) @ fields_from [] (drop n s))"
  by pat_completeness auto
termination by (relation "measure (\<lambda>(cur, s). length s)") (auto simp: Let_def)

declare fields_from.simps [simp del]

definition go_fields :: "string \<Rightarrow> string list" where
  "go_fields s = fields_from [] s"

text \<open>A character that no white space begins or ends with.\<close>

definition plain_char :: "char \<Rightarrow> bool" where
  "plain_char c \<longleftrightarrow> \<not> is_space c \<and> c \<notin> set [CHR 0xC2, CHR 0xE1, CHR 0xE2, CHR 0xE3] \<and> c \<notin> set
     [CHR 0x80, CHR 0x81, CHR 0x82, CHR 0x83, CHR 0x84, CHR 0x85, CHR 0x86, CHR 0x87, CHR 0x88,
      CHR 0x89, CHR 0x8A, CHR 0x9F, CHR 0xA0, CHR 0xA8, CHR 0xA9, CHR 0xAF]"

lemma wide_space_ends: "wide_space u \<Longrightarrow> u \<noteq> [] \<and> \<not> plain_char (hd u) \<and> \<not> plain_char (last u)"
  by (auto simp: wide_space_def plain_char_def)

lemma plain_space_width:
  assumes "s \<noteq> []" "plain_char (hd s)"
  shows "space_width (\<lambda>u. u) s = 0" "space_width rev s = 0"
proof -
  have h: "hd (take n s) = hd s" "last (rev (take n s)) = hd s" if "n \<noteq> 0" for n
    using assms(1) that by (simp_all add: last_rev)
  have "\<not> wide_space (take n s)" "\<not> wide_space (rev (take n s))" if "n \<noteq> 0" for n
    using wide_space_ends [of "take n s"] wide_space_ends [of "rev (take n s)"] h [OF that] assms(2) by auto
  then show "space_width (\<lambda>u. u) s = 0" "space_width rev s = 0"
    using assms by (simp_all add: space_width_def plain_char_def)
qed

lemma drop_spaces_stop: "space_width f s = 0 \<Longrightarrow> drop_spaces f s = s"
  by (subst drop_spaces.simps) simp

lemma drop_spaces_step: "space_width f (c # s) = Suc n \<Longrightarrow> drop_spaces f (c # s) = drop_spaces f (drop n s)"
  by (subst drop_spaces.simps) simp

lemma drop_spaces_Nil [simp]: "drop_spaces f [] = []"
  by (subst drop_spaces.simps) simp

text \<open>For concrete texts.\<close>

lemmas trim_simps = trim_space_def drop_spaces_stop drop_spaces_step space_width_def wide_space_def is_space_def

lemma plain_drop_spaces:
  assumes "s = [] \<or> plain_char (hd s)"
  shows "drop_spaces (\<lambda>u. u) s = s" "drop_spaces rev s = s"
  using assms plain_space_width [of s] by (cases "s = []"; simp add: drop_spaces_stop)+

lemma trim_clean: "s = [] \<or> plain_char (hd s) \<and> plain_char (last s) \<Longrightarrow> trim_space s = s"
  by (cases "s = []") (simp_all add: trim_space_def plain_drop_spaces hd_rev)

text \<open>What trimming means: a text is white space, what is left of it, and white space.\<close>

definition space_char :: "string \<Rightarrow> bool" where
  "space_char u \<longleftrightarrow> wide_space u \<or> length u = 1 \<and> is_space (hd u)"

definition blank :: "string \<Rightarrow> bool" where
  "blank s \<longleftrightarrow> (\<exists>us. s = concat us \<and> list_all space_char us)"

lemma blank_Nil [simp]: "blank []"
  unfolding blank_def by (rule exI [of _ "[]"]) simp

lemma blank_append [intro]: "blank u \<Longrightarrow> blank v \<Longrightarrow> blank (u @ v)"
  unfolding blank_def by (metis concat_append list_all_append)

lemma blank_one: "space_char u \<Longrightarrow> blank u"
  unfolding blank_def by (rule exI [of _ "[u]"]) simp

lemma wide_width: "wide_space u \<Longrightarrow> length u \<in> {2, 3}"
  by (auto simp: wide_space_def)

lemma wide_heads:
  assumes "wide_space u"
  shows "\<not> is_space (hd u)" "\<not> is_space (last u)"
    "\<not> wide_space (take 2 u) \<or> length u = 2" "\<not> wide_space (drop (length u - 2) u) \<or> length u = 2"
proof -
  have "\<not> is_space (hd u) \<and> \<not> is_space (last u) \<and> (\<not> wide_space (take 2 u) \<or> length u = 2)
      \<and> (\<not> wide_space (drop (length u - 2) u) \<or> length u = 2)"
    using assms unfolding wide_space_def [of u] list.set insert_iff empty_iff
    by (elim disjE; simp add: is_space_def wide_space_def)
  then show "\<not> is_space (hd u)" "\<not> is_space (last u)"
    "\<not> wide_space (take 2 u) \<or> length u = 2" "\<not> wide_space (drop (length u - 2) u) \<or> length u = 2" by blast+
qed

lemma wide_not_Nil [simp]: "\<not> wide_space []"
  by (simp add: wide_space_def)

lemma width_at:
  assumes "space_char u"
  shows "space_width (\<lambda>v. v) (u @ m) = length u" "space_width rev (rev u @ m) = length u"
proof -
  have "space_width (\<lambda>v. v) (u @ m) = length u \<and> space_width rev (rev u @ m) = length u"
  proof (cases "wide_space u")
    case True
    have ne: "u \<noteq> []" using True by auto
    have r: "rev (take n (rev u @ m)) = drop (length u - n) u" if "n \<le> length u" for n
      using that by (simp add: take_rev)
    have h: "\<not> is_space (hd (u @ m))" "\<not> is_space (hd (rev u @ m))"
      using wide_heads(1,2) [OF True] ne by (simp_all add: hd_append hd_rev)
    consider "length u = 2" | "length u = 3" using wide_width [OF True] by auto
    then show ?thesis
    proof cases
      case 1
      then show ?thesis using True h r [of 2] by (simp add: space_width_def)
    next
      case 2
      then have "take 2 (u @ m) = take 2 u" by simp
      then show ?thesis using 2 True h r [of 2] r [of 3] wide_heads(3,4) [OF True]
        by (simp add: space_width_def)
    qed
  next
    case False
    then obtain c where "u = [c]" "is_space c"
      using assms by (auto simp: space_char_def length_Suc_conv)
    then show ?thesis by (simp add: space_width_def)
  qed
  then show "space_width (\<lambda>v. v) (u @ m) = length u" "space_width rev (rev u @ m) = length u" by simp_all
qed

lemma drop_space_char:
  assumes "space_char u"
  shows "drop_spaces (\<lambda>v. v) (u @ m) = drop_spaces (\<lambda>v. v) m"
    "drop_spaces rev (rev u @ m) = drop_spaces rev m"
proof -
  have "u \<noteq> []" using assms by (auto simp: space_char_def wide_space_def)
  then show "drop_spaces (\<lambda>v. v) (u @ m) = drop_spaces (\<lambda>v. v) m"
    "drop_spaces rev (rev u @ m) = drop_spaces rev m"
    using width_at [OF assms, of m] by (subst drop_spaces.simps; simp add: Let_def)+
qed

lemma drop_blank:
  assumes "blank a"
  shows "drop_spaces (\<lambda>v. v) (a @ m) = drop_spaces (\<lambda>v. v) m" "drop_spaces rev (rev a @ m) = drop_spaces rev m"
proof -
  obtain us where us: "a = concat us" "list_all space_char us" using assms by (auto simp: blank_def)
  have "drop_spaces (\<lambda>v. v) (concat us @ m) = drop_spaces (\<lambda>v. v) m"
    using us(2) by (induction us) (simp_all add: drop_space_char(1))
  moreover have "drop_spaces rev (rev (concat us) @ m) = drop_spaces rev m"
    using us(2) by (induction us rule: rev_induct) (simp_all add: drop_space_char(2))
  ultimately show "drop_spaces (\<lambda>v. v) (a @ m) = drop_spaces (\<lambda>v. v) m"
    "drop_spaces rev (rev a @ m) = drop_spaces rev m" by (simp_all add: us)
qed

lemma space_width_char:
  assumes "space_width f s \<noteq> 0" "f = rev \<or> f = (\<lambda>v. v)"
  shows "space_char (f (take (space_width f s) s))" "s \<noteq> []"
proof -
  have f: "f [] = []" "length (f u) = length u" for u using assms(2) by auto
  show ne: "s \<noteq> []" using assms(1) f by (auto simp: space_width_def)
  show "space_char (f (take (space_width f s) s))"
  proof (cases "is_space (hd s)")
    case True
    then obtain c t where "s = c # t" "is_space c" using ne by (cases s) auto
    then show ?thesis using assms(2) by (auto simp: space_width_def space_char_def)
  next
    case False
    then show ?thesis using assms(1) by (simp add: space_width_def space_char_def split: if_splits)
  qed
qed

lemma drop_spaces_split: "\<exists>a. blank a \<and> s = a @ drop_spaces (\<lambda>v. v) s"
proof (induction "\<lambda>v :: string. v" s rule: drop_spaces.induct)
  case (1 s)
  define n where "n = space_width (\<lambda>v. v) s"
  show ?case
  proof (cases "n = 0")
    case True
    then show ?thesis by (auto simp: drop_spaces_stop n_def)
  next
    case False
    note c = space_width_char [of "\<lambda>v. v" s, folded n_def, OF False]
    obtain a where a: "blank a" "drop n s = a @ drop_spaces (\<lambda>v. v) (drop n s)"
      using 1 [of n] False c by (auto simp: n_def)
    have "drop_spaces (\<lambda>v. v) s = drop_spaces (\<lambda>v. v) (drop n s)"
      using False c by (subst drop_spaces.simps) (simp add: Let_def n_def)
    then have "s = (take n s @ a) @ drop_spaces (\<lambda>v. v) s"
      using a(2) by (metis append.assoc append_take_drop_id)
    moreover have "blank (take n s @ a)" using c a blank_one by auto
    ultimately show ?thesis by blast
  qed
qed

lemma drop_spaces_rev_split: "\<exists>a. blank a \<and> s = rev a @ drop_spaces rev s"
proof (induction "rev :: string \<Rightarrow> string" s rule: drop_spaces.induct)
  case (1 s)
  define n where "n = space_width rev s"
  show ?case
  proof (cases "n = 0")
    case True
    then show ?thesis by (intro exI [of _ "[]"]) (simp add: drop_spaces_stop n_def)
  next
    case False
    note c = space_width_char [of rev s, folded n_def, OF False]
    obtain a where a: "blank a" "drop n s = rev a @ drop_spaces rev (drop n s)"
      using 1 [of n] False c by (auto simp: n_def)
    have "drop_spaces rev s = drop_spaces rev (drop n s)"
      using False c by (subst drop_spaces.simps) (simp add: Let_def n_def)
    then have "s = rev (a @ rev (take n s)) @ drop_spaces rev s"
      using a(2) by (metis append.assoc append_take_drop_id rev_append rev_rev_ident)
    moreover have "blank (a @ rev (take n s))" using c a blank_one by auto
    ultimately show ?thesis by blast
  qed
qed

lemma trim_split: "\<exists>a c. blank a \<and> blank c \<and> s = a @ trim_space s @ c"
proof -
  obtain a where a: "blank a" "s = a @ drop_spaces (\<lambda>v. v) s" using drop_spaces_split by blast
  obtain c where c: "blank c" "rev (drop_spaces (\<lambda>v. v) s) = rev c @ rev (trim_space s)"
    using drop_spaces_rev_split [of "rev (drop_spaces (\<lambda>v. v) s)"] by (auto simp: trim_space_def)
  have "drop_spaces (\<lambda>v. v) s = trim_space s @ c" using arg_cong [OF c(2), of rev] by simp
  then show ?thesis using a c(1) by auto
qed

lemma trim_blank: "blank a \<Longrightarrow> trim_space a = []"
  using drop_blank(1) [of a "[]"] by (simp add: trim_space_def)

lemma trim_around:
  assumes "blank a" "blank c" "m \<noteq> []" "space_width (\<lambda>v. v) (m @ c) = 0" "space_width rev (rev m) = 0"
  shows "trim_space (a @ m @ c) = m"
  using assms drop_blank(1) [of a "m @ c"] drop_blank(2) [of c "rev m"]
  by (simp add: trim_space_def drop_spaces_stop)

text \<open>\<^verbatim>\<open>strconv.ParseInt(s, 10, 64)\<close>: out of range it also returns the nearest value.\<close>

definition parse_int64 :: "string \<Rightarrow> int \<times> bool" where
  "parse_int64 s =
     (let neg = (s \<noteq> [] \<and> hd s = CHR ''-'');
          ds = (if s \<noteq> [] \<and> hd s \<in> {CHR ''-'', CHR ''+''} then tl s else s);
          v = (if neg then - int (read_digits 0 ds) else int (read_digits 0 ds))
      in if ds = [] \<or> \<not> list_all is_digit ds then (0, False)
         else if v < - (2 ^ 63) then (- (2 ^ 63), False)
         else if v \<ge> 2 ^ 63 then (2 ^ 63 - 1, False)
         else (v, True))"

section \<open>Times\<close>

definition second :: int where "second = 1000000000"
definition minute :: int where "minute = 60 * second"
definition hour :: int where "hour = 60 * minute"

section \<open>Errors\<close>

datatype err =
    EInvalidName | EExists | ENotFound | ELimitReached | ENoFreePort | EUnknownProfile
  | EBaselineNotFound | EHookFailed | EEngineFailed | EPrecondition | EInProgress
  | ERefreshRunning
  | EText string
  | EWrap string err string
  | EStage string err

fun err_text :: "err \<Rightarrow> string" where
  "err_text EInvalidName = ''invalid branch name''"
| "err_text EExists = ''branch already exists''"
| "err_text ENotFound = ''branch not found''"
| "err_text ELimitReached = ''branch limit reached''"
| "err_text ENoFreePort = ''no free port in range''"
| "err_text EUnknownProfile = ''unknown profile''"
| "err_text EBaselineNotFound = ''baseline not found''"
| "err_text EHookFailed = ''hook failed''"
| "err_text EEngineFailed = ''engine failed''"
| "err_text EPrecondition = ''precondition failed''"
| "err_text EInProgress = ''operation already in progress for this target''"
| "err_text ERefreshRunning = ''baseline refresh is already running''"
| "err_text (EText s) = s"
| "err_text (EWrap pre e post) = pre @ err_text e @ post"
| "err_text (EStage stage e) = err_text e"

text \<open>
  \<^verbatim>\<open>errors.Is(err, target)\<close> for a sentinel target: walk the chain; a stage error also
  answers for the two class sentinels (\<^verbatim>\<open>stageErr.Is\<close>).
\<close>

fun err_is :: "err \<Rightarrow> err \<Rightarrow> bool" where
  "err_is (EWrap pre e post) t = (EWrap pre e post = t \<or> err_is e t)"
| "err_is (EStage stage e) t =
     (EStage stage e = t
      \<or> (t = EHookFailed \<and> stage = ''hook'')
      \<or> (t = EEngineFailed \<and> has_prefix stage ''engine-'')
      \<or> err_is e t)"
| "err_is e t = (e = t)"

lemma err_is_refl [simp]: "err_is e e"
  by (cases e) simp_all

section \<open>Tables as lists of rows\<close>

text \<open>
  The tables of the database are lists of rows with a key column. An update of the rows with
  one key that leaves the key column alone keeps the keys, hence their distinctness, and is
  seen by a lookup of that key only.
\<close>

lemma map_key_update:
  "(\<And>r. k (f r) = k r) \<Longrightarrow> map k (map (\<lambda>r. if P r then f r else r) xs) = map k xs"
  by (induction xs) auto

lemma find_update:
  "(\<And>r. k (f r) = k r) \<Longrightarrow>
   find (\<lambda>r. k r = a) (map (\<lambda>r. if k r = b then f r else r) xs) =
   map_option (\<lambda>r. if a = b then f r else r) (find (\<lambda>r. k r = a) xs)"
  by (induction xs) auto

lemma find_append: "find P (xs @ ys) = (case find P xs of None \<Rightarrow> find P ys | Some r \<Rightarrow> Some r)"
  by (induction xs) auto

lemma find_filter_key:
  "find (\<lambda>r. k r = a) (filter (\<lambda>r. k r \<noteq> b) xs) = (if a = b then None else find (\<lambda>r. k r = a) xs)"
  by (induction xs) auto

lemma find_None_key: "find (\<lambda>r. k r = a) xs = None \<longleftrightarrow> a \<notin> k ` set xs"
  by (auto simp: find_None_iff)

lemma find_key_mem: "find P xs = Some r \<Longrightarrow> r \<in> set xs \<and> P r"
  by (auto simp: find_Some_iff)

lemma find_distinct_key:
  "distinct (map k xs) \<Longrightarrow> r \<in> set xs \<Longrightarrow> find (\<lambda>x. k x = k r) xs = Some r"
  by (induction xs) (auto simp: rev_image_eqI)

lemma find_distinct_set:
  assumes "distinct (map k xs)" and "set ys = set xs"
  shows "find (\<lambda>x. k x = a) ys = find (\<lambda>x. k x = a) xs"
proof (cases "find (\<lambda>x. k x = a) ys")
  case None
  with assms(2) have "find (\<lambda>x. k x = a) xs = None" by (simp add: find_None_key)
  with None show ?thesis by simp
next
  case (Some x)
  then have "x \<in> set xs" "k x = a" using assms(2) find_key_mem [of _ ys x] by auto
  with assms(1) Some show ?thesis using find_distinct_key [of k xs x] by auto
qed

lemma find_map_of: "find P (map f xs) = map_option f (find (\<lambda>x. P (f x)) xs)"
  by (induction xs) auto

lemma length_filter_update:
  "(\<And>r. P (f r) = P r) \<Longrightarrow>
   length (filter P (map (\<lambda>r. if Q r then f r else r) xs)) = length (filter P xs)"
  by (induction xs) auto

lemma length_filter_filter: "length (filter P (filter Q xs)) \<le> length (filter P xs)"
  by (induction xs) auto

lemma foldr_max_ge: "x \<in> set xs \<Longrightarrow> x \<le> foldr max xs (0::nat)"
  by (induction xs) (auto simp: le_max_iff_disj)

end
