(* ===== verification/Effect.thy ===== *)
theory Effect
  imports Prelude
begin

text \<open>
  Methods with effects. A Go method that reads and changes a state \<open>'s\<close> and returns
  \<^verbatim>\<open>(value, error)\<close> is a function from the state to an \<^typ>\<open>err\<close> or a value, and the new
  state. The combinators are the forms in which the source treats a returned error: return it
  (\<open>check\<close>), handle it (\<open>handle_err\<close>), drop it (\<open>ignoring\<close>), or look at both outcomes
  (\<open>attempt\<close>). The rest of the theory is the reasoning kit: a locale for the relations
  between the state before and after that every method keeps, and triples with one
  postcondition for the value and one for the error.
\<close>

type_synonym ('s, 'a) act = "'s \<Rightarrow> (err + 'a) \<times> 's"

definition ret :: "'a \<Rightarrow> ('s, 'a) act" where
  "ret a s = (Inr a, s)"

definition throw :: "err \<Rightarrow> ('s, 'a) act" where
  "throw e s = (Inl e, s)"

definition attempt :: "('s, 'a) act \<Rightarrow> (err + 'a \<Rightarrow> ('s, 'b) act) \<Rightarrow> ('s, 'b) act" where
  "attempt m k s = (case m s of (r, s') \<Rightarrow> k r s')"

definition check :: "('s, 'a) act \<Rightarrow> ('a \<Rightarrow> ('s, 'b) act) \<Rightarrow> ('s, 'b) act" where
  "check m k s = (case m s of (Inl e, s') \<Rightarrow> (Inl e, s') | (Inr a, s') \<Rightarrow> k a s')"

definition handle_err ::
  "('s, 'a) act \<Rightarrow> (err \<Rightarrow> ('s, 'b) act) \<Rightarrow> ('a \<Rightarrow> ('s, 'b) act) \<Rightarrow> ('s, 'b) act" where
  "handle_err m h k s = (case m s of (Inl e, s') \<Rightarrow> h e s' | (Inr a, s') \<Rightarrow> k a s')"

definition ignoring :: "('s, 'a) act \<Rightarrow> ('s, 'b) act \<Rightarrow> ('s, 'b) act" where
  "ignoring m k s = (case m s of (_, s') \<Rightarrow> k s')"

text \<open>\<^verbatim>\<open>return fmt.Errorf("\<dots>%w\<dots>", err)\<close> when a call fails.\<close>

definition wrapping :: "(err \<Rightarrow> err) \<Rightarrow> ('s, 'a) act \<Rightarrow> ('s, 'a) act" where
  "wrapping f m s = (case m s of (Inl e, s') \<Rightarrow> (Inl (f e), s') | (Inr a, s') \<Rightarrow> (Inr a, s'))"

definition reading :: "('s \<Rightarrow> 'a) \<Rightarrow> ('a \<Rightarrow> ('s, 'b) act) \<Rightarrow> ('s, 'b) act" where
  "reading f k s = k (f s) s"

definition modifying :: "('s \<Rightarrow> 's) \<Rightarrow> ('s, unit) act" where
  "modifying f s = (Inr (), f s)"

text \<open>A \<^verbatim>\<open>for range\<close> loop that carries an accumulator and returns at the first error.\<close>

primrec fold_act :: "('a \<Rightarrow> 'b \<Rightarrow> ('s, 'b) act) \<Rightarrow> 'a list \<Rightarrow> 'b \<Rightarrow> ('s, 'b) act" where
  "fold_act f [] b = ret b"
| "fold_act f (x # xs) b = check (f x b) (fold_act f xs)"

text \<open>All of them are an \<open>attempt\<close>.\<close>

lemma check_as_attempt: "check m k = attempt m (case_sum throw k)"
  by (auto simp: check_def attempt_def throw_def fun_eq_iff split: sum.splits prod.splits)

lemma handle_as_attempt: "handle_err m h k = attempt m (case_sum h k)"
  by (auto simp: handle_err_def attempt_def fun_eq_iff split: sum.splits prod.splits)

lemma ignoring_as_attempt: "ignoring m k = attempt m (\<lambda>_. k)"
  by (auto simp: ignoring_def attempt_def fun_eq_iff)

lemma wrapping_as_attempt: "wrapping f m = attempt m (case_sum (\<lambda>e. throw (f e)) ret)"
  by (auto simp: wrapping_def attempt_def throw_def ret_def fun_eq_iff split: sum.splits prod.splits)

section \<open>Relations kept by a method\<close>

definition keeps :: "('s \<Rightarrow> 's \<Rightarrow> bool) \<Rightarrow> ('s, 'a) act \<Rightarrow> bool" where
  "keeps R m \<longleftrightarrow> (\<forall>s. R s (snd (m s)))"

locale effect_relation =
  fixes R :: "'s \<Rightarrow> 's \<Rightarrow> bool"
  assumes refl_R: "R s s"
    and trans_R: "R s t \<Longrightarrow> R t u \<Longrightarrow> R s u"
begin

lemma keepsI: "(\<And>s. R s (snd (m s))) \<Longrightarrow> keeps R m"
  by (simp add: keeps_def)

lemma keepsD: "keeps R m \<Longrightarrow> R s (snd (m s))"
  by (simp add: keeps_def)

lemma keepsE: "keeps R m \<Longrightarrow> m s = (r, s') \<Longrightarrow> R s s'"
  by (metis keepsD snd_conv)

lemma keeps_ret: "keeps R (ret a)"
  by (simp add: keeps_def ret_def refl_R)

lemma keeps_throw: "keeps R (throw e)"
  by (simp add: keeps_def throw_def refl_R)

lemma keeps_attempt: "keeps R m \<Longrightarrow> (\<And>r. keeps R (k r)) \<Longrightarrow> keeps R (attempt m k)"
  unfolding keeps_def attempt_def
  by (metis (mono_tags, lifting) case_prod_beta trans_R)

lemma keeps_check: "keeps R m \<Longrightarrow> (\<And>a. keeps R (k a)) \<Longrightarrow> keeps R (check m k)"
  unfolding check_as_attempt by (rule keeps_attempt) (simp_all add: keeps_throw split: sum.split)

lemma keeps_handle:
  "keeps R m \<Longrightarrow> (\<And>e. keeps R (h e)) \<Longrightarrow> (\<And>a. keeps R (k a)) \<Longrightarrow> keeps R (handle_err m h k)"
  unfolding handle_as_attempt by (rule keeps_attempt) (simp_all split: sum.split)

lemma keeps_ignoring: "keeps R m \<Longrightarrow> keeps R k \<Longrightarrow> keeps R (ignoring m k)"
  unfolding ignoring_as_attempt by (rule keeps_attempt)

lemma keeps_wrapping: "keeps R m \<Longrightarrow> keeps R (wrapping f m)"
  unfolding wrapping_as_attempt
  by (rule keeps_attempt) (simp_all add: keeps_throw keeps_ret split: sum.split)

lemma keeps_reading: "(\<And>a. keeps R (k a)) \<Longrightarrow> keeps R (reading f k)"
  by (simp add: keeps_def reading_def)

lemma keeps_if: "(c \<Longrightarrow> keeps R m) \<Longrightarrow> (\<not> c \<Longrightarrow> keeps R m') \<Longrightarrow> keeps R (if c then m else m')"
  by simp

lemma keeps_option:
  "keeps R m \<Longrightarrow> (\<And>x. keeps R (k x)) \<Longrightarrow> keeps R (case v of None \<Rightarrow> m | Some x \<Rightarrow> k x)"
  by (cases v) simp_all

lemma keeps_sum:
  "(\<And>e. keeps R (h e)) \<Longrightarrow> (\<And>x. keeps R (k x)) \<Longrightarrow> keeps R (case v of Inl e \<Rightarrow> h e | Inr x \<Rightarrow> k x)"
  by (cases v) simp_all

lemma keeps_let: "(\<And>x. keeps R (k x)) \<Longrightarrow> keeps R (Let v k)"
  by simp

lemma keeps_prod: "(\<And>x y. keeps R (k x y)) \<Longrightarrow> keeps R (case v of (x, y) \<Rightarrow> k x y)"
  by (cases v) simp

lemma keeps_fold: "(\<And>x b. keeps R (f x b)) \<Longrightarrow> keeps R (fold_act f xs b)"
  by (induction xs arbitrary: b) (simp_all add: keeps_ret keeps_check)

lemmas keeps_intros = keeps_ret keeps_throw keeps_attempt keeps_check keeps_handle
  keeps_ignoring keeps_wrapping keeps_reading keeps_if keeps_option keeps_sum keeps_let
  keeps_prod keeps_fold

end

section \<open>Triples\<close>

text \<open>From a state with \<open>P\<close>, a value comes with \<open>Q\<close> and an error with \<open>E\<close>.\<close>

definition triple ::
  "('s \<Rightarrow> bool) \<Rightarrow> ('s, 'a) act \<Rightarrow> ('a \<Rightarrow> 's \<Rightarrow> bool) \<Rightarrow> (err \<Rightarrow> 's \<Rightarrow> bool) \<Rightarrow> bool" where
  "triple P m Q E \<longleftrightarrow> (\<forall>s. P s \<longrightarrow> (case m s of (Inr a, s') \<Rightarrow> Q a s' | (Inl e, s') \<Rightarrow> E e s'))"

lemma triple_ret: "(\<And>s. P s \<Longrightarrow> Q a s) \<Longrightarrow> triple P (ret a) Q E"
  by (simp add: triple_def ret_def)

lemma triple_throw: "(\<And>s. P s \<Longrightarrow> E e s) \<Longrightarrow> triple P (throw e) Q E"
  by (simp add: triple_def throw_def)

lemma triple_attempt:
  assumes "triple P m (\<lambda>a. M (Inr a)) (\<lambda>e. M (Inl e))" and "\<And>r. triple (M r) (k r) Q E"
  shows "triple P (attempt m k) Q E"
  unfolding triple_def
proof (intro allI impI)
  fix s assume "P s"
  obtain r s' where m: "m s = (r, s')" by (cases "m s")
  with assms(1) \<open>P s\<close> have "M r s'" by (cases r) (auto simp: triple_def dest: spec [of _ s])
  with assms(2) [of r] m
  show "case attempt m k s of (Inl e, s') \<Rightarrow> E e s' | (Inr a, s') \<Rightarrow> Q a s'"
    by (simp add: triple_def attempt_def)
qed

lemma triple_check:
  "triple P m M E \<Longrightarrow> (\<And>a. triple (M a) (k a) Q E) \<Longrightarrow> triple P (check m k) Q E"
  unfolding check_as_attempt
  by (rule triple_attempt [where M = "case_sum E M"]) (auto intro: triple_throw split: sum.split)

lemma triple_handle:
  "triple P m M F \<Longrightarrow> (\<And>e. triple (F e) (h e) Q E) \<Longrightarrow> (\<And>a. triple (M a) (k a) Q E) \<Longrightarrow>
   triple P (handle_err m h k) Q E"
  unfolding handle_as_attempt
  by (rule triple_attempt [where M = "case_sum F M"]) (auto split: sum.split)

lemma triple_ignoring:
  "triple P m (\<lambda>_. M) (\<lambda>_. M) \<Longrightarrow> triple M k Q E \<Longrightarrow> triple P (ignoring m k) Q E"
  unfolding ignoring_as_attempt by (rule triple_attempt [where M = "\<lambda>_. M"])

lemma triple_wrapping: "triple P m Q (\<lambda>e. E (f e)) \<Longrightarrow> triple P (wrapping f m) Q E"
  unfolding wrapping_as_attempt
  by (rule triple_attempt [where M = "case_sum (\<lambda>e. E (f e)) Q"])
    (auto intro: triple_throw triple_ret split: sum.split)

lemma triple_reading: "(\<And>a. triple (\<lambda>s. P s \<and> f s = a) (k a) Q E) \<Longrightarrow> triple P (reading f k) Q E"
  by (simp add: triple_def reading_def)

lemma triple_weaken:
  "triple P' m Q' E' \<Longrightarrow> (\<And>s. P s \<Longrightarrow> P' s) \<Longrightarrow> (\<And>a s. Q' a s \<Longrightarrow> Q a s) \<Longrightarrow>
   (\<And>e s. E' e s \<Longrightarrow> E e s) \<Longrightarrow> triple P m Q E"
  by (fastforce simp: triple_def split: sum.splits prod.splits)

lemma triple_keeps:
  assumes "keeps (\<lambda>s s'. P s \<longrightarrow> P s') m"
  shows "triple P m (\<lambda>_. P) (\<lambda>_. P)"
  unfolding triple_def
proof (intro allI impI)
  fix s assume "P s"
  with assms have "P (snd (m s))" by (simp add: keeps_def)
  then show "case m s of (Inl e, s') \<Rightarrow> P s' | (Inr a, s') \<Rightarrow> P s'"
    by (auto split: sum.split prod.split)
qed

lemma triple_fold:
  "(\<And>x b. triple (I b) (f x b) I (\<lambda>_ s. E s)) \<Longrightarrow> triple (I b) (fold_act f xs b) I (\<lambda>_ s. E s)"
  by (induction xs arbitrary: b) (auto intro: triple_ret triple_check)

lemma triple_if:
  "(c \<Longrightarrow> triple P m Q E) \<Longrightarrow> (\<not> c \<Longrightarrow> triple P m' Q E) \<Longrightarrow> triple P (if c then m else m') Q E"
  by simp

lemma triple_option:
  "(v = None \<Longrightarrow> triple P m Q E) \<Longrightarrow> (\<And>x. v = Some x \<Longrightarrow> triple P (k x) Q E) \<Longrightarrow>
   triple P (case v of None \<Rightarrow> m | Some x \<Rightarrow> k x) Q E"
  by (cases v) simp_all

lemma triple_sum:
  "(\<And>e. v = Inl e \<Longrightarrow> triple P (h e) Q E) \<Longrightarrow> (\<And>x. v = Inr x \<Longrightarrow> triple P (k x) Q E) \<Longrightarrow>
   triple P (case v of Inl e \<Rightarrow> h e | Inr x \<Rightarrow> k x) Q E"
  by (cases v) simp_all

lemma triple_prod:
  "(\<And>x y. v = (x, y) \<Longrightarrow> triple P (k x y) Q E) \<Longrightarrow> triple P (case v of (x, y) \<Rightarrow> k x y) Q E"
  by (cases v) simp

lemma triple_false: "triple P m Q (\<lambda>_ _. False) \<Longrightarrow> triple P m Q E"
  by (erule triple_weaken; simp)

text \<open>A fact that does not depend on the state is carried along.\<close>

lemma triple_conj:
  assumes "triple P m Q E" and "\<And>a s. Q a s \<Longrightarrow> c \<Longrightarrow> Q' a s" and "\<And>e s. E e s \<Longrightarrow> c \<Longrightarrow> E' e s"
  shows "triple (\<lambda>s. P s \<and> c) m Q' E'"
  unfolding triple_def
proof (intro allI impI)
  fix s assume "P s \<and> c"
  with assms show "case m s of (Inl e, s') \<Rightarrow> E' e s' | (Inr a, s') \<Rightarrow> Q' a s'"
    by (cases "m s"; cases "fst (m s)") (auto simp: triple_def dest: spec [of _ s])
qed

lemma triple_pure: "(c \<Longrightarrow> triple P m Q E) \<Longrightarrow> triple (\<lambda>s. P s \<and> c) m Q E"
  by (cases c) (simp_all add: triple_def)

lemma triple_both:
  assumes "triple P m Q E" and "triple P' m Q' E'"
  shows "triple (\<lambda>s. P s \<and> P' s) m (\<lambda>a s. Q a s \<and> Q' a s) (\<lambda>e s. E e s \<and> E' e s)"
  unfolding triple_def
proof (intro allI impI)
  fix s assume "P s \<and> P' s"
  with assms show "case m s of (Inl e, s') \<Rightarrow> E e s' \<and> E' e s' | (Inr a, s') \<Rightarrow> Q a s' \<and> Q' a s'"
    by (cases "m s"; cases "fst (m s)") (auto simp: triple_def dest!: spec [of _ s])
qed

lemma triple_no_pre: "triple (\<lambda>_. False) m Q E"
  by (simp add: triple_def)

lemma tripleD:
  "triple P m Q E \<Longrightarrow> P s \<Longrightarrow> m s = (r, s') \<Longrightarrow> (case r of Inr a \<Rightarrow> Q a s' | Inl e \<Rightarrow> E e s')"
  by (cases r) (auto simp: triple_def dest: spec [of _ s])

end
