(* ===== verification/StateDb.thy ===== *)
theory StateDb
  imports Prelude
begin

text \<open>
  internal/state/state.go: the SQLite database \<^verbatim>\<open>state.db\<close>. A table is the list of its
  rows in rowid order; a column that may be NULL is an \<^typ>\<open>'a option\<close>; a TEXT column
  holding an RFC 3339 time is its Unix second (formatting drops the fraction of a second, and
  the textual order of such UTC strings is the order of the seconds). An SQL statement is a
  function from the database to a result and the new database; the errors it returns here are
  the ones SQL semantics gives (a violated PRIMARY KEY or UNIQUE constraint, no such row). The
  failures of the driver itself (disk full, locked file) are added by the callers' monad.
  The JSON texts of the columns \<^verbatim>\<open>suggested_actions\<close> and \<^verbatim>\<open>error_json\<close> are
  kept decoded.
\<close>

section \<open>Tables\<close>

datatype bstate = Creating | Running | Sleeping | Resetting | Deleting | Error_state

record branch_row =
  r_name :: string
  r_state :: bstate
  r_port :: int
  r_origin :: string
  r_created :: int
  r_last_conn :: "int option"
  r_err_msg :: "string option"
  r_failed_op :: "string option"
  r_err_code :: "string option"
  r_recoverable :: "int option"
  r_suggested :: "string list option"
  r_profile :: "string option"
  r_owner :: "string option"
  r_purpose :: "string option"
  r_source :: "string option"
  r_expires :: "int option"
  r_engine_state :: "string option"
  r_init_snap :: "string option"
  r_volume_ref :: "string option"
  r_error_at :: "int option"

record hook_row =
  h_id :: nat
  h_branch :: string
  h_event :: string
  h_started :: int
  h_finished :: "int option"
  h_exit :: "int option"

record token_row =
  t_name :: string
  t_hash :: string
  t_created :: int
  t_last_used :: "int option"
  t_scope :: "string option"

record provenance =
  p_source_rev :: string
  p_schema_rev :: string
  p_data_as_of :: string
  p_masked :: bool
  p_mask_version :: string
  p_validated :: bool

record baseline_row =
  bl_snapshot :: string
  bl_created :: int
  bl_current :: int
  bl_source_rev :: "string option"
  bl_schema_rev :: "string option"
  bl_data_as_of :: "string option"
  bl_masked :: "int option"
  bl_mask_version :: "string option"
  bl_validated :: "int option"

datatype op_state = OpRunning | OpCompleted | OpFailed

text \<open>The column \<^verbatim>\<open>error_json\<close>: the object \<^verbatim>\<open>{"code","message"}\<close>, or a raw text of
  an old row (the empty text stands for NULL through \<^verbatim>\<open>COALESCE\<close>).\<close>

datatype error_json = ErrJson string string | RawText string

record op_row =
  o_id :: string
  o_type :: string
  o_target :: string
  o_state :: op_state
  o_started :: int
  o_finished :: "int option"
  o_error :: "error_json option"

record db =
  branches :: "branch_row list"
  hook_runs :: "hook_row list"
  tokens :: "token_row list"
  baselines :: "baseline_row list"
  operations :: "op_row list"

type_synonym 'a sql = "db \<Rightarrow> (err + 'a) \<times> db"

text \<open>The empty database that \<^verbatim>\<open>Open\<close> creates from the schema.\<close>

definition open_db :: db where
  "open_db = \<lparr>branches = [], hook_runs = [], tokens = [], baselines = [], operations = []\<rparr>"

definition db_time :: "int \<Rightarrow> int" where
  "db_time t = t div second"

definition go_time :: "int \<Rightarrow> int" where
  "go_time s = s * second"

definition null_if_empty :: "string \<Rightarrow> string option" where
  "null_if_empty s = (if s = [] then None else Some s)"

definition str_or_empty :: "string option \<Rightarrow> string" where
  "str_or_empty v = (case v of None \<Rightarrow> [] | Some s \<Rightarrow> s)"

definition bool_to_int :: "bool \<Rightarrow> int" where
  "bool_to_int b = (if b then 1 else 0)"

section \<open>Branches\<close>

text \<open>The Go struct \<^verbatim>\<open>Branch\<close>, with NULL columns read as zero values.\<close>

record branch =
  b_name :: string
  b_state :: bstate
  b_port :: int
  b_origin :: string
  b_created :: int
  b_last_conn :: "int option"
  b_err_msg :: string
  b_failed_op :: string
  b_err_code :: string
  b_recoverable :: bool
  b_suggested :: "string list"
  b_profile :: string
  b_owner :: string
  b_purpose :: string
  b_source :: string
  b_expires :: "int option"
  b_engine_state :: string
  b_init_snap :: string
  b_volume_ref :: string
  b_error_at :: "int option"

definition scan_branch :: "branch_row \<Rightarrow> branch" where
  "scan_branch r = \<lparr>
     b_name = r_name r, b_state = r_state r, b_port = r_port r, b_origin = r_origin r,
     b_created = go_time (r_created r), b_last_conn = map_option go_time (r_last_conn r),
     b_err_msg = str_or_empty (r_err_msg r), b_failed_op = str_or_empty (r_failed_op r),
     b_err_code = str_or_empty (r_err_code r),
     b_recoverable = (case r_recoverable r of None \<Rightarrow> False | Some n \<Rightarrow> n \<noteq> 0),
     b_suggested = (case r_suggested r of None \<Rightarrow> [] | Some l \<Rightarrow> l),
     b_profile = str_or_empty (r_profile r), b_owner = str_or_empty (r_owner r),
     b_purpose = str_or_empty (r_purpose r), b_source = str_or_empty (r_source r),
     b_expires = map_option go_time (r_expires r),
     b_engine_state = str_or_empty (r_engine_state r),
     b_init_snap = str_or_empty (r_init_snap r), b_volume_ref = str_or_empty (r_volume_ref r),
     b_error_at = map_option go_time (r_error_at r)\<rparr>"

definition create_branch :: "int \<Rightarrow> string \<Rightarrow> int \<Rightarrow> string \<Rightarrow> unit sql" where
  "create_branch now name port orig d =
     (if name \<in> r_name ` set (branches d) \<or> port \<in> r_port ` set (branches d)
      then (Inl (EText ''constraint failed: UNIQUE''), d)
      else (Inr (), d\<lparr>branches := branches d @ [\<lparr>
        r_name = name, r_state = Creating, r_port = port, r_origin = orig,
        r_created = db_time now, r_last_conn = None, r_err_msg = None, r_failed_op = None,
        r_err_code = None, r_recoverable = None, r_suggested = None, r_profile = None,
        r_owner = None, r_purpose = None, r_source = None, r_expires = None,
        r_engine_state = None, r_init_snap = None, r_volume_ref = None, r_error_at = None\<rparr>]\<rparr>))"

text \<open>\<^verbatim>\<open>UPDATE branches SET \<dots> WHERE name = ?\<close>.\<close>

definition update_branch :: "string \<Rightarrow> (branch_row \<Rightarrow> branch_row) \<Rightarrow> db \<Rightarrow> db" where
  "update_branch name f d =
     d\<lparr>branches := map (\<lambda>r. if r_name r = name then f r else r) (branches d)\<rparr>"

definition has_branch :: "string \<Rightarrow> db \<Rightarrow> bool" where
  "has_branch name d \<longleftrightarrow> name \<in> r_name ` set (branches d)"

definition update_or_missing :: "string \<Rightarrow> (branch_row \<Rightarrow> branch_row) \<Rightarrow> unit sql" where
  "update_or_missing name f d =
     ((if has_branch name d then Inr () else Inl ENotFound), update_branch name f d)"

definition set_provision :: "string \<Rightarrow> string \<Rightarrow> string \<Rightarrow> unit sql" where
  "set_provision name vref snap =
     update_or_missing name (\<lambda>r. r\<lparr>r_volume_ref := Some vref, r_init_snap := Some snap\<rparr>)"

definition set_state :: "int \<Rightarrow> string \<Rightarrow> bstate \<Rightarrow> string \<Rightarrow> unit sql" where
  "set_state now name st msg =
     update_or_missing name (\<lambda>r. r\<lparr>
       r_state := st, r_err_msg := Some msg,
       r_engine_state := (case st of Running \<Rightarrow> Some ''running''
                                   | Sleeping \<Rightarrow> Some ''stopped''
                                   | _ \<Rightarrow> r_engine_state r),
       r_failed_op := None, r_err_code := None, r_recoverable := None, r_suggested := None,
       r_error_at := (if st = Error_state
                      then (case r_error_at r of None \<Rightarrow> Some (db_time now) | Some t \<Rightarrow> Some t)
                      else None)\<rparr>)"

definition set_error ::
  "int \<Rightarrow> string \<Rightarrow> string \<Rightarrow> string \<Rightarrow> bool \<Rightarrow> string \<Rightarrow> string list \<Rightarrow> unit sql" where
  "set_error now name failed_op code recov msg sugg =
     update_or_missing name (\<lambda>r. r\<lparr>
       r_state := Error_state, r_err_msg := Some msg, r_failed_op := Some failed_op,
       r_err_code := Some code, r_recoverable := Some (bool_to_int recov),
       r_suggested := Some sugg,
       r_error_at := (case r_error_at r of None \<Rightarrow> Some (db_time now) | Some t \<Rightarrow> Some t)\<rparr>)"

definition mark_error_at_if_missing :: "int \<Rightarrow> string \<Rightarrow> unit sql" where
  "mark_error_at_if_missing now name d =
     (Inr (), update_branch name (\<lambda>r.
        if r_state r = Error_state \<and> r_error_at r = None
        then r\<lparr>r_error_at := Some (db_time now)\<rparr> else r) d)"

definition touch_last_conn :: "int \<Rightarrow> string \<Rightarrow> unit sql" where
  "touch_last_conn now name d =
     (Inr (), update_branch name (\<lambda>r. r\<lparr>r_last_conn := Some (db_time now)\<rparr>) d)"

record meta =
  m_profile :: string
  m_owner :: string
  m_purpose :: string
  m_source :: string

definition set_meta :: "string \<Rightarrow> meta \<Rightarrow> unit sql" where
  "set_meta name m d =
     (Inr (), update_branch name (\<lambda>r. r\<lparr>
        r_profile := null_if_empty (m_profile m), r_owner := null_if_empty (m_owner m),
        r_purpose := null_if_empty (m_purpose m), r_source := null_if_empty (m_source m)\<rparr>) d)"

definition set_expires_at :: "string \<Rightarrow> int \<Rightarrow> unit sql" where
  "set_expires_at name t d =
     (Inr (), update_branch name (\<lambda>r. r\<lparr>r_expires := Some (db_time t)\<rparr>) d)"

definition update_origin :: "string \<Rightarrow> string \<Rightarrow> unit sql" where
  "update_origin name orig d =
     (Inr (), update_branch name (\<lambda>r. r\<lparr>r_origin := orig\<rparr>) d)"

definition delete_branch :: "string \<Rightarrow> unit sql" where
  "delete_branch name d =
     (Inr (), d\<lparr>branches := filter (\<lambda>r. r_name r \<noteq> name) (branches d)\<rparr>)"

definition get_branch :: "string \<Rightarrow> branch sql" where
  "get_branch name d =
     (case find (\<lambda>r. r_name r = name) (branches d) of
        None \<Rightarrow> (Inl ENotFound, d) | Some r \<Rightarrow> (Inr (scan_branch r), d))"

definition list_branches :: "branch list sql" where
  "list_branches d = (Inr (map scan_branch (sort_key r_created (branches d))), d)"

definition used_ports :: "int list sql" where
  "used_ports d = (Inr (map r_port (branches d)), d)"

section \<open>Hook runs\<close>

definition next_hook_id :: "db \<Rightarrow> nat" where
  "next_hook_id d = Suc (foldr max (map h_id (hook_runs d)) 0)"

definition record_hook_start :: "int \<Rightarrow> string \<Rightarrow> string \<Rightarrow> nat sql" where
  "record_hook_start now br ev d =
     (let i = next_hook_id d
      in (Inr i, d\<lparr>hook_runs := hook_runs d @ [\<lparr>h_id = i, h_branch = br, h_event = ev,
            h_started = db_time now, h_finished = None, h_exit = None\<rparr>]\<rparr>))"

definition record_hook_finish :: "int \<Rightarrow> nat \<Rightarrow> int \<Rightarrow> unit sql" where
  "record_hook_finish now i code d =
     (Inr (), d\<lparr>hook_runs := map (\<lambda>h. if h_id h = i
        then h\<lparr>h_finished := Some (db_time now), h_exit := Some code\<rparr> else h) (hook_runs d)\<rparr>)"

text \<open>The rows that are the newest of their (branch, event) among \<open>hs\<close>.\<close>

definition newest_hook :: "hook_row list \<Rightarrow> hook_row \<Rightarrow> bool" where
  "newest_hook hs h \<longleftrightarrow>
     (\<forall>h' \<in> set hs. h_branch h' = h_branch h \<and> h_event h' = h_event h \<longrightarrow> h_id h' \<le> h_id h)"

definition hook_status_text :: "int option \<Rightarrow> string" where
  "hook_status_text code =
     (case code of None \<Rightarrow> ''running''
      | Some c \<Rightarrow> if c = 0 then ''ok'' else ''failed('' @ show_int c @ '')'')"

definition last_hook_status :: "string \<Rightarrow> (string \<rightharpoonup> string) sql" where
  "last_hook_status br d =
     (Inr (map_of (map (\<lambda>h. (h_event h, hook_status_text (h_exit h)))
        (filter (\<lambda>h. h_branch h = br \<and> newest_hook (hook_runs d) h) (hook_runs d)))), d)"

definition prune_hook_runs :: "int \<Rightarrow> nat sql" where
  "prune_hook_runs before d =
     (let gone = (\<lambda>h. (case h_finished h of None \<Rightarrow> False | Some t \<Rightarrow> t < db_time before)
                  \<and> \<not> (has_branch (h_branch h) d \<and> newest_hook (hook_runs d) h))
      in (Inr (length (filter gone (hook_runs d))),
          d\<lparr>hook_runs := filter (\<lambda>h. \<not> gone h) (hook_runs d)\<rparr>))"

definition hook_failure_count :: "nat sql" where
  "hook_failure_count d =
     (Inr (length (filter (\<lambda>h. case h_exit h of None \<Rightarrow> False | Some c \<Rightarrow> c \<noteq> 0) (hook_runs d))), d)"

section \<open>Tokens\<close>

definition scope_admin :: string where "scope_admin = ''admin''"
definition scope_branches :: string where "scope_branches = ''branches''"

record token =
  tk_name :: string
  tk_scope :: string
  tk_created :: int
  tk_last_used :: "int option"

definition token_scope :: "token_row \<Rightarrow> string" where
  "token_scope t = (case t_scope t of None \<Rightarrow> scope_admin
                    | Some s \<Rightarrow> if s = [] then scope_admin else s)"

definition create_token :: "int \<Rightarrow> string \<Rightarrow> string \<Rightarrow> string \<Rightarrow> unit sql" where
  "create_token now name hash scope d =
     (if name \<in> t_name ` set (tokens d) then (Inl (EText ''constraint failed: UNIQUE''), d)
      else (Inr (), d\<lparr>tokens := tokens d @ [\<lparr>t_name = name, t_hash = hash,
             t_created = db_time now, t_last_used = None,
             t_scope = Some (if scope = [] then scope_admin else scope)\<rparr>]\<rparr>))"

definition revoke_token :: "string \<Rightarrow> unit sql" where
  "revoke_token name d =
     ((if name \<in> t_name ` set (tokens d) then Inr () else Inl ENotFound),
      d\<lparr>tokens := filter (\<lambda>t. t_name t \<noteq> name) (tokens d)\<rparr>)"

definition list_tokens :: "token list sql" where
  "list_tokens d = (Inr (map (\<lambda>t. \<lparr>tk_name = t_name t, tk_scope = token_scope t,
      tk_created = go_time (t_created t), tk_last_used = map_option go_time (t_last_used t)\<rparr>)
      (sort_key t_created (tokens d))), d)"

definition lookup_token_hash :: "int \<Rightarrow> string \<Rightarrow> (string \<times> string) option sql" where
  "lookup_token_hash now hash d =
     (case find (\<lambda>t. t_hash t = hash) (tokens d) of
        None \<Rightarrow> (Inr None, d)
      | Some t \<Rightarrow> (Inr (Some (t_name t, token_scope t)),
          d\<lparr>tokens := map (\<lambda>t. if t_hash t = hash
              then t\<lparr>t_last_used := Some (db_time now)\<rparr> else t) (tokens d)\<rparr>))"

definition check_token_hash :: "int \<Rightarrow> string \<Rightarrow> bool sql" where
  "check_token_hash now hash d =
     (case lookup_token_hash now hash d of
        (Inl e, d') \<Rightarrow> (Inl e, d') | (Inr r, d') \<Rightarrow> (Inr (r \<noteq> None), d'))"

end
