(* ===== verification/Catalog.thy ===== *)
theory Catalog
  imports StateDb
begin

text \<open>
  The second half of internal/state/state.go: the tables \<^verbatim>\<open>baselines\<close> (registered
  snapshots with their provenance, and the pointer to the current one) and
  \<^verbatim>\<open>operations\<close> (the asynchronous operations that the API hands out).
\<close>

section \<open>Baselines\<close>

record baseline =
  bs_snapshot :: string
  bs_created :: int
  bs_current :: bool
  bs_prov :: provenance

definition scan_baseline :: "baseline_row \<Rightarrow> baseline" where
  "scan_baseline b = \<lparr>
     bs_snapshot = bl_snapshot b, bs_created = go_time (bl_created b),
     bs_current = (bl_current b \<noteq> 0),
     bs_prov = \<lparr>
       p_source_rev = str_or_empty (bl_source_rev b),
       p_schema_rev = str_or_empty (bl_schema_rev b),
       p_data_as_of = str_or_empty (bl_data_as_of b),
       p_masked = (case bl_masked b of None \<Rightarrow> False | Some n \<Rightarrow> n \<noteq> 0),
       p_mask_version = str_or_empty (bl_mask_version b),
       p_validated = (case bl_validated b of None \<Rightarrow> False | Some n \<Rightarrow> n \<noteq> 0)\<rparr>\<rparr>"

definition with_prov :: "provenance \<Rightarrow> baseline_row \<Rightarrow> baseline_row" where
  "with_prov p b = b\<lparr>
     bl_source_rev := null_if_empty (p_source_rev p),
     bl_schema_rev := null_if_empty (p_schema_rev p),
     bl_data_as_of := null_if_empty (p_data_as_of p),
     bl_masked := Some (bool_to_int (p_masked p)),
     bl_mask_version := null_if_empty (p_mask_version p),
     bl_validated := Some (bool_to_int (p_validated p))\<rparr>"

definition new_baseline_row :: "int \<Rightarrow> string \<Rightarrow> int \<Rightarrow> baseline_row" where
  "new_baseline_row now snap cur = \<lparr>
     bl_snapshot = snap, bl_created = db_time now, bl_current = cur,
     bl_source_rev = None, bl_schema_rev = None, bl_data_as_of = None, bl_masked = None,
     bl_mask_version = None, bl_validated = None\<rparr>"

text \<open>\<^verbatim>\<open>INSERT \<dots> ON CONFLICT(snapshot) DO UPDATE\<close>.\<close>

definition upsert_baseline ::
  "baseline_row \<Rightarrow> (baseline_row \<Rightarrow> baseline_row) \<Rightarrow> baseline_row list \<Rightarrow> baseline_row list" where
  "upsert_baseline new f bs =
     (if bl_snapshot new \<in> bl_snapshot ` set bs
      then map (\<lambda>b. if bl_snapshot b = bl_snapshot new then f b else b) bs
      else bs @ [new])"

definition register_baseline :: "int \<Rightarrow> string \<Rightarrow> provenance \<Rightarrow> unit sql" where
  "register_baseline now snap p d =
     (Inr (), d\<lparr>baselines :=
        upsert_baseline (with_prov p (new_baseline_row now snap 0)) (with_prov p) (baselines d)\<rparr>)"

definition set_current_baseline :: "int \<Rightarrow> string \<Rightarrow> unit sql" where
  "set_current_baseline now snap d =
     (let cleared = map (\<lambda>b. b\<lparr>bl_current := 0\<rparr>) (baselines d)
      in (Inr (), d\<lparr>baselines :=
            upsert_baseline (new_baseline_row now snap 1) (\<lambda>b. b\<lparr>bl_current := 1\<rparr>) cleared\<rparr>))"

definition list_baselines :: "baseline list sql" where
  "list_baselines d = (Inr (map scan_baseline (sort_key (\<lambda>b. - bl_created b) (baselines d))), d)"

definition get_baseline :: "string \<Rightarrow> baseline sql" where
  "get_baseline snap d =
     (case list_baselines d of
        (Inl e, d') \<Rightarrow> (Inl e, d')
      | (Inr bs, d') \<Rightarrow>
          (case find (\<lambda>b. bs_snapshot b = snap) bs of
             None \<Rightarrow> (Inl ENotFound, d') | Some b \<Rightarrow> (Inr b, d')))"

definition baseline_ref_counts :: "(string \<Rightarrow> nat) sql" where
  "baseline_ref_counts d =
     (Inr (\<lambda>snap. length (filter (\<lambda>r. r_origin r = snap) (branches d))), d)"

definition delete_baseline_row :: "string \<Rightarrow> unit sql" where
  "delete_baseline_row snap d =
     (Inr (), d\<lparr>baselines := filter (\<lambda>b. bl_snapshot b \<noteq> snap) (baselines d)\<rparr>)"

text \<open>\<^verbatim>\<open>CurrentBaselineOverride\<close> turns every error, a missing row included, into "none".\<close>

definition current_baseline_override :: "string option sql" where
  "current_baseline_override d =
     (Inr (map_option bl_snapshot (find (\<lambda>b. bl_current b = 1) (baselines d))), d)"

section \<open>Operations\<close>

record operation =
  op_id :: string
  op_type :: string
  op_target :: string
  op_st :: op_state
  op_started :: int
  op_finished :: "int option"
  op_error :: string
  op_error_code :: string

text \<open>
  \<^verbatim>\<open>scanOperation\<close>: an error text that does not decode to an object with a code or a
  message is shown raw.
\<close>

definition scan_error :: "error_json option \<Rightarrow> string \<times> string" where
  \<open>scan_error e = (case e of
       None \<Rightarrow> ('''', '''')
     | Some (RawText s) \<Rightarrow> (s, '''')
     | Some (ErrJson c m) \<Rightarrow>
         if m \<noteq> '''' \<or> c \<noteq> '''' then (m, c) else (''{"code":"","message":""}'', ''''))\<close>

definition scan_operation :: "op_row \<Rightarrow> operation" where
  "scan_operation o' = \<lparr>
     op_id = o_id o', op_type = o_type o', op_target = o_target o', op_st = o_state o',
     op_started = go_time (o_started o'), op_finished = map_option go_time (o_finished o'),
     op_error = fst (scan_error (o_error o')), op_error_code = snd (scan_error (o_error o'))\<rparr>"

definition create_operation :: "int \<Rightarrow> string \<Rightarrow> string \<Rightarrow> string \<Rightarrow> unit sql" where
  "create_operation now i ty target d =
     (if i \<in> o_id ` set (operations d) then (Inl (EText ''constraint failed: UNIQUE''), d)
      else (Inr (), d\<lparr>operations := operations d @ [\<lparr>o_id = i, o_type = ty, o_target = target,
             o_state = OpRunning, o_started = db_time now, o_finished = None, o_error = None\<rparr>]\<rparr>))"

definition finish_operation :: "int \<Rightarrow> string \<Rightarrow> string \<Rightarrow> string \<Rightarrow> unit sql" where
  "finish_operation now i code msg d =
     (let st = (if msg \<noteq> '''' then OpFailed else OpCompleted);
          e = (if msg \<noteq> '''' then Some (ErrJson code msg) else None)
      in (Inr (), d\<lparr>operations := map (\<lambda>x. if o_id x = i
            then x\<lparr>o_state := st, o_finished := Some (db_time now), o_error := e\<rparr> else x)
            (operations d)\<rparr>))"

definition recover_interrupted_operations :: "int \<Rightarrow> nat sql" where
  "recover_interrupted_operations now d =
     (Inr (length (filter (\<lambda>x. o_state x = OpRunning) (operations d))),
      d\<lparr>operations := map (\<lambda>x. if o_state x = OpRunning
          then x\<lparr>o_state := OpFailed, o_finished := Some (db_time now),
                 o_error := Some (ErrJson ''interrupted''
                    ''daemon restarted while operation was running'')\<rparr> else x) (operations d)\<rparr>)"

definition prune_operations :: "int \<Rightarrow> nat sql" where
  "prune_operations before d =
     (let gone = (\<lambda>x. o_state x \<noteq> OpRunning
                  \<and> (case o_finished x of None \<Rightarrow> False | Some t \<Rightarrow> t < db_time before))
      in (Inr (length (filter gone (operations d))),
          d\<lparr>operations := filter (\<lambda>x. \<not> gone x) (operations d)\<rparr>))"

definition get_operation :: "string \<Rightarrow> operation sql" where
  "get_operation i d =
     (case find (\<lambda>x. o_id x = i) (operations d) of
        None \<Rightarrow> (Inl ENotFound, d) | Some x \<Rightarrow> (Inr (scan_operation x), d))"

definition list_operations :: "int \<Rightarrow> operation list sql" where
  "list_operations limit d =
     (let n = (if limit \<le> 0 then 50 else nat limit)
      in (Inr (map scan_operation (take n (sort_key (\<lambda>x. - o_started x) (rev (operations d))))), d))"

text \<open>One row of \<^verbatim>\<open>OperationStats\<close>: the count and the summed duration in seconds of
  a (type, state) group; no row for an empty group.\<close>

definition operation_stat :: "string \<Rightarrow> op_state \<Rightarrow> db \<Rightarrow> (nat \<times> int) option" where
  "operation_stat ty st d =
     (let g = filter (\<lambda>x. o_type x = ty \<and> o_state x = st) (operations d)
      in if g = [] then None
         else Some (length g, sum_list (map (\<lambda>x. case o_finished x of
                     None \<Rightarrow> 0 | Some t \<Rightarrow> t - o_started x) g)))"

section \<open>The statements as one alphabet\<close>

text \<open>
  Every writing method of \<^verbatim>\<open>state.DB\<close>, with the clock reading it takes. The reachable
  databases are those that any sequence of these calls makes from the empty schema.
\<close>

inductive db_write :: "db \<Rightarrow> db \<Rightarrow> bool" where
  w_create_branch: "db_write d (snd (create_branch now name port orig d))"
| w_set_provision: "db_write d (snd (set_provision name vref snap d))"
| w_set_state: "db_write d (snd (set_state now name st msg d))"
| w_set_error: "db_write d (snd (set_error now name fop code recov msg sugg d))"
| w_mark_error: "db_write d (snd (mark_error_at_if_missing now name d))"
| w_touch: "db_write d (snd (touch_last_conn now name d))"
| w_set_meta: "db_write d (snd (set_meta name m d))"
| w_set_expires: "db_write d (snd (set_expires_at name t d))"
| w_update_origin: "db_write d (snd (update_origin name orig d))"
| w_delete_branch: "db_write d (snd (delete_branch name d))"
| w_hook_start: "db_write d (snd (record_hook_start now br ev d))"
| w_hook_finish: "db_write d (snd (record_hook_finish now i code d))"
| w_prune_hooks: "db_write d (snd (prune_hook_runs before d))"
| w_create_token: "db_write d (snd (create_token now name hash scope d))"
| w_revoke_token: "db_write d (snd (revoke_token name d))"
| w_lookup_token: "db_write d (snd (lookup_token_hash now hash d))"
| w_register_baseline: "db_write d (snd (register_baseline now snap p d))"
| w_set_current: "db_write d (snd (set_current_baseline now snap d))"
| w_delete_baseline: "db_write d (snd (delete_baseline_row snap d))"
| w_create_op: "db_write d (snd (create_operation now i ty target d))"
| w_finish_op: "db_write d (snd (finish_operation now i code msg d))"
| w_recover: "db_write d (snd (recover_interrupted_operations now d))"
| w_prune_ops: "db_write d (snd (prune_operations before d))"

inductive db_reachable :: "db \<Rightarrow> bool" where
  db_open: "db_reachable open_db"
| db_step: "db_reachable d \<Longrightarrow> db_write d d' \<Longrightarrow> db_reachable d'"

end
