(* ===== verification/StateFacts.thy ===== *)
theory StateFacts
  imports Catalog
begin

text \<open>
  What the statements of internal/state/state.go guarantee: the integrity invariant \<open>db_ok\<close>
  of every reachable database, lookup laws for the branch table, and the properties of the
  baseline pointer, the diagnostics of failed branches, the hook history and the operations.
\<close>

section \<open>Integrity\<close>

definition row_ok :: "branch_row \<Rightarrow> bool" where
  "row_ok r \<longleftrightarrow> (r_error_at r \<noteq> None \<longleftrightarrow> r_state r = Error_state)
     \<and> (r_failed_op r \<noteq> None \<longrightarrow> r_state r = Error_state)
     \<and> (r_state r = Running \<longrightarrow> r_engine_state r = Some ''running'')
     \<and> (r_state r = Sleeping \<longrightarrow> r_engine_state r = Some ''stopped'')"

definition branches_ok :: "branch_row list \<Rightarrow> bool" where
  "branches_ok bs \<longleftrightarrow> distinct (map r_name bs) \<and> distinct (map r_port bs) \<and> (\<forall>r \<in> set bs. row_ok r)"

definition baselines_ok :: "baseline_row list \<Rightarrow> bool" where
  "baselines_ok bs \<longleftrightarrow> distinct (map bl_snapshot bs)
     \<and> (\<forall>b \<in> set bs. bl_current b = 0 \<or> bl_current b = 1)
     \<and> length (filter (\<lambda>b. bl_current b = 1) bs) \<le> 1"

definition operations_ok :: "op_row list \<Rightarrow> bool" where
  "operations_ok os \<longleftrightarrow> distinct (map o_id os)
     \<and> (\<forall>x \<in> set os. (o_state x = OpRunning \<longleftrightarrow> o_finished x = None)
                     \<and> (o_state x = OpFailed \<longleftrightarrow> o_error x \<noteq> None))"

definition db_ok :: "db \<Rightarrow> bool" where
  "db_ok d \<longleftrightarrow> branches_ok (branches d) \<and> distinct (map h_id (hook_runs d))
     \<and> distinct (map t_name (tokens d)) \<and> baselines_ok (baselines d)
     \<and> operations_ok (operations d)"

lemma branches_ok_update:
  assumes "branches_ok bs"
    and "\<And>r. r_name (f r) = r_name r" and "\<And>r. r_port (f r) = r_port r"
    and "\<And>r. row_ok r \<Longrightarrow> row_ok (f r)"
  shows "branches_ok (map (\<lambda>r. if r_name r = n then f r else r) bs)"
  using assms by (auto simp: branches_ok_def map_key_update [of r_name] map_key_update [of r_port]
      simp del: map_map)

lemma branches_ok_filter: "branches_ok bs \<Longrightarrow> branches_ok (filter P bs)"
  by (auto simp: branches_ok_def intro: distinct_map_filter)

lemma branches_ok_snoc:
  "branches_ok bs \<Longrightarrow> r_name r \<notin> r_name ` set bs \<Longrightarrow> r_port r \<notin> r_port ` set bs \<Longrightarrow> row_ok r
   \<Longrightarrow> branches_ok (bs @ [r])"
  by (auto simp: branches_ok_def)

lemma db_ok_open: "db_ok open_db"
  by (simp add: db_ok_def open_db_def branches_ok_def baselines_ok_def operations_ok_def)

lemma db_ok_update_branch:
  assumes "db_ok d"
    and "\<And>r. r_name (f r) = r_name r" and "\<And>r. r_port (f r) = r_port r"
    and "\<And>r. row_ok r \<Longrightarrow> row_ok (f r)"
  shows "db_ok (update_branch n f d)"
  using assms branches_ok_update [of "branches d" f n] by (simp add: db_ok_def update_branch_def)

named_theorems sql_ok

lemma ok_create_branch [sql_ok]: "db_ok d \<Longrightarrow> db_ok (snd (create_branch now name port orig d))"
  by (auto simp: create_branch_def db_ok_def row_ok_def intro!: branches_ok_snoc)

lemma ok_set_provision [sql_ok]: "db_ok d \<Longrightarrow> db_ok (snd (set_provision name vref snap d))"
  by (auto simp: set_provision_def update_or_missing_def row_ok_def intro!: db_ok_update_branch)

lemma ok_set_state [sql_ok]: "db_ok d \<Longrightarrow> db_ok (snd (set_state now name st msg d))"
  by (auto simp: set_state_def update_or_missing_def row_ok_def intro!: db_ok_update_branch
      split: option.splits bstate.splits)

lemma ok_set_error [sql_ok]:
  "db_ok d \<Longrightarrow> db_ok (snd (set_error now name fop code recov msg sugg d))"
  by (auto simp: set_error_def update_or_missing_def row_ok_def intro!: db_ok_update_branch
      split: option.splits)

lemma ok_mark_error [sql_ok]: "db_ok d \<Longrightarrow> db_ok (snd (mark_error_at_if_missing now name d))"
  by (auto simp: mark_error_at_if_missing_def row_ok_def intro!: db_ok_update_branch)

lemma ok_touch [sql_ok]: "db_ok d \<Longrightarrow> db_ok (snd (touch_last_conn now name d))"
  by (auto simp: touch_last_conn_def row_ok_def intro!: db_ok_update_branch)

lemma ok_set_meta [sql_ok]: "db_ok d \<Longrightarrow> db_ok (snd (set_meta name m d))"
  by (auto simp: set_meta_def row_ok_def intro!: db_ok_update_branch)

lemma ok_set_expires [sql_ok]: "db_ok d \<Longrightarrow> db_ok (snd (set_expires_at name t d))"
  by (auto simp: set_expires_at_def row_ok_def intro!: db_ok_update_branch)

lemma ok_update_origin [sql_ok]: "db_ok d \<Longrightarrow> db_ok (snd (update_origin name orig d))"
  by (auto simp: update_origin_def row_ok_def intro!: db_ok_update_branch)

lemma ok_delete_branch [sql_ok]: "db_ok d \<Longrightarrow> db_ok (snd (delete_branch name d))"
  by (auto simp: delete_branch_def db_ok_def intro: branches_ok_filter)

lemma next_hook_id_fresh: "next_hook_id d \<notin> h_id ` set (hook_runs d)"
proof
  assume "next_hook_id d \<in> h_id ` set (hook_runs d)"
  then have "next_hook_id d \<le> foldr max (map h_id (hook_runs d)) 0"
    by (intro foldr_max_ge) simp
  then show False by (simp add: next_hook_id_def)
qed

lemma ok_hook_start [sql_ok]: "db_ok d \<Longrightarrow> db_ok (snd (record_hook_start now br ev d))"
  using next_hook_id_fresh [of d] by (auto simp: record_hook_start_def db_ok_def Let_def)

lemma ok_hook_finish [sql_ok]: "db_ok d \<Longrightarrow> db_ok (snd (record_hook_finish now i code d))"
  by (simp add: record_hook_finish_def db_ok_def map_key_update [of h_id] del: map_map)

lemma ok_prune_hooks [sql_ok]: "db_ok d \<Longrightarrow> db_ok (snd (prune_hook_runs before d))"
  by (simp add: prune_hook_runs_def db_ok_def Let_def distinct_map_filter)

lemma ok_create_token [sql_ok]: "db_ok d \<Longrightarrow> db_ok (snd (create_token now name hash scope d))"
  by (auto simp: create_token_def db_ok_def)

lemma ok_revoke_token [sql_ok]: "db_ok d \<Longrightarrow> db_ok (snd (revoke_token name d))"
  by (simp add: revoke_token_def db_ok_def distinct_map_filter)

lemma ok_lookup_token [sql_ok]: "db_ok d \<Longrightarrow> db_ok (snd (lookup_token_hash now hash d))"
  by (simp add: lookup_token_hash_def db_ok_def map_key_update [of t_name] del: map_map
      split: option.splits)

lemma baselines_ok_upsert_keep:
  assumes "baselines_ok bs" and "bl_current new = 0"
    and f: "\<And>b. bl_snapshot (f b) = bl_snapshot b" "\<And>b. bl_current (f b) = bl_current b"
  shows "baselines_ok (upsert_baseline new f bs)"
  using assms
  by (auto simp: baselines_ok_def upsert_baseline_def map_key_update [of bl_snapshot]
      length_filter_update [of _ f] simp del: map_map length_filter_map)

lemma ok_register_baseline [sql_ok]: "db_ok d \<Longrightarrow> db_ok (snd (register_baseline now snap p d))"
  by (auto simp: register_baseline_def db_ok_def with_prov_def new_baseline_row_def
      intro!: baselines_ok_upsert_keep)

text \<open>Marking the rows with one snapshot current, after all marks were cleared.\<close>

lemma marked_current:
  "filter (\<lambda>b. bl_current b = 1)
     (map (\<lambda>b. if bl_snapshot b = s then b\<lparr>bl_current := 1\<rparr> else b)
        (map (\<lambda>b. b\<lparr>bl_current := 0\<rparr>) bs))
   = map (\<lambda>b. b\<lparr>bl_current := 1\<rparr>) (filter (\<lambda>b. bl_snapshot b = s) bs)"
  by (induction bs) auto

lemma distinct_key_single: "distinct (map k xs) \<Longrightarrow> length (filter (\<lambda>x. k x = a) xs) \<le> 1"
proof (induction xs)
  case (Cons x xs)
  then show ?case
  proof (cases "k x = a")
    case True
    with Cons.prems have "filter (\<lambda>x. k x = a) xs = []"
      by (fastforce simp: filter_empty_conv rev_image_eqI)
    with True show ?thesis by simp
  qed auto
qed simp

lemma ok_set_current [sql_ok]: "db_ok d \<Longrightarrow> db_ok (snd (set_current_baseline now snap d))"
proof -
  assume ok: "db_ok d"
  define cl where "cl = map (\<lambda>b. b\<lparr>bl_current := 0\<rparr>) (baselines d)"
  have keys: "map bl_snapshot cl = map bl_snapshot (baselines d)"
    by (simp add: cl_def)
  have keyset: "bl_snapshot ` set cl = bl_snapshot ` set (baselines d)"
    by (simp add: cl_def image_image)
  have none: "filter (\<lambda>b. bl_current b = 1) cl = []"
    by (auto simp: cl_def filter_empty_conv)
  have one: "length (filter (\<lambda>b. bl_current b = 1)
      (map (\<lambda>b. if bl_snapshot b = snap then b\<lparr>bl_current := 1\<rparr> else b) cl)) \<le> 1"
    using ok distinct_key_single [of bl_snapshot "baselines d" snap]
    by (simp add: cl_def marked_current db_ok_def baselines_ok_def del: map_map)
  have "baselines_ok (upsert_baseline (new_baseline_row now snap 1) (\<lambda>b. b\<lparr>bl_current := 1\<rparr>) cl)"
  proof (cases "snap \<in> bl_snapshot ` set cl")
    case True
    have "distinct (map bl_snapshot (map (\<lambda>b. if bl_snapshot b = snap then b\<lparr>bl_current := 1\<rparr> else b) cl))"
      using ok keys by (simp add: map_key_update [of bl_snapshot] db_ok_def baselines_ok_def del: map_map)
    with one True show ?thesis
      by (auto simp: baselines_ok_def upsert_baseline_def new_baseline_row_def cl_def)
  next
    case False
    then have "distinct (map bl_snapshot (cl @ [new_baseline_row now snap 1]))"
      using ok keys keyset by (simp add: db_ok_def baselines_ok_def new_baseline_row_def)
    with none False show ?thesis
      by (auto simp: baselines_ok_def upsert_baseline_def new_baseline_row_def cl_def)
  qed
  with ok show ?thesis
    by (simp add: set_current_baseline_def db_ok_def Let_def cl_def)
qed

lemma ok_delete_baseline [sql_ok]: "db_ok d \<Longrightarrow> db_ok (snd (delete_baseline_row snap d))"
  using length_filter_filter [of "\<lambda>b. bl_current b = 1" "\<lambda>b. bl_snapshot b \<noteq> snap" "baselines d"]
  by (auto simp: delete_baseline_row_def db_ok_def baselines_ok_def distinct_map_filter
      simp del: filter_filter)

lemma ok_create_op [sql_ok]: "db_ok d \<Longrightarrow> db_ok (snd (create_operation now i ty target d))"
  by (auto simp: create_operation_def db_ok_def operations_ok_def)

lemma ok_finish_op [sql_ok]: "db_ok d \<Longrightarrow> db_ok (snd (finish_operation now i code msg d))"
  by (auto simp: finish_operation_def db_ok_def operations_ok_def Let_def
      map_key_update [of o_id] simp del: map_map)

lemma ok_recover [sql_ok]: "db_ok d \<Longrightarrow> db_ok (snd (recover_interrupted_operations now d))"
  by (auto simp: recover_interrupted_operations_def db_ok_def operations_ok_def
      map_key_update [of o_id] simp del: map_map)

lemma ok_prune_ops [sql_ok]: "db_ok d \<Longrightarrow> db_ok (snd (prune_operations before d))"
  by (auto simp: prune_operations_def db_ok_def operations_ok_def Let_def distinct_map_filter)

lemma db_write_ok: "db_write d d' \<Longrightarrow> db_ok d \<Longrightarrow> db_ok d'"
  by (induction rule: db_write.induct) (simp_all add: sql_ok)


section \<open>Looking rows up\<close>

text \<open>The row of a branch, and how each statement on the branch table changes it.\<close>

definition row_of :: "db \<Rightarrow> string \<Rightarrow> branch_row option" where
  "row_of d n = find (\<lambda>r. r_name r = n) (branches d)"

named_theorems rows

lemma row_of_name [dest]: "row_of d n = Some r \<Longrightarrow> r_name r = n"
  by (auto simp: row_of_def dest: find_key_mem)

lemma has_branch_row: "has_branch n d \<longleftrightarrow> row_of d n \<noteq> None"
  by (simp add: has_branch_def row_of_def find_None_key)

lemma get_branch_row:
  "get_branch n d = ((case row_of d n of None \<Rightarrow> Inl ENotFound | Some r \<Rightarrow> Inr (scan_branch r)), d)"
  by (simp add: get_branch_def row_of_def split: option.splits)

lemma row_of_update [rows]:
  "(\<And>r. r_name (f r) = r_name r) \<Longrightarrow>
   row_of (update_branch m f d) n = map_option (\<lambda>r. if n = m then f r else r) (row_of d n)"
  by (simp add: row_of_def update_branch_def find_update)

lemma row_of_delete [rows]:
  "row_of (snd (delete_branch m d)) n = (if n = m then None else row_of d n)"
  by (simp add: row_of_def delete_branch_def find_filter_key)

lemma row_of_create:
  "create_branch now m port orig d = (Inr (), d') \<Longrightarrow>
   row_of d' n = (if n = m then Some \<lparr>
        r_name = m, r_state = Creating, r_port = port, r_origin = orig,
        r_created = db_time now, r_last_conn = None, r_err_msg = None, r_failed_op = None,
        r_err_code = None, r_recoverable = None, r_suggested = None, r_profile = None,
        r_owner = None, r_purpose = None, r_source = None, r_expires = None,
        r_engine_state = None, r_init_snap = None, r_volume_ref = None, r_error_at = None\<rparr>
      else row_of d n)"
  using find_None_key [of r_name n "branches d"]
  by (auto simp: create_branch_def row_of_def find_append split: if_splits option.splits)

lemma row_of_set_state [rows]:
  "row_of (snd (set_state now m st msg d)) n = map_option (\<lambda>r. if n = m then r\<lparr>
       r_state := st, r_err_msg := Some msg,
       r_engine_state := (case st of Running \<Rightarrow> Some ''running''
                                   | Sleeping \<Rightarrow> Some ''stopped''
                                   | _ \<Rightarrow> r_engine_state r),
       r_failed_op := None, r_err_code := None, r_recoverable := None, r_suggested := None,
       r_error_at := (if st = Error_state
                      then (case r_error_at r of None \<Rightarrow> Some (db_time now) | Some t \<Rightarrow> Some t)
                      else None)\<rparr> else r) (row_of d n)"
  by (simp add: set_state_def update_or_missing_def rows)

lemma row_of_set_error [rows]:
  "row_of (snd (set_error now m fop code recov msg sugg d)) n = map_option (\<lambda>r. if n = m then r\<lparr>
       r_state := Error_state, r_err_msg := Some msg, r_failed_op := Some fop,
       r_err_code := Some code, r_recoverable := Some (bool_to_int recov),
       r_suggested := Some sugg,
       r_error_at := (case r_error_at r of None \<Rightarrow> Some (db_time now) | Some t \<Rightarrow> Some t)\<rparr>
     else r) (row_of d n)"
  by (simp add: set_error_def update_or_missing_def rows)

text \<open>The registered baseline of a snapshot.\<close>

definition baseline_of :: "db \<Rightarrow> string \<Rightarrow> baseline_row option" where
  "baseline_of d s = find (\<lambda>b. bl_snapshot b = s) (baselines d)"

lemma get_baseline_of:
  assumes "db_ok d"
  shows "get_baseline s d =
    ((case baseline_of d s of None \<Rightarrow> Inl ENotFound | Some b \<Rightarrow> Inr (scan_baseline b)), d)"
proof -
  have "find (\<lambda>b. bl_snapshot b = s) (sort_key (\<lambda>b. - bl_created b) (baselines d)) = baseline_of d s"
    unfolding baseline_of_def using assms
    by (intro find_distinct_set) (auto simp: db_ok_def baselines_ok_def)
  then show ?thesis
    by (simp add: get_baseline_def list_baselines_def find_map_of scan_baseline_def
        split: option.splits)
qed

lemma new_baseline_row_sel [simp]:
  "bl_snapshot (new_baseline_row now s c) = s" "bl_current (new_baseline_row now s c) = c"
  by (simp_all add: new_baseline_row_def)

lemma find_upsert:
  assumes "\<And>b. bl_snapshot (f b) = bl_snapshot b"
  shows "find (\<lambda>b. bl_snapshot b = s) (upsert_baseline new f bs) =
    (if s = bl_snapshot new
     then Some (case find (\<lambda>b. bl_snapshot b = s) bs of None \<Rightarrow> new | Some b \<Rightarrow> f b)
     else find (\<lambda>b. bl_snapshot b = s) bs)"
proof -
  have "find (\<lambda>b. bl_snapshot b = bl_snapshot new) bs = None \<longleftrightarrow>
      bl_snapshot new \<notin> bl_snapshot ` set bs"
    by (rule find_None_key)
  then show ?thesis
    using assms by (auto simp: upsert_baseline_def find_append find_update simp del: find_None_iff
        split: option.splits)
qed

lemma baseline_of_set_current:
  "baseline_of (snd (set_current_baseline now snap d)) s =
     (case baseline_of d s of
        None \<Rightarrow> if s = snap then Some (new_baseline_row now snap 1) else None
      | Some b \<Rightarrow> Some (b\<lparr>bl_current := (if s = snap then 1 else 0)\<rparr>))"
  by (simp add: baseline_of_def set_current_baseline_def Let_def find_upsert find_map_of
      split: option.splits)

lemma baseline_of_register:
  "baseline_of (snd (register_baseline now snap p d)) s =
     (if s = snap then Some (with_prov p (case baseline_of d s of
          None \<Rightarrow> new_baseline_row now snap 0 | Some b \<Rightarrow> b))
      else baseline_of d s)"
  by (simp add: baseline_of_def register_baseline_def find_upsert with_prov_def
      split: option.splits)

section \<open>Properties of the stored state\<close>

text \<open>C39. Every database that any sequence of state.db calls makes from the empty schema keeps
  its integrity: branch names, ports, hook ids, token names, baseline snapshots and operation ids
  are unique, at most one baseline is current, a branch has an error time exactly in state
  error, failure diagnostics only in state error, the engine state of running and sleeping
  branches is running and stopped, an operation has an end time exactly when it is not running
  and an error exactly when it failed.\<close>

theorem db_reachable_ok: "db_reachable d \<Longrightarrow> db_ok d"
  by (induction rule: db_reachable.induct) (auto intro: db_ok_open db_write_ok)

theorem db_reachable_ok_witness:
  "db_ok (snd (set_error 0 ''pr-1'' ''create'' ''clone_failed'' True ''m'' []
     (snd (create_branch 0 ''pr-1'' 3401 ''dbpool/base@baseline'' open_db))))"
  by (rule db_reachable_ok) (intro db_open db_step [OF _ w_set_error] db_step [OF _ w_create_branch])

lemma set_current_unique:
  assumes "db_ok d" and d': "d' = snd (set_current_baseline now snap d)"
  shows "fst (current_baseline_override d') = Inr (Some snap)
     \<and> (\<forall>b \<in> set (baselines d'). bl_current b = 1 \<longleftrightarrow> bl_snapshot b = snap)"
proof -
  have ok': "db_ok d'" using assms ok_set_current by simp
  then have dist: "distinct (map bl_snapshot (baselines d'))"
    by (simp add: db_ok_def baselines_ok_def)
  have row: "baseline_of d' (bl_snapshot b) = Some b" if "b \<in> set (baselines d')" for b
    using find_distinct_key [OF dist that] by (simp add: baseline_of_def)
  have cur: "bl_current b = 1 \<longleftrightarrow> bl_snapshot b = snap" if b: "b \<in> set (baselines d')" for b
    using row [OF b] unfolding d' baseline_of_set_current
    by (auto split: option.splits if_splits dest: arg_cong [where f = bl_current])
  obtain c where c: "baseline_of d' snap = Some c"
    unfolding d' baseline_of_set_current by (cases "baseline_of d snap") auto
  then have "c \<in> set (baselines d')" "bl_snapshot c = snap"
    using find_key_mem [of "\<lambda>b. bl_snapshot b = snap"] by (auto simp: baseline_of_def)
  with cur have "find (\<lambda>b. bl_current b = 1) (baselines d') \<noteq> None"
    by (auto simp: find_None_iff)
  then obtain e where e: "find (\<lambda>b. bl_current b = 1) (baselines d') = Some e" by auto
  with cur have "bl_snapshot e = snap" using find_key_mem [OF e] by auto
  with e cur show ?thesis by (simp add: current_baseline_override_def)
qed

text \<open>Switching the current baseline (SetCurrentBaseline) makes the pointer read back as
  that snapshot and as no other, whether or not it was registered, and keeps the provenance
  of every registered baseline.\<close>

theorem set_current_baseline_pointer:
  assumes "db_ok d" and d': "d' = snd (set_current_baseline now snap d)"
  shows "fst (current_baseline_override d') = Inr (Some snap)
     \<and> (\<forall>b \<in> set (baselines d'). bl_current b = 1 \<longleftrightarrow> bl_snapshot b = snap)
     \<and> (\<forall>s b. fst (get_baseline s d) = Inr b \<longrightarrow>
          (\<exists>b'. fst (get_baseline s d') = Inr b' \<and> bs_prov b' = bs_prov b \<and> bs_created b' = bs_created b))"
proof -
  have ok': "db_ok d'" using assms ok_set_current by simp
  have prov: "\<exists>b'. fst (get_baseline s d') = Inr b' \<and> bs_prov b' = bs_prov b \<and> bs_created b' = bs_created b"
    if g: "fst (get_baseline s d) = Inr b" for s b
  proof -
    obtain r where r: "baseline_of d s = Some r" and b: "b = scan_baseline r"
      using g by (auto simp: get_baseline_of [OF assms(1)] split: option.splits)
    have "baseline_of d' s = Some (r\<lparr>bl_current := if s = snap then 1 else 0\<rparr>)"
      by (simp add: d' baseline_of_set_current r)
    then have "fst (get_baseline s d') = Inr (scan_baseline (r\<lparr>bl_current := if s = snap then 1 else 0\<rparr>))"
      by (simp add: get_baseline_of [OF ok'])
    then show ?thesis by (simp add: b scan_baseline_def)
  qed
  show ?thesis
    using set_current_unique [OF assms] by (intro conjI allI impI) (simp_all add: prov)
qed

theorem set_current_baseline_pointer_witness:
  "fst (current_baseline_override (snd (set_current_baseline 0 ''base@b1'' open_db)))
     = Inr (Some ''base@b1'')"
  using set_current_baseline_pointer [OF db_ok_open refl, of 0 "''base@b1''"] by blast

text \<open>Pruning the hook history (PruneHookRuns) never changes what LastHookStatus reports for
  an existing branch, and deletes only finished runs older than the cut-off.\<close>

theorem prune_hook_runs_keeps_status:
  assumes "db_ok d" and "has_branch br d" and d': "d' = snd (prune_hook_runs before d)"
  shows "fst (last_hook_status br d') = fst (last_hook_status br d)
     \<and> (\<forall>h \<in> set (hook_runs d) - set (hook_runs d').
          \<exists>t. h_finished h = Some t \<and> t < db_time before)"
proof -
  define gone where "gone h \<longleftrightarrow> (case h_finished h of None \<Rightarrow> False | Some t \<Rightarrow> t < db_time before)
                  \<and> \<not> (has_branch (h_branch h) d \<and> newest_hook (hook_runs d) h)" for h
  have hs': "hook_runs d' = filter (\<lambda>h. \<not> gone h) (hook_runs d)"
    by (simp add: d' prune_hook_runs_def Let_def gone_def)
  have newest: "newest_hook (hook_runs d') h = newest_hook (hook_runs d) h"
    if h: "h \<in> set (hook_runs d)" "h_branch h = br" "\<not> gone h" for h
  proof
    assume n': "newest_hook (hook_runs d') h"
    define S where "S = {x \<in> set (hook_runs d). h_branch x = h_branch h \<and> h_event x = h_event h}"
    have fin: "finite (h_id ` S)" and ne: "h_id ` S \<noteq> {}" using h by (auto simp: S_def)
    obtain m where m: "m \<in> S" "h_id m = Max (h_id ` S)"
      using Max_in [OF fin ne] by auto
    have top: "newest_hook (hook_runs d) m"
      using m fin by (auto simp: newest_hook_def S_def intro: Max_ge)
    with m h assms(2) have "\<not> gone m" by (auto simp: gone_def S_def)
    with m have "m \<in> set (hook_runs d')" by (auto simp: hs' S_def)
    with n' m have le: "h_id m \<le> h_id h" by (auto simp: newest_hook_def S_def)
    show "newest_hook (hook_runs d) h"
      unfolding newest_hook_def
    proof (intro ballI impI)
      fix x
      assume "x \<in> set (hook_runs d)" "h_branch x = h_branch h \<and> h_event x = h_event h"
      then have "h_id x \<le> Max (h_id ` S)" using fin by (auto simp: S_def intro: Max_ge)
      with le m show "h_id x \<le> h_id h" by simp
    qed
  qed (auto simp: newest_hook_def hs')
  have "filter (\<lambda>h. h_branch h = br \<and> newest_hook (hook_runs d') h) (hook_runs d')
      = filter (\<lambda>h. h_branch h = br \<and> newest_hook (hook_runs d) h) (hook_runs d)"
    unfolding hs' filter_filter
  proof (intro filter_cong refl)
    fix h
    assume h: "h \<in> set (hook_runs d)"
    show "(\<not> gone h \<and> h_branch h = br \<and> newest_hook (filter (\<lambda>h. \<not> gone h) (hook_runs d)) h)
        = (h_branch h = br \<and> newest_hook (hook_runs d) h)"
    proof (cases "gone h")
      case True
      with assms(2) show ?thesis by (auto simp: gone_def)
    next
      case False
      with newest [OF h] show ?thesis by (auto simp: hs')
    qed
  qed
  then show ?thesis
    by (auto simp: last_hook_status_def hs' gone_def split: option.splits)
qed

text \<open>A database with one branch, a finished hook run and a later failed one of the same event.\<close>

definition sample_hooks :: db where
  "sample_hooks =
     (let d0 = snd (create_branch 0 ''pr-1'' 3401 ''base@b'' open_db);
          d1 = snd (record_hook_finish second 1 0 (snd (record_hook_start 0 ''pr-1'' ''on-create'' d0)))
      in snd (record_hook_finish (3 * second) 2 1
           (snd (record_hook_start (2 * second) ''pr-1'' ''on-create'' d1))))"

lemma sample_hooks_ok: "db_ok sample_hooks"
  by (simp add: sample_hooks_def Let_def sql_ok db_ok_open)

theorem prune_hook_runs_keeps_status_witness:
  "db_ok sample_hooks \<and> has_branch ''pr-1'' sample_hooks
   \<and> length (hook_runs sample_hooks) = 2
   \<and> length (hook_runs (snd (prune_hook_runs (10 * second) sample_hooks))) = 1
   \<and> fst (last_hook_status ''pr-1'' (snd (prune_hook_runs (10 * second) sample_hooks)))
     = fst (last_hook_status ''pr-1'' sample_hooks)"
proof -
  have b: "has_branch ''pr-1'' sample_hooks"
    by (simp add: sample_hooks_def Let_def has_branch_def create_branch_def open_db_def
        record_hook_start_def record_hook_finish_def)
  have n: "length (hook_runs sample_hooks) = 2 \<and>
      length (hook_runs (snd (prune_hook_runs (10 * second) sample_hooks))) = 1"
    by (simp add: sample_hooks_def Let_def has_branch_def create_branch_def open_db_def
        record_hook_start_def record_hook_finish_def prune_hook_runs_def next_hook_id_def
        newest_hook_def db_time_def second_def)
  show ?thesis
    using prune_hook_runs_keeps_status [OF sample_hooks_ok b refl, of "10 * second"]
      sample_hooks_ok b n by blast
qed

text \<open>An operation that is created and finished reads back (GetOperation) with its type and
  target, completed when there was no error message and failed with exactly that message and
  code otherwise, stamped with the second of its end; every other operation is untouched.\<close>

theorem operation_roundtrip:
  assumes fresh: "i \<notin> o_id ` set (operations d)"
    and d1: "create_operation t0 i ty target d = (r, d1)"
    and d2: "d2 = snd (finish_operation t1 i code msg d1)"
  shows "r = Inr ()
     \<and> fst (get_operation i d2) = Inr \<lparr>op_id = i, op_type = ty, op_target = target,
          op_st = (if msg = [] then OpCompleted else OpFailed),
          op_started = go_time (db_time t0), op_finished = Some (go_time (db_time t1)),
          op_error = msg, op_error_code = (if msg = [] then [] else code)\<rparr>
     \<and> (\<forall>j. j \<noteq> i \<longrightarrow> fst (get_operation j d2) = fst (get_operation j d))"
proof -
  have new: "find (\<lambda>x. o_id x = i) (operations d) = None"
    using fresh find_None_key [of o_id i "operations d"] by simp
  from d1 fresh have r: "r = Inr ()" and ops1: "operations d1 = operations d @
      [\<lparr>o_id = i, o_type = ty, o_target = target, o_state = OpRunning, o_started = db_time t0,
        o_finished = None, o_error = None\<rparr>]"
    by (auto simp: create_operation_def)
  have found: "find (\<lambda>x. o_id x = j) (operations d2) = (if j = i
      then Some \<lparr>o_id = i, o_type = ty, o_target = target,
             o_state = (if msg = [] then OpCompleted else OpFailed), o_started = db_time t0,
             o_finished = Some (db_time t1),
             o_error = (if msg = [] then None else Some (ErrJson code msg))\<rparr>
      else find (\<lambda>x. o_id x = j) (operations d))" for j
    using new by (auto simp: d2 finish_operation_def Let_def ops1 find_update find_append
        simp del: map_append find_None_iff split: option.splits)
  show ?thesis
    by (simp add: r get_operation_def found scan_operation_def scan_error_def split: option.splits)
qed

theorem operation_roundtrip_witness:
  "fst (get_operation ''op_1'' (snd (finish_operation (7 * second) ''op_1'' ''clone'' ''no space''
      (snd (create_operation (5 * second) ''op_1'' ''create'' ''pr-1'' open_db)))))
   = Inr \<lparr>op_id = ''op_1'', op_type = ''create'', op_target = ''pr-1'', op_st = OpFailed,
       op_started = 5 * second, op_finished = Some (7 * second), op_error = ''no space'',
       op_error_code = ''clone''\<rparr>"
proof -
  have f: "''op_1'' \<notin> o_id ` set (operations open_db)" by (simp add: open_db_def)
  show ?thesis
    using conjunct1 [OF conjunct2 [OF operation_roundtrip [OF f surjective_pairing refl,
      of "5 * second" "''create''" "''pr-1''" "7 * second" "''clone''" "''no space''"]]]
    by (simp add: go_time_def db_time_def second_def)
qed

text \<open>RecoverInterruptedOperations leaves no operation running: each one that was running
  reads back as failed with code interrupted, every other one is unchanged, and the returned
  count is the number of those it changed.\<close>

theorem recover_interrupted_total:
  assumes rec: "recover_interrupted_operations now d = (r, d')"
  shows "(\<forall>x \<in> set (operations d'). o_state x \<noteq> OpRunning)
     \<and> (\<forall>i v. fst (get_operation i d) = Inr v \<longrightarrow>
          (\<exists>v'. fst (get_operation i d') = Inr v' \<and>
             (if op_st v = OpRunning
              then op_st v' = OpFailed \<and> op_error_code v' = ''interrupted'' \<and> op_target v' = op_target v
              else v' = v)))
     \<and> r = Inr (card {k. k < length (operations d) \<and> o_state (operations d ! k) = OpRunning})"
proof -
  define f :: "op_row \<Rightarrow> op_row" where "f x = (if o_state x = OpRunning
          then x\<lparr>o_state := OpFailed, o_finished := Some (db_time now),
                 o_error := Some (ErrJson ''interrupted''
                    ''daemon restarted while operation was running'')\<rparr> else x)" for x
  have ops: "operations d' = map f (operations d)"
    using rec by (auto simp: recover_interrupted_operations_def f_def)
  have key: "o_id (f x) = o_id x" for x by (simp add: f_def)
  have found: "find (\<lambda>x. o_id x = i) (operations d') = map_option f (find (\<lambda>x. o_id x = i) (operations d))"
    for i by (simp add: ops find_map_of key)
  have r: "r = Inr (card {k. k < length (operations d) \<and> o_state (operations d ! k) = OpRunning})"
    using rec by (auto simp: recover_interrupted_operations_def length_filter_conv_card)
  show ?thesis
    unfolding r get_operation_def found
    by (intro conjI allI impI)
      (auto simp: ops f_def scan_operation_def scan_error_def intro!: exI split: option.splits)
qed

theorem recover_interrupted_total_witness:
  "\<exists>v. fst (get_operation ''op_1'' (snd (recover_interrupted_operations (9 * second)
      (snd (create_operation 0 ''op_1'' ''create'' ''pr-1'' open_db))))) = Inr v
     \<and> op_st v = OpFailed \<and> op_error_code v = ''interrupted''"
proof -
  let ?d = "snd (create_operation 0 ''op_1'' ''create'' ''pr-1'' open_db)"
  have before: "\<exists>v. fst (get_operation ''op_1'' ?d) = Inr v \<and> op_st v = OpRunning"
    by (simp add: get_operation_def create_operation_def open_db_def scan_operation_def scan_error_def)
  then obtain v where "fst (get_operation ''op_1'' ?d) = Inr v" and "op_st v = OpRunning" by blast
  with recover_interrupted_total [OF surjective_pairing, of "9 * second" ?d] show ?thesis by fastforce
qed

text \<open>Diagnostics of a failed branch: after SetError the branch reads as error with exactly the
  recorded operation, code, message, recoverability and suggestions; a second SetError keeps the
  time of the first; and SetState to any other state clears every diagnostic.\<close>

theorem error_diagnostics:
  assumes "has_branch n d" and e1: "d1 = snd (set_error t1 n op1 code1 rec1 msg1 sug1 d)"
    and e2: "d2 = snd (set_error t2 n op2 code2 rec2 msg2 sug2 d1)"
    and s: "d3 = snd (set_state t3 n st [] d2)" and st: "st \<noteq> Error_state"
  shows "\<exists>b1 b2 b3. fst (get_branch n d1) = Inr b1 \<and> fst (get_branch n d2) = Inr b2
     \<and> fst (get_branch n d3) = Inr b3
     \<and> b_state b1 = Error_state \<and> b_failed_op b1 = op1 \<and> b_err_code b1 = code1
     \<and> b_recoverable b1 = rec1 \<and> b_err_msg b1 = msg1 \<and> b_suggested b1 = sug1
     \<and> b_error_at b2 = b_error_at b1 \<and> b_error_at b1 \<noteq> None \<and> b_failed_op b2 = op2
     \<and> b_state b3 = st \<and> b_failed_op b3 = [] \<and> b_err_code b3 = [] \<and> \<not> b_recoverable b3
     \<and> b_suggested b3 = [] \<and> b_error_at b3 = None \<and> b_err_msg b3 = []"
proof -
  obtain r where "row_of d n = Some r" using assms(1) by (auto simp: has_branch_row)
  then show ?thesis
    using st by (simp add: e1 e2 s get_branch_row rows scan_branch_def str_or_empty_def bool_to_int_def
        split: option.splits)
qed

theorem error_diagnostics_witness:
  "\<exists>b. fst (get_branch ''pr-1'' (snd (set_error (5 * second) ''pr-1'' ''create'' ''clone_failed'' True
      ''clone: no space'' [] (snd (create_branch 0 ''pr-1'' 3401 ''base@b'' open_db))))) = Inr b
     \<and> b_failed_op b = ''create'' \<and> b_recoverable b"
proof -
  have h: "has_branch ''pr-1'' (snd (create_branch 0 ''pr-1'' 3401 ''base@b'' open_db))"
    by (simp add: has_branch_def create_branch_def open_db_def)
  show ?thesis using error_diagnostics [OF h refl refl refl, of Running] by blast
qed

text \<open>A token authenticates (LookupTokenHash) from its creation until it is revoked: the
  lookup of its hash returns its name and its scope, admin when none was given, and after
  RevokeToken the hash is unknown. Lookups only write the time of last use.\<close>

theorem token_lifecycle:
  assumes "n \<notin> t_name ` set (tokens d)" and "h \<notin> t_hash ` set (tokens d)"
    and c: "create_token t0 n h sc d = (r, d1)"
  shows "r = Inr ()
     \<and> fst (lookup_token_hash t1 h d1) = Inr (Some (n, if sc = [] then scope_admin else sc))
     \<and> fst (lookup_token_hash t2 h (snd (revoke_token n (snd (lookup_token_hash t1 h d1))))) = Inr None
     \<and> map t_name (tokens (snd (lookup_token_hash t1 h d1))) = map t_name (tokens d1)"
proof -
  let ?row = "\<lparr>t_name = n, t_hash = h, t_created = db_time t0, t_last_used = None,
             t_scope = Some (if sc = [] then scope_admin else sc)\<rparr>"
  have none: "find (\<lambda>t. t_hash t = h) (tokens d) = None"
    using assms(2) find_None_key [of t_hash h "tokens d"] by simp
  from c assms(1) have r: "r = Inr ()" and tk: "tokens d1 = tokens d @ [?row]"
    by (auto simp: create_token_def)
  have found: "find (\<lambda>t. t_hash t = h) (tokens d1) = Some ?row"
    by (simp add: tk find_append none)
  have upd: "map (\<lambda>t. if t_hash t = h then t\<lparr>t_last_used := Some (db_time t1)\<rparr> else t) (tokens d) = tokens d"
    using assms(2) by (intro map_idI) auto
  have gone: "find (\<lambda>t. t_hash t = h) (filter (\<lambda>t. t_name t \<noteq> n) (tokens d)) = None"
    using assms(2) by (auto simp: find_None_iff)
  show ?thesis
    using found gone
    by (simp add: r lookup_token_hash_def token_scope_def scope_admin_def revoke_token_def tk upd none
        find_append del: find_None_iff)
qed

theorem token_lifecycle_witness:
  "fst (lookup_token_hash 0 ''ab12'' (snd (create_token 0 ''ci'' ''ab12'' ''branches'' open_db)))
     = Inr (Some (''ci'', ''branches''))"
  using token_lifecycle [OF _ _ surjective_pairing, of "''ci''" open_db "''ab12''" 0 "''branches''" 0]
  by (simp add: open_db_def)

end
