(* ===== verification/Backend.thy ===== *)
theory Backend
  imports Effect StateFacts
begin

text \<open>
  What package workspace is built on: the interfaces \<^verbatim>\<open>storage.Storage\<close> (with its optional
  companions), \<^verbatim>\<open>engine.Engine\<close> and the hook runner, the clock and the machine. Their
  implementations act on a world of type \<open>'w\<close> that the manager cannot see; the record
  \<open>env\<close> holds one function per method, \<open>None\<close> for an optional interface that the backend
  does not implement. Nothing is assumed of these functions: every call may fail and may change
  the world. The state of the manager is its database, the world, its in-memory maps, and a log
  of the calls it made to storage and engine, newest first, which the program does not keep
  and which only serves to state what it did.
\<close>

section \<open>The types of storage.go, engine.go and hooks.go\<close>

record caps =
  fast_rollback :: bool
  typical_create :: int
  clones_distinct :: bool

record volume =
  v_name :: string
  v_dataset :: string
  v_path :: string

datatype job_status = JobRunning | JobCompleted | JobFailed

record inst =
  i_branch :: string
  i_datadir :: string
  i_port :: int

text \<open>A \<^verbatim>\<open>hooks.Event\<close> is a string: the five constants, or any other name a request gives.\<close>

datatype hook_event = OnCreate | OnRecreate | OnReset | OnDelete | OnBaselineValidate
  | OtherEvent string

fun event_name :: "hook_event \<Rightarrow> string" where
  "event_name OnCreate = ''on-create''"
| "event_name OnRecreate = ''on-recreate''"
| "event_name OnReset = ''on-reset''"
| "event_name OnDelete = ''on-delete''"
| "event_name OnBaselineValidate = ''on-baseline-validate''"
| "event_name (OtherEvent s) = s"

definition event_of :: "string \<Rightarrow> hook_event" where
  "event_of s = (case find (\<lambda>ev. event_name ev = s)
       [OnCreate, OnRecreate, OnReset, OnDelete, OnBaselineValidate] of
     Some ev \<Rightarrow> ev | None \<Rightarrow> OtherEvent s)"

lemma event_name_of: "event_name (event_of s) = s"
  by (auto simp: event_of_def find_Some_iff split: option.split)

record hook_env =
  he_branch :: string
  he_port :: int
  he_socket :: string
  he_datadir :: string
  he_engine :: string
  he_admin :: string
  he_origin :: string
  he_state_dir :: string
  he_source :: string
  he_owner :: string
  he_purpose :: string
  he_profile :: string
  he_schema_rev :: string

text \<open>A call out of the program.\<close>

type_synonym ('w, 'a) ext = "'w \<Rightarrow> (err + 'a) \<times> 'w"

record 'w storage_api =
  st_caps :: caps
  st_clone :: "string \<Rightarrow> string \<Rightarrow> ('w, volume) ext"
  st_snapshot_init :: "volume \<Rightarrow> ('w, string) ext"
  st_rollback :: "volume \<Rightarrow> string \<Rightarrow> ('w, unit) ext"
  st_delete_async :: "volume \<Rightarrow> ('w, string) ext"
  st_poll :: "string \<Rightarrow> ('w, job_status) ext"
  st_snapshot_base :: "string \<Rightarrow> ('w, string) ext"
  st_list_snapshots :: "('w, string list) ext"
  st_used_bytes :: "volume \<Rightarrow> ('w, int) ext"
  st_rename :: "(volume \<Rightarrow> string \<Rightarrow> ('w, volume) ext) option"
  st_pool_capacity :: "('w, int \<times> int) ext option"
  st_pool_status :: "('w, bool \<times> string) ext option"
  st_promote :: "(volume \<Rightarrow> string \<Rightarrow> ('w, string) ext) option"
  st_logical_bytes :: "(volume \<Rightarrow> ('w, int) ext) option"
  st_list_volumes :: "('w, string list) ext option"
  st_set_quota :: "(volume \<Rightarrow> int \<Rightarrow> ('w, unit) ext) option"
  st_resolve :: "(string \<Rightarrow> ('w, volume) ext) option"
  st_delete_baseline :: "(string \<Rightarrow> ('w, unit) ext) option"
  st_base_path :: "('w, string) ext option"
  st_base_name :: "(string \<Rightarrow> string) option"

record 'w engine_api =
  en_start :: "inst \<Rightarrow> ('w, unit) ext"
  en_stop :: "inst \<Rightarrow> ('w, unit) ext"
  en_kill :: "inst \<Rightarrow> ('w, unit) ext"
  en_wait_ready :: "inst \<Rightarrow> ('w, unit) ext"
  en_is_running :: "inst \<Rightarrow> ('w, bool) ext"
  en_conn_count :: "(inst \<Rightarrow> ('w, int) ext) option"
  en_exposed :: "(inst list \<Rightarrow> ('w, string list) ext) option"

text \<open>
  The runner of hooks: whether an executable for the event is found, and a run, which gives an
  exit code and, when it failed, an error, and the environment it gives to programs.
\<close>

record 'w hook_api =
  hk_find :: "hook_event \<Rightarrow> 'w \<Rightarrow> bool \<times> 'w"
  hk_run :: "hook_event \<Rightarrow> hook_env \<Rightarrow> 'w \<Rightarrow> (err option \<times> int) \<times> 'w"
  hk_base_env :: "string list"

section \<open>Configuration\<close>

record profile_policy =
  pp_idle_stop :: int
  pp_delete_idle :: int

text \<open>
  \<^verbatim>\<open>workspace.Config\<close>: \<open>c_name_re\<close> is the compiled \<^verbatim>\<open>NamePattern\<close>, a watermark
  (a float64 in the source) is a fraction of two integers, so that comparing a ratio with it is
  exact. The denominator 0 stands for one that is not finite: (1, 0), for NaN, passes for a mark that
  is set and that no ratio reaches, as the comparisons of the source with NaN come out.
\<close>

record mconfig =
  c_name_re :: "string \<Rightarrow> bool"
  c_max_branches :: int
  c_port_low :: int
  c_port_high :: int
  c_engine_type :: string
  c_state_dir :: string
  c_lazy_create :: bool
  c_lazy_max_wait :: int
  c_idle_stop :: int
  c_delete_idle :: int
  c_op_retention :: int
  c_error_retention :: int
  c_profiles :: "(string \<times> profile_policy) list"
  c_default_profile :: string
  c_expected_rss :: int
  c_headroom :: int
  c_buffer_pool :: int
  c_max_running :: int
  c_high_mark :: "int \<times> int"
  c_critical_mark :: "int \<times> int"
  c_keep_last :: int
  c_retention :: int
  c_quota :: int
  c_mysqld :: string
  c_extra_cnf :: string
  c_pg_bin_dir :: string
  c_pg_run_user :: string
  c_app_user :: string
  c_app_pass :: string
  c_root_helper :: string

text \<open>
  \<^verbatim>\<open>RefreshConfig\<close>: the request of a refresh, and the policy of the daemon. A path of the
  source loader or a quiesce check may be given, else the defaults are used.
\<close>

record 'w refresh_config =
  rc_script :: string
  rc_timeout :: int
  rc_source_dir :: string
  rc_source_db :: string
  rc_run_source :: "('w, unit) ext option"
  rc_app_user_only :: bool
  rc_use_loader :: bool
  rc_check_quiesced :: "('w, unit) ext option"
  rc_require_masked :: bool
  rc_require_validated :: bool
  rc_validate_port :: int
  rc_sentinel :: string
  rc_skip_validate :: bool

record 'w env =
  sto :: "'w storage_api"
  eng :: "'w engine_api"
  hks :: "'w hook_api option"
  cfg :: mconfig
  clock :: "'w \<Rightarrow> int \<times> 'w"
  sleeping :: "int \<Rightarrow> 'w \<Rightarrow> 'w"
  ctx_err :: "'w \<Rightarrow> err option \<times> 'w"
  sql_fault :: "'w \<Rightarrow> err option \<times> 'w"
  avail_mem :: "('w, int) ext option"
  active_conns_fn :: "(string \<Rightarrow> 'w \<Rightarrow> int \<times> 'w) option"
  default_baseline :: "'w \<Rightarrow> string \<times> 'w"

section \<open>The state of the manager\<close>

datatype event =
    EvClone string string "volume option"
  | EvInit volume bool
  | EvPromote volume string bool
  | EvSnapBase string bool
  | EvQuiesced bool
  | EvRollback volume string bool
  | EvDelete volume bool
  | EvRename volume string bool
  | EvQuota volume int bool
  | EvDropSnapshot string bool
  | EvStart inst bool
  | EvStop inst bool
  | EvKill inst bool
  | EvReady inst bool
  | EvHook hook_event string bool

fun is_snapshot :: "event \<Rightarrow> bool" where
  "is_snapshot (EvInit v ok) = True"
| "is_snapshot (EvPromote v tag ok) = True"
| "is_snapshot (EvSnapBase tag ok) = True"
| "is_snapshot _ = False"

record 'w mgr =
  mdb :: db
  world :: 'w
  trace :: "event list"
  last_touch :: "string \<rightharpoonup> int"
  poll_conns :: "string \<Rightarrow> int"
  conn_fails :: "string \<Rightarrow> int"
  reap_logged :: "string \<rightharpoonup> string"
  refresh_running :: bool
  refresh_job :: "('w refresh_config \<times> string) option"
  refresh_err :: string

text \<open>\<^verbatim>\<open>New\<close>, with an empty database.\<close>

definition start_state :: "'w \<Rightarrow> 'w mgr" where
  "start_state w = \<lparr>mdb = open_db, world = w, trace = [], last_touch = Map.empty,
     poll_conns = (\<lambda>_. 0), conn_fails = (\<lambda>_. 0), reap_logged = Map.empty,
     refresh_running = False, refresh_job = None, refresh_err = []\<rparr>"

type_synonym ('w, 'a) mact = "('w mgr, 'a) act"

definition is_ok :: "err + 'a \<Rightarrow> bool" where
  "is_ok r = (case r of Inl _ \<Rightarrow> False | Inr _ \<Rightarrow> True)"

definition ok_value :: "err + 'a \<Rightarrow> 'a option" where
  "ok_value r = (case r of Inl _ \<Rightarrow> None | Inr a \<Rightarrow> Some a)"

definition ext :: "('w, 'a) ext \<Rightarrow> ('w, 'a) mact" where
  "ext c s = (case c (world s) of (r, w) \<Rightarrow> (r, s\<lparr>world := w\<rparr>))"

definition logged :: "(err + 'a \<Rightarrow> event) \<Rightarrow> ('w, 'a) ext \<Rightarrow> ('w, 'a) mact" where
  "logged ev c s = (case c (world s) of (r, w) \<Rightarrow> (r, s\<lparr>world := w, trace := ev r # trace s\<rparr>))"

definition pure_ext :: "('w \<Rightarrow> 'a \<times> 'w) \<Rightarrow> ('w, 'a) mact" where
  "pure_ext c s = (case c (world s) of (a, w) \<Rightarrow> (Inr a, s\<lparr>world := w\<rparr>))"

text \<open>A statement of package state: the driver may fail before it takes effect.\<close>

definition sql :: "'w env \<Rightarrow> 'a sql \<Rightarrow> ('w, 'a) mact" where
  "sql E q s = (case sql_fault E (world s) of
       (Some e, w) \<Rightarrow> (Inl e, s\<lparr>world := w\<rparr>)
     | (None, w) \<Rightarrow> (case q (mdb s) of (r, d) \<Rightarrow> (r, s\<lparr>world := w, mdb := d\<rparr>)))"

definition now :: "'w env \<Rightarrow> ('w, int) mact" where
  "now E = pure_ext (clock E)"

definition sql_at :: "'w env \<Rightarrow> (int \<Rightarrow> 'a sql) \<Rightarrow> ('w, 'a) mact" where
  "sql_at E q = check (now E) (\<lambda>t. sql E (q t))"

section \<open>Calls to storage and engine, logged\<close>

definition clone_vol :: "'w env \<Rightarrow> string \<Rightarrow> string \<Rightarrow> ('w, volume) mact" where
  "clone_vol E orig name = logged (\<lambda>r. EvClone orig name (ok_value r)) (st_clone (sto E) orig name)"

definition snapshot_init :: "'w env \<Rightarrow> volume \<Rightarrow> ('w, string) mact" where
  "snapshot_init E v = logged (\<lambda>r. EvInit v (is_ok r)) (st_snapshot_init (sto E) v)"

definition rollback :: "'w env \<Rightarrow> volume \<Rightarrow> string \<Rightarrow> ('w, unit) mact" where
  "rollback E v snap = logged (\<lambda>r. EvRollback v snap (is_ok r)) (st_rollback (sto E) v snap)"

definition delete_async :: "'w env \<Rightarrow> volume \<Rightarrow> ('w, string) mact" where
  "delete_async E v = logged (\<lambda>r. EvDelete v (is_ok r)) (st_delete_async (sto E) v)"

definition eng_start :: "'w env \<Rightarrow> inst \<Rightarrow> ('w, unit) mact" where
  "eng_start E i = logged (\<lambda>r. EvStart i (is_ok r)) (en_start (eng E) i)"

definition eng_stop :: "'w env \<Rightarrow> inst \<Rightarrow> ('w, unit) mact" where
  "eng_stop E i = logged (\<lambda>r. EvStop i (is_ok r)) (en_stop (eng E) i)"

definition eng_kill :: "'w env \<Rightarrow> inst \<Rightarrow> ('w, unit) mact" where
  "eng_kill E i = logged (\<lambda>r. EvKill i (is_ok r)) (en_kill (eng E) i)"

definition wait_ready :: "'w env \<Rightarrow> inst \<Rightarrow> ('w, unit) mact" where
  "wait_ready E i = logged (\<lambda>r. EvReady i (is_ok r)) (en_wait_ready (eng E) i)"

text \<open>\<^verbatim>\<open>if job, err := DeleteAsync(vol); err == nil { Poll(job) }\<close>, all outcomes dropped.\<close>

definition delete_and_poll :: "'w env \<Rightarrow> volume \<Rightarrow> ('w, unit) mact" where
  "delete_and_poll E v = handle_err (delete_async E v) (\<lambda>_. ret ())
     (\<lambda>job. ignoring (ext (st_poll (sto E) job)) (ret ()))"

section \<open>Waiting\<close>

definition pause_for :: "'w env \<Rightarrow> int \<Rightarrow> ('w, unit) mact" where
  "pause_for E d = modifying (\<lambda>s. s\<lparr>world := sleeping E d (world s)\<rparr>)"

definition out_of_fuel :: err where
  "out_of_fuel = EText ''out of fuel''"

text \<open>
  \<^verbatim>\<open>for time.Now().Before(deadline) { \<dots>; time.Sleep(pause) }\<close>: every waiting loop of the
  program has this form, with a body that may leave the loop. It ends because the clock
  advances, so the model takes fuel; \<open>out_of_fuel\<close> marks a run that the model cut off, and
  \<open>polling_fuel\<close> below says how much fuel is enough.
\<close>

primrec polling ::
  "'w env \<Rightarrow> int \<Rightarrow> int \<Rightarrow> ('w, 'a option) mact \<Rightarrow> ('w, 'a) mact \<Rightarrow> nat \<Rightarrow> ('w, 'a) mact" where
  "polling E deadline pause body late 0 = throw out_of_fuel"
| "polling E deadline pause body late (Suc n) = check (now E) (\<lambda>t.
     if \<not> t < deadline then late
     else check body (\<lambda>r. case r of
         Some a \<Rightarrow> ret a
       | None \<Rightarrow> check (pause_for E pause) (\<lambda>_. polling E deadline pause body late n)))"

text \<open>
  A clock that never goes back and counts the time slept: \<open>T\<close> is the time a world shows, and
  \<open>timely T m\<close> says that \<open>m\<close> does not turn it back.
\<close>

definition ticking :: "'w env \<Rightarrow> ('w \<Rightarrow> int) \<Rightarrow> bool" where
  "ticking E T \<longleftrightarrow> (\<forall>w. fst (clock E w) = T w \<and> T w \<le> T (snd (clock E w)))
     \<and> (\<forall>d w. T w + d \<le> T (sleeping E d w))"

definition timely :: "('w \<Rightarrow> int) \<Rightarrow> ('w, 'a) mact \<Rightarrow> bool" where
  "timely T m \<longleftrightarrow> (\<forall>s. T (world s) \<le> T (world (snd (m s))))"

definition rounds :: "int \<Rightarrow> int \<Rightarrow> int \<Rightarrow> nat" where
  "rounds t deadline pause = Suc (nat ((deadline - t) div pause + 1))"

lemma rounds_later:
  assumes "t < deadline" and "t + pause \<le> t'" and "pause > 0"
  shows "rounds t' deadline pause < rounds t deadline pause"
proof -
  have "(deadline - t') div pause \<le> (deadline - t - pause) div pause"
    using assms by (intro zdiv_mono1) auto
  also have "\<dots> = (deadline - t) div pause - 1"
    using assms div_add_self2 [of pause "deadline - t - pause"] by simp
  finally show ?thesis
    using assms by (simp add: rounds_def pos_imp_zdiv_nonneg_iff)
qed

lemma polling_Suc: "polling E dl pause body late (Suc n) s =
    (case clock E (world s) of (t, w) \<Rightarrow>
       if \<not> t < dl then late (s\<lparr>world := w\<rparr>)
       else (case body (s\<lparr>world := w\<rparr>) of
           (Inl e, s') \<Rightarrow> (Inl e, s')
         | (Inr (Some a), s') \<Rightarrow> (Inr a, s')
         | (Inr None, s') \<Rightarrow>
             polling E dl pause body late n (s'\<lparr>world := sleeping E pause (world s')\<rparr>)))"
  by (simp add: check_def now_def pure_ext_def ret_def pause_for_def modifying_def
      split: prod.split sum.split option.split)

lemma polling_fuel:
  assumes tick: "ticking E T" and body: "timely T body" and pause: "pause > 0"
    and n: "rounds (T (world s)) dl pause \<le> n" and k: "rounds (T (world s)) dl pause \<le> k"
  shows "polling E dl pause body late n s = polling E dl pause body late k s"
  using n k
proof (induction n arbitrary: k s)
  case 0
  then show ?case by (simp add: rounds_def)
next
  case (Suc n)
  obtain k' where k: "k = Suc k'" using Suc.prems by (cases k) (simp_all add: rounds_def)
  obtain t w where c: "clock E (world s) = (t, w)" by (cases "clock E (world s)")
  have t: "t = T (world s)" "T (world s) \<le> T w"
    using tick c unfolding ticking_def by (metis fst_conv snd_conv)+
  obtain r s' where b: "body (s\<lparr>world := w\<rparr>) = (r, s')" by (cases "body (s\<lparr>world := w\<rparr>)")
  let ?s = "s'\<lparr>world := sleeping E pause (world s')\<rparr>"
  have "T w \<le> T (world s')"
    using body b unfolding timely_def by (metis mgr.select_convs(2) mgr.surjective mgr.update_convs(2) snd_conv)
  then have later: "T (world s) + pause \<le> T (world ?s)"
    using tick t unfolding ticking_def by (smt (verit) mgr.select_convs(2) mgr.surjective mgr.update_convs(2))
  have "polling E dl pause body late n ?s = polling E dl pause body late k' ?s" if "t < dl"
    using rounds_later [OF _ later pause, of dl] that t Suc.prems k by (intro Suc.IH) auto
  then show ?case by (simp only: polling_Suc c b k prod.case) (simp split: sum.split option.split)
qed

text \<open>
  A wait for at most \<open>timeout\<close> from now on. The fuel is what the timeout needs at the given
  pause, so with a ticking clock it never runs out.
\<close>

definition wait_within ::
  "'w env \<Rightarrow> int \<Rightarrow> int \<Rightarrow> ('w, 'a option) mact \<Rightarrow> ('w, 'a) mact \<Rightarrow> ('w, 'a) mact" where
  "wait_within E timeout pause body late = check (now E) (\<lambda>t.
     polling E (t + timeout) pause body late (rounds 0 timeout pause))"

lemma wait_within_fuel:
  assumes tick: "ticking E T" and body: "timely T body" and pause: "pause > 0"
    and n: "rounds 0 timeout pause \<le> n"
  shows "wait_within E timeout pause body late s =
    check (now E) (\<lambda>t. polling E (t + timeout) pause body late n) s"
proof -
  obtain t w where c: "clock E (world s) = (t, w)" by (cases "clock E (world s)")
  then have t: "t \<le> T w" using tick unfolding ticking_def by (metis fst_conv snd_conv)
  have "rounds (T w) (t + timeout) pause \<le> rounds 0 timeout pause"
    using t pause by (simp add: rounds_def zdiv_mono1 nat_mono)
  then have "polling E (t + timeout) pause body late (rounds 0 timeout pause) (s\<lparr>world := w\<rparr>)
      = polling E (t + timeout) pause body late n (s\<lparr>world := w\<rparr>)"
    using n by (intro polling_fuel [OF tick body pause]) simp_all
  then show ?thesis by (simp add: wait_within_def check_def now_def pure_ext_def c)
qed

text \<open>So a wait that reports \<open>out_of_fuel\<close> got it from its body.\<close>

definition raises :: "('w, 'a) mact \<Rightarrow> err \<Rightarrow> bool" where
  "raises m e \<longleftrightarrow> (\<exists>s. fst (m s) = Inl e)"

lemma polling_in_time:
  assumes tick: "ticking E T" and body: "timely T body" and pause: "pause > 0"
    and no: "\<not> raises body out_of_fuel" "\<not> raises late out_of_fuel"
    and n: "rounds (T (world s)) dl pause \<le> n"
  shows "fst (polling E dl pause body late n s) \<noteq> Inl out_of_fuel"
  using n
proof (induction n arbitrary: s)
  case 0
  then show ?case by (simp add: rounds_def)
next
  case (Suc n)
  obtain t w where c: "clock E (world s) = (t, w)" by (cases "clock E (world s)")
  have t: "t = T (world s)" "T (world s) \<le> T w"
    using tick c unfolding ticking_def by (metis fst_conv snd_conv)+
  obtain r s' where b: "body (s\<lparr>world := w\<rparr>) = (r, s')" by (cases "body (s\<lparr>world := w\<rparr>)")
  let ?s = "s'\<lparr>world := sleeping E pause (world s')\<rparr>"
  have "T w \<le> T (world s')"
    using body b unfolding timely_def by (metis mgr.select_convs(2) mgr.surjective mgr.update_convs(2) snd_conv)
  then have later: "T (world s) + pause \<le> T (world ?s)"
    using tick t unfolding ticking_def by (smt (verit) mgr.select_convs(2) mgr.surjective mgr.update_convs(2))
  have "fst (polling E dl pause body late n ?s) \<noteq> Inl out_of_fuel" if "t < dl"
    using rounds_later [OF _ later pause, of dl] that t Suc.prems by (intro Suc.IH) auto
  moreover have "r \<noteq> Inl out_of_fuel" "fst (late (s\<lparr>world := w\<rparr>)) \<noteq> Inl out_of_fuel"
    using no b unfolding raises_def by (metis fst_conv)+
  ultimately show ?case
    by (simp only: polling_Suc c b prod.case) (auto split: sum.split option.split)
qed

lemma wait_within_in_time:
  assumes tick: "ticking E T" and body: "timely T body" and pause: "pause > 0"
    and no: "\<not> raises body out_of_fuel" "\<not> raises late out_of_fuel"
  shows "fst (wait_within E timeout pause body late s) \<noteq> Inl out_of_fuel"
proof -
  obtain t w where c: "clock E (world s) = (t, w)" by (cases "clock E (world s)")
  then have t: "t \<le> T w" using tick unfolding ticking_def by (metis fst_conv snd_conv)
  have "rounds (T w) (t + timeout) pause \<le> rounds 0 timeout pause"
    using t pause by (simp add: rounds_def zdiv_mono1 nat_mono)
  then have "fst (polling E (t + timeout) pause body late (rounds 0 timeout pause) (s\<lparr>world := w\<rparr>))
      \<noteq> Inl out_of_fuel"
    using polling_in_time [OF tick body pause no, of "s\<lparr>world := w\<rparr>"] by simp
  then show ?thesis by (simp add: wait_within_def check_def now_def pure_ext_def c)
qed

end
