(* ===== verification/Manager.thy ===== *)
theory Manager
  imports Backend
begin

text \<open>
  internal/workspace/manager.go and errors.go: the life cycle of branches. Each method is a
  function of the environment \<open>E\<close> and an action on the manager's state. A method that takes
  the lock of its branch runs as one action; the sections under \<^verbatim>\<open>admitMu\<close> are
  definitions of their own (\<open>admit_create\<close>, \<open>admit_recreate\<close>, \<open>admit_wake\<close>).
\<close>

section \<open>Names, ports, profiles\<close>

definition recreating_suffix :: string where
  "recreating_suffix = ''-recreating''"

definition is_reserved :: "string \<Rightarrow> bool" where
  "is_reserved name \<longleftrightarrow>
     (name \<noteq> [] \<and> hd name = CHR ''_'') \<or> has_suffix name recreating_suffix"

definition valid_name :: "'w env \<Rightarrow> string \<Rightarrow> bool" where
  "valid_name E name = c_name_re (cfg E) name"

definition quoted :: "string \<Rightarrow> string" where
  "quoted s = CHR 0x22 # s @ [CHR 0x22]"

definition first_free :: "int list \<Rightarrow> int \<Rightarrow> int \<Rightarrow> int option" where
  "first_free used lo hi = find (\<lambda>p. p \<notin> set used) [lo..hi]"

definition alloc_port :: "'w env \<Rightarrow> int \<Rightarrow> ('w, int) mact" where
  "alloc_port E requested = check (sql E used_ports) (\<lambda>used.
     if requested \<noteq> 0 then
       if requested < c_port_low (cfg E) \<or> requested > c_port_high (cfg E)
       then throw (EText (''port '' @ show_int requested @ '' out of range [''
              @ show_int (c_port_low (cfg E)) @ '', '' @ show_int (c_port_high (cfg E)) @ '']''))
       else if requested \<in> set used
       then throw (EText (''port '' @ show_int requested @ '' already in use''))
       else ret requested
     else (case first_free used (c_port_low (cfg E)) (c_port_high (cfg E)) of
             Some p \<Rightarrow> ret p | None \<Rightarrow> throw ENoFreePort))"

definition resolve_profile_name :: "'w env \<Rightarrow> string \<Rightarrow> err + string" where
  "resolve_profile_name E name =
     (let n = (if name = [] then c_default_profile (cfg E) else name)
      in if n = [] \<or> c_profiles (cfg E) = [] then Inr n
         else (case map_of (c_profiles (cfg E)) n of
                 None \<Rightarrow> Inl (EWrap [] EUnknownProfile ('': '' @ quoted n))
               | Some _ \<Rightarrow> Inr n))"

definition resolve_profile :: "'w env \<Rightarrow> string \<Rightarrow> profile_policy" where
  "resolve_profile E name =
     (let pol = \<lparr>pp_idle_stop = c_idle_stop (cfg E), pp_delete_idle = c_delete_idle (cfg E)\<rparr>
      in case map_of (c_profiles (cfg E)) name of
           None \<Rightarrow> pol
         | Some p \<Rightarrow> \<lparr>pp_idle_stop = (if pp_idle_stop p > 0 then pp_idle_stop p else pp_idle_stop pol),
                      pp_delete_idle = (if pp_delete_idle p > 0 then pp_delete_idle p
                                        else pp_delete_idle pol)\<rparr>)"

section \<open>Admission\<close>

definition mib :: int where "mib = 1024 * 1024"

definition expected_rss :: "'w env \<Rightarrow> int" where
  "expected_rss E =
     (if c_expected_rss (cfg E) > 0 then c_expected_rss (cfg E)
      else if c_buffer_pool (cfg E) > 0 then c_buffer_pool (cfg E) + 300 * mib else 0)"

definition occupies_engine :: "bstate \<Rightarrow> bool" where
  "occupies_engine st = (case st of Running \<Rightarrow> True | Creating \<Rightarrow> True | Resetting \<Rightarrow> True | _ \<Rightarrow> False)"

definition admit_running :: "'w env \<Rightarrow> string \<Rightarrow> ('w, unit) mact" where
  "admit_running E op' =
     (if c_max_running (cfg E) > 0 then
        check (sql E list_branches) (\<lambda>bs.
          let running = int (length (filter (\<lambda>b. occupies_engine (b_state b)) bs)) in
          if running \<ge> c_max_running (cfg E)
          then throw (EWrap [] ELimitReached ('': max_running reached ('' @ show_int running
                 @ '' running, op='' @ op' @ '')''))
          else ret ())
      else ret ())"

definition admit_memory :: "'w env \<Rightarrow> string \<Rightarrow> ('w, unit) mact" where
  "admit_memory E op' = check (admit_running E op') (\<lambda>_.
     case avail_mem E of
       None \<Rightarrow> ret ()
     | Some am \<Rightarrow>
         if expected_rss E \<le> 0 then ret ()
         else handle_err (ext am) (\<lambda>_. ret ()) (\<lambda>avail.
           let headroom = (if c_headroom (cfg E) \<le> 0 then expected_rss E else c_headroom (cfg E));
               need = expected_rss E + headroom
           in if avail < need
              then throw (EWrap [] ELimitReached ('': memory (available ''
                     @ show_int (avail div mib) @ ''MB < required '' @ show_int (need div mib)
                     @ ''MB, op='' @ op' @ '')''))
              else ret ()))"

text \<open>\<^verbatim>\<open>float64(used)/float64(total) >= watermark\<close> for a positive total.\<close>

definition above_mark :: "int \<Rightarrow> int \<Rightarrow> int \<times> int \<Rightarrow> bool" where
  "above_mark used tot mark \<longleftrightarrow> used * snd mark \<ge> fst mark * tot"

text \<open>\<^verbatim>\<open>%.0f\<close> of a percentage: to the nearest integer, a tie to the even one.\<close>

definition percent :: "int \<Rightarrow> int \<Rightarrow> string" where
  "percent num den = (let q = (100 * num) div den; r = (100 * num) mod den
     in show_int (if 2 * r > den \<or> (2 * r = den \<and> odd q) then q + 1 else q))"

definition admit_storage :: "'w env \<Rightarrow> string \<Rightarrow> ('w, unit) mact" where
  "admit_storage E op' =
     (if fst (c_critical_mark (cfg E)) \<le> 0 then ret ()
      else (case st_pool_capacity (sto E) of
        None \<Rightarrow> ret ()
      | Some pc \<Rightarrow> handle_err (ext pc) (\<lambda>_. ret ()) (\<lambda>(used, tot).
          if tot \<le> 0 then ret ()
          else if above_mark used tot (c_critical_mark (cfg E))
          then throw (EWrap [] ELimitReached ('': storage (pool '' @ percent used tot
                 @ ''% >= critical '' @ percent (fst (c_critical_mark (cfg E)))
                     (snd (c_critical_mark (cfg E))) @ ''%, op='' @ op' @ '')''))
          else ret ())))"

section \<open>Helpers of the handlers\<close>

definition apply_quota :: "'w env \<Rightarrow> volume \<Rightarrow> ('w, unit) mact" where
  "apply_quota E v =
     (if c_quota (cfg E) \<le> 0 then ret ()
      else (case st_set_quota (sto E) of
        None \<Rightarrow> ret ()
      | Some q \<Rightarrow> logged (\<lambda>r. EvQuota v (c_quota (cfg E)) (is_ok r)) (q v (c_quota (cfg E)))))"

definition instance_for :: "string \<Rightarrow> int \<Rightarrow> volume \<Rightarrow> inst" where
  "instance_for name port v = \<lparr>i_branch = name, i_datadir = v_path v @ ''/data'', i_port = port\<rparr>"

definition instance_of :: "branch \<Rightarrow> volume \<Rightarrow> inst" where
  "instance_of b v = instance_for (b_name b) (b_port b) v"

definition resolve_volume :: "'w env \<Rightarrow> string \<Rightarrow> ('w, volume) mact" where
  "resolve_volume E name = (case st_resolve (sto E) of
      Some r \<Rightarrow> ext (r name)
    | None \<Rightarrow> ret \<lparr>v_name = name, v_dataset = [], v_path = []\<rparr>)"

definition hook_env_of :: "'w env \<Rightarrow> branch \<Rightarrow> volume \<Rightarrow> ('w, hook_env) mact" where
  "hook_env_of E b v = attempt (sql E (get_baseline (b_origin b))) (\<lambda>row.
     ret \<lparr>he_branch = b_name b, he_port = b_port b,
          he_socket = ''/tmp/mysql-'' @ b_name b @ ''.sock'',
          he_datadir = v_path v @ ''/data'', he_engine = c_engine_type (cfg E),
          he_admin = ''root'', he_origin = b_origin b,
          he_state_dir = c_state_dir (cfg E) @ ''/'' @ b_name b,
          he_source = b_source b, he_owner = b_owner b, he_purpose = b_purpose b,
          he_profile = b_profile b,
          he_schema_rev = (case row of Inl _ \<Rightarrow> [] | Inr r \<Rightarrow> p_schema_rev (bs_prov r))\<rparr>)"

definition hook_exists :: "'w env \<Rightarrow> hook_event \<Rightarrow> ('w, bool) mact" where
  "hook_exists E ev = (case hks E of None \<Rightarrow> ret False | Some h \<Rightarrow> pure_ext (hk_find h ev))"

text \<open>
  \<^verbatim>\<open>runHook\<close>: the identifier of the run is 0 when recording its start failed, and the
  exit code is recorded whether the run failed or not.
\<close>

definition run_hook :: "'w env \<Rightarrow> hook_event \<Rightarrow> branch \<Rightarrow> volume \<Rightarrow> ('w, unit) mact" where
  "run_hook E ev b v = (case hks E of
      None \<Rightarrow> ret ()
    | Some h \<Rightarrow> check (hook_exists E ev) (\<lambda>found.
        if \<not> found then ret () else
        attempt (sql_at E (\<lambda>t. record_hook_start t (b_name b) (event_name ev))) (\<lambda>rid.
        check (hook_env_of E b v) (\<lambda>henv.
        check (pure_ext (hk_run h ev henv)) (\<lambda>(failure, code).
        ignoring (modifying (\<lambda>s. s\<lparr>trace := EvHook ev (b_name b) (failure = None) # trace s\<rparr>)) (
        ignoring (sql_at E (\<lambda>t. record_hook_finish t (case rid of Inl _ \<Rightarrow> 0 | Inr i \<Rightarrow> i) code)) (
        (case failure of
           Some e \<Rightarrow> throw (EWrap (''hook '' @ event_name ev @ '' failed: '') e [])
         | None \<Rightarrow> ret ()))))))))"

definition current_baseline :: "'w env \<Rightarrow> ('w, string) mact" where
  "current_baseline E = attempt (sql E current_baseline_override) (\<lambda>r.
     case r of Inr (Some snap) \<Rightarrow> ret snap | _ \<Rightarrow> pure_ext (default_baseline E))"

definition baselines_on_dataset :: "'w env \<Rightarrow> string \<Rightarrow> ('w, string list) mact" where
  "baselines_on_dataset E dataset = check (sql E list_baselines) (\<lambda>bls.
     ret (filter (\<lambda>s. has_prefix s (dataset @ ''@'')) (map bs_snapshot bls)))"

definition backs_text :: "string \<Rightarrow> string list \<Rightarrow> string \<Rightarrow> string" where
  "backs_text name backing verb = '': branch '' @ quoted name @ '' holds the data of baselines [''
     @ join_with '' '' backing @ '']; '' @ verb @ '' refused''"

definition refuse_if_backing_baseline ::
  "'w env \<Rightarrow> string \<Rightarrow> volume \<Rightarrow> string \<Rightarrow> ('w, unit) mact" where
  "refuse_if_backing_baseline E name v verb =
     check (baselines_on_dataset E (v_dataset v)) (\<lambda>backing.
       if backing = [] then ret ()
       else throw (EWrap [] EPrecondition (backs_text name backing verb)))"

definition backing_baselines_for_branch :: "'w env \<Rightarrow> string \<Rightarrow> ('w, string list) mact" where
  "backing_baselines_for_branch E name =
     handle_err (resolve_volume E name) (\<lambda>_. ret []) (\<lambda>v. baselines_on_dataset E (v_dataset v))"

definition check_branch_mutation :: "'w env \<Rightarrow> string \<Rightarrow> string \<Rightarrow> ('w, unit) mact" where
  "check_branch_mutation E name verb = check (sql E (get_branch name)) (\<lambda>b.
     check (backing_baselines_for_branch E (b_name b)) (\<lambda>backing.
       if backing \<noteq> [] then throw (EWrap [] EPrecondition (backs_text name backing verb))
       else ret ()))"

record info =
  in_branch :: branch
  in_used :: int
  in_logical :: int
  in_hooks :: "(string \<rightharpoonup> string)"
  in_stale :: bool
  in_backing :: "string list"

definition nonneg_or :: "err + int \<Rightarrow> int" where
  "nonneg_or r = (case r of Inl _ \<Rightarrow> -1 | Inr n \<Rightarrow> if n \<ge> 0 then n else -1)"

definition get_info :: "'w env \<Rightarrow> string \<Rightarrow> ('w, info) mact" where
  "get_info E name = check (sql E (get_branch name)) (\<lambda>b.
     check (handle_err (resolve_volume E (b_name b)) (\<lambda>_. ret ([], -1, -1)) (\<lambda>v.
              attempt (baselines_on_dataset E (v_dataset v)) (\<lambda>backing.
              attempt (ext (st_used_bytes (sto E) v)) (\<lambda>used.
              attempt (case st_logical_bytes (sto E) of None \<Rightarrow> throw ENotFound | Some l \<Rightarrow> ext (l v)) (\<lambda>logical.
              ret ((case backing of Inl _ \<Rightarrow> [] | Inr l \<Rightarrow> l), nonneg_or used, nonneg_or logical))))))
       (\<lambda>(backing, used, logical).
     attempt (sql E (last_hook_status name)) (\<lambda>hs.
     check (current_baseline E) (\<lambda>cur.
     ret \<lparr>in_branch = b, in_used = used, in_logical = logical,
          in_hooks = (case hs of Inl _ \<Rightarrow> Map.empty | Inr m \<Rightarrow> m),
          in_stale = (cur \<noteq> [] \<and> b_origin b \<noteq> cur), in_backing = backing\<rparr>))))"

definition list_info :: "'w env \<Rightarrow> ('w, info list) mact" where
  "list_info E = check (sql E list_branches) (\<lambda>bs.
     fold_act (\<lambda>b out. check (get_info E (b_name b)) (\<lambda>i. ret (out @ [i]))) bs [])"

section \<open>Failures\<close>

definition prefixed :: "string \<Rightarrow> err \<Rightarrow> err" where
  "prefixed p e = EWrap p e []"

text \<open>\<^verbatim>\<open>classify\<close>: the code, whether \<^verbatim>\<open>sashiki retry\<close> may run, and suggestions.\<close>

definition classify :: "string \<Rightarrow> err \<Rightarrow> string \<times> bool \<times> string list" where
  "classify stage e =
     (if contains (err_text e) ''hook'' then (''hook_failed'', True,
         [''check the hook log: /var/log/sashiki/hooks/<branch>-*.log'',
          ''fix the hook and run `sashiki retry <branch>`''])
      else if stage = ''clone'' then (''clone_failed'', True,
         [''check the free space of the pool: `sashiki capacity`'',
          ''check that the baseline exists: `sashiki baseline list`'',
          ''run `sashiki retry <branch>`''])
      else if stage \<in> {''engine-start'', ''engine-ready''} then (''engine_failed'', True,
         [''check the error log of mysqld: /var/log/sashiki/<branch>.err'',
          ''run `sashiki retry <branch>`''])
      else if stage = ''snapshot'' then (''snapshot_error'', False,
         [''check that no process still holds the datadir''])
      else if stage \<in> {''rollback'', ''stash'', ''quota'', ''stop'', ''engine-stop'', ''storage''}
      then (''storage_error'', True,
         [''check the storage log (zfs: journalctl -u sashikid)'', ''run `sashiki retry <branch>`''])
      else (''storage_error'', False, [''check the log and repair by hand'']))"

definition record_failure :: "'w env \<Rightarrow> string \<Rightarrow> string \<Rightarrow> string \<Rightarrow> err \<Rightarrow> ('w, unit) mact" where
  "record_failure E name op' stage e = (case classify stage e of (code, recov, sugg) \<Rightarrow>
     sql_at E (\<lambda>t. set_error t name op' code recov (err_text e) sugg))"

definition fail_op :: "'w env \<Rightarrow> string \<Rightarrow> string \<Rightarrow> string \<Rightarrow> err \<Rightarrow> ('w, 'a) mact" where
  "fail_op E name op' stage e = ignoring (record_failure E name op' stage e) (throw e)"

text \<open>A stage of reset, recreate and wake, and a stage of create, whose error keeps its stage.\<close>

definition failing ::
  "'w env \<Rightarrow> string \<Rightarrow> string \<Rightarrow> string \<Rightarrow> (err \<Rightarrow> err) \<Rightarrow> ('w, 'a) mact \<Rightarrow> ('w, 'a) mact" where
  "failing E name op' stage wrap m = handle_err m (\<lambda>e. fail_op E name op' stage (wrap e)) ret"

definition staged ::
  "'w env \<Rightarrow> string \<Rightarrow> string \<Rightarrow> (err \<Rightarrow> err) \<Rightarrow> ('w, 'a) mact \<Rightarrow> ('w, 'a) mact" where
  "staged E name stage wrap m = handle_err m
     (\<lambda>e. ignoring (record_failure E name ''create'' stage (wrap e)) (throw (EStage stage (wrap e)))) ret"

definition put_state :: "'w env \<Rightarrow> string \<Rightarrow> bstate \<Rightarrow> ('w, unit) mact" where
  "put_state E name st = sql_at E (\<lambda>t. set_state t name st [])"

section \<open>Create\<close>

definition no_meta :: meta where
  "no_meta = \<lparr>m_profile = [], m_owner = [], m_purpose = [], m_source = []\<rparr>"

text \<open>The section under \<^verbatim>\<open>admitMu\<close>: limit, port, memory, storage, and the new row.\<close>

definition admit_create :: "'w env \<Rightarrow> string \<Rightarrow> int \<Rightarrow> string \<Rightarrow> ('w, unit) mact" where
  "admit_create E name port orig = check (sql E list_branches) (\<lambda>bs.
     if c_max_branches (cfg E) > 0 \<and> int (length bs) \<ge> c_max_branches (cfg E) then throw ELimitReached
     else check (alloc_port E port) (\<lambda>p.
       check (admit_memory E ''create'') (\<lambda>_.
       check (admit_storage E ''create'') (\<lambda>_.
       sql_at E (\<lambda>t. create_branch t name p orig)))))"

text \<open>
  The branch that \<^verbatim>\<open>b, _ := GetBranch(name)\<close> leaves when the driver fails: the zero
  value. Its state is not read.
\<close>

definition zero_branch :: branch where
  "zero_branch = \<lparr>b_name = [], b_state = Creating, b_port = 0, b_origin = [], b_created = 0,
     b_last_conn = None, b_err_msg = [], b_failed_op = [], b_err_code = [], b_recoverable = False,
     b_suggested = [], b_profile = [], b_owner = [], b_purpose = [], b_source = [],
     b_expires = None, b_engine_state = [], b_init_snap = [], b_volume_ref = [], b_error_at = None\<rparr>"

text \<open>With an on-create hook: start, ready, hook, graceful stop.\<close>

definition create_hook_phase :: "'w env \<Rightarrow> string \<Rightarrow> branch \<Rightarrow> volume \<Rightarrow> ('w, unit) mact" where
  "create_hook_phase E name b vol = check (hook_exists E OnCreate) (\<lambda>has.
     if \<not> has then ret () else
     check (staged E name ''engine-start'' (prefixed ''engine start: '')
              (eng_start E (instance_of b vol))) (\<lambda>_.
     check (staged E name ''engine-ready'' id (wait_ready E (instance_of b vol))) (\<lambda>_.
     check (staged E name ''hook'' id (run_hook E OnCreate b vol)) (\<lambda>_.
     staged E name ''engine-stop'' (prefixed ''engine stop before @init: '')
       (eng_stop E (instance_of b vol))))))"

text \<open>From the clone to the @init snapshot: the branch as read back, its volume, the snapshot.\<close>

definition create_build :: "'w env \<Rightarrow> string \<Rightarrow> string \<Rightarrow> ('w, branch \<times> volume \<times> string) mact" where
  "create_build E name orig =
     check (staged E name ''clone'' (prefixed ''clone: '') (clone_vol E orig name)) (\<lambda>vol.
     check (staged E name ''quota'' (prefixed ''set quota: '') (apply_quota E vol)) (\<lambda>_.
     attempt (sql E (get_branch name)) (\<lambda>rb.
     let b = (case rb of Inr b \<Rightarrow> b | Inl _ \<Rightarrow> zero_branch) in
     check (create_hook_phase E name b vol) (\<lambda>_.
     check (staged E name ''snapshot'' (prefixed ''snapshot @init: '') (snapshot_init E vol)) (\<lambda>ini.
     ret (b, vol, ini))))))"

definition create_provision :: "'w env \<Rightarrow> string \<Rightarrow> string \<Rightarrow> ('w, info) mact" where
  "create_provision E name orig = check (create_build E name orig) (\<lambda>(b, vol, ini).
     ignoring (sql E (set_provision name (v_dataset vol) ini)) (
     check (staged E name ''engine-start'' (prefixed ''engine start: '')
              (eng_start E (instance_of b vol))) (\<lambda>_.
     check (staged E name ''engine-ready'' id (wait_ready E (instance_of b vol))) (\<lambda>_.
     check (put_state E name Running) (\<lambda>_. get_info E name)))))"

definition create_with_meta_from ::
  "'w env \<Rightarrow> string \<Rightarrow> int \<Rightarrow> meta \<Rightarrow> string \<Rightarrow> ('w, info) mact" where
  "create_with_meta_from E name port m baseline =
     (if \<not> valid_name E name \<or> is_reserved name then throw EInvalidName
      else (case resolve_profile_name E (m_profile m) of
        Inl e \<Rightarrow> throw e
      | Inr pname \<Rightarrow>
          let m' = m\<lparr>m_profile := pname\<rparr> in
          attempt (sql E (get_branch name)) (\<lambda>r. case r of Inr _ \<Rightarrow> throw EExists | Inl _ \<Rightarrow>
          check (current_baseline E) (\<lambda>cur.
          check (if baseline = [] then ret cur
                 else handle_err (sql E (get_baseline baseline))
                   (\<lambda>_. throw (EWrap [] EBaselineNotFound ('': '' @ baseline))) (\<lambda>_. ret baseline)) (\<lambda>orig.
          check (admit_create E name port orig) (\<lambda>_.
          ignoring (if m' \<noteq> no_meta then sql E (set_meta name m') else ret ()) (
          create_provision E name orig)))))))"

definition create_with_meta :: "'w env \<Rightarrow> string \<Rightarrow> int \<Rightarrow> meta \<Rightarrow> ('w, info) mact" where
  "create_with_meta E name port m = create_with_meta_from E name port m []"

definition create :: "'w env \<Rightarrow> string \<Rightarrow> int \<Rightarrow> ('w, info) mact" where
  "create E name port = create_with_meta E name port no_meta"

section \<open>Recreate and reset\<close>

definition admit_recreate :: "'w env \<Rightarrow> string \<Rightarrow> ('w, unit) mact" where
  "admit_recreate E name = check (admit_memory E ''recreate'') (\<lambda>_.
     check (admit_storage E ''recreate'') (\<lambda>_. put_state E name Resetting))"

text \<open>
  \<^verbatim>\<open>Renamer\<close>, when the backend needs the swap: fixed volume names, so that the old
  and the new volume of a branch cannot coexist.
\<close>

definition swap_renamer :: "'w env \<Rightarrow> (volume \<Rightarrow> string \<Rightarrow> ('w, volume) ext) option" where
  "swap_renamer E = (if clones_distinct (st_caps (sto E)) then None else st_rename (sto E))"

definition rename_vol ::
  "(volume \<Rightarrow> string \<Rightarrow> ('w, volume) ext) \<Rightarrow> volume \<Rightarrow> string \<Rightarrow> ('w, volume) mact" where
  "rename_vol rn v n = logged (\<lambda>r. EvRename v n (is_ok r)) (rn v n)"

text \<open>A stash left by an interrupted recreate is removed when an error is being retried.\<close>

definition drop_stale_stash :: "'w env \<Rightarrow> branch \<Rightarrow> ('w, unit) mact" where
  "drop_stale_stash E b =
     (if swap_renamer E \<noteq> None \<and> b_state b = Error_state
      then handle_err (resolve_volume E (b_name b @ recreating_suffix)) (\<lambda>_. ret ()) (delete_and_poll E)
      else ret ())"

text \<open>The old volume after the stash step, and whether it was renamed.\<close>

definition stash_old :: "'w env \<Rightarrow> branch \<Rightarrow> string \<Rightarrow> volume option \<Rightarrow> ('w, volume option \<times> bool) mact" where
  "stash_old E b op' old = (case (old, swap_renamer E) of
      (Some v, Some rn) \<Rightarrow>
        check (failing E (b_name b) op' ''stash'' (prefixed ''recreate stash: '')
                 (rename_vol rn v (b_name b @ recreating_suffix))) (\<lambda>v'. ret (Some v', True))
    | _ \<Rightarrow> ret (old, False))"

definition restore_stash :: "'w env \<Rightarrow> branch \<Rightarrow> volume option \<times> bool \<Rightarrow> ('w, unit) mact" where
  "restore_stash E b stash = (case (stash, swap_renamer E) of
      ((Some v, True), Some rn) \<Rightarrow>
        handle_err (rename_vol rn v (b_name b)) (\<lambda>_. ret ())
          (\<lambda>v'. ignoring (eng_start E (instance_of b v')) (ret ()))
    | _ \<Rightarrow> ret ())"

primrec poll_deletion_loop :: "'w env \<Rightarrow> string \<Rightarrow> nat \<Rightarrow> ('w, unit) mact" where
  "poll_deletion_loop E job 0 = ret ()"
| "poll_deletion_loop E job (Suc n) = handle_err (ext (st_poll (sto E) job)) (\<lambda>_. ret ()) (\<lambda>st.
     if st \<noteq> JobRunning then ret ()
     else check (pause_for E (5 * second)) (\<lambda>_. poll_deletion_loop E job n))"

text \<open>
  \<^verbatim>\<open>pollDeletion\<close>, at most 240 polls. The source runs it in the background; here it
  runs where it is started.
\<close>

definition poll_deletion :: "'w env \<Rightarrow> string \<Rightarrow> ('w, unit) mact" where
  "poll_deletion E job = poll_deletion_loop E job 240"

definition delete_old :: "'w env \<Rightarrow> volume option \<Rightarrow> ('w, unit) mact" where
  "delete_old E old = (case old of None \<Rightarrow> ret ()
     | Some v \<Rightarrow> handle_err (delete_async E v) (\<lambda>_. ret ()) (poll_deletion E))"

text \<open>The new volume: start, hook, graceful stop, @init, start.\<close>

definition recreate_provision ::
  "'w env \<Rightarrow> branch \<Rightarrow> hook_event \<Rightarrow> string \<Rightarrow> volume \<Rightarrow> ('w, unit) mact" where
  "recreate_provision E b ev op' vol =
     (let ins = instance_of b vol; step = failing E (b_name b) op' in
      check (step ''quota'' (prefixed ''recreate set quota: '') (apply_quota E vol)) (\<lambda>_.
      check (step ''engine-start'' id (eng_start E ins)) (\<lambda>_.
      check (step ''engine-ready'' id (wait_ready E ins)) (\<lambda>_.
      check (step ''hook'' id (run_hook E ev b vol)) (\<lambda>_.
      check (step ''stop'' (prefixed ''recreate stop before @init: '') (eng_stop E ins)) (\<lambda>_.
      check (failing E (b_name b) op' ''snapshot'' (prefixed ''recreate @init: '')
               (snapshot_init E vol)) (\<lambda>ini.
      ignoring (sql E (set_provision (b_name b) (v_dataset vol) ini)) (
      check (step ''engine-start'' id (eng_start E ins)) (\<lambda>_.
      step ''engine-ready'' id (wait_ready E ins))))))))))"

text \<open>The new volume, or, when the clone fails, the old one put back in its place.\<close>

definition recreate_build ::
  "'w env \<Rightarrow> branch \<Rightarrow> string \<Rightarrow> hook_event \<Rightarrow> string \<Rightarrow> volume option \<times> bool \<Rightarrow> ('w, volume) mact" where
  "recreate_build E b orig ev op' stash = handle_err (clone_vol E orig (b_name b))
     (\<lambda>e. ignoring (restore_stash E b stash)
            (fail_op E (b_name b) op' ''clone'' (prefixed ''recreate clone: '' e)))
     (\<lambda>vol. check (recreate_provision E b ev op' vol) (\<lambda>_. ret vol))"

definition recreate_from ::
  "'w env \<Rightarrow> branch \<Rightarrow> string \<Rightarrow> hook_event \<Rightarrow> string \<Rightarrow> ('w, info) mact" where
  "recreate_from E b orig ev op' =
     check (admit_recreate E (b_name b)) (\<lambda>_.
     attempt (resolve_volume E (b_name b)) (\<lambda>rold.
     ignoring (case rold of Inl _ \<Rightarrow> ret () | Inr v \<Rightarrow> eng_kill E (instance_of b v)) (
     ignoring (drop_stale_stash E b) (
     check (stash_old E b op' (ok_value rold)) (\<lambda>stash.
     check (recreate_build E b orig ev op' stash) (\<lambda>vol.
     check (failing E (b_name b) op' ''storage'' id (sql E (update_origin (b_name b) orig))) (\<lambda>_.
     ignoring (delete_old E (fst stash)) (
     ignoring (run_hook E OnReset b vol) (
     check (put_state E (b_name b) Running) (\<lambda>_.
     get_info E (b_name b)))))))))))"

definition init_snapshot_of :: "branch \<Rightarrow> volume \<Rightarrow> string" where
  "init_snapshot_of b v = (if b_init_snap b \<noteq> [] then b_init_snap b else v_dataset v @ ''@init'')"

definition reset :: "'w env \<Rightarrow> string \<Rightarrow> ('w, info) mact" where
  "reset E name = check (sql E (get_branch name)) (\<lambda>b.
     check (resolve_volume E (b_name b)) (\<lambda>vol.
     check (refuse_if_backing_baseline E name vol ''reset'') (\<lambda>_.
     if \<not> fast_rollback (st_caps (sto E)) then recreate_from E b (b_origin b) OnCreate ''reset''
     else
     check (put_state E name Resetting) (\<lambda>_.
     ignoring (eng_kill E (instance_of b vol)) (
     check (failing E name ''reset'' ''rollback'' (prefixed ''rollback: '')
              (rollback E vol (init_snapshot_of b vol))) (\<lambda>_.
     check (failing E name ''reset'' ''engine-start'' id (eng_start E (instance_of b vol))) (\<lambda>_.
     check (failing E name ''reset'' ''engine-ready'' id (wait_ready E (instance_of b vol))) (\<lambda>_.
     ignoring (run_hook E OnReset b vol) (
     check (put_state E name Running) (\<lambda>_. get_info E name))))))))))"

definition recreate :: "'w env \<Rightarrow> string \<Rightarrow> ('w, info) mact" where
  "recreate E name = check (sql E (get_branch name)) (\<lambda>b.
     check (resolve_volume E (b_name b)) (\<lambda>vol.
     check (refuse_if_backing_baseline E name vol ''recreate'') (\<lambda>_.
     check (hook_exists E OnRecreate) (\<lambda>has.
     check (current_baseline E) (\<lambda>cur.
     recreate_from E b cur (if has then OnRecreate else OnCreate) ''recreate'')))))"

section \<open>Delete, lease\<close>

definition delete :: "'w env \<Rightarrow> string \<Rightarrow> ('w, unit) mact" where
  "delete E name = check (sql E (get_branch name)) (\<lambda>b.
     handle_err (resolve_volume E (b_name b)) (\<lambda>_. sql E (delete_branch name)) (\<lambda>vol.
     check (refuse_if_backing_baseline E name vol ''delete'') (\<lambda>_.
     check (put_state E name Deleting) (\<lambda>_.
     ignoring (eng_stop E (instance_of b vol)) (
     ignoring (run_hook E OnDelete b vol) (
     handle_err (delete_async E vol)
       (\<lambda>e. ignoring (sql_at E (\<lambda>t. set_state t name Error_state (err_text e)))
              (throw (prefixed ''destroy: '' e))) (\<lambda>job.
     check (ext (st_poll (sto E) job)) (\<lambda>st.
     if st = JobCompleted then sql E (delete_branch name)
     else ignoring (poll_deletion E job) (sql E (delete_branch name))))))))))"

definition lease_until :: "'w env \<Rightarrow> string \<Rightarrow> int \<Rightarrow> ('w, int) mact" where
  "lease_until E name ex = check (now E) (\<lambda>t.
     if \<not> ex > t then throw (EText ''expiry must be in the future'')
     else check (sql E (get_branch name)) (\<lambda>_.
       check (sql E (set_expires_at name ex)) (\<lambda>_. ret ex)))"

definition lease :: "'w env \<Rightarrow> string \<Rightarrow> int \<Rightarrow> ('w, int) mact" where
  "lease E name d =
     (if d \<le> 0 then throw (EText ''lease duration must be > 0'')
      else check (now E) (\<lambda>t. lease_until E name (t + d)))"

section \<open>Wake and routing\<close>

definition admit_wake :: "'w env \<Rightarrow> string \<Rightarrow> ('w, unit) mact" where
  "admit_wake E name = check (admit_memory E ''wake'') (\<lambda>_.
     check (admit_storage E ''wake'') (\<lambda>_.
     check (sql_at E (\<lambda>t. touch_last_conn t name)) (\<lambda>_. put_state E name Running)))"

fun state_text :: "bstate \<Rightarrow> string" where
  "state_text Creating = ''creating''"
| "state_text Running = ''running''"
| "state_text Sleeping = ''sleeping''"
| "state_text Resetting = ''resetting''"
| "state_text Deleting = ''deleting''"
| "state_text Error_state = ''error''"

definition branch_is :: "string \<Rightarrow> bstate \<Rightarrow> string \<Rightarrow> err" where
  "branch_is name st extra = EText (''branch '' @ name @ '' is '' @ state_text st @ extra)"

definition wake :: "'w env \<Rightarrow> string \<Rightarrow> ('w, info) mact" where
  "wake E name = check (sql E (get_branch name)) (\<lambda>b.
     let retrying = (b_state b = Error_state \<and> b_failed_op b = ''wake'') in
     if b_state b \<noteq> Sleeping \<and> b_state b \<noteq> Running \<and> \<not> retrying
     then throw (branch_is name (b_state b) '' (cannot wake)'')
     else
     check (resolve_volume E (b_name b)) (\<lambda>vol.
     check (if b_state b = Sleeping \<or> retrying then admit_wake E name else ret ()) (\<lambda>_.
     attempt (ext (en_is_running (eng E) (instance_of b vol))) (\<lambda>run.
     check (if run = Inr True then ret ()
            else check (failing E name ''wake'' ''engine-start'' id (eng_start E (instance_of b vol))) (\<lambda>_.
              failing E name ''wake'' ''engine-ready'' id (wait_ready E (instance_of b vol)))) (\<lambda>_.
     check (put_state E name Running) (\<lambda>_. get_info E name))))))"

definition lazy_max_wait :: "'w env \<Rightarrow> int" where
  "lazy_max_wait E = (if c_lazy_max_wait (cfg E) = 0 then 20 * second else c_lazy_max_wait (cfg E))"

definition lazy_enabled :: "'w env \<Rightarrow> bool" where
  "lazy_enabled E \<longleftrightarrow> c_lazy_create (cfg E) \<and> typical_create (st_caps (sto E)) \<le> lazy_max_wait E"

text \<open>One round of \<^verbatim>\<open>waitRunning\<close>, and the loop, which polls every 200 ms.\<close>

definition wait_step :: "'w env \<Rightarrow> string \<Rightarrow> ('w, int option) mact" where
  "wait_step E name = check (pure_ext (ctx_err E)) (\<lambda>cancelled.
     case cancelled of Some e \<Rightarrow> throw e
     | None \<Rightarrow> check (sql E (get_branch name)) (\<lambda>b. case b_state b of
         Running \<Rightarrow> ret (Some (b_port b))
       | Creating \<Rightarrow> ret None
       | Resetting \<Rightarrow> ret None
       | st \<Rightarrow> throw (branch_is name st [])))"

definition wait_running :: "'w env \<Rightarrow> string \<Rightarrow> ('w, int) mact" where
  "wait_running E name = wait_within E (lazy_max_wait E) 200000000 (wait_step E name)
     (throw (EText (''timeout waiting for branch '' @ name @ '' to become running'')))"

definition route_existing :: "'w env \<Rightarrow> branch \<Rightarrow> ('w, int) mact" where
  "route_existing E b = (case b_state b of
      Running \<Rightarrow> ret (b_port b)
    | Sleeping \<Rightarrow> check (wake E (b_name b)) (\<lambda>_. ret (b_port b))
    | Creating \<Rightarrow> wait_running E (b_name b)
    | Resetting \<Rightarrow> wait_running E (b_name b)
    | st \<Rightarrow> throw (branch_is (b_name b) st []))"

definition route_branch :: "'w env \<Rightarrow> string \<Rightarrow> ('w, int) mact" where
  "route_branch E name = attempt (sql E (get_branch name)) (\<lambda>r. case r of
      Inr b \<Rightarrow> route_existing E b
    | Inl e \<Rightarrow>
        if err_is e ENotFound then
          if \<not> lazy_enabled E then throw e
          else attempt (create E name 0) (\<lambda>c. case c of
              Inr i \<Rightarrow> ret (b_port (in_branch i))
            | Inl ce \<Rightarrow> if err_is ce EExists
                then check (sql E (get_branch name)) (route_existing E) else throw ce)
        else throw e)"

text \<open>\<^verbatim>\<open>TouchConn\<close>: one write per minute and branch.\<close>

definition touch_conn :: "'w env \<Rightarrow> string \<Rightarrow> ('w, unit) mact" where
  "touch_conn E name = check (now E) (\<lambda>t. reading (\<lambda>s. last_touch s name) (\<lambda>last'.
     if (case last' of Some l \<Rightarrow> t - l < minute | None \<Rightarrow> False) then ret ()
     else ignoring (modifying (\<lambda>s. s\<lparr>last_touch := (last_touch s)(name \<mapsto> t)\<rparr>))
            (ignoring (sql_at E (\<lambda>t. touch_last_conn t name)) (ret ()))))"

section \<open>Retry\<close>

definition retry_create :: "'w env \<Rightarrow> string \<Rightarrow> ('w, info) mact" where
  "retry_create E name = check (sql E (get_branch name)) (\<lambda>b.
     if b_state b \<noteq> Error_state then throw (branch_is name (b_state b) '' (not in error state)'')
     else check (handle_err (resolve_volume E (b_name b)) (\<lambda>_. ret ())
            (\<lambda>vol. refuse_if_backing_baseline E name vol ''retry'')) (\<lambda>_.
          recreate_from E b (b_origin b) OnCreate ''create''))"

definition retry :: "'w env \<Rightarrow> string \<Rightarrow> ('w, info) mact" where
  "retry E name = check (sql E (get_branch name)) (\<lambda>b.
     if b_state b \<noteq> Error_state then throw (branch_is name (b_state b) '' (not in error state)'')
     else if \<not> b_recoverable b
     then throw (EText (''branch '' @ name @ '' error is not recoverable ('' @ b_err_code b
            @ ''); inspect and delete manually''))
     else if b_failed_op b = ''reset'' then reset E name
     else if b_failed_op b = ''recreate'' then recreate E name
     else if b_failed_op b = ''wake'' then wake E name
     else if b_failed_op b = ''create'' then retry_create E name
     else throw (EText (''cannot retry operation '' @ quoted (b_failed_op b))))"

definition run_hook_manually :: "'w env \<Rightarrow> string \<Rightarrow> hook_event \<Rightarrow> ('w, unit) mact" where
  "run_hook_manually E name ev = check (sql E (get_branch name)) (\<lambda>b.
     check (resolve_volume E (b_name b)) (\<lambda>vol. run_hook E ev b vol))"

end
