(* ===== verification/Handlers.thy ===== *)
theory Handlers
  imports Manager
begin

text \<open>
  What every handler of the manager does to the database, whatever storage, engine, hooks and
  driver answer. The locale \<open>branch_statements\<close> lists the statements that handlers issue
  outside the admission of a new branch; \<open>branch_manager\<close> adds the admission section. Inside
  it each handler is shown to keep any relation those parts keep, and the relation is then
  instantiated: the steps the manager may take on the database (\<open>manager_step\<close>), and the
  tables that handlers of branches leave alone.
\<close>

section \<open>Queries\<close>

named_theorems query

lemma query_branch [query]: "snd (get_branch n d) = d"
  by (simp add: get_branch_def split: option.splits)

lemma query_branches [query]: "snd (list_branches d) = d"
  by (simp add: list_branches_def)

lemma query_ports [query]: "snd (used_ports d) = d"
  by (simp add: used_ports_def)

lemma query_baselines [query]: "snd (list_baselines d) = d"
  by (simp add: list_baselines_def)

lemma query_baseline [query]: "snd (get_baseline n d) = d"
  by (simp add: get_baseline_def list_baselines_def split: option.splits)

lemma query_current [query]: "snd (current_baseline_override d) = d"
  by (simp add: current_baseline_override_def)

lemma query_hooks [query]: "snd (last_hook_status n d) = d"
  by (simp add: last_hook_status_def)

lemma query_refs [query]: "snd (baseline_ref_counts d) = d"
  by (simp add: baseline_ref_counts_def)

section \<open>Primitive calls\<close>

lemma mdb_ext: "mdb (snd (ext c s)) = mdb s"
  by (simp add: ext_def split: prod.splits)

lemma mdb_pure_ext: "mdb (snd (pure_ext c s)) = mdb s"
  by (simp add: pure_ext_def split: prod.splits)

lemma mdb_logged: "mdb (snd (logged ev c s)) = mdb s"
  by (simp add: logged_def split: prod.splits)

lemma mdb_sql: "mdb (snd (sql E q s)) = mdb s \<or> mdb (snd (sql E q s)) = snd (q (mdb s))"
  by (auto simp: sql_def split: prod.splits option.splits)

text \<open>The parts of the state that only the poller and the refresh change.\<close>

abbreviation same_rest :: "'w mgr \<Rightarrow> 'w mgr \<Rightarrow> bool" where
  "same_rest s s' \<equiv> poll_conns s' = poll_conns s \<and> refresh_job s' = refresh_job s"

text \<open>A relation on states that keeps every call of a statement.\<close>

definition sql_kept :: "('w mgr \<Rightarrow> 'w mgr \<Rightarrow> bool) \<Rightarrow> 'a sql \<Rightarrow> bool" where
  "sql_kept R q \<longleftrightarrow> (\<forall>s s'. mdb s' = snd (q (mdb s)) \<longrightarrow> trace s' = trace s \<longrightarrow>
     same_rest s s' \<longrightarrow> R s s')"

locale call_relation = effect_relation R for R :: "'w mgr \<Rightarrow> 'w mgr \<Rightarrow> bool" +
  assumes R_frame: "mdb s' = mdb s \<Longrightarrow> trace s' = trace s \<Longrightarrow> same_rest s s' \<Longrightarrow> R s s'"
    and R_event: "mdb s' = mdb s \<Longrightarrow> trace s' = ev # trace s \<Longrightarrow> same_rest s s' \<Longrightarrow>
      \<not> is_snapshot ev \<Longrightarrow> R s s'"
begin

abbreviation safe :: "('w mgr, 'a) act \<Rightarrow> bool" where
  "safe m \<equiv> keeps R m"

lemma safe_ext: "safe (ext c)"
  by (rule keepsI) (auto simp: ext_def intro!: R_frame split: prod.splits)

lemma safe_pure_ext: "safe (pure_ext c)"
  by (rule keepsI) (auto simp: pure_ext_def intro!: R_frame split: prod.splits)

lemma safe_logged: "(\<And>r. \<not> is_snapshot (ev r)) \<Longrightarrow> safe (logged ev c)"
  by (rule keepsI) (auto simp: logged_def intro!: R_event split: prod.splits)

lemma safe_sql:
  assumes "sql_kept R q"
  shows "safe (sql E q)"
proof (rule keepsI)
  fix s
  show "R s (snd (sql E q s))"
    using assms by (auto simp: sql_def sql_kept_def intro: R_frame split: prod.splits option.splits)
qed

lemma safe_query: "(\<And>d. snd (q d) = d) \<Longrightarrow> safe (sql E q)"
  by (rule safe_sql) (auto simp: sql_kept_def intro: R_frame)

lemma safe_now: "safe (now E)"
  by (simp add: now_def safe_pure_ext)

lemma safe_sql_at: "(\<And>t. sql_kept R (q t)) \<Longrightarrow> safe (sql_at E q)"
  unfolding sql_at_def by (intro keeps_check safe_now safe_sql)

lemma safe_modifying: "(\<And>s. mdb (f s) = mdb s) \<Longrightarrow> (\<And>s. trace (f s) = trace s) \<Longrightarrow>
   (\<And>s. same_rest s (f s)) \<Longrightarrow> safe (modifying f)"
  by (rule keepsI) (simp add: modifying_def R_frame)

lemma safe_mark: "\<not> is_snapshot ev \<Longrightarrow> safe (modifying (\<lambda>s. s\<lparr>trace := ev # trace s\<rparr>))"
  by (rule keepsI) (auto simp: modifying_def intro: R_event)

lemma safe_pause: "safe (pause_for E d)"
  unfolding pause_for_def by (rule safe_modifying) simp_all

lemmas safe_prims = safe_ext safe_pure_ext safe_now safe_pause

lemma safe_polling: "safe body \<Longrightarrow> safe late \<Longrightarrow> safe (polling E dl d body late n)"
  by (induction n) (auto intro!: keeps_throw keeps_check keeps_if keeps_option keeps_ret safe_prims)

lemma safe_wait_within: "safe body \<Longrightarrow> safe late \<Longrightarrow> safe (wait_within E timeout d body late)"
  unfolding wait_within_def by (intro keeps_check safe_now safe_polling)

lemma safe_clone_vol: "safe (clone_vol E o' n)" by (simp add: clone_vol_def safe_logged)
lemma safe_rollback: "safe (rollback E v s)" by (simp add: rollback_def safe_logged)
lemma safe_delete_async: "safe (delete_async E v)" by (simp add: delete_async_def safe_logged)
lemma safe_eng_start: "safe (eng_start E i)" by (simp add: eng_start_def safe_logged)
lemma safe_eng_stop: "safe (eng_stop E i)" by (simp add: eng_stop_def safe_logged)
lemma safe_eng_kill: "safe (eng_kill E i)" by (simp add: eng_kill_def safe_logged)
lemma safe_wait_ready: "safe (wait_ready E i)" by (simp add: wait_ready_def safe_logged)
lemma safe_rename_vol: "safe (rename_vol rn v n)" by (simp add: rename_vol_def safe_logged)

lemmas safe_calls = safe_clone_vol safe_rollback safe_delete_async
  safe_eng_start safe_eng_stop safe_eng_kill safe_wait_ready safe_rename_vol

lemma safe_delete_and_poll: "safe (delete_and_poll E v)"
  unfolding delete_and_poll_def by (intro keeps_intros safe_prims safe_calls)

lemma safe_poll_loop: "safe (poll_deletion_loop E job n)"
  by (induction n) (auto intro!: keeps_handle keeps_ret keeps_if keeps_check safe_prims)

lemma safe_poll_deletion: "safe (poll_deletion E job)"
  unfolding poll_deletion_def by (rule safe_poll_loop)

lemma safe_resolve_volume: "safe (resolve_volume E n)"
  unfolding resolve_volume_def by (intro keeps_intros safe_prims)

lemma safe_alloc_port: "safe (alloc_port E p)"
  unfolding alloc_port_def by (intro keeps_intros safe_query query)

lemma safe_admit_memory: "safe (admit_memory E op')"
  unfolding admit_memory_def admit_running_def
  by (intro keeps_intros safe_query query safe_prims)

lemma safe_admit_storage: "safe (admit_storage E op')"
  unfolding admit_storage_def by (intro keeps_intros safe_prims)

lemma safe_apply_quota: "safe (apply_quota E v)"
  unfolding apply_quota_def by (intro keeps_intros safe_prims safe_logged) simp

lemma safe_current_baseline: "safe (current_baseline E)"
  unfolding current_baseline_def by (intro keeps_intros safe_query query safe_prims)

lemma safe_hook_exists: "safe (hook_exists E ev)"
  unfolding hook_exists_def by (intro keeps_intros safe_prims)

lemma safe_hook_env: "safe (hook_env_of E b v)"
  unfolding hook_env_of_def by (intro keeps_intros safe_query query)

lemma safe_on_dataset: "safe (baselines_on_dataset E ds)"
  unfolding baselines_on_dataset_def by (intro keeps_intros safe_query query)

lemma safe_refuse: "safe (refuse_if_backing_baseline E n v verb)"
  unfolding refuse_if_backing_baseline_def by (intro keeps_intros safe_on_dataset)

lemma safe_backing: "safe (backing_baselines_for_branch E n)"
  unfolding backing_baselines_for_branch_def
  by (intro keeps_intros safe_on_dataset safe_resolve_volume)

lemma safe_check_mutation: "safe (check_branch_mutation E n verb)"
  unfolding check_branch_mutation_def by (intro keeps_intros safe_query query safe_backing)

lemma safe_get_info: "safe (get_info E n)"
  unfolding get_info_def
  by (intro keeps_intros safe_query query safe_prims safe_on_dataset safe_resolve_volume
      safe_current_baseline)

lemma safe_list_info: "safe (list_info E)"
  unfolding list_info_def by (intro keeps_intros safe_query query safe_get_info)

lemma safe_restore: "safe (restore_stash E b stash)"
  unfolding restore_stash_def
  by (auto intro!: keeps_handle keeps_ret keeps_ignoring safe_calls split: prod.splits option.splits bool.splits)

lemma safe_drop_stash: "safe (drop_stale_stash E b)"
  unfolding drop_stale_stash_def by (intro keeps_intros safe_resolve_volume safe_delete_and_poll)

lemma safe_delete_old: "safe (delete_old E v)"
  unfolding delete_old_def by (intro keeps_intros safe_calls safe_poll_deletion)

lemmas safe_parts = safe_prims safe_calls safe_delete_and_poll safe_poll_deletion
  safe_resolve_volume safe_alloc_port safe_admit_memory safe_admit_storage safe_apply_quota
  safe_current_baseline safe_hook_exists safe_hook_env safe_on_dataset safe_refuse safe_backing
  safe_check_mutation safe_get_info safe_list_info safe_restore safe_drop_stash safe_delete_old

end

section \<open>Handlers that issue statements\<close>

text \<open>
  \<open>N\<close> is the set of branch names whose rows may be written: all names, or all but one when
  the relation is that the row of that one stays as it is.
\<close>

locale branch_statements = call_relation +
  fixes N :: "string \<Rightarrow> bool"
  assumes D_set_state: "N n \<Longrightarrow> sql_kept R (set_state t n st msg)"
    and D_set_error: "N n \<Longrightarrow> sql_kept R (set_error t n fop code recov msg sugg)"
    and D_touch: "N n \<Longrightarrow> sql_kept R (touch_last_conn t n)"
    and D_set_meta: "N n \<Longrightarrow> sql_kept R (set_meta n m)"
    and D_set_expires: "N n \<Longrightarrow> sql_kept R (set_expires_at n t)"
    and D_update_origin: "N n \<Longrightarrow> sql_kept R (update_origin n orig)"
    and D_provision: "N n \<Longrightarrow> sql_kept R (set_provision n vref snap)"
    and D_delete: "N n \<Longrightarrow> sql_kept R (delete_branch n)"
    and D_mark_error: "N n \<Longrightarrow> sql_kept R (mark_error_at_if_missing t n)"
    and D_hook_start: "sql_kept R (record_hook_start t n ev)"
    and D_hook_finish: "sql_kept R (record_hook_finish t i exitc)"
begin

lemmas D_statements = D_set_state D_set_error D_touch D_set_meta D_set_expires D_update_origin
  D_provision D_delete D_mark_error D_hook_start D_hook_finish

lemma b_name_get: "fst (get_branch n d) = Inr b \<Longrightarrow> b_name b = n"
  by (auto simp: get_branch_row scan_branch_def split: option.splits)

lemma safe_attempt_branch:
  assumes "\<And>r. (\<And>b. r = Inr b \<Longrightarrow> b_name b = n) \<Longrightarrow> safe (k r)"
  shows "safe (attempt (sql E (get_branch n)) k)"
proof (rule keepsI)
  fix s
  obtain r s' where q: "sql E (get_branch n) s = (r, s')" by (cases "sql E (get_branch n) s")
  have "safe (sql E (get_branch n))" by (intro safe_query query)
  then have "R s (snd (sql E (get_branch n) s))" by (rule keepsD)
  moreover have "b_name b = n" if "r = Inr b" for b
    using q that b_name_get [of n "mdb s" b] by (auto simp: sql_def split: prod.splits option.splits)
  then have "R s' (snd (k r s'))" using assms keepsD by blast
  ultimately show "R s (snd (attempt (sql E (get_branch n)) k s))"
    using q trans_R by (simp add: attempt_def)
qed

lemma safe_get_branch:
  "(\<And>b. b_name b = n \<Longrightarrow> safe (k b)) \<Longrightarrow> safe (check (sql E (get_branch n)) k)"
  unfolding check_as_attempt
  by (rule safe_attempt_branch) (auto intro: keeps_throw split: sum.split)

lemma safe_run_hook: "safe (run_hook E ev b v)"
  unfolding run_hook_def
  by (intro keeps_intros safe_parts safe_sql_at safe_mark D_hook_start D_hook_finish) simp_all

lemma safe_put_state: "N n \<Longrightarrow> safe (put_state E n st)"
  unfolding put_state_def by (intro safe_sql_at D_statements)

lemma safe_record_failure: "N n \<Longrightarrow> safe (record_failure E n op' stage e)"
  unfolding record_failure_def by (intro keeps_intros safe_sql_at D_statements)

lemma safe_fail_op: "N n \<Longrightarrow> safe (fail_op E n op' stage e)"
  unfolding fail_op_def by (intro keeps_intros safe_record_failure)

lemma safe_failing: "N n \<Longrightarrow> safe m \<Longrightarrow> safe (failing E n op' stage wrap m)"
  unfolding failing_def by (intro keeps_intros safe_fail_op)

lemma safe_staged: "N n \<Longrightarrow> safe m \<Longrightarrow> safe (staged E n stage wrap m)"
  unfolding staged_def by (intro keeps_intros safe_record_failure)

lemmas safe_writes = safe_run_hook safe_put_state safe_record_failure safe_fail_op safe_failing
  safe_staged

lemma safe_stash_old: "N (b_name b) \<Longrightarrow> safe (stash_old E b op' old)"
  unfolding stash_old_def
  by (auto intro!: keeps_check keeps_ret safe_failing safe_calls split: option.splits prod.splits)

lemma safe_hook_phase: "N n \<Longrightarrow> safe (create_hook_phase E n b v)"
  unfolding create_hook_phase_def by (intro keeps_intros safe_parts safe_writes)

lemma safe_admit_recreate: "N n \<Longrightarrow> safe (admit_recreate E n)"
  unfolding admit_recreate_def by (intro keeps_intros safe_parts safe_writes)

end

text \<open>
  The handlers that take snapshots do so in three segments: \<open>create_build\<close>,
  \<open>recreate_build\<close> and \<open>promote_take\<close>. A relation has to be shown for each of them.
\<close>

locale branch_handlers = branch_statements +
  fixes E :: "'a env"
  assumes S_create: "N n \<Longrightarrow> keeps R (create_build E n orig)"
    and S_recreate: "N (b_name b) \<Longrightarrow> keeps R (recreate_build E b orig ev op' stash)"
    and D_admit: "N n \<Longrightarrow> keeps R (admit_create E n port orig)"
begin

lemma safe_create_provision: "N n \<Longrightarrow> safe (create_provision E n orig)"
  unfolding create_provision_def
  by (intro keeps_intros S_create safe_parts safe_writes safe_sql D_statements)

lemma safe_recreate_from: "N (b_name b) \<Longrightarrow> safe (recreate_from E b orig ev op')"
  unfolding recreate_from_def
  by (intro keeps_intros safe_admit_recreate safe_parts safe_writes safe_stash_old
      S_recreate safe_sql D_statements)

lemma safe_reset: "N n \<Longrightarrow> safe (reset E n)"
  unfolding reset_def
  by (intro safe_get_branch keeps_intros safe_parts safe_writes safe_recreate_from) simp_all

lemma safe_recreate: "N n \<Longrightarrow> safe (recreate E n)"
  unfolding recreate_def
  by (intro safe_get_branch keeps_intros safe_parts safe_recreate_from) simp_all

lemma safe_delete: "N n \<Longrightarrow> safe (delete E n)"
  unfolding delete_def
  by (intro keeps_intros safe_parts safe_writes safe_query query safe_sql safe_sql_at D_statements)

lemma safe_lease_until: "N n \<Longrightarrow> safe (lease_until E n t)"
  unfolding lease_until_def by (intro keeps_intros safe_parts safe_query query safe_sql D_statements)

lemma safe_lease: "N n \<Longrightarrow> safe (lease E n d)"
  unfolding lease_def by (intro keeps_intros safe_parts safe_lease_until)

lemma safe_admit_wake: "N n \<Longrightarrow> safe (admit_wake E n)"
  unfolding admit_wake_def by (intro keeps_intros safe_parts safe_writes safe_sql_at D_statements)

lemma safe_wake: "N n \<Longrightarrow> safe (wake E n)"
  unfolding wake_def
  by (intro safe_get_branch keeps_intros safe_parts safe_writes safe_admit_wake)

lemma safe_wait_step: "safe (wait_step E n)"
  unfolding wait_step_def
  by (auto intro!: keeps_intros safe_prims safe_query query split: bstate.split)

lemma safe_route_existing: "N (b_name b) \<Longrightarrow> safe (route_existing E b)"
  unfolding route_existing_def wait_running_def
  by (auto intro!: keeps_intros safe_wait_within safe_wait_step safe_wake split: bstate.split)

lemma safe_touch_conn: "N n \<Longrightarrow> safe (touch_conn E n)"
  unfolding touch_conn_def
  by (intro keeps_intros safe_prims safe_sql_at D_statements safe_modifying) simp_all

lemma safe_retry_create: "N n \<Longrightarrow> safe (retry_create E n)"
  unfolding retry_create_def
  by (intro safe_get_branch keeps_intros safe_parts safe_recreate_from) simp_all

lemma safe_retry: "N n \<Longrightarrow> safe (retry E n)"
  unfolding retry_def
  by (intro keeps_intros safe_query query safe_reset safe_recreate safe_wake safe_retry_create)

lemma safe_run_hook_manually: "safe (run_hook_manually E n ev)"
  unfolding run_hook_manually_def by (intro keeps_intros safe_parts safe_writes safe_query query)

lemmas safe_handlers = safe_reset safe_recreate safe_delete safe_lease_until safe_lease safe_wake
  safe_route_existing safe_touch_conn safe_retry safe_run_hook_manually

lemma safe_create_with_meta_from: "N n \<Longrightarrow> safe (create_with_meta_from E n port m bl)"
  unfolding create_with_meta_from_def
  by (intro keeps_intros safe_parts safe_query query D_admit safe_sql D_statements
      safe_create_provision)

lemma safe_create: "N n \<Longrightarrow> safe (create E n port)"
  unfolding create_def create_with_meta_def by (rule safe_create_with_meta_from)

lemma safe_route_branch: "N n \<Longrightarrow> safe (route_branch E n)"
  unfolding route_branch_def
  by (rule safe_attempt_branch)
    (auto intro!: keeps_intros safe_get_branch safe_route_existing safe_create split: sum.split)

end

end
