(* ===== verification/Reaper.thy ===== *)
theory Reaper
  imports Handlers
begin

text \<open>
  The background work of package workspace: reaper.go (idle stop, idle deletion, lease expiry,
  retention of failed branches), connpoll.go (connection counts of the engines), drain.go,
  reconcile.go (comparing state.db with storage and engines after a restart, and the orphan
  collection) and capacity.go. Log lines are left out, except the memory of \<^verbatim>\<open>reapLogOnce\<close>.
\<close>

section \<open>Sleep and drain\<close>

definition sleep_branch :: "'w env \<Rightarrow> string \<Rightarrow> ('w, unit) mact" where
  "sleep_branch E name = check (sql E (get_branch name)) (\<lambda>b.
     if b_state b \<noteq> Running then ret ()
     else check (resolve_volume E (b_name b)) (\<lambda>vol.
       check (eng_stop E (instance_of b vol)) (\<lambda>_. put_state E name Sleeping)))"

record drain_result =
  dr_slept :: "string list"
  dr_skipped :: "string list"
  dr_failed :: "(string \<times> string) list"

definition drain_branch :: "'w env \<Rightarrow> branch \<Rightarrow> drain_result \<Rightarrow> ('w, drain_result) mact" where
  "drain_branch E b res =
     (if b_state b \<noteq> Running then ret (res\<lparr>dr_skipped := dr_skipped res @ [b_name b]\<rparr>)
      else handle_err (sleep_branch E (b_name b))
        (\<lambda>e. ret (res\<lparr>dr_failed := dr_failed res @ [(b_name b, err_text e)]\<rparr>))
        (\<lambda>_. ret (res\<lparr>dr_slept := dr_slept res @ [b_name b]\<rparr>)))"

definition drain :: "'w env \<Rightarrow> ('w, drain_result) mact" where
  "drain E = check (sql E list_branches) (\<lambda>bs.
     fold_act (drain_branch E) bs \<lparr>dr_slept = [], dr_skipped = [], dr_failed = []\<rparr>)"

section \<open>Connection counts\<close>

text \<open>The instance that connpoll and the reaper hand to \<^verbatim>\<open>ConnCount\<close> has no datadir.\<close>

definition probe_of :: "branch \<Rightarrow> inst" where
  "probe_of b = \<lparr>i_branch = b_name b, i_datadir = [], i_port = b_port b\<rparr>"

definition note_conn_fail :: "string \<Rightarrow> ('w, unit) mact" where
  "note_conn_fail n = modifying (\<lambda>s. s\<lparr>conn_fails := (conn_fails s)(n := conn_fails s n + 1)\<rparr>)"

definition clear_conn_fail :: "string \<Rightarrow> ('w, unit) mact" where
  "clear_conn_fail n = modifying (\<lambda>s. s\<lparr>conn_fails := (conn_fails s)(n := 0)\<rparr>)"

definition poll_branch ::
  "'w env \<Rightarrow> (inst \<Rightarrow> ('w, int) ext) \<Rightarrow> branch \<Rightarrow> (string \<Rightarrow> int) \<Rightarrow> ('w, string \<Rightarrow> int) mact" where
  "poll_branch E cc b counts =
     (if b_state b \<noteq> Running then ret counts
      else handle_err (ext (cc (probe_of b)))
        (\<lambda>_. check (note_conn_fail (b_name b)) (\<lambda>_. ret (counts(b_name b := 1))))
        (\<lambda>n. check (clear_conn_fail (b_name b)) (\<lambda>_.
           ignoring (if n > 0 then sql_at E (\<lambda>t. touch_last_conn t (b_name b)) else ret ())
             (ret (counts(b_name b := n))))))"

definition poll_conns_once :: "'w env \<Rightarrow> (inst \<Rightarrow> ('w, int) ext) \<Rightarrow> ('w, unit) mact" where
  "poll_conns_once E cc = handle_err (sql E list_branches) (\<lambda>_. ret ()) (\<lambda>bs.
     check (fold_act (poll_branch E cc) bs (\<lambda>_. 0)) (\<lambda>counts.
     modifying (\<lambda>s. s\<lparr>poll_conns := counts\<rparr>)))"

definition active_conns :: "'w env \<Rightarrow> string \<Rightarrow> ('w, int) mact" where
  "active_conns E name =
     check (case active_conns_fn E of None \<Rightarrow> ret 0 | Some f \<Rightarrow> pure_ext (f name)) (\<lambda>n.
     reading (\<lambda>s. poll_conns s name) (\<lambda>p. ret (if p > n then p else n)))"

section \<open>The reaper\<close>

definition reap_log_once :: "string \<Rightarrow> string \<Rightarrow> ('w, unit) mact" where
  "reap_log_once name msg = modifying (\<lambda>s.
     if reap_logged s name = Some msg then s else s\<lparr>reap_logged := (reap_logged s)(name \<mapsto> msg)\<rparr>)"

definition reap_delete :: "'w env \<Rightarrow> string \<Rightarrow> ('w, unit) mact" where
  "reap_delete E name = handle_err (delete E name)
     (\<lambda>e. reap_log_once name (''reaper: delete '' @ name @ '': '' @ err_text e))
     (\<lambda>_. modifying (\<lambda>s. s\<lparr>reap_logged := (reap_logged s)(name := None)\<rparr>))"

text \<open>
  A branch due for deletion, by lease or by idle time: one that holds the data of a baseline is
  only stopped, and one for which that cannot be read is left alone.
\<close>

definition protect_or_delete :: "'w env \<Rightarrow> branch \<Rightarrow> ('w, unit) mact" where
  "protect_or_delete E b = handle_err (backing_baselines_for_branch E (b_name b))
     (\<lambda>e. reap_log_once (b_name b) (''reaper: baseline protection check '' @ b_name b @ '': ''
            @ err_text e @ '' (protected)''))
     (\<lambda>backing.
        if backing \<noteq> [] then
          if b_state b = Running then ignoring (sleep_branch E (b_name b)) (ret ()) else ret ()
        else reap_delete E (b_name b))"

definition reap_error :: "'w env \<Rightarrow> int \<Rightarrow> branch \<Rightarrow> ('w, unit) mact" where
  "reap_error E t b =
     (if c_error_retention (cfg E) \<le> 0 then ret ()
      else (case b_error_at b of
        None \<Rightarrow> ignoring (sql_at E (\<lambda>t. mark_error_at_if_missing t (b_name b))) (ret ())
      | Some at \<Rightarrow>
          if t - at < c_error_retention (cfg E) then ret ()
          else attempt (backing_baselines_for_branch E (b_name b)) (\<lambda>r.
            case r of
              Inr [] \<Rightarrow> reap_delete E (b_name b)
            | Inr backing \<Rightarrow> reap_log_once (b_name b) (''reaper: keeping error branch '' @ b_name b
                 @ '' (backs baseline ['' @ join_with '' '' backing @ ''], err=<nil>)'')
            | Inl e \<Rightarrow> reap_log_once (b_name b) (''reaper: keeping error branch '' @ b_name b
                 @ '' (backs baseline [], err='' @ err_text e @ '')''))))"

definition activity_of :: "branch \<Rightarrow> int" where
  "activity_of b = (case b_last_conn b of
     Some l \<Rightarrow> if l > b_created b then l else b_created b | None \<Rightarrow> b_created b)"

definition delete_due :: "'w env \<Rightarrow> int \<Rightarrow> branch \<Rightarrow> bool" where
  "delete_due E t b \<longleftrightarrow>
     (let d = pp_delete_idle (resolve_profile E (b_profile b))
      in d > 0 \<and> t - activity_of b \<ge> d \<and> (b_state b = Running \<or> b_state b = Sleeping))"

definition stop_due :: "'w env \<Rightarrow> int \<Rightarrow> branch \<Rightarrow> bool" where
  "stop_due E t b \<longleftrightarrow>
     (let d = pp_idle_stop (resolve_profile E (b_profile b))
      in d > 0 \<and> t - activity_of b \<ge> d \<and> b_state b = Running)"

definition lease_expired :: "int \<Rightarrow> branch \<Rightarrow> bool" where
  "lease_expired t b \<longleftrightarrow> (case b_expires b of None \<Rightarrow> False | Some x \<Rightarrow> t > x)
     \<and> (b_state b = Running \<or> b_state b = Sleeping \<or> b_state b = Error_state)"

text \<open>
  The engine is asked once more right before a running branch is stopped or deleted: true when
  the branch is in use, or when that cannot be told.
\<close>

definition recheck_busy :: "'w env \<Rightarrow> branch \<Rightarrow> ('w, bool) mact" where
  "recheck_busy E b = (case (b_state b, en_conn_count (eng E)) of
      (Running, Some cc) \<Rightarrow> handle_err (ext (cc (probe_of b))) (\<lambda>_. ret True) (\<lambda>n.
        if n > 0 then ignoring (sql_at E (\<lambda>t. touch_last_conn t (b_name b))) (ret True)
        else ret False)
    | _ \<Rightarrow> ret False)"

definition reap_branch :: "'w env \<Rightarrow> int \<Rightarrow> branch \<Rightarrow> ('w, unit) mact" where
  "reap_branch E t b =
     (if lease_expired t b then protect_or_delete E b
      else if b_state b = Error_state then reap_error E t b
      else if \<not> delete_due E t b \<and> \<not> stop_due E t b then ret ()
      else check (active_conns E (b_name b)) (\<lambda>n.
        if n > 0 then ret ()
        else check (recheck_busy E b) (\<lambda>busy.
          if busy then ret ()
          else if delete_due E t b then protect_or_delete E b
          else ignoring (sleep_branch E (b_name b)) (ret ()))))"

definition reap :: "'w env \<Rightarrow> ('w, unit) mact" where
  "reap E = check (sql E list_branches) (\<lambda>bs. check (now E) (\<lambda>t.
     check (fold_act (\<lambda>b _. reap_branch E t b) bs ()) (\<lambda>_.
     if c_op_retention (cfg E) > 0
     then ignoring (sql E (prune_operations (t - c_op_retention (cfg E))))
           (ignoring (sql E (prune_hook_runs (t - c_op_retention (cfg E)))) (ret ()))
     else ret ())))"

section \<open>Reconciliation\<close>

record report =
  rp_demoted :: "string list"
  rp_errored :: "string list"
  rp_orphans :: "string list"
  rp_interrupted :: "string list"

definition in_transition :: "bstate \<Rightarrow> bool" where
  "in_transition st \<longleftrightarrow> st \<in> {Creating, Resetting, Deleting}"

definition interrupted_op :: "'w env \<Rightarrow> branch \<Rightarrow> ('w, string) mact" where
  "interrupted_op E b =
     (if b_state b = Resetting
      then handle_err (resolve_volume E (b_name b @ recreating_suffix)) (\<lambda>_. ret ''reset'')
             (\<lambda>_. ret ''recreate'')
      else ret ''create'')"

definition reconcile_branch :: "'w env \<Rightarrow> bool \<Rightarrow> branch \<Rightarrow> report \<Rightarrow> ('w, report) mact" where
  "reconcile_branch E mutate b rep =
     (if \<not> mutate \<and> in_transition (b_state b) then ret rep
      else if b_state b = Deleting then
        handle_err (delete E (b_name b))
          (\<lambda>_. ret (rep\<lparr>rp_errored := rp_errored rep @ [b_name b]\<rparr>))
          (\<lambda>_. ret (rep\<lparr>rp_interrupted := rp_interrupted rep @ [b_name b]\<rparr>))
      else if b_state b = Creating \<or> b_state b = Resetting then
        check (interrupted_op E b) (\<lambda>op'.
        ignoring (sql_at E (\<lambda>t. set_error t (b_name b) op' ''interrupted'' True
              (op' @ '' was interrupted by a restart'')
              [''run `sashiki retry '' @ b_name b @ ''`'', ''or `sashiki delete '' @ b_name b @ ''`'']))
          (ret (rep\<lparr>rp_interrupted := rp_interrupted rep @ [b_name b]\<rparr>)))
      else handle_err (resolve_volume E (b_name b))
        (\<lambda>_. ignoring (if mutate
               then sql_at E (\<lambda>t. set_error t (b_name b) ''reconcile'' ''dataset_missing'' False
                      ''dataset not found for branch''
                      [''clear the row with `sashiki delete '' @ b_name b @ ''`''])
               else ret ())
             (ret (rep\<lparr>rp_errored := rp_errored rep @ [b_name b]\<rparr>)))
        (\<lambda>vol. if b_state b \<noteq> Running then ret rep
           else attempt (ext (en_is_running (eng E) (instance_of b vol))) (\<lambda>run.
             if run = Inr True then ret rep
             else ignoring (if mutate then put_state E (b_name b) Sleeping else ret ())
               (ret (rep\<lparr>rp_demoted := rp_demoted rep @ [b_name b]\<rparr>)))))"

text \<open>
  Which listed volumes belong to no branch: the stash of a recreate unless its branch is being
  recreated or waits for a retry, any other name that is not reserved and not known.
\<close>

definition is_orphan :: "branch list \<Rightarrow> string \<Rightarrow> bool" where
  "is_orphan bs name =
     (let states = map_of (map (\<lambda>b. (b_name b, b_state b)) bs)
      in case cut_suffix name recreating_suffix of
           Some base \<Rightarrow> (case states base of
               None \<Rightarrow> True | Some st \<Rightarrow> st \<noteq> Resetting \<and> st \<noteq> Error_state)
         | None \<Rightarrow> \<not> is_reserved name \<and> states name = None)"

definition reconcile :: "'w env \<Rightarrow> bool \<Rightarrow> ('w, report) mact" where
  "reconcile E mutate = check (sql E list_branches) (\<lambda>bs.
     check (fold_act (reconcile_branch E mutate) bs
              \<lparr>rp_demoted = [], rp_errored = [], rp_orphans = [], rp_interrupted = []\<rparr>) (\<lambda>rep.
     case st_list_volumes (sto E) of
       None \<Rightarrow> ret rep
     | Some lv \<Rightarrow> handle_err (ext lv) (\<lambda>_. ret rep)
         (\<lambda>vols. ret (rep\<lparr>rp_orphans := rp_orphans rep @ filter (is_orphan bs) vols\<rparr>))))"

definition gc_orphan :: "'w env \<Rightarrow> string \<Rightarrow> string list \<Rightarrow> ('w, string list) mact" where
  "gc_orphan E name deleted = handle_err (resolve_volume E name) (\<lambda>_. ret deleted) (\<lambda>vol.
     handle_err (delete_async E vol) (\<lambda>_. ret deleted) (\<lambda>job.
       ignoring (ext (st_poll (sto E) job)) (ret (deleted @ [name]))))"

definition gc_orphans :: "'w env \<Rightarrow> ('w, string list) mact" where
  "gc_orphans E = check (reconcile E False) (\<lambda>rep. fold_act (gc_orphan E) (rp_orphans rep) [])"

section \<open>Capacity\<close>

text \<open>The report of GET /capacity; the ratio of the pool is the pair of its two numbers.\<close>

record capacity =
  ca_introspectable :: bool
  ca_pool_used :: int
  ca_pool_total :: int
  ca_ports_used :: nat
  ca_ports_total :: int
  ca_mem_available :: int
  ca_expected_rss :: int
  ca_running :: nat
  ca_max_running :: int
  ca_max_branches :: int

definition capacity_report :: "'w env \<Rightarrow> ('w, capacity) mact" where
  "capacity_report E =
     attempt (case st_pool_capacity (sto E) of None \<Rightarrow> throw ENotFound | Some pc \<Rightarrow> ext pc) (\<lambda>pool.
     attempt (sql E used_ports) (\<lambda>ports.
     attempt (case avail_mem E of None \<Rightarrow> throw ENotFound | Some am \<Rightarrow> ext am) (\<lambda>mem.
     attempt (sql E list_branches) (\<lambda>bs.
     let known = (case pool of Inl _ \<Rightarrow> False | Inr (u, tot) \<Rightarrow> tot > 0) in
     ret \<lparr>ca_introspectable = known,
          ca_pool_used = (case pool of Inr (u, tot) \<Rightarrow> if known then u else 0 | Inl _ \<Rightarrow> 0),
          ca_pool_total = (case pool of Inr (u, tot) \<Rightarrow> if known then tot else 0 | Inl _ \<Rightarrow> 0),
          ca_ports_used = (case ports of Inl _ \<Rightarrow> 0 | Inr l \<Rightarrow> length (remdups l)),
          ca_ports_total = c_port_high (cfg E) - c_port_low (cfg E) + 1,
          ca_mem_available = (case mem of Inl _ \<Rightarrow> 0 | Inr n \<Rightarrow> n),
          ca_expected_rss = expected_rss E,
          ca_running = (case bs of Inl _ \<Rightarrow> 0
             | Inr l \<Rightarrow> length (filter (\<lambda>b. b_state b = Running) l)),
          ca_max_running = c_max_running (cfg E), ca_max_branches = c_max_branches (cfg E)\<rparr>))))"

end
