(* ===== verification/Host.thy ===== *)
theory Host
  imports Backend
begin

text \<open>
  The operating system, as packages baseline, hooks and workspace use it: files, commands and
  signals. As with storage and engine, nothing is assumed of it. Paths are joined with a slash;
  the other simplifications of \<^verbatim>\<open>filepath.Clean\<close> are left out.
\<close>

text \<open>The outcome of a call on a path, as far as \<^verbatim>\<open>os.IsNotExist\<close> and
  \<^verbatim>\<open>os.IsPermission\<close> tell them apart, and of running a command.\<close>

datatype fs_result = FsOk | FsNotExist err | FsPermission err | FsFailed err

datatype run_result = RunOk | RunExit int err | RunFailed err

fun run_error :: "run_result \<Rightarrow> err option" where
  "run_error RunOk = None"
| "run_error (RunExit code e) = Some e"
| "run_error (RunFailed e) = Some e"

text \<open>
  A command: its environment (\<open>None\<close> inherits that of the daemon), the file it reads as
  standard input, and the user it runs as when that is changed.
\<close>

record cmd =
  cmd_path :: string
  cmd_args :: "string list"
  cmd_env :: "string list option"
  cmd_stdin :: "string option"
  cmd_user :: "(nat \<times> nat) option"

record 'w host =
  h_stat :: "string \<Rightarrow> 'w \<Rightarrow> fs_result \<times> 'w"
  h_remove :: "string \<Rightarrow> 'w \<Rightarrow> fs_result \<times> 'w"
  h_open :: "string \<Rightarrow> ('w, unit) ext"
  h_glob :: "string \<Rightarrow> ('w, string list) ext"
  h_read_dir :: "string \<Rightarrow> ('w, (string \<times> bool) list) ext"
  h_executable :: "string \<Rightarrow> ('w, bool) ext"
  h_mod_time :: "string \<Rightarrow> ('w, int) ext"
  h_mkdir_all :: "string \<Rightarrow> ('w, unit) ext"
  h_create :: "string \<Rightarrow> ('w, unit) ext"
  h_read_file :: "string \<Rightarrow> ('w, string) ext"
  h_run :: "cmd \<Rightarrow> 'w \<Rightarrow> (run_result \<times> string) \<times> 'w"
  h_sigterm :: "int \<Rightarrow> 'w \<Rightarrow> unit \<times> 'w"
  h_is_root :: bool
  h_environ :: "string list"
  h_tmp_dir :: string
  h_lookup_user :: "string \<Rightarrow> (nat \<times> nat) option"

definition exists_file :: "'w host \<Rightarrow> string \<Rightarrow> ('w, bool) mact" where
  "exists_file H p = check (pure_ext (h_stat H p)) (\<lambda>r. ret (r = FsOk))"

definition run_cmd :: "'w host \<Rightarrow> cmd \<Rightarrow> ('w, run_result \<times> string) mact" where
  "run_cmd H c = pure_ext (h_run H c)"

definition newline :: char where
  "newline = CHR 0x0A"

section \<open>Paths\<close>

definition drop_slashes :: "string \<Rightarrow> string" where
  "drop_slashes p = rev (dropWhile (\<lambda>c. c = CHR ''/'') (rev p))"

text \<open>\<^verbatim>\<open>filepath.Base\<close> and \<^verbatim>\<open>filepath.Dir\<close> of a clean path.\<close>

definition base_name :: "string \<Rightarrow> string" where
  "base_name p =
     (if p = [] then ''.''
      else let q = drop_slashes p in if q = [] then ''/'' else last (split_on (CHR ''/'') q))"

definition dir_name :: "string \<Rightarrow> string" where
  "dir_name p =
     (let q = rev (dropWhile (\<lambda>c. c \<noteq> CHR ''/'') (rev p)); d = drop_slashes q
      in if d \<noteq> [] then d else if q \<noteq> [] then ''/'' else ''.'')"

definition in_dir :: "string \<Rightarrow> string \<Rightarrow> string" where
  "in_dir d n = d @ ''/'' @ n"

section \<open>Time stamps\<close>

text \<open>The civil date of a day number (days since 1970-01-01), and the layout \<^verbatim>\<open>20060102T150405Z\<close>.\<close>

definition civil_date :: "int \<Rightarrow> int \<times> int \<times> int" where
  "civil_date days =
     (let z = days + 719468; era = z div 146097; doe = z mod 146097;
          yoe = (doe - doe div 1460 + doe div 36524 - doe div 146096) div 365;
          doy = doe - (365 * yoe + yoe div 4 - yoe div 100);
          mp = (5 * doy + 2) div 153;
          m = (if mp < 10 then mp + 3 else mp - 9)
      in (yoe + era * 400 + (if m \<le> 2 then 1 else 0), m, doy - (153 * mp + 2) div 5 + 1))"

definition pad :: "nat \<Rightarrow> int \<Rightarrow> string" where
  "pad w n = (let s = show_int n in replicate (w - length s) (CHR ''0'') @ s)"

definition compact_time :: "int \<Rightarrow> string" where
  "compact_time t = (let sec = t div second in case civil_date (sec div 86400) of (y, m, d) \<Rightarrow>
     pad 4 y @ pad 2 m @ pad 2 d @ ''T'' @ pad 2 (sec mod 86400 div 3600)
       @ pad 2 (sec mod 3600 div 60) @ pad 2 (sec mod 60) @ ''Z'')"

end
