(* ===== verification/Baselines.thy ===== *)
theory Baselines
  imports Reaper Host
begin

text \<open>
  internal/workspace/baseline.go and the validation part of refresh.go: promoting a branch to a
  baseline, switching the current baseline, collecting and deleting old ones, and checking a
  candidate on a temporary branch.
\<close>

section \<open>The configuration of a refresh\<close>

definition no_request :: "'w refresh_config" where
  "no_request = \<lparr>rc_script = [], rc_timeout = 0, rc_source_dir = [], rc_source_db = [],
     rc_run_source = None, rc_app_user_only = False, rc_use_loader = False,
     rc_check_quiesced = None, rc_require_masked = False, rc_require_validated = False,
     rc_validate_port = 0, rc_sentinel = [], rc_skip_validate = False\<rparr>"

definition or_default :: "string \<Rightarrow> string \<Rightarrow> string" where
  "or_default s d = (if s = [] then d else s)"

definition filled_config :: "'w refresh_config \<Rightarrow> 'w refresh_config \<Rightarrow> 'w refresh_config" where
  "filled_config pol rc = rc\<lparr>
     rc_script := or_default (or_default (rc_script rc) (rc_script pol)) ''/etc/sashiki/refresh.sh'',
     rc_timeout := (if rc_timeout rc \<noteq> 0 then rc_timeout rc
                    else if rc_timeout pol \<noteq> 0 then rc_timeout pol else hour),
     rc_source_dir := or_default (rc_source_dir rc) (rc_source_dir pol),
     rc_source_db := or_default (rc_source_db rc) (rc_source_db pol),
     rc_require_masked := (rc_require_masked rc \<or> rc_require_masked pol),
     rc_require_validated := (rc_require_validated rc \<or> rc_require_validated pol),
     rc_validate_port := (if rc_validate_port rc = 0 then rc_validate_port pol else rc_validate_port rc),
     rc_sentinel := or_default (rc_sentinel rc) (rc_sentinel pol)\<rparr>"

definition resolve_refresh_config ::
  "'w host \<Rightarrow> 'w refresh_config \<Rightarrow> 'w refresh_config \<Rightarrow> ('w, 'w refresh_config) mact" where
  "resolve_refresh_config H pol rc =
     (let f = filled_config pol rc; forced = (rc_run_source f \<noteq> None \<or> rc_app_user_only f) in
      check (if \<not> forced \<and> rc_source_dir f \<noteq> [] then check (exists_file H (rc_script f)) (\<lambda>x. ret (\<not> x))
             else ret forced) (\<lambda>ul.
      ret (f\<lparr>rc_use_loader := ul,
             rc_source_dir := (if rc_app_user_only f then [] else rc_source_dir f)\<rparr>)))"

section \<open>Tags\<close>

definition new_baseline_tag :: "'w env \<Rightarrow> ('w, string) mact" where
  "new_baseline_tag E = check (now E) (\<lambda>t. ret (''baseline-'' @ compact_time t))"

section \<open>Validation of a candidate\<close>

definition validate_name :: string where
  "validate_name = ''_validate''"

definition with_cleanup :: "('w, unit) mact \<Rightarrow> ('w, 'a) mact \<Rightarrow> ('w, 'a) mact" where
  "with_cleanup c m = attempt m (\<lambda>r. ignoring c (case r of Inl e \<Rightarrow> throw e | Inr a \<Rightarrow> ret a))"

definition clear_validate :: "'w env \<Rightarrow> 'w refresh_config \<Rightarrow> ('w, unit) mact" where
  "clear_validate E rc = handle_err (resolve_volume E validate_name) (\<lambda>_. ret ()) (\<lambda>vol.
     ignoring (eng_kill E (instance_for validate_name (rc_validate_port rc) vol))
       (delete_and_poll E vol))"

definition try_candidate :: "'w env \<Rightarrow> branch \<Rightarrow> volume \<Rightarrow> ('w, unit) mact" where
  "try_candidate E b vol =
     check (wrapping (prefixed ''candidate engine start: '') (eng_start E (instance_of b vol))) (\<lambda>_.
     check (wrapping (prefixed ''candidate not ready (crash recovery?): '')
              (wait_ready E (instance_of b vol))) (\<lambda>_.
     check (hook_exists E OnBaselineValidate) (\<lambda>has.
     if has then wrapping (prefixed ''validation hook failed: '') (run_hook E OnBaselineValidate b vol)
     else ret ())))"

definition validate_candidate :: "'w env \<Rightarrow> string \<Rightarrow> 'w refresh_config \<Rightarrow> ('w, unit) mact" where
  "validate_candidate E snap rc =
     ignoring (clear_validate E rc) (
     check (wrapping (prefixed ''cannot validate (admission): '') (admit_memory E ''baseline-validate'')) (\<lambda>_.
     check (wrapping (prefixed ''clone candidate: '') (clone_vol E snap validate_name)) (\<lambda>vol.
     let b = zero_branch\<lparr>b_name := validate_name,
               b_port := (if rc_validate_port rc = 0 then 3999 else rc_validate_port rc)\<rparr> in
     with_cleanup (ignoring (eng_kill E (instance_of b vol)) (delete_and_poll E vol))
       (try_candidate E b vol))))"

definition validate_baseline ::
  "'w env \<Rightarrow> 'w host \<Rightarrow> 'w refresh_config \<Rightarrow> string \<Rightarrow> ('w, unit) mact" where
  "validate_baseline E H pol snap =
     handle_err (sql E (get_baseline snap))
       (\<lambda>_. throw (EWrap [] EBaselineNotFound ('': '' @ snap))) (\<lambda>b.
     check (resolve_refresh_config H pol no_request) (\<lambda>rc.
     check (wrapping (prefixed ''validate: '') (validate_candidate E snap rc)) (\<lambda>_.
     sql_at E (\<lambda>t. register_baseline t snap ((bs_prov b)\<lparr>p_validated := True\<rparr>)))))"

section \<open>Promote\<close>

record promote_options =
  po_masked :: bool
  po_skip_validate :: bool

definition fresh_prov :: "string \<Rightarrow> bool \<Rightarrow> bool \<Rightarrow> provenance" where
  "fresh_prov tag masked validated = \<lparr>p_source_rev = [], p_schema_rev = [], p_data_as_of = tag,
     p_masked = masked, p_mask_version = [], p_validated = validated\<rparr>"

text \<open>
  Snapshot of the stopped branch and its registration; the branch is started again afterwards,
  whatever the outcome.
\<close>

definition promote_snapshot ::
  "'w env \<Rightarrow> 'w host \<Rightarrow> (volume \<Rightarrow> string \<Rightarrow> ('w, string) ext) \<Rightarrow> bool \<Rightarrow> volume
   \<Rightarrow> ('w, string \<times> string) mact" where
  "promote_snapshot E H pr masked vol =
     check (pure_ext (h_remove H (v_path vol @ ''/data/auto.cnf''))) (\<lambda>_.
     check (new_baseline_tag E) (\<lambda>tag.
     check (wrapping (prefixed ''promote snapshot: '')
              (logged (\<lambda>r. EvPromote vol tag (is_ok r)) (pr vol tag))) (\<lambda>snap.
     check (wrapping (prefixed ''promote: cannot register the baseline: '')
              (sql_at E (\<lambda>t. register_baseline t snap (fresh_prov tag masked False)))) (\<lambda>_.
     ret (snap, tag)))))"

definition restart_branch :: "'w env \<Rightarrow> inst \<Rightarrow> ('w, unit) mact" where
  "restart_branch E ins = handle_err (eng_start E ins) (\<lambda>_. ret ())
     (\<lambda>_. ignoring (wait_ready E ins) (ret ()))"

definition promote_take ::
  "'w env \<Rightarrow> 'w host \<Rightarrow> (volume \<Rightarrow> string \<Rightarrow> ('w, string) ext) \<Rightarrow> bool \<Rightarrow> branch \<Rightarrow> volume
   \<Rightarrow> ('w, string \<times> string) mact" where
  "promote_take E H pr masked b vol =
     check (wrapping (prefixed (''promote: cannot stop branch '' @ b_name b @ '': ''))
              (eng_stop E (instance_of b vol))) (\<lambda>_.
     with_cleanup (restart_branch E (instance_of b vol)) (promote_snapshot E H pr masked vol))"

text \<open>Registration as validated, and the switch of the current baseline.\<close>

definition publish_promoted ::
  "'w env \<Rightarrow> string \<Rightarrow> string \<Rightarrow> bool \<Rightarrow> bool \<Rightarrow> ('w, string) mact" where
  "publish_promoted E snap tag masked validated =
     check (wrapping (\<lambda>e. EWrap (''promote: '' @ snap @ '' was deleted during validate: '') e [])
              (sql E (get_baseline snap))) (\<lambda>_.
     check (if validated
            then wrapping (prefixed ''promote: cannot record validated: '')
                   (sql_at E (\<lambda>t. register_baseline t snap (fresh_prov tag masked True)))
            else ret ()) (\<lambda>_.
     check (wrapping (prefixed ''promote: cannot set the current baseline: '')
              (sql_at E (\<lambda>t. set_current_baseline t snap))) (\<lambda>_. ret snap)))"

definition promote_branch ::
  "'w env \<Rightarrow> 'w host \<Rightarrow> 'w refresh_config \<Rightarrow> string \<Rightarrow> promote_options \<Rightarrow> ('w, string) mact" where
  "promote_branch E H pol name opts = (case st_promote (sto E) of
      None \<Rightarrow> throw (EWrap [] EPrecondition '': this backend cannot promote'')
    | Some pr \<Rightarrow> check (resolve_refresh_config H pol no_request) (\<lambda>rc.
        if rc_require_masked rc \<and> \<not> po_masked opts
        then throw (EWrap [] EPrecondition
               ('': promote needs the declaration --masked (require_masked) for branch '' @ quoted name))
        else if rc_require_validated rc \<and> po_skip_validate opts
        then throw (EWrap [] EPrecondition '': require_validated forbids --skip-validate'')
        else check (sql E (get_branch name)) (\<lambda>b.
          if b_state b \<noteq> Running \<and> b_state b \<noteq> Sleeping
          then throw (EWrap [] EPrecondition ('': branch '' @ name @ '' is '' @ state_text (b_state b)
                 @ '' (promote needs running or sleeping)''))
          else check (resolve_volume E (b_name b)) (\<lambda>vol.
          check (promote_take E H pr (po_masked opts) b vol) (\<lambda>(snap, tag).
          check (if po_skip_validate opts then ret ()
                 else wrapping (\<lambda>e. EWrap ''promote: validate: '' e
                        (''('' @ snap @ '' is registered but not current)'')) (validate_candidate E snap rc)) (\<lambda>_.
          publish_promoted E snap tag (po_masked opts) (\<not> po_skip_validate opts)))))))"

section \<open>Set, garbage collection, delete\<close>

definition set_baseline :: "'w env \<Rightarrow> 'w refresh_config \<Rightarrow> string \<Rightarrow> ('w, unit) mact" where
  "set_baseline E pol snap =
     handle_err (sql E (get_baseline snap))
       (\<lambda>_. throw (EWrap (''baseline '' @ snap @ '' is not registered: '') EBaselineNotFound [])) (\<lambda>b.
     if rc_require_masked pol \<and> \<not> p_masked (bs_prov b)
     then throw (EWrap (''cannot set baseline '' @ snap @ '': not masked (require_masked): '') EPrecondition [])
     else if rc_require_validated pol \<and> \<not> p_validated (bs_prov b)
     then throw (EWrap (''cannot set baseline '' @ snap @ '': not validated (require_validated): '') EPrecondition [])
     else sql_at E (\<lambda>t. set_current_baseline t snap))"

record gc_config =
  gc_keep_last :: int
  gc_retention :: int
  gc_dry_run :: bool

record gc_result =
  gr_deleted :: "string list"
  gr_kept :: "string list"

definition baseline_gc_config :: "'w env \<Rightarrow> gc_config" where
  "baseline_gc_config E = \<lparr>gc_keep_last = c_keep_last (cfg E), gc_retention = c_retention (cfg E),
     gc_dry_run = False\<rparr>"

definition drop_snapshot :: "'w env \<Rightarrow> string \<Rightarrow> ('w, unit) mact" where
  "drop_snapshot E snap = (case st_delete_baseline (sto E) of
      None \<Rightarrow> ret () | Some dl \<Rightarrow> logged (\<lambda>r. EvDropSnapshot snap (is_ok r)) (dl snap))"

definition gc_keeps ::
  "'w env \<Rightarrow> gc_config \<Rightarrow> string \<Rightarrow> (string \<Rightarrow> nat) \<Rightarrow> nat \<times> baseline \<Rightarrow> ('w, bool) mact" where
  "gc_keeps E c cur refs ib = (case ib of (i, b) \<Rightarrow>
     if bs_snapshot b = cur then ret True
     else if bs_current b then ret True
     else if refs (bs_snapshot b) > 0 then ret True
     else if gc_keep_last c > 0 \<and> int i < gc_keep_last c then ret True
     else if gc_retention c > 0 then check (now E) (\<lambda>t. ret (t - bs_created b < gc_retention c))
     else ret False)"

definition gc_one ::
  "'w env \<Rightarrow> gc_config \<Rightarrow> string \<Rightarrow> (string \<Rightarrow> nat) \<Rightarrow> nat \<times> baseline \<Rightarrow> gc_result \<Rightarrow> ('w, gc_result) mact" where
  "gc_one E c cur refs ib res = check (gc_keeps E c cur refs ib) (\<lambda>kept.
     let snap = bs_snapshot (snd ib); keep = res\<lparr>gr_kept := gr_kept res @ [snap]\<rparr>;
         gone = res\<lparr>gr_deleted := gr_deleted res @ [snap]\<rparr> in
     if kept then ret keep
     else if gc_dry_run c then ret gone
     else handle_err (drop_snapshot E snap) (\<lambda>_. ret keep)
       (\<lambda>_. check (sql E (delete_baseline_row snap)) (\<lambda>_. ret gone)))"

definition gc_baselines :: "'w env \<Rightarrow> gc_config \<Rightarrow> ('w, gc_result) mact" where
  "gc_baselines E c = check (sql E list_baselines) (\<lambda>bls.
     check (sql E baseline_ref_counts) (\<lambda>refs.
     check (current_baseline E) (\<lambda>cur.
     fold_act (gc_one E c cur refs) (enumerate 0 (sort_key (\<lambda>b. - bs_created b) bls))
       \<lparr>gr_deleted = [], gr_kept = []\<rparr>)))"

definition delete_baseline :: "'w env \<Rightarrow> string \<Rightarrow> ('w, unit) mact" where
  "delete_baseline E snap =
     handle_err (sql E (get_baseline snap))
       (\<lambda>_. throw (EWrap [] EBaselineNotFound ('': '' @ snap))) (\<lambda>_.
     check (current_baseline E) (\<lambda>cur.
     if cur = snap then throw (EWrap [] EPrecondition ('': baseline '' @ snap @ '' is current''))
     else check (sql E baseline_ref_counts) (\<lambda>refs.
       if refs snap > 0
       then throw (EWrap [] EPrecondition ('': baseline '' @ snap @ '' is referenced by ''
              @ show_int (int (refs snap)) @ '' branch(es)''))
       else check (drop_snapshot E snap) (\<lambda>_. sql E (delete_baseline_row snap)))))"

end
