(* ===== verification/Loader.thy ===== *)
theory Loader
  imports Host "HOL-Library.List_Lexorder" "HOL-Library.Char_ord"
begin

text \<open>
  internal/baseline: the temporary server on the base datadir, which \<^verbatim>\<open>baseline refresh\<close> uses
  to apply SQL files and to bring the application user up to date, for MySQL (baseline.go,
  dialect.go, appuser.go) and PostgreSQL (postgres.go). A loader is a record of operations, as
  in the source; the two that run real commands are \<open>mysql_ops\<close> and \<open>postgres_ops\<close>.
\<close>

section \<open>Servers, dialects, operations\<close>

record server =
  sv_data_dir :: string
  sv_socket :: string
  sv_pid_file :: string
  sv_log_error :: string
  sv_uid :: nat
  sv_gid :: nat
  sv_mysqld :: string
  sv_extra_cnf :: string
  sv_pg_bin_dir :: string
  sv_pg_port :: int
  sv_pg_db :: string

definition no_server :: server where
  "no_server = \<lparr>sv_data_dir = [], sv_socket = [], sv_pid_file = [], sv_log_error = [], sv_uid = 0,
     sv_gid = 0, sv_mysqld = [], sv_extra_cnf = [], sv_pg_bin_dir = [], sv_pg_port = 0, sv_pg_db = []\<rparr>"

record dialect =
  d_create_meta :: string
  d_create_migrations :: string
  d_count :: "string \<Rightarrow> string"
  d_insert :: "string \<Rightarrow> string"
  d_server_version :: string
  d_app_user_sql :: "(string \<Rightarrow> string \<Rightarrow> string \<Rightarrow> string) option"

record 'w loader_ops =
  lo_initialize :: "server \<Rightarrow> ('w, unit) mact"
  lo_start :: "server \<Rightarrow> ('w, unit) mact"
  lo_wait_ready :: "server \<Rightarrow> int \<Rightarrow> ('w, unit) mact"
  lo_query :: "server \<Rightarrow> string \<Rightarrow> ('w, string) mact"
  lo_apply_file :: "server \<Rightarrow> string \<Rightarrow> string \<Rightarrow> ('w, unit) mact"
  lo_shutdown :: "server \<Rightarrow> ('w, unit) mact"
  lo_wait_gone :: "server \<Rightarrow> int \<Rightarrow> ('w, unit) mact"
  lo_dialect :: dialect

section \<open>SQL texts\<close>

definition meta_db :: string where
  "meta_db = ''sashiki_meta''"

definition quote1 :: "string \<Rightarrow> string" where
  "quote1 s = CHR 0x27 # s @ [CHR 0x27]"

definition backslash :: char where
  "backslash = CHR 0x5C"

definition mysql_escape :: "char \<Rightarrow> string" where
  "mysql_escape c =
     (if c = CHR 0x5C then [CHR 0x5C, CHR 0x5C]
      else if c = CHR 0x27 then [CHR 0x5C, CHR 0x27]
      else if c = CHR 0x00 then [CHR 0x5C, CHR ''0'']
      else if c = CHR 0x0A then [CHR 0x5C, CHR ''n'']
      else if c = CHR 0x0D then [CHR 0x5C, CHR ''r'']
      else [c])"

definition mysql_literal :: "string \<Rightarrow> string" where
  "mysql_literal s = quote1 (concat (map mysql_escape s))"

definition doubled :: "char \<Rightarrow> string \<Rightarrow> string" where
  "doubled q s = concat (map (\<lambda>c. if c = q then [q, q] else [c]) s)"

definition pg_ident :: "string \<Rightarrow> string" where
  "pg_ident s = CHR 0x22 # doubled (CHR 0x22) s @ [CHR 0x22]"

definition pg_literal :: "string \<Rightarrow> string" where
  "pg_literal s = quote1 (doubled (CHR 0x27) s)"

definition auth_plugin :: "string \<Rightarrow> string" where
  "auth_plugin version =
     (if contains version ''MariaDB'' then ''mysql_native_password''
      else (case cut_at (CHR ''.'') version of
          (maj, Some _) \<Rightarrow>
            (case (if maj = [] then None else atoi maj) of
               Some n \<Rightarrow> if n < 8 then ''mysql_native_password'' else ''caching_sha2_password''
             | None \<Rightarrow> ''caching_sha2_password'')
        | (_, None) \<Rightarrow> ''caching_sha2_password''))"

definition any_host :: string where
  "any_host = ''@'' @ quote1 ''%''"

definition mysql_app_user_sql :: "string \<Rightarrow> string \<Rightarrow> string \<Rightarrow> string" where
  "mysql_app_user_sql user pass version =
     (let plugin = auth_plugin version; u = mysql_literal user; p = mysql_literal pass in
      ''CREATE USER IF NOT EXISTS '' @ u @ any_host @ '' IDENTIFIED WITH '' @ plugin @ '' BY '' @ p @ ''; ''
      @ ''ALTER USER '' @ u @ any_host @ '' IDENTIFIED WITH '' @ plugin @ '' BY '' @ p @ ''; ''
      @ ''GRANT ALL PRIVILEGES ON *.* TO '' @ u @ any_host @ ''; FLUSH PRIVILEGES;'')"

definition postgres_app_user_sql :: "string \<Rightarrow> string \<Rightarrow> string \<Rightarrow> string" where
  "postgres_app_user_sql user pass version =
     ''DO $$ BEGIN IF EXISTS (SELECT 1 FROM pg_roles WHERE rolname = '' @ pg_literal user @ '') THEN ''
     @ ''ALTER ROLE '' @ pg_ident user @ '' WITH LOGIN SUPERUSER PASSWORD '' @ pg_literal pass @ ''; ELSE ''
     @ ''CREATE ROLE '' @ pg_ident user @ '' LOGIN SUPERUSER PASSWORD '' @ pg_literal pass
     @ ''; END IF; END $$;''"

definition mysql_dialect :: dialect where
  "mysql_dialect = \<lparr>
     d_create_meta = ''CREATE DATABASE IF NOT EXISTS `'' @ meta_db @ ''`'',
     d_create_migrations = ''CREATE TABLE IF NOT EXISTS `'' @ meta_db
       @ ''`._migrations (name VARCHAR(255) PRIMARY KEY, applied_at TIMESTAMP DEFAULT CURRENT_TIMESTAMP)'',
     d_count = (\<lambda>name. ''SELECT COUNT(*) FROM `'' @ meta_db @ ''`._migrations WHERE name = '' @ quote1 name),
     d_insert = (\<lambda>name. ''INSERT INTO `'' @ meta_db @ ''`._migrations (name) VALUES ('' @ quote1 name @ '')''),
     d_server_version = ''SELECT @@version'',
     d_app_user_sql = Some mysql_app_user_sql\<rparr>"

definition postgres_dialect :: dialect where
  "postgres_dialect = \<lparr>
     d_create_meta = ''CREATE SCHEMA IF NOT EXISTS '' @ meta_db,
     d_create_migrations = ''CREATE TABLE IF NOT EXISTS '' @ meta_db
       @ ''._migrations (name text PRIMARY KEY, applied_at timestamptz DEFAULT now())'',
     d_count = (\<lambda>name. ''SELECT COUNT(*) FROM '' @ meta_db @ ''._migrations WHERE name = '' @ quote1 name),
     d_insert = (\<lambda>name. ''INSERT INTO '' @ meta_db @ ''._migrations (name) VALUES ('' @ quote1 name @ '')''),
     d_server_version = ''SHOW server_version'',
     d_app_user_sql = Some postgres_app_user_sql\<rparr>"

definition dialect_zero :: "dialect \<Rightarrow> bool" where
  "dialect_zero d \<longleftrightarrow> d_create_meta d = []"

definition app_user_sql :: "dialect \<Rightarrow> string \<Rightarrow> string \<Rightarrow> string \<Rightarrow> string" where
  "app_user_sql d user pass version = (case d_app_user_sql d of
      Some f \<Rightarrow> f user pass version | None \<Rightarrow> mysql_app_user_sql user pass version)"

section \<open>Applying a directory\<close>

definition mig_char :: "char \<Rightarrow> bool" where
  "mig_char c \<longleftrightarrow> (let n = of_char c :: nat in
     is_digit c \<or> (65 \<le> n \<and> n \<le> 90) \<or> (97 \<le> n \<and> n \<le> 122)) \<or> c \<in> set ''._-''"

definition mig_name_ok :: "string \<Rightarrow> bool" where
  "mig_name_ok n \<longleftrightarrow> n \<noteq> [] \<and> list_all mig_char n"

definition migration_files :: "'w host \<Rightarrow> string \<Rightarrow> ('w, string list) mact" where
  "migration_files H dir =
     (if dir = [] then ret []
      else check (ext (h_glob H (in_dir dir ''*.sql''))) (\<lambda>files.
        case find (\<lambda>f. \<not> mig_name_ok (base_name f)) (sort files) of
          Some f \<Rightarrow> throw (EText (''bad character in migration name: '' @ base_name f))
        | None \<Rightarrow> ret (sort files)))"

definition apply_migration ::
  "'w loader_ops \<Rightarrow> server \<Rightarrow> dialect \<Rightarrow> string \<Rightarrow> string \<Rightarrow> string list \<Rightarrow> ('w, string list) mact" where
  "apply_migration ops sv dia dbn f applied =
     (let name = base_name f in
      check (lo_query ops sv (d_count dia name)) (\<lambda>got.
      if got = ''1'' then ret applied
      else check (wrapping (\<lambda>e. EWrap (''apply '' @ name @ '': '') e []) (lo_apply_file ops sv dbn f)) (\<lambda>_.
        check (lo_query ops sv (d_insert dia name)) (\<lambda>_. ret (applied @ [name])))))"

definition apply_migrations ::
  "'w loader_ops \<Rightarrow> server \<Rightarrow> dialect \<Rightarrow> string list \<Rightarrow> string \<Rightarrow> ('w, string list) mact" where
  "apply_migrations ops sv dia files dbn =
     (if files = [] then ret []
      else check (lo_query ops sv (d_create_meta dia)) (\<lambda>_.
        check (lo_query ops sv (d_create_migrations dia)) (\<lambda>_.
        fold_act (apply_migration ops sv dia dbn) files [])))"

definition shut_down :: "'w loader_ops \<Rightarrow> server \<Rightarrow> ('w, unit) mact" where
  "shut_down ops sv = check (lo_shutdown ops sv) (\<lambda>_. lo_wait_gone ops sv (60 * second))"

definition sync_user ::
  "'w loader_ops \<Rightarrow> server \<Rightarrow> dialect \<Rightarrow> string \<Rightarrow> string \<Rightarrow> ('w, unit) mact" where
  "sync_user ops sv dia user pass =
     check (if d_server_version dia \<noteq> []
            then handle_err (lo_query ops sv (d_server_version dia)) (\<lambda>_. ret []) ret
            else ret []) (\<lambda>version.
     check (wrapping (\<lambda>e. EWrap (''app user '' @ user @ '': '') e [])
              (lo_query ops sv (app_user_sql dia user pass (trim_space version)))) (\<lambda>_. ret ()))"

text \<open>The work between the start and the shutdown of the server.\<close>

definition loader_work ::
  "'w loader_ops \<Rightarrow> server \<Rightarrow> dialect \<Rightarrow> string list \<Rightarrow> string \<Rightarrow> string \<Rightarrow> string \<Rightarrow> ('w, string list) mact" where
  "loader_work ops sv dia files dbn user pass =
     check (lo_wait_ready ops sv (60 * second)) (\<lambda>_.
     check (apply_migrations ops sv dia files dbn) (\<lambda>applied.
     check (if user \<noteq> [] \<and> pass \<noteq> [] then sync_user ops sv dia user pass else ret ()) (\<lambda>_.
     ret applied)))"

definition apply_and_sync ::
  "'w host \<Rightarrow> 'w loader_ops \<Rightarrow> server \<Rightarrow> string \<Rightarrow> string \<Rightarrow> string \<Rightarrow> string \<Rightarrow> ('w, string list) mact" where
  "apply_and_sync H ops sv dir dbn user pass = check (migration_files H dir) (\<lambda>files.
     if files = [] \<and> \<not> (user \<noteq> [] \<and> pass \<noteq> []) then ret []
     else
     let dia = (if dialect_zero (lo_dialect ops) then mysql_dialect else lo_dialect ops) in
     check (wrapping (\<lambda>e. EWrap ''start: '' e []) (lo_start ops sv)) (\<lambda>_.
     handle_err (loader_work ops sv dia files dbn user pass)
       (\<lambda>cause. ignoring (shut_down ops sv) (throw cause)) (\<lambda>applied.
     check (wrapping (\<lambda>e. EWrap ''graceful shutdown: '' e []) (shut_down ops sv)) (\<lambda>_.
     ret applied))))"

definition apply_dir ::
  "'w host \<Rightarrow> 'w loader_ops \<Rightarrow> server \<Rightarrow> string \<Rightarrow> string \<Rightarrow> ('w, string list) mact" where
  "apply_dir H ops sv dir dbn = apply_and_sync H ops sv dir dbn [] []"

definition sync_app_user ::
  "'w host \<Rightarrow> 'w loader_ops \<Rightarrow> server \<Rightarrow> string \<Rightarrow> string \<Rightarrow> ('w, unit) mact" where
  "sync_app_user H ops sv user pass = check (apply_and_sync H ops sv [] [] user pass) (\<lambda>_. ret ())"

definition apply_dir_sync ::
  "'w host \<Rightarrow> 'w loader_ops \<Rightarrow> server \<Rightarrow> string \<Rightarrow> string \<Rightarrow> string \<Rightarrow> string \<Rightarrow> ('w, string list) mact" where
  "apply_dir_sync H ops sv dir dbn user pass = apply_and_sync H ops sv dir dbn user pass"

section \<open>Real commands: MySQL\<close>

definition sv_bin :: "server \<Rightarrow> string" where
  "sv_bin sv = (if sv_mysqld sv \<noteq> [] then sv_mysqld sv else ''/usr/sbin/mysqld'')"

definition defaults_args :: "server \<Rightarrow> string list" where
  "defaults_args sv = (if sv_extra_cnf sv \<noteq> [] then [''--defaults-file='' @ sv_extra_cnf sv] else [])"

text \<open>The client next to the server binary when that has a directory and the client exists.\<close>

definition mysql_client :: "'w host \<Rightarrow> server \<Rightarrow> string \<Rightarrow> ('w, string) mact" where
  "mysql_client H sv name =
     (if CHR ''/'' \<in> set (sv_mysqld sv)
      then let p = in_dir (dir_name (sv_mysqld sv)) name in
           check (exists_file H p) (\<lambda>x. ret (if x then p else name))
      else ret name)"

definition plain_cmd :: "string \<Rightarrow> string list \<Rightarrow> cmd" where
  "plain_cmd p args = \<lparr>cmd_path = p, cmd_args = args, cmd_env = None, cmd_stdin = None, cmd_user = None\<rparr>"

definition server_user :: "server \<Rightarrow> (nat \<times> nat) option" where
  "server_user sv = (if sv_uid sv \<noteq> 0 \<or> sv_gid sv \<noteq> 0 then Some (sv_uid sv, sv_gid sv) else None)"

text \<open>\<^verbatim>\<open>CombinedOutput\<close>: a failure carries the trimmed output after the given prefix.\<close>

definition output_of :: "'w host \<Rightarrow> string \<Rightarrow> cmd \<Rightarrow> ('w, string) mact" where
  "output_of H pre c = check (run_cmd H c) (\<lambda>(r, out). case run_error r of
      Some e \<Rightarrow> throw (EWrap pre e ('': '' @ trim_space out))
    | None \<Rightarrow> ret out)"

definition run_as :: "'w host \<Rightarrow> server \<Rightarrow> string \<Rightarrow> string list \<Rightarrow> ('w, unit) mact" where
  "run_as H sv name args =
     check (output_of H (name @ '': '') ((plain_cmd name args)\<lparr>cmd_user := server_user sv\<rparr>)) (\<lambda>_. ret ())"

definition mysql_initialize_args :: "server \<Rightarrow> string list" where
  "mysql_initialize_args sv = defaults_args sv @ [''--initialize-insecure'',
     ''--datadir='' @ sv_data_dir sv, ''--log-error='' @ sv_log_error sv]"

definition mysql_start_args :: "server \<Rightarrow> string list" where
  "mysql_start_args sv = defaults_args sv @ [''--datadir='' @ sv_data_dir sv, ''--port=0'',
     ''--skip-networking'', ''--socket='' @ sv_socket sv, ''--pid-file='' @ sv_pid_file sv,
     ''--log-error='' @ sv_log_error sv, ''--daemonize'']"

definition admin_cmd :: "'w host \<Rightarrow> server \<Rightarrow> string \<Rightarrow> ('w, cmd) mact" where
  "admin_cmd H sv verb = check (mysql_client H sv ''mysqladmin'') (\<lambda>p.
     ret (plain_cmd p [''-uroot'', ''-S'', sv_socket sv, verb]))"

definition ping_ready :: "'w env \<Rightarrow> 'w host \<Rightarrow> server \<Rightarrow> ('w, unit option) mact" where
  "ping_ready E H sv = check (pure_ext (ctx_err E)) (\<lambda>cancelled. case cancelled of
      Some e \<Rightarrow> throw e
    | None \<Rightarrow> check (admin_cmd H sv ''ping'') (\<lambda>c. check (run_cmd H c) (\<lambda>(r, out).
        ret (if r = RunOk then Some () else None))))"

definition wait_for ::
  "'w env \<Rightarrow> int \<Rightarrow> int \<Rightarrow> ('w, unit option) mact \<Rightarrow> string \<Rightarrow> ('w, unit) mact" where
  "wait_for E timeout pause body msg = wait_within E timeout pause body (throw (EText msg))"

definition absent_step :: "'w host \<Rightarrow> string \<Rightarrow> ('w, unit option) mact" where
  "absent_step H p = check (pure_ext (h_stat H p)) (\<lambda>r.
     ret (case r of FsNotExist _ \<Rightarrow> Some () | _ \<Rightarrow> None))"

definition mysql_query :: "'w host \<Rightarrow> server \<Rightarrow> string \<Rightarrow> ('w, string) mact" where
  "mysql_query H sv q = check (mysql_client H sv ''mysql'') (\<lambda>p.
     check (output_of H [] (plain_cmd p [''-uroot'', ''-S'', sv_socket sv, ''-N'', ''-B'', ''-e'', q])) (\<lambda>out.
     ret (trim_space out)))"

definition mysql_apply_file :: "'w host \<Rightarrow> server \<Rightarrow> string \<Rightarrow> string \<Rightarrow> ('w, unit) mact" where
  "mysql_apply_file H sv dbn path = check (ext (h_open H path)) (\<lambda>_.
     check (mysql_client H sv ''mysql'') (\<lambda>p.
     check (output_of H [] ((plain_cmd p ([''-uroot'', ''-S'', sv_socket sv,
         ''--init-command=SET unique_checks=0, foreign_key_checks=0, sql_log_bin=0'']
         @ (if dbn \<noteq> [] then [dbn] else [])))\<lparr>cmd_stdin := Some path\<rparr>)) (\<lambda>_. ret ())))"

definition mysql_ops :: "'w env \<Rightarrow> 'w host \<Rightarrow> 'w loader_ops" where
  "mysql_ops E H = \<lparr>
     lo_initialize = (\<lambda>sv. run_as H sv (sv_bin sv) (mysql_initialize_args sv)),
     lo_start = (\<lambda>sv. run_as H sv (sv_bin sv) (mysql_start_args sv)),
     lo_wait_ready = (\<lambda>sv timeout. wait_for E timeout 500000000 (ping_ready E H sv)
       ''mysqld did not become ready''),
     lo_query = mysql_query H, lo_apply_file = mysql_apply_file H,
     lo_shutdown = (\<lambda>sv. check (admin_cmd H sv ''shutdown'') (\<lambda>c. check (output_of H [] c) (\<lambda>_. ret ()))),
     lo_wait_gone = (\<lambda>sv timeout. wait_for E timeout 200000000 (absent_step H (sv_pid_file sv))
       (''mysqld did not stop ('' @ sv_pid_file sv @ '' is left)'')),
     lo_dialect = mysql_dialect\<rparr>"

section \<open>Real commands: PostgreSQL\<close>

definition pg_socket_dir :: "server \<Rightarrow> string" where
  "pg_socket_dir sv =
     (if sv_socket sv = [] then ''/tmp''
      else if has_suffix (sv_socket sv) ''.sock'' then dir_name (sv_socket sv) else sv_socket sv)"

definition pg_port :: "server \<Rightarrow> int" where
  "pg_port sv = (if sv_pg_port sv > 0 then sv_pg_port sv else 5498)"

definition pg_bin :: "'w host \<Rightarrow> server \<Rightarrow> string \<Rightarrow> ('w, string) mact" where
  "pg_bin H sv name =
     (if sv_pg_bin_dir sv \<noteq> []
      then let p = in_dir (sv_pg_bin_dir sv) name in
           check (exists_file H p) (\<lambda>x. ret (if x then p else name))
      else ret name)"

definition pg_env :: "server \<Rightarrow> string list" where
  "pg_env sv = [''PGHOST='' @ pg_socket_dir sv, ''PGPORT='' @ show_int (pg_port sv), ''PGCONNECT_TIMEOUT=10'']"

definition pg_log_path :: "'w host \<Rightarrow> server \<Rightarrow> string" where
  "pg_log_path H sv = (if sv_log_error sv \<noteq> [] then sv_log_error sv
     else in_dir (h_tmp_dir H) ''sashiki-refresh-pg.log'')"

definition pg_db_or :: "server \<Rightarrow> string \<Rightarrow> string" where
  "pg_db_or sv dbn = (if dbn \<noteq> [] then dbn else if sv_pg_db sv \<noteq> [] then sv_pg_db sv else ''postgres'')"

definition pg_cmd :: "'w host \<Rightarrow> server \<Rightarrow> string \<Rightarrow> string list \<Rightarrow> cmd" where
  "pg_cmd H sv name args = \<lparr>cmd_path = name, cmd_args = args,
     cmd_env = Some (h_environ H @ pg_env sv
       @ (if server_user sv \<noteq> None then [''HOME='' @ h_tmp_dir H] else [])),
     cmd_stdin = None, cmd_user = server_user sv\<rparr>"

definition run_pg :: "'w host \<Rightarrow> server \<Rightarrow> string \<Rightarrow> string list \<Rightarrow> ('w, unit) mact" where
  "run_pg H sv tool args = check (pg_bin H sv tool) (\<lambda>name.
     check (output_of H (name @ '': '') (pg_cmd H sv name args)) (\<lambda>_. ret ()))"

definition output_pg :: "'w host \<Rightarrow> server \<Rightarrow> string \<Rightarrow> string list \<Rightarrow> ('w, string) mact" where
  "output_pg H sv tool args = check (pg_bin H sv tool) (\<lambda>name.
     check (run_cmd H (pg_cmd H sv name args)) (\<lambda>(r, out). case run_error r of
       Some e \<Rightarrow> throw (EWrap (name @ '': '') e []) | None \<Rightarrow> ret out))"

definition trim_right_nl :: "string \<Rightarrow> string" where
  "trim_right_nl s = rev (dropWhile (\<lambda>c. c = newline) (rev s))"

definition last_lines :: "nat \<Rightarrow> string \<Rightarrow> string" where
  "last_lines n s = (let ls = split_on newline (trim_right_nl s) in
     join_with [newline] (drop (length ls - n) ls))"

definition tail_file :: "'w host \<Rightarrow> string \<Rightarrow> nat \<Rightarrow> ('w, string) mact" where
  "tail_file H path n = handle_err (ext (h_read_file H path))
     (\<lambda>e. ret (''(cannot read the log: '' @ err_text e @ '')'')) (\<lambda>s. ret (last_lines n s))"

text \<open>Without a pipe: the server would keep it open.\<close>

definition run_pg_no_pipe :: "'w host \<Rightarrow> server \<Rightarrow> string \<Rightarrow> string list \<Rightarrow> ('w, unit) mact" where
  "run_pg_no_pipe H sv tool args = check (pg_bin H sv tool) (\<lambda>name.
     check (run_cmd H (pg_cmd H sv name args)) (\<lambda>(r, out). case run_error r of
       None \<Rightarrow> ret ()
     | Some e \<Rightarrow> check (tail_file H (pg_log_path H sv) 20) (\<lambda>log.
         throw (EWrap (name @ '': '') e
           ([newline] @ ''--- '' @ pg_log_path H sv @ '' ---'' @ [newline] @ log)))))"

definition pg_start_args :: "'w host \<Rightarrow> server \<Rightarrow> string list" where
  "pg_start_args H sv = [''start'', ''-D'', sv_data_dir sv, ''-o'',
     ''-p '' @ show_int (pg_port sv) @ '' -c listen_addresses='' @ quote1 []
       @ '' -c unix_socket_directories='' @ pg_socket_dir sv,
     ''-l'', pg_log_path H sv, ''-w'', ''-t'', ''60'']"

definition pg_ready :: "'w env \<Rightarrow> 'w host \<Rightarrow> server \<Rightarrow> ('w, unit option) mact" where
  "pg_ready E H sv = check (pure_ext (ctx_err E)) (\<lambda>cancelled. case cancelled of
      Some e \<Rightarrow> throw e
    | None \<Rightarrow> handle_err (run_pg H sv ''pg_isready'' [''-h'', pg_socket_dir sv, ''-p'', show_int (pg_port sv)])
        (\<lambda>_. ret None) (\<lambda>_. ret (Some ())))"

definition postgres_ops :: "'w env \<Rightarrow> 'w host \<Rightarrow> 'w loader_ops" where
  "postgres_ops E H = \<lparr>
     lo_initialize = (\<lambda>sv. throw (EText ''use baseline import to initialize postgres'')),
     lo_start = (\<lambda>sv. run_pg_no_pipe H sv ''pg_ctl'' (pg_start_args H sv)),
     lo_wait_ready = (\<lambda>sv timeout. wait_for E timeout 100000000 (pg_ready E H sv)
       ''timeout: postgres did not become ready''),
     lo_query = (\<lambda>sv q. check (output_pg H sv ''psql''
       [''-w'', ''-v'', ''ON_ERROR_STOP=1'', ''-tAc'', q, ''-d'', pg_db_or sv []]) (\<lambda>out.
       ret (trim_space out))),
     lo_apply_file = (\<lambda>sv dbn path. run_pg H sv ''psql''
       [''-w'', ''-v'', ''ON_ERROR_STOP=1'', ''-d'', pg_db_or sv dbn, ''-f'', path]),
     lo_shutdown = (\<lambda>sv. run_pg H sv ''pg_ctl''
       [''stop'', ''-D'', sv_data_dir sv, ''-m'', ''fast'', ''-w'', ''-t'', ''60'']),
     lo_wait_gone = (\<lambda>sv timeout. wait_for E timeout 100000000
       (absent_step H (in_dir (sv_data_dir sv) ''postmaster.pid''))
       ''timeout: postgres did not stop''),
     lo_dialect = postgres_dialect\<rparr>"

end
