(* ===== verification/Sample.thy ===== *)
theory Sample
  imports Host
begin

text \<open>
  A sample environment for the examples: a backend on which every call succeeds: a world that counts seconds
  and a volume name that is its dataset.
\<close>

definition sample_volume :: "string \<Rightarrow> volume" where
  "sample_volume n = \<lparr>v_name = n, v_dataset = ''pool/'' @ n, v_path = ''/pool/'' @ n\<rparr>"

definition succeed :: "'a \<Rightarrow> (int, 'a) ext" where
  "succeed a w = (Inr a, w)"

definition sample_storage :: "int storage_api" where
  "sample_storage = \<lparr>
     st_caps = \<lparr>fast_rollback = True, typical_create = 2 * second, clones_distinct = False\<rparr>,
     st_clone = (\<lambda>snap n. succeed (sample_volume n)),
     st_snapshot_init = (\<lambda>v. succeed (v_dataset v @ ''@init'')),
     st_rollback = (\<lambda>v snap. succeed ()), st_delete_async = (\<lambda>v. succeed ''job''),
     st_poll = (\<lambda>job. succeed JobCompleted), st_snapshot_base = (\<lambda>tag. succeed (''pool/base@'' @ tag)),
     st_list_snapshots = succeed [], st_used_bytes = (\<lambda>v. succeed 0),
     st_rename = Some (\<lambda>v n. succeed (sample_volume n)), st_pool_capacity = None,
     st_pool_status = None, st_promote = Some (\<lambda>v tag. succeed (v_dataset v @ ''@'' @ tag)),
     st_logical_bytes = None, st_list_volumes = None, st_set_quota = None,
     st_resolve = Some (\<lambda>n. succeed (sample_volume n)), st_delete_baseline = None,
     st_base_path = None, st_base_name = None\<rparr>"

definition sample_engine :: "int engine_api" where
  "sample_engine = \<lparr>en_start = (\<lambda>i. succeed ()), en_stop = (\<lambda>i. succeed ()),
     en_kill = (\<lambda>i. succeed ()), en_wait_ready = (\<lambda>i. succeed ()),
     en_is_running = (\<lambda>i. succeed False), en_conn_count = None, en_exposed = None\<rparr>"

definition sample_config :: mconfig where
  "sample_config = \<lparr>c_name_re = (\<lambda>n. n \<noteq> []), c_max_branches = 2, c_port_low = 3401,
     c_port_high = 3402, c_engine_type = ''mysql'', c_state_dir = ''/var/lib/sashiki/branches'',
     c_lazy_create = True, c_lazy_max_wait = 0, c_idle_stop = hour, c_delete_idle = 24 * hour,
     c_op_retention = 0, c_error_retention = hour, c_profiles = [], c_default_profile = [],
     c_expected_rss = 0, c_headroom = 0, c_buffer_pool = 0, c_max_running = 0,
     c_high_mark = (0, 1), c_critical_mark = (0, 1), c_keep_last = 0, c_retention = 0,
     c_quota = 0, c_mysqld = [], c_extra_cnf = [], c_pg_bin_dir = [], c_pg_run_user = [],
     c_app_user = [], c_app_pass = [], c_root_helper = ''/usr/lib/sashiki/sashiki-root-helper''\<rparr>"

definition sample_env :: "int env" where
  "sample_env = \<lparr>sto = sample_storage, eng = sample_engine, hks = None, cfg = sample_config,
     clock = (\<lambda>w. (w * second, w + 1)), sleeping = (\<lambda>d w. w + d div second + 1),
     ctx_err = (\<lambda>w. (None, w)), sql_fault = (\<lambda>w. (None, w)), avail_mem = None,
     active_conns_fn = None, default_baseline = (\<lambda>w. (''pool/base@b1'', w))\<rparr>"

definition sample_host :: "int host" where
  "sample_host = \<lparr>h_stat = (\<lambda>p w. (if has_suffix p ''.pid'' then FsNotExist ENotFound else FsOk, w)),
     h_remove = (\<lambda>p w. (FsOk, w)),
     h_open = (\<lambda>p. succeed ()), h_glob = (\<lambda>p. succeed [''/sql/a.sql'']), h_read_dir = (\<lambda>p. succeed []),
     h_executable = (\<lambda>p. succeed True), h_mod_time = (\<lambda>p. succeed 0),
     h_mkdir_all = (\<lambda>p. succeed ()), h_create = (\<lambda>p. succeed ()),
     h_read_file = (\<lambda>p. succeed []), h_run = (\<lambda>c w. ((RunOk, []), w)),
     h_sigterm = (\<lambda>p w. ((), w)), h_is_root = True, h_environ = [], h_tmp_dir = ''/tmp'',
     h_lookup_user = (\<lambda>u. Some (999, 999))\<rparr>"

lemma sample_cfg [simp]: "cfg sample_env = sample_config"
  by (simp add: sample_env_def)

end
