(* ===== verification/LoaderFacts.thy ===== *)
theory LoaderFacts
  imports Loader Sample
begin

text \<open>
  What the loader promises: user-supplied texts stay inside their SQL literals, each SQL file is
  applied once, and the server is shut down before the loader returns. The last is a contract
  between the loader and its operations (\<open>loader_contract\<close>), interpreted for MySQL and
  PostgreSQL here and for the engine in Refresh.
\<close>

section \<open>Literals\<close>

text \<open>
  How the servers read literals: MySQL with backslash escapes, PostgreSQL (and MySQL too) with
  doubled quotes. The readers start after the opening quote and give the value and the rest.
\<close>

fun mysql_unescape :: "char \<Rightarrow> char" where
  "mysql_unescape c =
     (if c = CHR ''0'' then CHR 0x00 else if c = CHR ''n'' then CHR 0x0A
      else if c = CHR ''r'' then CHR 0x0D else c)"

fun mysql_body :: "string \<Rightarrow> (string \<times> string) option" where
  "mysql_body [] = None"
| "mysql_body [c] = (if c = CHR 0x27 then Some ([], []) else None)"
| "mysql_body (c # d # s) =
     (if c = CHR 0x5C then map_option (\<lambda>(v, r). (mysql_unescape d # v, r)) (mysql_body s)
      else if c = CHR 0x27 then
        (if d = CHR 0x27 then map_option (\<lambda>(v, r). (CHR 0x27 # v, r)) (mysql_body s)
         else Some ([], d # s))
      else map_option (\<lambda>(v, r). (c # v, r)) (mysql_body (d # s)))"

fun doubled_body :: "char \<Rightarrow> string \<Rightarrow> (string \<times> string) option" where
  "doubled_body q [] = None"
| "doubled_body q [c] = (if c = q then Some ([], []) else None)"
| "doubled_body q (c # d # s) =
     (if c = q then
        (if d = q then map_option (\<lambda>(v, r). (q # v, r)) (doubled_body q s) else Some ([], d # s))
      else map_option (\<lambda>(v, r). (c # v, r)) (doubled_body q (d # s)))"

definition read_literal ::
  "char \<Rightarrow> (string \<Rightarrow> (string \<times> string) option) \<Rightarrow> string \<Rightarrow> (string \<times> string) option" where
  "read_literal q body s = (case s of [] \<Rightarrow> None | c # r \<Rightarrow> if c = q then body r else None)"

lemma mysql_body_plain: "c \<noteq> CHR 0x5C \<Longrightarrow> c \<noteq> CHR 0x27 \<Longrightarrow> s \<noteq> [] \<Longrightarrow>
    mysql_body (c # s) = map_option (\<lambda>(v, r). (c # v, r)) (mysql_body s)"
  by (cases s) simp_all

lemma mysql_body_close: "(rest = [] \<or> hd rest \<noteq> CHR 0x27) \<Longrightarrow>
    mysql_body (CHR 0x27 # rest) = Some ([], rest)"
  by (cases rest) auto

lemma mysql_body_escape: "s \<noteq> [] \<Longrightarrow>
    mysql_body (mysql_escape c @ s) = map_option (\<lambda>(v, r). (c # v, r)) (mysql_body s)"
  by (cases "c \<in> {CHR 0x5C, CHR 0x27, CHR 0x00, CHR 0x0A, CHR 0x0D}")
    (auto simp: mysql_escape_def mysql_body_plain)

lemma mysql_body_escaped: "(rest = [] \<or> hd rest \<noteq> CHR 0x27) \<Longrightarrow>
    mysql_body (concat (map mysql_escape s) @ CHR 0x27 # rest) = Some (s, rest)"
  by (induction s) (simp_all add: mysql_body_close mysql_body_escape)

lemma doubled_body_plain: "c \<noteq> q \<Longrightarrow> s \<noteq> [] \<Longrightarrow>
    doubled_body q (c # s) = map_option (\<lambda>(v, r). (c # v, r)) (doubled_body q s)"
  by (cases s) simp_all

lemma doubled_body_close: "(rest = [] \<or> hd rest \<noteq> q) \<Longrightarrow> doubled_body q (q # rest) = Some ([], rest)"
  by (cases rest) auto

lemma doubled_body_doubled: "(rest = [] \<or> hd rest \<noteq> q) \<Longrightarrow>
    doubled_body q (doubled q s @ q # rest) = Some (s, rest)"
proof (induction s)
  case Nil
  then show ?case by (simp add: doubled_def doubled_body_close)
next
  case (Cons c s)
  then have "doubled_body q (doubled q s @ q # rest) = Some (s, rest)" by simp
  then show ?case
    using doubled_body_plain [of c q "doubled q s @ q # rest"]
    by (cases "c = q") (simp_all add: doubled_def)
qed

text \<open>Whatever bytes the name and the password of the application user hold, the server reads
  the literals built from them back as exactly those bytes and goes on right after the closing
  quote: nothing in them can end a literal early and become SQL.\<close>

theorem quoting_roundtrip:
  assumes "rest = [] \<or> hd rest \<noteq> CHR 0x27 \<and> hd rest \<noteq> CHR 0x22"
  shows "read_literal (CHR 0x27) mysql_body (mysql_literal s @ rest) = Some (s, rest)
    \<and> read_literal (CHR 0x27) (doubled_body (CHR 0x27)) (pg_literal s @ rest) = Some (s, rest)
    \<and> read_literal (CHR 0x22) (doubled_body (CHR 0x22)) (pg_ident s @ rest) = Some (s, rest)"
  using assms mysql_body_escaped [of rest s] doubled_body_doubled [of rest _ s]
  by (auto simp: read_literal_def mysql_literal_def pg_literal_def pg_ident_def quote1_def)

theorem quoting_roundtrip_witness:
  "read_literal (CHR 0x27) mysql_body (mysql_literal (CHR 0x27 # '' OR 1'' @ [CHR 0x5C]) @ ''; '')
     = Some (CHR 0x27 # '' OR 1'' @ [CHR 0x5C], ''; '')"
  using quoting_roundtrip [of "''; ''"] by simp

section \<open>Migrations\<close>

text \<open>
  \<open>rec\<close> reads the table of applied migrations: the statements of the dialect create it without
  changing it, count a name in it, and add a name to it, and a file leaves it alone.
\<close>

definition migration_log ::
  "'w loader_ops \<Rightarrow> server \<Rightarrow> dialect \<Rightarrow> ('w mgr \<Rightarrow> string set) \<Rightarrow> bool" where
  "migration_log ops sv dia rec \<longleftrightarrow>
     (\<forall>q s. q \<in> {d_create_meta dia, d_create_migrations dia} \<longrightarrow> rec (snd (lo_query ops sv q s)) = rec s)
   \<and> (\<forall>n s got s'. lo_query ops sv (d_count dia n) s = (Inr got, s') \<longrightarrow>
        rec s' = rec s \<and> (got = ''1'' \<longleftrightarrow> n \<in> rec s))
   \<and> (\<forall>dbn f s s'. lo_apply_file ops sv dbn f s = (Inr (), s') \<longrightarrow> rec s' = rec s)
   \<and> (\<forall>n s got s'. lo_query ops sv (d_insert dia n) s = (Inr got, s') \<longrightarrow> rec s' = insert n (rec s))"

lemma apply_migration_once:
  assumes log: "migration_log ops sv dia rec"
    and run: "apply_migration ops sv dia dbn f applied s = (Inr r, s')"
  shows "r = applied @ (if base_name f \<in> rec s then [] else [base_name f])
    \<and> rec s' = insert (base_name f) (rec s)"
proof -
  obtain c s1 where c: "lo_query ops sv (d_count dia (base_name f)) s = (c, s1)" by fastforce
  then obtain got where got: "c = Inr got"
    using run by (cases c) (simp_all add: apply_migration_def Let_def check_def)
  have l: "rec s1 = rec s" "got = ''1'' \<longleftrightarrow> base_name f \<in> rec s"
    using log c got unfolding migration_log_def by blast+
  show ?thesis
  proof (cases "base_name f \<in> rec s")
    case True
    with run c got l show ?thesis by (auto simp: apply_migration_def Let_def check_def ret_def)
  next
    case False
    obtain a s2 where a: "lo_apply_file ops sv dbn f s1 = (a, s2)" by fastforce
    obtain i s3 where i: "lo_query ops sv (d_insert dia (base_name f)) s2 = (i, s3)" by fastforce
    obtain x where x: "a = Inr ()" "i = Inr x" "r = applied @ [base_name f]" "s' = s3"
      using run c got l a i False
      by (auto simp: apply_migration_def Let_def check_def wrapping_def ret_def split: sum.splits)
    have "rec s2 = rec s1" using log a x(1) unfolding migration_log_def by blast
    moreover have "rec s3 = insert (base_name f) (rec s2)"
      using log i x(2) unfolding migration_log_def by blast
    ultimately show ?thesis using x l False by simp
  qed
qed

lemma fold_migrations_once:
  assumes log: "migration_log ops sv dia rec" and dist: "distinct (map base_name files)"
    and run: "fold_act (apply_migration ops sv dia dbn) files applied s = (Inr r, s')"
  shows "r = applied @ filter (\<lambda>n. n \<notin> rec s) (map base_name files)
    \<and> rec s' = rec s \<union> set (map base_name files)"
  using dist run
proof (induction files arbitrary: applied s)
  case Nil
  then show ?case by (simp add: ret_def)
next
  case (Cons f fs)
  obtain m s1 where m: "apply_migration ops sv dia dbn f applied s = (m, s1)" by fastforce
  with Cons.prems obtain x where x: "m = Inr x" by (cases m) (simp_all add: check_def)
  have one: "x = applied @ (if base_name f \<in> rec s then [] else [base_name f])"
      "rec s1 = insert (base_name f) (rec s)"
    using apply_migration_once [OF log] m x by blast+
  have "r = x @ filter (\<lambda>n. n \<notin> rec s1) (map base_name fs)
      \<and> rec s' = rec s1 \<union> set (map base_name fs)"
    using Cons.IH [of x s1] Cons.prems m x by (simp add: check_def)
  moreover have "filter (\<lambda>n. n \<notin> rec s1) (map base_name fs) = filter (\<lambda>n. n \<notin> rec s) (map base_name fs)"
    using Cons.prems(1) one(2) by (intro filter_cong) (auto simp: image_iff)
  ultimately show ?case using one by auto
qed

text \<open>Migrations are applied once: a run that succeeds applies exactly the files that were not
  recorded, in order, and records all of them, so that a run over the same files right after it
  applies none.\<close>

theorem migrations_once:
  assumes log: "migration_log ops sv dia rec" and dist: "distinct (map base_name files)"
    and run: "apply_migrations ops sv dia files dbn s = (Inr applied, s')"
  shows "applied = filter (\<lambda>n. n \<notin> rec s) (map base_name files)
    \<and> rec s' = rec s \<union> set (map base_name files)
    \<and> (case apply_migrations ops sv dia files dbn s' of (Inr again, _) \<Rightarrow> again = [] | _ \<Rightarrow> True)"
proof -
  have once: "applied = filter (\<lambda>n. n \<notin> rec s) (map base_name files)
      \<and> rec s' = rec s \<union> set (map base_name files)"
    if "apply_migrations ops sv dia files dbn s = (Inr applied, s')" for s applied s'
  proof (cases "files = []")
    case True
    with that show ?thesis by (simp add: apply_migrations_def ret_def)
  next
    case False
    define q1 where "q1 = lo_query ops sv (d_create_meta dia) s"
    define q2 where "q2 = lo_query ops sv (d_create_migrations dia) (snd q1)"
    have "rec (snd q2) = rec s"
      using log unfolding migration_log_def q1_def q2_def by simp
    moreover have "fold_act (apply_migration ops sv dia dbn) files [] (snd q2) = (Inr applied, s')"
      using that False unfolding apply_migrations_def check_def q1_def q2_def
      by (auto split: prod.splits sum.splits)
    ultimately show ?thesis using fold_migrations_once [OF log dist] by fastforce
  qed
  show ?thesis
    using once [OF run] once [of s'] by (auto split: prod.split sum.split)
qed

text \<open>A database that only keeps the table of migrations, for the example.\<close>

definition count_head :: string where
  "count_head = ''SELECT COUNT(*) FROM `sashiki_meta`._migrations WHERE name = '' @ [CHR 0x27]"

definition insert_head :: string where
  "insert_head = ''INSERT INTO `sashiki_meta`._migrations (name) VALUES ('' @ [CHR 0x27]"

definition table_query :: "string \<Rightarrow> (string list, string) mact" where
  "table_query q = (case cut_prefix q count_head of
      Some n \<Rightarrow> reading world (\<lambda>t. ret (if butlast n \<in> set t then ''1'' else ''0''))
    | None \<Rightarrow> (case cut_prefix q insert_head of
        Some n \<Rightarrow> check (modifying (\<lambda>s. s\<lparr>world := butlast (butlast n) # world s\<rparr>)) (\<lambda>_. ret [])
      | None \<Rightarrow> ret []))"

definition table_ops :: "string list loader_ops" where
  "table_ops = \<lparr>lo_initialize = (\<lambda>sv. ret ()), lo_start = (\<lambda>sv. ret ()),
     lo_wait_ready = (\<lambda>sv t. ret ()), lo_query = (\<lambda>sv. table_query),
     lo_apply_file = (\<lambda>sv dbn f. ret ()), lo_shutdown = (\<lambda>sv. ret ()),
     lo_wait_gone = (\<lambda>sv t. ret ()), lo_dialect = mysql_dialect\<rparr>"

lemma table_count: "d_count mysql_dialect n = count_head @ n @ [CHR 0x27]"
  by (simp add: mysql_dialect_def count_head_def quote1_def meta_db_def)

lemma table_insert: "d_insert mysql_dialect n = insert_head @ n @ [CHR 0x27, CHR 0x29]"
  by (simp add: mysql_dialect_def insert_head_def quote1_def meta_db_def)

lemma table_not_count: "cut_prefix (insert_head @ n) count_head = None"
  by (simp add: cut_prefix_def has_prefix_def insert_head_def count_head_def)

lemma table_log: "migration_log table_ops sv mysql_dialect (\<lambda>s. set (world s))"
proof -
  have "cut_prefix q count_head = None" "cut_prefix q insert_head = None"
    if "q \<in> {d_create_meta mysql_dialect, d_create_migrations mysql_dialect}" for q
    using that by (auto simp: mysql_dialect_def cut_prefix_def has_prefix_def count_head_def
        insert_head_def)
  then show ?thesis
    by (auto simp: migration_log_def table_ops_def table_query_def table_count table_insert
        table_not_count butlast_append ret_def reading_def check_def modifying_def)
qed

definition one_applied :: "string list mgr" where
  "one_applied = start_state [''a.sql'']"

theorem migrations_once_witness:
  "case apply_migrations table_ops no_server mysql_dialect [''/m/a.sql'', ''/m/b.sql''] [] one_applied of
     (Inr applied, s') \<Rightarrow> applied = [''b.sql''] \<and> set (world s') = {''a.sql'', ''b.sql''}
   | _ \<Rightarrow> False"
proof -
  let ?run = "apply_migrations table_ops no_server mysql_dialect [''/m/a.sql'', ''/m/b.sql''] [] one_applied"
  have names: "map base_name [''/m/a.sql'', ''/m/b.sql''] = [''a.sql'', ''b.sql'']" by code_simp
  have "fst ?run = Inr [''b.sql'']" by code_simp
  then obtain s' where r: "?run = (Inr [''b.sql''], s')" by (cases ?run) simp
  show ?thesis
    using migrations_once [OF table_log _ r] names unfolding r by (auto simp: one_applied_def start_state_def)
qed

section \<open>The server is stopped\<close>

text \<open>
  The contract: \<open>asked\<close> holds once the shutdown was requested and is not lost while waiting, and
  \<open>gone\<close> holds when the wait has seen the server gone.
\<close>

text \<open>The loader ended before it had started the server.\<close>

definition loader_idle :: "'w host \<Rightarrow> 'w loader_ops \<Rightarrow> server \<Rightarrow> string \<Rightarrow> 'w mgr \<Rightarrow> 'w mgr \<Rightarrow> bool" where
  "loader_idle H ops sv dir s s' \<longleftrightarrow>
     s' = snd (migration_files H dir s) \<or> (\<exists>s1 e. lo_start ops sv s1 = (Inl e, s'))"

locale loader_contract =
  fixes ops :: "'w loader_ops" and sv :: server and asked gone :: "'w mgr \<Rightarrow> bool"
  assumes shutdown_asks: "asked (snd (lo_shutdown ops sv s))"
    and wait_keeps: "asked s \<Longrightarrow> asked (snd (lo_wait_gone ops sv t s))"
    and wait_sees: "lo_wait_gone ops sv t s = (Inr (), s') \<Longrightarrow> gone s'"
begin

lemma shut_down_asks: "asked (snd (shut_down ops sv s))"
  using shutdown_asks [of s] wait_keeps
  by (auto simp: shut_down_def check_def split: prod.split sum.split)

lemma shut_down_sees: "shut_down ops sv s = (Inr (), s') \<Longrightarrow> gone s'"
  using wait_sees by (auto simp: shut_down_def check_def split: prod.splits sum.splits)

lemma loader_stops:
  assumes run: "apply_and_sync H ops sv dir dbn user pass s = (r, s')" and started: "\<not> loader_idle H ops sv dir s s'"
  shows "(case r of Inr applied \<Rightarrow> gone s' | Inl e \<Rightarrow> asked s')"
proof -
  obtain f s1 where f: "migration_files H dir s = (f, s1)" by fastforce
  then obtain files where files: "f = Inr files" and work: "files \<noteq> [] \<or> (user \<noteq> [] \<and> pass \<noteq> [])"
    using run started by (cases f) (auto simp: loader_idle_def apply_and_sync_def check_def ret_def split: if_splits)
  define dia where "dia = (if dialect_zero (lo_dialect ops) then mysql_dialect else lo_dialect ops)"
  obtain a s2 where a: "lo_start ops sv s1 = (a, s2)" by fastforce
  then have ok: "a = Inr ()"
    using run started f files work
    by (cases a) (auto simp: loader_idle_def apply_and_sync_def check_def wrapping_def Let_def split: if_splits)
  obtain w s3 where w: "loader_work ops sv dia files dbn user pass s2 = (w, s3)" by fastforce
  obtain d s4 where d: "shut_down ops sv s3 = (d, s4)" by fastforce
  have "asked s4" using shut_down_asks [of s3] d by simp
  moreover have "gone s4" if "d = Inr ()" using shut_down_sees d that by simp
  moreover have "s' = s4 \<and> (\<forall>x. r = Inr x \<longrightarrow> d = Inr ())"
    using run f files work a ok w d
    by (cases w; cases d)
      (auto simp: apply_and_sync_def check_def wrapping_def handle_err_def ignoring_def throw_def
        ret_def Let_def dia_def split: if_splits)
  ultimately show ?thesis by (cases r) auto
qed

end

text \<open>
  For the real commands: the last look at the pid file found it absent. \<open>sees\<close> is such a look.
\<close>

definition sees :: "'w host \<Rightarrow> string \<Rightarrow> 'w mgr \<Rightarrow> bool" where
  "sees H p s \<longleftrightarrow> (\<exists>w e. h_stat H p w = (FsNotExist e, world s))"

lemma polling_value:
  assumes "polling E dl pause body (throw late) n s = (Inr a, s')"
  shows "\<exists>s1. body s1 = (Inr (Some a), s')"
  using assms
proof (induction n arbitrary: s)
  case 0
  then show ?case by (simp add: throw_def)
next
  case (Suc n)
  show ?case
    using Suc.prems unfolding polling_Suc
    by (auto intro: Suc.IH split: prod.splits sum.splits option.splits if_splits)
      (simp_all add: throw_def)
qed

lemma wait_sees_absent:
  "wait_for E timeout pause (absent_step H p) msg s = (Inr (), s') \<Longrightarrow> sees H p s'"
  unfolding wait_for_def wait_within_def now_def pure_ext_def check_def
  by (auto dest!: polling_value simp: absent_step_def check_def pure_ext_def ret_def sees_def
      split: prod.splits fs_result.splits) (metis)

interpretation mysql: loader_contract "mysql_ops E H" sv "\<lambda>_. True" "sees H (sv_pid_file sv)"
  for E H sv
  by unfold_locales (auto simp: mysql_ops_def intro: wait_sees_absent)

interpretation postgres: loader_contract "postgres_ops E H" sv "\<lambda>_. True"
    "sees H (in_dir (sv_data_dir sv) ''postmaster.pid'')" for E H sv
  by unfold_locales (auto simp: postgres_ops_def intro: wait_sees_absent)


text \<open>A server for the example.\<close>

definition sample_server :: server where
  "sample_server = no_server\<lparr>sv_data_dir := ''/base/data'', sv_pid_file := ''/tmp/refresh.pid''\<rparr>"

definition sample_load :: "(err + string list) \<times> int mgr" where
  "sample_load = apply_and_sync sample_host (mysql_ops sample_env sample_host) sample_server
     ''/sql'' [] [] [] (start_state 0)"

lemma sample_start: "lo_start (mysql_ops sample_env sample_host) sv s \<noteq> (Inl e, s')"
  by (simp add: mysql_ops_def run_as_def output_of_def run_cmd_def pure_ext_def check_def ret_def
      sample_host_def)


end
