(* ===== verification/Hooks.thy ===== *)
theory Hooks
  imports Host
begin

text \<open>
  internal/hooks: finding the executable of an event, the environment it gets, running it, and
  the pruning of old logs. These functions only touch the world, not the manager's state;
  \<open>hook_runner\<close> packs them as the interface that package workspace uses.
\<close>

section \<open>The runner\<close>

record runner =
  hr_dir :: string
  hr_log_dir :: string
  hr_timeout :: int
  hr_strip :: "string list"
  hr_retention :: int

definition new_runner :: "string \<Rightarrow> string \<Rightarrow> int \<Rightarrow> runner" where
  "new_runner dir log_dir timeout = \<lparr>hr_dir = dir, hr_log_dir = log_dir,
     hr_timeout = (if timeout = 0 then 10 * minute else timeout),
     hr_strip = [''SASHIKI_API_TOKEN''], hr_retention = 30 * 24 * hour\<rparr>"

definition env_key :: "string \<Rightarrow> string" where
  "env_key kv = fst (cut_at (CHR ''='') kv)"

definition inherited_env :: "'w host \<Rightarrow> runner \<Rightarrow> string list" where
  "inherited_env H r = filter (\<lambda>kv. \<not> (env_key kv \<noteq> [] \<and> env_key kv \<in> set (hr_strip r))) (h_environ H)"

definition base_env :: "'w host \<Rightarrow> runner \<Rightarrow> string list" where
  "base_env H r = inherited_env H r"

section \<open>Acting on the world\<close>

definition observe :: "('w \<Rightarrow> 'a \<times> 'w) \<Rightarrow> ('w, 'a) act" where
  "observe f w = (case f w of (a, w') \<Rightarrow> (Inr a, w'))"

section \<open>Old logs\<close>

text \<open>\<^verbatim>\<open>^.+-[0-9]{8}T[0-9]{6}Z\.log$\<close>\<close>

definition hook_log_name :: "string \<Rightarrow> bool" where
  "hook_log_name s \<longleftrightarrow>
     (let n = length s - 21; t = drop n s in
      length s > 21 \<and> newline \<notin> set (take n s) \<and> t ! 0 = CHR ''-''
      \<and> list_all is_digit (take 8 (drop 1 t)) \<and> t ! 9 = CHR ''T''
      \<and> list_all is_digit (take 6 (drop 10 t)) \<and> drop 16 t = ''Z.log'')"

definition prune_log :: "'w host \<Rightarrow> runner \<Rightarrow> int \<Rightarrow> string \<times> bool \<Rightarrow> unit \<Rightarrow> ('w, unit) act" where
  "prune_log H r cutoff e u = (case e of (name, is_dir) \<Rightarrow>
     if is_dir \<or> \<not> hook_log_name name then ret ()
     else handle_err (h_mod_time H (in_dir (hr_log_dir r) name)) (\<lambda>_. ret ()) (\<lambda>t.
       if t < cutoff then ignoring (observe (h_remove H (in_dir (hr_log_dir r) name))) (ret ())
       else ret ()))"

definition prune_logs :: "('w \<Rightarrow> int \<times> 'w) \<Rightarrow> 'w host \<Rightarrow> runner \<Rightarrow> ('w, unit) act" where
  "prune_logs clk H r =
     (if hr_retention r \<le> 0 then ret ()
      else handle_err (h_read_dir H (hr_log_dir r)) (\<lambda>_. ret ()) (\<lambda>entries.
        check (observe clk) (\<lambda>t. fold_act (prune_log H r (t - hr_retention r)) entries ())))"

section \<open>Finding and running a hook\<close>

text \<open>A file name without its \<^verbatim>\<open>filepath.Ext\<close>.\<close>

definition strip_ext :: "string \<Rightarrow> string" where
  "strip_ext s =
     (if CHR ''.'' \<in> set s then rev (tl (dropWhile (\<lambda>c. c \<noteq> CHR ''.'') (rev s))) else s)"

definition names_event :: "hook_event \<Rightarrow> string \<Rightarrow> bool" where
  "names_event ev name \<longleftrightarrow> strip_ext name = event_name ev \<or> name = event_name ev"

primrec find_among ::
  "'w host \<Rightarrow> string \<Rightarrow> hook_event \<Rightarrow> (string \<times> bool) list \<Rightarrow> ('w, string option) act" where
  "find_among H dir ev [] = ret None"
| "find_among H dir ev (e # es) =
     (if snd e \<or> \<not> names_event ev (fst e) then find_among H dir ev es
      else handle_err (h_executable H (in_dir dir (fst e))) (\<lambda>_. find_among H dir ev es) (\<lambda>x.
        if x then ret (Some (in_dir dir (fst e))) else find_among H dir ev es))"

definition find_hook :: "'w host \<Rightarrow> runner \<Rightarrow> hook_event \<Rightarrow> ('w, string option) act" where
  "find_hook H r ev = handle_err (h_read_dir H (hr_dir r)) (\<lambda>_. ret None) (find_among H (hr_dir r) ev)"

definition hook_vars :: "hook_event \<Rightarrow> hook_env \<Rightarrow> string list" where
  "hook_vars ev e =
     [''SASHIKI_EVENT='' @ event_name ev,
      ''SASHIKI_BRANCH='' @ he_branch e,
      ''SASHIKI_PORT='' @ show_int (he_port e),
      ''SASHIKI_SOCKET='' @ he_socket e,
      ''SASHIKI_DATADIR='' @ he_datadir e,
      ''SASHIKI_ENGINE='' @ he_engine e,
      ''SASHIKI_ADMIN_USER='' @ he_admin e,
      ''SASHIKI_ORIGIN_SNAPSHOT='' @ he_origin e,
      ''SASHIKI_STATE_DIR='' @ he_state_dir e,
      ''SASHIKI_OWNER='' @ he_owner e,
      ''SASHIKI_PURPOSE='' @ he_purpose e,
      ''SASHIKI_PROFILE='' @ he_profile e]
     @ (if he_source e \<noteq> [] then [''SASHIKI_SOURCE_JSON='' @ he_source e] else [])
     @ (if he_schema_rev e \<noteq> [] then [''SASHIKI_BASELINE_SCHEMA_REVISION='' @ he_schema_rev e] else [])"

definition hook_cmd :: "'w host \<Rightarrow> runner \<Rightarrow> string \<Rightarrow> hook_event \<Rightarrow> hook_env \<Rightarrow> cmd" where
  "hook_cmd H r path ev e = \<lparr>cmd_path = path, cmd_args = [],
     cmd_env = Some (inherited_env H r @ hook_vars ev e), cmd_stdin = None, cmd_user = None\<rparr>"

definition hook_outcome :: "hook_event \<Rightarrow> string \<Rightarrow> run_result \<Rightarrow> err option \<times> int" where
  "hook_outcome ev log_path res = (case res of
      RunOk \<Rightarrow> (None, 0)
    | RunExit code _ \<Rightarrow> (Some (EText (''hook '' @ event_name ev @ '' exited '' @ show_int code
        @ '' (log: '' @ log_path @ '')'')), code)
    | RunFailed e \<Rightarrow> (Some (EWrap (''hook '' @ event_name ev @ '': '') e ('' (log: '' @ log_path @ '')'')), -1))"

definition run_found ::
  "('w \<Rightarrow> int \<times> 'w) \<Rightarrow> 'w host \<Rightarrow> runner \<Rightarrow> hook_event \<Rightarrow> hook_env \<Rightarrow> string \<Rightarrow> ('w, err option \<times> int) act" where
  "run_found clk H r ev e path = check (observe clk) (\<lambda>t.
     let log_path = in_dir (hr_log_dir r)
       (he_branch e @ ''-'' @ event_name ev @ ''-'' @ compact_time t @ ''.log'') in
     handle_err (h_mkdir_all H (hr_log_dir r)) (\<lambda>x. ret (Some x, 0)) (\<lambda>_.
     check (prune_logs clk H r) (\<lambda>_.
     handle_err (h_create H log_path) (\<lambda>x. ret (Some x, 0)) (\<lambda>_.
     check (observe (h_run H (hook_cmd H r path ev e))) (\<lambda>(res, out).
     ret (hook_outcome ev log_path res))))))"

definition run_event ::
  "('w \<Rightarrow> int \<times> 'w) \<Rightarrow> 'w host \<Rightarrow> runner \<Rightarrow> hook_event \<Rightarrow> hook_env \<Rightarrow> ('w, err option \<times> int) act" where
  "run_event clk H r ev e = check (find_hook H r ev) (\<lambda>found. case found of
      None \<Rightarrow> ret (None, 0) | Some path \<Rightarrow> run_found clk H r ev e path)"

text \<open>None of these actions ends in an error, so the interface has plain values.\<close>

definition plain :: "'a \<Rightarrow> ('w, 'a) act \<Rightarrow> 'w \<Rightarrow> 'a \<times> 'w" where
  "plain d m w = (case m w of (Inr a, w') \<Rightarrow> (a, w') | (Inl _, w') \<Rightarrow> (d, w'))"

definition hook_runner :: "('w \<Rightarrow> int \<times> 'w) \<Rightarrow> 'w host \<Rightarrow> runner \<Rightarrow> 'w hook_api" where
  "hook_runner clk H r = \<lparr>
     hk_find = (\<lambda>ev. plain False (check (find_hook H r ev) (\<lambda>p. ret (p \<noteq> None)))),
     hk_run = (\<lambda>ev e. plain (None, 0) (run_event clk H r ev e)),
     hk_base_env = base_env H r\<rparr>"

end
