(* ===== verification/Refresh.thy ===== *)
theory Refresh
  imports Baselines LoaderFacts Hooks
begin

text \<open>
  internal/workspace/refresh.go: building a new baseline. A refresh runs the script of the
  operator or the source loader on the base datadir, makes sure that no server is left on it,
  takes the snapshot, validates it on a temporary branch and publishes it. \<open>refresh_begin\<close> is the
  request, \<open>refresh_work\<close> the goroutine it starts.
\<close>

section \<open>Processes on the base datadir\<close>

text \<open>\<^verbatim>\<open>fmt.Sscanf(s, "%d", &pid)\<close>: a sign and the digits at the front.\<close>

definition scan_int :: "string \<Rightarrow> int option" where
  "scan_int s =
     (let sign = (if s \<noteq> [] \<and> hd s \<in> {CHR ''-'', CHR ''+''} then [hd s] else [])
      in atoi (sign @ takeWhile is_digit (drop (length sign) s)))"

definition find_procs_using :: "'w host \<Rightarrow> string \<Rightarrow> ('w, int list) mact" where
  "find_procs_using H path =
     check (run_cmd H (plain_cmd ''pgrep'' [''-f'', ''--'', ''datadir='' @ path])) (\<lambda>(r, out).
     ret (if r = RunOk then List.map_filter scan_int (go_fields out) else []))"

text \<open>What backends without a base path skip.\<close>

definition on_base_path :: "'w env \<Rightarrow> (string \<Rightarrow> ('w, unit) mact) \<Rightarrow> ('w, unit) mact" where
  "on_base_path E k = (case st_base_path (sto E) of
      None \<Rightarrow> ret ()
    | Some bp \<Rightarrow> handle_err (ext bp) (\<lambda>_. ret ()) (\<lambda>path. if path = [] then ret () else k path))"

definition default_quiesce_check :: "'w env \<Rightarrow> 'w host \<Rightarrow> ('w, unit) mact" where
  "default_quiesce_check E H = on_base_path E (\<lambda>path.
     check (find_procs_using H path) (\<lambda>pids.
     if pids \<noteq> [] then throw (EText (''processes still using '' @ path @ '': pids [''
            @ join_with '' '' (map show_int pids) @ '']''))
     else ret ()))"

text \<open>The check that the request brings, or the default one; its outcome is logged.\<close>

definition check_quiesced :: "'w env \<Rightarrow> 'w host \<Rightarrow> 'w refresh_config \<Rightarrow> ('w, unit) mact" where
  "check_quiesced E H rc =
     attempt (case rc_check_quiesced rc of Some c \<Rightarrow> ext c | None \<Rightarrow> default_quiesce_check E H) (\<lambda>r.
     ignoring (modifying (\<lambda>s. s\<lparr>trace := EvQuiesced (is_ok r) # trace s\<rparr>))
       (case r of Inl e \<Rightarrow> throw e | Inr u \<Rightarrow> ret u))"

definition procs_gone :: "'w host \<Rightarrow> string \<Rightarrow> ('w, unit option) mact" where
  "procs_gone H path = check (find_procs_using H path) (\<lambda>pids. ret (if pids = [] then Some () else None))"

definition reclaim_base :: "'w env \<Rightarrow> 'w host \<Rightarrow> ('w, unit) mact" where
  "reclaim_base E H = on_base_path E (\<lambda>path.
     check (find_procs_using H path) (\<lambda>pids.
     check (fold_act (\<lambda>pid _. pure_ext (h_sigterm H pid)) pids ()) (\<lambda>_.
     ignoring (wait_within E (30 * second) 500000000 (procs_gone H path) (ret ())) (ret ()))))"

definition remove_base_auto_cnf :: "'w env \<Rightarrow> 'w host \<Rightarrow> ('w, unit) mact" where
  "remove_base_auto_cnf E H = on_base_path E (\<lambda>path.
     let auto_cnf = path @ ''/data/auto.cnf'' in
     check (pure_ext (h_remove H auto_cnf)) (\<lambda>r. case r of
       FsOk \<Rightarrow> ret ()
     | FsNotExist _ \<Rightarrow> ret ()
     | FsPermission e \<Rightarrow>
         if h_is_root H then throw (EWrap (''remove '' @ auto_cnf @ '': '') e [])
         else check (output_of H (''remove '' @ auto_cnf @ '' via root-helper: '')
                (plain_cmd ''sudo'' [''-n'', c_root_helper (cfg E), ''rm-base-auto-cnf''])) (\<lambda>_. ret ())
     | FsFailed e \<Rightarrow> throw (EWrap (''remove '' @ auto_cnf @ '': '') e [])))"

section \<open>The source loader\<close>

definition refresh_branch :: string where
  "refresh_branch = ''_refresh''"

definition refresh_port :: int where
  "refresh_port = 3998"

definition stopped_step :: "'w env \<Rightarrow> inst \<Rightarrow> ('w, unit option) mact" where
  "stopped_step E ins = attempt (ext (en_is_running (eng E) ins)) (\<lambda>r.
     ret (if r = Inr False then Some () else None))"

text \<open>The operations of the real loader with the processes managed by the engine.\<close>

definition engine_server :: "'w env \<Rightarrow> inst \<Rightarrow> server" where
  "engine_server E ins = no_server\<lparr>sv_data_dir := i_datadir ins,
     sv_socket := ''/tmp/mysql-'' @ i_branch ins @ ''.sock'', sv_mysqld := c_mysqld (cfg E)\<rparr>"

definition engine_ops :: "'w env \<Rightarrow> 'w host \<Rightarrow> inst \<Rightarrow> 'w loader_ops" where
  "engine_ops E H ins = (mysql_ops E H)\<lparr>
     lo_start := (\<lambda>sv. eng_start E ins),
     lo_wait_ready := (\<lambda>sv timeout. wait_ready E ins),
     lo_shutdown := (\<lambda>sv. eng_stop E ins),
     lo_wait_gone := (\<lambda>sv timeout. wait_for E timeout 100000000 (stopped_step E ins)
       (i_branch ins @ '': mysqld did not stop''))\<rparr>"

definition loader_via_engine ::
  "'w env \<Rightarrow> 'w host \<Rightarrow> 'w refresh_config \<Rightarrow> string \<Rightarrow> ('w, unit) mact" where
  "loader_via_engine E H rc base =
     (let ins = \<lparr>i_branch = refresh_branch, i_datadir = base @ ''/data'', i_port = refresh_port\<rparr> in
      attempt (ext (en_is_running (eng E) ins)) (\<lambda>run.
      check (if run = Inr True
             then wrapping (\<lambda>e. EWrap (''leftover '' @ refresh_branch @ '': '') e []) (eng_stop E ins)
             else ret ()) (\<lambda>_.
      check (apply_dir_sync H (engine_ops E H ins) (engine_server E ins) (rc_source_dir rc)
               (rc_source_db rc) (c_app_user (cfg E)) (c_app_pass (cfg E))) (\<lambda>_. ret ()))))"

text \<open>The server that root spawns, and its operations.\<close>

definition spawn_server :: "'w env \<Rightarrow> 'w host \<Rightarrow> 'w refresh_config \<Rightarrow> string \<Rightarrow> server" where
  "spawn_server E H rc base =
     (let pg = (c_engine_type (cfg E) = ''postgres'');
          user = (if pg then or_default (c_pg_run_user (cfg E)) ''postgres'' else ''mysql'');
          sv = no_server\<lparr>sv_data_dir := base @ ''/data'', sv_socket := ''/tmp/sashiki-refresh.sock'',
                 sv_pid_file := ''/tmp/sashiki-refresh.pid'', sv_log_error := ''/var/log/sashiki/refresh.err'',
                 sv_mysqld := c_mysqld (cfg E), sv_extra_cnf := c_extra_cnf (cfg E)\<rparr>;
          sv = (if pg then sv\<lparr>sv_socket := ''/tmp'', sv_log_error := [],
                  sv_pg_bin_dir := c_pg_bin_dir (cfg E), sv_pg_db := rc_source_db rc\<rparr> else sv)
      in case (if h_is_root H then h_lookup_user H user else None) of
           Some (uid, gid) \<Rightarrow> sv\<lparr>sv_uid := uid, sv_gid := gid\<rparr>
         | None \<Rightarrow> sv)"

definition spawn_ops :: "'w env \<Rightarrow> 'w host \<Rightarrow> 'w loader_ops" where
  "spawn_ops E H = (if c_engine_type (cfg E) = ''postgres'' then postgres_ops E H else mysql_ops E H)"

definition run_source_loader :: "'w env \<Rightarrow> 'w host \<Rightarrow> 'w refresh_config \<Rightarrow> ('w, unit) mact" where
  "run_source_loader E H rc = (case rc_run_source rc of
      Some f \<Rightarrow> ext f
    | None \<Rightarrow> (case st_base_path (sto E) of
        None \<Rightarrow> throw (EText ''this backend cannot resolve the base path, source_dir is not available'')
      | Some bp \<Rightarrow> handle_err (ext bp) (\<lambda>e. throw (EText (''base path: '' @ err_text e))) (\<lambda>base.
          if base = [] then throw (EText ''base path: <nil>'')
          else if \<not> h_is_root H then
            if c_engine_type (cfg E) = ''postgres''
            then throw (EText ''refresh from source_dir needs root for postgres'')
            else loader_via_engine E H rc base
          else check (apply_dir_sync H (spawn_ops E H) (spawn_server E H rc base) (rc_source_dir rc)
                 (rc_source_db rc) (c_app_user (cfg E)) (c_app_pass (cfg E))) (\<lambda>_. ret ()))))"

section \<open>Building a candidate\<close>

definition script_base_env :: "'w env \<Rightarrow> 'w host \<Rightarrow> string list" where
  "script_base_env E H = (case hks E of Some h \<Rightarrow> hk_base_env h
     | None \<Rightarrow> base_env H (new_runner [] [] 0))"

definition script_cmd :: "'w env \<Rightarrow> 'w host \<Rightarrow> 'w refresh_config \<Rightarrow> string \<Rightarrow> cmd" where
  "script_cmd E H rc tag = (plain_cmd (rc_script rc) [])\<lparr>cmd_env := Some (script_base_env E H
     @ [''SASHIKI_EVENT=baseline-build'', ''SASHIKI_BASELINE_TAG='' @ tag])\<rparr>"

definition tail_bytes :: "string \<Rightarrow> nat \<Rightarrow> string" where
  "tail_bytes b n = (if length b \<le> n then b else ''...'' @ drop (length b - n) b)"

definition clear_sentinel :: "'w host \<Rightarrow> 'w refresh_config \<Rightarrow> ('w, unit) mact" where
  "clear_sentinel H rc =
     (if rc_sentinel rc = [] then ret ()
      else check (pure_ext (h_remove H (rc_sentinel rc))) (\<lambda>r. case r of
        FsPermission e \<Rightarrow> throw (EWrap ''cannot remove the masked sentinel: '' e [])
      | FsFailed e \<Rightarrow> throw (EWrap ''cannot remove the masked sentinel: '' e [])
      | _ \<Rightarrow> ret ()))"

definition run_script :: "'w env \<Rightarrow> 'w host \<Rightarrow> 'w refresh_config \<Rightarrow> string \<Rightarrow> ('w, unit) mact" where
  "run_script E H rc tag = check (run_cmd H (script_cmd E H rc tag)) (\<lambda>(r, out). case run_error r of
      None \<Rightarrow> ret ()
    | Some e \<Rightarrow> throw (EWrap ''script failed: '' e ('': '' @ tail_bytes out 500)))"

text \<open>The loader or the script; when it fails, a server it left behind is terminated.\<close>

definition run_build :: "'w env \<Rightarrow> 'w host \<Rightarrow> 'w refresh_config \<Rightarrow> string \<Rightarrow> ('w, unit) mact" where
  "run_build E H rc tag =
     handle_err (if rc_use_loader rc
                 then wrapping (prefixed ''source loader: '') (run_source_loader E H rc)
                 else run_script E H rc tag)
       (\<lambda>e. ignoring (handle_err (check_quiesced E H rc) (\<lambda>_. reclaim_base E H) ret) (throw e)) ret"

definition ensure_quiesced :: "'w env \<Rightarrow> 'w host \<Rightarrow> 'w refresh_config \<Rightarrow> ('w, unit) mact" where
  "ensure_quiesced E H rc = handle_err (check_quiesced E H rc)
     (\<lambda>_. check (reclaim_base E H) (\<lambda>_.
        wrapping (prefixed ''base is not quiesced after script (snapshot aborted): '')
          (check_quiesced E H rc))) ret"

definition snapshot_base :: "'w env \<Rightarrow> string \<Rightarrow> ('w, string) mact" where
  "snapshot_base E tag = logged (\<lambda>r. EvSnapBase tag (is_ok r)) (st_snapshot_base (sto E) tag)"

text \<open>The segment that takes the snapshot.\<close>

definition build_snapshot :: "'w env \<Rightarrow> 'w host \<Rightarrow> 'w refresh_config \<Rightarrow> string \<Rightarrow> ('w, string) mact" where
  "build_snapshot E H rc tag =
     check (ensure_quiesced E H rc) (\<lambda>_.
     check (wrapping (prefixed ''auto.cnf removal failed (snapshot aborted): '')
              (remove_base_auto_cnf E H)) (\<lambda>_.
     wrapping (prefixed ''snapshot: '') (snapshot_base E tag)))"

definition masked_by :: "'w host \<Rightarrow> 'w refresh_config \<Rightarrow> ('w, bool) mact" where
  "masked_by H rc = (if rc_sentinel rc = [] then ret False else exists_file H (rc_sentinel rc))"

definition build_candidate ::
  "'w env \<Rightarrow> 'w host \<Rightarrow> 'w refresh_config \<Rightarrow> string \<Rightarrow> ('w, string \<times> bool) mact" where
  "build_candidate E H rc tag =
     check (clear_sentinel H rc) (\<lambda>_.
     check (run_build E H rc tag) (\<lambda>_.
     check (build_snapshot E H rc tag) (\<lambda>snap.
     check (masked_by H rc) (\<lambda>masked.
     check (wrapping (prefixed ''register candidate: '')
              (sql_at E (\<lambda>t. register_baseline t snap (fresh_prov tag masked False)))) (\<lambda>_.
     ret (snap, masked))))))"

section \<open>Refresh\<close>

text \<open>Validation and its record, and the switch of the current baseline under the policy.\<close>

definition validate_refresh ::
  "'w env \<Rightarrow> 'w refresh_config \<Rightarrow> string \<Rightarrow> string \<Rightarrow> bool \<Rightarrow> ('w, bool) mact" where
  "validate_refresh E rc snap tag masked =
     (if rc_skip_validate rc then ret False
      else check (wrapping (\<lambda>e. EWrap ''validate: '' e ('' (candidate '' @ snap @ '' is not published)''))
                    (validate_candidate E snap rc)) (\<lambda>_.
        ignoring (sql_at E (\<lambda>t. register_baseline t snap (fresh_prov tag masked True))) (ret True)))"

definition publish_refresh ::
  "'w env \<Rightarrow> 'w refresh_config \<Rightarrow> string \<Rightarrow> bool \<Rightarrow> bool \<Rightarrow> ('w, unit) mact" where
  "publish_refresh E rc snap masked validated =
     (if rc_require_masked rc \<and> \<not> masked
      then throw (EText ''publish rejected: baseline is not masked (require_masked)'')
      else if rc_require_validated rc \<and> \<not> validated
      then throw (EText ''publish rejected: baseline is not validated (require_validated)'')
      else wrapping (prefixed ''publish (set current): '') (sql_at E (\<lambda>t. set_current_baseline t snap)))"

definition run_refresh :: "'w env \<Rightarrow> 'w host \<Rightarrow> 'w refresh_config \<Rightarrow> string \<Rightarrow> ('w, unit) mact" where
  "run_refresh E H rc tag = check (build_candidate E H rc tag) (\<lambda>(snap, masked).
     check (validate_refresh E rc snap tag masked) (\<lambda>validated.
     publish_refresh E rc snap masked validated))"

definition script_missing :: "'w host \<Rightarrow> 'w refresh_config \<Rightarrow> ('w, err option) mact" where
  "script_missing H rc = check (pure_ext (h_stat H (rc_script rc))) (\<lambda>r.
     ret (case r of FsOk \<Rightarrow> None | FsNotExist e \<Rightarrow> Some e | FsPermission e \<Rightarrow> Some e | FsFailed e \<Rightarrow> Some e))"

definition no_script :: "'w refresh_config \<Rightarrow> err \<Rightarrow> err" where
  "no_script rc e = EWrap (''refresh script '' @ rc_script rc @ '': '') e []"

text \<open>\<^verbatim>\<open>refreshRunning.CompareAndSwap(false, true)\<close>\<close>

definition claim_refresh :: "('w, unit) mact" where
  "claim_refresh = reading refresh_running (\<lambda>r.
     if r then throw ERefreshRunning else modifying (\<lambda>s. s\<lparr>refresh_running := True\<rparr>))"

definition refresh_begin ::
  "'w env \<Rightarrow> 'w host \<Rightarrow> 'w refresh_config \<Rightarrow> 'w refresh_config \<Rightarrow> ('w, string) mact" where
  "refresh_begin E H pol req = check (resolve_refresh_config H pol req) (\<lambda>rc.
     check (if rc_use_loader rc then ret ()
            else check (script_missing H rc) (\<lambda>m. case m of
              None \<Rightarrow> ret ()
            | Some e \<Rightarrow>
                if rc_source_dir rc = []
                then throw (EWrap [] EPrecondition
                  ('': baseline refresh needs source_dir, refresh_script ('' @ rc_script rc @ '') or --app-user-only''))
                else throw (no_script rc e))) (\<lambda>_.
     check claim_refresh (\<lambda>_.
     check (new_baseline_tag E) (\<lambda>tag.
     check (modifying (\<lambda>s. s\<lparr>refresh_job := Some (rc, tag)\<rparr>)) (\<lambda>_. ret tag)))))"

definition refresh_done :: "err + unit \<Rightarrow> 'w mgr \<Rightarrow> 'w mgr" where
  "refresh_done r s = s\<lparr>refresh_running := False, refresh_job := None,
     refresh_err := (case r of Inl e \<Rightarrow> err_text e | Inr _ \<Rightarrow> [])\<rparr>"

definition refresh_work :: "'w env \<Rightarrow> 'w host \<Rightarrow> ('w, unit) mact" where
  "refresh_work E H = reading refresh_job (\<lambda>j. case j of
      None \<Rightarrow> ret ()
    | Some (rc, tag) \<Rightarrow> attempt (run_refresh E H rc tag) (\<lambda>r. modifying (refresh_done r)))"

section \<open>Building without publishing\<close>

definition base_snapshot_ref :: "'w env \<Rightarrow> string \<Rightarrow> ('w, string) mact" where
  "base_snapshot_ref E tag = (case st_base_name (sto E) of
      Some f \<Rightarrow> ret (f tag)
    | None \<Rightarrow> check (current_baseline E) (\<lambda>cur.
        ret (if CHR ''@'' \<in> set cur
             then rev (dropWhile (\<lambda>c. c \<noteq> CHR ''@'') (rev cur)) @ tag else tag)))"

definition prepare_build :: "'w env \<Rightarrow> ('w, string \<times> string) mact" where
  "prepare_build E = check (new_baseline_tag E) (\<lambda>tag.
     check (base_snapshot_ref E tag) (\<lambda>snap. ret (tag, snap)))"

definition release_refresh :: "('w, unit) mact" where
  "release_refresh = modifying (\<lambda>s. s\<lparr>refresh_running := False\<rparr>)"

definition build_baseline ::
  "'w env \<Rightarrow> 'w host \<Rightarrow> 'w refresh_config \<Rightarrow> string \<Rightarrow> ('w, string) mact" where
  "build_baseline E H pol tag = check (resolve_refresh_config H pol no_request) (\<lambda>rc.
     check (if rc_use_loader rc then ret ()
            else check (script_missing H rc) (\<lambda>m. case m of
              None \<Rightarrow> ret () | Some e \<Rightarrow> throw (no_script rc e))) (\<lambda>_.
     check (if tag = [] then new_baseline_tag E else ret tag) (\<lambda>tag.
     check claim_refresh (\<lambda>_.
     check (with_cleanup release_refresh (build_candidate E H rc tag)) (\<lambda>(snap, masked). ret snap)))))"

end
