(* ===== verification/Background.thy ===== *)
theory Background
  imports Refresh
begin

text \<open>
  The background work and the operations on baselines keep the same relations on the database
  as the handlers of Handlers, given the statements they add: pruning, registering, switching
  and deleting baselines.
\<close>

text \<open>Operations of the loader that keep a relation.\<close>

definition ops_kept :: "('w mgr \<Rightarrow> 'w mgr \<Rightarrow> bool) \<Rightarrow> 'w loader_ops \<Rightarrow> bool" where
  "ops_kept R ops \<longleftrightarrow> (\<forall>sv. keeps R (lo_start ops sv)) \<and> (\<forall>sv t. keeps R (lo_wait_ready ops sv t))
     \<and> (\<forall>sv q. keeps R (lo_query ops sv q)) \<and> (\<forall>sv d f. keeps R (lo_apply_file ops sv d f))
     \<and> (\<forall>sv. keeps R (lo_shutdown ops sv)) \<and> (\<forall>sv t. keeps R (lo_wait_gone ops sv t))"

context call_relation begin

lemma safe_run_cmd: "safe (run_cmd H c)"
  unfolding run_cmd_def by (rule safe_pure_ext)

lemma safe_exists_file: "safe (exists_file H p)"
  unfolding exists_file_def by (intro keeps_intros safe_prims)

lemma safe_output_of: "safe (output_of H pre c)"
  unfolding output_of_def by (intro keeps_intros safe_run_cmd)

lemma safe_mysql_client: "safe (mysql_client H sv name)"
  unfolding mysql_client_def Let_def by (intro keeps_intros safe_exists_file)

lemma safe_run_as: "safe (run_as H sv name args)"
  unfolding run_as_def by (intro keeps_intros safe_output_of)

lemma safe_admin_cmd: "safe (admin_cmd H sv verb)"
  unfolding admin_cmd_def by (intro keeps_intros safe_mysql_client)

lemma safe_wait_for: "safe body \<Longrightarrow> safe (wait_for E timeout d body msg)"
  unfolding wait_for_def by (intro safe_wait_within keeps_throw)

lemma safe_ping: "safe (ping_ready E H sv)"
  unfolding ping_ready_def by (intro keeps_intros safe_prims safe_admin_cmd safe_run_cmd)

lemma safe_absent: "safe (absent_step H p)"
  unfolding absent_step_def by (intro keeps_intros safe_prims)

lemma safe_pg_bin: "safe (pg_bin H sv name)"
  unfolding pg_bin_def Let_def by (intro keeps_intros safe_exists_file)

lemma safe_run_pg: "safe (run_pg H sv tool args)"
  unfolding run_pg_def by (intro keeps_intros safe_pg_bin safe_output_of)

lemma safe_output_pg: "safe (output_pg H sv tool args)"
  unfolding output_pg_def by (intro keeps_intros safe_pg_bin safe_run_cmd)

lemma safe_run_pg_no_pipe: "safe (run_pg_no_pipe H sv tool args)"
  unfolding run_pg_no_pipe_def tail_file_def by (intro keeps_intros safe_prims safe_pg_bin safe_run_cmd)

lemma safe_pg_ready: "safe (pg_ready E H sv)"
  unfolding pg_ready_def by (intro keeps_intros safe_prims safe_run_pg)

lemmas safe_commands = safe_run_cmd safe_exists_file safe_output_of safe_mysql_client safe_run_as
  safe_admin_cmd safe_wait_for safe_ping safe_absent safe_run_pg safe_output_pg safe_run_pg_no_pipe
  safe_pg_ready

lemma safe_opsD:
  assumes "ops_kept R ops"
  shows "safe (lo_start ops sv)" "safe (lo_wait_ready ops sv t)" "safe (lo_query ops sv q)"
    "safe (lo_apply_file ops sv d f)" "safe (lo_shutdown ops sv)" "safe (lo_wait_gone ops sv t)"
  using assms by (simp_all add: ops_kept_def)

lemma safe_mysql_ops: "ops_kept R (mysql_ops E H)"
  unfolding ops_kept_def mysql_ops_def mysql_query_def mysql_apply_file_def loader_ops.simps
  by (intro conjI allI keeps_intros safe_prims safe_commands)

lemma safe_postgres_ops: "ops_kept R (postgres_ops E H)"
  unfolding ops_kept_def postgres_ops_def loader_ops.simps
  by (intro conjI allI keeps_intros safe_prims safe_commands)

lemma safe_engine_ops: "ops_kept R (engine_ops E H ins)"
proof -
  have "safe (stopped_step E ins)"
    unfolding stopped_step_def by (intro keeps_intros safe_prims)
  then show ?thesis
    using safe_mysql_ops [of E H]
    by (auto simp: ops_kept_def engine_ops_def intro: safe_calls safe_wait_for)
qed

lemma safe_apply_and_sync:
  assumes "ops_kept R ops"
  shows "safe (apply_and_sync H ops sv dir dbn user pass)"
  unfolding apply_and_sync_def migration_files_def loader_work_def apply_migrations_def
    apply_migration_def sync_user_def shut_down_def Let_def
  by (intro keeps_intros safe_prims safe_opsD [OF assms])

lemma safe_find_procs: "safe (find_procs_using H p)"
  unfolding find_procs_using_def by (intro keeps_intros safe_commands)

lemma safe_on_base: "(\<And>p. safe (k p)) \<Longrightarrow> safe (on_base_path E k)"
  unfolding on_base_path_def by (intro keeps_intros safe_prims)

lemma safe_check_quiesced: "safe (check_quiesced E H rc)"
  unfolding check_quiesced_def default_quiesce_check_def
  by (intro keeps_intros safe_prims safe_on_base safe_find_procs safe_mark) simp

lemma safe_reclaim: "safe (reclaim_base E H)"
  unfolding reclaim_base_def procs_gone_def
  by (intro safe_on_base keeps_intros safe_find_procs safe_prims safe_wait_within)

lemma safe_auto_cnf: "safe (remove_base_auto_cnf E H)"
  unfolding remove_base_auto_cnf_def Let_def
  by (rule safe_on_base, rule keeps_check [OF safe_pure_ext])
    (auto intro!: keeps_intros safe_commands split: fs_result.split)

lemma safe_source_loader: "safe (run_source_loader E H rc)"
  unfolding run_source_loader_def loader_via_engine_def apply_dir_sync_def spawn_ops_def Let_def
  by (intro keeps_intros safe_prims safe_calls safe_apply_and_sync safe_engine_ops)
    (simp add: safe_mysql_ops safe_postgres_ops)

lemma safe_clear_sentinel: "safe (clear_sentinel H rc)"
  unfolding clear_sentinel_def
  by (intro keeps_if keeps_check safe_prims) (auto intro: keeps_intros split: fs_result.split)

lemma safe_run_build: "safe (run_build E H rc tag)"
  unfolding run_build_def run_script_def
  by (intro keeps_intros safe_source_loader safe_commands safe_check_quiesced safe_reclaim)

lemma safe_ensure_quiesced: "safe (ensure_quiesced E H rc)"
  unfolding ensure_quiesced_def by (intro keeps_intros safe_check_quiesced safe_reclaim)

lemma safe_masked_by: "safe (masked_by H rc)"
  unfolding masked_by_def by (intro keeps_intros safe_commands)

lemma safe_script_missing: "safe (script_missing H rc)"
  unfolding script_missing_def by (intro keeps_intros safe_prims)

lemma safe_claim: "safe claim_refresh"
  unfolding claim_refresh_def by (intro keeps_intros safe_modifying) simp_all

lemma safe_release: "safe release_refresh"
  unfolding release_refresh_def by (rule safe_modifying) simp_all

lemma safe_prepare_build: "safe (prepare_build E)"
  unfolding prepare_build_def base_snapshot_ref_def new_baseline_tag_def
  by (intro keeps_intros safe_prims safe_parts)

lemmas safe_refresh_parts = safe_clear_sentinel safe_run_build safe_masked_by safe_script_missing
  safe_claim safe_release

end

context branch_handlers begin

lemma safe_sleep: "N n \<Longrightarrow> safe (sleep_branch E n)"
  unfolding sleep_branch_def by (intro safe_get_branch keeps_intros safe_parts safe_writes)

lemma safe_note: "safe (note_conn_fail n)"
  unfolding note_conn_fail_def by (rule safe_modifying) simp_all

lemma safe_clear: "safe (clear_conn_fail n)"
  unfolding clear_conn_fail_def by (rule safe_modifying) simp_all

lemma safe_poll_branch: "N (b_name b) \<Longrightarrow> safe (poll_branch E cc b counts)"
  unfolding poll_branch_def
  by (intro keeps_intros safe_parts safe_note safe_clear safe_sql_at D_statements)

lemma safe_active_conns: "safe (active_conns E n)"
  unfolding active_conns_def by (intro keeps_intros safe_parts)

lemma safe_log_once: "safe (reap_log_once n msg)"
  unfolding reap_log_once_def by (rule safe_modifying) simp_all

lemma safe_reap_delete: "N n \<Longrightarrow> safe (reap_delete E n)"
  unfolding reap_delete_def
  by (intro keeps_intros safe_delete safe_log_once safe_modifying) simp_all

lemma safe_protect: "N (b_name b) \<Longrightarrow> safe (protect_or_delete E b)"
  unfolding protect_or_delete_def
  by (intro keeps_intros safe_parts safe_log_once safe_sleep safe_reap_delete)

lemma safe_reap_error: "N (b_name b) \<Longrightarrow> safe (reap_error E t b)"
  unfolding reap_error_def
  by (auto intro!: keeps_intros safe_parts safe_log_once safe_reap_delete safe_sql_at D_statements
      split: option.split sum.split list.split)

lemma safe_recheck: "N (b_name b) \<Longrightarrow> safe (recheck_busy E b)"
  unfolding recheck_busy_def
  by (auto intro!: keeps_intros safe_parts safe_sql_at D_statements split: bstate.split option.split)

lemma safe_reap_branch: "N (b_name b) \<Longrightarrow> safe (reap_branch E t b)"
  unfolding reap_branch_def
  by (intro keeps_intros safe_protect safe_reap_error safe_active_conns safe_recheck safe_sleep)

lemma safe_reconcile_branch: "N (b_name b) \<Longrightarrow> safe (reconcile_branch E mutate b rep)"
  unfolding reconcile_branch_def interrupted_op_def
  by (intro keeps_intros safe_delete safe_parts safe_writes safe_sql_at D_statements)

lemma safe_gc_orphans_loop: "safe (fold_act (gc_orphan E) names del)"
  unfolding gc_orphan_def by (intro keeps_intros safe_parts)

lemma safe_resolve_config: "safe (resolve_refresh_config H pol rc)"
  unfolding resolve_refresh_config_def Let_def by (intro keeps_intros safe_exists_file)

lemma safe_tag: "safe (new_baseline_tag E)"
  unfolding new_baseline_tag_def by (intro keeps_intros safe_parts)

lemma safe_cleanup: "safe c \<Longrightarrow> safe m \<Longrightarrow> safe (with_cleanup c m)"
  unfolding with_cleanup_def by (intro keeps_intros)

lemma safe_try_candidate: "safe (try_candidate E b v)"
  unfolding try_candidate_def by (intro keeps_intros safe_parts safe_writes)

lemma safe_clear_validate: "safe (clear_validate E rc)"
  unfolding clear_validate_def by (intro keeps_intros safe_parts)

lemma safe_validate_candidate: "safe (validate_candidate E snap rc)"
  unfolding validate_candidate_def
  by (intro keeps_intros safe_clear_validate safe_parts safe_cleanup safe_try_candidate)

lemma safe_restart_branch: "safe (restart_branch E ins)"
  unfolding restart_branch_def by (intro keeps_intros safe_parts)

end

text \<open>Work that goes over all branches, or changes the tables of operations and hook runs.\<close>

locale housekeeping = branch_handlers +
  assumes all_names: "N n"
    and M_poll: "keeps R (modifying (\<lambda>s. s\<lparr>poll_conns := counts\<rparr>))"
    and D_prune_ops: "sql_kept R (prune_operations before)"
    and D_prune_hooks: "sql_kept R (prune_hook_runs before)"
begin

lemma safe_drain: "safe (drain E)"
  unfolding drain_def drain_branch_def
  by (intro keeps_intros safe_query query safe_sleep all_names)

lemma safe_poll_conns_once: "safe (poll_conns_once E cc)"
  unfolding poll_conns_once_def
  by (intro keeps_intros safe_query query safe_poll_branch all_names M_poll)

lemma safe_reap: "safe (reap E)"
  unfolding reap_def
  by (intro keeps_intros safe_query query safe_parts safe_reap_branch all_names safe_sql
      D_prune_ops D_prune_hooks)

lemma safe_reconcile: "safe (reconcile E mutate)"
  unfolding reconcile_def
  by (intro keeps_intros safe_query query safe_parts safe_reconcile_branch all_names)

lemma safe_gc_orphans: "safe (gc_orphans E)"
  unfolding gc_orphans_def by (intro keeps_check safe_reconcile safe_gc_orphans_loop)

end

text \<open>Work on the catalog of baselines.\<close>

locale background_work = housekeeping +
  assumes S_promote: "keeps R (promote_take E H pr masked b v)"
    and S_build: "keeps R (build_snapshot E H rc tag)"
    and D_register: "sql_kept R (register_baseline t snap p)"
    and D_drop_baseline: "sql_kept R (delete_baseline_row snap)"
begin

lemma safe_validate_baseline: "safe (validate_baseline E H pol snap)"
  unfolding validate_baseline_def
  by (intro keeps_intros safe_query query safe_resolve_config safe_validate_candidate safe_sql_at
      D_register)

lemma safe_drop_snapshot: "safe (drop_snapshot E snap)"
  unfolding drop_snapshot_def by (intro keeps_intros safe_logged) simp

lemma safe_gc_baselines: "safe (gc_baselines E c)"
  unfolding gc_baselines_def gc_one_def gc_keeps_def
  by (intro keeps_intros safe_query query safe_parts safe_drop_snapshot safe_sql D_drop_baseline)

lemma safe_delete_baseline: "safe (delete_baseline E snap)"
  unfolding delete_baseline_def
  by (intro keeps_intros safe_query query safe_parts safe_drop_snapshot safe_sql D_drop_baseline)

lemma safe_build_candidate: "safe (build_candidate E H rc tag)"
  unfolding build_candidate_def
  by (intro keeps_intros safe_refresh_parts S_build safe_sql_at D_register)

lemma safe_build_baseline: "safe (build_baseline E H pol tag)"
  unfolding build_baseline_def
  by (intro keeps_intros safe_resolve_config safe_refresh_parts safe_tag safe_cleanup
      safe_build_candidate)

end

text \<open>Moving the pointer to the current baseline.\<close>

locale publisher = background_work +
  assumes D_set_current: "sql_kept R (set_current_baseline t snap)"
begin

lemma safe_publish: "safe (publish_promoted E snap tag masked validated)"
  unfolding publish_promoted_def
  by (intro keeps_intros safe_query query safe_sql_at D_register D_set_current)

lemma safe_promote: "safe (promote_branch E H pol n opts)"
  unfolding promote_branch_def
  by (intro keeps_intros safe_query query safe_parts safe_resolve_config S_promote
      safe_validate_candidate safe_publish)

lemma safe_set_baseline: "safe (set_baseline E pol snap)"
  unfolding set_baseline_def by (intro keeps_intros safe_query query safe_sql_at D_set_current)

lemma safe_run_refresh: "safe (run_refresh E H rc tag)"
  unfolding run_refresh_def validate_refresh_def publish_refresh_def
  by (intro keeps_intros safe_build_candidate safe_validate_candidate safe_sql_at D_register
      D_set_current)

end

text \<open>Starting a refresh, and everything.\<close>

locale starter = background_work +
  assumes M_job: "keeps R (modifying (\<lambda>s. s\<lparr>refresh_job := j\<rparr>))"
begin

lemma safe_refresh_begin: "safe (refresh_begin E H pol req)"
  unfolding refresh_begin_def
  by (intro keeps_intros safe_resolve_config safe_refresh_parts safe_tag M_job)

end

locale whole_manager = publisher + starter +
  assumes M_done: "keeps R (modifying (refresh_done r))"
begin

lemma safe_refresh_work: "safe (refresh_work E H)"
  unfolding refresh_work_def by (intro keeps_intros safe_run_refresh M_done)

end

section \<open>Relations that do not look at the log\<close>

locale blind_handlers = branch_statements +
  fixes E :: "'a env"
  assumes R_any: "mdb s' = mdb s \<Longrightarrow> same_rest s s' \<Longrightarrow> R s s'"
    and D_admit': "N n \<Longrightarrow> keeps R (admit_create E n port orig)"
begin

lemma blind_logged: "safe (logged ev c)"
  by (rule keepsI) (simp add: logged_def R_any split: prod.splits)

lemma blind_snapshot_init: "safe (snapshot_init E' v)"
  by (simp add: snapshot_init_def blind_logged)

lemma blind_create_build: "N n \<Longrightarrow> safe (create_build E' n orig)"
  unfolding create_build_def
  by (intro keeps_intros safe_parts safe_writes safe_query query safe_hook_phase
      blind_snapshot_init)

lemma blind_recreate_build: "N (b_name b) \<Longrightarrow> safe (recreate_build E' b orig ev op' stash)"
  unfolding recreate_build_def recreate_provision_def Let_def
  by (intro keeps_intros safe_parts safe_writes safe_sql D_statements blind_snapshot_init)

end

sublocale blind_handlers \<subseteq> branch_handlers
  by unfold_locales (auto intro: blind_create_build blind_recreate_build D_admit')

text \<open>Relations on the database alone.\<close>

locale db_branches =
  fixes D :: "db \<Rightarrow> db \<Rightarrow> bool" and N :: "string \<Rightarrow> bool" and E :: "'w env"
  assumes refl_D: "D d d"
    and trans_D: "D d d' \<Longrightarrow> D d' d'' \<Longrightarrow> D d d''"
    and W_set_state: "N n \<Longrightarrow> D d (snd (set_state t n st msg d))"
    and W_set_error: "N n \<Longrightarrow> D d (snd (set_error t n fop code recov msg sugg d))"
    and W_touch: "N n \<Longrightarrow> D d (snd (touch_last_conn t n d))"
    and W_set_meta: "N n \<Longrightarrow> D d (snd (set_meta n m d))"
    and W_set_expires: "N n \<Longrightarrow> D d (snd (set_expires_at n t d))"
    and W_update_origin: "N n \<Longrightarrow> D d (snd (update_origin n orig d))"
    and W_provision: "N n \<Longrightarrow> D d (snd (set_provision n vref snap d))"
    and W_delete: "N n \<Longrightarrow> D d (snd (delete_branch n d))"
    and W_mark_error: "N n \<Longrightarrow> D d (snd (mark_error_at_if_missing t n d))"
    and W_hook_start: "D d (snd (record_hook_start t n ev d))"
    and W_hook_finish: "D d (snd (record_hook_finish t i exitc d))"
    and W_admit: "N n \<Longrightarrow> keeps (\<lambda>s s'. D (mdb s) (mdb s')) (admit_create E n port orig)"

sublocale db_branches \<subseteq> base: branch_statements "\<lambda>s s'. D (mdb s) (mdb s')" N
  by unfold_locales
    (auto simp: sql_kept_def intro: refl_D trans_D W_set_state W_set_error W_touch W_set_meta
      W_set_expires W_update_origin W_provision W_delete W_mark_error W_hook_start W_hook_finish)

sublocale db_branches \<subseteq> blind_handlers "\<lambda>s s'. D (mdb s) (mdb s')" N E
  by unfold_locales (auto intro: W_admit refl_D)

locale db_housekeeping = db_branches D "\<lambda>_. True" E for D and E :: "'w env" +
  assumes W_prune_ops: "D d (snd (prune_operations before d))"
    and W_prune_hooks: "D d (snd (prune_hook_runs before d))"
begin

lemma db_poll: "base.safe (modifying (\<lambda>s. s\<lparr>poll_conns := counts\<rparr>))"
  by (rule base.keepsI) (simp add: modifying_def refl_D)

end

sublocale db_housekeeping \<subseteq> housekeeping "\<lambda>s s'. D (mdb s) (mdb s')" "\<lambda>_. True" E
  by unfold_locales (auto simp: sql_kept_def intro: db_poll W_prune_ops W_prune_hooks)

locale db_background = db_housekeeping D E for D and E :: "'w env" +
  assumes W_register: "D d (snd (register_baseline t snap p d))"
    and W_drop_baseline: "D d (snd (delete_baseline_row snap d))"
begin

lemma db_build: "base.safe (build_snapshot E H rc tag)"
  unfolding build_snapshot_def snapshot_base_def
  by (intro base.keeps_intros base.safe_ensure_quiesced base.safe_auto_cnf blind_logged)

lemma db_promote_take: "base.safe (promote_take E H pr masked b v)"
  unfolding promote_take_def promote_snapshot_def with_cleanup_def new_baseline_tag_def
    restart_branch_def
  by (intro base.keeps_intros base.safe_parts base.safe_sql_at blind_logged)
    (simp add: sql_kept_def W_register)

end

sublocale db_background \<subseteq> background_work "\<lambda>s s'. D (mdb s) (mdb s')" "\<lambda>_. True" E
  by unfold_locales
    (auto simp: sql_kept_def intro: db_promote_take db_build W_register W_drop_baseline)

sublocale db_background \<subseteq> starter "\<lambda>s s'. D (mdb s) (mdb s')" "\<lambda>_. True" E
  by unfold_locales (simp add: keeps_def modifying_def refl_D)

locale db_whole = db_background D E for D and E :: "'w env" +
  assumes W_set_current: "D d (snd (set_current_baseline t snap d))"

sublocale db_whole \<subseteq> whole_manager "\<lambda>s s'. D (mdb s) (mdb s')" "\<lambda>_. True" E
  by unfold_locales (auto simp: sql_kept_def keeps_def modifying_def refresh_done_def intro: refl_D W_set_current)

end
