(* ===== verification/Doctor.thy ===== *)
theory Doctor
  imports Background "HOL-Library.Char_ord" "HOL-Library.List_Lexorder" "HOL-Library.Product_Lexorder"
begin

text \<open>
  The reports of package workspace: the health report of \<^verbatim>\<open>sashiki doctor\<close> (reconcile.go with
  apparmor_check.go), the baseline report, and the counts behind the metrics (observability.go).
  Details that the source writes in Japanese are given by an English gloss.
\<close>

section \<open>The report\<close>

record doctor_check =
  dc_name :: string
  dc_status :: string
  dc_detail :: string

record doctor_report =
  do_pool_healthy :: bool
  do_pool_status_healthy :: bool
  do_pool_status_detail :: string
  do_pool_ratio :: "int \<times> int"
  do_current :: string
  do_masked :: bool
  do_validated :: bool
  do_writable :: bool
  do_branches :: nat
  do_port_conflicts :: "string list"
  do_exposed :: "string list"
  do_orphans :: "string list"
  do_mem_ok :: bool
  do_issues :: "string list"
  do_checks :: "doctor_check list"

definition empty_report :: doctor_report where
  "empty_report = \<lparr>do_pool_healthy = False, do_pool_status_healthy = False,
     do_pool_status_detail = [], do_pool_ratio = (0, 1), do_current = [], do_masked = False,
     do_validated = False, do_writable = False, do_branches = 0, do_port_conflicts = [],
     do_exposed = [], do_orphans = [], do_mem_ok = False, do_issues = [], do_checks = []\<rparr>"

text \<open>The closure \<^verbatim>\<open>add\<close>.\<close>

definition note_check :: "string \<Rightarrow> string \<Rightarrow> string \<Rightarrow> doctor_report \<Rightarrow> doctor_report" where
  "note_check name status detail d = d\<lparr>
     do_checks := do_checks d @ [\<lparr>dc_name = name, dc_status = status, dc_detail = detail\<rparr>],
     do_issues := do_issues d @ (if status \<noteq> ''ok'' then [name @ '': '' @ detail] else [])\<rparr>"

section \<open>The checks\<close>

text \<open>\<^verbatim>\<open>Writable\<close> creates and drops a probe table: no row of the schema changes.\<close>

definition probe_table :: "unit sql" where
  "probe_table d = (Inr (), d)"

definition doctor_db :: "'w env \<Rightarrow> doctor_report \<Rightarrow> ('w, doctor_report) mact" where
  "doctor_db E d = handle_err (check (sql E probe_table) (\<lambda>_. sql E probe_table))
     (\<lambda>e. ret (note_check ''state.db writable'' ''error'' (err_text e) d))
     (\<lambda>_. ret (note_check ''state.db writable'' ''ok'' [] (d\<lparr>do_writable := True\<rparr>)))"

definition note_provenance :: "provenance \<Rightarrow> doctor_report \<Rightarrow> doctor_report" where
  "note_provenance p d =
     (let d1 = d\<lparr>do_masked := p_masked p, do_validated := p_validated p\<rparr>;
          d2 = (if p_masked p then note_check ''baseline masked'' ''ok'' [] d1
                else note_check ''baseline masked'' ''warn''
                       ''the current baseline is not recorded as masked'' d1)
      in if p_validated p then note_check ''baseline validated'' ''ok'' [] d2
         else note_check ''baseline validated'' ''warn''
                ''the current baseline has not passed validation'' d2)"

definition doctor_baseline :: "'w env \<Rightarrow> doctor_report \<Rightarrow> ('w, doctor_report) mact" where
  "doctor_baseline E d = check (current_baseline E) (\<lambda>cur.
     let d1 = d\<lparr>do_current := cur\<rparr> in
     if cur = [] then ret (note_check ''current baseline'' ''error''
                             ''not set (baseline import/refresh is needed)'' d1)
     else (let d2 = note_check ''current baseline'' ''ok'' cur d1 in
       handle_err (sql E (get_baseline cur)) (\<lambda>_. ret d2) (\<lambda>row. ret (note_provenance (bs_prov row) d2))))"

text \<open>The loop over the branches, with the map from a port to its last branch.\<close>

fun port_conflicts :: "(int \<rightharpoonup> string) \<Rightarrow> branch list \<Rightarrow> string list" where
  "port_conflicts seen [] = []"
| "port_conflicts seen (b # bs) =
     (case seen (b_port b) of None \<Rightarrow> []
        | Some prev \<Rightarrow> [''port '' @ show_int (b_port b) @ '': '' @ prev @ '' and '' @ b_name b])
     @ port_conflicts (seen(b_port b \<mapsto> b_name b)) bs"

definition doctor_ports :: "branch list \<Rightarrow> doctor_report \<Rightarrow> doctor_report" where
  "doctor_ports bs d = (let cs = port_conflicts Map.empty bs; d1 = d\<lparr>do_port_conflicts := cs\<rparr> in
     if cs = [] then note_check ''port conflicts'' ''ok'' [] d1
     else note_check ''port conflicts'' ''error'' (join_with ''; '' cs) d1)"

definition doctor_listeners :: "'w env \<Rightarrow> branch list \<Rightarrow> doctor_report \<Rightarrow> ('w, doctor_report) mact" where
  "doctor_listeners E bs d = (case en_exposed (eng E) of
      None \<Rightarrow> ret d
    | Some ex \<Rightarrow> handle_err (ext (ex (map probe_of (filter (\<lambda>b. b_state b = Running) bs))))
        (\<lambda>e. ret (note_check ''branch listener exposure'' ''warn'' (''cannot be checked: '' @ err_text e) d))
        (\<lambda>exposed. ret (if exposed \<noteq> []
           then note_check ''branch listener exposure'' ''warn'' (join_with ''; '' exposed
                  @ '' reachable from other than loopback; update the units and restart the branches'')
                  (d\<lparr>do_exposed := exposed\<rparr>)
           else note_check ''branch listener exposure'' ''ok'' ''loopback only'' d)))"

text \<open>\<^verbatim>\<open>apparmorStockConflict\<close>: whether the check applies, and whether the profiles clash.\<close>

definition apparmor_stock_conflict :: "'w host \<Rightarrow> string \<Rightarrow> ('w, bool \<times> bool) mact" where
  "apparmor_stock_conflict H root =
     check (exists_file H (root @ ''etc/apparmor.d/sashiki-mysqld'')) (\<lambda>own.
     if \<not> own then ret (False, False)
     else check (exists_file H (root @ ''etc/apparmor.d/usr.sbin.mysqld'')) (\<lambda>stock.
       if \<not> stock then ret (False, False)
       else check (exists_file H (root @ ''etc/apparmor.d/disable/usr.sbin.mysqld'')) (\<lambda>off.
         ret (True, \<not> off))))"

definition doctor_apparmor :: "'w env \<Rightarrow> 'w host \<Rightarrow> doctor_report \<Rightarrow> ('w, doctor_report) mact" where
  "doctor_apparmor E H d =
     (if c_engine_type (cfg E) = ''postgres'' then ret d
      else check (apparmor_stock_conflict H ''/'') (\<lambda>(applicable, conflict).
        ret (if \<not> applicable then d
             else if conflict then note_check ''apparmor stock profile'' ''error''
               ''the stock profile usr.sbin.mysqld is enabled; mysqld cannot start after a reboot'' d
             else note_check ''apparmor stock profile'' ''ok'' ''disabled'' d)))"

definition doctor_pool_status :: "'w env \<Rightarrow> doctor_report \<Rightarrow> ('w, doctor_report) mact" where
  "doctor_pool_status E d = (case st_pool_status (sto E) of
      None \<Rightarrow> ret d
    | Some ps \<Rightarrow> handle_err (ext ps)
        (\<lambda>e. ret (note_check ''pool status'' ''warn'' (''not available: '' @ err_text e) d))
        (\<lambda>(healthy, detail). ret (if healthy
           then note_check ''pool status'' ''ok'' ''healthy''
                  (d\<lparr>do_pool_status_healthy := True, do_pool_status_detail := detail\<rparr>)
           else note_check ''pool status'' ''error'' detail (d\<lparr>do_pool_status_detail := detail\<rparr>))))"

definition doctor_pool_usage :: "'w env \<Rightarrow> doctor_report \<Rightarrow> ('w, doctor_report) mact" where
  "doctor_pool_usage E d = (case st_pool_capacity (sto E) of
      None \<Rightarrow> ret d
    | Some pc \<Rightarrow> handle_err (ext pc) (\<lambda>_. ret d) (\<lambda>(used, tot).
        if tot \<le> 0 then ret d
        else let d1 = d\<lparr>do_pool_healthy := True, do_pool_ratio := (used, tot)\<rparr>;
                 pct = percent used tot @ ''%'' in
          ret (if fst (c_critical_mark (cfg E)) > 0 \<and> above_mark used tot (c_critical_mark (cfg E))
               then note_check ''pool usage'' ''error'' (''critical: '' @ pct) d1
               else if fst (c_high_mark (cfg E)) > 0 \<and> above_mark used tot (c_high_mark (cfg E))
               then note_check ''pool usage'' ''warn'' (''high: '' @ pct) d1
               else note_check ''pool usage'' ''ok'' pct d1)))"

definition doctor_orphans :: "'w env \<Rightarrow> doctor_report \<Rightarrow> ('w, doctor_report) mact" where
  "doctor_orphans E d = handle_err (reconcile E False) (\<lambda>_. ret d) (\<lambda>rep.
     let d1 = d\<lparr>do_orphans := rp_orphans rep\<rparr> in
     ret (if rp_orphans rep = [] then note_check ''orphan datasets'' ''ok'' [] d1
          else note_check ''orphan datasets'' ''warn''
                 (join_with ''; '' (rp_orphans rep) @ '' (collect with gc --orphans)'') d1))"

definition doctor_memory :: "'w env \<Rightarrow> doctor_report \<Rightarrow> ('w, doctor_report) mact" where
  "doctor_memory E d =
     (if avail_mem E = None then ret (d\<lparr>do_mem_ok := True\<rparr>)
      else handle_err (admit_memory E ''doctor'')
        (\<lambda>e. ret (note_check ''memory headroom'' ''warn'' (err_text e) d))
        (\<lambda>_. ret (note_check ''memory headroom'' ''ok'' [] (d\<lparr>do_mem_ok := True\<rparr>))))"

definition doctor :: "'w env \<Rightarrow> 'w host \<Rightarrow> ('w, doctor_report) mact" where
  "doctor E H = check (sql E list_branches) (\<lambda>bs.
     check (doctor_db E (empty_report\<lparr>do_branches := length bs\<rparr>)) (\<lambda>d.
     check (doctor_baseline E d) (\<lambda>d.
     check (doctor_listeners E bs (doctor_ports bs d)) (\<lambda>d.
     check (doctor_apparmor E H d) (\<lambda>d.
     check (doctor_pool_status E d) (\<lambda>d.
     check (doctor_pool_usage E d) (\<lambda>d.
     check (doctor_orphans E d) (\<lambda>d.
     doctor_memory E d))))))))"

section \<open>The other reports\<close>

record baseline_info =
  bi_current :: string
  bi_snapshots :: "string list"

definition baseline_report :: "'w env \<Rightarrow> ('w, baseline_info) mact" where
  "baseline_report E = check (ext (st_list_snapshots (sto E))) (\<lambda>snaps.
     check (current_baseline E) (\<lambda>cur. ret \<lparr>bi_current = cur, bi_snapshots = snaps\<rparr>))"

definition list_baseline_rows :: "'w env \<Rightarrow> ('w, baseline list) mact" where
  "list_baseline_rows E = sql E list_baselines"

text \<open>\<^verbatim>\<open>OperationStats\<close>: one row for each (type, state) group, in the order of the group keys.\<close>

record operation_stats =
  os_type :: string
  os_state :: op_state
  os_count :: nat
  os_duration :: int

definition op_state_text :: "op_state \<Rightarrow> string" where
  "op_state_text st = (case st of OpRunning \<Rightarrow> ''running'' | OpCompleted \<Rightarrow> ''completed'' | OpFailed \<Rightarrow> ''failed'')"

text \<open>The sums are in seconds, the difference of the two recorded times of a finished operation.\<close>

definition all_operation_stats :: "operation_stats list sql" where
  "all_operation_stats d =
     (let keys = sort_key (\<lambda>(ty, st). (ty, op_state_text st))
                   (remdups (map (\<lambda>x. (o_type x, o_state x)) (operations d))) in
      (Inr (map (\<lambda>(ty, st). let (n, dur) = (case operation_stat ty st d of Some r \<Rightarrow> r | None \<Rightarrow> (0, 0)) in
           \<lparr>os_type = ty, os_state = st, os_count = n, os_duration = dur\<rparr>) keys), d))"

definition operation_stats_report :: "'w env \<Rightarrow> ('w, operation_stats list) mact" where
  "operation_stats_report E = sql E all_operation_stats"

definition hook_failures_report :: "'w env \<Rightarrow> ('w, nat) mact" where
  "hook_failures_report E = sql E hook_failure_count"

section \<open>The reports change nothing\<close>

text \<open>The lemmas of \<open>call_relation\<close> for the reports: they only query and call out.\<close>

lemma query_probe [query]: "snd (probe_table d) = d"
  by (simp add: probe_table_def)

lemma query_stats [query]: "snd (all_operation_stats d) = d"
  by (simp add: all_operation_stats_def Let_def)

lemma query_failures [query]: "snd (hook_failure_count d) = d"
  by (simp add: hook_failure_count_def)

context call_relation begin

lemma safe_look_branch: "safe (reconcile_branch E False b rep)"
proof (cases "in_transition (b_state b)")
  case False
  then show ?thesis
    unfolding reconcile_branch_def
    by (auto simp: in_transition_def intro!: keeps_intros safe_resolve_volume safe_prims)
qed (simp add: reconcile_branch_def keeps_ret)

lemma safe_inspect: "safe (reconcile E False)"
  unfolding reconcile_def by (intro keeps_intros safe_query query safe_prims safe_look_branch)

lemma safe_doctor_parts: "safe (doctor_db E d)" "safe (doctor_baseline E d)"
  "safe (doctor_listeners E bs d)" "safe (doctor_apparmor E H d)" "safe (doctor_pool_status E d)"
  "safe (doctor_pool_usage E d)" "safe (doctor_orphans E d)" "safe (doctor_memory E d)"
  unfolding doctor_db_def doctor_baseline_def doctor_listeners_def doctor_apparmor_def
    apparmor_stock_conflict_def exists_file_def doctor_pool_status_def doctor_pool_usage_def
    doctor_orphans_def doctor_memory_def
  by (intro keeps_intros safe_query query safe_parts safe_inspect)+

lemma safe_doctor: "safe (doctor E H)"
  unfolding doctor_def by (intro keeps_check safe_query query safe_doctor_parts)

lemma safe_reports: "safe (baseline_report E)" "safe (list_baseline_rows E)"
  "safe (operation_stats_report E)" "safe (hook_failures_report E)"
  unfolding baseline_report_def list_baseline_rows_def operation_stats_report_def
    hook_failures_report_def
  by (intro keeps_intros safe_query query safe_parts)+

lemma safe_capacity: "safe (capacity_report E)"
  unfolding capacity_report_def Let_def by (intro keeps_intros safe_query query safe_parts)

end

end
