(* ===== verification/Safety.thy ===== *)
theory Safety
  imports Doctor Sample
begin

text \<open>
  The manager as a whole: its requests, the runs they make, and the invariants of every state a
  run reaches, for any behaviour of storage, engine, hooks, clock and database driver.
\<close>

section \<open>The database steps of the manager\<close>

text \<open>
  A new branch is admitted under the limit with a free port of the range; every other statement
  adds no branch.
\<close>

inductive manager_step :: "mconfig \<Rightarrow> db \<Rightarrow> db \<Rightarrow> bool" for C where
  ms_admit: "(c_max_branches C > 0 \<Longrightarrow> int (length (branches d)) < c_max_branches C) \<Longrightarrow>
     c_port_low C \<le> p \<Longrightarrow> p \<le> c_port_high C \<Longrightarrow>
     manager_step C d (snd (create_branch t n p orig d))"
| ms_write: "db_write d d' \<Longrightarrow> length (branches d') \<le> length (branches d) \<Longrightarrow>
     r_port ` set (branches d') \<subseteq> r_port ` set (branches d) \<Longrightarrow> manager_step C d d'"

definition within_limits :: "mconfig \<Rightarrow> db \<Rightarrow> bool" where
  "within_limits C d \<longleftrightarrow>
     (c_max_branches C > 0 \<longrightarrow> int (length (branches d)) \<le> c_max_branches C)
     \<and> (\<forall>r \<in> set (branches d). c_port_low C \<le> r_port r \<and> r_port r \<le> c_port_high C)"

lemma manager_step_ok: "manager_step C d d' \<Longrightarrow> db_ok d \<Longrightarrow> db_ok d'"
  by (induction rule: manager_step.induct) (auto intro: db_write_ok w_create_branch)

lemma manager_step_limits: "manager_step C d d' \<Longrightarrow> within_limits C d \<Longrightarrow> within_limits C d'"
proof (induction rule: manager_step.induct)
  case (ms_admit d p t n orig)
  then show ?case by (auto simp: within_limits_def create_branch_def)
next
  case (ms_write d d')
  then show ?case by (fastforce simp: within_limits_def)
qed

lemma manager_steps_ok: "(manager_step C)\<^sup>*\<^sup>* d d' \<Longrightarrow> db_ok d \<Longrightarrow> db_ok d'"
  by (induction rule: rtranclp_induct) (auto intro: manager_step_ok)

lemma manager_steps_limits:
  "(manager_step C)\<^sup>*\<^sup>* d d' \<Longrightarrow> within_limits C d \<Longrightarrow> within_limits C d'"
  by (induction rule: rtranclp_induct) (auto intro: manager_step_limits)

section \<open>Queries leave the database alone\<close>

interpretation frame: call_relation "\<lambda>s s'. mdb s' = mdb s"
  by unfold_locales simp_all

lemma mdb_frame: "frame.safe m \<Longrightarrow> m s = (r, s') \<Longrightarrow> mdb s' = mdb s"
  using frame.keepsE by blast

section \<open>Admission of a new branch\<close>

text \<open>The value of a query is the one that SQL gives on the current database.\<close>

lemma sql_value: "sql E q s = (Inr a, s') \<Longrightarrow> fst (q (mdb s)) = Inr a \<and> mdb s' = snd (q (mdb s))"
  by (auto simp: sql_def split: prod.splits option.splits)

lemma sql_at_effect:
  assumes "sql_at E q s = (r, s')"
  shows "\<exists>t. mdb s' = mdb s \<or> mdb s' = snd (q t (mdb s))"
proof -
  obtain t w where c: "clock E (world s) = (t, w)" by fastforce
  have "mdb s' = mdb s \<or> mdb s' = snd (q t (mdb s))"
    using assms mdb_sql [of E "q t" "s\<lparr>world := w\<rparr>"]
    by (simp add: sql_at_def check_def now_def pure_ext_def c)
  then show ?thesis ..
qed

lemma check_Inr: "check m k s = (Inr b, s'') \<longleftrightarrow> (\<exists>a s'. m s = (Inr a, s') \<and> k a s' = (Inr b, s''))"
  by (auto simp: check_def split: prod.splits sum.splits)

lemma ret_Inr: "ret a s = (Inr b, s') \<longleftrightarrow> b = a \<and> s' = s"
  by (auto simp: ret_def)

lemma throw_Inr: "throw e s = (Inr b, s') \<longleftrightarrow> False"
  by (simp add: throw_def)

lemma first_free_Some: "first_free used lo hi = Some p \<Longrightarrow> lo \<le> p \<and> p \<le> hi \<and> p \<notin> set used"
  using find_key_mem [of "\<lambda>p. p \<notin> set used" "[lo..hi]" p] by (auto simp: first_free_def)

lemma alloc_port_free:
  assumes "alloc_port E req s = (Inr p, s')"
  shows "c_port_low (cfg E) \<le> p \<and> p \<le> c_port_high (cfg E) \<and> p \<notin> r_port ` set (branches (mdb s))"
proof -
  from assms obtain used s1 where q: "sql E used_ports s = (Inr used, s1)"
    and p: "(req \<noteq> 0 \<and> c_port_low (cfg E) \<le> req \<and> req \<le> c_port_high (cfg E) \<and> req \<notin> set used \<and> p = req)
      \<or> first_free used (c_port_low (cfg E)) (c_port_high (cfg E)) = Some p"
    by (auto simp: alloc_port_def check_Inr ret_Inr throw_Inr split: if_splits option.splits)
  from q have "used = map r_port (branches (mdb s))"
    by (auto simp: used_ports_def dest: sql_value)
  with p first_free_Some [of used "c_port_low (cfg E)" "c_port_high (cfg E)" p] show ?thesis
    by auto
qed

text \<open>\<open>admit_create\<close> inserts at most one row, and only within the limits.\<close>

lemma admit_create_effect:
  assumes "admit_create E n port orig s = (r, s')"
  shows "mdb s' = mdb s
     \<or> (\<exists>t p. mdb s' = snd (create_branch t n p orig (mdb s))
          \<and> (c_max_branches (cfg E) > 0 \<longrightarrow> int (length (branches (mdb s))) < c_max_branches (cfg E))
          \<and> c_port_low (cfg E) \<le> p \<and> p \<le> c_port_high (cfg E))"
proof -
  define ins where "ins p = sql_at E (\<lambda>t. create_branch t n p orig)" for p
  define adm where "adm = check (admit_memory E ''create'') (\<lambda>_. admit_storage E ''create'')"
  have adm_frame: "frame.safe adm"
    unfolding adm_def by (intro frame.keeps_intros frame.safe_parts)
  have split: "check (admit_memory E ''create'') (\<lambda>_. check (admit_storage E ''create'') (\<lambda>_. k))
      = check adm (\<lambda>_. k)" for k :: "('a, unit) mact"
    by (auto simp: adm_def check_def fun_eq_iff split: prod.splits sum.splits)
  obtain bs s1 where q: "sql E list_branches s = (bs, s1)" by fastforce
  have "frame.safe (sql E list_branches)" by (intro frame.safe_query query)
  from mdb_frame [OF this q] have d1: "mdb s1 = mdb s" .
  show ?thesis
  proof (cases bs)
    case (Inl e)
    with q assms have "s' = s1" by (simp add: admit_create_def check_def)
    with d1 show ?thesis by simp
  next
    case (Inr l)
    with q have len: "length l = length (branches (mdb s))"
      using sql_value [of E list_branches s l s1] by (auto simp: list_branches_def)
    show ?thesis
    proof (cases "c_max_branches (cfg E) > 0 \<and> int (length l) \<ge> c_max_branches (cfg E)")
      case True
      with q Inr assms have "s' = s1" by (simp add: admit_create_def check_def throw_def)
      with d1 show ?thesis by simp
    next
      case False
      obtain rp s2 where a: "alloc_port E port s1 = (rp, s2)" by fastforce
      have d2: "mdb s2 = mdb s"
        using mdb_frame [OF frame.safe_alloc_port a] d1 by simp
      obtain ra s3 where m: "adm s2 = (ra, s3)" by fastforce
      have d3: "mdb s3 = mdb s"
        using mdb_frame [OF adm_frame m] d2 by simp
      have run: "admit_create E n port orig s = (case rp of Inl e \<Rightarrow> (Inl e, s2)
          | Inr p \<Rightarrow> (case ra of Inl e \<Rightarrow> (Inl e, s3) | Inr _ \<Rightarrow> ins p s3))"
        using q Inr False a m
        by (auto simp: admit_create_def split ins_def [symmetric] check_def
            split: sum.splits)
      show ?thesis
      proof (cases rp)
        case (Inl e)
        with run assms d2 show ?thesis by simp
      next
        case p: (Inr p)
        show ?thesis
        proof (cases ra)
          case (Inl e)
          with run p assms d3 show ?thesis by simp
        next
          case (Inr u)
          obtain ri where "ins p s3 = (ri, s')" using run p Inr assms by (cases "ins p s3") auto
          then obtain t where "mdb s' = mdb s \<or> mdb s' = snd (create_branch t n p orig (mdb s))"
            using d3 sql_at_effect unfolding ins_def by metis
          moreover have "c_port_low (cfg E) \<le> p \<and> p \<le> c_port_high (cfg E)"
            using alloc_port_free a p by blast
          moreover have "c_max_branches (cfg E) > 0 \<longrightarrow>
              int (length (branches (mdb s))) < c_max_branches (cfg E)"
            using False len by auto
          ultimately show ?thesis by blast
        qed
      qed
    qed
  qed
qed

section \<open>Every statement is a step\<close>

lemma write_steps:
  "db_write d d' \<Longrightarrow> length (branches d') \<le> length (branches d) \<Longrightarrow>
   r_port ` set (branches d') \<subseteq> r_port ` set (branches d) \<Longrightarrow> (manager_step C)\<^sup>*\<^sup>* d d'"
  by (rule r_into_rtranclp) (rule ms_write)

lemma admit_steps:
  "(c_max_branches C > 0 \<longrightarrow> int (length (branches d)) < c_max_branches C) \<Longrightarrow>
   c_port_low C \<le> p \<Longrightarrow> p \<le> c_port_high C \<Longrightarrow>
   (manager_step C)\<^sup>*\<^sup>* d (snd (create_branch t n p orig d))"
  by (rule r_into_rtranclp) (rule ms_admit, auto)

interpretation steps: db_whole "(manager_step (cfg E))\<^sup>*\<^sup>*" E for E :: "'w env"
proof unfold_locales
  fix d t n st msg fop code recov sugg m orig vref snap ev i exitc before p
    and d1 d2 d3 :: db
  let ?R = "(manager_step (cfg E))\<^sup>*\<^sup>*"
  show "?R d d" by simp
  show "?R d1 d2 \<Longrightarrow> ?R d2 d3 \<Longrightarrow> ?R d1 d3" by simp
  note up = write_steps
  show "?R d (snd (set_state t n st msg d))"
    by (rule up [OF w_set_state]) (auto simp: set_state_def update_or_missing_def update_branch_def)
  show "?R d (snd (set_error t n fop code recov msg sugg d))"
    by (rule up [OF w_set_error]) (auto simp: set_error_def update_or_missing_def update_branch_def)
  show "?R d (snd (touch_last_conn t n d))"
    by (rule up [OF w_touch]) (auto simp: touch_last_conn_def update_branch_def)
  show "?R d (snd (set_meta n m d))"
    by (rule up [OF w_set_meta]) (auto simp: set_meta_def update_branch_def)
  show "?R d (snd (set_expires_at n t d))"
    by (rule up [OF w_set_expires]) (auto simp: set_expires_at_def update_branch_def)
  show "?R d (snd (update_origin n orig d))"
    by (rule up [OF w_update_origin]) (auto simp: update_origin_def update_branch_def)
  show "?R d (snd (set_provision n vref snap d))"
    by (rule up [OF w_set_provision])
      (auto simp: set_provision_def update_or_missing_def update_branch_def)
  show "?R d (snd (delete_branch n d))"
    by (rule up [OF w_delete_branch]) (auto simp: delete_branch_def)
  show "?R d (snd (mark_error_at_if_missing t n d))"
    by (rule up [OF w_mark_error]) (auto simp: mark_error_at_if_missing_def update_branch_def)
  show "?R d (snd (record_hook_start t n ev d))"
    by (rule up [OF w_hook_start]) (auto simp: record_hook_start_def Let_def)
  show "?R d (snd (record_hook_finish t i exitc d))"
    by (rule up [OF w_hook_finish]) (auto simp: record_hook_finish_def)
  show "?R d (snd (prune_operations before d))"
    by (rule up [OF w_prune_ops]) (auto simp: prune_operations_def Let_def)
  show "?R d (snd (prune_hook_runs before d))"
    by (rule up [OF w_prune_hooks]) (auto simp: prune_hook_runs_def Let_def)
  show "?R d (snd (register_baseline t snap p d))"
    by (rule up [OF w_register_baseline]) (auto simp: register_baseline_def)
  show "?R d (snd (set_current_baseline t snap d))"
    by (rule up [OF w_set_current]) (auto simp: set_current_baseline_def Let_def)
  show "?R d (snd (delete_baseline_row snap d))"
    by (rule up [OF w_delete_baseline]) (auto simp: delete_baseline_row_def)
next
  fix n port orig
  show "keeps (\<lambda>s s'. (manager_step (cfg E))\<^sup>*\<^sup>* (mdb s) (mdb s')) (admit_create E n port orig)"
    unfolding keeps_def
  proof
    fix s :: "'w mgr"
    have "admit_create E n port orig s = (fst (admit_create E n port orig s),
        snd (admit_create E n port orig s))" by simp
    from admit_create_effect [OF this] admit_steps [of "cfg E" "mdb s"]
    show "(manager_step (cfg E))\<^sup>*\<^sup>* (mdb s) (mdb (snd (admit_create E n port orig s)))"
      by (metis rtranclp.rtrancl_refl)
  qed
qed

section \<open>Requests and runs\<close>

datatype 'w request =
    RqCreate string int meta string
  | RqReset string
  | RqRecreate string
  | RqDelete string
  | RqLease string int
  | RqWake string
  | RqRoute string
  | RqTouch string
  | RqRetry string
  | RqHook string hook_event
  | RqCheck string string
  | RqList
  | RqSleep string
  | RqDrain
  | RqPoll
  | RqReap
  | RqReconcile bool
  | RqGcOrphans
  | RqPromote string promote_options
  | RqValidate string
  | RqSetBaseline string
  | RqGcBaselines gc_config
  | RqDeleteBaseline string
  | RqRefresh "'w refresh_config"
  | RqRefreshWork
  | RqPrepareBuild
  | RqBuild string
  | RqGet string
  | RqLeaseUntil string int
  | RqDoctor
  | RqCapacity
  | RqBaseline
  | RqBaselineRows
  | RqStats
  | RqHookFailures

definition dropping :: "('s, 'a) act \<Rightarrow> ('s, unit) act" where
  "dropping m = check m (\<lambda>_. ret ())"

fun serve :: "'w env \<Rightarrow> 'w host \<Rightarrow> 'w refresh_config \<Rightarrow> 'w request \<Rightarrow> ('w, unit) mact" where
  "serve E H pol (RqCreate n port m bl) = dropping (create_with_meta_from E n port m bl)"
| "serve E H pol (RqReset n) = dropping (reset E n)"
| "serve E H pol (RqRecreate n) = dropping (recreate E n)"
| "serve E H pol (RqDelete n) = delete E n"
| "serve E H pol (RqLease n d) = dropping (lease E n d)"
| "serve E H pol (RqWake n) = dropping (wake E n)"
| "serve E H pol (RqRoute n) = dropping (route_branch E n)"
| "serve E H pol (RqTouch n) = touch_conn E n"
| "serve E H pol (RqRetry n) = dropping (retry E n)"
| "serve E H pol (RqHook n ev) = run_hook_manually E n ev"
| "serve E H pol (RqCheck n verb) = check_branch_mutation E n verb"
| "serve E H pol RqList = dropping (list_info E)"
| "serve E H pol (RqSleep n) = sleep_branch E n"
| "serve E H pol RqDrain = dropping (drain E)"
| "serve E H pol RqPoll = (case en_conn_count (eng E) of None \<Rightarrow> ret () | Some cc \<Rightarrow> poll_conns_once E cc)"
| "serve E H pol RqReap = reap E"
| "serve E H pol (RqReconcile mutate) = dropping (reconcile E mutate)"
| "serve E H pol RqGcOrphans = dropping (gc_orphans E)"
| "serve E H pol (RqPromote n opts) = dropping (promote_branch E H pol n opts)"
| "serve E H pol (RqValidate snap) = validate_baseline E H pol snap"
| "serve E H pol (RqSetBaseline snap) = set_baseline E pol snap"
| "serve E H pol (RqGcBaselines c) = dropping (gc_baselines E c)"
| "serve E H pol (RqDeleteBaseline snap) = delete_baseline E snap"
| "serve E H pol (RqRefresh req) = dropping (refresh_begin E H pol req)"
| "serve E H pol RqRefreshWork = refresh_work E H"
| "serve E H pol RqPrepareBuild = dropping (prepare_build E)"
| "serve E H pol (RqBuild tag) = dropping (build_baseline E H pol tag)"
| "serve E H pol (RqGet n) = dropping (get_info E n)"
| "serve E H pol (RqLeaseUntil n t) = dropping (lease_until E n t)"
| "serve E H pol RqDoctor = dropping (doctor E H)"
| "serve E H pol RqCapacity = dropping (capacity_report E)"
| "serve E H pol RqBaseline = dropping (baseline_report E)"
| "serve E H pol RqBaselineRows = dropping (list_baseline_rows E)"
| "serve E H pol RqStats = dropping (operation_stats_report E)"
| "serve E H pol RqHookFailures = dropping (hook_failures_report E)"

text \<open>The requests that may move the pointer to the current baseline, and those around a refresh.\<close>

fun publishes :: "'w request \<Rightarrow> bool" where
  "publishes (RqPromote n opts) = True"
| "publishes (RqSetBaseline snap) = True"
| "publishes RqRefreshWork = True"
| "publishes _ = False"

fun refreshes :: "'w request \<Rightarrow> bool" where
  "refreshes (RqRefresh req) = True"
| "refreshes RqRefreshWork = True"
| "refreshes _ = False"

text \<open>The requests that change the catalog of baselines otherwise.\<close>

fun catalogs :: "'w request \<Rightarrow> bool" where
  "catalogs (RqValidate snap) = True"
| "catalogs (RqGcBaselines c) = True"
| "catalogs (RqDeleteBaseline snap) = True"
| "catalogs (RqBuild tag) = True"
| "catalogs _ = False"

context housekeeping begin

lemma safe_serve_housekeeping:
  "\<not> publishes rq \<Longrightarrow> \<not> refreshes rq \<Longrightarrow> \<not> catalogs rq \<Longrightarrow> safe (serve E H pol rq)"
  by (cases rq)
    (auto simp: dropping_def intro!: keeps_check keeps_ret safe_create_with_meta_from safe_handlers
      safe_route_branch safe_lease safe_parts safe_sleep safe_drain safe_poll_conns_once safe_reap
      safe_reconcile safe_gc_orphans safe_prepare_build safe_get_info safe_lease_until safe_doctor
      safe_capacity safe_reports all_names split: option.split)

end

context background_work begin

lemma safe_serve_background: "\<not> publishes rq \<Longrightarrow> \<not> refreshes rq \<Longrightarrow> safe (serve E H pol rq)"
  using safe_serve_housekeeping [of rq]
  by (cases rq) (auto simp: dropping_def intro!: keeps_check keeps_ret safe_validate_baseline
      safe_gc_baselines safe_delete_baseline safe_build_baseline)

end

context publisher begin

lemma safe_serve_published: "\<not> refreshes rq \<Longrightarrow> safe (serve E H pol rq)"
  using safe_serve_background [of rq]
  by (cases rq) (auto simp: dropping_def intro!: keeps_check keeps_ret safe_promote safe_set_baseline)

end

context whole_manager begin

lemma safe_serve: "safe (serve E H pol rq)"
  using safe_serve_published [of rq]
  by (cases rq) (auto simp: dropping_def intro!: keeps_check keeps_ret safe_refresh_begin safe_refresh_work)

end

text \<open>
  A run of the daemon: requests in any order; restarts, which keep the database only; changes
  of the world by others; and the statements of the operation runner and of the token check,
  which leave branches and baselines alone.
\<close>

definition restarted :: "'w \<Rightarrow> 'w mgr \<Rightarrow> 'w mgr" where
  "restarted w s = (start_state w)\<lparr>mdb := mdb s, trace := trace s\<rparr>"

inductive mgr_reach :: "'w env \<Rightarrow> 'w host \<Rightarrow> 'w refresh_config \<Rightarrow> 'w mgr \<Rightarrow> bool" for E H pol where
  run_start: "mgr_reach E H pol (start_state w)"
| run_request: "mgr_reach E H pol s \<Longrightarrow> mgr_reach E H pol (snd (serve E H pol rq s))"
| run_restart: "mgr_reach E H pol s \<Longrightarrow> mgr_reach E H pol (restarted w s)"
| run_world: "mgr_reach E H pol s \<Longrightarrow> mgr_reach E H pol (s\<lparr>world := w\<rparr>)"
| run_other: "mgr_reach E H pol s \<Longrightarrow> db_write (mdb s) d \<Longrightarrow> branches d = branches (mdb s) \<Longrightarrow>
     baselines d = baselines (mdb s) \<Longrightarrow> mgr_reach E H pol (s\<lparr>mdb := d\<rparr>)"

lemma serve_steps: "(manager_step (cfg E))\<^sup>*\<^sup>* (mdb s) (mdb (snd (serve E H pol rq s)))"
  using steps.safe_serve by (rule steps.base.keepsD)

lemma reach_ok: "mgr_reach E H pol s \<Longrightarrow> db_ok (mdb s)"
proof (induction rule: mgr_reach.induct)
  case (run_start w)
  then show ?case using db_ok_open by (simp add: start_state_def open_db_def)
next
  case (run_request s rq)
  with serve_steps manager_steps_ok show ?case by blast
next
  case (run_other s d)
  then show ?case by (simp add: db_write_ok)
qed (simp_all add: restarted_def)

lemma reach_limits: "mgr_reach E H pol s \<Longrightarrow> within_limits (cfg E) (mdb s)"
proof (induction rule: mgr_reach.induct)
  case (run_request s rq)
  with serve_steps manager_steps_limits show ?case by blast
qed (simp_all add: restarted_def within_limits_def start_state_def open_db_def)

section \<open>Properties\<close>

text \<open>C1. Whatever storage, engine, hooks and database driver answer, and in whatever order requests,
  restarts and background work come, state.db keeps its integrity (unique names and ports,
  states that agree with their diagnostics, at most one current baseline), never holds more than
  max_branches branches, and gives every branch a port of the configured range.\<close>

theorem manager_integrity:
  assumes "mgr_reach E H pol s"
  shows "db_ok (mdb s) \<and> within_limits (cfg E) (mdb s)"
  using assms by (simp add: reach_ok reach_limits)

theorem manager_integrity_witness:
  "within_limits sample_config (mdb (snd (serve sample_env sample_host no_request
     (RqCreate ''pr-1'' 0 no_meta []) (start_state 0))))"
  using manager_integrity [OF run_request [OF run_start], of sample_env sample_host no_request]
  unfolding sample_cfg by blast

end
