(* ===== verification/OpRunner.thy ===== *)
theory OpRunner
  imports StateFacts
begin

text \<open>
  internal/ops: the runner of asynchronous operations.

  A call of \<^verbatim>\<open>StartExclusive\<close> and the job that it spawns run concurrently with every other
  call and job; they share the map \<^verbatim>\<open>exclusive\<close> (under \<^verbatim>\<open>mu\<close>) and the database. A call and
  its job are one task, whose steps are the critical sections and database statements of the
  code, each a function of its own; the relation \<open>op_step\<close> interleaves the steps of all tasks
  with those of the rest of the daemon. The time, the identifiers drawn by \<^verbatim>\<open>newID\<close> and what a
  job does are arbitrary.
\<close>

section \<open>What a job leaves behind\<close>

text \<open>A function returns with or without an error, or panics with a value that prints as a text.\<close>

datatype fn_result = FnReturns "err option" | FnPanics string

definition job_error :: "fn_result \<Rightarrow> err option" where
  "job_error r = (case r of FnReturns e \<Rightarrow> e | FnPanics v \<Rightarrow> Some (EText (''panic: '' @ v)))"

text \<open>\<^verbatim>\<open>errors.As\<close> finds the first error of the chain that has a \<^verbatim>\<open>Code\<close>: a stage error.\<close>

fun find_stage :: "err \<Rightarrow> string option" where
  "find_stage (EStage stage e) = Some stage"
| "find_stage (EWrap pre e post) = find_stage e"
| "find_stage _ = None"

definition err_info :: "err option \<Rightarrow> string \<times> string" where
  "err_info r = (case r of None \<Rightarrow> ([], [])
     | Some e \<Rightarrow> (case find_stage e of None \<Rightarrow> [] | Some c \<Rightarrow> c, err_text e))"

section \<open>The critical sections\<close>

type_synonym reservations = "string \<rightharpoonup> string"

text \<open>The first one: find the target busy, or reserve it with an empty identifier.\<close>

definition reserve_target :: "string \<Rightarrow> reservations \<Rightarrow> (string + unit) \<times> reservations" where
  "reserve_target target ex = (case ex target of
       Some i \<Rightarrow> (Inl i, ex)
     | None \<Rightarrow> (Inr (), ex(target \<mapsto> [])))"

text \<open>The second one, after \<^verbatim>\<open>start\<close>: fill in the identifier if the key is still there.\<close>

definition settle_target :: "string \<Rightarrow> (err + string) \<Rightarrow> reservations \<Rightarrow> reservations" where
  "settle_target target r ex = (case r of
       Inl e \<Rightarrow> ex(target := None)
     | Inr i \<Rightarrow> if ex target \<noteq> None then ex(target \<mapsto> i) else ex)"

text \<open>The callback \<^verbatim>\<open>onDone\<close>.\<close>

definition release_target :: "string \<Rightarrow> reservations \<Rightarrow> reservations" where
  "release_target target ex = ex(target := None)"

definition busy_error :: "string \<Rightarrow> string \<Rightarrow> err" where
  "busy_error target i = EWrap [] EInProgress ('': '' @ target @ '' (operation '' @ i @ '')'')"

text \<open>\<^verbatim>\<open>start\<close> up to the spawned goroutine: record the operation, return its identifier.\<close>

definition start_op :: "int \<Rightarrow> string \<Rightarrow> string \<Rightarrow> string \<Rightarrow> string sql" where
  "start_op now i ty target d = (case create_operation now i ty target d of
       (Inl e, d') \<Rightarrow> (Inl e, d')
     | (Inr _, d') \<Rightarrow> (Inr i, d'))"

definition record_result :: "int \<Rightarrow> string \<Rightarrow> fn_result \<Rightarrow> db \<Rightarrow> db" where
  "record_result now i r d =
     (let (code, msg) = err_info (job_error r) in snd (finish_operation now i code msg d))"

section \<open>Tasks\<close>

datatype call_phase =
    Entering                       \<comment> \<open>before the first critical section\<close>
  | Reserved                       \<comment> \<open>the target is reserved, \<^verbatim>\<open>start\<close> not yet called\<close>
  | Settling "err + string"        \<comment> \<open>\<^verbatim>\<open>start\<close> has returned\<close>
  | Returned "err option" string   \<comment> \<open>the caller has its answer\<close>

datatype job_phase =
    NoJob
  | FnRunning string                 \<comment> \<open>the function is running\<close>
  | Ran string fn_result           \<comment> \<open>the function is over, its reservation is not released\<close>
  | Released string fn_result      \<comment> \<open>its result is not recorded\<close>
  | JobDone

record task =
  t_type :: string
  t_target :: string
  t_exclusive :: bool
  t_call :: call_phase
  t_job :: job_phase

record op_runner =
  rn_db :: db
  rn_exclusive :: reservations
  rn_tasks :: "task list"

definition new_op_runner :: "db \<Rightarrow> op_runner" where
  "new_op_runner d = \<lparr>rn_db = d, rn_exclusive = Map.empty, rn_tasks = []\<rparr>"

definition new_task :: "string \<Rightarrow> string \<Rightarrow> bool \<Rightarrow> task" where
  "new_task ty target excl = \<lparr>t_type = ty, t_target = target, t_exclusive = excl,
     t_call = (if excl then Entering else Reserved), t_job = NoJob\<rparr>"

text \<open>\<^verbatim>\<open>StartExclusive\<close> and \<^verbatim>\<open>Start\<close>, step by step. The plain \<^verbatim>\<open>Start\<close> begins with \<^verbatim>\<open>start\<close> and
  returns its result as it is.\<close>

definition call_step :: "int \<Rightarrow> string \<Rightarrow> task \<Rightarrow> db \<Rightarrow> reservations \<Rightarrow> task \<times> db \<times> reservations"
where
  "call_step now i t d ex = (case t_call t of
       Entering \<Rightarrow> (case reserve_target (t_target t) ex of
           (Inl j, ex') \<Rightarrow> (t\<lparr>t_call := Returned (Some (busy_error (t_target t) j)) j\<rparr>, d, ex')
         | (Inr _, ex') \<Rightarrow> (t\<lparr>t_call := Reserved\<rparr>, d, ex'))
     | Reserved \<Rightarrow> (case start_op now i (t_type t) (t_target t) d of
           (Inl e, d') \<Rightarrow> (t\<lparr>t_call := if t_exclusive t then Settling (Inl e)
                                       else Returned (Some e) []\<rparr>, d', ex)
         | (Inr j, d') \<Rightarrow> (t\<lparr>t_call := if t_exclusive t then Settling (Inr j)
                                       else Returned None j, t_job := FnRunning j\<rparr>, d', ex))
     | Settling r \<Rightarrow> (t\<lparr>t_call := (case r of Inl e \<Rightarrow> Returned (Some e) [] | Inr j \<Rightarrow> Returned None j)\<rparr>,
           d, settle_target (t_target t) r ex)
     | Returned _ _ \<Rightarrow> (t, d, ex))"

text \<open>The goroutine: the function ends with \<open>r\<close>, the target is released, the result recorded.\<close>

definition job_step :: "int \<Rightarrow> fn_result \<Rightarrow> task \<Rightarrow> db \<Rightarrow> reservations \<Rightarrow> task \<times> db \<times> reservations"
where
  "job_step now r t d ex = (case t_job t of
       FnRunning i \<Rightarrow> (t\<lparr>t_job := Ran i r\<rparr>, d, ex)
     | Ran i r' \<Rightarrow> (t\<lparr>t_job := Released i r'\<rparr>, d,
           if t_exclusive t then release_target (t_target t) ex else ex)
     | Released i r' \<Rightarrow> (t\<lparr>t_job := JobDone\<rparr>, record_result now i r' d, ex)
     | _ \<Rightarrow> (t, d, ex))"

definition put_task :: "nat \<Rightarrow> task \<times> db \<times> reservations \<Rightarrow> op_runner \<Rightarrow> op_runner" where
  "put_task k x s = (case x of (t, d, ex) \<Rightarrow>
     \<lparr>rn_db = d, rn_exclusive = ex, rn_tasks = (rn_tasks s)[k := t]\<rparr>)"

definition advance_call :: "int \<Rightarrow> string \<Rightarrow> nat \<Rightarrow> op_runner \<Rightarrow> op_runner" where
  "advance_call now i k s =
     put_task k (call_step now i (rn_tasks s ! k) (rn_db s) (rn_exclusive s)) s"

definition advance_job :: "int \<Rightarrow> fn_result \<Rightarrow> nat \<Rightarrow> op_runner \<Rightarrow> op_runner" where
  "advance_job now r k s =
     put_task k (job_step now r (rn_tasks s ! k) (rn_db s) (rn_exclusive s)) s"

text \<open>The rest of the daemon writes the other tables, and the reaper prunes old operations.\<close>

inductive op_step :: "op_runner \<Rightarrow> op_runner \<Rightarrow> bool" where
  os_new: "op_step s (s\<lparr>rn_tasks := rn_tasks s @ [new_task ty target excl]\<rparr>)"
| os_call: "k < length (rn_tasks s) \<Longrightarrow> op_step s (advance_call now i k s)"
| os_job: "k < length (rn_tasks s) \<Longrightarrow> op_step s (advance_job now r k s)"
| os_other: "operations d = operations (rn_db s) \<Longrightarrow> op_step s (s\<lparr>rn_db := d\<rparr>)"
| os_prune: "op_step s (s\<lparr>rn_db := snd (prune_operations before (rn_db s))\<rparr>)"

inductive op_run :: "op_runner \<Rightarrow> bool" where
  or_start: "op_run (new_op_runner d)"
| or_step: "op_run s \<Longrightarrow> op_step s s' \<Longrightarrow> op_run s'"

section \<open>Exclusion\<close>

definition job_holds :: "job_phase \<Rightarrow> bool" where
  "job_holds j = (case j of FnRunning _ \<Rightarrow> True | Ran _ _ \<Rightarrow> True | _ \<Rightarrow> False)"

text \<open>A task holds its target from the first critical section to the release.\<close>

definition holds :: "task \<Rightarrow> bool" where
  "holds t \<longleftrightarrow> t_exclusive t \<and> (t_call t = Reserved \<or> (\<exists>e. t_call t = Settling (Inl e)) \<or> job_holds (t_job t))"

definition holders :: "string \<Rightarrow> task list \<Rightarrow> nat set" where
  "holders x ts = {k. k < length ts \<and> holds (ts ! k) \<and> t_target (ts ! k) = x}"

definition task_ok :: "task \<Rightarrow> bool" where
  "task_ok t = (case t_call t of
       Entering \<Rightarrow> t_exclusive t \<and> t_job t = NoJob
     | Reserved \<Rightarrow> t_job t = NoJob
     | Settling r \<Rightarrow> t_exclusive t \<and> (case r of Inl _ \<Rightarrow> t_job t = NoJob | Inr _ \<Rightarrow> True)
     | Returned e _ \<Rightarrow> (case e of Some _ \<Rightarrow> t_job t = NoJob | None \<Rightarrow> True))"

definition exclusive_ok :: "task list \<Rightarrow> reservations \<Rightarrow> bool" where
  "exclusive_ok ts ex \<longleftrightarrow> (\<forall>x. case ex x of
       None \<Rightarrow> holders x ts = {} | Some _ \<Rightarrow> (\<exists>k. holders x ts = {k}))"

text \<open>The operation whose row still waits for its result.\<close>

definition pending_id :: "task \<Rightarrow> string option" where
  "pending_id t = (case t_job t of FnRunning i \<Rightarrow> Some i | Ran i _ \<Rightarrow> Some i
     | Released i _ \<Rightarrow> Some i | _ \<Rightarrow> None)"

definition row_runs :: "op_row list \<Rightarrow> string \<Rightarrow> bool" where
  "row_runs os i \<longleftrightarrow> i \<in> o_id ` set os \<and> (\<forall>x \<in> set os. o_id x = i \<longrightarrow> o_state x = OpRunning)"

definition rows_ok :: "task list \<Rightarrow> op_row list \<Rightarrow> bool" where
  "rows_ok ts os \<longleftrightarrow> (\<forall>k < length ts. \<forall>i. pending_id (ts ! k) = Some i \<longrightarrow> row_runs os i
     \<and> (\<forall>l < length ts. pending_id (ts ! l) = Some i \<longrightarrow> l = k))"

definition runner_ok :: "op_runner \<Rightarrow> bool" where
  "runner_ok s \<longleftrightarrow> (\<forall>t \<in> set (rn_tasks s). task_ok t)
     \<and> exclusive_ok (rn_tasks s) (rn_exclusive s) \<and> rows_ok (rn_tasks s) (operations (rn_db s))"

lemma holders_update:
  "k < length ts \<Longrightarrow> holders x (ts[k := t])
     = (if holds t \<and> t_target t = x then insert k (holders x ts) else holders x ts - {k})"
  by (auto simp: holders_def nth_list_update split: if_splits)

lemma holders_append_idle: "\<not> holds t \<Longrightarrow> holders x (ts @ [t]) = holders x ts"
  by (auto simp: holders_def nth_append less_Suc_eq)

lemma holders_member: "k < length ts \<Longrightarrow> k \<in> holders x ts \<longleftrightarrow> holds (ts ! k) \<and> t_target (ts ! k) = x"
  by (simp add: holders_def)

lemma exclusive_ok_cases:
  assumes "exclusive_ok ts ex"
  shows "(ex x = None \<and> holders x ts = {}) \<or> (\<exists>i k. ex x = Some i \<and> holders x ts = {k})"
  using assms by (cases "ex x") (auto simp: exclusive_ok_def split: option.splits dest!: spec [of _ x])

text \<open>A step that keeps whether the task holds its target, or that takes or gives up the target
  together with the reservation, keeps the map in line with the holders.\<close>

lemma exclusive_ok_keep:
  assumes ok: "exclusive_ok ts ex" and k: "k < length ts"
    and t: "t_target t = t_target (ts ! k)" "holds t = holds (ts ! k)"
    and ex': "\<And>x. (ex' x = None) = (ex x = None)"
  shows "exclusive_ok (ts[k := t]) ex'"
proof -
  have same: "holders x (ts[k := t]) = holders x ts" for x
    using t holders_member [OF k, of x] by (auto simp: holders_update [OF k])
  show ?thesis
    unfolding exclusive_ok_def same
  proof
    fix x show "case ex' x of None \<Rightarrow> holders x ts = {} | Some _ \<Rightarrow> \<exists>k. holders x ts = {k}"
      using exclusive_ok_cases [OF ok, of x] ex' [of x] by (auto split: option.splits)
  qed
qed

lemma exclusive_ok_take:
  assumes ok: "exclusive_ok ts ex" and k: "k < length ts"
    and t: "t_target t = t_target (ts ! k)" "holds t" and free: "ex (t_target (ts ! k)) = None"
  shows "exclusive_ok (ts[k := t]) (ex(t_target (ts ! k) \<mapsto> i))"
  unfolding exclusive_ok_def
proof
  fix x
  show "case (ex(t_target (ts ! k) \<mapsto> i)) x of
          None \<Rightarrow> holders x (ts[k := t]) = {} | Some _ \<Rightarrow> \<exists>k'. holders x (ts[k := t]) = {k'}"
  proof (cases "x = t_target (ts ! k)")
    case True
    then have "holders x (ts[k := t]) = {k}"
      using exclusive_ok_cases [OF ok, of x] free t by (simp add: holders_update [OF k])
    then show ?thesis using True by simp
  next
    case False
    then have "holders x (ts[k := t]) = holders x ts"
      using t holders_member [OF k, of x] by (auto simp: holders_update [OF k])
    then show ?thesis using False exclusive_ok_cases [OF ok, of x] by auto
  qed
qed

lemma exclusive_ok_drop:
  assumes ok: "exclusive_ok ts ex" and k: "k < length ts"
    and t: "\<not> holds t" and held: "holds (ts ! k)"
  shows "exclusive_ok (ts[k := t]) (ex(t_target (ts ! k) := None))"
  unfolding exclusive_ok_def
proof
  fix x
  have eq: "holders x (ts[k := t]) = holders x ts - {k}"
    using t by (simp add: holders_update [OF k])
  show "case (ex(t_target (ts ! k) := None)) x of
          None \<Rightarrow> holders x (ts[k := t]) = {} | Some _ \<Rightarrow> \<exists>k'. holders x (ts[k := t]) = {k'}"
  proof (cases "x = t_target (ts ! k)")
    case True
    then have "k \<in> holders x ts" using held holders_member [OF k, of x] by simp
    then have "holders x ts = {k}" using exclusive_ok_cases [OF ok, of x] by auto
    then show ?thesis using True eq by simp
  next
    case False
    then have "k \<notin> holders x ts" using holders_member [OF k, of x] by simp
    then show ?thesis using False eq exclusive_ok_cases [OF ok, of x] by auto
  qed
qed

lemma exclusive_call:
  assumes ok: "exclusive_ok ts ex" and k: "k < length ts" and t: "task_ok (ts ! k)"
    and step: "call_step now i (ts ! k) d ex = (t', d', ex')"
  shows "exclusive_ok (ts[k := t']) ex' \<and> task_ok t'"
proof (cases "t_call (ts ! k)")
  case Entering
  then have idle: "\<not> holds (ts ! k)" and e: "t_exclusive (ts ! k)" "t_job (ts ! k) = NoJob"
    using t by (auto simp: holds_def task_ok_def job_holds_def)
  show ?thesis
  proof (cases "ex (t_target (ts ! k))")
    case None
    then have "t' = (ts ! k)\<lparr>t_call := Reserved\<rparr>" "ex' = ex(t_target (ts ! k) \<mapsto> [])"
      using step Entering by (auto simp: call_step_def reserve_target_def)
    then show ?thesis
      using exclusive_ok_take [OF ok k _ _ None, of t'] e by (auto simp: holds_def task_ok_def)
  next
    case (Some j)
    then have "t' = (ts ! k)\<lparr>t_call := Returned (Some (busy_error (t_target (ts ! k)) j)) j\<rparr>" "ex' = ex"
      using step Entering by (auto simp: call_step_def reserve_target_def)
    then show ?thesis
      using exclusive_ok_keep [OF ok k, of t' ex] e idle
      by (auto simp: holds_def task_ok_def job_holds_def)
  qed
next
  case Reserved
  then have n: "t_job (ts ! k) = NoJob" using t by (simp add: task_ok_def)
  obtain r d1 where r: "start_op now i (t_type (ts ! k)) (t_target (ts ! k)) d = (r, d1)" by force
  have ex': "ex' = ex" using step Reserved r by (auto simp: call_step_def split: sum.splits)
  have t': "t' = (ts ! k)\<lparr>t_call := if t_exclusive (ts ! k) then Settling r
                 else (case r of Inl e \<Rightarrow> Returned (Some e) [] | Inr j \<Rightarrow> Returned None j),
               t_job := (case r of Inl e \<Rightarrow> NoJob | Inr j \<Rightarrow> FnRunning j)\<rparr>"
    using step Reserved r n by (auto simp: call_step_def split: sum.splits)
  show ?thesis
    unfolding ex' using exclusive_ok_keep [OF ok k, of t' ex] Reserved n
    by (auto simp: t' holds_def task_ok_def job_holds_def split: sum.splits)
next
  case (Settling r)
  then have e: "t_exclusive (ts ! k)" using t by (simp add: task_ok_def)
  show ?thesis
  proof (cases r)
    case (Inl e')
    then have "t' = (ts ! k)\<lparr>t_call := Returned (Some e') []\<rparr>" "ex' = ex(t_target (ts ! k) := None)"
      "t_job (ts ! k) = NoJob"
      using step Settling t by (auto simp: call_step_def settle_target_def task_ok_def)
    then show ?thesis
      using exclusive_ok_drop [OF ok k, of t'] e Settling Inl
      by (auto simp: holds_def task_ok_def job_holds_def)
  next
    case (Inr j)
    then have "t' = (ts ! k)\<lparr>t_call := Returned None j\<rparr>"
      "ex' = (if ex (t_target (ts ! k)) \<noteq> None then ex(t_target (ts ! k) \<mapsto> j) else ex)"
      using step Settling by (auto simp: call_step_def settle_target_def)
    then show ?thesis
      using exclusive_ok_keep [OF ok k, of t' ex'] Settling Inr
      by (auto simp: holds_def task_ok_def)
  qed
next
  case (Returned e j)
  then have "t' = ts ! k" "ex' = ex" using step by (auto simp: call_step_def)
  then show ?thesis using ok t by simp
qed

lemma exclusive_job:
  assumes ok: "exclusive_ok ts ex" and k: "k < length ts" and t: "task_ok (ts ! k)"
    and step: "job_step now r (ts ! k) d ex = (t', d', ex')"
  shows "exclusive_ok (ts[k := t']) ex' \<and> task_ok t'"
proof (cases "t_job (ts ! k)")
  case (FnRunning i)
  then have "t' = (ts ! k)\<lparr>t_job := Ran i r\<rparr>" "ex' = ex" using step by (auto simp: job_step_def)
  then show ?thesis
    using exclusive_ok_keep [OF ok k, of t' ex] FnRunning t
    by (auto simp: holds_def task_ok_def job_holds_def split: call_phase.splits sum.splits option.splits)
next
  case (Ran i r')
  then have t': "t' = (ts ! k)\<lparr>t_job := Released i r'\<rparr>"
    and ex': "ex' = (if t_exclusive (ts ! k) then ex(t_target (ts ! k) := None) else ex)"
    using step by (auto simp: job_step_def release_target_def)
  have calls: "t_call (ts ! k) \<noteq> Reserved" "t_call (ts ! k) \<noteq> Settling (Inl e)" for e
    using t Ran by (auto simp: task_ok_def)
  show ?thesis
    using exclusive_ok_drop [OF ok k, of t'] exclusive_ok_keep [OF ok k, of t' ex] Ran t calls
    by (auto simp: t' ex' holds_def task_ok_def job_holds_def
        split: call_phase.splits sum.splits option.splits)
next
  case (Released i r')
  then have "t' = (ts ! k)\<lparr>t_job := JobDone\<rparr>" "ex' = ex" using step by (auto simp: job_step_def)
  then show ?thesis
    using exclusive_ok_keep [OF ok k, of t' ex] Released t
    by (auto simp: holds_def task_ok_def job_holds_def split: call_phase.splits sum.splits option.splits)
qed (use step ok t in \<open>auto simp: job_step_def\<close>)

lemma row_runs_start:
  assumes "start_op now i ty target d = (r, d')"
  shows "row_runs (operations d) j \<Longrightarrow> row_runs (operations d') j"
    and "r = Inr i' \<Longrightarrow> i' = i \<and> \<not> row_runs (operations d) i \<and> row_runs (operations d') i"
  using assms
  by (auto simp: start_op_def create_operation_def row_runs_def split: if_splits)
    (metis op_row.select_convs(4))

lemma row_runs_record: "i \<noteq> j \<Longrightarrow> row_runs (operations d) j
    \<Longrightarrow> row_runs (operations (record_result now i r d)) j"
  by (auto simp: record_result_def finish_operation_def row_runs_def Let_def image_iff
      split: prod.splits)

lemma row_runs_prune:
  "row_runs (operations d) j \<Longrightarrow> row_runs (operations (snd (prune_operations before d))) j"
  by (auto simp: prune_operations_def row_runs_def Let_def image_iff)

lemma rows_ok_runs:
  "rows_ok ts os \<Longrightarrow> k < length ts \<Longrightarrow> pending_id (ts ! k) = Some i \<Longrightarrow> row_runs os i"
  by (auto simp: rows_ok_def)

text \<open>A step that leaves the pending operation of its task alone, ends it, or makes a new one.\<close>

lemma rows_ok_mono:
  assumes ok: "rows_ok ts os" and k: "k < length ts"
    and p: "pending_id t = pending_id (ts ! k) \<or> pending_id t = None"
    and rows: "\<And>l i. l < length ts \<Longrightarrow> pending_id (ts[k := t] ! l) = Some i
                 \<Longrightarrow> row_runs os i \<Longrightarrow> row_runs os' i"
  shows "rows_ok (ts[k := t]) os'"
proof -
  have old: "pending_id (ts ! l) = Some i"
    if "l < length ts" "pending_id (ts[k := t] ! l) = Some i" for l i
    using that p k by (cases "l = k") auto
  show ?thesis
    unfolding rows_ok_def length_list_update
  proof (intro allI impI conjI)
    fix l i assume l: "l < length ts" "pending_id (ts[k := t] ! l) = Some i"
    show "row_runs os' i" by (rule rows [OF l rows_ok_runs [OF ok l(1) old [OF l]]])
    fix m assume m: "m < length ts" "pending_id (ts[k := t] ! m) = Some i"
    show "m = l" using ok old [OF l] old [OF m] l(1) m(1) unfolding rows_ok_def by blast
  qed
qed

lemma rows_ok_new:
  assumes ok: "rows_ok ts os" and k: "k < length ts" and p: "pending_id t = Some i"
    and fresh: "\<not> row_runs os i" "row_runs os' i"
    and rows: "\<And>j. row_runs os j \<Longrightarrow> row_runs os' j"
  shows "rows_ok (ts[k := t]) os'"
  unfolding rows_ok_def length_list_update
proof (intro allI impI conjI)
  fix l j assume l: "l < length ts" "pending_id (ts[k := t] ! l) = Some j"
  have other: "pending_id (ts[k := t] ! m) = Some i \<Longrightarrow> m < length ts \<Longrightarrow> m = k" for m
    using rows_ok_runs [OF ok, of m i] fresh by (cases "m = k") auto
  show "row_runs os' j"
    using l k p fresh rows rows_ok_runs [OF ok, of l j] by (cases "l = k") auto
  fix m assume m: "m < length ts" "pending_id (ts[k := t] ! m) = Some j"
  show "m = l"
  proof (cases "j = i")
    case True then show ?thesis using other l m by blast
  next
    case False
    then have "l \<noteq> k" "m \<noteq> k" using l m k p by auto
    then show ?thesis using ok l m by (auto simp: rows_ok_def)
  qed
qed

lemma rows_call:
  assumes ok: "rows_ok ts (operations d)" and k: "k < length ts" and t: "task_ok (ts ! k)"
    and step: "call_step now i (ts ! k) d ex = (t', d', ex')"
  shows "rows_ok (ts[k := t']) (operations d')"
proof (cases "t_call (ts ! k)")
  case Reserved
  then have n: "t_job (ts ! k) = NoJob" using t by (simp add: task_ok_def)
  obtain r d1 where r: "start_op now i (t_type (ts ! k)) (t_target (ts ! k)) d = (r, d1)" by force
  show ?thesis
  proof (cases r)
    case (Inl e)
    then have "d' = d1" "pending_id t' = None"
      using step Reserved r n by (auto simp: call_step_def pending_id_def)
    then show ?thesis using rows_ok_mono [OF ok k] row_runs_start [OF r] by auto
  next
    case (Inr j)
    then have "d' = d1" "pending_id t' = Some j"
      using step Reserved r by (auto simp: call_step_def pending_id_def)
    then show ?thesis
      using rows_ok_new [OF ok k] row_runs_start [OF r] Inr by auto
  qed
next
  case (Settling r)
  then have "d' = d" "t_job t' = t_job (ts ! k)"
    using step by (auto simp: call_step_def)
  then show ?thesis using rows_ok_mono [OF ok k, of t'] by (auto simp: pending_id_def)
next
  case Entering
  then have "d' = d" "t_job t' = t_job (ts ! k)"
    using step by (auto simp: call_step_def split: prod.splits sum.splits)
  then show ?thesis using rows_ok_mono [OF ok k, of t'] by (auto simp: pending_id_def)
qed (use step ok in \<open>auto simp: call_step_def\<close>)

lemma rows_job:
  assumes ok: "rows_ok ts (operations d)" and k: "k < length ts"
    and step: "job_step now r (ts ! k) d ex = (t', d', ex')"
  shows "rows_ok (ts[k := t']) (operations d')"
proof (cases "t_job (ts ! k)")
  case (Released i r')
  then have d': "d' = record_result now i r' d" and none: "pending_id t' = None"
    and here: "pending_id (ts ! k) = Some i"
    using step by (auto simp: job_step_def pending_id_def)
  show ?thesis
  proof (rule rows_ok_mono [OF ok k])
    fix l j
    assume l: "l < length ts" and p: "pending_id (ts[k := t'] ! l) = Some j"
      and runs: "row_runs (operations d) j"
    have "l \<noteq> k" using p none k by auto
    then have "i \<noteq> j" using ok l p here k by (auto simp: rows_ok_def)
    then show "row_runs (operations d') j" unfolding d' using runs by (rule row_runs_record)
  qed (simp add: none)
next
  case (FnRunning i)
  then have "d' = d" "pending_id t' = pending_id (ts ! k)"
    using step by (auto simp: job_step_def pending_id_def)
  then show ?thesis using rows_ok_mono [OF ok k, of t'] by auto
next
  case (Ran i r')
  then have "d' = d" "pending_id t' = pending_id (ts ! k)"
    using step by (auto simp: job_step_def pending_id_def)
  then show ?thesis using rows_ok_mono [OF ok k, of t'] by auto
qed (use step ok in \<open>auto simp: job_step_def\<close>)

lemma all_tasks_update:
  "\<forall>t \<in> set ts. P t \<Longrightarrow> P t' \<Longrightarrow> \<forall>t \<in> set (ts[k := t']). P t"
  using set_update_subset_insert by fastforce

lemma new_task_idle: "\<not> holds (new_task ty target excl)" "task_ok (new_task ty target excl)"
  "pending_id (new_task ty target excl) = None"
  by (auto simp: new_task_def holds_def task_ok_def job_holds_def pending_id_def)

lemma exclusive_ok_append:
  "\<not> holds t \<Longrightarrow> exclusive_ok ts ex \<Longrightarrow> exclusive_ok (ts @ [t]) ex"
  unfolding exclusive_ok_def holders_append_idle .

lemma rows_ok_append: "pending_id t = None \<Longrightarrow> rows_ok ts os \<Longrightarrow> rows_ok (ts @ [t]) os"
  by (auto simp: rows_ok_def nth_append less_Suc_eq)

lemma runner_ok_put:
  assumes ok: "runner_ok s" and k: "k < length (rn_tasks s)"
    and "exclusive_ok ((rn_tasks s)[k := t]) ex \<and> task_ok t"
    and "rows_ok ((rn_tasks s)[k := t]) (operations d)"
  shows "runner_ok (put_task k (t, d, ex) s)"
  using assms all_tasks_update [of "rn_tasks s" task_ok t k] by (simp add: runner_ok_def put_task_def)

lemma runner_ok_parts:
  assumes "runner_ok s"
  shows "exclusive_ok (rn_tasks s) (rn_exclusive s)" "rows_ok (rn_tasks s) (operations (rn_db s))"
    and "k < length (rn_tasks s) \<Longrightarrow> task_ok (rn_tasks s ! k)"
  using assms by (auto simp: runner_ok_def)

lemma runner_ok_step: "op_step s s' \<Longrightarrow> runner_ok s \<Longrightarrow> runner_ok s'"
proof (induction rule: op_step.induct)
  case (os_new s ty target excl)
  then show ?case
    by (simp add: runner_ok_def exclusive_ok_append rows_ok_append new_task_idle)
next
  case (os_call k s now i)
  note ok = runner_ok_parts [OF os_call(2)]
  obtain t' d' ex' where e: "call_step now i (rn_tasks s ! k) (rn_db s) (rn_exclusive s) = (t', d', ex')"
    by (metis prod_cases3)
  show ?case
    unfolding advance_call_def e using os_call(2,1)
    by (rule runner_ok_put) (rule exclusive_call [OF ok(1) os_call(1) ok(3) [OF os_call(1)] e]
        rows_call [OF ok(2) os_call(1) ok(3) [OF os_call(1)] e])+
next
  case (os_job k s now r)
  note ok = runner_ok_parts [OF os_job(2)]
  obtain t' d' ex' where e: "job_step now r (rn_tasks s ! k) (rn_db s) (rn_exclusive s) = (t', d', ex')"
    by (metis prod_cases3)
  show ?case
    unfolding advance_job_def e using os_job(2,1)
    by (rule runner_ok_put) (rule exclusive_job [OF ok(1) os_job(1) ok(3) [OF os_job(1)] e]
        rows_job [OF ok(2) os_job(1) e])+
next
  case (os_other d s)
  then show ?case by (simp add: runner_ok_def)
next
  case (os_prune s before)
  then show ?case
    by (simp add: runner_ok_def rows_ok_def row_runs_prune)
qed

lemma runner_ok_run: "op_run s \<Longrightarrow> runner_ok s"
proof (induction rule: op_run.induct)
  case (or_start d)
  then show ?case
    by (auto simp: runner_ok_def new_op_runner_def exclusive_ok_def holders_def rows_ok_def)
qed (rule runner_ok_step)

text \<open>C15. In every interleaving of calls of \<^verbatim>\<open>StartExclusive\<close> and \<^verbatim>\<open>Start\<close>, of their jobs and
  of the rest of the daemon, a target is in the map of reservations exactly while one exclusive
  task holds it, from its reservation to the release after its function has ended (normally, with
  an error or by a panic), and no target is ever held by two: no two exclusive functions of one
  target run at a time, and a refused call was refused by a task that held the target.\<close>

theorem one_exclusive_job:
  assumes "op_run s"
  shows "(if rn_exclusive s x = None then holders x (rn_tasks s) = {}
          else \<exists>k. holders x (rn_tasks s) = {k})"
  using exclusive_ok_cases [of "rn_tasks s" "rn_exclusive s" x] runner_ok_run [OF assms]
  by (auto simp: runner_ok_def)

definition example_run :: op_runner where
  "example_run = advance_call 1 ''op_1'' 1 (advance_job 1 (FnReturns None) 0 (advance_call 0 ''op_0'' 0
     (advance_call 0 ''op_0'' 0 \<lparr>rn_db = open_db, rn_exclusive = Map.empty,
        rn_tasks = [new_task ''reset'' ''pr-1'' True, new_task ''delete'' ''pr-1'' True]\<rparr>)))"

lemma length_advance [simp]:
  "length (rn_tasks (advance_call now i k s)) = length (rn_tasks s)"
  "length (rn_tasks (advance_job now r k s)) = length (rn_tasks s)"
  by (simp_all add: advance_call_def advance_job_def put_task_def split: prod.splits)

lemma op_run_call: "op_run s \<Longrightarrow> k < length (rn_tasks s) \<Longrightarrow> op_run (advance_call now i k s)"
  by (rule or_step [OF _ os_call])

lemma op_run_job: "op_run s \<Longrightarrow> k < length (rn_tasks s) \<Longrightarrow> op_run (advance_job now r k s)"
  by (rule or_step [OF _ os_job])

lemma example_reached: "op_run example_run"
proof -
  have "op_run \<lparr>rn_db = open_db, rn_exclusive = Map.empty,
      rn_tasks = [new_task ''reset'' ''pr-1'' True, new_task ''delete'' ''pr-1'' True]\<rparr>"
    using or_step [OF or_step [OF or_start [of open_db] os_new [of _ "''reset''" "''pr-1''" True]]
        os_new [of _ "''delete''" "''pr-1''" True]]
    by (simp add: new_op_runner_def)
  then show ?thesis
    unfolding example_run_def by (intro op_run_call op_run_job) simp_all
qed

theorem one_exclusive_job_witness:
  "rn_exclusive example_run ''pr-1'' \<noteq> None
   \<and> t_call (rn_tasks example_run ! 1) = Returned (Some (busy_error ''pr-1'' [])) []
   \<and> (\<exists>k. holders ''pr-1'' (rn_tasks example_run) = {k})"
proof -
  have a: "rn_exclusive example_run ''pr-1'' = Some []"
    "t_call (rn_tasks example_run ! 1) = Returned (Some (busy_error ''pr-1'' [])) []"
    by (simp_all add: example_run_def advance_call_def advance_job_def put_task_def call_step_def
        job_step_def new_task_def reserve_target_def start_op_def create_operation_def open_db_def)
  show ?thesis
    using one_exclusive_job [OF example_reached, of "''pr-1''"] a by simp
qed

text \<open>An operation is shown as completed or failed only after its target was released:
  while the function of a task runs, and until its reservation is gone, \<^verbatim>\<open>Get\<close> answers
  \<^verbatim>\<open>running\<close>. A client that waits for the end and then starts the next operation on the same
  target is therefore not refused because of the first.\<close>

theorem shown_finished_after_release:
  assumes "op_run s" "k < length (rn_tasks s)"
    and "job_holds (t_job (rn_tasks s ! k))" "pending_id (rn_tasks s ! k) = Some i"
  shows "\<exists>r. fst (get_operation i (rn_db s)) = Inr r \<and> op_id r = i \<and> op_st r = OpRunning"
proof -
  have "row_runs (operations (rn_db s)) i"
    using runner_ok_run [OF assms(1)] rows_ok_runs assms(2,4) by (auto simp: runner_ok_def)
  then obtain x where "find (\<lambda>x. o_id x = i) (operations (rn_db s)) = Some x"
    "o_id x = i" "o_state x = OpRunning"
    by (cases "find (\<lambda>x. o_id x = i) (operations (rn_db s))")
      (auto simp: row_runs_def find_None_iff dest!: find_key_mem)
  then show ?thesis by (simp add: get_operation_def scan_operation_def)
qed

theorem shown_finished_after_release_witness:
  "\<exists>r. fst (get_operation ''op_0'' (rn_db example_run)) = Inr r \<and> op_id r = ''op_0'' \<and> op_st r = OpRunning"
  by (rule shown_finished_after_release [OF example_reached, of 0])
    (simp_all add: example_run_def advance_call_def advance_job_def put_task_def call_step_def
        job_step_def new_task_def reserve_target_def start_op_def create_operation_def open_db_def
        job_holds_def pending_id_def)

section \<open>The other operations of the runner\<close>

text \<open>\<^verbatim>\<open>RunSync\<close>: the function, which also works on the database, runs between the two
  statements; a panic passes through and leaves the operation running.\<close>

definition run_sync ::
  "int \<Rightarrow> int \<Rightarrow> string \<Rightarrow> string \<Rightarrow> string \<Rightarrow> (db \<Rightarrow> fn_result \<times> db) \<Rightarrow> db
   \<Rightarrow> (string \<times> fn_result) \<times> db" where
  "run_sync t0 t1 i ty target fn d = (case create_operation t0 i ty target d of
       (Inl e, d') \<Rightarrow> (([], FnReturns (Some e)), d')
     | (Inr _, d') \<Rightarrow> (case fn d' of
           (FnReturns e, d'') \<Rightarrow> ((i, FnReturns e), record_result t1 i (FnReturns e) d'')
         | (FnPanics v, d'') \<Rightarrow> (([], FnPanics v), d'')))"

text \<open>
  \<^verbatim>\<open>Wait\<close>: the list is what its polls meet, the database of each and whether the caller's
  context is over when it sleeps after it; \<open>None\<close> while it still waits at the end of the list.
\<close>

fun wait_op :: "string \<Rightarrow> (db \<times> err option) list \<Rightarrow> ((err \<times> operation option) + operation) option" where
  "wait_op i [] = None"
| "wait_op i ((d, over) # polls) = (case get_operation i d of
       (Inl e, _) \<Rightarrow> Some (Inl (e, None))
     | (Inr p, _) \<Rightarrow> if op_st p \<noteq> OpRunning then Some (Inr p)
         else (case over of Some e \<Rightarrow> Some (Inl (e, Some p)) | None \<Rightarrow> wait_op i polls))"

definition poll_interval :: "int \<Rightarrow> int" where
  "poll_interval poll = (if poll \<le> 0 then second div 5 else poll)"

text \<open>\<^verbatim>\<open>Drain\<close> waits until the wait group is empty: the goroutines that have been started and are
  not over. The list is the states of the runner until the timeout.\<close>

definition live_jobs :: "op_runner \<Rightarrow> nat" where
  "live_jobs s = length (filter (\<lambda>t. pending_id t \<noteq> None) (rn_tasks s))"

definition drain_jobs :: "op_runner list \<Rightarrow> bool" where
  "drain_jobs seen \<longleftrightarrow> (\<exists>s \<in> set seen. live_jobs s = 0)"

lemma wait_op_result:
  "wait_op i (polls @ [(d, None)]) = Some (Inr p)
    \<Longrightarrow> op_st p \<noteq> OpRunning \<and> (\<exists>d' \<in> insert d (fst ` set polls). fst (get_operation i d') = Inr p)"
  by (induction i polls rule: wait_op.induct)
    (auto split: sum.splits prod.splits if_splits option.splits simp: image_iff)

text \<open>
  The identifier in the answer to a refused call need not be that of the running operation: while
  that one starts it is empty, and a first task whose function ends before the second critical
  section of its call overwrites the reservation of a second task with its own identifier.
\<close>

definition stale_run :: op_runner where
  "stale_run = advance_call 9 ''op_2'' 2 (advance_call 8 ''op_0'' 0 (advance_call 7 ''op_1'' 1
     (advance_call 6 ''op_1'' 1 (advance_job 5 (FnReturns None) 0 (advance_job 4 (FnReturns None) 0
       (advance_job 3 (FnReturns None) 0 (advance_call 2 ''op_0'' 0 (advance_call 1 ''op_0'' 0
         \<lparr>rn_db = open_db, rn_exclusive = Map.empty,
          rn_tasks = [new_task ''reset'' ''pr-1'' True, new_task ''reset'' ''pr-1'' True,
                      new_task ''delete'' ''pr-1'' True]\<rparr>))))))))"

lemma busy_id_may_be_stale:
  "t_job (rn_tasks stale_run ! 0) = JobDone \<and> t_job (rn_tasks stale_run ! 1) = FnRunning ''op_1''
   \<and> t_call (rn_tasks stale_run ! 2) = Returned (Some (busy_error ''pr-1'' ''op_0'')) ''op_0''"
  by (simp add: stale_run_def advance_call_def advance_job_def put_task_def call_step_def
      job_step_def new_task_def reserve_target_def settle_target_def release_target_def
      start_op_def create_operation_def record_result_def open_db_def err_info_def job_error_def
      finish_operation_def nth_Cons')

end
