(* ===== verification/Http.thy ===== *)
theory Http
  imports Host
begin

text \<open>
  What package api uses of the standard library: requests and responses of \<^verbatim>\<open>net/http\<close>, the
  routing of \<^verbatim>\<open>http.ServeMux\<close>, JSON values and the decoding of a body into a struct, the escaping
  of \<^verbatim>\<open>net/url\<close>, and \<^verbatim>\<open>net.SplitHostPort\<close>.
\<close>

section \<open>JSON\<close>

text \<open>A number that is no integer is a fraction. The members of an object are in the order of the
  source; the encoder sorts those of a map.\<close>

datatype json =
    JNull
  | JBool bool
  | JInt int
  | JRatio "int \<times> int"
  | JStr string
  | JList "json list"
  | JObj "(string \<times> json) list"

text \<open>The first value of a body: an object keeps the raw text of its members.\<close>

datatype body =
    BadBody
  | ValueBody json
  | ObjectBody "(string \<times> json \<times> string) list"

text \<open>
  \<^verbatim>\<open>Decode(&req)\<close> matches keys under \<^verbatim>\<open>strings.EqualFold\<close> (the two letters beyond ASCII that fold
  to ASCII are U+017F and U+212A), lets the last of several win, ignores null, and reports a value
  of the wrong type.
\<close>

definition fold_char :: "char \<Rightarrow> char" where
  "fold_char c = (let n = (of_char c :: nat) in if 65 \<le> n \<and> n \<le> 90 then char_of (n + 32) else c)"

fun fold_case :: "string \<Rightarrow> string" where
  "fold_case (a # b # c # s) =
     (if a = CHR 0xC5 \<and> b = CHR 0xBF then CHR ''s'' # fold_case (c # s)
      else if a = CHR 0xE2 \<and> b = CHR 0x84 \<and> c = CHR 0xAA then CHR ''k'' # fold_case s
      else fold_char a # fold_case (b # c # s))"
| "fold_case [a, b] = (if a = CHR 0xC5 \<and> b = CHR 0xBF then ''s'' else [fold_char a, fold_char b])"
| "fold_case [a] = [fold_char a]"
| "fold_case [] = []"

definition equal_fold :: "string \<Rightarrow> string \<Rightarrow> bool" where
  "equal_fold s t \<longleftrightarrow> fold_case s = fold_case t"

type_synonym members = "(string \<times> json \<times> string) list"

text \<open>One field: \<open>f\<close> reads a value and its text into the field, \<open>None\<close> on a type error.\<close>

fun decode_field :: "(json \<Rightarrow> string \<Rightarrow> 'a \<Rightarrow> 'a option) \<Rightarrow> string \<Rightarrow> members \<Rightarrow> 'a \<Rightarrow> 'a option" where
  "decode_field f key [] cur = Some cur"
| "decode_field f key ((k, v, raw) # ms) cur =
     (if equal_fold k key then (case f v raw cur of None \<Rightarrow> None | Some x \<Rightarrow> decode_field f key ms x)
      else decode_field f key ms cur)"

definition string_value :: "json \<Rightarrow> string \<Rightarrow> string \<Rightarrow> string option" where
  "string_value v raw cur = (case v of JStr s \<Rightarrow> Some s | JNull \<Rightarrow> Some cur | _ \<Rightarrow> None)"

definition int_value :: "json \<Rightarrow> string \<Rightarrow> int \<Rightarrow> int option" where
  "int_value v raw cur = (case v of
      JInt i \<Rightarrow> if - (2 ^ 63) \<le> i \<and> i < 2 ^ 63 then Some i else None | JNull \<Rightarrow> Some cur | _ \<Rightarrow> None)"

definition bool_value :: "json \<Rightarrow> string \<Rightarrow> bool \<Rightarrow> bool option" where
  "bool_value v raw cur = (case v of JBool b \<Rightarrow> Some b | JNull \<Rightarrow> Some cur | _ \<Rightarrow> None)"

definition raw_value :: "json \<Rightarrow> string \<Rightarrow> string \<Rightarrow> string option" where
  "raw_value v raw cur = Some raw"

definition str_field :: "string \<Rightarrow> members \<Rightarrow> string option" where
  "str_field key ms = decode_field string_value key ms []"

definition int_field :: "string \<Rightarrow> members \<Rightarrow> int option" where
  "int_field key ms = decode_field int_value key ms 0"

definition bool_field :: "string \<Rightarrow> members \<Rightarrow> bool option" where
  "bool_field key ms = decode_field bool_value key ms False"

definition raw_field :: "string \<Rightarrow> members \<Rightarrow> string option" where
  "raw_field key ms = decode_field raw_value key ms []"

text \<open>The members a struct is decoded from: null leaves it zero, another value is an error.\<close>

definition body_members :: "body \<Rightarrow> members option" where
  "body_members b = (case b of BadBody \<Rightarrow> None | ValueBody v \<Rightarrow> if v = JNull then Some [] else None
     | ObjectBody ms \<Rightarrow> Some ms)"

section \<open>Escaping\<close>

definition hex_value :: "char \<Rightarrow> nat option" where
  "hex_value c = (let n = (of_char c :: nat) in
     if 48 \<le> n \<and> n \<le> 57 then Some (n - 48)
     else if 97 \<le> n \<and> n \<le> 102 then Some (n - 87)
     else if 65 \<le> n \<and> n \<le> 70 then Some (n - 55) else None)"

definition upper_hex :: "nat \<Rightarrow> char" where
  "upper_hex n = (if n < 10 then char_of (48 + n) else char_of (55 + n))"

text \<open>\<^verbatim>\<open>url.PathUnescape\<close>.\<close>

fun url_unescape :: "string \<Rightarrow> string option" where
  "url_unescape [] = Some []"
| "url_unescape (c # s) =
     (if c = CHR ''%'' then (case s of
        h # l # r \<Rightarrow> (case (hex_value h, hex_value l) of
            (Some a, Some b) \<Rightarrow> map_option (\<lambda>t. char_of (16 * a + b) # t) (url_unescape r)
          | _ \<Rightarrow> None)
      | _ \<Rightarrow> None)
      else map_option (\<lambda>t. c # t) (url_unescape s))"

datatype url_part = InUser | InHost | InPath

definition alnum_char :: "char \<Rightarrow> bool" where
  "alnum_char c \<longleftrightarrow> (let n = (of_char c :: nat) in
     (48 \<le> n \<and> n \<le> 57) \<or> (65 \<le> n \<and> n \<le> 90) \<or> (97 \<le> n \<and> n \<le> 122))"

text \<open>The complement of \<^verbatim>\<open>shouldEscape\<close>.\<close>

definition left_plain :: "url_part \<Rightarrow> char \<Rightarrow> bool" where
  "left_plain m c \<longleftrightarrow> alnum_char c \<or> c \<in> set ''-_.~'' \<or> (case m of
      InUser \<Rightarrow> c \<in> set ''$&+,;=''
    | InPath \<Rightarrow> c \<in> set ''$&+,/:;=@''
    | InHost \<Rightarrow> c \<in> set [CHR ''!'', CHR ''$'', CHR ''&'', CHR 0x27, CHR 0x28, CHR 0x29, CHR ''*'',
         CHR ''+'', CHR '','', CHR '';'', CHR ''='', CHR '':'', CHR ''['', CHR '']'', CHR 0x3C,
         CHR 0x3E, CHR 0x22])"

definition url_escape :: "url_part \<Rightarrow> string \<Rightarrow> string" where
  "url_escape m s = concat (map (\<lambda>c. if left_plain m c then [c]
     else [CHR ''%'', upper_hex (of_char c div 16), upper_hex (of_char c mod 16)]) s)"

section \<open>Addresses\<close>

definition index_of :: "char \<Rightarrow> string \<Rightarrow> nat option" where
  "index_of c s = (let n = length (takeWhile (\<lambda>x. x \<noteq> c) s) in if n < length s then Some n else None)"

definition last_index_of :: "char \<Rightarrow> string \<Rightarrow> nat option" where
  "last_index_of c s = map_option (\<lambda>n. length s - 1 - n) (index_of c (rev s))"

definition split_host_port :: "string \<Rightarrow> (string \<times> string) option" where
  "split_host_port s = (case last_index_of (CHR '':'') s of None \<Rightarrow> None | Some i \<Rightarrow>
     let parts = (if hd s = CHR ''['' then
           (case index_of (CHR '']'') s of None \<Rightarrow> None
            | Some e \<Rightarrow> if e + 1 = i then Some (drop 1 (take e s), 1, e + 1) else None)
         else if CHR '':'' \<in> set (take i s) then None else Some (take i s, 0, 0)) in
     (case parts of None \<Rightarrow> None
      | Some (host, j, k) \<Rightarrow>
          if CHR ''['' \<in> set (drop j s) \<or> CHR '']'' \<in> set (drop k s) then None
          else Some (host, drop (i + 1) s)))"

definition join_addr :: "string \<Rightarrow> string \<Rightarrow> string" where
  "join_addr host port =
     (if CHR '':'' \<in> set host then CHR ''['' # host @ '']:'' @ port else host @ '':'' @ port)"

section \<open>Requests and responses\<close>

text \<open>
  A request as the handler sees it: \<open>rq_path\<close> is \<^verbatim>\<open>r.URL.EscapedPath()\<close>, of which \<^verbatim>\<open>r.URL.Path\<close> is
  the decoding, \<open>rq_query\<close> the parsed query, then three headers and the body.
\<close>

record http_request =
  rq_method :: string
  rq_path :: string
  rq_query :: "(string \<times> string) list"
  rq_remote :: string
  rq_host :: string
  rq_auth :: string
  rq_origin :: string
  rq_ctype :: string
  rq_body :: body

definition unescape_or :: "string \<Rightarrow> string" where
  "unescape_or s = (case url_unescape s of None \<Rightarrow> s | Some t \<Rightarrow> t)"

definition url_path :: "http_request \<Rightarrow> string" where
  "url_path r = unescape_or (rq_path r)"

definition query_get :: "string \<Rightarrow> http_request \<Rightarrow> string" where
  "query_get k r = (case map_of (rq_query r) k of None \<Rightarrow> [] | Some v \<Rightarrow> v)"

text \<open>The server answers 400 itself to a path it cannot decode.\<close>

definition parsed :: "http_request \<Rightarrow> bool" where
  "parsed r \<longleftrightarrow> (\<exists>s. rq_path r = CHR ''/'' # s) \<and> url_unescape (rq_path r) \<noteq> None"

datatype content = Json json | Page | Plain string | Nothing

record response =
  rs_status :: int
  rs_op :: string
  rs_content :: content

definition json_response :: "int \<Rightarrow> json \<Rightarrow> response" where
  "json_response code j = \<lparr>rs_status = code, rs_op = [], rs_content = Json j\<rparr>"

text \<open>\<^verbatim>\<open>writeErr\<close>\<close>

definition err_response :: "int \<Rightarrow> string \<Rightarrow> string \<Rightarrow> response" where
  "err_response code ecode msg = json_response code
     (JObj [(''error'', JObj [(''code'', JStr ecode), (''message'', JStr msg)])])"

section \<open>Routing\<close>

datatype segment = Lit string | Wild

datatype 'e routing = Matched 'e "string list" | MovedTo | WrongMethod

text \<open>A wildcard matches one segment, neither empty nor a slash.\<close>

fun match_segments :: "segment list \<Rightarrow> string list \<Rightarrow> string list option" where
  "match_segments [] [] = Some []"
| "match_segments (Lit l # ps) (s # ss) = (if s = l then match_segments ps ss else None)"
| "match_segments (Wild # ps) (s # ss) =
     (if s = [] \<or> s = ''/'' then None else map_option (\<lambda>vs. s # vs) (match_segments ps ss))"
| "match_segments _ _ = None"

definition method_matches :: "string \<Rightarrow> string \<Rightarrow> bool" where
  "method_matches pat m \<longleftrightarrow> m = pat \<or> (pat = ''GET'' \<and> m = ''HEAD'')"

definition raw_segments :: "http_request \<Rightarrow> string list" where
  "raw_segments r = split_on (CHR ''/'') (tl (rq_path r))"

definition path_segments :: "http_request \<Rightarrow> string list" where
  "path_segments r = map unescape_or (raw_segments r)"

text \<open>\<^verbatim>\<open>cleanPath(p) = p\<close>\<close>

definition path_is_clean :: "http_request \<Rightarrow> bool" where
  "path_is_clean r \<longleftrightarrow> rq_path r \<noteq> [] \<and> hd (rq_path r) = CHR ''/''
     \<and> (\<forall>s \<in> set (butlast (raw_segments r)). s \<noteq> [])
     \<and> (\<forall>s \<in> set (raw_segments r). s \<noteq> ''.'' \<and> s \<noteq> ''..'')"

fun find_route :: "(string \<times> segment list \<times> 'e) list \<Rightarrow> string \<Rightarrow> string list
  \<Rightarrow> ('e \<times> string list) option" where
  "find_route [] m ss = None"
| "find_route ((pm, pat, ep) # rs) m ss =
     (case (method_matches pm m, match_segments pat ss) of
        (True, Some vs) \<Rightarrow> Some (ep, vs)
      | _ \<Rightarrow> find_route rs m ss)"

text \<open>
  \<^verbatim>\<open>ServeMux\<close> with a table of exact patterns, no two of which match the same request, and the
  pattern \<^verbatim>\<open>GET /\<close>, which takes every other path.
\<close>

definition route_request ::
  "(string \<times> segment list \<times> 'e) list \<Rightarrow> 'e \<Rightarrow> http_request \<Rightarrow> 'e routing" where
  "route_request table root r =
     (if rq_method r \<noteq> ''CONNECT'' \<and> \<not> path_is_clean r then MovedTo
      else (case find_route table (rq_method r) (path_segments r) of
        Some (ep, vs) \<Rightarrow> Matched ep vs
      | None \<Rightarrow> if method_matches ''GET'' (rq_method r) then Matched root [] else WrongMethod))"

section \<open>Times\<close>

text \<open>\<^verbatim>\<open>t.UTC().Format(time.RFC3339)\<close> of a time without a fraction of a second.\<close>

definition rfc3339 :: "int \<Rightarrow> string" where
  "rfc3339 t = (let sec = t div second in case civil_date (sec div 86400) of (y, m, d) \<Rightarrow>
     pad 4 y @ ''-'' @ pad 2 m @ ''-'' @ pad 2 d @ ''T'' @ pad 2 (sec mod 86400 div 3600) @ '':''
       @ pad 2 (sec mod 3600 div 60) @ '':'' @ pad 2 (sec mod 60) @ ''Z'')"

end
