(* ===== verification/Api.thy ===== *)
theory Api
  imports Safety OpRunner Http
begin

text \<open>
  internal/api: the REST server. A handler is an action on the state of the server: the manager,
  the reservations of the operation runner, and the jobs that were accepted and have not run. A
  value of the action is the response that the handler wrote, an error is one that it hands to
  \<^verbatim>\<open>writeError\<close>. One request is one step: the critical sections of the runner, which OpRunner
  interleaves, are here taken together, and the job of an accepted request is a step of its own.
  Log lines are left out.
\<close>

section \<open>The server\<close>

text \<open>
  What the handlers use of the standard library and is not written out: \<^verbatim>\<open>ParseIP\<close> with
  \<^verbatim>\<open>IsLoopback\<close>, the host of \<^verbatim>\<open>url.Parse\<close>, \<^verbatim>\<open>mime.ParseMediaType\<close>, the parsers of times, durations
  and (scaled, truncated) floating point numbers, \<^verbatim>\<open>%g\<close>, and SHA-256 in hexadecimal digits.
\<close>

record go_lib =
  gl_loopback_ip :: "string \<Rightarrow> bool"
  gl_url_host :: "string \<Rightarrow> string option"
  gl_media_type :: "string \<Rightarrow> string"
  gl_parse_time :: "string \<Rightarrow> int option"
  gl_parse_duration :: "string \<Rightarrow> int option"
  gl_scaled_float :: "string \<Rightarrow> int \<Rightarrow> int option"
  gl_format_g :: "int \<times> int \<Rightarrow> string"
  gl_sha256 :: "string \<Rightarrow> string"

text \<open>
  The databases of the branches as \<^verbatim>\<open>database/sql\<close> shows them. A result is its columns, its rows up
  to the first that cannot be read, and the error that ends the iteration.
\<close>

datatype dsn = MysqlDsn string string string | PgDsn string

datatype cell = Bytes string | Other json

record schema_row =
  sr_schema :: string
  sr_table :: string
  sr_rows :: int
  sr_column :: string
  sr_type :: string
  sr_nullable :: string
  sr_key :: string

record 'r result_set =
  rt_rows :: "(err + 'r) list"
  rt_err :: "err option"

record 'w browser =
  br_first_db :: "dsn \<Rightarrow> ('w, string option) ext"
  br_schema :: "dsn \<Rightarrow> string \<Rightarrow> ('w, schema_row result_set) ext"
  br_query :: "dsn \<Rightarrow> string \<Rightarrow> ('w, (err + string list) \<times> cell list result_set) ext"

record 'w api_server =
  as_env :: "'w env"
  as_machine :: "'w host"
  as_policy :: "'w refresh_config"
  as_domain :: string
  as_engine :: string
  as_user :: string
  as_pass :: string
  as_token :: string
  as_tokens :: bool
  as_ops :: bool
  as_proxy_port :: int
  as_trust_loopback :: bool
  as_host_name :: string
  as_new_id :: "'w \<Rightarrow> string \<times> 'w"
  as_lib :: go_lib
  as_browser :: "'w browser"

text \<open>\<^verbatim>\<open>SetProxyListen\<close>: the port of the address, 0 when it cannot be told.\<close>

definition proxy_port_of :: "string \<Rightarrow> int" where
  "proxy_port_of addr =
     (if addr = [] then 0
      else (case split_host_port addr of None \<Rightarrow> 0
        | Some (_, port) \<Rightarrow> (case atoi port of None \<Rightarrow> 0 | Some n \<Rightarrow> n)))"

section \<open>The state\<close>

record 'w api_job =
  jb_id :: string
  jb_type :: string
  jb_target :: string
  jb_exclusive :: bool
  jb_work :: "('w, unit) mact"

record 'w api =
  ap_mgr :: "'w mgr"
  ap_busy :: reservations
  ap_jobs :: "'w api_job list"

definition new_api :: "'w mgr \<Rightarrow> 'w api" where
  "new_api m = \<lparr>ap_mgr = m, ap_busy = Map.empty, ap_jobs = []\<rparr>"

type_synonym ('w, 'a) api_act = "('w api, 'a) act"

definition on_mgr :: "('w, 'a) mact \<Rightarrow> ('w, 'a) api_act" where
  "on_mgr m s = (case m (ap_mgr s) of (r, m') \<Rightarrow> (r, s\<lparr>ap_mgr := m'\<rparr>))"

definition draw_id :: "'w api_server \<Rightarrow> ('w, string) api_act" where
  "draw_id S = on_mgr (pure_ext (as_new_id S))"

section \<open>Operations\<close>

text \<open>\<^verbatim>\<open>Runner.Start\<close>, \<^verbatim>\<open>StartExclusive\<close> and the goroutine they spawn.\<close>

definition start_job ::
  "'w api_server \<Rightarrow> string \<Rightarrow> string \<Rightarrow> bool \<Rightarrow> ('w, unit) mact \<Rightarrow> ('w, string) api_act" where
  "start_job S ty target excl work = check (draw_id S) (\<lambda>i.
     check (on_mgr (sql_at (as_env S) (\<lambda>t. start_op t i ty target))) (\<lambda>_.
     check (modifying (\<lambda>s. s\<lparr>ap_jobs := ap_jobs s @ [\<lparr>jb_id = i, jb_type = ty, jb_target = target,
              jb_exclusive = excl, jb_work = work\<rparr>]\<rparr>)) (\<lambda>_. ret i)))"

datatype start_result = BusyWith string | Accepted string

definition start_exclusive ::
  "'w api_server \<Rightarrow> string \<Rightarrow> string \<Rightarrow> ('w, unit) mact \<Rightarrow> ('w, start_result) api_act" where
  "start_exclusive S ty target work = reading ap_busy (\<lambda>busy.
     case reserve_target target busy of
       (Inl i, _) \<Rightarrow> ret (BusyWith i)
     | (Inr _, busy') \<Rightarrow>
         check (modifying (\<lambda>s. s\<lparr>ap_busy := busy'\<rparr>)) (\<lambda>_.
         attempt (start_job S ty target True work) (\<lambda>r.
         check (modifying (\<lambda>s. s\<lparr>ap_busy := settle_target target r (ap_busy s)\<rparr>)) (\<lambda>_.
         case r of Inl e \<Rightarrow> throw e | Inr i \<Rightarrow> ret (Accepted i)))))"

text \<open>The result of a job is recorded after its target has been released.\<close>

definition drop_job :: "nat \<Rightarrow> 'w api_job list \<Rightarrow> 'w api_job list" where
  "drop_job k js = take k js @ drop (Suc k) js"

definition finish_job ::
  "'w api_server \<Rightarrow> nat \<Rightarrow> 'w api_job \<Rightarrow> err + unit \<Rightarrow> ('w, unit) api_act" where
  "finish_job S k j r =
     check (modifying (\<lambda>s. s\<lparr>ap_jobs := drop_job k (ap_jobs s),
       ap_busy := (if jb_exclusive j then release_target (jb_target j) (ap_busy s) else ap_busy s)\<rparr>)) (\<lambda>_.
     on_mgr (sql_at (as_env S) (\<lambda>t d. (Inr (), record_result t (jb_id j)
       (FnReturns (case r of Inl e \<Rightarrow> Some e | Inr _ \<Rightarrow> None)) d))))"

definition run_api_job :: "'w api_server \<Rightarrow> nat \<Rightarrow> ('w, unit) api_act" where
  "run_api_job S k = reading ap_jobs (\<lambda>js.
     if k < length js then attempt (on_mgr (jb_work (js ! k))) (finish_job S k (js ! k)) else ret ())"

text \<open>\<^verbatim>\<open>track\<close>, over \<^verbatim>\<open>RunSync\<close>.\<close>

definition track ::
  "'w api_server \<Rightarrow> string \<Rightarrow> string \<Rightarrow> ('w, 'a) mact \<Rightarrow> ('w, string \<times> 'a) api_act" where
  "track S ty target m =
     (if \<not> as_ops S then check (on_mgr m) (\<lambda>a. ret ([], a))
      else check (draw_id S) (\<lambda>i.
        check (on_mgr (sql_at (as_env S) (\<lambda>t. create_operation t i ty target))) (\<lambda>_.
        attempt (on_mgr m) (\<lambda>r.
        let (code, msg) = err_info (case r of Inl e \<Rightarrow> Some e | Inr _ \<Rightarrow> None) in
        ignoring (on_mgr (sql_at (as_env S) (\<lambda>t. finish_operation t i code msg)))
          (case r of Inl e \<Rightarrow> throw e | Inr a \<Rightarrow> ret (i, a))))))"

definition accepted_response :: "string \<Rightarrow> response" where
  "accepted_response i = (json_response 202
     (JObj [(''operation_id'', JStr i), (''status'', JStr ''accepted'')]))\<lparr>rs_op := i\<rparr>"

definition busy_response :: "string \<Rightarrow> string \<Rightarrow> response" where
  "busy_response target i =
     (err_response 409 ''operation_in_progress'' (err_text (busy_error target i)))\<lparr>rs_op := i\<rparr>"

definition accepted ::
  "'w api_server \<Rightarrow> string \<Rightarrow> string \<Rightarrow> ('w, unit) mact \<Rightarrow> ('w, response) api_act" where
  "accepted S ty target work =
     (if \<not> as_ops S then check (on_mgr work) (\<lambda>_. ret (accepted_response []))
      else if ty = ''baseline-validate''
      then check (start_job S ty target False work) (\<lambda>i. ret (accepted_response i))
      else check (start_exclusive S ty target work) (\<lambda>r. ret (case r of
        BusyWith i \<Rightarrow> busy_response target i | Accepted i \<Rightarrow> accepted_response i)))"

section \<open>Errors\<close>

text \<open>\<^verbatim>\<open>ErrUnsupportedEngine\<close> is not wrapped anywhere and not returned by the manager.\<close>

definition unsupported_engine :: err where
  "unsupported_engine = EText ''data browser supports the mysql and postgres engines only''"

definition write_error :: "err \<Rightarrow> response" where
  "write_error e =
     (if err_is e unsupported_engine then err_response 501 ''unsupported_engine'' (err_text e)
      else if err_is e EInvalidName then err_response 400 ''invalid_name'' (err_text e)
      else if err_is e EExists then err_response 409 ''branch_exists'' (err_text e)
      else if err_is e EBaselineNotFound then err_response 404 ''baseline_not_found'' (err_text e)
      else if err_is e ENotFound then err_response 404 ''branch_not_found'' (err_text e)
      else if err_is e ELimitReached \<or> err_is e ENoFreePort
      then err_response 507 ''limit_reached'' (err_text e)
      else if err_is e EPrecondition then err_response 412 ''precondition_failed'' (err_text e)
      else if err_is e EHookFailed then err_response 500 ''hook_failed'' (err_text e)
      else if err_is e EEngineFailed then err_response 500 ''engine_error'' (err_text e)
      else err_response 500 ''storage_error'' (err_text e))"

section \<open>Who may do what\<close>

record principal =
  pr_name :: string
  pr_scope :: string

text \<open>\<^verbatim>\<open>^/v1/branches/[^/]+/(query|schema|hooks/)\<close>\<close>

definition admin_branch_path :: "string \<Rightarrow> bool" where
  "admin_branch_path p \<longleftrightarrow> (case cut_prefix p ''/v1/branches/'' of
      None \<Rightarrow> False
    | Some rest \<Rightarrow> (case cut_at (CHR ''/'') rest of
        (seg, Some t) \<Rightarrow> seg \<noteq> [] \<and> (has_prefix t ''query'' \<or> has_prefix t ''schema''
           \<or> has_prefix t ''hooks/'')
      | _ \<Rightarrow> False))"

definition admin_only :: "http_request \<Rightarrow> bool" where
  "admin_only r \<longleftrightarrow> admin_branch_path (url_path r)
     \<or> (rq_method r = ''POST'' \<and> (has_prefix (url_path r) ''/v1/baseline/''
          \<or> has_prefix (url_path r) ''/v1/gc/'' \<or> url_path r = ''/v1/drain''))"

text \<open>\<^verbatim>\<open>SplitHostPort\<close>, \<^verbatim>\<open>ParseIP\<close> and \<^verbatim>\<open>IsLoopback\<close> of the remote address.\<close>

definition from_loopback :: "'w api_server \<Rightarrow> http_request \<Rightarrow> bool" where
  "from_loopback S r \<longleftrightarrow> (case split_host_port (rq_remote r) of
      None \<Rightarrow> False | Some (host, _) \<Rightarrow> gl_loopback_ip (as_lib S) host)"

definition bearer_token :: "http_request \<Rightarrow> string" where
  "bearer_token r = (case cut_prefix (rq_auth r) ''Bearer '' of None \<Rightarrow> rq_auth r | Some t \<Rightarrow> t)"

definition authenticate :: "'w api_server \<Rightarrow> http_request \<Rightarrow> ('w, principal option) api_act" where
  "authenticate S r =
     (let got = bearer_token r; gh = gl_sha256 (as_lib S) got in
      if as_trust_loopback S \<and> from_loopback S r
      then ret (Some \<lparr>pr_name = ''loopback'', pr_scope = scope_admin\<rparr>)
      else if got = [] then ret None
      else if as_token S \<noteq> [] \<and> gh = gl_sha256 (as_lib S) (as_token S)
      then ret (Some \<lparr>pr_name = ''env'', pr_scope = scope_admin\<rparr>)
      else if as_tokens S
      then handle_err (on_mgr (sql_at (as_env S) (\<lambda>t. lookup_token_hash t gh))) (\<lambda>_. ret None)
        (\<lambda>v. ret (map_option (\<lambda>(n, sc). \<lparr>pr_name = n, pr_scope = sc\<rparr>) v))
      else ret None)"

end
