(* ===== verification/ApiBrowse.thy ===== *)
theory ApiBrowse
  imports Api
begin

text \<open>
  internal/api/query.go and query_postgres.go: the data browser, which runs a statement or a query
  of the schema in the database of a branch, and its guards against browsers.
\<close>

section \<open>Guards\<close>

definition loopback_host :: "'w api_server \<Rightarrow> string \<Rightarrow> bool" where
  "loopback_host S hostport =
     (let host = (case split_host_port hostport of Some (h, _) \<Rightarrow> h | None \<Rightarrow> hostport);
          bare = (\<lambda>c. c = CHR ''['' \<or> c = CHR '']'') in
      equal_fold host ''localhost''
      \<or> gl_loopback_ip (as_lib S) (rev (dropWhile bare (rev (dropWhile bare host)))))"

definition token_auth :: "principal \<Rightarrow> bool" where
  "token_auth p \<longleftrightarrow> pr_name p \<noteq> [] \<and> pr_name p \<noteq> ''loopback''"

text \<open>\<^verbatim>\<open>browserSafe\<close>: the response that refuses the request, if any.\<close>

definition origin_allowed :: "'w api_server \<Rightarrow> principal \<Rightarrow> http_request \<Rightarrow> bool" where
  "origin_allowed S p r \<longleftrightarrow> rq_origin r = [] \<or> (case gl_url_host (as_lib S) (rq_origin r) of
      None \<Rightarrow> False
    | Some h \<Rightarrow> loopback_host S h \<or> (token_auth p \<and> equal_fold h (rq_host r)))"

definition browser_safe :: "'w api_server \<Rightarrow> principal \<Rightarrow> http_request \<Rightarrow> response option" where
  "browser_safe S p r =
     (if \<not> origin_allowed S p r
      then Some (err_response 403 ''cross_origin_denied''
             ''cross-site browser requests are not allowed for the data browser'')
      else if token_auth p then None
      else if from_loopback S r \<and> \<not> loopback_host S (rq_host r)
      then Some (err_response 403 ''host_mismatch''
             (''unexpected Host '' @ quoted (rq_host r) @ '' on a loopback request (DNS rebinding?)''))
      else None)"

section \<open>Connections\<close>

definition pg_dsn :: "string \<Rightarrow> string \<Rightarrow> int \<Rightarrow> string \<Rightarrow> string" where
  "pg_dsn user pass port dbname = ''postgres://'' @ url_escape InUser user @ '':''
     @ url_escape InUser pass @ ''@127.0.0.1:'' @ show_int port @ url_escape InPath (''/'' @ dbname)
     @ ''?connect_timeout=10&sslmode=disable''"

definition pg_browse_database :: "'w api_server \<Rightarrow> int \<Rightarrow> ('w, string) api_act" where
  "pg_browse_database S port = handle_err
     (on_mgr (ext (br_first_db (as_browser S) (PgDsn (pg_dsn (as_user S) (as_pass S) port ''postgres'')))))
     (\<lambda>e. throw (EWrap ''list databases: '' e []))
     (\<lambda>v. ret (case v of None \<Rightarrow> ''postgres'' | Some n \<Rightarrow> n))"

definition branch_db :: "'w api_server \<Rightarrow> string \<Rightarrow> ('w, dsn) api_act" where
  "branch_db S name =
     (if as_engine S \<notin> set [[], ''mysql'', ''postgres''] then throw unsupported_engine
      else check (on_mgr (get_info (as_env S) name)) (\<lambda>i.
        let b = in_branch i in
        if b_state b \<noteq> Running then throw (branch_is name (b_state b) '' (not running)'')
        else if as_engine S = ''postgres''
        then check (pg_browse_database S (b_port b)) (\<lambda>db.
          ret (PgDsn (pg_dsn (as_user S) (as_pass S) (b_port b) db)))
        else ret (MysqlDsn (as_user S) (as_pass S) (''127.0.0.1:'' @ show_int (b_port b)))))"

section \<open>The schema\<close>

definition sql_lines :: "string list \<Rightarrow> string" where
  "sql_lines ls = concat (map (\<lambda>l. newline # CHR 0x09 # l) ls)"

definition mysql_schema_query :: string where
  "mysql_schema_query = sql_lines [
     ''SELECT c.table_schema, c.table_name, COALESCE(t.table_rows, 0),'',
     ''       c.column_name, c.column_type, c.is_nullable, c.column_key'',
     ''FROM information_schema.columns c'',
     ''JOIN information_schema.tables t'',
     ''  ON t.table_schema = c.table_schema AND t.table_name = c.table_name'',
     join_with [CHR 0x27] [''WHERE c.table_schema NOT IN ('', ''mysql'', '','', ''sys'', '','', ''information_schema'', '','', ''performance_schema'', '')''],
     ''ORDER BY c.table_schema, c.table_name, c.ordinal_position'']"

definition pg_schema_query :: string where
  "pg_schema_query = sql_lines [
     ''SELECT c.table_schema,'',
     ''       c.table_name,'',
     ''       COALESCE(cl.reltuples, 0)::bigint AS approx_rows,'',
     ''       c.column_name,'',
     ''       c.data_type,'',
     ''       c.is_nullable,'',
     join_with [CHR 0x27] [''       CASE WHEN pk.column_name IS NOT NULL THEN '', ''PRI'', '' ELSE '', [], '' END AS column_key''],
     ''FROM information_schema.columns c'',
     ''JOIN information_schema.tables t'',
     ''  ON t.table_schema = c.table_schema AND t.table_name = c.table_name'',
     ''LEFT JOIN pg_catalog.pg_namespace ns'',
     ''  ON ns.nspname = c.table_schema'',
     ''LEFT JOIN pg_catalog.pg_class cl'',
     ''  ON cl.relname = c.table_name AND cl.relnamespace = ns.oid'',
     ''LEFT JOIN ('',
     ''  SELECT kcu.table_schema, kcu.table_name, kcu.column_name'',
     ''  FROM information_schema.table_constraints tc'',
     ''  JOIN information_schema.key_column_usage kcu'',
     ''    ON kcu.constraint_name = tc.constraint_name'',
     ''   AND kcu.table_schema = tc.table_schema'',
     join_with [CHR 0x27] [''  WHERE tc.constraint_type = '', ''PRIMARY KEY'', []],
     '') pk'',
     ''  ON pk.table_schema = c.table_schema'',
     '' AND pk.table_name = c.table_name'',
     '' AND pk.column_name = c.column_name'',
     join_with [CHR 0x27] [''WHERE c.table_schema NOT IN ('', ''pg_catalog'', '', '', ''information_schema'', '')''],
     join_with [CHR 0x27] [''  AND t.table_type = '', ''BASE TABLE'', []],
     ''ORDER BY c.table_schema, c.table_name, c.ordinal_position'']"

definition schema_query :: "'w api_server \<Rightarrow> string" where
  "schema_query S = (if as_engine S = ''postgres'' then pg_schema_query else mysql_schema_query)"

record schema_column =
  sc_name :: string
  sc_type :: string
  sc_nullable :: bool
  sc_key :: string

record schema_table =
  tb_name :: string
  tb_rows :: int
  tb_columns :: "schema_column list"

record schema_db =
  sd_name :: string
  sd_tables :: "schema_table list"

definition column_of :: "schema_row \<Rightarrow> schema_column" where
  "column_of r = \<lparr>sc_name = sr_column r, sc_type = sr_type r, sc_nullable = (sr_nullable r = ''YES''),
     sc_key = sr_key r\<rparr>"

text \<open>The body of the loop: the last database and table are open, a new name opens another.\<close>

definition add_to_tables :: "schema_row \<Rightarrow> schema_table list \<Rightarrow> schema_table list" where
  "add_to_tables r ts =
     (let ts1 = (if ts = [] \<or> tb_name (last ts) \<noteq> sr_table r
                 then ts @ [\<lparr>tb_name = sr_table r, tb_rows = sr_rows r, tb_columns = []\<rparr>] else ts);
          t = last ts1
      in butlast ts1 @ [t\<lparr>tb_columns := tb_columns t @ [column_of r]\<rparr>])"

definition add_schema_row :: "schema_row \<Rightarrow> schema_db list \<Rightarrow> schema_db list" where
  "add_schema_row r dbs =
     (let ds1 = (if dbs = [] \<or> sd_name (last dbs) \<noteq> sr_schema r
                 then dbs @ [\<lparr>sd_name = sr_schema r, sd_tables = []\<rparr>] else dbs);
          d = last ds1
      in butlast ds1 @ [d\<lparr>sd_tables := add_to_tables r (sd_tables d)\<rparr>])"

fun collect_schema :: "(err + schema_row) list \<Rightarrow> schema_db list \<Rightarrow> err + schema_db list" where
  "collect_schema [] dbs = Inr dbs"
| "collect_schema (Inl e # rs) dbs = Inl e"
| "collect_schema (Inr r # rs) dbs = collect_schema rs (add_schema_row r dbs)"

definition column_json :: "schema_column \<Rightarrow> json" where
  "column_json c = JObj ([(''name'', JStr (sc_name c)), (''type'', JStr (sc_type c)),
     (''nullable'', JBool (sc_nullable c))] @ (if sc_key c = [] then [] else [(''key'', JStr (sc_key c))]))"

definition table_json :: "schema_table \<Rightarrow> json" where
  "table_json t = JObj [(''name'', JStr (tb_name t)), (''approx_rows'', JInt (tb_rows t)),
     (''columns'', JList (map column_json (tb_columns t)))]"

definition schema_json :: "schema_db \<Rightarrow> json" where
  "schema_json d = JObj [(''name'', JStr (sd_name d)), (''tables'', JList (map table_json (sd_tables d)))]"

definition handle_schema ::
  "'w api_server \<Rightarrow> principal \<Rightarrow> http_request \<Rightarrow> string \<Rightarrow> ('w, response) api_act" where
  "handle_schema S p r name = (case browser_safe S p r of
      Some resp \<Rightarrow> ret resp
    | None \<Rightarrow> check (branch_db S name) (\<lambda>d.
        check (on_mgr (ext (br_schema (as_browser S) d (schema_query S)))) (\<lambda>rs.
        case collect_schema (rt_rows rs) [] of
          Inl e \<Rightarrow> throw e
        | Inr dbs \<Rightarrow> (case rt_err rs of
            Some e \<Rightarrow> throw e
          | None \<Rightarrow> ret (json_response 200 (JObj [(''databases'', JList (map schema_json dbs))]))))))"

section \<open>A statement\<close>

definition max_rows :: nat where "max_rows = 200"
definition max_cell_bytes :: nat where "max_cell_bytes = 64 * 1024"

definition cut_mark :: string where
  "cut_mark = [CHR 0xE2, CHR 0x80, CHR 0xA6] @ ''(truncated)''"

definition cell_json :: "cell \<Rightarrow> json" where
  "cell_json c = (case c of
      Bytes b \<Rightarrow> JStr (if length b > max_cell_bytes then take max_cell_bytes b @ cut_mark else b)
    | Other v \<Rightarrow> v)"

text \<open>The loop over the rows: what it has read, and whether it stopped at the limit.\<close>

fun collect_rows :: "(err + cell list) list \<Rightarrow> json list list \<Rightarrow> err + (json list list \<times> bool)" where
  "collect_rows [] out = Inr (out, False)"
| "collect_rows (r # rs) out =
     (if length out \<ge> max_rows then Inr (out, True)
      else (case r of Inl e \<Rightarrow> Inl e | Inr cells \<Rightarrow> collect_rows rs (out @ [map cell_json cells])))"

definition query_response :: "string list \<Rightarrow> json list list \<Rightarrow> bool \<Rightarrow> response" where
  "query_response cols out truncated = json_response 200 (JObj [(''columns'', JList (map JStr cols)),
     (''rows'', JList (map JList out)), (''truncated'', JBool truncated)])"

definition run_query :: "'w api_server \<Rightarrow> dsn \<Rightarrow> string \<Rightarrow> ('w, response) api_act" where
  "run_query S d q = handle_err (on_mgr (ext (br_query (as_browser S) d q)))
     (\<lambda>e. ret (err_response 400 ''query_error'' (err_text e)))
     (\<lambda>(cols, rs). case cols of Inl e \<Rightarrow> throw e | Inr cs \<Rightarrow>
        (case collect_rows (rt_rows rs) [] of
           Inl e \<Rightarrow> throw e
         | Inr (out, truncated) \<Rightarrow> (case (if truncated then None else rt_err rs) of
             Some e \<Rightarrow> ret (err_response 400 ''query_error'' (err_text e))
           | None \<Rightarrow> ret (query_response cs out truncated))))"

text \<open>The statement of a body, when it is there and not empty.\<close>

definition body_field :: "string \<Rightarrow> http_request \<Rightarrow> string option" where
  "body_field key r = (case Option.bind (body_members (rq_body r)) (str_field key) of
      None \<Rightarrow> None | Some s \<Rightarrow> if s = [] then None else Some s)"

definition handle_query ::
  "'w api_server \<Rightarrow> principal \<Rightarrow> http_request \<Rightarrow> string \<Rightarrow> ('w, response) api_act" where
  "handle_query S p r name = (case browser_safe S p r of
      Some resp \<Rightarrow> ret resp
    | None \<Rightarrow>
        if gl_media_type (as_lib S) (rq_ctype r) \<noteq> ''application/json''
        then ret (err_response 415 ''invalid_content_type'' ''Content-Type must be application/json'')
        else (case body_field ''sql'' r of
          None \<Rightarrow> ret (err_response 400 ''invalid_request'' (''body must be {'' @ quoted ''sql'' @ '': '' @ quoted ''...'' @ ''}''))
        | Some q \<Rightarrow> check (branch_db S name) (\<lambda>d. run_query S d q)))"

text \<open>What the audit line of a statement shows: its kind and a digest.\<close>

definition upper_char :: "char \<Rightarrow> char" where
  "upper_char c = (let n = (of_char c :: nat) in if 97 \<le> n \<and> n \<le> 122 then char_of (n - 32) else c)"

definition sql_kind :: "string \<Rightarrow> string" where
  "sql_kind q =
     (case go_fields (dropWhile (\<lambda>c. c \<in> set [CHR '' '', CHR 0x09, CHR 0x0D, CHR 0x0A, CHR 0x28]) q) of
        [] \<Rightarrow> ''?'' | f # _ \<Rightarrow> take 16 (map upper_char f))"

definition sql_digest :: "'w api_server \<Rightarrow> string \<Rightarrow> string" where
  "sql_digest S q = take 12 (gl_sha256 (as_lib S) q)"

end
