(* ===== verification/ApiServer.thy ===== *)
theory ApiServer
  imports ApiBrowse
begin

text \<open>
  internal/api/server.go, webui.go and metrics.go: the responses, the handlers, the table of routes, authentication in
  front of them, and the runs of the server with its jobs and the rest of the daemon.
\<close>

section \<open>Connection data\<close>

definition conn_port :: "'w api_server \<Rightarrow> int \<Rightarrow> int" where
  "conn_port S engine_port = (if as_proxy_port S \<noteq> 0 then as_proxy_port S else engine_port)"

definition conn_user :: "'w api_server \<Rightarrow> string \<Rightarrow> string" where
  "conn_user S branch = (if as_proxy_port S \<noteq> 0 then as_user S @ ''@'' @ branch else as_user S)"

definition conn_uri :: "'w api_server \<Rightarrow> string \<Rightarrow> int \<Rightarrow> string" where
  "conn_uri S branch engine_port = (if as_engine S = ''postgres'' then ''postgres'' else ''mysql'')
     @ ''://'' @ url_escape InUser (conn_user S branch) @ ''@''
     @ url_escape InHost (join_addr (as_domain S) (show_int (conn_port S engine_port))) @ ''/''"

section \<open>Responses\<close>

definition str_member :: "string \<Rightarrow> string \<Rightarrow> (string \<times> json) list" where
  "str_member k v = (if v = [] then [] else [(k, JStr v)])"

definition list_member :: "string \<Rightarrow> string list \<Rightarrow> (string \<times> json) list" where
  "list_member k v = (if v = [] then [] else [(k, JList (map JStr v))])"

definition int_member :: "string \<Rightarrow> int \<Rightarrow> (string \<times> json) list" where
  "int_member k v = (if v = 0 then [] else [(k, JInt v)])"

definition flag_member :: "string \<Rightarrow> bool \<Rightarrow> (string \<times> json) list" where
  "flag_member k v = (if v then [(k, JBool True)] else [])"

definition time_member :: "string \<Rightarrow> int option \<Rightarrow> (string \<times> json) list" where
  "time_member k v = (case v of None \<Rightarrow> [] | Some t \<Rightarrow> [(k, JStr (rfc3339 t))])"

definition hook_events :: "hook_row list \<Rightarrow> string list" where
  "hook_events hs = remdups (map h_event hs)"

text \<open>The map of the hook states, over the events that the database has runs of.\<close>

definition hooks_member :: "string list \<Rightarrow> (string \<rightharpoonup> string) \<Rightarrow> (string \<times> json) list" where
  "hooks_member evs m = (let ms = concat (map (\<lambda>ev. case m ev of None \<Rightarrow> [] | Some v \<Rightarrow> [(ev, JStr v)]) evs)
     in if ms = [] then [] else [(''hook_status'', JObj ms)])"

definition to_json :: "'w api_server \<Rightarrow> string list \<Rightarrow> info \<Rightarrow> json" where
  "to_json S evs i = (let b = in_branch i in JObj (
     [(''name'', JStr (b_name b)), (''state'', JStr (state_text (b_state b))),
      (''engine_state'', JStr (b_engine_state b)), (''port'', JInt (conn_port S (b_port b))),
      (''host'', JStr (as_domain S)), (''user'', JStr (conn_user S (b_name b)))]
     @ int_member ''engine_port'' (b_port b)
     @ [(''origin_snapshot'', JStr (b_origin b)), (''created_at'', JStr (rfc3339 (b_created b)))]
     @ time_member ''last_conn_at'' (b_last_conn b)
     @ [(''used_bytes'', JInt (in_used i))] @ int_member ''logical_bytes'' (in_logical i)
     @ hooks_member evs (in_hooks i) @ str_member ''error'' (b_err_msg b)
     @ str_member ''failed_operation'' (b_failed_op b) @ str_member ''error_code'' (b_err_code b)
     @ flag_member ''recoverable'' (b_recoverable b) @ list_member ''suggested_actions'' (b_suggested b)
     @ str_member ''profile'' (b_profile b) @ str_member ''owner'' (b_owner b)
     @ str_member ''purpose'' (b_purpose b) @ str_member ''source'' (b_source b)
     @ time_member ''expires_at'' (b_expires b) @ flag_member ''stale'' (in_stale i)
     @ list_member ''backing_baselines'' (in_backing i) @ str_member ''engine'' (as_engine S)
     @ str_member ''uri'' (conn_uri S (b_name b) (b_port b))))"

definition branch_response :: "'w api_server \<Rightarrow> int \<Rightarrow> info \<Rightarrow> ('w, response) api_act" where
  "branch_response S code i = reading (\<lambda>s. hook_runs (mdb (ap_mgr s))) (\<lambda>hs.
     ret (json_response code (to_json S (hook_events hs) i)))"

definition with_op_id :: "string \<Rightarrow> response \<Rightarrow> response" where
  "with_op_id i r = r\<lparr>rs_op := i\<rparr>"

definition with_host_name :: "'w api_server \<Rightarrow> (string \<times> json) list \<Rightarrow> json" where
  "with_host_name S ms = JObj (ms @ str_member ''host_name'' (as_host_name S))"

definition op_json :: "operation \<Rightarrow> json" where
  "op_json p = JObj ([(''operation_id'', JStr (op_id p)), (''type'', JStr (op_type p)),
     (''target'', JStr (op_target p)), (''state'', JStr (op_state_text (op_st p))),
     (''started_at'', JStr (rfc3339 (op_started p)))] @ time_member ''finished_at'' (op_finished p)
     @ str_member ''error'' (op_error p) @ str_member ''error_code'' (op_error_code p))"

section \<open>Baselines\<close>

definition handle_baseline :: "'w api_server \<Rightarrow> ('w, response) api_act" where
  "handle_baseline S = check (on_mgr (baseline_report (as_env S))) (\<lambda>bi.
     reading ap_mgr (\<lambda>m. ret (json_response 200 (JObj [(''current'', JStr (bi_current bi)),
       (''snapshots'', JList (map JStr (bi_snapshots bi))), (''refreshing'', JBool (refresh_running m)),
       (''last_refresh_error'', JStr (refresh_err m))]))))"

definition handle_baseline_refresh :: "'w api_server \<Rightarrow> http_request \<Rightarrow> ('w, response) api_act" where
  "handle_baseline_refresh S r = handle_err
     (on_mgr (refresh_begin (as_env S) (as_machine S) (as_policy S)
        (no_request\<lparr>rc_app_user_only := (query_get ''app_user_only'' r = ''true'')\<rparr>)))
     (\<lambda>e. if err_is e ERefreshRunning
          then ret (err_response 409 ''operation_in_progress'' (err_text e)) else throw e)
     (\<lambda>tag. ret (json_response 202 (JObj [(''status'', JStr ''started''), (''tag'', JStr tag)])))"

definition baseline_json :: "baseline \<Rightarrow> json" where
  "baseline_json b = JObj [(''snapshot'', JStr (bs_snapshot b)),
     (''created_at'', JStr (rfc3339 (bs_created b))), (''is_current'', JBool (bs_current b)),
     (''schema_revision'', JStr (p_schema_rev (bs_prov b))),
     (''data_as_of'', JStr (p_data_as_of (bs_prov b))), (''masked'', JBool (p_masked (bs_prov b))),
     (''validated'', JBool (p_validated (bs_prov b)))]"

definition handle_list_baselines :: "'w api_server \<Rightarrow> ('w, response) api_act" where
  "handle_list_baselines S = check (on_mgr (list_baseline_rows (as_env S))) (\<lambda>rows.
     ret (json_response 200 (JObj [(''baselines'', JList (map baseline_json rows))])))"

definition build_job :: "'w api_server \<Rightarrow> string \<Rightarrow> ('w, unit) mact" where
  "build_job S tag = dropping (build_baseline (as_env S) (as_machine S) (as_policy S) tag)"

definition handle_baseline_build :: "'w api_server \<Rightarrow> ('w, response) api_act" where
  "handle_baseline_build S = check (on_mgr (prepare_build (as_env S))) (\<lambda>(tag, snap).
     let answer = (\<lambda>i. with_op_id i (json_response 202 (JObj [(''tag'', JStr tag),
           (''snapshot'', JStr snap), (''operation_id'', JStr i)]))) in
     if \<not> as_ops S then check (on_mgr (build_job S tag)) (\<lambda>_. ret (answer []))
     else check (start_job S ''baseline-build'' tag False (build_job S tag)) (\<lambda>i. ret (answer i)))"

text \<open>A handler that needs one field of the body.\<close>

definition needing_field ::
  "string \<Rightarrow> http_request \<Rightarrow> (string \<Rightarrow> ('w, response) api_act) \<Rightarrow> ('w, response) api_act" where
  "needing_field key r k = (case body_field key r of
      None \<Rightarrow> ret (err_response 400 ''invalid_name''
        (''body must be {'' @ quoted key @ '': '' @ quoted ''...'' @ ''}''))
    | Some v \<Rightarrow> k v)"

definition handle_baseline_validate :: "'w api_server \<Rightarrow> http_request \<Rightarrow> ('w, response) api_act" where
  "handle_baseline_validate S r = needing_field ''snapshot'' r (\<lambda>snap.
     accepted S ''baseline-validate'' snap
       (validate_baseline (as_env S) (as_machine S) (as_policy S) snap))"

definition handle_baseline_delete :: "'w api_server \<Rightarrow> http_request \<Rightarrow> ('w, response) api_act" where
  "handle_baseline_delete S r = needing_field ''snapshot'' r (\<lambda>snap.
     check (on_mgr (delete_baseline (as_env S) snap)) (\<lambda>_.
     ret (json_response 200 (JObj [(''deleted'', JStr snap)]))))"

text \<open>The other two fields of a promotion; a type error in them is an error of the body.\<close>

definition promote_request :: "http_request \<Rightarrow> (string \<times> promote_options) option" where
  "promote_request r = (case body_members (rq_body r) of None \<Rightarrow> None | Some ms \<Rightarrow>
     (case (str_field ''branch'' ms, bool_field ''masked'' ms, bool_field ''skip_validate'' ms) of
        (Some b, Some m, Some sv) \<Rightarrow> if b = [] then None
           else Some (b, \<lparr>po_masked = m, po_skip_validate = sv\<rparr>)
      | _ \<Rightarrow> None))"

definition handle_baseline_promote :: "'w api_server \<Rightarrow> http_request \<Rightarrow> ('w, response) api_act" where
  "handle_baseline_promote S r = (case promote_request r of
      None \<Rightarrow> ret (err_response 400 ''invalid_name''
        (''body must be {'' @ quoted ''branch'' @ '': '' @ quoted ''...'' @ ''}''))
    | Some (b, opts) \<Rightarrow>
        check (on_mgr (promote_branch (as_env S) (as_machine S) (as_policy S) b opts)) (\<lambda>snap.
        ret (json_response 200 (JObj [(''from'', JStr b), (''current'', JStr snap)]))))"

definition handle_set_baseline :: "'w api_server \<Rightarrow> http_request \<Rightarrow> ('w, response) api_act" where
  "handle_set_baseline S r = needing_field ''snapshot'' r (\<lambda>snap.
     check (on_mgr (set_baseline (as_env S) (as_policy S) snap)) (\<lambda>_.
     ret (json_response 200 (JObj [(''current'', JStr snap)]))))"

definition gc_request :: "'w api_server \<Rightarrow> http_request \<Rightarrow> gc_config option" where
  "gc_request S r =
     (let c = baseline_gc_config (as_env S); v = query_get ''keep_last'' r;
          dry = (query_get ''dry_run'' r = ''true'');
          dried = (\<lambda>c. if dry then c\<lparr>gc_dry_run := True\<rparr> else c) in
      if v = [] then Some (dried c)
      else (case atoi v of None \<Rightarrow> None | Some n \<Rightarrow> if n < 0 then None else Some (dried (c\<lparr>gc_keep_last := n\<rparr>))))"

definition handle_gc_baselines :: "'w api_server \<Rightarrow> http_request \<Rightarrow> ('w, response) api_act" where
  "handle_gc_baselines S r = (case gc_request S r of
      None \<Rightarrow> ret (err_response 400 ''invalid_name'' ''keep_last must be a non-negative integer'')
    | Some c \<Rightarrow> check (on_mgr (gc_baselines (as_env S) c)) (\<lambda>res.
        ret (json_response 200 (JObj [(''deleted'', JList (map JStr (gr_deleted res))),
          (''kept'', JList (map JStr (gr_kept res))), (''dry_run'', JBool (gc_dry_run c))]))))"

section \<open>Reports\<close>

definition capacity_json :: "'w api_server \<Rightarrow> capacity \<Rightarrow> json" where
  "capacity_json S c =
     (let known = ca_introspectable c;
          mem = (if ca_mem_available c \<le> 0 then -1 else ca_mem_available c) in
      with_host_name S [
        (''storage'', JObj [(''introspectable'', JBool known),
           (''pool_used_bytes'', JInt (if known then ca_pool_used c else -1)),
           (''pool_total_bytes'', JInt (if known then ca_pool_total c else -1)),
           (''pool_used_ratio'', if known then JRatio (ca_pool_used c, ca_pool_total c) else JInt (-1)),
           (''high_watermark'', JRatio (c_high_mark (cfg (as_env S)))),
           (''critical_watermark'', JRatio (c_critical_mark (cfg (as_env S))))]),
        (''ports'', JObj [(''used'', JInt (int (ca_ports_used c))), (''total'', JInt (ca_ports_total c))]),
        (''memory'', JObj [(''available_bytes'', JInt mem),
           (''expected_rss_bytes'', JInt (ca_expected_rss c))]),
        (''branches'', JObj [(''running'', JInt (int (ca_running c))),
           (''max_running'', JInt (ca_max_running c)), (''max_branches'', JInt (ca_max_branches c))])])"

definition handle_capacity :: "'w api_server \<Rightarrow> ('w, response) api_act" where
  "handle_capacity S = check (on_mgr (capacity_report (as_env S))) (\<lambda>c.
     ret (json_response 200 (capacity_json S c)))"

definition doctor_json :: "doctor_report \<Rightarrow> json" where
  "doctor_json d = JObj [(''pool_healthy'', JBool (do_pool_healthy d)),
     (''pool_status_healthy'', JBool (do_pool_status_healthy d)),
     (''pool_status_detail'', JStr (do_pool_status_detail d)),
     (''pool_used_ratio'', JRatio (do_pool_ratio d)), (''current_baseline'', JStr (do_current d)),
     (''baseline_masked'', JBool (do_masked d)), (''baseline_validated'', JBool (do_validated d)),
     (''state_db_writable'', JBool (do_writable d)), (''branch_count'', JInt (int (do_branches d))),
     (''port_conflicts'', JList (map JStr (do_port_conflicts d))),
     (''exposed_listeners'', JList (map JStr (do_exposed d))),
     (''orphans'', JList (map JStr (do_orphans d))), (''memory_headroom_ok'', JBool (do_mem_ok d)),
     (''issues'', JList (map JStr (do_issues d))),
     (''checks'', JList (map (\<lambda>c. JObj [(''name'', JStr (dc_name c)), (''status'', JStr (dc_status c)),
        (''detail'', JStr (dc_detail c))]) (do_checks d)))]"

definition handle_doctor :: "'w api_server \<Rightarrow> ('w, response) api_act" where
  "handle_doctor S = check (on_mgr (doctor (as_env S) (as_machine S))) (\<lambda>d.
     ret (json_response 200 (doctor_json d)))"

definition handle_gc_orphans :: "'w api_server \<Rightarrow> ('w, response) api_act" where
  "handle_gc_orphans S = check (on_mgr (gc_orphans (as_env S))) (\<lambda>del.
     ret (json_response 200 (JObj [(''deleted'', JList (map JStr del))])))"

definition handle_drain :: "'w api_server \<Rightarrow> ('w, response) api_act" where
  "handle_drain S = check (on_mgr (drain (as_env S))) (\<lambda>res.
     ret (json_response 200 (JObj [(''slept'', JList (map JStr (dr_slept res))),
       (''skipped'', JList (map JStr (dr_skipped res))),
       (''failed'', JObj (map (\<lambda>(n, e). (n, JStr e)) (dr_failed res)))])))"

definition handle_healthz :: "'w api_server \<Rightarrow> ('w, response) api_act" where
  "handle_healthz S = ret (json_response 200 (with_host_name S [(''status'', JStr ''ok'')]))"

definition handle_web_ui :: "http_request \<Rightarrow> ('w, response) api_act" where
  "handle_web_ui r = ret (if url_path r \<noteq> ''/''
     then \<lparr>rs_status = 404, rs_op = [], rs_content = Plain ''404 page not found''\<rparr>
     else \<lparr>rs_status = 200, rs_op = [], rs_content = Page\<rparr>)"

section \<open>Branches\<close>

definition handle_list :: "'w api_server \<Rightarrow> ('w, response) api_act" where
  "handle_list S = check (on_mgr (list_info (as_env S))) (\<lambda>is.
     reading (\<lambda>s. hook_runs (mdb (ap_mgr s))) (\<lambda>hs.
     ret (json_response 200
       (with_host_name S [(''branches'', JList (map (to_json S (hook_events hs)) is))]))))"

text \<open>\<^verbatim>\<open>parseDur\<close>: days and weeks beside what \<^verbatim>\<open>time.ParseDuration\<close> reads.\<close>

definition parse_dur :: "'w api_server \<Rightarrow> string \<Rightarrow> int option" where
  "parse_dur S text =
     (let s = trim_space text in
      if length s \<ge> 2 \<and> last s = CHR ''d'' then gl_scaled_float (as_lib S) (butlast s) (24 * hour)
      else if length s \<ge> 2 \<and> last s = CHR ''w'' then gl_scaled_float (as_lib S) (butlast s) (7 * 24 * hour)
      else gl_parse_duration (as_lib S) s)"

text \<open>\<^verbatim>\<open>parseExpiry\<close>: the moment of expiry, \<open>None\<close> without one, or what is wrong; the clock is read
  only to compare or to add.\<close>

definition parse_expiry ::
  "'w api_server \<Rightarrow> string \<Rightarrow> string \<Rightarrow> string \<Rightarrow> string \<Rightarrow> ('w, string + int option) api_act" where
  "parse_expiry S ttl expires rel abso =
     (if ttl \<noteq> [] \<and> expires \<noteq> []
      then ret (Inl (rel @ '' and '' @ abso @ '' are mutually exclusive''))
      else if expires \<noteq> [] then (case gl_parse_time (as_lib S) expires of
          None \<Rightarrow> ret (Inl (''invalid '' @ abso @ '' (need RFC3339)''))
        | Some t \<Rightarrow> check (on_mgr (now (as_env S))) (\<lambda>n.
            ret (if \<not> t > n then Inl (abso @ '' must be in the future'') else Inr (Some t))))
      else if ttl \<noteq> [] then (case parse_dur S ttl of
          None \<Rightarrow> ret (Inl (''invalid '' @ rel))
        | Some d \<Rightarrow> if d \<le> 0 then ret (Inl (rel @ '' must be > 0''))
            else check (on_mgr (now (as_env S))) (\<lambda>n. ret (Inr (Some (n + d)))))
      else ret (Inr None))"

record create_request =
  cr_name :: string
  cr_port :: int
  cr_meta :: meta
  cr_ttl :: string
  cr_baseline :: string
  cr_expires :: string

definition create_request_of :: "http_request \<Rightarrow> create_request option" where
  "create_request_of r = (case body_members (rq_body r) of None \<Rightarrow> None | Some ms \<Rightarrow>
     (case (str_field ''name'' ms, int_field ''port'' ms, str_field ''profile'' ms, str_field ''owner'' ms,
            str_field ''purpose'' ms, raw_field ''source'' ms, str_field ''ttl'' ms,
            str_field ''baseline'' ms, str_field ''expires_at'' ms) of
        (Some n, Some p, Some pr, Some ow, Some pu, Some src, Some ttl, Some bl, Some ex) \<Rightarrow>
          Some \<lparr>cr_name = n, cr_port = p,
            cr_meta = \<lparr>m_profile = pr, m_owner = ow, m_purpose = pu, m_source = src\<rparr>,
            cr_ttl = ttl, cr_baseline = bl, cr_expires = ex\<rparr>
      | _ \<Rightarrow> None))"

text \<open>The job of a creation: the branch, then its lease.\<close>

definition create_job :: "'w api_server \<Rightarrow> create_request \<Rightarrow> int option \<Rightarrow> ('w, unit) mact" where
  "create_job S c expiry =
     check (create_with_meta_from (as_env S) (cr_name c) (cr_port c) (cr_meta c) (cr_baseline c)) (\<lambda>_.
     case expiry of None \<Rightarrow> ret () | Some t \<Rightarrow> dropping (lease_until (as_env S) (cr_name c) t))"

definition handle_create :: "'w api_server \<Rightarrow> http_request \<Rightarrow> ('w, response) api_act" where
  "handle_create S r = (case create_request_of r of
      None \<Rightarrow> ret (err_response 400 ''invalid_name'' ''invalid request body'')
    | Some c \<Rightarrow>
        if \<not> valid_name (as_env S) (cr_name c) then throw EInvalidName
        else check (parse_expiry S (cr_ttl c) (cr_expires c) ''ttl'' ''expires_at'') (\<lambda>ex. case ex of
            Inl msg \<Rightarrow> ret (err_response 400 ''invalid_request'' msg)
          | Inr expiry \<Rightarrow> attempt (on_mgr (get_info (as_env S) (cr_name c))) (\<lambda>g. case g of
              Inr i \<Rightarrow> if query_get ''exist_ok'' r = ''true'' then branch_response S 200 i
                       else throw EExists
            | Inl _ \<Rightarrow> accepted S ''create'' (cr_name c) (create_job S c expiry))))"

definition lease_request :: "http_request \<Rightarrow> (string \<times> string) option" where
  "lease_request r = (case body_members (rq_body r) of None \<Rightarrow> None | Some ms \<Rightarrow>
     (case (str_field ''for'' ms, str_field ''until'' ms) of
        (Some f, Some u) \<Rightarrow> if f = [] \<and> u = [] then None else Some (f, u)
      | _ \<Rightarrow> None))"

text \<open>A moment of expiry is always there: one of the two fields was given.\<close>

definition lease_and_get :: "'w api_server \<Rightarrow> string \<Rightarrow> int option \<Rightarrow> ('w, info) mact" where
  "lease_and_get S name expiry =
     check (lease_until (as_env S) name (case expiry of None \<Rightarrow> 0 | Some t \<Rightarrow> t)) (\<lambda>_. get_info (as_env S) name)"

definition tracked :: "'w api_server \<Rightarrow> string \<Rightarrow> string \<Rightarrow> ('w, info) mact \<Rightarrow> ('w, response) api_act" where
  "tracked S ty name m = check (track S ty name m) (\<lambda>(i, inf).
     check (branch_response S 200 inf) (\<lambda>resp. ret (with_op_id i resp)))"

definition handle_lease :: "'w api_server \<Rightarrow> http_request \<Rightarrow> string \<Rightarrow> ('w, response) api_act" where
  "handle_lease S r name = (case lease_request r of
      None \<Rightarrow> ret (err_response 400 ''invalid_request'' ''invalid request body'')
    | Some (f, u) \<Rightarrow> check (parse_expiry S f u ''for'' ''until'') (\<lambda>ex. case ex of
        Inl msg \<Rightarrow> ret (err_response 400 ''invalid_request'' msg)
      | Inr expiry \<Rightarrow> tracked S ''lease'' name (lease_and_get S name expiry)))"

definition handle_get :: "'w api_server \<Rightarrow> string \<Rightarrow> ('w, response) api_act" where
  "handle_get S name = check (on_mgr (get_info (as_env S) name)) (branch_response S 200)"

definition handle_wake :: "'w api_server \<Rightarrow> string \<Rightarrow> ('w, response) api_act" where
  "handle_wake S name = tracked S ''wake'' name (wake (as_env S) name)"

definition sleep_and_get :: "'w api_server \<Rightarrow> string \<Rightarrow> ('w, info) mact" where
  "sleep_and_get S name = check (sleep_branch (as_env S) name) (\<lambda>_. get_info (as_env S) name)"

definition handle_sleep :: "'w api_server \<Rightarrow> string \<Rightarrow> ('w, response) api_act" where
  "handle_sleep S name = tracked S ''sleep'' name (sleep_and_get S name)"

text \<open>The refusals that can be told at once, then the job.\<close>

definition guarded_job ::
  "'w api_server \<Rightarrow> string \<Rightarrow> string \<Rightarrow> ('w, unit) mact \<Rightarrow> ('w, response) api_act" where
  "guarded_job S ty name work = check (on_mgr (check_branch_mutation (as_env S) name ty)) (\<lambda>_.
     accepted S ty name work)"

definition handle_reset :: "'w api_server \<Rightarrow> string \<Rightarrow> ('w, response) api_act" where
  "handle_reset S name = guarded_job S ''reset'' name (dropping (reset (as_env S) name))"

definition handle_recreate :: "'w api_server \<Rightarrow> string \<Rightarrow> ('w, response) api_act" where
  "handle_recreate S name = guarded_job S ''recreate'' name (dropping (recreate (as_env S) name))"

definition handle_retry :: "'w api_server \<Rightarrow> string \<Rightarrow> ('w, response) api_act" where
  "handle_retry S name = guarded_job S ''retry'' name (dropping (retry (as_env S) name))"

definition handle_delete :: "'w api_server \<Rightarrow> string \<Rightarrow> ('w, response) api_act" where
  "handle_delete S name = guarded_job S ''delete'' name (delete (as_env S) name)"

definition handle_run_hook :: "'w api_server \<Rightarrow> string \<Rightarrow> string \<Rightarrow> ('w, response) api_act" where
  "handle_run_hook S name event =
     check (on_mgr (run_hook_manually (as_env S) name (event_of event))) (\<lambda>_.
     ret (json_response 200 (JObj [(''status'', JStr ''ran''), (''event'', JStr event)])))"

definition handle_list_ops :: "'w api_server \<Rightarrow> ('w, response) api_act" where
  "handle_list_ops S = check (on_mgr (sql (as_env S) (list_operations 50))) (\<lambda>ps.
     ret (json_response 200 (JObj [(''operations'', JList (map op_json ps))])))"

definition handle_get_op :: "'w api_server \<Rightarrow> string \<Rightarrow> ('w, response) api_act" where
  "handle_get_op S i = check (on_mgr (sql (as_env S) (get_operation i))) (\<lambda>p.
     ret (json_response 200 (op_json p)))"

section \<open>Routes\<close>

datatype endpoint =
    EpList | EpCreate | EpGet | EpReset | EpRecreate | EpWake | EpSleep | EpRetry | EpLease
  | EpRunHook | EpSchema | EpQuery | EpDelete | EpBaseline | EpRefresh | EpBaselines
  | EpSetBaseline | EpGcBaselines | EpBuild | EpValidate | EpDeleteBaseline | EpPromote
  | EpCapacity | EpDoctor | EpGcOrphans | EpDrain | EpHealthz | EpListOps | EpGetOp | EpWebUI

definition branch_routes :: "(string \<times> segment list \<times> endpoint) list" where
  "branch_routes = (let at = (\<lambda>rest. [Lit ''v1'', Lit ''branches''] @ rest) in [
     (''GET'', at [], EpList), (''POST'', at [], EpCreate), (''GET'', at [Wild], EpGet),
     (''POST'', at [Wild, Lit ''reset''], EpReset), (''POST'', at [Wild, Lit ''recreate''], EpRecreate),
     (''POST'', at [Wild, Lit ''wake''], EpWake), (''POST'', at [Wild, Lit ''sleep''], EpSleep),
     (''POST'', at [Wild, Lit ''retry''], EpRetry), (''POST'', at [Wild, Lit ''lease''], EpLease),
     (''POST'', at [Wild, Lit ''hooks'', Wild], EpRunHook), (''GET'', at [Wild, Lit ''schema''], EpSchema),
     (''POST'', at [Wild, Lit ''query''], EpQuery), (''DELETE'', at [Wild], EpDelete)])"

definition other_routes :: "(string \<times> segment list \<times> endpoint) list" where
  "other_routes = (let at = (\<lambda>rest. Lit ''v1'' # map Lit rest) in [
     (''GET'', at [''baseline''], EpBaseline), (''POST'', at [''baseline'', ''refresh''], EpRefresh),
     (''GET'', at [''baselines''], EpBaselines), (''POST'', at [''baseline'', ''set''], EpSetBaseline),
     (''POST'', at [''baseline'', ''gc''], EpGcBaselines), (''POST'', at [''baseline'', ''build''], EpBuild),
     (''POST'', at [''baseline'', ''validate''], EpValidate),
     (''POST'', at [''baseline'', ''publish''], EpSetBaseline),
     (''POST'', at [''baseline'', ''delete''], EpDeleteBaseline),
     (''POST'', at [''baseline'', ''promote''], EpPromote), (''GET'', at [''capacity''], EpCapacity),
     (''GET'', at [''doctor''], EpDoctor), (''POST'', at [''gc'', ''orphans''], EpGcOrphans),
     (''POST'', at [''drain''], EpDrain), (''GET'', at [''healthz''], EpHealthz)])"

definition ops_routes :: "(string \<times> segment list \<times> endpoint) list" where
  "ops_routes = [(''GET'', [Lit ''v1'', Lit ''operations''], EpListOps),
     (''GET'', [Lit ''v1'', Lit ''operations'', Wild], EpGetOp)]"

definition api_routes :: "'w api_server \<Rightarrow> (string \<times> segment list \<times> endpoint) list" where
  "api_routes S = branch_routes @ other_routes @ (if as_ops S then ops_routes else [])"

definition api_route :: "'w api_server \<Rightarrow> http_request \<Rightarrow> endpoint routing" where
  "api_route S r = route_request (api_routes S) EpWebUI r"

text \<open>The handlers, with the values of the wildcards.\<close>

fun run_endpoint ::
  "'w api_server \<Rightarrow> principal \<Rightarrow> http_request \<Rightarrow> string \<Rightarrow> string \<Rightarrow> endpoint \<Rightarrow> ('w, response) api_act"
where
  "run_endpoint S p r a b EpList = handle_list S"
| "run_endpoint S p r a b EpCreate = handle_create S r"
| "run_endpoint S p r a b EpGet = handle_get S a"
| "run_endpoint S p r a b EpReset = handle_reset S a"
| "run_endpoint S p r a b EpRecreate = handle_recreate S a"
| "run_endpoint S p r a b EpWake = handle_wake S a"
| "run_endpoint S p r a b EpSleep = handle_sleep S a"
| "run_endpoint S p r a b EpRetry = handle_retry S a"
| "run_endpoint S p r a b EpLease = handle_lease S r a"
| "run_endpoint S p r a b EpRunHook = handle_run_hook S a b"
| "run_endpoint S p r a b EpSchema = handle_schema S p r a"
| "run_endpoint S p r a b EpQuery = handle_query S p r a"
| "run_endpoint S p r a b EpDelete = handle_delete S a"
| "run_endpoint S p r a b EpBaseline = handle_baseline S"
| "run_endpoint S p r a b EpRefresh = handle_baseline_refresh S r"
| "run_endpoint S p r a b EpBaselines = handle_list_baselines S"
| "run_endpoint S p r a b EpSetBaseline = handle_set_baseline S r"
| "run_endpoint S p r a b EpGcBaselines = handle_gc_baselines S r"
| "run_endpoint S p r a b EpBuild = handle_baseline_build S"
| "run_endpoint S p r a b EpValidate = handle_baseline_validate S r"
| "run_endpoint S p r a b EpDeleteBaseline = handle_baseline_delete S r"
| "run_endpoint S p r a b EpPromote = handle_baseline_promote S r"
| "run_endpoint S p r a b EpCapacity = handle_capacity S"
| "run_endpoint S p r a b EpDoctor = handle_doctor S"
| "run_endpoint S p r a b EpGcOrphans = handle_gc_orphans S"
| "run_endpoint S p r a b EpDrain = handle_drain S"
| "run_endpoint S p r a b EpHealthz = handle_healthz S"
| "run_endpoint S p r a b EpListOps = handle_list_ops S"
| "run_endpoint S p r a b EpGetOp = handle_get_op S a"
| "run_endpoint S p r a b EpWebUI = handle_web_ui r"

definition dispatch :: "'w api_server \<Rightarrow> principal \<Rightarrow> http_request \<Rightarrow> ('w, response) api_act" where
  "dispatch S p r = (case api_route S r of
      MovedTo \<Rightarrow> ret \<lparr>rs_status = 301, rs_op = [], rs_content = Nothing\<rparr>
    | WrongMethod \<Rightarrow> ret \<lparr>rs_status = 405, rs_op = [], rs_content = Plain ''Method Not Allowed''\<rparr>
    | Matched ep vs \<Rightarrow> run_endpoint S p r (case vs of [] \<Rightarrow> [] | a # _ \<Rightarrow> a)
        (case vs of _ # b # _ \<Rightarrow> b | _ \<Rightarrow> []) ep)"

section \<open>The server\<close>

text \<open>\<^verbatim>\<open>callerOf\<close> of a request that did not pass the authentication.\<close>

definition nobody :: principal where
  "nobody = \<lparr>pr_name = [], pr_scope = []\<rparr>"

definition open_to_all :: "http_request \<Rightarrow> bool" where
  "open_to_all r \<longleftrightarrow> rq_method r = ''GET'' \<and> (url_path r = ''/v1/healthz'' \<or> url_path r = ''/'')"

definition forbidden_response :: "principal \<Rightarrow> http_request \<Rightarrow> response" where
  "forbidden_response p r = err_response 403 ''insufficient_scope''
     (''token '' @ quoted (pr_name p) @ '' (scope '' @ pr_scope p @ '') cannot '' @ rq_method r @ '' ''
        @ url_path r @ '': admin scope required'')"

definition serve_authenticated ::
  "'w api_server \<Rightarrow> http_request \<Rightarrow> principal option \<Rightarrow> ('w, response) api_act" where
  "serve_authenticated S r who = (case who of
      None \<Rightarrow> ret (err_response 401 ''unauthorized'' ''missing or invalid token'')
    | Some p \<Rightarrow> if pr_scope p \<noteq> scope_admin \<and> admin_only r then ret (forbidden_response p r)
        else dispatch S p r)"

definition serve_request :: "'w api_server \<Rightarrow> http_request \<Rightarrow> ('w, response) api_act" where
  "serve_request S r =
     (if open_to_all r then dispatch S nobody r
      else check (authenticate S r) (serve_authenticated S r))"

text \<open>\<^verbatim>\<open>ServeHTTP\<close>: what is sent, an error of the handler turned into its response.\<close>

definition serve_http :: "'w api_server \<Rightarrow> http_request \<Rightarrow> 'w api \<Rightarrow> response \<times> 'w api" where
  "serve_http S r s = (case serve_request S r s of
      (Inl e, s') \<Rightarrow> (write_error e, s') | (Inr resp, s') \<Rightarrow> (resp, s'))"

text \<open>
  A run of the daemon with its server: requests, jobs, the requests that reach the manager by other
  ways (the proxies, the reaper, the poller, the refresh), restarts, and changes of the world.
\<close>

inductive api_reach :: "'w api_server \<Rightarrow> 'w api \<Rightarrow> bool" for S where
  ar_start: "api_reach S (new_api (start_state w))"
| ar_request: "api_reach S s \<Longrightarrow> api_reach S (snd (serve_http S r s))"
| ar_job: "api_reach S s \<Longrightarrow> api_reach S (snd (run_api_job S k s))"
| ar_inside: "api_reach S s \<Longrightarrow>
     api_reach S (snd (on_mgr (serve (as_env S) (as_machine S) (as_policy S) rq) s))"
| ar_restart: "api_reach S s \<Longrightarrow> api_reach S (new_api (restarted w (ap_mgr s)))"
| ar_world: "api_reach S s \<Longrightarrow> api_reach S (s\<lparr>ap_mgr := (ap_mgr s)\<lparr>world := w\<rparr>\<rparr>)"

section \<open>Metrics\<close>

definition metric_head :: "string \<Rightarrow> string \<Rightarrow> string \<Rightarrow> string" where
  "metric_head name help kind = ''# HELP '' @ name @ '' '' @ help @ newline # ''# TYPE '' @ name @ '' ''
     @ kind @ [newline]"

definition metric_line :: "string \<Rightarrow> string \<Rightarrow> string" where
  "metric_line name v = name @ '' '' @ v @ [newline]"

definition labelled :: "string \<Rightarrow> (string \<times> string) list \<Rightarrow> string" where
  "labelled name ls = name @ ''{'' @ join_with '','' (map (\<lambda>(k, v). k @ ''='' @ quoted v) ls) @ ''}''"

definition gauge :: "string \<Rightarrow> string \<Rightarrow> string \<Rightarrow> string" where
  "gauge name help v = metric_head name help ''gauge'' @ metric_line name v"

definition branch_metrics :: "info list \<Rightarrow> bool \<Rightarrow> string" where
  "branch_metrics is refreshing =
     metric_head ''sashiki_branches'' ''Number of branches by state'' ''gauge''
     @ concat (map (\<lambda>st. metric_line (labelled ''sashiki_branches'' [(''state'', state_text st)])
         (show_int (int (length (filter (\<lambda>i. b_state (in_branch i) = st) is)))))
         [Creating, Running, Sleeping, Resetting, Deleting, Error_state])
     @ metric_head ''sashiki_branch_used_bytes'' ''CoW usage per branch'' ''gauge''
     @ concat (map (\<lambda>i. metric_line (labelled ''sashiki_branch_used_bytes''
         [(''branch'', b_name (in_branch i))]) (show_int (in_used i))) is)
     @ gauge ''sashiki_used_bytes_total'' ''Total CoW usage of all branches''
         (show_int (sum_list (map in_used is)))
     @ gauge ''sashiki_baseline_refreshing'' ''1 while a baseline refresh is running''
         (if refreshing then ''1'' else ''0'')"

definition capacity_metrics :: "'w api_server \<Rightarrow> capacity \<Rightarrow> string" where
  "capacity_metrics S c = (let g = gl_format_g (as_lib S); C = cfg (as_env S) in
     (if ca_introspectable c then
        gauge ''sashiki_pool_used_bytes'' ''Pool used bytes'' (show_int (ca_pool_used c))
        @ gauge ''sashiki_pool_total_bytes'' ''Pool total bytes'' (show_int (ca_pool_total c))
        @ gauge ''sashiki_pool_used_ratio'' ''Pool usage ratio (0-1)'' (g (ca_pool_used c, ca_pool_total c))
      else [])
     @ metric_head ''sashiki_storage_watermark'' ''Configured watermarks (0-1, 0 = disabled)'' ''gauge''
     @ metric_line (labelled ''sashiki_storage_watermark'' [(''level'', ''high'')]) (g (c_high_mark C))
     @ metric_line (labelled ''sashiki_storage_watermark'' [(''level'', ''critical'')]) (g (c_critical_mark C))
     @ gauge ''sashiki_memory_available_bytes'' ''MemAvailable at scrape time'' (show_int (ca_mem_available c))
     @ gauge ''sashiki_memory_expected_rss_bytes'' ''Expected RSS per running instance''
         (show_int (ca_expected_rss c))
     @ gauge ''sashiki_max_running'' ''Configured max concurrently running instances (0 = unlimited)''
         (show_int (ca_max_running c))
     @ gauge ''sashiki_ports_used'' ''Allocated ports'' (show_int (int (ca_ports_used c)))
     @ gauge ''sashiki_ports_total'' ''Ports in port_range'' (show_int (ca_ports_total c)))"

definition operation_metrics :: "'w api_server \<Rightarrow> operation_stats list \<Rightarrow> string" where
  "operation_metrics S stats =
     (let ls = (\<lambda>x. [(''type'', os_type x), (''state'', op_state_text (os_state x))]);
          cnt = (\<lambda>x. show_int (int (os_count x))) in
     metric_head ''sashiki_operations_total'' ''Operations by type and state'' ''counter''
     @ concat (map (\<lambda>x. metric_line (labelled ''sashiki_operations_total'' (ls x)) (cnt x)) stats)
     @ metric_head ''sashiki_operation_duration_seconds'' ''Total duration of finished operations'' ''counter''
     @ concat (map (\<lambda>x. if os_state x = OpRunning then []
         else metric_line (labelled ''sashiki_operation_duration_seconds_sum'' (ls x))
                (gl_format_g (as_lib S) (os_duration x, 1))
            @ metric_line (labelled ''sashiki_operation_duration_seconds_count'' (ls x)) (cnt x)) stats))"

definition hook_metrics :: "nat \<Rightarrow> string" where
  "hook_metrics n = metric_head ''sashiki_hook_failures_total'' ''Hook runs with non-zero exit code'' ''counter''
     @ metric_line ''sashiki_hook_failures_total'' (show_int (int n))"

text \<open>\<^verbatim>\<open>MetricsHandler\<close>: the list of branches must be there, every other part may be missing.\<close>

definition metrics_page :: "'w api_server \<Rightarrow> ('w, response) api_act" where
  "metrics_page S = handle_err (on_mgr (list_info (as_env S)))
     (\<lambda>e. ret \<lparr>rs_status = 500, rs_op = [], rs_content = Plain (err_text e @ [newline])\<rparr>) (\<lambda>is.
     reading ap_mgr (\<lambda>m.
     attempt (on_mgr (capacity_report (as_env S))) (\<lambda>c.
     attempt (on_mgr (operation_stats_report (as_env S))) (\<lambda>st.
     attempt (on_mgr (hook_failures_report (as_env S))) (\<lambda>h.
     ret \<lparr>rs_status = 200, rs_op = [], rs_content = Plain (branch_metrics is (refresh_running m)
       @ (case c of Inl _ \<Rightarrow> [] | Inr c \<Rightarrow> capacity_metrics S c)
       @ (case st of Inl _ \<Rightarrow> [] | Inr l \<Rightarrow> operation_metrics S l)
       @ (case h of Inl _ \<Rightarrow> [] | Inr n \<Rightarrow> hook_metrics n))\<rparr>)))))"

end
