(* ===== verification/ApiFacts.thy ===== *)
theory ApiFacts
  imports ApiServer
begin

text \<open>
  What the server guarantees: every run of it is a run of the manager; who reaches which handler;
  what the responses promise.
\<close>

section \<open>A sample server\<close>

definition sample_lib :: go_lib where
  "sample_lib = \<lparr>gl_loopback_ip = (\<lambda>s. s = ''127.0.0.1'' \<or> s = ''::1''), gl_url_host = (\<lambda>s. Some s),
     gl_media_type = id, gl_parse_time = (\<lambda>s. None), gl_parse_duration = (\<lambda>s. None),
     gl_scaled_float = (\<lambda>s n. None), gl_format_g = (\<lambda>x. []), gl_sha256 = id\<rparr>"

definition sample_browser :: "int browser" where
  "sample_browser = \<lparr>br_first_db = (\<lambda>d. succeed None),
     br_schema = (\<lambda>d q. succeed \<lparr>rt_rows = [], rt_err = None\<rparr>),
     br_query = (\<lambda>d q. succeed (Inr [], \<lparr>rt_rows = [], rt_err = None\<rparr>))\<rparr>"

definition sample_api :: "int api_server" where
  "sample_api = \<lparr>as_env = sample_env, as_machine = sample_host, as_policy = no_request,
     as_domain = ''db.example.com'', as_engine = ''mysql'', as_user = ''dev'', as_pass = ''dev'',
     as_token = [], as_tokens = True, as_ops = True, as_proxy_port = 3306, as_trust_loopback = True,
     as_host_name = [], as_new_id = (\<lambda>w. (''op_1'', w)), as_lib = sample_lib,
     as_browser = sample_browser\<rparr>"

definition sample_request :: "string \<Rightarrow> string \<Rightarrow> string \<Rightarrow> body \<Rightarrow> http_request" where
  "sample_request m path auth b = \<lparr>rq_method = m, rq_path = path, rq_query = [],
     rq_remote = ''10.0.0.9:4000'', rq_host = ''db.example.com'', rq_auth = auth, rq_origin = [],
     rq_ctype = ''application/json'', rq_body = b\<rparr>"

lemma sample_api_parts [simp]:
  "as_env sample_api = sample_env" "as_machine sample_api = sample_host"
  "as_policy sample_api = no_request" "as_ops sample_api" "as_domain sample_api = ''db.example.com''"
  by (simp_all add: sample_api_def)

section \<open>The server only makes requests to the manager\<close>

abbreviation runs_on :: "'w api_server \<Rightarrow> 'w mgr \<Rightarrow> bool" where
  "runs_on S \<equiv> mgr_reach (as_env S) (as_machine S) (as_policy S)"

abbreviation mgr_safe :: "'w api_server \<Rightarrow> ('w, 'a) mact \<Rightarrow> bool" where
  "mgr_safe S \<equiv> keeps (\<lambda>m m'. runs_on S m \<longrightarrow> runs_on S m')"

definition api_ok :: "'w api_server \<Rightarrow> 'w api \<Rightarrow> bool" where
  "api_ok S s \<longleftrightarrow> runs_on S (ap_mgr s) \<and> (\<forall>j \<in> set (ap_jobs s). mgr_safe S (jb_work j))"

abbreviation api_safe :: "'w api_server \<Rightarrow> ('w, 'a) api_act \<Rightarrow> bool" where
  "api_safe S \<equiv> keeps (\<lambda>s s'. api_ok S s \<longrightarrow> api_ok S s')"

interpretation in_mgr: effect_relation "\<lambda>m m'. runs_on S m \<longrightarrow> runs_on S m'" for S :: "'w api_server"
  by unfold_locales auto

interpretation in_api: effect_relation "\<lambda>s s'. api_ok S s \<longrightarrow> api_ok S s'" for S :: "'w api_server"
  by unfold_locales auto

lemma snd_dropping: "snd (dropping m s) = snd (m s)"
  by (auto simp: dropping_def check_def ret_def split: prod.splits sum.splits)

lemma keeps_dropping: "keeps R (dropping m) = keeps R m"
  by (simp add: keeps_def snd_dropping)

lemma mgr_serve: "mgr_safe S (serve (as_env S) (as_machine S) (as_policy S) rq)"
  by (rule in_mgr.keepsI) (simp add: run_request)

lemma mgr_requests:
  "mgr_safe S (create_with_meta_from (as_env S) n port m bl)" "mgr_safe S (reset (as_env S) n)"
  "mgr_safe S (recreate (as_env S) n)" "mgr_safe S (delete (as_env S) n)"
  "mgr_safe S (wake (as_env S) n)" "mgr_safe S (retry (as_env S) n)"
  "mgr_safe S (run_hook_manually (as_env S) n ev)"
  "mgr_safe S (check_branch_mutation (as_env S) n verb)" "mgr_safe S (list_info (as_env S))"
  "mgr_safe S (sleep_branch (as_env S) n)" "mgr_safe S (drain (as_env S))"
  "mgr_safe S (gc_orphans (as_env S))" "mgr_safe S (prepare_build (as_env S))"
  "mgr_safe S (promote_branch (as_env S) (as_machine S) (as_policy S) n opts)"
  "mgr_safe S (validate_baseline (as_env S) (as_machine S) (as_policy S) snap)"
  "mgr_safe S (set_baseline (as_env S) (as_policy S) snap)" "mgr_safe S (gc_baselines (as_env S) c)"
  "mgr_safe S (delete_baseline (as_env S) snap)"
  "mgr_safe S (refresh_begin (as_env S) (as_machine S) (as_policy S) req)"
  "mgr_safe S (build_baseline (as_env S) (as_machine S) (as_policy S) tag)"
  "mgr_safe S (get_info (as_env S) n)" "mgr_safe S (lease_until (as_env S) n t)"
  "mgr_safe S (doctor (as_env S) (as_machine S))" "mgr_safe S (capacity_report (as_env S))"
  "mgr_safe S (baseline_report (as_env S))" "mgr_safe S (list_baseline_rows (as_env S))"
  using mgr_serve [of S "RqCreate n port m bl"] mgr_serve [of S "RqReset n"] mgr_serve [of S "RqRecreate n"]
    mgr_serve [of S "RqDelete n"] mgr_serve [of S "RqWake n"] mgr_serve [of S "RqRetry n"]
    mgr_serve [of S "RqHook n ev"] mgr_serve [of S "RqCheck n verb"] mgr_serve [of S RqList]
    mgr_serve [of S "RqSleep n"] mgr_serve [of S RqDrain] mgr_serve [of S RqGcOrphans]
    mgr_serve [of S RqPrepareBuild] mgr_serve [of S "RqPromote n opts"] mgr_serve [of S "RqValidate snap"]
    mgr_serve [of S "RqSetBaseline snap"] mgr_serve [of S "RqGcBaselines c"]
    mgr_serve [of S "RqDeleteBaseline snap"] mgr_serve [of S "RqRefresh req"] mgr_serve [of S "RqBuild tag"]
    mgr_serve [of S "RqGet n"] mgr_serve [of S "RqLeaseUntil n t"] mgr_serve [of S RqDoctor]
    mgr_serve [of S RqCapacity] mgr_serve [of S RqBaseline] mgr_serve [of S RqBaselineRows]
  by (simp_all add: keeps_dropping)

text \<open>Calls that change the world, and statements on the other tables.\<close>

lemma mgr_world: "mgr_safe S (ext c)" "mgr_safe S (pure_ext d)" "mgr_safe S (now E)"
  by (auto intro!: in_mgr.keepsI simp: ext_def pure_ext_def now_def run_world split: prod.splits)

definition other_tables :: "'a sql \<Rightarrow> bool" where
  "other_tables q \<longleftrightarrow> (\<forall>d. db_write d (snd (q d)) \<and> branches (snd (q d)) = branches d
     \<and> baselines (snd (q d)) = baselines d)"

lemma mgr_sql: "other_tables q \<or> (\<forall>d. snd (q d) = d) \<Longrightarrow> mgr_safe S (sql E q)"
proof (rule in_mgr.keepsI, rule impI)
  fix m assume q: "other_tables q \<or> (\<forall>d. snd (q d) = d)" and m: "runs_on S m"
  obtain f w where w: "sql_fault E (world m) = (f, w)" by force
  obtain r d where d: "q (mdb m) = (r, d)" by force
  have W: "runs_on S (m\<lparr>world := w\<rparr>)" using m by (rule run_world)
  show "runs_on S (snd (sql E q m))"
  proof (cases f)
    case (Some e)
    then show ?thesis using W w by (simp add: sql_def)
  next
    case None
    have "runs_on S (m\<lparr>world := w, mdb := d\<rparr>)"
    proof (cases "snd (q (mdb m)) = mdb m")
      case True
      then have "m\<lparr>world := w, mdb := d\<rparr> = m\<lparr>world := w\<rparr>" using d by simp
      then show ?thesis using W by simp
    next
      case False
      with q have "other_tables q" by blast
      then show ?thesis using run_other [OF W, of d] d
        by (auto simp: other_tables_def dest: spec [of _ "mdb m"])
    qed
    then show ?thesis using w d None by (simp add: sql_def)
  qed
qed

lemma mgr_sql_at: "(\<And>t. other_tables (q t)) \<Longrightarrow> mgr_safe S (sql_at E q)"
  unfolding sql_at_def by (intro in_mgr.keeps_check mgr_world mgr_sql) auto

lemma other_token: "other_tables (lookup_token_hash t h)"
proof -
  have "branches (snd (lookup_token_hash t h d)) = branches d"
    "baselines (snd (lookup_token_hash t h d)) = baselines d" for d
    by (auto simp: lookup_token_hash_def split: option.splits)
  then show ?thesis using w_lookup_token by (simp add: other_tables_def)
qed

lemma other_create_op: "other_tables (create_operation t i ty target)"
  using w_create_op [of _ t i ty target] by (auto simp: other_tables_def create_operation_def)

lemma other_start_op: "other_tables (start_op t i ty target)"
proof -
  have "snd (start_op t i ty target d) = snd (create_operation t i ty target d)" for d
    by (auto simp: start_op_def split: prod.splits sum.splits)
  then show ?thesis using other_create_op by (simp add: other_tables_def)
qed

lemma other_finish_op: "other_tables (finish_operation t i c m)"
  using w_finish_op [of _ t i c m] by (auto simp: other_tables_def finish_operation_def)

lemma other_record: "other_tables (\<lambda>d. (Inr (), record_result t i r d))"
  using other_finish_op by (auto simp: other_tables_def record_result_def split: prod.splits)

lemmas mgr_statements = mgr_sql_at [OF other_token] mgr_sql_at [OF other_create_op]
  mgr_sql_at [OF other_start_op] mgr_sql_at [OF other_finish_op] mgr_sql_at [OF other_record]

lemma mgr_reads: "mgr_safe S (sql E (list_operations l))" "mgr_safe S (sql E (get_operation i))"
  by (auto intro!: mgr_sql simp: list_operations_def get_operation_def Let_def split: option.splits)

section \<open>Handlers keep it\<close>

lemma api_on_mgr: "mgr_safe S m \<Longrightarrow> api_safe S (on_mgr m)"
  by (rule in_api.keepsI) (auto simp: on_mgr_def api_ok_def keeps_def split: prod.splits dest: spec [of _ "ap_mgr _"])

lemma api_modifying:
  "(\<And>s. ap_mgr (f s) = ap_mgr s) \<Longrightarrow> (\<And>s. set (ap_jobs (f s)) \<subseteq> set (ap_jobs s)) \<Longrightarrow>
   api_safe S (modifying f)"
  by (rule in_api.keepsI) (auto simp: modifying_def api_ok_def subset_iff)

lemma api_start_job: "mgr_safe S work \<Longrightarrow> api_safe S (start_job S ty target excl work)"
proof -
  assume w: "mgr_safe S work"
  have "api_safe S (modifying (\<lambda>s. s\<lparr>ap_jobs := ap_jobs s @ [\<lparr>jb_id = i, jb_type = ty,
      jb_target = target, jb_exclusive = excl, jb_work = work\<rparr>]\<rparr>))" for i
    using w by (intro in_api.keepsI) (auto simp: modifying_def api_ok_def)
  then show ?thesis
    unfolding start_job_def draw_id_def
    by (intro in_api.keeps_check in_api.keeps_ret api_on_mgr mgr_world mgr_statements)
qed

lemma api_start_exclusive: "mgr_safe S work \<Longrightarrow> api_safe S (start_exclusive S ty target work)"
  unfolding start_exclusive_def
  by (intro in_api.keeps_intros api_modifying api_start_job) simp_all

lemma api_accepted: "mgr_safe S work \<Longrightarrow> api_safe S (accepted S ty target work)"
  unfolding accepted_def
  by (intro in_api.keeps_intros api_on_mgr api_start_job api_start_exclusive)

lemma api_track: "mgr_safe S m \<Longrightarrow> api_safe S (track S ty target m)"
  unfolding track_def draw_id_def
  by (intro in_api.keeps_intros api_on_mgr mgr_world mgr_statements)

lemma api_branch_response: "api_safe S (branch_response S code i)"
  unfolding branch_response_def by (intro in_api.keeps_intros)

lemma api_tracked: "mgr_safe S m \<Longrightarrow> api_safe S (tracked S ty n m)"
  unfolding tracked_def by (intro in_api.keeps_intros api_track api_branch_response)

lemma api_guarded: "mgr_safe S work \<Longrightarrow> api_safe S (guarded_job S ty n work)"
  unfolding guarded_job_def by (intro in_api.keeps_intros api_on_mgr mgr_requests api_accepted)

lemma api_parse_expiry: "api_safe S (parse_expiry S a b c d)"
  unfolding parse_expiry_def by (intro in_api.keeps_intros api_on_mgr mgr_world)

lemma api_needing: "(\<And>v. api_safe S (k v)) \<Longrightarrow> api_safe S (needing_field key r k)"
  unfolding needing_field_def by (intro in_api.keeps_intros)

lemma mgr_jobs: "mgr_safe S (create_job S c ex)" "mgr_safe S (build_job S tag)"
  "mgr_safe S (lease_and_get S n t)" "mgr_safe S (sleep_and_get S n)"
  unfolding create_job_def build_job_def lease_and_get_def sleep_and_get_def keeps_dropping
  by (intro in_mgr.keeps_intros mgr_requests; simp add: keeps_dropping mgr_requests)+

lemma mgr_dropped: "mgr_safe S m \<Longrightarrow> mgr_safe S (dropping m)"
  by (simp add: keeps_dropping)

lemma api_branch_db: "api_safe S (branch_db S n)"
  unfolding branch_db_def pg_browse_database_def Let_def
  by (intro in_api.keeps_intros api_on_mgr mgr_requests mgr_world)

lemma api_run_query: "api_safe S (run_query S d q)"
  unfolding run_query_def by (intro in_api.keeps_intros api_on_mgr mgr_world)

lemma api_handlers:
  "api_safe S (handle_list S)" "api_safe S (handle_create S r)" "api_safe S (handle_get S a)"
  "api_safe S (handle_reset S a)" "api_safe S (handle_recreate S a)" "api_safe S (handle_wake S a)"
  "api_safe S (handle_sleep S a)" "api_safe S (handle_retry S a)" "api_safe S (handle_lease S r a)"
  "api_safe S (handle_run_hook S a b)" "api_safe S (handle_schema S p r a)"
  "api_safe S (handle_query S p r a)" "api_safe S (handle_delete S a)"
  unfolding handle_list_def handle_create_def handle_get_def handle_reset_def handle_recreate_def
    handle_wake_def handle_sleep_def handle_retry_def handle_lease_def handle_run_hook_def
    handle_schema_def handle_query_def handle_delete_def
  by (intro in_api.keeps_intros api_on_mgr mgr_requests mgr_world api_branch_response api_tracked
      api_guarded mgr_dropped mgr_jobs api_parse_expiry api_accepted api_branch_db api_run_query)+

lemma api_other_handlers:
  "api_safe S (handle_baseline S)" "api_safe S (handle_baseline_refresh S r)"
  "api_safe S (handle_list_baselines S)" "api_safe S (handle_set_baseline S r)"
  "api_safe S (handle_gc_baselines S r)" "api_safe S (handle_baseline_build S)"
  "api_safe S (handle_baseline_validate S r)" "api_safe S (handle_baseline_delete S r)"
  "api_safe S (handle_baseline_promote S r)" "api_safe S (handle_capacity S)"
  "api_safe S (handle_doctor S)" "api_safe S (handle_gc_orphans S)" "api_safe S (handle_drain S)"
  "api_safe S (handle_healthz S)" "api_safe S (handle_list_ops S)" "api_safe S (handle_get_op S a)"
  "api_safe S (handle_web_ui r)"
  unfolding handle_baseline_def handle_baseline_refresh_def handle_list_baselines_def
    handle_set_baseline_def handle_gc_baselines_def handle_baseline_build_def
    handle_baseline_validate_def handle_baseline_delete_def handle_baseline_promote_def
    handle_capacity_def handle_doctor_def handle_gc_orphans_def handle_drain_def handle_healthz_def
    handle_list_ops_def handle_get_op_def handle_web_ui_def
  by (intro in_api.keeps_intros api_on_mgr mgr_requests mgr_reads mgr_jobs api_accepted
      api_start_job api_needing)+

lemma api_endpoint: "api_safe S (run_endpoint S p r a b ep)"
  by (cases ep) (simp_all add: api_handlers api_other_handlers)

lemma api_dispatch: "api_safe S (dispatch S p r)"
  unfolding dispatch_def by (cases "api_route S r") (simp_all add: api_endpoint in_api.keeps_ret)

lemma api_authenticate: "api_safe S (authenticate S r)"
  unfolding authenticate_def Let_def
  by (intro in_api.keeps_intros api_on_mgr mgr_statements)

lemma api_serve: "api_safe S (serve_request S r)"
  unfolding serve_request_def serve_authenticated_def
  by (intro in_api.keeps_intros api_dispatch api_authenticate)

lemma snd_serve_http: "snd (serve_http S r s) = snd (serve_request S r s)"
  by (auto simp: serve_http_def split: prod.splits sum.splits)

lemma drop_job_set: "set (drop_job k js) \<subseteq> set js"
  unfolding drop_job_def using set_take_subset set_drop_subset by fastforce

lemma api_finish_job: "api_safe S (finish_job S k j r)"
  unfolding finish_job_def
  by (intro in_api.keeps_check api_modifying api_on_mgr mgr_statements) (simp_all add: drop_job_set)

lemma api_ok_job: "api_ok S s \<Longrightarrow> api_ok S (snd (run_api_job S k s))"
proof (cases "k < length (ap_jobs s)")
  case True
  assume ok: "api_ok S s"
  then have "mgr_safe S (jb_work (ap_jobs s ! k))" using True by (simp add: api_ok_def)
  then have "api_safe S (attempt (on_mgr (jb_work (ap_jobs s ! k))) (finish_job S k (ap_jobs s ! k)))"
    by (intro in_api.keeps_attempt api_on_mgr api_finish_job)
  then show ?thesis using ok True by (simp add: run_api_job_def reading_def keeps_def)
qed (simp add: run_api_job_def reading_def ret_def)

lemma api_run_ok: "api_reach S s \<Longrightarrow> api_ok S s"
proof (induction rule: api_reach.induct)
  case (ar_start w)
  show ?case by (simp add: api_ok_def new_api_def run_start)
next
  case (ar_request s r)
  with api_serve [of S r] show ?case by (simp add: snd_serve_http keeps_def)
next
  case (ar_job s k)
  then show ?case by (simp add: api_ok_job)
next
  case (ar_inside s rq)
  with api_on_mgr [OF mgr_serve, of S rq] show ?case by (simp add: keeps_def)
next
  case (ar_restart s w)
  then show ?case by (simp add: api_ok_def new_api_def run_restart)
next
  case (ar_world s w)
  then show ?case by (simp add: api_ok_def run_world)
qed



section \<open>The URI of a branch names its endpoint\<close>

lemma byte_high: "of_char (c :: char) div 16 < (16 :: nat)"
  using nat_of_char_less_256 [of c] by (simp add: less_mult_imp_div_less)

lemma hex_value_upper: "n < 16 \<Longrightarrow> hex_value (upper_hex n) = Some n"
  by (auto simp: hex_value_def upper_hex_def Let_def)

lemma plain_not_percent: "left_plain m c \<Longrightarrow> c \<noteq> CHR ''%''"
  by (cases m) (auto simp: left_plain_def alnum_char_def Let_def)

lemma unescape_escape: "url_unescape (url_escape m s @ t) = map_option (\<lambda>u. s @ u) (url_unescape t)"
proof (induction s)
  case Nil
  then show ?case by (cases "url_unescape t") (simp_all add: url_escape_def)
next
  case (Cons c s)
  have c: "char_of (16 * (of_char c div 16) + of_char c mod 16 :: nat) = c" by simp
  note lt = byte_high [of c]
  show ?case
  proof (cases "left_plain m c")
    case True
    then show ?thesis using Cons plain_not_percent [of m c]
      by (cases "url_unescape t") (simp_all add: url_escape_def)
  next
    case False
    then show ?thesis using Cons c lt
      by (cases "url_unescape t") (simp_all add: url_escape_def hex_value_upper)
  qed
qed

lemma upper_hex_plain: "n < 16 \<Longrightarrow> alnum_char (upper_hex n)"
  by (auto simp: upper_hex_def alnum_char_def Let_def)

lemma escape_chars: "c \<in> set (url_escape m s) \<Longrightarrow> left_plain m c \<or> c = CHR ''%''"
proof (induction s)
  case (Cons x s)
  have "alnum_char (upper_hex (of_char x div 16))" "alnum_char (upper_hex (of_char x mod 16))"
    by (simp_all add: upper_hex_plain byte_high)
  then show ?case using Cons by (auto simp: url_escape_def left_plain_def split: if_splits)
qed (simp add: url_escape_def)

lemma user_has_no_mark: "CHR ''@'' \<notin> set (url_escape InUser s)" "CHR ''/'' \<notin> set (url_escape InUser s)"
  "CHR '':'' \<notin> set (url_escape InUser s)"
  by (auto dest: escape_chars simp: left_plain_def alnum_char_def Let_def)

lemma escape_plain: "list_all (left_plain m) s \<Longrightarrow> url_escape m s = s"
  by (induction s) (simp_all add: url_escape_def)

lemma index_of_append: "c \<notin> set a \<Longrightarrow> index_of c (a @ c # b) = Some (length a)"
  by (simp add: index_of_def takeWhile_append)

lemma last_index_append:
  assumes "c \<notin> set b"
  shows "last_index_of c (a @ c # b) = Some (length a)"
proof -
  have "takeWhile (\<lambda>x. x \<noteq> c) (rev b @ c # rev a) = rev b"
    using assms by (subst takeWhile_append2) auto
  then show ?thesis using assms by (simp add: last_index_of_def index_of_def)
qed

text \<open>\<^verbatim>\<open>SplitHostPort\<close> undoes \<^verbatim>\<open>JoinHostPort\<close>.\<close>

lemma split_join_host_port:
  assumes "CHR ''['' \<notin> set h" "CHR '']'' \<notin> set h"
    and "CHR ''['' \<notin> set p" "CHR '']'' \<notin> set p" "CHR '':'' \<notin> set p"
  shows "split_host_port (join_addr h p) = Some (h, p)"
proof (cases "CHR '':'' \<in> set h")
  case True
  define s where "s = CHR ''['' # h @ '']:'' @ p"
  have e: "s = (CHR ''['' # h @ '']'') @ CHR '':'' # p" by (simp add: s_def)
  have l: "last_index_of (CHR '':'') s = Some (length h + 2)"
    unfolding e using assms last_index_append [of "CHR '':''" p "CHR ''['' # h @ '']''"] by simp
  have i: "index_of (CHR '']'') s = Some (length h + 1)"
    using assms index_of_append [of "CHR '']''" "CHR ''['' # h" "CHR '':'' # p"] by (simp add: s_def)
  have d: "drop 1 (take (length h + 1) s) = h" "drop (Suc (length h + 2)) s = p"
    "drop 1 s = h @ '']:'' @ p" "drop (length h + 2) s = CHR '':'' # p" "hd s = CHR ''[''"
    by (simp_all add: s_def)
  have "split_host_port s = Some (h, p)"
    unfolding split_host_port_def l i using assms d
    by (auto simp: Let_def)
  then show ?thesis using True by (simp add: join_addr_def s_def)
next
  case False
  define s where "s = h @ '':'' @ p"
  have l: "last_index_of (CHR '':'') s = Some (length h)"
    using assms last_index_append [of "CHR '':''" p h] by (simp add: s_def)
  have "hd s \<noteq> CHR ''[''" using assms by (cases h) (auto simp: s_def)
  then have "split_host_port s = Some (h, p)"
    unfolding split_host_port_def l using assms False by (simp add: Let_def s_def)
  then show ?thesis using False by (simp add: join_addr_def s_def)
qed

text \<open>How a client reads a URI: scheme, escaped user, host and port.\<close>

definition read_conn_uri :: "string \<Rightarrow> (string \<times> string \<times> string \<times> string) option" where
  "read_conn_uri u = (case cut_at (CHR '':'') u of
      (scheme, Some rest) \<Rightarrow> (case cut_prefix rest ''//'' of
        Some auth \<Rightarrow> (case cut_at (CHR ''@'') (fst (cut_at (CHR ''/'') auth)) of
          (ui, Some hp) \<Rightarrow> (case (url_unescape ui, split_host_port hp) of
            (Some user, Some (h, p)) \<Rightarrow> Some (scheme, user, h, p)
          | _ \<Rightarrow> None)
        | _ \<Rightarrow> None)
      | None \<Rightarrow> None)
    | _ \<Rightarrow> None)"

definition domain_char :: "char \<Rightarrow> bool" where
  "domain_char c \<longleftrightarrow> alnum_char c \<or> c \<in> set ''-_.:''"

lemma domain_chars:
  assumes "list_all domain_char s"
  shows "list_all (left_plain InHost) s" "CHR ''['' \<notin> set s" "CHR '']'' \<notin> set s"
    "CHR ''@'' \<notin> set s" "CHR ''/'' \<notin> set s"
proof -
  have c: "left_plain InHost c \<and> c \<noteq> CHR ''['' \<and> c \<noteq> CHR '']'' \<and> c \<noteq> CHR ''@'' \<and> c \<noteq> CHR ''/''"
    if "domain_char c" for c
    using that by (auto simp: domain_char_def left_plain_def alnum_char_def Let_def)
  have all: "\<And>c. c \<in> set s \<Longrightarrow> domain_char c" using assms by (simp add: list_all_iff)
  show "list_all (left_plain InHost) s" "CHR ''['' \<notin> set s" "CHR '']'' \<notin> set s"
    "CHR ''@'' \<notin> set s" "CHR ''/'' \<notin> set s"
    using all c by (auto simp: list_all_iff)
qed

lemma show_int_chars: "c \<in> set (show_int i) \<Longrightarrow> is_digit c \<or> c = CHR ''-''"
  using show_nat_digits by (auto simp: show_int_def split: if_splits)

lemma show_int_domain: "list_all domain_char (show_int i)" "CHR '':'' \<notin> set (show_int i)"
  by (auto dest!: show_int_chars simp: list_all_iff domain_char_def alnum_char_def is_digit_def Let_def)

text \<open>The URI that the API hands out can be taken apart again: its user, although
  it holds the mark between user and host when a proxy routes by \<^verbatim>\<open>user@branch\<close>, its host, also an
  IPv6 address, and its port are exactly those of the other fields of the response, for every branch
  name.\<close>

theorem uri_names_the_endpoint:
  assumes "list_all domain_char (as_domain S)"
  shows "read_conn_uri (conn_uri S branch port)
    = Some (if as_engine S = ''postgres'' then ''postgres'' else ''mysql'', conn_user S branch,
            as_domain S, show_int (conn_port S port))"
proof -
  let ?ui = "url_escape InUser (conn_user S branch)"
  let ?hp = "join_addr (as_domain S) (show_int (conn_port S port))"
  let ?sch = "if as_engine S = ''postgres'' then ''postgres'' else ''mysql''"
  note d = domain_chars [OF assms] and p = domain_chars [OF show_int_domain(1) [of "conn_port S port"]]
  have plain: "list_all (left_plain InHost) ?hp"
    using d(1) p(1) by (auto simp: join_addr_def left_plain_def)
  have hp: "url_escape InHost ?hp = ?hp" by (rule escape_plain [OF plain])
  have "CHR ''/'' \<notin> set ?hp" "CHR ''@'' \<notin> set ?hp"
    using plain by (auto simp: list_all_iff left_plain_def alnum_char_def Let_def)
  then have "cut_at (CHR ''/'') (?ui @ ''@'' @ ?hp @ ''/'') = (?ui @ ''@'' @ ?hp, Some [])"
    using user_has_no_mark cut_at_append [of "CHR ''/''" "?ui @ ''@'' @ ?hp" "[]"] by simp
  moreover have "cut_at (CHR ''@'') (?ui @ ''@'' @ ?hp) = (?ui, Some ?hp)"
    using user_has_no_mark by simp
  moreover have "cut_at (CHR '':'') (?sch @ '':'' @ r) = (?sch, Some r)" for r
    by (subst append_Cons) (auto intro!: cut_at_append)
  moreover have "url_unescape ?ui = Some (conn_user S branch)"
    using unescape_escape [of InUser _ "[]"] by simp
  moreover have "split_host_port ?hp = Some (as_domain S, show_int (conn_port S port))"
    using d p show_int_domain by (intro split_join_host_port)
  ultimately show ?thesis
    by (simp add: read_conn_uri_def conn_uri_def hp cut_prefix_def has_prefix_def)
qed

theorem uri_names_the_endpoint_witness:
  "read_conn_uri (conn_uri sample_api ''pr-1'' 3401)
     = Some (''mysql'', ''dev@pr-1'', ''db.example.com'', show_int 3306)"
  using uri_names_the_endpoint [of sample_api "''pr-1''" 3401]
  by (simp add: domain_char_def alnum_char_def sample_api_def conn_user_def conn_port_def)

end
