(* ===== verification/ApiScope.thy ===== *)
theory ApiScope
  imports ApiFacts
begin

text \<open>
  Who reaches which handler of the server: routing works on the segments of the path before they
  are decoded, the check of the scope on the decoded path. The theory relates the two and draws the
  consequences for requests without a token and with a token of a branch scope.
\<close>

section \<open>The path of a request and its segments\<close>

lemma hex_slash: "hex_value (CHR ''/'') = None"
  by (simp add: hex_value_def Let_def)

lemma unescape_around_slash:
  "url_unescape (a @ CHR ''/'' # b) =
     (case (url_unescape a, url_unescape b) of (Some x, Some y) \<Rightarrow> Some (x @ CHR ''/'' # y) | _ \<Rightarrow> None)"
proof (induction a rule: length_induct)
  case (1 a)
  show ?case
  proof (cases a)
    case Nil
    then show ?thesis by (cases "url_unescape b") simp_all
  next
    case c: (Cons c s)
    show ?thesis
    proof (cases "c = CHR ''%''")
      case False
      with 1 c show ?thesis
        by (cases "url_unescape s"; cases "url_unescape b") (auto dest: spec [of _ s])
    next
      case True
      show ?thesis
      proof (cases s)
        case Nil
        then show ?thesis using c True hex_slash by (cases b) simp_all
      next
        case h: (Cons h t)
        show ?thesis
        proof (cases t)
          case Nil
          then show ?thesis using c True h hex_slash by (simp split: option.split)
        next
          case l: (Cons l r)
          have "length r < length a" using c h l by simp
          with 1 have "url_unescape (r @ CHR ''/'' # b) = (case (url_unescape r, url_unescape b) of
              (Some x, Some y) \<Rightarrow> Some (x @ CHR ''/'' # y) | _ \<Rightarrow> None)" by blast
          then show ?thesis using c True h l
            by (auto split: option.split)
        qed
      qed
    qed
  qed
qed

lemma unescape_join:
  "url_unescape (join_with ''/'' ss) = Some u \<Longrightarrow> u = join_with ''/'' (map unescape_or ss)"
proof (induction "''/''" ss arbitrary: u rule: join_with.induct)
  case (3 x y ys)
  from 3(2) obtain a b where a: "url_unescape x = Some a"
    and b: "url_unescape (join_with ''/'' (y # ys)) = Some b" and u: "u = a @ CHR ''/'' # b"
    by (auto simp: unescape_around_slash split: option.splits)
  from 3(1) [OF b] a u show ?case by (simp add: unescape_or_def)
qed (auto simp: unescape_or_def)

lemma url_path_segments:
  assumes "parsed r"
  shows "url_path r = CHR ''/'' # join_with ''/'' (path_segments r)"
proof -
  from assms obtain s u where s: "rq_path r = CHR ''/'' # s" and u: "url_unescape s = Some u"
    unfolding parsed_def by auto
  have "url_unescape (join_with ''/'' (raw_segments r)) = Some u"
    using s u join_split_on [of "CHR ''/''" s] by (simp add: raw_segments_def)
  then have "u = join_with ''/'' (path_segments r)" by (simp add: unescape_join path_segments_def)
  then show ?thesis using s u by (simp add: url_path_def unescape_or_def)
qed

section \<open>Routes\<close>

lemma find_route_member: "find_route table m ss = Some (ep, vs) \<Longrightarrow>
  \<exists>pm pat. (pm, pat, ep) \<in> set table \<and> method_matches pm m \<and> match_segments pat ss = Some vs"
proof (induction table)
  case (Cons e rs)
  obtain pm pat x where e: "e = (pm, pat, x)" by (cases e)
  show ?case
    using Cons e by (cases "method_matches pm m"; cases "match_segments pat ss") auto
qed simp

lemma match_Lit: "match_segments (Lit l # ps) ss = Some vs \<longleftrightarrow>
    (\<exists>t. ss = l # t \<and> match_segments ps t = Some vs)"
  by (cases ss) auto

lemma match_Wild: "match_segments (Wild # ps) ss = Some vs \<longleftrightarrow>
    (\<exists>s t ws. ss = s # t \<and> s \<noteq> [] \<and> s \<noteq> ''/'' \<and> vs = s # ws \<and> match_segments ps t = Some ws)"
  by (cases ss) (auto split: if_splits)

lemma match_Nil: "match_segments [] ss = Some vs \<longleftrightarrow> ss = [] \<and> vs = []"
  by (cases ss) auto

lemmas match_inversion = match_Lit match_Wild match_Nil

lemma api_route_Matched:
  assumes "api_route S r = Matched ep vs"
  shows "(\<exists>pm pat. (pm, pat, ep) \<in> set (api_routes S) \<and> method_matches pm (rq_method r)
            \<and> match_segments pat (path_segments r) = Some vs)
         \<or> (ep = EpWebUI \<and> vs = [] \<and> find_route (api_routes S) (rq_method r) (path_segments r) = None)"
  using assms find_route_member
  by (fastforce simp: api_route_def route_request_def split: if_splits option.splits)

text \<open>The endpoints that need the scope \<^verbatim>\<open>admin\<close>: in the path of a branch, and the others.\<close>

definition branch_admin_endpoints :: "endpoint list" where
  "branch_admin_endpoints = [EpRunHook, EpSchema, EpQuery]"

definition store_admin_endpoints :: "endpoint list" where
  "store_admin_endpoints = [EpRefresh, EpSetBaseline, EpGcBaselines, EpBuild, EpValidate,
     EpDeleteBaseline, EpPromote, EpGcOrphans, EpDrain]"

lemma method_POST: "method_matches ''POST'' m \<longleftrightarrow> m = ''POST''"
  by (simp add: method_matches_def)

lemma store_admin_route:
  assumes "parsed r" "api_route S r = Matched ep vs" "ep \<in> set store_admin_endpoints"
  shows "admin_only r"
proof -
  from api_route_Matched [OF assms(2)] assms(3) obtain pm pat
    where "(pm, pat, ep) \<in> set (api_routes S)" "method_matches pm (rq_method r)"
      "match_segments pat (path_segments r) = Some vs"
    by (auto simp: store_admin_endpoints_def)
  with assms(3) have "rq_method r = ''POST''
      \<and> (\<exists>t. path_segments r = [''v1'', ''baseline'', t] \<or> path_segments r = [''v1'', ''gc'', ''orphans'']
           \<or> path_segments r = [''v1'', ''drain''])"
    by (auto simp: store_admin_endpoints_def api_routes_def branch_routes_def other_routes_def
        ops_routes_def method_POST match_inversion split: if_splits)
  then show ?thesis
    by (auto simp: admin_only_def url_path_segments [OF assms(1)] has_prefix_def)
qed

lemma branch_admin_route:
  assumes "parsed r" "api_route S r = Matched ep vs" "ep \<in> set branch_admin_endpoints"
    and "\<not> admin_only r"
  shows "\<exists>a ws. vs = a # ws \<and> CHR ''/'' \<in> set a"
proof -
  from api_route_Matched [OF assms(2)] assms(3) obtain pm pat
    where "(pm, pat, ep) \<in> set (api_routes S)" "match_segments pat (path_segments r) = Some vs"
    by (auto simp: branch_admin_endpoints_def)
  with assms(3) obtain a b where a: "a \<noteq> []" "vs = [a] \<or> vs = [a, b]"
    and ss: "path_segments r = [''v1'', ''branches'', a, ''query'']
      \<or> path_segments r = [''v1'', ''branches'', a, ''schema'']
      \<or> path_segments r = [''v1'', ''branches'', a, ''hooks'', b]"
    by (fastforce simp: branch_admin_endpoints_def api_routes_def branch_routes_def other_routes_def
        ops_routes_def match_inversion split: if_splits)
  then obtain t where p: "url_path r = ''/v1/branches/'' @ a @ CHR ''/'' # t"
    and t: "has_prefix t ''query'' \<or> has_prefix t ''schema'' \<or> has_prefix t ''hooks/''"
    by (auto simp: url_path_segments [OF assms(1)] has_prefix_def)
  have "CHR ''/'' \<in> set a"
  proof (rule ccontr)
    assume "CHR ''/'' \<notin> set a"
    then have "admin_branch_path (url_path r)"
      using a t unfolding admin_branch_path_def p by (simp add: cut_prefix_append [of "''/v1/branches/''", simplified])
    with assms(4) show False by (simp add: admin_only_def)
  qed
  then show ?thesis using a by auto
qed

section \<open>What a request may touch\<close>

text \<open>The baselines and the hook runs are the same before and after.\<close>

definition spared :: "'w mgr \<Rightarrow> 'w mgr \<Rightarrow> bool" where
  "spared m m' \<longleftrightarrow> baselines (mdb m') = baselines (mdb m) \<and> hook_runs (mdb m') = hook_runs (mdb m)"

interpretation spare: call_relation spared
  by unfold_locales (simp_all add: spared_def)

abbreviation api_spared :: "'w api \<Rightarrow> 'w api \<Rightarrow> bool" where
  "api_spared s s' \<equiv> spared (ap_mgr s) (ap_mgr s')"

interpretation spare_api: effect_relation api_spared
  by unfold_locales (auto simp: spared_def)

lemma spared_statements:
  "sql_kept spared (set_state t n st msg)" "sql_kept spared (set_error t n fop code recov msg sugg)"
  "sql_kept spared (touch_last_conn t n)" "sql_kept spared (set_expires_at n ex)"
  "sql_kept spared (lookup_token_hash t h)" "sql_kept spared (create_operation t i ty target)"
  "sql_kept spared (finish_operation t i c m)"
  by (auto simp: sql_kept_def spared_def set_state_def set_error_def update_or_missing_def
      update_branch_def touch_last_conn_def set_expires_at_def lookup_token_hash_def
      create_operation_def finish_operation_def Let_def split: option.splits)

lemma spared_start_op: "sql_kept spared (start_op t i ty target)"
proof -
  have "snd (start_op t i ty target d) = snd (create_operation t i ty target d)" for d
    by (auto simp: start_op_def split: prod.splits sum.splits)
  then show ?thesis using spared_statements(6) by (simp add: sql_kept_def)
qed

lemma spared_wake: "keeps spared (wake E n)"
  unfolding wake_def admit_wake_def failing_def fail_op_def record_failure_def put_state_def Let_def
  by (intro spare.keeps_intros spare.safe_query query spare.safe_parts spare.safe_get_info
      spare.safe_sql_at spared_statements)

lemma spared_sleep: "keeps spared (sleep_and_get S n)"
  unfolding sleep_and_get_def sleep_branch_def put_state_def
  by (intro spare.keeps_intros spare.safe_query query spare.safe_parts spare.safe_get_info
      spare.safe_sql_at spared_statements)

lemma spared_lease: "keeps spared (lease_and_get S n ex)"
  unfolding lease_and_get_def lease_until_def
  by (intro spare.keeps_intros spare.safe_query query spare.safe_parts spare.safe_get_info
      spare.safe_sql spared_statements)

lemma spared_on_mgr: "keeps spared m \<Longrightarrow> keeps api_spared (on_mgr (m :: ('a, 'b) mact))"
proof (rule spare_api.keepsI)
  fix s :: "'a api" assume "keeps spared m"
  then have "spared (ap_mgr s) (snd (m (ap_mgr s)))" by (simp add: keeps_def)
  then show "api_spared s (snd (on_mgr m s))" by (auto simp: on_mgr_def split: prod.split)
qed

lemma spared_modifying: "(\<And>s. ap_mgr (f s) = ap_mgr s) \<Longrightarrow> keeps api_spared (modifying f)"
  by (rule spare_api.keepsI) (simp add: modifying_def spared_def)

lemma spared_start_job: "keeps api_spared (start_job S ty target excl work)"
  unfolding start_job_def draw_id_def
  by (intro spare_api.keeps_intros spared_on_mgr spare.safe_prims spare.safe_sql_at spared_start_op
      spared_modifying) simp_all

lemma spared_accepted: "as_ops S \<Longrightarrow> keeps api_spared (accepted S ty target work)"
  unfolding accepted_def start_exclusive_def
  by (intro spare_api.keeps_intros spared_start_job spared_modifying) simp_all

lemma spared_guarded: "as_ops S \<Longrightarrow> keeps api_spared (guarded_job S ty n work)"
  unfolding guarded_job_def
  by (intro spare_api.keeps_intros spared_on_mgr spare.safe_check_mutation spared_accepted)

lemma spared_tracked: "keeps spared m \<Longrightarrow> keeps api_spared (tracked S ty n m)"
  unfolding tracked_def track_def draw_id_def branch_response_def
  by (intro spare_api.keeps_intros spared_on_mgr spare.safe_prims spare.safe_sql_at spared_statements)

lemma spared_expiry: "keeps api_spared (parse_expiry S a b c d)"
  unfolding parse_expiry_def by (intro spare_api.keeps_intros spared_on_mgr spare.safe_prims)

definition plain_endpoint :: "endpoint \<Rightarrow> bool" where
  "plain_endpoint ep \<longleftrightarrow> ep \<notin> set branch_admin_endpoints \<and> ep \<notin> set store_admin_endpoints"

lemma spared_endpoint:
  assumes "as_ops S" "plain_endpoint ep"
  shows "keeps api_spared (run_endpoint S p r a b ep)"
proof -
  note ops = spared_accepted [OF assms(1)] spared_guarded [OF assms(1)]
  have read: "keeps api_spared (handle_list S)" "keeps api_spared (handle_get S a)"
    "keeps api_spared (handle_baseline S)" "keeps api_spared (handle_list_baselines S)"
    "keeps api_spared (handle_capacity S)" "keeps api_spared (handle_doctor S)"
    "keeps api_spared (handle_healthz S)" "keeps api_spared (handle_list_ops S)"
    "keeps api_spared (handle_get_op S a)" "keeps api_spared (handle_web_ui r)"
    unfolding handle_list_def handle_get_def branch_response_def handle_baseline_def
      handle_list_baselines_def handle_capacity_def handle_doctor_def handle_healthz_def
      handle_list_ops_def handle_get_op_def handle_web_ui_def
    by (intro spare_api.keeps_intros spared_on_mgr spare.safe_list_info spare.safe_get_info
        spare.safe_reports spare.safe_capacity spare.safe_doctor spare.safe_query;
        simp add: list_operations_def get_operation_def split: option.split)+
  moreover have "keeps api_spared (handle_create S r)" "keeps api_spared (handle_lease S r a)"
    "keeps api_spared (handle_wake S a)" "keeps api_spared (handle_sleep S a)"
    unfolding handle_create_def handle_lease_def handle_wake_def handle_sleep_def branch_response_def
    by (intro spare_api.keeps_intros spared_on_mgr spare.safe_get_info ops spared_expiry spared_tracked
        spared_wake spared_sleep spared_lease)+
  moreover have "keeps api_spared (handle_reset S a)" "keeps api_spared (handle_recreate S a)"
    "keeps api_spared (handle_retry S a)" "keeps api_spared (handle_delete S a)"
    unfolding handle_reset_def handle_recreate_def handle_retry_def handle_delete_def
    by (intro ops)+
  ultimately show ?thesis
    using assms(2) by (cases ep) (simp_all add: plain_endpoint_def branch_admin_endpoints_def store_admin_endpoints_def)
qed

section \<open>A name that no branch has\<close>

definition nameless :: "string \<Rightarrow> 'w api \<Rightarrow> bool" where
  "nameless n s \<longleftrightarrow> n \<notin> r_name ` set (branches (mdb (ap_mgr s)))"

lemma get_branch_missing:
  assumes "n \<notin> r_name ` set (branches (mdb m))"
  shows "\<exists>e m'. sql E (get_branch n) m = (Inl e, m') \<and> mdb m' = mdb m"
proof -
  have "find (\<lambda>r. r_name r = n) (branches (mdb m)) = None" using assms by (simp add: find_None_key)
  then show ?thesis by (auto simp: sql_def get_branch_def split: prod.split option.split)
qed

lemma missing_calls:
  assumes "nameless n s"
  shows "\<exists>e s'. (\<forall>ev. on_mgr (run_hook_manually E n ev) s = (Inl e, s'))
     \<and> on_mgr (get_info E n) s = (Inl e, s') \<and> mdb (ap_mgr s') = mdb (ap_mgr s)"
proof -
  from assms get_branch_missing [of n "ap_mgr s" E] obtain e m'
    where "sql E (get_branch n) (ap_mgr s) = (Inl e, m')" "mdb m' = mdb (ap_mgr s)"
    by (auto simp: nameless_def)
  then show ?thesis
    by (simp add: on_mgr_def run_hook_manually_def get_info_def check_def)
qed

lemma missing_db:
  assumes "nameless n s"
  shows "\<exists>e s'. mdb (ap_mgr s') = mdb (ap_mgr s) \<and> (\<forall>B. branch_db (S\<lparr>as_browser := B\<rparr>) n s = (Inl e, s'))"
  using missing_calls [OF assms, of "as_env S"]
  by (cases "as_engine S \<in> set [[], ''mysql'', ''postgres'']")
    (auto simp: branch_db_def throw_def check_def)

text \<open>The data browser and the hooks then do nothing.\<close>

lemma browser_safe_free: "browser_safe (S\<lparr>as_browser := B\<rparr>) = browser_safe S"
  by (simp add: browser_safe_def origin_allowed_def loopback_host_def from_loopback_def fun_eq_iff
      split: option.split)

lemma missing_endpoint:
  assumes "nameless a s" "ep \<in> set branch_admin_endpoints"
  shows "\<exists>res. spared (ap_mgr s) (ap_mgr (snd res))
     \<and> (\<forall>B. run_endpoint (S\<lparr>as_browser := B\<rparr>) p r a b ep s = res)"
proof -
  from missing_db [OF assms(1), of S] obtain e s'
    where d: "mdb (ap_mgr s') = mdb (ap_mgr s)"
      and db: "\<And>B. branch_db (S\<lparr>as_browser := B\<rparr>) a s = (Inl e, s')" by blast
  from missing_calls [OF assms(1), of "as_env S"] obtain e2 s2
    where h: "\<And>ev. on_mgr (run_hook_manually (as_env S) a ev) s = (Inl e2, s2)"
      and d2: "mdb (ap_mgr s2) = mdb (ap_mgr s)" by blast
  have "\<exists>res. spared (ap_mgr s) (ap_mgr (snd res))
      \<and> (\<forall>B. handle_schema (S\<lparr>as_browser := B\<rparr>) p r a s = res)"
    by (cases "browser_safe S p r")
      (auto simp: handle_schema_def browser_safe_free check_def db ret_def spared_def d)
  moreover have "\<exists>res. spared (ap_mgr s) (ap_mgr (snd res))
      \<and> (\<forall>B. handle_query (S\<lparr>as_browser := B\<rparr>) p r a s = res)"
    by (cases "browser_safe S p r"; cases "body_field ''sql'' r";
        cases "gl_media_type (as_lib S) (rq_ctype r) = ''application/json''")
      (auto simp: handle_query_def browser_safe_free check_def db ret_def spared_def d)
  moreover have "\<exists>res. spared (ap_mgr s) (ap_mgr (snd res))
      \<and> (\<forall>B. handle_run_hook (S\<lparr>as_browser := B\<rparr>) a b s = res)"
    by (auto simp: handle_run_hook_def check_def h spared_def d2)
  ultimately show ?thesis using assms(2) by (auto simp: branch_admin_endpoints_def)
qed

section \<open>Nothing else reads the data browser\<close>

lemma browser_free_fields:
  "as_env (S\<lparr>as_browser := B\<rparr>) = as_env S" "as_machine (S\<lparr>as_browser := B\<rparr>) = as_machine S"
  "as_policy (S\<lparr>as_browser := B\<rparr>) = as_policy S" "as_domain (S\<lparr>as_browser := B\<rparr>) = as_domain S"
  "as_engine (S\<lparr>as_browser := B\<rparr>) = as_engine S" "as_user (S\<lparr>as_browser := B\<rparr>) = as_user S"
  "as_token (S\<lparr>as_browser := B\<rparr>) = as_token S" "as_tokens (S\<lparr>as_browser := B\<rparr>) = as_tokens S"
  "as_ops (S\<lparr>as_browser := B\<rparr>) = as_ops S" "as_lib (S\<lparr>as_browser := B\<rparr>) = as_lib S"
  "as_proxy_port (S\<lparr>as_browser := B\<rparr>) = as_proxy_port S"
  "as_trust_loopback (S\<lparr>as_browser := B\<rparr>) = as_trust_loopback S"
  "as_host_name (S\<lparr>as_browser := B\<rparr>) = as_host_name S"
  "as_new_id (S\<lparr>as_browser := B\<rparr>) = as_new_id S"
  by simp_all

lemma browser_free_parts:
  "conn_port (S\<lparr>as_browser := B\<rparr>) = conn_port S" "conn_user (S\<lparr>as_browser := B\<rparr>) = conn_user S"
  "from_loopback (S\<lparr>as_browser := B\<rparr>) = from_loopback S"
  "draw_id (S\<lparr>as_browser := B\<rparr>) = draw_id S" "with_host_name (S\<lparr>as_browser := B\<rparr>) = with_host_name S"
  "parse_dur (S\<lparr>as_browser := B\<rparr>) = parse_dur S"
  "api_routes (S\<lparr>as_browser := B\<rparr>) = api_routes S" "gc_request (S\<lparr>as_browser := B\<rparr>) = gc_request S"
  "build_job (S\<lparr>as_browser := B\<rparr>) = build_job S" "create_job (S\<lparr>as_browser := B\<rparr>) = create_job S"
  "lease_and_get (S\<lparr>as_browser := B\<rparr>) = lease_and_get S"
  "sleep_and_get (S\<lparr>as_browser := B\<rparr>) = sleep_and_get S"
  unfolding conn_port_def conn_user_def from_loopback_def draw_id_def with_host_name_def
      parse_dur_def api_routes_def gc_request_def build_job_def create_job_def lease_and_get_def
      sleep_and_get_def browser_free_fields
  by (rule refl)+

lemma browser_free_acts:
  "conn_uri (S\<lparr>as_browser := B\<rparr>) = conn_uri S"
  "capacity_json (S\<lparr>as_browser := B\<rparr>) = capacity_json S"
  "start_job (S\<lparr>as_browser := B\<rparr>) = start_job S"
  "parse_expiry (S\<lparr>as_browser := B\<rparr>) = parse_expiry S"
  "api_route (S\<lparr>as_browser := B\<rparr>) = api_route S"
  "authenticate (S\<lparr>as_browser := B\<rparr>) = authenticate S"
  "track (S\<lparr>as_browser := B\<rparr>) = track S"
  unfolding conn_uri_def capacity_json_def start_job_def parse_expiry_def api_route_def authenticate_def track_def browser_free_fields browser_free_parts
  by (rule refl)+

lemma browser_free_answers:
  "to_json (S\<lparr>as_browser := B\<rparr>) = to_json S"
  "start_exclusive (S\<lparr>as_browser := B\<rparr>) = start_exclusive S"
  unfolding to_json_def start_exclusive_def browser_free_fields browser_free_parts browser_free_acts
  by (rule refl)+

lemma browser_free_responses:
  "branch_response (S\<lparr>as_browser := B\<rparr>) = branch_response S"
  "accepted (S\<lparr>as_browser := B\<rparr>) = accepted S"
  unfolding branch_response_def accepted_def browser_free_fields browser_free_parts browser_free_acts browser_free_answers
  by (rule refl)+

lemma browser_free_jobs:
  "tracked (S\<lparr>as_browser := B\<rparr>) = tracked S"
  "guarded_job (S\<lparr>as_browser := B\<rparr>) = guarded_job S"
  unfolding tracked_def guarded_job_def browser_free_fields browser_free_parts browser_free_acts browser_free_answers browser_free_responses
  by (rule refl)+

lemmas browser_free = browser_free_fields browser_free_parts browser_free_acts browser_free_answers
  browser_free_responses browser_free_jobs

lemma browser_free_handlers:
  "handle_list (S\<lparr>as_browser := B\<rparr>) = handle_list S"
  "handle_create (S\<lparr>as_browser := B\<rparr>) = handle_create S"
  "handle_get (S\<lparr>as_browser := B\<rparr>) = handle_get S"
  "handle_reset (S\<lparr>as_browser := B\<rparr>) = handle_reset S"
  "handle_recreate (S\<lparr>as_browser := B\<rparr>) = handle_recreate S"
  "handle_wake (S\<lparr>as_browser := B\<rparr>) = handle_wake S"
  "handle_sleep (S\<lparr>as_browser := B\<rparr>) = handle_sleep S"
  "handle_retry (S\<lparr>as_browser := B\<rparr>) = handle_retry S"
  "handle_lease (S\<lparr>as_browser := B\<rparr>) = handle_lease S"
  "handle_delete (S\<lparr>as_browser := B\<rparr>) = handle_delete S"
  "handle_baseline (S\<lparr>as_browser := B\<rparr>) = handle_baseline S"
  "handle_baseline_refresh (S\<lparr>as_browser := B\<rparr>) = handle_baseline_refresh S"
  "handle_list_baselines (S\<lparr>as_browser := B\<rparr>) = handle_list_baselines S"
  "handle_set_baseline (S\<lparr>as_browser := B\<rparr>) = handle_set_baseline S"
  "handle_gc_baselines (S\<lparr>as_browser := B\<rparr>) = handle_gc_baselines S"
  "handle_baseline_build (S\<lparr>as_browser := B\<rparr>) = handle_baseline_build S"
  "handle_baseline_validate (S\<lparr>as_browser := B\<rparr>) = handle_baseline_validate S"
  "handle_baseline_delete (S\<lparr>as_browser := B\<rparr>) = handle_baseline_delete S"
  "handle_baseline_promote (S\<lparr>as_browser := B\<rparr>) = handle_baseline_promote S"
  "handle_capacity (S\<lparr>as_browser := B\<rparr>) = handle_capacity S"
  "handle_doctor (S\<lparr>as_browser := B\<rparr>) = handle_doctor S"
  "handle_gc_orphans (S\<lparr>as_browser := B\<rparr>) = handle_gc_orphans S"
  "handle_drain (S\<lparr>as_browser := B\<rparr>) = handle_drain S"
  "handle_healthz (S\<lparr>as_browser := B\<rparr>) = handle_healthz S"
  "handle_list_ops (S\<lparr>as_browser := B\<rparr>) = handle_list_ops S"
  "handle_get_op (S\<lparr>as_browser := B\<rparr>) = handle_get_op S"
  unfolding handle_list_def handle_create_def handle_get_def handle_reset_def
    handle_recreate_def handle_wake_def handle_sleep_def handle_retry_def handle_lease_def
    handle_delete_def handle_baseline_def handle_baseline_refresh_def handle_list_baselines_def
    handle_set_baseline_def handle_gc_baselines_def handle_baseline_build_def
    handle_baseline_validate_def handle_baseline_delete_def handle_baseline_promote_def
    handle_capacity_def handle_doctor_def handle_gc_orphans_def handle_drain_def
    handle_healthz_def handle_list_ops_def handle_get_op_def browser_free
  by (rule refl)+

lemma browser_free_endpoint:
  assumes "ep \<notin> set branch_admin_endpoints"
  shows "run_endpoint (S\<lparr>as_browser := B\<rparr>) p r a b ep = run_endpoint S p r a b ep"
  using assms by (cases ep) (simp_all add: branch_admin_endpoints_def browser_free_handlers)

section \<open>Tokens of a branch scope\<close>

text \<open>A handler that a request reaches without the scope \<^verbatim>\<open>admin\<close>.\<close>

lemma confined_dispatch:
  assumes "parsed r" "as_ops S" "\<not> admin_only r"
    and names: "\<forall>x \<in> set (branches (mdb (ap_mgr s))). CHR ''/'' \<notin> set (r_name x)"
  shows "\<exists>res. spared (ap_mgr s) (ap_mgr (snd res)) \<and> (\<forall>B. dispatch (S\<lparr>as_browser := B\<rparr>) p r s = res)"
proof (cases "api_route S r")
  case (Matched ep vs)
  define a b where "a = (case vs of [] \<Rightarrow> [] | a # _ \<Rightarrow> a)" and "b = (case vs of _ # b # _ \<Rightarrow> b | _ \<Rightarrow> [])"
  have d: "dispatch (S\<lparr>as_browser := B\<rparr>) p r s = run_endpoint (S\<lparr>as_browser := B\<rparr>) p r a b ep s" for B
    by (simp add: dispatch_def browser_free Matched a_def b_def)
  have store: "ep \<notin> set store_admin_endpoints"
    using store_admin_route [OF assms(1) Matched] assms(3) by blast
  show ?thesis
  proof (cases "ep \<in> set branch_admin_endpoints")
    case True
    from branch_admin_route [OF assms(1) Matched True assms(3)] have "CHR ''/'' \<in> set a"
      by (auto simp: a_def)
    then have "nameless a s" using names by (auto simp: nameless_def)
    from missing_endpoint [OF this True, of S p r b] show ?thesis unfolding d .
  next
    case False
    with store have "plain_endpoint ep" by (simp add: plain_endpoint_def)
    from spared_endpoint [OF assms(2) this, of p r a b]
    have "spared (ap_mgr s) (ap_mgr (snd (run_endpoint S p r a b ep s)))" by (simp add: keeps_def)
    then show ?thesis unfolding d browser_free_endpoint [OF False] by blast
  qed
qed (auto simp: dispatch_def browser_free ret_def spared_def)

lemma authenticate_rows:
  "branches (mdb (ap_mgr (snd (authenticate S r s)))) = branches (mdb (ap_mgr s))
   \<and> spared (ap_mgr s) (ap_mgr (snd (authenticate S r s)))"
proof -
  have look: "branches (mdb (snd (sql_at E (\<lambda>t. lookup_token_hash t h) m))) = branches (mdb m)
      \<and> spared m (snd (sql_at E (\<lambda>t. lookup_token_hash t h) m))" for E h and m :: "'a mgr"
  proof -
    obtain t w where c: "clock E (world m) = (t, w)" by force
    have l: "branches (snd (lookup_token_hash t h d)) = branches d
        \<and> baselines (snd (lookup_token_hash t h d)) = baselines d
        \<and> hook_runs (snd (lookup_token_hash t h d)) = hook_runs d" for d
      by (auto simp: lookup_token_hash_def split: option.splits)
    show ?thesis
      using mdb_sql [of E "lookup_token_hash t h" "m\<lparr>world := w\<rparr>"] l [of "mdb m"]
      by (auto simp: sql_at_def check_def now_def pure_ext_def c spared_def)
  qed
  show ?thesis
    using look [of "as_env S" "gl_sha256 (as_lib S) (bearer_token r)" "ap_mgr s"]
    by (auto simp: authenticate_def Let_def ret_def handle_err_def on_mgr_def spared_def
        split: prod.split sum.split)
qed

lemma open_not_admin: "open_to_all r \<Longrightarrow> \<not> admin_only r"
  by (auto simp: open_to_all_def admin_only_def admin_branch_path_def cut_prefix_def has_prefix_def)


definition ci_state :: "int api" where
  "ci_state = new_api ((start_state 0)\<lparr>mdb :=
     snd (create_token 0 ''ci'' ''secret'' scope_branches open_db)\<rparr>)"

definition ci_request :: http_request where
  "ci_request = sample_request ''POST'' ''/v1/branches/pr-1%2Fx/query'' ''Bearer secret''
     (ObjectBody [(''sql'', JStr ''SELECT 1'', [])])"

lemma ci_caller: "fst (authenticate sample_api ci_request ci_state)
    = Inr (Some \<lparr>pr_name = ''ci'', pr_scope = scope_branches\<rparr>)"
proof -
  have "\<not> from_loopback sample_api ci_request"
    by (simp add: from_loopback_def ci_request_def sample_request_def sample_api_def sample_lib_def
        split_host_port_def last_index_of_def index_of_def)
  moreover have "bearer_token ci_request = ''secret''"
    by (simp add: bearer_token_def ci_request_def sample_request_def cut_prefix_def has_prefix_def)
  ultimately show ?thesis
    by (simp add: authenticate_def Let_def sample_api_def sample_lib_def ci_state_def new_api_def
        start_state_def create_token_def open_db_def scope_branches_def scope_admin_def handle_err_def
        on_mgr_def sql_at_def check_def now_def pure_ext_def sql_def sample_env_def lookup_token_hash_def
        token_scope_def ret_def)
qed

lemma ci_parsed: "parsed ci_request"
  by (simp add: parsed_def ci_request_def sample_request_def hex_value_def Let_def)


section \<open>Requests without a token\<close>

lemma open_route:
  assumes "parsed r" "open_to_all r" "api_route S r = Matched ep vs"
  shows "ep = EpHealthz \<or> ep = EpWebUI"
proof -
  from assms(1,2) have "join_with ''/'' (path_segments r) = ''v1/healthz'' \<or> join_with ''/'' (path_segments r) = []"
    by (auto simp: open_to_all_def url_path_segments)
  moreover from api_route_Matched [OF assms(3)] have "ep = EpWebUI \<or> (\<exists>pm pat.
      (pm, pat, ep) \<in> set (api_routes S) \<and> match_segments pat (path_segments r) = Some vs)" by blast
  ultimately show ?thesis
    by (auto simp: api_routes_def branch_routes_def other_routes_def ops_routes_def match_inversion
        split: if_splits)
qed

text \<open>No valid credential: not from a loopback address that is trusted, and the bearer token is missing, or is
  neither the token of the environment nor one that state.db has.\<close>

definition no_credential :: "'w api_server \<Rightarrow> http_request \<Rightarrow> 'w api \<Rightarrow> bool" where
  "no_credential S r s \<longleftrightarrow> \<not> (as_trust_loopback S \<and> from_loopback S r)
     \<and> (let got = bearer_token r; h = gl_sha256 (as_lib S) got in
          got = [] \<or> \<not> (as_token S \<noteq> [] \<and> h = gl_sha256 (as_lib S) (as_token S))
            \<and> \<not> (as_tokens S \<and> h \<in> set (map t_hash (tokens (mdb (ap_mgr s))))))"

lemma stranger_is_unknown:
  assumes "no_credential S r s"
  shows "fst (authenticate S r s) = Inr None"
proof -
  let ?h = "gl_sha256 (as_lib S) (bearer_token r)"
  show ?thesis
  proof (cases "bearer_token r = [] \<or> \<not> as_tokens S")
    case True
    then show ?thesis using assms by (auto simp: no_credential_def authenticate_def Let_def ret_def)
  next
    case False
    then have new: "?h \<notin> set (map t_hash (tokens (mdb (ap_mgr s))))"
      using assms by (simp add: no_credential_def Let_def)
    then have "find (\<lambda>t. t_hash t = ?h) (tokens (mdb (ap_mgr s))) = None"
      by (simp add: find_None_iff) (metis image_eqI)
    then have "fst (sql_at (as_env S) (\<lambda>t. lookup_token_hash t ?h) (ap_mgr s)) \<in> {Inr None} \<union> range Inl"
      by (auto simp: sql_at_def check_def now_def pure_ext_def sql_def lookup_token_hash_def
          split: prod.split option.split)
    then show ?thesis
      using assms False by (auto simp: no_credential_def authenticate_def Let_def ret_def handle_err_def on_mgr_def
          split: prod.split sum.split)
  qed
qed



end
