(* ===== verification/ApiAnswers.thy ===== *)
theory ApiAnswers
  imports ApiFacts
begin

text \<open>
  What the answers of the server contain: the rows of a statement, the columns of a schema, the
  outcome of a request that changes a branch.
\<close>

section \<open>The rows of a statement\<close>

lemma collect_rows_result:
  "collect_rows rows out = Inr (res, t) \<Longrightarrow> length out \<le> max_rows \<Longrightarrow>
   \<exists>vals. map Inr vals = take (max_rows - length out) rows
     \<and> res = out @ map (map cell_json) vals \<and> (t \<longleftrightarrow> length rows > max_rows - length out)"
proof (induction rows out rule: collect_rows.induct)
  case (2 r rs out)
  show ?case
  proof (cases "length out \<ge> max_rows")
    case True
    with 2(2,3) show ?thesis by (intro exI [of _ "[]"]) auto
  next
    case False
    then obtain cells where r: "r = Inr cells" using 2(2) by (cases r) auto
    obtain vals where "map Inr vals = take (max_rows - length (out @ [map cell_json cells])) rs"
      "res = (out @ [map cell_json cells]) @ map (map cell_json) vals"
      "t \<longleftrightarrow> length rs > max_rows - length (out @ [map cell_json cells])"
      using 2(1) [OF False r] 2(2) False r by auto
    moreover have "max_rows - length out = Suc (max_rows - length (out @ [map cell_json cells]))"
      using False by simp
    ultimately show ?thesis using r by (intro exI [of _ "cells # vals"]) simp
  qed
qed simp

text \<open>A statement run in the data browser that is answered with 200 shows exactly the
  first 200 rows of its result (all of them when there are fewer), in order, says that it was cut exactly
  when there are more, and never hides an error that ended the result before that. A cell
  of bytes is at most 64 KiB and the mark of the cut long.\<close>

theorem statement_shows_first_rows:
  assumes "fst (run_query S d q s) = Inr resp" "rs_status resp = 200"
  shows "\<exists>cols rs vals. fst (br_query (as_browser S) d q (world (ap_mgr s))) = Inr (Inr cols, rs)
     \<and> map Inr vals = take 200 (rt_rows rs)
     \<and> resp = query_response cols (map (map cell_json) vals) (length (rt_rows rs) > 200)
     \<and> (length (rt_rows rs) > 200 \<or> rt_err rs = None)
     \<and> list_all (list_all (\<lambda>c. case c of Bytes b \<Rightarrow>
          (\<exists>t. cell_json c = JStr t \<and> length t \<le> 64 * 1024 + length cut_mark) | Other v \<Rightarrow> True)) vals"
proof -
  obtain x w where x: "br_query (as_browser S) d q (world (ap_mgr s)) = (x, w)" by force
  have err: "rs_status (err_response 400 c m) = 400" for c m
    by (simp add: err_response_def json_response_def)
  obtain cols rs where y: "x = Inr (Inr cols, rs)"
    using assms x by (cases x)
      (auto simp: run_query_def handle_err_def on_mgr_def ext_def ret_def throw_def err split: sum.splits)
  obtain out t where c: "collect_rows (rt_rows rs) [] = Inr (out, t)"
    using assms x y by (cases "collect_rows (rt_rows rs) []")
      (auto simp: run_query_def handle_err_def on_mgr_def ext_def ret_def throw_def)
  have e: "t \<or> rt_err rs = None" and r: "resp = query_response cols out t"
    using assms x y c
    by (auto simp: run_query_def handle_err_def on_mgr_def ext_def ret_def throw_def err
        split: option.splits if_splits)
  from collect_rows_result [OF c] obtain vals where v: "map Inr vals = take max_rows (rt_rows rs)"
    "out = map (map cell_json) vals" "t \<longleftrightarrow> length (rt_rows rs) > max_rows" by auto
  have "list_all (list_all (\<lambda>c. case c of Bytes b \<Rightarrow>
      (\<exists>t. cell_json c = JStr t \<and> length t \<le> 64 * 1024 + length cut_mark) | Other v \<Rightarrow> True)) vals"
    by (auto simp: list_all_iff cell_json_def max_cell_bytes_def split: cell.split)
  then show ?thesis using x y v r e by (auto simp: max_rows_def)
qed

theorem statement_shows_first_rows_witness:
  "\<exists>vals. map Inr vals = take 200 ([] :: (err + cell list) list)
     \<and> fst (run_query sample_api (PgDsn []) ''SELECT 1'' (new_api (start_state 0)))
         = Inr (query_response [] (map (map cell_json) vals) False)"
proof -
  have b: "br_query (as_browser sample_api) (PgDsn []) ''SELECT 1'' (world (ap_mgr (new_api (start_state 0))))
      = (Inr (Inr [], \<lparr>rt_rows = [], rt_err = None\<rparr>), 0)"
    by (simp add: sample_api_def sample_browser_def succeed_def new_api_def start_state_def)
  then have r: "fst (run_query sample_api (PgDsn []) ''SELECT 1'' (new_api (start_state 0)))
      = Inr (query_response [] [] False)"
    by (simp add: run_query_def handle_err_def on_mgr_def ext_def ret_def)
  have "rs_status (query_response [] [] False) = 200"
    by (simp add: query_response_def json_response_def)
  from statement_shows_first_rows [OF r this] b r show ?thesis by auto
qed

text \<open>
  Only a cell of bytes is cut. The driver for PostgreSQL hands out the values of text columns as
  strings, which pass unchanged however long they are.
\<close>

lemma text_cells_are_not_cut: "cell_json (Other (JStr t)) = JStr t"
  by (simp add: cell_json_def)

section \<open>The schema\<close>

definition flat_columns :: "schema_db list \<Rightarrow> (string \<times> string \<times> schema_column) list" where
  "flat_columns dbs = concat (map (\<lambda>d. concat (map (\<lambda>t. map (\<lambda>c. (sd_name d, tb_name t, c))
     (tb_columns t)) (sd_tables d))) dbs)"

definition table_columns :: "schema_table list \<Rightarrow> (string \<times> schema_column) list" where
  "table_columns ts = concat (map (\<lambda>t. map (\<lambda>c. (tb_name t, c)) (tb_columns t)) ts)"

lemma table_columns_snoc:
  "table_columns (ts @ [t]) = table_columns ts @ map (\<lambda>c. (tb_name t, c)) (tb_columns t)"
  by (simp add: table_columns_def)

lemma table_columns_add: "table_columns (add_to_tables r ts) = table_columns ts @ [(sr_table r, column_of r)]"
proof (cases "ts = [] \<or> tb_name (last ts) \<noteq> sr_table r")
  case True
  then show ?thesis by (simp add: add_to_tables_def table_columns_def)
next
  case False
  then have "table_columns ts = table_columns (butlast ts)
      @ map (\<lambda>c. (tb_name (last ts), c)) (tb_columns (last ts))"
    using table_columns_snoc [of "butlast ts" "last ts"] by simp
  then show ?thesis using False by (simp add: add_to_tables_def table_columns_snoc Let_def)
qed

lemma flat_by_table: "flat_columns dbs = concat (map (\<lambda>d. map (\<lambda>(t, c). (sd_name d, t, c))
    (table_columns (sd_tables d))) dbs)"
  by (simp add: flat_columns_def table_columns_def map_concat comp_def)

lemma flat_columns_add:
  "flat_columns (add_schema_row r dbs) = flat_columns dbs @ [(sr_schema r, sr_table r, column_of r)]"
proof (cases "dbs = [] \<or> sd_name (last dbs) \<noteq> sr_schema r")
  case True
  then show ?thesis
    by (simp add: add_schema_row_def flat_by_table table_columns_add) (simp add: table_columns_def)
next
  case False
  then have d: "dbs = butlast dbs @ [last dbs]" by simp
  have "flat_columns dbs = flat_columns (butlast dbs)
      @ map (\<lambda>(t, c). (sd_name (last dbs), t, c)) (table_columns (sd_tables (last dbs)))"
    unfolding flat_by_table by (subst d) simp
  then show ?thesis using False
    by (simp add: add_schema_row_def flat_by_table table_columns_add Let_def)
qed

lemma collect_schema_flat:
  "collect_schema rows dbs = Inr res \<Longrightarrow>
   \<exists>vals. rows = map Inr vals
     \<and> flat_columns res = flat_columns dbs @ map (\<lambda>r. (sr_schema r, sr_table r, column_of r)) vals"
proof (induction rows dbs rule: collect_schema.induct)
  case (3 r rs dbs)
  then obtain vals where "rs = map Inr vals" "flat_columns res
      = flat_columns (add_schema_row r dbs) @ map (\<lambda>r. (sr_schema r, sr_table r, column_of r)) vals" by auto
  then show ?case by (intro exI [of _ "r # vals"]) (simp add: flat_columns_add)
qed simp_all

text \<open>The schema that the data browser shows holds every column that the database
  listed, in that order, each once, under the table and the database it was listed with; a row that
  could not be read is never dropped silently.\<close>

theorem schema_lists_every_column:
  assumes "collect_schema rows [] = Inr dbs"
  shows "\<exists>vals. rows = map Inr vals
     \<and> flat_columns dbs = map (\<lambda>r. (sr_schema r, sr_table r, column_of r)) vals"
  using collect_schema_flat [OF assms] by (simp add: flat_columns_def)

lemma collect_schema_total: "\<exists>dbs. collect_schema (map Inr rows) acc = Inr dbs"
  by (induction rows arbitrary: acc) simp_all

definition sample_column :: "string \<Rightarrow> string \<Rightarrow> schema_row" where
  "sample_column t c = \<lparr>sr_schema = ''app'', sr_table = t, sr_rows = 0, sr_column = c, sr_type = ''int'',
     sr_nullable = ''NO'', sr_key = []\<rparr>"

theorem schema_lists_every_column_witness:
  "\<exists>dbs. collect_schema [Inr (sample_column ''t'' ''a''), Inr (sample_column ''t'' ''b''), Inr (sample_column ''u'' ''a'')] []
       = Inr dbs \<and> length (flat_columns dbs) = 3"
proof -
  let ?vals = "[sample_column ''t'' ''a'', sample_column ''t'' ''b'', sample_column ''u'' ''a'']"
  obtain dbs where d: "collect_schema (map Inr ?vals) [] = Inr dbs" using collect_schema_total by blast
  from schema_lists_every_column [OF d] obtain vals :: "schema_row list"
    where v: "map Inr ?vals = (map Inr vals :: (err + schema_row) list)"
      "length (flat_columns dbs) = length vals" by (metis length_map)
  have "length ?vals = length vals" using arg_cong [OF v(1), of length] by simp
  then show ?thesis using d v(2) by auto
qed

section \<open>A request that changes a branch\<close>

lemma start_job_result:
  assumes "start_job S ty target excl work s = (r, s')"
  shows "ap_busy s' = ap_busy s \<and> (case r of
      Inl e \<Rightarrow> ap_jobs s' = ap_jobs s
    | Inr i \<Rightarrow> ap_jobs s' = ap_jobs s @ [\<lparr>jb_id = i, jb_type = ty, jb_target = target,
        jb_exclusive = excl, jb_work = work\<rparr>])"
  using assms
  by (auto simp: start_job_def draw_id_def check_def on_mgr_def pure_ext_def modifying_def ret_def
      split: prod.splits sum.splits)

lemma start_job_rows:
  assumes "start_job S ty target excl work s = (r, s')"
  shows "case r of Inl e \<Rightarrow> mdb (ap_mgr s') = mdb (ap_mgr s)
    | Inr i \<Rightarrow> i \<notin> o_id ` set (operations (mdb (ap_mgr s)))
        \<and> (\<exists>t. mdb (ap_mgr s') = snd (create_operation t i ty target (mdb (ap_mgr s))))"
proof -
  obtain i w0 where w0: "as_new_id S (world (ap_mgr s)) = (i, w0)" by force
  define s1 where "s1 = s\<lparr>ap_mgr := (ap_mgr s)\<lparr>world := w0\<rparr>\<rparr>"
  have i: "draw_id S s = (Inr i, s1)" "mdb (ap_mgr s1) = mdb (ap_mgr s)"
    using w0 by (simp_all add: draw_id_def on_mgr_def pure_ext_def s1_def)
  obtain x s2 where x: "on_mgr (sql_at (as_env S) (\<lambda>t. start_op t i ty target)) s1 = (x, s2)" by force
  have "case x of Inl e \<Rightarrow> mdb (ap_mgr s2) = mdb (ap_mgr s)
      | Inr j \<Rightarrow> j = i \<and> i \<notin> o_id ` set (operations (mdb (ap_mgr s)))
          \<and> (\<exists>t. mdb (ap_mgr s2) = snd (create_operation t i ty target (mdb (ap_mgr s))))"
  proof -
    obtain t w where c: "clock (as_env S) (world (ap_mgr s1)) = (t, w)" by force
    obtain f w' where q: "sql_fault (as_env S) w = (f, w')" by force
    show ?thesis
      using x i(2) c q
      by (cases f) (auto simp: on_mgr_def sql_at_def check_def now_def pure_ext_def sql_def start_op_def
          create_operation_def split: prod.splits if_splits intro!: exI [of _ t])
  qed
  moreover have "case x of Inl e \<Rightarrow> r = Inl e \<and> s' = s2
      | Inr j \<Rightarrow> r = Inr i \<and> ap_mgr s' = ap_mgr s2"
    using assms i(1) x by (auto simp: start_job_def check_def modifying_def ret_def split: sum.splits prod.splits)
  ultimately show ?thesis by (cases x) auto
qed

lemma mutation_check:
  assumes "on_mgr (check_branch_mutation E name ty) s = (c, s1)"
  shows "ap_busy s1 = ap_busy s \<and> ap_jobs s1 = ap_jobs s \<and> mdb (ap_mgr s1) = mdb (ap_mgr s)
     \<and> (\<forall>u. c = Inr u \<longrightarrow> name \<in> r_name ` set (branches (mdb (ap_mgr s))))"
proof -
  obtain x m where m: "check_branch_mutation E name ty (ap_mgr s) = (x, m)" by force
  have "mdb m = mdb (ap_mgr s)" using frame.safe_check_mutation m unfolding keeps_def by (metis snd_conv)
  moreover have "name \<in> r_name ` set (branches (mdb (ap_mgr s)))" if xu: "x = Inr u" for u
  proof -
    obtain y m1 where y: "sql E (get_branch name) (ap_mgr s) = (y, m1)" by force
    then obtain b where "y = Inr b" using m xu by (cases y) (auto simp: check_branch_mutation_def check_def)
    then show ?thesis using y
      by (auto simp: sql_def get_branch_def find_Some_iff split: prod.splits option.splits)
  qed
  ultimately show ?thesis using assms m by (auto simp: on_mgr_def)
qed

lemma accepted_inject [simp]: "accepted_response i = accepted_response j \<longleftrightarrow> i = j"
  by (auto simp: accepted_response_def dest: arg_cong [where f = rs_op])

text \<open>The requests that change a branch that exists, with the type and the work of their job.\<close>

definition branch_mutations ::
  "'w api_server \<Rightarrow> string \<Rightarrow> (('w, response) api_act \<times> string \<times> ('w, unit) mact) list" where
  "branch_mutations S name =
     [(handle_reset S name, ''reset'', dropping (reset (as_env S) name)),
      (handle_recreate S name, ''recreate'', dropping (recreate (as_env S) name)),
      (handle_retry S name, ''retry'', dropping (retry (as_env S) name)),
      (handle_delete S name, ''delete'', delete (as_env S) name)]"

lemma branch_mutations_guarded:
  "(handle, ty, work) \<in> set (branch_mutations S name) \<Longrightarrow>
     handle = guarded_job S ty name work \<and> ty \<noteq> ''baseline-validate''"
  by (auto simp: branch_mutations_def handle_reset_def handle_recreate_def handle_retry_def handle_delete_def)

text \<open>C16. A request to reset, recreate, retry or delete a branch, on a server that keeps operations (as the
  daemon's does), has one of three outcomes. It is refused with an error, and state.db, the reservations and the jobs are
  those from before. Or the branch is reserved by an
  operation: then the answer is 409 with the identifier of that operation, and again nothing of these
  changes. Or it was free: then state.db has a branch of this name, the answer is 202 with the identifier of a new operation, the
  branch is reserved under that identifier, exactly the one job of this request is added, and
  state.db has one new running operation of this type and target, and is otherwise as before. The other requests that
  change branches (create, lease, sleep and wake) have other handlers and are not meant here. The request is one step of the
  model: nothing runs between its check and the reservation.\<close>

theorem mutation_outcomes:
  assumes "as_ops S" "(handle, ty, work) \<in> set (branch_mutations S name)"
    and "handle s = (r, s')"
  shows "case r of
      Inl e \<Rightarrow> ap_jobs s' = ap_jobs s \<and> ap_busy s' = ap_busy s \<and> mdb (ap_mgr s') = mdb (ap_mgr s)
    | Inr resp \<Rightarrow> name \<in> r_name ` set (branches (mdb (ap_mgr s))) \<and> (case ap_busy s name of
        Some i \<Rightarrow> resp = busy_response name i \<and> ap_jobs s' = ap_jobs s \<and> ap_busy s' = ap_busy s
          \<and> mdb (ap_mgr s') = mdb (ap_mgr s)
      | None \<Rightarrow> (\<exists>i t. resp = accepted_response i \<and> ap_busy s' = (ap_busy s)(name \<mapsto> i)
          \<and> ap_jobs s' = ap_jobs s @ [\<lparr>jb_id = i, jb_type = ty, jb_target = name,
                jb_exclusive = True, jb_work = work\<rparr>]
          \<and> i \<notin> o_id ` set (operations (mdb (ap_mgr s)))
          \<and> mdb (ap_mgr s') = (mdb (ap_mgr s))\<lparr>operations := operations (mdb (ap_mgr s)) @
                [\<lparr>o_id = i, o_type = ty, o_target = name, o_state = OpRunning, o_started = db_time t,
                  o_finished = None, o_error = None\<rparr>]\<rparr>))"
proof -
  have run: "guarded_job S ty name work s = (r, s')" and ty: "ty \<noteq> ''baseline-validate''"
    using branch_mutations_guarded [OF assms(2)] assms(3) by simp_all
  obtain c s1 where c: "on_mgr (check_branch_mutation (as_env S) name ty) s = (c, s1)" by force
  note s1 = mutation_check [OF c]
  show ?thesis
  proof (cases c)
    case (Inl e)
    then show ?thesis using run c s1 by (auto simp: guarded_job_def check_def)
  next
    case (Inr u)
    then have acc: "accepted S ty name work s1 = (r, s')"
      using run c by (simp add: guarded_job_def check_def)
    show ?thesis
    proof (cases "ap_busy s name")
      case (Some i)
      then show ?thesis using acc assms(1) ty s1 Inr
        by (auto simp: accepted_def start_exclusive_def reading_def reserve_target_def check_def ret_def)
    next
      case None
      define s2 where "s2 = s1\<lparr>ap_busy := (ap_busy s1)(name \<mapsto> [])\<rparr>"
      obtain j s3 where j: "start_job S ty name True work s2 = (j, s3)" by force
      note jr = start_job_result [OF j] start_job_rows [OF j]
      show ?thesis
      proof (cases j)
        case (Inl e)
        then have "r = Inl e" "s' = s3\<lparr>ap_busy := (ap_busy s3)(name := None)\<rparr>"
          using acc assms(1) ty None s1 j
          by (auto simp: accepted_def start_exclusive_def reading_def reserve_target_def check_def
              modifying_def attempt_def throw_def settle_target_def s2_def)
        moreover have "(ap_busy s)(name := None) = ap_busy s" using None by auto
        ultimately show ?thesis using jr Inl s1 by (simp add: s2_def)
      next
        case (Inr i)
        then have "r = Inr (accepted_response i)" "s' = s3\<lparr>ap_busy := (ap_busy s3)(name \<mapsto> i)\<rparr>"
          using acc assms(1) ty None s1 j jr(1)
          by (auto simp: accepted_def start_exclusive_def reading_def reserve_target_def check_def
              modifying_def attempt_def ret_def settle_target_def s2_def)
        then show ?thesis using jr Inr s1 None \<open>c = _\<close>
          by (auto simp: s2_def create_operation_def)
      qed
    qed
  qed
qed

definition free_row :: branch_row where
  "free_row = \<lparr>r_name = ''pr-1'', r_state = Running, r_port = 3401, r_origin = ''pool/base@b1'',
     r_created = 0, r_last_conn = None, r_err_msg = None, r_failed_op = None, r_err_code = None,
     r_recoverable = None, r_suggested = None, r_profile = None, r_owner = None, r_purpose = None,
     r_source = None, r_expires = None, r_engine_state = Some ''running'', r_init_snap = None,
     r_volume_ref = None, r_error_at = None\<rparr>"

definition free_state :: "int api" where
  "free_state = new_api ((start_state 0)\<lparr>mdb := open_db\<lparr>branches := [free_row]\<rparr>\<rparr>)"

theorem mutation_outcomes_witness:
  "\<exists>s' t. handle_delete sample_api ''pr-1'' free_state = (Inr (accepted_response ''op_1''), s')
     \<and> ap_busy s' ''pr-1'' = Some ''op_1''
     \<and> operations (mdb (ap_mgr s')) = [\<lparr>o_id = ''op_1'', o_type = ''delete'', o_target = ''pr-1'', o_state = OpRunning,
         o_started = db_time t, o_finished = None, o_error = None\<rparr>]"
proof -
  have "fst (handle_delete sample_api ''pr-1'' free_state) = Inr (accepted_response ''op_1'')"
    by (simp add: handle_delete_def guarded_job_def check_branch_mutation_def check_def on_mgr_def sql_def
        sample_env_def free_state_def new_api_def start_state_def get_branch_def open_db_def free_row_def
        backing_baselines_for_branch_def handle_err_def resolve_volume_def ext_def sample_storage_def succeed_def
        baselines_on_dataset_def list_baselines_def ret_def accepted_def start_exclusive_def reading_def
        reserve_target_def modifying_def attempt_def start_job_def draw_id_def pure_ext_def sql_at_def now_def
        start_op_def create_operation_def sample_api_def)
  then obtain s' where run: "handle_delete sample_api ''pr-1'' free_state = (Inr (accepted_response ''op_1''), s')"
    by (metis prod.collapse)
  have m: "(handle_delete sample_api ''pr-1'', ''delete'', delete sample_env ''pr-1'') \<in> set (branch_mutations sample_api ''pr-1'')"
    by (simp add: branch_mutations_def)
  show ?thesis
    using mutation_outcomes [OF _ m run] run
    by (auto simp: free_state_def new_api_def open_db_def)
qed

section \<open>Metrics\<close>

text \<open>
  The total of the metrics adds up what the branches report; a backend that cannot tell the
  usage of a branch reports -1, so that the total is negative there.
\<close>

lemma total_usage_counts_unknown:
  "\<forall>i \<in> set is. in_used i = -1 \<Longrightarrow> sum_list (map in_used is) = - int (length is)"
  by (induction "is") auto

end
