(* ===== verification/Isolation.thy ===== *)
theory Isolation
  imports Safety
begin

text \<open>
  Non-interference between branches: a request for one branch leaves the rows of all others as
  they are, and the reaper leaves alone every branch that is not due.
\<close>

lemma row_of_same_update:
  "(\<And>r. r_name (f r) = r_name r) \<Longrightarrow> n \<noteq> m \<Longrightarrow> row_of (update_branch n f d) m = row_of d m"
  by (simp add: rows option.map_ident cong: map_option_cong)

lemma row_of_hooks [simp]: "row_of (hook_runs_update f d) m = row_of d m"
  by (simp add: row_of_def)

lemma row_of_create_other: "n \<noteq> m \<Longrightarrow> row_of (snd (create_branch t n p orig d)) m = row_of d m"
  by (simp add: create_branch_def row_of_def find_append split: option.split)

interpretation isolated: db_branches "\<lambda>d d'. row_of d' m = row_of d m" "\<lambda>n. n \<noteq> m" E
  for m and E :: "'w env"
proof unfold_locales
  fix n port orig
  assume "n \<noteq> m"
  show "keeps (\<lambda>s s'. row_of (mdb s') m = row_of (mdb s) m) (admit_create E n port orig)"
    unfolding keeps_def
  proof
    fix s :: "'w mgr"
    have "admit_create E n port orig s = (fst (admit_create E n port orig s),
        snd (admit_create E n port orig s))" by simp
    from admit_create_effect [OF this] row_of_create_other [OF \<open>n \<noteq> m\<close>]
    show "row_of (mdb (snd (admit_create E n port orig s))) m = row_of (mdb s) m" by auto
  qed
qed (simp_all add: set_state_def set_error_def touch_last_conn_def set_meta_def set_expires_at_def
    update_origin_def set_provision_def mark_error_at_if_missing_def update_or_missing_def
    row_of_same_update row_of_delete record_hook_start_def record_hook_finish_def Let_def)

text \<open>The branch that a request names.\<close>

fun target :: "'w request \<Rightarrow> string option" where
  "target (RqCreate n _ _ _) = Some n"
| "target (RqReset n) = Some n"
| "target (RqRecreate n) = Some n"
| "target (RqDelete n) = Some n"
| "target (RqLease n _) = Some n"
| "target (RqWake n) = Some n"
| "target (RqRoute n) = Some n"
| "target (RqTouch n) = Some n"
| "target (RqRetry n) = Some n"
| "target (RqHook n _) = Some n"
| "target (RqCheck n _) = Some n"
| "target (RqSleep n) = Some n"
| "target _ = None"

text \<open>C13. Isolation: a request for one branch, whether it succeeds or fails at any stage, leaves the
  rows of all other branches unchanged.\<close>

theorem requests_are_isolated:
  assumes "target rq = Some n" and "n \<noteq> m"
  shows "row_of (mdb (snd (serve E H pol rq s))) m = row_of (mdb s) m"
proof -
  have "isolated.base.safe m (serve E H pol rq)"
    using assms
    by (cases rq)
      (auto simp: dropping_def intro!: isolated.base.keeps_check isolated.base.keeps_ret
        isolated.safe_create_with_meta_from isolated.safe_handlers isolated.safe_route_branch
        isolated.base.safe_check_mutation isolated.safe_sleep)
  then show ?thesis by (rule isolated.base.keepsD)
qed

theorem requests_are_isolated_witness:
  "row_of (mdb (snd (serve sample_env sample_host no_request (RqDelete ''pr-2'')
      ((start_state 0)\<lparr>mdb := snd (create_branch 0 ''pr-1'' 3401 ''b'' open_db)\<rparr>)))) ''pr-1''
   = row_of (snd (create_branch 0 ''pr-1'' 3401 ''b'' open_db)) ''pr-1''"
  using requests_are_isolated [of "RqDelete ''pr-2''" "''pr-2''" "''pr-1''" sample_env sample_host
      no_request "(start_state 0)\<lparr>mdb := snd (create_branch 0 ''pr-1'' 3401 ''b'' open_db)\<rparr>"]
  by simp

section \<open>What the reaper spares\<close>

interpretation polls: branch_statements "\<lambda>s s'. poll_conns s' = poll_conns s" "\<lambda>_. True"
  by unfold_locales (simp_all add: sql_kept_def)

interpretation polls: blind_handlers "\<lambda>s s'. poll_conns s' = poll_conns s" "\<lambda>_. True" E
  for E :: "'w env"
proof unfold_locales
  fix n port orig
  show "polls.safe (admit_create E n port orig)"
    unfolding admit_create_def
    by (intro polls.keeps_intros polls.safe_query query polls.safe_parts polls.safe_sql_at)
      (simp add: sql_kept_def)
qed simp

lemma fold_act_inv:
  assumes "\<And>x b s. x \<in> set xs \<Longrightarrow> I s \<Longrightarrow> I (snd (f x b s))" and "I s"
  shows "I (snd (fold_act f xs b s))"
  using assms
proof (induction xs arbitrary: b s)
  case (Cons x xs)
  obtain r s' where fx: "f x b s = (r, s')" by (cases "f x b s")
  with Cons.prems(1) [of x s b] Cons.prems(2) have "I s'" by simp
  with Cons fx show ?case by (cases r) (simp_all add: check_def)
qed (simp add: ret_def)

lemma query_state:
  assumes "\<And>d. snd (q d) = d" and "sql E q s = (r, s')"
  shows "mdb s' = mdb s \<and> poll_conns s' = poll_conns s \<and> trace s' = trace s"
proof -
  have "snd (q (mdb s)) = mdb s" by (rule assms(1))
  with assms(2) show ?thesis by (auto simp: sql_def split: prod.splits option.splits)
qed

definition in_use_or_recent :: "'w env \<Rightarrow> int \<Rightarrow> int \<Rightarrow> branch \<Rightarrow> bool" where
  "in_use_or_recent E t conns b \<longleftrightarrow> \<not> lease_expired t b \<and> b_state b \<noteq> Error_state
     \<and> (conns > 0 \<or> (\<not> delete_due E t b \<and> \<not> stop_due E t b))"

lemma reap_branch_spared:
  assumes "in_use_or_recent E t (poll_conns s (b_name b)) b"
  shows "mdb (snd (reap_branch E t b s)) = mdb s
    \<and> poll_conns (snd (reap_branch E t b s)) = poll_conns s"
proof (cases "\<not> delete_due E t b \<and> \<not> stop_due E t b")
  case True
  with assms show ?thesis by (simp add: in_use_or_recent_def reap_branch_def ret_def)
next
  case False
  have "\<exists>n s'. active_conns E (b_name b) s = (Inr n, s') \<and> n \<ge> poll_conns s (b_name b)
      \<and> mdb s' = mdb s \<and> poll_conns s' = poll_conns s"
    by (auto simp: active_conns_def check_def reading_def ret_def pure_ext_def
        split: option.split prod.split)
  then obtain n s' where a: "active_conns E (b_name b) s = (Inr n, s')"
    "n \<ge> poll_conns s (b_name b)" "mdb s' = mdb s" "poll_conns s' = poll_conns s" by blast
  with assms False show ?thesis
    by (auto simp: in_use_or_recent_def reap_branch_def check_def ret_def)
qed

text \<open>The time that a pass of the reaper works with: it reads the clock once, after it has listed the branches.\<close>

definition pass_time :: "'w env \<Rightarrow> 'w mgr \<Rightarrow> int" where
  "pass_time E s = fst (clock E (world (snd (sql E list_branches s))))"


definition sample_row :: branch_row where
  "sample_row = \<lparr>r_name = ''pr-1'', r_state = Running, r_port = 3401, r_origin = ''pool/base@b1'',
     r_created = 0, r_last_conn = None, r_err_msg = None, r_failed_op = None, r_err_code = None,
     r_recoverable = None, r_suggested = None, r_profile = None, r_owner = None, r_purpose = None,
     r_source = None, r_expires = None, r_engine_state = Some ''running'', r_init_snap = None,
     r_volume_ref = None, r_error_at = None\<rparr>"

definition sample_state :: "int mgr" where
  "sample_state = (start_state (10 ^ 6))\<lparr>mdb := open_db\<lparr>branches := [sample_row]\<rparr>,
     poll_conns := (\<lambda>_. 0)(''pr-1'' := 1)\<rparr>"


end
