(* ===== verification/Quiesce.thy ===== *)
theory Quiesce
  imports Isolation
begin

text \<open>
  The most important invariant of the design: a snapshot of a volume (@init of a branch, or a
  branch promoted to a baseline) is only taken when no engine runs on it, that is, when the last
  thing done to its datadir was a graceful stop that succeeded, or the clone that made it; and a
  snapshot of the base is only taken right after a check that no process is left on its datadir.
\<close>

fun engine_quiet :: "event list \<Rightarrow> string \<Rightarrow> bool" where
  "engine_quiet [] p = False"
| "engine_quiet (EvStop i ok # tr) p = (if i_datadir i = p then ok else engine_quiet tr p)"
| "engine_quiet (EvStart i ok # tr) p = (i_datadir i \<noteq> p \<and> engine_quiet tr p)"
| "engine_quiet (EvKill i ok # tr) p = (i_datadir i \<noteq> p \<and> engine_quiet tr p)"
| "engine_quiet (EvClone o' n (Some v) # tr) p = (v_path v @ ''/data'' = p \<or> engine_quiet tr p)"
| "engine_quiet (_ # tr) p = engine_quiet tr p"

fun snapshots_quiet :: "event list \<Rightarrow> bool" where
  "snapshots_quiet [] = True"
| "snapshots_quiet (EvInit v ok # tr) = (engine_quiet tr (v_path v @ ''/data'') \<and> snapshots_quiet tr)"
| "snapshots_quiet (EvPromote v tag ok # tr) =
     (engine_quiet tr (v_path v @ ''/data'') \<and> snapshots_quiet tr)"
| "snapshots_quiet (EvSnapBase tag ok # tr) =
     ((\<exists>tr'. tr = EvQuiesced True # tr') \<and> snapshots_quiet tr)"
| "snapshots_quiet (_ # tr) = snapshots_quiet tr"

lemma snapshots_quiet_other:
  "\<not> is_snapshot ev \<Longrightarrow> snapshots_quiet (ev # tr) = snapshots_quiet tr"
  by (cases ev) simp_all

abbreviation quiet_kept :: "'w mgr \<Rightarrow> 'w mgr \<Rightarrow> bool" where
  "quiet_kept s s' \<equiv> snapshots_quiet (trace s) \<longrightarrow> snapshots_quiet (trace s')"

interpretation quiet: branch_statements quiet_kept "\<lambda>_. True"
  by unfold_locales (auto simp: sql_kept_def snapshots_quiet_other)

section \<open>The three segments that take snapshots\<close>

text \<open>\<open>still v\<close>: the log is in order and no engine runs on the volume.\<close>

definition still :: "volume \<Rightarrow> 'w mgr \<Rightarrow> bool" where
  "still v s \<longleftrightarrow> snapshots_quiet (trace s) \<and> engine_quiet (trace s) (v_path v @ ''/data'')"

abbreviation fine :: "'w mgr \<Rightarrow> bool" where
  "fine s \<equiv> snapshots_quiet (trace s)"

lemma triple_quiet: "quiet.safe m \<Longrightarrow> triple fine m (\<lambda>_. fine) (\<lambda>_. fine)"
  by (rule triple_keeps) simp

lemma still_fine: "still v s \<Longrightarrow> fine s"
  by (simp add: still_def)

lemma quiet_from_still: "quiet.safe m \<Longrightarrow> triple (still v) m (\<lambda>_. fine) (\<lambda>_. fine)"
  by (rule triple_weaken [OF triple_quiet]) (auto dest: still_fine)

text \<open>Statements and calls that log nothing keep a volume still.\<close>

lemma still_sql: "triple (still v) (sql E q) (\<lambda>_. still v) (\<lambda>_. still v)"
  by (rule triple_keeps) (auto simp: keeps_def sql_def still_def split: prod.split option.split)

lemma still_pure_ext: "triple (still v) (pure_ext c) (\<lambda>_. still v) (\<lambda>_. still v)"
  by (rule triple_keeps) (auto simp: keeps_def pure_ext_def still_def split: prod.split)

lemma still_pure: "triple (still v) (pure_ext c) (\<lambda>_. still v) (\<lambda>_. fine)"
  by (rule triple_weaken [OF still_pure_ext]) (auto dest: still_fine)

lemma still_clone: "triple fine (clone_vol E orig n) still (\<lambda>_. fine)"
  by (auto simp: triple_def clone_vol_def logged_def still_def ok_value_def split: prod.split sum.split)

lemma still_stop:
  "i_datadir i = v_path v @ ''/data'' \<Longrightarrow> triple fine (eng_stop E i) (\<lambda>_. still v) (\<lambda>_. fine)"
  by (auto simp: triple_def eng_stop_def logged_def still_def is_ok_def split: prod.split sum.split)

lemma still_quota: "triple (still v) (apply_quota E v') (\<lambda>_. still v) (\<lambda>_. fine)"
  by (auto simp: triple_def apply_quota_def logged_def still_def ret_def
      split: prod.split sum.split option.split)

lemma still_snapshot: "triple (still v) (snapshot_init E v) (\<lambda>_. fine) (\<lambda>_. fine)"
  by (auto simp: triple_def snapshot_init_def logged_def still_def split: prod.split sum.split)

lemma triple_staged:
  assumes "triple P m Q (\<lambda>_. fine)"
  shows "triple P (staged E n stage wrap m) Q (\<lambda>_. fine)"
  unfolding staged_def
  by (rule triple_handle [OF assms triple_ignoring [OF triple_quiet triple_throw] triple_ret])
    (simp_all add: quiet.safe_record_failure)

lemma triple_failing:
  assumes "triple P m Q (\<lambda>_. fine)"
  shows "triple P (failing E n op' stage wrap m) Q (\<lambda>_. fine)"
  unfolding failing_def fail_op_def
  by (rule triple_handle [OF assms triple_ignoring [OF triple_quiet triple_throw] triple_ret])
    (simp_all add: quiet.safe_record_failure)

lemma instance_datadir [simp]: "i_datadir (instance_of b v) = v_path v @ ''/data''"
  by (simp add: instance_of_def instance_for_def)

lemma still_hook_phase: "triple (still v) (create_hook_phase E n b v) (\<lambda>_. still v) (\<lambda>_. fine)"
proof -
  have none: "triple (still v) (hook_exists E OnCreate) (\<lambda>_. still v) (\<lambda>_. fine)"
    unfolding hook_exists_def
    by (intro triple_option triple_ret) (auto intro: triple_weaken [OF still_pure_ext] still_fine)
  show ?thesis
    unfolding create_hook_phase_def
    by (rule triple_check [OF none], intro triple_if triple_ret triple_check triple_staged)
      (auto intro: quiet_from_still triple_quiet quiet.safe_parts quiet.safe_writes still_stop)
qed

lemma quiet_create_build: "triple fine (create_build E n orig) (\<lambda>_. fine) (\<lambda>_. fine)"
  unfolding create_build_def Let_def
  apply (rule triple_check [OF triple_staged [OF still_clone]])
  apply (rule triple_check [OF triple_staged [OF still_quota]])
  apply (rule triple_attempt [where M = "\<lambda>_. still v" for v, OF still_sql])
  apply (rule triple_check [OF still_hook_phase])
  apply (rule triple_check [OF triple_staged [OF still_snapshot] triple_ret])
  apply simp
  done

lemma quiet_recreate_provision:
  "triple (still v) (recreate_provision E b ev op' v) (\<lambda>_. fine) (\<lambda>_. fine)"
  unfolding recreate_provision_def Let_def
  apply (rule triple_check [OF triple_failing [OF still_quota]])
  apply (rule triple_check [OF triple_failing [OF quiet_from_still]], rule quiet.safe_eng_start)
  apply (rule triple_check [OF triple_failing [OF triple_quiet]], rule quiet.safe_wait_ready)
  apply (rule triple_check [OF triple_failing [OF triple_quiet]], rule quiet.safe_run_hook)
  apply (rule triple_check [OF triple_failing [OF still_stop [of _ v]]], simp)
  apply (rule triple_check [OF triple_failing [OF still_snapshot]])
  apply (rule triple_quiet)
  apply (intro quiet.keeps_intros quiet.safe_writes quiet.safe_parts quiet.safe_sql quiet.D_statements)
  apply simp_all
  done

lemma quiet_recreate_build: "triple fine (recreate_build E b orig ev op' stash) (\<lambda>_. fine) (\<lambda>_. fine)"
  unfolding recreate_build_def
  apply (rule triple_handle [OF still_clone])
   apply (rule triple_quiet, intro quiet.keeps_intros quiet.safe_parts quiet.safe_writes, simp)
  apply (rule triple_check [OF quiet_recreate_provision triple_ret], simp)
  done

lemma still_promote_snapshot:
  "triple (still v) (promote_snapshot E H pr masked v) (\<lambda>_. fine) (\<lambda>_. fine)"
  unfolding promote_snapshot_def new_baseline_tag_def now_def
  apply (rule triple_check [OF still_pure])
  apply (rule triple_check [OF triple_check [OF still_pure triple_ret]], assumption)
  apply (rule triple_check [where M = "\<lambda>_. fine"])
   apply (rule triple_wrapping)
   apply (auto simp: triple_def logged_def still_def split: prod.split sum.split) [1]
  apply (rule triple_quiet, intro quiet.keeps_intros quiet.safe_sql_at)
  apply (simp add: sql_kept_def)
  done

lemma quiet_promote_take: "triple fine (promote_take E H pr masked b v) (\<lambda>_. fine) (\<lambda>_. fine)"
  unfolding promote_take_def with_cleanup_def
  apply (rule triple_check [OF triple_wrapping [OF still_stop [of _ v]]], simp)
  apply (rule triple_attempt [where M = "\<lambda>_. fine", OF still_promote_snapshot])
  apply (rule triple_quiet)
  apply (unfold restart_branch_def, intro quiet.keeps_intros quiet.safe_parts)
  done

text \<open>\<open>checked\<close>: the base was just found free of processes.\<close>

definition checked :: "'w mgr \<Rightarrow> bool" where
  "checked s \<longleftrightarrow> fine s \<and> (\<exists>tr. trace s = EvQuiesced True # tr)"

lemma checked_fine: "checked s \<Longrightarrow> fine s"
  by (simp add: checked_def)

lemma checked_quiesced: "triple fine (check_quiesced E H rc) (\<lambda>_. checked) (\<lambda>_. fine)"
proof -
  let ?c = "case rc_check_quiesced rc of Some c \<Rightarrow> ext c | None \<Rightarrow> default_quiesce_check E H"
  have "quiet.safe ?c"
    unfolding default_quiesce_check_def
    by (intro quiet.keeps_intros quiet.safe_prims quiet.safe_on_base quiet.safe_find_procs)
  then show ?thesis
    unfolding check_quiesced_def
    by (intro triple_attempt [where M = "\<lambda>_. fine"] triple_quiet)
      (auto simp: triple_def ignoring_def modifying_def throw_def ret_def is_ok_def checked_def
        split: sum.split)
qed

lemma checked_auto_cnf: "triple checked (remove_base_auto_cnf E H) (\<lambda>_. checked) (\<lambda>_. fine)"
proof -
  have "keeps (\<lambda>s s'. trace s' = trace s) (remove_base_auto_cnf E H)"
    by (auto simp: keeps_def remove_base_auto_cnf_def on_base_path_def handle_err_def ext_def
        check_def pure_ext_def ret_def throw_def output_of_def run_cmd_def Let_def
        split: option.splits prod.splits sum.splits fs_result.splits if_splits)
  then have "triple checked (remove_base_auto_cnf E H) (\<lambda>_. checked) (\<lambda>_. checked)"
    by (intro triple_keeps) (auto simp: keeps_def checked_def)
  then show ?thesis by (rule triple_weaken) (auto dest: checked_fine)
qed

lemma quiet_ensure: "triple fine (ensure_quiesced E H rc) (\<lambda>_. checked) (\<lambda>_. fine)"
  unfolding ensure_quiesced_def
  by (rule triple_handle [OF checked_quiesced triple_check [OF triple_quiet
        triple_wrapping [OF checked_quiesced]] triple_ret]) (simp_all add: quiet.safe_reclaim)

lemma quiet_build_snapshot: "triple fine (build_snapshot E H rc tag) (\<lambda>_. fine) (\<lambda>_. fine)"
  unfolding build_snapshot_def
  by (rule triple_check [OF quiet_ensure triple_check [OF triple_wrapping [OF checked_auto_cnf]
        triple_wrapping]])
    (auto simp: triple_def snapshot_base_def logged_def checked_def split: prod.split sum.split)

lemma keeps_of_triple:
  fixes m :: "('w, 'a) mact"
  assumes "triple fine m (\<lambda>_. fine) (\<lambda>_. fine)"
  shows "quiet.safe m"
  unfolding keeps_def
proof (intro allI impI)
  fix s :: "'w mgr" assume "fine s"
  obtain r s' where "m s = (r, s')" by fastforce
  with tripleD [OF assms \<open>fine s\<close> this] show "fine (snd (m s))" by (cases r) simp_all
qed

interpretation quiet: whole_manager quiet_kept "\<lambda>_. True" E for E :: "'w env"
proof unfold_locales
  fix n orig b ev op' stash port H pr masked v counts rc tag
  show "quiet.safe (create_build E n orig)"
    by (rule keeps_of_triple [OF quiet_create_build])
  show "quiet.safe (recreate_build E b orig ev op' stash)"
    by (rule keeps_of_triple [OF quiet_recreate_build])
  show "quiet.safe (admit_create E n port orig)"
    unfolding admit_create_def
    by (intro quiet.keeps_intros quiet.safe_query query quiet.safe_parts quiet.safe_sql_at)
      (simp add: sql_kept_def)
  show "quiet.safe (promote_take E H pr masked b v)"
    by (rule keeps_of_triple [OF quiet_promote_take])
  show "quiet.safe (build_snapshot E H rc tag)"
    by (rule keeps_of_triple [OF quiet_build_snapshot])
  show "quiet.safe (modifying (\<lambda>s. s\<lparr>poll_conns := counts\<rparr>))"
    by (simp add: keeps_def modifying_def)
qed (simp_all add: sql_kept_def keeps_def modifying_def refresh_done_def)

text \<open>C4. Snapshots are only taken of stopped databases: in every run, each @init snapshot and each
  promotion of a branch was made when the last thing done to the datadir was a graceful stop
  that succeeded or the clone that created it, never after a start or a kill, whatever fails;
  and each snapshot of the base right after a check that found no process on it.\<close>

theorem snapshots_only_when_stopped:
  assumes "mgr_reach E H pol s"
  shows "snapshots_quiet (trace s)"
  using assms
proof induction
  case (run_request s rq)
  then show ?case using quiet.keepsD [OF quiet.safe_serve] by blast
qed (simp_all add: start_state_def restarted_def)

theorem snapshots_only_when_stopped_witness:
  "snapshots_quiet (trace (snd (serve sample_env sample_host no_request
      (RqCreate ''pr-1'' 0 no_meta []) (start_state 0))))"
  using snapshots_only_when_stopped [OF run_request [OF run_start], of sample_env sample_host no_request]
  by blast

end
