(* ===== verification/Outcomes.thy ===== *)
theory Outcomes
  imports Quiesce
begin

text \<open>
  What single handlers achieve, on success and on failure at every stage, with a database driver
  that works. Storage, engine and hooks may still fail at any call.
\<close>

definition driver_works :: "'w env \<Rightarrow> bool" where
  "driver_works E \<longleftrightarrow> (\<forall>w. fst (sql_fault E w) = None)"

lemma sql_works:
  assumes "driver_works E"
  shows "\<exists>w. sql E q s = (fst (q (mdb s)), s\<lparr>world := w, mdb := snd (q (mdb s))\<rparr>)"
proof -
  obtain f w where f: "sql_fault E (world s) = (f, w)" by fastforce
  with assms have "f = None" by (metis driver_works_def fst_conv)
  with f show ?thesis by (intro exI [of _ w]) (simp add: sql_def split: prod.split)
qed

lemma sql_at_works:
  assumes "driver_works E"
  shows "\<exists>t w. sql_at E q s = (fst (q t (mdb s)), s\<lparr>world := w, mdb := snd (q t (mdb s))\<rparr>)"
proof -
  obtain t w where c: "clock E (world s) = (t, w)" by fastforce
  obtain w' where "sql E (q t) (s\<lparr>world := w\<rparr>)
      = (fst (q t (mdb s)), s\<lparr>world := w', mdb := snd (q t (mdb s))\<rparr>)"
    using sql_works [OF assms, of "q t" "s\<lparr>world := w\<rparr>"] by auto
  with c show ?thesis
    by (intro exI [of _ t] exI [of _ w']) (simp add: sql_at_def check_def now_def pure_ext_def)
qed

text \<open>The outcome of a statement, in the state after it.\<close>

definition after_sql ::
  "('a \<Rightarrow> 'w mgr \<Rightarrow> bool) \<Rightarrow> (err \<Rightarrow> 'w mgr \<Rightarrow> bool) \<Rightarrow> 'a sql \<Rightarrow> 'w mgr \<Rightarrow> bool" where
  "after_sql Q X q s \<longleftrightarrow> (\<forall>w. case fst (q (mdb s)) of
     Inr a \<Rightarrow> Q a (s\<lparr>world := w, mdb := snd (q (mdb s))\<rparr>)
   | Inl e \<Rightarrow> X e (s\<lparr>world := w, mdb := snd (q (mdb s))\<rparr>))"

lemma triple_sql:
  assumes "driver_works E" and "\<And>s. P s \<Longrightarrow> after_sql Q X q s"
  shows "triple P (sql E q) Q X"
  unfolding triple_def
proof (intro allI impI)
  fix s assume "P s"
  obtain w where "sql E q s = (fst (q (mdb s)), s\<lparr>world := w, mdb := snd (q (mdb s))\<rparr>)"
    using sql_works [OF assms(1)] by blast
  with assms(2) [OF \<open>P s\<close>]
  show "case sql E q s of (Inl e, s') \<Rightarrow> X e s' | (Inr a, s') \<Rightarrow> Q a s'"
    by (cases "fst (q (mdb s))") (simp_all add: after_sql_def)
qed

lemma triple_sql_at:
  assumes "driver_works E" and "\<And>s t. P s \<Longrightarrow> after_sql Q X (q t) s"
  shows "triple P (sql_at E q) Q X"
  unfolding triple_def
proof (intro allI impI)
  fix s assume "P s"
  obtain t w where
    "sql_at E q s = (fst (q t (mdb s)), s\<lparr>world := w, mdb := snd (q t (mdb s))\<rparr>)"
    using sql_at_works [OF assms(1)] by blast
  with assms(2) [OF \<open>P s\<close>, of t]
  show "case sql_at E q s of (Inl e, s') \<Rightarrow> X e s' | (Inr a, s') \<Rightarrow> Q a s'"
    by (cases "fst (q t (mdb s))") (simp_all add: after_sql_def)
qed

section \<open>Calls that leave the branch table alone\<close>

interpretation rows: branch_statements "\<lambda>s s'. branches (mdb s') = branches (mdb s)" "\<lambda>_. False"
  by unfold_locales (auto simp: sql_kept_def record_hook_start_def record_hook_finish_def Let_def)

text \<open>\<open>on_rows P\<close>: a predicate on the branch table.\<close>

definition row_at :: "string \<Rightarrow> (branch_row option \<Rightarrow> bool) \<Rightarrow> 'w mgr \<Rightarrow> bool" where
  "row_at n P s \<longleftrightarrow> P (row_of (mdb s) n)"

lemma triple_rows: "rows.safe m \<Longrightarrow> triple (row_at n P) m (\<lambda>_. row_at n P) (\<lambda>_. row_at n P)"
  by (rule triple_keeps) (auto simp: keeps_def row_at_def row_of_def)

abbreviation present :: "string \<Rightarrow> 'w mgr \<Rightarrow> bool" where
  "present n \<equiv> row_at n (\<lambda>r. r \<noteq> None)"

lemma rows_logged: "rows.safe (logged ev c)"
  by (rule rows.keepsI) (simp add: logged_def split: prod.split)

section \<open>Recording a failure\<close>

text \<open>The row of a branch whose operation failed at a stage with an error.\<close>

definition failed_row :: "string \<Rightarrow> string \<Rightarrow> err \<Rightarrow> branch_row option \<Rightarrow> bool" where
  "failed_row op' stage e r \<longleftrightarrow> (case r of None \<Rightarrow> False | Some row \<Rightarrow>
     r_state row = Error_state
     \<and> r_failed_op row = Some op' \<and> r_err_msg row = Some (err_text e)
     \<and> r_err_code row = Some (fst (classify stage e))
     \<and> r_recoverable row = Some (bool_to_int (fst (snd (classify stage e)))))"

definition in_state :: "bstate \<Rightarrow> branch_row option \<Rightarrow> bool" where
  "in_state st r \<longleftrightarrow> (case r of None \<Rightarrow> False | Some row \<Rightarrow> r_state row = st)"

lemma triple_record:
  assumes "driver_works E"
  shows "triple (present n) (record_failure E n op' stage e)
    (\<lambda>_. row_at n (failed_row op' stage e)) (\<lambda>_. row_at n (failed_row op' stage e))"
  unfolding record_failure_def
  by (cases "classify stage e")
    (auto simp: after_sql_def row_at_def rows failed_row_def has_branch_row set_error_def
      update_or_missing_def intro!: triple_sql_at [OF assms])

lemma triple_failing_op:
  assumes "driver_works E" and "triple P m Q (\<lambda>_. present n)"
  shows "triple P (failing E n op' stage wrap m) Q
    (\<lambda>e. row_at n (failed_row op' stage e))"
  unfolding failing_def fail_op_def
  apply (rule triple_handle [OF assms(2) _ triple_ret])
   apply (rule triple_ignoring [OF triple_record [OF assms(1)] triple_throw])
   apply simp_all
  done

definition stage_failed :: "string \<Rightarrow> err \<Rightarrow> 'w mgr \<Rightarrow> bool" where
  "stage_failed n e s \<longleftrightarrow> (\<exists>stage e'. e = EStage stage e' \<and> row_at n (failed_row ''create'' stage e') s)"

lemma triple_staged_op:
  assumes "driver_works E" and "triple P m Q (\<lambda>_. present n)"
  shows "triple P (staged E n stage wrap m) Q (stage_failed n)"
  unfolding staged_def
  apply (rule triple_handle [OF assms(2) _ triple_ret])
   apply (rule triple_ignoring [OF triple_record [OF assms(1)] triple_throw])
   apply (auto simp: stage_failed_def)
  done

lemma triple_put_state:
  assumes "driver_works E"
  shows "triple (present n) (put_state E n st)
    (\<lambda>_. row_at n (in_state st)) (\<lambda>_ _. False)"
  unfolding put_state_def
  by (rule triple_sql_at [OF assms])
    (auto simp: after_sql_def in_state_def row_at_def has_branch_row set_state_def
      update_or_missing_def rows)

section \<open>Outcomes of create\<close>

lemma triple_pure_ext:
  assumes "\<And>s w. P s \<Longrightarrow> P (s\<lparr>world := w\<rparr>)"
  shows "triple P (pure_ext c) (\<lambda>_. P) (\<lambda>_ _. False)"
  using assms by (auto simp: triple_def pure_ext_def split: prod.split)

lemma row_at_world [simp]: "row_at n P (s\<lparr>world := w\<rparr>) = row_at n P s"
  by (simp add: row_at_def)

lemma triple_hook_exists: "triple (row_at n P) (hook_exists E ev) (\<lambda>_. row_at n P) (\<lambda>_ _. False)"
  unfolding hook_exists_def
  by (intro triple_option triple_ret triple_pure_ext) simp_all

lemma triple_hook_phase:
  assumes "driver_works E"
  shows "triple (present n) (create_hook_phase E n b v) (\<lambda>_. present n) (stage_failed n)"
  unfolding create_hook_phase_def
  apply (rule triple_check [OF triple_false [OF triple_hook_exists]])
  apply (rule triple_if, rule triple_ret, assumption)
  apply (rule triple_check [OF triple_staged_op [OF assms triple_rows]], rule rows.safe_calls)
  apply (rule triple_check [OF triple_staged_op [OF assms triple_rows]], rule rows.safe_calls)
  apply (rule triple_check [OF triple_staged_op [OF assms triple_rows]], rule rows.safe_run_hook)
  apply (rule triple_staged_op [OF assms triple_rows], rule rows.safe_calls)
  done

lemma triple_create_build:
  assumes "driver_works E"
  shows "triple (present n) (create_build E n orig) (\<lambda>_. present n) (stage_failed n)"
  unfolding create_build_def Let_def
  apply (rule triple_check [OF triple_staged_op [OF assms triple_rows]], rule rows.safe_calls)
  apply (rule triple_check [OF triple_staged_op [OF assms triple_rows]], rule rows.safe_apply_quota)
  apply (rule triple_attempt [where M = "\<lambda>_. present n", OF triple_rows])
   apply (intro rows.safe_query query)
  apply (rule triple_check [OF triple_hook_phase [OF assms]])
  apply (rule triple_check [OF triple_staged_op [OF assms triple_rows] triple_ret])
   apply (simp_all add: snapshot_init_def rows_logged)
  done

definition showing :: "(branch_row option \<Rightarrow> bool) \<Rightarrow> branch \<Rightarrow> branch_row option \<Rightarrow> bool" where
  "showing P b r \<longleftrightarrow> P r \<and> map_option scan_branch r = Some b"

lemma triple_get_info:
  assumes "driver_works E" and "\<And>r. P r \<Longrightarrow> r \<noteq> None"
  shows "triple (row_at n P) (get_info E n) (\<lambda>i. row_at n (showing P (in_branch i))) (\<lambda>_ _. False)"
proof -
  let ?J = "\<lambda>b. row_at n (showing P b)"
  have current: "triple (?J b) (current_baseline E) (\<lambda>_. ?J b) (\<lambda>_ _. False)" for b
    unfolding current_baseline_def
    by (rule triple_attempt [where M = "\<lambda>_. ?J b", OF triple_rows])
      (auto intro: rows.safe_query query triple_ret triple_pure_ext split: sum.split option.split)
  have nofail: "triple (?J b) (ret a) (\<lambda>_. ?J b) X" for a b and X :: "err \<Rightarrow> 'a mgr \<Rightarrow> bool"
    by (rule triple_ret)
  show ?thesis
    unfolding get_info_def
    apply (rule triple_check [where M = ?J])
     apply (rule triple_sql [OF assms(1)])
    using assms(2)
     apply (fastforce simp: after_sql_def row_at_def showing_def get_branch_row split: option.splits)
    apply (rule triple_check [where M = "\<lambda>_. ?J b" for b])
     apply (rule triple_handle [where F = "\<lambda>_. ?J b" and M = "\<lambda>_. ?J b" for b, OF triple_rows])
       apply (rule rows.safe_resolve_volume)
      apply (rule triple_ret, assumption)
     apply (rule triple_attempt [where M = "\<lambda>_. ?J b" for b, OF triple_rows], rule rows.safe_on_dataset)
     apply (rule triple_attempt [where M = "\<lambda>_. ?J b" for b, OF triple_rows], rule rows.safe_ext)
     apply (rule triple_attempt [where M = "\<lambda>_. ?J b" for b, OF triple_rows])
      apply (intro rows.keeps_intros rows.safe_ext)
     apply (rule triple_ret, assumption)
    apply (rule triple_prod)+
    apply (rule triple_attempt [where M = "\<lambda>_. ?J b" for b, OF triple_rows])
     apply (intro rows.safe_query query)
    apply (rule triple_check [OF current])
    apply (rule triple_ret)
    apply simp
    done
qed

lemma triple_create_provision:
  assumes "driver_works E"
  shows "triple (present n) (create_provision E n orig)
    (\<lambda>i. row_at n (showing (in_state Running) (in_branch i)))
    (stage_failed n)"
  unfolding create_provision_def
  apply (rule triple_check [OF triple_create_build [OF assms]])
  apply (rule triple_prod)+
  apply (rule triple_ignoring [where M = "present n"])
   apply (rule triple_sql [OF assms])
   apply (simp add: after_sql_def row_at_def set_provision_def update_or_missing_def rows split: sum.split)
  apply (rule triple_check [OF triple_staged_op [OF assms triple_rows]], rule rows.safe_calls)
  apply (rule triple_check [OF triple_staged_op [OF assms triple_rows]], rule rows.safe_calls)
  apply (rule triple_check [OF triple_false [OF triple_put_state [OF assms]]])
  apply (rule triple_false, rule triple_get_info [OF assms])
  apply (simp add: in_state_def split: option.splits)
  done

text \<open>Refusals before the row exists: the database is as before, and the error has no stage.\<close>

definition plain_err :: "err \<Rightarrow> bool" where
  "plain_err e \<longleftrightarrow> (case e of EStage _ _ \<Rightarrow> False | _ \<Rightarrow> True)"

abbreviation at_db :: "db \<Rightarrow> 'w mgr \<Rightarrow> bool" where
  "at_db d s \<equiv> mdb s = d"

abbreviation refused :: "db \<Rightarrow> err \<Rightarrow> 'w mgr \<Rightarrow> bool" where
  "refused d e s \<equiv> mdb s = d \<and> plain_err e"

lemma plain_err_simps [simp]:
  "plain_err (EText t)" "plain_err (EWrap p e q)" "plain_err ENoFreePort" "plain_err ELimitReached"
  "plain_err EExists" "plain_err EInvalidName"
  by (simp_all add: plain_err_def)

lemma at_query:
  assumes "driver_works E" and "\<And>d'. snd (q d') = d'" and "\<And>d'. \<exists>a. fst (q d') = Inr a"
  shows "triple (at_db d) (sql E q) (\<lambda>_. at_db d) (refused d)"
proof (rule triple_sql [OF assms(1)])
  fix s :: "'a mgr" assume "at_db d s"
  moreover obtain a where "fst (q (mdb s)) = Inr a" using assms(3) by blast
  ultimately show "after_sql (\<lambda>_. at_db d) (refused d) q s"
    by (simp add: after_sql_def assms(2))
qed

lemma at_alloc_port:
  assumes "driver_works E"
  shows "triple (at_db d) (alloc_port E p) (\<lambda>_. at_db d) (refused d)"
  unfolding alloc_port_def
  by (rule triple_check [OF at_query [OF assms query_ports]])
    (auto simp: used_ports_def intro: triple_throw triple_ret split: option.split)

lemma at_ext: "triple (at_db d) (ext c) (\<lambda>_. at_db d) (\<lambda>_. at_db d)"
  by (rule triple_keeps) (simp add: keeps_def mdb_ext)

lemma at_admit_memory:
  assumes "driver_works E"
  shows "triple (at_db d) (admit_memory E op') (\<lambda>_. at_db d) (refused d)"
proof -
  have running: "triple (at_db d) (admit_running E op') (\<lambda>_. at_db d) (refused d)"
    unfolding admit_running_def Let_def
    by (intro triple_if triple_ret triple_check [OF at_query [OF assms query_branches]] triple_throw)
      (auto simp: list_branches_def)
  show ?thesis
    unfolding admit_memory_def Let_def
    by (rule triple_check [OF running])
      (auto intro!: triple_handle [OF at_ext] triple_ret triple_throw split: option.split)
qed

lemma at_admit_storage: "triple (at_db d) (admit_storage E op') (\<lambda>_. at_db d) (refused d)"
  unfolding admit_storage_def
  by (auto intro!: triple_handle [OF at_ext] triple_ret triple_throw split: option.split)

lemma at_admit_create:
  assumes "driver_works E"
  shows "triple (at_db d) (admit_create E n port orig) (\<lambda>_. present n) (refused d)"
  unfolding admit_create_def
  apply (rule triple_check [OF at_query [OF assms query_branches]], simp add: list_branches_def)
  apply (rule triple_if, rule triple_throw, simp)
  apply (rule triple_check [OF at_alloc_port [OF assms]])
  apply (rule triple_check [OF at_admit_memory [OF assms]])
  apply (rule triple_check [OF at_admit_storage])
  apply (rule triple_sql_at [OF assms])
  apply (auto simp: after_sql_def create_branch_def row_at_def row_of_def find_append plain_err_def
      split: option.split)
  done

lemma at_current_baseline:
  assumes "driver_works E"
  shows "triple (at_db d) (current_baseline E) (\<lambda>_. at_db d) (refused d)"
  unfolding current_baseline_def
  apply (rule triple_attempt [where M = "\<lambda>_. at_db d"])
   apply (rule triple_weaken [OF at_query [OF assms query_current]])
      apply (simp_all add: current_baseline_override_def)
  apply (auto intro: triple_ret triple_false [OF triple_pure_ext] split: sum.split option.split)
  done


lemma sample_driver: "driver_works sample_env"
  by (simp add: driver_works_def sample_env_def)

lemma sample_create:
  "case fst (create_with_meta_from sample_env ''pr-1'' 0 no_meta [] (start_state 0)) of
     Inl e \<Rightarrow> False | Inr i \<Rightarrow> b_port (in_branch i) = 3401"
  by code_simp


text \<open>
  max_running is checked where a branch is created or woken, but a reset starts the server of a sleeping
  branch too: with room for one server, two are running afterwards.
\<close>

definition one_engine :: "int env" where
  "one_engine = sample_env\<lparr>cfg := sample_config\<lparr>c_max_running := 1\<rparr>\<rparr>"

definition two_branches :: "int mgr" where
  "two_branches = (start_state 0)\<lparr>mdb := snd (set_state 0 ''b'' Sleeping []
     (snd (set_state 0 ''a'' Running []
     (snd (create_branch 0 ''b'' 3402 ''s'' (snd (create_branch 0 ''a'' 3401 ''s'' open_db)))))))\<rparr>"

lemma reset_ignores_max_running:
  "map r_state (branches (mdb two_branches)) = [Running, Sleeping]
   \<and> map r_state (branches (mdb (snd (reset one_engine ''b'' two_branches)))) = [Running, Running]"
  unfolding two_branches_def
  by (simp add: one_engine_def reset_def check_def sql_def sample_env_def start_state_def open_db_def
      create_branch_def set_state_def update_or_missing_def update_branch_def has_branch_def get_branch_def scan_branch_def
      resolve_volume_def ext_def sample_storage_def succeed_def sample_volume_def refuse_if_backing_baseline_def
      baselines_on_dataset_def list_baselines_def ret_def put_state_def sql_at_def now_def pure_ext_def
      ignoring_def eng_kill_def logged_def sample_engine_def failing_def handle_err_def rollback_def eng_start_def
      wait_ready_def run_hook_def is_ok_def init_snapshot_of_def str_or_empty_def instance_of_def instance_for_def
      get_info_def attempt_def throw_def last_hook_status_def current_baseline_def current_baseline_override_def)

end
