(* ===== verification/Recreation.thy ===== *)
theory Recreation
  imports Outcomes
begin

text \<open>
  The protection of branches that hold the data of a baseline, and the outcomes of the rebuild
  that recreate, retry and the reset of slow backends share.
\<close>

section \<open>Branches that back a baseline\<close>

definition unchanged :: "db \<Rightarrow> event list \<Rightarrow> 'w mgr \<Rightarrow> bool" where
  "unchanged d tr s \<longleftrightarrow> mdb s = d \<and> trace s = tr"

text \<open>The volume of a branch is found, and its dataset carries a registered baseline.\<close>

definition backs_baseline :: "'w env \<Rightarrow> string \<Rightarrow> db \<Rightarrow> bool" where
  "backs_baseline E n d \<longleftrightarrow> (\<exists>rs ds. st_resolve (sto E) = Some rs
     \<and> (\<forall>w. case fst (rs n w) of Inl _ \<Rightarrow> False | Inr v \<Rightarrow> v_dataset v = ds)
     \<and> (\<exists>x \<in> set (baselines d). has_prefix (bl_snapshot x) (ds @ ''@'')))"

lemma unchanged_query:
  assumes "driver_works E" and "\<And>d'. snd (q d') = d'"
    and "\<And>a. fst (q d) = Inr a \<Longrightarrow> Q a" and "\<exists>a. fst (q d) = Inr a"
  shows "triple (unchanged d tr) (sql E q) (\<lambda>a s. unchanged d tr s \<and> Q a) (\<lambda>_ _. False)"
proof (rule triple_sql [OF assms(1)])
  fix s :: "'a mgr" assume "unchanged d tr s"
  moreover obtain a where "fst (q d) = Inr a" using assms(4) by blast
  ultimately show "after_sql (\<lambda>a s. unchanged d tr s \<and> Q a) (\<lambda>_ _. False) q s"
    using assms(2,3) by (simp add: after_sql_def unchanged_def)
qed

lemma unchanged_resolve:
  assumes "st_resolve (sto E) = Some rs"
    and "\<And>w. case fst (rs n w) of Inl _ \<Rightarrow> False | Inr v \<Rightarrow> v_dataset v = ds"
  shows "triple (unchanged d tr) (resolve_volume E n)
    (\<lambda>v s. unchanged d tr s \<and> v_dataset v = ds) (\<lambda>_ _. False)"
  unfolding triple_def resolve_volume_def assms(1) option.case
proof (intro allI impI)
  fix s :: "'a mgr" assume "unchanged d tr s"
  with assms(2) [of "world s"] show "case ext (rs n) s of (Inl e, s') \<Rightarrow> False
      | (Inr v, s') \<Rightarrow> unchanged d tr s' \<and> v_dataset v = ds"
    by (cases "rs n (world s)"; cases "fst (rs n (world s))") (auto simp: ext_def unchanged_def)
qed

lemma unchanged_refuse:
  assumes "driver_works E" and "x \<in> set (baselines d)" and "has_prefix (bl_snapshot x) (ds @ ''@'')"
    and "v_dataset v = ds"
  shows "triple (unchanged d tr) (refuse_if_backing_baseline E nm v verb) (\<lambda>_ _. False)
    (\<lambda>e s. unchanged d tr s \<and> err_is e EPrecondition)"
proof -
  have listed: "\<exists>b \<in> set bls. bs_snapshot b = bl_snapshot x" if "fst (list_baselines d) = Inr bls" for bls
    using that assms(2) by (auto simp: list_baselines_def scan_baseline_def)
  have get: "triple (unchanged d tr) (sql E list_baselines)
      (\<lambda>bls s. unchanged d tr s \<and> (\<exists>b \<in> set bls. bs_snapshot b = bl_snapshot x)) (\<lambda>_ _. False)"
    by (rule unchanged_query [OF assms(1) query_baselines listed]) (simp_all add: list_baselines_def)
  have ds: "triple (unchanged d tr) (baselines_on_dataset E ds)
      (\<lambda>l s. unchanged d tr s \<and> l \<noteq> []) (\<lambda>_ _. False)"
    unfolding baselines_on_dataset_def
    by (rule triple_check [OF get triple_ret]) (simp add: filter_empty_conv, metis assms(3))
  show ?thesis
    unfolding refuse_if_backing_baseline_def assms(4)
    by (rule triple_check [OF triple_false [OF ds]])
      (auto intro!: triple_if triple_throw triple_ret)
qed

text \<open>C5. A branch whose volume holds a registered baseline is never rolled back, rebuilt, deleted or
  retried: each of these requests fails with the precondition error, before anything is changed
  in the database and before any call to storage or engine.\<close>

theorem backing_branch_is_protected:
  assumes dw: "driver_works E" and row: "row_of (mdb s) n = Some r"
    and rs: "st_resolve (sto E) = Some rs"
    and vol: "\<And>w. case fst (rs n w) of Inl _ \<Rightarrow> False | Inr v \<Rightarrow> v_dataset v = ds"
    and reg: "x \<in> set (baselines (mdb s))" "has_prefix (bl_snapshot x) (ds @ ''@'')"
  shows "\<exists>e1 e2 e3 s1 s2 s3. reset E n s = (Inl e1, s1) \<and> recreate E n s = (Inl e2, s2)
    \<and> delete E n s = (Inl e3, s3)
    \<and> (\<forall>e \<in> {e1, e2, e3}. err_is e EPrecondition)
    \<and> (\<forall>s' \<in> {s1, s2, s3}. unchanged (mdb s) (trace s) s')
    \<and> (r_state r = Error_state \<longrightarrow> (\<exists>e s'. retry_create E n s = (Inl e, s')
          \<and> err_is e EPrecondition \<and> unchanged (mdb s) (trace s) s'))"
proof -
  define d tr where "d = mdb s" and "tr = trace s"
  let ?X = "\<lambda>e s. unchanged d tr s \<and> err_is e EPrecondition"
  have r: "row_of d n = Some r" using row by (simp add: d_def)
  have bn: "b_name (scan_branch r) = n" using r by (auto simp: scan_branch_def)
  have get: "triple (unchanged d tr) (sql E (get_branch n))
      (\<lambda>b s. unchanged d tr s \<and> b = scan_branch r) (\<lambda>_ _. False)"
    by (rule unchanged_query [OF dw query_branch]) (auto simp: get_branch_row r)
  note res = triple_false [OF unchanged_resolve [OF rs vol]]
  note refuse = unchanged_refuse [OF dw reg(1) [folded d_def] reg(2)]
  have guarded: "triple (unchanged d tr) (check (sql E (get_branch n)) (\<lambda>b.
      check (resolve_volume E (b_name b)) (\<lambda>v.
      check (refuse_if_backing_baseline E n v verb) (k b v)))) (\<lambda>_ _. False) ?X"
    for verb and k :: "branch \<Rightarrow> volume \<Rightarrow> unit \<Rightarrow> ('a, 'c) mact"
    apply (rule triple_check [OF triple_false [OF get]], rule triple_pure, simp only: bn)
    apply (rule triple_check [OF res], rule triple_pure)
    apply (rule triple_check [OF refuse triple_no_pre], assumption)
    done
  have reset: "triple (unchanged d tr) (reset E n) (\<lambda>_ _. False) ?X"
    unfolding reset_def by (rule guarded)
  have recreate: "triple (unchanged d tr) (recreate E n) (\<lambda>_ _. False) ?X"
    unfolding recreate_def by (rule guarded)
  have delete: "triple (unchanged d tr) (delete E n) (\<lambda>_ _. False) ?X"
    unfolding delete_def
    apply (rule triple_check [OF triple_false [OF get]], rule triple_pure, simp only: bn)
    apply (rule triple_handle [OF unchanged_resolve [OF rs vol] triple_no_pre], rule triple_pure)
    apply (rule triple_check [OF refuse triple_no_pre], assumption)
    done
  have retry: "triple (unchanged d tr) (retry_create E n) (\<lambda>_ _. False) ?X"
    if "r_state r = Error_state"
    unfolding retry_create_def
    apply (rule triple_check [OF triple_false [OF get]], rule triple_pure, simp only: bn)
    apply (rule triple_if)
    using that apply (simp add: scan_branch_def)
    apply (rule triple_check [OF triple_handle [OF unchanged_resolve [OF rs vol] triple_no_pre] triple_no_pre])
    apply (rule triple_pure)
    apply (rule refuse, assumption)
    done
  have out: "\<exists>e s'. m s = (Inl e, s') \<and> err_is e EPrecondition \<and> unchanged (mdb s) (trace s) s'"
    if "triple (unchanged d tr) m (\<lambda>_ _. False) ?X" for m :: "('a, 'c) mact"
    using tripleD [OF that, of s "fst (m s)" "snd (m s)"]
    by (cases "m s"; cases "fst (m s)") (auto simp: unchanged_def d_def tr_def)
  show ?thesis
    using out [OF reset] out [OF recreate] out [OF delete] out [OF retry] by auto
qed

definition backing_state :: "int mgr" where
  "backing_state = (start_state 0)\<lparr>mdb := open_db\<lparr>branches := [sample_row],
     baselines := [new_baseline_row 0 ''pool/pr-1@baseline-1'' 1]\<rparr>\<rparr>"

theorem backing_branch_is_protected_witness:
  "\<exists>e s'. reset sample_env ''pr-1'' backing_state = (Inl e, s') \<and> err_is e EPrecondition
     \<and> unchanged (mdb backing_state) (trace backing_state) s'"
proof -
  have row: "row_of (mdb backing_state) ''pr-1'' = Some sample_row"
    by (simp add: backing_state_def row_of_def sample_row_def)
  have rs: "st_resolve (sto sample_env) = Some (\<lambda>n. succeed (sample_volume n))"
    by (simp add: sample_env_def sample_storage_def)
  have vol: "case fst (succeed (sample_volume ''pr-1'') w) of Inl (_::err) \<Rightarrow> False
      | Inr v \<Rightarrow> v_dataset v = ''pool/pr-1''" for w :: int
    by (simp add: succeed_def sample_volume_def)
  have reg: "new_baseline_row 0 ''pool/pr-1@baseline-1'' 1 \<in> set (baselines (mdb backing_state))"
    "has_prefix (bl_snapshot (new_baseline_row 0 ''pool/pr-1@baseline-1'' 1)) (''pool/pr-1'' @ ''@'')"
    by (simp_all add: backing_state_def has_prefix_def)
  show ?thesis
    using backing_branch_is_protected [OF sample_driver row rs vol reg] by auto
qed

section \<open>Outcomes of a rebuild\<close>

fun is_delete :: "event \<Rightarrow> bool" where
  "is_delete (EvDelete v ok) = True"
| "is_delete _ = False"

definition deletions :: "event list \<Rightarrow> event list" where
  "deletions tr = filter is_delete tr"

text \<open>
  While a rebuild runs: the branch is there, and no volume was deleted since the start.
\<close>

definition building :: "string \<Rightarrow> event list \<Rightarrow> 'w mgr \<Rightarrow> bool" where
  "building n dl s \<longleftrightarrow> row_of (mdb s) n \<noteq> None \<and> deletions (trace s) = dl"

definition rebuild_failed :: "string \<Rightarrow> string \<Rightarrow> event list \<Rightarrow> err \<Rightarrow> 'w mgr \<Rightarrow> bool" where
  "rebuild_failed n op' dl e s \<longleftrightarrow> deletions (trace s) = dl \<and> (\<exists>stage. row_at n (failed_row op' stage e) s)"

interpretation bk: effect_relation "\<lambda>s s'. building n dl s \<longrightarrow> building n dl s'" for n dl
  by unfold_locales auto

text \<open>Calls that delete nothing.\<close>

lemma bk_logged: "(\<And>r. \<not> is_delete (ev r)) \<Longrightarrow>
    keeps (\<lambda>s s'. building n dl s \<longrightarrow> building n dl s') (logged ev c)"
  by (rule bk.keepsI) (simp add: building_def logged_def deletions_def split: prod.split)

lemma bk_ext: "keeps (\<lambda>s s'. building n dl s \<longrightarrow> building n dl s') (ext c)"
  by (rule bk.keepsI) (simp add: building_def ext_def split: prod.split)

lemma bk_pure_ext: "keeps (\<lambda>s s'. building n dl s \<longrightarrow> building n dl s') (pure_ext c)"
  by (rule bk.keepsI) (simp add: building_def pure_ext_def split: prod.split)

lemma bk_now: "keeps (\<lambda>s s'. building n dl s \<longrightarrow> building n dl s') (now E)"
  by (simp add: now_def bk_pure_ext)

lemma bk_mark: "\<not> is_delete ev \<Longrightarrow> keeps (\<lambda>s s'. building n dl s \<longrightarrow> building n dl s')
    (modifying (\<lambda>s. s\<lparr>trace := ev # trace s\<rparr>))"
  by (rule bk.keepsI) (simp add: building_def modifying_def deletions_def)

text \<open>Statements that remove no row.\<close>

definition no_loss :: "string \<Rightarrow> 'a sql \<Rightarrow> bool" where
  "no_loss n q \<longleftrightarrow> (\<forall>d. row_of d n \<noteq> None \<longrightarrow> row_of (snd (q d)) n \<noteq> None)"

lemma bk_sql: "no_loss n q \<Longrightarrow> keeps (\<lambda>s s'. building n dl s \<longrightarrow> building n dl s') (sql E q)"
  by (rule bk.keepsI) (auto simp: no_loss_def building_def sql_def split: prod.split option.split)

lemma bk_sql_at: "(\<And>t. no_loss n (q t)) \<Longrightarrow>
    keeps (\<lambda>s s'. building n dl s \<longrightarrow> building n dl s') (sql_at E q)"
  unfolding sql_at_def by (intro bk.keeps_check bk_now bk_sql)

lemma no_loss_query: "(\<And>d. snd (q d) = d) \<Longrightarrow> no_loss n q"
  by (simp add: no_loss_def)

lemma no_loss_statements:
  "no_loss n (set_state t m st msg)" "no_loss n (set_error t m fop code recov emsg sugg)"
  "no_loss n (record_hook_start t m ev)" "no_loss n (record_hook_finish t i exitc)"
  "no_loss n (set_provision m vref snap)" "no_loss n (update_origin m orig)"
  by (simp_all add: no_loss_def rows set_provision_def update_or_missing_def update_origin_def
      record_hook_start_def record_hook_finish_def Let_def)

lemmas bk_prims = bk_ext bk_pure_ext bk_now

lemma bk_calls:
  "keeps (\<lambda>s s'. building n dl s \<longrightarrow> building n dl s') (clone_vol E orig m)"
  "keeps (\<lambda>s s'. building n dl s \<longrightarrow> building n dl s') (snapshot_init E v)"
  "keeps (\<lambda>s s'. building n dl s \<longrightarrow> building n dl s') (eng_start E ins)"
  "keeps (\<lambda>s s'. building n dl s \<longrightarrow> building n dl s') (eng_stop E ins)"
  "keeps (\<lambda>s s'. building n dl s \<longrightarrow> building n dl s') (eng_kill E ins)"
  "keeps (\<lambda>s s'. building n dl s \<longrightarrow> building n dl s') (wait_ready E ins)"
  "keeps (\<lambda>s s'. building n dl s \<longrightarrow> building n dl s') (rename_vol rn v m)"
  by (simp_all add: clone_vol_def snapshot_init_def eng_start_def eng_stop_def eng_kill_def
      wait_ready_def rename_vol_def bk_logged)

lemma bk_parts:
  "keeps (\<lambda>s s'. building n dl s \<longrightarrow> building n dl s') (apply_quota E v)"
  "keeps (\<lambda>s s'. building n dl s \<longrightarrow> building n dl s') (resolve_volume E m)"
  "keeps (\<lambda>s s'. building n dl s \<longrightarrow> building n dl s') (admit_memory E op')"
  "keeps (\<lambda>s s'. building n dl s \<longrightarrow> building n dl s') (admit_storage E op')"
  "keeps (\<lambda>s s'. building n dl s \<longrightarrow> building n dl s') (put_state E m st)"
  "keeps (\<lambda>s s'. building n dl s \<longrightarrow> building n dl s') (run_hook E ev b v)"
  unfolding apply_quota_def resolve_volume_def admit_memory_def admit_running_def
    admit_storage_def put_state_def run_hook_def hook_exists_def hook_env_of_def Let_def
  by (intro bk.keeps_intros bk_prims bk_sql bk_sql_at no_loss_query query no_loss_statements
      bk_logged bk_mark; simp)+

lemma triple_building:
  "keeps (\<lambda>s s'. building n dl s \<longrightarrow> building n dl s') m \<Longrightarrow>
   triple (building n dl) m (\<lambda>_. building n dl) (\<lambda>_. building n dl)"
  by (rule triple_keeps)

lemma b_record:
  assumes "driver_works E"
  shows "triple (building n dl) (record_failure E n op' stage e)
    (\<lambda>_. rebuild_failed n op' dl e) (\<lambda>_. rebuild_failed n op' dl e)"
  unfolding record_failure_def
  by (cases "classify stage e", simp, rule triple_sql_at [OF assms])
    (auto simp: after_sql_def building_def rebuild_failed_def row_at_def failed_row_def rows
      set_error_def update_or_missing_def has_branch_row intro!: exI [of _ stage])

lemma b_fail_op:
  assumes "driver_works E"
  shows "triple (building n dl) (fail_op E n op' stage e) Q (rebuild_failed n op' dl)"
  unfolding fail_op_def by (rule triple_ignoring [OF b_record [OF assms] triple_throw])

lemma b_failing:
  assumes "driver_works E" and "keeps (\<lambda>s s'. building n dl s \<longrightarrow> building n dl s') m"
  shows "triple (building n dl) (failing E n op' stage wrap m) (\<lambda>_. building n dl)
    (rebuild_failed n op' dl)"
  unfolding failing_def
  by (rule triple_handle [OF triple_building [OF assms(2)] b_fail_op [OF assms(1)] triple_ret])

lemma b_recreate_provision:
  assumes "driver_works E" and "b_name b = n"
  shows "triple (building n dl) (recreate_provision E b ev op' v) (\<lambda>_. building n dl)
    (rebuild_failed n op' dl)"
  unfolding recreate_provision_def Let_def assms(2)
  by (intro triple_check [OF b_failing [OF assms(1)]] b_failing [OF assms(1)]
      triple_ignoring [OF triple_building] bk_parts bk_calls bk_sql no_loss_statements)

lemma bk_restore: "keeps (\<lambda>s s'. building n dl s \<longrightarrow> building n dl s') (restore_stash E b stash)"
  unfolding restore_stash_def
  by (auto intro!: bk.keeps_handle bk.keeps_ret bk.keeps_ignoring bk_calls
      split: prod.splits option.splits bool.splits)

lemma b_recreate_build:
  assumes "driver_works E" and "b_name b = n"
  shows "triple (building n dl) (recreate_build E b orig ev op' stash) (\<lambda>_. building n dl)
    (rebuild_failed n op' dl)"
  unfolding recreate_build_def assms(2)
  by (intro triple_handle [OF triple_building] triple_ignoring [OF triple_building]
      triple_check [OF b_recreate_provision [OF assms]] b_fail_op [OF assms(1)] triple_ret
      bk_restore bk_calls)

lemma b_stash_old:
  assumes "driver_works E" and "b_name b = n"
  shows "triple (building n dl) (stash_old E b op' old) (\<lambda>_. building n dl)
    (rebuild_failed n op' dl)"
  unfolding stash_old_def assms(2)
  by (auto intro!: triple_check [OF b_failing [OF assms(1)]] triple_ret bk_calls
      split: option.split)

lemma b_admit_recreate:
  assumes dw: "driver_works E" and row: "row_of d n \<noteq> None"
  shows "triple (\<lambda>s. building n dl s \<and> at_db d s) (admit_recreate E n) (\<lambda>_. building n dl)
    (\<lambda>e s. deletions (trace s) = dl \<and> mdb s = d)"
proof -
  let ?P = "\<lambda>s. building n dl s \<and> at_db d s"
  let ?X = "\<lambda>(e::err) s. deletions (trace s) = dl \<and> mdb s = d"
  have mem: "triple ?P (admit_memory E ''recreate'') (\<lambda>_. ?P) ?X"
    by (rule triple_weaken [OF triple_both [OF triple_building [OF bk_parts(3)] at_admit_memory [OF dw]]])
      (auto simp: building_def)
  have sto: "triple ?P (admit_storage E ''recreate'') (\<lambda>_. ?P) ?X"
    by (rule triple_weaken [OF triple_both [OF triple_building [OF bk_parts(4)] at_admit_storage]])
      (auto simp: building_def)
  have put: "triple ?P (put_state E n Resetting) (\<lambda>_. building n dl) ?X"
    unfolding put_state_def
    by (rule triple_sql_at [OF dw])
      (use row in \<open>auto simp: after_sql_def building_def rows set_state_def update_or_missing_def
        has_branch_row\<close>)
  show ?thesis
    unfolding admit_recreate_def by (rule triple_check [OF mem triple_check [OF sto put]])
qed

definition from_origin :: "string \<Rightarrow> branch_row option \<Rightarrow> bool" where
  "from_origin orig r \<longleftrightarrow> (case r of None \<Rightarrow> False | Some row \<Rightarrow> r_origin row = orig)"

definition rebuilt :: "string \<Rightarrow> branch_row option \<Rightarrow> bool" where
  "rebuilt orig r \<longleftrightarrow> in_state Running r \<and> from_origin orig r"

lemma b_finish:
  assumes dw: "driver_works E"
  shows "triple (row_at n (from_origin orig)) (check (put_state E n Running) (\<lambda>_. get_info E n))
    (\<lambda>i. row_at n (showing (rebuilt orig) (in_branch i))) (\<lambda>_ _. False)"
  apply (rule triple_check [where M = "\<lambda>_. row_at n (rebuilt orig)"])
   apply (unfold put_state_def, rule triple_sql_at [OF dw])
   apply (simp add: after_sql_def row_at_def has_branch_row set_state_def update_or_missing_def rows
      in_state_def from_origin_def rebuilt_def split: option.splits)
  apply (rule triple_get_info [OF dw])
  apply (simp add: rebuilt_def in_state_def split: option.splits)
  done


text \<open>A pool without space: every clone fails.\<close>

definition full_env :: "int env" where
  "full_env = sample_env\<lparr>sto := sample_storage\<lparr>st_clone := (\<lambda>snap n w. (Inl (EText ''no space''), w))\<rparr>\<rparr>"

lemma full_rebuild:
  "case fst (recreate_from full_env (scan_branch sample_row) ''pool/base@b2'' OnCreate ''recreate''
       sample_state) of Inl e \<Rightarrow> True | Inr i \<Rightarrow> False"
  by code_simp


end
