(* ===== verification/Publication.thy ===== *)
theory Publication
  imports Recreation
begin

text \<open>
  The publish policy: with require_masked or require_validated, no request makes a baseline
  current that is not recorded as masked, or as validated. And the other side of the catalog of
  baselines: garbage collection and deletion never take one that is in use.
\<close>

section \<open>The pointer\<close>

definition current_of :: "db \<Rightarrow> string option" where
  "current_of d = map_option bl_snapshot (find (\<lambda>b. bl_current b = 1) (baselines d))"

lemma override_current: "fst (current_baseline_override d) = Inr (current_of d)"
  by (simp add: current_baseline_override_def current_of_def)

lemma current_of_register: "current_of (snd (register_baseline t snap p d)) = current_of d"
proof -
  have "find (\<lambda>b. bl_current b = 1) (map (\<lambda>b. if bl_snapshot b = s then with_prov p b else b) bs)
      = map_option (\<lambda>b. if bl_snapshot b = s then with_prov p b else b) (find (\<lambda>b. bl_current b = 1) bs)"
    for s bs
    by (induction bs) (auto simp: with_prov_def)
  then show ?thesis
    by (auto simp: current_of_def register_baseline_def upsert_baseline_def find_append with_prov_def
        option.map_comp comp_def split: option.split intro: option.map_cong)
qed

lemma at_most_one:
  assumes "length (filter P xs) \<le> 1" and "x \<in> set xs" "y \<in> set xs" "P x" "P y"
  shows "x = y"
proof -
  have "x \<in> set (filter P xs)" "y \<in> set (filter P xs)" using assms by simp_all
  with assms(1) show ?thesis by (cases "filter P xs") auto
qed

lemma current_of_delete:
  assumes "db_ok d"
  shows "current_of (snd (delete_baseline_row snap d)) \<in> {current_of d, None}"
proof (cases "current_of d")
  case None
  then have "\<forall>b \<in> set (baselines d). bl_current b \<noteq> 1" by (simp add: current_of_def find_None_iff)
  then have "find (\<lambda>b. bl_current b = 1) (filter (\<lambda>b. bl_snapshot b \<noteq> snap) (baselines d)) = None"
    by (simp add: find_None_iff)
  then show ?thesis by (simp add: current_of_def delete_baseline_row_def)
next
  case (Some c)
  show ?thesis
  proof (cases "current_of (snd (delete_baseline_row snap d))")
    case (Some c')
    then obtain x' where x': "x' \<in> set (baselines d)" "bl_current x' = 1" "c' = bl_snapshot x'"
      by (auto simp: current_of_def delete_baseline_row_def dest!: find_key_mem)
    obtain x where x: "x \<in> set (baselines d)" "bl_current x = 1" "c = bl_snapshot x"
      using \<open>current_of d = Some c\<close> by (auto simp: current_of_def dest: find_key_mem)
    have "length (filter (\<lambda>b. bl_current b = 1) (baselines d)) \<le> 1"
      using assms by (simp add: db_ok_def baselines_ok_def)
    then have "x = x'" by (rule at_most_one) (use x x' in auto)
    with x x' Some \<open>current_of d = Some c\<close> show ?thesis by simp
  qed simp
qed

text \<open>What all requests but three do to the pointer: leave it, or lose it with a deleted row.\<close>

definition pointer_kept :: "db \<Rightarrow> db \<Rightarrow> bool" where
  "pointer_kept d d' \<longleftrightarrow> (db_ok d \<longrightarrow> db_ok d' \<and> current_of d' \<in> {current_of d, None})"

lemma pointer_kept_same: "baselines d' = baselines d \<Longrightarrow> (db_ok d \<Longrightarrow> db_ok d') \<Longrightarrow> pointer_kept d d'"
  by (simp add: pointer_kept_def current_of_def)

lemma pointer_kept_other:
  "db_write d d' \<Longrightarrow> baselines d' = baselines d \<Longrightarrow> pointer_kept d d'"
  by (rule pointer_kept_same) (auto intro: db_write_ok)

lemma admit_baselines: "baselines (snd (create_branch t n p orig d)) = baselines d"
  by (simp add: create_branch_def)

lemma admit_kept: "keeps (\<lambda>s s'. pointer_kept (mdb s) (mdb s')) (admit_create E n port orig)"
  unfolding keeps_def
proof
  fix s
  have "admit_create E n port orig s = (fst (admit_create E n port orig s),
      snd (admit_create E n port orig s))" by simp
  then show "pointer_kept (mdb s) (mdb (snd (admit_create E n port orig s)))"
    using admit_create_effect [of E n port orig s] pointer_kept_other [OF w_create_branch admit_baselines]
      pointer_kept_same [of "mdb s" "mdb s"] by metis
qed

interpretation pointer: db_background pointer_kept E for E :: "'w env"
proof unfold_locales
  fix d d' d'' t n st msg fop code recov sugg m orig vref snap ev i exitc before p port
  note same = pointer_kept_other
  show "pointer_kept d d" by (simp add: pointer_kept_def)
  show "pointer_kept d d' \<Longrightarrow> pointer_kept d' d'' \<Longrightarrow> pointer_kept d d''"
    by (auto simp: pointer_kept_def)
  show "pointer_kept d (snd (set_state t n st msg d))"
    by (rule same [OF w_set_state]) (simp add: set_state_def update_or_missing_def update_branch_def)
  show "pointer_kept d (snd (set_error t n fop code recov msg sugg d))"
    by (rule same [OF w_set_error]) (simp add: set_error_def update_or_missing_def update_branch_def)
  show "pointer_kept d (snd (touch_last_conn t n d))"
    by (rule same [OF w_touch]) (simp add: touch_last_conn_def update_branch_def)
  show "pointer_kept d (snd (set_meta n m d))"
    by (rule same [OF w_set_meta]) (simp add: set_meta_def update_branch_def)
  show "pointer_kept d (snd (set_expires_at n t d))"
    by (rule same [OF w_set_expires]) (simp add: set_expires_at_def update_branch_def)
  show "pointer_kept d (snd (update_origin n orig d))"
    by (rule same [OF w_update_origin]) (simp add: update_origin_def update_branch_def)
  show "pointer_kept d (snd (set_provision n vref snap d))"
    by (rule same [OF w_set_provision])
      (simp add: set_provision_def update_or_missing_def update_branch_def)
  show "pointer_kept d (snd (delete_branch n d))"
    by (rule same [OF w_delete_branch]) (simp add: delete_branch_def)
  show "pointer_kept d (snd (mark_error_at_if_missing t n d))"
    by (rule same [OF w_mark_error]) (simp add: mark_error_at_if_missing_def update_branch_def)
  show "pointer_kept d (snd (record_hook_start t n ev d))"
    by (rule same [OF w_hook_start]) (simp add: record_hook_start_def Let_def)
  show "pointer_kept d (snd (record_hook_finish t i exitc d))"
    by (rule same [OF w_hook_finish]) (simp add: record_hook_finish_def)
  show "pointer_kept d (snd (prune_operations before d))"
    by (rule same [OF w_prune_ops]) (simp add: prune_operations_def Let_def)
  show "pointer_kept d (snd (prune_hook_runs before d))"
    by (rule same [OF w_prune_hooks]) (simp add: prune_hook_runs_def Let_def)
  show "pointer_kept d (snd (register_baseline t snap p d))"
    using db_write_ok [OF w_register_baseline] by (auto simp: pointer_kept_def current_of_register)
  show "pointer_kept d (snd (delete_baseline_row snap d))"
    using db_write_ok [OF w_delete_baseline] current_of_delete by (auto simp: pointer_kept_def)
  show "keeps (\<lambda>s s'. pointer_kept (mdb s) (mdb s')) (admit_create E n port orig)"
    by (rule admit_kept)
qed

text \<open>The table of baselines under the handlers that do not touch it.\<close>

interpretation bl: db_housekeeping "\<lambda>d d'. baselines d' = baselines d" E for E :: "'w env"
proof unfold_locales
  fix n port orig
  show "keeps (\<lambda>s s'. baselines (mdb s') = baselines (mdb s)) (admit_create E n port orig)"
    unfolding keeps_def
  proof
    fix s
    have "admit_create E n port orig s = (fst (admit_create E n port orig s),
        snd (admit_create E n port orig s))" by simp
    from admit_create_effect [OF this]
    show "baselines (mdb (snd (admit_create E n port orig s))) = baselines (mdb s)"
      by (auto simp: create_branch_def)
  qed
qed (simp_all add: set_state_def set_error_def update_or_missing_def update_branch_def
    touch_last_conn_def set_meta_def set_expires_at_def update_origin_def set_provision_def
    delete_branch_def mark_error_at_if_missing_def record_hook_start_def record_hook_finish_def
    prune_operations_def prune_hook_runs_def Let_def)

section \<open>Gates\<close>

text \<open>\<open>calm c0\<close>: the pointer is the one before the request, or gone.\<close>

definition calm :: "string option \<Rightarrow> 'w mgr \<Rightarrow> bool" where
  "calm c0 s \<longleftrightarrow> db_ok (mdb s) \<and> current_of (mdb s) \<in> {c0, None}"

definition has_prov :: "string \<Rightarrow> bool \<Rightarrow> bool \<Rightarrow> 'w mgr \<Rightarrow> bool" where
  "has_prov snap m v s \<longleftrightarrow> (\<exists>b. baseline_of (mdb s) snap = Some b
     \<and> p_masked (bs_prov (scan_baseline b)) = m \<and> p_validated (bs_prov (scan_baseline b)) = v)"

definition gated :: "'w refresh_config \<Rightarrow> string \<Rightarrow> 'w mgr \<Rightarrow> bool" where
  "gated pol snap s \<longleftrightarrow> (\<exists>m v. has_prov snap m v s
     \<and> (rc_require_masked pol \<longrightarrow> m) \<and> (rc_require_validated pol \<longrightarrow> v))"

definition settled :: "'w refresh_config \<Rightarrow> string option \<Rightarrow> 'w mgr \<Rightarrow> bool" where
  "settled pol c0 s \<longleftrightarrow> calm c0 s \<or> (\<exists>snap. current_of (mdb s) = Some snap \<and> gated pol snap s)"

lemma calm_settled: "calm c0 s \<Longrightarrow> settled pol c0 s"
  by (simp add: settled_def)

lemma triple_calm: "pointer.base.safe m \<Longrightarrow> triple (calm c0) m (\<lambda>_. calm c0) (\<lambda>_. calm c0)"
  by (rule triple_keeps) (auto simp: keeps_def pointer_kept_def calm_def)

lemma triple_prov:
  "bl.base.safe m \<Longrightarrow> triple (has_prov snap p v) m (\<lambda>_. has_prov snap p v) (\<lambda>_. has_prov snap p v)"
  by (rule triple_keeps) (auto simp: keeps_def has_prov_def baseline_of_def)

lemma triple_sql_at_any:
  assumes run: "\<And>s t. P s \<Longrightarrow> after_sql Q X (q t) s" and fault: "\<And>s e w. P s \<Longrightarrow> X e (s\<lparr>world := w\<rparr>)"
  shows "triple P (sql_at E q) Q X"
  unfolding triple_def
proof (intro allI impI)
  fix s assume P: "P s"
  obtain t w where t: "clock E (world s) = (t, w)" by fastforce
  obtain f w' where f: "sql_fault E w = (f, w')" by fastforce
  have eq: "sql_at E q s = (case f of Some e \<Rightarrow> (Inl e, s\<lparr>world := w'\<rparr>)
      | None \<Rightarrow> (fst (q t (mdb s)), s\<lparr>world := w', mdb := snd (q t (mdb s))\<rparr>))"
    using t f by (simp add: sql_at_def check_def now_def pure_ext_def sql_def split: option.split prod.split)
  show "case sql_at E q s of (Inl e, s') \<Rightarrow> X e s' | (Inr a, s') \<Rightarrow> Q a s'"
    unfolding eq using run [OF P, of t] fault [OF P]
    by (cases f; cases "fst (q t (mdb s))") (simp_all add: after_sql_def)
qed

lemma register_prov:
  "triple (calm c0) (sql_at E (\<lambda>t. register_baseline t snap (fresh_prov tag m v)))
    (\<lambda>_ s. calm c0 s \<and> has_prov snap m v s) (\<lambda>_. calm c0)"
proof (rule triple_sql_at_any)
  fix s :: "'a mgr" and t assume calm: "calm c0 s"
  let ?d = "snd (register_baseline t snap (fresh_prov tag m v) (mdb s))"
  have "db_ok ?d" using calm db_write_ok [OF w_register_baseline] by (auto simp: calm_def)
  then have "calm c0 (s\<lparr>world := w, mdb := ?d\<rparr>)" for w
    using calm by (simp add: calm_def current_of_register)
  moreover have "has_prov snap m v (s\<lparr>world := w, mdb := ?d\<rparr>)" for w
    by (auto simp: has_prov_def baseline_of_register scan_baseline_def with_prov_def fresh_prov_def
        bool_to_int_def split: option.split)
  moreover have "fst (register_baseline t snap (fresh_prov tag m v) (mdb s)) = Inr ()"
    by (simp add: register_baseline_def)
  ultimately show "after_sql (\<lambda>_ s. calm c0 s \<and> has_prov snap m v s) (\<lambda>_. calm c0)
      (register_baseline t snap (fresh_prov tag m v)) s"
    by (simp add: after_sql_def)
qed (simp add: calm_def)

lemma set_current_settles:
  "triple (\<lambda>s. calm c0 s \<and> gated pol snap s) (sql_at E (\<lambda>t. set_current_baseline t snap))
    (\<lambda>_. settled pol c0) (\<lambda>_. settled pol c0)"
proof (rule triple_sql_at_any)
  fix s and t assume s: "calm c0 s \<and> gated pol snap s"
  let ?d = "snd (set_current_baseline t snap (mdb s))"
  have "current_of ?d = Some snap"
    using s set_current_unique [of "mdb s" ?d t snap]
    by (simp add: calm_def override_current)
  moreover have "gated pol snap (s\<lparr>world := w, mdb := ?d\<rparr>)" for w
    using s by (fastforce simp: gated_def has_prov_def baseline_of_set_current scan_baseline_def
        split: option.split)
  ultimately show "after_sql (\<lambda>_. settled pol c0) (\<lambda>_. settled pol c0) (set_current_baseline t snap) s"
    by (auto simp: after_sql_def settled_def set_current_baseline_def Let_def)
qed (simp add: settled_def calm_def)

lemma triple_sql_any:
  assumes run: "\<And>s. P s \<Longrightarrow> after_sql Q X q s" and fault: "\<And>s e w. P s \<Longrightarrow> X e (s\<lparr>world := w\<rparr>)"
  shows "triple P (sql E q) Q X"
  unfolding triple_def
proof (intro allI impI)
  fix s assume P: "P s"
  obtain f w where f: "sql_fault E (world s) = (f, w)" by fastforce
  show "case sql E q s of (Inl e, s') \<Rightarrow> X e s' | (Inr a, s') \<Rightarrow> Q a s'"
    using run [OF P] fault [OF P, of _ w]
    by (cases f; cases "q (mdb s)"; cases "fst (q (mdb s))") (simp_all add: sql_def f after_sql_def)
qed

text \<open>Reading the row of a baseline.\<close>

lemma triple_get_baseline:
  "triple (calm c0) (sql E (get_baseline snap))
    (\<lambda>b s. calm c0 s \<and> has_prov snap (p_masked (bs_prov b)) (p_validated (bs_prov b)) s) (\<lambda>_. calm c0)"
  by (rule triple_sql_any)
    (auto simp: after_sql_def calm_def has_prov_def get_baseline_of split: option.split sum.split)

lemma triple_same_baseline:
  "triple (\<lambda>s. calm c0 s \<and> has_prov snap m v s) (sql E (get_baseline snap'))
    (\<lambda>_ s. calm c0 s \<and> has_prov snap m v s) (\<lambda>_. calm c0)"
  by (rule triple_sql_any) (auto simp: after_sql_def calm_def has_prov_def query split: sum.split)

lemma triple_has_prov:
  assumes "pointer.base.safe m" and "bl.base.safe m"
  shows "triple (\<lambda>s. calm c0 s \<and> has_prov snap p v s) m
    (\<lambda>_ s. calm c0 s \<and> has_prov snap p v s) (\<lambda>_ s. calm c0 s \<and> has_prov snap p v s)"
  using triple_both [OF triple_calm [OF assms(1)] triple_prov [OF assms(2)]] .

lemma set_current_if_gated:
  assumes "(rc_require_masked pol \<longrightarrow> m) \<and> (rc_require_validated pol \<longrightarrow> v)"
  shows "triple (\<lambda>s. calm c0 s \<and> has_prov snap m v s) (sql_at E (\<lambda>t. set_current_baseline t snap))
    (\<lambda>_. settled pol c0) (\<lambda>_. settled pol c0)"
  by (rule triple_weaken [OF set_current_settles]) (use assms in \<open>auto simp: gated_def\<close>)

section \<open>The requests that publish\<close>

lemma set_baseline_settles:
  "triple (calm c0) (set_baseline E pol snap) (\<lambda>_. settled pol c0) (\<lambda>_. settled pol c0)"
  unfolding set_baseline_def
  apply (rule triple_handle [OF triple_get_baseline])
   apply (rule triple_throw, erule calm_settled)
  apply (intro triple_if triple_throw set_current_if_gated)
    apply (auto intro: calm_settled)
  done

lemma promote_snapshot_registers:
  "triple (calm c0) (promote_snapshot E H pr masked vol)
    (\<lambda>(snap, tag) s. calm c0 s \<and> has_prov snap masked False s) (\<lambda>_. calm c0)"
  unfolding promote_snapshot_def
  apply (rule triple_check [OF triple_calm], rule pointer.base.safe_pure_ext)
  apply (rule triple_check [OF triple_calm], rule pointer.safe_tag)
  apply (rule triple_check [OF triple_calm])
   apply (rule pointer.base.keeps_wrapping, rule pointer.blind_logged)
  apply (rule triple_check [OF triple_wrapping [OF register_prov]])
  apply (rule triple_ret, simp)
  done

lemma promote_take_registers:
  "triple (calm c0) (promote_take E H pr masked b vol)
    (\<lambda>(snap, tag) s. calm c0 s \<and> has_prov snap masked False s) (\<lambda>_. calm c0)"
proof -
  let ?M = "case_sum (\<lambda>_. calm c0) (\<lambda>(snap, tag) s. calm c0 s \<and> has_prov snap masked False s)"
  have keep: "triple (?M r) (restart_branch E ins) (\<lambda>_. ?M r) (\<lambda>_. ?M r)" for r ins
  proof (cases r)
    case (Inr a)
    then show ?thesis
      using triple_has_prov [OF pointer.safe_restart_branch bl.safe_restart_branch] by (cases a) simp
  qed (simp add: triple_calm [OF pointer.safe_restart_branch])
  show ?thesis
    unfolding promote_take_def with_cleanup_def
    apply (rule triple_check [OF triple_calm])
     apply (intro pointer.base.keeps_wrapping pointer.base.safe_calls)
    apply (rule triple_attempt [where M = ?M])
     apply (simp add: promote_snapshot_registers)
    apply (rule triple_ignoring [OF keep])
    apply (auto intro!: triple_throw triple_ret split: sum.split)
    done
qed

lemma publish_promoted_settles:
  assumes "(rc_require_masked pol \<longrightarrow> masked) \<and> (rc_require_validated pol \<longrightarrow> v)"
  shows "triple (\<lambda>s. calm c0 s \<and> has_prov snap masked False s) (publish_promoted E snap tag masked v)
    (\<lambda>_. settled pol c0) (\<lambda>_. settled pol c0)"
  unfolding publish_promoted_def
  apply (rule triple_check [where M = "\<lambda>_ s. calm c0 s \<and> has_prov snap masked False s"])
   apply (rule triple_wrapping)
   apply (rule triple_weaken [OF triple_same_baseline], assumption, assumption, erule calm_settled)
  apply (rule triple_check [where M = "\<lambda>_ s. calm c0 s \<and> has_prov snap masked v s"])
   apply (rule triple_if)
    apply (rule triple_wrapping)
    apply (rule triple_weaken [OF register_prov [of c0]])
      apply (simp_all add: calm_settled triple_ret)
  apply (rule triple_check [OF triple_wrapping [OF set_current_if_gated [OF assms]] triple_ret])
  apply assumption
  done

lemma resolved_policy:
  "triple P (resolve_refresh_config H pol rc) (\<lambda>rc' s.
     rc_require_masked rc' = (rc_require_masked rc \<or> rc_require_masked pol)
     \<and> rc_require_validated rc' = (rc_require_validated rc \<or> rc_require_validated pol)) (\<lambda>_ _. True)"
  unfolding resolve_refresh_config_def Let_def filled_config_def
  by (rule triple_check [where M = "\<lambda>_ _. True"]) (auto simp: triple_def ret_def split: sum.split prod.split)

lemma resolve_calm:
  "triple (calm c0) (resolve_refresh_config H pol no_request) (\<lambda>rc s. calm c0 s
     \<and> rc_require_masked rc = rc_require_masked pol \<and> rc_require_validated rc = rc_require_validated pol)
    (\<lambda>_. calm c0)"
  apply (rule triple_weaken [OF triple_both [OF triple_calm [OF pointer.safe_resolve_config]
    resolved_policy [of "\<lambda>_. True" H pol no_request]]])
     apply (auto simp: no_request_def)
  done

lemma calm_error: "triple P m Q (\<lambda>_. calm c0) \<Longrightarrow> triple P m Q (\<lambda>_. settled pol c0)"
  by (erule triple_weaken) (auto intro: calm_settled)

lemma promote_settles:
  "triple (calm c0) (promote_branch E H pol name opts) (\<lambda>_. settled pol c0) (\<lambda>_. settled pol c0)"
  unfolding promote_branch_def
  apply (rule triple_option)
   apply (rule triple_throw, erule calm_settled)
  apply (rule triple_check [OF calm_error [OF resolve_calm]])
  apply (rule triple_pure)
  apply (intro triple_if triple_throw, erule calm_settled, erule calm_settled)
  apply (rule triple_check [OF calm_error [OF triple_calm]])
   apply (rule pointer.base.safe_query, rule query)
  apply (intro triple_if triple_throw, erule calm_settled)
  apply (rule triple_check [OF calm_error [OF triple_calm]])
   apply (rule pointer.base.safe_resolve_volume)
  apply (rule triple_check [OF calm_error [OF promote_take_registers]])
  apply (rule triple_prod)
  subgoal for pr rc b vol p snap tag
    apply (rule triple_check [where M = "\<lambda>_ s. calm c0 s \<and> has_prov snap (po_masked opts) False s"])
     apply (rule triple_if, rule triple_ret, simp)
     apply (rule triple_weaken [OF triple_has_prov])
         apply (intro pointer.base.keeps_wrapping pointer.safe_validate_candidate)
        apply (intro bl.base.keeps_wrapping bl.safe_validate_candidate)
       apply (auto intro: calm_settled) [3]
    apply (rule publish_promoted_settles)
    apply auto
    done
  done

lemma build_registers:
  "triple (calm c0) (build_candidate E H rc tag)
    (\<lambda>(snap, masked) s. calm c0 s \<and> has_prov snap masked False s) (\<lambda>_. calm c0)"
  unfolding build_candidate_def
  apply (rule triple_check [OF triple_calm], rule pointer.base.safe_refresh_parts)
  apply (rule triple_check [OF triple_calm], rule pointer.base.safe_refresh_parts)
  apply (rule triple_check [OF triple_calm], rule pointer.db_build)
  apply (rule triple_check [OF triple_calm], rule pointer.base.safe_refresh_parts)
  apply (rule triple_check [OF triple_wrapping [OF register_prov] triple_ret])
  apply simp
  done

text \<open>The record of the validation is only as good as the driver: its error is dropped.\<close>

lemma register_works:
  assumes "driver_works E"
  shows "triple (calm c0) (sql_at E (\<lambda>t. register_baseline t snap (fresh_prov tag m v)))
    (\<lambda>_ s. calm c0 s \<and> has_prov snap m v s) (\<lambda>_ _. False)"
proof -
  have "triple (\<lambda>_. True) (sql_at E (\<lambda>t. register_baseline t snap (fresh_prov tag m v)))
      (\<lambda>_ _. True) (\<lambda>_ _. False)"
    by (rule triple_sql_at [OF assms]) (simp add: after_sql_def register_baseline_def)
  from triple_both [OF register_prov this] show ?thesis by (rule triple_weaken) auto
qed

lemma validate_records:
  assumes "driver_works E"
  shows "triple (\<lambda>s. calm c0 s \<and> has_prov snap m False s) (validate_refresh E rc snap tag m)
    (\<lambda>v s. calm c0 s \<and> has_prov snap m v s) (\<lambda>_. calm c0)"
  unfolding validate_refresh_def
  apply (rule triple_if, rule triple_ret, simp)
  apply (rule triple_check [where M = "\<lambda>_. calm c0"])
   apply (rule triple_weaken [OF triple_calm [of _ c0]])
      apply (intro pointer.base.keeps_wrapping pointer.safe_validate_candidate)
     apply simp_all
  apply (rule triple_ignoring [where M = "\<lambda>s. calm c0 s \<and> has_prov snap m True s"])
   apply (rule triple_weaken [OF register_works [OF assms]])
     apply (auto intro: triple_ret)
  done

lemma publish_refresh_settles:
  assumes "rc_require_masked pol \<longrightarrow> rc_require_masked rc"
    and "rc_require_validated pol \<longrightarrow> rc_require_validated rc"
  shows "triple (\<lambda>s. calm c0 s \<and> has_prov snap m v s) (publish_refresh E rc snap m v)
    (\<lambda>_. settled pol c0) (\<lambda>_. settled pol c0)"
  unfolding publish_refresh_def
  apply (intro triple_if triple_throw)
    apply (simp_all add: calm_settled)
  apply (rule triple_wrapping)
  apply (rule set_current_if_gated)
  using assms apply blast
  done

lemma run_refresh_settles:
  assumes "driver_works E" and "rc_require_masked pol \<longrightarrow> rc_require_masked rc"
    and "rc_require_validated pol \<longrightarrow> rc_require_validated rc"
  shows "triple (calm c0) (run_refresh E H rc tag) (\<lambda>_. settled pol c0) (\<lambda>_. settled pol c0)"
  unfolding run_refresh_def
  apply (rule triple_check [OF calm_error [OF build_registers]])
  apply (rule triple_prod)
  subgoal for p snap masked
    apply simp
    apply (rule triple_check [OF calm_error [OF validate_records [OF assms(1)]]])
    apply (rule publish_refresh_settles [OF assms(2,3)])
    done
  done

section \<open>The policy of a pending refresh\<close>

definition job_ok :: "'w refresh_config \<Rightarrow> 'w mgr \<Rightarrow> bool" where
  "job_ok pol s \<longleftrightarrow> (case refresh_job s of None \<Rightarrow> True | Some (rc, tag) \<Rightarrow>
     (rc_require_masked pol \<longrightarrow> rc_require_masked rc) \<and> (rc_require_validated pol \<longrightarrow> rc_require_validated rc))"

interpretation job: branch_statements "\<lambda>s s'. refresh_job s' = refresh_job s" "\<lambda>_. True"
  by unfold_locales (auto simp: sql_kept_def)

interpretation job: blind_handlers "\<lambda>s s'. refresh_job s' = refresh_job s" "\<lambda>_. True" E
  for E :: "'w env"
  by unfold_locales
    (auto simp: admit_create_def sql_kept_def intro!: job.keeps_intros job.safe_parts job.safe_query
      query job.safe_sql_at)

interpretation job: publisher "\<lambda>s s'. refresh_job s' = refresh_job s" "\<lambda>_. True" E
  for E :: "'w env"
proof unfold_locales
  fix E' :: "'w env" and H pr masked b v
  show "job.safe (promote_take E' H pr masked b v)"
    unfolding promote_take_def promote_snapshot_def with_cleanup_def new_baseline_tag_def
      restart_branch_def
    by (intro job.keeps_intros job.safe_parts job.safe_sql_at job.blind_logged) (simp add: sql_kept_def)
next
  fix E' :: "'w env" and H rc tag
  show "job.safe (build_snapshot E' H rc tag)"
    unfolding build_snapshot_def snapshot_base_def
    by (intro job.keeps_intros job.safe_ensure_quiesced job.safe_auto_cnf job.blind_logged)
qed (auto simp: sql_kept_def keeps_def modifying_def)

lemma refresh_work_settles:
  assumes "driver_works E" and "job_ok pol s" and "calm c0 s"
  shows "settled pol c0 (snd (refresh_work E H s))"
proof (cases "refresh_job s")
  case None
  with assms(3) show ?thesis by (simp add: refresh_work_def reading_def ret_def calm_settled)
next
  case (Some j)
  obtain rc tag where j: "j = (rc, tag)" by (cases j)
  obtain r s1 where run: "run_refresh E H rc tag s = (r, s1)" by fastforce
  have "triple (calm c0) (run_refresh E H rc tag) (\<lambda>_. settled pol c0) (\<lambda>_. settled pol c0)"
    using assms(1,2) Some j by (intro run_refresh_settles) (simp_all add: job_ok_def)
  from tripleD [OF this assms(3) run] have "settled pol c0 s1" by (cases r) simp_all
  moreover have "mdb (refresh_done r s1) = mdb s1" by (simp add: refresh_done_def)
  ultimately have "settled pol c0 (refresh_done r s1)"
    by (simp add: settled_def calm_def gated_def has_prov_def)
  with Some j run show ?thesis
    by (simp add: refresh_work_def reading_def attempt_def modifying_def)
qed

lemma triple_job: "job.safe m \<Longrightarrow> triple (job_ok pol) m (\<lambda>_. job_ok pol) (\<lambda>_. job_ok pol)"
  by (rule triple_keeps) (simp add: keeps_def job_ok_def)

lemma begin_keeps_policy:
  "triple (job_ok pol) (refresh_begin E H pol req) (\<lambda>_. job_ok pol) (\<lambda>_. job_ok pol)"
proof -
  have rest: "triple (job_ok pol) (check m k) (\<lambda>_. job_ok pol) (\<lambda>_. job_ok pol)"
    if "job.safe m" "\<And>a. triple (job_ok pol) (k a) (\<lambda>_. job_ok pol) (\<lambda>_. job_ok pol)"
    for m :: "('a, 'b) mact" and k :: "'b \<Rightarrow> ('a, 'c) mact"
    using triple_check [OF triple_job [OF that(1)] that(2)] .
  show ?thesis
    unfolding refresh_begin_def
    apply (rule triple_check [where M = "\<lambda>rc s. job_ok pol s \<and>
        ((rc_require_masked pol \<longrightarrow> rc_require_masked rc) \<and>
         (rc_require_validated pol \<longrightarrow> rc_require_validated rc))"])
     apply (rule triple_weaken [OF triple_both [OF triple_job [OF job.safe_resolve_config]
        resolved_policy [of "\<lambda>_. True"]]])
       apply auto [3]
    apply (rule triple_pure)
    apply (rule rest)
     apply (intro job.keeps_intros job.safe_refresh_parts)
    apply (rule rest, rule job.safe_claim, rule rest, rule job.safe_tag)
    apply (auto simp: triple_def check_def modifying_def ret_def job_ok_def)
    done
qed

lemma reach_job: "mgr_reach E H pol s \<Longrightarrow> job_ok pol s"
proof (induction rule: mgr_reach.induct)
  case (run_request s rq)
  show ?case
  proof (cases "refreshes rq")
    case False
    then have "job.safe (serve E H pol rq)" by (rule job.safe_serve_published)
    then have "refresh_job (snd (serve E H pol rq s)) = refresh_job s" by (rule job.keepsD)
    with run_request.IH show ?thesis by (simp add: job_ok_def)
  next
    case True
    then consider req where "rq = RqRefresh req" | "rq = RqRefreshWork" by (cases rq) simp_all
    then show ?thesis
    proof cases
      case 1
      obtain r s' where b: "refresh_begin E H pol req s = (r, s')" by fastforce
      from tripleD [OF begin_keeps_policy run_request.IH b] have "job_ok pol s'" by (cases r) simp_all
      with 1 b show ?thesis by (cases r) (simp_all add: dropping_def check_def ret_def)
    next
      case 2
      with run_request.IH show ?thesis
        by (auto simp: refresh_work_def reading_def ret_def attempt_def modifying_def refresh_done_def
            job_ok_def split: option.split prod.split)
    qed
  qed
qed (simp_all add: job_ok_def start_state_def restarted_def)

section \<open>Properties\<close>

lemma publishing_settles:
  assumes "driver_works E" and "job_ok pol s" and "calm c0 s" and "publishes rq"
  shows "settled pol c0 (snd (serve E H pol rq s))"
proof -
  consider n opts where "rq = RqPromote n opts" | snap where "rq = RqSetBaseline snap" | "rq = RqRefreshWork"
    using assms(4) by (cases rq) simp_all
  then show ?thesis
  proof cases
    case (1 n opts)
    obtain r s' where p: "promote_branch E H pol n opts s = (r, s')" by fastforce
    from tripleD [OF promote_settles assms(3) p] have "settled pol c0 s'" by (cases r) simp_all
    with 1 p show ?thesis by (cases r) (simp_all add: dropping_def check_def ret_def)
  next
    case (2 snap)
    obtain r s' where p: "set_baseline E pol snap s = (r, s')" by fastforce
    from tripleD [OF set_baseline_settles assms(3) p] have "settled pol c0 s'" by (cases r) simp_all
    with 2 p show ?thesis by simp
  next
    case 3
    then show ?thesis using refresh_work_settles [OF assms(1-3)] by simp
  qed
qed


text \<open>A promotion under the strictest policy.\<close>

definition strict_policy :: "int refresh_config" where
  "strict_policy = no_request\<lparr>rc_require_masked := True, rc_require_validated := True\<rparr>"

definition sample_created :: "int mgr" where
  "sample_created = snd (serve sample_env sample_host strict_policy (RqCreate ''pr-1'' 0 no_meta []) (start_state 0))"

definition sample_promoted :: "int mgr" where
  "sample_promoted = snd (serve sample_env sample_host strict_policy
     (RqPromote ''pr-1'' \<lparr>po_masked = True, po_skip_validate = False\<rparr>) sample_created)"

lemma sample_row_created:
  "case get_branch ''pr-1'' (mdb sample_created) of (r, d) \<Rightarrow>
     (case r of Inr b \<Rightarrow> b_state b = Running \<and> b_name b = ''pr-1'' | Inl e \<Rightarrow> False)
   \<and> baselines (mdb sample_created) = []"
  by code_simp

lemma sample_published:
  "\<exists>snap. current_of (mdb sample_promoted) = Some snap \<and> current_of (mdb sample_created) = None"
proof -
  obtain b where b: "get_branch ''pr-1'' (mdb sample_created) = (Inr b, mdb sample_created)"
    "b_state b = Running" "b_name b = ''pr-1''"
    using sample_row_created query_branch [of "''pr-1''" "mdb sample_created"]
    by (cases "get_branch ''pr-1'' (mdb sample_created)") (auto split: sum.splits)
  have bl: "baselines (mdb sample_created) = []" using sample_row_created by (simp split: prod.splits)
  show ?thesis
    by (simp add: sample_promoted_def dropping_def promote_branch_def check_def b bl sample_env_def
      sample_storage_def resolve_refresh_config_def Let_def filled_config_def strict_policy_def no_request_def
      or_default_def ret_def throw_def sql_def resolve_volume_def ext_def succeed_def promote_take_def
      wrapping_def eng_stop_def logged_def sample_engine_def with_cleanup_def attempt_def ignoring_def
      promote_snapshot_def pure_ext_def sample_host_def new_baseline_tag_def now_def sql_at_def
      register_baseline_def restart_branch_def handle_err_def eng_start_def wait_ready_def
      publish_promoted_def get_baseline_def list_baselines_def set_current_baseline_def current_of_def
      upsert_baseline_def with_prov_def new_baseline_row_def scan_baseline_def
      validate_candidate_def clear_validate_def eng_kill_def delete_and_poll_def delete_async_def
      admit_memory_def admit_running_def sample_config_def clone_vol_def try_candidate_def
      hook_exists_def)
qed


end
