(* ===== verification/Bytes.thy ===== *)
theory Bytes
  imports Prelude
begin

text \<open>
  Byte strings on the wire. A byte is a \<^typ>\<open>char\<close>. A read or a parse gives a value, an error, or
  the run-time panic that Go raises for a slice or an index out of range; a panic in a
  connection's goroutine ends the daemon, so it is a result of its own.
\<close>

datatype 'a outcome = Done 'a | Failed err | Panic

definition slice :: "string \<Rightarrow> int \<Rightarrow> int \<Rightarrow> string option" where
  "slice b i j =
     (if 0 \<le> i \<and> i \<le> j \<and> j \<le> int (length b) then Some (take (nat (j - i)) (drop (nat i) b)) else None)"

definition byte :: "nat \<Rightarrow> char" where
  "byte n = char_of n"

definition byte_val :: "char \<Rightarrow> nat" where
  "byte_val c = of_char c"

lemma byte_val_byte [simp]: "byte_val (byte n) = n mod 256"
  by (simp add: byte_def byte_val_def)

lemma byte_byte_val [simp]: "byte (byte_val c) = c"
  by (simp add: byte_def byte_val_def)

lemma byte_val_less [simp]: "byte_val c < 256"
  by (simp add: byte_val_def)

lemma byte_val_inject [simp]: "byte_val a = byte_val b \<longleftrightarrow> a = b"
  by (simp add: byte_val_def)

section \<open>Integers in little and big endian\<close>

primrec le_bytes :: "nat \<Rightarrow> nat \<Rightarrow> string" where
  "le_bytes 0 v = []"
| "le_bytes (Suc n) v = byte v # le_bytes n (v div 256)"

primrec le_val :: "string \<Rightarrow> nat" where
  "le_val [] = 0"
| "le_val (c # cs) = byte_val c + 256 * le_val cs"

definition be_bytes :: "nat \<Rightarrow> nat \<Rightarrow> string" where
  "be_bytes n v = rev (le_bytes n v)"

definition be_val :: "string \<Rightarrow> nat" where
  "be_val b = le_val (rev b)"

lemma length_le_bytes [simp]: "length (le_bytes n v) = n"
  by (induction n arbitrary: v) simp_all

lemma length_be_bytes [simp]: "length (be_bytes n v) = n"
  by (simp add: be_bytes_def)

lemma le_val_bytes: "le_val (le_bytes n v) = v mod 256 ^ n"
proof (induction n arbitrary: v)
  case (Suc n)
  have "v mod 256 + 256 * (v div 256 mod 256 ^ n) = v mod (256 * 256 ^ n)"
    by (simp add: mod_mult2_eq)
  then show ?case by (simp add: Suc)
qed simp

lemma be_val_bytes: "be_val (be_bytes n v) = v mod 256 ^ n"
  by (simp add: be_val_def be_bytes_def le_val_bytes)

lemma le_val_less: "le_val b < 256 ^ length b"
proof (induction b)
  case (Cons c b)
  have "byte_val c + 256 * le_val b < 256 + 256 * le_val b" by simp
  also have "\<dots> \<le> 256 * 256 ^ length b" using Cons by (simp flip: mult_Suc_right)
  finally show ?case by simp
qed simp

lemma be_val_less: "be_val b < 256 ^ length b"
  using le_val_less [of "rev b"] by (simp add: be_val_def)

lemma le_bytes_val [simp]: "le_bytes (length b) (le_val b) = b"
proof (induction b)
  case (Cons c b)
  have "byte_val (byte (byte_val c + 256 * le_val b)) = byte_val c"
    by (simp only: byte_val_byte) simp
  then have "byte (byte_val c + 256 * le_val b) = c" by (simp only: byte_val_inject)
  with Cons show ?case by simp
qed simp

section \<open>Exclusive or\<close>

definition xor_byte :: "char \<Rightarrow> char \<Rightarrow> char" where
  "xor_byte a b = byte (xor (byte_val a) (byte_val b))"

text \<open>\<^verbatim>\<open>out[i] = a[i] ^ b[i]\<close> for every index of \<open>a\<close>; \<open>b\<close> is at least as long in the source.\<close>

definition xor_bytes :: "string \<Rightarrow> string \<Rightarrow> string" where
  "xor_bytes a b = map2 xor_byte a b"

lemma xor_less_256: "(a::nat) < 256 \<Longrightarrow> b < 256 \<Longrightarrow> xor a b < 256"
  using take_bit_xor [of 8 a b] take_bit_nat_less_exp [of 8 "xor a b"]
  by (simp add: take_bit_nat_eq_self)

lemma xor_byte_cancel [simp]: "xor_byte (xor_byte a b) b = a"
proof -
  have "byte_val (xor_byte a b) = xor (byte_val a) (byte_val b)"
    by (simp add: xor_byte_def xor_less_256)
  then have "byte_val (xor_byte (xor_byte a b) b) = byte_val a"
    by (simp add: xor_byte_def [of "xor_byte a b"] xor.assoc)
  then show ?thesis by simp
qed

lemma length_xor_bytes [simp]: "length (xor_bytes a b) = min (length a) (length b)"
  by (simp add: xor_bytes_def)

lemma xor_bytes_cancel: "length a = length b \<Longrightarrow> xor_bytes (xor_bytes a b) b = a"
  by (induction a b rule: list_induct2) (simp_all add: xor_bytes_def)

section \<open>Strings that end with a NUL\<close>

definition nul :: char where
  "nul = CHR 0x00"

definition until_nul :: "string \<Rightarrow> string" where
  "until_nul b = takeWhile (\<lambda>c. c \<noteq> nul) b"

lemma until_nul_append [simp]: "nul \<notin> set s \<Longrightarrow> until_nul (s @ nul # r) = s"
  unfolding until_nul_def by (subst takeWhile_append2) auto

lemma until_nul_clean [simp]: "nul \<notin> set s \<Longrightarrow> until_nul s = s"
  by (auto simp: until_nul_def takeWhile_eq_all_conv)

lemma until_nul_length: "length (until_nul b) \<le> length b"
  by (simp add: until_nul_def length_takeWhile_le)

section \<open>Connections\<close>

text \<open>
  A connection: \<^verbatim>\<open>io.ReadFull\<close> of so many bytes, and \<^verbatim>\<open>Write\<close>. The peer may send and
  accept anything, in reply to what it was sent; the world \<open>'w\<close> holds its state.
\<close>

record 'w conn =
  cn_read :: "nat \<Rightarrow> 'w \<Rightarrow> (err + string) \<times> 'w"
  cn_write :: "string \<Rightarrow> 'w \<Rightarrow> (err + unit) \<times> 'w"

text \<open>The connection whose input is a given byte string and whose output is collected.\<close>

definition pipe_conn :: "(string \<times> string) conn" where
  "pipe_conn = \<lparr>cn_read = (\<lambda>n (i, out). if length i < n then (Inl (EText ''unexpected EOF''), ([], out))
       else (Inr (take n i), (drop n i, out))),
     cn_write = (\<lambda>b (i, out). (Inr (), (i, out @ b)))\<rparr>"

end
