(* ===== verification/MysqlPacket.thy ===== *)
theory MysqlPacket
  imports Bytes
begin

unbundle bit_operations_syntax

text \<open>
  internal/proxy/packet.go: the packets of the authentication phase of the MySQL protocol. SHA-1,
  SHA-256 and the random source are arguments; capability flags are 32-bit words.
\<close>

section \<open>Capabilities\<close>

type_synonym caps32 = "32 word"

definition cap_long_password :: caps32 where "cap_long_password = 0x00000001"
definition cap_connect_with_db :: caps32 where "cap_connect_with_db = 0x00000008"
definition cap_protocol41 :: caps32 where "cap_protocol41 = 0x00000200"
definition cap_ssl :: caps32 where "cap_ssl = 0x00000800"
definition cap_transactions :: caps32 where "cap_transactions = 0x00002000"
definition cap_secure_conn :: caps32 where "cap_secure_conn = 0x00008000"
definition cap_multi_statements :: caps32 where "cap_multi_statements = 0x00010000"
definition cap_multi_results :: caps32 where "cap_multi_results = 0x00020000"
definition cap_plugin_auth :: caps32 where "cap_plugin_auth = 0x00080000"
definition cap_plugin_auth_lenc :: caps32 where "cap_plugin_auth_lenc = 0x00200000"
definition cap_deprecate_eof :: caps32 where "cap_deprecate_eof = 0x01000000"

lemmas cap_defs = cap_long_password_def cap_connect_with_db_def cap_protocol41_def cap_ssl_def
  cap_transactions_def cap_secure_conn_def cap_multi_statements_def cap_multi_results_def
  cap_plugin_auth_def cap_plugin_auth_lenc_def cap_deprecate_eof_def

definition synth_caps :: caps32 where
  "synth_caps = cap_long_password OR cap_protocol41 OR cap_secure_conn OR cap_plugin_auth OR
     cap_plugin_auth_lenc OR cap_transactions OR cap_connect_with_db OR cap_deprecate_eof OR
     cap_multi_statements OR cap_multi_results"

definition has_cap :: "caps32 \<Rightarrow> caps32 \<Rightarrow> bool" where
  "has_cap caps c \<longleftrightarrow> caps AND c \<noteq> 0"

definition native_plugin :: string where "native_plugin = ''mysql_native_password''"
definition sha2_plugin :: string where "sha2_plugin = ''caching_sha2_password''"

definition u32_bytes :: "32 word \<Rightarrow> string" where
  "u32_bytes x = le_bytes 4 (unat x)"

text \<open>\<^verbatim>\<open>binary.LittleEndian.Uint32(b[i:i+4])\<close>.\<close>

definition u32_at :: "string \<Rightarrow> nat \<Rightarrow> 32 word" where
  "u32_at b i = word_of_nat (le_val (take 4 (drop i b)))"

lemma u32_at_append [simp]: "length p = i \<Longrightarrow> u32_at (p @ u32_bytes x @ r) i = x"
  using unsigned_less [of x, where ?'a = nat]
  by (simp add: u32_at_def u32_bytes_def le_val_bytes)

section \<open>Packets\<close>

record packet =
  pk_seq :: char
  pk_body :: string

definition read_packet :: "'w conn \<Rightarrow> 'w \<Rightarrow> (err + packet) \<times> 'w" where
  "read_packet c w = (case cn_read c 4 w of
      (Inl e, w1) \<Rightarrow> (Inl e, w1)
    | (Inr head, w1) \<Rightarrow>
        let len = le_val (take 3 head) in
        if len > 16 * 1024 * 1024 then (Inl (EText (''packet too large: '' @ show_nat len)), w1)
        else (case cn_read c len w1 of
            (Inl e, w2) \<Rightarrow> (Inl e, w2)
          | (Inr b, w2) \<Rightarrow> (Inr \<lparr>pk_seq = head ! 3, pk_body = b\<rparr>, w2)))"

definition write_packet :: "'w conn \<Rightarrow> packet \<Rightarrow> 'w \<Rightarrow> (err + unit) \<times> 'w" where
  "write_packet c p w = (case cn_write c (le_bytes 3 (length (pk_body p)) @ [pk_seq p]) w of
      (Inl e, w1) \<Rightarrow> (Inl e, w1)
    | (Inr _, w1) \<Rightarrow> cn_write c (pk_body p) w1)"

section \<open>The handshake of the proxy\<close>

text \<open>The 20 random bytes are an argument; each is moved to a printable character.\<close>

definition printable_salt :: "string \<Rightarrow> string" where
  "printable_salt = map (\<lambda>c. byte (byte_val c mod 94 + 33))"

definition server_version :: string where
  "server_version = ''8.0.0-sashiki-proxy''"

definition build_initial_handshake :: "string \<Rightarrow> 32 word \<Rightarrow> bool \<Rightarrow> string \<times> string" where
  "build_initial_handshake random conn_id ssl =
     (let salt = printable_salt random;
          caps = (if ssl then synth_caps OR cap_ssl else synth_caps);
          b = [byte 10] @ server_version @ [nul] @ u32_bytes conn_id @ take 8 salt @ [nul]
            @ take 2 (u32_bytes caps) @ [byte 0xFF] @ [byte 2, nul]
            @ drop 2 (u32_bytes caps) @ [byte 21] @ replicate 10 nul
            @ drop 8 salt @ [nul] @ sha2_plugin @ [nul]
      in (b, salt))"

section \<open>Tokens\<close>

record digests =
  dg_sha1 :: "string \<Rightarrow> string"
  dg_sha256 :: "string \<Rightarrow> string"

definition native_token :: "digests \<Rightarrow> string \<Rightarrow> string \<Rightarrow> string" where
  "native_token D password salt =
     (if password = [] then []
      else let stage1 = dg_sha1 D password;
               stage2 = dg_sha1 D stage1;
               scr = dg_sha1 D (salt @ stage2)
           in xor_bytes stage1 scr)"

definition verify_native :: "digests \<Rightarrow> string \<Rightarrow> string \<Rightarrow> string \<Rightarrow> bool" where
  "verify_native D password salt token \<longleftrightarrow> native_token D password salt = token"

definition sha2_token :: "digests \<Rightarrow> string \<Rightarrow> string \<Rightarrow> string" where
  "sha2_token D password nonce =
     (if password = [] then []
      else let h1 = dg_sha256 D password;
               h2 = dg_sha256 D h1;
               scr = dg_sha256 D (h2 @ nonce)
           in xor_bytes h1 scr)"

definition verify_sha2 :: "digests \<Rightarrow> string \<Rightarrow> string \<Rightarrow> string \<Rightarrow> bool" where
  "verify_sha2 D password nonce token \<longleftrightarrow> sha2_token D password nonce = token"

section \<open>Replies of the client\<close>

definition is_ssl_request :: "string \<Rightarrow> bool" where
  "is_ssl_request body \<longleftrightarrow> length body \<ge> 4 \<and> has_cap (u32_at body 0) cap_ssl \<and> length body \<le> 36"

definition build_ok :: string where
  "build_ok = [nul, nul, nul, byte 2, nul, nul, nul]"

record hresp =
  hr_caps :: caps32
  hr_max_len :: "32 word"
  hr_charset :: char
  hr_username :: string
  hr_database :: string
  hr_auth :: string

text \<open>A string of a one-byte length at \<open>pos\<close>, and the position after it.\<close>

definition short_bytes :: "string \<Rightarrow> nat \<Rightarrow> err + string \<times> nat" where
  "short_bytes body pos =
     (if pos \<ge> length body then Inl (EText ''truncated auth data'')
      else let n = byte_val (body ! pos) in
        if pos + 1 + n > length body then Inl (EText ''truncated auth data'')
        else Inr (take n (drop (pos + 1) body), pos + 1 + n))"

definition auth_field :: "caps32 \<Rightarrow> string \<Rightarrow> nat \<Rightarrow> err + string \<times> nat" where
  "auth_field caps body pos =
     (if has_cap caps cap_plugin_auth_lenc then short_bytes body pos
      else if has_cap caps cap_secure_conn then short_bytes body pos
      else let a = until_nul (drop pos body) in Inr (a, pos + length a + 1))"

definition parse_handshake_response :: "string \<Rightarrow> err + hresp" where
  "parse_handshake_response body =
     (if length body < 32 then Inl (EText ''handshake response too short'')
      else let caps = u32_at body 0 in
      if \<not> has_cap caps cap_protocol41 then Inl (EText ''client does not speak protocol 4.1'')
      else let user = until_nul (drop 32 body) in
      if 32 + length user \<ge> length body then Inl (EText ''username not terminated'')
      else case auth_field caps body (32 + length user + 1) of
          Inl e \<Rightarrow> Inl e
        | Inr (auth, pos) \<Rightarrow>
            if pos > length body then Inl (EText ''truncated packet'')
            else Inr \<lparr>hr_caps = caps, hr_max_len = u32_at body 4, hr_charset = body ! 8,
              hr_username = user,
              hr_database = (if has_cap caps cap_connect_with_db \<and> pos < length body
                 then until_nul (drop pos body) else []),
              hr_auth = auth\<rparr>)"

section \<open>The other side: the backend\<close>

text \<open>
  Every slice is bounded by a check before it, except the second part of the salt, whose length is
  computed from a byte of the packet.
\<close>

definition parse_backend_handshake :: "string \<Rightarrow> (string \<times> caps32) outcome" where
  "parse_backend_handshake body =
     (if length body < 1 \<or> body ! 0 \<noteq> byte 10 then Failed (EText ''unexpected protocol version'')
      else let pos = 1 + length (until_nul (drop 1 body)) + 1 + 4 in
      if pos + 8 > length body then Failed (EText ''short handshake'')
      else let salt = take 8 (drop pos body); pos = pos + 8 + 1 in
      if pos + 2 > length body then Failed (EText ''short handshake'')
      else let caps = word_of_nat (le_val (take 2 (drop pos body))); pos = pos + 2 in
      if pos + 1 + 2 + 2 + 1 + 10 \<le> length body
      then (let pos = pos + 3;
                caps = caps OR push_bit 16 (word_of_nat (le_val (take 2 (drop pos body))));
                auth_len = int (byte_val (body ! (pos + 2)));
                pos = pos + 2 + 1 + 10;
                rest = (if auth_len > 0 \<and> auth_len - 8 - 1 < 12 then auth_len - 8 - 1 else 12)
            in if int pos + rest \<le> int (length body)
               then (case slice body (int pos) (int pos + rest) of
                   None \<Rightarrow> Panic
                 | Some part2 \<Rightarrow> Done (salt @ part2, caps))
               else Done (salt, caps))
      else Done (salt, caps))"

definition response_caps :: "caps32 \<Rightarrow> caps32 \<Rightarrow> caps32" where
  "response_caps caps backend =
     (caps AND backend AND synth_caps) OR cap_protocol41 OR cap_secure_conn OR cap_plugin_auth"

definition build_backend_response :: "hresp \<Rightarrow> caps32 \<Rightarrow> string \<Rightarrow> string \<Rightarrow> string \<Rightarrow> string" where
  "build_backend_response r backend user auth plugin =
     (let caps = response_caps (hr_caps r) backend in
      u32_bytes caps @ u32_bytes (hr_max_len r) @ [hr_charset r] @ replicate 23 nul
        @ user @ [nul] @ [byte (length auth)] @ auth
        @ (if has_cap caps cap_connect_with_db then hr_database r @ [nul] else [])
        @ plugin @ [nul])"

definition build_err :: "nat \<Rightarrow> string \<Rightarrow> string \<Rightarrow> string" where
  "build_err code state msg = [byte 0xFF] @ le_bytes 2 code @ [CHR ''#''] @ state @ msg"

definition is_ok_packet :: "string \<Rightarrow> bool" where
  "is_ok_packet body \<longleftrightarrow> body \<noteq> [] \<and> body ! 0 = nul"

definition is_err_packet :: "string \<Rightarrow> bool" where
  "is_err_packet body \<longleftrightarrow> body \<noteq> [] \<and> body ! 0 = byte 0xFF"

definition err_packet_text :: "string \<Rightarrow> string" where
  "err_packet_text body =
     (if length body < 3 then ''unknown error''
      else let code = le_val (take 2 (drop 1 body)); msg = drop 3 body;
               msg = (if length msg > 6 \<and> msg ! 0 = CHR ''#'' then drop 6 msg else msg)
           in show_nat code @ '' '' @ msg)"

text \<open>Of an AuthSwitchRequest. The position after the name of the plugin is not checked.\<close>

definition parse_auth_switch :: "string \<Rightarrow> (string \<times> string) outcome" where
  "parse_auth_switch body =
     (let plugin = until_nul (drop 1 body);
          pos = 1 + int (length plugin) + 1
      in case slice body pos (int (length body)) of
          None \<Rightarrow> Panic
        | Some salt \<Rightarrow> Done (plugin, rev (dropWhile (\<lambda>c. c = nul) (rev salt))))"

section \<open>Facts\<close>

lemma has_cap_response [simp]:
  "has_cap (response_caps c b) cap_protocol41" "has_cap (response_caps c b) cap_secure_conn"
proof -
  have "bit (response_caps c b AND cap_protocol41) 9"
    by (simp add: response_caps_def bit_or_iff bit_and_iff cap_protocol41_def bit_push_bit_iff)
  then show "has_cap (response_caps c b) cap_protocol41" by (auto simp: has_cap_def)
  have "bit (response_caps c b AND cap_secure_conn) 15"
    by (simp add: response_caps_def bit_or_iff bit_and_iff cap_secure_conn_def bit_push_bit_iff)
  then show "has_cap (response_caps c b) cap_secure_conn" by (auto simp: has_cap_def)
qed

lemma short_bytes_at:
  "length p = i \<Longrightarrow> length a \<le> 255 \<Longrightarrow>
   short_bytes (p @ byte (length a) # a @ r) i = Inr (a, i + 1 + length a)"
  by (auto simp: short_bytes_def nth_append)

lemma auth_field_at:
  "has_cap caps cap_secure_conn \<Longrightarrow> length p = i \<Longrightarrow> length a \<le> 255 \<Longrightarrow>
   auth_field caps (p @ byte (length a) # a @ r) i = Inr (a, i + 1 + length a)"
  by (simp add: auth_field_def short_bytes_at)

section \<open>Properties\<close>

text \<open>What is written as a packet is read back as that packet, whatever follows it on the
  connection, for bodies of less than 2^24 bytes: the length field has three bytes.\<close>

theorem packet_roundtrip:
  assumes "length (pk_body p) < 2 ^ 24"
  shows "\<exists>wire. snd (write_packet pipe_conn p (i, out)) = (i, out @ wire)
     \<and> read_packet pipe_conn (wire @ after, o') = (Inr p, (after, o'))"
proof (intro exI conjI)
  let ?wire = "le_bytes 3 (length (pk_body p)) @ [pk_seq p] @ pk_body p"
  show "snd (write_packet pipe_conn p (i, out)) = (i, out @ ?wire)"
    by (simp add: write_packet_def pipe_conn_def)
  have "le_val (le_bytes 3 (length (pk_body p))) = length (pk_body p)"
    using assms by (simp add: le_val_bytes)
  then show "read_packet pipe_conn (?wire @ after, o') = (Inr p, (after, o'))"
    using assms by (simp add: read_packet_def pipe_conn_def Let_def nth_append)
qed

theorem packet_roundtrip_witness:
  "\<exists>wire. snd (write_packet pipe_conn \<lparr>pk_seq = byte 1, pk_body = ''hello''\<rparr> ([], ''x'')) = ([], ''x'' @ wire)
     \<and> read_packet pipe_conn (wire @ ''next'', []) = (Inr \<lparr>pk_seq = byte 1, pk_body = ''hello''\<rparr>, (''next'', []))"
  by (rule packet_roundtrip) simp

text \<open>The response the proxy builds for a backend is read back field by field by a parser of
  handshake responses: the capabilities it announces, the user, the token, and the database exactly if
  the capability to name one was negotiated. Names have no NUL, a token at most 255 bytes.\<close>

theorem handshake_response_roundtrip:
  assumes "nul \<notin> set user" "nul \<notin> set (hr_database r)" "nul \<notin> set plugin" "length auth \<le> 255"
  shows "parse_handshake_response (build_backend_response r backend user auth plugin)
     = Inr \<lparr>hr_caps = response_caps (hr_caps r) backend, hr_max_len = hr_max_len r, hr_charset = hr_charset r,
         hr_username = user,
         hr_database = (if has_cap (response_caps (hr_caps r) backend) cap_connect_with_db
            then hr_database r else []),
         hr_auth = auth\<rparr>"
proof -
  let ?caps = "response_caps (hr_caps r) backend"
  define db where "db = (if has_cap ?caps cap_connect_with_db then hr_database r @ [nul] else [])"
  define tl where "tl = db @ plugin @ [nul]"
  define head where "head = u32_bytes ?caps @ u32_bytes (hr_max_len r) @ [hr_charset r] @ replicate 23 nul"
  let ?pre = "head @ user @ [nul]"
  have head: "length head = 32" by (simp add: head_def u32_bytes_def)
  have body: "build_backend_response r backend user auth plugin = head @ user @ nul # byte (length auth) # auth @ tl"
    by (simp add: build_backend_response_def Let_def head_def tl_def db_def)
  have u0: "u32_at (head @ x) 0 = ?caps" for x
    using u32_at_append [of "[]" 0] by (simp add: head_def)
  have u4: "u32_at (head @ x) 4 = hr_max_len r" for x
    using u32_at_append [of "u32_bytes ?caps" 4] by (simp add: head_def u32_bytes_def)
  have c8: "(head @ x) ! 8 = hr_charset r" for x
    by (simp add: head_def u32_bytes_def nth_append)
  have auth: "auth_field ?caps (head @ user @ nul # byte (length auth) # auth @ tl) (33 + length user)
      = Inr (auth, 34 + length user + length auth)"
    using auth_field_at [of ?caps ?pre "33 + length user" auth tl] assms(4) head by simp
  have "tl \<noteq> []" by (simp add: tl_def)
  moreover have "until_nul tl = hr_database r" if "has_cap ?caps cap_connect_with_db"
    using that assms(2) by (simp add: tl_def db_def)
  moreover have "drop (34 + length user + length auth) (head @ user @ nul # byte (length auth) # auth @ tl) = tl"
    using head by simp
  ultimately show ?thesis
    using assms(1) head
    by (auto simp: body parse_handshake_response_def Let_def u0 u4 c8 auth)
qed

theorem handshake_response_roundtrip_witness:
  "parse_handshake_response (build_backend_response
      \<lparr>hr_caps = synth_caps, hr_max_len = 1024, hr_charset = byte 255, hr_username = [],
        hr_database = ''shop'', hr_auth = []\<rparr> synth_caps ''dev'' ''0123456789'' ''mysql_native_password'')
   = Inr \<lparr>hr_caps = response_caps synth_caps synth_caps, hr_max_len = 1024, hr_charset = byte 255,
       hr_username = ''dev'',
       hr_database = (if has_cap (response_caps synth_caps synth_caps) cap_connect_with_db then ''shop'' else []),
       hr_auth = ''0123456789''\<rparr>"
  using handshake_response_roundtrip [of "''dev''" "\<lparr>hr_caps = synth_caps, hr_max_len = 1024, hr_charset = byte 255,
      hr_username = [], hr_database = ''shop'', hr_auth = []\<rparr>" "''mysql_native_password''" "''0123456789''" synth_caps]
  by (simp add: nul_def)

lemma synth_caps_value: "synth_caps = 0x012BA209"
  by (simp add: synth_caps_def cap_defs)

lemma take_le_bytes: "take m (le_bytes (m + n) v) = le_bytes m v"
  by (induction m arbitrary: v) simp_all

lemma drop_le_bytes: "drop m (le_bytes (m + n) v) = le_bytes n (v div 256 ^ m)"
  by (induction m arbitrary: v) (simp_all add: div_mult2_eq)

lemma u32_halves:
  "word_of_nat (le_val (take 2 (u32_bytes x))) OR push_bit 16 (word_of_nat (le_val (drop 2 (u32_bytes x)))) = x"
proof -
  have "take 2 (u32_bytes x) = le_bytes 2 (unat x)" "drop 2 (u32_bytes x) = le_bytes 2 (unat x div 2 ^ 16)"
    using take_le_bytes [of 2 2 "unat x"] drop_le_bytes [of 2 2 "unat x"] by (simp_all add: u32_bytes_def)
  moreover have "unat x div 2 ^ 16 mod 2 ^ 16 = unat x div 2 ^ 16"
    using unsigned_less [of x, where ?'a = nat] by (simp add: div_less_iff_less_mult)
  ultimately have "le_val (take 2 (u32_bytes x)) = take_bit 16 (unat x)"
    "le_val (drop 2 (u32_bytes x)) = drop_bit 16 (unat x)"
    by (simp_all add: le_val_bytes take_bit_eq_mod drop_bit_eq_div)
  then have "word_of_nat (le_val (take 2 (u32_bytes x))) = take_bit 16 x"
    "word_of_nat (le_val (drop 2 (u32_bytes x))) = drop_bit 16 x"
    by (simp_all flip: unsigned_take_bit_eq unat_drop_bit_eq)
  moreover have "take_bit 16 x OR push_bit 16 (drop_bit 16 x) = x"
  proof (rule bit_word_eqI)
    fix n assume "n < LENGTH(32)"
    then show "bit (take_bit 16 x OR push_bit 16 (drop_bit 16 x)) n = bit x n"
      by (cases "n < 16") (auto simp: bit_or_iff bit_take_bit_iff bit_push_bit_iff bit_drop_bit_eq)
  qed
  ultimately show ?thesis by simp
qed

lemma until_nul_split: "nul \<in> set b \<Longrightarrow> \<exists>r. b = until_nul b @ nul # r"
  by (induction b) (auto simp: until_nul_def)

text \<open>The handshake that the proxy sends is one that its own parser of backend handshakes, and so
  every client that reads protocol version 10 like it, understands: the full salt of 20 bytes that the
  client's token is checked against, and the announced capabilities, with SSL exactly if offered.\<close>

theorem initial_handshake_understood:
  assumes "length random = 20"
  shows "parse_backend_handshake (fst (build_initial_handshake random conn_id ssl))
     = Done (snd (build_initial_handshake random conn_id ssl), if ssl then synth_caps OR cap_ssl else synth_caps)"
proof -
  let ?salt = "printable_salt random"
  define caps where "caps = (if ssl then synth_caps OR cap_ssl else synth_caps)"
  define idb where "idb = u32_bytes conn_id"
  define s1 where "s1 = take 8 ?salt"
  define s2 where "s2 = drop 8 ?salt"
  have len: "length idb = 4" "length s1 = 8" "length s2 = 12" and salt: "?salt = s1 @ s2"
    using assms by (simp_all add: idb_def s1_def s2_def u32_bytes_def printable_salt_def)
  define body where "body = fst (build_initial_handshake random conn_id ssl)"
  have body: "body = byte 10 # server_version @ nul # idb @ s1 @ nul # take 2 (u32_bytes caps)
      @ byte 0xFF # byte 2 # nul # drop 2 (u32_bytes caps) @ byte 21 # replicate 10 nul
      @ s2 @ nul # sha2_plugin @ [nul]"
    by (simp add: body_def build_initial_handshake_def Let_def idb_def s1_def s2_def caps_def)
  have "length (u32_bytes caps) = 4" by (simp add: u32_bytes_def)
  then obtain c0 c1 c2 c3 where c1: "u32_bytes caps = [c0, c1, c2, c3]"
    by (auto simp: numeral_eq_Suc length_Suc_conv)
  have c2: "word_of_nat (le_val [c0, c1]) OR push_bit 16 (word_of_nat (le_val [c2, c3])) = caps"
    using u32_halves [of caps] by (simp add: c1)
  have ver: "until_nul (server_version @ nul # r) = server_version" for r
    by (rule until_nul_append) (simp add: server_version_def nul_def)
  have vlen: "length server_version = 19" by (simp add: server_version_def)
  define pre where "pre = byte 10 # server_version @ nul # idb"
  have pre: "length pre = 25" by (simp add: pre_def len vlen)
  have body2: "body = pre @ s1 @ nul # c0 # c1 # byte 0xFF # byte 2 # nul # c2 # c3 # byte 21 # replicate 10 nul
      @ s2 @ nul # sha2_plugin @ [nul]"
    by (simp add: body pre_def c1)
  have "until_nul (drop 1 body) = server_version" by (simp add: body ver)
  moreover have "body ! 0 = byte 10" "body \<noteq> []" by (simp_all add: body)
  moreover have "length body = 87" by (simp add: body2 pre len sha2_plugin_def)
  moreover have "take 8 (drop 25 body) = s1" "take 2 (drop 34 body) = [c0, c1]" "take 2 (drop 39 body) = [c2, c3]"
    "body ! 41 = byte 21" "slice body 52 64 = Some s2"
    by (simp_all add: body2 pre len nth_append slice_def)
  ultimately have "parse_backend_handshake body = Done (s1 @ s2, caps)"
    using c2 by (simp add: parse_backend_handshake_def Let_def vlen)
  then show ?thesis by (simp add: body_def caps_def build_initial_handshake_def Let_def salt)
qed

theorem initial_handshake_understood_witness:
  "parse_backend_handshake (fst (build_initial_handshake ''abcdefghijklmnopqrst'' 7 True))
     = Done (snd (build_initial_handshake ''abcdefghijklmnopqrst'' 7 True),
         if True then synth_caps OR cap_ssl else synth_caps)"
  by (rule initial_handshake_understood) simp

text \<open>The parser of backend handshakes ends every input with a result or an error, except in one
  situation, where it panics: a long-form handshake that gives a length of 1 to 8 for the authentication
  data. The slice then has a negative length.\<close>

theorem backend_handshake_panics:
  "parse_backend_handshake body = Panic \<longleftrightarrow>
     body \<noteq> [] \<and> body ! 0 = byte 10
     \<and> (let pos = 17 + length (until_nul (drop 1 body)) in
          pos + 16 \<le> length body \<and> byte_val (body ! (pos + 5)) \<in> {1..8})"
proof -
  define v where "v = length (until_nul (drop 1 body))"
  define a where "a = byte_val (body ! (v + 22))"
  define rest where "rest = (if int a > 0 \<and> int a - 8 - 1 < 12 then int a - 8 - 1 else 12)"
  have pos: "1 + v + 1 + 4 + 8 + 1 + 2 + 3 + 2 = v + 22" "1 + v + 1 + 4 + 8 + 1 + 2 + 3 + 2 + 1 + 10 = 33 + v"
    by simp_all
  have "parse_backend_handshake body = Panic \<longleftrightarrow> body \<noteq> [] \<and> body ! 0 = byte 10
      \<and> 33 + v \<le> length body \<and> int (33 + v) + rest \<le> int (length body)
      \<and> slice body (int (33 + v)) (int (33 + v) + rest) = None"
    unfolding parse_backend_handshake_def Let_def v_def [symmetric] pos a_def [symmetric] rest_def [symmetric]
    by (auto split: option.splits)
  also have "\<dots> \<longleftrightarrow> body \<noteq> [] \<and> body ! 0 = byte 10 \<and> 33 + v \<le> length body \<and> rest < 0"
    by (auto simp: slice_def)
  also have "\<dots> \<longleftrightarrow> body \<noteq> [] \<and> body ! 0 = byte 10 \<and> 33 + v \<le> length body \<and> a \<in> {1..8}"
    by (auto simp: rest_def)
  finally show ?thesis unfolding v_def [symmetric] by (simp add: a_def Let_def ac_simps)
qed

definition native_server_check :: "digests \<Rightarrow> string \<Rightarrow> string \<Rightarrow> string \<Rightarrow> bool" where
  "native_server_check D stored salt token \<longleftrightarrow>
     dg_sha1 D (xor_bytes token (dg_sha1 D (salt @ stored))) = stored"

definition sha2_server_check :: "digests \<Rightarrow> string \<Rightarrow> string \<Rightarrow> string \<Rightarrow> bool" where
  "sha2_server_check D stored nonce token \<longleftrightarrow>
     dg_sha256 D (xor_bytes token (dg_sha256 D (stored @ nonce))) = stored"

definition sized_digests :: "digests \<Rightarrow> bool" where
  "sized_digests D \<longleftrightarrow> (\<forall>x. length (dg_sha1 D x) = 20) \<and> (\<forall>x. length (dg_sha256 D x) = 32)"

text \<open>The tokens that the proxy computes, and demands of clients, are those of the two
  authentication plugins: a server that stores only the double hash of the password and applies the
  plugin's own check accepts them, for any hash functions of 20 and 32 bytes.\<close>

theorem tokens_pass_server_checks:
  assumes "sized_digests D" and "password \<noteq> []"
  shows "native_server_check D (dg_sha1 D (dg_sha1 D password)) salt (native_token D password salt)
     \<and> sha2_server_check D (dg_sha256 D (dg_sha256 D password)) salt (sha2_token D password salt)
     \<and> verify_native D password salt (native_token D password salt)
     \<and> verify_sha2 D password salt (sha2_token D password salt)
     \<and> length (native_token D password salt) = 20 \<and> length (sha2_token D password salt) = 32"
  using assms
  by (simp add: sized_digests_def native_server_check_def sha2_server_check_def native_token_def sha2_token_def
      verify_native_def verify_sha2_def Let_def xor_bytes_cancel)

definition toy_digests :: digests where
  "toy_digests = \<lparr>dg_sha1 = (\<lambda>x. take 20 (x @ replicate 20 nul)), dg_sha256 = (\<lambda>x. take 32 (x @ replicate 32 nul))\<rparr>"

theorem tokens_pass_server_checks_witness:
  "native_server_check toy_digests (dg_sha1 toy_digests (dg_sha1 toy_digests ''secret'')) ''salt''
       (native_token toy_digests ''secret'' ''salt'')
     \<and> sha2_server_check toy_digests (dg_sha256 toy_digests (dg_sha256 toy_digests ''secret'')) ''salt''
       (sha2_token toy_digests ''secret'' ''salt'')
     \<and> verify_native toy_digests ''secret'' ''salt'' (native_token toy_digests ''secret'' ''salt'')
     \<and> verify_sha2 toy_digests ''secret'' ''salt'' (sha2_token toy_digests ''secret'' ''salt'')
     \<and> length (native_token toy_digests ''secret'' ''salt'') = 20
     \<and> length (sha2_token toy_digests ''secret'' ''salt'') = 32"
  by (rule tokens_pass_server_checks) (auto simp: sized_digests_def toy_digests_def)

end
