(* ===== verification/AuthLimit.thy ===== *)
theory AuthLimit
  imports Prelude "HOL-Library.AList" "HOL-Library.Word" "HOL-Library.Multiset"
begin

text \<open>
  internal/authlimit: the back-off that both proxies put on failed logins of one source address.
  The two maps are association lists; a duration is an integer of nanoseconds, and only
  \<open>delay_for\<close>, which shifts one, works on 64-bit words.
\<close>

section \<open>The limiter\<close>

record entry =
  en_count :: int
  en_last :: "int option"

definition no_entry :: entry where
  "no_entry = \<lparr>en_count = 0, en_last = None\<rparr>"

record limiter =
  lm_fails :: "(string \<times> entry) list"
  lm_inflight :: "(string \<times> int) list"
  lm_max_inflight :: int
  lm_threshold :: int
  lm_base :: int
  lm_max :: int
  lm_window :: int

definition new_limiter :: limiter where
  "new_limiter = \<lparr>lm_fails = [], lm_inflight = [], lm_max_inflight = 8, lm_threshold = 5,
     lm_base = second, lm_max = 8 * second, lm_window = 10 * minute\<rparr>"

text \<open>A missing key reads as the zero value.\<close>

definition look :: "'a \<Rightarrow> (string \<times> 'a) list \<Rightarrow> string \<Rightarrow> 'a" where
  "look z m k = (case map_of m k of None \<Rightarrow> z | Some v \<Rightarrow> v)"

section \<open>Slots\<close>

definition acquire_slot :: "string \<Rightarrow> limiter \<Rightarrow> bool \<times> limiter" where
  "acquire_slot key l =
     (if key = [] then (True, l)
      else if look 0 (lm_inflight l) key \<ge> lm_max_inflight l then (False, l)
      else (True, l\<lparr>lm_inflight := AList.update key (look 0 (lm_inflight l) key + 1) (lm_inflight l)\<rparr>))"

definition release_slot :: "string \<Rightarrow> limiter \<Rightarrow> limiter" where
  "release_slot key l =
     (if key = [] then l
      else if look 0 (lm_inflight l) key \<le> 1 then l\<lparr>lm_inflight := AList.delete key (lm_inflight l)\<rparr>
      else l\<lparr>lm_inflight := AList.update key (look 0 (lm_inflight l) key - 1) (lm_inflight l)\<rparr>)"

section \<open>Delays\<close>

definition delay_for :: "limiter \<Rightarrow> int \<Rightarrow> int" where
  "delay_for l n =
     (let over = n - lm_threshold l in
      if over \<le> 0 then 0
      else let d = sint (push_bit (nat (over - 1)) (word_of_int (lm_base l) :: 64 word)) in
        if d > lm_max l \<or> d \<le> 0 then lm_max l else d)"

text \<open>Longer ago than the window; the zero time is further away than any window.\<close>

definition outdated :: "limiter \<Rightarrow> int \<Rightarrow> entry \<Rightarrow> bool" where
  "outdated l now e \<longleftrightarrow> (case en_last e of None \<Rightarrow> True | Some t \<Rightarrow> now - t > lm_window l)"

definition penalty :: "int \<Rightarrow> string \<Rightarrow> limiter \<Rightarrow> int" where
  "penalty now key l =
     (if key = [] then 0
      else case map_of (lm_fails l) key of
        None \<Rightarrow> 0
      | Some e \<Rightarrow> if outdated l now e then 0 else delay_for l (en_count e))"

definition sweep :: "int \<Rightarrow> limiter \<Rightarrow> limiter" where
  "sweep now l =
     (if length (lm_fails l) < 1024 then l
      else l\<lparr>lm_fails := filter (\<lambda>ke. \<not> outdated l now (snd ke)) (lm_fails l)\<rparr>)"

definition fail_login :: "int \<Rightarrow> string \<Rightarrow> limiter \<Rightarrow> int \<times> limiter" where
  "fail_login now key l =
     (if key = [] then (0, l)
      else let e0 = look no_entry (lm_fails l) key;
               e1 = (if en_last e0 \<noteq> None \<and> outdated l now e0 then no_entry else e0);
               e = \<lparr>en_count = en_count e1 + 1, en_last = Some now\<rparr>;
               l' = sweep now (l\<lparr>lm_fails := AList.update key e (lm_fails l)\<rparr>)
           in (delay_for l' (en_count e), l'))"

definition reset_login :: "string \<Rightarrow> limiter \<Rightarrow> limiter" where
  "reset_login key l =
     (if key = [] then l else l\<lparr>lm_fails := AList.delete key (lm_fails l)\<rparr>)"

text \<open>\<^verbatim>\<open>net.SplitHostPort\<close> is a parameter: its host, or \<open>None\<close> when it fails.\<close>

definition limiter_key :: "(string \<Rightarrow> string option) \<Rightarrow> string option \<Rightarrow> string" where
  "limiter_key split addr = (case addr of
      None \<Rightarrow> []
    | Some a \<Rightarrow> (case split a of None \<Rightarrow> a | Some h \<Rightarrow> h))"

section \<open>The delay without overflow\<close>

text \<open>The schedule that New documents: nothing up to the threshold, then doubling to the maximum.\<close>

definition schedule :: "int \<Rightarrow> int" where
  "schedule n = (if n \<le> 5 then 0 else min (second * 2 ^ nat (n - 6)) (8 * second))"

lemma schedule_mono: "m \<le> n \<Longrightarrow> schedule m \<le> schedule n"
proof -
  assume "m \<le> n"
  then have "(2::int) ^ nat (m - 6) \<le> 2 ^ nat (n - 6)" by (intro power_increasing) auto
  with \<open>m \<le> n\<close> show ?thesis by (auto simp: schedule_def second_def intro: min.coboundedI1)
qed

lemma shifted:
  "sint (push_bit k (word_of_int second :: 64 word)) = signed_take_bit 63 (second * 2 ^ k)"
proof -
  have "push_bit k (word_of_int second :: 64 word) = word_of_int (second * 2 ^ k)"
    by (simp add: push_bit_eq_mult)
  then show ?thesis by (simp only: sint_sbintrunc') simp
qed

lemma shifted_small:
  assumes "k < 25"
  shows "signed_take_bit 63 (second * 2 ^ k) = second * 2 ^ k"
proof -
  have "(2::int) ^ k \<le> 2 ^ 24" using assms by (intro power_increasing) auto
  then have "second * 2 ^ k < 2 ^ 63" by (simp add: second_def)
  moreover have "0 \<le> second * 2 ^ k" by (simp add: second_def)
  ultimately show ?thesis by (simp add: signed_take_bit_int_eq_self)
qed

lemma shifted_large:
  assumes "25 \<le> k"
  shows "signed_take_bit 63 (second * 2 ^ k) \<le> 0 \<or> 8 * second < signed_take_bit 63 (second * 2 ^ k)"
proof -
  let ?x = "second * 2 ^ k"
  have "?x = 2 ^ 34 * (1953125 * 2 ^ (k - 25))"
    using assms power_add [of "2::int" 25 "k - 25"] by (simp add: second_def)
  then have "(2::int) ^ 34 dvd take_bit 64 ?x"
    by (simp add: take_bit_eq_mod dvd_mod)
  then have "2 ^ 34 dvd signed_take_bit 63 ?x"
    by (simp add: signed_take_bit_eq_take_bit_minus dvd_diff)
  then have "signed_take_bit 63 ?x \<le> 0 \<or> 2 ^ 34 \<le> signed_take_bit 63 ?x"
    using zdvd_imp_le by (metis not_le)
  then show ?thesis by (auto simp: second_def)
qed

definition default_delays :: "limiter \<Rightarrow> bool" where
  "default_delays l \<longleftrightarrow> lm_threshold l = 5 \<and> lm_base l = second \<and> lm_max l = 8 * second
     \<and> lm_window l = 10 * minute"

lemma delay_schedule:
  assumes "default_delays l"
  shows "delay_for l n = schedule n"
proof (cases "n \<le> 5")
  case True
  with assms show ?thesis by (simp add: delay_for_def schedule_def default_delays_def)
next
  case False
  define k where "k = nat (n - 6)"
  have d: "delay_for l n = (let d = signed_take_bit 63 (second * 2 ^ k) in
      if d > 8 * second \<or> d \<le> 0 then 8 * second else d)"
    using False assms by (auto simp: delay_for_def default_delays_def shifted k_def Let_def)
  have s: "schedule n = min (second * 2 ^ k) (8 * second)"
    using False by (simp add: schedule_def k_def)
  show ?thesis
  proof (cases "k < 25")
    case True
    then have x: "signed_take_bit 63 (second * 2 ^ k) = second * 2 ^ k" by (rule shifted_small)
    have pos: "0 < second * 2 ^ k" by (simp add: second_def)
    have clip: "(let d = x in if d > m \<or> d \<le> 0 then m else d) = min x m" if "0 < x" for x m :: int
      using that by (auto simp: Let_def)
    show ?thesis unfolding d x s by (rule clip [OF pos])
  next
    case False
    then have "signed_take_bit 63 (second * 2 ^ k) \<le> 0 \<or> 8 * second < signed_take_bit 63 (second * 2 ^ k)"
      by (intro shifted_large) simp
    moreover have "(2::int) ^ 3 \<le> 2 ^ k" using False by (intro power_increasing) auto
    ultimately show ?thesis by (auto simp: d s min_def second_def Let_def)
  qed
qed

section \<open>The history of an address\<close>

datatype limiter_call = CallAcquire string | CallRelease string | CallFail string | CallReset string

fun limiter_step :: "int \<times> limiter_call \<Rightarrow> limiter \<Rightarrow> limiter" where
  "limiter_step (t, CallAcquire k) l = snd (acquire_slot k l)"
| "limiter_step (t, CallRelease k) l = release_slot k l"
| "limiter_step (t, CallFail k) l = snd (fail_login t k l)"
| "limiter_step (t, CallReset k) l = reset_login k l"

text \<open>The abstract state: the times of the failures since the last success, latest first.\<close>

fun history_step :: "string \<Rightarrow> int \<times> limiter_call \<Rightarrow> int list \<Rightarrow> int list" where
  "history_step key (t, CallFail k) h = (if k = key then t # h else h)"
| "history_step key (t, CallReset k) h = (if k = key then [] else h)"
| "history_step key _ h = h"

text \<open>How many of them follow one another within the window.\<close>

fun streak :: "int \<Rightarrow> int list \<Rightarrow> int" where
  "streak w [] = 0"
| "streak w [t] = 1"
| "streak w (t # u # ts) = (if t - u > w then 1 else streak w (u # ts) + 1)"

definition recent_failures :: "int \<Rightarrow> int list \<Rightarrow> int" where
  "recent_failures now h = (if h = [] \<or> now - hd h > 10 * minute then 0 else streak (10 * minute) h)"

definition tracks :: "int \<Rightarrow> string \<Rightarrow> limiter \<Rightarrow> int list \<Rightarrow> bool" where
  "tracks now key l h \<longleftrightarrow> (\<forall>u \<in> set h. u \<le> now) \<and> (case map_of (lm_fails l) key of
      None \<Rightarrow> h = [] \<or> now - hd h > 10 * minute
    | Some e \<Rightarrow> h \<noteq> [] \<and> en_last e = Some (hd h) \<and> en_count e = streak (10 * minute) h)"

lemma map_of_filter_snd:
  "distinct (map fst m) \<Longrightarrow> map_of (filter (\<lambda>ke. P (snd ke)) m) k =
     (case map_of m k of None \<Rightarrow> None | Some e \<Rightarrow> if P e then Some e else None)"
  by (induction m) (auto split: option.split simp: map_of_eq_None_iff)

lemma sweep_fields [simp]: "default_delays (sweep now l) = default_delays l"
  "lm_inflight (sweep now l) = lm_inflight l" "lm_max_inflight (sweep now l) = lm_max_inflight l"
  by (simp_all add: sweep_def default_delays_def)

lemma sweep_distinct: "distinct (map fst (lm_fails l)) \<Longrightarrow> distinct (map fst (lm_fails (sweep now l)))"
  by (simp add: sweep_def distinct_map_filter)

lemma sweep_lookup:
  "distinct (map fst (lm_fails l)) \<Longrightarrow> map_of (lm_fails (sweep now l)) k \<in>
     {map_of (lm_fails l) k, case map_of (lm_fails l) k of None \<Rightarrow> None
        | Some e \<Rightarrow> if outdated l now e then None else Some e}"
  using map_of_filter_snd [of "lm_fails l" "\<lambda>e. \<not> outdated l now e" k]
  by (cases "map_of (lm_fails l) k") (auto simp: sweep_def simp del: map_of_eq_None_iff)

definition limiter_ok :: "limiter \<Rightarrow> bool" where
  "limiter_ok l \<longleftrightarrow> default_delays l \<and> distinct (map fst (lm_fails l))"

lemma step_ok: "limiter_ok l \<Longrightarrow> limiter_ok (limiter_step tc l)"
  by (cases "(tc, l)" rule: limiter_step.cases)
    (auto simp: limiter_ok_def default_delays_def acquire_slot_def release_slot_def fail_login_def
      reset_login_def Let_def sweep_def distinct_update distinct_delete distinct_map_filter)

lemma step_tracks:
  assumes ok: "limiter_ok l" and tr: "tracks t0 key l h" and "t0 \<le> fst tc" and key: "key \<noteq> []"
  shows "tracks (fst tc) key (limiter_step tc l) (history_step key tc h)"
proof -
  obtain t c where tc: "tc = (t, c)" by (cases tc)
  have tr': "tracks t key l h" using tr assms(3) tc by (fastforce simp: tracks_def split: option.splits)
  show ?thesis
  proof (cases c)
    case (CallFail k)
    show ?thesis
    proof (cases "k = []")
      case True
      with tr' key CallFail tc show ?thesis by (simp add: fail_login_def)
    next
      case False
      define e0 where "e0 = look no_entry (lm_fails l) k"
      define e1 where "e1 = (if en_last e0 \<noteq> None \<and> outdated l t e0 then no_entry else e0)"
      define e where "e = \<lparr>en_count = en_count e1 + 1, en_last = Some t\<rparr>"
      define l1 where "l1 = l\<lparr>lm_fails := AList.update k e (lm_fails l)\<rparr>"
      have l': "limiter_step tc l = sweep t l1"
        using False CallFail tc by (simp add: fail_login_def Let_def e0_def e1_def e_def l1_def)
      have dist: "distinct (map fst (lm_fails l1))"
        using ok by (simp add: l1_def limiter_ok_def distinct_update)
      have win: "lm_window l1 = 10 * minute" "lm_window l = 10 * minute"
        using ok by (simp_all add: l1_def limiter_ok_def default_delays_def)
      have look: "map_of (lm_fails l1) = (map_of (lm_fails l))(k \<mapsto> e)"
        by (simp add: l1_def update_conv')
      note sw = sweep_lookup [OF dist, of t key]
      show ?thesis
      proof (cases "k = key")
        case True
        have "en_count e = streak (10 * minute) (t # h)"
          using tr' True by (cases h)
            (auto simp: tracks_def e_def e1_def e0_def look_def no_entry_def outdated_def win split: option.splits)
        with sw True look tr' CallFail tc l' show ?thesis
          by (auto simp: tracks_def outdated_def e_def win minute_def second_def)
      next
        case False
        with sw look tr' CallFail tc l' show ?thesis
          by (auto simp: tracks_def outdated_def win split: option.splits if_splits)
      qed
    qed
  qed (use tr' tc key in \<open>auto simp: tracks_def acquire_slot_def release_slot_def reset_login_def delete_conv' split: option.splits\<close>)
qed

lemma run_tracks:
  assumes "limiter_ok l" "tracks t0 key l h" "sorted (t0 # map fst evs)" "key \<noteq> []"
  shows "\<exists>t. limiter_ok (fold limiter_step evs l) \<and> t = last (t0 # map fst evs)
     \<and> tracks t key (fold limiter_step evs l) (fold (history_step key) evs h)"
  using assms
proof (induction evs arbitrary: l t0 h)
  case (Cons e evs)
  have "limiter_ok (limiter_step e l)" using Cons.prems(1) by (rule step_ok)
  moreover have "tracks (fst e) key (limiter_step e l) (history_step key e h)"
    using Cons.prems by (intro step_tracks) auto
  moreover have "sorted (fst e # map fst evs)" using Cons.prems(3) by simp
  ultimately show ?case using Cons.IH Cons.prems(4) by simp
qed simp

lemma new_ok: "limiter_ok new_limiter \<and> tracks t key new_limiter []"
  by (simp add: limiter_ok_def default_delays_def new_limiter_def tracks_def)

section \<open>Properties\<close>

text \<open>C34. The back-off of an address is exactly the documented schedule of its history: after any
  sequence of calls in time order, for any number of addresses and whatever the limiter has swept
  out of its map in between, the delay before the next check is nothing for up to 5 failures that
  followed one another within 10 minutes, then 1 s, 2 s, 4 s and at most 8 s; a success or 10
  quiet minutes clear it. The shift of the 64-bit duration never wraps round to less.\<close>

theorem backoff_follows_history:
  assumes "sorted (map fst evs @ [now])" and "key \<noteq> []"
  shows "penalty now key (fold limiter_step evs new_limiter)
     = schedule (recent_failures now (fold (history_step key) evs []))"
proof -
  let ?l = "fold limiter_step evs new_limiter" and ?h = "fold (history_step key) evs []"
  define t0 where "t0 = (if evs = [] then now else fst (hd evs))"
  have "sorted (t0 # map fst evs)"
    using assms(1) by (cases evs) (auto simp: t0_def sorted_append)
  then obtain t where ok: "limiter_ok ?l" and t: "t = last (t0 # map fst evs)" and tr: "tracks t key ?l ?h"
    using run_tracks [of new_limiter t0 key "[]" evs] new_ok assms(2) by auto
  have "t \<le> now" using assms(1) t by (cases evs rule: rev_cases) (auto simp: t0_def sorted_append)
  have win: "lm_window ?l = 10 * minute" and dd: "default_delays ?l"
    using ok by (simp_all add: limiter_ok_def default_delays_def)
  show ?thesis
  proof (cases "map_of (lm_fails ?l) key")
    case None
    with tr \<open>t \<le> now\<close> have "recent_failures now ?h = 0"
      by (auto simp: tracks_def recent_failures_def)
    with None assms(2) show ?thesis by (simp add: penalty_def schedule_def)
  next
    case (Some e)
    with tr have "?h \<noteq> []" "en_last e = Some (hd ?h)" "en_count e = streak (10 * minute) ?h"
      by (simp_all add: tracks_def)
    with Some assms(2) show ?thesis
      by (simp add: penalty_def outdated_def win recent_failures_def delay_schedule [OF dd] schedule_def)
  qed
qed

definition sample_calls :: "(int \<times> limiter_call) list" where
  "sample_calls = map (\<lambda>i. (i * second, CallFail ''10.0.0.7'')) [1, 2, 3, 4, 5, 6, 7]"

theorem backoff_follows_history_witness:
  "penalty (8 * second) ''10.0.0.7'' (fold limiter_step sample_calls new_limiter) = 2 * second"
proof -
  have "sorted (map fst sample_calls @ [8 * second])" by (simp add: sample_calls_def second_def)
  from backoff_follows_history [OF this, of "''10.0.0.7''"] show ?thesis
    by (simp add: sample_calls_def recent_failures_def schedule_def second_def minute_def)
qed

section \<open>Concurrent checks\<close>

text \<open>
  Runs in which every slot that was granted is given back at most once; \<open>held\<close> are the addresses
  of the checks that are under way.
\<close>

inductive auth_run :: "limiter \<Rightarrow> string multiset \<Rightarrow> bool" where
  run_new: "auth_run new_limiter {#}"
| run_grant: "auth_run l held \<Longrightarrow> acquire_slot k l = (True, l') \<Longrightarrow> auth_run l' (add_mset k held)"
| run_refuse: "auth_run l held \<Longrightarrow> acquire_slot k l = (False, l') \<Longrightarrow> auth_run l' held"
| run_release: "auth_run l held \<Longrightarrow> k \<in># held \<Longrightarrow> auth_run (release_slot k l) (held - {#k#})"
| run_fail: "auth_run l held \<Longrightarrow> auth_run (snd (fail_login t k l)) held"
| run_reset: "auth_run l held \<Longrightarrow> auth_run (reset_login k l) held"

lemma look_update [simp]: "look z (AList.update k v m) k' = (if k' = k then v else look z m k')"
  by (simp add: look_def update_conv')

lemma look_delete [simp]: "look z (AList.delete k m) k' = (if k' = k then z else look z m k')"
  by (simp add: look_def delete_conv')

lemma fail_inflight [simp]: "lm_inflight (snd (fail_login t k l)) = lm_inflight l"
  "lm_max_inflight (snd (fail_login t k l)) = lm_max_inflight l"
  by (simp_all add: fail_login_def Let_def)

lemma auth_run_counts:
  "auth_run l held \<Longrightarrow> lm_max_inflight l = 8
     \<and> (\<forall>k. k \<noteq> [] \<longrightarrow> look 0 (lm_inflight l) k = int (count held k) \<and> count held k \<le> 8)"
proof (induction rule: auth_run.induct)
  case run_new
  then show ?case by (simp add: new_limiter_def look_def)
next
  case (run_grant l held k l')
  then show ?case by (auto simp: acquire_slot_def split: if_splits)
next
  case (run_refuse l held k l')
  then show ?case by (auto simp: acquire_slot_def split: if_splits)
next
  case (run_release l held k)
  then have "0 < count held k" by simp
  with run_release.IH show ?case by (auto simp: release_slot_def)
next
  case (run_reset l held k)
  then show ?case by (simp add: reset_login_def)
qed simp

text \<open>The limit on parallel attempts is exact: in every run an address has at most 8 checks under
  way, and a further attempt is admitted if and only if it has fewer than 8 (attempts without an
  address are not limited).\<close>

theorem parallel_attempts_limited:
  assumes "auth_run l held"
  shows "(fst (acquire_slot key l) \<longleftrightarrow> key = [] \<or> count held key < 8) \<and> (key = [] \<or> count held key \<le> 8)"
  using auth_run_counts [OF assms] by (auto simp: acquire_slot_def)

theorem parallel_attempts_limited_witness:
  "fst (acquire_slot ''a'' (snd (acquire_slot ''a'' new_limiter)))"
proof -
  have "auth_run (snd (acquire_slot ''a'' new_limiter)) (add_mset ''a'' {#})"
    by (rule run_grant [OF run_new]) (simp add: acquire_slot_def new_limiter_def look_def)
  from parallel_attempts_limited [OF this, of "''a''"] show ?thesis by simp
qed

end
