(* ===== verification/ProxyState.thy ===== *)
theory ProxyState
  imports AuthLimit Bytes
begin

text \<open>
  What the two proxies (internal/proxy for MySQL, internal/pgproxy for PostgreSQL) have in common:
  the configuration, the connection counts that the reaper asks for, the state that a handler
  works on, and the order of calls that the handlers are meant to keep. A handler runs on a world
  that holds the peers, the clock, the random source and the router; nothing is assumed of it.
  \<open>px_trace\<close> logs the checks of passwords and the calls to the router and to backends, newest
  first; the program does not keep it.
\<close>

section \<open>Configuration\<close>

record px_config =
  pc_backend_host :: string
  pc_max_conns :: int
  pc_allowed_user :: string
  pc_app_user :: string
  pc_app_password :: string
  pc_has_tls :: bool

definition with_defaults :: "px_config \<Rightarrow> px_config" where
  "with_defaults c =
     (let c1 = (if pc_backend_host c = [] then c\<lparr>pc_backend_host := ''127.0.0.1''\<rparr> else c);
          c2 = (if pc_max_conns c1 = 0 then c1\<lparr>pc_max_conns := 50\<rparr> else c1)
      in if pc_app_user c2 = [] then c2\<lparr>pc_app_user := ''dev''\<rparr> else c2)"

section \<open>Connections of a branch\<close>

type_synonym conn_counts = "(string \<times> int) list"

definition active_sessions :: "conn_counts \<Rightarrow> string \<Rightarrow> int" where
  "active_sessions m b = look 0 m b"

definition acquire_conn :: "px_config \<Rightarrow> string \<Rightarrow> conn_counts \<Rightarrow> bool \<times> conn_counts" where
  "acquire_conn c b m =
     (if look 0 m b \<ge> pc_max_conns c then (False, m)
      else (True, AList.update b (look 0 m b + 1) m))"

definition release_conn :: "string \<Rightarrow> conn_counts \<Rightarrow> conn_counts" where
  "release_conn b m = (if look 0 m b > 0 then AList.update b (look 0 m b - 1) m else m)"

text \<open>
  Handlers of many connections interleave at these two critical sections; each handler releases
  what it was granted, once. The multiset holds the branches of the sessions in progress.
\<close>

inductive sessions :: "px_config \<Rightarrow> conn_counts \<Rightarrow> string multiset \<Rightarrow> bool" for c where
  sessions_none: "sessions c [] {#}"
| sessions_open: "sessions c m held \<Longrightarrow> acquire_conn c b m = (True, m') \<Longrightarrow> sessions c m' (add_mset b held)"
| sessions_full: "sessions c m held \<Longrightarrow> acquire_conn c b m = (False, m') \<Longrightarrow> sessions c m' held"
| sessions_close: "sessions c m held \<Longrightarrow> b \<in># held \<Longrightarrow> sessions c (release_conn b m) (held - {#b#})"

lemma sessions_count: "sessions c m held \<Longrightarrow> look 0 m b = int (count held b) \<and> (0 \<le> pc_max_conns c \<longrightarrow> look 0 m b \<le> pc_max_conns c)"
proof (induction arbitrary: b rule: sessions.induct)
  case sessions_none
  then show ?case by (simp add: look_def)
next
  case (sessions_open m held b' m')
  with sessions_open.IH [of b] show ?case by (auto simp: acquire_conn_def split: if_splits)
next
  case (sessions_full m held b' m')
  with sessions_full.IH [of b] show ?case by (auto simp: acquire_conn_def split: if_splits)
next
  case (sessions_close m held b')
  then have "0 < count held b'" by simp
  with sessions_close.IH [of b] sessions_close.IH [of b'] show ?case by (auto simp: release_conn_def)
qed

section \<open>Handlers\<close>

record 'w px_env =
  pe_clock :: "'w \<Rightarrow> int \<times> 'w"
  pe_sleep :: "int \<Rightarrow> 'w \<Rightarrow> 'w"
  pe_ctx_err :: "'w \<Rightarrow> err option \<times> 'w"
  pe_random :: "nat \<Rightarrow> 'w \<Rightarrow> (err + string) \<times> 'w"
  pe_tls :: "'w conn \<Rightarrow> 'w \<Rightarrow> (err + 'w conn) \<times> 'w"
  pe_dial :: "string \<Rightarrow> 'w \<Rightarrow> (err + 'w conn) \<times> 'w"
  pe_route :: "string \<Rightarrow> 'w \<Rightarrow> (err + int) \<times> 'w"
  pe_touch :: "string \<Rightarrow> 'w \<Rightarrow> 'w"
  pe_pipe :: "'w conn \<Rightarrow> 'w conn \<Rightarrow> 'w \<Rightarrow> 'w"
  pe_name_re :: "string \<Rightarrow> bool"

text \<open>A check carries its evidence: what the client sent and what it was compared with.\<close>

datatype px_event =
    PxChecked "string list" bool
  | PxRouted string
  | PxDialed string
  | PxTouched string
  | PxPiped string

record 'w px =
  px_world :: 'w
  px_limiter :: limiter
  px_conns :: conn_counts
  px_next_id :: "32 word"
  px_cancels :: "((32 word \<times> 32 word) \<times> string) list"
  px_trace :: "px_event list"

definition new_px :: "'w \<Rightarrow> 'w px" where
  "new_px w = \<lparr>px_world = w, px_limiter = new_limiter, px_conns = [], px_next_id = 0, px_cancels = [], px_trace = []\<rparr>"

type_synonym ('w, 'a) pact = "'w px \<Rightarrow> 'a outcome \<times> 'w px"

definition pret :: "'a \<Rightarrow> ('w, 'a) pact" where
  "pret a s = (Done a, s)"

definition pfail :: "err \<Rightarrow> ('w, 'a) pact" where
  "pfail e s = (Failed e, s)"

definition ppanic :: "('w, 'a) pact" where
  "ppanic s = (Panic, s)"

text \<open>Handle an error, or go on; a panic is not handled by anyone.\<close>

definition phandle :: "('w, 'a) pact \<Rightarrow> (err \<Rightarrow> ('w, 'b) pact) \<Rightarrow> ('a \<Rightarrow> ('w, 'b) pact) \<Rightarrow> ('w, 'b) pact" where
  "phandle m h k s = (case m s of
      (Done a, s') \<Rightarrow> k a s' | (Failed e, s') \<Rightarrow> h e s' | (Panic, s') \<Rightarrow> (Panic, s'))"

definition pbind :: "('w, 'a) pact \<Rightarrow> ('a \<Rightarrow> ('w, 'b) pact) \<Rightarrow> ('w, 'b) pact" where
  "pbind m k = phandle m pfail k"

text \<open>\<^verbatim>\<open>defer\<close>: also after an error or a panic.\<close>

definition finally_do :: "('w px \<Rightarrow> 'w px) \<Rightarrow> ('w, 'a) pact \<Rightarrow> ('w, 'a) pact" where
  "finally_do f m s = (case m s of (r, s') \<Rightarrow> (r, f s'))"

definition on_world :: "('w \<Rightarrow> (err + 'a) \<times> 'w) \<Rightarrow> ('w, 'a) pact" where
  "on_world f s = (case f (px_world s) of
      (Inl e, w) \<Rightarrow> (Failed e, s\<lparr>px_world := w\<rparr>) | (Inr a, w) \<Rightarrow> (Done a, s\<lparr>px_world := w\<rparr>))"

definition total_world :: "('w \<Rightarrow> 'a \<times> 'w) \<Rightarrow> ('w, 'a) pact" where
  "total_world f s = (case f (px_world s) of (a, w) \<Rightarrow> (Done a, s\<lparr>px_world := w\<rparr>))"

definition from_outcome :: "'a outcome \<Rightarrow> ('w, 'a) pact" where
  "from_outcome r s = (r, s)"

definition from_sum :: "err + 'a \<Rightarrow> ('w, 'a) pact" where
  "from_sum r = (case r of Inl e \<Rightarrow> pfail e | Inr a \<Rightarrow> pret a)"

definition log_event :: "px_event \<Rightarrow> ('w, unit) pact" where
  "log_event ev s = (Done (), s\<lparr>px_trace := ev # px_trace s\<rparr>)"

definition on_limiter :: "(limiter \<Rightarrow> 'a \<times> limiter) \<Rightarrow> ('w, 'a) pact" where
  "on_limiter f s = (case f (px_limiter s) of (a, l) \<Rightarrow> (Done a, s\<lparr>px_limiter := l\<rparr>))"

definition open_session :: "px_config \<Rightarrow> string \<Rightarrow> ('w, bool) pact" where
  "open_session c b s = (case acquire_conn c b (px_conns s) of (ok, m) \<Rightarrow> (Done ok, s\<lparr>px_conns := m\<rparr>))"

definition close_session :: "string \<Rightarrow> 'w px \<Rightarrow> 'w px" where
  "close_session b s = s\<lparr>px_conns := release_conn b (px_conns s)\<rparr>"

definition drop_slot :: "string \<Rightarrow> 'w px \<Rightarrow> 'w px" where
  "drop_slot src s = s\<lparr>px_limiter := release_slot src (px_limiter s)\<rparr>"

text \<open>Take the slot, wait out the penalty, and check if the daemon is not stopping. The check is an
  argument; \<open>None\<close> when no slot was free.\<close>

definition pause :: "'w px_env \<Rightarrow> string \<Rightarrow> ('w, unit) pact" where
  "pause E src = pbind (total_world (pe_clock E)) (\<lambda>t s.
     (Done (), s\<lparr>px_world := pe_sleep E (penalty t src (px_limiter s)) (px_world s)\<rparr>))"

definition note_failure :: "'w px_env \<Rightarrow> string \<Rightarrow> ('w, int) pact" where
  "note_failure E src = pbind (total_world (pe_clock E)) (\<lambda>t. on_limiter (fail_login t src))"

definition note_success :: "string \<Rightarrow> ('w, unit) pact" where
  "note_success src = on_limiter (\<lambda>l. ((), reset_login src l))"

definition with_slot :: "'w px_env \<Rightarrow> string \<Rightarrow> ('w, 'a) pact \<Rightarrow> ('w, 'a option) pact" where
  "with_slot E src m =
     pbind (on_limiter (acquire_slot src)) (\<lambda>ok.
     if \<not> ok then pret None
     else finally_do (drop_slot src) (pbind m (\<lambda>a. pret (Some a))))"

section \<open>What a step adds to the trace\<close>

text \<open>\<open>adds P m\<close>: whatever happens, \<open>m\<close> adds to the trace a list of events that satisfies \<open>P\<close>.\<close>

definition adds :: "(px_event list \<Rightarrow> bool) \<Rightarrow> ('w, 'a) pact \<Rightarrow> bool" where
  "adds P m \<longleftrightarrow> (\<forall>s. \<exists>evs. px_trace (snd (m s)) = evs @ px_trace s \<and> P evs)"

abbreviation quiet :: "('w, 'a) pact \<Rightarrow> bool" where
  "quiet \<equiv> adds (\<lambda>evs. evs = [])"

text \<open>All events satisfy \<open>Q\<close>.\<close>

abbreviation adds_only :: "(px_event \<Rightarrow> bool) \<Rightarrow> ('w, 'a) pact \<Rightarrow> bool" where
  "adds_only Q \<equiv> adds (list_all Q)"

lemma quiet_only: "quiet m \<Longrightarrow> adds_only Q m"
  by (fastforce simp: adds_def)

lemma adds_phandle:
  assumes "adds_only Q m" "\<And>e. adds_only Q (h e)" "\<And>a. adds_only Q (k a)"
  shows "adds_only Q (phandle m h k)"
  unfolding adds_def
proof
  fix s
  obtain r s' where m: "m s = (r, s')" by fastforce
  obtain evs where evs: "px_trace s' = evs @ px_trace s" "list_all Q evs"
    using assms(1) m unfolding adds_def by (metis snd_conv)
  show "\<exists>evs. px_trace (snd (phandle m h k s)) = evs @ px_trace s \<and> list_all Q evs"
  proof (cases r)
    case (Done a)
    obtain evs' where "px_trace (snd (k a s')) = evs' @ px_trace s'" "list_all Q evs'"
      using assms(3) [of a] unfolding adds_def by blast
    with Done m evs show ?thesis by (intro exI [of _ "evs' @ evs"]) (simp add: phandle_def)
  next
    case (Failed e)
    obtain evs' where "px_trace (snd (h e s')) = evs' @ px_trace s'" "list_all Q evs'"
      using assms(2) [of e] unfolding adds_def by blast
    with Failed m evs show ?thesis by (intro exI [of _ "evs' @ evs"]) (simp add: phandle_def)
  next
    case Panic
    with m evs show ?thesis by (simp add: phandle_def)
  qed
qed

lemma adds_pret: "adds_only Q (pret a)" and adds_pfail: "adds_only Q (pfail e)"
  and adds_ppanic: "adds_only Q ppanic" and adds_outcome: "adds_only Q (from_outcome r)"
  by (simp_all add: adds_def pret_def pfail_def ppanic_def from_outcome_def)

lemma adds_pbind: "adds_only Q m \<Longrightarrow> (\<And>a. adds_only Q (k a)) \<Longrightarrow> adds_only Q (pbind m k)"
  unfolding pbind_def by (rule adds_phandle) (simp_all add: adds_pfail)

lemma adds_on_world: "adds_only Q (on_world f)" and adds_total_world: "adds_only Q (total_world g)"
  and adds_on_limiter: "adds_only Q (on_limiter h)" and adds_open_session: "adds_only Q (open_session c b)"
  by (simp_all add: adds_def on_world_def total_world_def on_limiter_def open_session_def split: prod.split sum.split)

lemma adds_from_sum: "adds_only Q (from_sum r)"
  by (cases r) (simp_all add: from_sum_def adds_pret adds_pfail)

lemma adds_log: "Q ev \<Longrightarrow> adds_only Q (log_event ev)"
  by (auto simp: adds_def log_event_def)

lemma adds_finally: "(\<And>s. px_trace (f s) = px_trace s) \<Longrightarrow> adds_only Q m \<Longrightarrow> adds_only Q (finally_do f m)"
  by (simp add: adds_def finally_do_def split: prod.split) (metis snd_conv)

lemma adds_pause: "adds_only Q (pause E src)"
proof -
  have "adds_only Q (\<lambda>s. (Done (), s\<lparr>px_world := f s\<rparr>))" for f :: "'a px \<Rightarrow> 'a"
    by (simp add: adds_def)
  then show ?thesis unfolding pause_def by (intro adds_pbind adds_total_world) simp
qed

lemma close_session_trace [simp]: "px_trace (close_session b s) = px_trace s"
  and drop_slot_trace [simp]: "px_trace (drop_slot src s) = px_trace s"
  by (simp_all add: close_session_def drop_slot_def)

lemma adds_notes: "adds_only Q (note_failure E src)" "adds_only Q (note_success src)"
  by (simp_all add: note_failure_def note_success_def adds_pbind adds_total_world adds_on_limiter)

lemma adds_slot: "adds_only Q m \<Longrightarrow> adds_only Q (with_slot E src m)"
  unfolding with_slot_def by (intro adds_pbind adds_on_limiter) (simp add: adds_pret adds_finally adds_pbind)

lemmas adds_intros = adds_phandle adds_pbind adds_pret adds_pfail adds_ppanic adds_outcome adds_on_world
  adds_total_world adds_on_limiter adds_open_session adds_from_sum adds_finally adds_pause adds_notes adds_slot

lemma adds_split:
  "adds_only Q m \<Longrightarrow> m s = (r, s') \<Longrightarrow> \<exists>evs. px_trace s' = evs @ px_trace s \<and> list_all Q evs"
  unfolding adds_def by (metis snd_conv)

lemma silent: "adds_only (\<lambda>_. False) m \<Longrightarrow> m s = (r, s') \<Longrightarrow> px_trace s' = px_trace s"
proof -
  assume "adds_only (\<lambda>_. False) m" "m s = (r, s')"
  then obtain evs where "px_trace s' = evs @ px_trace s" "list_all (\<lambda>_. False) evs" using adds_split by blast
  then show ?thesis by (cases evs) simp_all
qed

section \<open>What a successful step did\<close>

lemma phandle_Done: "phandle m h k s = (Done b, s') \<longleftrightarrow>
   (\<exists>a t. m s = (Done a, t) \<and> k a t = (Done b, s')) \<or> (\<exists>e t. m s = (Failed e, t) \<and> h e t = (Done b, s'))"
proof -
  obtain r t where "m s = (r, t)" by fastforce
  then show ?thesis by (cases r) (auto simp: phandle_def)
qed

lemma pfail_Done [simp]: "pfail e s \<noteq> (Done b, s')" and ppanic_Done [simp]: "ppanic s \<noteq> (Done b, s')"
  and pret_Done [simp]: "pret a s = (Done b, s') \<longleftrightarrow> a = b \<and> s = s'"
  by (auto simp: pfail_def ppanic_def pret_def)

lemma pbind_Done: "pbind m k s = (Done b, s') \<longleftrightarrow> (\<exists>a t. m s = (Done a, t) \<and> k a t = (Done b, s'))"
  by (simp add: pbind_def phandle_Done)

lemma finally_Done: "finally_do f m s = (Done b, s') \<longleftrightarrow> (\<exists>t. m s = (Done b, t) \<and> s' = f t)"
  by (auto simp: finally_do_def split: prod.splits)

lemma with_slot_Done:
  assumes "with_slot E src m s = (Done (Some a), s')"
  shows "\<exists>t t'. px_trace t = px_trace s \<and> m t = (Done a, t') \<and> px_trace s' = px_trace t'"
proof -
  obtain ok l where slot: "acquire_slot src (px_limiter s) = (ok, l)" by fastforce
  with assms have "ok" by (cases ok) (auto simp: with_slot_def pbind_Done on_limiter_def)
  with assms slot obtain t' where "m (s\<lparr>px_limiter := l\<rparr>) = (Done a, t')" "s' = drop_slot src t'"
    by (auto simp: with_slot_def pbind_Done finally_Done on_limiter_def)
  then show ?thesis by (intro exI [of _ "s\<lparr>px_limiter := l\<rparr>"] exI [of _ t']) simp
qed

section \<open>Kinds of events\<close>

definition is_check :: "px_event \<Rightarrow> bool" where
  "is_check ev = (case ev of PxChecked e ok \<Rightarrow> True | _ \<Rightarrow> False)"

section \<open>Events in order\<close>

text \<open>\<open>chain evs m\<close>: whatever happens, \<open>m\<close> adds to the trace a first part of \<open>evs\<close>, in this order.\<close>

definition chain :: "px_event list \<Rightarrow> ('w, 'a) pact \<Rightarrow> bool" where
  "chain evs m \<longleftrightarrow> (\<forall>s. \<exists>n. px_trace (snd (m s)) = rev (take n evs) @ px_trace s)"

lemma chain_quiet: "adds_only (\<lambda>_. False) m \<Longrightarrow> chain evs m"
  unfolding chain_def
proof
  fix s
  assume "adds_only (\<lambda>_. False) m"
  then have "px_trace (snd (m s)) = px_trace s" using silent by (metis prod.collapse)
  then show "\<exists>n. px_trace (snd (m s)) = rev (take n evs) @ px_trace s" by (intro exI [of _ 0]) simp
qed

lemma chain_log:
  fixes k :: "('w, 'a) pact"
  assumes "chain evs k"
  shows "chain (ev # evs) (pbind (log_event ev) (\<lambda>_. k))"
  unfolding chain_def
proof
  fix s :: "'w px"
  let ?s = "s\<lparr>px_trace := ev # px_trace s\<rparr>"
  from assms obtain n where "px_trace (snd (k ?s)) = rev (take n evs) @ px_trace ?s"
    unfolding chain_def by blast
  then show "\<exists>n. px_trace (snd (pbind (log_event ev) (\<lambda>_. k) s)) = rev (take n (ev # evs)) @ px_trace s"
    by (intro exI [of _ "Suc n"]) (simp add: pbind_def phandle_def log_event_def)
qed

lemma chain_phandle:
  assumes "adds_only (\<lambda>_. False) m" "\<And>e. chain evs (h e)" "\<And>a. chain evs (k a)"
  shows "chain evs (phandle m h k)"
  unfolding chain_def
proof
  fix s
  obtain r s' where m: "m s = (r, s')" by fastforce
  then have t: "px_trace s' = px_trace s" using silent [OF assms(1)] by blast
  show "\<exists>n. px_trace (snd (phandle m h k s)) = rev (take n evs) @ px_trace s"
  proof (cases r)
    case (Done a)
    then show ?thesis using assms(3) [of a] m t by (simp add: chain_def phandle_def) metis
  next
    case (Failed e)
    then show ?thesis using assms(2) [of e] m t by (simp add: chain_def phandle_def) metis
  next
    case Panic
    then show ?thesis using m t by (intro exI [of _ 0]) (simp add: phandle_def)
  qed
qed

lemma chain_pbind: "adds_only (\<lambda>_. False) m \<Longrightarrow> (\<And>a. chain evs (k a)) \<Longrightarrow> chain evs (pbind m k)"
  unfolding pbind_def by (rule chain_phandle) (simp_all add: chain_quiet adds_pfail)

lemma chain_if: "(b \<Longrightarrow> chain evs m) \<Longrightarrow> (\<not> b \<Longrightarrow> chain evs k) \<Longrightarrow> chain evs (if b then m else k)"
  and adds_if: "(b \<Longrightarrow> adds_only Q m) \<Longrightarrow> (\<not> b \<Longrightarrow> adds_only Q k) \<Longrightarrow> adds_only Q (if b then m else k)"
  by simp_all

lemma chain_finally: "(\<And>s. px_trace (f s) = px_trace s) \<Longrightarrow> chain evs m \<Longrightarrow> chain evs (finally_do f m)"
  by (simp add: chain_def finally_do_def split: prod.split) (metis snd_conv)

text \<open>The events of a handler that routes a session, newest first: the call of the router, and where
  it answered with a port, a first part of the connection to that port, the record of use and the relay.\<close>

definition route_events :: "'w px_env \<Rightarrow> px_config \<Rightarrow> string \<Rightarrow> px_event list \<Rightarrow> bool" where
  "route_events E c b evs \<longleftrightarrow> evs = [PxRouted b]
     \<or> (\<exists>port w n. fst (pe_route E b w) = Inr port
          \<and> evs = rev (take n [PxDialed (pc_backend_host c @ '':'' @ show_int port), PxTouched b, PxPiped b]) @ [PxRouted b])"

lemma route_events_intro:
  fixes h :: "err \<Rightarrow> ('w, 'a) pact"
  assumes "\<And>e. adds_only (\<lambda>_. False) (h e)"
    and "\<And>port. chain [PxDialed (pc_backend_host c @ '':'' @ show_int port), PxTouched b, PxPiped b] (k port)"
  shows "\<exists>evs. px_trace (snd (pbind (log_event (PxRouted b)) (\<lambda>_. phandle (on_world (pe_route E b)) h k) s))
       = evs @ px_trace s \<and> route_events E c b evs"
proof -
  let ?s = "s\<lparr>px_trace := PxRouted b # px_trace s\<rparr>"
  obtain r w where w: "pe_route E b (px_world s) = (r, w)" by fastforce
  show ?thesis
  proof (cases r)
    case (Inl e)
    have "px_trace (snd (h e (?s\<lparr>px_world := w\<rparr>))) = px_trace (?s\<lparr>px_world := w\<rparr>)"
      using silent [OF assms(1)] by (metis prod.collapse)
    then show ?thesis using w Inl
      by (intro exI [of _ "[PxRouted b]"])
        (simp add: pbind_def phandle_def log_event_def on_world_def route_events_def)
  next
    case (Inr port)
    let ?evs = "[PxDialed (pc_backend_host c @ '':'' @ show_int port), PxTouched b, PxPiped b]"
    obtain n where "px_trace (snd (k port (?s\<lparr>px_world := w\<rparr>))) = rev (take n ?evs) @ px_trace (?s\<lparr>px_world := w\<rparr>)"
      using assms(2) [of port] unfolding chain_def by blast
    moreover have "fst (pe_route E b (px_world s)) = Inr port" using w Inr by simp
    ultimately show ?thesis using w Inr
      unfolding route_events_def
      by (intro exI [of _ "rev (take n ?evs) @ [PxRouted b]"] conjI disjI2 exI [of _ port] exI [of _ "px_world s"] exI [of _ n])
        (simp_all add: pbind_def phandle_def log_event_def on_world_def)
  qed
qed

section \<open>Input that a handler can still read\<close>

definition input_left :: "(string \<times> string) px \<Rightarrow> nat" where
  "input_left s = length (fst (px_world s))"

definition no_growth :: "((string \<times> string), 'a) pact \<Rightarrow> bool" where
  "no_growth m \<longleftrightarrow> (\<forall>s. input_left (snd (m s)) \<le> input_left s)"

lemma no_growth_phandle:
  assumes "no_growth m" "\<And>e. no_growth (h e)" "\<And>a. no_growth (k a)"
  shows "no_growth (phandle m h k)"
  unfolding no_growth_def
proof
  fix s
  obtain r t where m: "m s = (r, t)" by fastforce
  then have le: "input_left t \<le> input_left s" using assms(1) unfolding no_growth_def by (metis snd_conv)
  show "input_left (snd (phandle m h k s)) \<le> input_left s"
  proof (cases r)
    case (Done a)
    have "input_left (snd (k a t)) \<le> input_left t" using assms(3) by (simp add: no_growth_def)
    with Done m le show ?thesis by (simp add: phandle_def)
  next
    case (Failed e)
    have "input_left (snd (h e t)) \<le> input_left t" using assms(2) by (simp add: no_growth_def)
    with Failed m le show ?thesis by (simp add: phandle_def)
  qed (use m le in \<open>simp add: phandle_def\<close>)
qed

lemma no_growth_simple [simp]: "no_growth (pret a)" "no_growth (pfail e)" "no_growth ppanic" "no_growth (from_outcome r)"
  by (simp_all add: no_growth_def pret_def pfail_def ppanic_def from_outcome_def)

lemma no_growth_pbind: "no_growth m \<Longrightarrow> (\<And>a. no_growth (k a)) \<Longrightarrow> no_growth (pbind m k)"
  unfolding pbind_def by (rule no_growth_phandle) simp_all

lemma no_growth_world:
  assumes "\<And>w. length (fst (snd (f w))) \<le> length (fst w)"
  shows "no_growth (on_world f)"
  unfolding no_growth_def
proof
  fix s :: "(string \<times> string) px"
  obtain r w where "f (px_world s) = (r, w)" by (cases "f (px_world s)")
  with assms [of "px_world s"] show "input_left (snd (on_world f s)) \<le> input_left s"
    by (cases r) (simp_all add: on_world_def input_left_def)
qed

section \<open>Property\<close>

text \<open>Whatever handlers of however many connections interleave, the number that the reaper reads
  for a branch is the number of its sessions in progress, a branch never has more than the maximum, and a
  new session is granted exactly if the branch has fewer.\<close>

theorem sessions_are_counted:
  assumes "sessions c m held" and "0 \<le> pc_max_conns c"
  shows "active_sessions m b = int (count held b) \<and> int (count held b) \<le> pc_max_conns c
     \<and> (fst (acquire_conn c b m) \<longleftrightarrow> int (count held b) < pc_max_conns c)"
  using sessions_count [OF assms(1), of b] assms(2) by (auto simp: active_sessions_def acquire_conn_def)

definition sample_px_config :: px_config where
  "sample_px_config = with_defaults \<lparr>pc_backend_host = [], pc_max_conns = 0, pc_allowed_user = ''app'',
     pc_app_user = ''app'', pc_app_password = ''secret'', pc_has_tls = False\<rparr>"

theorem sessions_are_counted_witness:
  "active_sessions (snd (acquire_conn sample_px_config ''pr-1'' [])) ''pr-1'' = 1"
proof -
  have "sessions sample_px_config (snd (acquire_conn sample_px_config ''pr-1'' [])) (add_mset ''pr-1'' {#})"
    by (rule sessions_open [OF sessions_none]) code_simp
  from sessions_are_counted [OF this, of "''pr-1''"] show ?thesis
    by (simp add: sample_px_config_def with_defaults_def)
qed

end
