(* ===== verification/MysqlProxy.thy ===== *)
theory MysqlProxy
  imports MysqlPacket ProxyState
begin

text \<open>
  internal/proxy/proxy.go: the handler of a MySQL client. It verifies the password itself and only
  then resolves the branch, connects to its server with the credential of the application, and
  relays. The loops that read from the backend take fuel: the number of packets read at most;
  \<open>None\<close> is the loop still running. RSA encryption of a password under the public key
  of a packet is a parameter, as is the TLS handshake.
\<close>

section \<open>Verifying the client\<close>

definition mysql_check :: "digests \<Rightarrow> px_config \<Rightarrow> string \<Rightarrow> string \<Rightarrow> bool" where
  "mysql_check D c salt resp =
     (if length resp \<noteq> 20 then verify_sha2 D (pc_app_password c) (take 20 salt) resp
      else verify_native D (pc_app_password c) salt resp)"

definition count_result :: "'w px_env \<Rightarrow> string \<Rightarrow> string list \<Rightarrow> bool \<Rightarrow> ('w, bool) pact" where
  "count_result E src ev ok =
     pbind (log_event (PxChecked ev ok)) (\<lambda>_.
     if ok then pbind (note_success src) (\<lambda>_. pret True)
     else pbind (note_failure E src) (\<lambda>_. pret False))"

definition checked_run :: "'w px_env \<Rightarrow> digests \<Rightarrow> px_config \<Rightarrow> string \<Rightarrow> string \<Rightarrow> string \<Rightarrow> ('w, bool) pact" where
  "checked_run E D c src resp salt =
     pbind (pause E src) (\<lambda>_.
     pbind (total_world (pe_ctx_err E)) (\<lambda>ce.
     if ce \<noteq> None then pret False
     else count_result E src [salt, resp] (mysql_check D c salt resp)))"

text \<open>(verified, admitted).\<close>

definition verify_client :: "'w px_env \<Rightarrow> digests \<Rightarrow> px_config \<Rightarrow> string \<Rightarrow> string \<Rightarrow> string \<Rightarrow> ('w, bool \<times> bool) pact" where
  "verify_client E D c src resp salt =
     pbind (with_slot E src (checked_run E D c src resp salt))
     (\<lambda>r. pret (case r of None \<Rightarrow> (False, False) | Some v \<Rightarrow> (v, True)))"

definition next_seq :: "char \<Rightarrow> nat \<Rightarrow> char" where
  "next_seq q n = byte (byte_val q + n)"

definition auth_err :: "'w conn \<Rightarrow> char \<Rightarrow> nat \<Rightarrow> string \<Rightarrow> string \<Rightarrow> ('w, 'a) pact" where
  "auth_err client q code state msg =
     phandle (on_world (write_packet client \<lparr>pk_seq = q, pk_body = build_err code state msg\<rparr>))
       (\<lambda>_. pfail (EText (''auth rejected: '' @ msg))) (\<lambda>_. pfail (EText (''auth rejected: '' @ msg)))"

section \<open>Connecting to the backend\<close>

text \<open>
  The full authentication: ask for the public key, then send the password with a NUL, masked with
  the nonce and encrypted. Decoding the PEM text to an RSA key and RSA-OAEP are parameters.
\<close>

record 'w rsa_fns =
  rsa_key :: "string \<Rightarrow> err + string"
  rsa_encrypt :: "string \<Rightarrow> string \<Rightarrow> 'w \<Rightarrow> (err + string) \<times> 'w"

definition mask_password :: "string \<Rightarrow> string \<Rightarrow> string" where
  "mask_password password nonce =
     (let plain = password @ [nul]
      in map (\<lambda>i. xor_byte (plain ! i) (nonce ! (i mod length nonce))) [0..<length plain])"

definition backend_full_auth ::
  "'w rsa_fns \<Rightarrow> px_config \<Rightarrow> 'w conn \<Rightarrow> char \<Rightarrow> string \<Rightarrow> ('w, unit) pact" where
  "backend_full_auth R c backend q nonce =
     pbind (on_world (write_packet backend \<lparr>pk_seq = q, pk_body = [byte 2]\<rparr>)) (\<lambda>_.
     phandle (on_world (read_packet backend))
       (\<lambda>e. pfail (EWrap ''read backend rsa public key: '' e [])) (\<lambda>p.
     if length (pk_body p) < 2 \<or> pk_body p ! 0 \<noteq> byte 1 then pfail (EText ''unexpected backend public-key packet'')
     else pbind (from_sum (rsa_key R (drop 1 (pk_body p)))) (\<lambda>key.
     if nonce = [] then pfail (EText ''empty auth nonce for backend full-auth'')
     else phandle (on_world (rsa_encrypt R key (mask_password (pc_app_password c) nonce)))
       (\<lambda>e. pfail (EWrap ''rsa encrypt backend password: '' e [])) (\<lambda>enc.
     on_world (write_packet backend \<lparr>pk_seq = next_seq (pk_seq p) 1, pk_body = enc\<rparr>)))))"

text \<open>The body of the loop: stop with success, or go on with a nonce. An empty packet reaches the
  last case, whose message indexes it.\<close>

definition answer_packet ::
  "'w rsa_fns \<Rightarrow> digests \<Rightarrow> px_config \<Rightarrow> 'w conn \<Rightarrow> string \<Rightarrow> packet \<Rightarrow>
   ('w, string option) pact" where
  "answer_packet R D c backend nonce p = (let body = pk_body p in
     if is_ok_packet body then pret None
     else if is_err_packet body then pfail (EText (''backend rejected app credential: '' @ err_packet_text body))
     else if length body \<ge> 2 \<and> body ! 0 = byte 1
     then (if body ! 1 = byte 3 then pret (Some nonce)
           else if body ! 1 = byte 4
           then pbind (backend_full_auth R c backend (next_seq (pk_seq p) 1) nonce) (\<lambda>_. pret (Some nonce))
           else pfail (EText ''unexpected caching_sha2 auth status''))
     else if body \<noteq> [] \<and> body ! 0 = byte 0xFE
     then pbind (from_outcome (parse_auth_switch body)) (\<lambda>(plugin, salt).
          let tok = (if plugin = native_plugin then native_token D (pc_app_password c) salt
                     else sha2_token D (pc_app_password c) salt) in
          pbind (on_world (write_packet backend \<lparr>pk_seq = next_seq (pk_seq p) 1, pk_body = tok\<rparr>)) (\<lambda>_.
          pret (Some salt)))
     else if body = [] then ppanic
     else pfail (EText ''unexpected backend auth packet''))"

definition backend_auth_step ::
  "'w rsa_fns \<Rightarrow> digests \<Rightarrow> px_config \<Rightarrow> 'w conn \<Rightarrow> string \<Rightarrow>
   ('w, string option) pact" where
  "backend_auth_step R D c backend nonce =
     phandle (on_world (read_packet backend))
       (\<lambda>e. pfail (EWrap ''read backend auth result: '' e [])) (answer_packet R D c backend nonce)"

text \<open>\<open>None\<close> is returned while the loop has not ended within the fuel.\<close>

fun backend_auth_loop ::
  "'w rsa_fns \<Rightarrow> digests \<Rightarrow> px_config \<Rightarrow> 'w conn \<Rightarrow> nat \<Rightarrow> string \<Rightarrow>
   ('w, unit option) pact" where
  "backend_auth_loop R D c backend 0 nonce = pret None"
| "backend_auth_loop R D c backend (Suc fuel) nonce =
     pbind (backend_auth_step R D c backend nonce) (\<lambda>next.
     case next of None \<Rightarrow> pret (Some ()) | Some n \<Rightarrow> backend_auth_loop R D c backend fuel n)"

definition backend_hresp :: "caps32 \<Rightarrow> string \<Rightarrow> hresp" where
  "backend_hresp client_caps database =
     (let caps = client_caps AND synth_caps in
      \<lparr>hr_caps = (if database \<noteq> [] then caps OR cap_connect_with_db else caps AND NOT cap_connect_with_db),
       hr_max_len = 16 * 1024 * 1024, hr_charset = byte 0xFF, hr_username = [],
       hr_database = database, hr_auth = []\<rparr>)"

definition authenticate_backend ::
  "'w rsa_fns \<Rightarrow> digests \<Rightarrow> px_config \<Rightarrow> nat \<Rightarrow> 'w conn \<Rightarrow> caps32 \<Rightarrow> string \<Rightarrow>
   ('w, unit option) pact" where
  "authenticate_backend R D c fuel backend client_caps database =
     phandle (on_world (read_packet backend))
       (\<lambda>e. pfail (EWrap ''read backend handshake: '' e [])) (\<lambda>bhs.
     pbind (from_outcome (parse_backend_handshake (pk_body bhs))) (\<lambda>(salt, backend_caps).
     let tok = sha2_token D (pc_app_password c) salt;
         resp = build_backend_response (backend_hresp client_caps database) backend_caps (pc_app_user c) tok sha2_plugin in
     pbind (on_world (write_packet backend \<lparr>pk_seq = next_seq (pk_seq bhs) 1, pk_body = resp\<rparr>)) (\<lambda>_.
     backend_auth_loop R D c backend fuel salt)))"

section \<open>The handler\<close>

definition next_conn_id :: "('w, 32 word) pact" where
  "next_conn_id s = (Done (px_next_id s + 1), s\<lparr>px_next_id := px_next_id s + 1\<rparr>)"

text \<open>Steps 1 and 2: greet, switch to TLS if asked, parse and check the user name.\<close>

record 'w mysql_peer =
  mc_conn :: "'w conn"
  mc_seq :: char
  mc_resp :: hresp
  mc_user :: string
  mc_branch :: string
  mc_salt :: string

definition read_response :: "'w px_env \<Rightarrow> px_config \<Rightarrow> 'w conn \<Rightarrow> ('w, 'w conn \<times> packet) pact" where
  "read_response E c client =
     pbind (on_world (read_packet client)) (\<lambda>resp.
     if is_ssl_request (pk_body resp)
     then if \<not> pc_has_tls c then auth_err client (next_seq (pk_seq resp) 1) 1045 ''28000'' ''TLS not configured''
       else phandle (on_world (pe_tls E client)) (\<lambda>e. pfail (EWrap ''tls handshake: '' e [])) (\<lambda>tls.
            pbind (on_world (read_packet tls)) (\<lambda>resp'. pret (tls, resp')))
     else pret (client, resp))"

definition check_response :: "'w px_env \<Rightarrow> px_config \<Rightarrow> 'w conn \<Rightarrow> string \<Rightarrow> packet \<Rightarrow> ('w, 'w mysql_peer) pact" where
  "check_response E c conn salt resp = (let q = next_seq (pk_seq resp) 1 in
     case parse_handshake_response (pk_body resp) of
       Inl e \<Rightarrow> auth_err conn q 1045 ''28000'' (err_text e)
     | Inr hr \<Rightarrow>
       (case cut_at (CHR ''@'') (hr_username hr) of
          (user, None) \<Rightarrow> auth_err conn q 1045 ''28000'' ''Access denied: user must be <user>@<branch>''
        | (user, Some branch) \<Rightarrow>
          if \<not> pe_name_re E branch
          then auth_err conn q 1045 ''28000'' ''Access denied: user must be <user>@<branch>''
          else if pc_allowed_user c \<noteq> [] \<and> user \<noteq> pc_allowed_user c
          then auth_err conn q 1045 ''28000'' (''Access denied for user '' @ user)
          else pret \<lparr>mc_conn = conn, mc_seq = pk_seq resp, mc_resp = hr, mc_user = user,
                 mc_branch = branch, mc_salt = salt\<rparr>))"

definition greet :: "'w px_env \<Rightarrow> px_config \<Rightarrow> 'w conn \<Rightarrow> ('w, 'w mysql_peer) pact" where
  "greet E c client =
     pbind next_conn_id (\<lambda>i.
     pbind (on_world (pe_random E 20)) (\<lambda>random.
     let hs = build_initial_handshake random i (pc_has_tls c) in
     pbind (on_world (write_packet client \<lparr>pk_seq = nul, pk_body = fst hs\<rparr>)) (\<lambda>_.
     pbind (read_response E c client) (\<lambda>cr. check_response E c (fst cr) (snd hs) (snd cr)))))"

text \<open>Step 3.\<close>

definition single_quoted :: "string \<Rightarrow> string" where
  "single_quoted s = [CHR 0x27] @ s @ [CHR 0x27]"

definition admit_client :: "'w px_env \<Rightarrow> digests \<Rightarrow> px_config \<Rightarrow> string \<Rightarrow> 'w mysql_peer \<Rightarrow> ('w, unit) pact" where
  "admit_client E D c src mc = (let q = next_seq (mc_seq mc) 1 in
     pbind (verify_client E D c src (hr_auth (mc_resp mc)) (mc_salt mc)) (\<lambda>(verified, admitted).
     if \<not> admitted then auth_err (mc_conn mc) q 1040 ''08004'' ''Too many concurrent authentication attempts''
     else pbind (total_world (pe_ctx_err E)) (\<lambda>ce.
       case ce of Some e \<Rightarrow> pfail e
       | None \<Rightarrow> if \<not> verified
           then auth_err (mc_conn mc) q 1045 ''28000''
             (''Access denied for user '' @ single_quoted (mc_user mc) @ ''@'' @ single_quoted (mc_branch mc)
                @ '' (using password: YES)'')
           else pret ())))"

text \<open>Steps 4 to 7.\<close>

definition relay_session ::
  "'w rsa_fns \<Rightarrow> 'w px_env \<Rightarrow> digests \<Rightarrow> px_config \<Rightarrow> nat \<Rightarrow>
   'w mysql_peer \<Rightarrow> int \<Rightarrow> ('w, unit option) pact" where
  "relay_session R E D c fuel mc port =
     (let q = next_seq (mc_seq mc) 1; client = mc_conn mc; branch = mc_branch mc;
          addr = pc_backend_host c @ '':'' @ show_int port in
     pbind (log_event (PxDialed addr)) (\<lambda>_.
     phandle (on_world (pe_dial E addr)) (\<lambda>_. auth_err client q 2003 ''HY000'' ''backend unavailable'') (\<lambda>backend.
     phandle (authenticate_backend R D c fuel backend (hr_caps (mc_resp mc)) (hr_database (mc_resp mc)))
       (\<lambda>_. auth_err client q 2003 ''HY000'' ''backend auth failed'') (\<lambda>done.
     if done = None then pret None
     else pbind (log_event (PxTouched branch)) (\<lambda>_.
     pbind (total_world (\<lambda>w. ((), pe_touch E branch w))) (\<lambda>_.
     pbind (if length (hr_auth (mc_resp mc)) \<noteq> 20
            then pbind (on_world (write_packet client \<lparr>pk_seq = q, pk_body = [byte 1, byte 3]\<rparr>)) (\<lambda>_.
                 on_world (write_packet client \<lparr>pk_seq = next_seq (mc_seq mc) 2, pk_body = build_ok\<rparr>))
            else on_world (write_packet client \<lparr>pk_seq = q, pk_body = build_ok\<rparr>)) (\<lambda>_.
     pbind (log_event (PxPiped branch)) (\<lambda>_.
     pbind (total_world (\<lambda>w. ((), pe_pipe E client backend w))) (\<lambda>_. pret (Some ()))))))))))"

definition route_session ::
  "'w rsa_fns \<Rightarrow> 'w px_env \<Rightarrow> digests \<Rightarrow> px_config \<Rightarrow> nat \<Rightarrow>
   'w mysql_peer \<Rightarrow> ('w, unit option) pact" where
  "route_session R E D c fuel mc =
     (let q = next_seq (mc_seq mc) 1; client = mc_conn mc; branch = mc_branch mc in
     pbind (log_event (PxRouted branch)) (\<lambda>_.
     phandle (on_world (pe_route E branch))
       (\<lambda>_. auth_err client q 1049 ''42000'' (''Unknown branch '' @ branch)) (\<lambda>port.
     pbind (open_session c branch) (\<lambda>ok.
     if \<not> ok then auth_err client q 1040 ''08004'' ''Too many connections for branch''
     else finally_do (close_session branch) (relay_session R E D c fuel mc port)))))"

definition auth_terminate ::
  "'w rsa_fns \<Rightarrow> 'w px_env \<Rightarrow> digests \<Rightarrow> px_config \<Rightarrow> nat \<Rightarrow>
   string \<Rightarrow> 'w conn \<Rightarrow> ('w, unit option) pact" where
  "auth_terminate R E D c fuel src client =
     pbind (greet E c client) (\<lambda>mc.
     pbind (admit_client E D c src mc) (\<lambda>_.
     route_session R E D c fuel mc))"

section \<open>No branch before the password\<close>

lemma adds_auth_err: "adds_only Q (auth_err client q code state msg)"
  unfolding auth_err_def by (intro adds_intros)

lemma adds_next_id: "adds_only Q next_conn_id"
  by (simp add: adds_def next_conn_id_def)

lemma adds_read_response: "adds_only Q (read_response E c client)"
  unfolding read_response_def
  by (intro adds_intros) (auto intro!: adds_intros adds_auth_err)

lemma adds_check_response: "adds_only Q (check_response E c conn salt resp)"
  unfolding check_response_def
  by (auto simp: Let_def adds_auth_err adds_pret split: prod.split sum.split option.split)

lemma adds_greet: "adds_only Q (greet E c client)"
  unfolding greet_def Let_def
  by (intro adds_intros adds_next_id adds_read_response adds_check_response)

lemma adds_verify: "adds_only is_check (verify_client E D c src resp salt)"
  unfolding verify_client_def checked_run_def count_result_def
  by (auto simp: is_check_def intro!: adds_intros adds_log)

lemma adds_admit: "adds_only is_check (admit_client E D c src mc)"
  unfolding admit_client_def
  by (auto simp: Let_def split: prod.split option.split intro!: adds_intros adds_verify adds_auth_err)

lemma adds_full_auth: "adds_only Q (backend_full_auth R c backend q nonce)"
  unfolding backend_full_auth_def by (auto intro!: adds_intros)

lemma adds_answer: "adds_only Q (answer_packet R D c backend nonce p)"
  unfolding answer_packet_def
  by (auto simp: Let_def split: prod.split intro!: adds_intros adds_full_auth)

lemma adds_auth_step: "adds_only Q (backend_auth_step R D c backend nonce)"
  unfolding backend_auth_step_def by (intro adds_intros adds_answer)

lemma adds_auth_loop: "adds_only Q (backend_auth_loop R D c backend fuel nonce)"
  by (induction fuel arbitrary: nonce)
    (auto simp del: split_paired_All split: option.split intro!: adds_intros adds_auth_step)

lemma adds_authenticate: "adds_only Q (authenticate_backend R D c fuel backend caps db)"
  unfolding authenticate_backend_def
  by (auto simp: Let_def split: prod.split intro!: adds_intros adds_auth_loop)

lemma chain_relay:
  "chain [PxDialed (pc_backend_host c @ '':'' @ show_int port), PxTouched (mc_branch mc), PxPiped (mc_branch mc)]
     (relay_session R E D c fuel mc port)"
  unfolding relay_session_def Let_def
  by (rule chain_if chain_log chain_phandle chain_pbind adds_auth_err adds_authenticate adds_if adds_intros
      chain_quiet)+

lemma route_session_events:
  "\<exists>evs. px_trace (snd (route_session R E D c fuel mc s)) = evs @ px_trace s \<and> route_events E c (mc_branch mc) evs"
  unfolding route_session_def Let_def
  by (rule route_events_intro)
    (rule chain_relay chain_if chain_finally chain_pbind adds_auth_err adds_intros close_session_trace chain_quiet)+

lemma auth_err_Done [simp]: "auth_err client q code state msg s \<noteq> (Done b, s')"
  by (simp add: auth_err_def phandle_Done)

text \<open>What the greeting found: the response of this connection and the branch that its user name has.\<close>

definition greeted :: "'w px_env \<Rightarrow> px_config \<Rightarrow> 'w conn \<Rightarrow> 'w mysql_peer \<Rightarrow> bool" where
  "greeted E c client mc \<longleftrightarrow>
     (\<exists>random i. mc_salt mc = snd (build_initial_handshake random i (pc_has_tls c)))
   \<and> (\<exists>conn p t t'. read_response E c client t = (Done (conn, p), t')
        \<and> parse_handshake_response (pk_body p) = Inr (mc_resp mc))
   \<and> hr_username (mc_resp mc) = mc_user mc @ ''@'' @ mc_branch mc \<and> CHR 0x40 \<notin> set (mc_user mc)
   \<and> pe_name_re E (mc_branch mc) \<and> (pc_allowed_user c = [] \<or> mc_user mc = pc_allowed_user c)"

lemma check_response_Done:
  assumes "check_response E c conn salt resp s = (Done mc, s')"
  shows "mc_salt mc = salt \<and> parse_handshake_response (pk_body resp) = Inr (mc_resp mc)
     \<and> hr_username (mc_resp mc) = mc_user mc @ ''@'' @ mc_branch mc \<and> CHR 0x40 \<notin> set (mc_user mc)
     \<and> pe_name_re E (mc_branch mc) \<and> (pc_allowed_user c = [] \<or> mc_user mc = pc_allowed_user c)"
proof -
  obtain hr where hr: "parse_handshake_response (pk_body resp) = Inr hr"
    using assms by (auto simp: check_response_def Let_def split: sum.splits)
  obtain user branch where cut: "cut_at (CHR ''@'') (hr_username hr) = (user, Some branch)"
    using assms hr by (auto simp: check_response_def Let_def split: prod.splits option.splits)
  then have "hr_username hr = user @ ''@'' @ branch \<and> CHR 0x40 \<notin> set user" using cut_at_Some by force
  then show ?thesis using assms hr cut by (auto simp: check_response_def Let_def split: if_splits)
qed

lemma greet_Done:
  assumes "greet E c client s = (Done mc, s')"
  shows "greeted E c client mc"
proof -
  obtain i random hs conn p t t' t2 where "hs = build_initial_handshake random i (pc_has_tls c)"
    "read_response E c client t = (Done (conn, p), t')" "check_response E c conn (snd hs) p t' = (Done mc, t2)"
    using assms unfolding greet_def Let_def pbind_Done by fastforce
  then show ?thesis using check_response_Done unfolding greeted_def by blast
qed

text \<open>A handler that comes past the check has seen the right token.\<close>

lemma count_result_Done:
  assumes "count_result E src ev ok s = (Done True, s')"
  shows "ok \<and> px_trace s' = PxChecked ev True # px_trace s"
proof (cases ok)
  case True
  with assms show ?thesis
    by (auto simp: count_result_def pbind_Done log_event_def note_success_def on_limiter_def)
next
  case False
  with assms show ?thesis by (simp add: count_result_def pbind_Done)
qed

lemma checked_run_Done:
  assumes "checked_run E D c src resp salt s = (Done True, s')"
  shows "px_trace s' = PxChecked [salt, resp] True # px_trace s \<and> mysql_check D c salt resp"
proof -
  from assms obtain ce :: "err option" and u t1 t where p: "pause E src s = (Done u, t1)"
      "total_world (pe_ctx_err E) t1 = (Done ce, t)" and
    "(if ce \<noteq> None then pret False else count_result E src [salt, resp] (mysql_check D c salt resp)) t = (Done True, s')"
    unfolding checked_run_def pbind_Done by blast
  then have "count_result E src [salt, resp] (mysql_check D c salt resp) t = (Done True, s')"
    by (cases ce) auto
  moreover have "px_trace t = px_trace s"
    using p silent [OF adds_pause] silent [OF adds_total_world] by metis
  ultimately show ?thesis using count_result_Done by metis
qed

lemma verify_Done:
  assumes "verify_client E D c src resp salt s = (Done (True, ad), s')"
  shows "px_trace s' = PxChecked [salt, resp] True # px_trace s \<and> mysql_check D c salt resp"
proof -
  from assms obtain v where v: "with_slot E src (checked_run E D c src resp salt) s = (Done v, s')"
    and "(case v of None \<Rightarrow> (False, False) | Some b \<Rightarrow> (b, True)) = (True, ad)"
    by (auto simp: verify_client_def pbind_Done)
  then have "v = Some True" by (cases v) auto
  with v have "with_slot E src (checked_run E D c src resp salt) s = (Done (Some True), s')" by simp
  from with_slot_Done [OF this] obtain t t' where "checked_run E D c src resp salt t = (Done True, t')"
    and same: "px_trace t = px_trace s" "px_trace s' = px_trace t'" by blast
  from checked_run_Done [OF this(1)] show ?thesis by (simp add: same)
qed

lemma admit_Done:
  assumes "admit_client E D c src mc s = (Done u, s')"
  shows "px_trace s' = PxChecked [mc_salt mc, hr_auth (mc_resp mc)] True # px_trace s
     \<and> mysql_check D c (mc_salt mc) (hr_auth (mc_resp mc))"
proof -
  from assms obtain v ad t where t: "verify_client E D c src (hr_auth (mc_resp mc)) (mc_salt mc) s = (Done (v, ad), t)"
    and rest: "(if \<not> ad then auth_err (mc_conn mc) (next_seq (mc_seq mc) 1) 1040 ''08004''
          ''Too many concurrent authentication attempts''
        else pbind (total_world (pe_ctx_err E)) (\<lambda>ce.
          case ce of Some e \<Rightarrow> pfail e
          | None \<Rightarrow> if \<not> v then auth_err (mc_conn mc) (next_seq (mc_seq mc) 1) 1045 ''28000''
                (''Access denied for user '' @ single_quoted (mc_user mc) @ ''@'' @ single_quoted (mc_branch mc)
                @ '' (using password: YES)'')
              else pret ())) t = (Done u, s')"
    unfolding admit_client_def Let_def pbind_Done by auto
  have "ad" using rest by (cases ad) auto
  with rest obtain ce t' where c1: "total_world (pe_ctx_err E) t = (Done ce, t')"
    and c2: "(case ce of Some e \<Rightarrow> pfail e
          | None \<Rightarrow> if \<not> v then auth_err (mc_conn mc) (next_seq (mc_seq mc) 1) 1045 ''28000''
                (''Access denied for user '' @ single_quoted (mc_user mc) @ ''@'' @ single_quoted (mc_branch mc)
                @ '' (using password: YES)'')
              else pret ()) t' = (Done u, s')"
    by (auto simp: pbind_Done)
  have "v \<and> s' = t'" using c2 by (cases ce; cases v) auto
  moreover have "px_trace t' = px_trace t" using c1 by (auto simp: total_world_def split: prod.splits)
  moreover have "px_trace t = PxChecked [mc_salt mc, hr_auth (mc_resp mc)] True # px_trace s
      \<and> mysql_check D c (mc_salt mc) (hr_auth (mc_resp mc))"
    using verify_Done [of E D c src _ _ s ad t] t calculation by simp
  ultimately show ?thesis by simp
qed

section \<open>Properties\<close>

text \<open>C11. No branch is touched before the password is verified, and only the branch that the client named.
  The events that a handler adds to the trace are first checks of passwords. If anything follows, then
  a handshake response was read from this connection, its user name is \<open>user@branch\<close> with the allowed user (where one is
  configured) and a branch that the pattern allows, the last check compared the token of this very response with the
  password of the application, under the salt of a greeting that the proxy made, and succeeded; and what follows is the call of the router for this branch
  (which may create or wake it), then, only where the router answered with a port, the connection to that port of the
  configured host, the record of use of this branch and the relay for it, in this order, up to some point.\<close>

theorem mysql_routes_after_verification:
  "\<exists>later checks. px_trace (snd (auth_terminate R E D c fuel src client s)) = later @ checks @ px_trace s
     \<and> list_all is_check checks
     \<and> (later = [] \<or> (\<exists>mc s1. greet E c client s = (Done mc, s1) \<and> greeted E c client mc
          \<and> hd checks = PxChecked [mc_salt mc, hr_auth (mc_resp mc)] True \<and> checks \<noteq> []
          \<and> mysql_check D c (mc_salt mc) (hr_auth (mc_resp mc))
          \<and> route_events E c (mc_branch mc) later))"
proof -
  obtain r1 s1 where g: "greet E c client s = (r1, s1)" by fastforce
  obtain e1 where e1: "px_trace s1 = e1 @ px_trace s" "list_all is_check e1"
    using adds_split [OF adds_greet g] by blast
  show ?thesis
  proof (cases r1)
    case (Done mc)
    obtain r2 s2 where a: "admit_client E D c src mc s1 = (r2, s2)" by fastforce
    obtain e2 where e2: "px_trace s2 = e2 @ px_trace s1" "list_all is_check e2"
      using adds_split [OF adds_admit a] by blast
    show ?thesis
    proof (cases r2)
      case (Done u)
      obtain r3 s3 where f: "route_session R E D c fuel mc s2 = (r3, s3)" by fastforce
      obtain e3 where e3: "px_trace s3 = e3 @ px_trace s2" "route_events E c (mc_branch mc) e3"
        using route_session_events f by (metis snd_conv)
      have end_state: "snd (auth_terminate R E D c fuel src client s) = s3"
        using g \<open>r1 = _\<close> a Done f by (simp add: auth_terminate_def pbind_def phandle_def)
      have ev: "px_trace s2 = PxChecked [mc_salt mc, hr_auth (mc_resp mc)] True # px_trace s1"
        "mysql_check D c (mc_salt mc) (hr_auth (mc_resp mc))"
        using admit_Done a Done by blast+
      then have "e2 = [PxChecked [mc_salt mc, hr_auth (mc_resp mc)] True]" using e2(1) by simp
      then show ?thesis
        using e1 e2 e3 end_state ev(2) greet_Done [of E c client s mc s1] g \<open>r1 = _\<close>
        by (intro exI [of _ e3] exI [of _ "e2 @ e1"] conjI disjI2 exI [of _ mc] exI [of _ s1]) simp_all
    qed (use g a e1 e2 \<open>r1 = _\<close> in \<open>intro exI [of _ "[]"] exI [of _ "e2 @ e1"],
           simp add: auth_terminate_def pbind_def phandle_def pfail_def\<close>)+
  qed (use g e1 in \<open>intro exI [of _ "[]"] exI [of _ e1], simp add: auth_terminate_def pbind_def phandle_def pfail_def\<close>)+
qed

section \<open>The conversation with the backend ends\<close>

lemma no_growth_write: "no_growth (on_world (write_packet pipe_conn p))"
  by (rule no_growth_world) (simp add: write_packet_def pipe_conn_def split: prod.split)

lemma read_consumes:
  "read_packet pipe_conn w = (Inr p, w') \<Longrightarrow> length (fst w') + 4 \<le> length (fst w)"
  by (cases w) (auto simp: read_packet_def pipe_conn_def Let_def split: if_splits prod.splits)

lemma no_growth_read: "no_growth (on_world (read_packet pipe_conn))"
  by (rule no_growth_world) (auto simp: read_packet_def pipe_conn_def Let_def split: prod.split)

definition keeps_input :: "(string \<times> string) rsa_fns \<Rightarrow> bool" where
  "keeps_input R \<longleftrightarrow> (\<forall>pem plain w. length (fst (snd (rsa_encrypt R pem plain w))) \<le> length (fst w))"

lemma no_growth_full_auth: "keeps_input R \<Longrightarrow> no_growth (backend_full_auth R c pipe_conn q nonce)"
  unfolding backend_full_auth_def keeps_input_def
  by (auto simp: from_sum_def split: sum.split
      intro!: no_growth_pbind no_growth_phandle no_growth_write no_growth_read no_growth_world)

lemma step_consumes:
  assumes "keeps_input R" "backend_auth_step R D c pipe_conn nonce s = (Done v, s')"
  shows "input_left s' + 4 \<le> input_left s"
proof -
  have ng: "no_growth (answer_packet R D c pipe_conn nonce p)" for p
    using no_growth_full_auth [OF assms(1)]
    by (auto simp: answer_packet_def Let_def intro!: no_growth_pbind no_growth_write split: prod.split)
  from assms(2) obtain p t where t: "on_world (read_packet pipe_conn) s = (Done p, t)"
    and "answer_packet R D c pipe_conn nonce p t = (Done v, s')"
    unfolding backend_auth_step_def phandle_Done by auto
  then have "input_left s' \<le> input_left t" using ng unfolding no_growth_def by (metis snd_conv)
  moreover have "input_left t + 4 \<le> input_left s"
    using t read_consumes [of "px_world s"]
    by (auto simp: on_world_def input_left_def split: prod.splits sum.splits)
  ultimately show ?thesis by simp
qed

text \<open>The loop that authenticates to the backend ends: as many iterations as the backend can send
  packet headers are enough, so with that fuel the loop is never still running, whatever the bytes are.\<close>

theorem backend_authentication_ends:
  assumes "keeps_input R" and "input_left s < 4 * fuel"
  shows "fst (backend_auth_loop R D c pipe_conn fuel nonce s) \<noteq> Done None"
  using assms(2)
proof (induction fuel arbitrary: nonce s)
  case (Suc fuel)
  obtain r t where step: "backend_auth_step R D c pipe_conn nonce s = (r, t)" by fastforce
  show ?case
  proof (cases r)
    case (Done v)
    with step have "input_left t + 4 \<le> input_left s" using step_consumes [OF assms(1)] by blast
    with Suc show ?thesis
      by (cases v) (simp_all add: pbind_def phandle_def step Done pret_def)
  qed (simp_all add: pbind_def phandle_def step pfail_def)
qed simp

theorem backend_authentication_ends_witness:
  "fst (backend_auth_loop \<lparr>rsa_key = Inr, rsa_encrypt = (\<lambda>key plain w. (Inr plain, w))\<rparr> toy_digests sample_px_config pipe_conn 3 ''nonce''
      (new_px ([byte 7, nul, nul, byte 2, nul, nul, nul, byte 2, nul, nul, nul], []))) \<noteq> Done None"
  by (rule backend_authentication_ends) (simp_all add: keeps_input_def input_left_def new_px_def)

section \<open>Panics\<close>

definition no_panic :: "('w, 'a) pact \<Rightarrow> bool" where
  "no_panic m \<longleftrightarrow> (\<forall>s. fst (m s) \<noteq> Panic)"

lemma no_panic_phandle:
  assumes "no_panic m" "\<And>e. no_panic (h e)" "\<And>a. no_panic (k a)"
  shows "no_panic (phandle m h k)"
  unfolding no_panic_def
proof
  fix s
  obtain r t where m: "m s = (r, t)" by fastforce
  then have "r \<noteq> Panic" using assms(1) unfolding no_panic_def by (metis fst_conv)
  with m assms(2,3) show "fst (phandle m h k s) \<noteq> Panic"
    by (cases r) (simp_all add: phandle_def no_panic_def)
qed

lemma no_panic_simple: "no_panic (pret a)" "no_panic (pfail e)" "no_panic (on_world f)"
  by (simp_all add: no_panic_def pret_def pfail_def on_world_def split: prod.split sum.split)

lemma no_panic_pbind: "no_panic m \<Longrightarrow> (\<And>a. no_panic (k a)) \<Longrightarrow> no_panic (pbind m k)"
  unfolding pbind_def by (rule no_panic_phandle) (simp_all add: no_panic_simple)

lemma no_panic_full_auth: "no_panic (backend_full_auth R c backend q nonce)"
  unfolding backend_full_auth_def
  by (auto simp: from_sum_def split: sum.split intro!: no_panic_pbind no_panic_phandle no_panic_simple)

lemma pbind_outcome_Done: "pbind (from_outcome (Done a)) f = f a"
  by (simp add: pbind_def phandle_def from_outcome_def fun_eq_iff)

lemma auth_switch_panics: "parse_auth_switch body = Panic \<longleftrightarrow> body = [] \<or> nul \<notin> set (drop 1 body)"
proof (cases "body \<noteq> [] \<and> nul \<in> set (drop 1 body)")
  case True
  then obtain r where r: "drop 1 body = until_nul (drop 1 body) @ nul # r"
    using until_nul_split by blast
  then have "length (drop 1 body) = length (until_nul (drop 1 body)) + 1 + length r"
    by (metis add.commute add_Suc_right length_Cons length_append plus_1_eq_Suc)
  with True show ?thesis
    by (auto simp: parse_auth_switch_def Let_def slice_def split: option.splits)
next
  case False
  then have "until_nul (drop 1 body) = drop 1 body" by auto
  with False show ?thesis by (auto simp: parse_auth_switch_def Let_def slice_def)
qed

text \<open>While it authenticates to a backend the proxy panics on exactly two kinds of packets: an empty
  one, and an AuthSwitchRequest whose plugin name has no terminating NUL, such as the one-byte request of
  the protocol before 4.1. On every other packet it answers or returns an error.\<close>

theorem answer_packet_panics:
  "fst (answer_packet R D c backend nonce p s) = Panic \<longleftrightarrow>
     pk_body p = [] \<or> (pk_body p ! 0 = byte 0xFE \<and> nul \<notin> set (drop 1 (pk_body p)))"
proof -
  let ?b = "pk_body p"
  have distinct: "byte 0xFE \<noteq> nul" "byte 0xFE \<noteq> byte 0xFF" "byte 0xFE \<noteq> byte 1"
    by code_simp+
  consider (empty) "?b = []" | (switch) "?b \<noteq> []" "?b ! 0 = byte 0xFE" | (other) "?b \<noteq> []" "?b ! 0 \<noteq> byte 0xFE"
    by blast
  then show ?thesis
  proof cases
    case empty
    then show ?thesis by (simp add: answer_packet_def Let_def is_ok_packet_def is_err_packet_def ppanic_def)
  next
    case switch
    then have step: "answer_packet R D c backend nonce p = pbind (from_outcome (parse_auth_switch ?b)) (\<lambda>(plugin, salt).
          let tok = (if plugin = native_plugin then native_token D (pc_app_password c) salt
                     else sha2_token D (pc_app_password c) salt) in
          pbind (on_world (write_packet backend \<lparr>pk_seq = next_seq (pk_seq p) 1, pk_body = tok\<rparr>)) (\<lambda>_.
          pret (Some salt)))"
      using distinct by (simp add: answer_packet_def Let_def is_ok_packet_def is_err_packet_def)
    have go: "no_panic (pbind (on_world (write_packet backend \<lparr>pk_seq = next_seq (pk_seq p) 1, pk_body = tok\<rparr>))
        (\<lambda>_. pret v))" for tok and v :: "string option"
      by (intro no_panic_pbind no_panic_simple)
    show ?thesis
    proof (cases "parse_auth_switch ?b")
      case (Done ps)
      obtain plugin salt where "ps = (plugin, salt)" by fastforce
      then have "fst (answer_packet R D c backend nonce p s) \<noteq> Panic"
        using Done go unfolding step by (simp add: no_panic_def Let_def pbind_outcome_Done)
      then show ?thesis using switch auth_switch_panics [of ?b] Done by simp
    next
      case (Failed e)
      then show ?thesis using switch by (simp add: parse_auth_switch_def Let_def split: option.splits)
    next
      case Panic
      then show ?thesis
        using switch auth_switch_panics [of ?b] by (simp add: step pbind_def phandle_def from_outcome_def)
    qed
  next
    case other
    then have "no_panic (answer_packet R D c backend nonce p)"
      by (auto simp: answer_packet_def Let_def
          intro!: no_panic_pbind no_panic_simple no_panic_full_auth)
    with other show ?thesis by (simp add: no_panic_def)
  qed
qed

end
