(* ===== verification/PgProtocol.thy ===== *)
theory PgProtocol
  imports Bytes "HOL-Library.AList" "HOL-Library.Word"
begin

text \<open>
  internal/pgproxy/protocol.go and saslprep.go: the messages of the PostgreSQL protocol, version 3,
  and the preparation of passwords. Integers on the wire are big endian; an int32 is a 32-bit
  word. The parameters of a startup message are an association list: reading updates it in
  the order of the message, writing goes through it in list order (the source iterates over a map,
  so any order may occur). Unicode tables and normalisation are parameters.
\<close>

section \<open>Codes\<close>

type_synonym int32 = "32 word"

definition code_ssl_request :: int32 where "code_ssl_request = 80877103"
definition code_gssenc_request :: int32 where "code_gssenc_request = 80877104"
definition code_cancel_request :: int32 where "code_cancel_request = 80877102"
definition protocol_v3 :: int32 where "protocol_v3 = 196608"

definition auth_ok_code :: int32 where "auth_ok_code = 0"
definition auth_cleartext_password :: int32 where "auth_cleartext_password = 3"
definition auth_md5_password :: int32 where "auth_md5_password = 5"
definition auth_sasl :: int32 where "auth_sasl = 10"
definition auth_sasl_continue :: int32 where "auth_sasl_continue = 11"
definition auth_sasl_final :: int32 where "auth_sasl_final = 12"

lemmas code_defs = code_ssl_request_def code_gssenc_request_def code_cancel_request_def protocol_v3_def
lemmas auth_code_defs = auth_ok_code_def auth_cleartext_password_def auth_md5_password_def auth_sasl_def
  auth_sasl_continue_def auth_sasl_final_def

definition i32_bytes :: "int32 \<Rightarrow> string" where
  "i32_bytes x = be_bytes 4 (unat x)"

definition i32_at :: "string \<Rightarrow> nat \<Rightarrow> int32" where
  "i32_at b i = word_of_nat (be_val (take 4 (drop i b)))"

lemma length_i32 [simp]: "length (i32_bytes x) = 4"
  by (simp add: i32_bytes_def)

lemma i32_at_append: "length p = i \<Longrightarrow> i32_at (p @ i32_bytes x @ r) i = x"
  using unsigned_less [of x, where ?'a = nat]
  by (simp add: i32_at_def i32_bytes_def be_val_bytes)

lemma i32_at_0 [simp]: "i32_at (i32_bytes x @ r) 0 = x"
  using i32_at_append [of "[]" 0] by simp

lemma be_val_i32: "be_val (i32_bytes x) = unat x"
  using unsigned_less [of x, where ?'a = nat] by (simp add: i32_bytes_def be_val_bytes)

section \<open>Strings and startup parameters\<close>

definition unterminated :: err where
  "unterminated = EText ''unterminated string in startup message''"

definition cstring :: "string \<Rightarrow> err + string \<times> string" where
  "cstring b = (if nul \<in> set b then Inr (until_nul b, drop (length (until_nul b) + 1) b) else Inl unterminated)"

lemma cstring_shorter: "cstring b = Inr (s, r) \<Longrightarrow> length r < length b"
  by (cases b) (auto simp: cstring_def split: if_splits)

lemma cstring_append [simp]: "nul \<notin> set s \<Longrightarrow> cstring (s @ nul # r) = Inr (s, r)"
  by (simp add: cstring_def)

type_synonym params = "(string \<times> string) list"

function read_params :: "string \<Rightarrow> params \<Rightarrow> err + params" where
  "read_params b ps =
     (if b = [] \<or> hd b = nul then Inr ps
      else case cstring b of
          Inl e \<Rightarrow> Inl e
        | Inr (k, r) \<Rightarrow> (case cstring r of
            Inl e \<Rightarrow> Inl e
          | Inr (v, r2) \<Rightarrow> read_params r2 (AList.update k v ps)))"
  by pat_completeness auto
termination
  by (relation "measure (\<lambda>(b, ps). length b)") (auto dest!: cstring_shorter)

declare read_params.simps [simp del]

fun write_params :: "params \<Rightarrow> string" where
  "write_params [] = [nul]"
| "write_params ((k, v) # ps) = k @ [nul] @ v @ [nul] @ write_params ps"

section \<open>The startup message\<close>

record startup =
  su_code :: int32
  su_params :: params
  su_cancel_pid :: int32
  su_cancel_secret :: int32

definition plain_startup :: "int32 \<Rightarrow> startup" where
  "plain_startup c = \<lparr>su_code = c, su_params = [], su_cancel_pid = 0, su_cancel_secret = 0\<rparr>"

definition parse_startup :: "string \<Rightarrow> err + startup" where
  "parse_startup body =
     (let s0 = plain_startup (i32_at body 0);
          s = (if su_code s0 = code_cancel_request \<and> length body \<ge> 12
               then s0\<lparr>su_cancel_pid := i32_at body 4, su_cancel_secret := i32_at body 8\<rparr> else s0)
      in if su_code s \<noteq> protocol_v3 then Inr s
         else (case read_params (drop 4 body) [] of Inl e \<Rightarrow> Inl e | Inr ps \<Rightarrow> Inr (s\<lparr>su_params := ps\<rparr>)))"

definition read_startup :: "'w conn \<Rightarrow> 'w \<Rightarrow> (err + startup) \<times> 'w" where
  "read_startup c w = (case cn_read c 4 w of
      (Inl e, w1) \<Rightarrow> (Inl (EWrap ''read startup length: '' e []), w1)
    | (Inr len, w1) \<Rightarrow>
        let n = be_val len in
        if n < 8 \<or> n > 2 ^ 20 then (Inl (EText (''startup length '' @ show_nat n @ '' out of range'')), w1)
        else (case cn_read c (n - 4) w1 of
            (Inl e, w2) \<Rightarrow> (Inl (EWrap ''read startup body: '' e []), w2)
          | (Inr body, w2) \<Rightarrow> (parse_startup body, w2)))"

definition write_startup :: "'w conn \<Rightarrow> params \<Rightarrow> 'w \<Rightarrow> (err + unit) \<times> 'w" where
  "write_startup c ps = (let body = i32_bytes protocol_v3 @ write_params ps in
     cn_write c (be_bytes 4 (4 + length body) @ body))"

section \<open>Messages\<close>

record message =
  ms_typ :: char
  ms_body :: string

definition read_message :: "'w conn \<Rightarrow> 'w \<Rightarrow> (err + message) \<times> 'w" where
  "read_message c w = (case cn_read c 5 w of
      (Inl e, w1) \<Rightarrow> (Inl e, w1)
    | (Inr head, w1) \<Rightarrow>
        let n = be_val (take 4 (drop 1 head)) in
        if n < 4 \<or> n > 2 ^ 24 then (Inl (EText (''message length '' @ show_nat n @ '' out of range'')), w1)
        else (case cn_read c (n - 4) w1 of
            (Inl e, w2) \<Rightarrow> (Inl e, w2)
          | (Inr body, w2) \<Rightarrow> (Inr \<lparr>ms_typ = head ! 0, ms_body = body\<rparr>, w2)))"

definition write_message :: "'w conn \<Rightarrow> char \<Rightarrow> string \<Rightarrow> 'w \<Rightarrow> (err + unit) \<times> 'w" where
  "write_message c typ body = cn_write c ([typ] @ be_bytes 4 (4 + length body) @ body)"

definition auth_code :: "string \<Rightarrow> (int32 \<times> string) option" where
  "auth_code body = (if length body < 4 then None else Some (i32_at body 0, drop 4 body))"

definition build_auth_ok :: string where
  "build_auth_ok = i32_bytes auth_ok_code"

definition build_auth_message :: "int32 \<Rightarrow> string \<Rightarrow> string" where
  "build_auth_message code data = i32_bytes code @ data"

definition build_error :: "string \<Rightarrow> string \<Rightarrow> string" where
  "build_error sqlstate msg = ''S'' @ ''FATAL'' @ [nul] @ ''V'' @ ''FATAL'' @ [nul] @ ''C'' @ sqlstate @ [nul]
     @ ''M'' @ msg @ [nul, nul]"

function error_text :: "string \<Rightarrow> string" where
  "error_text b =
     (if b = [] \<or> hd b = nul then ''unknown error''
      else case cstring (tl b) of
          Inl e \<Rightarrow> ''malformed error response''
        | Inr (v, r) \<Rightarrow> if hd b = CHR ''M'' then v else error_text r)"
  by pat_completeness auto
termination
  by (relation "measure length") (auto dest!: cstring_shorter simp: neq_Nil_conv)

declare error_text.simps [simp del]

definition build_cancel_request :: "int32 \<Rightarrow> int32 \<Rightarrow> string" where
  "build_cancel_request pid secret =
     be_bytes 4 16 @ i32_bytes code_cancel_request @ i32_bytes pid @ i32_bytes secret"

definition parse_backend_key_data :: "string \<Rightarrow> (int32 \<times> int32) option" where
  "parse_backend_key_data body = (if length body < 8 then None else Some (i32_at body 0, i32_at body 4))"

section \<open>SASLprep\<close>

text \<open>A password as its code points; \<open>None\<close> for invalid UTF-8.\<close>

record unicode =
  un_decode :: "string \<Rightarrow> nat list option"
  un_encode :: "nat list \<Rightarrow> string"
  un_nfkc :: "nat list \<Rightarrow> nat list"
  un_rtl_script :: "nat \<Rightarrow> bool"
  un_letter :: "nat \<Rightarrow> bool"
  un_common :: "nat \<Rightarrow> bool"

definition in_range :: "nat \<Rightarrow> nat \<Rightarrow> nat \<Rightarrow> bool" where
  "in_range lo hi r \<longleftrightarrow> lo \<le> r \<and> r \<le> hi"

definition is_map_to_nothing :: "nat \<Rightarrow> bool" where
  "is_map_to_nothing r \<longleftrightarrow> r \<in> set [0x00AD, 0x034F, 0x1806, 0x180B, 0x180C, 0x180D, 0x200B, 0x200C, 0x200D, 0x2060, 0xFEFF]
     \<or> in_range 0xFE00 0xFE0F r"

definition is_non_ascii_space :: "nat \<Rightarrow> bool" where
  "is_non_ascii_space r \<longleftrightarrow> r \<in> set [0x00A0, 0x1680, 0x202F, 0x205F, 0x3000] \<or> in_range 0x2000 0x200B r"

definition is_prohibited :: "nat \<Rightarrow> bool" where
  "is_prohibited r \<longleftrightarrow> is_non_ascii_space r
     \<or> r < 0x20 \<or> r = 0x7F
     \<or> in_range 0x80 0x9F r
     \<or> r = 0x06DD \<or> r = 0x070F \<or> r = 0x180E \<or> in_range 0x200C 0x200D r \<or> in_range 0x2028 0x2029 r
     \<or> in_range 0x2060 0x2063 r \<or> in_range 0x206A 0x206F r \<or> r = 0xFEFF \<or> in_range 0xFFF9 0xFFFC r
     \<or> in_range 0x1D173 0x1D17A r
     \<or> in_range 0xE000 0xF8FF r \<or> in_range 0xF0000 0xFFFFD r \<or> in_range 0x100000 0x10FFFD r
     \<or> in_range 0xFDD0 0xFDEF r \<or> r mod 0x10000 \<ge> 0xFFFE
     \<or> in_range 0xD800 0xDFFF r
     \<or> in_range 0xFFF9 0xFFFD r
     \<or> in_range 0x2FF0 0x2FFB r
     \<or> r = 0x0340 \<or> r = 0x0341 \<or> r = 0x200E \<or> r = 0x200F \<or> in_range 0x202A 0x202E r \<or> in_range 0x206A 0x206F r
     \<or> r = 0xE0001 \<or> in_range 0xE0020 0xE007F r"

definition is_rand_al :: "unicode \<Rightarrow> nat \<Rightarrow> bool" where
  "is_rand_al U r \<longleftrightarrow> un_rtl_script U r \<or> r = 0x05BE \<or> r = 0x05C0 \<or> r = 0x05C3 \<or> r = 0x200F
     \<or> in_range 0xFB1D 0xFDFD r \<or> in_range 0xFE70 0xFEFC r"

definition is_l_cat :: "unicode \<Rightarrow> nat \<Rightarrow> bool" where
  "is_l_cat U r \<longleftrightarrow> \<not> is_rand_al U r \<and> un_letter U r \<and> \<not> un_common U r"

definition map_runes :: "nat list \<Rightarrow> nat list" where
  "map_runes rs = concat (map (\<lambda>r. if is_map_to_nothing r then [] else if is_non_ascii_space r then [0x20] else [r]) rs)"

definition saslprep :: "unicode \<Rightarrow> string \<Rightarrow> err + string" where
  "saslprep U s = (case un_decode U s of
      None \<Rightarrow> Inl (EText ''saslprep: invalid UTF-8'')
    | Some rs \<Rightarrow> let out = un_nfkc U (map_runes rs) in
        if list_ex is_prohibited out then Inl (EText ''saslprep: prohibited character'')
        else if list_ex (is_rand_al U) out
             \<and> (list_ex (is_l_cat U) out \<or> \<not> is_rand_al U (hd out) \<or> \<not> is_rand_al U (last out))
        then Inl (EText ''saslprep: bidirectional check failed'')
        else Inr (un_encode U out))"

definition prep_password :: "unicode \<Rightarrow> string \<Rightarrow> string" where
  "prep_password U p = (case saslprep U p of Inr out \<Rightarrow> out | Inl e \<Rightarrow> p)"

section \<open>Property\<close>

definition sendable :: "params \<Rightarrow> bool" where
  "sendable ps \<longleftrightarrow> distinct (map fst ps) \<and> list_all (\<lambda>(k, v). k \<noteq> [] \<and> nul \<notin> set k \<and> nul \<notin> set v) ps"

lemma update_new: "k \<notin> fst ` set xs \<Longrightarrow> AList.update k v xs = xs @ [(k, v)]"
  by (induction xs) auto

lemma read_write_params:
  "sendable ps \<Longrightarrow> fst ` set ps \<inter> fst ` set acc = {} \<Longrightarrow> read_params (write_params ps) acc = Inr (acc @ ps)"
proof (induction ps arbitrary: acc)
  case Nil
  then show ?case by (subst read_params.simps) simp
next
  case (Cons kv ps)
  obtain k v where kv: "kv = (k, v)" by (cases kv)
  from Cons.prems(1) kv have k: "k \<noteq> []" "nul \<notin> set k" "nul \<notin> set v" "sendable ps" "k \<notin> fst ` set ps"
    by (auto simp: sendable_def)
  then have "hd (k @ nul # x) \<noteq> nul" for x by (cases k) auto
  then have "read_params (write_params (kv # ps)) acc = read_params (write_params ps) (AList.update k v acc)"
    using k by (subst read_params.simps) (simp add: kv)
  also have "AList.update k v acc = acc @ [(k, v)]" using Cons.prems(2) kv by (intro update_new) auto
  also have "read_params (write_params ps) (acc @ [(k, v)]) = Inr ((acc @ [(k, v)]) @ ps)"
    using Cons.prems(2) kv k by (intro Cons.IH) auto
  finally show ?case by (simp add: kv)
qed

text \<open>A startup message is read back as it was written: the protocol version and every parameter
  with its value, in whatever order the map is iterated, and nothing more, for names and values
  without NUL and a message within the limit of 2^20 bytes.\<close>

theorem startup_roundtrip:
  assumes "sendable ps" and "8 + length (write_params ps) \<le> 2 ^ 20"
  shows "\<exists>wire. snd (write_startup pipe_conn ps (i, out)) = (i, out @ wire)
     \<and> read_startup pipe_conn (wire @ after, o') = (Inr ((plain_startup protocol_v3)\<lparr>su_params := ps\<rparr>), (after, o'))"
proof (intro exI conjI)
  let ?body = "i32_bytes protocol_v3 @ write_params ps"
  let ?wire = "be_bytes 4 (4 + length ?body) @ ?body"
  show "snd (write_startup pipe_conn ps (i, out)) = (i, out @ ?wire)"
    by (simp add: write_startup_def pipe_conn_def Let_def)
  have n: "be_val (be_bytes 4 (8 + length (write_params ps))) = 8 + length (write_params ps)"
    using assms(2) by (simp add: be_val_bytes)
  have "parse_startup ?body = Inr ((plain_startup protocol_v3)\<lparr>su_params := ps\<rparr>)"
    using read_write_params [OF assms(1), of "[]"]
    by (simp add: parse_startup_def Let_def plain_startup_def code_defs)
  then show "read_startup pipe_conn (?wire @ after, o')
      = (Inr ((plain_startup protocol_v3)\<lparr>su_params := ps\<rparr>), (after, o'))"
    using assms(2) n by (simp add: read_startup_def pipe_conn_def Let_def)
qed

theorem startup_roundtrip_witness:
  "\<exists>wire. snd (write_startup pipe_conn [(''user'', ''app@pr-1''), (''database'', ''shop'')] ([], [])) = ([], [] @ wire)
     \<and> read_startup pipe_conn (wire @ ''p'', []) = (Inr ((plain_startup protocol_v3)\<lparr>su_params :=
          [(''user'', ''app@pr-1''), (''database'', ''shop'')]\<rparr>), (''p'', []))"
  by (rule startup_roundtrip) (simp_all add: sendable_def nul_def)

end
