(* ===== verification/Scram.thy ===== *)
theory Scram
  imports Bytes
begin

text \<open>
  internal/pgproxy/scram.go: SCRAM-SHA-256 in both roles. SHA-256, HMAC and PBKDF2 are
  arguments, as are the random bytes and the preparation of the password; base64 is defined here.
\<close>

section \<open>Base64\<close>

definition b64_alphabet :: string where
  "b64_alphabet = ''ABCDEFGHIJKLMNOPQRSTUVWXYZabcdefghijklmnopqrstuvwxyz0123456789+/''"

definition b64_char :: "nat \<Rightarrow> char" where
  "b64_char n = b64_alphabet ! n"

definition b64_val :: "char \<Rightarrow> nat option" where
  "b64_val c = (let i = length (takeWhile (\<lambda>d. d \<noteq> c) b64_alphabet) in if i < 64 then Some i else None)"

fun b64_encode :: "string \<Rightarrow> string" where
  "b64_encode [] = []"
| "b64_encode [a] = [b64_char (byte_val a div 4), b64_char (byte_val a mod 4 * 16), CHR ''='', CHR ''='']"
| "b64_encode [a, b] = [b64_char (byte_val a div 4), b64_char (byte_val a mod 4 * 16 + byte_val b div 16),
     b64_char (byte_val b mod 16 * 4), CHR ''='']"
| "b64_encode (a # b # c # r) = b64_char (byte_val a div 4) # b64_char (byte_val a mod 4 * 16 + byte_val b div 16)
     # b64_char (byte_val b mod 16 * 4 + byte_val c div 64) # b64_char (byte_val c mod 64) # b64_encode r"

text \<open>The decoder skips carriage returns and newlines; padding ends the input.\<close>

definition join2 :: "nat \<Rightarrow> nat \<Rightarrow> char" where "join2 s t = byte (s * 4 + t div 16)"
definition join3 :: "nat \<Rightarrow> nat \<Rightarrow> char" where "join3 s t = byte (s mod 16 * 16 + t div 4)"
definition join4 :: "nat \<Rightarrow> nat \<Rightarrow> char" where "join4 s t = byte (s mod 4 * 64 + t)"

fun b64_groups :: "string \<Rightarrow> string option" where
  "b64_groups [] = Some []"
| "b64_groups (a # b # c # d # r) =
     (case (b64_val a, b64_val b, b64_val c, b64_val d) of
        (Some s, Some t, Some u, Some v) \<Rightarrow>
          (case b64_groups r of None \<Rightarrow> None | Some o' \<Rightarrow> Some (join2 s t # join3 t u # join4 u v # o'))
      | (Some s, Some t, Some u, None) \<Rightarrow>
          if d = CHR ''='' \<and> r = [] then Some [join2 s t, join3 t u] else None
      | (Some s, Some t, None, None) \<Rightarrow>
          if c = CHR ''='' \<and> d = CHR ''='' \<and> r = [] then Some [join2 s t] else None
      | _ \<Rightarrow> None)"
| "b64_groups _ = None"

definition b64_decode :: "string \<Rightarrow> string option" where
  "b64_decode s = b64_groups (filter (\<lambda>c. c \<noteq> CHR 0x0A \<and> c \<noteq> CHR 0x0D) s)"

lemma b64_val_char [simp]: "n < 64 \<Longrightarrow> b64_val (b64_char n) = Some n"
proof -
  have "list_all (\<lambda>n. b64_val (b64_char n) = Some n) [0..<64]" by code_simp
  then show "n < 64 \<Longrightarrow> b64_val (b64_char n) = Some n" by (simp add: list_all_iff)
qed

lemma b64_val_pad [simp]: "b64_val (CHR ''='') = None"
  by code_simp

definition b64_safe :: "char \<Rightarrow> bool" where
  "b64_safe c \<longleftrightarrow> c \<notin> set [CHR '','', CHR 0x0A, CHR 0x0D]"

lemma b64_char_safe: "n < 64 \<Longrightarrow> b64_safe (b64_char n)"
proof -
  have "list_all (\<lambda>n. b64_safe (b64_char n)) [0..<64]" by code_simp
  then show "n < 64 \<Longrightarrow> b64_safe (b64_char n)" by (simp add: list_all_iff)
qed

lemma sextets:
  fixes a b c :: nat
  assumes "a < 256" "b < 256" "c < 256"
  shows "a div 4 < 64" "a mod 4 * 16 + b div 16 < 64" "b mod 16 * 4 + c div 64 < 64" "c mod 64 < 64"
    "a mod 4 * 16 < 64" "b mod 16 * 4 < 64"
  using assms by (simp_all add: less_mult_imp_div_less)

lemma joins [simp]:
  "b < 256 \<Longrightarrow> join2 (byte_val x div 4) (byte_val x mod 4 * 16 + b div 16) = x"
  "join2 (byte_val x div 4) (byte_val x mod 4 * 16) = x"
  "c < 256 \<Longrightarrow> join3 (a * 16 + byte_val y div 16) (byte_val y mod 16 * 4 + c div 64) = y"
  "join3 (a * 16 + byte_val y div 16) (byte_val y mod 16 * 4) = y"
  "join4 (b' * 4 + byte_val z div 64) (byte_val z mod 64) = z"
proof -
  have d16: "(m * 16 + n div 16) div 16 = m" if "n < 256" for m n :: nat using that by (simp add: div_mult2_eq [symmetric])
  have d4: "(m * 4 + n div 64) div 4 = m" if "n < 256" for m n :: nat using that by (simp add: div_mult2_eq [symmetric])
  have m16: "(m * 16 + byte_val y div 16) mod 16 = byte_val y div 16" for m y
    using byte_val_less [of y] by (simp add: less_mult_imp_div_less)
  have m4: "(m * 4 + byte_val y div 64) mod 4 = byte_val y div 64" for m y
    using byte_val_less [of y] by (simp add: less_mult_imp_div_less)
  have rejoin: "byte (byte_val y div n * n + byte_val y mod n) = y" for y n by simp
  show "join2 (byte_val x div 4) (byte_val x mod 4 * 16 + b div 16) = x" if "b < 256"
    using that by (simp only: join2_def d16 rejoin)
  show "join2 (byte_val x div 4) (byte_val x mod 4 * 16) = x"
    using rejoin [of x 4] by (simp add: join2_def)
  show "join3 (a * 16 + byte_val y div 16) (byte_val y mod 16 * 4 + c div 64) = y" if "c < 256"
    using that by (simp only: join3_def m16 d4 rejoin)
  show "join3 (a * 16 + byte_val y div 16) (byte_val y mod 16 * 4) = y"
  proof -
    have "byte_val y mod 16 * 4 div 4 = byte_val y mod 16" by simp
    then show ?thesis by (simp only: join3_def m16 rejoin)
  qed
  show "join4 (b' * 4 + byte_val z div 64) (byte_val z mod 64) = z"
    by (simp only: join4_def m4 rejoin)
qed

lemma groups_encode: "b64_groups (b64_encode s) = Some s"
proof (induction s rule: b64_encode.induct)
  case (2 a)
  have "byte_val a div 4 < 64" "byte_val a mod 4 * 16 < 64" using sextets [of "byte_val a" 0 0] by simp_all
  then show ?case by simp
next
  case (3 a b)
  then show ?case using sextets [of "byte_val a" "byte_val b" 0] sextets [of "byte_val b" "byte_val b" 0] by simp
next
  case (4 a b c r)
  then show ?case using sextets [of "byte_val a" "byte_val b" "byte_val c"] by simp
qed simp

lemma encode_safe: "c \<in> set (b64_encode s) \<Longrightarrow> b64_safe c"
proof (induction s rule: b64_encode.induct)
  case (2 a)
  then show ?case using sextets [of "byte_val a" 0 0] by (auto simp: b64_char_safe) (simp_all add: b64_safe_def)
next
  case (3 a b)
  then show ?case using sextets [of "byte_val a" "byte_val b" 0]
    by (auto simp: b64_char_safe) (simp_all add: b64_safe_def)
next
  case (4 a b c r)
  then show ?case using sextets [of "byte_val a" "byte_val b" "byte_val c"] by (auto simp: b64_char_safe)
qed simp

lemma b64_roundtrip [simp]: "b64_decode (b64_encode s) = Some s"
proof -
  have "filter (\<lambda>c. c \<noteq> CHR 0x0A \<and> c \<noteq> CHR 0x0D) (b64_encode s) = b64_encode s"
    by (rule filter_True) (auto dest: encode_safe simp: b64_safe_def)
  then show ?thesis by (simp add: b64_decode_def groups_encode)
qed

lemma comma_free_encode [simp]: "CHR '','' \<notin> set (b64_encode s)"
  using encode_safe [of "CHR '',''" s] by (auto simp: b64_safe_def)

section \<open>Keys\<close>

record crypto =
  cr_sha256 :: "string \<Rightarrow> string"
  cr_hmac :: "string \<Rightarrow> string \<Rightarrow> string"
  cr_pbkdf2 :: "string \<Rightarrow> string \<Rightarrow> int \<Rightarrow> err + string"
  cr_prep :: "string \<Rightarrow> string"
  cr_md5 :: "string \<Rightarrow> string"

record scram_keys =
  sk_client :: string
  sk_stored :: string
  sk_server :: string

definition derive_scram_keys :: "crypto \<Rightarrow> string \<Rightarrow> string \<Rightarrow> int \<Rightarrow> err + scram_keys" where
  "derive_scram_keys C password salt iter = (case cr_pbkdf2 C password salt iter of
      Inl e \<Rightarrow> Inl e
    | Inr salted \<Rightarrow> let client_key = cr_hmac C salted ''Client Key'' in
        Inr \<lparr>sk_client = client_key, sk_stored = cr_sha256 C client_key,
          sk_server = cr_hmac C salted ''Server Key''\<rparr>)"

definition scram_iterations :: int where
  "scram_iterations = 4096"

text \<open>The base64 text of 18 random bytes.\<close>

definition scram_nonce :: "string \<Rightarrow> string" where
  "scram_nonce random = b64_encode random"

section \<open>Attributes of a message\<close>

text \<open>The value of the last attribute with that letter; the empty string when there is none.\<close>

definition attr :: "char \<Rightarrow> string \<Rightarrow> string" where
  "attr k s = fold (\<lambda>kv v. if has_prefix kv [k, CHR ''=''] then drop 2 kv else v) (split_on (CHR '','') s) []"

text \<open>\<^verbatim>\<open>s[:strings.Index(s, p)]\<close>, or \<open>s\<close> when \<open>p\<close> does not occur.\<close>

fun before_text :: "string \<Rightarrow> string \<Rightarrow> string" where
  "before_text p [] = []"
| "before_text p (c # s) = (if has_prefix (c # s) p then [] else c # before_text p s)"

definition split_three :: "string \<Rightarrow> (string \<times> string \<times> string) option" where
  "split_three s = (case cut_at (CHR '','') s of
      (a, None) \<Rightarrow> None
    | (a, Some r) \<Rightarrow> (case cut_at (CHR '','') r of (b, None) \<Rightarrow> None | (b, Some c) \<Rightarrow> Some (a, b, c)))"

section \<open>The server\<close>

record scram_server =
  ss_gs2 :: string
  ss_first_bare :: string
  ss_server_first :: string
  ss_nonce :: string
  ss_keys :: scram_keys

text \<open>\<open>firstReply\<close> up to the first random byte: the GS2 header, the bare message and the nonce.\<close>

definition parse_client_first :: "string \<Rightarrow> err + string \<times> string \<times> string" where
  "parse_client_first data = (case split_three data of
      None \<Rightarrow> Inl (EText ''malformed client-first-message'')
    | Some (flag, authzid, bare) \<Rightarrow>
        if flag \<noteq> ''n'' \<and> flag \<noteq> ''y'' then Inl (EText ''channel binding is not supported'')
        else if attr (CHR ''r'') bare = [] then Inl (EText ''client nonce is missing'')
        else Inr (flag @ '','' @ authzid @ '','', bare, attr (CHR ''r'') bare))"

definition server_first_text :: "string \<Rightarrow> string \<Rightarrow> string" where
  "server_first_text combined salt =
     ''r='' @ combined @ '',s='' @ b64_encode salt @ '',i='' @ show_int scram_iterations"

definition first_reply :: "crypto \<Rightarrow> string \<Rightarrow> string \<Rightarrow> string \<Rightarrow> string \<Rightarrow> err + scram_server" where
  "first_reply C password data random salt = (case parse_client_first data of
      Inl e \<Rightarrow> Inl e
    | Inr (gs2, bare, cnonce) \<Rightarrow>
       (case derive_scram_keys C (cr_prep C password) salt scram_iterations of
          Inl e \<Rightarrow> Inl e
        | Inr keys \<Rightarrow> let combined = cnonce @ scram_nonce random in
            Inr \<lparr>ss_gs2 = gs2, ss_first_bare = bare, ss_server_first = server_first_text combined salt,
              ss_nonce = combined, ss_keys = keys\<rparr>))"

definition err_password_mismatch :: err where
  "err_password_mismatch = EText ''password verification failed''"

definition final_reply :: "crypto \<Rightarrow> scram_server \<Rightarrow> string \<Rightarrow> err + string" where
  "final_reply C s client_final =
     (if attr (CHR ''c'') client_final \<noteq> b64_encode (ss_gs2 s) then Inl (EText ''channel binding mismatch'')
      else if attr (CHR ''r'') client_final \<noteq> ss_nonce s then Inl (EText ''nonce mismatch'')
      else case b64_decode (attr (CHR ''p'') client_final) of
          None \<Rightarrow> Inl (EText ''malformed client proof'')
        | Some proof \<Rightarrow>
          if length proof \<noteq> 32 then Inl (EText ''malformed client proof'')
          else let auth = ss_first_bare s @ '','' @ ss_server_first s @ '','' @ before_text '',p='' client_final;
                   recovered = xor_bytes proof (cr_hmac C (sk_stored (ss_keys s)) auth)
            in if cr_sha256 C recovered \<noteq> sk_stored (ss_keys s) then Inl err_password_mismatch
               else Inr (''v='' @ b64_encode (cr_hmac C (sk_server (ss_keys s)) auth)))"

section \<open>The client\<close>

record scram_client =
  sc_first_bare :: string
  sc_nonce :: string
  sc_auth :: string
  sc_keys :: scram_keys

definition no_keys :: scram_keys where
  "no_keys = \<lparr>sk_client = [], sk_stored = [], sk_server = []\<rparr>"

definition client_first :: "string \<Rightarrow> string \<times> scram_client" where
  "client_first random =
     (let n = scram_nonce random; bare = ''n=,r='' @ n
      in (''n,,'' @ bare, \<lparr>sc_first_bare = bare, sc_nonce = n, sc_auth = [], sc_keys = no_keys\<rparr>))"

definition client_final :: "crypto \<Rightarrow> string \<Rightarrow> scram_client \<Rightarrow> string \<Rightarrow> err + string \<times> scram_client" where
  "client_final C password cl server_first =
     (let rnonce = attr (CHR ''r'') server_first in
      if \<not> has_prefix rnonce (sc_nonce cl) then Inl (EText ''server nonce does not extend client nonce'')
      else case b64_decode (attr (CHR ''s'') server_first) of
          None \<Rightarrow> Inl (EText ''malformed server salt'')
        | Some salt \<Rightarrow>
          (case atoi (attr (CHR ''i'') server_first) of
             None \<Rightarrow> Inl (EText ''malformed iteration count'')
           | Some iter \<Rightarrow>
             if iter \<le> 0 then Inl (EText ''malformed iteration count'')
             else case derive_scram_keys C (cr_prep C password) salt iter of
                Inl e \<Rightarrow> Inl e
              | Inr keys \<Rightarrow>
                 let without = ''c='' @ b64_encode ''n,,'' @ '',r='' @ rnonce;
                     auth = sc_first_bare cl @ '','' @ server_first @ '','' @ without;
                     proof = xor_bytes (sk_client keys) (cr_hmac C (sk_stored keys) auth)
                 in Inr (without @ '',p='' @ b64_encode proof, cl\<lparr>sc_auth := auth, sc_keys := keys\<rparr>)))"

definition verify_server_final :: "crypto \<Rightarrow> scram_client \<Rightarrow> string \<Rightarrow> err + unit" where
  "verify_server_final C cl server_final = (case b64_decode (attr (CHR ''v'') server_final) of
      None \<Rightarrow> Inl (EText ''malformed server signature'')
    | Some sig \<Rightarrow> if sig = cr_hmac C (sk_server (sc_keys cl)) (sc_auth cl) then Inr ()
        else Inl (EText ''server signature mismatch''))"

section \<open>Facts\<close>

declare b64_encode.simps [simp del]

lemma split_three_parts:
  assumes "CHR '','' \<notin> set a" "CHR '','' \<notin> set b" "CHR '','' \<notin> set c"
  shows "split_on (CHR '','') (a @ CHR '','' # b @ CHR '','' # c) = [a, b, c]"
  using assms by (simp add: split_on_append split_on_no_sep)

lemma attr_of:
  assumes "split_on (CHR '','') s = kvs"
  shows "attr k s = fold (\<lambda>kv v. if has_prefix kv [k, CHR ''=''] then drop 2 kv else v) kvs []"
  using assms by (simp add: attr_def)

lemma has_prefix_Cons [simp]: "has_prefix (c # s) (d # p) \<longleftrightarrow> c = d \<and> has_prefix s p"
  by (auto simp: has_prefix_def)

lemma before_text_skip:
  "CHR '','' \<notin> set u \<Longrightarrow> before_text (CHR '','' # p) (u @ s) = u @ before_text (CHR '','' # p) s"
  by (induction u) auto

lemma before_proof:
  assumes "CHR '','' \<notin> set u" "CHR '','' \<notin> set v"
  shows "before_text '',p='' (u @ CHR '','' # CHR ''r'' # v @ '',p='' @ w) = u @ CHR '','' # CHR ''r'' # v"
  using assms by (simp add: before_text_skip)

lemma iterations_text: "show_int scram_iterations = show_nat 4096"
  by (simp add: show_int_def scram_iterations_def)

lemma comma_free_number [simp]: "CHR '','' \<notin> set (show_int scram_iterations)"
  using show_nat_digits [of "CHR '',''" 4096] by (auto simp: iterations_text is_digit_def)

lemma atoi_iterations [simp]: "atoi (show_int scram_iterations) = Some 4096"
  using atoi_show_nat [of 4096] by (simp add: iterations_text)

definition sized_crypto :: "crypto \<Rightarrow> bool" where
  "sized_crypto C \<longleftrightarrow> (\<forall>k m. length (cr_hmac C k m) = 32)"

lemma derive_sizes:
  "sized_crypto C \<Longrightarrow> derive_scram_keys C pw salt n = Inr keys \<Longrightarrow>
     length (sk_client keys) = 32 \<and> sk_stored keys = cr_sha256 C (sk_client keys)"
  by (auto simp: derive_scram_keys_def sized_crypto_def Let_def split: sum.splits)

lemma parse_first_honest:
  assumes "r1 \<noteq> []"
  shows "parse_client_first (fst (client_first r1)) = Inr (''n,,'', ''n=,r='' @ b64_encode r1, b64_encode r1)"
proof -
  let ?bare = "''n=,r='' @ b64_encode r1"
  have "split_three (fst (client_first r1)) = Some (''n'', [], ?bare)"
    using cut_at_append [of "CHR '',''" "''n''" "'','' @ ?bare"] cut_at_append [of "CHR '',''" "[]" ?bare]
    by (simp add: split_three_def client_first_def Let_def scram_nonce_def)
  moreover have "attr (CHR ''r'') ?bare = b64_encode r1"
    using split_on_append [of "CHR '',''" "''n=''" "''r='' @ b64_encode r1"]
    by (simp add: attr_def split_on_no_sep)
  moreover have "b64_encode r1 \<noteq> []" using assms by (cases r1 rule: b64_encode.cases) (auto simp: b64_encode.simps)
  ultimately show ?thesis by (simp add: parse_client_first_def)
qed

lemma first_reply_honest:
  assumes "r1 \<noteq> []" and "first_reply C pw (fst (client_first r1)) r2 salt = Inr srv"
  shows "derive_scram_keys C (cr_prep C pw) salt scram_iterations = Inr (ss_keys srv)
     \<and> ss_gs2 srv = ''n,,'' \<and> ss_first_bare srv = ''n=,r='' @ b64_encode r1
     \<and> ss_nonce srv = b64_encode r1 @ b64_encode r2
     \<and> ss_server_first srv = server_first_text (b64_encode r1 @ b64_encode r2) salt"
  using assms(2) parse_first_honest [OF assms(1)]
  by (auto simp: first_reply_def Let_def scram_nonce_def split: sum.splits)

lemma server_first_attrs:
  assumes "CHR '','' \<notin> set n"
  shows "attr (CHR ''r'') (server_first_text n salt) = n"
    "attr (CHR ''s'') (server_first_text n salt) = b64_encode salt"
    "attr (CHR ''i'') (server_first_text n salt) = show_int scram_iterations"
proof -
  have "split_on (CHR '','') (server_first_text n salt)
      = [''r='' @ n, ''s='' @ b64_encode salt, ''i='' @ show_int scram_iterations]"
    using assms split_three_parts [of "''r='' @ n" "''s='' @ b64_encode salt" "''i='' @ show_int scram_iterations"]
    by (simp add: server_first_text_def)
  then show "attr (CHR ''r'') (server_first_text n salt) = n"
    "attr (CHR ''s'') (server_first_text n salt) = b64_encode salt"
    "attr (CHR ''i'') (server_first_text n salt) = show_int scram_iterations"
    by (simp_all add: attr_def)
qed

lemma honest_exchange:
  assumes "sized_crypto C" and "r1 \<noteq> []" and "first_reply C pw (fst (client_first r1)) r2 salt = Inr srv"
  shows "\<exists>m3 cl m4. client_final C pw (snd (client_first r1)) (ss_server_first srv) = Inr (m3, cl)
     \<and> final_reply C srv m3 = Inr m4 \<and> verify_server_final C cl m4 = Inr ()"
proof -
  note srv = first_reply_honest [OF assms(2,3)]
  define kk where "kk = ss_keys srv"
  define n where "n = b64_encode r1 @ b64_encode r2"
  define wo where "wo = ''c='' @ b64_encode ''n,,'' @ '',r='' @ n"
  define auth where "auth = ss_first_bare srv @ '','' @ ss_server_first srv @ '','' @ wo"
  define cproof where "cproof = xor_bytes (sk_client kk) (cr_hmac C (sk_stored kk) auth)"
  define m3 where "m3 = wo @ '',p='' @ b64_encode cproof"
  define cl where "cl = (snd (client_first r1))\<lparr>sc_auth := auth, sc_keys := kk\<rparr>"
  have ks: "derive_scram_keys C (cr_prep C pw) salt 4096 = Inr kk"
    "length (sk_client kk) = 32" "sk_stored kk = cr_sha256 C (sk_client kk)"
    using srv derive_sizes [OF assms(1)] by (auto simp: kk_def scram_iterations_def)
  have hm: "length (cr_hmac C k m) = 32" for k m using assms(1) by (simp add: sized_crypto_def)
  have nfree: "CHR '','' \<notin> set n" by (simp add: n_def)
  have sf: "ss_server_first srv = server_first_text n salt" using srv by (simp add: n_def)
  have cf: "client_final C pw (snd (client_first r1)) (ss_server_first srv) = Inr (m3, cl)"
    using srv ks(1) nfree
    by (simp add: client_final_def sf server_first_attrs Let_def client_first_def scram_nonce_def
        m3_def cl_def auth_def cproof_def wo_def) (simp add: n_def)
  have parts: "split_on (CHR '','') m3 = [''c='' @ b64_encode ''n,,'', ''r='' @ n, ''p='' @ b64_encode cproof]"
    using nfree split_three_parts [of "''c='' @ b64_encode ''n,,''" "''r='' @ n" "''p='' @ b64_encode cproof"]
    by (simp add: m3_def wo_def)
  have attrs: "attr (CHR ''c'') m3 = b64_encode ''n,,''" "attr (CHR ''r'') m3 = n" "attr (CHR ''p'') m3 = b64_encode cproof"
    by (simp_all add: attr_of [OF parts])
  have cut: "before_text '',p='' m3 = wo"
    using before_proof [of "''c='' @ b64_encode ''n,,''" "''='' @ n" "b64_encode cproof"] nfree
    by (simp add: m3_def wo_def)
  have xored: "xor_bytes cproof (cr_hmac C (sk_stored kk) auth) = sk_client kk"
    using ks(2) hm by (simp add: cproof_def xor_bytes_cancel)
  have au: "ss_first_bare srv @ CHR '','' # ss_server_first srv @ CHR '','' # wo = auth" by (simp add: auth_def)
  have "ss_gs2 srv = ''n,,''" "ss_nonce srv = n" using srv by (simp_all add: n_def)
  moreover have "length cproof = 32" using ks(2) hm by (simp add: cproof_def)
  ultimately have "final_reply C srv m3 = Inr (''v='' @ b64_encode (cr_hmac C (sk_server kk) auth))"
    using xored ks(3) by (simp add: final_reply_def attrs cut Let_def au kk_def [symmetric])
  moreover have "verify_server_final C cl (''v='' @ b64_encode (cr_hmac C (sk_server kk) auth)) = Inr ()"
    by (simp add: verify_server_final_def attr_def split_on_no_sep cl_def)
  ultimately show ?thesis using cf by blast
qed

section \<open>Properties\<close>

text \<open>C36. The two roles agree: for every password, nonces and salt, and whatever the hash functions are,
  a client of this implementation that knows the password is accepted by the server of this
  implementation, and accepts the server's signature.\<close>

theorem scram_roles_agree:
  assumes "sized_crypto C" and "r1 \<noteq> []" and "first_reply C pw (fst (client_first r1)) r2 salt = Inr srv"
  shows "\<exists>m3 cl m4. client_final C pw (snd (client_first r1)) (ss_server_first srv) = Inr (m3, cl)
     \<and> final_reply C srv m3 = Inr m4 \<and> verify_server_final C cl m4 = Inr ()"
  by (rule honest_exchange [OF assms])

definition toy_crypto :: crypto where
  "toy_crypto = \<lparr>cr_sha256 = (\<lambda>x. take 32 (x @ replicate 32 nul)), cr_hmac = (\<lambda>k m. take 32 (k @ m @ replicate 32 nul)),
     cr_pbkdf2 = (\<lambda>p s n. Inr (p @ s)), cr_prep = (\<lambda>p. p), cr_md5 = (\<lambda>x. x)\<rparr>"

lemma toy_sized: "sized_crypto toy_crypto"
  by (auto simp: sized_crypto_def toy_crypto_def min_def)

definition toy_keys :: scram_keys where
  "toy_keys = (let k = cr_hmac toy_crypto ''secretsalt'' ''Client Key'' in
     \<lparr>sk_client = k, sk_stored = cr_sha256 toy_crypto k,
      sk_server = cr_hmac toy_crypto ''secretsalt'' ''Server Key''\<rparr>)"

definition toy_server :: scram_server where
  "toy_server = \<lparr>ss_gs2 = ''n,,'', ss_first_bare = ''n=,r='' @ b64_encode ''abc'',
     ss_server_first = server_first_text (b64_encode ''abc'' @ b64_encode ''xyz'') ''salt'',
     ss_nonce = b64_encode ''abc'' @ b64_encode ''xyz'', ss_keys = toy_keys\<rparr>"

lemma toy_first: "first_reply toy_crypto ''secret'' (fst (client_first ''abc'')) ''xyz'' ''salt'' = Inr toy_server"
proof -
  have "derive_scram_keys toy_crypto (cr_prep toy_crypto ''secret'') ''salt'' scram_iterations = Inr toy_keys"
    by (simp add: derive_scram_keys_def toy_keys_def Let_def toy_crypto_def)
  then show ?thesis
    using parse_first_honest [of "''abc''"]
    by (simp add: first_reply_def toy_server_def Let_def scram_nonce_def)
qed

theorem scram_roles_agree_witness:
  "\<exists>m3 cl m4. client_final toy_crypto ''secret'' (snd (client_first ''abc'')) (ss_server_first toy_server) = Inr (m3, cl)
     \<and> final_reply toy_crypto toy_server m3 = Inr m4 \<and> verify_server_final toy_crypto cl m4 = Inr ()"
  by (rule scram_roles_agree [OF toy_sized _ toy_first]) simp

text \<open>The signature over the messages of an exchange, with a key.\<close>

definition exchange_mac :: "crypto \<Rightarrow> scram_server \<Rightarrow> string \<Rightarrow> string \<Rightarrow> string" where
  "exchange_mac C srv m k =
     cr_hmac C k (ss_first_bare srv @ '','' @ ss_server_first srv @ '','' @ before_text '',p='' m)"

text \<open>C35. The server accepts a final message exactly when it repeats the channel binding of the first
  message and the nonce of this exchange, which ends with the server's fresh random bytes, and its proof is 32
  bytes that are a key masked with the signature over the messages of this very exchange, where the key has the
  stored key as its hash; the stored key is the hash of the client key that the password and the salt
  derive. What the server answers is signed with its own key over the same messages. The
  only assumption is that an HMAC has 32 bytes.\<close>

theorem scram_accepts_only_the_proof:
  assumes "sized_crypto C" and "first_reply C pw m1 r2 salt = Inr srv"
  shows "(final_reply C srv m3 = Inr m4 \<longleftrightarrow>
         attr (CHR ''c'') m3 = b64_encode (ss_gs2 srv) \<and> attr (CHR ''r'') m3 = ss_nonce srv
       \<and> (\<exists>k. length k = 32 \<and> cr_sha256 C k = sk_stored (ss_keys srv)
            \<and> b64_decode (attr (CHR ''p'') m3) = Some (xor_bytes k (exchange_mac C srv m3 (sk_stored (ss_keys srv)))))
       \<and> m4 = ''v='' @ b64_encode (exchange_mac C srv m3 (sk_server (ss_keys srv))))
     \<and> (\<exists>cnonce. ss_nonce srv = cnonce @ b64_encode r2)
     \<and> derive_scram_keys C (cr_prep C pw) salt scram_iterations = Inr (ss_keys srv)
     \<and> sk_stored (ss_keys srv) = cr_sha256 C (sk_client (ss_keys srv)) \<and> length (sk_client (ss_keys srv)) = 32"
proof -
  let ?s = "exchange_mac C srv m3 (sk_stored (ss_keys srv))"
  have hm: "length ?s = 32" using assms(1) by (simp add: sized_crypto_def exchange_mac_def)
  have keys: "derive_scram_keys C (cr_prep C pw) salt scram_iterations = Inr (ss_keys srv)"
    using assms(2) by (auto simp: first_reply_def Let_def scram_nonce_def split: sum.splits prod.splits)
  then have keys: "derive_scram_keys C (cr_prep C pw) salt scram_iterations = Inr (ss_keys srv)
     \<and> sk_stored (ss_keys srv) = cr_sha256 C (sk_client (ss_keys srv)) \<and> length (sk_client (ss_keys srv)) = 32"
    using derive_sizes [OF assms(1)] by blast
  have nonce: "\<exists>cnonce. ss_nonce srv = cnonce @ b64_encode r2"
    using assms(2) by (auto simp: first_reply_def Let_def scram_nonce_def split: sum.splits prod.splits)
  have unmask: "(\<exists>p. b64_decode x = Some p \<and> length p = 32 \<and> cr_sha256 C (xor_bytes p ?s) = h)
      \<longleftrightarrow> (\<exists>k. length k = 32 \<and> cr_sha256 C k = h \<and> b64_decode x = Some (xor_bytes k ?s))" for x h
  proof
    assume "\<exists>p. b64_decode x = Some p \<and> length p = 32 \<and> cr_sha256 C (xor_bytes p ?s) = h"
    then obtain p where p: "b64_decode x = Some p" "length p = 32" "cr_sha256 C (xor_bytes p ?s) = h" by blast
    then show "\<exists>k. length k = 32 \<and> cr_sha256 C k = h \<and> b64_decode x = Some (xor_bytes k ?s)"
      using hm xor_bytes_cancel [of p ?s] by (intro exI [of _ "xor_bytes p ?s"]) simp
  next
    assume "\<exists>k. length k = 32 \<and> cr_sha256 C k = h \<and> b64_decode x = Some (xor_bytes k ?s)"
    then show "\<exists>p. b64_decode x = Some p \<and> length p = 32 \<and> cr_sha256 C (xor_bytes p ?s) = h"
      using hm xor_bytes_cancel [of _ ?s] by auto
  qed
  have "final_reply C srv m3 = Inr m4 \<longleftrightarrow>
       attr (CHR ''c'') m3 = b64_encode (ss_gs2 srv) \<and> attr (CHR ''r'') m3 = ss_nonce srv
     \<and> (\<exists>p. b64_decode (attr (CHR ''p'') m3) = Some p \<and> length p = 32
          \<and> cr_sha256 C (xor_bytes p ?s) = sk_stored (ss_keys srv))
     \<and> m4 = ''v='' @ b64_encode (exchange_mac C srv m3 (sk_server (ss_keys srv)))"
    by (auto simp: final_reply_def exchange_mac_def Let_def split: option.splits)
  then show ?thesis using unmask keys nonce by simp
qed

definition toy_final :: string where
  "toy_final = (case client_final toy_crypto ''secret'' (snd (client_first ''abc'')) (ss_server_first toy_server) of
     Inl e \<Rightarrow> [] | Inr (m, cl) \<Rightarrow> m)"

theorem scram_accepts_only_the_proof_witness:
  "\<exists>k. length k = 32 \<and> cr_sha256 toy_crypto k = sk_stored (ss_keys toy_server)
     \<and> b64_decode (attr (CHR ''p'') toy_final) = Some (xor_bytes k (cr_hmac toy_crypto (sk_stored (ss_keys toy_server))
       (ss_first_bare toy_server @ '','' @ ss_server_first toy_server @ '','' @ before_text '',p='' toy_final)))"
proof -
  obtain m4 where m4: "final_reply toy_crypto toy_server toy_final = Inr m4"
    using honest_exchange [OF toy_sized _ toy_first] by (auto simp: toy_final_def)
  then show ?thesis
    using scram_accepts_only_the_proof [OF toy_sized toy_first] unfolding exchange_mac_def by blast
qed

end
