(* ===== verification/PgProxy.thy ===== *)
theory PgProxy
  imports PgProtocol Scram ProxyState
begin

text \<open>
  internal/pgproxy/pgproxy.go and backend.go: the handler of a PostgreSQL client. Like the MySQL
  one it verifies the password before it touches a branch; it also relays cancel requests to
  the backend that a session registered. The loops that read messages take fuel, the number of
  messages read at most; \<open>None\<close> is a loop still running. The hash functions and the
  preparation of passwords are those of \<open>crypto\<close>.
\<close>

section \<open>Verifying the client\<close>

definition msg_authentication :: char where "msg_authentication = CHR ''R''"
definition msg_error_response :: char where "msg_error_response = CHR ''E''"
definition msg_ready_for_query :: char where "msg_ready_for_query = CHR ''Z''"
definition msg_backend_key_data :: char where "msg_backend_key_data = CHR ''K''"
definition msg_password :: char where "msg_password = CHR ''p''"

definition scram_mechanism :: string where
  "scram_mechanism = ''SCRAM-SHA-256''"

text \<open>The mechanism-specific data of a SASLInitialResponse.\<close>

definition sasl_initial :: "message \<Rightarrow> err + string" where
  "sasl_initial m =
     (if ms_typ m \<noteq> msg_password then Inl (EText ''expected SASLInitialResponse'')
      else case cstring (ms_body m) of
          Inl e \<Rightarrow> Inl e
        | Inr (mech, rest) \<Rightarrow>
            if mech \<noteq> scram_mechanism then Inl (EText (''unsupported SASL mechanism '' @ mech))
            else if length rest < 4 then Inl (EText ''malformed SASLInitialResponse'')
            else Inr (drop 4 rest))"

definition write_auth :: "'w conn \<Rightarrow> int32 \<Rightarrow> string \<Rightarrow> ('w, unit) pact" where
  "write_auth client code data = on_world (write_message client msg_authentication (build_auth_message code data))"

definition server_first_step :: "'w px_env \<Rightarrow> crypto \<Rightarrow> px_config \<Rightarrow> string \<Rightarrow> ('w, string \<times> string \<times> scram_server) pact" where
  "server_first_step E C c initial =
     pbind (from_sum (parse_client_first initial)) (\<lambda>_.
     pbind (on_world (pe_random E 18)) (\<lambda>r2.
     pbind (on_world (pe_random E 16)) (\<lambda>salt.
     pbind (from_sum (first_reply C (pc_app_password c) initial r2 salt)) (\<lambda>srv. pret (r2, salt, srv)))))"

definition scram_second_half ::
  "crypto \<Rightarrow> 'w conn \<Rightarrow> string \<Rightarrow> string \<times> string \<times> scram_server \<Rightarrow> ('w, unit) pact" where
  "scram_second_half C client initial v = (case v of (r2, salt, srv) \<Rightarrow>
     pbind (write_auth client auth_sasl_continue (ss_server_first srv)) (\<lambda>_.
     pbind (on_world (read_message client)) (\<lambda>m3.
     if ms_typ m3 \<noteq> msg_password then pfail (EText ''expected SASLResponse'')
     else let reply = final_reply C srv (ms_body m3) in
       pbind (log_event (PxChecked [initial, r2, salt, ms_body m3] (case reply of Inl e \<Rightarrow> False | Inr v \<Rightarrow> True))) (\<lambda>_.
       pbind (from_sum reply) (\<lambda>server_final. write_auth client auth_sasl_final server_final)))))"

definition verify_client_scram :: "'w px_env \<Rightarrow> crypto \<Rightarrow> px_config \<Rightarrow> 'w conn \<Rightarrow> ('w, unit) pact" where
  "verify_client_scram E C c client =
     pbind (write_auth client auth_sasl (scram_mechanism @ [nul, nul])) (\<lambda>_.
     pbind (on_world (read_message client)) (\<lambda>m.
     pbind (from_sum (sasl_initial m)) (\<lambda>initial.
     pbind (server_first_step E C c initial) (scram_second_half C client initial))))"

text \<open>\<open>None\<close> when no slot was free, else the error of the verification, if any.\<close>

definition verify_slot_run :: "'w px_env \<Rightarrow> crypto \<Rightarrow> px_config \<Rightarrow> string \<Rightarrow> 'w conn \<Rightarrow> ('w, err option) pact" where
  "verify_slot_run E C c src client =
     pbind (pause E src) (\<lambda>_.
     pbind (total_world (pe_ctx_err E)) (\<lambda>ce.
     if ce \<noteq> None then pret ce
     else phandle (verify_client_scram E C c client)
       (\<lambda>e. if err_is e err_password_mismatch
            then pbind (note_failure E src) (\<lambda>_. pret (Some e)) else pret (Some e))
       (\<lambda>_. pbind (note_success src) (\<lambda>_. pret None))))"

definition pg_verify_client :: "'w px_env \<Rightarrow> crypto \<Rightarrow> px_config \<Rightarrow> string \<Rightarrow> 'w conn \<Rightarrow> ('w, err option option) pact" where
  "pg_verify_client E C c src client = with_slot E src (verify_slot_run E C c src client)"

definition pg_fatal :: "'w conn \<Rightarrow> string \<Rightarrow> string \<Rightarrow> ('w, 'a) pact" where
  "pg_fatal client sqlstate msg =
     phandle (on_world (write_message client msg_error_response (build_error sqlstate msg)))
       (\<lambda>_. pfail (EText (''rejected: '' @ msg))) (\<lambda>_. pfail (EText (''rejected: '' @ msg)))"

section \<open>The startup message\<close>

fun read_startup_tls :: "'w px_env \<Rightarrow> px_config \<Rightarrow> nat \<Rightarrow> 'w conn \<Rightarrow> ('w, ('w conn \<times> startup) option) pact" where
  "read_startup_tls E c 0 client = pret None"
| "read_startup_tls E c (Suc fuel) client =
     pbind (on_world (read_startup client)) (\<lambda>su.
     if su_code su = code_ssl_request
     then (if \<not> pc_has_tls c
           then pbind (on_world (cn_write client ''N'')) (\<lambda>_. read_startup_tls E c fuel client)
           else pbind (on_world (cn_write client ''S'')) (\<lambda>_.
             phandle (on_world (pe_tls E client)) (\<lambda>e. pfail (EWrap ''tls handshake: '' e [])) (\<lambda>tls.
             read_startup_tls E c fuel tls)))
     else if su_code su = code_gssenc_request
     then pbind (on_world (cn_write client ''N'')) (\<lambda>_. read_startup_tls E c fuel client)
     else pret (Some (client, su)))"

definition param :: "params \<Rightarrow> string \<Rightarrow> string" where
  "param ps k = (case map_of ps k of None \<Rightarrow> [] | Some v \<Rightarrow> v)"

definition wants_replication :: "params \<Rightarrow> bool" where
  "wants_replication ps \<longleftrightarrow> param ps ''replication'' \<notin> set [[], ''false'', ''off'', ''0'', ''no'']"

section \<open>Connecting to the backend\<close>

definition write_password :: "'w conn \<Rightarrow> string \<Rightarrow> ('w, unit) pact" where
  "write_password c s = on_world (write_message c msg_password (s @ [nul]))"

definition write_sasl_initial :: "'w conn \<Rightarrow> string \<Rightarrow> string \<Rightarrow> ('w, unit) pact" where
  "write_sasl_initial c mechanism data =
     on_world (write_message c msg_password (mechanism @ [nul] @ be_bytes 4 (length data) @ data))"

definition hex_digit :: "nat \<Rightarrow> char" where
  "hex_digit n = ''0123456789abcdef'' ! n"

definition hex_encode :: "string \<Rightarrow> string" where
  "hex_encode b = concat (map (\<lambda>c. [hex_digit (byte_val c div 16), hex_digit (byte_val c mod 16)]) b)"

definition md5_token :: "crypto \<Rightarrow> string \<Rightarrow> string \<Rightarrow> string \<Rightarrow> string" where
  "md5_token C password user salt =
     ''md5'' @ hex_encode (cr_md5 C (hex_encode (cr_md5 C (password @ user)) @ salt))"

definition backend_startup_params :: "string \<Rightarrow> params \<Rightarrow> params" where
  "backend_startup_params app_user ps =
     (let qs = AList.update ''user'' app_user ps
      in if param qs ''database'' = [] then AList.delete ''database'' qs else qs)"

text \<open>One message of the backend: stop with success, or go on with the state of the SCRAM client.\<close>

definition pg_backend_step ::
  "'w px_env \<Rightarrow> crypto \<Rightarrow> px_config \<Rightarrow> 'w conn \<Rightarrow> scram_client option \<Rightarrow> message \<Rightarrow>
   ('w, scram_client option option) pact" where
  "pg_backend_step E C c backend sc m =
     (let password = pc_app_password c in
      if ms_typ m = msg_error_response then pfail (EText (''backend rejected: '' @ error_text (ms_body m)))
      else if ms_typ m = msg_authentication
      then (case auth_code (ms_body m) of
          None \<Rightarrow> pfail (EText ''malformed authentication message'')
        | Some (code, data) \<Rightarrow>
            if code = auth_ok_code then pret None
            else if code = auth_cleartext_password
            then pbind (write_password backend password) (\<lambda>_. pret (Some sc))
            else if code = auth_md5_password
            then (if length data < 4 then pfail (EText ''md5 salt is missing'')
                  else pbind (write_password backend (md5_token C password (pc_app_user c) (take 4 data)))
                    (\<lambda>_. pret (Some sc)))
            else if code = auth_sasl
            then pbind (on_world (pe_random E 18)) (\<lambda>r1.
                 pbind (write_sasl_initial backend scram_mechanism (fst (client_first r1))) (\<lambda>_.
                 pret (Some (Some (snd (client_first r1))))))
            else if code = auth_sasl_continue
            then (case sc of
                None \<Rightarrow> pfail (EText ''unexpected SASLContinue'')
              | Some cl \<Rightarrow> pbind (from_sum (client_final C password cl data)) (\<lambda>(final, cl').
                  pbind (on_world (write_message backend msg_password final)) (\<lambda>_. pret (Some (Some cl')))))
            else if code = auth_sasl_final
            then (case sc of
                None \<Rightarrow> pfail (EText ''unexpected SASLFinal'')
              | Some cl \<Rightarrow> pbind (from_sum (verify_server_final C cl data)) (\<lambda>_. pret (Some (Some cl))))
            else pfail (EText (''unsupported backend auth method '' @ show_int (sint code))))
      else pfail (EText ''unexpected backend message during auth''))"

fun pg_backend_loop ::
  "'w px_env \<Rightarrow> crypto \<Rightarrow> px_config \<Rightarrow> 'w conn \<Rightarrow> nat \<Rightarrow> scram_client option \<Rightarrow> ('w, unit option) pact" where
  "pg_backend_loop E C c backend 0 sc = pret None"
| "pg_backend_loop E C c backend (Suc fuel) sc =
     phandle (on_world (read_message backend))
       (\<lambda>e. pfail (EWrap ''read backend message: '' e [])) (\<lambda>m.
     pbind (pg_backend_step E C c backend sc m) (\<lambda>next.
     case next of None \<Rightarrow> pret (Some ()) | Some sc' \<Rightarrow> pg_backend_loop E C c backend fuel sc'))"

definition pg_authenticate_backend ::
  "'w px_env \<Rightarrow> crypto \<Rightarrow> px_config \<Rightarrow> nat \<Rightarrow> 'w conn \<Rightarrow> params \<Rightarrow> ('w, unit option) pact" where
  "pg_authenticate_backend E C c fuel backend ps =
     phandle (on_world (write_startup backend (backend_startup_params (pc_app_user c) ps)))
       (\<lambda>e. pfail (EWrap ''send startup: '' e [])) (\<lambda>_. pg_backend_loop E C c backend fuel None)"

section \<open>Cancel requests\<close>

definition register_cancel :: "int32 \<times> int32 \<Rightarrow> string \<Rightarrow> 'w px \<Rightarrow> 'w px" where
  "register_cancel k addr s = s\<lparr>px_cancels := AList.update k addr (px_cancels s)\<rparr>"

definition unregister_cancel :: "int32 \<times> int32 \<Rightarrow> 'w px \<Rightarrow> 'w px" where
  "unregister_cancel k s = s\<lparr>px_cancels := AList.delete k (px_cancels s)\<rparr>"

definition lookup_cancel :: "int32 \<times> int32 \<Rightarrow> 'w px \<Rightarrow> string option" where
  "lookup_cancel k s = map_of (px_cancels s) k"

definition relay_cancel :: "'w px_env \<Rightarrow> startup \<Rightarrow> ('w, unit) pact" where
  "relay_cancel E su s = (case lookup_cancel (su_cancel_pid su, su_cancel_secret su) s of
      None \<Rightarrow> pret () s
    | Some addr \<Rightarrow>
        pbind (log_event (PxDialed addr)) (\<lambda>_.
        phandle (on_world (pe_dial E addr)) (\<lambda>e. pfail (EWrap (''cancel: backend '' @ addr @ '': '') e [])) (\<lambda>backend.
        phandle (on_world (cn_write backend (build_cancel_request (su_cancel_pid su) (su_cancel_secret su))))
          (\<lambda>e. pfail (EWrap ''cancel: send: '' e [])) pret)) s)"

text \<open>Relays the startup of the backend. The result is the key it registered, if any, and the error.\<close>

definition note_key :: "string \<Rightarrow> message \<Rightarrow> (int32 \<times> int32) option \<Rightarrow> ('w, (int32 \<times> int32) option) pact" where
  "note_key addr m rel s =
     (if ms_typ m \<noteq> msg_backend_key_data then (Done rel, s)
      else case parse_backend_key_data (ms_body m) of
          None \<Rightarrow> (Done rel, s)
        | Some k \<Rightarrow> (Done (Some k), register_cancel k addr s))"

fun forward_startup ::
  "'w conn \<Rightarrow> 'w conn \<Rightarrow> string \<Rightarrow> nat \<Rightarrow> (int32 \<times> int32) option \<Rightarrow>
   ('w, ((int32 \<times> int32) option \<times> err option) option) pact" where
  "forward_startup client backend addr 0 rel = pret None"
| "forward_startup client backend addr (Suc fuel) rel =
     phandle (on_world (read_message backend))
       (\<lambda>e. pret (Some (rel, Some (EWrap ''backend startup: '' e [])))) (\<lambda>m.
     pbind (note_key addr m rel) (\<lambda>rel'.
     phandle (on_world (write_message client (ms_typ m) (ms_body m))) (\<lambda>e. pret (Some (rel', Some e))) (\<lambda>_.
     if ms_typ m = msg_ready_for_query \<or> ms_typ m = msg_error_response then pret (Some (rel', None))
     else forward_startup client backend addr fuel rel')))"

section \<open>The handler\<close>

definition pg_session ::
  "'w px_env \<Rightarrow> crypto \<Rightarrow> px_config \<Rightarrow> nat \<Rightarrow> 'w conn \<Rightarrow> params \<Rightarrow> string \<Rightarrow> int \<Rightarrow> ('w, unit option) pact" where
  "pg_session E C c fuel client ps branch port =
     (let addr = pc_backend_host c @ '':'' @ show_int port in
     pbind (log_event (PxDialed addr)) (\<lambda>_.
     phandle (on_world (pe_dial E addr)) (\<lambda>_. pg_fatal client ''08006'' ''backend unavailable'') (\<lambda>backend.
     phandle (pg_authenticate_backend E C c fuel backend ps)
       (\<lambda>_. pg_fatal client ''08006'' ''backend authentication failed'') (\<lambda>done.
     if done = None then pret None
     else pbind (log_event (PxTouched branch)) (\<lambda>_.
     pbind (total_world (\<lambda>w. ((), pe_touch E branch w))) (\<lambda>_.
     pbind (on_world (write_message client msg_authentication build_auth_ok)) (\<lambda>_.
     pbind (forward_startup client backend addr fuel None) (\<lambda>fw.
     case fw of
       None \<Rightarrow> pret None
     | Some (rel, er) \<Rightarrow>
         finally_do (case rel of None \<Rightarrow> (\<lambda>s. s) | Some k \<Rightarrow> unregister_cancel k)
           (case er of Some e \<Rightarrow> pfail e
            | None \<Rightarrow> pbind (log_event (PxPiped branch)) (\<lambda>_.
                pbind (total_world (\<lambda>w. ((), pe_pipe E client backend w))) (\<lambda>_. pret (Some ()))))))))))))"

definition pg_route ::
  "'w px_env \<Rightarrow> crypto \<Rightarrow> px_config \<Rightarrow> nat \<Rightarrow> 'w conn \<Rightarrow> params \<Rightarrow> string \<Rightarrow> ('w, unit option) pact" where
  "pg_route E C c fuel client ps branch =
     pbind (log_event (PxRouted branch)) (\<lambda>_.
     phandle (on_world (pe_route E branch))
       (\<lambda>_. pg_fatal client ''3D000'' (''unknown branch '' @ branch)) (\<lambda>port.
     pbind (open_session c branch) (\<lambda>ok.
     if \<not> ok then pg_fatal client ''53300'' ''too many connections for branch''
     else finally_do (close_session branch) (pg_session E C c fuel client ps branch port))))"

definition pg_admit :: "'w px_env \<Rightarrow> crypto \<Rightarrow> px_config \<Rightarrow> string \<Rightarrow> 'w conn \<Rightarrow> string \<Rightarrow> ('w, unit) pact" where
  "pg_admit E C c src client raw_user =
     pbind (pg_verify_client E C c src client) (\<lambda>v.
     if v = None then pg_fatal client ''53300'' ''too many concurrent authentication attempts''
     else pbind (total_world (pe_ctx_err E)) (\<lambda>ce.
       case ce of Some e \<Rightarrow> pfail e
       | None \<Rightarrow> if v \<noteq> Some None
           then pg_fatal client ''28P01'' (''password authentication failed for user '' @ raw_user)
           else pret ()))"

text \<open>The user name is checked before anything else; it names the branch.\<close>

definition pg_check_user :: "'w px_env \<Rightarrow> px_config \<Rightarrow> 'w conn \<Rightarrow> params \<Rightarrow> ('w, string) pact" where
  "pg_check_user E c client ps =
     (case cut_at (CHR ''@'') (param ps ''user'') of
        (user, None) \<Rightarrow> pg_fatal client ''28000'' ''user must be <user>@<branch>''
      | (user, Some branch) \<Rightarrow>
          if \<not> pe_name_re E branch then pg_fatal client ''28000'' ''user must be <user>@<branch>''
          else if pc_allowed_user c \<noteq> [] \<and> user \<noteq> pc_allowed_user c
          then pg_fatal client ''28000'' (''access denied for user '' @ user)
          else if wants_replication ps
          then pg_fatal client ''0A000'' ''replication connections are not supported through the sashiki proxy''
          else pret branch)"

definition pg_auth_terminate ::
  "'w px_env \<Rightarrow> crypto \<Rightarrow> px_config \<Rightarrow> nat \<Rightarrow> string \<Rightarrow> 'w conn \<Rightarrow> ('w, unit option) pact" where
  "pg_auth_terminate E C c fuel src client0 =
     pbind (read_startup_tls E c fuel client0) (\<lambda>st.
     case st of
       None \<Rightarrow> pret None
     | Some (client, su) \<Rightarrow>
         if su_code su = code_cancel_request then pbind (relay_cancel E su) (\<lambda>_. pret (Some ()))
         else if su_code su \<noteq> protocol_v3
         then pfail (EText (''unsupported startup code '' @ show_int (sint (su_code su))))
         else pbind (pg_check_user E c client (su_params su)) (\<lambda>branch.
              pbind (pg_admit E C c src client (param (su_params su) ''user'')) (\<lambda>_.
              pg_route E C c fuel client (su_params su) branch)))"

section \<open>What each part adds to the trace\<close>

lemma adds_fatal: "adds_only Q (pg_fatal client st msg)"
  unfolding pg_fatal_def by (intro adds_intros)

lemma adds_write_auth: "adds_only Q (write_auth client code data)"
  unfolding write_auth_def by (intro adds_intros)

lemma adds_server_first: "adds_only Q (server_first_step E C c initial)"
  unfolding server_first_step_def by (intro adds_intros)

lemma adds_second_half: "adds_only is_check (scram_second_half C client initial v)"
  unfolding scram_second_half_def
  by (cases v) (auto simp: Let_def is_check_def intro!: adds_intros adds_write_auth adds_log)

lemma adds_scram: "adds_only is_check (verify_client_scram E C c client)"
  unfolding verify_client_scram_def
  by (intro adds_intros adds_write_auth adds_server_first adds_second_half)

lemma adds_slot_run: "adds_only is_check (verify_slot_run E C c src client)"
  unfolding verify_slot_run_def by (auto intro!: adds_intros adds_scram)

lemma adds_pg_admit: "adds_only is_check (pg_admit E C c src client u)"
  unfolding pg_admit_def pg_verify_client_def
  by (auto split: option.split intro!: adds_intros adds_slot_run adds_fatal)

lemma adds_read_startup: "adds_only Q (read_startup_tls E c fuel client)"
  by (induction fuel arbitrary: client) (auto intro!: adds_intros)

lemma adds_check_user: "adds_only Q (pg_check_user E c client ps)"
  unfolding pg_check_user_def by (auto split: prod.split option.split intro!: adds_intros adds_fatal)

lemma adds_pg_step: "adds_only Q (pg_backend_step E C c backend sc m)"
  unfolding pg_backend_step_def write_password_def write_sasl_initial_def
  by (auto simp: Let_def split: option.split prod.split intro!: adds_intros)

lemma adds_pg_loop: "adds_only Q (pg_backend_loop E C c backend fuel sc)"
  by (induction fuel arbitrary: sc) (auto split: option.split intro!: adds_intros adds_pg_step)

lemma adds_pg_authenticate: "adds_only Q (pg_authenticate_backend E C c fuel backend ps)"
  unfolding pg_authenticate_backend_def by (intro adds_intros adds_pg_loop)

lemma adds_note_key: "adds_only Q (note_key addr m rel)"
  by (simp add: adds_def note_key_def register_cancel_def split: option.split)

lemma adds_forward: "adds_only Q (forward_startup client backend addr fuel rel)"
  by (induction fuel arbitrary: rel) (auto intro!: adds_intros adds_note_key)

lemma unregister_trace [simp]: "px_trace (unregister_cancel k s) = px_trace s"
  by (simp add: unregister_cancel_def)

lemma chain_cases:
  "(\<And>a. chain evs (k a)) \<Longrightarrow> chain evs m \<Longrightarrow> chain evs (case x of None \<Rightarrow> m | Some a \<Rightarrow> k a)"
  "(\<And>a b. chain evs (l a b)) \<Longrightarrow> chain evs (case p of (a, b) \<Rightarrow> l a b)"
  by (simp_all split: option.split prod.split)

lemma unregister_case_trace:
  "px_trace ((case rel of None \<Rightarrow> (\<lambda>s. s) | Some k \<Rightarrow> unregister_cancel k) s) = px_trace s"
  by (simp split: option.split)

lemma chain_pg_session:
  "chain [PxDialed (pc_backend_host c @ '':'' @ show_int port), PxTouched branch, PxPiped branch]
     (pg_session E C c fuel client ps branch port)"
  unfolding pg_session_def Let_def
  by (rule chain_if chain_log chain_phandle chain_cases chain_finally unregister_case_trace chain_pbind
      adds_fatal adds_pg_authenticate adds_forward adds_if adds_intros chain_quiet)+

lemma pg_route_events:
  "\<exists>evs. px_trace (snd (pg_route E C c fuel client ps branch s)) = evs @ px_trace s \<and> route_events E c branch evs"
  unfolding pg_route_def
  by (rule route_events_intro)
    (rule chain_pg_session chain_if chain_finally chain_pbind adds_fatal adds_intros close_session_trace chain_quiet)+

section \<open>What a successful part did\<close>

lemma fatal_Done [simp]: "pg_fatal client st msg s \<noteq> (Done b, s')"
  by (simp add: pg_fatal_def phandle_Done)

lemma check_user_Done:
  "pg_check_user E c client ps s = (Done branch, s') \<Longrightarrow>
     pe_name_re E branch \<and> \<not> wants_replication ps
     \<and> (\<exists>user. param ps ''user'' = user @ ''@'' @ branch \<and> CHR 0x40 \<notin> set user
          \<and> (pc_allowed_user c = [] \<or> user = pc_allowed_user c))"
  by (auto simp: pg_check_user_def cut_at_Some split: prod.splits option.splits if_splits)

lemma from_sum_Done: "from_sum r s = (Done a, s') \<longleftrightarrow> r = Inr a \<and> s = s'"
  by (cases r) (auto simp: from_sum_def)

definition scram_accepted :: "crypto \<Rightarrow> px_config \<Rightarrow> string list \<Rightarrow> bool" where
  "scram_accepted C c ev = (case ev of
      [initial, r2, salt, m3] \<Rightarrow> (case first_reply C (pc_app_password c) initial r2 salt of
          Inl e \<Rightarrow> False
        | Inr srv \<Rightarrow> (case final_reply C srv m3 of Inl e \<Rightarrow> False | Inr v \<Rightarrow> True))
    | _ \<Rightarrow> False)"

lemma server_first_Done:
  "server_first_step E C c initial s = (Done (r2, salt, srv), s') \<Longrightarrow>
     first_reply C (pc_app_password c) initial r2 salt = Inr srv"
  unfolding server_first_step_def pbind_Done from_sum_Done by auto

lemma second_half_Done:
  assumes "scram_second_half C client initial (r2, salt, srv) s = (Done u, s')"
  shows "\<exists>m3 v. final_reply C srv m3 = Inr v \<and> px_trace s' = PxChecked [initial, r2, salt, m3] True # px_trace s"
proof -
  from assms obtain u5 s5 m3 s6 where
    w5: "write_auth client auth_sasl_continue (ss_server_first srv) s = (Done u5, s5)"
    and w6: "on_world (read_message client) s5 = (Done m3, s6)"
    and rest: "(if ms_typ m3 \<noteq> msg_password then pfail (EText ''expected SASLResponse'')
      else let reply = final_reply C srv (ms_body m3) in
        pbind (log_event (PxChecked [initial, r2, salt, ms_body m3] (case reply of Inl e \<Rightarrow> False | Inr v \<Rightarrow> True))) (\<lambda>_.
        pbind (from_sum reply) (\<lambda>server_final. write_auth client auth_sasl_final server_final))) s6 = (Done u, s')"
    unfolding scram_second_half_def by (auto simp: pbind_Done)
  from rest have "ms_typ m3 = msg_password" by (rule_tac ccontr) simp
  with rest obtain u7 s7 v s8 where
    l: "log_event (PxChecked [initial, r2, salt, ms_body m3]
          (case final_reply C srv (ms_body m3) of Inl e \<Rightarrow> False | Inr v \<Rightarrow> True)) s6 = (Done u7, s7)"
    and f: "from_sum (final_reply C srv (ms_body m3)) s7 = (Done v, s8)"
    and w: "write_auth client auth_sasl_final v s8 = (Done u, s')"
    by (auto simp: Let_def pbind_Done)
  have reply: "final_reply C srv (ms_body m3) = Inr v" "s7 = s8" using f by (simp_all add: from_sum_Done)
  have "px_trace s6 = px_trace s" using silent [OF adds_write_auth w5] silent [OF adds_on_world w6] by simp
  moreover have "px_trace s' = px_trace s8" using silent [OF adds_write_auth w] .
  moreover have "px_trace s7 = PxChecked [initial, r2, salt, ms_body m3] True # px_trace s6"
    using l reply(1) by (auto simp: log_event_def)
  ultimately show ?thesis using reply by auto
qed

lemma scram_Done:
  assumes "verify_client_scram E C c client s = (Done u, s')"
  shows "\<exists>ev. px_trace s' = PxChecked ev True # px_trace s \<and> scram_accepted C c ev"
proof -
  from assms obtain u1 s1 m s2 initial s3 v s4 where
    w1: "write_auth client auth_sasl (scram_mechanism @ [nul, nul]) s = (Done u1, s1)"
    and w2: "on_world (read_message client) s1 = (Done m, s2)"
    and w3: "from_sum (sasl_initial m) s2 = (Done initial, s3)"
    and w4: "server_first_step E C c initial s3 = (Done v, s4)"
    and w5: "scram_second_half C client initial v s4 = (Done u, s')"
    unfolding verify_client_scram_def pbind_Done by auto
  obtain r2 salt srv where v: "v = (r2, salt, srv)" by (cases v)
  have "px_trace s4 = px_trace s"
    using silent [OF adds_write_auth w1] silent [OF adds_on_world w2] silent [OF adds_from_sum w3]
      silent [OF adds_server_first w4] by simp
  moreover obtain m3 f where "final_reply C srv m3 = Inr f" "px_trace s' = PxChecked [initial, r2, salt, m3] True # px_trace s4"
    using second_half_Done w5 v by blast
  moreover have "first_reply C (pc_app_password c) initial r2 salt = Inr srv"
    using server_first_Done w4 v by blast
  ultimately show ?thesis by (intro exI [of _ "[initial, r2, salt, m3]"]) (simp add: scram_accepted_def)
qed

lemma slot_run_Done:
  assumes "verify_slot_run E C c src client s = (Done None, s')"
  shows "\<exists>ev. px_trace s' = PxChecked ev True # px_trace s \<and> scram_accepted C c ev"
proof -
  from assms obtain u s1 and ce :: "err option" and s2 where
    w1: "pause E src s = (Done u, s1)" and w2: "total_world (pe_ctx_err E) s1 = (Done ce, s2)"
    and rest: "(if ce \<noteq> None then pret ce
      else phandle (verify_client_scram E C c client)
        (\<lambda>e. if err_is e err_password_mismatch
             then pbind (note_failure E src) (\<lambda>_. pret (Some e)) else pret (Some e))
        (\<lambda>_. pbind (note_success src) (\<lambda>_. pret None))) s2 = (Done None, s')"
    unfolding verify_slot_run_def pbind_Done by auto
  from rest have "ce = None" by (cases ce) auto
  with rest obtain u3 s3 where w3: "verify_client_scram E C c client s2 = (Done u3, s3)"
    and w4: "pbind (note_success src) (\<lambda>_. pret None) s3 = (Done (None :: err option), s')"
    by (auto simp: phandle_Done pbind_Done split: if_splits)
  have "px_trace s' = px_trace s3" using w4 by (auto simp: pbind_Done note_success_def on_limiter_def)
  moreover have "px_trace s2 = px_trace s" using silent [OF adds_pause w1] silent [OF adds_total_world w2] by simp
  ultimately show ?thesis using scram_Done [OF w3] by auto
qed

lemma pg_admit_Done:
  assumes "pg_admit E C c src client u s = (Done x, s')"
  shows "\<exists>ev. px_trace s' = PxChecked ev True # px_trace s \<and> scram_accepted C c ev"
proof -
  from assms obtain v s1 where w1: "pg_verify_client E C c src client s = (Done v, s1)"
    and rest: "(if v = None then pg_fatal client ''53300'' ''too many concurrent authentication attempts''
     else pbind (total_world (pe_ctx_err E)) (\<lambda>ce.
       case ce of Some e \<Rightarrow> pfail e
       | None \<Rightarrow> if v \<noteq> Some None
           then pg_fatal client ''28P01'' (''password authentication failed for user '' @ u)
           else pret ())) s1 = (Done x, s')"
    unfolding pg_admit_def pbind_Done by auto
  have "v \<noteq> None" using rest by (cases v) auto
  with rest obtain ce s2 where w2: "total_world (pe_ctx_err E) s1 = (Done ce, s2)"
    and r2: "(case ce of Some e \<Rightarrow> pfail e
       | None \<Rightarrow> if v \<noteq> Some None
           then pg_fatal client ''28P01'' (''password authentication failed for user '' @ u)
           else pret ()) s2 = (Done x, s')"
    by (auto simp: pbind_Done)
  have "v = Some None \<and> s' = s2" using r2 by (cases ce) (auto split: if_splits)
  moreover have "px_trace s2 = px_trace s1" using silent [OF adds_total_world w2] .
  moreover from w1 calculation have "with_slot E src (verify_slot_run E C c src client) s = (Done (Some None), s1)"
    by (simp add: pg_verify_client_def)
  from with_slot_Done [OF this] obtain t t' where "px_trace t = px_trace s"
    "verify_slot_run E C c src client t = (Done None, t')" "px_trace s1 = px_trace t'" by blast
  ultimately show ?thesis using slot_run_Done by metis
qed

text \<open>Reading the startup message leaves the registered keys alone; a relayed cancel request makes one
  connection, to what its key is registered for.\<close>

definition keeps_cancels :: "('w, 'a) pact \<Rightarrow> bool" where
  "keeps_cancels m \<longleftrightarrow> (\<forall>s. px_cancels (snd (m s)) = px_cancels s)"

lemma keeps_cancels_phandle:
  assumes "keeps_cancels m" "\<And>e. keeps_cancels (h e)" "\<And>a. keeps_cancels (k a)"
  shows "keeps_cancels (phandle m h k)"
  unfolding keeps_cancels_def
proof
  fix s
  obtain r t where m: "m s = (r, t)" by fastforce
  then have "px_cancels t = px_cancels s" using assms(1) unfolding keeps_cancels_def by (metis snd_conv)
  with m assms(2,3) show "px_cancels (snd (phandle m h k s)) = px_cancels s"
    by (cases r) (simp_all add: phandle_def keeps_cancels_def)
qed

lemma keeps_cancels_simple: "keeps_cancels (pret a)" "keeps_cancels (pfail e)" "keeps_cancels (on_world f)"
  by (simp_all add: keeps_cancels_def pret_def pfail_def on_world_def split: prod.split sum.split)

lemma keeps_cancels_startup: "keeps_cancels (read_startup_tls E c fuel client)"
proof (induction fuel arbitrary: client)
  case (Suc fuel)
  then show ?case
    unfolding read_startup_tls.simps pbind_def
    by (auto intro!: keeps_cancels_phandle keeps_cancels_simple)
qed (simp add: keeps_cancels_simple)

lemma relay_cancel_trace:
  "px_trace (snd (relay_cancel E su s)) = px_trace s
     \<or> (\<exists>addr. map_of (px_cancels s) (su_cancel_pid su, su_cancel_secret su) = Some addr
          \<and> px_trace (snd (relay_cancel E su s)) = PxDialed addr # px_trace s)"
proof (cases "lookup_cancel (su_cancel_pid su, su_cancel_secret su) s")
  case None
  then show ?thesis by (simp add: relay_cancel_def pret_def)
next
  case (Some addr)
  define m where "m = (phandle (on_world (pe_dial E addr)) (\<lambda>e. pfail (EWrap (''cancel: backend '' @ addr @ '': '') e [])) (\<lambda>backend.
        phandle (on_world (cn_write backend (build_cancel_request (su_cancel_pid su) (su_cancel_secret su))))
          (\<lambda>e. pfail (EWrap ''cancel: send: '' e [])) pret))"
  let ?s = "s\<lparr>px_trace := PxDialed addr # px_trace s\<rparr>"
  have "adds_only (\<lambda>_. False) m" unfolding m_def by (intro adds_intros)
  then have "px_trace (snd (m ?s)) = px_trace ?s" using silent by (metis prod.collapse)
  moreover have "relay_cancel E su s = m ?s"
    using Some by (simp add: relay_cancel_def m_def pbind_def phandle_def log_event_def)
  ultimately show ?thesis using Some by (simp add: lookup_cancel_def)
qed

section \<open>Properties\<close>

text \<open>C12. The PostgreSQL proxy touches no branch before the password is verified, only the branch that the
  client named, and never for a replication connection. The events that a handler adds to the trace are first checks of passwords.
  If anything follows, then the startup message of this connection was read, and either it starts a session: its
  \<^verbatim>\<open>user\<close> is \<open>user@branch\<close> with the allowed user (where one is configured) and a branch that the pattern allows, it asks for no
  replication, the last check was a SCRAM exchange that the server side accepts for the application's password, and what follows is the
  call of the router for this branch, then, only where the router answered with a port, the connection to that port of the
  configured host, the record of use of this branch and the relay for it, in this order, up to some point; or it is
  a cancel request, and what follows is one connection, to the address that is registered for the very key of this
  request, with no check.\<close>

theorem pg_routes_after_verification:
  "\<exists>later checks. px_trace (snd (pg_auth_terminate E C c fuel src client s)) = later @ checks @ px_trace s
     \<and> list_all is_check checks
     \<and> (later = [] \<or> (\<exists>cl su s1. read_startup_tls E c fuel client s = (Done (Some (cl, su)), s1)
        \<and> (su_code su = protocol_v3 \<and> \<not> wants_replication (su_params su)
             \<and> (\<exists>user branch ev. param (su_params su) ''user'' = user @ ''@'' @ branch \<and> CHR 0x40 \<notin> set user
                  \<and> (pc_allowed_user c = [] \<or> user = pc_allowed_user c) \<and> pe_name_re E branch
                  \<and> checks \<noteq> [] \<and> hd checks = PxChecked ev True \<and> scram_accepted C c ev
                  \<and> route_events E c branch later)
           \<or> su_code su = code_cancel_request \<and> checks = []
             \<and> (\<exists>addr. later = [PxDialed addr]
                  \<and> map_of (px_cancels s) (su_cancel_pid su, su_cancel_secret su) = Some addr))))"
proof -
  obtain r1 s1 where g: "read_startup_tls E c fuel client s = (r1, s1)" by fastforce
  have t1: "px_trace s1 = px_trace s" using silent [OF adds_read_startup g] .
  have quiet: ?thesis if "px_trace (snd (pg_auth_terminate E C c fuel src client s)) = px_trace s"
    using that by (intro exI [of _ "[]"]) simp
  consider (go) cl su where "r1 = Done (Some (cl, su))" | (stop) "\<And>cl su. r1 \<noteq> Done (Some (cl, su))" by blast
  then show ?thesis
  proof cases
    case stop
    then show ?thesis
      using g t1 by (intro quiet) (cases r1; auto simp: pg_auth_terminate_def pbind_def phandle_def pfail_def
          pret_def split: option.splits)
  next
    case (go cl su)
    let ?ps = "su_params su"
    have run: "pg_auth_terminate E C c fuel src client s =
        (if su_code su = code_cancel_request then pbind (relay_cancel E su) (\<lambda>_. pret (Some ()))
         else if su_code su \<noteq> protocol_v3 then pfail (EText (''unsupported startup code '' @ show_int (sint (su_code su))))
         else pbind (pg_check_user E c cl ?ps) (\<lambda>branch.
              pbind (pg_admit E C c src cl (param ?ps ''user'')) (\<lambda>_. pg_route E C c fuel cl ?ps branch))) s1"
      using g go by (simp add: pg_auth_terminate_def pbind_def phandle_def)
    consider (cancel) "su_code su = code_cancel_request"
      | (other) "su_code su \<noteq> code_cancel_request" "su_code su \<noteq> protocol_v3"
      | (start) "su_code su \<noteq> code_cancel_request" "su_code su = protocol_v3" by blast
    then show ?thesis
    proof cases
      case cancel
      have same: "px_trace (snd (pg_auth_terminate E C c fuel src client s)) = px_trace (snd (relay_cancel E su s1))"
        using run cancel
        by (cases "relay_cancel E su s1"; cases "fst (relay_cancel E su s1)")
          (auto simp: pbind_def phandle_def pret_def pfail_def)
      have kept: "px_cancels s1 = px_cancels s"
        using keeps_cancels_startup [of E c fuel client] g unfolding keeps_cancels_def by (metis snd_conv)
      consider "px_trace (snd (relay_cancel E su s1)) = px_trace s1"
        | (one) addr where "map_of (px_cancels s1) (su_cancel_pid su, su_cancel_secret su) = Some addr"
          "px_trace (snd (relay_cancel E su s1)) = PxDialed addr # px_trace s1"
        using relay_cancel_trace [of E su s1] by blast
      then show ?thesis
      proof cases
        case (one addr)
        let ?later = "[PxDialed addr]"
        have "px_trace (snd (pg_auth_terminate E C c fuel src client s)) = ?later @ [] @ px_trace s"
          using same one t1 by simp
        then show ?thesis using g go cancel one(1) kept
          by (intro exI [of _ ?later] exI [of _ "[]"]) simp
      qed (use t1 same in \<open>intro quiet, simp\<close>)
    next
      case other
      then show ?thesis using run t1 by (intro quiet) (simp add: pfail_def)
    next
      case start
      obtain r2 s2 where u: "pg_check_user E c cl ?ps s1 = (r2, s2)" by fastforce
      have t2: "px_trace s2 = px_trace s" using silent [OF adds_check_user u] t1 by simp
      show ?thesis
      proof (cases r2)
        case (Done branch)
        obtain r3 s3 where a: "pg_admit E C c src cl (param ?ps ''user'') s2 = (r3, s3)" by fastforce
        obtain e3 where e3: "px_trace s3 = e3 @ px_trace s2" "list_all is_check e3"
          using adds_split [OF adds_pg_admit a] by blast
        obtain user where re: "pe_name_re E branch" "\<not> wants_replication ?ps" "param ?ps ''user'' = user @ ''@'' @ branch"
          "CHR 0x40 \<notin> set user" "pc_allowed_user c = [] \<or> user = pc_allowed_user c"
          using check_user_Done u Done by blast
        show ?thesis
        proof (cases r3)
          case (Done x)
          obtain r4 s4 where f: "pg_route E C c fuel cl ?ps branch s3 = (r4, s4)" by fastforce
          obtain e4 where e4: "px_trace s4 = e4 @ px_trace s3" "route_events E c branch e4"
            using pg_route_events f by (metis snd_conv)
          obtain ev where ev: "px_trace s3 = PxChecked ev True # px_trace s2" "scram_accepted C c ev"
            using pg_admit_Done a Done by blast
          have "snd (pg_auth_terminate E C c fuel src client s) = s4"
            using run start u \<open>r2 = _\<close> a Done f by (simp add: pbind_def phandle_def)
          moreover have one: "e3 = [PxChecked ev True]" using ev(1) e3(1) by simp
          moreover have "\<exists>user branch ev. param ?ps ''user'' = user @ ''@'' @ branch \<and> CHR 0x40 \<notin> set user
              \<and> (pc_allowed_user c = [] \<or> user = pc_allowed_user c) \<and> pe_name_re E branch
              \<and> e3 \<noteq> [] \<and> hd e3 = PxChecked ev True \<and> scram_accepted C c ev \<and> route_events E c branch e4"
            using re ev(2) e4(2) one by (intro exI [of _ user] exI [of _ branch] exI [of _ ev]) simp
          ultimately show ?thesis
            using e3 e4 t2 re(2) g go start(2) by (intro exI [of _ e4] exI [of _ e3]) simp
        qed (use run start u \<open>r2 = _\<close> a e3 t2 in \<open>intro exI [of _ "[]"] exI [of _ e3],
             simp add: pbind_def phandle_def pfail_def\<close>)+
      qed (use run start u t2 in \<open>intro quiet, simp add: pbind_def phandle_def pfail_def\<close>)+
    qed
  qed
qed

section \<open>The loops end\<close>

lemma message_consumes:
  "on_world (read_message pipe_conn) s = (Done m, t) \<Longrightarrow> input_left t + 5 \<le> input_left s"
  by (cases "px_world s")
    (auto simp: on_world_def read_message_def pipe_conn_def input_left_def Let_def split: if_splits prod.splits sum.splits)

lemma startup_consumes:
  "on_world (read_startup pipe_conn) s = (Done m, t) \<Longrightarrow> input_left t + 4 \<le> input_left s"
  by (cases "px_world s")
    (auto simp: on_world_def read_startup_def pipe_conn_def input_left_def Let_def split: if_splits prod.splits sum.splits)

lemma no_growth_writes:
  "no_growth (on_world (write_message pipe_conn typ body))" "no_growth (on_world (cn_write pipe_conn b))"
  by (rule no_growth_world, simp add: write_message_def pipe_conn_def split: prod.split)+

lemma no_growth_sum: "no_growth (from_sum r)"
  by (cases r) (simp_all add: from_sum_def)

lemma no_growth_Done: "no_growth m \<Longrightarrow> m s = (Done a, t) \<Longrightarrow> input_left t \<le> input_left s"
  unfolding no_growth_def by (metis snd_conv)

definition calm_random :: "(string \<times> string) px_env \<Rightarrow> bool" where
  "calm_random E \<longleftrightarrow> (\<forall>n w. length (fst (snd (pe_random E n w))) \<le> length (fst w))"

lemma no_growth_pg_step:
  assumes "calm_random E"
  shows "no_growth (pg_backend_step E C c pipe_conn sc m)"
proof -
  have "no_growth (on_world (pe_random E n))" for n
    using assms unfolding calm_random_def by (intro no_growth_world) blast
  then show ?thesis
    unfolding pg_backend_step_def write_password_def write_sasl_initial_def
    by (auto simp: Let_def split: option.split prod.split
        intro!: no_growth_pbind no_growth_writes no_growth_sum)
qed

lemma pg_backend_loop_ends:
  assumes "calm_random E"
  shows "input_left s < 5 * fuel \<Longrightarrow> fst (pg_backend_loop E C c pipe_conn fuel sc s) \<noteq> Done None"
proof (induction fuel arbitrary: sc s)
  case (Suc fuel)
  obtain r t where rd: "on_world (read_message pipe_conn) s = (r, t)" by (cases "on_world (read_message pipe_conn) s")
  show ?case
  proof (cases r)
    case (Done m)
    with rd have le: "input_left t + 5 \<le> input_left s" using message_consumes by blast
    obtain r2 t2 where st: "pg_backend_step E C c pipe_conn sc m t = (r2, t2)"
      by (cases "pg_backend_step E C c pipe_conn sc m t")
    show ?thesis
    proof (cases r2)
      case (Done v)
      have "input_left t2 \<le> input_left t" using no_growth_Done [OF no_growth_pg_step [OF assms]] st Done by blast
      with le Suc show ?thesis
        by (cases v) (simp_all add: phandle_def pbind_def rd \<open>r = _\<close> st Done pret_def)
    qed (simp_all add: phandle_def pbind_def rd \<open>r = _\<close> st pfail_def)
  qed (simp_all add: phandle_def rd pfail_def)
qed simp

lemma note_key_input: "\<exists>rel' t2. note_key addr m rel t = (Done rel', t2) \<and> input_left t2 = input_left t"
  by (auto simp: note_key_def register_cancel_def input_left_def split: option.split)

lemma forward_startup_ends:
  "input_left s < 5 * fuel \<Longrightarrow> fst (forward_startup pipe_conn pipe_conn addr fuel rel s) \<noteq> Done None"
proof (induction fuel arbitrary: rel s)
  case (Suc fuel)
  obtain r t where rd: "on_world (read_message pipe_conn) s = (r, t)" by (cases "on_world (read_message pipe_conn) s")
  show ?case
  proof (cases r)
    case (Done m)
    with rd have le: "input_left t + 5 \<le> input_left s" using message_consumes by blast
    obtain rel' t2 where nk: "note_key addr m rel t = (Done rel', t2)" "input_left t2 = input_left t"
      using note_key_input by blast
    obtain r3 t3 where wr: "on_world (write_message pipe_conn (ms_typ m) (ms_body m)) t2 = (r3, t3)"
      by (cases "on_world (write_message pipe_conn (ms_typ m) (ms_body m)) t2")
    then have "input_left t3 \<le> input_left t2"
      using no_growth_writes(1) unfolding no_growth_def by (metis snd_conv)
    with le nk(2) Suc show ?thesis
      by (cases r3) (simp_all add: phandle_def pbind_def rd Done nk(1) wr pret_def)
  qed (simp_all add: phandle_def rd pret_def)
qed simp

lemma read_startup_tls_ends:
  assumes "\<not> pc_has_tls c"
  shows "input_left s < 4 * fuel \<Longrightarrow> fst (read_startup_tls E c fuel pipe_conn s) \<noteq> Done None"
proof (induction fuel arbitrary: s)
  case (Suc fuel)
  obtain r t where rd: "on_world (read_startup pipe_conn) s = (r, t)" by (cases "on_world (read_startup pipe_conn) s")
  show ?case
  proof (cases r)
    case (Done su)
    with rd have le: "input_left t + 4 \<le> input_left s" using startup_consumes by blast
    obtain r3 t3 where wr: "on_world (cn_write pipe_conn ''N'') t = (r3, t3)"
      by (cases "on_world (cn_write pipe_conn ''N'') t")
    then have "input_left t3 \<le> input_left t"
      using no_growth_writes(2) unfolding no_growth_def by (metis snd_conv)
    with le Suc show ?thesis
      by (cases r3) (simp_all add: assms phandle_def pbind_def rd Done wr pret_def pfail_def)
  qed (simp_all add: phandle_def pbind_def rd pfail_def)
qed simp

text \<open>The three loops of the PostgreSQL handler end: with as much fuel as the peer can send
  message headers, reading the startup message (without TLS), authenticating to a backend and relaying
  its startup are never still running, whatever bytes arrive.\<close>

theorem pg_loops_end:
  assumes "\<not> pc_has_tls c" "calm_random E" "input_left s < 4 * fuel"
  shows "fst (read_startup_tls E c fuel pipe_conn s) \<noteq> Done None
     \<and> fst (pg_backend_loop E C c pipe_conn fuel sc s) \<noteq> Done None
     \<and> fst (forward_startup pipe_conn pipe_conn addr fuel rel s) \<noteq> Done None"
  using assms read_startup_tls_ends pg_backend_loop_ends forward_startup_ends by simp

definition sample_px_env :: "(string \<times> string) px_env" where
  "sample_px_env = \<lparr>pe_clock = (\<lambda>w. (0, w)), pe_sleep = (\<lambda>d w. w), pe_ctx_err = (\<lambda>w. (None, w)),
     pe_random = (\<lambda>n w. (Inr (replicate n (CHR ''r'')), w)), pe_tls = (\<lambda>c w. (Inr c, w)),
     pe_dial = (\<lambda>a w. (Inr pipe_conn, w)), pe_route = (\<lambda>b w. (Inr 15432, w)), pe_touch = (\<lambda>b w. w),
     pe_pipe = (\<lambda>a b w. w), pe_name_re = (\<lambda>b. b \<noteq> [])\<rparr>"

theorem pg_loops_end_witness:
  "fst (read_startup_tls sample_px_env sample_px_config 4 pipe_conn (new_px (''xxxxxxxxxxxx'', []))) \<noteq> Done None
     \<and> fst (pg_backend_loop sample_px_env toy_crypto sample_px_config pipe_conn 4 None (new_px (''xxxxxxxxxxxx'', []))) \<noteq> Done None
     \<and> fst (forward_startup pipe_conn pipe_conn ''h:1'' 4 None (new_px (''xxxxxxxxxxxx'', []))) \<noteq> Done None"
  by (rule pg_loops_end)
    (simp_all add: sample_px_config_def with_defaults_def calm_random_def sample_px_env_def input_left_def new_px_def)

end
