(* ===== verification/Recovery.thy ===== *)
theory Recovery
  imports Outcomes
begin

text \<open>
  What the start of the daemon does to the state that an interrupted run left: operations that were
  running become failed, and reconciliation leaves no branch in the middle of a creation or a reset.
\<close>

section \<open>Operations\<close>

definition no_running_op :: "db \<Rightarrow> bool" where
  "no_running_op d \<longleftrightarrow> (\<forall>x \<in> set (operations d). o_state x \<noteq> OpRunning)"

lemma no_running_same:
  "no_running_op (snd (set_state t n st msg d)) = no_running_op d"
  "no_running_op (snd (set_error t n fop code recov msg sugg d)) = no_running_op d"
  "no_running_op (snd (touch_last_conn t n d)) = no_running_op d"
  "no_running_op (snd (set_meta n m d)) = no_running_op d"
  "no_running_op (snd (set_expires_at n t d)) = no_running_op d"
  "no_running_op (snd (update_origin n orig d)) = no_running_op d"
  "no_running_op (snd (set_provision n vref snap d)) = no_running_op d"
  "no_running_op (snd (delete_branch n d)) = no_running_op d"
  "no_running_op (snd (mark_error_at_if_missing t n d)) = no_running_op d"
  "no_running_op (snd (record_hook_start t n ev d)) = no_running_op d"
  "no_running_op (snd (record_hook_finish t i exitc d)) = no_running_op d"
  "no_running_op (snd (prune_hook_runs before d)) = no_running_op d"
  "no_running_op (snd (register_baseline t snap p d)) = no_running_op d"
  "no_running_op (snd (delete_baseline_row snap d)) = no_running_op d"
  by (simp_all add: no_running_op_def set_state_def set_error_def touch_last_conn_def set_meta_def
    set_expires_at_def update_origin_def set_provision_def mark_error_at_if_missing_def update_or_missing_def
    update_branch_def delete_branch_def record_hook_start_def record_hook_finish_def prune_hook_runs_def
    register_baseline_def delete_baseline_row_def Let_def)

lemma no_running_prune: "no_running_op d \<longrightarrow> no_running_op (snd (prune_operations before d))"
  by (simp add: prune_operations_def no_running_op_def)

text \<open>Reconciliation starts no operation, as no background work does.\<close>

interpretation opless: db_background "\<lambda>d d'. no_running_op d \<longrightarrow> no_running_op d'" E for E :: "'w env"
proof unfold_locales
  fix n port orig
  show "keeps (\<lambda>s s'. no_running_op (mdb s) \<longrightarrow> no_running_op (mdb s')) (admit_create E n port orig)"
    unfolding keeps_def
  proof
    fix s :: "'w mgr"
    have "admit_create E n port orig s = (fst (admit_create E n port orig s),
        snd (admit_create E n port orig s))" by simp
    from admit_create_effect [OF this]
    show "no_running_op (mdb s) \<longrightarrow> no_running_op (mdb (snd (admit_create E n port orig s)))"
      by (auto simp: no_running_op_def create_branch_def split: if_splits)
  qed
qed (auto simp: no_running_same no_running_prune)

lemma no_running_recovered: "no_running_op (snd (recover_interrupted_operations t d))"
  by (auto simp: recover_interrupted_operations_def no_running_op_def)

section \<open>Branches\<close>

definition half_built :: "bstate \<Rightarrow> bool" where
  "half_built st \<longleftrightarrow> st = Creating \<or> st = Resetting"

definition stable :: "string \<Rightarrow> 'w mgr \<Rightarrow> bool" where
  "stable n s \<longleftrightarrow> (case row_of (mdb s) n of None \<Rightarrow> True | Some r \<Rightarrow> \<not> half_built (r_state r))"

text \<open>Whatever reconciliation does to a branch, it puts none into the middle of an operation.\<close>

interpretation steady: call_relation "\<lambda>s s'. stable n s \<longrightarrow> stable n s'" for n
  by unfold_locales (auto simp: stable_def)

lemma steady_statements:
  "\<not> half_built st \<Longrightarrow> sql_kept (\<lambda>s s'. stable n s \<longrightarrow> stable n s') (set_state t m st msg)"
  "sql_kept (\<lambda>s s'. stable n s \<longrightarrow> stable n s') (set_error t m fop code recov msg sugg)"
  "sql_kept (\<lambda>s s'. stable n s \<longrightarrow> stable n s') (delete_branch m)"
  "sql_kept (\<lambda>s s'. stable n s \<longrightarrow> stable n s') (record_hook_start t m ev)"
  "sql_kept (\<lambda>s s'. stable n s \<longrightarrow> stable n s') (record_hook_finish t i exitc)"
  by (auto simp: sql_kept_def stable_def rows half_built_def set_error_def update_or_missing_def
      record_hook_start_def record_hook_finish_def Let_def split: option.splits if_splits)

lemma steady_delete: "steady.safe n (delete E m)"
  unfolding delete_def put_state_def run_hook_def
  by (intro steady.keeps_intros steady.safe_parts steady.safe_query query steady.safe_sql steady.safe_sql_at
      steady.safe_mark steady_statements) (simp_all add: half_built_def)

lemma steady_reconcile_branch: "steady.safe n (reconcile_branch E mutate b rep)"
  unfolding reconcile_branch_def interrupted_op_def put_state_def
  by (intro steady.keeps_intros steady.safe_parts steady.safe_sql_at steady_statements steady_delete)
    (simp_all add: half_built_def)

lemma reconcile_branch_returns: "\<exists>rep'. fst (reconcile_branch E mutate b rep s) = Inr rep'"
  by (auto simp: reconcile_branch_def interrupted_op_def handle_err_def ignoring_def check_def ret_def attempt_def
      split: prod.splits sum.splits)

text \<open>A branch that was in the middle of an operation is marked.\<close>

lemma half_built_marked:
  assumes "driver_works E" and "half_built (b_state b)"
  shows "stable (b_name b) (snd (reconcile_branch E True b rep s))"
proof -
  have "triple (\<lambda>_. True) (reconcile_branch E True b rep) (\<lambda>_. stable (b_name b)) (\<lambda>_. stable (b_name b))"
  proof -
    have mark: "triple (\<lambda>_. True) (sql_at E (\<lambda>t. set_error t (b_name b) o' code r msg sugg))
        (\<lambda>_. stable (b_name b)) (\<lambda>_. stable (b_name b))" for o' code r msg sugg
      by (rule triple_sql_at [OF assms(1)])
        (auto simp: after_sql_def stable_def rows set_error_def update_or_missing_def half_built_def
          split: option.splits)
    have any: "triple (\<lambda>_. True) m (\<lambda>_ _. True) (\<lambda>_ _. True)" for m :: "('a, string) mact"
      by (simp add: triple_def split: prod.split sum.split)
    have never: "triple (\<lambda>_. True) (interrupted_op E b) (\<lambda>_ _. True) (\<lambda>_ _. False)"
      by (auto simp: triple_def interrupted_op_def handle_err_def ret_def split: prod.split sum.split)
    show ?thesis
      using assms(2) unfolding reconcile_branch_def half_built_def
      by (auto intro!: triple_check [OF triple_false [OF never]] triple_ignoring [OF mark] triple_ret)
  qed
  then show ?thesis
    by (cases "reconcile_branch E True b rep s"; cases "fst (reconcile_branch E True b rep s)")
      (auto simp: triple_def dest: spec [of _ s])
qed

lemma reconciled_all:
  assumes "driver_works E"
    and "\<And>n. (\<And>b. b \<in> set bs \<Longrightarrow> half_built (b_state b) \<Longrightarrow> b_name b \<noteq> n) \<Longrightarrow> stable n s"
  shows "stable n (snd (fold_act (reconcile_branch E True) bs rep s))"
  using assms(2)
proof (induction bs arbitrary: s rep)
  case Nil
  then show ?case by (simp add: ret_def)
next
  case (Cons b bs)
  obtain rep' s1 where r: "reconcile_branch E True b rep s = (Inr rep', s1)"
    using reconcile_branch_returns [of E True b rep s] by (metis prod.collapse)
  have "stable m s1" if other: "\<And>b. b \<in> set bs \<Longrightarrow> half_built (b_state b) \<Longrightarrow> b_name b \<noteq> m" for m
  proof (cases "half_built (b_state b) \<and> b_name b = m")
    case True
    then show ?thesis using half_built_marked [OF assms(1), of b rep s] r by auto
  next
    case False
    then have "stable m s" using Cons.prems other by (metis set_ConsD)
    then show ?thesis using steady.keepsE [OF steady_reconcile_branch r] by blast
  qed
  then show ?case using Cons.IH by (simp add: check_def r)
qed

theorem reconcile_settles:
  assumes "driver_works E"
  shows "stable n (snd (reconcile E True s))"
proof -
  obtain w where w: "sql E list_branches s = (Inr (map scan_branch (sort_key r_created (branches (mdb s)))),
      s\<lparr>world := w\<rparr>)"
    using sql_works [OF assms, of list_branches s] by (auto simp: list_branches_def)
  let ?bs = "map scan_branch (sort_key r_created (branches (mdb s)))"
  have "stable m (s\<lparr>world := w\<rparr>)"
    if "\<And>b. b \<in> set ?bs \<Longrightarrow> half_built (b_state b) \<Longrightarrow> b_name b \<noteq> m" for m
  proof (cases "row_of (mdb s) m")
    case None
    then show ?thesis by (simp add: stable_def)
  next
    case (Some r)
    then have "r \<in> set (branches (mdb s))" by (auto simp: row_of_def dest: find_key_mem)
    then have "scan_branch r \<in> set ?bs" by simp
    moreover have "b_name (scan_branch r) = m" "b_state (scan_branch r) = r_state r"
      using row_of_name [OF Some] by (simp_all add: scan_branch_def)
    ultimately have "\<not> half_built (r_state r)" using that by metis
    with Some show ?thesis by (simp add: stable_def)
  qed
  then have f: "stable n (snd (fold_act (reconcile_branch E True) ?bs rep (s\<lparr>world := w\<rparr>)))" for rep
    by (rule reconciled_all [OF assms])
  let ?rep = "\<lparr>rp_demoted = [], rp_errored = [], rp_orphans = [], rp_interrupted = []\<rparr>"
  obtain r s2 where r: "fold_act (reconcile_branch E True) ?bs ?rep (s\<lparr>world := w\<rparr>) = (r, s2)"
    by (cases "fold_act (reconcile_branch E True) ?bs ?rep (s\<lparr>world := w\<rparr>)")
  then have "stable n s2" using f [of ?rep] by simp
  define k where "k rep = (case st_list_volumes (sto E) of
       None \<Rightarrow> ret rep
     | Some lv \<Rightarrow> handle_err (ext lv) (\<lambda>_. ret rep)
         (\<lambda>vols. ret (rep\<lparr>rp_orphans := rp_orphans rep @ filter (is_orphan ?bs) vols\<rparr>)))" for rep :: report
  have "steady.safe n (k rep)" for rep
    unfolding k_def by (intro steady.keeps_intros steady.safe_parts)
  then have "stable n (snd (k rep s2))" for rep
    using \<open>stable n s2\<close> steady.keepsD by blast
  moreover have "reconcile E True s = (case r of Inl e \<Rightarrow> (Inl e, s2) | Inr rep \<Rightarrow> k rep s2)"
    by (simp add: reconcile_def check_def w r k_def split: sum.split)
  ultimately show ?thesis using \<open>stable n s2\<close> by (simp split: sum.split)
qed

end
