(* ===== verification/Settings.thy ===== *)
theory Settings
  imports Complex_Main Sample "HOL-Library.Word"
begin

text \<open>
  internal/config and internal/secretref: the sizes, the records of config.yaml with their
  defaults, normalisation and validation, the accessors, and where a secret is read from. The
  decoder of YAML, the compiler of regular expressions and AWS are parameters. A float64 is a
  rational number, not a number or an infinity, with the comparisons of Go.
\<close>

section \<open>Sizes\<close>

text \<open>
  \<^verbatim>\<open>strings.ToLower\<close>: the two characters beyond ASCII whose lower case is an ASCII letter are
  U+212A (the sign of the kelvin) and U+0130. Other characters beyond ASCII stay as they are, where
  the function takes them to others beyond ASCII: the sources compare the result with ASCII only.
\<close>

definition lower_char :: "char \<Rightarrow> char" where
  "lower_char c = (let n = of_char c :: nat in if 65 \<le> n \<and> n \<le> 90 then char_of (n + 32) else c)"

function to_lower :: "string \<Rightarrow> string" where
  "to_lower s =
     (if s = [] then []
      else if take 3 s = [CHR 0xE2, CHR 0x84, CHR 0xAA] then CHR ''k'' # to_lower (drop 3 s)
      else if take 2 s = [CHR 0xC4, CHR 0xB0] then CHR ''i'' # to_lower (drop 2 s)
      else lower_char (hd s) # to_lower (tl s))"
  by pat_completeness auto
termination by (relation "measure length") auto

declare to_lower.simps [simp del]

definition size_unit :: "string \<Rightarrow> int option" where
  "size_unit u =
     (if u \<in> set ['''', ''b''] then Some 1
      else if u \<in> set [''k'', ''kb'', ''kib''] then Some (2 ^ 10)
      else if u \<in> set [''m'', ''mb'', ''mib''] then Some (2 ^ 20)
      else if u \<in> set [''g'', ''gb'', ''gib''] then Some (2 ^ 30)
      else if u \<in> set [''t'', ''tb'', ''tib''] then Some (2 ^ 40)
      else None)"

text \<open>The product is one of int64.\<close>

definition mul64 :: "int \<Rightarrow> int \<Rightarrow> int" where
  "mul64 n k = sint (word_of_int n * word_of_int k :: 64 word)"

definition size_error :: "string \<Rightarrow> string \<Rightarrow> err" where
  "size_error s why = EText (''size '' @ s @ '': '' @ why)"

definition parse_size :: "string \<Rightarrow> err + int" where
  "parse_size s = (let t = trim_space s in
     if t = [] then Inr 0
     else let ds = takeWhile is_digit t; rest = dropWhile is_digit t in
       if ds = [] then Inl (size_error s ''does not begin with a number'')
       else case parse_int64 ds of (n, ok) \<Rightarrow>
         if \<not> ok then Inl (size_error s ''out of range'')
         else case size_unit (to_lower (trim_space rest)) of
             None \<Rightarrow> Inl (size_error s ''unknown unit'')
           | Some k \<Rightarrow> if n > 2 ^ 62 div k then Inl (size_error s ''too large'')
               else Inr (mul64 n k))"

section \<open>The records of config.yaml\<close>

record listen_config =
  li_api :: string
  li_proxy :: string
  li_metrics :: string

record local_config =
  lo_root :: string
  lo_baseline :: string

record fsx_config =
  fx_region :: string
  fx_filesystem :: string
  fx_base_volume :: string
  fx_parent_volume :: string
  fx_baseline :: string
  fx_dns :: string
  fx_mount_root :: string

record zfs_config =
  zf_pool :: string
  zf_base :: string
  zf_parent :: string
  zf_baseline :: string
  zf_sudo :: bool

text \<open>A float64, as the file gives it: YAML also has \<^verbatim>\<open>.nan\<close> and \<^verbatim>\<open>.inf\<close>. No comparison with NaN holds.\<close>

datatype go_float = Finite rat | NaN | Infinite (above: bool)

fun float_less :: "go_float \<Rightarrow> go_float \<Rightarrow> bool" where
  "float_less (Finite p) (Finite q) \<longleftrightarrow> p < q"
| "float_less (Infinite p) (Infinite q) \<longleftrightarrow> \<not> p \<and> q"
| "float_less (Finite p) (Infinite q) \<longleftrightarrow> q"
| "float_less (Infinite p) (Finite q) \<longleftrightarrow> \<not> p"
| "float_less _ _ \<longleftrightarrow> False"

record storage_config =
  sc_backend :: string
  sc_high_mark :: go_float
  sc_critical_mark :: go_float
  sc_quota :: string
  sc_zfs :: zfs_config
  sc_fsx :: fsx_config
  sc_local :: local_config
  sc_legacy_zfs :: "zfs_config option"
  sc_legacy_fsx :: "fsx_config option"

record postgres_config =
  pq_ports :: "int \<times> int"
  pq_bin_dir :: string
  pq_env_dir :: string
  pq_listen :: string
  pq_sudo :: bool
  pq_app_user :: string
  pq_app_pass :: string
  pq_app_pass_env :: string
  pq_app_pass_ssm :: string
  pq_app_pass_file :: string
  pq_mode :: string
  pq_run_user :: string
  pq_shared_buffers :: string
  pq_expected_rss :: string
  pq_headroom :: string
  pq_max_running :: int
  pq_initdb_args :: "string list"

record mysql_config =
  mc_ports :: "int \<times> int"
  mc_buffer_pool :: string
  mc_expected_rss :: string
  mc_headroom :: string
  mc_max_running :: int
  mc_app_user :: string
  mc_app_pass :: string
  mc_proxy_user :: string
  mc_proxy_pass :: string
  mc_app_pass_env :: string
  mc_app_pass_ssm :: string
  mc_app_pass_file :: string
  mc_env_dir :: string
  mc_sudo :: bool
  mc_mode :: string
  mc_mysqld_bin :: string
  mc_run_user :: string
  mc_extra_cnf :: string

record engine_config =
  ec_type :: string
  ec_mysql :: mysql_config
  ec_postgres :: postgres_config

record proxy_config =
  pr_max_conn :: int
  pr_tls_cert :: string
  pr_tls_key :: string
  pr_allowed_user :: "string option"

record profile_config =
  pf_idle_stop :: int
  pf_delete_idle :: int

record branches_config =
  bc_name_pattern :: string
  bc_max_branches :: int
  bc_lazy_create :: bool
  bc_lazy_max_wait :: int
  bc_idle_stop :: int
  bc_delete_idle :: int
  bc_reaper_interval :: int
  bc_op_retention :: int
  bc_error_retention :: int
  bc_profiles :: "(string \<times> profile_config) list"
  bc_default_profile :: string

record baseline_config =
  bs_script :: string
  bs_timeout :: int
  bs_source_dir :: string
  bs_source_db :: string
  bs_require_masked :: bool
  bs_require_validated :: bool
  bs_validate_port :: int
  bs_sentinel :: string
  bs_keep_last :: int
  bs_retention :: int

record hooks_config =
  hc_dir :: string
  hc_log_dir :: string
  hc_timeout :: int
  hc_log_retention :: int

record auth_config =
  au_token_env :: string
  au_token_ssm :: string
  au_trust_loopback :: bool

record config =
  g_listen :: listen_config
  g_name :: string
  g_domain :: string
  g_state_db :: string
  g_run_dir :: string
  g_log_dir :: string
  g_log_format :: string
  g_root_helper :: string
  g_storage :: storage_config
  g_engine :: engine_config
  g_proxy :: proxy_config
  g_branches :: branches_config
  g_baseline :: baseline_config
  g_hooks :: hooks_config
  g_auth :: auth_config

section \<open>Defaults\<close>

definition default_listen :: listen_config where
  "default_listen = \<lparr>li_api = ''127.0.0.1:8080'', li_proxy = ''0.0.0.0:3306'',
     li_metrics = ''127.0.0.1:9100''\<rparr>"

definition no_fsx :: fsx_config where
  "no_fsx = \<lparr>fx_region = [], fx_filesystem = [], fx_base_volume = [], fx_parent_volume = [],
     fx_baseline = [], fx_dns = [], fx_mount_root = []\<rparr>"

definition default_storage :: storage_config where
  "default_storage = \<lparr>sc_backend = ''ebs-zfs'', sc_high_mark = Finite 0, sc_critical_mark = Finite 0, sc_quota = [],
     sc_zfs = \<lparr>zf_pool = ''dbpool'', zf_base = ''dbpool/base'', zf_parent = ''dbpool/branches'',
       zf_baseline = ''baseline'', zf_sudo = True\<rparr>,
     sc_fsx = no_fsx, sc_local = \<lparr>lo_root = [], lo_baseline = []\<rparr>,
     sc_legacy_zfs = None, sc_legacy_fsx = None\<rparr>"

definition default_mysql :: mysql_config where
  "default_mysql = \<lparr>mc_ports = (3401, 3600), mc_buffer_pool = ''256M'', mc_expected_rss = [],
     mc_headroom = [], mc_max_running = 0, mc_app_user = [], mc_app_pass = [],
     mc_proxy_user = ''dev'', mc_proxy_pass = ''dev'', mc_app_pass_env = [], mc_app_pass_ssm = [],
     mc_app_pass_file = [], mc_env_dir = ''/etc/sashiki'', mc_sudo = True, mc_mode = [],
     mc_mysqld_bin = [], mc_run_user = [], mc_extra_cnf = []\<rparr>"

definition default_postgres :: postgres_config where
  "default_postgres = \<lparr>pq_ports = (5433, 5632), pq_bin_dir = [], pq_env_dir = ''/etc/sashiki'',
     pq_listen = ''127.0.0.1'', pq_sudo = True, pq_app_user = ''dev'', pq_app_pass = ''dev'',
     pq_app_pass_env = [], pq_app_pass_ssm = [], pq_app_pass_file = [], pq_mode = [],
     pq_run_user = ''postgres'', pq_shared_buffers = ''128M'', pq_expected_rss = [],
     pq_headroom = [], pq_max_running = 0, pq_initdb_args = []\<rparr>"

definition default_branches :: branches_config where
  "default_branches = \<lparr>bc_name_pattern = ''^[a-z0-9-]{1,32}$'', bc_max_branches = 50,
     bc_lazy_create = True, bc_lazy_max_wait = 20 * second, bc_idle_stop = 30 * minute,
     bc_delete_idle = 168 * hour, bc_reaper_interval = minute, bc_op_retention = 168 * hour,
     bc_error_retention = 72 * hour,
     bc_profiles = [(''preview'', \<lparr>pf_idle_stop = 30 * minute, pf_delete_idle = 168 * hour\<rparr>),
       (''ci'', \<lparr>pf_idle_stop = 5 * minute, pf_delete_idle = hour\<rparr>),
       (''sandbox'', \<lparr>pf_idle_stop = hour, pf_delete_idle = 720 * hour\<rparr>)],
     bc_default_profile = ''preview''\<rparr>"

definition default_config :: config where
  "default_config = \<lparr>g_listen = default_listen, g_name = [], g_domain = ''sashiki.internal'',
     g_state_db = ''/var/lib/sashiki/state.db'', g_run_dir = ''/run/sashiki'',
     g_log_dir = ''/var/log/sashiki'', g_log_format = ''text'', g_root_helper = [],
     g_storage = default_storage,
     g_engine = \<lparr>ec_type = ''mysql'', ec_mysql = default_mysql, ec_postgres = default_postgres\<rparr>,
     g_proxy = \<lparr>pr_max_conn = 50, pr_tls_cert = [], pr_tls_key = [], pr_allowed_user = None\<rparr>,
     g_branches = default_branches,
     g_baseline = \<lparr>bs_script = [], bs_timeout = 0, bs_source_dir = [], bs_source_db = [],
       bs_require_masked = False, bs_require_validated = False, bs_validate_port = 3999,
       bs_sentinel = [], bs_keep_last = 3, bs_retention = 0\<rparr>,
     g_hooks = \<lparr>hc_dir = ''/etc/sashiki/hooks'', hc_log_dir = [], hc_timeout = 0,
       hc_log_retention = 0\<rparr>,
     g_auth = \<lparr>au_token_env = ''SASHIKI_API_TOKEN'', au_token_ssm = [], au_trust_loopback = True\<rparr>\<rparr>"

section \<open>Normalisation\<close>

definition or_else :: "string \<Rightarrow> string \<Rightarrow> string" where
  "or_else s d = (if s = [] then d else s)"

definition normal_backend :: "string \<Rightarrow> string" where
  "normal_backend b = (if b = ''zfs'' then ''ebs-zfs'' else if b = ''fsx'' then ''fsx-zfs'' else b)"

definition normal_storage :: "storage_config \<Rightarrow> storage_config" where
  "normal_storage s = s\<lparr>sc_backend := normal_backend (sc_backend s),
     sc_zfs := (case sc_legacy_zfs s of None \<Rightarrow> sc_zfs s | Some z \<Rightarrow> z), sc_legacy_zfs := None,
     sc_fsx := (case sc_legacy_fsx s of None \<Rightarrow> sc_fsx s | Some f \<Rightarrow> f), sc_legacy_fsx := None\<rparr>"

definition normal_mysql :: "mysql_config \<Rightarrow> mysql_config" where
  "normal_mysql m = m\<lparr>mc_proxy_user := or_else (mc_app_user m) (mc_proxy_user m),
     mc_proxy_pass := or_else (mc_app_pass m) (mc_proxy_pass m)\<rparr>"

definition normalize_config :: "config \<Rightarrow> config" where
  "normalize_config c =
     (let run_dir = or_else (g_run_dir c) ''/run/sashiki'';
          log_dir = or_else (g_log_dir c) ''/var/log/sashiki''
      in c\<lparr>g_storage := normal_storage (g_storage c),
           g_engine := (g_engine c)\<lparr>ec_mysql := normal_mysql (ec_mysql (g_engine c))\<rparr>,
           g_run_dir := run_dir, g_log_dir := log_dir,
           g_hooks := (g_hooks c)\<lparr>hc_log_dir := or_else (hc_log_dir (g_hooks c)) (log_dir @ ''/hooks'')\<rparr>,
           g_baseline := (g_baseline c)\<lparr>bs_sentinel :=
             or_else (bs_sentinel (g_baseline c)) (run_dir @ ''/baseline-masked'')\<rparr>\<rparr>)"

section \<open>Validation\<close>

text \<open>
  The checks run in this order and the first that fails is returned. The seven sizes are kept in a
  map of the source, so they are visited in some order, \<open>visit\<close>.
\<close>

definition size_settings :: "config \<Rightarrow> (string \<times> string) list" where
  "size_settings c = (let m = ec_mysql (g_engine c); p = ec_postgres (g_engine c) in
     [(''storage.default_storage_quota'', sc_quota (g_storage c)),
      (''engine.mysql.buffer_pool_size'', mc_buffer_pool m),
      (''engine.mysql.rss_setting'', mc_expected_rss m),
      (''engine.mysql.memory_headroom'', mc_headroom m),
      (''engine.postgres.shared_buffers'', pq_shared_buffers p),
      (''engine.postgres.rss_setting'', pq_expected_rss p),
      (''engine.postgres.memory_headroom'', pq_headroom p)])"

definition bad_size :: "string \<times> string \<Rightarrow> err option" where
  "bad_size kv = (case parse_size (snd kv) of
     Inl e \<Rightarrow> Some (EWrap (fst kv @ '': '') e '''') | Inr _ \<Rightarrow> None)"

definition ports_ok :: "int \<times> int \<Rightarrow> bool" where
  "ports_ok r \<longleftrightarrow> 0 < fst r \<and> fst r \<le> snd r"

definition known_mode :: "string \<Rightarrow> bool" where
  "known_mode m \<longleftrightarrow> m \<in> set ['''', ''systemd'', ''process'']"

definition unsupported :: "string \<Rightarrow> string \<Rightarrow> string \<Rightarrow> err" where
  "unsupported key v choices = EText (key @ '' '' @ v @ '' is not supported ('' @ choices @ '')'')"

fun first_error :: "err option list \<Rightarrow> err option" where
  "first_error [] = None"
| "first_error (None # es) = first_error es"
| "first_error (Some e # es) = Some e"

definition unless_ok :: "bool \<Rightarrow> err \<Rightarrow> err option" where
  "unless_ok b e = (if b then None else Some e)"

definition validate_storage :: "storage_config \<Rightarrow> err option" where
  "validate_storage s = (let f = sc_fsx s; b = sc_backend s in first_error
     [unless_ok (b \<in> set [''ebs-zfs'', ''fsx-zfs'', ''apfs'', ''reflink''])
        (unsupported ''storage.backend'' b ''ebs-zfs | fsx-zfs | apfs | reflink''),
      unless_ok (b = ''fsx-zfs'' \<longrightarrow> [] \<notin> set [fx_region f, fx_filesystem f, fx_base_volume f, fx_dns f])
        (EText ''storage.fsx-zfs requires region, filesystem_id, base_volume_id, dns_name''),
      unless_ok (b \<in> set [''apfs'', ''reflink''] \<longrightarrow> lo_root (sc_local s) \<noteq> [])
        (EText (''storage.local.root is required for backend '' @ b))])"

definition validate_engine :: "engine_config \<Rightarrow> err option" where
  "validate_engine e = first_error
     [unless_ok (ports_ok (mc_ports (ec_mysql e))) (EText ''engine.mysql.port_range must be [low, high]''),
      unless_ok (ec_type e = ''postgres'' \<longrightarrow> ports_ok (pq_ports (ec_postgres e)))
        (EText ''engine.postgres.port_range must be [low, high]''),
      unless_ok (known_mode (mc_mode (ec_mysql e)))
        (unsupported ''engine.mysql.mode'' (mc_mode (ec_mysql e)) ''systemd | process''),
      unless_ok (known_mode (pq_mode (ec_postgres e)))
        (unsupported ''engine.postgres.mode'' (pq_mode (ec_postgres e)) ''systemd | process'')]"

definition validate_marks :: "storage_config \<Rightarrow> err option" where
  "validate_marks s = (let hw = sc_high_mark s; cw = sc_critical_mark s in first_error
     [unless_ok (\<not> (float_less hw (Finite 0) \<or> float_less (Finite 1) hw
          \<or> float_less cw (Finite 0) \<or> float_less (Finite 1) cw))
        (EText ''storage.high_watermark / critical_watermark: ratios from 0 to 1''),
      unless_ok (\<not> (float_less (Finite 0) hw \<and> float_less (Finite 0) cw \<and> float_less cw hw))
        (EText ''storage.high_watermark: at most critical_watermark'')])"

definition validate_profiles :: "branches_config \<Rightarrow> err option" where
  "validate_profiles b = unless_ok
     (bc_profiles b \<noteq> [] \<and> bc_default_profile b \<noteq> []
        \<longrightarrow> bc_default_profile b \<in> fst ` set (bc_profiles b))
     (EText (''branches.default_profile '' @ bc_default_profile b @ '' is not defined in branches.profiles''))"

definition validate_config ::
  "(string \<Rightarrow> err option) \<Rightarrow> ((string \<times> string) list \<Rightarrow> (string \<times> string) list) \<Rightarrow> config \<Rightarrow> err option"
where
  "validate_config re_compile visit c = first_error
     [validate_storage (g_storage c),
      unless_ok (g_log_format c \<in> set [''text'', ''json''])
        (unsupported ''log_format'' (g_log_format c) ''text | json''),
      unless_ok (ec_type (g_engine c) \<in> set [''mysql'', ''postgres''])
        (unsupported ''engine.type'' (ec_type (g_engine c)) ''mysql | postgres''),
      map_option (\<lambda>e. EWrap ''branches.name_pattern: '' e '''')
        (re_compile (bc_name_pattern (g_branches c))),
      validate_profiles (g_branches c),
      validate_engine (g_engine c),
      first_error (map bad_size (visit (size_settings c))),
      validate_marks (g_storage c),
      unless_ok ((pr_tls_cert (g_proxy c) = []) = (pr_tls_key (g_proxy c) = []))
        (EText ''proxy.tls_cert and proxy.tls_key: both or none'')]"

text \<open>
  \<^verbatim>\<open>Load\<close>: the decoder lays the file over the defaults and refuses unknown keys; an empty file
  is the end of the input, which is no error.
\<close>

datatype decoded = DecOk config | DecEof config | DecErr err

record decoder =
  dc_yaml :: "string \<Rightarrow> config \<Rightarrow> decoded"
  dc_re :: "string \<Rightarrow> err option"
  dc_visit :: "(string \<times> string) list \<Rightarrow> (string \<times> string) list"

definition finish_load :: "decoder \<Rightarrow> config \<Rightarrow> err + config" where
  "finish_load D c0 = (let c = normalize_config c0 in
     case validate_config (dc_re D) (dc_visit D) c of Some e \<Rightarrow> Inl e | None \<Rightarrow> Inr c)"

definition load_config :: "'w host \<Rightarrow> decoder \<Rightarrow> string \<Rightarrow> ('w, config) ext" where
  "load_config H D path = check (h_read_file H path) (\<lambda>data w.
     (case dc_yaml D data default_config of
        DecErr e \<Rightarrow> Inl (EWrap (''parse '' @ path @ '': '') e '''')
      | DecEof c \<Rightarrow> finish_load D c
      | DecOk c \<Rightarrow> finish_load D c, w))"

section \<open>The settings of the selected engine\<close>

definition for_engine :: "config \<Rightarrow> (postgres_config \<Rightarrow> 'a) \<Rightarrow> (mysql_config \<Rightarrow> 'a) \<Rightarrow> 'a" where
  "for_engine c p m = (if ec_type (g_engine c) = ''postgres'' then p (ec_postgres (g_engine c))
     else m (ec_mysql (g_engine c)))"

definition port_range :: "config \<Rightarrow> int \<times> int" where
  "port_range c = for_engine c pq_ports mc_ports"

definition app_user :: "config \<Rightarrow> string" where
  "app_user c = for_engine c pq_app_user mc_proxy_user"

definition app_pass :: "config \<Rightarrow> string" where
  "app_pass c = for_engine c pq_app_pass mc_proxy_pass"

definition app_pass_env_name :: "config \<Rightarrow> string" where
  "app_pass_env_name c = for_engine c pq_app_pass_env mc_app_pass_env"

definition engine_mode :: "config \<Rightarrow> string" where
  "engine_mode c = or_else (for_engine c pq_mode mc_mode) ''systemd''"

definition engine_env_dir :: "config \<Rightarrow> string" where
  "engine_env_dir c = for_engine c pq_env_dir mc_env_dir"

definition engine_run_user :: "config \<Rightarrow> string" where
  "engine_run_user c = for_engine c pq_run_user mc_run_user"

definition rss_setting :: "config \<Rightarrow> string" where
  "rss_setting c = for_engine c pq_expected_rss mc_expected_rss"

definition memory_headroom :: "config \<Rightarrow> string" where
  "memory_headroom c = for_engine c pq_headroom mc_headroom"

definition memory_baseline_size :: "config \<Rightarrow> string" where
  "memory_baseline_size c = for_engine c pq_shared_buffers mc_buffer_pool"

definition max_running :: "config \<Rightarrow> int" where
  "max_running c = for_engine c pq_max_running mc_max_running"

section \<open>Secrets\<close>

record secret_ref =
  sr_ssm :: string
  sr_env :: string
  sr_file :: string
  sr_literal :: string

definition is_zero_ref :: "secret_ref \<Rightarrow> bool" where
  "is_zero_ref r \<longleftrightarrow> sr_ssm r = [] \<and> sr_env r = [] \<and> sr_file r = [] \<and> sr_literal r = []"

definition uses_ssm :: "secret_ref \<Rightarrow> bool" where
  "uses_ssm r \<longleftrightarrow> sr_ssm r \<noteq> []"

definition unset_secret :: "string \<Rightarrow> err" where
  "unset_secret what = EText (what @ '' is not set; set one of '' @ what @ ''_ssm, '' @ what
     @ ''_env, '' @ what @ ''_file, '' @ what)"

text \<open>\<^verbatim>\<open>os.Getenv\<close>: of several entries for a name the first counts.\<close>

fun getenv :: "string list \<Rightarrow> string \<Rightarrow> string" where
  "getenv [] n = []"
| "getenv (kv # es) n = (case cut_at (CHR ''='') kv of
     (k, Some v) \<Rightarrow> if k = n \<and> n \<noteq> [] then v else getenv es n
   | (_, None) \<Rightarrow> getenv es n)"

definition trim_newlines :: "string \<Rightarrow> string" where
  "trim_newlines s = rev (dropWhile (\<lambda>c. c \<in> {CHR 0x0D, CHR 0x0A}) (rev s))"

definition resolve_local :: "'w host \<Rightarrow> secret_ref \<Rightarrow> string \<Rightarrow> ('w, string) ext" where
  "resolve_local H r what =
     (if sr_ssm r \<noteq> [] then throw (EText (what @ '': '' @ sr_ssm r @ '' must be read from SSM''))
      else if sr_env r \<noteq> [] then
        (let v = getenv (h_environ H) (sr_env r) in
         if v = [] then throw (EText (what @ '': environment variable '' @ sr_env r @ '' is empty''))
         else ret v)
      else if sr_file r \<noteq> [] then
        check (wrapping (\<lambda>e. EWrap (what @ '': '') e '''') (h_read_file H (sr_file r))) (\<lambda>b.
          let v = trim_newlines b in
          if v = [] then throw (EText (what @ '': '' @ sr_file r @ '' is empty'')) else ret v)
      else if sr_literal r \<noteq> [] then ret (sr_literal r)
      else throw (unset_secret what))"

text \<open>AWS: loading its configuration, and \<^verbatim>\<open>GetParameter\<close>, whose value may be missing.\<close>

record 'w ssm_api =
  sm_config :: "('w, unit) ext"
  sm_get :: "string \<Rightarrow> ('w, string option) ext"

definition get_parameter :: "'w ssm_api \<Rightarrow> string \<Rightarrow> ('w, string) ext" where
  "get_parameter A n =
     check (wrapping (\<lambda>e. EWrap ''aws config: '' e '''') (sm_config A)) (\<lambda>_.
     check (sm_get A n) (\<lambda>v. case v of
         None \<Rightarrow> throw (EText ''parameter has no value'') | Some x \<Rightarrow> ret x))"

definition resolve_secret :: "'w host \<Rightarrow> 'w ssm_api \<Rightarrow> secret_ref \<Rightarrow> string \<Rightarrow> ('w, string) ext" where
  "resolve_secret H A r what =
     (if sr_ssm r = [] then resolve_local H r what
      else check (wrapping (\<lambda>e. EWrap (what @ '': SSM parameter '' @ sr_ssm r @ '': '') e '''')
                   (get_parameter A (sr_ssm r))) (\<lambda>v.
        if v = [] then throw (EText (what @ '': SSM parameter '' @ sr_ssm r @ '' is empty''))
        else ret v))"

section \<open>The application's password\<close>

definition app_pass_ref :: "config \<Rightarrow> secret_ref" where
  "app_pass_ref c = for_engine c
     (\<lambda>p. \<lparr>sr_ssm = pq_app_pass_ssm p, sr_env = pq_app_pass_env p, sr_file = pq_app_pass_file p,
           sr_literal = pq_app_pass p\<rparr>)
     (\<lambda>m. \<lparr>sr_ssm = mc_app_pass_ssm m, sr_env = mc_app_pass_env m, sr_file = mc_app_pass_file m,
           sr_literal = mc_proxy_pass m\<rparr>)"

definition set_app_pass :: "string \<Rightarrow> config \<Rightarrow> config" where
  "set_app_pass v c = (let e = g_engine c in c\<lparr>g_engine :=
     (if ec_type e = ''postgres'' then e\<lparr>ec_postgres := (ec_postgres e)\<lparr>pq_app_pass := v\<rparr>\<rparr>
      else e\<lparr>ec_mysql := (ec_mysql e)\<lparr>mc_app_pass := v, mc_proxy_pass := v\<rparr>\<rparr>)\<rparr>)"

definition app_pass_key :: "config \<Rightarrow> string" where
  "app_pass_key c = ''engine.'' @ ec_type (g_engine c) @ ''.app_pass''"

definition resolve_app_pass :: "'w host \<Rightarrow> 'w ssm_api \<Rightarrow> config \<Rightarrow> ('w, config) ext" where
  "resolve_app_pass H A c = (let r = app_pass_ref c in
     if is_zero_ref r then throw (unset_secret (app_pass_key c))
     else check (resolve_secret H A r (app_pass_key c)) (\<lambda>v. ret (set_app_pass v c)))"

section \<open>What is proved of sizes\<close>

lemma list_all_takeWhile: "list_all P (takeWhile P xs)"
  by (auto simp: list_all_iff dest: set_takeWhileD)

lemma parse_int64_digits:
  assumes "ds \<noteq> []" "list_all is_digit ds"
  shows "parse_int64 ds = (if int (read_digits 0 ds) < 2 ^ 63 then (int (read_digits 0 ds), True)
                           else (2 ^ 63 - 1, False))"
proof -
  have "hd ds \<notin> {CHR ''-'', CHR ''+''}"
    using assms by (cases ds) (auto simp: is_digit_def)
  then show ?thesis using assms by (simp add: parse_int64_def Let_def)
qed

lemma mul64_exact:
  assumes "0 \<le> n" "0 \<le> k" "n * k \<le> 2 ^ 62"
  shows "mul64 n k = n * k"
proof -
  have "0 \<le> n * k" using assms by simp
  then have "signed_take_bit 63 (n * k) = n * k"
    using assms(3) by (intro signed_take_bit_int_eq_self) auto
  then show ?thesis by (simp add: mul64_def of_int_mult [symmetric] signed_of_int del: of_int_mult)
qed

lemma le_div_iff: "(0::int) < k \<Longrightarrow> n \<le> m div k \<longleftrightarrow> n * k \<le> m"
proof
  assume k: "0 < k"
  show "n * k \<le> m" if "n \<le> m div k"
  proof -
    have "n * k \<le> m div k * k" using that k by (intro mult_right_mono) auto
    also have "\<dots> \<le> m" using k div_mult_mod_eq [of m k] pos_mod_sign [of k m] by linarith
    finally show ?thesis .
  qed
  show "n \<le> m div k" if "n * k \<le> m"
    using zdiv_mono1 [OF that k] k by simp
qed

lemma size_unit_pos: "size_unit u = Some k \<Longrightarrow> 0 < k"
  by (auto simp: size_unit_def split: if_splits)

text \<open>
  The meaning of a size, on unbounded integers: a text of white space is 0, otherwise white space,
  a decimal number, white space, a unit and white space. A unit is one of the letters K, M, G and T,
  for a power of 1024, with nothing, B or iB behind it, or only B, or nothing, in either case.
\<close>

definition unit_power :: "string \<Rightarrow> nat \<Rightarrow> bool" where
  "unit_power u n \<longleftrightarrow> (\<exists>p q. to_lower u = p @ q \<and> (p, n) \<in> set (zip ['''', ''k'', ''m'', ''g'', ''t''] [0..<5])
     \<and> q \<in> set ['''', ''b'', ''ib''] \<and> p @ q \<noteq> ''ib'')"

definition size_means :: "string \<Rightarrow> int \<Rightarrow> bool" where
  "size_means s v \<longleftrightarrow> blank s \<and> v = 0
     \<or> (\<exists>a ds b u c n. s = a @ ds @ b @ u @ c \<and> blank a \<and> blank b \<and> blank c
          \<and> ds \<noteq> [] \<and> list_all is_digit ds \<and> unit_power u n \<and> v = int (read_digits 0 ds) * 1024 ^ n)"

lemma unit_power_iff: "(\<exists>n. unit_power u n \<and> k = 1024 ^ n) \<longleftrightarrow> size_unit (to_lower u) = Some k"
proof -
  have p: "p @ q \<noteq> ''ib'' \<and> (p, n) \<in> set (zip ['''', ''k'', ''m'', ''g'', ''t''] [0..<5]) \<and> q \<in> set ['''', ''b'', ''ib'']
      \<longrightarrow> size_unit (p @ q) = Some (1024 ^ n)" for p q n
    by (auto simp: size_unit_def upt_rec numeral_nat)
  have "size_unit t = Some k \<Longrightarrow> \<exists>p q n. t = p @ q \<and> (p, n) \<in> set (zip ['''', ''k'', ''m'', ''g'', ''t''] [0..<5])
      \<and> q \<in> set ['''', ''b'', ''ib''] \<and> p @ q \<noteq> ''ib'' \<and> k = 1024 ^ n" for t
  proof -
    assume k: "size_unit t = Some k"
    define pick where "pick p q n = ((p, n) \<in> set (zip ['''', ''k'', ''m'', ''g'', ''t''] [0..<5])
      \<and> q \<in> set ['''', ''b'', ''ib''] \<and> p @ q \<noteq> ''ib'')" for p q :: string and n :: nat
    have "t \<in> set [[], ''b'', ''k'', ''kb'', ''kib'', ''m'', ''mb'', ''mib'', ''g'', ''gb'', ''gib'', ''t'', ''tb'', ''tib'']"
      using k by (auto simp: size_unit_def split: if_splits)
    moreover have "pick [] q 0" "pick ''k'' r 1" "pick ''m'' r 2" "pick ''g'' r 3" "pick ''t'' r 4"
      if "q \<in> {'''', ''b''}" "r \<in> {'''', ''b'', ''ib''}" for q r
      using that by (auto simp: pick_def upt_rec numeral_nat)
    moreover have "\<exists>p q n. t = p @ q \<and> pick p q n \<and> k = 1024 ^ n" if "t = p @ q" "pick p q n" for p q n
      using that p [of p q n] k by (auto simp: pick_def)
    ultimately have "\<exists>p q n. t = p @ q \<and> pick p q n \<and> k = 1024 ^ n"
      unfolding list.set insert_iff empty_iff
      by (elim disjE) (metis append_Nil append_Cons insertI1 insertI2)+
    then show ?thesis by (simp only: pick_def conj_assoc)
  qed
  then show ?thesis unfolding unit_power_def using p by metis
qed

lemma takeWhile_eq: "ds \<noteq> [] \<Longrightarrow> list_all P ds \<Longrightarrow> u = [] \<or> \<not> P (hd u)
    \<Longrightarrow> takeWhile P (ds @ u) = ds \<and> dropWhile P (ds @ u) = u"
  by (cases u) (auto simp: list_all_iff)

lemma not_prefix_takeWhile: "takeWhile P t @ dropWhile P t = t
    \<and> (dropWhile P t = [] \<or> \<not> P (hd (dropWhile P t)))"
  using hd_dropWhile [of P t] by (auto simp: dropWhile_eq_Nil_conv)

lemma ascii_plain: "64 < (of_char c :: nat) \<Longrightarrow> (of_char c :: nat) < 128 \<Longrightarrow> plain_char c \<and> \<not> is_digit c"
  by (auto simp: plain_char_def is_space_def is_digit_def)

lemma lower_letter:
  assumes "lower_char c \<in> set ''bkmgt''"
  shows "plain_char c \<and> \<not> is_digit c"
proof (rule ascii_plain)
  show "64 < (of_char c :: nat)" "(of_char c :: nat) < 128"
    using assms by (auto simp: lower_char_def Let_def split: if_splits)
qed

lemma digit_plain: "is_digit c \<Longrightarrow> plain_char c"
  by (auto simp: plain_char_def is_space_def is_digit_def)

lemma to_lower_Nil [simp]: "to_lower [] = []"
  by (subst to_lower.simps) simp

lemma to_lower_step:
  "take 3 (c # s) \<noteq> [CHR 0xE2, CHR 0x84, CHR 0xAA] \<Longrightarrow> take 2 (c # s) \<noteq> [CHR 0xC4, CHR 0xB0]
    \<Longrightarrow> to_lower (c # s) = lower_char c # to_lower s"
  by (subst to_lower.simps) (simp only: list.distinct if_False list.sel)

lemma to_lower_not_Nil: "u \<noteq> [] \<Longrightarrow> to_lower u \<noteq> []"
  by (subst to_lower.simps) simp

lemma to_lower_last:
  "u \<noteq> [] \<Longrightarrow> last u \<in> {CHR 0xAA, CHR 0xB0} \<or> last (to_lower u) = lower_char (last u)"
proof (induction u rule: to_lower.induct)
  case (1 u)
  consider "take 3 u = [CHR 0xE2, CHR 0x84, CHR 0xAA]"
    | "take 3 u \<noteq> [CHR 0xE2, CHR 0x84, CHR 0xAA]" "take 2 u = [CHR 0xC4, CHR 0xB0]"
    | "take 3 u \<noteq> [CHR 0xE2, CHR 0x84, CHR 0xAA]" "take 2 u \<noteq> [CHR 0xC4, CHR 0xB0]" by blast
  then show ?case
  proof cases
    case 1
    then have u: "u = [CHR 0xE2, CHR 0x84, CHR 0xAA] @ drop 3 u" by (metis append_take_drop_id)
    then show ?thesis
      using "1.IH"(1) [OF "1.prems" 1] to_lower_not_Nil [of "drop 3 u"] "1.prems" 1 to_lower.simps [of u]
      by (cases "drop 3 u = []") (simp, metis last_ConsR last_appendR)
  next
    case 2
    then have u: "u = [CHR 0xC4, CHR 0xB0] @ drop 2 u" by (metis append_take_drop_id)
    then show ?thesis
      using "1.IH"(2) [OF "1.prems" 2] to_lower_not_Nil [of "drop 2 u"] "1.prems" 2 to_lower.simps [of u]
      by (cases "drop 2 u = []") (simp, metis last_ConsR last_appendR)
  next
    case 3
    then obtain c x where u: "u = c # x" using "1.prems" by (cases u) auto
    have t: "to_lower u = lower_char c # to_lower x" using to_lower_step 3 u by metis
    show ?thesis
      using "1.IH"(3) [OF "1.prems" 3] to_lower_not_Nil [of x] t u by (cases "x = []") auto
  qed
qed

text \<open>A unit begins and ends with no white space and begins with no digit.\<close>

lemma unit_ends:
  assumes k: "size_unit (to_lower u) = Some k" and ne: "u \<noteq> []"
  shows "space_width (\<lambda>v. v) (u @ c) = 0 \<and> plain_char (last u) \<and> \<not> is_digit (hd u)"
proof -
  have "hd t \<in> set ''bkmgt'' \<and> last t \<in> set ''bkmgt''" if "size_unit t = Some k" "t \<noteq> []" for t
  proof -
    have "t \<in> set [''b'', ''k'', ''kb'', ''kib'', ''m'', ''mb'', ''mib'', ''g'', ''gb'', ''gib'', ''t'', ''tb'', ''tib'']"
      using that by (auto simp: size_unit_def split: if_splits)
    then show ?thesis by (simp only: list.set insert_iff empty_iff) (elim disjE; simp)
  qed
  then have t: "hd (to_lower u) \<in> set ''bkmgt''" "last (to_lower u) \<in> set ''bkmgt''"
    using k to_lower_not_Nil [OF ne] by blast+
  have "plain_char (CHR 0xAA)" "plain_char (CHR 0xB0)" by (simp_all add: plain_char_def is_space_def)
  then have l: "plain_char (last u)" using to_lower_last [OF ne] t(2) lower_letter [of "last u"] by auto
  show ?thesis
  proof (cases "take 3 u = [CHR 0xE2, CHR 0x84, CHR 0xAA]")
    case True
    then have "u = [CHR 0xE2, CHR 0x84, CHR 0xAA] @ drop 3 u" by (metis append_take_drop_id)
    then obtain x where "u = CHR 0xE2 # CHR 0x84 # CHR 0xAA # x" by simp
    then show ?thesis using l by (simp add: space_width_def is_space_def wide_space_def is_digit_def)
  next
    case False
    then have "hd (to_lower u) = lower_char (hd u) \<or> hd (to_lower u) = CHR ''i''"
      using ne by (subst (1 2) to_lower.simps) simp
    then have "plain_char (hd u) \<and> \<not> is_digit (hd u)" using t(1) lower_letter [of "hd u"] by auto
    then show ?thesis using l ne plain_space_width(1) [of "u @ c"] by simp
  qed
qed

lemma blank_begin: "blank b \<Longrightarrow> b \<noteq> [] \<Longrightarrow> \<not> is_digit (hd b)"
proof -
  assume "blank b" "b \<noteq> []"
  then have "space_width (\<lambda>v. v) b \<noteq> 0"
    using drop_blank(1) [of b "[]"] drop_spaces_stop [of "\<lambda>v. v" b] by auto
  then show "\<not> is_digit (hd b)"
    using plain_space_width(1) [of b] digit_plain [of "hd b"] \<open>b \<noteq> []\<close> by auto
qed

lemma size_means_alt:
  "size_means s v \<longleftrightarrow> (let t = trim_space s; ds = takeWhile is_digit t in
     (t = [] \<and> v = 0) \<or> (ds \<noteq> [] \<and> (\<exists>k. size_unit (to_lower (trim_space (dropWhile is_digit t))) = Some k
        \<and> v = int (read_digits 0 ds) * k)))"
  (is "_ \<longleftrightarrow> ?r")
proof
  assume "size_means s v"
  then consider "blank s" "v = 0"
    | a ds b u c n where "s = a @ ds @ b @ u @ c" "blank a" "blank b" "blank c" "ds \<noteq> []"
      "list_all is_digit ds" "unit_power u n" "v = int (read_digits 0 ds) * 1024 ^ n"
    unfolding size_means_def by blast
  then show ?r
  proof cases
    case 1
    then show ?thesis by (simp add: trim_blank)
  next
    case (2 a ds b u c n)
    have k: "size_unit (to_lower u) = Some (1024 ^ n)" using unit_power_iff 2(7) by blast
    have d: "plain_char (hd ds)" "plain_char (last ds)" using 2(5,6) digit_plain by (auto simp: list_all_iff)
    have t: "trim_space s = (if u = [] then ds else ds @ b @ u) \<and> (u \<noteq> [] \<longrightarrow> trim_space (b @ u) = u)"
    proof (cases "u = []")
      case True
      then show ?thesis
        using trim_around [of a "b @ c" ds] 2 d plain_space_width(1) [of "ds @ b @ c"]
          plain_space_width(2) [of "rev ds"] by (simp add: blank_append hd_rev)
    next
      case False
      note e = unit_ends [OF k False]
      have "trim_space (a @ (ds @ b @ u) @ c) = ds @ b @ u"
        using 2 d False e plain_space_width(1) [of "(ds @ b @ u) @ c"] plain_space_width(2) [of "rev (ds @ b @ u)"]
        by (intro trim_around) (simp_all add: hd_append hd_rev)
      moreover have "trim_space (b @ u @ []) = u"
        using 2 False e [of "[]"] plain_space_width(2) [of "rev u"]
        by (intro trim_around) (simp_all add: hd_rev)
      ultimately show ?thesis using 2(1) False by simp
    qed
    have "b @ u = [] \<or> \<not> is_digit (hd (b @ u))"
      using unit_ends [OF k] blank_begin [OF 2(3)] by (cases "b = []") auto
    then have w: "takeWhile is_digit (ds @ b @ u) = ds \<and> dropWhile is_digit (ds @ b @ u) = b @ u"
      "takeWhile is_digit ds = ds \<and> dropWhile is_digit ds = []"
      using takeWhile_eq [of ds is_digit "b @ u"] takeWhile_eq [of ds is_digit "[]"] 2(5,6) by simp_all
    have "takeWhile is_digit (trim_space s) = ds \<and> trim_space (dropWhile is_digit (trim_space s)) = u"
      using t w trim_blank [of "[]"] by (cases "u = []") (simp_all only: if_True if_False blank_Nil simp_thms)
    then show ?thesis unfolding Let_def using k 2(5,8) by metis
  qed
next
  assume r: ?r
  obtain a c where s: "blank a" "blank c" "s = a @ trim_space s @ c" using trim_split [of s] by blast
  show "size_means s v"
  proof (cases "trim_space s = []")
    case True
    then have "blank s" using s blank_append by (metis append_Nil)
    then show ?thesis using r True by (simp add: size_means_def)
  next
    case False
    define ds where "ds = takeWhile is_digit (trim_space s)"
    define x where "x = dropWhile is_digit (trim_space s)"
    obtain k where k: "ds \<noteq> []" "size_unit (to_lower (trim_space x)) = Some k" "v = int (read_digits 0 ds) * k"
      using r False by (auto simp: Let_def ds_def x_def)
    obtain n where n: "unit_power (trim_space x) n" "k = 1024 ^ n" using unit_power_iff k(2) by blast
    obtain b e where x: "blank b" "blank e" "x = b @ trim_space x @ e" using trim_split [of x] by blast
    have "trim_space s = ds @ x" by (simp add: ds_def x_def)
    then have "s = a @ ds @ b @ trim_space x @ (e @ c)" using s(3) x(3) by (metis append.assoc)
    moreover have "list_all is_digit ds" unfolding ds_def by (rule list_all_takeWhile)
    ultimately show ?thesis
      unfolding size_means_def using s x k n blank_append [OF x(2) s(2)] by blast
  qed
qed

lemma parse_size_means:
  "parse_size s = Inr v \<longleftrightarrow> size_means s v \<and> v \<le> 2 ^ 62"
proof -
  define t where "t = trim_space s"
  define ds where "ds = takeWhile is_digit t"
  define u where "u = size_unit (to_lower (trim_space (dropWhile is_digit t)))"
  note means = size_means_alt [of s v, unfolded Let_def, folded t_def, folded ds_def u_def]
  have parse: "parse_size s = (if t = [] then Inr 0
     else if ds = [] then Inl (size_error s ''does not begin with a number'')
     else case parse_int64 ds of (n, ok) \<Rightarrow>
       if \<not> ok then Inl (size_error s ''out of range'')
       else case u of None \<Rightarrow> Inl (size_error s ''unknown unit'')
         | Some k \<Rightarrow> if n > 2 ^ 62 div k then Inl (size_error s ''too large'') else Inr (mul64 n k))"
    unfolding parse_size_def Let_def t_def ds_def u_def by simp
  show ?thesis
  proof (cases "t = [] \<or> ds = [] \<or> u = None")
    case True
    then show ?thesis
      unfolding means parse by (auto simp: ds_def split: prod.splits)
  next
    case False
    then obtain k where k: "u = Some k" and d: "t \<noteq> []" "ds \<noteq> []" by auto
    have pos: "0 < k" using size_unit_pos k by (simp add: u_def)
    have digits: "list_all is_digit ds" unfolding ds_def by (rule list_all_takeWhile)
    define n where "n = int (read_digits 0 ds)"
    note pi = parse_int64_digits [OF d(2) digits, folded n_def]
    have m: "size_means s v \<longleftrightarrow> v = n * k" unfolding means using k d by (simp add: n_def)
    have big: "n * k > 2 ^ 62" if "\<not> n < 2 ^ 63"
    proof -
      have "n * 1 \<le> n * k" using pos by (intro mult_left_mono) (auto simp: n_def)
      then have "2 ^ 63 \<le> n * k" using that by linarith
      then show ?thesis by simp
    qed
    have r: "parse_size s = (if n < 2 ^ 63 then if n * k \<le> 2 ^ 62 then Inr (n * k)
        else Inl (size_error s ''too large'') else Inl (size_error s ''out of range''))"
      unfolding parse using d k pos mul64_exact [of n k]
      by (simp add: pi le_div_iff linorder_not_le [symmetric] n_def)
    show ?thesis using big unfolding r m by auto
  qed
qed

text \<open>C18. \<^verbatim>\<open>ParseSize\<close> accepts exactly the texts that denote a size of at most \<open>2 ^ 62\<close> bytes and
  returns the size that the text denotes: neither the scan of the number nor the multiplication
  of two 64-bit integers by the unit ever wraps around, and what is too large is refused instead
  of being read as a small size or as "no limit".\<close>

theorem parse_size_exact:
  "parse_size s = Inr v \<longleftrightarrow> size_means s v \<and> v \<le> 2 ^ 62"
  by (rule parse_size_means)

lemma first_error_None: "first_error es = None \<longleftrightarrow> (\<forall>e \<in> set es. e = None)"
  by (induction es rule: first_error.induct) auto

lemma unless_ok_None [simp]: "unless_ok b e = None \<longleftrightarrow> b"
  by (simp add: unless_ok_def)

text \<open>A watermark is a ratio from 0 to 1, where 0 switches it off, or NaN; two ratios that are on are in order.\<close>

definition marks_in_order :: "go_float \<Rightarrow> go_float \<Rightarrow> bool" where
  "marks_in_order hi cr \<longleftrightarrow>
     (\<forall>m \<in> {hi, cr}. m = NaN \<or> (\<exists>q. m = Finite q \<and> 0 \<le> q \<and> q \<le> 1))
     \<and> (\<forall>p q. hi = Finite p \<longrightarrow> cr = Finite q \<longrightarrow> 0 < p \<longrightarrow> 0 < q \<longrightarrow> p \<le> q)"

lemma marks_checked: "validate_marks s = None \<Longrightarrow> marks_in_order (sc_high_mark s) (sc_critical_mark s)"
  by (cases "sc_high_mark s"; cases "sc_critical_mark s")
    (auto simp: validate_marks_def marks_in_order_def first_error_None unless_ok_None Let_def linorder_not_less)

definition well_formed_config :: "(string \<Rightarrow> err option) \<Rightarrow> config \<Rightarrow> bool" where
  "well_formed_config re c \<longleftrightarrow>
     (let s = g_storage c; e = g_engine c; b = g_branches c; f = sc_fsx s in
       (sc_backend s = ''ebs-zfs'' \<or> sc_backend s = ''apfs'' \<or> sc_backend s = ''reflink'' \<or> sc_backend s = ''fsx-zfs'')
     \<and> (sc_backend s = ''fsx-zfs'' \<longrightarrow> fx_region f \<noteq> [] \<and> fx_filesystem f \<noteq> [] \<and> fx_base_volume f \<noteq> [] \<and> fx_dns f \<noteq> [])
     \<and> (sc_backend s = ''apfs'' \<or> sc_backend s = ''reflink'' \<longrightarrow> lo_root (sc_local s) \<noteq> [])
     \<and> (g_log_format c = ''text'' \<or> g_log_format c = ''json'')
     \<and> (ec_type e = ''mysql'' \<or> ec_type e = ''postgres'')
     \<and> re (bc_name_pattern b) = None
     \<and> (bc_profiles b \<noteq> [] \<longrightarrow> bc_default_profile b \<noteq> [] \<longrightarrow> map_of (bc_profiles b) (bc_default_profile b) \<noteq> None)
     \<and> fst (port_range c) \<in> {1..snd (port_range c)}
     \<and> engine_mode c \<in> {''systemd'', ''process''}
     \<and> (\<forall>(k, v) \<in> set (size_settings c). \<exists>n. size_means v n \<and> 0 \<le> n \<and> n \<le> 2 ^ 62)
     \<and> marks_in_order (sc_high_mark s) (sc_critical_mark s)
     \<and> (pr_tls_cert (g_proxy c) = [] \<longleftrightarrow> pr_tls_key (g_proxy c) = [])
     \<and> sc_legacy_zfs s = None \<and> sc_legacy_fsx s = None
     \<and> g_run_dir c \<noteq> [] \<and> g_log_dir c \<noteq> [] \<and> hc_log_dir (g_hooks c) \<noteq> [] \<and> bs_sentinel (g_baseline c) \<noteq> []
     \<and> normalize_config c = c)"

lemma bad_size_None: "bad_size kv = None \<longleftrightarrow> (\<exists>n. parse_size (snd kv) = Inr n)"
  by (auto simp: bad_size_def split: sum.splits)

lemma or_else_idem [simp]: "or_else (or_else s d) d = or_else s d" "or_else a (or_else a d) = or_else a d"
  "or_else s (c # d) \<noteq> []"
  by (auto simp: or_else_def)

lemma normalize_idem: "normalize_config (normalize_config c) = normalize_config c"
proof -
  have s: "normal_storage (normal_storage x) = normal_storage x" for x
    by (simp add: normal_storage_def normal_backend_def)
  have m: "normal_mysql (normal_mysql x) = normal_mysql x" for x
    by (simp add: normal_mysql_def)
  have o: "or_else (or_else x a) a = or_else x a" for x a by simp
  show ?thesis by (simp add: normalize_config_def Let_def s m)
qed

lemma size_means_nonneg: "size_means s v \<Longrightarrow> 0 \<le> v"
  unfolding size_means_def by auto

lemma sizes_parsed:
  assumes "first_error (map bad_size (visit xs)) = None" "set (visit xs) = set xs" "(k, v) \<in> set xs"
  shows "\<exists>n. size_means v n \<and> 0 \<le> n \<and> n \<le> 2 ^ 62"
proof -
  have "(k, v) \<in> set (visit xs)" using assms(2,3) by simp
  then have "bad_size (k, v) = None" using assms(1) by (force simp: first_error_None)
  then obtain n where "parse_size v = Inr n" by (auto simp: bad_size_None)
  then show ?thesis using parse_size_means size_means_nonneg by blast
qed

lemma default_profile_exists:
  "validate_profiles b = None \<Longrightarrow> bc_profiles b \<noteq> [] \<longrightarrow> bc_default_profile b \<noteq> []
    \<longrightarrow> map_of (bc_profiles b) (bc_default_profile b) \<noteq> None"
  by (auto simp: validate_profiles_def map_of_eq_None_iff)

lemma engine_checks:
  "validate_engine (g_engine c) = None \<Longrightarrow> fst (port_range c) \<in> {1..snd (port_range c)}
     \<and> engine_mode c \<in> {''systemd'', ''process''}"
  by (auto simp: validate_engine_def first_error_None port_range_def engine_mode_def for_engine_def
      ports_ok_def known_mode_def or_else_def)

lemma storage_checks:
  assumes "validate_storage s = None"
  shows "(sc_backend s = ''ebs-zfs'' \<or> sc_backend s = ''apfs'' \<or> sc_backend s = ''reflink'' \<or> sc_backend s = ''fsx-zfs'')
     \<and> (sc_backend s = ''fsx-zfs'' \<longrightarrow> fx_region (sc_fsx s) \<noteq> [] \<and> fx_filesystem (sc_fsx s) \<noteq> []
          \<and> fx_base_volume (sc_fsx s) \<noteq> [] \<and> fx_dns (sc_fsx s) \<noteq> [])
     \<and> (sc_backend s = ''apfs'' \<or> sc_backend s = ''reflink'' \<longrightarrow> lo_root (sc_local s) \<noteq> [])"
proof -
  have "sc_backend s \<in> set [''ebs-zfs'', ''fsx-zfs'', ''apfs'', ''reflink'']"
    "sc_backend s = ''fsx-zfs'' \<longrightarrow> [] \<notin> set [fx_region (sc_fsx s), fx_filesystem (sc_fsx s),
       fx_base_volume (sc_fsx s), fx_dns (sc_fsx s)]"
    "sc_backend s \<in> set [''apfs'', ''reflink''] \<longrightarrow> lo_root (sc_local s) \<noteq> []"
    using assms by (simp_all add: validate_storage_def first_error_None Let_def)
  then show ?thesis by (simp only: list.set insert_iff empty_iff simp_thms) metis
qed

lemma normalized_fields:
  "c = normalize_config c0 \<Longrightarrow> sc_legacy_zfs (g_storage c) = None \<and> sc_legacy_fsx (g_storage c) = None
     \<and> g_run_dir c \<noteq> [] \<and> g_log_dir c \<noteq> [] \<and> hc_log_dir (g_hooks c) \<noteq> [] \<and> bs_sentinel (g_baseline c) \<noteq> []
     \<and> normalize_config c = c"
  by (simp add: normalize_idem) (simp add: normalize_config_def Let_def normal_storage_def or_else_def)

lemma validate_parts:
  assumes "validate_config re visit c = None"
  shows "validate_storage (g_storage c) = None"
    "g_log_format c = ''text'' \<or> g_log_format c = ''json''"
    "ec_type (g_engine c) = ''mysql'' \<or> ec_type (g_engine c) = ''postgres''"
    "re (bc_name_pattern (g_branches c)) = None"
    "validate_profiles (g_branches c) = None" "validate_engine (g_engine c) = None"
    "first_error (map bad_size (visit (size_settings c))) = None"
    "validate_marks (g_storage c) = None"
    "pr_tls_cert (g_proxy c) = [] \<longleftrightarrow> pr_tls_key (g_proxy c) = []"
  using assms by (auto simp: validate_config_def first_error_None)

lemma finish_load_well_formed:
  assumes visit: "\<And>xs. set (dc_visit D xs) = set xs" and load: "finish_load D c0 = Inr c"
  shows "well_formed_config (dc_re D) c"
proof -
  have c: "c = normalize_config c0" and v: "validate_config (dc_re D) (dc_visit D) c = None"
    using load by (auto simp: finish_load_def Let_def split: option.splits)
  note parts = validate_parts [OF v]
  have sizes: "\<forall>(k, v) \<in> set (size_settings c). \<exists>n. size_means v n \<and> 0 \<le> n \<and> n \<le> 2 ^ 62"
    using sizes_parsed [of "dc_visit D" "size_settings c", OF parts(7) visit] by blast
  note marks = marks_checked [OF parts(8)]
  show ?thesis
    unfolding well_formed_config_def Let_def
    using parts(2,3,4,9) default_profile_exists [OF parts(5)] engine_checks [OF parts(6)] sizes marks
      normalized_fields [OF c] storage_checks [OF parts(1)]
    by satx
qed

theorem parse_size_exact_witness: "parse_size '' 20 GiB'' = Inr (20 * 2 ^ 30)"
proof -
  have "blank '' ''" by (rule blank_one) (simp add: space_char_def is_space_def)
  moreover have "unit_power ''GiB'' 3"
  proof -
    have "char_of (103 :: nat) = CHR ''g''" "char_of (98 :: nat) = CHR ''b''" by (simp_all add: char_of_eq_iff)
    then have "to_lower ''GiB'' = ''g'' @ ''ib''" by (simp add: to_lower_step lower_char_def Let_def)
    moreover have "(''g'', 3) \<in> set (zip ['''', ''k'', ''m'', ''g'', ''t''] [0..<5])"
      by (simp add: upt_rec numeral_nat)
    ultimately show ?thesis unfolding unit_power_def by (intro exI conjI) (assumption | simp)+
  qed
  ultimately have "size_means ('' '' @ ''20'' @ '' '' @ ''GiB'' @ []) (20 * 2 ^ 30)"
    unfolding size_means_def
    by (intro disjI2 exI conjI) (rule refl | assumption | simp add: is_digit_def digit_val_def)+
  then show ?thesis using parse_size_exact [of "'' 20 GiB''" "20 * 2 ^ 30"] by simp
qed

text \<open>C17. A configuration that \<^verbatim>\<open>Load\<close> returns is well formed, whatever the file says and
  in whatever order the sizes were visited: it names one of the four backends with the settings
  that the backend needs, a known log format, engine and modes, a name pattern that compiles,
  a default profile that exists, port ranges that are not empty, sizes that denote one, ratios
  from 0 to 1 in order, a certificate exactly with a key, no leftover of the old keys, and
  directories that are set; normalising it again changes nothing.\<close>

theorem loaded_config_well_formed:
  assumes "\<And>xs. set (dc_visit D xs) = set xs"
    and "fst (load_config H D path w) = Inr c"
  shows "well_formed_config (dc_re D) c"
  using assms finish_load_well_formed [OF assms(1)]
  by (auto simp: load_config_def check_def split: sum.splits prod.splits decoded.splits)

definition sample_decoder :: decoder where
  "sample_decoder = \<lparr>dc_yaml = (\<lambda>data c. DecEof c), dc_re = (\<lambda>p. None), dc_visit = (\<lambda>xs. xs)\<rparr>"

lemma parse_size_examples:
  "parse_size [] = Inr 0" "parse_size ''256M'' = Inr (2 ^ 28)" "parse_size ''128M'' = Inr (2 ^ 27)"
proof -
  have "char_of (109 :: nat) = CHR ''m''" by (simp add: char_of_eq_iff)
  then have l: "to_lower ''M'' = ''m''" by (simp add: to_lower_step lower_char_def Let_def)
  have t: "trim_space ''256M'' = ''256M''" "trim_space ''128M'' = ''128M''" "trim_space ''M'' = ''M''"
    by (simp_all add: trim_clean plain_char_def is_space_def)
  have e: "trim_space [] = []" by (simp add: trim_clean)
  show "parse_size [] = Inr 0" "parse_size ''256M'' = Inr (2 ^ 28)" "parse_size ''128M'' = Inr (2 ^ 27)"
    by (simp_all add: parse_size_means size_means_alt e t l is_digit_def digit_val_def size_unit_def Let_def)
qed

lemma default_loads:
  "fst (load_config sample_host sample_decoder ''/etc/sashiki/config.yaml'' 0)
     = Inr (normalize_config default_config)"
proof -
  have "first_error (map bad_size (size_settings default_config)) = None"
    by (simp add: size_settings_def default_config_def default_storage_def default_mysql_def
        default_postgres_def bad_size_def parse_size_examples Let_def)
  moreover have "size_settings (normalize_config default_config) = size_settings default_config"
    by (simp add: size_settings_def normalize_config_def normal_storage_def normal_mysql_def default_config_def Let_def
        default_storage_def)
  ultimately have "validate_config (dc_re sample_decoder) (dc_visit sample_decoder) (normalize_config default_config) = None"
    by (simp add: validate_config_def sample_decoder_def)
      (simp add: normalize_config_def default_config_def default_storage_def normal_storage_def
        default_mysql_def default_postgres_def default_branches_def validate_storage_def validate_engine_def
        validate_marks_def validate_profiles_def unless_ok_def known_mode_def ports_ok_def normal_backend_def
        normal_mysql_def Let_def)
  then show ?thesis
    by (simp add: load_config_def check_def sample_host_def succeed_def finish_load_def)
      (simp add: sample_decoder_def finish_load_def)
qed

theorem loaded_config_well_formed_witness:
  "well_formed_config (\<lambda>p. None) (normalize_config default_config)"
  using loaded_config_well_formed [OF _ default_loads] by (simp add: sample_decoder_def)

definition secret_value :: "'w host \<Rightarrow> 'w ssm_api \<Rightarrow> secret_ref \<Rightarrow> 'w \<Rightarrow> string \<Rightarrow> bool" where
  "secret_value H A r w v \<longleftrightarrow>
     (if sr_ssm r \<noteq> [] then fst (sm_get A (sr_ssm r) (snd (sm_config A w))) = Inr (Some v)
      else if sr_env r \<noteq> [] then v = getenv (h_environ H) (sr_env r)
      else if sr_file r \<noteq> [] then (\<exists>b. fst (h_read_file H (sr_file r) w) = Inr b \<and> v = trim_newlines b)
      else v = sr_literal r)"

lemma resolve_secret_value:
  "fst (resolve_secret H A r what w) = Inr v \<Longrightarrow> v \<noteq> [] \<and> secret_value H A r w v"
  by (auto simp: resolve_secret_def resolve_local_def secret_value_def get_parameter_def check_def
      wrapping_def throw_def ret_def Let_def split: if_splits sum.splits prod.splits option.splits)

lemma app_pass_set: "app_pass (set_app_pass v c) = v"
  by (simp add: app_pass_def set_app_pass_def for_engine_def Let_def)

text \<open>\<^verbatim>\<open>ResolveAppPass\<close> succeeds only with a password that is not empty, taken from the
  first place that is configured in the order SSM, environment variable, file (without its last line breaks),
  plain text; an empty value there is an error, never a reason to fall back to the next place. It changes nothing
  of the configuration but the password of the selected engine.\<close>

theorem app_pass_comes_from_first_place:
  assumes "fst (resolve_app_pass H A c w) = Inr c'"
  shows "app_pass c' \<noteq> [] \<and> secret_value H A (app_pass_ref c) w (app_pass c')
     \<and> c' = set_app_pass (app_pass c') c"
proof -
  obtain v where "fst (resolve_secret H A (app_pass_ref c) (app_pass_key c) w) = Inr v"
    "c' = set_app_pass v c"
    using assms by (auto simp: resolve_app_pass_def check_def throw_def ret_def Let_def
        split: if_splits sum.splits prod.splits)
  then show ?thesis using resolve_secret_value [of H A "app_pass_ref c" "app_pass_key c" w v]
    by (simp add: app_pass_set)
qed

theorem app_pass_comes_from_first_place_witness:
  "app_pass (set_app_pass ''dev'' default_config) = ''dev'' \<and> secret_value sample_host \<lparr>sm_config = succeed (), sm_get = (\<lambda>n. succeed None)\<rparr>
     (app_pass_ref default_config) 0 ''dev''"
proof -
  let ?A = "\<lparr>sm_config = succeed (), sm_get = (\<lambda>n. succeed None)\<rparr>"
  have r: "fst (resolve_app_pass sample_host ?A default_config 0) = Inr (set_app_pass ''dev'' default_config)"
    by (simp add: resolve_app_pass_def resolve_secret_def resolve_local_def app_pass_ref_def for_engine_def
        default_config_def default_mysql_def is_zero_ref_def check_def ret_def Let_def)
  show ?thesis using app_pass_comes_from_first_place [OF r] by (auto simp: app_pass_set)
qed

end
