(* ===== verification/RootHelper.thy ===== *)
theory RootHelper
  imports Sample
begin

text \<open>
  internal/roothelper and cmd/sashiki-root-helper: the program that sudo runs as root for the
  daemon. \<open>validate_args\<close> decides which argument vectors it executes; \<open>helper_main\<close> is the
  program. Reading and decoding its YAML file is a parameter: the decoded record or an error.
  The datatype \<open>helper_cmd\<close> is an abstract syntax of what the helper is meant to be able to do,
  and \<open>render_cmd\<close> its argument vectors.
\<close>

section \<open>Names\<close>

definition is_alnum :: "char \<Rightarrow> bool" where
  "is_alnum c = (let n = of_char c :: nat in
     48 \<le> n \<and> n \<le> 57 \<or> 65 \<le> n \<and> n \<le> 90 \<or> 97 \<le> n \<and> n \<le> 122)"

definition name_start :: "char \<Rightarrow> bool" where
  "name_start c \<longleftrightarrow> is_alnum c \<or> c = CHR ''_''"

definition name_char :: "char \<Rightarrow> bool" where
  "name_char c \<longleftrightarrow> is_alnum c \<or> c = CHR ''.'' \<or> c = CHR ''_'' \<or> c = CHR ''-''"

text \<open>The three regular expressions.\<close>

definition name_ok :: "string \<Rightarrow> bool" where
  "name_ok s = (case s of [] \<Rightarrow> False
     | c # cs \<Rightarrow> name_start c \<and> list_all name_char cs \<and> length cs \<le> 79)"

definition dataset_ok :: "string \<Rightarrow> bool" where
  "dataset_ok s = list_all name_ok (split_on (CHR ''/'') s)"

definition quota_ok :: "string \<Rightarrow> bool" where
  "quota_ok s = (case cut_prefix s ''refquota='' of None \<Rightarrow> False
     | Some v \<Rightarrow> v = ''none'' \<or> list_all is_digit v \<and> 1 \<le> length v \<and> length v \<le> 20)"

lemma name_char_safe: "name_char c \<Longrightarrow> c \<notin> {CHR ''@'', CHR ''/'', CHR 0x00, CHR 0x0A, CHR '' '', CHR ''=''}"
  by (auto simp: name_char_def is_alnum_def)

lemma name_ok_chars: "name_ok s \<Longrightarrow> c \<in> set s \<Longrightarrow> name_char c"
  by (auto simp: name_ok_def name_start_def name_char_def list_all_iff split: list.splits)

lemma name_ok_free:
  "name_ok s \<Longrightarrow> CHR ''@'' \<notin> set s \<and> CHR ''/'' \<notin> set s \<and> CHR 0x00 \<notin> set s \<and> CHR 0x0A \<notin> set s"
  using name_ok_chars name_char_safe by blast

lemma name_ok_head: "name_ok s \<Longrightarrow> hd s \<noteq> CHR ''-'' \<and> s \<noteq> []"
  by (auto simp: name_ok_def name_start_def is_alnum_def split: list.splits)

lemma split_on_cover: "x \<in> set s \<Longrightarrow> x = c \<or> (\<exists>t \<in> set (split_on c s). x \<in> set t)"
proof (induction s)
  case (Cons y ys)
  then show ?case by (cases "split_on c ys") auto
qed simp

lemma dataset_ok_chars: "dataset_ok s \<Longrightarrow> c \<in> set s \<Longrightarrow> name_char c \<or> c = CHR ''/''"
  using split_on_cover [of c s "CHR ''/''"] name_ok_chars by (auto simp: dataset_ok_def list_all_iff)

lemma dataset_ok_free: "dataset_ok s \<Longrightarrow> CHR ''@'' \<notin> set s \<and> CHR 0x00 \<notin> set s \<and> CHR 0x0A \<notin> set s"
  using dataset_ok_chars name_char_safe by fastforce

section \<open>Configuration\<close>

record hcfg =
  hc_pool :: string
  hc_base :: string
  hc_parent :: string
  hc_units :: "string list"

definition default_units :: "string list" where
  "default_units = [''mysqld'', ''postgres-sashiki'']"

definition dataset_in :: "string \<Rightarrow> string \<Rightarrow> bool" where
  "dataset_in pool ds \<longleftrightarrow> has_prefix ds (pool @ ''/'') \<and> dataset_ok ds"

definition normalize_helper :: "hcfg \<Rightarrow> err + hcfg" where
  "normalize_helper c =
     (if hc_pool c = [] \<or> \<not> name_ok (hc_pool c) then Inl (EText (''bad pool: '' @ hc_pool c))
      else let c1 = (if hc_base c = [] then c\<lparr>hc_base := hc_pool c @ ''/base''\<rparr> else c);
               c2 = (if hc_parent c1 = [] then c1\<lparr>hc_parent := hc_pool c1 @ ''/branches''\<rparr> else c1) in
        case filter (\<lambda>ds. \<not> dataset_in (hc_pool c2) ds) [hc_base c2, hc_parent c2] of
          ds # _ \<Rightarrow> Inl (EText (''dataset '' @ ds @ '' is not below pool '' @ hc_pool c2))
        | [] \<Rightarrow>
            let c3 = (if hc_units c2 = [] then c2\<lparr>hc_units := default_units\<rparr> else c2) in
            case filter (\<lambda>u. \<not> name_ok u) (hc_units c3) of
              u # _ \<Rightarrow> Inl (EText (''bad unit name: '' @ u))
            | [] \<Rightarrow> Inr c3)"

section \<open>Validation\<close>

definition deny :: "string \<Rightarrow> err + unit" where
  "deny msg = Inl (EText msg)"

definition is_branch_ds :: "hcfg \<Rightarrow> string \<Rightarrow> bool" where
  "is_branch_ds c s = (case cut_prefix s (hc_parent c @ ''/'') of None \<Rightarrow> False | Some r \<Rightarrow> name_ok r)"

definition is_base_snap :: "hcfg \<Rightarrow> string \<Rightarrow> bool" where
  "is_base_snap c s = (case cut_prefix s (hc_base c @ ''@'') of None \<Rightarrow> False | Some r \<Rightarrow> name_ok r)"

definition is_branch_init_snap :: "hcfg \<Rightarrow> string \<Rightarrow> bool" where
  "is_branch_init_snap c s = (case cut_at (CHR ''@'') s of
      (ds, Some snap) \<Rightarrow> snap = ''init'' \<and> is_branch_ds c ds | _ \<Rightarrow> False)"

definition is_branch_baseline_snap :: "hcfg \<Rightarrow> string \<Rightarrow> bool" where
  "is_branch_baseline_snap c s = (case cut_at (CHR ''@'') s of
      (ds, Some snap) \<Rightarrow>
        if \<not> is_branch_ds c ds then False
        else (case cut_prefix snap ''baseline-'' of None \<Rightarrow> False | Some tag \<Rightarrow> name_ok tag)
    | _ \<Rightarrow> False)"

definition is_in_pool :: "hcfg \<Rightarrow> string \<Rightarrow> bool" where
  "is_in_pool c s = (case cut_at (CHR ''@'') s of (ds, snap) \<Rightarrow>
      if (case snap of None \<Rightarrow> False | Some t \<Rightarrow> \<not> name_ok t) then False
      else if ds = hc_pool c then True
      else (case cut_prefix ds (hc_pool c @ ''/'') of None \<Rightarrow> False | Some r \<Rightarrow> dataset_ok r))"

definition readable_props :: "string list" where
  "readable_props = [''mountpoint'', ''used'', ''referenced'']"

definition is_snapshot_arg :: "hcfg \<Rightarrow> string \<Rightarrow> bool" where
  "is_snapshot_arg c s \<longleftrightarrow> is_base_snap c s \<or> is_branch_baseline_snap c s"

text \<open>The arguments that follow each subcommand of zfs; \<open>None\<close> for an unknown one.\<close>

definition zfs_form :: "hcfg \<Rightarrow> string \<Rightarrow> string list \<Rightarrow> bool option" where
  "zfs_form c sub rest =
     (if sub = ''clone'' then Some (case rest of [s, d] \<Rightarrow> is_snapshot_arg c s \<and> is_branch_ds c d | _ \<Rightarrow> False)
      else if sub = ''snapshot'' then Some (case rest of [s] \<Rightarrow> is_branch_init_snap c s \<or> is_snapshot_arg c s | _ \<Rightarrow> False)
      else if sub = ''rollback'' then Some (case rest of [f, s] \<Rightarrow> f = ''-r'' \<and> is_branch_init_snap c s | _ \<Rightarrow> False)
      else if sub = ''destroy'' then
        Some (case rest of [f, d] \<Rightarrow> f = ''-r'' \<and> is_branch_ds c d | [s] \<Rightarrow> is_snapshot_arg c s | _ \<Rightarrow> False)
      else if sub = ''rename'' then Some (case rest of [d, e] \<Rightarrow> is_branch_ds c d \<and> is_branch_ds c e | _ \<Rightarrow> False)
      else if sub = ''set'' then Some (case rest of [q, d] \<Rightarrow> quota_ok q \<and> is_branch_ds c d | _ \<Rightarrow> False)
      else if sub = ''get'' then
        Some (case rest of
            [f, g, h, p, d] \<Rightarrow> [f, g, h] = [''-H'', ''-o'', ''value''] \<and> p \<in> set readable_props \<and> is_in_pool c d
          | [f, g, h, i, p, d] \<Rightarrow>
              [f, g, h, i] = [''-H'', ''-p'', ''-o'', ''value''] \<and> p \<in> set readable_props \<and> is_in_pool c d
          | _ \<Rightarrow> False)
      else if sub = ''list'' then
        Some (case rest of
            [f, g, h, i, d] \<Rightarrow> [f, g, h, i] = [''-H'', ''-o'', ''name'', ''-r''] \<and> is_in_pool c d
          | [f, g, h, i, j, k, d] \<Rightarrow>
              [f, g, h, i, j, k] = [''-H'', ''-t'', ''snapshot'', ''-o'', ''name'', ''-r''] \<and> is_in_pool c d
          | _ \<Rightarrow> False)
      else None)"

definition validate_zfs :: "hcfg \<Rightarrow> string list \<Rightarrow> err + unit" where
  "validate_zfs c a = (case a of [] \<Rightarrow> deny ''zfs: no subcommand''
     | sub # rest \<Rightarrow> (case zfs_form c sub rest of
         None \<Rightarrow> deny (''zfs '' @ sub @ '' is not allowed'')
       | Some ok \<Rightarrow> if ok then Inr () else deny (''zfs '' @ sub @ '': arguments not allowed'')))"

definition validate_zpool :: "hcfg \<Rightarrow> string list \<Rightarrow> err + unit" where
  "validate_zpool c a =
     (if a = [''list'', ''-Hp'', ''-o'', ''alloc,size'', hc_pool c] then Inr ()
      else if a = [''status'', ''-x'', hc_pool c] then Inr ()
      else deny ''zpool: arguments not allowed'')"

definition is_unit :: "hcfg \<Rightarrow> string \<Rightarrow> bool" where
  "is_unit c s = (case cut_at (CHR ''@'') s of
      (tmpl, Some i) \<Rightarrow> if \<not> name_ok i then False else tmpl \<in> set (hc_units c)
    | _ \<Rightarrow> False)"

definition validate_systemctl :: "hcfg \<Rightarrow> string list \<Rightarrow> err + unit" where
  "validate_systemctl c a =
     (if (case a of [v, u] \<Rightarrow> v \<in> set [''start'', ''stop'', ''is-active''] \<and> is_unit c u | _ \<Rightarrow> False) then Inr ()
      else if (case a of [v, f, g, u] \<Rightarrow> [v, f, g] = [''kill'', ''-s'', ''SIGKILL''] \<and> is_unit c u | _ \<Rightarrow> False)
      then Inr ()
      else deny ''systemctl: arguments not allowed'')"

definition validate_args :: "hcfg \<Rightarrow> string list \<Rightarrow> err + unit" where
  "validate_args c args = (case args of [] \<Rightarrow> deny ''no command''
     | tool # rest \<Rightarrow>
         if list_ex (\<lambda>a. CHR 0x00 \<in> set a \<or> CHR 0x0A \<in> set a) args then deny ''bad character in an argument''
         else if tool = ''zfs'' then validate_zfs c rest
         else if tool = ''zpool'' then validate_zpool c rest
         else if tool = ''systemctl'' then validate_systemctl c rest
         else if tool = ''rm-base-auto-cnf''
         then (if rest \<noteq> [] then deny ''rm-base-auto-cnf takes no argument'' else Inr ())
         else deny (''command '' @ tool @ '' is not allowed''))"

section \<open>The program\<close>

definition binary_of :: "string \<Rightarrow> string" where
  "binary_of tool = (if tool = ''zfs'' then ''/usr/sbin/zfs''
     else if tool = ''zpool'' then ''/usr/sbin/zpool''
     else if tool = ''systemctl'' then ''/usr/bin/systemctl'' else [])"

definition bare_cmd :: "string \<Rightarrow> string list \<Rightarrow> cmd" where
  "bare_cmd p as = \<lparr>cmd_path = p, cmd_args = as, cmd_env = None, cmd_stdin = None, cmd_user = None\<rparr>"

definition helper_rm_auto_cnf :: "'w host \<Rightarrow> hcfg \<Rightarrow> ('w, unit) ext" where
  "helper_rm_auto_cnf H c w =
     (case h_run H (bare_cmd (binary_of ''zfs'')
               [''get'', ''-H'', ''-o'', ''value'', ''mountpoint'', hc_base c]) w of ((r, out), w1) \<Rightarrow>
      (case run_error r of
         Some e \<Rightarrow> (Inl (EWrap (''mountpoint of '' @ hc_base c @ '': '') e []), w1)
       | None \<Rightarrow>
           let mp = trim_space out in
           if mp = [] \<or> mp = ''-'' \<or> mp = ''none'' \<or> \<not> has_prefix mp ''/''
           then (Inl (EText (hc_base c @ '': no mountpoint'')), w1)
           else (case h_remove H (mp @ ''/data/auto.cnf'') w1 of
               (FsOk, w2) \<Rightarrow> (Inr (), w2)
             | (FsNotExist e, w2) \<Rightarrow> (Inr (), w2)
             | (FsPermission e, w2) \<Rightarrow> (Inl (EWrap (''remove '' @ mp @ ''/data/auto.cnf: '') e []), w2)
             | (FsFailed e, w2) \<Rightarrow> (Inl (EWrap (''remove '' @ mp @ ''/data/auto.cnf: '') e []), w2))))"

definition helper_env :: "string list" where
  "helper_env = [''PATH=/usr/sbin:/usr/bin:/sbin:/bin'', ''LC_ALL=C'']"

definition helper_main :: "'w host \<Rightarrow> (err + hcfg) \<Rightarrow> string list \<Rightarrow> 'w \<Rightarrow> int \<times> 'w" where
  "helper_main H decoded args w =
     (if args = [''--version''] \<or> args = [''version''] then (0, w)
      else if \<not> h_is_root H then (2, w)
      else case decoded of Inl _ \<Rightarrow> (2, w) | Inr c0 \<Rightarrow>
       (case normalize_helper c0 of Inl _ \<Rightarrow> (2, w) | Inr c \<Rightarrow>
        (case validate_args c args of Inl _ \<Rightarrow> (3, w) | Inr _ \<Rightarrow>
          if hd args = ''rm-base-auto-cnf''
          then (case helper_rm_auto_cnf H c w of (Inl _, w') \<Rightarrow> (1, w') | (Inr _, w') \<Rightarrow> (0, w'))
          else (case h_run H ((bare_cmd (binary_of (hd args)) (tl args))\<lparr>cmd_env := Some helper_env\<rparr>) w of
              ((RunOk, _), w') \<Rightarrow> (0, w')
            | ((RunExit code _, _), w') \<Rightarrow> (code, w')
            | ((RunFailed _, _), w') \<Rightarrow> (1, w')))))"

section \<open>What the helper is for\<close>

text \<open>A snapshot that branches are cloned from: of the base, or one promoted from a branch.\<close>

datatype baseline_ref = OfBase string | OfBranch string string

datatype helper_cmd =
    HClone baseline_ref string
  | HSnapInit string
  | HSnap baseline_ref
  | HRollback string
  | HDestroy string
  | HDestroySnap baseline_ref
  | HRename string string
  | HQuota "string option" string
  | HGet bool string "string option" "string option"
  | HList bool "string option" "string option"
  | HPoolCapacity
  | HPoolStatus
  | HUnit string string string
  | HKill string string
  | HRemoveAutoCnf

definition branch_ds :: "hcfg \<Rightarrow> string \<Rightarrow> string" where
  "branch_ds c n = hc_parent c @ ''/'' @ n"

fun ref_text :: "hcfg \<Rightarrow> baseline_ref \<Rightarrow> string" where
  "ref_text c (OfBase t) = hc_base c @ ''@'' @ t"
| "ref_text c (OfBranch b t) = branch_ds c b @ ''@baseline-'' @ t"

definition pool_target :: "hcfg \<Rightarrow> string option \<Rightarrow> string option \<Rightarrow> string" where
  "pool_target c p s = hc_pool c @ (case p of None \<Rightarrow> [] | Some d \<Rightarrow> ''/'' @ d)
     @ (case s of None \<Rightarrow> [] | Some t \<Rightarrow> ''@'' @ t)"

definition quota_text :: "string option \<Rightarrow> string" where
  "quota_text q = ''refquota='' @ (case q of None \<Rightarrow> ''none'' | Some d \<Rightarrow> d)"

fun render_cmd :: "hcfg \<Rightarrow> helper_cmd \<Rightarrow> string list" where
  "render_cmd c (HClone r n) = [''zfs'', ''clone'', ref_text c r, branch_ds c n]"
| "render_cmd c (HSnapInit n) = [''zfs'', ''snapshot'', branch_ds c n @ ''@init'']"
| "render_cmd c (HSnap r) = [''zfs'', ''snapshot'', ref_text c r]"
| "render_cmd c (HRollback n) = [''zfs'', ''rollback'', ''-r'', branch_ds c n @ ''@init'']"
| "render_cmd c (HDestroy n) = [''zfs'', ''destroy'', ''-r'', branch_ds c n]"
| "render_cmd c (HDestroySnap r) = [''zfs'', ''destroy'', ref_text c r]"
| "render_cmd c (HRename n m) = [''zfs'', ''rename'', branch_ds c n, branch_ds c m]"
| "render_cmd c (HQuota q n) = [''zfs'', ''set'', quota_text q, branch_ds c n]"
| "render_cmd c (HGet raw p d s) =
     [''zfs'', ''get'', ''-H''] @ (if raw then [''-p''] else []) @ [''-o'', ''value'', p, pool_target c d s]"
| "render_cmd c (HList snaps d s) =
     [''zfs'', ''list'', ''-H''] @ (if snaps then [''-t'', ''snapshot''] else [])
       @ [''-o'', ''name'', ''-r'', pool_target c d s]"
| "render_cmd c HPoolCapacity = [''zpool'', ''list'', ''-Hp'', ''-o'', ''alloc,size'', hc_pool c]"
| "render_cmd c HPoolStatus = [''zpool'', ''status'', ''-x'', hc_pool c]"
| "render_cmd c (HUnit v u i) = [''systemctl'', v, u @ ''@'' @ i]"
| "render_cmd c (HKill u i) = [''systemctl'', ''kill'', ''-s'', ''SIGKILL'', u @ ''@'' @ i]"
| "render_cmd c HRemoveAutoCnf = [''rm-base-auto-cnf'']"

fun ref_ok :: "baseline_ref \<Rightarrow> bool" where
  "ref_ok (OfBase t) = name_ok t"
| "ref_ok (OfBranch b t) = (name_ok b \<and> name_ok t)"

definition opt_ok :: "('a \<Rightarrow> bool) \<Rightarrow> 'a option \<Rightarrow> bool" where
  "opt_ok P v = (case v of None \<Rightarrow> True | Some x \<Rightarrow> P x)"

definition digits_ok :: "string \<Rightarrow> bool" where
  "digits_ok d \<longleftrightarrow> list_all is_digit d \<and> 1 \<le> length d \<and> length d \<le> 20"

fun cmd_ok :: "hcfg \<Rightarrow> helper_cmd \<Rightarrow> bool" where
  "cmd_ok c (HClone r n) = (ref_ok r \<and> name_ok n)"
| "cmd_ok c (HSnapInit n) = name_ok n"
| "cmd_ok c (HSnap r) = ref_ok r"
| "cmd_ok c (HRollback n) = name_ok n"
| "cmd_ok c (HDestroy n) = name_ok n"
| "cmd_ok c (HDestroySnap r) = ref_ok r"
| "cmd_ok c (HRename n m) = (name_ok n \<and> name_ok m)"
| "cmd_ok c (HQuota q n) = (opt_ok digits_ok q \<and> name_ok n)"
| "cmd_ok c (HGet raw p d s) = (p \<in> set readable_props \<and> opt_ok dataset_ok d \<and> opt_ok name_ok s)"
| "cmd_ok c (HList snaps d s) = (opt_ok dataset_ok d \<and> opt_ok name_ok s)"
| "cmd_ok c HPoolCapacity = True"
| "cmd_ok c HPoolStatus = True"
| "cmd_ok c (HUnit v u i) = (v \<in> set [''start'', ''stop'', ''is-active''] \<and> u \<in> set (hc_units c) \<and> name_ok i)"
| "cmd_ok c (HKill u i) = (u \<in> set (hc_units c) \<and> name_ok i)"
| "cmd_ok c HRemoveAutoCnf = True"

section \<open>Normalised configurations\<close>

definition helper_normal :: "hcfg \<Rightarrow> bool" where
  "helper_normal c \<longleftrightarrow> name_ok (hc_pool c) \<and> dataset_in (hc_pool c) (hc_base c)
     \<and> dataset_in (hc_pool c) (hc_parent c) \<and> list_all name_ok (hc_units c)"

lemma normalize_normal: "normalize_helper c0 = Inr c \<Longrightarrow> helper_normal c"
  by (auto simp: normalize_helper_def helper_normal_def Let_def list_all_iff filter_empty_conv
      split: if_splits list.splits)

lemma normal_free:
  assumes "helper_normal c"
  shows "CHR ''@'' \<notin> set (hc_pool c)" "CHR ''@'' \<notin> set (hc_base c)" "CHR ''@'' \<notin> set (hc_parent c)"
  using assms name_ok_free dataset_ok_free by (auto simp: helper_normal_def dataset_in_def)

lemma cut_prefix_test:
  "(case cut_prefix s p of None \<Rightarrow> False | Some r \<Rightarrow> P r) \<longleftrightarrow> (\<exists>r. s = p @ r \<and> P r)"
proof (cases "cut_prefix s p")
  case None
  then have "s \<noteq> p @ r" for r using cut_prefix_Some [of s p r] by simp
  with None show ?thesis by simp
next
  case (Some r)
  then have "s = p @ r" by (simp add: cut_prefix_Some)
  then show ?thesis by simp
qed

lemma cut_at_test:
  "(case cut_at x s of (a, None) \<Rightarrow> False | (a, Some b) \<Rightarrow> P a b)
     \<longleftrightarrow> (\<exists>a b. s = a @ x # b \<and> x \<notin> set a \<and> P a b)"
proof (cases "x \<in> set s")
  case True
  then obtain a b where s: "s = a @ x # b" "x \<notin> set a" by (metis split_list_first)
  then have cut: "cut_at x s = (a, Some b)" by (simp add: cut_at_Some)
  then have "a' = a \<and> b' = b" if "s = a' @ x # b'" "x \<notin> set a'" for a' b'
    using that cut_at_Some [of x s a' b'] by simp
  with s have "(\<exists>a b. s = a @ x # b \<and> x \<notin> set a \<and> P a b) \<longleftrightarrow> P a b" by metis
  with cut show ?thesis by simp
next
  case False
  then have "cut_at x s = (s, None)" by (simp add: cut_at_None)
  with False show ?thesis by auto
qed

lemma branch_ds_iff: "is_branch_ds c s \<longleftrightarrow> (\<exists>n. name_ok n \<and> s = branch_ds c n)"
  by (auto simp: is_branch_ds_def branch_ds_def cut_prefix_test)

lemma base_snap_iff: "is_base_snap c s \<longleftrightarrow> (\<exists>t. name_ok t \<and> s = ref_text c (OfBase t))"
  by (auto simp: is_base_snap_def cut_prefix_test)

lemma branch_ds_free: "helper_normal c \<Longrightarrow> name_ok n \<Longrightarrow> CHR ''@'' \<notin> set (branch_ds c n)"
  using normal_free name_ok_free by (auto simp: branch_ds_def)

lemma init_snap_iff:
  "helper_normal c \<Longrightarrow> is_branch_init_snap c s \<longleftrightarrow> (\<exists>n. name_ok n \<and> s = branch_ds c n @ ''@init'')"
  using branch_ds_free by (auto simp: is_branch_init_snap_def cut_at_test branch_ds_iff)

lemma baseline_snap_iff:
  "helper_normal c \<Longrightarrow> is_branch_baseline_snap c s \<longleftrightarrow>
     (\<exists>n t. name_ok n \<and> name_ok t \<and> s = ref_text c (OfBranch n t))"
  using branch_ds_free
  by (fastforce simp: is_branch_baseline_snap_def cut_at_test branch_ds_iff cut_prefix_test if_bool_eq_conj)

lemma snapshot_arg_iff:
  assumes "helper_normal c"
  shows "is_snapshot_arg c s \<longleftrightarrow> (\<exists>r. ref_ok r \<and> s = ref_text c r)" (is "?l \<longleftrightarrow> ?r")
proof
  assume ?l
  then consider (b) t where "name_ok t" "s = ref_text c (OfBase t)"
    | (p) n t where "name_ok n" "name_ok t" "s = ref_text c (OfBranch n t)"
    using assms by (auto simp only: is_snapshot_arg_def base_snap_iff baseline_snap_iff)
  then show ?r by (metis ref_ok.simps)
next
  assume ?r
  then obtain r where "ref_ok r" "s = ref_text c r" by blast
  with assms show ?l
    by (cases r) (auto simp only: is_snapshot_arg_def base_snap_iff baseline_snap_iff ref_ok.simps)
qed

lemma opt_ok_simps [simp]: "opt_ok P None" "opt_ok P (Some x) = P x"
  by (simp_all add: opt_ok_def)

lemma is_in_pool_cut: "is_in_pool c s = (case cut_at (CHR ''@'') s of (ds, snap) \<Rightarrow> opt_ok name_ok snap
    \<and> (ds = hc_pool c \<or> (\<exists>r. ds = hc_pool c @ ''/'' @ r \<and> dataset_ok r)))"
  by (auto simp: is_in_pool_def opt_ok_def cut_prefix_test split: option.splits prod.splits)

lemma pool_target_cut:
  assumes "helper_normal c" "opt_ok dataset_ok d"
  shows "cut_at (CHR ''@'') (pool_target c d t) = (pool_target c d None, t)"
proof -
  have "CHR ''@'' \<notin> set (pool_target c d None)"
    using assms normal_free dataset_ok_free by (auto simp: pool_target_def opt_ok_def split: option.splits)
  then show ?thesis
    by (cases t) (auto simp: pool_target_def cut_at_None cut_at_Some)
qed

lemma in_pool_iff:
  assumes "helper_normal c"
  shows "is_in_pool c s \<longleftrightarrow> (\<exists>d t. opt_ok dataset_ok d \<and> opt_ok name_ok t \<and> s = pool_target c d t)"
    (is "?l \<longleftrightarrow> ?r")
proof
  assume ?l
  obtain ds snap where cut: "cut_at (CHR ''@'') s = (ds, snap)" by fastforce
  with \<open>?l\<close> have "opt_ok name_ok snap" "ds = hc_pool c \<or> (\<exists>r. ds = hc_pool c @ ''/'' @ r \<and> dataset_ok r)"
    by (simp_all add: is_in_pool_cut)
  then have snap: "opt_ok name_ok snap" and "\<exists>d. opt_ok dataset_ok d \<and> ds = pool_target c d None"
    by (auto simp: pool_target_def split_option_ex)
  then obtain d where d: "opt_ok dataset_ok d" "ds = pool_target c d None" by blast
  have "s = pool_target c d snap"
    using cut d by (cases snap) (auto simp: cut_at_None cut_at_Some pool_target_def)
  with d snap show ?r by blast
next
  assume ?r
  then obtain d t where dt: "opt_ok dataset_ok d" "opt_ok name_ok t" and s: "s = pool_target c d t" by blast
  then have "cut_at (CHR ''@'') s = (pool_target c d None, t)" using assms pool_target_cut by simp
  with dt show ?l by (auto simp: is_in_pool_cut pool_target_def opt_ok_def split: option.splits)
qed

lemma unit_iff:
  assumes "helper_normal c"
  shows "is_unit c s \<longleftrightarrow> (\<exists>u i. u \<in> set (hc_units c) \<and> name_ok i \<and> s = u @ ''@'' @ i)"
proof -
  have "CHR ''@'' \<notin> set u" if "u \<in> set (hc_units c)" for u
    using assms that name_ok_free by (auto simp: helper_normal_def list_all_iff)
  then show ?thesis by (auto simp: is_unit_def cut_at_test)
qed

lemma quota_iff: "quota_ok s \<longleftrightarrow> (\<exists>q. opt_ok digits_ok q \<and> s = quota_text q)"
proof
  assume "quota_ok s"
  then show "\<exists>q. opt_ok digits_ok q \<and> s = quota_text q"
    by (auto simp: quota_ok_def cut_prefix_test digits_ok_def quota_text_def split_option_ex)
next
  assume "\<exists>q. opt_ok digits_ok q \<and> s = quota_text q"
  then show "quota_ok s"
    by (auto simp: quota_ok_def cut_prefix_test quota_text_def opt_ok_def digits_ok_def split: option.splits)
qed

lemmas arg_iffs = snapshot_arg_iff init_snap_iff in_pool_iff unit_iff

section \<open>The accepted argument vectors\<close>

lemma render_nonempty: "render_cmd c cmd \<noteq> []"
  by (cases cmd) auto

lemma zfs_accepted:
  assumes n: "helper_normal c" and ok: "zfs_form c sub rest = Some True"
  shows "\<exists>cmd. cmd_ok c cmd \<and> ''zfs'' # sub # rest = render_cmd c cmd"
proof -
  consider "sub = ''clone''" | "sub = ''snapshot''" | "sub = ''rollback''" | "sub = ''destroy''"
    | "sub = ''rename''" | "sub = ''set''" | "sub = ''get''" | "sub = ''list''"
    using ok by (auto simp: zfs_form_def split: if_splits)
  then show ?thesis
  proof cases
    case 1
    with ok obtain r m where "ref_ok r" "name_ok m" "rest = [ref_text c r, branch_ds c m]"
      by (auto simp: zfs_form_def arg_iffs [OF n] branch_ds_iff quota_iff split: list.splits)
    with 1 show ?thesis by (intro exI [of _ "HClone r m"]) simp
  next
    case 2
    then consider m where "name_ok m" "rest = [branch_ds c m @ ''@init'']" | r where "ref_ok r" "rest = [ref_text c r]"
      using ok by (auto simp: zfs_form_def arg_iffs [OF n] branch_ds_iff quota_iff split: list.splits)
    then show ?thesis
    proof cases
      case (1 m) with 2 show ?thesis by (intro exI [of _ "HSnapInit m"]) simp
    next
      case (2 r) with \<open>sub = _\<close> show ?thesis by (intro exI [of _ "HSnap r"]) simp
    qed
  next
    case 3
    with ok obtain m where "name_ok m" "rest = [''-r'', branch_ds c m @ ''@init'']"
      by (auto simp: zfs_form_def arg_iffs [OF n] branch_ds_iff quota_iff split: list.splits)
    with 3 show ?thesis by (intro exI [of _ "HRollback m"]) simp
  next
    case 4
    then consider m where "name_ok m" "rest = [''-r'', branch_ds c m]" | r where "ref_ok r" "rest = [ref_text c r]"
      using ok by (auto simp: zfs_form_def arg_iffs [OF n] branch_ds_iff quota_iff split: list.splits)
    then show ?thesis
    proof cases
      case (1 m) with 4 show ?thesis by (intro exI [of _ "HDestroy m"]) simp
    next
      case (2 r) with 4 show ?thesis by (intro exI [of _ "HDestroySnap r"]) simp
    qed
  next
    case 5
    with ok obtain k m where "name_ok k" "name_ok m" "rest = [branch_ds c k, branch_ds c m]"
      by (auto simp: zfs_form_def arg_iffs [OF n] branch_ds_iff quota_iff split: list.splits)
    with 5 show ?thesis by (intro exI [of _ "HRename k m"]) simp
  next
    case 6
    with ok obtain q m where "opt_ok digits_ok q" "name_ok m" "rest = [quota_text q, branch_ds c m]"
      by (auto simp: zfs_form_def arg_iffs [OF n] branch_ds_iff quota_iff split: list.splits)
    with 6 show ?thesis by (intro exI [of _ "HQuota q m"]) simp
  next
    case 7
    with ok obtain raw p d t where "p \<in> set readable_props" "opt_ok dataset_ok d" "opt_ok name_ok t"
      and "rest = tl (tl (render_cmd c (HGet raw p d t)))"
      by (auto simp: zfs_form_def arg_iffs [OF n] branch_ds_iff quota_iff split: list.splits) metis+
    with 7 show ?thesis by (intro exI [of _ "HGet raw p d t"]) simp
  next
    case 8
    with ok obtain snaps d t where "opt_ok dataset_ok d" "opt_ok name_ok t"
      and "rest = tl (tl (render_cmd c (HList snaps d t)))"
      by (auto simp: zfs_form_def arg_iffs [OF n] branch_ds_iff quota_iff split: list.splits) metis+
    with 8 show ?thesis by (intro exI [of _ "HList snaps d t"]) simp
  qed
qed

lemma arg_forms:
  assumes "helper_normal c"
  shows "name_ok m \<Longrightarrow> is_branch_ds c (branch_ds c m)"
    "name_ok m \<Longrightarrow> is_branch_init_snap c (branch_ds c m @ ''@init'')"
    "ref_ok r \<Longrightarrow> is_snapshot_arg c (ref_text c r)"
    "opt_ok dataset_ok d \<Longrightarrow> opt_ok name_ok t \<Longrightarrow> is_in_pool c (pool_target c d t)"
    "opt_ok digits_ok q \<Longrightarrow> quota_ok (quota_text q)"
    "u \<in> set (hc_units c) \<Longrightarrow> name_ok i \<Longrightarrow> is_unit c (u @ ''@'' @ i)"
  using arg_iffs [OF assms] branch_ds_iff quota_iff by blast+

lemma render_zfs_accepted:
  assumes n: "helper_normal c" and ok: "cmd_ok c cmd" and z: "hd (render_cmd c cmd) = ''zfs''"
  shows "zfs_form c (hd (tl (render_cmd c cmd))) (tl (tl (render_cmd c cmd))) = Some True"
  using ok z
  by (cases cmd) (simp_all add: zfs_form_def arg_forms [OF n] arg_forms(2) [OF n, simplified])

lemma render_unit_accepted:
  assumes n: "helper_normal c" and ok: "cmd_ok c cmd" and z: "hd (render_cmd c cmd) = ''systemctl''"
  shows "validate_systemctl c (tl (render_cmd c cmd)) = Inr ()"
  using ok z by (cases cmd) (auto simp: validate_systemctl_def arg_forms(6) [OF n, simplified])

text \<open>No argument has a NUL or a newline.\<close>

definition clean_arg :: "string \<Rightarrow> bool" where
  "clean_arg a \<longleftrightarrow> CHR 0x00 \<notin> set a \<and> CHR 0x0A \<notin> set a"

lemma clean_Cons [simp]: "clean_arg (x # a) \<longleftrightarrow> x \<noteq> CHR 0x00 \<and> x \<noteq> CHR 0x0A \<and> clean_arg a"
  and clean_Nil [simp]: "clean_arg []"
  by (auto simp: clean_arg_def)

lemma clean_append [simp]: "clean_arg (a @ b) \<longleftrightarrow> clean_arg a \<and> clean_arg b"
  by (auto simp: clean_arg_def)

lemma clean_name: "name_ok n \<Longrightarrow> clean_arg n" "dataset_ok n \<Longrightarrow> clean_arg n"
  using name_ok_free dataset_ok_free by (auto simp: clean_arg_def)

lemma clean_normal:
  assumes "helper_normal c"
  shows "clean_arg (hc_pool c)" "clean_arg (hc_base c)" "clean_arg (hc_parent c)"
    "u \<in> set (hc_units c) \<Longrightarrow> clean_arg u"
  using assms clean_name by (auto simp: helper_normal_def dataset_in_def list_all_iff)

lemma clean_digits: "digits_ok d \<Longrightarrow> clean_arg d"
  by (auto simp: digits_ok_def clean_arg_def list_all_iff is_digit_def)

lemma clean_parts:
  assumes "helper_normal c"
  shows "name_ok m \<Longrightarrow> clean_arg (branch_ds c m)" "ref_ok r \<Longrightarrow> clean_arg (ref_text c r)"
    "opt_ok dataset_ok d \<Longrightarrow> opt_ok name_ok t \<Longrightarrow> clean_arg (pool_target c d t)"
    "opt_ok digits_ok q \<Longrightarrow> clean_arg (quota_text q)"
  using assms clean_normal [OF assms] clean_name clean_digits
  by (auto simp: branch_ds_def pool_target_def quota_text_def clean_arg_def split: option.splits)
    (cases r; auto simp: branch_ds_def clean_arg_def)+

lemma render_clean:
  assumes n: "helper_normal c" and ok: "cmd_ok c cmd" and a: "a \<in> set (render_cmd c cmd)"
  shows "clean_arg a"
  using ok a
  by (cases cmd) (auto simp: clean_parts [OF n] clean_normal [OF n] clean_name readable_props_def split: if_splits)

lemma accepted_is_rendered:
  assumes n: "helper_normal c" and ok: "validate_args c args = Inr ()"
  shows "\<exists>cmd. cmd_ok c cmd \<and> args = render_cmd c cmd"
proof -
  obtain tool rest where args: "args = tool # rest"
    using ok by (cases args) (auto simp: validate_args_def deny_def)
  from ok args consider "tool = ''zfs''" "validate_zfs c rest = Inr ()"
    | "tool = ''zpool''" "validate_zpool c rest = Inr ()"
    | "tool = ''systemctl''" "validate_systemctl c rest = Inr ()"
    | "tool = ''rm-base-auto-cnf''" "rest = []"
    by (auto simp: validate_args_def deny_def split: if_splits)
  then show ?thesis
  proof cases
    case 1
    then obtain sub r where "rest = sub # r" "zfs_form c sub r = Some True"
      by (auto simp: validate_zfs_def deny_def split: list.splits option.splits if_splits)
    then show ?thesis using zfs_accepted [OF n] args 1 by blast
  next
    case 2
    then have "args = render_cmd c HPoolCapacity \<or> args = render_cmd c HPoolStatus"
      using args by (auto simp: validate_zpool_def deny_def split: if_splits)
    then show ?thesis by (metis cmd_ok.simps(11,12))
  next
    case 3
    then consider v u i where "rest = [v, u @ ''@'' @ i]" "cmd_ok c (HUnit v u i)"
      | u i where "rest = [''kill'', ''-s'', ''SIGKILL'', u @ ''@'' @ i]" "cmd_ok c (HKill u i)"
      by (auto simp: validate_systemctl_def deny_def arg_iffs [OF n] split: if_splits list.splits)
    then show ?thesis
    proof cases
      case (1 v u i) with 3 args show ?thesis by (intro exI [of _ "HUnit v u i"]) simp
    next
      case (2 u i) with 3 args show ?thesis by (intro exI [of _ "HKill u i"]) simp
    qed
  next
    case 4
    with args show ?thesis by (intro exI [of _ HRemoveAutoCnf]) simp
  qed
qed

lemma rendered_is_accepted:
  assumes n: "helper_normal c" and ok: "cmd_ok c cmd"
  shows "validate_args c (render_cmd c cmd) = Inr ()"
proof -
  obtain tool rest where r: "render_cmd c cmd = tool # rest" using render_nonempty by (meson list.exhaust)
  have clean: "\<not> list_ex (\<lambda>a. CHR 0x00 \<in> set a \<or> CHR 0x0A \<in> set a) (tool # rest)"
    using render_clean [OF n ok] r by (auto simp: list_ex_iff clean_arg_def)
  consider (z) "tool = ''zfs''" | (p) "cmd = HPoolCapacity \<or> cmd = HPoolStatus"
    | (u) "tool = ''systemctl''" | (a) "cmd = HRemoveAutoCnf"
  proof -
    have "hd (render_cmd c cmd) \<in> {''zfs'', ''systemctl''} \<or> cmd \<in> {HPoolCapacity, HPoolStatus, HRemoveAutoCnf}"
      by (cases cmd) simp_all
    then show ?thesis using r that by auto
  qed
  then show ?thesis
  proof cases
    case z
    have "hd (render_cmd c cmd) = ''zfs'' \<Longrightarrow> tl (render_cmd c cmd) \<noteq> []" by (cases cmd) simp_all
    with r z obtain sub rest' where rest: "rest = sub # rest'" by (cases rest) auto
    have "validate_args c (tool # rest) = validate_zfs c rest"
      using clean z by (simp add: validate_args_def)
    moreover have "zfs_form c sub rest' = Some True"
      using render_zfs_accepted [OF n ok] r z rest by simp
    ultimately show ?thesis using r rest by (simp add: validate_zfs_def)
  next
    case p
    then have "hd (render_cmd c cmd) = ''zpool''" "validate_zpool c (tl (render_cmd c cmd)) = Inr ()"
      by (auto simp: validate_zpool_def)
    with r have "tool = ''zpool''" "validate_zpool c rest = Inr ()" by simp_all
    moreover have "validate_args c (tool # rest) = validate_zpool c rest"
      using clean \<open>tool = ''zpool''\<close> by (simp add: validate_args_def)
    ultimately show ?thesis using r by simp
  next
    case u
    have "validate_systemctl c rest = Inr ()"
      using render_unit_accepted [OF n ok] r u by simp
    moreover have "validate_args c (tool # rest) = validate_systemctl c rest"
      using clean u by (simp add: validate_args_def)
    ultimately show ?thesis using r by simp
  next
    case a
    with r clean show ?thesis by (auto simp: validate_args_def)
  qed
qed

text \<open>An argument that zfs or systemctl could take for an option is one of the fixed ones.\<close>

definition fixed_flags :: "string list" where
  "fixed_flags = [''-r'', ''-H'', ''-p'', ''-o'', ''-t'', ''-Hp'', ''-x'', ''-s'']"

definition no_flag :: "string \<Rightarrow> bool" where
  "no_flag a \<longleftrightarrow> (case a of [] \<Rightarrow> False | x # xs \<Rightarrow> x \<noteq> CHR ''-'')"

lemma no_flag_Cons [simp]: "no_flag (x # xs) \<longleftrightarrow> x \<noteq> CHR ''-''"
  by (simp add: no_flag_def)

lemma no_flag_append [simp]: "no_flag a \<Longrightarrow> no_flag (a @ b)"
  by (auto simp: no_flag_def split: list.splits)

lemma no_flag_name: "name_ok n \<Longrightarrow> no_flag n"
  using name_ok_head [of n] by (cases n) auto

lemma no_flag_parts:
  assumes "helper_normal c"
  shows "no_flag (branch_ds c m)" "no_flag (ref_text c r)" "no_flag (pool_target c d t)"
    "no_flag (quota_text q)" "no_flag (hc_pool c)" "u \<in> set (hc_units c) \<Longrightarrow> no_flag u"
proof -
  have pool: "no_flag (hc_pool c)" using assms no_flag_name by (simp add: helper_normal_def)
  then have below: "no_flag ds" if "dataset_in (hc_pool c) ds" for ds
    using that by (auto simp: dataset_in_def has_prefix_iff)
  show "no_flag (branch_ds c m)" using assms below by (simp add: helper_normal_def branch_ds_def)
  show "no_flag (ref_text c r)"
    using assms below by (cases r) (simp_all add: helper_normal_def branch_ds_def)
  show "no_flag (pool_target c d t)" using pool by (simp add: pool_target_def)
  show "no_flag (quota_text q)" by (simp add: quota_text_def)
  show "no_flag (hc_pool c)" by (rule pool)
  show "no_flag u" if "u \<in> set (hc_units c)"
    using assms that no_flag_name by (auto simp: helper_normal_def list_all_iff)
qed

definition safe_args :: "string list \<Rightarrow> bool" where
  "safe_args as = list_all (\<lambda>a. no_flag a \<or> a \<in> set fixed_flags) as"

lemma render_flags:
  assumes n: "helper_normal c" and ok: "cmd_ok c cmd"
  shows "safe_args (render_cmd c cmd)"
proof -
  have "no_flag p" if "p \<in> set readable_props" for p using that by (auto simp: readable_props_def)
  moreover have "no_flag v" if "v \<in> set [''start'', ''stop'', ''is-active'']" for v using that by auto
  ultimately show ?thesis
    using ok by (cases cmd) (simp_all add: safe_args_def no_flag_parts [OF n] fixed_flags_def)
qed

definition sample_hcfg :: hcfg where
  "sample_hcfg = \<lparr>hc_pool = ''dbpool'', hc_base = [], hc_parent = [], hc_units = []\<rparr>"

definition sample_normal :: hcfg where
  "sample_normal = \<lparr>hc_pool = ''dbpool'', hc_base = ''dbpool/base'', hc_parent = ''dbpool/branches'',
     hc_units = default_units\<rparr>"

definition counting_host :: "int host" where
  "counting_host = sample_host\<lparr>h_run := (\<lambda>c w. ((RunOk, []), w + 1))\<rparr>"

lemma sample_normalize: "normalize_helper sample_hcfg = Inr sample_normal"
  by code_simp

section \<open>Properties\<close>

text \<open>C32. The helper accepts an argument vector exactly if it is the rendering of a command of the
  abstract syntax with well-formed names: snapshots of the base and promoted snapshots, volumes one
  component below the branch parent, read-only queries of the pool, and instances of the configured
  units. In particular no other dataset, property, subcommand or extra argument gets through.\<close>

theorem helper_accepts_exactly:
  assumes "normalize_helper c0 = Inr c"
  shows "validate_args c args = Inr () \<longleftrightarrow> (\<exists>cmd. cmd_ok c cmd \<and> args = render_cmd c cmd)"
  using accepted_is_rendered rendered_is_accepted normalize_normal [OF assms] by blast

theorem helper_accepts_exactly_witness:
  "(validate_args sample_normal [''zfs'', ''destroy'', ''-r'', ''dbpool/branches/pr-1''] = Inr ())
     = (\<exists>cmd. cmd_ok sample_normal cmd
          \<and> [''zfs'', ''destroy'', ''-r'', ''dbpool/branches/pr-1''] = render_cmd sample_normal cmd)"
  by (rule helper_accepts_exactly [OF sample_normalize])

text \<open>The helper changes the machine only as root, with a configuration that normalises, and by
  one well-formed command of the abstract syntax: the execution of that very argument vector by
  absolute path with the fixed environment, or the removal of auto.cnf. No argument it passes on can be
  read as an option except the literals of the syntax.\<close>

theorem helper_runs_only_allowed:
  assumes "helper_main H decoded args w = (code, w')" and "w' \<noteq> w"
  shows "\<exists>c0 c cmd. decoded = Inr c0 \<and> normalize_helper c0 = Inr c \<and> h_is_root H
     \<and> cmd_ok c cmd \<and> args = render_cmd c cmd
     \<and> safe_args args
     \<and> (if cmd = HRemoveAutoCnf then w' = snd (helper_rm_auto_cnf H c w)
        else w' = snd (h_run H ((bare_cmd (binary_of (hd args)) (tl args))\<lparr>cmd_env := Some helper_env\<rparr>) w))"
proof -
  obtain c0 c where c: "decoded = Inr c0" "normalize_helper c0 = Inr c" "h_is_root H"
    and ok: "validate_args c args = Inr ()"
    using assms by (auto simp: helper_main_def split: if_splits sum.splits)
  from accepted_is_rendered [OF normalize_normal [OF c(2)] ok]
  obtain cmd where cmd: "cmd_ok c cmd" "args = render_cmd c cmd" by blast
  have "hd args = ''rm-base-auto-cnf'' \<longleftrightarrow> cmd = HRemoveAutoCnf"
    using cmd(2) by (cases cmd) simp_all
  then have "if cmd = HRemoveAutoCnf then w' = snd (helper_rm_auto_cnf H c w)
      else w' = snd (h_run H ((bare_cmd (binary_of (hd args)) (tl args))\<lparr>cmd_env := Some helper_env\<rparr>) w)"
    using assms c ok
    by (auto simp: helper_main_def split: if_splits sum.splits prod.splits run_result.splits)
  moreover have "safe_args args"
    using render_flags [OF normalize_normal [OF c(2)] cmd(1)] cmd(2) by simp
  ultimately show ?thesis using c cmd by blast
qed

theorem helper_runs_only_allowed_witness:
  "\<exists>c0 c cmd. (Inr sample_hcfg :: err + hcfg) = Inr c0 \<and> normalize_helper c0 = Inr c \<and> h_is_root counting_host
     \<and> cmd_ok c cmd \<and> [''zfs'', ''destroy'', ''-r'', ''dbpool/branches/pr-1''] = render_cmd c cmd
     \<and> safe_args [''zfs'', ''destroy'', ''-r'', ''dbpool/branches/pr-1'']
     \<and> (if cmd = HRemoveAutoCnf then 1 = snd (helper_rm_auto_cnf counting_host c 0)
        else 1 = snd (h_run counting_host ((bare_cmd (binary_of (hd [''zfs'', ''destroy'', ''-r'', ''dbpool/branches/pr-1'']))
             (tl [''zfs'', ''destroy'', ''-r'', ''dbpool/branches/pr-1'']))\<lparr>cmd_env := Some helper_env\<rparr>) 0))"
proof (rule helper_runs_only_allowed)
  show "helper_main counting_host (Inr sample_hcfg)
      [''zfs'', ''destroy'', ''-r'', ''dbpool/branches/pr-1''] 0 = (0, 1)"
    by code_simp
  show "(1::int) \<noteq> 0" by simp
qed

end
