(* ===== verification/Fsx.thy ===== *)
theory Fsx
  imports Settings RootHelper
begin

text \<open>
  internal/storage/fsxzfs: the backend on FSx for OpenZFS. Snapshots and volumes are made by calls
  to AWS, which are parameters here, and a volume is used over NFS. AWS works in the background, so
  three methods poll until it is done. The last sections say what a successful wait has seen, when
  the waits end, and which volume stands for a branch.
\<close>

section \<open>AWS and the machine\<close>

text \<open>
  The parts of the SDK's types that the backend reads. A Lifecycle, a Status and an
  AdministrativeActionType are strings in the SDK; a pointer that may be nil is an option, and
  \<open>av_path\<close> is the VolumePath of the OpenZFSConfiguration, absent when either is nil.
\<close>

record aws_volume =
  av_id :: "string option"
  av_name :: "string option"
  av_life :: string
  av_actions :: "(string \<times> string) list"
  av_path :: "string option"
  av_created :: "int option"

record aws_snapshot =
  as_id :: "string option"
  as_name :: "string option"
  as_arn :: "string option"
  as_life :: string

record aws_filesystem =
  af_root :: "string option"
  af_capacity :: "int option"

datatype volume_query = VolumeId string | VolumesOf string "string option"

datatype snapshot_query = SnapshotId string | SnapshotsOf string

record volume_order =
  vo_type :: string
  vo_name :: string
  vo_parent :: string
  vo_snapshot :: string
  vo_strategy :: string
  vo_exports :: "(string \<times> string list) list"
  vo_tags :: "(string \<times> string) list"

text \<open>
  \<^verbatim>\<open>API\<close>: DescribeVolumes also gives the token of the next page; \<open>aws_volume_missing\<close> and
  \<open>aws_snapshot_missing\<close> are \<^verbatim>\<open>errors.As\<close> for the two not-found errors of the SDK. Every
  DeleteVolume of the backend carries the option DELETE_CHILD_VOLUMES_AND_SNAPSHOTS.
\<close>

record 'w fsx_api =
  aws_create_volume :: "volume_order \<Rightarrow> ('w, aws_volume) ext"
  aws_delete_volume :: "string \<Rightarrow> ('w, unit) ext"
  aws_volumes :: "volume_query \<Rightarrow> ('w, aws_volume list \<times> string option) ext"
  aws_create_snapshot :: "string \<Rightarrow> string \<Rightarrow> ('w, aws_snapshot) ext"
  aws_snapshots :: "snapshot_query \<Rightarrow> ('w, aws_snapshot list) ext"
  aws_filesystems :: "string \<Rightarrow> ('w, aws_filesystem list) ext"
  aws_delete_snapshot :: "string \<Rightarrow> ('w, unit) ext"
  aws_update_quota :: "string \<Rightarrow> int \<Rightarrow> ('w, unit) ext"
  aws_volume_missing :: "err \<Rightarrow> bool"
  aws_snapshot_missing :: "err \<Rightarrow> bool"

record fsx_cfg =
  fc_filesystem :: string
  fc_base_volume :: string
  fc_baseline :: string
  fc_dns :: string
  fc_mount_root :: string
  fc_poll :: int

record statfs_reply =
  sf_blocks :: "64 word"
  sf_bfree :: "64 word"
  sf_bavail :: "64 word"
  sf_bsize :: int

text \<open>
  The machine: \<open>fx_device\<close> is \<^verbatim>\<open>os.Stat\<close> and the device of its result (\<open>None\<close> where the
  result is no \<^verbatim>\<open>Stat_t\<close>); \<open>fx_pause\<close> waits for the context to end, with its error, or for
  the time given. The backend overwrites its field ParentVolumeID, which lies in the world.
  \<open>fx_rounds\<close> is the number of rounds for which the model follows a loop.
\<close>

record 'w fsx_env =
  fx_aws :: "'w fsx_api"
  fx_host :: "'w host"
  fx_statfs :: "string \<Rightarrow> ('w, statfs_reply) ext"
  fx_device :: "string \<Rightarrow> ('w, int option) ext"
  fx_rand :: "'w \<Rightarrow> string \<times> 'w"
  fx_pause :: "int \<Rightarrow> ('w, unit) ext"
  fx_parent :: "'w \<Rightarrow> string"
  fx_keep_parent :: "string \<Rightarrow> 'w \<Rightarrow> 'w"
  fx_rounds :: nat

definition new_fsx :: "fsx_cfg \<Rightarrow> fsx_cfg" where
  "new_fsx c = c\<lparr>fc_mount_root := (if fc_mount_root c = [] then ''/mnt/sashiki'' else fc_mount_root c),
     fc_poll := (if fc_poll c = 0 then 5 * second else fc_poll c)\<rparr>"

definition fsx_caps :: caps where
  "fsx_caps = \<lparr>fast_rollback = False, typical_create = 70 * second, clones_distinct = True\<rparr>"

text \<open>A dereference of nil: the daemon would die, here it is this error.\<close>

definition nil_pointer :: err where
  "nil_pointer = EText ''invalid memory address or nil pointer dereference''"

definition deref :: "'a option \<Rightarrow> ('w, 'a) ext" where
  "deref v = (case v of None \<Rightarrow> throw nil_pointer | Some a \<Rightarrow> ret a)"

definition wrap32 :: "int \<Rightarrow> int" where
  "wrap32 n = sint (word_of_int n :: 32 word)"

definition wrap64 :: "int \<Rightarrow> int" where
  "wrap64 n = sint (word_of_int n :: 64 word)"

section \<open>Mounting\<close>

definition exec_mount :: "'w fsx_env \<Rightarrow> string \<Rightarrow> string \<Rightarrow> ('w, unit) ext" where
  "exec_mount X source target = check (h_mkdir_all (fx_host X) target) (\<lambda>_ w.
     case h_run (fx_host X) (bare_cmd ''mount'' [''-t'', ''nfs'',
         ''-o'', ''nfsvers=4.1,rsize=1048576,wsize=1048576,hard,noatime'', source, target]) w of
       ((r, out), w') \<Rightarrow> (case run_error r of
           Some e \<Rightarrow> (Inl (EWrap (''mount '' @ source @ '': '') e ('': '' @ trim_space out)), w')
         | None \<Rightarrow> (Inr (), w')))"

definition exec_umount :: "'w fsx_env \<Rightarrow> string \<Rightarrow> ('w, unit) ext" where
  "exec_umount X target w = (case h_run (fx_host X) (bare_cmd ''umount'' [''-l'', target]) w of
       ((r, out), w') \<Rightarrow> (case run_error r of
           Some e \<Rightarrow> (Inl (EWrap (''umount '' @ target @ '': '') e ('': '' @ trim_space out)), w')
         | None \<Rightarrow> (Inr (), w')))"

text \<open>The used and available bytes: unsigned differences, read as signed, in 64 bits.\<close>

definition statfs_usage :: "'w fsx_env \<Rightarrow> string \<Rightarrow> ('w, int \<times> int) ext" where
  "statfs_usage X p = check (fx_statfs X p) (\<lambda>st.
     ret (mul64 (sint (sf_blocks st - sf_bfree st)) (sf_bsize st),
          mul64 (sint (sf_bavail st)) (sf_bsize st)))"

definition is_mount_point :: "'w fsx_env \<Rightarrow> string \<Rightarrow> ('w, bool) ext" where
  "is_mount_point X p = check (fx_device X p) (\<lambda>a. check (fx_device X (dir_name p)) (\<lambda>b.
     ret (case (a, b) of (Some x, Some y) \<Rightarrow> x \<noteq> y | _ \<Rightarrow> False)))"

section \<open>Waiting for AWS\<close>

text \<open>\<^verbatim>\<open>for { probe; select { ctx.Done | time.After } }\<close>: it has no bound of its own.\<close>

primrec poll_until :: "('w, 'a option) ext \<Rightarrow> ('w, unit) ext \<Rightarrow> nat \<Rightarrow> ('w, 'a) ext" where
  "poll_until probe pause 0 = throw out_of_fuel"
| "poll_until probe pause (Suc n) = check probe (\<lambda>r. case r of
       Some a \<Rightarrow> ret a
     | None \<Rightarrow> check pause (\<lambda>_. poll_until probe pause n))"

definition failed_action :: "aws_volume \<Rightarrow> (string \<times> string) option" where
  "failed_action v = find (\<lambda>a. fst a = ''FAILED'') (av_actions v)"

definition volume_settled :: "aws_volume \<Rightarrow> bool" where
  "volume_settled v \<longleftrightarrow> av_life v = ''AVAILABLE''
     \<and> list_all (\<lambda>a. fst a \<noteq> ''IN_PROGRESS'' \<and> fst a \<noteq> ''PENDING'') (av_actions v)"

definition volume_probe :: "'w fsx_env \<Rightarrow> string \<Rightarrow> ('w, unit option) ext" where
  "volume_probe X vid = check (aws_volumes (fx_aws X) (VolumeId vid)) (\<lambda>(vs, _). case vs of
       [] \<Rightarrow> throw (EText (''volume '' @ vid @ '' not found''))
     | v # _ \<Rightarrow> (case failed_action v of
         Some a \<Rightarrow> throw (EText (''volume '' @ vid @ '': administrative action '' @ snd a @ '' failed''))
       | None \<Rightarrow> if av_life v = ''FAILED'' \<or> av_life v = ''MISCONFIGURED''
           then throw (EText (''volume '' @ vid @ '' lifecycle: '' @ av_life v))
           else ret (if volume_settled v then Some () else None)))"

definition wait_volume_ready :: "'w fsx_env \<Rightarrow> fsx_cfg \<Rightarrow> string \<Rightarrow> ('w, unit) ext" where
  "wait_volume_ready X c vid = poll_until (volume_probe X vid) (fx_pause X (fc_poll c)) (fx_rounds X)"

definition snapshot_probe :: "'w fsx_env \<Rightarrow> string \<Rightarrow> ('w, string option) ext" where
  "snapshot_probe X sid = check (aws_snapshots (fx_aws X) (SnapshotId sid)) (\<lambda>ss. case ss of
       [] \<Rightarrow> ret None
     | s # _ \<Rightarrow> if as_life s = ''AVAILABLE'' then check (deref (as_arn s)) (\<lambda>arn. ret (Some arn))
         else ret None)"

definition gone_probe :: "'w fsx_env \<Rightarrow> string \<Rightarrow> ('w, unit option) ext" where
  "gone_probe X sid = handle_err (aws_snapshots (fx_aws X) (SnapshotId sid))
     (\<lambda>e. if aws_snapshot_missing (fx_aws X) e then ret (Some ()) else throw e)
     (\<lambda>ss. ret (if ss = [] then Some () else None))"

section \<open>Volumes\<close>

definition parent_volume :: "'w fsx_env \<Rightarrow> fsx_cfg \<Rightarrow> ('w, string) ext" where
  "parent_volume X c = reading (fx_parent X) (\<lambda>known.
     if known \<noteq> [] then ret known
     else check (wrapping (\<lambda>e. EWrap ''describe filesystem: '' e [])
           (aws_filesystems (fx_aws X) (fc_filesystem c))) (\<lambda>fs.
       let missing = throw (EText (''root volume of '' @ fc_filesystem c @ '' not found'')) in
       case fs of
         [] \<Rightarrow> missing
       | f # _ \<Rightarrow> (case af_root f of
           None \<Rightarrow> missing
         | Some r \<Rightarrow> check (modifying (fx_keep_parent X r)) (\<lambda>_. ret r))))"

definition low_hex :: "nat \<Rightarrow> char" where
  "low_hex n = (if n < 10 then char_of (48 + n) else char_of (87 + n))"

definition gen_hex :: "string \<Rightarrow> string" where
  "gen_hex s = concat (map (\<lambda>c. [low_hex (of_char c div 16), low_hex (of_char c mod 16)]) s)"

text \<open>Three bytes, filled as far as the random source gives any.\<close>

definition gen_bytes :: "string \<Rightarrow> string" where
  "gen_bytes r = take 3 (r @ replicate 3 (CHR 0x00))"

definition generation_name :: "string \<Rightarrow> string \<Rightarrow> string" where
  "generation_name n gen = n @ ''-g'' @ gen_hex gen"

definition clone_order :: "string \<Rightarrow> string \<Rightarrow> string \<Rightarrow> string \<Rightarrow> volume_order" where
  "clone_order parent baseline n fsx_name = \<lparr>vo_type = ''OPENZFS'', vo_name = fsx_name,
     vo_parent = parent, vo_snapshot = baseline, vo_strategy = ''CLONE'',
     vo_exports = [(''*'', [''rw'', ''crossmnt'', ''no_root_squash''])],
     vo_tags = [(''sashiki'', ''true''), (''sashiki-branch'', n)]\<rparr>"

definition fsx_clone :: "'w fsx_env \<Rightarrow> fsx_cfg \<Rightarrow> string \<Rightarrow> string \<Rightarrow> ('w, volume) ext" where
  "fsx_clone X c baseline n = check (parent_volume X c) (\<lambda>parent w0.
     case fx_rand X w0 of (r, w1) \<Rightarrow>
       let fsx_name = generation_name n (gen_bytes r) in
       check (wrapping (\<lambda>e. EWrap ''fsx create-volume: '' e [])
           (aws_create_volume (fx_aws X) (clone_order parent baseline n fsx_name))) (\<lambda>v.
       check (deref (av_id v)) (\<lambda>vid.
       check (wait_volume_ready X c vid) (\<lambda>_.
       let path = (case av_path v of None \<Rightarrow> ''/fsx/'' @ fsx_name | Some p \<Rightarrow> p);
           target = in_dir (fc_mount_root c) fsx_name in
       handle_err (exec_mount X (fc_dns c @ '':'' @ path) target)
         (\<lambda>e. ignoring (aws_delete_volume (fx_aws X) vid) (throw e))
         (\<lambda>_. ret \<lparr>v_name = n, v_dataset = vid, v_path = target\<rparr>)))) w1)"

primrec list_pages ::
  "'w fsx_env \<Rightarrow> fsx_cfg \<Rightarrow> aws_volume list \<Rightarrow> string option \<Rightarrow> nat \<Rightarrow> ('w, aws_volume list) ext" where
  "list_pages X c acc tok 0 = throw out_of_fuel"
| "list_pages X c acc tok (Suc n) =
     check (aws_volumes (fx_aws X) (VolumesOf (fc_filesystem c) tok)) (\<lambda>(vs, nxt). case nxt of
         None \<Rightarrow> ret (acc @ vs)
       | Some t \<Rightarrow> list_pages X c (acc @ vs) (Some t) n)"

definition list_all_volumes :: "'w fsx_env \<Rightarrow> fsx_cfg \<Rightarrow> ('w, aws_volume list) ext" where
  "list_all_volumes X c = list_pages X c [] None (fx_rounds X)"

text \<open>\<^verbatim>\<open>genSuffix\<close> is \<^verbatim>\<open>-g[0-9a-f]{6}$\<close>; it matches at most once, at the end.\<close>

definition low_hex_digit :: "char \<Rightarrow> bool" where
  "low_hex_digit ch = (let n = (of_char ch :: nat) in (48 \<le> n \<and> n \<le> 57) \<or> (97 \<le> n \<and> n \<le> 102))"

definition gen_suffix :: "string \<Rightarrow> bool" where
  "gen_suffix s \<longleftrightarrow> length s = 8 \<and> take 2 s = ''-g'' \<and> list_all low_hex_digit (drop 2 s)"

definition strip_gen :: "string \<Rightarrow> string" where
  "strip_gen s = (let k = length s - 8 in if gen_suffix (drop k s) then take k s else s)"

definition stands_for :: "string \<Rightarrow> aws_volume \<Rightarrow> bool" where
  "stands_for n v \<longleftrightarrow> av_life v = ''AVAILABLE''
     \<and> (case av_name v of None \<Rightarrow> False | Some m \<Rightarrow> strip_gen m = n)"

text \<open>
  The candidates are sorted by their time, newest first. \<^verbatim>\<open>sort.Slice\<close> keeps the order of equal
  times for the few volumes of one branch (an insertion sort up to twelve), as \<open>sort_key\<close> does.
\<close>

definition newest_first :: "aws_volume list \<Rightarrow> ('w, aws_volume list) ext" where
  "newest_first vs = (if 1 < length vs \<and> \<not> list_all (\<lambda>v. av_created v \<noteq> None) vs
     then throw nil_pointer else ret (sort_key (\<lambda>v. - the (av_created v)) vs))"

definition fsx_resolve :: "'w fsx_env \<Rightarrow> fsx_cfg \<Rightarrow> string \<Rightarrow> ('w, volume) ext" where
  "fsx_resolve X c n = check (list_all_volumes X c) (\<lambda>vols.
     check (newest_first (filter (stands_for n) vols)) (\<lambda>cs. case cs of
       [] \<Rightarrow> throw (EText (''volume for branch '' @ n @ '' not found''))
     | v # _ \<Rightarrow> check (deref (av_id v)) (\<lambda>vid. check (deref (av_name v)) (\<lambda>m.
         ret \<lparr>v_name = n, v_dataset = vid, v_path = in_dir (fc_mount_root c) m\<rparr>))))"

definition fsx_snapshot_init :: "volume \<Rightarrow> ('w, string) ext" where
  "fsx_snapshot_init v = ret []"

definition fsx_rollback :: "volume \<Rightarrow> string \<Rightarrow> ('w, unit) ext" where
  "fsx_rollback v snap = throw (EText ''fsx backend does not support rollback (use recreate)'')"

definition fsx_delete_async :: "'w fsx_env \<Rightarrow> volume \<Rightarrow> ('w, string) ext" where
  "fsx_delete_async X v = ignoring (exec_umount X (v_path v))
     (check (wrapping (\<lambda>e. EWrap ''fsx delete-volume: '' e []) (aws_delete_volume (fx_aws X) (v_dataset v)))
        (\<lambda>_. ret (v_dataset v)))"

text \<open>
  An error of Poll comes with the status failed, which no caller reads.
\<close>

definition fsx_poll :: "'w fsx_env \<Rightarrow> string \<Rightarrow> ('w, job_status) ext" where
  "fsx_poll X job = handle_err (aws_volumes (fx_aws X) (VolumeId job))
     (\<lambda>e. if aws_volume_missing (fx_aws X) e then ret JobCompleted else throw e)
     (\<lambda>(vs, _). ret (case vs of
         [] \<Rightarrow> JobCompleted
       | v # _ \<Rightarrow> if av_life v = ''FAILED'' then JobFailed else JobRunning))"

definition fsx_list_volumes :: "'w fsx_env \<Rightarrow> fsx_cfg \<Rightarrow> ('w, string list) ext" where
  "fsx_list_volumes X c = check (list_all_volumes X c) (\<lambda>vols. ret (foldl (\<lambda>names v.
     case av_name v of None \<Rightarrow> names
     | Some m \<Rightarrow> (let n = strip_gen m in
         if n = ''base'' \<or> n \<in> set names then names else names @ [n])) [] vols))"

section \<open>Snapshots of the base volume\<close>

definition find_snapshot_arn :: "'w fsx_env \<Rightarrow> fsx_cfg \<Rightarrow> string \<Rightarrow> ('w, string) ext" where
  "find_snapshot_arn X c n = check (aws_snapshots (fx_aws X) (SnapshotsOf (fc_base_volume c))) (\<lambda>ss.
     case find (\<lambda>s. as_name s = Some n \<and> as_arn s \<noteq> None) ss of
       Some s \<Rightarrow> deref (as_arn s)
     | None \<Rightarrow> throw (EText (''snapshot '' @ n @ '' not found on '' @ fc_base_volume c)))"

definition fsx_current_baseline :: "'w fsx_env \<Rightarrow> fsx_cfg \<Rightarrow> 'w \<Rightarrow> string \<times> 'w" where
  "fsx_current_baseline X c w = (case find_snapshot_arn X c (fc_baseline c) w of
       (Inl e, w') \<Rightarrow> ([], w') | (Inr arn, w') \<Rightarrow> (arn, w'))"

definition fsx_snapshot_base :: "'w fsx_env \<Rightarrow> fsx_cfg \<Rightarrow> string \<Rightarrow> ('w, string) ext" where
  "fsx_snapshot_base X c tag = check (aws_create_snapshot (fx_aws X) tag (fc_base_volume c)) (\<lambda>s.
     check (deref (as_id s)) (\<lambda>sid.
     poll_until (snapshot_probe X sid) (fx_pause X (fc_poll c)) (fx_rounds X)))"

definition fsx_list_snapshots :: "'w fsx_env \<Rightarrow> fsx_cfg \<Rightarrow> ('w, string list) ext" where
  "fsx_list_snapshots X c = check (aws_snapshots (fx_aws X) (SnapshotsOf (fc_base_volume c))) (\<lambda>ss.
     ret (List.map_filter as_arn ss))"

definition fsx_delete_baseline :: "'w fsx_env \<Rightarrow> fsx_cfg \<Rightarrow> string \<Rightarrow> ('w, unit) ext" where
  "fsx_delete_baseline X c snap =
     check (aws_snapshots (fx_aws X) (SnapshotsOf (fc_base_volume c))) (\<lambda>ss.
     let sid = (case find (\<lambda>s. as_arn s = Some snap \<and> as_id s \<noteq> None) ss of
         Some s \<Rightarrow> the (as_id s) | None \<Rightarrow> []) in
     if sid = [] then throw (EText (''snapshot '' @ snap @ '' not found on '' @ fc_base_volume c))
     else check (wrapping (\<lambda>e. EWrap ''fsx delete-snapshot: '' e []) (aws_delete_snapshot (fx_aws X) sid)) (\<lambda>_.
       poll_until (gone_probe X sid) (fx_pause X (fc_poll c)) (fx_rounds X)))"

section \<open>Sizes\<close>

definition gib :: int where
  "gib = 2 ^ 30"

definition fsx_used_bytes :: "'w fsx_env \<Rightarrow> volume \<Rightarrow> ('w, int) ext" where
  "fsx_used_bytes X v = attempt (is_mount_point X (v_path v)) (\<lambda>m.
     if m \<noteq> Inr True then ret (-1)
     else attempt (statfs_usage X (v_path v)) (\<lambda>r. case r of
         Inl e \<Rightarrow> ret (-1) | Inr (used, avail) \<Rightarrow> ret used))"

definition base_mount :: "'w fsx_env \<Rightarrow> fsx_cfg \<Rightarrow> ('w, string) ext" where
  "base_mount X c = (let target = in_dir (fc_mount_root c) ''base'' in
     attempt (is_mount_point X target) (\<lambda>m.
     if m = Inr True then ret target
     else check (wrapping (\<lambda>e. EWrap ''describe base volume: '' e [])
           (aws_volumes (fx_aws X) (VolumeId (fc_base_volume c)))) (\<lambda>(vs, _).
       case (case vs of [] \<Rightarrow> None | v # _ \<Rightarrow> av_path v) of
         None \<Rightarrow> throw (EText (''base volume '' @ fc_base_volume c @ '' has no volume path''))
       | Some p \<Rightarrow> check (exec_mount X (fc_dns c @ '':'' @ p) target) (\<lambda>_. ret target))))"

definition fsx_pool_capacity :: "'w fsx_env \<Rightarrow> fsx_cfg \<Rightarrow> ('w, int \<times> int) ext" where
  "fsx_pool_capacity X c = check (wrapping (\<lambda>e. EWrap ''describe filesystem: '' e [])
       (aws_filesystems (fx_aws X) (fc_filesystem c))) (\<lambda>fs.
     case (case fs of [] \<Rightarrow> None | f # _ \<Rightarrow> af_capacity f) of
       None \<Rightarrow> throw (EText (''storage capacity of '' @ fc_filesystem c @ '' not found''))
     | Some cap \<Rightarrow> (let total = mul64 cap gib in
         check (base_mount X c) (\<lambda>base.
         check (wrapping (\<lambda>e. EWrap (''statfs '' @ base @ '': '') e []) (statfs_usage X base)) (\<lambda>(_, avail).
         ret (wrap64 (total - min avail total), total)))))"

text \<open>The division truncates; a negative dividend, which only a wrap-around makes, rounds up.\<close>

definition quota_gib :: "int \<Rightarrow> int" where
  "quota_gib bytes = (if bytes > 0 then
     (let n = wrap64 (bytes + gib - 1) in wrap32 (if n < 0 then - ((- n) div gib) else n div gib))
     else -1)"

definition fsx_set_quota :: "'w fsx_env \<Rightarrow> fsx_cfg \<Rightarrow> volume \<Rightarrow> int \<Rightarrow> ('w, unit) ext" where
  "fsx_set_quota X c v bytes = check (wrapping (\<lambda>e. EWrap ''fsx update-volume quota: '' e [])
       (aws_update_quota (fx_aws X) (v_dataset v) (quota_gib bytes)))
     (\<lambda>_. wait_volume_ready X c (v_dataset v))"

text \<open>The interface: no Rename, PoolStatus, PromoteBranch or LogicalBytes.\<close>

definition fsx_storage :: "'w fsx_env \<Rightarrow> fsx_cfg \<Rightarrow> 'w storage_api" where
  "fsx_storage X c = \<lparr>
     st_caps = fsx_caps, st_clone = fsx_clone X c, st_snapshot_init = fsx_snapshot_init,
     st_rollback = fsx_rollback, st_delete_async = fsx_delete_async X, st_poll = fsx_poll X,
     st_snapshot_base = fsx_snapshot_base X c, st_list_snapshots = fsx_list_snapshots X c,
     st_used_bytes = fsx_used_bytes X, st_rename = None,
     st_pool_capacity = Some (fsx_pool_capacity X c), st_pool_status = None,
     st_promote = None, st_logical_bytes = None, st_list_volumes = Some (fsx_list_volumes X c),
     st_set_quota = Some (fsx_set_quota X c), st_resolve = Some (fsx_resolve X c),
     st_delete_baseline = Some (fsx_delete_baseline X c), st_base_path = None, st_base_name = None\<rparr>"

section \<open>Waiting\<close>

lemma poll_until_seen:
  "poll_until probe pause n w = (Inr a, w') \<Longrightarrow> \<exists>w0. probe w0 = (Inr (Some a), w')"
  by (induction n arbitrary: w)
    (auto simp: check_def ret_def throw_def split: sum.splits prod.splits option.splits)

text \<open>
  The loops end when the context does: \<open>left\<close> is a bound of the pauses that it still allows, which
  a pause uses up and a call to AWS does not renew.
\<close>

lemma poll_until_fuel:
  assumes probe: "\<And>w. left (snd (probe w)) \<le> left w"
    and pause: "\<And>w w'. pause w = (Inr (), w') \<Longrightarrow> left w' < left w"
    and n: "left w < n" and k: "left w < k"
  shows "poll_until probe pause n w = poll_until probe pause k w"
  using n k
proof (induction n arbitrary: k w)
  case (Suc n)
  then obtain k' where k: "k = Suc k'" by (cases k) auto
  obtain r w1 where r: "probe w = (r, w1)" by (cases "probe w")
  obtain q w2 where q: "pause w1 = (q, w2)" by (cases "pause w1")
  have "poll_until probe pause n w2 = poll_until probe pause k' w2" if "q = Inr ()"
  proof (rule Suc.IH)
    have "left w2 < left w1" using pause q that by simp
    also have "\<dots> \<le> left w" using probe [of w] r by simp
    finally show "left w2 < n" "left w2 < k'" using Suc.prems k by auto
  qed
  then show ?case
    by (auto simp: k check_def r q split: sum.split option.split)
qed simp

lemma poll_until_in_time:
  fixes left :: "'w \<Rightarrow> nat"
  assumes probe: "\<And>w. left (snd (probe w)) \<le> left w"
    and pause: "\<And>w w'. pause w = (Inr (), w') \<Longrightarrow> left w' < left w"
    and no: "\<And>w. fst (probe w) \<noteq> Inl out_of_fuel" "\<And>w. fst (pause w) \<noteq> Inl out_of_fuel"
    and n: "left w < n"
  shows "fst (poll_until probe pause n w) \<noteq> Inl out_of_fuel"
  using n
proof (induction n arbitrary: w)
  case (Suc n)
  obtain r w1 where r: "probe w = (r, w1)" by (cases "probe w")
  obtain q w2 where q: "pause w1 = (q, w2)" by (cases "pause w1")
  have "fst (poll_until probe pause n w2) \<noteq> Inl out_of_fuel" if "q = Inr ()"
  proof (rule Suc.IH)
    have "left w2 < left w1" using pause q that by simp
    also have "\<dots> \<le> left w" using probe [of w] r by simp
    finally show "left w2 < n" using Suc.prems by auto
  qed
  moreover have "r \<noteq> Inl out_of_fuel" "q \<noteq> Inl out_of_fuel" using no r q by (metis fst_conv)+
  ultimately show ?case
    by (auto simp: check_def r q ret_def split: sum.split option.split)
qed simp

section \<open>Names\<close>

lemma gen_suffix_iff: "gen_suffix s \<longleftrightarrow> (\<exists>g. s = ''-g'' @ g \<and> length g = 6 \<and> list_all low_hex_digit g)"
proof
  assume s: "gen_suffix s"
  then have "s = ''-g'' @ drop 2 s" using append_take_drop_id [of 2 s] by (simp add: gen_suffix_def)
  with s show "\<exists>g. s = ''-g'' @ g \<and> length g = 6 \<and> list_all low_hex_digit g"
    by (intro exI [of _ "drop 2 s"]) (simp add: gen_suffix_def)
qed (auto simp: gen_suffix_def)

lemma strip_gen_suffixed: "gen_suffix g \<Longrightarrow> strip_gen (n @ g) = n"
  by (simp add: strip_gen_def Let_def) (simp add: gen_suffix_def)

lemma strip_gen_iff:
  "strip_gen m = n \<longleftrightarrow> (\<exists>g. gen_suffix g \<and> m = n @ g) \<or> (m = n \<and> (\<forall>p g. gen_suffix g \<longrightarrow> m \<noteq> p @ g))"
proof (cases "gen_suffix (drop (length m - 8) m)")
  case True
  let ?k = "length m - 8"
  have m: "m = take ?k m @ drop ?k m" by simp
  have "strip_gen m = take ?k m" using True by (simp add: strip_gen_def)
  moreover have "p = take ?k m" if "gen_suffix g" "m = p @ g" for p g
    using that by (auto simp: gen_suffix_def)
  ultimately show ?thesis using True m by metis
next
  case False
  have "m \<noteq> p @ g" if "gen_suffix g" for p g
    using that False by (auto simp: gen_suffix_def)
  moreover have "strip_gen m = m" using False by (simp add: strip_gen_def)
  ultimately show ?thesis by metis
qed

lemma low_hex_ok: "n < 16 \<Longrightarrow> low_hex_digit (low_hex n)"
  by (auto simp: low_hex_def low_hex_digit_def Let_def)

lemma generation_suffix: "length g = 3 \<Longrightarrow> gen_suffix (''-g'' @ gen_hex g)"
proof -
  have d: "low_hex_digit (low_hex (of_char c div 16))" "low_hex_digit (low_hex (of_char c mod 16))" for c :: char
  proof -
    have "of_char c < (256::nat)" by simp
    then have "of_char c div 16 < (16::nat)" by (intro less_mult_imp_div_less) simp
    then show "low_hex_digit (low_hex (of_char c div 16))" "low_hex_digit (low_hex (of_char c mod 16))"
      by (simp_all add: low_hex_ok)
  qed
  assume "length g = 3"
  then obtain a b c where "g = [a, b, c]" by (auto simp: length_Suc_conv numeral_3_eq_3)
  then show ?thesis by (simp add: gen_suffix_def gen_hex_def d)
qed

lemma strip_generation: "length g = 3 \<Longrightarrow> strip_gen (generation_name n g) = n"
  unfolding generation_name_def by (rule strip_gen_suffixed) (rule generation_suffix)


section \<open>What is resolved\<close>

lemma newest_first_least:
  assumes "newest_first vs w = (Inr (v # us), w')"
  shows "v \<in> set vs \<and> (\<forall>u \<in> set vs. u = v \<or> the (av_created u) \<le> the (av_created v)) \<and> w' = w"
proof -
  let ?k = "\<lambda>v. - the (av_created v)"
  from assms have s: "sort_key ?k vs = v # us" and "w' = w"
    by (auto simp: newest_first_def ret_def throw_def split: if_splits)
  then have "sorted (map ?k (v # us))" by (metis sorted_sort_key)
  moreover have "set vs = set (v # us)" using s by (metis set_sort)
  ultimately show ?thesis using \<open>w' = w\<close> by auto
qed

lemma newest_first_none: "newest_first vs w = (Inr [], w') \<Longrightarrow> vs = [] \<and> w' = w"
proof -
  assume "newest_first vs w = (Inr [], w')"
  then have "sort_key (\<lambda>v. - the (av_created v)) vs = []" "w' = w"
    by (auto simp: newest_first_def ret_def throw_def split: if_splits)
  then show "vs = [] \<and> w' = w" using set_sort [of "\<lambda>v. - the (av_created v)" vs] by simp
qed


text \<open>
  A branch is served by the newest available volume that carries its name, with or without a suffix of a
  generation.
\<close>

definition carries :: "string \<Rightarrow> aws_volume \<Rightarrow> bool" where
  "carries n v \<longleftrightarrow> av_life v = ''AVAILABLE''
     \<and> (\<exists>m. av_name v = Some m \<and> ((\<exists>g. gen_suffix g \<and> m = n @ g) \<or> m = n \<and> (\<forall>p g. gen_suffix g \<longrightarrow> m \<noteq> p @ g)))"

lemma stands_for_carries: "stands_for n v \<longleftrightarrow> carries n v"
  by (simp add: stands_for_def carries_def strip_gen_iff split: option.split)

text \<open>C38. An answer of ResolveVolume is the newest of the available volumes of the listing that carry the
  name; a name is reported missing exactly when no such volume is listed.
\<close>

theorem fsx_resolves_newest_generation:
  assumes listed: "list_all_volumes X c w = (Inr vols, w')"
    and complete: "\<And>v. v \<in> set vols \<Longrightarrow> av_id v \<noteq> None \<and> av_created v \<noteq> None"
  shows "snd (fsx_resolve X c n w) = w' \<and> (case fst (fsx_resolve X c n w) of
      Inl e \<Rightarrow> \<not> (\<exists>v \<in> set vols. carries n v)
    | Inr r \<Rightarrow> (\<exists>v m. v \<in> set vols \<and> carries n v \<and> av_name v = Some m
        \<and> r = \<lparr>v_name = n, v_dataset = the (av_id v), v_path = in_dir (fc_mount_root c) m\<rparr>
        \<and> (\<forall>u \<in> set vols. carries n u \<longrightarrow> the (av_created u) \<le> the (av_created v))))"
proof -
  let ?cs = "filter (carries n) vols"
  have f: "filter (stands_for n) vols = ?cs" by (rule filter_cong) (simp_all add: stands_for_carries)
  have times: "list_all (\<lambda>v. av_created v \<noteq> None) ?cs" using complete by (simp add: list_all_iff)
  then obtain rs where rs: "newest_first ?cs w' = (Inr rs, w')"
    unfolding newest_first_def ret_def by simp
  show ?thesis
  proof (cases rs)
    case Nil
    then have "?cs = []" using rs newest_first_none by metis
    then have "\<not> (\<exists>v \<in> set vols. carries n v)" by (simp add: filter_empty_conv)
    moreover have "newest_first [] w' = (Inr [], w')" using rs Nil \<open>?cs = []\<close> by simp
    ultimately show ?thesis
      by (simp add: fsx_resolve_def check_def listed f throw_def \<open>?cs = []\<close>)
  next
    case (Cons v us)
    note v = newest_first_least [OF rs [unfolded Cons]]
    then have "v \<in> set vols" "carries n v" by auto
    then obtain i m where i: "av_id v = Some i" "av_name v = Some m"
      using complete [of v] by (auto simp: carries_def)
    have "\<forall>u \<in> set vols. carries n u \<longrightarrow> the (av_created u) \<le> the (av_created v)" using v by fastforce
    with \<open>v \<in> set vols\<close> \<open>carries n v\<close> i show ?thesis
      by (auto simp: fsx_resolve_def check_def listed f rs Cons ret_def deref_def)
  qed
qed

text \<open>An account with the volumes of a file system and one clone of branch a.\<close>

definition sample_aws_volume :: "string \<Rightarrow> string \<Rightarrow> int \<Rightarrow> aws_volume" where
  "sample_aws_volume i m t = \<lparr>av_id = Some i, av_name = Some m, av_life = ''AVAILABLE'', av_actions = [],
     av_path = Some (''/fsx/'' @ m), av_created = Some t\<rparr>"

definition sample_listing :: "aws_volume list" where
  "sample_listing = [sample_aws_volume ''fsvol-1'' ''base'' 1,
     sample_aws_volume ''fsvol-2'' ''a-g00ff10'' 2, sample_aws_volume ''fsvol-3'' ''a-g00ff11'' 3]"

definition sample_aws :: "int fsx_api" where
  "sample_aws = \<lparr>aws_create_volume = (\<lambda>order. succeed (sample_aws_volume ''fsvol-9'' (vo_name order) 9)),
     aws_delete_volume = (\<lambda>i. succeed ()),
     aws_volumes = (\<lambda>q. succeed (case q of
         VolumeId i \<Rightarrow> ([sample_aws_volume i ''a-g00ff10'' 2], None)
       | VolumesOf fs tok \<Rightarrow> (sample_listing, None))),
     aws_create_snapshot = (\<lambda>tag vol. succeed \<lparr>as_id = Some ''s'', as_name = Some tag, as_arn = Some ''arn'', as_life = ''AVAILABLE''\<rparr>),
     aws_snapshots = (\<lambda>q. succeed []), aws_filesystems = (\<lambda>i. succeed []),
     aws_delete_snapshot = (\<lambda>i. succeed ()), aws_update_quota = (\<lambda>i q. succeed ()),
     aws_volume_missing = (\<lambda>e. False), aws_snapshot_missing = (\<lambda>e. False)\<rparr>"

definition sample_fsx :: "int fsx_env" where
  "sample_fsx = \<lparr>fx_aws = sample_aws, fx_host = sample_host,
     fx_statfs = (\<lambda>p. succeed \<lparr>sf_blocks = 8, sf_bfree = 4, sf_bavail = 2, sf_bsize = 4096\<rparr>),
     fx_device = (\<lambda>p. succeed (Some 1)), fx_rand = (\<lambda>w. ([], w)), fx_pause = (\<lambda>d. succeed ()),
     fx_parent = (\<lambda>w. ''fsvol-0''), fx_keep_parent = (\<lambda>p w. w), fx_rounds = 3\<rparr>"

definition sample_fsx_cfg :: fsx_cfg where
  "sample_fsx_cfg = new_fsx \<lparr>fc_filesystem = ''fs-1'', fc_base_volume = ''fsvol-1'', fc_baseline = ''b1'',
     fc_dns = ''fs-1.fsx'', fc_mount_root = [], fc_poll = 0\<rparr>"

lemma sample_listed: "list_all_volumes sample_fsx c w = (Inr sample_listing, w)"
  by (simp add: list_all_volumes_def sample_fsx_def sample_aws_def eval_nat_numeral check_def succeed_def ret_def)

lemma sample_resolve:
  "fsx_resolve sample_fsx sample_fsx_cfg ''a'' w
     = (Inr \<lparr>v_name = ''a'', v_dataset = ''fsvol-3'', v_path = ''/mnt/sashiki/a-g00ff11''\<rparr>, w)"
  "fsx_resolve sample_fsx sample_fsx_cfg ''base'' w
     = (Inr \<lparr>v_name = ''base'', v_dataset = ''fsvol-1'', v_path = ''/mnt/sashiki/base''\<rparr>, w)"
  by (simp_all add: fsx_resolve_def check_def sample_listed sample_listing_def sample_aws_volume_def stands_for_def
      strip_gen_def gen_suffix_def Let_def low_hex_digit_def newest_first_def ret_def deref_def sample_fsx_cfg_def
      new_fsx_def in_dir_def)

theorem fsx_resolves_newest_generation_witness:
  "fst (fsx_resolve sample_fsx sample_fsx_cfg ''a'' 0)
     = Inr \<lparr>v_name = ''a'', v_dataset = ''fsvol-3'', v_path = ''/mnt/sashiki/a-g00ff11''\<rparr>
   \<and> snd (fsx_resolve sample_fsx sample_fsx_cfg ''a'' 0) = 0"
proof -
  have c: "v \<in> set sample_listing \<Longrightarrow> av_id v \<noteq> None \<and> av_created v \<noteq> None" for v
    by (auto simp: sample_listing_def sample_aws_volume_def)
  have "snd (fsx_resolve sample_fsx sample_fsx_cfg ''a'' 0) = 0"
    using fsx_resolves_newest_generation [where n = "''a''", OF sample_listed c] by blast
  then show ?thesis by (simp add: sample_resolve)
qed

text \<open>
  A branch may be called base, which is what the volume with the data of the baselines is called. While no
  clone of the branch is listed, the base volume is its volume, and a delete of the branch deletes it.
\<close>

theorem branch_base_is_the_base_volume:
  "fst (check (fsx_resolve sample_fsx sample_fsx_cfg ''base'') (fsx_delete_async sample_fsx) 0) = Inr ''fsvol-1''"
proof -
  have "fsx_delete_async sample_fsx v w = (Inr (v_dataset v), w)" for v w
    by (simp add: check_def fsx_delete_async_def ignoring_def exec_umount_def wrapping_def
      sample_fsx_def sample_aws_def succeed_def sample_host_def ret_def)
  then show ?thesis by (simp add: check_def sample_resolve)
qed

section \<open>A clone is finished before it is used\<close>

definition finished_volume :: "aws_volume \<Rightarrow> bool" where
  "finished_volume v \<longleftrightarrow> av_life v = ''AVAILABLE''
     \<and> (\<forall>a \<in> set (av_actions v). fst a \<notin> {''PENDING'', ''IN_PROGRESS'', ''FAILED''})"

lemma volume_probe_ready:
  assumes "volume_probe X vid w = (Inr (Some ()), w')"
  shows "\<exists>u us tok. aws_volumes (fx_aws X) (VolumeId vid) w = (Inr (u # us, tok), w') \<and> finished_volume u"
  using assms
  by (auto simp: volume_probe_def check_def ret_def throw_def finished_volume_def volume_settled_def failed_action_def
      list_all_iff find_None_iff split: sum.splits prod.splits list.splits option.splits if_splits)

lemma wait_volume_ready_seen:
  "wait_volume_ready X c vid w = (Inr (), w') \<Longrightarrow>
   \<exists>w0 u us tok. aws_volumes (fx_aws X) (VolumeId vid) w0 = (Inr (u # us, tok), w') \<and> finished_volume u"
  unfolding wait_volume_ready_def by (metis poll_until_seen volume_probe_ready)

lemma fresh_bytes: "length (gen_bytes r) = 3"
  by (simp add: gen_bytes_def)

text \<open>What Clone returns is a volume of a name of its own for the branch, which AWS reported as available
  with no administrative action under way or failed, and which was mounted right after that report.
\<close>

theorem fsx_clone_is_finished:
  assumes "fsx_clone X c baseline n w = (Inr v, w')"
  shows "v_name v = n
    \<and> (\<exists>gen. length gen = 3 \<and> v_path v = in_dir (fc_mount_root c) (generation_name n gen)
         \<and> strip_gen (generation_name n gen) = n)
    \<and> (\<exists>w0 w1 u us tok source. aws_volumes (fx_aws X) (VolumeId (v_dataset v)) w0 = (Inr (u # us, tok), w1)
         \<and> finished_volume u \<and> exec_mount X source (v_path v) w1 = (Inr (), w'))"
proof -
  have "\<exists>g vid w0 w1 source. length g = 3 \<and> wait_volume_ready X c vid w0 = (Inr (), w1)
      \<and> exec_mount X source (in_dir (fc_mount_root c) (generation_name n g)) w1 = (Inr (), w')
      \<and> v = \<lparr>v_name = n, v_dataset = vid, v_path = in_dir (fc_mount_root c) (generation_name n g)\<rparr>"
    using assms fresh_bytes
    by (auto simp: fsx_clone_def check_def Let_def handle_err_def ignoring_def throw_def ret_def
        split: sum.splits prod.splits) blast+
  then show ?thesis using wait_volume_ready_seen strip_generation by fastforce
qed

lemma sample_fsx_calls:
  "parent_volume sample_fsx c w = (Inr ''fsvol-0'', w)"
  "aws_create_volume (fx_aws sample_fsx) order w = (Inr (sample_aws_volume ''fsvol-9'' (vo_name order) 9), w)"
  "wait_volume_ready sample_fsx c i w = (Inr (), w)"
  "exec_mount sample_fsx p q w = (Inr (), w)"
  "fx_rand sample_fsx w = ([], w)"
  by (simp_all add: parent_volume_def reading_def ret_def check_def wait_volume_ready_def volume_probe_def
      eval_nat_numeral sample_fsx_def sample_aws_def succeed_def sample_aws_volume_def failed_action_def
      volume_settled_def exec_mount_def sample_host_def)

theorem fsx_clone_is_finished_witness:
  "v_name (projr (fst (fsx_clone sample_fsx sample_fsx_cfg ''arn'' ''a'' 0))) = ''a''"
proof -
  have "fsx_clone sample_fsx sample_fsx_cfg ''arn'' ''a'' 0
     = (Inr \<lparr>v_name = ''a'', v_dataset = ''fsvol-9'', v_path = ''/mnt/sashiki/a-g000000''\<rparr>, 0)"
    by (simp add: fsx_clone_def check_def sample_fsx_calls Let_def handle_err_def wrapping_def ret_def
        deref_def sample_aws_volume_def generation_name_def gen_hex_def low_hex_def sample_fsx_cfg_def
        new_fsx_def in_dir_def clone_order_def char_of_eq_iff gen_bytes_def numeral_3_eq_3)
  from fsx_clone_is_finished [OF this] this show ?thesis by simp
qed

section \<open>The waits end with the context\<close>

text \<open>
  A context with a deadline: \<open>left\<close> bounds the pauses it still allows; no call to AWS renews it.
\<close>

definition deadline_env :: "'w fsx_env \<Rightarrow> fsx_cfg \<Rightarrow> ('w \<Rightarrow> nat) \<Rightarrow> bool" where
  "deadline_env X c left \<longleftrightarrow>
     (\<forall>w w'. fx_pause X (fc_poll c) w = (Inr (), w') \<longrightarrow> left w' < left w)
   \<and> (\<forall>w. fst (fx_pause X (fc_poll c) w) \<noteq> Inl out_of_fuel)
   \<and> (\<forall>q w. left (snd (aws_volumes (fx_aws X) q w)) \<le> left w \<and> fst (aws_volumes (fx_aws X) q w) \<noteq> Inl out_of_fuel)
   \<and> (\<forall>q w. left (snd (aws_snapshots (fx_aws X) q w)) \<le> left w \<and> fst (aws_snapshots (fx_aws X) q w) \<noteq> Inl out_of_fuel)"

lemma probes_calm:
  assumes "deadline_env X c left"
  shows "left (snd (volume_probe X i w)) \<le> left w" and "fst (volume_probe X i w) \<noteq> Inl out_of_fuel"
    and "left (snd (snapshot_probe X i w)) \<le> left w" and "fst (snapshot_probe X i w) \<noteq> Inl out_of_fuel"
    and "left (snd (gone_probe X i w)) \<le> left w" and "fst (gone_probe X i w) \<noteq> Inl out_of_fuel"
proof -
  obtain r w1 where v: "aws_volumes (fx_aws X) (VolumeId i) w = (r, w1)" by (cases "aws_volumes (fx_aws X) (VolumeId i) w")
  obtain q w2 where s: "aws_snapshots (fx_aws X) (SnapshotId i) w = (q, w2)" by (cases "aws_snapshots (fx_aws X) (SnapshotId i) w")
  have l: "left w1 \<le> left w" "r \<noteq> Inl out_of_fuel" "left w2 \<le> left w" "q \<noteq> Inl out_of_fuel"
    using assms v s unfolding deadline_env_def by (metis fst_conv snd_conv)+
  show "left (snd (volume_probe X i w)) \<le> left w" "fst (volume_probe X i w) \<noteq> Inl out_of_fuel"
    using l by (auto simp: volume_probe_def check_def v throw_def ret_def out_of_fuel_def
      split: sum.split list.split option.split)
  show "left (snd (snapshot_probe X i w)) \<le> left w" "fst (snapshot_probe X i w) \<noteq> Inl out_of_fuel"
    using l by (auto simp: snapshot_probe_def check_def s throw_def ret_def out_of_fuel_def deref_def nil_pointer_def
      split: sum.split list.split option.split)
  show "left (snd (gone_probe X i w)) \<le> left w" "fst (gone_probe X i w) \<noteq> Inl out_of_fuel"
    using l by (auto simp: gone_probe_def handle_err_def s throw_def ret_def split: sum.split)
qed

theorem fsx_waits_end:
  assumes D: "deadline_env X c left" and "left w < fx_rounds X"
  shows "fst (wait_volume_ready X c i w) \<noteq> Inl out_of_fuel"
    and "fst (poll_until (snapshot_probe X i) (fx_pause X (fc_poll c)) (fx_rounds X) w) \<noteq> Inl out_of_fuel"
    and "fst (poll_until (gone_probe X i) (fx_pause X (fc_poll c)) (fx_rounds X) w) \<noteq> Inl out_of_fuel"
proof -
  have p: "\<And>w w'. fx_pause X (fc_poll c) w = (Inr (), w') \<Longrightarrow> left w' < left w"
    and q: "\<And>w. fst (fx_pause X (fc_poll c) w) \<noteq> Inl out_of_fuel"
    using D by (auto simp: deadline_env_def)
  note f = probes_calm [OF D]
  show "fst (wait_volume_ready X c i w) \<noteq> Inl out_of_fuel"
    unfolding wait_volume_ready_def by (rule poll_until_in_time [OF f(1) p f(2) q assms(2)])
  show "fst (poll_until (snapshot_probe X i) (fx_pause X (fc_poll c)) (fx_rounds X) w) \<noteq> Inl out_of_fuel"
    by (rule poll_until_in_time [OF f(3) p f(4) q assms(2)])
  show "fst (poll_until (gone_probe X i) (fx_pause X (fc_poll c)) (fx_rounds X) w) \<noteq> Inl out_of_fuel"
    by (rule poll_until_in_time [OF f(5) p f(6) q assms(2)])
qed

text \<open>Without one, a volume that stays as it is keeps the loop going for ever.\<close>

lemma fsx_wait_for_ever:
  assumes "volume_probe X i w = (Inr None, w)" and "fx_pause X d w = (Inr (), w)"
  shows "fst (poll_until (volume_probe X i) (fx_pause X d) n w) = Inl out_of_fuel"
  by (induction n) (simp_all add: assms check_def throw_def)

section \<open>Quotas\<close>

lemma wrap_small:
  "- (2 ^ 63) \<le> n \<Longrightarrow> n < 2 ^ 63 \<Longrightarrow> wrap64 n = n"
  "- (2 ^ 31) \<le> n \<Longrightarrow> n < 2 ^ 31 \<Longrightarrow> wrap32 n = n"
  by (simp_all add: wrap64_def wrap32_def signed_of_int signed_take_bit_int_eq_self)

theorem fsx_quota_covers:
  assumes "0 < bytes" and "bytes \<le> (2 ^ 31 - 1) * gib"
  shows "bytes \<le> quota_gib bytes * gib \<and> quota_gib bytes * gib < bytes + gib"
proof -
  let ?n = "bytes + gib - 1"
  have g: "gib = 2 ^ 30" by (simp add: gib_def)
  have n: "0 < ?n" "?n < 2 ^ 62" using assms by (simp_all add: g)
  then have "wrap64 ?n = ?n" by (intro wrap_small; simp)
  moreover have q: "0 \<le> ?n div gib" "?n div gib < 2 ^ 31"
    using n assms by (simp_all add: g pos_imp_zdiv_nonneg_iff div_less_iff_less_mult)
  then have "wrap32 (?n div gib) = ?n div gib" by (intro wrap_small; simp)
  ultimately have "quota_gib bytes = ?n div gib" using assms n by (simp add: quota_gib_def Let_def)
  moreover have "?n = ?n div gib * gib + ?n mod gib" by simp
  moreover have "0 \<le> ?n mod gib" "?n mod gib < gib" by (simp_all add: g)
  ultimately have "quota_gib bytes * gib = ?n - ?n mod gib" "0 \<le> ?n mod gib" "?n mod gib < gib"
    by (simp_all add: minus_mod_eq_div_mult)
  then show ?thesis by (intro conjI; linarith)
qed

text \<open>The conversion to 32 bits turns the largest quota that a configuration can ask for into none.\<close>

theorem fsx_quota_wraps: "quota_gib (2 ^ 62) = 0"
  by (simp add: quota_gib_def wrap64_def wrap32_def gib_def Let_def)

end
