(* ===== verification/EbsZfs.thy ===== *)
theory EbsZfs
  imports RootHelper
begin

text \<open>
  internal/storage/ebszfs: the backend that runs zfs and zpool, directly, by sudo, or through the
  root helper of the previous theory. Its methods take the runner \<^verbatim>\<open>b.run\<close> as an argument;
  \<open>exec_zfs\<close> is the one that New installs. The last section connects the two programs: no
  command that the backend issues for well-formed names is one that the helper refuses.
\<close>

section \<open>Running zfs\<close>

record zcfg =
  zc_pool :: string
  zc_base :: string
  zc_parent :: string
  zc_baseline :: string
  zc_bin :: string
  zc_sudo :: bool
  zc_helper :: string

definition new_zfs :: "zcfg \<Rightarrow> zcfg" where
  "new_zfs z = (if zc_bin z = [] then z\<lparr>zc_bin := ''zfs''\<rparr> else z)"

definition priv_cmd :: "zcfg \<Rightarrow> string \<Rightarrow> string \<Rightarrow> string list \<Rightarrow> cmd" where
  "priv_cmd z bin tool args =
     (if zc_helper z \<noteq> [] then bare_cmd ''sudo'' ([''-n'', zc_helper z, tool] @ args)
      else if zc_sudo z then bare_cmd ''sudo'' ([''-n'', bin] @ args)
      else bare_cmd bin args)"

type_synonym 'w zrunner = "string list \<Rightarrow> ('w, string) ext"

definition exec_zfs :: "'w host \<Rightarrow> zcfg \<Rightarrow> 'w zrunner" where
  "exec_zfs H z args w = (case h_run H (priv_cmd z (zc_bin z) ''zfs'' args) w of ((r, out), w') \<Rightarrow>
     (case run_error r of
        Some e \<Rightarrow> (Inl (EWrap (''zfs '' @ join_with '' '' args @ '': '') e ('': '' @ trim_space out)), w')
      | None \<Rightarrow> (Inr (trim_space out), w')))"

definition number :: "string \<Rightarrow> ('w, int) ext" where
  "number s = (case parse_int64 s of (v, ok) \<Rightarrow>
     if ok then ret v else throw (EText (''strconv.ParseInt: parsing '' @ s)))"

section \<open>The methods\<close>

definition zfs_caps :: caps where
  "zfs_caps = \<lparr>fast_rollback = True, typical_create = 2 * second, clones_distinct = False\<rparr>"

definition branch_dataset :: "zcfg \<Rightarrow> string \<Rightarrow> string" where
  "branch_dataset z n = zc_parent z @ ''/'' @ n"

definition mountpoint_of :: "'w zrunner \<Rightarrow> string \<Rightarrow> ('w, string) ext" where
  "mountpoint_of run ds = run [''get'', ''-H'', ''-o'', ''value'', ''mountpoint'', ds]"

definition zfs_base_path :: "'w zrunner \<Rightarrow> zcfg \<Rightarrow> ('w, string) ext" where
  "zfs_base_path run z = mountpoint_of run (zc_base z)"

definition zfs_current_baseline :: "zcfg \<Rightarrow> string" where
  "zfs_current_baseline z = zc_base z @ ''@'' @ zc_baseline z"

definition zfs_clone :: "'w zrunner \<Rightarrow> zcfg \<Rightarrow> string \<Rightarrow> string \<Rightarrow> ('w, volume) ext" where
  "zfs_clone run z baseline n = (let ds = branch_dataset z n in
     check (run [''clone'', baseline, ds]) (\<lambda>_.
     check (mountpoint_of run ds) (\<lambda>mp.
     ret \<lparr>v_name = n, v_dataset = ds, v_path = mp\<rparr>)))"

definition branch_volume_line :: "zcfg \<Rightarrow> string \<Rightarrow> string list" where
  "branch_volume_line z line0 = (let line = trim_space line0 in
     if line = [] \<or> line = zc_parent z then []
     else case cut_prefix line (zc_parent z @ ''/'') of None \<Rightarrow> []
       | Some rest \<Rightarrow> if CHR ''/'' \<notin> set rest \<and> CHR ''@'' \<notin> set rest then [rest] else [])"

definition zfs_list_volumes :: "'w zrunner \<Rightarrow> zcfg \<Rightarrow> ('w, string list) ext" where
  "zfs_list_volumes run z =
     check (run [''list'', ''-H'', ''-o'', ''name'', ''-r'', zc_parent z]) (\<lambda>out.
     ret (concat (map (branch_volume_line z) (split_on newline out))))"

definition zfs_resolve :: "'w zrunner \<Rightarrow> zcfg \<Rightarrow> string \<Rightarrow> ('w, volume) ext" where
  "zfs_resolve run z n = (let ds = branch_dataset z n in
     check (mountpoint_of run ds) (\<lambda>mp. ret \<lparr>v_name = n, v_dataset = ds, v_path = mp\<rparr>))"

definition zfs_snapshot_init :: "'w zrunner \<Rightarrow> volume \<Rightarrow> ('w, string) ext" where
  "zfs_snapshot_init run v =
     check (run [''snapshot'', v_dataset v @ ''@init'']) (\<lambda>_. ret (v_dataset v @ ''@init''))"

definition zfs_set_quota :: "'w zrunner \<Rightarrow> volume \<Rightarrow> int \<Rightarrow> ('w, unit) ext" where
  "zfs_set_quota run v bytes = (let val = (if bytes > 0 then show_int bytes else ''none'') in
     check (run [''set'', ''refquota='' @ val, v_dataset v]) (\<lambda>_. ret ()))"

definition zfs_rollback :: "'w zrunner \<Rightarrow> volume \<Rightarrow> string \<Rightarrow> ('w, unit) ext" where
  "zfs_rollback run v snap = check (run [''rollback'', ''-r'', snap]) (\<lambda>_. ret ())"

definition zfs_rename :: "'w zrunner \<Rightarrow> zcfg \<Rightarrow> volume \<Rightarrow> string \<Rightarrow> ('w, volume) ext" where
  "zfs_rename run z v n = (let ds = branch_dataset z n in
     check (run [''rename'', v_dataset v, ds]) (\<lambda>_.
     check (mountpoint_of run ds) (\<lambda>mp. ret \<lparr>v_name = n, v_dataset = ds, v_path = mp\<rparr>)))"

definition zfs_delete_async :: "'w zrunner \<Rightarrow> volume \<Rightarrow> ('w, string) ext" where
  "zfs_delete_async run v =
     check (run [''destroy'', ''-r'', v_dataset v]) (\<lambda>_. ret (''done:'' @ v_dataset v))"

definition zfs_poll :: "string \<Rightarrow> ('w, job_status) ext" where
  "zfs_poll job = ret JobCompleted"

definition zfs_delete_baseline :: "'w zrunner \<Rightarrow> string \<Rightarrow> ('w, unit) ext" where
  "zfs_delete_baseline run snap = check (run [''destroy'', snap]) (\<lambda>_. ret ())"

definition zfs_base_name :: "zcfg \<Rightarrow> string \<Rightarrow> string" where
  "zfs_base_name z tag = zc_base z @ ''@'' @ tag"

definition zfs_snapshot_base :: "'w zrunner \<Rightarrow> zcfg \<Rightarrow> string \<Rightarrow> ('w, string) ext" where
  "zfs_snapshot_base run z tag = (let snap = zc_base z @ ''@'' @ tag in
     check (run [''snapshot'', snap]) (\<lambda>_. ret snap))"

definition zfs_promote :: "'w zrunner \<Rightarrow> volume \<Rightarrow> string \<Rightarrow> ('w, string) ext" where
  "zfs_promote run v tag = (let snap = v_dataset v @ ''@'' @ tag in
     check (run [''snapshot'', snap]) (\<lambda>_. ret snap))"

definition zfs_list_snapshots :: "'w zrunner \<Rightarrow> zcfg \<Rightarrow> ('w, string list) ext" where
  "zfs_list_snapshots run z =
     check (run [''list'', ''-H'', ''-t'', ''snapshot'', ''-o'', ''name'', ''-r'', zc_base z]) (\<lambda>out.
     ret (filter (\<lambda>l. l \<noteq> []) (map trim_space (split_on newline out))))"

definition zfs_used_bytes :: "'w zrunner \<Rightarrow> volume \<Rightarrow> ('w, int) ext" where
  "zfs_used_bytes run v =
     check (run [''get'', ''-H'', ''-p'', ''-o'', ''value'', ''used'', v_dataset v]) number"

definition zfs_logical_bytes :: "'w zrunner \<Rightarrow> volume \<Rightarrow> ('w, int) ext" where
  "zfs_logical_bytes run v =
     check (run [''get'', ''-H'', ''-p'', ''-o'', ''value'', ''referenced'', v_dataset v]) number"

definition zfs_pool_capacity :: "'w host \<Rightarrow> zcfg \<Rightarrow> ('w, int \<times> int) ext" where
  "zfs_pool_capacity H z w =
     (case h_run H (priv_cmd z ''zpool'' ''zpool'' [''list'', ''-Hp'', ''-o'', ''alloc,size'', zc_pool z]) w of
       ((r, out), w') \<Rightarrow> (case run_error r of
         Some e \<Rightarrow> (Inl (EWrap ''zpool list: '' e ('': '' @ trim_space out)), w')
       | None \<Rightarrow> (case go_fields out of
           [u, t] \<Rightarrow> (Inr (fst (parse_int64 u), fst (parse_int64 t)), w')
         | _ \<Rightarrow> (Inl (EText (''unexpected zpool output: '' @ out)), w'))))"

text \<open>The detail of a failed call is dropped: an error has no value here, and no caller uses it.\<close>

definition zfs_pool_status :: "'w host \<Rightarrow> zcfg \<Rightarrow> ('w, bool \<times> string) ext" where
  "zfs_pool_status H z w =
     (case h_run H (priv_cmd z ''zpool'' ''zpool'' [''status'', ''-x'', zc_pool z]) w of
       ((r, out), w') \<Rightarrow> let txt = trim_space out in (case run_error r of
         Some e \<Rightarrow> (Inl (EWrap ''zpool status -x: '' e ('': '' @ txt)), w')
       | None \<Rightarrow> if contains txt ''is healthy'' \<or> contains txt ''all pools are healthy''
           then (Inr (True, ''healthy''), w') else (Inr (False, txt), w')))"

definition zfs_storage :: "'w host \<Rightarrow> zcfg \<Rightarrow> 'w storage_api" where
  "zfs_storage H z = (let run = exec_zfs H z in
     \<lparr>st_caps = zfs_caps, st_clone = zfs_clone run z, st_snapshot_init = zfs_snapshot_init run,
      st_rollback = zfs_rollback run, st_delete_async = zfs_delete_async run, st_poll = zfs_poll,
      st_snapshot_base = zfs_snapshot_base run z, st_list_snapshots = zfs_list_snapshots run z,
      st_used_bytes = zfs_used_bytes run, st_rename = Some (zfs_rename run z),
      st_pool_capacity = Some (zfs_pool_capacity H z), st_pool_status = Some (zfs_pool_status H z),
      st_promote = Some (zfs_promote run), st_logical_bytes = Some (zfs_logical_bytes run),
      st_list_volumes = Some (zfs_list_volumes run z), st_set_quota = Some (zfs_set_quota run),
      st_resolve = Some (zfs_resolve run z), st_delete_baseline = Some (zfs_delete_baseline run),
      st_base_path = Some (zfs_base_path run z), st_base_name = Some (zfs_base_name z)\<rparr>)"

section \<open>The list of volumes\<close>

lemma trim_name: "list_all plain_char s \<Longrightarrow> trim_space s = s"
  using hd_in_set [of s] last_in_set [of s] by (intro trim_clean) (auto simp: list_all_iff)

lemma split_join:
  assumes "\<And>x. x \<in> set xs \<Longrightarrow> c \<notin> set x" and "xs \<noteq> []"
  shows "split_on c (join_with [c] xs) = xs"
  using assms
proof (induction xs rule: induct_list012)
  case (2 x)
  then show ?case by (simp add: split_on_no_sep)
next
  case (3 x y zs)
  then show ?case using split_on_append [of c x "join_with [c] (y # zs)"] by simp
qed simp

text \<open>A name without white space (and, as the names of zfs are ASCII, without the bytes that white
  space beyond ASCII begins or ends with).\<close>

definition zfs_name :: "string \<Rightarrow> bool" where
  "zfs_name s \<longleftrightarrow> s \<noteq> [] \<and> list_all plain_char s"

definition direct_child :: "string \<Rightarrow> string \<Rightarrow> string \<Rightarrow> bool" where
  "direct_child parent d n \<longleftrightarrow> d = parent @ ''/'' @ n \<and> CHR ''/'' \<notin> set n \<and> CHR ''@'' \<notin> set n"

lemma branch_volume_line_iff:
  assumes "zfs_name d" "zfs_name (zc_parent z)"
  shows "n \<in> set (branch_volume_line z d) \<longleftrightarrow> direct_child (zc_parent z) d n"
proof (cases "cut_prefix d (zc_parent z @ ''/'')")
  case None
  then have "d \<noteq> (zc_parent z @ ''/'') @ n" using cut_prefix_Some [of d "zc_parent z @ ''/''" n] by simp
  with None assms show ?thesis
    by (auto simp: branch_volume_line_def zfs_name_def trim_name direct_child_def)
next
  case (Some r)
  then have "d = (zc_parent z @ ''/'') @ r" by (simp only: cut_prefix_Some)
  with Some assms show ?thesis
    by (auto simp: branch_volume_line_def zfs_name_def trim_name direct_child_def)
qed

section \<open>The backend behind the helper\<close>

text \<open>The machine where sudo runs the helper and the helper refuses: a command that it refuses fails
  without running.\<close>

definition behind_helper :: "hcfg \<Rightarrow> zcfg \<Rightarrow> 'w host \<Rightarrow> 'w host" where
  "behind_helper c z H = H\<lparr>h_run := (\<lambda>cm w.
     if cmd_path cm = ''sudo'' \<and> take 2 (cmd_args cm) = [''-n'', zc_helper z] then
       (case validate_args c (drop 2 (cmd_args cm)) of
          Inl e \<Rightarrow> ((RunFailed e, []), w) | Inr _ \<Rightarrow> h_run H cm w)
     else h_run H cm w)\<rparr>"

text \<open>Two runners that do the same for every command that the helper accepts.\<close>

definition agrees :: "hcfg \<Rightarrow> 'w zrunner \<Rightarrow> 'w zrunner \<Rightarrow> bool" where
  "agrees c run' run \<longleftrightarrow> helper_normal c
     \<and> (\<forall>args. validate_args c (''zfs'' # args) = Inr () \<longrightarrow> run' args = run args)"

lemma agrees_normal: "agrees c run' run \<Longrightarrow> helper_normal c"
  by (simp add: agrees_def)

lemma behind_accepted:
  assumes "validate_args c (tool # args) = Inr ()" "zc_helper z \<noteq> []"
  shows "h_run (behind_helper c z H) (priv_cmd z bin tool args) = h_run H (priv_cmd z bin tool args)"
  using assms by (simp add: behind_helper_def priv_cmd_def bare_cmd_def fun_eq_iff)

lemma exec_agrees:
  assumes "helper_normal c" "zc_helper z \<noteq> []"
  shows "agrees c (exec_zfs (behind_helper c z H) z) (exec_zfs H z)"
proof -
  have "exec_zfs (behind_helper c z H) z args = exec_zfs H z args" if "validate_args c (''zfs'' # args) = Inr ()" for args
    using behind_accepted [OF that assms(2), of H "zc_bin z"] by (simp add: exec_zfs_def fun_eq_iff)
  then show ?thesis using assms(1) by (simp add: agrees_def)
qed

definition same_layout :: "hcfg \<Rightarrow> zcfg \<Rightarrow> bool" where
  "same_layout c z \<longleftrightarrow> helper_normal c \<and> zc_pool z = hc_pool c \<and> zc_base z = hc_base c \<and> zc_parent z = hc_parent c"

lemma same_layoutD:
  "same_layout c z \<Longrightarrow> helper_normal c" "same_layout c z \<Longrightarrow> branch_dataset z n = branch_ds c n"
  "same_layout c z \<Longrightarrow> zc_base z = hc_base c"
  "same_layout c z \<Longrightarrow> zc_parent z = hc_parent c"
  by (simp_all add: same_layout_def branch_dataset_def branch_ds_def)

lemma guarded_render:
  assumes "agrees c run' run" "cmd_ok c cmd" "render_cmd c cmd = ''zfs'' # args"
  shows "run' args = run args"
  using rendered_is_accepted [OF agrees_normal [OF assms(1)] assms(2)] assms(1,3) by (simp add: agrees_def)

text \<open>A dataset of the pool as the target of a query.\<close>

lemma pool_target_below:
  assumes "dataset_in (hc_pool c) ds"
  shows "\<exists>d. dataset_ok d \<and> pool_target c (Some d) None = ds"
proof -
  from assms obtain d where d: "ds = (hc_pool c @ ''/'') @ d" and "dataset_ok ds"
    by (auto simp: dataset_in_def has_prefix_iff)
  have "\<And>a b. split_on (CHR ''/'') (a @ CHR ''/'' # b)
      = split_on (CHR ''/'') a @ split_on (CHR ''/'') b"
  proof -
    fix a b show "split_on (CHR ''/'') (a @ CHR ''/'' # b) = split_on (CHR ''/'') a @ split_on (CHR ''/'') b"
      by (induction a) (auto split: list.splits simp: Cons_eq_append_conv append_eq_Cons_conv)
  qed
  with \<open>dataset_ok ds\<close> d have "dataset_ok d" by (simp add: dataset_ok_def)
  with d show ?thesis by (intro exI [of _ d]) (simp add: pool_target_def)
qed

lemma guarded_get:
  assumes n: "agrees c run' run" and "dataset_in (hc_pool c) ds" and "p \<in> set readable_props"
  shows "run' [''get'', ''-H'', ''-o'', ''value'', p, ds] = run [''get'', ''-H'', ''-o'', ''value'', p, ds]"
    and "run' [''get'', ''-H'', ''-p'', ''-o'', ''value'', p, ds]
       = run [''get'', ''-H'', ''-p'', ''-o'', ''value'', p, ds]"
    and "run' [''list'', ''-H'', ''-o'', ''name'', ''-r'', ds]
       = run [''list'', ''-H'', ''-o'', ''name'', ''-r'', ds]"
    and "run' [''list'', ''-H'', ''-t'', ''snapshot'', ''-o'', ''name'', ''-r'', ds]
       = run [''list'', ''-H'', ''-t'', ''snapshot'', ''-o'', ''name'', ''-r'', ds]"
proof -
  obtain d where d: "dataset_ok d" "pool_target c (Some d) None = ds"
    using pool_target_below [OF assms(2)] by blast
  then have raw: "cmd_ok c (HGet raw p (Some d) None)" and lst: "cmd_ok c (HList snaps (Some d) None)" for raw snaps
    using assms(3) by simp_all
  show "run' [''get'', ''-H'', ''-o'', ''value'', p, ds] = run [''get'', ''-H'', ''-o'', ''value'', p, ds]"
    by (rule guarded_render [OF n raw [of False]]) (simp add: d)
  show "run' [''get'', ''-H'', ''-p'', ''-o'', ''value'', p, ds]
       = run [''get'', ''-H'', ''-p'', ''-o'', ''value'', p, ds]"
    by (rule guarded_render [OF n raw [of True]]) (simp add: d)
  show "run' [''list'', ''-H'', ''-o'', ''name'', ''-r'', ds]
       = run [''list'', ''-H'', ''-o'', ''name'', ''-r'', ds]"
    by (rule guarded_render [OF n lst [of False]]) (simp add: d)
  show "run' [''list'', ''-H'', ''-t'', ''snapshot'', ''-o'', ''name'', ''-r'', ds]
       = run [''list'', ''-H'', ''-t'', ''snapshot'', ''-o'', ''name'', ''-r'', ds]"
    by (rule guarded_render [OF n lst [of True]]) (simp add: d)
qed

lemma branch_ds_in_pool:
  assumes "helper_normal c" "name_ok n"
  shows "dataset_in (hc_pool c) (branch_ds c n)"
proof -
  have "split_on (CHR ''/'') (a @ CHR ''/'' # n) = split_on (CHR ''/'') a @ [n]" for a
    using assms(2) name_ok_free [of n]
    by (induction a) (auto split: list.splits simp: split_on_no_sep)
  with assms show ?thesis
    by (auto simp: dataset_in_def helper_normal_def branch_ds_def dataset_ok_def has_prefix_iff)
qed

lemma show_nat_length: "0 < k \<Longrightarrow> n < 10 ^ k \<Longrightarrow> length (show_nat n) \<le> k"
proof (induction k arbitrary: n)
  case (Suc k)
  show ?case
  proof (cases "n < 10")
    case True
    then show ?thesis by (simp add: show_nat.simps [of n])
  next
    case False
    then have "0 < k" using Suc.prems(2) by (cases k) auto
    moreover have "n div 10 < 10 ^ k" using Suc.prems(2) by (simp add: less_mult_imp_div_less)
    ultimately show ?thesis using Suc.IH False by (simp add: show_nat.simps [of n])
  qed
qed simp

lemma quota_digits: "0 < b \<Longrightarrow> b < 2 ^ 63 \<Longrightarrow> digits_ok (show_int b)"
  using show_nat_length [of 20 "nat b"] show_nat_digits [of _ "nat b"]
  by (auto simp: show_int_def digits_ok_def list_all_iff Suc_le_eq nat_less_iff)

lemma guarded_parts:
  assumes n: "agrees c run' run"
  shows "ref_ok r \<Longrightarrow> name_ok m \<Longrightarrow>
      run' [''clone'', ref_text c r, branch_ds c m] = run [''clone'', ref_text c r, branch_ds c m]"
    and "name_ok m \<Longrightarrow> run' [''snapshot'', branch_ds c m @ ''@init'']
      = run [''snapshot'', branch_ds c m @ ''@init'']"
    and "ref_ok r \<Longrightarrow> run' [''snapshot'', ref_text c r] = run [''snapshot'', ref_text c r]"
    and "name_ok m \<Longrightarrow> run' [''rollback'', ''-r'', branch_ds c m @ ''@init'']
      = run [''rollback'', ''-r'', branch_ds c m @ ''@init'']"
    and "name_ok m \<Longrightarrow> run' [''destroy'', ''-r'', branch_ds c m] = run [''destroy'', ''-r'', branch_ds c m]"
    and "ref_ok r \<Longrightarrow> run' [''destroy'', ref_text c r] = run [''destroy'', ref_text c r]"
    and "name_ok m \<Longrightarrow> name_ok k \<Longrightarrow> run' [''rename'', branch_ds c m, branch_ds c k]
      = run [''rename'', branch_ds c m, branch_ds c k]"
    and "opt_ok digits_ok q \<Longrightarrow> name_ok m \<Longrightarrow> run' [''set'', quota_text q, branch_ds c m]
      = run [''set'', quota_text q, branch_ds c m]"
  by (auto intro: guarded_render [OF n, of "HClone r m"] guarded_render [OF n, of "HSnapInit m"]
    guarded_render [OF n, of "HSnap r"] guarded_render [OF n, of "HRollback m"]
    guarded_render [OF n, of "HDestroy m"] guarded_render [OF n, of "HDestroySnap r"]
    guarded_render [OF n, of "HRename m k"] guarded_render [OF n, of "HQuota q m"])

lemma guarded_mountpoint:
  assumes "agrees c run' run"
  shows "name_ok m \<Longrightarrow> mountpoint_of run' (branch_ds c m) = mountpoint_of run (branch_ds c m)"
    and "mountpoint_of run' (hc_base c) = mountpoint_of run (hc_base c)"
proof -
  have p: "''mountpoint'' \<in> set readable_props" by (simp add: readable_props_def)
  show "mountpoint_of run' (branch_ds c m) = mountpoint_of run (branch_ds c m)" if "name_ok m"
    unfolding mountpoint_of_def by (rule guarded_get(1) [OF assms branch_ds_in_pool [OF agrees_normal [OF assms] that] p])
  have "dataset_in (hc_pool c) (hc_base c)" using agrees_normal [OF assms] by (simp add: helper_normal_def)
  then show "mountpoint_of run' (hc_base c) = mountpoint_of run (hc_base c)"
    unfolding mountpoint_of_def by (rule guarded_get(1) [OF assms _ p])
qed

lemma quota_arg:
  assumes "b < 2 ^ 63"
  shows "\<exists>q. opt_ok digits_ok q \<and> ''refquota='' @ (if b > 0 then show_int b else ''none'') = quota_text q"
proof (cases "b > 0")
  case True
  with assms show ?thesis by (intro exI [of _ "Some (show_int b)"]) (simp add: quota_text_def quota_digits)
next
  case False
  then show ?thesis by (intro exI [of _ None]) (simp add: quota_text_def)
qed

lemma guarded_quota:
  assumes n: "agrees c run' run" and "b < 2 ^ 63" and "name_ok m" and "v_dataset v = branch_ds c m"
  shows "zfs_set_quota run' v b = zfs_set_quota run v b"
proof -
  obtain q where q: "opt_ok digits_ok q"
    "''refquota='' @ (if b > 0 then show_int b else ''none'') = quota_text q"
    using quota_arg [OF assms(2)] by blast
  show ?thesis
    unfolding zfs_set_quota_def Let_def q(2) assms(4)
    by (simp only: guarded_parts(8) [OF n q(1) assms(3)])
qed

lemma promoted_ref: "branch_ds c m @ ''@'' @ ''baseline-'' @ t = ref_text c (OfBranch m t)"
  by simp

lemma methods_agree:
  assumes "agrees c run' run" and "same_layout c z" and "name_ok n" "name_ok m" "name_ok tag" "ref_ok r" "bytes < 2 ^ 63"
    and "v_dataset v = branch_dataset z m"
  shows "zfs_clone run' z (ref_text c r) n = zfs_clone run z (ref_text c r) n
     \<and> zfs_resolve run' z n = zfs_resolve run z n
     \<and> zfs_snapshot_init run' v = zfs_snapshot_init run v
     \<and> zfs_rollback run' v (v_dataset v @ ''@init'') = zfs_rollback run v (v_dataset v @ ''@init'')
     \<and> zfs_rename run' z v n = zfs_rename run z v n
     \<and> zfs_delete_async run' v = zfs_delete_async run v
     \<and> zfs_set_quota run' v bytes = zfs_set_quota run v bytes
     \<and> zfs_snapshot_base run' z tag = zfs_snapshot_base run z tag
     \<and> zfs_promote run' v (''baseline-'' @ tag) = zfs_promote run v (''baseline-'' @ tag)
     \<and> zfs_delete_baseline run' (ref_text c r) = zfs_delete_baseline run (ref_text c r)
     \<and> zfs_used_bytes run' v = zfs_used_bytes run v
     \<and> zfs_logical_bytes run' v = zfs_logical_bytes run v
     \<and> zfs_list_volumes run' z = zfs_list_volumes run z
     \<and> zfs_list_snapshots run' z = zfs_list_snapshots run z
     \<and> zfs_base_path run' z = zfs_base_path run z"
proof (intro conjI)
  note n = assms(1)
  note hn = same_layoutD(1) [OF assms(2)]
  note layout = same_layoutD(2-4) [OF assms(2)] assms(8)
  note parts = guarded_parts [OF n] guarded_mountpoint [OF n]
  have pool: "dataset_in (hc_pool c) (hc_base c)" "dataset_in (hc_pool c) (hc_parent c)"
    using hn by (simp_all add: helper_normal_def)
  have rd: "''used'' \<in> set readable_props" "''referenced'' \<in> set readable_props"
    by (simp_all add: readable_props_def)
  note query = guarded_get [OF n branch_ds_in_pool [OF hn assms(4)] rd(1)]
    guarded_get [OF n branch_ds_in_pool [OF hn assms(4)] rd(2)]
    guarded_get [OF n pool(1) rd(1)] guarded_get [OF n pool(2) rd(1)]
  have base: "hc_base c @ ''@'' @ tag = ref_text c (OfBase tag)" by simp
  have oks: "ref_ok (OfBase tag)" "ref_ok (OfBranch m tag)" using assms by simp_all
  show "zfs_clone run' z (ref_text c r) n = zfs_clone run z (ref_text c r) n"
    unfolding zfs_clone_def Let_def layout by (simp only: parts assms)
  show "zfs_resolve run' z n = zfs_resolve run z n"
    unfolding zfs_resolve_def Let_def layout by (simp only: parts assms)
  show "zfs_snapshot_init run' v = zfs_snapshot_init run v"
    unfolding zfs_snapshot_init_def layout by (simp only: parts assms)
  show "zfs_rollback run' v (v_dataset v @ ''@init'') = zfs_rollback run v (v_dataset v @ ''@init'')"
    unfolding zfs_rollback_def layout by (simp only: parts assms)
  show "zfs_rename run' z v n = zfs_rename run z v n"
    unfolding zfs_rename_def Let_def layout by (simp only: parts assms)
  show "zfs_delete_async run' v = zfs_delete_async run v"
    unfolding zfs_delete_async_def layout by (simp only: parts assms)
  show "zfs_set_quota run' v bytes = zfs_set_quota run v bytes"
    by (rule guarded_quota [OF n assms(7,4)]) (simp only: layout)
  show "zfs_snapshot_base run' z tag = zfs_snapshot_base run z tag"
    unfolding zfs_snapshot_base_def Let_def layout base by (simp only: parts oks)
  show "zfs_promote run' v (''baseline-'' @ tag) = zfs_promote run v (''baseline-'' @ tag)"
    unfolding zfs_promote_def Let_def layout promoted_ref by (simp only: parts oks)
  show "zfs_delete_baseline run' (ref_text c r) = zfs_delete_baseline run (ref_text c r)"
    unfolding zfs_delete_baseline_def by (simp only: parts assms)
  show "zfs_used_bytes run' v = zfs_used_bytes run v"
    unfolding zfs_used_bytes_def layout by (simp only: query)
  show "zfs_logical_bytes run' v = zfs_logical_bytes run v"
    unfolding zfs_logical_bytes_def layout by (simp only: query)
  show "zfs_list_volumes run' z = zfs_list_volumes run z"
    unfolding zfs_list_volumes_def layout by (simp only: query)
  show "zfs_list_snapshots run' z = zfs_list_snapshots run z"
    unfolding zfs_list_snapshots_def layout by (simp only: query)
  show "zfs_base_path run' z = zfs_base_path run z"
    unfolding zfs_base_path_def layout by (simp only: parts)
qed

section \<open>Properties\<close>

text \<open>C33. The daemon and its root helper agree: where the daemon runs its commands through the helper, and
  both are configured with the same pool, base and parent, every method of the zfs backend that runs a command
  behaves on the machine where the helper refuses what its rules do not allow exactly as on the one where it refuses nothing.
  The arguments are those that the manager passes: branch names and tags that the helper's patterns allow, snapshots
  of these forms, the volume of a branch below the common parent, its @init snapshot for a rollback, the tag
  \<^verbatim>\<open>baseline-...\<close> for a promotion, and a quota of 63 bits. So the helper refuses none of
  the commands that the backend issues for them.\<close>

theorem helper_never_refuses:
  assumes "same_layout c z" and "zc_helper z \<noteq> []"
    and "name_ok n" "name_ok m" "name_ok tag" "ref_ok r" "bytes < 2 ^ 63"
    and "v_dataset v = branch_dataset z m"
  shows "let run' = exec_zfs (behind_helper c z H) z; run = exec_zfs H z in
       zfs_clone run' z (ref_text c r) n = zfs_clone run z (ref_text c r) n
     \<and> zfs_resolve run' z n = zfs_resolve run z n
     \<and> zfs_snapshot_init run' v = zfs_snapshot_init run v
     \<and> zfs_rollback run' v (v_dataset v @ ''@init'') = zfs_rollback run v (v_dataset v @ ''@init'')
     \<and> zfs_rename run' z v n = zfs_rename run z v n
     \<and> zfs_delete_async run' v = zfs_delete_async run v
     \<and> zfs_set_quota run' v bytes = zfs_set_quota run v bytes
     \<and> zfs_snapshot_base run' z tag = zfs_snapshot_base run z tag
     \<and> zfs_promote run' v (''baseline-'' @ tag) = zfs_promote run v (''baseline-'' @ tag)
     \<and> zfs_delete_baseline run' (ref_text c r) = zfs_delete_baseline run (ref_text c r)
     \<and> zfs_used_bytes run' v = zfs_used_bytes run v
     \<and> zfs_logical_bytes run' v = zfs_logical_bytes run v
     \<and> zfs_list_volumes run' z = zfs_list_volumes run z
     \<and> zfs_list_snapshots run' z = zfs_list_snapshots run z
     \<and> zfs_base_path run' z = zfs_base_path run z
     \<and> zfs_pool_capacity (behind_helper c z H) z = zfs_pool_capacity H z
     \<and> zfs_pool_status (behind_helper c z H) z = zfs_pool_status H z"
proof -
  have n: "helper_normal c" by (rule same_layoutD(1) [OF assms(1)])
  have pool: "zc_pool z = hc_pool c" using assms(1) by (simp add: same_layout_def)
  have q: "validate_args c [''zpool'', ''list'', ''-Hp'', ''-o'', ''alloc,size'', hc_pool c] = Inr ()"
    "validate_args c [''zpool'', ''status'', ''-x'', hc_pool c] = Inr ()"
    using rendered_is_accepted [OF n, of HPoolCapacity] rendered_is_accepted [OF n, of HPoolStatus] by simp_all
  have "zfs_pool_capacity (behind_helper c z H) z = zfs_pool_capacity H z"
    "zfs_pool_status (behind_helper c z H) z = zfs_pool_status H z"
    by (simp_all add: zfs_pool_capacity_def zfs_pool_status_def fun_eq_iff pool behind_accepted [OF q(1) assms(2)]
        behind_accepted [OF q(2) assms(2)])
  then show ?thesis
    using methods_agree [OF exec_agrees [OF n assms(2), of H] assms(1,3-8)] by (simp add: Let_def)
qed

definition sample_zfs :: zcfg where
  "sample_zfs = \<lparr>zc_pool = ''dbpool'', zc_base = ''dbpool/base'', zc_parent = ''dbpool/branches'',
     zc_baseline = ''baseline'', zc_bin = ''zfs'', zc_sudo = True, zc_helper = ''/usr/local/bin/sashiki-root-helper''\<rparr>"

definition zfs_sample_volume :: volume where
  "zfs_sample_volume = \<lparr>v_name = ''pr-1'', v_dataset = ''dbpool/branches/pr-1'', v_path = ''/mnt''\<rparr>"

theorem helper_never_refuses_witness:
  "zfs_clone (exec_zfs (behind_helper sample_normal sample_zfs sample_host) sample_zfs) sample_zfs
       (ref_text sample_normal (OfBase ''baseline-20260101T000000Z'')) ''pr-2''
     = zfs_clone (exec_zfs sample_host sample_zfs) sample_zfs
       (ref_text sample_normal (OfBase ''baseline-20260101T000000Z'')) ''pr-2''"
proof (rule helper_never_refuses [unfolded Let_def, THEN conjunct1])
  show "same_layout sample_normal sample_zfs"
    using normalize_normal [OF sample_normalize] by (simp add: same_layout_def sample_normal_def sample_zfs_def)
  show "zc_helper sample_zfs \<noteq> []" by (simp add: sample_zfs_def)
  show "name_ok ''pr-2''" "name_ok ''pr-1''" "name_ok ''x''" "ref_ok (OfBase ''baseline-20260101T000000Z'')"
    by code_simp+
  show "(1024::int) < 2 ^ 63" by simp
  show "v_dataset zfs_sample_volume = branch_dataset sample_zfs ''pr-1''" by code_simp
qed

text \<open>The default \<^verbatim>\<open>branches.name_pattern\<close>, \<^verbatim>\<open>^[a-z0-9-]{1,32}$\<close>.\<close>

definition default_name :: "string \<Rightarrow> bool" where
  "default_name s = (let ok = (\<lambda>c. is_digit c \<or> 97 \<le> (of_char c :: nat) \<and> (of_char c :: nat) \<le> 122 \<or> c = CHR ''-'')
     in 1 \<le> length s \<and> length s \<le> 32 \<and> list_all ok s)"

lemma default_name_ok:
  assumes "default_name n" "length suffix \<le> 40" "list_all name_char suffix"
  shows "name_ok (n @ suffix) \<longleftrightarrow> hd n \<noteq> CHR ''-''"
proof -
  obtain x xs where n: "n = x # xs" using assms(1) by (cases n) (auto simp: default_name_def)
  have cs: "name_char c" if "c \<in> set n" for c
    using assms(1) that
    by (auto simp: default_name_def Let_def list_all_iff name_char_def is_alnum_def is_digit_def)
  have "name_start x \<longleftrightarrow> x \<noteq> CHR ''-''"
    using cs [of x] assms(1) n
    by (auto simp: default_name_def Let_def list_all_iff name_start_def is_alnum_def is_digit_def)
  then show ?thesis
    using assms cs n by (auto simp: name_ok_def default_name_def list_all_iff Let_def)
qed

text \<open>Of the branch names that the default name pattern admits, the helper serves exactly those
  that do not begin with a hyphen, and with them the name under which recreate stashes the old volume:
  creating a branch named with a leading hyphen is admitted by the manager and always refused here.\<close>

theorem helper_serves_default_names:
  assumes "helper_normal c" and "default_name n" and "ref_ok r"
  shows "(validate_args c [''zfs'', ''clone'', ref_text c r, branch_ds c n] = Inr ()) = (hd n \<noteq> CHR ''-'')
     \<and> (validate_args c [''zfs'', ''rename'', branch_ds c n, branch_ds c (n @ ''-recreating'')] = Inr ())
        = (hd n \<noteq> CHR ''-'')"
proof -
  have plain: "name_ok n \<longleftrightarrow> hd n \<noteq> CHR ''-''" using default_name_ok [OF assms(2), of "[]"] by simp
  have stash: "name_ok (n @ ''-recreating'') \<longleftrightarrow> hd n \<noteq> CHR ''-''"
    using default_name_ok [OF assms(2), of "''-recreating''"] by (simp add: name_char_def is_alnum_def)
  have ds: "is_branch_ds c (branch_ds c m) \<longleftrightarrow> name_ok m" for m
    by (auto simp: branch_ds_iff branch_ds_def)
  show ?thesis
  proof (cases "hd n = CHR ''-''")
    case False
    then have "name_ok n" "name_ok (n @ ''-recreating'')" using plain stash by auto
    then show ?thesis
      using rendered_is_accepted [OF assms(1), of "HClone r n"] assms(3) False
        rendered_is_accepted [OF assms(1), of "HRename n (n @ ''-recreating'')"] by simp
  next
    case True
    then have "\<not> name_ok n" using plain by simp
    then have "zfs_form c ''clone'' [ref_text c r, branch_ds c n] = Some False"
      "zfs_form c ''rename'' [branch_ds c n, branch_ds c (n @ ''-recreating'')] = Some False"
      by (simp_all add: zfs_form_def ds)
    then show ?thesis using True by (simp add: validate_args_def validate_zfs_def deny_def)
  qed
qed

theorem helper_serves_default_names_witness:
  "(validate_args sample_normal [''zfs'', ''clone'', ref_text sample_normal (OfBase ''b''),
        branch_ds sample_normal ''-x''] = Inr ()) = (hd ''-x'' \<noteq> CHR ''-'')
     \<and> (validate_args sample_normal [''zfs'', ''rename'', branch_ds sample_normal ''-x'',
        branch_ds sample_normal (''-x'' @ ''-recreating'')] = Inr ()) = (hd ''-x'' \<noteq> CHR ''-'')"
proof (rule helper_serves_default_names)
  show "helper_normal sample_normal" by (rule normalize_normal [OF sample_normalize])
qed code_simp+

text \<open>The volumes that the backend reports for reconciliation are exactly the direct children of
  the branch parent among the datasets that zfs lists below it: neither the parent itself, nor nested
  datasets, nor snapshots.\<close>

theorem volumes_listed_exactly:
  assumes "run [''list'', ''-H'', ''-o'', ''name'', ''-r'', zc_parent z] w = (Inr (join_with [newline] ds), w')"
    and "ds \<noteq> []" "list_all zfs_name ds" "zfs_name (zc_parent z)"
  shows "map_sum id set (fst (zfs_list_volumes run z w))
     = Inr {n. list_ex (\<lambda>d. direct_child (zc_parent z) d n) ds}"
proof -
  have "newline \<notin> set d" if "d \<in> set ds" for d
    using assms(3) that by (auto simp: list_all_iff zfs_name_def newline_def plain_char_def is_space_def)
  then have "split_on newline (join_with [newline] ds) = ds" by (intro split_join assms(2))
  moreover have "n \<in> set (concat (map (branch_volume_line z) ds))
      \<longleftrightarrow> list_ex (\<lambda>d. direct_child (zc_parent z) d n) ds" for n
    using assms(3) branch_volume_line_iff [OF _ assms(4)] by (auto simp: list_all_iff list_ex_iff)
  ultimately show ?thesis
    by (simp add: zfs_list_volumes_def check_def assms(1) ret_def set_eq_iff del: set_concat)
qed

theorem volumes_listed_exactly_witness:
  "map_sum id set (fst (zfs_list_volumes
      (\<lambda>args w. (Inr (join_with [newline] [''t/b'', ''t/b/pr-1'', ''t/b/x/y'', ''t/b/pr-2'']), w + 1 :: int)) 
      (sample_zfs\<lparr>zc_parent := ''t/b''\<rparr>) 0))
   = Inr {n. list_ex (\<lambda>d. direct_child (zc_parent (sample_zfs\<lparr>zc_parent := ''t/b''\<rparr>)) d n)
       [''t/b'', ''t/b/pr-1'', ''t/b/x/y'', ''t/b/pr-2'']}"
  by (rule volumes_listed_exactly [where w' = 1]) (simp_all add: zfs_name_def plain_char_def is_space_def)

end
