(* ===== verification/LocalStore.thy ===== *)
theory LocalStore
  imports RootHelper
begin

text \<open>
  internal/storage/reflink and apfs: the backends that keep every branch as a directory and copy
  data directories with the copy-on-write of the file system. They differ in the options of cp and
  in a message only. The last sections state what cp and the removal of a tree do to the files and
  prove what reset and create need of the backend.
\<close>

section \<open>The methods\<close>

record local_cfg =
  lc_root :: string
  lc_baseline :: string
  lc_cp :: string

record copy_kind =
  ck_flags :: "string list"
  ck_label :: string

definition reflink_copy :: copy_kind where
  "reflink_copy = \<lparr>ck_flags = [''-a'', ''--reflink=always''], ck_label = ''reflink''\<rparr>"

definition apfs_copy :: copy_kind where
  "apfs_copy = \<lparr>ck_flags = [''-Rc''], ck_label = ''clonefile''\<rparr>"

definition new_local :: "local_cfg \<Rightarrow> local_cfg" where
  "new_local c = c\<lparr>lc_cp := (if lc_cp c = [] then ''cp'' else lc_cp c),
     lc_baseline := (if lc_baseline c = [] then ''baseline'' else lc_baseline c)\<rparr>"

text \<open>\<^verbatim>\<open>os.RemoveAll\<close>, \<^verbatim>\<open>os.Rename\<close>, and \<^verbatim>\<open>os.IsNotExist\<close> of an error of \<^verbatim>\<open>os.ReadDir\<close>.\<close>

record 'w local_fs =
  lf_remove_all :: "string \<Rightarrow> ('w, unit) ext"
  lf_rename :: "string \<Rightarrow> string \<Rightarrow> ('w, unit) ext"
  lf_missing :: "err \<Rightarrow> bool"

definition copy_cmd :: "copy_kind \<Rightarrow> local_cfg \<Rightarrow> string \<Rightarrow> string \<Rightarrow> cmd" where
  "copy_cmd k c src dst = bare_cmd (lc_cp c) (ck_flags k @ [src, dst])"

definition clone_tree :: "'w host \<Rightarrow> copy_kind \<Rightarrow> local_cfg \<Rightarrow> string \<Rightarrow> string \<Rightarrow> ('w, unit) ext" where
  "clone_tree H k c src dst = check (h_mkdir_all H (dir_name dst)) (\<lambda>_ w.
     case h_run H (copy_cmd k c src dst) w of ((r, out), w') \<Rightarrow>
       (case run_error r of
          Some e \<Rightarrow> (Inl (EWrap (ck_label k @ '' '' @ src @ '' -> '' @ dst @ '': '') e ('': '' @ trim_space out)), w')
        | None \<Rightarrow> (Inr (), w')))"

definition local_branch_dir :: "local_cfg \<Rightarrow> string \<Rightarrow> string" where
  "local_branch_dir c n = in_dir (in_dir (lc_root c) ''branches'') n"

definition local_data_dir :: "string \<Rightarrow> string" where
  "local_data_dir p = in_dir p ''data''"

definition local_snap_dir :: "local_cfg \<Rightarrow> string \<Rightarrow> string" where
  "local_snap_dir c tag = in_dir (in_dir (in_dir (lc_root c) ''base'') ''snap'') tag"

definition local_volume :: "local_cfg \<Rightarrow> string \<Rightarrow> volume" where
  "local_volume c n = (let d = local_branch_dir c n in \<lparr>v_name = n, v_dataset = d, v_path = d\<rparr>)"

definition local_caps :: caps where
  "local_caps = \<lparr>fast_rollback = True, typical_create = second div 2, clones_distinct = False\<rparr>"

definition local_clone ::
  "'w host \<Rightarrow> 'w local_fs \<Rightarrow> copy_kind \<Rightarrow> local_cfg \<Rightarrow> string \<Rightarrow> string \<Rightarrow> ('w, volume) ext" where
  "local_clone H F k c baseline n w = (let dst = local_branch_dir c n in
     case h_stat H dst w of (r, w1) \<Rightarrow>
       if r = FsOk then (Inl (EText (''branch '' @ n @ '' already exists at '' @ dst)), w1)
       else (case h_mkdir_all H dst w1 of
           (Inl e, w2) \<Rightarrow> (Inl e, w2)
         | (Inr _, w2) \<Rightarrow> (case clone_tree H k c baseline (local_data_dir dst) w2 of
               (Inl e, w3) \<Rightarrow> (Inl e, snd (lf_remove_all F dst w3))
             | (Inr _, w3) \<Rightarrow> (Inr (local_volume c n), w3))))"

definition local_resolve :: "local_cfg \<Rightarrow> string \<Rightarrow> ('w, volume) ext" where
  "local_resolve c n = ret (local_volume c n)"

text \<open>Three operations replace a tree by a copy of another.\<close>

definition replace_tree ::
  "'w host \<Rightarrow> 'w local_fs \<Rightarrow> copy_kind \<Rightarrow> local_cfg \<Rightarrow> string \<Rightarrow> string \<Rightarrow> ('w, unit) ext" where
  "replace_tree H F k c src dst = check (lf_remove_all F dst) (\<lambda>_. clone_tree H k c src dst)"

definition local_snapshot_init ::
  "'w host \<Rightarrow> 'w local_fs \<Rightarrow> copy_kind \<Rightarrow> local_cfg \<Rightarrow> volume \<Rightarrow> ('w, string) ext" where
  "local_snapshot_init H F k c v = (let snap = in_dir (v_path v) ''.init'' in
     check (replace_tree H F k c (local_data_dir (v_path v)) snap) (\<lambda>_. ret snap))"

definition local_rollback ::
  "'w host \<Rightarrow> 'w local_fs \<Rightarrow> copy_kind \<Rightarrow> local_cfg \<Rightarrow> volume \<Rightarrow> string \<Rightarrow> ('w, unit) ext" where
  "local_rollback H F k c v snap = replace_tree H F k c snap (local_data_dir (v_path v))"

definition local_delete_async :: "'w local_fs \<Rightarrow> volume \<Rightarrow> ('w, string) ext" where
  "local_delete_async F v = check (lf_remove_all F (v_path v)) (\<lambda>_. ret ''done'')"

definition local_poll :: "string \<Rightarrow> ('w, job_status) ext" where
  "local_poll job = ret JobCompleted"

definition local_snapshot_base ::
  "'w host \<Rightarrow> 'w local_fs \<Rightarrow> copy_kind \<Rightarrow> local_cfg \<Rightarrow> string \<Rightarrow> ('w, string) ext" where
  "local_snapshot_base H F k c tag = (let snap = local_snap_dir c tag in
     check (replace_tree H F k c (in_dir (in_dir (lc_root c) ''base'') ''data'') snap) (\<lambda>_. ret snap))"

definition local_promote ::
  "'w host \<Rightarrow> 'w local_fs \<Rightarrow> copy_kind \<Rightarrow> local_cfg \<Rightarrow> volume \<Rightarrow> string \<Rightarrow> ('w, string) ext" where
  "local_promote H F k c v tag = (let snap = local_snap_dir c tag in
     check (replace_tree H F k c (local_data_dir (v_path v)) snap) (\<lambda>_. ret snap))"

definition local_list_snapshots :: "'w host \<Rightarrow> 'w local_fs \<Rightarrow> local_cfg \<Rightarrow> ('w, string list) ext" where
  "local_list_snapshots H F c = (let dir = in_dir (in_dir (lc_root c) ''base'') ''snap'' in
     attempt (h_read_dir H dir) (\<lambda>r. case r of
         Inl e \<Rightarrow> if lf_missing F e then ret [] else throw e
       | Inr ents \<Rightarrow> ret (map (\<lambda>e. in_dir dir (fst e)) (filter snd ents))))"

definition local_used_bytes :: "volume \<Rightarrow> ('w, int) ext" where
  "local_used_bytes v = ret (-1)"

definition local_rename ::
  "'w host \<Rightarrow> 'w local_fs \<Rightarrow> local_cfg \<Rightarrow> volume \<Rightarrow> string \<Rightarrow> ('w, volume) ext" where
  "local_rename H F c v n = (let dst = local_branch_dir c n in
     check (h_mkdir_all H (dir_name dst)) (\<lambda>_.
     check (lf_rename F (v_path v) dst) (\<lambda>_. ret (local_volume c n))))"

definition local_delete_baseline :: "'w local_fs \<Rightarrow> string \<Rightarrow> ('w, unit) ext" where
  "local_delete_baseline F snap = lf_remove_all F snap"

definition local_current_baseline :: "local_cfg \<Rightarrow> string" where
  "local_current_baseline c = local_snap_dir c (lc_baseline c)"

definition local_storage :: "'w host \<Rightarrow> 'w local_fs \<Rightarrow> copy_kind \<Rightarrow> local_cfg \<Rightarrow> 'w storage_api" where
  "local_storage H F k c = \<lparr>
     st_caps = local_caps, st_clone = local_clone H F k c,
     st_snapshot_init = local_snapshot_init H F k c, st_rollback = local_rollback H F k c,
     st_delete_async = local_delete_async F, st_poll = local_poll,
     st_snapshot_base = local_snapshot_base H F k c,
     st_list_snapshots = local_list_snapshots H F c, st_used_bytes = local_used_bytes,
     st_rename = Some (local_rename H F c), st_pool_capacity = None, st_pool_status = None,
     st_promote = Some (local_promote H F k c), st_logical_bytes = None, st_list_volumes = None,
     st_set_quota = None, st_resolve = Some (local_resolve c),
     st_delete_baseline = Some (local_delete_baseline F), st_base_path = None, st_base_name = None\<rparr>"

section \<open>Trees of files\<close>

text \<open>The directories and regular files of a world, by path.\<close>

datatype 'd node = Dir | Reg 'd

type_synonym 'd files = "string \<rightharpoonup> 'd node"

definition below :: "string \<Rightarrow> string \<Rightarrow> bool" where
  "below p q \<longleftrightarrow> q = p \<or> has_prefix q (p @ ''/'')"

definition tree_at :: "string \<Rightarrow> 'd files \<Rightarrow> 'd files" where
  "tree_at p m = (\<lambda>r. if below [] r then m (p @ r) else None)"

text \<open>Missing directories on the way to a place may have been made, and nothing else is different.\<close>

definition grown :: "string \<Rightarrow> 'd files \<Rightarrow> 'd files \<Rightarrow> bool" where
  "grown p m m' \<longleftrightarrow> (\<forall>q. m' q = m q \<or> m q = None \<and> m' q = Some Dir \<and> below q p)"

text \<open>Nothing is different but a tree and the directories on the way to it.\<close>

definition same_outside :: "string \<Rightarrow> 'd files \<Rightarrow> 'd files \<Rightarrow> bool" where
  "same_outside p m m' \<longleftrightarrow> (\<forall>q. below p q \<or> m' q = m q \<or> m q = None \<and> m' q = Some Dir \<and> below q p)"

definition apart :: "string \<Rightarrow> string \<Rightarrow> bool" where
  "apart p q \<longleftrightarrow> \<not> below p q \<and> \<not> below q p"

text \<open>
  The files after \<^verbatim>\<open>cp -a src dst\<close> or \<^verbatim>\<open>cp -Rc src dst\<close>: a target that is a directory
  receives the copy inside it, under the last name of the source, over what is there; otherwise the copy gets
  the name of the target.
\<close>

definition merge_tree :: "string \<Rightarrow> string \<Rightarrow> 'd files \<Rightarrow> 'd files" where
  "merge_tree src dst m =
     (\<lambda>q. if below dst q \<and> m (src @ drop (length dst) q) \<noteq> None then m (src @ drop (length dst) q) else m q)"

definition cp_result :: "string \<Rightarrow> string \<Rightarrow> 'd files \<Rightarrow> 'd files" where
  "cp_result src dst m =
     merge_tree src (if m dst = Some Dir then in_dir dst (base_name src) else dst) m"

text \<open>
  What the machine does, as documented: looking changes no file; \<^verbatim>\<open>MkdirAll\<close> makes the missing
  directories; removing a tree removes all of it; cp copies a tree. What fails changes nothing but the
  place that it was to change.
\<close>

definition cow_machine ::
  "'w host \<Rightarrow> 'w local_fs \<Rightarrow> copy_kind \<Rightarrow> local_cfg \<Rightarrow> ('w \<Rightarrow> 'd files) \<Rightarrow> bool" where
  "cow_machine H F k c view \<longleftrightarrow>
     (\<forall>p w. grown p (view w) (view (snd (h_mkdir_all H p w)))
        \<and> (fst (h_mkdir_all H p w) = Inr () \<longrightarrow> view (snd (h_mkdir_all H p w)) p = Some Dir))
   \<and> (\<forall>p w. view (snd (h_stat H p w)) = view w)
   \<and> (\<forall>p w. same_outside p (view w) (view (snd (lf_remove_all F p w)))
        \<and> (fst (lf_remove_all F p w) = Inr () \<longrightarrow> tree_at p (view (snd (lf_remove_all F p w))) = Map.empty))
   \<and> (\<forall>src dst w. apart src dst \<longrightarrow>
        same_outside dst (view w) (view (snd (h_run H (copy_cmd k c src dst) w)))
        \<and> (run_error (fst (fst (h_run H (copy_cmd k c src dst) w))) = None
            \<longrightarrow> view (snd (h_run H (copy_cmd k c src dst) w)) = cp_result src dst (view w)))"

lemma below_alt: "below p q \<longleftrightarrow> q = p \<or> (\<exists>t. q = p @ CHR ''/'' # t)"
  by (auto simp: below_def has_prefix_iff)

lemma below_self [simp]: "below p p"
  by (simp add: below_alt)

lemma below_ext: "below p (p @ r) \<longleftrightarrow> below [] r"
  by (auto simp: below_alt)

lemma below_iff: "below p q \<longleftrightarrow> (\<exists>r. q = p @ r \<and> below [] r)"
  by (auto simp: below_alt)

lemma below_trans: "below p q \<Longrightarrow> below q r \<Longrightarrow> below p r"
  by (auto simp: below_alt)

lemma apart_sym: "apart p q \<Longrightarrow> apart q p"
  by (simp add: apart_def)

lemma below_part: "below [] (us @ r) \<Longrightarrow> us = [] \<or> below [] us"
  by (cases us) (auto simp: below_alt)

lemma apart_tree:
  assumes "apart src dst" "below [] r"
  shows "\<not> below dst (src @ r)"
proof
  assume "below dst (src @ r)"
  then obtain s where s: "src @ r = dst @ s" "below [] s" by (auto simp: below_iff [of dst])
  then obtain us where "src = dst @ us \<and> us @ r = s \<or> src @ us = dst \<and> r = us @ s"
    by (auto simp: append_eq_append_conv2)
  then show False
    using assms s(2) below_part [of us r] below_part [of us s]
    by (auto simp: apart_def below_ext)
qed

lemma below_length: "below p q \<Longrightarrow> length p \<le> length q"
  by (auto simp: below_alt)

lemma below_chain: "below x z \<Longrightarrow> below y z \<Longrightarrow> below x y \<or> below y x"
proof -
  assume "below x z" "below y z"
  then obtain r where r: "z = x @ r" "below [] r" by (auto simp: below_iff [of x])
  obtain t where t: "z = y @ t" "below [] t" using \<open>below y z\<close> by (auto simp: below_iff [of y])
  then obtain us where "x = y @ us \<and> us @ r = t \<or> x @ us = y \<and> r = us @ t"
    using r t by (auto simp: append_eq_append_conv2)
  then show ?thesis using r(2) t(2) below_part [of us r] below_part [of us t] by (auto simp: below_ext)
qed

lemma tree_outside:
  assumes "same_outside dst m m'" "apart src dst"
  shows "tree_at src m' = tree_at src m"
proof
  fix r
  show "tree_at src m' r = tree_at src m r"
  proof (cases "below [] r")
    case True
    have "\<not> below dst (src @ r)" by (rule apart_tree [OF assms(2) True])
    moreover have "\<not> below (src @ r) dst"
      using below_trans [of src "src @ r" dst] True assms(2) by (auto simp: below_ext apart_def)
    ultimately have "m' (src @ r) = m (src @ r)" using assms(1) unfolding same_outside_def by blast
    then show ?thesis by (simp add: tree_at_def)
  qed (simp add: tree_at_def)
qed

lemma same_outside_refl [simp]: "same_outside p m m"
  by (simp add: same_outside_def)

lemma same_outside_trans:
  assumes "same_outside p a b" "same_outside p b c"
  shows "same_outside p a c"
  unfolding same_outside_def
proof
  fix q
  have "below p q \<or> b q = a q \<or> a q = None \<and> b q = Some Dir \<and> below q p"
    "below p q \<or> c q = b q \<or> b q = None \<and> c q = Some Dir \<and> below q p"
    using assms unfolding same_outside_def by blast+
  then show "below p q \<or> c q = a q \<or> a q = None \<and> c q = Some Dir \<and> below q p" by auto
qed

lemma same_outside_mono:
  assumes "below p q" "same_outside q a b"
  shows "same_outside p a b"
  unfolding same_outside_def
proof
  fix x
  have "below q x \<or> b x = a x \<or> a x = None \<and> b x = Some Dir \<and> below x q"
    using assms(2) unfolding same_outside_def by blast
  then show "below p x \<or> b x = a x \<or> a x = None \<and> b x = Some Dir \<and> below x p"
    using below_trans [OF assms(1), of x] below_chain [OF assms(1), of x] by blast
qed

lemma grown_outside: "grown p m m' \<Longrightarrow> below p q \<Longrightarrow> same_outside q m m'"
  unfolding grown_def same_outside_def using below_trans by blast

lemma grown_tree:
  assumes "grown p m m'" "\<not> below dst p"
  shows "tree_at dst m' = tree_at dst m"
proof
  fix r
  have "below [] r \<Longrightarrow> \<not> below (dst @ r) p"
    using below_trans [of dst "dst @ r" p] assms(2) by (auto simp: below_ext)
  then show "tree_at dst m' r = tree_at dst m r"
    using assms(1) unfolding grown_def tree_at_def by metis
qed

lemma apart_children:
  assumes "a \<noteq> b" "CHR ''/'' \<notin> set a" "CHR ''/'' \<notin> set b"
  shows "apart (in_dir p a) (in_dir p b)"
proof -
  have "\<not> below (in_dir p x) (in_dir p y)" if "x \<noteq> y" "CHR ''/'' \<notin> set y" for x y
    using that by (auto simp: below_alt in_dir_def)
  then show ?thesis using assms by (auto simp: apart_def)
qed

text \<open>A place that is not directly below the root.\<close>

definition placed :: "string \<Rightarrow> bool" where
  "placed dst \<longleftrightarrow> (\<exists>p x. dst = in_dir p x \<and> drop_slashes p \<noteq> [] \<and> x \<noteq> [] \<and> CHR ''/'' \<notin> set x)"

lemma drop_slashes_split: "\<exists>n. p = drop_slashes p @ replicate n (CHR ''/'')"
proof -
  have "rev p = takeWhile (\<lambda>c. c = CHR ''/'') (rev p) @ dropWhile (\<lambda>c. c = CHR ''/'') (rev p)" by simp
  then have "p = drop_slashes p @ rev (takeWhile (\<lambda>c. c = CHR ''/'') (rev p))"
    unfolding drop_slashes_def by (metis rev_append rev_rev_ident)
  moreover have "rev (takeWhile (\<lambda>c. c = CHR ''/'') (rev p))
      = replicate (length (takeWhile (\<lambda>c. c = CHR ''/'') (rev p))) (CHR ''/'')"
    by (rule replicate_eqI [symmetric, THEN sym]) (auto dest: set_takeWhileD)
  ultimately show ?thesis by metis
qed

lemma dir_of:
  assumes "CHR ''/'' \<notin> set x" "drop_slashes p \<noteq> []"
  shows "dir_name (in_dir p x) = drop_slashes p"
proof -
  have "dropWhile (\<lambda>c. c \<noteq> CHR ''/'') (rev x @ CHR ''/'' # rev p) = CHR ''/'' # rev p"
    using assms(1) by (subst dropWhile_append2) auto
  then show ?thesis using assms(2) by (simp add: dir_name_def in_dir_def drop_slashes_def Let_def)
qed

lemma placed_parent:
  assumes "placed dst"
  shows "below (dir_name dst) dst" "\<not> below dst (dir_name dst)"
proof -
  obtain p x where d: "dst = in_dir p x" "drop_slashes p \<noteq> []" "x \<noteq> []" "CHR ''/'' \<notin> set x"
    using assms by (auto simp: placed_def)
  obtain n where n: "p = drop_slashes p @ replicate n (CHR ''/'')" using drop_slashes_split by blast
  have dn: "dir_name dst = drop_slashes p" using dir_of d by simp
  have "replicate n (CHR ''/'') @ CHR ''/'' # x = CHR ''/'' # replicate n (CHR ''/'') @ x"
    by (metis append_Cons replicate_append_same append.assoc append_Nil)
  then have "dst = drop_slashes p @ CHR ''/'' # (replicate n (CHR ''/'') @ x)"
    using n d(1) by (metis append.assoc in_dir_def append_Cons append_Nil)
  then show "below (dir_name dst) dst" unfolding dn below_alt by blast
  have "length (drop_slashes p) \<le> length p" using arg_cong [OF n, of length] by simp
  then show "\<not> below dst (dir_name dst)" using below_length [of dst "drop_slashes p"] dn d(1) by (auto simp: in_dir_def)
qed

lemma placed_child: "placed p \<Longrightarrow> x \<noteq> [] \<Longrightarrow> CHR ''/'' \<notin> set x \<Longrightarrow> placed (in_dir p x)"
proof -
  assume p: "placed p" and x: "x \<noteq> []" "CHR ''/'' \<notin> set x"
  obtain q y where "p = in_dir q y" "y \<noteq> []" "CHR ''/'' \<notin> set y" using p by (auto simp: placed_def)
  moreover from this have "last y \<noteq> CHR ''/''" using last_in_set [of y] by metis
  ultimately have "last p \<noteq> CHR ''/''" "p \<noteq> []" by (auto simp: in_dir_def)
  then have "drop_slashes p = p" by (cases p rule: rev_cases) (simp_all add: drop_slashes_def)
  then show "placed (in_dir p x)" using x \<open>p \<noteq> []\<close> unfolding placed_def by metis
qed

section \<open>What the operations do to the files\<close>

lemma copy_to_nothing: "tree_at dst m = Map.empty \<Longrightarrow> tree_at dst (cp_result src dst m) = tree_at src m"
proof -
  assume e: "tree_at dst m = Map.empty"
  have n: "m (dst @ r) = None" if "below [] r" for r
    using fun_cong [OF e, of r] that by (simp add: tree_at_def)
  have "m dst = None" using n [of "[]"] by simp
  then show ?thesis by (auto simp: cp_result_def merge_tree_def tree_at_def below_ext n)
qed

lemma clone_tree_files:
  assumes cow: "cow_machine H F k c view" and apart: "apart src dst" and placed: "placed dst"
    and empty: "tree_at dst (view w) = Map.empty" and run: "clone_tree H k c src dst w = (r, w')"
  shows "same_outside dst (view w) (view w')"
    and "r = Inr () \<Longrightarrow> tree_at dst (view w') = tree_at src (view w)"
proof -
  obtain a w1 where m: "h_mkdir_all H (dir_name dst) w = (a, w1)" by force
  have g: "grown (dir_name dst) (view w) (view w1)" using cow m unfolding cow_machine_def by (metis snd_conv)
  note o1 = grown_outside [OF g placed_parent(1) [OF placed]]
  have e: "tree_at dst (view w1) = Map.empty"
    using grown_tree [OF g placed_parent(2) [OF placed]] empty by simp
  have s: "tree_at src (view w1) = tree_at src (view w)" by (rule tree_outside [OF o1 apart])
  obtain q out w2 where h: "h_run H (copy_cmd k c src dst) w1 = ((q, out), w2)" by (metis surj_pair)
  have copy: "same_outside dst (view w1) (view w2)" "run_error q = None \<Longrightarrow> view w2 = cp_result src dst (view w1)"
    using cow apart h unfolding cow_machine_def by (metis fst_conv snd_conv)+
  show "same_outside dst (view w) (view w')"
    using run m h o1 same_outside_trans [OF o1 copy(1)]
    by (auto simp: clone_tree_def check_def split: sum.splits option.splits)
  show "tree_at dst (view w') = tree_at src (view w)" if "r = Inr ()"
    using run m h copy(2) that copy_to_nothing [OF e, of src] s
    by (auto simp: clone_tree_def check_def split: sum.splits option.splits)
qed

lemma replace_tree_files:
  assumes cow: "cow_machine H F k c view" and apart: "apart src dst" and placed: "placed dst"
    and run: "replace_tree H F k c src dst w = (r, w')"
  shows "same_outside dst (view w) (view w')"
    and "r = Inr () \<Longrightarrow> tree_at dst (view w') = tree_at src (view w)"
proof -
  obtain a w1 where rm: "lf_remove_all F dst w = (a, w1)" by force
  have o1: "same_outside dst (view w) (view w1)" and e: "a = Inr () \<Longrightarrow> tree_at dst (view w1) = Map.empty"
    using cow rm unfolding cow_machine_def by (metis fst_conv snd_conv)+
  have src: "tree_at src (view w1) = tree_at src (view w)" by (rule tree_outside [OF o1 apart])
  show "same_outside dst (view w) (view w')"
    using run rm o1 e clone_tree_files(1) [OF cow apart placed] same_outside_trans [OF o1]
    by (cases a) (auto simp: replace_tree_def check_def)
  show "tree_at dst (view w') = tree_at src (view w)" if "r = Inr ()"
    using run rm e src clone_tree_files(2) [OF cow apart placed] that
    by (cases a) (auto simp: replace_tree_def check_def)
qed

lemma volume_placed: "CHR ''/'' \<notin> set n \<Longrightarrow> n \<noteq> [] \<Longrightarrow> placed (local_branch_dir c n)"
proof -
  assume n: "CHR ''/'' \<notin> set n" "n \<noteq> []"
  have "drop_slashes (in_dir (lc_root c) ''branches'') \<noteq> []"
    by (simp add: drop_slashes_def in_dir_def)
  then show "placed (local_branch_dir c n)" unfolding placed_def local_branch_dir_def using n by blast
qed

text \<open>C37. On a local copy-on-write backend, a reset of a branch that succeeds brings back exactly the
  directories and files that the data directory of the branch had when the @init snapshot was taken, whatever the server has
  changed since, provided that nobody has changed the tree of the snapshot itself; and it changes nothing outside
  that data directory (missing directories on the way to it may be made), so no other branch and no baseline.
  The machine is assumed to behave as documented: in particular a cp whose target is a directory copies
  into it, so that the code must remove the target and must not make it. The name of the branch is
  one component of a path, as the manager's checks of names imply.\<close>

theorem rollback_restores_snapshot:
  assumes "cow_machine H F k c view" and "n \<noteq> []" and "CHR ''/'' \<notin> set n"
    and "local_snapshot_init H F k c (local_volume c n) w = (Inr snap, w1)"
    and "tree_at snap (view w2) = tree_at snap (view w1)"
    and "local_rollback H F k c (local_volume c n) snap w2 = (Inr (), w3)"
  shows "tree_at (local_data_dir (local_branch_dir c n)) (view w3)
        = tree_at (local_data_dir (local_branch_dir c n)) (view w)
     \<and> same_outside (local_data_dir (local_branch_dir c n)) (view w2) (view w3)"
proof -
  let ?d = "local_branch_dir c n"
  let ?data = "local_data_dir ?d" and ?init = "in_dir ?d ''.init''"
  have path: "v_path (local_volume c n) = ?d" by (simp add: local_volume_def Let_def)
  have ap: "apart ?data ?init" unfolding local_data_dir_def by (rule apart_children) auto
  have pl: "placed ?data" "placed ?init"
    unfolding local_data_dir_def using placed_child [OF volume_placed [OF assms(3,2)]] by simp_all
  have snap: "snap = ?init" and s: "replace_tree H F k c ?data ?init w = (Inr (), w1)"
    using assms(4) by (auto simp: local_snapshot_init_def path check_def ret_def Let_def split: sum.splits prod.splits)
  have "tree_at ?init (view w1) = tree_at ?data (view w)"
    using replace_tree_files(2) [OF assms(1) ap pl(2) s] by simp
  moreover have "tree_at ?data (view w3) = tree_at snap (view w2)"
    "same_outside ?data (view w2) (view w3)"
    using replace_tree_files [OF assms(1), of snap ?data w2 "Inr ()" w3] assms(6) snap apart_sym [OF ap] pl(1)
    by (auto simp: local_rollback_def path)
  ultimately show ?thesis using assms(5) snap by simp
qed

lemma apart_below:
  assumes "apart p q" "below q r"
  shows "apart p r"
proof -
  obtain u where u: "r = q @ u" "below [] u" using assms(2) by (auto simp: below_iff [of q])
  have "\<not> below p r" using apart_tree [OF apart_sym [OF assms(1)] u(2)] u(1) by simp
  moreover have "\<not> below r p" using assms below_trans [of q r p] unfolding apart_def by blast
  ultimately show ?thesis by (simp add: apart_def)
qed

lemma tree_empty_below:
  assumes "below p q" "tree_at p m = Map.empty"
  shows "tree_at q m = Map.empty"
proof
  fix r
  obtain u where u: "q = p @ u" "below [] u" using assms(1) by (auto simp: below_iff [of p])
  show "tree_at q m r = None"
  proof (cases "below [] r")
    case True
    then have "below [] (u @ r)" using below_trans [of "[]" u "u @ r"] u(2) by (simp add: below_ext)
    then have "m (p @ u @ r) = None"
      using fun_cong [OF assms(2), of "u @ r"] by (simp add: tree_at_def)
    then show ?thesis using u(1) by (simp add: tree_at_def)
  qed (simp add: tree_at_def)
qed

text \<open>A clone on a local backend changes nothing outside the directory of the new branch (missing
  directories on the way to it may be made),
  whether it succeeds or fails, and when it succeeds the data directory of the branch holds exactly the files of the
  baseline, and an existing branch of the name is never touched.\<close>

theorem local_clone_isolated:
  assumes "cow_machine H F k c view" "apart baseline (local_branch_dir c n)" "n \<noteq> []" "CHR ''/'' \<notin> set n"
    and "tree_at (local_branch_dir c n) (view w) = Map.empty"
    and "local_clone H F k c baseline n w = (r, w')"
  shows "same_outside (local_branch_dir c n) (view w) (view w')
     \<and> (case r of Inr v \<Rightarrow> v = local_volume c n
            \<and> tree_at (local_data_dir (v_path v)) (view w') = tree_at baseline (view w)
        | Inl e \<Rightarrow> fst (h_stat H (local_branch_dir c n) w) = FsOk \<longrightarrow> view w' = view w)"
proof -
  let ?dst = "local_branch_dir c n"
  let ?data = "local_data_dir ?dst"
  note cow = assms(1)
  have inside: "below ?dst ?data" by (auto simp: local_data_dir_def in_dir_def below_alt)
  have above: "\<not> below ?data ?dst"
    using below_length [of ?data ?dst] by (auto simp: local_data_dir_def in_dir_def)
  have pl: "placed ?data"
    unfolding local_data_dir_def using placed_child [OF volume_placed [OF assms(4,3)]] by simp
  have ap: "apart baseline ?data" by (rule apart_below [OF assms(2) inside])
  obtain q w1 where st: "h_stat H ?dst w = (q, w1)" by force
  obtain a w2 where mk: "h_mkdir_all H ?dst w1 = (a, w2)" by force
  obtain b w3 where ct: "clone_tree H k c baseline ?data w2 = (b, w3)" by force
  have v: "view w1 = view w" using cow st unfolding cow_machine_def by (metis snd_conv)
  have g: "grown ?dst (view w) (view w2)" using cow mk v unfolding cow_machine_def by (metis snd_conv)
  have o2: "same_outside ?dst (view w) (view w2)" by (rule grown_outside [OF g]) simp
  have e: "tree_at ?data (view w2) = Map.empty"
    using grown_tree [OF g above] tree_empty_below [OF inside] assms(5) by simp
  have bt: "tree_at baseline (view w2) = tree_at baseline (view w)" by (rule tree_outside [OF o2 assms(2)])
  have o: "same_outside ?dst (view w) (view w3)"
    using same_outside_trans [OF o2 same_outside_mono [OF inside clone_tree_files(1) [OF cow ap pl e ct]]] .
  have t: "b = Inr () \<Longrightarrow> tree_at ?data (view w3) = tree_at baseline (view w)"
    using clone_tree_files(2) [OF cow ap pl e ct] bt by simp
  have rm: "same_outside ?dst (view w3) (view (snd (lf_remove_all F ?dst w3)))"
    using cow unfolding cow_machine_def by blast
  show ?thesis
    using assms(6) st mk ct v o t o2 same_outside_trans [OF o rm]
    by (cases a; cases b) (auto simp: local_clone_def local_volume_def Let_def split: if_splits)
qed

section \<open>A machine that copies trees\<close>

text \<open>The files themselves as the world, as an instance of what is assumed above.\<close>

definition drop_tree :: "string \<Rightarrow> 'd files \<Rightarrow> 'd files" where
  "drop_tree p m = (\<lambda>q. if below p q then None else m q)"

definition make_dirs :: "string \<Rightarrow> 'd files \<Rightarrow> 'd files" where
  "make_dirs p m = (\<lambda>q. if m q = None \<and> below q p then Some Dir else m q)"

definition run_cp :: "string \<Rightarrow> string \<Rightarrow> 'd files \<Rightarrow> (run_result \<times> string) \<times> 'd files" where
  "run_cp src dst m =
     (if m src = None \<or> (\<exists>d. m dst = Some (Reg d)) then ((RunFailed ENotFound, []), m)
      else ((RunOk, []), cp_result src dst m))"

definition file_host :: "string \<Rightarrow> 'd files host" where
  "file_host cp = \<lparr>h_stat = (\<lambda>p m. (if m p = None then FsNotExist ENotFound else FsOk, m)),
     h_remove = (\<lambda>p m. (FsOk, m(p := None))),
     h_open = (\<lambda>p m. (Inr (), m)), h_glob = (\<lambda>p m. (Inr [], m)), h_read_dir = (\<lambda>p m. (Inr [], m)),
     h_executable = (\<lambda>p m. (Inr True, m)), h_mod_time = (\<lambda>p m. (Inr 0, m)),
     h_mkdir_all = (\<lambda>p m. (if make_dirs p m p = Some Dir then Inr () else Inl ENotFound, make_dirs p m)),
     h_create = (\<lambda>p m. (Inr (), m)), h_read_file = (\<lambda>p m. (Inl ENotFound, m)),
     h_run = (\<lambda>c m. if cmd_path c = cp
        then run_cp (last (butlast (cmd_args c))) (last (cmd_args c)) m
        else ((RunFailed ENotFound, []), m)),
     h_sigterm = (\<lambda>p m. ((), m)), h_is_root = False, h_environ = [], h_tmp_dir = ''/tmp'',
     h_lookup_user = (\<lambda>u. None)\<rparr>"

definition file_fs :: "'d files local_fs" where
  "file_fs = \<lparr>lf_remove_all = (\<lambda>p m. (Inr (), drop_tree p m)),
     lf_rename = (\<lambda>p q m. (Inr (), drop_tree p (merge_tree p q m))), lf_missing = (\<lambda>e. e = ENotFound)\<rparr>"

lemma tree_drop: "tree_at dst (drop_tree dst m) = Map.empty"
  by (rule ext) (simp add: tree_at_def drop_tree_def below_ext)

lemma outside_drop: "same_outside dst m (drop_tree dst m)"
  by (auto simp: same_outside_def drop_tree_def)

lemma outside_copy: "same_outside dst m (cp_result src dst m)"
proof -
  have "below dst (in_dir dst x)" for x by (auto simp: below_alt in_dir_def)
  then have "below dst q" if "below (in_dir dst x) q" for x q using below_trans that by blast
  then show ?thesis by (auto simp: same_outside_def cp_result_def merge_tree_def)
qed

lemma make_dirs_grown: "grown p m (make_dirs p m)"
  by (auto simp: grown_def make_dirs_def)

lemma file_host_cow: "cow_machine (file_host (lc_cp c)) file_fs k c (\<lambda>m. m)"
  by (simp add: cow_machine_def file_host_def file_fs_def copy_cmd_def bare_cmd_def butlast_append
      tree_drop outside_drop outside_copy make_dirs_grown run_cp_def)

definition sample_local :: local_cfg where
  "sample_local = new_local \<lparr>lc_root = ''/s'', lc_baseline = [], lc_cp = []\<rparr>"

definition sample_files :: "nat files" where
  "sample_files = [''/s/base/snap/baseline'' \<mapsto> Dir, ''/s/base/snap/baseline/ibdata1'' \<mapsto> Reg 1,
     ''/s/branches/a/data'' \<mapsto> Dir, ''/s/branches/a/data/ibdata1'' \<mapsto> Reg 2]"

lemma sample_local_eq: "sample_local = \<lparr>lc_root = ''/s'', lc_baseline = ''baseline'', lc_cp = ''cp''\<rparr>"
  by (simp add: sample_local_def new_local_def)

lemma sample_cow: "cow_machine (file_host ''cp'') file_fs k sample_local (\<lambda>m. m)"
  using file_host_cow [of sample_local k] by (simp add: sample_local_eq)

lemma file_clone:
  assumes "m src \<noteq> None" "make_dirs (dir_name dst) m (dir_name dst) = Some Dir" "make_dirs (dir_name dst) m dst = None"
  shows "clone_tree (file_host ''cp'') k sample_local src dst m
     = (Inr (), cp_result src dst (make_dirs (dir_name dst) m))"
proof -
  have "make_dirs (dir_name dst) m src \<noteq> None" using assms(1) by (simp add: make_dirs_def)
  then show ?thesis
    using assms(2,3) by (simp add: clone_tree_def check_def file_host_def copy_cmd_def bare_cmd_def
        sample_local_eq butlast_append run_cp_def)
qed

lemma file_replace:
  assumes "m src \<noteq> None" "apart src dst" "placed dst" "make_dirs (dir_name dst) m (dir_name dst) = Some Dir"
  shows "replace_tree (file_host ''cp'') file_fs k sample_local src dst m
     = (Inr (), cp_result src dst (make_dirs (dir_name dst) (drop_tree dst m)))"
proof -
  note pl = placed_parent [OF assms(3)]
  have "drop_tree dst m src \<noteq> None" using assms(1,2) by (simp add: drop_tree_def apart_def)
  moreover have "make_dirs (dir_name dst) (drop_tree dst m) (dir_name dst) = Some Dir"
    using assms(4) pl(2) by (auto simp: make_dirs_def drop_tree_def split: if_splits)
  moreover have "make_dirs (dir_name dst) (drop_tree dst m) dst = None"
    using pl(2) by (simp add: make_dirs_def drop_tree_def)
  ultimately show ?thesis
    using file_clone [of "drop_tree dst m" src dst k] by (simp add: replace_tree_def check_def file_fs_def)
qed

lemma sample_dir: "local_branch_dir sample_local n = ''/s/branches/'' @ n"
  by (simp add: local_branch_dir_def in_dir_def sample_local_eq)

lemma sample_parents:
  "dir_name ''/s/branches/a/data'' = ''/s/branches/a''" "dir_name ''/s/branches/a/.init'' = ''/s/branches/a''"
  "dir_name ''/s/branches/b/data'' = ''/s/branches/b''"
  by (simp_all add: dir_name_def drop_slashes_def)

theorem local_clone_isolated_witness:
  "tree_at ''/s/branches/b/data'' (snd (local_clone (file_host ''cp'') file_fs reflink_copy sample_local
      ''/s/base/snap/baseline'' ''b'' sample_files)) = tree_at ''/s/base/snap/baseline'' sample_files"
proof -
  let ?m = "make_dirs ''/s/branches/b'' sample_files"
  have ap: "apart ''/s/base/snap/baseline'' (local_branch_dir sample_local ''b'')"
    by (simp add: sample_dir apart_def below_alt)
  have e: "tree_at (local_branch_dir sample_local ''b'') sample_files = Map.empty"
    by (rule ext) (simp add: sample_dir tree_at_def sample_files_def below_alt)
  have h: "h_stat (file_host ''cp'') ''/s/branches/b'' sample_files = (FsNotExist ENotFound, sample_files)"
    "h_mkdir_all (file_host ''cp'') ''/s/branches/b'' sample_files = (Inr (), ?m)"
    by (simp_all add: file_host_def sample_files_def make_dirs_def)
  have "clone_tree (file_host ''cp'') reflink_copy sample_local ''/s/base/snap/baseline'' ''/s/branches/b/data'' ?m
      = (Inr (), cp_result ''/s/base/snap/baseline'' ''/s/branches/b/data'' (make_dirs ''/s/branches/b'' ?m))"
    using file_clone [of ?m "''/s/base/snap/baseline''" "''/s/branches/b/data''" reflink_copy] sample_parents
    by (simp add: make_dirs_def sample_files_def below_alt)
  then have run: "local_clone (file_host ''cp'') file_fs reflink_copy sample_local ''/s/base/snap/baseline'' ''b'' sample_files
      = (Inr (local_volume sample_local ''b''),
         cp_result ''/s/base/snap/baseline'' ''/s/branches/b/data'' (make_dirs ''/s/branches/b'' ?m))"
    using h by (simp add: local_clone_def sample_dir local_data_dir_def in_dir_def Let_def)
  show ?thesis
    using local_clone_isolated [OF sample_cow ap _ _ e run] run
    by (simp add: local_volume_def sample_dir local_data_dir_def in_dir_def Let_def)
qed

theorem rollback_restores_snapshot_witness:
  "snd (local_rollback (file_host ''cp'') file_fs apfs_copy sample_local (local_volume sample_local ''a'')
      ''/s/branches/a/.init''
      ((snd (local_snapshot_init (file_host ''cp'') file_fs apfs_copy sample_local (local_volume sample_local ''a'')
         sample_files))(''/s/branches/a/data/ibdata1'' \<mapsto> Reg 7))) ''/s/branches/a/data/ibdata1'' = Some (Reg 2)"
proof -
  let ?v = "local_volume sample_local ''a''" and ?init = "''/s/branches/a/.init''" and ?data = "''/s/branches/a/data''"
  have path: "v_path ?v = ''/s/branches/a''" by (simp add: local_volume_def sample_dir Let_def)
  have ap: "apart ?data ?init" by (simp add: apart_def below_alt)
  have pl: "placed ?data" "placed ?init"
    using placed_child [OF volume_placed [of "''a''" sample_local]] placed_child [OF volume_placed [of "''a''" sample_local], of "''.init''"]
    by (simp_all add: sample_dir in_dir_def)
  define m1 where "m1 = cp_result ?data ?init (make_dirs ''/s/branches/a'' (drop_tree ?init sample_files))"
  define m2 where "m2 = m1(''/s/branches/a/data/ibdata1'' \<mapsto> Reg 7)"
  define m3 where "m3 = cp_result ?init ?data (make_dirs ''/s/branches/a'' (drop_tree ?data m2))"
  have "replace_tree (file_host ''cp'') file_fs apfs_copy sample_local ?data ?init sample_files = (Inr (), m1)"
    using file_replace [OF _ ap pl(2), of sample_files apfs_copy] sample_parents
    by (simp add: sample_files_def make_dirs_def m1_def)
  then have s: "local_snapshot_init (file_host ''cp'') file_fs apfs_copy sample_local ?v sample_files = (Inr ?init, m1)"
    by (simp add: local_snapshot_init_def path in_dir_def local_data_dir_def check_def ret_def Let_def)
  have nodes: "m1 ?init = Some Dir" "m1 ''/s/branches/a'' = Some Dir"
    by (simp_all add: m1_def cp_result_def merge_tree_def make_dirs_def drop_tree_def sample_files_def below_alt)
  have "replace_tree (file_host ''cp'') file_fs apfs_copy sample_local ?init ?data m2 = (Inr (), m3)"
    using file_replace [OF _ apart_sym [OF ap] pl(1), of m2 apfs_copy] sample_parents nodes
    by (simp add: m2_def make_dirs_def m3_def)
  then have r: "local_rollback (file_host ''cp'') file_fs apfs_copy sample_local ?v ?init m2 = (Inr (), m3)"
    by (simp add: local_rollback_def path in_dir_def local_data_dir_def)
  have t: "tree_at ?init m2 = tree_at ?init m1"
    by (rule ext) (simp add: m2_def tree_at_def)
  have "tree_at ?data m3 = tree_at ?data sample_files"
    using rollback_restores_snapshot [OF sample_cow _ _ s t r] by (simp add: sample_dir local_data_dir_def in_dir_def)
  from fun_cong [OF this, of "''/ibdata1''"]
  have "m3 ''/s/branches/a/data/ibdata1'' = Some (Reg 2)"
    by (simp add: tree_at_def below_alt sample_files_def)
  then show ?thesis using s r by (simp add: m2_def)
qed

end
