(* ===== verification/Engines.thy ===== *)
theory Engines
  imports Settings RootHelper
begin

text \<open>
  internal/engine: the servers of the branches. Both engines run them as units of systemd or, in
  process mode, as processes of their own that they find again by the pid file in the data
  directory. What the machine does is a parameter: files and commands as in the theory Host, and
  the record \<open>procs\<close> for signals, the clock and the network. The waiting loops take as fuel the
  number of rounds that their timeout allows.
\<close>

section \<open>The machine\<close>

datatype signal = SigZero | SigTerm | SigKill

record ip_addr =
  ip_text :: string
  ip_loopback :: bool
  ip_unspecified :: bool
  ip_multicast :: bool
  ip_link_local :: bool

text \<open>
  \<open>pr_kill\<close> tells whether the signal was delivered; \<open>pr_cidr\<close> is \<^verbatim>\<open>net.ParseCIDR\<close>, \<open>pr_dial\<close>
  connects to an address and closes the connection at once.
\<close>

record 'w procs =
  pr_kill :: "int \<Rightarrow> signal \<Rightarrow> 'w \<Rightarrow> bool \<times> 'w"
  pr_linux :: bool
  pr_write :: "string \<Rightarrow> string \<Rightarrow> ('w, unit) ext"
  pr_clock :: "'w \<Rightarrow> int \<times> 'w"
  pr_sleep :: "int \<Rightarrow> 'w \<Rightarrow> 'w"
  pr_ctx :: "'w \<Rightarrow> err option \<times> 'w"
  pr_addrs :: "('w, string list) ext"
  pr_cidr :: "string \<Rightarrow> ip_addr option"
  pr_dial :: "string \<Rightarrow> 'w \<Rightarrow> bool \<times> 'w"

text \<open>A call whose result is ignored.\<close>

definition removed :: "'w host \<Rightarrow> string \<Rightarrow> 'w \<Rightarrow> 'w" where
  "removed H p w = snd (h_remove H p w)"

definition signalled :: "'w procs \<Rightarrow> int \<Rightarrow> signal \<Rightarrow> 'w \<Rightarrow> 'w" where
  "signalled P pid sig w = snd (pr_kill P pid sig w)"

section \<open>Processes\<close>

text \<open>\<^verbatim>\<open>processName\<close>: empty when it cannot be told.\<close>

definition process_name :: "'w host \<Rightarrow> 'w procs \<Rightarrow> int \<Rightarrow> 'w \<Rightarrow> string \<times> 'w" where
  "process_name H P pid w =
     (if pr_linux P then
        (case h_read_file H (''/proc/'' @ show_int pid @ ''/comm'') w of
           (Inr b, w') \<Rightarrow> (b, w') | (Inl _, w') \<Rightarrow> ([], w'))
      else (case h_run H \<lparr>cmd_path = ''ps'', cmd_args = [''-p'', show_int pid, ''-o'', ''comm=''],
                   cmd_env = None, cmd_stdin = None, cmd_user = None\<rparr> w of
           ((r, out), w') \<Rightarrow> (if run_error r = None then out else [], w')))"

definition comm_max_len :: nat where
  "comm_max_len = 15"

text \<open>\<^verbatim>\<open>ProcessIs\<close>, given the name: the name of the program, of which Linux keeps 15 bytes.\<close>

definition comm_matches :: "bool \<Rightarrow> string list \<Rightarrow> string \<Rightarrow> bool \<times> bool" where
  "comm_matches linux names comm =
     (if comm = [] then (False, False)
      else let base = base_name (trim_space comm) in
        (\<exists>n \<in> set names. base = n \<or> (linux \<and> length base = comm_max_len \<and> has_prefix n base), True))"

definition process_is :: "'w host \<Rightarrow> 'w procs \<Rightarrow> int \<Rightarrow> string list \<Rightarrow> 'w \<Rightarrow> (bool \<times> bool) \<times> 'w" where
  "process_is H P pid names w =
     (case process_name H P pid w of (comm, w') \<Rightarrow> (comm_matches (pr_linux P) names comm, w'))"

text \<open>The pid in a pid file: the whole file for mysqld, the first line for postgres.\<close>

definition pid_of :: "string \<Rightarrow> int option" where
  "pid_of s = (case atoi (trim_space s) of
     Some n \<Rightarrow> if n \<le> 0 then None else Some n | None \<Rightarrow> None)"

definition first_line :: "string \<Rightarrow> string" where
  "first_line s = fst (cut_at newline (trim_space s))"

definition read_pid :: "'w host \<Rightarrow> (string \<Rightarrow> string) \<Rightarrow> string \<Rightarrow> 'w \<Rightarrow> int option \<times> 'w" where
  "read_pid H pick file w = (case h_read_file H file w of
     (Inr b, w') \<Rightarrow> (pid_of (pick b), w') | (Inl _, w') \<Rightarrow> (None, w'))"

text \<open>\<^verbatim>\<open>isRunningProcess\<close>: the pid is alive and not known to be another program.\<close>

definition alive_process ::
  "'w host \<Rightarrow> 'w procs \<Rightarrow> string list \<Rightarrow> (string \<Rightarrow> string) \<Rightarrow> string \<Rightarrow> 'w \<Rightarrow> bool \<times> 'w" where
  "alive_process H P names pick file w = (case read_pid H pick file w of
       (None, w1) \<Rightarrow> (False, w1)
     | (Some pid, w1) \<Rightarrow> (case pr_kill P pid SigZero w1 of
           (False, w2) \<Rightarrow> (False, w2)
         | (True, w2) \<Rightarrow> (case process_is H P pid names w2 of
               ((match, known), w3) \<Rightarrow> (\<not> (known \<and> \<not> match), w3))))"

section \<open>Waiting\<close>

text \<open>\<^verbatim>\<open>for time.Now().Before(deadline) { \<dots>; time.Sleep(pause) }\<close>, as in the manager.\<close>

primrec wait_loop ::
  "'w procs \<Rightarrow> int \<Rightarrow> int \<Rightarrow> ('w, 'a option) ext \<Rightarrow> ('w, 'a) ext \<Rightarrow> nat \<Rightarrow> ('w, 'a) ext" where
  "wait_loop P deadline pause body late 0 = throw out_of_fuel"
| "wait_loop P deadline pause body late (Suc n) = (\<lambda>w. case pr_clock P w of (t, w1) \<Rightarrow>
     if \<not> t < deadline then late w1
     else case body w1 of
         (Inl e, w2) \<Rightarrow> (Inl e, w2)
       | (Inr (Some a), w2) \<Rightarrow> (Inr a, w2)
       | (Inr None, w2) \<Rightarrow> wait_loop P deadline pause body late n (pr_sleep P pause w2))"

definition tenth :: int where
  "tenth = 100000000"

definition wait_at_most ::
  "'w procs \<Rightarrow> int \<Rightarrow> ('w, 'a option) ext \<Rightarrow> ('w, 'a) ext \<Rightarrow> ('w, 'a) ext" where
  "wait_at_most P timeout body late w = (case pr_clock P w of (t, w1) \<Rightarrow>
     wait_loop P (t + timeout) tenth body late (rounds t (t + timeout) tenth) w1)"

text \<open>\<^verbatim>\<open>waitGone\<close>, given the check.\<close>

definition gone_body :: "('w \<Rightarrow> bool \<times> 'w) \<Rightarrow> ('w, bool option) ext" where
  "gone_body alive w = (case alive w of (b, w') \<Rightarrow> (Inr (if b then None else Some True), w'))"

definition gone_late :: "('w \<Rightarrow> bool \<times> 'w) \<Rightarrow> ('w, bool) ext" where
  "gone_late alive w = (case alive w of (b, w') \<Rightarrow> (Inr (\<not> b), w'))"

definition wait_gone :: "'w procs \<Rightarrow> ('w \<Rightarrow> bool \<times> 'w) \<Rightarrow> int \<Rightarrow> 'w \<Rightarrow> bool \<times> 'w" where
  "wait_gone P alive timeout w =
     (case wait_at_most P timeout (gone_body alive) (gone_late alive) w of
        (Inr b, w') \<Rightarrow> (b, w') | (Inl _, w') \<Rightarrow> (False, w'))"

text \<open>The body of \<^verbatim>\<open>WaitReady\<close>: the context, then a probe whose success ends the wait.\<close>

definition ready_body :: "'w host \<Rightarrow> 'w procs \<Rightarrow> ('w \<Rightarrow> cmd \<times> 'w) \<Rightarrow> ('w, unit option) ext" where
  "ready_body H P probe w = (case pr_ctx P w of
       (Some e, w1) \<Rightarrow> (Inl e, w1)
     | (None, w1) \<Rightarrow> (case probe w1 of (c, w2) \<Rightarrow> (case h_run H c w2 of ((r, _), w3) \<Rightarrow>
           (Inr (if run_error r = None then Some () else None), w3))))"

section \<open>Running a command with privileges\<close>

definition exec_priv :: "'w host \<Rightarrow> string \<Rightarrow> bool \<Rightarrow> string \<Rightarrow> string list \<Rightarrow> ('w, string) ext" where
  "exec_priv H helper sudo name args w =
     (let c = (if helper \<noteq> [] then bare_cmd ''sudo'' ([''-n'', helper, name] @ args)
               else if sudo then bare_cmd ''sudo'' ([''-n'', name] @ args) else bare_cmd name args)
      in case h_run H c w of ((r, out), w') \<Rightarrow> (case run_error r of
          Some e \<Rightarrow> (Inl (EWrap (name @ '' '' @ join_with '' '' args @ '': '') e ('': '' @ trim_space out)), w')
        | None \<Rightarrow> (Inr (trim_space out), w')))"

section \<open>The engine for MySQL\<close>

record mysql_engine =
  me_env_dir :: string
  me_unit :: string
  me_user :: string
  me_pass :: string
  me_ready_timeout :: int
  me_sudo :: bool
  me_helper :: string
  me_mode :: string
  me_bin :: string
  me_run_user :: string
  me_extra_cnf :: string
  me_buffer_pool :: int
  me_stop_timeout :: int

definition new_mysql_engine :: "mysql_engine \<Rightarrow> mysql_engine" where
  "new_mysql_engine c = c\<lparr>me_unit := or_else (me_unit c) ''mysqld'', me_user := or_else (me_user c) ''dev'',
     me_ready_timeout := (if me_ready_timeout c = 0 then 30 * second else me_ready_timeout c),
     me_mode := or_else (me_mode c) ''systemd'', me_bin := or_else (me_bin c) ''mysqld'',
     me_run_user := or_else (me_run_user c) ''mysql'',
     me_stop_timeout := (if me_stop_timeout c = 0 then 10 * minute else me_stop_timeout c)\<rparr>"

definition mysqld_names :: "mysql_engine \<Rightarrow> string list" where
  "mysqld_names c = [''mysqld'', base_name (me_bin c)]"

definition mysqld_run :: "'w host \<Rightarrow> mysql_engine \<Rightarrow> string \<Rightarrow> string list \<Rightarrow> ('w, string) ext" where
  "mysqld_run H c name args = exec_priv H (me_helper c) (me_sudo c) name args"

definition mysqld_unit :: "mysql_engine \<Rightarrow> string \<Rightarrow> string" where
  "mysqld_unit c branch = me_unit c @ ''@'' @ branch"

definition client_bin :: "'w host \<Rightarrow> mysql_engine \<Rightarrow> string \<Rightarrow> 'w \<Rightarrow> string \<times> 'w" where
  "client_bin H c name w =
     (if CHR ''/'' \<in> set (me_bin c) then
        (let p = in_dir (dir_name (me_bin c)) name in case h_stat H p w of (r, w') \<Rightarrow>
           (if r = FsOk then p else name, w'))
      else (name, w))"

definition mysql_client_env :: "'w host \<Rightarrow> mysql_engine \<Rightarrow> string list" where
  "mysql_client_env H c = h_environ H @ [''MYSQL_PWD='' @ me_pass c]"

definition mysql_env_path :: "mysql_engine \<Rightarrow> string \<Rightarrow> string" where
  "mysql_env_path c branch = in_dir (me_env_dir c) (branch @ ''.env'')"

subsection \<open>Process mode\<close>

definition mysqld_pid_path :: "inst \<Rightarrow> string" where
  "mysqld_pid_path i = in_dir (i_datadir i) ''mysqld.pid''"

definition mysqld_socket :: "inst \<Rightarrow> string" where
  "mysqld_socket i = in_dir ''/tmp'' (''sashiki-'' @ show_int (i_port i) @ ''.sock'')"

definition mysqld_args :: "'w host \<Rightarrow> mysql_engine \<Rightarrow> inst \<Rightarrow> string list" where
  "mysqld_args H c i =
     [if me_extra_cnf c \<noteq> [] then ''--defaults-file='' @ me_extra_cnf c else ''--no-defaults'',
      ''--datadir='' @ i_datadir i, ''--port='' @ show_int (i_port i), ''--socket='' @ mysqld_socket i,
      ''--pid-file='' @ mysqld_pid_path i, ''--log-error='' @ in_dir (i_datadir i) ''error.log'',
      ''--bind-address=127.0.0.1'', ''--mysqlx=OFF'']
     @ (if me_buffer_pool c > 0 then [''--innodb-buffer-pool-size='' @ show_int (me_buffer_pool c)] else [])
     @ (if h_is_root H then [''--user='' @ me_run_user c] else [])
     @ [''--daemonize'']"

definition mysqld_start_process :: "'w host \<Rightarrow> mysql_engine \<Rightarrow> inst \<Rightarrow> ('w, unit) ext" where
  "mysqld_start_process H c i w =
     (let w1 = removed H (mysqld_pid_path i) w;
          w2 = (if me_extra_cnf c \<noteq> [] then removed H (in_dir (i_datadir i) ''mysqld-auto.cnf'') w1 else w1)
      in case mysqld_run H c (me_bin c) (mysqld_args H c i) w2 of
          (Inl e, w3) \<Rightarrow> (Inl (EWrap ''start mysqld (process mode): '' e ''''), w3)
        | (Inr _, w3) \<Rightarrow> (Inr (), w3))"

definition mysqld_alive :: "'w host \<Rightarrow> 'w procs \<Rightarrow> mysql_engine \<Rightarrow> inst \<Rightarrow> 'w \<Rightarrow> bool \<times> 'w" where
  "mysqld_alive H P c i = alive_process H P (mysqld_names c) (\<lambda>s. s) (mysqld_pid_path i)"

definition mysqld_stop_process :: "'w host \<Rightarrow> 'w procs \<Rightarrow> mysql_engine \<Rightarrow> inst \<Rightarrow> ('w, unit) ext" where
  "mysqld_stop_process H P c i w = (case read_pid H (\<lambda>s. s) (mysqld_pid_path i) w of
       (None, w1) \<Rightarrow> (Inr (), w1)
     | (Some pid, w1) \<Rightarrow> (case mysqld_alive H P c i w1 of
           (False, w2) \<Rightarrow> (Inr (), removed H (mysqld_pid_path i) w2)
         | (True, w2) \<Rightarrow> (case wait_gone P (mysqld_alive H P c i) (me_stop_timeout c)
                              (signalled P pid SigTerm w2) of
               (True, w3) \<Rightarrow> (Inr (), removed H (mysqld_pid_path i) w3)
             | (False, w3) \<Rightarrow> (Inl (EText (''stop mysqld@'' @ i_branch i @ '' (pid '' @ show_int pid
                                @ ''): did not shut down'')), w3))))"

definition mysqld_kill_process :: "'w host \<Rightarrow> 'w procs \<Rightarrow> mysql_engine \<Rightarrow> inst \<Rightarrow> ('w, unit) ext" where
  "mysqld_kill_process H P c i w =
     (let w3 = (case read_pid H (\<lambda>s. s) (mysqld_pid_path i) w of
              (None, w1) \<Rightarrow> w1
            | (Some pid, w1) \<Rightarrow> (case mysqld_alive H P c i w1 of
                  (False, w2) \<Rightarrow> w2
                | (True, w2) \<Rightarrow> snd (wait_gone P (mysqld_alive H P c i) (5 * second)
                                  (signalled P pid SigKill w2))));
          sock = mysqld_socket i
      in (Inr (), removed H (sock @ ''.lock'') (removed H sock (removed H (mysqld_pid_path i) w3))))"

subsection \<open>The interface\<close>

definition mysqld_defaults :: "mysql_engine \<Rightarrow> string" where
  "mysqld_defaults c =
     (if me_extra_cnf c \<noteq> [] then ''--defaults-file='' @ me_extra_cnf c @ '' '' else [])
     @ ''--bind-address=127.0.0.1''
     @ (if me_buffer_pool c > 0 then '' --innodb-buffer-pool-size='' @ show_int (me_buffer_pool c) else [])"

definition mysqld_env_text :: "mysql_engine \<Rightarrow> inst \<Rightarrow> string" where
  "mysqld_env_text c i = ''PORT='' @ show_int (i_port i) @ [newline] @ ''DATADIR='' @ i_datadir i @ [newline]
     @ ''MYSQLD_DEFAULTS='' @ mysqld_defaults c @ [newline]"

definition in_process_mode :: "string \<Rightarrow> bool" where
  "in_process_mode mode \<longleftrightarrow> mode = ''process''"

definition mysqld_start :: "'w host \<Rightarrow> 'w procs \<Rightarrow> mysql_engine \<Rightarrow> inst \<Rightarrow> ('w, unit) ext" where
  "mysqld_start H P c i =
     (if in_process_mode (me_mode c) then mysqld_start_process H c i
      else check (wrapping (\<lambda>e. EWrap (''ensure env_dir '' @ me_env_dir c @ '': '') e '''')
                    (h_mkdir_all H (me_env_dir c))) (\<lambda>_.
           check (wrapping (\<lambda>e. EWrap ''write env: '' e '''')
                    (pr_write P (mysql_env_path c (i_branch i)) (mysqld_env_text c i))) (\<lambda>_.
           check (mysqld_run H c ''systemctl'' [''start'', mysqld_unit c (i_branch i)]) (\<lambda>_. ret ()))))"

definition mysqld_stop :: "'w host \<Rightarrow> 'w procs \<Rightarrow> mysql_engine \<Rightarrow> inst \<Rightarrow> ('w, unit) ext" where
  "mysqld_stop H P c i =
     (if in_process_mode (me_mode c) then mysqld_stop_process H P c i
      else check (mysqld_run H c ''systemctl'' [''stop'', mysqld_unit c (i_branch i)]) (\<lambda>_ w.
        (Inr (), removed H (mysql_env_path c (i_branch i)) w)))"

definition mysqld_kill :: "'w host \<Rightarrow> 'w procs \<Rightarrow> mysql_engine \<Rightarrow> inst \<Rightarrow> ('w, unit) ext" where
  "mysqld_kill H P c i =
     (if in_process_mode (me_mode c) then mysqld_kill_process H P c i
      else ignoring (mysqld_run H c ''systemctl'' [''kill'', ''-s'', ''SIGKILL'', mysqld_unit c (i_branch i)])
          (ignoring (mysqld_run H c ''systemctl'' [''stop'', mysqld_unit c (i_branch i)]) (\<lambda>w.
        (Inr (), removed H (mysql_env_path c (i_branch i)) w))))"

definition branch_client :: "'w host \<Rightarrow> mysql_engine \<Rightarrow> inst \<Rightarrow> string \<Rightarrow> string list \<Rightarrow> 'w \<Rightarrow> cmd \<times> 'w" where
  "branch_client H c i tool args w = (case client_bin H c tool w of (bin, w') \<Rightarrow>
     (\<lparr>cmd_path = bin, cmd_args = [''-u'' @ me_user c, ''-h127.0.0.1'', ''-P'' @ show_int (i_port i)] @ args,
       cmd_env = Some (mysql_client_env H c), cmd_stdin = None, cmd_user = None\<rparr>, w'))"

definition mysqld_wait_ready :: "'w host \<Rightarrow> 'w procs \<Rightarrow> mysql_engine \<Rightarrow> inst \<Rightarrow> ('w, unit) ext" where
  "mysqld_wait_ready H P c i = wait_at_most P (me_ready_timeout c)
     (ready_body H P (branch_client H c i ''mysqladmin'' [''ping'']))
     (throw (EText (''timeout: mysqld@'' @ i_branch i @ '' (port '' @ show_int (i_port i)
        @ '') did not become ready'')))"

definition mysqld_is_running :: "'w host \<Rightarrow> 'w procs \<Rightarrow> mysql_engine \<Rightarrow> inst \<Rightarrow> ('w, bool) ext" where
  "mysqld_is_running H P c i w =
     (if in_process_mode (me_mode c) then (case mysqld_alive H P c i w of (b, w') \<Rightarrow> (Inr b, w'))
      else (case mysqld_run H c ''systemctl'' [''is-active'', mysqld_unit c (i_branch i)] w of
          (Inl _, w') \<Rightarrow> (Inr False, w') | (Inr out, w') \<Rightarrow> (Inr (out = ''active''), w')))"

definition status_query :: string where
  "status_query = ''SHOW STATUS LIKE '' @ [CHR 0x27] @ ''Threads_connected'' @ [CHR 0x27]"

text \<open>The last field is the number of threads, which counts the poller's own connection.\<close>

definition threads_connected :: "string \<Rightarrow> err + int" where
  "threads_connected out = (let fs = go_fields out in
     if length fs < 2 then Inl (EText (''unexpected SHOW STATUS output: '' @ trim_space out))
     else case atoi (last fs) of
         None \<Rightarrow> Inl (EText (''parse threads_connected '' @ last fs))
       | Some n \<Rightarrow> Inr (if n > 0 then n - 1 else n))"

definition mysqld_conn_count :: "'w host \<Rightarrow> mysql_engine \<Rightarrow> inst \<Rightarrow> ('w, int) ext" where
  "mysqld_conn_count H c i w =
     (case branch_client H c i ''mysql'' [''-N'', ''-B'', ''-e'', status_query] w of (cm, w1) \<Rightarrow>
      (case h_run H cm w1 of ((r, out), w2) \<Rightarrow> (case run_error r of
          Some e \<Rightarrow> (Inl (EWrap (''mysql show status (port '' @ show_int (i_port i) @ ''): '') e ''''), w2)
        | None \<Rightarrow> (threads_connected out, w2))))"

text \<open>\<^verbatim>\<open>net.JoinHostPort\<close>.\<close>

definition join_host_port :: "string \<Rightarrow> int \<Rightarrow> string" where
  "join_host_port h p = (if CHR '':'' \<in> set h then ''['' @ h @ '']'' else h) @ '':'' @ show_int p"

definition routable_ips :: "'w procs \<Rightarrow> string list \<Rightarrow> ip_addr list" where
  "routable_ips P addrs = filter (\<lambda>a. \<not> ip_loopback a \<and> \<not> ip_unspecified a \<and> \<not> ip_multicast a \<and> \<not> ip_link_local a)
     (concat (map (\<lambda>s. case pr_cidr P s of None \<Rightarrow> [] | Some a \<Rightarrow> [a]) addrs))"

text \<open>The inner loop: the first address of the machine on which a port answers. An error of the
  context ends the whole check.\<close>

fun probe_ips :: "'w procs \<Rightarrow> ip_addr list \<Rightarrow> int \<Rightarrow> ('w, string option) ext" where
  "probe_ips P [] port w = (Inr None, w)"
| "probe_ips P (a # ips) port w = (let addr = join_host_port (ip_text a) port in
     case pr_dial P addr w of
         (True, w1) \<Rightarrow> (Inr (Some addr), w1)
       | (False, w1) \<Rightarrow> (case pr_ctx P w1 of
             (Some e, w2) \<Rightarrow> (Inl e, w2) | (None, w2) \<Rightarrow> probe_ips P ips port w2))"

fun probe_instances :: "'w procs \<Rightarrow> ip_addr list \<Rightarrow> inst list \<Rightarrow> ('w, string list) ext" where
  "probe_instances P ips [] w = (Inr [], w)"
| "probe_instances P ips (i # is) w = (case probe_ips P ips (i_port i) w of
       (Inl e, w1) \<Rightarrow> (Inl e, w1)
     | (Inr found, w1) \<Rightarrow> (case probe_instances P ips is w1 of
           (Inl e, w2) \<Rightarrow> (Inl e, w2)
         | (Inr more', w2) \<Rightarrow> (Inr ((case found of None \<Rightarrow> []
               | Some addr \<Rightarrow> [i_branch i @ '' ('' @ addr @ '')'']) @ more'), w2)))"

definition mysqld_exposed :: "'w procs \<Rightarrow> inst list \<Rightarrow> ('w, string list) ext" where
  "mysqld_exposed P is =
     check (wrapping (\<lambda>e. EWrap ''list interface addresses: '' e '''') (pr_addrs P)) (\<lambda>addrs.
     probe_instances P (routable_ips P addrs) is)"

definition mysql_engine_api :: "'w host \<Rightarrow> 'w procs \<Rightarrow> mysql_engine \<Rightarrow> 'w engine_api" where
  "mysql_engine_api H P c = \<lparr>en_start = mysqld_start H P c, en_stop = mysqld_stop H P c,
     en_kill = mysqld_kill H P c, en_wait_ready = mysqld_wait_ready H P c,
     en_is_running = mysqld_is_running H P c, en_conn_count = Some (mysqld_conn_count H c),
     en_exposed = Some (mysqld_exposed P)\<rparr>"

section \<open>The engine for PostgreSQL\<close>

record pg_engine =
  ge_env_dir :: string
  ge_unit :: string
  ge_bin_dir :: string
  ge_listen :: string
  ge_ready_timeout :: int
  ge_sudo :: bool
  ge_helper :: string
  ge_mode :: string
  ge_run_user :: string
  ge_shared_buffers :: string
  ge_log_dir :: string
  ge_app_user :: string
  ge_app_pass :: string
  ge_stop_timeout :: int

definition new_pg_engine :: "pg_engine \<Rightarrow> pg_engine" where
  "new_pg_engine c = c\<lparr>ge_unit := or_else (ge_unit c) ''postgres-sashiki'',
     ge_bin_dir := or_else (ge_bin_dir c) ''/usr/lib/postgresql/16/bin'',
     ge_listen := or_else (ge_listen c) ''127.0.0.1'',
     ge_ready_timeout := (if ge_ready_timeout c = 0 then 30 * second else ge_ready_timeout c),
     ge_app_user := or_else (ge_app_user c) ''dev'',
     ge_stop_timeout := (if ge_stop_timeout c = 0 then 10 * minute else ge_stop_timeout c)\<rparr>"

definition postgres_run :: "'w host \<Rightarrow> pg_engine \<Rightarrow> string \<Rightarrow> string list \<Rightarrow> ('w, string) ext" where
  "postgres_run H c name args = exec_priv H (ge_helper c) (ge_sudo c) name args"

definition postgres_unit :: "pg_engine \<Rightarrow> string \<Rightarrow> string" where
  "postgres_unit c branch = ge_unit c @ ''@'' @ branch"

definition postgres_env_path :: "pg_engine \<Rightarrow> string \<Rightarrow> string" where
  "postgres_env_path c branch = in_dir (ge_env_dir c) (branch @ ''.env'')"

subsection \<open>Sizes for postgres\<close>

text \<open>\<^verbatim>\<open>pgSize\<close>: the text is cut after its last digit.\<close>

definition pg_unit :: "string \<Rightarrow> string option" where
  "pg_unit u =
     (if u \<in> set ['''', ''b''] then Some ''B''
      else if u \<in> set [''k'', ''kb'', ''kib''] then Some ''kB''
      else if u \<in> set [''m'', ''mb'', ''mib''] then Some ''MB''
      else if u \<in> set [''g'', ''gb'', ''gib''] then Some ''GB''
      else if u \<in> set [''t'', ''tb'', ''tib''] then Some ''TB''
      else None)"

definition pg_size :: "string \<Rightarrow> string" where
  "pg_size s = (let t = trim_space s in
     if t = [] then []
     else let num = rev (dropWhile (\<lambda>c. \<not> is_digit c) (rev t));
              u = rev (takeWhile (\<lambda>c. \<not> is_digit c) (rev t))
       in if num = [] then t
          else case pg_unit (to_lower (trim_space u)) of None \<Rightarrow> t | Some p \<Rightarrow> num @ p)"

subsection \<open>Process mode\<close>

definition postgres_pid_path :: "inst \<Rightarrow> string" where
  "postgres_pid_path i = in_dir (i_datadir i) ''postmaster.pid''"

definition postgres_log_path :: "'w host \<Rightarrow> pg_engine \<Rightarrow> inst \<Rightarrow> string" where
  "postgres_log_path H c i = in_dir (or_else (ge_log_dir c) (h_tmp_dir H)) (''postgres-'' @ i_branch i @ ''.log'')"

definition postgres_options :: "'w host \<Rightarrow> pg_engine \<Rightarrow> inst \<Rightarrow> string" where
  "postgres_options H c i = join_with '' ''
     ([''-p '' @ show_int (i_port i), ''-c listen_addresses='' @ ge_listen c,
       ''-c unix_socket_directories='' @ h_tmp_dir H]
      @ (let b = pg_size (ge_shared_buffers c) in if b \<noteq> [] then [''-c shared_buffers='' @ b] else []))"

text \<open>\<^verbatim>\<open>runProcess\<close>: as root, \<^verbatim>\<open>pg_ctl\<close> runs as the run user.\<close>

definition run_pg_ctl :: "'w host \<Rightarrow> pg_engine \<Rightarrow> string list \<Rightarrow> ('w, unit) ext" where
  "run_pg_ctl H c args w =
     (let ctl = in_dir (ge_bin_dir c) ''pg_ctl'';
          finish = (\<lambda>cm. case h_run H cm w of ((r, _), w') \<Rightarrow>
            (case run_error r of Some e \<Rightarrow> Inl e | None \<Rightarrow> Inr (), w'))
      in if h_is_root H then
           (let u = or_else (ge_run_user c) ''postgres'' in
            case h_lookup_user H u of
              None \<Rightarrow> (Inl (EText (''run_user '' @ u @ '' not found'')), w)
            | Some ids \<Rightarrow> finish \<lparr>cmd_path = ctl, cmd_args = args,
                cmd_env = Some (h_environ H @ [''HOME='' @ h_tmp_dir H]), cmd_stdin = None, cmd_user = Some ids\<rparr>)
         else finish (bare_cmd ctl args))"

definition seconds_of :: "int \<Rightarrow> string" where
  "seconds_of d = show_int (d div second)"

text \<open>\<^verbatim>\<open>tailFile\<close>: the last lines of a file.\<close>

definition tail_lines :: "nat \<Rightarrow> string \<Rightarrow> string" where
  "tail_lines n b =
     (let ls = split_on newline (rev (dropWhile (\<lambda>c. c = newline) (rev b)))
      in join_with [newline] (drop (length ls - n) ls))"

definition log_tail :: "'w host \<Rightarrow> string \<Rightarrow> nat \<Rightarrow> 'w \<Rightarrow> string \<times> 'w" where
  "log_tail H path n w = (case h_read_file H path w of
     (Inl e, w') \<Rightarrow> (''(cannot read the log: '' @ err_text e @ '')'', w')
   | (Inr b, w') \<Rightarrow> (tail_lines n b, w'))"

definition postgres_start_process :: "'w host \<Rightarrow> pg_engine \<Rightarrow> inst \<Rightarrow> ('w, unit) ext" where
  "postgres_start_process H c i =
     (let log = postgres_log_path H c i in
      check (wrapping (\<lambda>e. EWrap ''ensure log dir: '' e '''') (h_mkdir_all H (dir_name log))) (\<lambda>_ w.
      case run_pg_ctl H c [''start'', ''-D'', i_datadir i, ''-o'', postgres_options H c i, ''-l'', log,
             ''-w'', ''-t'', seconds_of (ge_ready_timeout c)] w of
        (Inr _, w1) \<Rightarrow> (Inr (), w1)
      | (Inl e, w1) \<Rightarrow> (case log_tail H log 20 w1 of (t, w2) \<Rightarrow>
          (Inl (EWrap ''pg_ctl start: '' e ([newline] @ ''--- '' @ log @ '' ---'' @ [newline] @ t)), w2))))"

definition postgres_alive :: "'w host \<Rightarrow> 'w procs \<Rightarrow> inst \<Rightarrow> 'w \<Rightarrow> bool \<times> 'w" where
  "postgres_alive H P i = alive_process H P [''postgres'', ''postmaster''] first_line (postgres_pid_path i)"

definition postgres_stop_process :: "'w host \<Rightarrow> 'w procs \<Rightarrow> pg_engine \<Rightarrow> inst \<Rightarrow> ('w, unit) ext" where
  "postgres_stop_process H P c i w = (case postgres_alive H P i w of
       (False, w1) \<Rightarrow> (Inr (), w1)
     | (True, w1) \<Rightarrow> run_pg_ctl H c [''stop'', ''-D'', i_datadir i, ''-m'', ''fast'', ''-w'', ''-t'',
           seconds_of (ge_stop_timeout c)] w1)"

definition postgres_kill_process :: "'w host \<Rightarrow> 'w procs \<Rightarrow> pg_engine \<Rightarrow> inst \<Rightarrow> ('w, unit) ext" where
  "postgres_kill_process H P c i w = (case postgres_alive H P i w of
       (False, w1) \<Rightarrow> (Inr (), w1)
     | (True, w1) \<Rightarrow>
         (case run_pg_ctl H c [''stop'', ''-D'', i_datadir i, ''-m'', ''immediate'', ''-w'', ''-t'', ''10''] w1 of
            (_, w2) \<Rightarrow> (case wait_gone P (postgres_alive H P i) (10 * second) w2 of
                (True, w3) \<Rightarrow> (Inr (), w3)
              | (False, w3) \<Rightarrow> (case read_pid H first_line (postgres_pid_path i) w3 of
                    (None, w4) \<Rightarrow> (Inr (), w4)
                  | (Some pid, w4) \<Rightarrow> (case postgres_alive H P i w4 of
                        (False, w5) \<Rightarrow> (Inr (), w5)
                      | (True, w5) \<Rightarrow> (Inr (), snd (wait_gone P (postgres_alive H P i) (5 * second)
                                            (signalled P pid SigKill w5))))))))"

subsection \<open>The interface\<close>

definition postgres_env_text :: "pg_engine \<Rightarrow> inst \<Rightarrow> string" where
  "postgres_env_text c i = ''PORT='' @ show_int (i_port i) @ [newline] @ ''DATADIR='' @ i_datadir i @ [newline]
     @ ''PGBIN='' @ ge_bin_dir c @ [newline] @ ''LISTEN_ADDRESSES='' @ ge_listen c @ [newline]
     @ ''SHARED_BUFFERS='' @ pg_size (ge_shared_buffers c) @ [newline]"

definition postgres_start :: "'w host \<Rightarrow> 'w procs \<Rightarrow> pg_engine \<Rightarrow> inst \<Rightarrow> ('w, unit) ext" where
  "postgres_start H P c i =
     (if in_process_mode (ge_mode c) then postgres_start_process H c i
      else check (wrapping (\<lambda>e. EWrap (''ensure env_dir '' @ ge_env_dir c @ '': '') e '''')
                    (h_mkdir_all H (ge_env_dir c))) (\<lambda>_.
           check (wrapping (\<lambda>e. EWrap ''write env: '' e '''')
                    (pr_write P (postgres_env_path c (i_branch i)) (postgres_env_text c i))) (\<lambda>_.
           check (postgres_run H c ''systemctl'' [''start'', postgres_unit c (i_branch i)]) (\<lambda>_. ret ()))))"

definition postgres_stop :: "'w host \<Rightarrow> 'w procs \<Rightarrow> pg_engine \<Rightarrow> inst \<Rightarrow> ('w, unit) ext" where
  "postgres_stop H P c i =
     (if in_process_mode (ge_mode c) then postgres_stop_process H P c i
      else check (postgres_run H c ''systemctl'' [''stop'', postgres_unit c (i_branch i)]) (\<lambda>_ w.
        (Inr (), removed H (postgres_env_path c (i_branch i)) w)))"

definition postgres_kill :: "'w host \<Rightarrow> 'w procs \<Rightarrow> pg_engine \<Rightarrow> inst \<Rightarrow> ('w, unit) ext" where
  "postgres_kill H P c i =
     (if in_process_mode (ge_mode c) then postgres_kill_process H P c i
      else ignoring (postgres_run H c ''systemctl'' [''kill'', ''-s'', ''SIGKILL'', postgres_unit c (i_branch i)])
          (ignoring (postgres_run H c ''systemctl'' [''stop'', postgres_unit c (i_branch i)]) (\<lambda>w.
        (Inr (), removed H (postgres_env_path c (i_branch i)) w))))"

definition postgres_wait_ready :: "'w host \<Rightarrow> 'w procs \<Rightarrow> pg_engine \<Rightarrow> inst \<Rightarrow> ('w, unit) ext" where
  "postgres_wait_ready H P c i = wait_at_most P (ge_ready_timeout c)
     (ready_body H P (\<lambda>w. (bare_cmd (in_dir (ge_bin_dir c) ''pg_isready'')
        [''-h'', ''127.0.0.1'', ''-p'', show_int (i_port i)], w)))
     (throw (EText (''timeout: postgres@'' @ i_branch i @ '' (port '' @ show_int (i_port i)
        @ '') did not become ready'')))"

definition postgres_is_running :: "'w host \<Rightarrow> 'w procs \<Rightarrow> pg_engine \<Rightarrow> inst \<Rightarrow> ('w, bool) ext" where
  "postgres_is_running H P c i w =
     (if in_process_mode (ge_mode c) then (case postgres_alive H P i w of (b, w') \<Rightarrow> (Inr b, w'))
      else (case postgres_run H c ''systemctl'' [''is-active'', postgres_unit c (i_branch i)] w of
          (Inl _, w') \<Rightarrow> (Inr False, w') | (Inr out, w') \<Rightarrow> (Inr (out = ''active''), w')))"

definition backends_query :: string where
  "backends_query = ''SELECT count(*) FROM pg_stat_activity WHERE backend_type = '' @ [CHR 0x27]
     @ ''client backend'' @ [CHR 0x27] @ '' AND pid <> pg_backend_pid()''"

definition conn_count_args :: "pg_engine \<Rightarrow> inst \<Rightarrow> string list" where
  "conn_count_args c i = [in_dir (ge_bin_dir c) ''psql'', ''-h'', ''127.0.0.1'', ''-p'', show_int (i_port i),
     ''-U'', ge_app_user c, ''-d'', ''postgres'', ''-w'', ''-tAc'', backends_query]"

definition postgres_conn_count :: "'w host \<Rightarrow> pg_engine \<Rightarrow> inst \<Rightarrow> ('w, int) ext" where
  "postgres_conn_count H c i w =
     (let as = conn_count_args c i in
      case h_run H \<lparr>cmd_path = hd as, cmd_args = tl as,
           cmd_env = Some (h_environ H @ [''PGPASSWORD='' @ ge_app_pass c]), cmd_stdin = None, cmd_user = None\<rparr> w of
        ((r, out), w') \<Rightarrow> (case run_error r of
          Some e \<Rightarrow> (Inl (EWrap (''psql pg_stat_activity (port '' @ show_int (i_port i) @ ''): '') e ''''), w')
        | None \<Rightarrow> (case atoi (trim_space out) of
             None \<Rightarrow> (Inl (EText (''parse count '' @ trim_space out)), w') | Some n \<Rightarrow> (Inr n, w'))))"

definition postgres_engine_api :: "'w host \<Rightarrow> 'w procs \<Rightarrow> pg_engine \<Rightarrow> 'w engine_api" where
  "postgres_engine_api H P c = \<lparr>en_start = postgres_start H P c, en_stop = postgres_stop H P c,
     en_kill = postgres_kill H P c, en_wait_ready = postgres_wait_ready H P c,
     en_is_running = postgres_is_running H P c, en_conn_count = Some (postgres_conn_count H c),
     en_exposed = None\<rparr>"

section \<open>The waiting loops\<close>

definition clock_ticks :: "'w procs \<Rightarrow> ('w \<Rightarrow> int) \<Rightarrow> bool" where
  "clock_ticks P T \<longleftrightarrow> (\<forall>w. fst (pr_clock P w) = T w \<and> T w \<le> T (snd (pr_clock P w)))
     \<and> (\<forall>d w. T w + d \<le> T (pr_sleep P d w))"

lemma wait_loop_fuel:
  assumes tick: "clock_ticks P T" and body: "\<And>w. T w \<le> T (snd (body w))"
    and n: "rounds (T w) dl tenth \<le> n" and k: "rounds (T w) dl tenth \<le> k"
  shows "wait_loop P dl tenth body late n w = wait_loop P dl tenth body late k w"
  using n k
proof (induction n arbitrary: k w)
  case 0
  then show ?case by (simp add: rounds_def)
next
  case (Suc n)
  obtain k' where k: "k = Suc k'" using Suc.prems by (cases k) (simp_all add: rounds_def)
  obtain t w1 where c: "pr_clock P w = (t, w1)" by force
  obtain r w2 where b: "body w1 = (r, w2)" by force
  have t: "t = T w" "T w \<le> T w1" using tick c unfolding clock_ticks_def by (metis fst_conv snd_conv)+
  moreover have "T w1 \<le> T w2" using body [of w1] b by simp
  ultimately have "T w + tenth \<le> T w2 + tenth" by simp
  also have "\<dots> \<le> T (pr_sleep P tenth w2)" using tick by (simp add: clock_ticks_def)
  finally have later: "T w + tenth \<le> T (pr_sleep P tenth w2)" .
  have "wait_loop P dl tenth body late n (pr_sleep P tenth w2) = wait_loop P dl tenth body late k' (pr_sleep P tenth w2)"
    if "t < dl"
    using rounds_later [OF _ later, of dl] that t Suc.prems k
    by (intro Suc.IH) (auto simp: tenth_def)
  then show ?case by (simp add: c b k split: sum.split option.split)
qed

lemma gone_loop:
  "wait_loop P dl pause (gone_body alive) (gone_late alive) n w = (Inr True, w')
    \<Longrightarrow> \<exists>w0. alive w0 = (False, w')"
proof (induction n arbitrary: w)
  case (Suc n)
  show ?case
  proof (cases "fst (pr_clock P w) < dl \<and> fst (alive (snd (pr_clock P w)))")
    case True
    then show ?thesis
      using Suc by (auto simp: gone_body_def split: prod.splits sum.splits option.splits if_splits)
  next
    case False
    then have "alive (snd (pr_clock P w)) = (False, w')"
      using Suc.prems by (auto simp: gone_body_def gone_late_def split: prod.splits if_splits)
    then show ?thesis ..
  qed
qed (simp add: throw_def)

lemma wait_gone_observed: "wait_gone P alive timeout w = (True, w') \<Longrightarrow> \<exists>w0. alive w0 = (False, w')"
  using gone_loop by (fastforce simp: wait_gone_def wait_at_most_def split: prod.splits sum.splits)

text \<open>C21. The waits of both engines end: with a clock that never goes back and counts the time
  slept, the rounds that a timeout allows at one probe per 100 ms are enough, and more of them
  would not change the result, whatever the probes answer.\<close>

theorem waits_end:
  assumes "clock_ticks P T" "\<And>w. T w \<le> T (snd (body w))"
    and "rounds (T w) (T w + timeout) tenth \<le> n"
  shows "wait_at_most P timeout body late w
     = wait_loop P (T w + timeout) tenth body late n (snd (pr_clock P w))"
proof -
  obtain t w1 where c: "pr_clock P w = (t, w1)" by force
  have t: "t = T w" "T w \<le> T w1"
    using assms(1) c unfolding clock_ticks_def by (metis fst_conv snd_conv)+
  have mono: "rounds (T w1) (T w + timeout) tenth \<le> rounds (T w) (T w + timeout) tenth"
    using t by (auto simp: rounds_def tenth_def intro!: nat_mono zdiv_mono1)
  show ?thesis
    using wait_loop_fuel [OF assms(1,2), where w = w1 and dl = "T w + timeout" and n = "rounds (T w) (T w + timeout) tenth" and k = n]
      mono assms(3) by (simp add: wait_at_most_def c t)
qed

definition idle_procs :: "int procs" where
  "idle_procs = \<lparr>pr_kill = (\<lambda>p s w. (False, w)), pr_linux = True, pr_write = (\<lambda>p t. succeed ()),
     pr_clock = (\<lambda>w. (w, w)), pr_sleep = (\<lambda>d w. w + \<bar>d\<bar>), pr_ctx = (\<lambda>w. (None, w)),
     pr_addrs = succeed [], pr_cidr = (\<lambda>s. None), pr_dial = (\<lambda>a w. (False, w))\<rparr>"

theorem waits_end_witness:
  "wait_at_most idle_procs second (gone_body (\<lambda>w. (True, w))) (gone_late (\<lambda>w. (True, w))) 5
     = wait_loop idle_procs (5 + second) tenth (gone_body (\<lambda>w. (True, w))) (gone_late (\<lambda>w. (True, w))) 12 5"
proof -
  have "wait_at_most idle_procs second (gone_body (\<lambda>w. (True, w))) (gone_late (\<lambda>w. (True, w))) 5
     = wait_loop idle_procs (5 + second) tenth (gone_body (\<lambda>w. (True, w))) (gone_late (\<lambda>w. (True, w))) 12
         (snd (pr_clock idle_procs 5))"
    by (rule waits_end [where T = "\<lambda>w. w"])
      (simp_all add: clock_ticks_def idle_procs_def gone_body_def rounds_def tenth_def second_def abs_ge_self)
  then show ?thesis by (simp add: idle_procs_def)
qed

text \<open>C20. When \<^verbatim>\<open>Stop\<close> of the MySQL engine in process mode reports success and the pid file
  held a pid, the last thing that it observed before it removed the pid file is that the recorded server is
  gone: the file has no pid any more, or signal 0 could not be sent to it (for whatever reason, the model
  does not tell ESRCH from EPERM), or it is known to be another program. A pid that is ours at the first
  look is sent SIGTERM before the wait, and one that is still there when the timeout ends is an error. Where the file
  cannot be read or holds no pid at the start, \<^verbatim>\<open>Stop\<close> reports success at once, without looking for a process and without
  touching anything.\<close>

theorem stop_success_is_observed:
  assumes "mysqld_stop_process H P c i w = (Inr (), w')"
  shows "case read_pid H (\<lambda>s. s) (mysqld_pid_path i) w of
      (None, w1) \<Rightarrow> w' = w1
    | (Some pid, w1) \<Rightarrow> (\<exists>w0 w2. mysqld_alive H P c i w0 = (False, w2) \<and> w' = removed H (mysqld_pid_path i) w2
        \<and> (w0 = w1 \<or> fst (mysqld_alive H P c i w1)
             \<and> wait_gone P (mysqld_alive H P c i) (me_stop_timeout c)
                 (signalled P pid SigTerm (snd (mysqld_alive H P c i w1))) = (True, w2)))"
proof (cases "read_pid H (\<lambda>s. s) (mysqld_pid_path i) w")
  case (Pair r w1)
  note seen = wait_gone_observed [of P "mysqld_alive H P c i" "me_stop_timeout c"]
  show ?thesis
  proof (cases r)
    case None
    then show ?thesis using assms Pair by (simp add: mysqld_stop_process_def)
  next
    case (Some pid)
    obtain b w2 where a: "mysqld_alive H P c i w1 = (b, w2)" by force
    show ?thesis
    proof (cases b)
      case False
      then show ?thesis using assms Pair Some a by (auto simp: mysqld_stop_process_def)
    next
      case True
      then obtain w3 where "wait_gone P (mysqld_alive H P c i) (me_stop_timeout c) (signalled P pid SigTerm w2) = (True, w3)"
        "w' = removed H (mysqld_pid_path i) w3"
        using assms Pair Some a by (auto simp: mysqld_stop_process_def split: prod.splits bool.splits)
      then show ?thesis using seen Pair Some a True by force
    qed
  qed
qed

definition sample_mysql_engine :: mysql_engine where
  "sample_mysql_engine = new_mysql_engine \<lparr>me_env_dir = [], me_unit = [], me_user = [], me_pass = [],
     me_ready_timeout = 0, me_sudo = False, me_helper = [], me_mode = ''process'', me_bin = [],
     me_run_user = [], me_extra_cnf = [], me_buffer_pool = 0, me_stop_timeout = 0\<rparr>"

definition sample_inst :: inst where
  "sample_inst = \<lparr>i_branch = ''pr-1'', i_datadir = ''/data'', i_port = 3401\<rparr>"

theorem stop_success_is_observed_witness:
  "\<exists>w0 w1. mysqld_alive (sample_host\<lparr>h_read_file := (\<lambda>p. succeed ''42'')\<rparr>) idle_procs sample_mysql_engine sample_inst w0
       = (False, w1)
     \<and> 7 = removed (sample_host\<lparr>h_read_file := (\<lambda>p. succeed ''42'')\<rparr>) (mysqld_pid_path sample_inst) w1"
proof -
  let ?H = "sample_host\<lparr>h_read_file := (\<lambda>p. succeed ''42'')\<rparr>"
  have pid: "pid_of ''42'' = Some 42"
    by (simp add: pid_of_def trim_clean plain_char_def is_space_def atoi_def is_digit_def digit_val_def)
  have run: "mysqld_stop_process ?H idle_procs sample_mysql_engine sample_inst 7 = (Inr (), 7)"
    by (simp add: mysqld_stop_process_def read_pid_def succeed_def pid mysqld_alive_def alive_process_def
        idle_procs_def removed_def sample_host_def)
  have "read_pid ?H (\<lambda>s. s) (mysqld_pid_path sample_inst) 7 = (Some 42, 7)"
    by (simp add: read_pid_def succeed_def pid)
  then show ?thesis
    using stop_success_is_observed [OF run] by (simp only: prod.case option.case) blast
qed

lemma split_on_at: "split_on c (p @ c # m) = split_on c p @ split_on c m"
  by (induction p) (auto split: list.splits)

lemma last_split_on: "last (split_on c (p @ c # m)) = last (split_on c m)"
  by (simp add: split_on_at)

text \<open>The server of a branch is recognised by its process: what Linux (the first 15 bytes of
  the program's name and a line break) or ps (the path of the program and a line break) report for
  a program with one of the names that the engine looks for is matched, however long the name is, so that a
  running server is never taken for a stale pid file.\<close>

theorem server_is_recognised:
  assumes "n \<in> set names" "n \<noteq> []" "\<forall>c \<in> set n. plain_char c \<and> c \<noteq> CHR ''/''"
    and "comm = (if linux then take comm_max_len n else dir @ ''/'' @ n) @ [newline]"
    and "dir = [] \<or> plain_char (hd dir)"
  shows "comm_matches linux names comm = (True, True)"
proof -
  have nl: "blank [newline]" by (rule blank_one) (simp add: space_char_def is_space_def newline_def)
  have trim: "trim_space (s @ [newline]) = s" if "s \<noteq> []" "plain_char (hd s)" "plain_char (last s)" for s
    using that trim_around [of "[]" "[newline]" s] nl plain_space_width(1) [of "s @ [newline]"]
      plain_space_width(2) [of "rev s"] by (simp add: hd_rev)
  have base: "base_name (pre @ m) = m"
    if m: "m \<noteq> []" "CHR ''/'' \<notin> set m" and pre: "pre = [] \<or> last pre = CHR ''/''" for pre m
  proof -
    have "drop_slashes (pre @ m) = pre @ m"
      using m by (cases m rule: rev_cases) (auto simp: drop_slashes_def)
    moreover have "last (split_on (CHR ''/'') (pre @ m)) = m"
    proof (cases "pre = []")
      case False
      then obtain p where "pre = p @ [CHR ''/'']"
        using pre append_butlast_last_id [of pre] by metis
      then show ?thesis using m by (simp add: last_split_on split_on_no_sep)
    qed (simp add: split_on_no_sep m)
    ultimately show ?thesis using m by (simp add: base_name_def)
  qed
  have clean: "plain_char (hd m)" "plain_char (last m)" "CHR ''/'' \<notin> set m"
    if "set m \<subseteq> set n" "m \<noteq> []" for m
  proof -
    have "hd m \<in> set n" "last m \<in> set n"
      using that hd_in_set [of m] last_in_set [of m] by blast+
    then show "plain_char (hd m)" "plain_char (last m)" using assms(3) by blast+
    show "CHR ''/'' \<notin> set m" using that(1) assms(3) by blast
  qed
  show ?thesis
  proof (cases linux)
    case True
    define m where "m = take comm_max_len n"
    have m: "m \<noteq> []" "set m \<subseteq> set n" "comm = m @ [newline]"
      using assms(2,4) True set_take_subset [of comm_max_len n] by (auto simp: m_def comm_max_len_def)
    have "base_name (trim_space comm) = m"
      using trim [of m] base [of m "[]"] clean [OF m(2,1)] m by simp
    moreover have "m = n \<or> length m = comm_max_len \<and> has_prefix n m"
      by (auto simp: m_def has_prefix_def min_def)
    ultimately show ?thesis
      using assms(1) True m by (auto simp: comm_matches_def Let_def)
  next
    case False
    let ?s = "dir @ ''/'' @ n"
    have "comm = ?s @ [newline]" using assms(4) False by simp
    moreover have "plain_char (hd ?s)" "plain_char (last ?s)"
      using assms(2,5) clean [of n] by (auto simp: plain_char_def is_space_def hd_append)
    ultimately have "trim_space comm = ?s" using trim [of ?s] by simp
    then have "base_name (trim_space comm) = n"
      using base [of n "dir @ ''/''"] clean [of n] assms(2) by simp
    then show ?thesis
      using assms(1) \<open>comm = ?s @ [newline]\<close> by (auto simp: comm_matches_def Let_def)
  qed
qed

theorem server_is_recognised_witness:
  "comm_matches True [''mysqld-wrapper-8.0''] (''mysqld-wrapper-'' @ [newline]) = (True, True)"
  by (rule server_is_recognised [of "''mysqld-wrapper-8.0''"]) (auto simp: comm_max_len_def plain_char_def is_space_def)

section \<open>Sizes that reach PostgreSQL\<close>

text \<open>How PostgreSQL reads a parameter of memory size, for a number without a leading zero (it
  takes one with a leading zero as octal): a decimal number and a unit, whose case matters.\<close>

definition pg_factor :: "string \<Rightarrow> int option" where
  "pg_factor u = map_of [(''B'', 1), (''kB'', 2 ^ 10), (''MB'', 2 ^ 20), (''GB'', 2 ^ 30), (''TB'', 2 ^ 40)] u"

definition pg_reads :: "string \<Rightarrow> int option" where
  "pg_reads s = (let ds = takeWhile is_digit s in
     if ds = [] then None
     else map_option (\<lambda>k. int (read_digits 0 ds) * k) (pg_factor (dropWhile is_digit s)))"

lemma blank_no_digit: "blank a \<Longrightarrow> c \<in> set a \<Longrightarrow> \<not> is_digit c"
proof -
  have one: "\<not> is_digit c" if "space_char u" "c \<in> set u" for u
  proof (cases "wide_space u")
    case True
    then show ?thesis using that(2) unfolding wide_space_def list.set insert_iff empty_iff
      by (elim disjE) (auto simp: is_digit_def)
  next
    case False
    then show ?thesis using that by (cases u) (auto simp: space_char_def is_space_def is_digit_def)
  qed
  assume "blank a" "c \<in> set a"
  then obtain us u where "list_all space_char us" "u \<in> set us" "c \<in> set u" by (auto simp: blank_def)
  then show "\<not> is_digit c" using one [of u] by (simp add: list_all_iff)
qed

lemma trim_keeps_digits: "c \<in> set u \<Longrightarrow> is_digit c \<Longrightarrow> c \<in> set (trim_space u)"
  using trim_split [of u] blank_no_digit by (metis Un_iff set_append)

lemma lower_digit: "is_digit c \<Longrightarrow> lower_char c = c"
  by (simp add: lower_char_def is_digit_def Let_def)

lemma lower_keeps_digits: "c \<in> set u \<Longrightarrow> is_digit c \<Longrightarrow> c \<in> set (to_lower u)"
proof (induction u rule: to_lower.induct)
  case (1 u)
  have sp: "c \<in> set (take n u) \<or> c \<in> set (drop n u)" for n
    using 1(4) by (metis Un_iff append_take_drop_id set_append)
  have ne: "u \<noteq> []" using 1(4) by auto
  have ht: "c = hd u \<or> c \<in> set (tl u)" using 1(4) ne by (cases u) auto
  show ?case
    using 1 ne sp [of 3] sp [of 2] ht lower_digit [of c] by (subst to_lower.simps) (auto simp: is_digit_def)
qed

lemma size_unit_cases: "size_unit u = Some k \<Longrightarrow> \<exists>p. pg_unit u = Some p \<and> pg_factor p = Some k
    \<and> p \<noteq> [] \<and> \<not> is_digit (hd p) \<and> (\<forall>c \<in> set u. \<not> is_digit c)"
proof -
  assume k: "size_unit u = Some k"
  then have "u \<in> set [[], ''b'', ''k'', ''kb'', ''kib'', ''m'', ''mb'', ''mib'', ''g'', ''gb'', ''gib'', ''t'', ''tb'', ''tib'']"
    by (auto simp: size_unit_def split: if_splits)
  then show ?thesis
    using k by (simp only: list.set insert_iff empty_iff)
      (elim disjE; simp add: size_unit_def pg_unit_def pg_factor_def is_digit_def)
qed

text \<open>The size that the postgres engine passes as \<^verbatim>\<open>shared_buffers\<close> is the one that the
  admission of branches counts with: for every size that the configuration accepts (written
  without a leading zero), PostgreSQL reads what \<^verbatim>\<open>pgSize\<close> makes of it as exactly the number of bytes
  that \<^verbatim>\<open>ParseSize\<close> gives.\<close>

theorem pg_size_agrees:
  assumes "parse_size s = Inr v" "trim_space s \<noteq> []" "hd (trim_space s) \<noteq> CHR ''0''"
  shows "pg_reads (pg_size s) = Some v"
proof -
  obtain ds u k where t: "trim_space s = ds @ u" "ds \<noteq> []" "list_all is_digit ds"
    and k: "size_unit (to_lower (trim_space u)) = Some k" and v: "v = int (read_digits 0 ds) * k"
    using assms(1,2) not_prefix_takeWhile [of is_digit "trim_space s"] list_all_takeWhile [of is_digit "trim_space s"]
    unfolding parse_size_means size_means_alt Let_def by metis
  obtain p where p: "pg_unit (to_lower (trim_space u)) = Some p" "pg_factor p = Some k"
    "p \<noteq> []" "\<not> is_digit (hd p)" and nd: "\<forall>c \<in> set (to_lower (trim_space u)). \<not> is_digit c"
    using size_unit_cases [OF k] by auto
  have u: "\<not> is_digit c" if "c \<in> set u" for c
    using nd that trim_keeps_digits lower_keeps_digits by blast
  obtain ds0 d where ds: "ds = ds0 @ [d]" using t(2) by (cases ds rule: rev_cases) auto
  then have d: "is_digit d" using t(3) by simp
  have "takeWhile (\<lambda>c. \<not> is_digit c) (rev u @ d # rev ds0) = rev u"
    "dropWhile (\<lambda>c. \<not> is_digit c) (rev u @ d # rev ds0) = d # rev ds0"
    using u d by (subst takeWhile_append2 dropWhile_append2; simp)+
  then have "pg_size s = ds @ p" using t(1) p(1) by (simp add: pg_size_def Let_def ds)
  moreover have "takeWhile is_digit (ds @ p) = ds \<and> dropWhile is_digit (ds @ p) = p"
    by (rule takeWhile_eq) (use t p in auto)
  ultimately show ?thesis using t p v by (simp add: pg_reads_def Let_def)
qed

theorem pg_size_agrees_witness: "pg_reads (pg_size ''128M'') = Some (2 ^ 27)"
  by (rule pg_size_agrees) (simp_all add: parse_size_examples trim_clean plain_char_def is_space_def)

section \<open>The engines and the root helper\<close>

text \<open>What the engines ask systemctl for is what the helper lets through, for a branch name and a
  unit template that it knows.\<close>

lemma systemctl_accepted:
  assumes "name_ok branch" "unit \<in> set (hc_units hc)" "CHR ''@'' \<notin> set unit"
    "CHR 0x00 \<notin> set (unit @ branch)" "CHR 0x0A \<notin> set (unit @ branch)"
    and "args \<in> {[''start'', unit @ ''@'' @ branch], [''stop'', unit @ ''@'' @ branch],
      [''is-active'', unit @ ''@'' @ branch], [''kill'', ''-s'', ''SIGKILL'', unit @ ''@'' @ branch]}"
  shows "validate_args hc (''systemctl'' # args) = Inr ()"
proof -
  have "is_unit hc (unit @ ''@'' @ branch)" using assms(1-3) by (simp add: is_unit_def)
  then show ?thesis using assms(4-6) by (auto simp: validate_args_def validate_systemctl_def)
qed

text \<open>In process mode \<^verbatim>\<open>startProcess\<close> runs mysqld through the same runner: with a root helper
  configured, the command is one that the helper refuses.\<close>

lemma process_mode_refused_by_helper:
  assumes "me_bin c \<notin> {''zfs'', ''zpool'', ''systemctl'', ''rm-base-auto-cnf''}"
  shows "\<exists>e. validate_args hc (me_bin c # mysqld_args H c i) = Inl e"
  using assms by (auto simp: validate_args_def deny_def)

text \<open>A leading zero: \<^verbatim>\<open>ParseSize\<close> reads a decimal number, PostgreSQL an octal one.\<close>

lemma leading_zero_kept: "parse_size ''0256M'' = Inr (2 ^ 28) \<and> pg_size ''0256M'' = ''0256MB''"
proof -
  have "char_of (109 :: nat) = CHR ''m''" by (simp add: char_of_eq_iff)
  then have "to_lower ''M'' = ''m''" by (simp add: to_lower_step lower_char_def Let_def)
  moreover have "trim_space ''0256M'' = ''0256M''" "trim_space ''M'' = ''M''"
    by (simp_all add: trim_clean plain_char_def is_space_def)
  ultimately show ?thesis
    by (simp add: parse_size_means size_means_alt pg_size_def pg_unit_def
        is_digit_def digit_val_def size_unit_def Let_def)
qed

end
