(* ===== verification/Daemon.thy ===== *)
theory Daemon
  imports ApiFacts Recovery Fsx EbsZfs LocalStore Engines
begin

text \<open>
  cmd/sashikid: the daemon. It loads the configuration, resolves the secrets, builds the storage
  backend, the engine, the hook runner, the manager, the server of the API and the proxy from it, and
  repairs what an earlier run left behind before it serves. A \<^verbatim>\<open>log.Fatalf\<close> is an error here, and
  log lines are left out. The last sections say that the parts agree with each other and with the
  file, and that the state the daemon starts from is one that the invariants speak about.
\<close>

section \<open>Memory and sizes (mem.go)\<close>

text \<open>\<^verbatim>\<open>MemAvailable:\s+(\d+) kB\<close>, at the first place where it matches.\<close>

definition re_space :: "char \<Rightarrow> bool" where
  "re_space c \<longleftrightarrow> c \<in> set [CHR '' '', CHR 0x09, CHR 0x0A, CHR 0x0C, CHR 0x0D]"

definition mem_here :: "string \<Rightarrow> string option" where
  "mem_here s = (case cut_prefix s ''MemAvailable:'' of
       None \<Rightarrow> None
     | Some r \<Rightarrow> (let sp = takeWhile re_space r; t = dropWhile re_space r;
           ds = takeWhile is_digit t in
         if sp \<noteq> [] \<and> ds \<noteq> [] \<and> has_prefix (dropWhile is_digit t) '' kB'' then Some ds else None))"

fun mem_field :: "string \<Rightarrow> string option" where
  "mem_field [] = mem_here []"
| "mem_field (c # s) = (case mem_here (c # s) of Some ds \<Rightarrow> Some ds | None \<Rightarrow> mem_field s)"

definition available_mem :: "'w host \<Rightarrow> ('w, int) ext" where
  "available_mem H = check (h_read_file H ''/proc/meminfo'') (\<lambda>data. case mem_field data of
       None \<Rightarrow> throw (EText ''file does not exist'')
     | Some ds \<Rightarrow> (case parse_int64 ds of (kb, ok) \<Rightarrow>
         if ok then ret (mul64 kb 1024) else throw (EText (''value out of range: '' @ ds))))"

definition size_or_zero :: "string \<Rightarrow> int" where
  "size_or_zero s = (case parse_size s of Inl e \<Rightarrow> 0 | Inr n \<Rightarrow> n)"

section \<open>The world around the daemon\<close>

text \<open>
  What main uses of the machine and of packages: the opened database is a parameter, since its file
  may come from any earlier run. \<open>dp_re\<close> matches a pattern, \<open>dp_tls\<close> loads a key pair.
\<close>

datatype platform = Linux | Darwin | OtherOs

record 'w deps =
  dp_host :: "'w host"
  dp_decoder :: decoder
  dp_ssm :: "'w ssm_api"
  dp_platform :: platform
  dp_fsx :: "'w fsx_env"
  dp_aws_config :: "string \<Rightarrow> ('w, unit) ext"
  dp_local_fs :: "'w local_fs"
  dp_procs :: "'w procs"
  dp_open_db :: "string \<Rightarrow> ('w, db) ext"
  dp_clock :: "'w \<Rightarrow> int \<times> 'w"
  dp_sleep :: "int \<Rightarrow> 'w \<Rightarrow> 'w"
  dp_ctx :: "'w \<Rightarrow> err option \<times> 'w"
  dp_sql_fault :: "'w \<Rightarrow> err option \<times> 'w"
  dp_re :: "string \<Rightarrow> string \<Rightarrow> bool"
  dp_active :: "string \<Rightarrow> 'w \<Rightarrow> int \<times> 'w"
  dp_new_id :: "'w \<Rightarrow> string \<times> 'w"
  dp_lib :: go_lib
  dp_browser :: "'w browser"
  dp_tls :: "string \<Rightarrow> string \<Rightarrow> ('w, unit) ext"

section \<open>Storage and engine\<close>

text \<open>A backend is a storage and, as \<^verbatim>\<open>BaselineProvider\<close>, the baseline of the configuration.\<close>

type_synonym 'w backend = "'w storage_api \<times> ('w \<Rightarrow> string \<times> 'w)"

definition local_of :: "'w deps \<Rightarrow> copy_kind \<Rightarrow> local_config \<Rightarrow> 'w backend" where
  "local_of D k l = (let c = new_local \<lparr>lc_root = lo_root l, lc_baseline = lo_baseline l, lc_cp = []\<rparr> in
     (local_storage (dp_host D) (dp_local_fs D) k c, Pair (local_current_baseline c)))"

definition wrong_os :: "string \<Rightarrow> string \<Rightarrow> err" where
  "wrong_os b why = EText (''backend '' @ quoted b @ why)"

definition linux_backend :: "'w deps \<Rightarrow> string \<Rightarrow> local_config \<Rightarrow> err + 'w backend" where
  "linux_backend D b l = (if b = ''apfs'' then Inl (wrong_os b '' is for macOS; use reflink on Linux'')
     else Inr (local_of D reflink_copy l))"

definition darwin_backend :: "'w deps \<Rightarrow> string \<Rightarrow> local_config \<Rightarrow> err + 'w backend" where
  "darwin_backend D b l = (if b = ''reflink'' then Inl (wrong_os b '' is for Linux; use apfs on macOS'')
     else Inr (local_of D apfs_copy l))"

definition other_backend :: "'w deps \<Rightarrow> string \<Rightarrow> local_config \<Rightarrow> err + 'w backend" where
  "other_backend D b l = Inl (wrong_os b '' is not supported on this OS (apfs=macOS / reflink=Linux)'')"

definition local_backend :: "'w deps \<Rightarrow> string \<Rightarrow> local_config \<Rightarrow> err + 'w backend" where
  "local_backend D = (case dp_platform D of
     Linux \<Rightarrow> linux_backend D | Darwin \<Rightarrow> darwin_backend D | OtherOs \<Rightarrow> other_backend D)"

definition fsx_settings :: "fsx_config \<Rightarrow> fsx_cfg" where
  "fsx_settings f = new_fsx \<lparr>fc_filesystem = fx_filesystem f, fc_base_volume = fx_base_volume f,
     fc_baseline = fx_baseline f, fc_dns = fx_dns f, fc_mount_root = fx_mount_root f, fc_poll = 0\<rparr>"

definition zfs_settings :: "config \<Rightarrow> zcfg" where
  "zfs_settings c = (let z = sc_zfs (g_storage c) in
     new_zfs \<lparr>zc_pool = zf_pool z, zc_base = zf_base z, zc_parent = zf_parent z,
       zc_baseline = zf_baseline z, zc_bin = [], zc_sudo = zf_sudo z, zc_helper = g_root_helper c\<rparr>)"

definition build_storage :: "'w deps \<Rightarrow> config \<Rightarrow> ('w, 'w backend) ext" where
  "build_storage D c = (let s = g_storage c; b = sc_backend s in
     if b = ''fsx-zfs'' then
       check (wrapping (\<lambda>e. EWrap ''aws config: '' e []) (dp_aws_config D (fx_region (sc_fsx s)))) (\<lambda>_.
       check (modifying (fx_keep_parent (dp_fsx D) (fx_parent_volume (sc_fsx s)))) (\<lambda>_.
       let f = fsx_settings (sc_fsx s) in ret (fsx_storage (dp_fsx D) f, fsx_current_baseline (dp_fsx D) f)))
     else if b = ''apfs'' \<or> b = ''reflink'' then
       (case local_backend D b (sc_local s) of
          Inl e \<Rightarrow> throw (EWrap ''storage: '' e []) | Inr be \<Rightarrow> ret be)
     else let z = zfs_settings c in ret (zfs_storage (dp_host D) z, Pair (zfs_current_baseline z)))"

definition build_engine :: "'w deps \<Rightarrow> config \<Rightarrow> 'w engine_api" where
  "build_engine D c = (let e = g_engine c; p = ec_postgres e; m = ec_mysql e in
     if ec_type e = ''postgres'' then
       postgres_engine_api (dp_host D) (dp_procs D) (new_pg_engine
         \<lparr>ge_env_dir = pq_env_dir p, ge_unit = [], ge_bin_dir = pq_bin_dir p, ge_listen = pq_listen p,
          ge_ready_timeout = 0, ge_sudo = pq_sudo p, ge_helper = g_root_helper c, ge_mode = pq_mode p,
          ge_run_user = pq_run_user p, ge_shared_buffers = pq_shared_buffers p, ge_log_dir = g_log_dir c,
          ge_app_user = app_user c, ge_app_pass = app_pass c, ge_stop_timeout = 0\<rparr>)
     else
       mysql_engine_api (dp_host D) (dp_procs D) (new_mysql_engine
         \<lparr>me_env_dir = mc_env_dir m, me_unit = [], me_user = mc_proxy_user m, me_pass = mc_proxy_pass m,
          me_ready_timeout = 0, me_sudo = mc_sudo m, me_helper = g_root_helper c, me_mode = mc_mode m,
          me_bin = mc_mysqld_bin m, me_run_user = mc_run_user m, me_extra_cnf = mc_extra_cnf m,
          me_buffer_pool = size_or_zero (mc_buffer_pool m), me_stop_timeout = 0\<rparr>))"

text \<open>Without a count of connections the idle limits of the configuration are switched off.\<close>

definition idle_settings :: "'w engine_api \<Rightarrow> config \<Rightarrow> config" where
  "idle_settings e c = (let b = g_branches c in
     if en_conn_count e = None \<and> (bc_idle_stop b > 0 \<or> bc_delete_idle b > 0)
     then c\<lparr>g_branches := b\<lparr>bc_idle_stop := 0, bc_delete_idle := 0\<rparr>\<rparr> else c)"

section \<open>Hooks, manager, policy\<close>

definition hook_settings :: "config \<Rightarrow> runner" where
  "hook_settings c = (let h = g_hooks c; r = new_runner (hc_dir h) (hc_log_dir h) (hc_timeout h);
       r1 = (if hc_log_retention h \<noteq> 0 then r\<lparr>hr_retention := hc_log_retention h\<rparr> else r);
       r2 = r1\<lparr>hr_strip := hr_strip r1 @ [au_token_env (g_auth c)]\<rparr>
     in if app_pass_env_name c \<noteq> [] then r2\<lparr>hr_strip := hr_strip r2 @ [app_pass_env_name c]\<rparr> else r2)"

definition profile_policies :: "(string \<times> profile_config) list \<Rightarrow> (string \<times> profile_policy) list" where
  "profile_policies ps = map (\<lambda>(n, p). (n, \<lparr>pp_idle_stop = pf_idle_stop p, pp_delete_idle = pf_delete_idle p\<rparr>)) ps"

text \<open>A watermark as a fraction: one that is not finite has the denominator 0.\<close>

definition mark_of :: "go_float \<Rightarrow> int \<times> int" where
  "mark_of m = (case m of Finite q \<Rightarrow> quotient_of q | NaN \<Rightarrow> (1, 0)
     | Infinite pos \<Rightarrow> (if pos then (1, 0) else (- 1, 0)))"

definition manager_settings :: "(string \<Rightarrow> string \<Rightarrow> bool) \<Rightarrow> config \<Rightarrow> mconfig" where
  "manager_settings re c = (let b = g_branches c; s = g_storage c; e = g_engine c in
     \<lparr>c_name_re = re (bc_name_pattern b), c_max_branches = bc_max_branches b,
      c_port_low = fst (port_range c), c_port_high = snd (port_range c), c_engine_type = ec_type e,
      c_state_dir = ''/var/lib/sashiki/branches'', c_lazy_create = bc_lazy_create b,
      c_lazy_max_wait = bc_lazy_max_wait b, c_idle_stop = bc_idle_stop b, c_delete_idle = bc_delete_idle b,
      c_op_retention = bc_op_retention b, c_error_retention = bc_error_retention b,
      c_profiles = profile_policies (bc_profiles b), c_default_profile = bc_default_profile b,
      c_expected_rss = size_or_zero (rss_setting c), c_headroom = size_or_zero (memory_headroom c),
      c_buffer_pool = size_or_zero (memory_baseline_size c), c_max_running = max_running c,
      c_high_mark = mark_of (sc_high_mark s), c_critical_mark = mark_of (sc_critical_mark s),
      c_keep_last = bs_keep_last (g_baseline c), c_retention = bs_retention (g_baseline c),
      c_quota = size_or_zero (sc_quota s), c_mysqld = mc_mysqld_bin (ec_mysql e),
      c_extra_cnf = mc_extra_cnf (ec_mysql e), c_pg_bin_dir = pq_bin_dir (ec_postgres e),
      c_pg_run_user = pq_run_user (ec_postgres e), c_app_user = app_user c, c_app_pass = app_pass c,
      c_root_helper = g_root_helper c\<rparr>)"

text \<open>The proxy counts connections only where it runs.\<close>

definition manager_env :: "'w deps \<Rightarrow> 'w backend \<Rightarrow> 'w engine_api \<Rightarrow> config \<Rightarrow> 'w env" where
  "manager_env D be e c = \<lparr>sto = fst be, eng = e,
     hks = Some (hook_runner (dp_clock D) (dp_host D) (hook_settings c)), cfg = manager_settings (dp_re D) c,
     clock = dp_clock D, sleeping = dp_sleep D, ctx_err = dp_ctx D, sql_fault = dp_sql_fault D,
     avail_mem = Some (available_mem (dp_host D)),
     active_conns_fn = (if li_proxy (g_listen c) = [] then None else Some (dp_active D)),
     default_baseline = snd be\<rparr>"

definition baseline_policy :: "config \<Rightarrow> 'w refresh_config" where
  "baseline_policy c = (let b = g_baseline c in
     \<lparr>rc_script = bs_script b, rc_timeout = bs_timeout b, rc_source_dir = bs_source_dir b,
      rc_source_db = bs_source_db b, rc_run_source = None, rc_app_user_only = False, rc_use_loader = False,
      rc_check_quiesced = None, rc_require_masked = bs_require_masked b,
      rc_require_validated = bs_require_validated b, rc_validate_port = bs_validate_port b,
      rc_sentinel = bs_sentinel b, rc_skip_validate = False\<rparr>)"

section \<open>The API and the proxy\<close>

definition resolve_api_token :: "'w deps \<Rightarrow> config \<Rightarrow> ('w, string) ext" where
  "resolve_api_token D c = (let n = au_token_ssm (g_auth c) in
     if n \<noteq> [] then
       check (wrapping (\<lambda>e. EWrap ''auth: aws config for api_token_ssm: '' e []) (sm_config (dp_ssm D))) (\<lambda>_.
       check (wrapping (\<lambda>e. EWrap (''auth: get api_token_ssm '' @ n @ '': '') e []) (sm_get (dp_ssm D) n)) (\<lambda>v.
       case v of
         None \<Rightarrow> throw (EText (''auth: api_token_ssm '' @ n @ '' is empty''))
       | Some t \<Rightarrow> if t = [] then throw (EText (''auth: api_token_ssm '' @ n @ '' is empty'')) else ret t))
     else ret (getenv (h_environ (dp_host D)) (au_token_env (g_auth c))))"

definition api_settings :: "'w deps \<Rightarrow> 'w env \<Rightarrow> config \<Rightarrow> string \<Rightarrow> 'w api_server" where
  "api_settings D E c token = \<lparr>as_env = E, as_machine = dp_host D, as_policy = baseline_policy c,
     as_domain = g_domain c, as_engine = ec_type (g_engine c), as_user = app_user c, as_pass = app_pass c,
     as_token = token, as_tokens = True, as_ops = True, as_proxy_port = proxy_port_of (li_proxy (g_listen c)),
     as_trust_loopback = au_trust_loopback (g_auth c), as_host_name = g_name c, as_new_id = dp_new_id D,
     as_lib = dp_lib D, as_browser = dp_browser D\<rparr>"

record proxy_settings =
  ps_listen :: string
  ps_postgres :: bool
  ps_name_pattern :: string
  ps_max_conns :: int
  ps_allowed_user :: string
  ps_app_user :: string
  ps_app_password :: string
  ps_tls :: bool

definition proxy_settings_of :: "config \<Rightarrow> proxy_settings" where
  "proxy_settings_of c = (let p = g_proxy c in
     \<lparr>ps_listen = li_proxy (g_listen c), ps_postgres = (ec_type (g_engine c) = ''postgres''),
      ps_name_pattern = bc_name_pattern (g_branches c), ps_max_conns = pr_max_conn p,
      ps_allowed_user = (case pr_allowed_user p of None \<Rightarrow> app_user c | Some u \<Rightarrow> u),
      ps_app_user = app_user c, ps_app_password = app_pass c,
      ps_tls = (pr_tls_cert p \<noteq> [] \<and> pr_tls_key p \<noteq> [])\<rparr>)"

definition build_proxy :: "'w deps \<Rightarrow> config \<Rightarrow> ('w, proxy_settings option) ext" where
  "build_proxy D c = (let p = g_proxy c in
     if li_proxy (g_listen c) = [] then ret None
     else if pr_tls_cert p \<noteq> [] \<and> pr_tls_key p \<noteq> [] then
       check (wrapping (\<lambda>e. EWrap ''proxy tls: '' e []) (dp_tls D (pr_tls_cert p) (pr_tls_key p)))
         (\<lambda>_. ret (Some (proxy_settings_of c)))
     else ret (Some (proxy_settings_of c)))"

section \<open>Starting\<close>

text \<open>Recovery and reconciliation; an error of either is logged.\<close>

definition recover_at_start :: "'w env \<Rightarrow> ('w, unit) mact" where
  "recover_at_start E = ignoring (sql_at E recover_interrupted_operations) (ignoring (reconcile E True) (ret ()))"

record 'w daemon =
  dm_config :: config
  dm_server :: "'w api_server"
  dm_hooks :: runner
  dm_proxy :: "proxy_settings option"
  dm_metrics :: string
  dm_reaper_interval :: int
  dm_api :: "'w api"

definition sashikid :: "'w deps \<Rightarrow> string \<Rightarrow> 'w \<Rightarrow> (err + 'w daemon) \<times> 'w" where
  "sashikid D path =
     check (load_config (dp_host D) (dp_decoder D) path) (\<lambda>c0.
     check (resolve_app_pass (dp_host D) (dp_ssm D) c0) (\<lambda>c1.
     check (wrapping (\<lambda>e. EWrap ''state db: '' e []) (dp_open_db D (g_state_db c1))) (\<lambda>d.
     check (build_storage D c1) (\<lambda>be.
     let e = build_engine D c1; c = idle_settings e c1; E = manager_env D be e c in
     case dc_re (dp_decoder D) (bc_name_pattern (g_branches c)) of
       Some x \<Rightarrow> throw (EWrap ''manager: name pattern: '' x [])
     | None \<Rightarrow>
     check (resolve_api_token D c) (\<lambda>token w.
       case recover_at_start E ((start_state w)\<lparr>mdb := d\<rparr>) of (_, m) \<Rightarrow>
         check (build_proxy D c) (\<lambda>px w'. (Inr \<lparr>dm_config = c, dm_server = api_settings D E c token,
             dm_hooks = hook_settings c, dm_proxy = px, dm_metrics = li_metrics (g_listen c),
             dm_reaper_interval = bc_reaper_interval (g_branches c),
             dm_api = new_api (m\<lparr>world := w'\<rparr>)\<rparr>, w')) (world m))))))"

section \<open>What a start went through\<close>

lemma engine_counts: "en_conn_count (build_engine D c) \<noteq> None"
  by (simp add: build_engine_def Let_def mysql_engine_api_def postgres_engine_api_def)

lemma idle_settings_kept [simp]: "idle_settings (build_engine D c1) c = c"
  using engine_counts [of D c1] by (auto simp: idle_settings_def Let_def)

lemma sashikid_started:
  assumes "fst (sashikid D path w) = Inr dm"
  obtains c0 c w0 w1 d w2 be w3 token w4 E m px w5 where
    "load_config (dp_host D) (dp_decoder D) path w = (Inr c0, w0)"
    and "resolve_app_pass (dp_host D) (dp_ssm D) c0 w0 = (Inr c, w1)"
    and "dp_open_db D (g_state_db c) w1 = (Inr d, w2)"
    and "build_storage D c w2 = (Inr be, w3)"
    and "E = manager_env D be (build_engine D c) c"
    and "resolve_api_token D c w3 = (Inr token, w4)"
    and "m = snd (recover_at_start E ((start_state w4)\<lparr>mdb := d\<rparr>))"
    and "build_proxy D c (world m) = (Inr px, w5)"
    and "dm = \<lparr>dm_config = c, dm_server = api_settings D E c token, dm_hooks = hook_settings c, dm_proxy = px,
      dm_metrics = li_metrics (g_listen c), dm_reaper_interval = bc_reaper_interval (g_branches c),
      dm_api = new_api (m\<lparr>world := w5\<rparr>)\<rparr>"
proof -
  from assms obtain c0 w0 where 1: "load_config (dp_host D) (dp_decoder D) path w = (Inr c0, w0)"
    by (auto simp: sashikid_def check_def split: sum.splits prod.splits)
  with assms obtain c w1 where 2: "resolve_app_pass (dp_host D) (dp_ssm D) c0 w0 = (Inr c, w1)"
    by (auto simp: sashikid_def check_def split: sum.splits prod.splits)
  with assms 1 obtain d w2 where 3: "dp_open_db D (g_state_db c) w1 = (Inr d, w2)"
    by (auto simp: sashikid_def check_def wrapping_def split: sum.splits prod.splits)
  with assms 1 2 obtain be w3 where 4: "build_storage D c w2 = (Inr be, w3)"
    by (auto simp: sashikid_def check_def wrapping_def split: sum.splits prod.splits)
  define E where "E = manager_env D be (build_engine D c) c"
  from assms 1 2 3 4 obtain token w4 where 5: "resolve_api_token D c w3 = (Inr token, w4)"
    by (auto simp: sashikid_def check_def wrapping_def Let_def throw_def
        split: sum.splits prod.splits option.splits)
  define m where "m = snd (recover_at_start E ((start_state w4)\<lparr>mdb := d\<rparr>))"
  have "fst (check (build_proxy D c) (\<lambda>px w'. (Inr \<lparr>dm_config = c, dm_server = api_settings D E c token,
             dm_hooks = hook_settings c, dm_proxy = px, dm_metrics = li_metrics (g_listen c),
             dm_reaper_interval = bc_reaper_interval (g_branches c),
             dm_api = new_api (m\<lparr>world := w'\<rparr>)\<rparr>, w')) (world m)) = Inr dm"
    using assms 1 2 3 4 5
    by (simp add: sashikid_def check_def [of "load_config a b c" for a b c] check_def [of "resolve_app_pass a b c" for a b c]
        check_def [of "wrapping a b" for a b] check_def [of "build_storage a b" for a b]
        check_def [of "resolve_api_token a b" for a b] wrapping_def Let_def throw_def E_def m_def
        split: option.splits prod.splits)
  then obtain px w5 where "build_proxy D c (world m) = (Inr px, w5)"
    "dm = \<lparr>dm_config = c, dm_server = api_settings D E c token, dm_hooks = hook_settings c, dm_proxy = px,
      dm_metrics = li_metrics (g_listen c), dm_reaper_interval = bc_reaper_interval (g_branches c),
      dm_api = new_api (m\<lparr>world := w5\<rparr>)\<rparr>"
    by (auto simp: check_def split: sum.splits prod.splits)
  with that 1 2 3 4 5 E_def m_def show thesis by blast
qed

section \<open>An example\<close>

text \<open>The default configuration, and a database left by a run that died while it created a branch.\<close>

definition crashed_db :: db where
  "crashed_db = snd (create_operation 0 ''op_1'' ''create'' ''pr-1''
     (snd (create_branch 0 ''pr-1'' 3401 ''dbpool/base@baseline'' open_db)))"

definition sample_deps :: "int deps" where
  "sample_deps = \<lparr>dp_host = sample_host, dp_decoder = sample_decoder,
     dp_ssm = \<lparr>sm_config = succeed (), sm_get = (\<lambda>n. succeed None)\<rparr>, dp_platform = Linux,
     dp_fsx = sample_fsx, dp_aws_config = (\<lambda>r. succeed ()),
     dp_local_fs = \<lparr>lf_remove_all = (\<lambda>p. succeed ()), lf_rename = (\<lambda>p q. succeed ()), lf_missing = (\<lambda>e. False)\<rparr>,
     dp_procs = idle_procs, dp_open_db = (\<lambda>f. succeed crashed_db), dp_clock = (\<lambda>w. (w * second, w + 1)),
     dp_sleep = (\<lambda>d w. w + d div second + 1), dp_ctx = (\<lambda>w. (None, w)), dp_sql_fault = (\<lambda>w. (None, w)),
     dp_re = (\<lambda>p n. n \<noteq> []), dp_active = (\<lambda>n w. (0, w)), dp_new_id = (\<lambda>w. (''op'', w)),
     dp_lib = sample_lib, dp_browser = sample_browser, dp_tls = (\<lambda>c k. succeed ())\<rparr>"

definition sample_daemon :: "int daemon" where
  "sample_daemon = projr (fst (sashikid sample_deps ''/etc/sashiki/config.yaml'' 0))"

lemma sample_started: "fst (sashikid sample_deps ''/etc/sashiki/config.yaml'' 0) = Inr sample_daemon"
proof -
  let ?c = "normalize_config default_config"
  have "snd (load_config sample_host sample_decoder ''/etc/sashiki/config.yaml'' 0) = 0"
    by (simp add: load_config_def check_def sample_host_def succeed_def)
  then have load: "load_config sample_host sample_decoder ''/etc/sashiki/config.yaml'' 0 = (Inr ?c, 0)"
    using default_loads by (metis prod.collapse)
  obtain c where pass: "resolve_app_pass sample_host (dp_ssm sample_deps) ?c 0 = (Inr c, 0)"
    and c: "c = set_app_pass ''dev'' ?c"
    by (simp add: resolve_app_pass_def resolve_secret_def resolve_local_def app_pass_ref_def for_engine_def
        default_config_def default_mysql_def normalize_config_def normal_mysql_def or_else_def
        is_zero_ref_def check_def ret_def Let_def)
  have f: "sc_backend (g_storage c) = ''ebs-zfs''" "au_token_ssm (g_auth c) = []" "pr_tls_cert (g_proxy c) = []"
    by (simp_all add: c set_app_pass_def normalize_config_def default_config_def default_storage_def
        normal_storage_def normal_backend_def Let_def)
  have st: "\<exists>be. build_storage sample_deps c w = (Inr be, w)" for w
    using f by (simp add: build_storage_def Let_def ret_def)
  have tok: "\<exists>t. resolve_api_token sample_deps c w = (Inr t, w)" for w
    using f by (simp add: resolve_api_token_def Let_def ret_def)
  have px: "\<exists>p. build_proxy sample_deps c w = (Inr p, w)" for w
    using f by (simp add: build_proxy_def Let_def ret_def)
  obtain be where be: "build_storage sample_deps c 0 = (Inr be, 0)" using st by blast
  obtain t where t: "resolve_api_token sample_deps c 0 = (Inr t, 0)" using tok by blast
  have "\<exists>dm. fst (sashikid sample_deps ''/etc/sashiki/config.yaml'' 0) = Inr dm"
  proof -
    define E where "E = manager_env sample_deps be (build_engine sample_deps c) c"
    obtain x m where m: "recover_at_start E ((start_state 0)\<lparr>mdb := crashed_db\<rparr>) = (x, m)" by fastforce
    obtain p where p: "build_proxy sample_deps c (world m) = (Inr p, world m)" using px by blast
    have deps: "dp_host sample_deps = sample_host" "dp_decoder sample_deps = sample_decoder"
      "dp_open_db sample_deps fl w = (Inr crashed_db, w)" "dc_re sample_decoder pat = None" for fl w pat
      by (simp_all add: sample_deps_def succeed_def sample_decoder_def)
    show ?thesis
      unfolding sashikid_def check_def [of "load_config h d q" for h d q] deps load prod.case sum.case
        check_def [of "resolve_app_pass h d q" for h d q] pass check_def [of "wrapping q r" for q r]
        wrapping_def check_def [of "build_storage q r" for q r] be Let_def idle_settings_kept option.case
        check_def [of "resolve_api_token q r" for q r] t E_def [symmetric] m check_def p
      by (simp add: m p)
  qed
  then show ?thesis unfolding sample_daemon_def by (metis sum.sel(2))
qed

section \<open>The state it starts from\<close>

lemma recover_at_start_split:
  "recover_at_start E s = (case sql_at E recover_interrupted_operations s of (_, s1) \<Rightarrow>
     (case reconcile E True s1 of (_, s2) \<Rightarrow> (Inr (), s2)))"
  by (simp add: recover_at_start_def ignoring_def ret_def split: prod.split)



section \<open>Secrets\<close>

lemma api_token_given:
  assumes "resolve_api_token D c w = (Inr t, w')" and "au_token_ssm (g_auth c) \<noteq> []"
  shows "t \<noteq> []"
  using assms by (auto simp: resolve_api_token_def check_def wrapping_def throw_def ret_def Let_def
      split: sum.splits prod.splits option.splits if_splits)

text \<open>C19. A daemon that has started has a password for the application and, where a parameter of SSM holds the
  token of the API, a token; and no hook inherits a variable in which the configuration keeps one of the two.
\<close>

theorem daemon_keeps_secrets:
  assumes "fst (sashikid D path w) = Inr dm"
  shows "app_pass (dm_config dm) \<noteq> []
    \<and> (au_token_ssm (g_auth (dm_config dm)) \<noteq> [] \<longrightarrow> as_token (dm_server dm) \<noteq> [])
    \<and> hks (as_env (dm_server dm)) = Some (hook_runner (dp_clock D) (dp_host D) (dm_hooks dm))
    \<and> (\<forall>kv \<in> set (base_env (dp_host D) (dm_hooks dm)). env_key kv \<noteq> [] \<longrightarrow>
         env_key kv \<noteq> ''SASHIKI_API_TOKEN'' \<and> env_key kv \<noteq> au_token_env (g_auth (dm_config dm))
         \<and> env_key kv \<noteq> app_pass_env_name (dm_config dm))"
proof -
  obtain c0 c w0 w1 d w2 be w3 token w4 E m px w5 where
    pass: "resolve_app_pass (dp_host D) (dp_ssm D) c0 w0 = (Inr c, w1)"
    and E: "E = manager_env D be (build_engine D c) c"
    and token: "resolve_api_token D c w3 = (Inr token, w4)"
    and dm: "dm_config dm = c" "dm_server dm = api_settings D E c token" "dm_hooks dm = hook_settings c"
    by (rule sashikid_started [OF assms], rule that, assumption+, simp_all)
  have "app_pass c \<noteq> []" using app_pass_comes_from_first_place pass by (metis fst_conv)
  moreover have "au_token_ssm (g_auth c) \<noteq> [] \<longrightarrow> token \<noteq> []" using api_token_given [OF token] by blast
  moreover have "''SASHIKI_API_TOKEN'' \<in> set (hr_strip (hook_settings c))"
    "au_token_env (g_auth c) \<in> set (hr_strip (hook_settings c))"
    "app_pass_env_name c \<noteq> [] \<Longrightarrow> app_pass_env_name c \<in> set (hr_strip (hook_settings c))"
    by (simp_all add: hook_settings_def new_runner_def Let_def)
  ultimately show ?thesis
    by (auto simp: dm E api_settings_def manager_env_def base_env_def inherited_env_def)
qed

theorem daemon_keeps_secrets_witness: "app_pass (dm_config sample_daemon) \<noteq> []"
  using daemon_keeps_secrets [OF sample_started] by blast

section \<open>Agreement\<close>

lemma size_kept: "size_settings (set_app_pass v c) = size_settings c"
  by (simp add: size_settings_def set_app_pass_def Let_def)

lemma accessors_kept:
  "rss_setting (set_app_pass v c) = rss_setting c" "memory_headroom (set_app_pass v c) = memory_headroom c"
  "memory_baseline_size (set_app_pass v c) = memory_baseline_size c" "port_range (set_app_pass v c) = port_range c"
  "g_storage (set_app_pass v c) = g_storage c"
  by (simp_all add: rss_setting_def memory_headroom_def memory_baseline_size_def port_range_def for_engine_def
      set_app_pass_def Let_def)

lemma size_or_zero_exact:
  assumes "size_means s n" and "n \<le> 2 ^ 62"
  shows "size_means s (size_or_zero s)"
  using assms parse_size_means [of s n] by (simp add: size_or_zero_def)

lemma sizes_mean:
  assumes "well_formed_config re c"
  shows "size_means (rss_setting c) (size_or_zero (rss_setting c))"
    "size_means (memory_headroom c) (size_or_zero (memory_headroom c))"
    "size_means (memory_baseline_size c) (size_or_zero (memory_baseline_size c))"
    "size_means (sc_quota (g_storage c)) (size_or_zero (sc_quota (g_storage c)))"
proof -
  have all: "\<forall>(k, v) \<in> set (size_settings c). \<exists>n. size_means v n \<and> 0 \<le> n \<and> n \<le> 2 ^ 62"
    using assms unfolding well_formed_config_def Let_def by blast
  have s: "size_means v (size_or_zero v)" if "v \<in> snd ` set (size_settings c)" for v
  proof -
    obtain k where "(k, v) \<in> set (size_settings c)" using \<open>v \<in> snd ` set (size_settings c)\<close> by force
    from bspec [OF all this] obtain n where "size_means v n" "n \<le> 2 ^ 62" by auto
    then show ?thesis by (rule size_or_zero_exact)
  qed
  note f = size_settings_def Let_def rss_setting_def memory_headroom_def memory_baseline_size_def for_engine_def
  show "size_means (rss_setting c) (size_or_zero (rss_setting c))" by (rule s) (simp add: f)
  show "size_means (memory_headroom c) (size_or_zero (memory_headroom c))" by (rule s) (simp add: f)
  show "size_means (memory_baseline_size c) (size_or_zero (memory_baseline_size c))" by (rule s) (simp add: f)
  show "size_means (sc_quota (g_storage c)) (size_or_zero (sc_quota (g_storage c)))" by (rule s) (simp add: f)
qed

text \<open>The parts of a started daemon agree: manager, API and proxy have the same user and password and accept
  the same names; where the API gives out the address of the proxy there is a proxy, and the manager asks it
  for its connections; and every size that the manager computes with is what its text in the file
  denotes, so that a limit is never silently zero.
\<close>

theorem daemon_parts_agree:
  assumes visit: "\<And>xs. set (dc_visit (dp_decoder D) xs) = set xs"
    and start: "fst (sashikid D path w) = Inr dm"
  shows "let c = dm_config dm; S = dm_server dm; M = cfg (as_env S) in
      c_app_user M = app_user c \<and> as_user S = app_user c \<and> c_app_pass M = app_pass c \<and> as_pass S = app_pass c
    \<and> (case dm_proxy dm of
         None \<Rightarrow> li_proxy (g_listen c) = [] \<and> as_proxy_port S = 0 \<and> active_conns_fn (as_env S) = None
       | Some p \<Rightarrow> ps_listen p \<noteq> [] \<and> as_proxy_port S = proxy_port_of (ps_listen p)
           \<and> ps_app_user p = app_user c \<and> ps_app_password p = app_pass c
           \<and> dp_re D (ps_name_pattern p) = c_name_re M \<and> active_conns_fn (as_env S) = Some (dp_active D))
    \<and> size_means (rss_setting c) (c_expected_rss M) \<and> size_means (memory_headroom c) (c_headroom M)
    \<and> size_means (memory_baseline_size c) (c_buffer_pool M)
    \<and> size_means (sc_quota (g_storage c)) (c_quota M)
    \<and> 0 < c_port_low M \<and> c_port_low M \<le> c_port_high M"
proof -
  obtain c0 c w0 w1 d w2 be w3 token w4 E m px w5 where
    load: "load_config (dp_host D) (dp_decoder D) path w = (Inr c0, w0)"
    and pass: "resolve_app_pass (dp_host D) (dp_ssm D) c0 w0 = (Inr c, w1)"
    and E: "E = manager_env D be (build_engine D c) c"
    and px: "build_proxy D c (world m) = (Inr px, w5)"
    and d: "dm = \<lparr>dm_config = c, dm_server = api_settings D E c token, dm_hooks = hook_settings c, dm_proxy = px,
      dm_metrics = li_metrics (g_listen c), dm_reaper_interval = bc_reaper_interval (g_branches c),
      dm_api = new_api (m\<lparr>world := w5\<rparr>)\<rparr>"
    by (rule sashikid_started [OF start])
  have dm: "dm_config dm = c" "dm_server dm = api_settings D E c token" "dm_proxy dm = px"
    by (simp_all add: d)
  have wf: "well_formed_config (dc_re (dp_decoder D)) c0"
    using load finish_load_well_formed [OF visit]
    by (auto simp: load_config_def check_def split: sum.splits prod.splits decoded.splits)
  obtain v where v: "c = set_app_pass v c0"
    using app_pass_comes_from_first_place pass by (metis fst_conv)
  have ports: "0 < fst (port_range c)" "fst (port_range c) \<le> snd (port_range c)"
    using wf by (simp_all add: well_formed_config_def Let_def v accessors_kept)
  have proxy: "case px of None \<Rightarrow> li_proxy (g_listen c) = [] | Some p \<Rightarrow> li_proxy (g_listen c) \<noteq> [] \<and> p = proxy_settings_of c"
    using px by (auto simp: build_proxy_def check_def wrapping_def ret_def Let_def
        split: if_splits sum.splits prod.splits)
  show ?thesis
    using ports proxy sizes_mean [OF wf]
    by (auto simp: dm E api_settings_def manager_env_def manager_settings_def proxy_settings_of_def Let_def
        proxy_port_of_def accessors_kept v split: option.splits)
qed

theorem daemon_parts_agree_witness:
  "c_app_pass (cfg (as_env (dm_server sample_daemon))) = as_pass (dm_server sample_daemon)"
proof -
  have "\<And>xs. set (dc_visit (dp_decoder sample_deps) xs) = set xs"
    by (simp add: sample_deps_def sample_decoder_def)
  from daemon_parts_agree [OF this sample_started] show ?thesis unfolding Let_def by auto
qed

end
