(* ===== verification/CliArgs.thy ===== *)
theory CliArgs
  imports Settings Manager
begin

text \<open>
  cmd/sashiki: the command line (args.go, the flags of wait.go and hosts.go, and the loops over flags
  of main.go and baseline.go). These are pure functions of the arguments. A loop that prints a reason
  and returns 2 answers that reason here, and the command that runs it prints it.
\<close>

section \<open>args.go\<close>

text \<open>\<^verbatim>\<open>parseArgs(args, values, bools)\<close>: the positions and the options, of which the last counts.\<close>

fun parse_from ::
  "string list \<Rightarrow> string list \<Rightarrow> string list \<Rightarrow> string list \<Rightarrow> (string \<rightharpoonup> string)
     \<Rightarrow> err + string list \<times> (string \<rightharpoonup> string)" where
  "parse_from vs bs [] pos opts = Inr (pos, opts)"
| "parse_from vs bs [a] pos opts =
     (if a \<in> set bs then Inr (pos, opts(a \<mapsto> ''true''))
      else if a \<in> set vs then Inl (EText (a @ '' requires a value''))
      else if has_prefix a ''-'' \<and> a \<noteq> ''-'' then Inl (EText (''unknown flag '' @ a))
      else Inr (pos @ [a], opts))"
| "parse_from vs bs (a # b # as) pos opts =
     (if a \<in> set bs then parse_from vs bs (b # as) pos (opts(a \<mapsto> ''true''))
      else if a \<in> set vs then parse_from vs bs as pos (opts(a \<mapsto> b))
      else if has_prefix a ''-'' \<and> a \<noteq> ''-'' then Inl (EText (''unknown flag '' @ a))
      else parse_from vs bs (b # as) (pos @ [a]) opts)"

definition parse_args ::
  "string list \<Rightarrow> string list \<Rightarrow> string list \<Rightarrow> err + string list \<times> (string \<rightharpoonup> string)" where
  "parse_args args vs bs = parse_from vs bs args [] Map.empty"

definition parse_no_flags :: "string list \<Rightarrow> err + string list" where
  "parse_no_flags args = map_sum id fst (parse_args args [] [])"

text \<open>\<^verbatim>\<open>opts[k]\<close> of a map that may lack the key.\<close>

definition opt_of :: "(string \<rightharpoonup> string) \<Rightarrow> string \<Rightarrow> string" where
  "opt_of opts k = (case opts k of None \<Rightarrow> [] | Some v \<Rightarrow> v)"

section \<open>The flags of a branch command (main.go)\<close>

definition parse_flags :: "string list \<Rightarrow> err + string list \<times> bool" where
  "parse_flags args = map_sum id (\<lambda>(pos, opts). (pos, opt_of opts ''--json'' = ''true''))
     (parse_args args [] [''--json''])"

record create_args =
  cra_pos :: "string list"
  cra_port :: int
  cra_json :: bool
  cra_kv :: "string \<rightharpoonup> string"

definition create_values :: "string list" where
  "create_values = [''--port'', ''--owner'', ''--purpose'', ''--source'', ''--profile'', ''--ttl'',
     ''--expires-at'', ''--baseline'']"

definition parse_flags_kv :: "string list \<Rightarrow> err + create_args" where
  "parse_flags_kv args = (case parse_args args create_values [''--json'', ''--exist-ok''] of
       Inl e \<Rightarrow> Inl e
     | Inr (pos, opts) \<Rightarrow>
        (let kv = (\<lambda>k. if k = ''json'' \<or> k = ''port'' then None else opts (''--'' @ k));
             done = (\<lambda>port. \<lparr>cra_pos = pos, cra_port = port,
               cra_json = (opt_of opts ''--json'' = ''true''), cra_kv = kv\<rparr>) in
         case opts ''--port'' of
           None \<Rightarrow> Inr (done 0)
         | Some v \<Rightarrow> (case atoi v of
             None \<Rightarrow> Inl (EText (''--port: strconv.Atoi: parsing '' @ quoted v))
           | Some n \<Rightarrow> Inr (done n))))"

record lease_args =
  la_name :: string
  la_for :: string
  la_until :: string
  la_json :: bool

text \<open>The loop of \<^verbatim>\<open>cmdLease\<close>.\<close>

fun lease_flags :: "string list \<Rightarrow> lease_args \<Rightarrow> err + lease_args" where
  "lease_flags [] l = Inr l"
| "lease_flags (a # as) l =
     (if a = ''--for'' then (case as of
          [] \<Rightarrow> Inl (EText ''sashiki: --for requires a value'')
        | v # r \<Rightarrow> lease_flags r (l\<lparr>la_for := v\<rparr>))
      else if a = ''--until'' then (case as of
          [] \<Rightarrow> Inl (EText ''sashiki: --until requires a value'')
        | v # r \<Rightarrow> lease_flags r (l\<lparr>la_until := v\<rparr>))
      else if a = ''--json'' then lease_flags as (l\<lparr>la_json := True\<rparr>)
      else if has_prefix a ''-'' \<and> a \<noteq> ''-'' then Inl (EText (''sashiki lease: unknown flag '' @ a))
      else if la_name l \<noteq> [] then
        Inl (EText (''sashiki lease: several branch names ('' @ la_name l @ '', '' @ a @ '')''))
      else lease_flags as (l\<lparr>la_name := a\<rparr>))"

section \<open>Waiting and hosts (wait.go, hosts.go)\<close>

definition default_wait_timeout :: int where
  "default_wait_timeout = 15 * minute"

definition default_wait_interval :: int where
  "default_wait_interval = 300000000"

record wait_args =
  wa_rest :: "string list"
  wa_no_wait :: bool
  wa_timeout :: int
  wa_interval :: int

text \<open>\<^verbatim>\<open>extractWaitFlags\<close>; \<open>dur\<close> is \<^verbatim>\<open>time.ParseDuration\<close>.\<close>

fun wait_flags_from :: "(string \<Rightarrow> err + int) \<Rightarrow> string list \<Rightarrow> wait_args \<Rightarrow> err + wait_args" where
  "wait_flags_from dur [] w = Inr w"
| "wait_flags_from dur (a # as) w =
     (if a = ''--no-wait'' then wait_flags_from dur as (w\<lparr>wa_no_wait := True\<rparr>)
      else if a = ''--wait'' then wait_flags_from dur as w
      else if a = ''--timeout'' \<or> a = ''--interval'' then (case as of
          [] \<Rightarrow> Inl (EText (a @ '' requires a value (for example '' @ a @ '' 30m)''))
        | v # r \<Rightarrow> (case dur v of
            Inl e \<Rightarrow> Inl (EWrap (a @ '' '' @ quoted v @ '': '') e '' (for example 30m / 500ms)'')
          | Inr d \<Rightarrow>
              if d \<le> 0 then Inl (EText (a @ '' '' @ quoted v @ '': must be positive''))
              else wait_flags_from dur r
                (if a = ''--timeout'' then w\<lparr>wa_timeout := d\<rparr> else w\<lparr>wa_interval := d\<rparr>)))
      else wait_flags_from dur as (w\<lparr>wa_rest := wa_rest w @ [a]\<rparr>))"

definition extract_wait_flags :: "(string \<Rightarrow> err + int) \<Rightarrow> string list \<Rightarrow> err + wait_args" where
  "extract_wait_flags dur args = wait_flags_from dur args
     \<lparr>wa_rest = [], wa_no_wait = False, wa_timeout = default_wait_timeout,
      wa_interval = default_wait_interval\<rparr>"

text \<open>\<^verbatim>\<open>extractHostFlag\<close>: the last \<^verbatim>\<open>--host\<close> counts, the rest keeps its order.\<close>

fun extract_host_flag :: "string list \<Rightarrow> string \<Rightarrow> err + string list \<times> string" where
  "extract_host_flag [] h = Inr ([], h)"
| "extract_host_flag (a # as) h =
     (if a = ''--host'' then (case as of
          [] \<Rightarrow> Inl (EText ''--host requires a value'')
        | v # r \<Rightarrow> extract_host_flag r v)
      else (case extract_host_flag as h of
          Inl e \<Rightarrow> Inl e
        | Inr (rest, host) \<Rightarrow> Inr (a # rest, host)))"

section \<open>The flags of baseline commands (baseline.go)\<close>

record promote_args =
  pa_pos :: "string list"
  pa_masked :: bool
  pa_skip_validate :: bool

fun promote_flags :: "string list \<Rightarrow> promote_args \<Rightarrow> err + promote_args" where
  "promote_flags [] p = Inr p"
| "promote_flags (a # as) p =
     (if a = ''--masked'' then promote_flags as (p\<lparr>pa_masked := True\<rparr>)
      else if a = ''--skip-validate'' then promote_flags as (p\<lparr>pa_skip_validate := True\<rparr>)
      else if has_prefix a ''--'' then Inl (EText (''sashiki baseline promote: unknown flag '' @ a))
      else promote_flags as (p\<lparr>pa_pos := pa_pos p @ [a]\<rparr>))"

end
