(* ===== verification/CliClient.thy ===== *)
theory CliClient
  imports CliArgs Http "HOL-Library.List_Lexorder" "HOL-Library.Char_ord"
begin

text \<open>
  cmd/sashiki: the client of the API (hosts.go, the client of main.go, wait.go). A command changes
  what is outside, the two streams it prints to, the timeout of the HTTP client and the selected
  host. The messages are given in English.
\<close>

section \<open>What the client runs on\<close>

record host_entry =
  ho_url :: string
  ho_token :: string
  ho_token_env :: string
  ho_token_file :: string

text \<open>The map of hosts is the list of its entries in the order in which a \<^verbatim>\<open>range\<close> finds them.\<close>

record hosts_file =
  hf_default :: string
  hf_hosts :: "(string \<times> host_entry) list"

record http_call =
  hq_url :: string
  hq_method :: string
  hq_headers :: "(string \<times> string) list"
  hq_timeout :: int
  hq_body :: "json option"

text \<open>
  The process: its files and environment are those of \<open>ce_machine\<close>, and \<open>ce_read\<close> is
  \<^verbatim>\<open>os.ReadFile\<close> with its kinds of error. YAML, the text of JSON values, durations and the
  formatting of floating point numbers are parameters; \<open>ce_order\<close> is the order in which a
  \<^verbatim>\<open>range\<close> visits the keys of a map. \<open>ce_exec\<close> replaces the process: it returns the
  exit code of what it became. A new temporary file is written and closed under its name. \<open>ce_db\<close> is what a database file holds, \<open>ce_sha256\<close> has
  hexadecimal digits. A loop that waits is followed for \<open>ce_rounds\<close> rounds.
\<close>

record 'w cli_env =
  ce_machine :: "'w host"
  ce_read :: "string \<Rightarrow> 'w \<Rightarrow> (fs_result \<times> string) \<times> 'w"
  ce_hosts :: "string \<Rightarrow> err + hosts_file"
  ce_http :: "http_call \<Rightarrow> 'w \<Rightarrow> (int \<times> string \<times> err option) \<times> 'w"
  ce_parse :: "string \<Rightarrow> json option"
  ce_print :: "json \<Rightarrow> string"
  ce_now :: "'w \<Rightarrow> int \<times> 'w"
  ce_sleep :: "int \<Rightarrow> 'w \<Rightarrow> unit \<times> 'w"
  ce_duration :: "string \<Rightarrow> err + int"
  ce_show_duration :: "int \<Rightarrow> string"
  ce_percent :: "int \<times> int \<Rightarrow> string"
  ce_order :: "string list \<Rightarrow> string list"
  ce_random :: "nat \<Rightarrow> ('w, string) ext"
  ce_sha256 :: "string \<Rightarrow> string"
  ce_look_path :: "string \<Rightarrow> ('w, string) ext"
  ce_exec :: "string \<Rightarrow> string list \<Rightarrow> string list \<Rightarrow> ('w, int) ext"
  ce_mode :: "string \<Rightarrow> ('w, nat) ext"
  ce_create_temp :: "string \<Rightarrow> string \<Rightarrow> ('w, string) ext"
  ce_write :: "string \<Rightarrow> string \<Rightarrow> ('w, unit) ext"
  ce_close :: "string \<Rightarrow> ('w, unit) ext"
  ce_chmod :: "string \<Rightarrow> nat \<Rightarrow> ('w, unit) ext"
  ce_rename :: "string \<Rightarrow> string \<Rightarrow> ('w, unit) ext"
  ce_decoder :: decoder
  ce_open_db :: "string \<Rightarrow> ('w, unit) ext"
  ce_db :: "string \<Rightarrow> 'w \<Rightarrow> db"
  ce_set_db :: "string \<Rightarrow> db \<Rightarrow> 'w \<Rightarrow> 'w"
  ce_db_fault :: "'w \<Rightarrow> err option \<times> 'w"
  ce_goos :: string
  ce_version :: string
  ce_rounds :: nat

record 'w cli =
  cl_world :: 'w
  cl_out :: string
  cl_err :: string
  cl_http_timeout :: int
  cl_url :: string
  cl_token :: string
  cl_explicit :: bool

type_synonym ('w, 'a) cact = "('w cli, 'a) act"

definition fresh_cli :: "'w \<Rightarrow> 'w cli" where
  "fresh_cli w = \<lparr>cl_world = w, cl_out = [], cl_err = [], cl_http_timeout = 0, cl_url = [],
     cl_token = [], cl_explicit = False\<rparr>"

definition outside :: "('w, 'a) ext \<Rightarrow> ('w, 'a) cact" where
  "outside m c = (case m (cl_world c) of (r, w) \<Rightarrow> (r, c\<lparr>cl_world := w\<rparr>))"

definition asking :: "('w \<Rightarrow> 'a \<times> 'w) \<Rightarrow> ('w, 'a) cact" where
  "asking m c = (case m (cl_world c) of (a, w) \<Rightarrow> (Inr a, c\<lparr>cl_world := w\<rparr>))"

text \<open>Two statements in a row, lines on the two streams, and the ends of a command.\<close>

definition then_do :: "('s, unit) act \<Rightarrow> ('s, 'a) act \<Rightarrow> ('s, 'a) act" where
  "then_do m k = check m (\<lambda>_. k)"

definition say :: "string \<Rightarrow> ('w, unit) cact" where
  "say l = modifying (\<lambda>c. c\<lparr>cl_out := cl_out c @ l @ [newline]\<rparr>)"

definition complain :: "string \<Rightarrow> ('w, unit) cact" where
  "complain l = modifying (\<lambda>c. c\<lparr>cl_err := cl_err c @ l @ [newline]\<rparr>)"

definition quit_with :: "string \<Rightarrow> int \<Rightarrow> ('w, int) cact" where
  "quit_with l code = then_do (complain l) (ret code)"

definition tell :: "string \<Rightarrow> ('w, int) cact" where
  "tell l = then_do (say l) (ret 0)"

definition exit_ok :: int where "exit_ok = 0"
definition exit_error :: int where "exit_error = 1"
definition exit_usage :: int where "exit_usage = 2"
definition exit_not_found :: int where "exit_not_found = 3"
definition exit_exists :: int where "exit_exists = 4"
definition exit_capacity :: int where "exit_capacity = 5"
definition exit_timeout :: int where "exit_timeout = 6"

definition usage :: "('w, int) cact" where
  "usage = quit_with ''Usage: sashiki <command> ...'' exit_usage"

definition arg_error :: "string \<Rightarrow> err \<Rightarrow> ('w, int) cact" where
  "arg_error cmd e = quit_with (''sashiki '' @ cmd @ '': '' @ err_text e) exit_usage"

definition environ :: "'w cli_env \<Rightarrow> string \<Rightarrow> string" where
  "environ C n = getenv (h_environ (ce_machine C)) n"

text \<open>\<^verbatim>\<open>os.UserHomeDir\<close>\<close>

definition user_home :: "'w cli_env \<Rightarrow> err + string" where
  "user_home C = (let h = environ C ''HOME'' in if h = [] then Inl (EText ''$HOME is not defined'') else Inr h)"

section \<open>Named hosts (hosts.go)\<close>

definition hosts_file_path :: "'w cli_env \<Rightarrow> string" where
  "hosts_file_path C = (case user_home C of Inl e \<Rightarrow> [] | Inr h \<Rightarrow> h @ ''/.config/sashiki/hosts.yaml'')"

definition check_hosts :: "hosts_file \<Rightarrow> err option" where
  "check_hosts f = (case find (\<lambda>(n, h). ho_url h = []) (hf_hosts f) of
       Some (n, h) \<Rightarrow> Some (EText (''hosts.yaml: hosts.'' @ n @ '' has no url''))
     | None \<Rightarrow> if hf_default f \<noteq> [] \<and> map_of (hf_hosts f) (hf_default f) = None
         then Some (EText (''hosts.yaml: default '' @ quoted (hf_default f) @ '' is not in hosts''))
         else None)"

definition load_hosts_from :: "'w cli_env \<Rightarrow> string \<Rightarrow> ('w, hosts_file option) cact" where
  "load_hosts_from C path = check (asking (ce_read C path)) (\<lambda>(r, b). case r of
       FsNotExist e \<Rightarrow> ret None
     | FsPermission e \<Rightarrow> throw (EWrap ''hosts.yaml: '' e '''')
     | FsFailed e \<Rightarrow> throw (EWrap ''hosts.yaml: '' e '''')
     | FsOk \<Rightarrow> (case ce_hosts C b of
         Inl e \<Rightarrow> throw (EWrap ''hosts.yaml: '' e '''')
       | Inr f \<Rightarrow> (case check_hosts f of Some e \<Rightarrow> throw e | None \<Rightarrow> ret (Some f))))"

definition home_relative :: "'w cli_env \<Rightarrow> string \<Rightarrow> err + string" where
  "home_relative C p =
     (if has_prefix p ''~/'' then (case user_home C of Inl e \<Rightarrow> Inl e | Inr h \<Rightarrow> Inr (in_dir h (drop 2 p)))
      else Inr p)"

definition resolve_token :: "'w cli_env \<Rightarrow> host_entry \<Rightarrow> ('w, string) cact" where
  "resolve_token C h =
     (if ho_token_file h \<noteq> [] then (case home_relative C (ho_token_file h) of
          Inl e \<Rightarrow> throw e
        | Inr p \<Rightarrow> check (wrapping (\<lambda>e. EWrap ''token_file: '' e '''') (outside (h_read_file (ce_machine C) p)))
            (\<lambda>b. ret (trim_space b)))
      else if ho_token_env h \<noteq> [] then
        (let v = environ C (ho_token_env h) in
         if v = [] then throw (EText (''token_env '' @ ho_token_env h @ '' is empty'')) else ret v)
      else ret (ho_token h))"

definition select_entry :: "host_entry \<Rightarrow> string \<Rightarrow> bool \<Rightarrow> ('w, unit) cact" where
  "select_entry h tok explicit =
     modifying (\<lambda>c. c\<lparr>cl_url := ho_url h, cl_token := tok, cl_explicit := explicit\<rparr>)"

definition select_host :: "'w cli_env \<Rightarrow> string \<Rightarrow> ('w, unit) cact" where
  "select_host C name = check (load_hosts_from C (hosts_file_path C)) (\<lambda>hf. case hf of
       None \<Rightarrow> throw (EText (''--host '' @ name @ '': there is no '' @ hosts_file_path C))
     | Some f \<Rightarrow> (case map_of (hf_hosts f) name of
         None \<Rightarrow> throw (EText (''--host '' @ name @ '': not in hosts.yaml (known: ''
             @ join_with '', '' (sort (map fst (hf_hosts f))) @ '')''))
       | Some h \<Rightarrow> check (wrapping (\<lambda>e. EWrap (''host '' @ name @ '': '') e '''') (resolve_token C h))
           (\<lambda>tok. select_entry h tok True)))"

definition select_default_host :: "'w cli_env \<Rightarrow> ('w, unit) cact" where
  "select_default_host C = check (load_hosts_from C (hosts_file_path C)) (\<lambda>hf. case hf of
       None \<Rightarrow> ret ()
     | Some f \<Rightarrow> if hf_default f = [] then ret () else (case map_of (hf_hosts f) (hf_default f) of
         None \<Rightarrow> ret ()
       | Some h \<Rightarrow> check (wrapping (\<lambda>e. EWrap (''host '' @ hf_default f @ '': '') e '''') (resolve_token C h))
           (\<lambda>tok. select_entry h tok False)))"

section \<open>One request (main.go)\<close>

definition api_url :: "'w cli_env \<Rightarrow> 'w cli \<Rightarrow> string" where
  "api_url C c =
     (if cl_explicit c then cl_url c
      else let v = environ C ''SASHIKI_API_URL'' in
        if v \<noteq> [] then v else if cl_url c \<noteq> [] then cl_url c else ''http://127.0.0.1:8080'')"

definition token_path :: "string \<Rightarrow> string" where
  "token_path home = home @ ''/.config/sashiki/token''"

definition api_token :: "'w cli_env \<Rightarrow> ('w, string) cact" where
  "api_token C = reading (\<lambda>c. c) (\<lambda>c.
     if cl_explicit c \<and> cl_token c \<noteq> [] then ret (cl_token c)
     else let v = environ C ''SASHIKI_API_TOKEN'' in
       if v \<noteq> [] then ret v
       else if cl_token c \<noteq> [] then ret (cl_token c)
       else (case user_home C of
           Inl e \<Rightarrow> ret []
         | Inr h \<Rightarrow> handle_err (outside (h_read_file (ce_machine C) (token_path h)))
             (\<lambda>e. ret []) (\<lambda>b. ret (trim_space b))))"

definition http_timeout :: "'w cli \<Rightarrow> int" where
  "http_timeout c = (if cl_http_timeout c > 0 then cl_http_timeout c else default_wait_timeout)"

definition set_http_timeout :: "int \<Rightarrow> ('w, unit) cact" where
  "set_http_timeout d =
     modifying (\<lambda>c. if d > default_wait_timeout then c\<lparr>cl_http_timeout := d\<rparr> else c)"

text \<open>
  The body of a request: the members of a map, or none. A member that is raw text must be JSON, or
  \<^verbatim>\<open>json.Marshal\<close> fails.
\<close>

datatype arg = Value json | Raw string

definition marshal_arg :: "'w cli_env \<Rightarrow> string \<times> arg \<Rightarrow> (string \<times> json) option" where
  "marshal_arg C kv = (case snd kv of
       Value j \<Rightarrow> Some (fst kv, j)
     | Raw t \<Rightarrow> map_option (Pair (fst kv)) (ce_parse C t))"

fun all_some :: "'a option list \<Rightarrow> 'a list option" where
  "all_some [] = Some []"
| "all_some (None # xs) = None"
| "all_some (Some x # xs) = map_option ((#) x) (all_some xs)"

definition marshal :: "'w cli_env \<Rightarrow> (string \<times> arg) list option \<Rightarrow> err + json option" where
  "marshal C body = (case body of
       None \<Rightarrow> Inr None
     | Some kvs \<Rightarrow> (case all_some (map (marshal_arg C) (sort_key fst kvs)) of
         None \<Rightarrow> Inl (EText ''json: error calling MarshalJSON for type json.RawMessage'')
       | Some ms \<Rightarrow> Inr (Some (JObj ms))))"

type_synonym reply = "int \<times> string \<times> err option"

definition call_with ::
  "'w cli_env \<Rightarrow> string \<Rightarrow> string \<Rightarrow> string \<Rightarrow> string \<Rightarrow> (string \<times> arg) list option \<Rightarrow> ('w, reply) cact" where
  "call_with C base token method path body = (case marshal C body of
       Inl e \<Rightarrow> ret (0, [], Some e)
     | Inr b \<Rightarrow> reading http_timeout (\<lambda>t. asking (ce_http C \<lparr>hq_url = base @ path, hq_method = method,
         hq_headers = (''Content-Type'', ''application/json'')
           # (if token \<noteq> [] then [(''Authorization'', ''Bearer '' @ token)] else []),
         hq_timeout = t, hq_body = b\<rparr>)))"

definition call_api ::
  "'w cli_env \<Rightarrow> string \<Rightarrow> string \<Rightarrow> (string \<times> arg) list option \<Rightarrow> ('w, reply) cact" where
  "call_api C method path body = reading (api_url C) (\<lambda>u. check (api_token C) (\<lambda>t.
     call_with C u t method path body))"

end
