(* ===== verification/CliViews.thy ===== *)
theory CliViews
  imports CliClient
begin

text \<open>
  cmd/sashiki: reading the answers of the API and printing them. \<^verbatim>\<open>json.Unmarshal\<close> goes on after
  a value of the wrong type: the other fields are set, and the error is returned at the end. A decoder
  takes a value and what the field holds, and answers what it then holds and whether the type was right.
\<close>

section \<open>json.Unmarshal into a struct\<close>

type_synonym 'a dec = "json \<Rightarrow> 'a \<Rightarrow> 'a \<times> bool"

definition str_dec :: "string dec" where
  "str_dec v cur = (case v of JStr s \<Rightarrow> (s, True) | JNull \<Rightarrow> (cur, True) | _ \<Rightarrow> (cur, False))"

definition int_dec :: "int dec" where
  "int_dec v cur = (case v of
      JInt i \<Rightarrow> if - (2 ^ 63) \<le> i \<and> i < 2 ^ 63 then (i, True) else (cur, False)
    | JNull \<Rightarrow> (cur, True) | _ \<Rightarrow> (cur, False))"

definition bool_dec :: "bool dec" where
  "bool_dec v cur = (case v of JBool b \<Rightarrow> (b, True) | JNull \<Rightarrow> (cur, True) | _ \<Rightarrow> (cur, False))"

definition ratio_dec :: "(int \<times> int) dec" where
  "ratio_dec v cur = (case v of
      JInt i \<Rightarrow> ((i, 1), True) | JRatio r \<Rightarrow> (r, True) | JNull \<Rightarrow> (cur, True) | _ \<Rightarrow> (cur, False))"

text \<open>A pointer is set before the type of the value is looked at, and null resets it.\<close>

definition ptr_dec :: "'a \<Rightarrow> 'a dec \<Rightarrow> 'a option dec" where
  "ptr_dec zero d v cur =
     (if v = JNull then (None, True)
      else (case d v (case cur of None \<Rightarrow> zero | Some x \<Rightarrow> x) of (x, ok) \<Rightarrow> (Some x, ok)))"

text \<open>A slice is nil, which null makes it and which is written as null, or it has items.\<close>

type_synonym 'a go_slice = "'a list option"

definition items :: "'a go_slice \<Rightarrow> 'a list" where
  "items v = (case v of None \<Rightarrow> [] | Some xs \<Rightarrow> xs)"

definition list_dec :: "'a \<Rightarrow> 'a dec \<Rightarrow> 'a go_slice dec" where
  "list_dec zero d v cur = (case v of
      JNull \<Rightarrow> (None, True)
    | JList vs \<Rightarrow> (let rs = map (\<lambda>x. d x zero) vs in (Some (map fst rs), list_all snd rs))
    | _ \<Rightarrow> (cur, False))"

definition put_key :: "'k \<Rightarrow> 'v \<Rightarrow> ('k \<times> 'v) list \<Rightarrow> ('k \<times> 'v) list" where
  "put_key k v kvs = filter (\<lambda>p. fst p \<noteq> k) kvs @ [(k, v)]"

definition map_dec :: "'a \<Rightarrow> 'a dec \<Rightarrow> (string \<times> 'a) list dec" where
  "map_dec zero d v cur = (case v of
      JNull \<Rightarrow> ([], True)
    | JObj ms \<Rightarrow> fold (\<lambda>(k, x) (kvs, ok). case d x zero of (y, ok') \<Rightarrow> (put_key k y kvs, ok \<and> ok')) ms (cur, True)
    | _ \<Rightarrow> (cur, False))"

text \<open>A field of a struct: every member whose key folds to its name, in order.\<close>

fun field_dec :: "string \<Rightarrow> 'a dec \<Rightarrow> (string \<times> json) list \<Rightarrow> 'a \<Rightarrow> 'a \<times> bool" where
  "field_dec key d [] cur = (cur, True)"
| "field_dec key d ((k, v) # ms) cur =
     (if equal_fold k key
      then (case d v cur of (x, ok) \<Rightarrow> case field_dec key d ms x of (y, ok') \<Rightarrow> (y, ok \<and> ok'))
      else field_dec key d ms cur)"

text \<open>A field of a nested struct.\<close>

definition in_struct :: "string \<Rightarrow> 'a dec \<Rightarrow> 'a dec" where
  "in_struct key d v cur = (case v of
      JObj ms \<Rightarrow> field_dec key d ms cur | JNull \<Rightarrow> (cur, True) | _ \<Rightarrow> (cur, False))"

text \<open>The members the answer offers: none for null, an error for another value.\<close>

definition members_of :: "json \<Rightarrow> (string \<times> json) list \<times> bool" where
  "members_of v = (case v of JObj ms \<Rightarrow> (ms, True) | JNull \<Rightarrow> ([], True) | _ \<Rightarrow> ([], False))"

definition str_in :: "string \<Rightarrow> (string \<times> json) list \<Rightarrow> string \<times> bool" where
  "str_in key ms = field_dec key str_dec ms []"

definition int_in :: "string \<Rightarrow> (string \<times> json) list \<Rightarrow> int \<times> bool" where
  "int_in key ms = field_dec key int_dec ms 0"

definition bool_in :: "string \<Rightarrow> (string \<times> json) list \<Rightarrow> bool \<times> bool" where
  "bool_in key ms = field_dec key bool_dec ms False"

definition ptr_in :: "string \<Rightarrow> (string \<times> json) list \<Rightarrow> string option \<times> bool" where
  "ptr_in key ms = field_dec key (ptr_dec [] str_dec) ms None"

definition strs_in :: "string \<Rightarrow> (string \<times> json) list \<Rightarrow> string go_slice \<times> bool" where
  "strs_in key ms = field_dec key (list_dec [] str_dec) ms None"

text \<open>\<^verbatim>\<open>json.Unmarshal(data, &x)\<close>: text that is no JSON leaves \<open>x\<close> as it was.\<close>

definition unmarshal :: "'w cli_env \<Rightarrow> 'a dec \<Rightarrow> 'a \<Rightarrow> string \<Rightarrow> 'a \<times> bool" where
  "unmarshal C d zero data = (case ce_parse C data of None \<Rightarrow> (zero, False) | Some v \<Rightarrow> d v zero)"

section \<open>The views\<close>

record branch_view =
  bv_name :: string
  bv_state :: string
  bv_port :: int
  bv_engine_port :: int
  bv_host :: string
  bv_user :: string
  bv_profile :: string
  bv_created :: string
  bv_last_conn :: "string option"
  bv_expires :: "string option"
  bv_used :: int
  bv_logical :: int
  bv_engine :: string
  bv_error :: string
  bv_failed_op :: string
  bv_error_code :: string
  bv_recoverable :: bool
  bv_suggestions :: "string go_slice"
  bv_stale :: bool
  bv_backing :: "string go_slice"

definition branch_view_of :: "(string \<times> json) list \<Rightarrow> branch_view" where
  "branch_view_of ms =
     \<lparr>bv_name = fst (str_in ''name'' ms), bv_state = fst (str_in ''state'' ms),
      bv_port = fst (int_in ''port'' ms), bv_engine_port = fst (int_in ''engine_port'' ms),
      bv_host = fst (str_in ''host'' ms), bv_user = fst (str_in ''user'' ms),
      bv_profile = fst (str_in ''profile'' ms), bv_created = fst (str_in ''created_at'' ms),
      bv_last_conn = fst (ptr_in ''last_conn_at'' ms), bv_expires = fst (ptr_in ''expires_at'' ms),
      bv_used = fst (int_in ''used_bytes'' ms), bv_logical = fst (int_in ''logical_bytes'' ms),
      bv_engine = fst (str_in ''engine'' ms), bv_error = fst (str_in ''error'' ms),
      bv_failed_op = fst (str_in ''failed_operation'' ms), bv_error_code = fst (str_in ''error_code'' ms),
      bv_recoverable = fst (bool_in ''recoverable'' ms),
      bv_suggestions = fst (strs_in ''suggested_actions'' ms),
      bv_stale = fst (bool_in ''stale'' ms), bv_backing = fst (strs_in ''backing_baselines'' ms)\<rparr>"

definition branch_view_ok :: "(string \<times> json) list \<Rightarrow> bool" where
  "branch_view_ok ms \<longleftrightarrow>
     list_all (\<lambda>k. snd (str_in k ms)) [''name'', ''state'', ''host'', ''user'', ''profile'', ''created_at'',
       ''engine'', ''error'', ''failed_operation'', ''error_code'']
   \<and> list_all (\<lambda>k. snd (int_in k ms)) [''port'', ''engine_port'', ''used_bytes'', ''logical_bytes'']
   \<and> list_all (\<lambda>k. snd (ptr_in k ms)) [''last_conn_at'', ''expires_at'']
   \<and> list_all (\<lambda>k. snd (bool_in k ms)) [''recoverable'', ''stale'']
   \<and> list_all (\<lambda>k. snd (strs_in k ms)) [''suggested_actions'', ''backing_baselines'']"

definition branch_dec :: "branch_view dec" where
  "branch_dec v cur = (case v of
      JObj ms \<Rightarrow> (branch_view_of ms, branch_view_ok ms) | JNull \<Rightarrow> (cur, True) | _ \<Rightarrow> (cur, False))"

definition no_branch :: branch_view where
  "no_branch = branch_view_of []"

definition read_branch :: "'w cli_env \<Rightarrow> string \<Rightarrow> branch_view \<times> bool" where
  "read_branch C = unmarshal C branch_dec no_branch"

record op_view =
  ov_id :: string
  ov_type :: string
  ov_target :: string
  ov_state :: string
  ov_started :: string
  ov_finished :: "string option"
  ov_error :: string
  ov_error_code :: string

definition op_view_of :: "(string \<times> json) list \<Rightarrow> op_view" where
  "op_view_of ms = \<lparr>ov_id = fst (str_in ''operation_id'' ms), ov_type = fst (str_in ''type'' ms),
     ov_target = fst (str_in ''target'' ms), ov_state = fst (str_in ''state'' ms),
     ov_started = fst (str_in ''started_at'' ms), ov_finished = fst (ptr_in ''finished_at'' ms),
     ov_error = fst (str_in ''error'' ms), ov_error_code = fst (str_in ''error_code'' ms)\<rparr>"

definition op_dec :: "op_view dec" where
  "op_dec v cur = (case v of
      JObj ms \<Rightarrow> (op_view_of ms, list_all (\<lambda>k. snd (str_in k ms)) [''operation_id'', ''type'', ''target'',
          ''state'', ''started_at'', ''error'', ''error_code''] \<and> snd (ptr_in ''finished_at'' ms))
    | JNull \<Rightarrow> (cur, True) | _ \<Rightarrow> (cur, False))"

definition read_op :: "'w cli_env \<Rightarrow> string \<Rightarrow> op_view" where
  "read_op C data = fst (unmarshal C op_dec (op_view_of []) data)"

text \<open>One field of the answer, for the structs a function declares for it alone.\<close>

definition read_field :: "'w cli_env \<Rightarrow> string \<Rightarrow> 'a dec \<Rightarrow> 'a \<Rightarrow> string \<Rightarrow> 'a" where
  "read_field C key d zero data = fst (unmarshal C (in_struct key d) zero data)"

section \<open>Errors and exit codes\<close>

definition api_error :: "'w cli_env \<Rightarrow> string \<Rightarrow> string" where
  "api_error C data = (case ce_parse C data of
       None \<Rightarrow> data
     | Some v \<Rightarrow>
        (let (code, ok1) = in_struct ''error'' (in_struct ''code'' str_dec) v [];
             (msg, ok2) = in_struct ''error'' (in_struct ''message'' str_dec) v [] in
         if ok1 \<and> ok2 \<and> msg \<noteq> [] then msg else data))"

definition call_err :: "'w cli_env \<Rightarrow> err option \<Rightarrow> string \<Rightarrow> string" where
  "call_err C e data = (case e of Some e \<Rightarrow> err_text e | None \<Rightarrow> api_error C data)"

definition status_to_exit :: "int \<Rightarrow> int" where
  "status_to_exit code =
     (if code = 404 then exit_not_found else if code = 409 then exit_exists
      else if code = 507 then exit_capacity else exit_error)"

text \<open>
  The shape of most commands: a failed call is exit 1, a status other than the one expected prints
  the message of the body and exits as the status says.
\<close>

definition on_reply ::
  "'w cli_env \<Rightarrow> int \<Rightarrow> reply \<Rightarrow> (string \<Rightarrow> ('w, int) cact) \<Rightarrow> ('w, int) cact" where
  "on_reply C want r k = (case r of (code, data, e) \<Rightarrow> (case e of
       Some e \<Rightarrow> quit_with (''sashiki: '' @ err_text e) exit_error
     | None \<Rightarrow> if code \<noteq> want then quit_with (''sashiki: '' @ api_error C data) (status_to_exit code)
         else k data))"

section \<open>Waiting for an operation (wait.go)\<close>

definition operation_id_from :: "'w cli_env \<Rightarrow> string \<Rightarrow> string" where
  "operation_id_from C = read_field C ''operation_id'' str_dec []"

definition operation_path :: "string \<Rightarrow> string" where
  "operation_path i = ''/v1/operations/'' @ i"

datatype poll_end = PollDone string string | PollCut err | PollStatus int string | PollTimeout err

definition out_of_rounds :: err where
  "out_of_rounds = EText ''the waiting loop was followed no further''"

text \<open>\<^verbatim>\<open>pollOperation\<close>\<close>

primrec poll_rounds :: "'w cli_env \<Rightarrow> string \<Rightarrow> int \<Rightarrow> int \<Rightarrow> int \<Rightarrow> nat \<Rightarrow> ('w, poll_end) cact" where
  "poll_rounds C i timeout interval deadline 0 = throw out_of_rounds"
| "poll_rounds C i timeout interval deadline (Suc n) = check (asking (ce_now C)) (\<lambda>now.
     if now < deadline then check (call_api C ''GET'' (operation_path i) None) (\<lambda>(code, data, e).
       case e of Some e \<Rightarrow> ret (PollCut e)
       | None \<Rightarrow> if code \<noteq> 200 then ret (PollStatus code (api_error C data))
           else let o_v = read_op C data in
             if ov_state o_v \<noteq> ''running'' \<and> ov_state o_v \<noteq> [] then ret (PollDone (ov_state o_v) (ov_error o_v))
             else check (asking (ce_sleep C interval)) (\<lambda>_. poll_rounds C i timeout interval deadline n))
     else ret (PollTimeout (EText (''wait timed out after '' @ ce_show_duration C timeout @ '' (operation ''
       @ i @ '' is still running)''))))"

definition poll_operation :: "'w cli_env \<Rightarrow> string \<Rightarrow> int \<Rightarrow> int \<Rightarrow> ('w, poll_end) cact" where
  "poll_operation C i timeout interval = check (asking (ce_now C)) (\<lambda>now.
     poll_rounds C i timeout interval (now + timeout) (ce_rounds C))"

text \<open>\<^verbatim>\<open>awaitMutation\<close>: whether the operation completed, and the exit code when not.\<close>

definition await_mutation :: "'w cli_env \<Rightarrow> string \<Rightarrow> wait_args \<Rightarrow> ('w, bool \<times> int) cact" where
  "await_mutation C data w = (let i = operation_id_from C data in
     if i = [] then then_do (complain ''sashiki: no operation_id in the answer'') (ret (False, exit_error))
     else if wa_no_wait w then then_do (say i) (ret (False, exit_ok))
     else check (poll_operation C i (wa_timeout w) (wa_interval w)) (\<lambda>r. case r of
         PollTimeout e \<Rightarrow> then_do (complain (''sashiki: '' @ err_text e)) (ret (False, exit_timeout))
       | PollStatus code msg \<Rightarrow> then_do (complain (''sashiki: '' @ msg)) (ret (False, status_to_exit code))
       | PollCut e \<Rightarrow> then_do (complain (''sashiki: '' @ err_text e)) (ret (False, exit_error))
       | PollDone st msg \<Rightarrow>
           if st \<noteq> ''completed'' then
             then_do (if msg \<noteq> [] then complain (''sashiki: '' @ msg) else ret ()) (ret (False, exit_error))
           else ret (True, exit_ok)))"

definition wait_flags :: "'w cli_env \<Rightarrow> string list \<Rightarrow> (wait_args \<Rightarrow> ('w, int) cact) \<Rightarrow> ('w, int) cact" where
  "wait_flags C args k = (case extract_wait_flags (ce_duration C) args of
       Inl e \<Rightarrow> quit_with (''sashiki: '' @ err_text e) exit_usage
     | Inr w \<Rightarrow> then_do (set_http_timeout (wa_timeout w)) (k w))"

text \<open>An accepted operation: wait for it, then go on, or end with the exit code of the wait.\<close>

definition when_done :: "'w cli_env \<Rightarrow> string \<Rightarrow> wait_args \<Rightarrow> ('w, int) cact \<Rightarrow> ('w, int) cact" where
  "when_done C data w k = check (await_mutation C data w) (\<lambda>(done, exit). if done then k else ret exit)"

section \<open>Printing\<close>

text \<open>\<^verbatim>\<open>strconv.Quote\<close> of printable ASCII text; other characters are left out of account.\<close>

definition go_quote :: "string \<Rightarrow> string" where
  "go_quote s = quoted (concat (map (\<lambda>c. if c = CHR 0x22 \<or> c = CHR 0x5C then [CHR 0x5C, c] else [c]) s))"

definition bracketed :: "string list \<Rightarrow> string" where
  "bracketed xs = ''['' @ join_with '' '' xs @ '']''"

text \<open>
  \<^verbatim>\<open>tabwriter\<close> with a padding of two, on lines of equally many cells without tabs or line breaks:
  every cell but the last is filled to the widest of its column, counted in characters of UTF-8.
\<close>

definition rune_count :: "string \<Rightarrow> nat" where
  "rune_count s = length (filter (\<lambda>c. (of_char c :: nat) div 64 \<noteq> 2) s)"

definition column_width :: "string list list \<Rightarrow> nat \<Rightarrow> nat" where
  "column_width rows i = foldr (\<lambda>r m. max (rune_count (r ! i)) m) rows 0 + 2"

definition table_line :: "nat list \<Rightarrow> string list \<Rightarrow> string" where
  "table_line ws r = concat (map (\<lambda>(w, c). c @ replicate (w - rune_count c) (CHR '' '')) (zip ws (butlast r))) @ last r"

definition say_table :: "string list list \<Rightarrow> ('w, unit) cact" where
  "say_table rows = (let ws = map (column_width rows) [0..<length (hd rows) - 1] in
     modifying (\<lambda>c. c\<lparr>cl_out := cl_out c @ concat (map (\<lambda>r. table_line ws r @ [newline]) rows)\<rparr>))"

text \<open>
  \<^verbatim>\<open>humanBytes\<close>: the quotient of two floats and its first decimal, both rounded to the nearest,
  halves to even. The unit is a power of two, so only the conversion of \<open>n\<close> rounds before.
\<close>

definition round_div :: "int \<Rightarrow> int \<Rightarrow> int" where
  "round_div a b = (let q = a div b; r = a mod b in
     if 2 * r > b \<or> 2 * r = b \<and> odd q then q + 1 else q)"

fun float_of :: "nat \<Rightarrow> int \<Rightarrow> int" where
  "float_of 0 n = n"
| "float_of (Suc k) n = (if n < 2 ^ (53 + k) then float_of k n else round_div n (2 ^ (Suc k)) * 2 ^ (Suc k))"

fun unit_of :: "nat \<Rightarrow> int \<Rightarrow> int \<Rightarrow> nat \<Rightarrow> int \<times> nat" where
  "unit_of 0 m d e = (d, e)"
| "unit_of (Suc k) m d e = (if m \<ge> 1024 then unit_of k (m div 1024) (d * 1024) (Suc e) else (d, e))"

definition human_bytes :: "int \<Rightarrow> string" where
  "human_bytes n =
     (if n < 0 then ''-''
      else if n < 1024 then show_int n @ ''B''
      else (case unit_of 7 (n div 1024) 1024 0 of (d, e) \<Rightarrow>
        let t = round_div (10 * float_of 10 n) d in
        show_int (t div 10) @ ''.'' @ show_int (t mod 10) @ [''KMGTPE'' ! e]))"

end
