(* ===== verification/CliCommands.thy ===== *)
theory CliCommands
  imports CliViews
begin

text \<open>
  cmd/sashiki: the commands that call the API (main.go, op.go, hooks.go, drain.go, capacity.go,
  doctor.go, and the part of baseline.go behind the API), and \<^verbatim>\<open>env\<close> with its files (envurl.go).
\<close>

definition parsing :: "err + 'a \<Rightarrow> string \<Rightarrow> ('a \<Rightarrow> ('w, int) cact) \<Rightarrow> ('w, int) cact" where
  "parsing r cmd k = (case r of Inl e \<Rightarrow> arg_error cmd e | Inr a \<Rightarrow> k a)"

text \<open>A command on one branch: exactly one position, or the usage.\<close>

definition one_branch :: "string list \<Rightarrow> (string \<Rightarrow> ('w, int) cact) \<Rightarrow> ('w, int) cact" where
  "one_branch pos k = (case pos of [p] \<Rightarrow> k p | _ \<Rightarrow> usage)"

definition branch_path :: "string \<Rightarrow> string" where
  "branch_path n = ''/v1/branches/'' @ n"

definition ticks :: "string \<Rightarrow> string" where
  "ticks s = [CHR 0x27] @ s @ [CHR 0x27]"

definition branch_said :: "string \<Rightarrow> string \<Rightarrow> string" where
  "branch_said name what = ''branch '' @ ticks name @ '' '' @ what"

section \<open>Creating and changing a branch\<close>

definition connect_hint :: "branch_view \<Rightarrow> string" where
  "connect_hint b =
     (if bv_engine b = ''postgres'' then
        ''psql -h '' @ bv_host b @ '' -p '' @ show_int (bv_port b) @ '' -U '' @ ticks (bv_user b) @ '' -d <db>''
      else ''mysql -u'' @ bv_user b @ '' -h '' @ bv_host b @ '' -P'' @ show_int (bv_port b))"

definition print_created_branch :: "'w cli_env \<Rightarrow> string \<Rightarrow> bool \<Rightarrow> ('w, int) cact" where
  "print_created_branch C data json_out =
     (if json_out then tell data
      else let b = fst (read_branch C data) in
        tell (branch_said (bv_name b) ''ready: '' @ connect_hint b))"

definition create_body :: "create_args \<Rightarrow> string \<Rightarrow> (string \<times> arg) list" where
  "create_body a name =
     [(''name'', Value (JStr name)), (''port'', Value (JInt (cra_port a)))]
     @ map (\<lambda>k. (k, Value (JStr (opt_of (cra_kv a) k))))
         (filter (\<lambda>k. opt_of (cra_kv a) k \<noteq> []) [''owner'', ''purpose'', ''profile'', ''ttl'', ''baseline''])
     @ (let v = opt_of (cra_kv a) ''expires-at'' in if v \<noteq> [] then [(''expires_at'', Value (JStr v))] else [])
     @ (let v = opt_of (cra_kv a) ''source'' in if v \<noteq> [] then [(''source'', Raw v)] else [])"

definition show_created :: "'w cli_env \<Rightarrow> string \<Rightarrow> bool \<Rightarrow> ('w, int) cact" where
  "show_created C name json_out = check (call_api C ''GET'' (branch_path name) None) (\<lambda>(code, data, e).
     if e \<noteq> None \<or> code \<noteq> 200 then
       then_do (complain (''sashiki: warning: created, but it could not be read (sashiki show ''
           @ name @ ''): '' @ call_err C e data))
         (if json_out then ret exit_error else tell (branch_said name ''ready''))
     else print_created_branch C data json_out)"

definition cmd_create :: "'w cli_env \<Rightarrow> string list \<Rightarrow> ('w, int) cact" where
  "cmd_create C args = wait_flags C args (\<lambda>w. case parse_flags_kv (wa_rest w) of
       Inl e \<Rightarrow> quit_with (''sashiki: '' @ err_text e) exit_usage
     | Inr a \<Rightarrow> one_branch (cra_pos a) (\<lambda>name.
         check (call_api C ''POST'' (''/v1/branches''
             @ (if opt_of (cra_kv a) ''exist-ok'' = ''true'' then ''?exist_ok=true'' else []))
           (Some (create_body a name))) (\<lambda>(code, data, e). case e of
             Some e \<Rightarrow> quit_with (''sashiki: '' @ err_text e) exit_error
           | None \<Rightarrow>
               if code = 200 then print_created_branch C data (cra_json a)
               else if code = 202 then when_done C data w (show_created C name (cra_json a))
               else quit_with (''sashiki: '' @ api_error C data) (status_to_exit code))))"

definition cmd_delete :: "'w cli_env \<Rightarrow> string list \<Rightarrow> ('w, int) cact" where
  "cmd_delete C args = wait_flags C args (\<lambda>w. parsing (parse_flags (wa_rest w)) ''delete'' (\<lambda>(pos, json_out).
     one_branch pos (\<lambda>name. check (call_api C ''DELETE'' (branch_path name) None) (\<lambda>r.
       on_reply C 202 r (\<lambda>data. when_done C data w
         (tell (if json_out then ''{\"name\":'' @ go_quote name @ '',\"deleted\":true}''
                else branch_said name ''deleted'')))))))"

text \<open>\<^verbatim>\<open>lease renew\<close>\<close>

definition lease_body :: "lease_args \<Rightarrow> (string \<times> arg) list" where
  "lease_body l = (if la_until l \<noteq> [] then [(''until'', Value (JStr (la_until l)))]
     else [(''for'', Value (JStr (la_for l)))])"

definition cmd_lease_renew :: "'w cli_env \<Rightarrow> string list \<Rightarrow> ('w, int) cact" where
  "cmd_lease_renew C rest =
     (case lease_flags rest \<lparr>la_name = [], la_for = [], la_until = [], la_json = False\<rparr> of
        Inl e \<Rightarrow> quit_with (err_text e) exit_usage
      | Inr l \<Rightarrow>
          if la_name l = [] \<or> la_for l = [] \<and> la_until l = [] then
            then_do (complain ''usage: sashiki lease renew <name> (--for <dur> | --until <RFC3339>)'') usage
          else if la_for l \<noteq> [] \<and> la_until l \<noteq> [] then
            quit_with ''sashiki lease: --for and --until exclude each other'' exit_usage
          else check (call_api C ''POST'' (branch_path (la_name l) @ ''/lease'') (Some (lease_body l))) (\<lambda>r.
            on_reply C 200 r (\<lambda>data.
              if la_json l then tell data
              else tell (branch_said (la_name l) ''lease renewed: expires_at=''
                @ (case bv_expires (fst (read_branch C data)) of None \<Rightarrow> ''(none)'' | Some t \<Rightarrow> t)))))"

definition cmd_lease :: "'w cli_env \<Rightarrow> string list \<Rightarrow> ('w, int) cact" where
  "cmd_lease C args =
     (let bad = then_do (complain ''usage: sashiki lease renew <name> --for <dur>'') usage in
      case args of [] \<Rightarrow> bad
      | a # rest \<Rightarrow> if a \<noteq> ''renew'' then bad else cmd_lease_renew C rest)"

definition cmd_sync_branch :: "'w cli_env \<Rightarrow> string list \<Rightarrow> string \<Rightarrow> ('w, int) cact" where
  "cmd_sync_branch C args action = parsing (parse_flags args) action (\<lambda>(pos, json_out).
     one_branch pos (\<lambda>name.
       check (call_api C ''POST'' (branch_path name @ ''/'' @ action) None) (\<lambda>r.
         on_reply C 200 r (\<lambda>data.
           tell (if json_out then data else branch_said name [] @ action)))))"

text \<open>\<^verbatim>\<open>reset\<close> warns of a branch whose origin is older than the current baseline.\<close>

definition warn_stale :: "'w cli_env \<Rightarrow> string \<Rightarrow> ('w, unit) cact" where
  "warn_stale C name = check (call_api C ''GET'' (branch_path name) None) (\<lambda>(code, data, e).
     case read_branch C data of (b, ok) \<Rightarrow>
       if e = None \<and> ok \<and> bv_stale b then
         complain (''warning: the origin of '' @ ticks name @ '' is older than the current baseline; ''
           @ ''reset goes back to it, recreate takes the newest'')
       else ret ())"

definition show_changed :: "'w cli_env \<Rightarrow> string \<Rightarrow> string \<Rightarrow> ('w, int) cact" where
  "show_changed C action name = check (call_api C ''GET'' (branch_path name) None) (\<lambda>(code, data, e).
     if e \<noteq> None \<or> code \<noteq> 200 then
       quit_with (''sashiki: '' @ action @ '' finished, but reading failed: '' @ call_err C e data) exit_error
     else tell data)"

definition cmd_simple_branch :: "'w cli_env \<Rightarrow> string list \<Rightarrow> string \<Rightarrow> ('w, int) cact" where
  "cmd_simple_branch C args action = wait_flags C args (\<lambda>w.
     parsing (parse_flags (wa_rest w)) action (\<lambda>(pos, json_out). one_branch pos (\<lambda>name.
       then_do (if action = ''reset'' then warn_stale C name else ret ())
         (check (call_api C ''POST'' (branch_path name @ ''/'' @ action) None) (\<lambda>r.
           on_reply C 202 r (\<lambda>data. when_done C data w
             (if json_out then show_changed C action name
              else tell (branch_said name [] @ action))))))))"

section \<open>All hosts\<close>

record host_result =
  hr_name :: string
  hr_code :: int
  hr_data :: string
  hr_err :: "err option"

definition fan_one :: "'w cli_env \<Rightarrow> string \<Rightarrow> string \<times> host_entry \<Rightarrow> host_result list \<Rightarrow> ('w, host_result list) cact" where
  "fan_one C path h acc = attempt (resolve_token C (snd h)) (\<lambda>r. case r of
       Inl e \<Rightarrow> ret (acc @ [\<lparr>hr_name = fst h, hr_code = 0, hr_data = [], hr_err = Some e\<rparr>])
     | Inr tok \<Rightarrow> check (call_with C (ho_url (snd h)) tok ''GET'' path None) (\<lambda>(code, data, e).
         ret (acc @ [\<lparr>hr_name = fst h, hr_code = code, hr_data = data, hr_err = e\<rparr>])))"

definition fan_out :: "'w cli_env \<Rightarrow> string \<Rightarrow> ('w, host_result list) cact" where
  "fan_out C path = check (load_hosts_from C (hosts_file_path C)) (\<lambda>hf.
     let hosts = (case hf of None \<Rightarrow> [] | Some f \<Rightarrow> hf_hosts f) in
     if hosts = [] then throw (EText (''--all-hosts: no host is registered in '' @ hosts_file_path C))
     else fold_act (fan_one C path) (sort_key fst hosts) [])"

definition answered :: "host_result \<Rightarrow> bool" where
  "answered r \<longleftrightarrow> hr_err r = None \<and> hr_code r = 200"

definition failure_line :: "'w cli_env \<Rightarrow> host_result \<Rightarrow> string" where
  "failure_line C r = hr_name r @ '': '' @ call_err C (hr_err r) (hr_data r)"

text \<open>It warns of the hosts that did not answer, and tells whether none did.\<close>

definition report_partial_failure :: "'w cli_env \<Rightarrow> host_result list \<Rightarrow> ('w, bool) cact" where
  "report_partial_failure C rs =
     (let ok = length (filter answered rs); failed = filter (\<lambda>r. \<not> answered r) rs in
      then_do (if failed = [] then ret ()
         else modifying (\<lambda>c. c\<lparr>cl_err := cl_err c @ ''warning: '' @ show_nat ok @ '' of ''
           @ show_nat (length rs) @ '' hosts answered:'' @ [newline]
           @ concat (map (\<lambda>r. ''  '' @ failure_line C r @ [newline]) failed)\<rparr>))
       (ret (ok = 0)))"

section \<open>Reading branches\<close>

definition last_or_dash :: "branch_view \<Rightarrow> string" where
  "last_or_dash b = (case bv_last_conn b of None \<Rightarrow> ''-'' | Some t \<Rightarrow> t)"

definition list_row :: "branch_view \<Rightarrow> string list" where
  "list_row b = [bv_name b @ (if bv_stale b then ''*'' else []) @ (if items (bv_backing b) \<noteq> [] then ''!'' else []),
     show_int (bv_port b), bv_state b, last_or_dash b, human_bytes (bv_used b)]"

definition read_branches :: "'w cli_env \<Rightarrow> string \<Rightarrow> branch_view list" where
  "read_branches C data = items (read_field C ''branches'' (list_dec no_branch branch_dec) None data)"

definition json_slice :: "('a \<Rightarrow> json) \<Rightarrow> 'a go_slice \<Rightarrow> json" where
  "json_slice f v = (case v of None \<Rightarrow> JNull | Some xs \<Rightarrow> JList (map f xs))"

text \<open>The members of a view as \<^verbatim>\<open>json.Marshal\<close> writes them.\<close>

definition branch_members :: "branch_view \<Rightarrow> json" where
  "branch_members b = (let opt = (\<lambda>v. case v of None \<Rightarrow> JNull | Some s \<Rightarrow> JStr s);
       strs = json_slice JStr in
     JObj [(''name'', JStr (bv_name b)), (''state'', JStr (bv_state b)), (''port'', JInt (bv_port b)),
       (''engine_port'', JInt (bv_engine_port b)), (''host'', JStr (bv_host b)), (''user'', JStr (bv_user b)),
       (''profile'', JStr (bv_profile b)), (''created_at'', JStr (bv_created b)),
       (''last_conn_at'', opt (bv_last_conn b)), (''expires_at'', opt (bv_expires b)),
       (''used_bytes'', JInt (bv_used b)), (''logical_bytes'', JInt (bv_logical b)),
       (''engine'', JStr (bv_engine b)), (''error'', JStr (bv_error b)),
       (''failed_operation'', JStr (bv_failed_op b)), (''error_code'', JStr (bv_error_code b)),
       (''recoverable'', JBool (bv_recoverable b)), (''suggested_actions'', strs (bv_suggestions b)),
       (''stale'', JBool (bv_stale b)), (''backing_baselines'', strs (bv_backing b))])"

text \<open>What a host answered: its own name, else empty, and its branches; \<open>None\<close> when it cannot be decoded.\<close>

definition host_branches :: "'w cli_env \<Rightarrow> host_result \<Rightarrow> (string \<times> string \<times> branch_view go_slice) option" where
  "host_branches C r =
     (case unmarshal C (in_struct ''host_name'' str_dec) [] (hr_data r) of (n, ok1) \<Rightarrow>
      case unmarshal C (in_struct ''branches'' (list_dec no_branch branch_dec)) None (hr_data r) of (bs, ok2) \<Rightarrow>
        if answered r \<and> ok1 \<and> ok2 then Some (hr_name r, n, bs) else None)"

definition host_label :: "string \<Rightarrow> string \<Rightarrow> string" where
  "host_label key name = (if name = [] then key else name)"

definition named_host :: "string \<Rightarrow> string \<Rightarrow> (string \<times> json) list" where
  "named_host key name = (''host'', JStr key) # (if name = [] then [] else [(''host_name'', JStr name)])"

definition list_all_hosts :: "'w cli_env \<Rightarrow> bool \<Rightarrow> ('w, int) cact" where
  "list_all_hosts C json_out = handle_err (fan_out C ''/v1/branches'')
     (\<lambda>e. quit_with (''sashiki: '' @ err_text e) exit_usage)
     (\<lambda>rs. let merged = List.map_filter (host_branches C) rs in
       check (report_partial_failure C rs) (\<lambda>all_failed.
         if all_failed then ret exit_error
         else if json_out then tell (ce_print C (JObj [(''hosts'', json_slice (\<lambda>(k, n, bs).
             JObj (named_host k n @ [(''branches'', json_slice branch_members bs)]))
               (if merged = [] then None else Some merged))]))
         else then_do (say_table ([''HOST'', ''NAME'', ''PORT'', ''STATE'', ''LAST_CONN'', ''USED'']
             # concat (map (\<lambda>(k, n, bs). map (\<lambda>b. [host_label k n, bv_name b, show_int (bv_port b),
                 bv_state b, last_or_dash b, human_bytes (bv_used b)]) (items bs)) merged)))
           (ret exit_ok)))"

definition cmd_list :: "'w cli_env \<Rightarrow> string list \<Rightarrow> ('w, int) cact" where
  "cmd_list C args = parsing (parse_args args [] [''--json'', ''--all-hosts'']) ''list'' (\<lambda>(pos, opts).
     if pos \<noteq> [] then quit_with (''sashiki list: extra arguments '' @ bracketed pos) exit_usage
     else let json_out = (opt_of opts ''--json'' = ''true'') in
       if opt_of opts ''--all-hosts'' = ''true'' then list_all_hosts C json_out
       else check (call_api C ''GET'' ''/v1/branches'' None) (\<lambda>r. on_reply C 200 r (\<lambda>data.
         if json_out then tell data
         else let bs = read_branches C data;
                  stale = map bv_name (filter bv_stale bs);
                  backing = map bv_name (filter (\<lambda>b. items (bv_backing b) \<noteq> []) bs) in
           then_do (say_table ([''NAME'', ''PORT'', ''STATE'', ''LAST_CONN'', ''USED''] # map list_row bs))
          (then_do (if stale = [] then ret ()
             else say ([newline] @ ''* older than the current baseline (recreate): '' @ join_with '', '' stale))
          (then_do (if backing = [] then ret ()
             else say ([newline] @ ''! holds a baseline (no reset / recreate / delete): '' @ join_with '', '' backing))
             (ret exit_ok))))))"

text \<open>A \<^verbatim>\<open>for range\<close> loop that prints.\<close>

definition say_all :: "string list \<Rightarrow> ('w, unit) cact" where
  "say_all ls = modifying (\<lambda>c. c\<lparr>cl_out := cl_out c @ concat (map (\<lambda>l. l @ [newline]) ls)\<rparr>)"

definition show_bool :: "bool \<Rightarrow> string" where
  "show_bool b = (if b then ''true'' else ''false'')"

definition show_lines :: "branch_view \<Rightarrow> string list" where
  "show_lines b =
     [''name:    '' @ bv_name b, ''state:   '' @ bv_state b, ''port:    '' @ show_int (bv_port b),
      ''user:    '' @ bv_user b, ''private: '' @ human_bytes (bv_used b) @ '' (CoW)'',
      ''logical: '' @ human_bytes (bv_logical b)]
     @ (if bv_engine_port b \<noteq> 0 \<and> bv_engine_port b \<noteq> bv_port b
        then [''engine:  :'' @ show_int (bv_engine_port b) @ '' (not for connections)''] else [])
     @ (if bv_stale b then [''stale:   true''] else [])
     @ (if items (bv_backing b) \<noteq> [] then [''baseline: holds '' @ join_with '', '' (items (bv_backing b))] else [])
     @ (if bv_error b = [] then []
        else (''error: '' @ bv_error b)
          # (if bv_error_code b = [] then []
             else [''code:  '' @ bv_error_code b @ '' (recoverable='' @ show_bool (bv_recoverable b) @ '')''])
          @ map (\<lambda>s. ''  -> '' @ s) (items (bv_suggestions b)))"

definition cmd_show :: "'w cli_env \<Rightarrow> string list \<Rightarrow> ('w, int) cact" where
  "cmd_show C args = parsing (parse_flags args) ''show'' (\<lambda>(pos, json_out). one_branch pos (\<lambda>name.
     check (call_api C ''GET'' (branch_path name) None) (\<lambda>r. on_reply C 200 r (\<lambda>data.
       if json_out then tell data
       else then_do (say_all (show_lines (fst (read_branch C data)))) (ret exit_ok)))))"

end
