(* ===== verification/CliEnv.thy ===== *)
theory CliEnv
  imports CliCommands
begin

text \<open>
  cmd/sashiki: the connection of a branch, as a client that is started (\<^verbatim>\<open>connect\<close>) and as variables
  (\<^verbatim>\<open>env\<close>, envurl.go) that are printed or put into a dotenv file.
\<close>

section \<open>Where a branch is reached\<close>

definition connect_host :: "'w cli_env \<Rightarrow> branch_view \<Rightarrow> string" where
  "connect_host C b = (let h = environ C ''SASHIKI_DB_HOST'' in
     if h \<noteq> [] then h else if bv_host b = [] then ''127.0.0.1'' else bv_host b)"

definition env_host :: "'w cli_env \<Rightarrow> branch_view \<Rightarrow> string" where
  "env_host C b = (let h = environ C ''SASHIKI_DB_HOST'' in if h \<noteq> [] then h else bv_host b)"

definition db_name_for :: "'w cli_env \<Rightarrow> branch_view \<Rightarrow> string \<Rightarrow> string" where
  "db_name_for C b flag =
     (if flag \<noteq> [] then flag
      else let v = environ C ''SASHIKI_DB_NAME'' in
        if v \<noteq> [] then v else if bv_engine b = ''postgres'' then ''postgres'' else [])"

text \<open>\<^verbatim>\<open>connURL\<close>, with \<^verbatim>\<open>URL.String\<close>.\<close>

definition conn_url :: "'w cli_env \<Rightarrow> branch_view \<Rightarrow> string \<Rightarrow> bool \<Rightarrow> string" where
  "conn_url C b db with_password = (let pass = environ C ''SASHIKI_DB_PASSWORD'' in
     (if bv_engine b = ''postgres'' then ''postgres'' else ''mysql'') @ ''://''
     @ url_escape InUser (bv_user b)
     @ (if with_password \<and> pass \<noteq> [] then '':'' @ url_escape InUser pass else [])
     @ ''@'' @ url_escape InHost (connect_host C b @ '':'' @ show_int (bv_port b))
     @ (if db \<noteq> [] then url_escape InPath (''/'' @ db) else []))"

section \<open>A dotenv file\<close>

type_synonym kvs = "(string \<times> string) list"

definition kv_line :: "string \<times> string \<Rightarrow> string" where
  "kv_line p = fst p @ ''='' @ snd p"

definition sets_key :: "string \<Rightarrow> string \<Rightarrow> bool" where
  "sets_key k l \<longleftrightarrow> has_prefix l (k @ ''='')"

definition dotenv_lines :: "string \<Rightarrow> string list" where
  "dotenv_lines text = (let t = rev (dropWhile (\<lambda>c. c = newline) (rev text)) in
     if t = [] then [] else split_on newline t)"

text \<open>A line is replaced by the last entry whose key it sets; entries no line sets are appended.\<close>

definition dotenv_line :: "kvs \<Rightarrow> string \<Rightarrow> string" where
  "dotenv_line ps l = (case find (\<lambda>p. sets_key (fst p) l) (rev ps) of None \<Rightarrow> l | Some p \<Rightarrow> kv_line p)"

definition edit_dotenv :: "kvs \<Rightarrow> string list \<Rightarrow> string list" where
  "edit_dotenv ps ls =
     map (dotenv_line ps) ls @ map kv_line (filter (\<lambda>p. \<not> list_ex (sets_key (fst p)) ls) ps)"

definition dotenv_text :: "string list \<Rightarrow> string" where
  "dotenv_text ls = join_with [newline] ls @ [newline]"

text \<open>Writing to a temporary file beside it, which is renamed; what is left of it is removed.\<close>

definition replace_file :: "'w cli_env \<Rightarrow> string \<Rightarrow> nat \<Rightarrow> string \<Rightarrow> ('w, unit) cact" where
  "replace_file C path mode text =
     check (outside (ce_create_temp C (dir_name path) ''.sashiki-env-*'')) (\<lambda>tmp.
     attempt (handle_err (outside (ce_write C tmp text))
         (\<lambda>e. ignoring (outside (ce_close C tmp)) (throw e))
         (\<lambda>_. check (outside (ce_close C tmp)) (\<lambda>_.
              check (outside (ce_chmod C tmp mode)) (\<lambda>_.
              outside (ce_rename C tmp path)))))
       (\<lambda>r. ignoring (asking (h_remove (ce_machine C) tmp)) (case r of Inl e \<Rightarrow> throw e | Inr _ \<Rightarrow> ret ())))"

definition write_dotenv :: "'w cli_env \<Rightarrow> string \<Rightarrow> kvs \<Rightarrow> ('w, unit) cact" where
  "write_dotenv C path ps = check (asking (ce_read C path)) (\<lambda>(r, data). case r of
       FsOk \<Rightarrow> attempt (outside (ce_mode C path)) (\<lambda>m.
         replace_file C path (case m of Inl e \<Rightarrow> 384 | Inr k \<Rightarrow> k)
           (dotenv_text (edit_dotenv ps (dotenv_lines data))))
     | FsNotExist e \<Rightarrow> replace_file C path 384 (dotenv_text (edit_dotenv ps []))
     | FsPermission e \<Rightarrow> throw e
     | FsFailed e \<Rightarrow> throw e)"

section \<open>The commands\<close>

definition env_entries :: "'w cli_env \<Rightarrow> branch_view \<Rightarrow> string \<Rightarrow> string \<Rightarrow> string \<Rightarrow> bool \<Rightarrow> kvs" where
  "env_entries C b prefix url_var db with_password =
     [(prefix @ ''HOST'', env_host C b), (prefix @ ''PORT'', show_int (bv_port b)),
      (prefix @ ''USER'', bv_user b)]
     @ (if url_var \<noteq> [] then [(url_var, conn_url C b (db_name_for C b db) with_password)] else [])"

definition emit_env ::
  "'w cli_env \<Rightarrow> branch_view \<Rightarrow> string \<Rightarrow> string \<Rightarrow> string \<Rightarrow> string \<Rightarrow> ('w, unit) cact" where
  "emit_env C b prefix url_var db path = (let ps = env_entries C b prefix url_var db (path \<noteq> []) in
     if path = [] then say_all (map kv_line ps)
     else check (write_dotenv C path ps) (\<lambda>_.
       say (''wrote '' @ join_with '', '' (map fst ps) @ '' to '' @ path)))"

definition env_values :: "string list" where
  "env_values = [''--prefix'', ''--url-var'', ''--db'', ''--write'']"

definition cmd_env :: "'w cli_env \<Rightarrow> string list \<Rightarrow> ('w, int) cact" where
  "cmd_env C args = parsing (parse_args args env_values []) ''env'' (\<lambda>(pos, opts). one_branch pos (\<lambda>name.
     check (call_api C ''GET'' (branch_path name) None) (\<lambda>(code, data, e).
       if e \<noteq> None \<or> code \<noteq> 200 then quit_with (''sashiki: '' @ call_err C e data) (status_to_exit code)
       else (case read_branch C data of (b, ok) \<Rightarrow>
         if \<not> ok then quit_with ''sashiki: the answer cannot be decoded'' exit_error
         else handle_err (emit_env C b (case opts ''--prefix'' of None \<Rightarrow> ''DB_'' | Some p \<Rightarrow> p)
               (opt_of opts ''--url-var'') (opt_of opts ''--db'') (opt_of opts ''--write''))
             (\<lambda>e. quit_with (''sashiki: '' @ err_text e) exit_error)
             (\<lambda>_. ret exit_ok)))))"

text \<open>The client, its arguments and what is added to its environment; the last is a line for stderr.\<close>

definition client_call :: "'w cli_env \<Rightarrow> branch_view \<Rightarrow> string \<times> string list \<times> string list \<times> string option" where
  "client_call C b =
     (let pass = environ C ''SASHIKI_DB_PASSWORD''; host = connect_host C b; port = show_int (bv_port b) in
      if bv_engine b = ''postgres'' then
        (let v = environ C ''SASHIKI_DB_NAME''; db = (if v = [] then ''postgres'' else v) in
         (''psql'', [''psql'', ''-U'', bv_user b, ''-h'', host, ''-p'', port, ''-d'', db],
          (if pass \<noteq> [] then [''PGPASSWORD='' @ pass] else []),
          (if v = [] then Some (''sashiki: the name of the database is not known, connecting to '' @ go_quote db)
           else None)))
      else (''mysql'', [''mysql'', ''-u'' @ bv_user b, ''-h'' @ host, ''-P'' @ port]
              @ (if pass \<noteq> [] then [] else [''-p'']),
            (if pass \<noteq> [] then [''MYSQL_PWD='' @ pass] else []), None))"

definition cmd_connect :: "'w cli_env \<Rightarrow> string list \<Rightarrow> ('w, int) cact" where
  "cmd_connect C args = parsing (parse_no_flags args) ''connect'' (\<lambda>pos. one_branch pos (\<lambda>name.
     check (call_api C ''GET'' (branch_path name) None) (\<lambda>(code, data, e).
       if e \<noteq> None \<or> code \<noteq> 200 then quit_with (''sashiki: '' @ call_err C e data) (status_to_exit code)
       else (case client_call C (fst (read_branch C data)) of (client, argv, added, note) \<Rightarrow>
         then_do (case note of None \<Rightarrow> ret () | Some l \<Rightarrow> complain l)
           (handle_err (outside (ce_look_path C client))
             (\<lambda>e. quit_with (''sashiki: '' @ client @ '' is not in PATH'') exit_error)
             (\<lambda>path. handle_err (outside (ce_exec C path argv (h_environ (ce_machine C) @ added)))
               (\<lambda>e. quit_with (''sashiki: exec '' @ client @ '': '' @ err_text e) exit_error)
               ret))))))"

end
