(* ===== verification/CliOps.thy ===== *)
theory CliOps
  imports CliEnv
begin

text \<open>
  cmd/sashiki: operations, hooks, drain, capacity, doctor and gc.
\<close>

section \<open>op.go\<close>

definition usage_op :: "('w, int) cact" where
  "usage_op = quit_with ''Usage: sashiki op list | show <id> | wait <id> [--timeout <dur>] [--interval <dur>]'' exit_usage"

definition read_ops :: "'w cli_env \<Rightarrow> string \<Rightarrow> op_view list" where
  "read_ops C data = items (read_field C ''operations'' (list_dec (op_view_of []) op_dec) None data)"

definition op_list :: "'w cli_env \<Rightarrow> ('w, int) cact" where
  "op_list C = check (call_api C ''GET'' ''/v1/operations'' None) (\<lambda>r. on_reply C 200 r (\<lambda>data.
     then_do (say_table ([''ID'', ''TYPE'', ''TARGET'', ''STATE'', ''STARTED'']
         # map (\<lambda>v. [ov_id v, ov_type v, ov_target v, ov_state v, ov_started v]) (read_ops C data)))
       (ret exit_ok)))"

definition op_show :: "'w cli_env \<Rightarrow> string \<Rightarrow> ('w, int) cact" where
  "op_show C i = check (call_api C ''GET'' (operation_path i) None) (\<lambda>r. on_reply C 200 r tell)"

text \<open>\<^verbatim>\<open>opWait\<close> has a loop of its own: every state but \<^verbatim>\<open>running\<close> ends it.\<close>

primrec op_wait_rounds :: "'w cli_env \<Rightarrow> string \<Rightarrow> wait_args \<Rightarrow> int \<Rightarrow> nat \<Rightarrow> ('w, int) cact" where
  "op_wait_rounds C i w deadline 0 = throw out_of_rounds"
| "op_wait_rounds C i w deadline (Suc n) = check (asking (ce_now C)) (\<lambda>now.
     if now < deadline then check (call_api C ''GET'' (operation_path i) None) (\<lambda>r.
       on_reply C 200 r (\<lambda>data. let v = read_op C data in
         if ov_state v \<noteq> ''running'' then
           then_do (say (ov_id v @ '': '' @ ov_state v))
             (if ov_state v = ''failed'' then quit_with (ov_error v) exit_error else ret exit_ok)
         else check (asking (ce_sleep C (wa_interval w))) (\<lambda>_. op_wait_rounds C i w deadline n)))
     else quit_with (''sashiki: wait timed out after '' @ ce_show_duration C (wa_timeout w)
       @ '' (operation still running)'') exit_timeout)"

definition op_wait :: "'w cli_env \<Rightarrow> string list \<Rightarrow> ('w, int) cact" where
  "op_wait C args = wait_flags C args (\<lambda>w. case wa_rest w of
       [i] \<Rightarrow> check (asking (ce_now C)) (\<lambda>now. op_wait_rounds C i w (now + wa_timeout w) (ce_rounds C))
     | _ \<Rightarrow> usage_op)"

definition cmd_op :: "'w cli_env \<Rightarrow> string list \<Rightarrow> ('w, int) cact" where
  "cmd_op C args = (case args of [] \<Rightarrow> usage_op
     | a # rest \<Rightarrow>
        if a = ''list'' then (case parse_no_flags rest of Inr [] \<Rightarrow> op_list C | _ \<Rightarrow> usage_op)
        else if a = ''show'' then (case parse_no_flags rest of Inr [i] \<Rightarrow> op_show C i | _ \<Rightarrow> usage_op)
        else if a = ''wait'' then (if rest = [] then usage_op else op_wait C rest)
        else usage_op)"

section \<open>hooks.go and drain.go\<close>

definition cmd_hooks :: "'w cli_env \<Rightarrow> string list \<Rightarrow> ('w, int) cact" where
  "cmd_hooks C args = (let usage_hooks = quit_with ''Usage: sashiki hooks run <name> <event>'' exit_usage in
     case args of
       [] \<Rightarrow> usage_hooks
     | a # rest \<Rightarrow> if a \<noteq> ''run'' then usage_hooks
         else parsing (parse_no_flags rest) ''hooks run'' (\<lambda>pos. case pos of
             [name, event] \<Rightarrow>
               check (call_api C ''POST'' (branch_path name @ ''/hooks/'' @ event) None) (\<lambda>r.
                 on_reply C 200 r (\<lambda>data. tell (''hook '' @ event @ '' ran for '' @ name)))
           | _ \<Rightarrow> usage_hooks))"

text \<open>A loop over the arguments that knows one flag; another argument is refused.\<close>

definition only_flags :: "string list \<Rightarrow> string list \<Rightarrow> string \<Rightarrow> ('w, int) cact \<Rightarrow> ('w, int) cact" where
  "only_flags known args cmd k = (case find (\<lambda>a. a \<notin> set known) args of
       Some a \<Rightarrow> quit_with (''sashiki '' @ cmd @ '': unknown argument '' @ a) exit_usage
     | None \<Rightarrow> k)"

definition drain_lines :: "'w cli_env \<Rightarrow> string \<Rightarrow> string list \<times> bool" where
  "drain_lines C data =
     (let slept = items (read_field C ''slept'' (list_dec [] str_dec) None data);
          skipped = items (read_field C ''skipped'' (list_dec [] str_dec) None data);
          failed = read_field C ''failed'' (map_dec [] str_dec) [] data in
      ((''drained: '' @ show_nat (length slept) @ '' slept, '' @ show_nat (length skipped) @ '' skipped''
          @ (if failed = [] then [] else '', '' @ show_nat (length failed) @ '' failed''))
        # map (\<lambda>n. ''  failed '' @ n @ '': '' @ opt_of (map_of failed) n) (ce_order C (map fst failed)),
       failed \<noteq> []))"

definition cmd_drain :: "'w cli_env \<Rightarrow> string list \<Rightarrow> ('w, int) cact" where
  "cmd_drain C args = only_flags [''--json''] args ''drain''
     (check (call_api C ''POST'' ''/v1/drain'' None) (\<lambda>r. on_reply C 200 r (\<lambda>data.
        if args \<noteq> [] then tell data
        else (case drain_lines C data of (ls, bad) \<Rightarrow>
          then_do (say_all ls) (ret (if bad then exit_error else exit_ok))))))"

section \<open>capacity.go\<close>

text \<open>
  The struct that \<^verbatim>\<open>cmdCapacity\<close> decodes into names some of its fields only by their Go names:
  \<^verbatim>\<open>Used\<close>, \<^verbatim>\<open>Total\<close>, \<^verbatim>\<open>Running\<close>, \<^verbatim>\<open>MaxRunning\<close> and
  \<^verbatim>\<open>MaxBranches\<close>.
\<close>

record capacity_view =
  cv_known :: bool
  cv_used :: int
  cv_size :: int
  cv_ratio :: "int \<times> int"
  cv_ports_used :: int
  cv_ports :: int
  cv_memory :: int
  cv_running :: int
  cv_max_running :: int
  cv_max_branches :: int

definition int_at :: "string \<Rightarrow> string \<Rightarrow> (string \<times> json) list \<Rightarrow> int \<times> bool" where
  "int_at s k ms = field_dec s (in_struct k int_dec) ms 0"

definition capacity_dec :: "(string \<times> json) list \<Rightarrow> capacity_view \<times> bool" where
  "capacity_dec ms =
     (let known = field_dec ''storage'' (in_struct ''introspectable'' bool_dec) ms False;
          used = int_at ''storage'' ''pool_used_bytes'' ms; size = int_at ''storage'' ''pool_total_bytes'' ms;
          ratio = field_dec ''storage'' (in_struct ''pool_used_ratio'' ratio_dec) ms (0, 1);
          pu = int_at ''ports'' ''Used'' ms; pt = int_at ''ports'' ''Total'' ms;
          mem = int_at ''memory'' ''available_bytes'' ms; run = int_at ''branches'' ''Running'' ms;
          mr = int_at ''branches'' ''MaxRunning'' ms; mb = int_at ''branches'' ''MaxBranches'' ms in
      (\<lparr>cv_known = fst known, cv_used = fst used, cv_size = fst size, cv_ratio = fst ratio,
        cv_ports_used = fst pu, cv_ports = fst pt, cv_memory = fst mem, cv_running = fst run,
        cv_max_running = fst mr, cv_max_branches = fst mb\<rparr>,
       snd known \<and> snd used \<and> snd size \<and> snd ratio \<and> snd pu \<and> snd pt \<and> snd mem \<and> snd run
         \<and> snd mr \<and> snd mb))"

definition read_capacity :: "'w cli_env \<Rightarrow> string \<Rightarrow> capacity_view option" where
  "read_capacity C data = (case ce_parse C data of None \<Rightarrow> None
     | Some v \<Rightarrow> (case members_of v of (ms, ok) \<Rightarrow> case capacity_dec ms of (c, ok') \<Rightarrow>
         if ok \<and> ok' then Some c else None))"

definition not_negative :: "int \<times> int \<Rightarrow> bool" where
  "not_negative r \<longleftrightarrow> 0 \<le> fst r * snd r"

definition capacity_lines :: "'w cli_env \<Rightarrow> capacity_view \<Rightarrow> string list" where
  "capacity_lines C v =
     [''storage:  '' @ human_bytes (cv_used v) @ '' / '' @ human_bytes (cv_size v) @ ''  (''
        @ (if cv_known v \<and> not_negative (cv_ratio v) then ce_percent C (cv_ratio v) else ''-'') @ '' used)'',
      ''memory:   '' @ human_bytes (cv_memory v) @ '' available'',
      ''ports:    '' @ show_int (cv_ports_used v) @ '' / '' @ show_int (cv_ports v) @ '' used'',
      ''branches: '' @ show_int (cv_running v) @ '' running (max_running '' @ show_int (cv_max_running v)
        @ '', max_branches '' @ show_int (cv_max_branches v) @ '')'']"

definition capacity_row :: "'w cli_env \<Rightarrow> host_result \<Rightarrow> string list" where
  "capacity_row C r =
     (let data = hr_data r; i = (\<lambda>s k. read_field C s (in_struct k int_dec) 0 data);
          running = show_int (i ''branches'' ''running'');
          ratio = read_field C ''storage'' (in_struct ''pool_used_ratio'' ratio_dec) (0, 1) data in
      [host_label (hr_name r) (read_field C ''host_name'' str_dec [] data),
       running @ ''/'' @ show_int (i ''branches'' ''max_branches''), running,
       show_int (i ''ports'' ''used'') @ ''/'' @ show_int (i ''ports'' ''total''),
       (if not_negative ratio then ce_percent C ratio else ''-'')])"

text \<open>The answers are raw messages: one that is no JSON makes \<^verbatim>\<open>Marshal\<close> fail, and the text is empty.\<close>

definition capacity_hosts_json :: "'w cli_env \<Rightarrow> host_result list \<Rightarrow> string" where
  "capacity_hosts_json C rs = (case all_some (map (\<lambda>r. ce_parse C (hr_data r)) rs) of
       None \<Rightarrow> []
     | Some vs \<Rightarrow> ce_print C (JObj [(''hosts'', JList (map (\<lambda>(r, v).
         JObj (named_host (hr_name r) (read_field C ''host_name'' str_dec [] (hr_data r)) @ [(''capacity'', v)]))
           (zip rs vs)))]))"

definition capacity_all_hosts :: "'w cli_env \<Rightarrow> bool \<Rightarrow> ('w, int) cact" where
  "capacity_all_hosts C json_out = handle_err (fan_out C ''/v1/capacity'')
     (\<lambda>e. quit_with (''sashiki: '' @ err_text e) exit_usage)
     (\<lambda>rs. let merged = filter answered rs in
       check (report_partial_failure C rs) (\<lambda>all_failed.
         if all_failed then ret exit_error
         else if json_out then tell (capacity_hosts_json C merged)
         else then_do (say_table ([''HOST'', ''BRANCHES'', ''RUNNING'', ''PORTS'', ''POOL_USED'']
             # map (capacity_row C) merged)) (ret exit_ok)))"

definition cmd_capacity :: "'w cli_env \<Rightarrow> string list \<Rightarrow> ('w, int) cact" where
  "cmd_capacity C args = only_flags [''--json'', ''--all-hosts''] args ''capacity''
     (let json_out = (''--json'' \<in> set args) in
      if ''--all-hosts'' \<in> set args then capacity_all_hosts C json_out
      else check (call_api C ''GET'' ''/v1/capacity'' None) (\<lambda>r. on_reply C 200 r (\<lambda>data.
        if json_out then tell data
        else (case read_capacity C data of None \<Rightarrow> tell data
          | Some v \<Rightarrow> then_do (say_all (capacity_lines C v)) (ret exit_ok)))))"

section \<open>doctor.go\<close>

record check_view =
  kv_name :: string
  kv_status :: string
  kv_detail :: string

definition check_dec :: "check_view dec" where
  "check_dec v cur = (case v of
      JObj ms \<Rightarrow> (\<lparr>kv_name = fst (str_in ''name'' ms), kv_status = fst (str_in ''status'' ms),
          kv_detail = fst (str_in ''detail'' ms)\<rparr>,
        list_all (\<lambda>k. snd (str_in k ms)) [''name'', ''status'', ''detail''])
    | JNull \<Rightarrow> (cur, True) | _ \<Rightarrow> (cur, False))"

definition no_check :: check_view where
  "no_check = \<lparr>kv_name = [], kv_status = [], kv_detail = []\<rparr>"

definition read_doctor :: "'w cli_env \<Rightarrow> string \<Rightarrow> (int \<times> check_view list) option" where
  "read_doctor C data =
     (case unmarshal C (in_struct ''branch_count'' int_dec) 0 data of (n, ok1) \<Rightarrow>
      case unmarshal C (in_struct ''checks'' (list_dec no_check check_dec)) None data of (ks, ok2) \<Rightarrow>
        if ok1 \<and> ok2 then Some (n, items ks) else None)"

definition check_line :: "check_view \<Rightarrow> string" where
  "check_line k = (if kv_status k = ''warn'' then ''[WARN] '' else if kv_status k = ''error'' then ''[ERROR]''
       else ''[OK]   '') @ '' '' @ kv_name k @ (if kv_detail k = [] then [] else '': '' @ kv_detail k)"

definition cmd_doctor :: "'w cli_env \<Rightarrow> string list \<Rightarrow> ('w, int) cact" where
  "cmd_doctor C args = only_flags [''--json''] args ''doctor''
     (check (call_api C ''GET'' ''/v1/doctor'' None) (\<lambda>r. on_reply C 200 r (\<lambda>data.
        if args \<noteq> [] then tell data
        else (case read_doctor C data of None \<Rightarrow> tell data
          | Some (n, ks) \<Rightarrow>
              then_do (say_all (map check_line ks @ [''branches: '' @ show_int n]))
                (ret (if list_ex (\<lambda>k. kv_status k = ''error'') ks then exit_error else exit_ok))))))"

definition cmd_gc :: "'w cli_env \<Rightarrow> string list \<Rightarrow> ('w, int) cact" where
  "cmd_gc C args = only_flags [''--orphans''] args ''gc''
     (if args = [] then quit_with ''Usage: sashiki gc --orphans'' exit_usage
      else check (call_api C ''POST'' ''/v1/gc/orphans'' None) (\<lambda>r. on_reply C 200 r tell))"

end
