(* ===== verification/CliRun.thy ===== *)
theory CliRun
  imports CliOps Fsx
begin

text \<open>
  cmd/sashiki: the commands of baselines behind the API (baseline.go), the path of the configuration
  (configpath.go), tokens (token.go), and the dispatch of \<^verbatim>\<open>run\<close> (main.go). What builds or
  installs on the machine itself (\<^verbatim>\<open>init\<close>, \<^verbatim>\<open>baseline import\<close>,
  \<^verbatim>\<open>export\<close> and \<^verbatim>\<open>import-stream\<close>) is an argument of the dispatch.
\<close>

section \<open>baseline.go, behind the API\<close>

definition usage_baseline :: "('w, int) cact" where
  "usage_baseline = quit_with ''Usage: sashiki baseline <command> ...'' exit_usage"

definition cmd_baseline_promote :: "'w cli_env \<Rightarrow> string list \<Rightarrow> ('w, int) cact" where
  "cmd_baseline_promote C args =
     (case promote_flags args \<lparr>pa_pos = [], pa_masked = False, pa_skip_validate = False\<rparr> of
       Inl e \<Rightarrow> quit_with (err_text e) exit_usage
     | Inr p \<Rightarrow> (case pa_pos p of
         [name] \<Rightarrow> check (call_api C ''POST'' ''/v1/baseline/promote'' (Some
             ((if pa_masked p then [(''masked'', Value (JBool True))] else [])
              @ (if pa_skip_validate p then [(''skip_validate'', Value (JBool True))] else [])
              @ [(''branch'', Value (JStr name))]))) (\<lambda>r. on_reply C 200 r (\<lambda>data.
             tell (''promoted '' @ ticks name @ '' to current baseline: ''
               @ read_field C ''Current'' str_dec [] data)))
       | _ \<Rightarrow> quit_with ''Usage: sashiki baseline promote <branch> [--masked] [--skip-validate]'' exit_usage))"

definition cmd_baseline_build :: "'w cli_env \<Rightarrow> string list \<Rightarrow> ('w, int) cact" where
  "cmd_baseline_build C args = wait_flags C args (\<lambda>w.
     if wa_rest w \<noteq> [] then
       quit_with (''sashiki baseline build: extra arguments '' @ bracketed (wa_rest w)) exit_usage
     else check (call_api C ''POST'' ''/v1/baseline/build'' None) (\<lambda>r. on_reply C 202 r (\<lambda>data.
       let snap = read_field C ''snapshot'' str_dec [] data in
       if wa_no_wait w then tell (''baseline build started: '' @ snap @ '' (operation ''
           @ operation_id_from C data @ '')'')
       else when_done C data w (tell (''baseline built: '' @ snap @ [newline]
         @ ''  next: sashiki baseline validate '' @ snap @ '' / publish '' @ snap)))))"

definition cmd_baseline_stage :: "'w cli_env \<Rightarrow> string list \<Rightarrow> string \<Rightarrow> ('w, int) cact" where
  "cmd_baseline_stage C args stage = wait_flags C args (\<lambda>w. case wa_rest w of
       [snap] \<Rightarrow> check (call_api C ''POST'' (''/v1/baseline/'' @ stage) (Some [(''snapshot'', Value (JStr snap))]))
         (\<lambda>(code, data, e). case e of
             Some e \<Rightarrow> quit_with (''sashiki: '' @ err_text e) exit_error
           | None \<Rightarrow> (let said = tell (''baseline '' @ stage @ '': '' @ snap) in
               if code = 200 then said
               else if code = 202 then when_done C data w said
               else quit_with (''sashiki: '' @ api_error C data) (status_to_exit code)))
     | _ \<Rightarrow> quit_with (''usage: sashiki baseline '' @ stage @ '' <snapshot>'') exit_usage)"

definition cmd_baseline_list :: "'w cli_env \<Rightarrow> string list \<Rightarrow> ('w, int) cact" where
  "cmd_baseline_list C args = (case parse_flags args of
       Inr ([], json_out) \<Rightarrow> check (call_api C ''GET'' ''/v1/baseline'' None) (\<lambda>r. on_reply C 200 r (\<lambda>data.
         if json_out then tell data
         else let cur = read_field C ''current'' str_dec [] data;
                  snaps = items (read_field C ''snapshots'' (list_dec [] str_dec) None data) in
           then_do (say_all ((''current: '' @ cur) # map (\<lambda>s. (if s = cur then ''* '' else ''  '') @ s) snaps))
             (ret exit_ok)))
     | _ \<Rightarrow> usage_baseline)"

definition cmd_baseline_set :: "'w cli_env \<Rightarrow> string list \<Rightarrow> ('w, int) cact" where
  "cmd_baseline_set C args = (case parse_no_flags args of
       Inr [snap] \<Rightarrow> check (call_api C ''POST'' ''/v1/baseline/set'' (Some [(''snapshot'', Value (JStr snap))]))
         (\<lambda>r. on_reply C 200 r (\<lambda>data. tell (''current baseline set to '' @ snap)))
     | _ \<Rightarrow> quit_with ''Usage: sashiki baseline set <snapshot>'' exit_usage)"

text \<open>\<^verbatim>\<open>url.QueryEscape\<close>, and \<^verbatim>\<open>Values.Encode\<close>, sorted by key.\<close>

definition query_escape :: "string \<Rightarrow> string" where
  "query_escape s = concat (map (\<lambda>c.
     if alnum_char c \<or> c \<in> set ''-_.~'' then [c] else if c = CHR '' '' then ''+''
     else [CHR ''%'', upper_hex (of_char c div 16), upper_hex (of_char c mod 16)]) s)"

definition query_encode :: "(string \<times> string) list \<Rightarrow> string" where
  "query_encode kvs = join_with ''&''
     (map (\<lambda>(k, v). query_escape k @ ''='' @ query_escape v) (sort_key fst kvs))"

definition gc_query :: "(string \<rightharpoonup> string) \<Rightarrow> (string \<times> string) list" where
  "gc_query opts =
     (case opts ''--keep-last'' of None \<Rightarrow> [] | Some v \<Rightarrow> [(''keep_last'', v)])
     @ (if opt_of opts ''--dry-run'' = ''true'' then [(''dry_run'', ''true'')] else [])"

definition cmd_baseline_gc :: "'w cli_env \<Rightarrow> string list \<Rightarrow> ('w, int) cact" where
  "cmd_baseline_gc C args = parsing (parse_args args [''--keep-last''] [''--dry-run'']) ''baseline gc'' (\<lambda>(pos, opts).
     if pos \<noteq> [] then arg_error ''baseline gc'' (EText (''extra arguments '' @ bracketed pos))
     else let q = gc_query opts in
       check (call_api C ''POST'' (''/v1/baseline/gc'' @ (if q \<noteq> [] then ''?'' @ query_encode q else [])) None)
         (\<lambda>r. on_reply C 200 r tell))"

definition cmd_baseline_refresh :: "'w cli_env \<Rightarrow> string list \<Rightarrow> ('w, int) cact" where
  "cmd_baseline_refresh C args = (case parse_args args [] [''--app-user-only''] of
       Inr ([], opts) \<Rightarrow> check (call_api C ''POST'' (''/v1/baseline/refresh''
           @ (if opt_of opts ''--app-user-only'' = ''true'' then ''?app_user_only=true'' else [])) None)
         (\<lambda>r. on_reply C 202 r tell)
     | _ \<Rightarrow> usage_baseline)"

section \<open>The path of the configuration (configpath.go)\<close>

definition etc_config :: string where
  "etc_config = ''/etc/sashiki/config.yaml''"

definition config_found :: "'w cli_env \<Rightarrow> string \<Rightarrow> ('w, bool) cact" where
  "config_found C p = check (asking (h_stat (ce_machine C) p)) (\<lambda>r. ret (r = FsOk))"

definition app_support :: "string \<Rightarrow> string \<Rightarrow> string" where
  "app_support home dir = home @ ''/Library/Application Support/'' @ dir @ ''/config.yaml''"

definition default_config_path :: "'w cli_env \<Rightarrow> ('w, string) cact" where
  "default_config_path C =
     (let p = environ C ''SASHIKI_CONFIG'' in
      if p \<noteq> [] then ret p
      else if ce_goos C = ''darwin'' then (case user_home C of
          Inl e \<Rightarrow> ret etc_config
        | Inr h \<Rightarrow> check (config_found C (app_support h ''sashiki'')) (\<lambda>a.
            check (config_found C (app_support h ''sashiki-pg'')) (\<lambda>b.
            ret (if a \<and> b then [] else if a then app_support h ''sashiki''
                 else if b then app_support h ''sashiki-pg'' else etc_config))))
      else ret etc_config)"

definition require_config_path :: "'w cli_env \<Rightarrow> string \<Rightarrow> ('w, string) cact" where
  "require_config_path C p =
     check (if ce_goos C = ''darwin'' \<and> p = etc_config then config_found C p else ret True) (\<lambda>found.
     if \<not> found then throw (EText ''no config; run sashiki init --platform darwin first'')
     else if p \<noteq> [] then ret p
     else throw (EText ''there are several configs; choose one with --config <path> or SASHIKI_CONFIG''))"

definition local_baseline_tag :: "'w cli_env \<Rightarrow> string \<Rightarrow> string \<Rightarrow> ('w, string \<times> bool) cact" where
  "local_baseline_tag C snap_dir preferred = check (config_found C (in_dir snap_dir preferred)) (\<lambda>found.
     if \<not> found then ret (preferred, False)
     else check (asking (ce_now C)) (\<lambda>t. ret (''baseline-'' @ compact_time t, True)))"

text \<open>\<^verbatim>\<open>filepath.Ext\<close> of a name without slashes.\<close>

definition file_ext :: "string \<Rightarrow> string" where
  "file_ext n = (case last_index_of (CHR ''.'') n of None \<Rightarrow> [] | Some i \<Rightarrow> drop i n)"

definition unique_tmp_name :: "'w cli_env \<Rightarrow> string \<Rightarrow> string \<Rightarrow> string" where
  "unique_tmp_name C name key = (let ext = file_ext name; base = take (length name - length ext) name in
     in_dir (h_tmp_dir (ce_machine C)) (base @ ''-'' @ take 8 (ce_sha256 C key) @ ext))"

definition runtime_path :: "'w cli_env \<Rightarrow> config \<Rightarrow> string \<Rightarrow> string" where
  "runtime_path C conf name = unique_tmp_name C name (g_state_db conf @ ''|''
     @ lo_root (sc_local (g_storage conf)) @ ''|'' @ zf_pool (sc_zfs (g_storage conf)))"

section \<open>Tokens (token.go)\<close>

definition usage_token :: "('w, int) cact" where
  "usage_token = quit_with ''Usage: sashiki token create --name <name> [--scope branches|admin] | list | revoke <name>'' exit_usage"

fun config_flag :: "string list \<Rightarrow> string option" where
  "config_flag (a # v # as) = (if a = ''--config'' then Some v else config_flag (v # as))"
| "config_flag _ = None"

definition token_config_path :: "'w cli_env \<Rightarrow> string list \<Rightarrow> ('w, string) cact" where
  "token_config_path C args = (case config_flag args of Some p \<Rightarrow> ret p | None \<Rightarrow> default_config_path C)"

text \<open>A statement on the database file at a path.\<close>

definition cli_sql :: "'w cli_env \<Rightarrow> string \<Rightarrow> 'a sql \<Rightarrow> ('w, 'a) cact" where
  "cli_sql C path q = check (asking (ce_db_fault C)) (\<lambda>f. case f of
       Some e \<Rightarrow> throw e
     | None \<Rightarrow> outside (\<lambda>w. case q (ce_db C path w) of (r, d) \<Rightarrow> (r, ce_set_db C path d w)))"

definition cmd_token_create :: "'w cli_env \<Rightarrow> string \<Rightarrow> string list \<Rightarrow> ('w, int) cact" where
  "cmd_token_create C path args =
     parsing (parse_args args [''--name'', ''--scope'', ''--config''] []) ''token create'' (\<lambda>(pos, opts).
     let name = opt_of opts ''--name'';
         scope = (case opts ''--scope'' of None \<Rightarrow> scope_branches | Some v \<Rightarrow> v) in
     if pos \<noteq> [] then arg_error ''token create'' (EText (''extra arguments '' @ bracketed pos))
     else if name = [] then usage_token
     else if scope \<noteq> scope_branches \<and> scope \<noteq> scope_admin then
       quit_with (''sashiki token: --scope is branches | admin (got '' @ go_quote scope @ '')'') exit_usage
     else handle_err (outside (ce_random C 32)) (\<lambda>e. quit_with (''sashiki token: '' @ err_text e) exit_error)
       (\<lambda>raw. let tok = ''sashiki_'' @ gen_hex raw in
         check (asking (ce_now C)) (\<lambda>t.
         handle_err (cli_sql C path (create_token t name (ce_sha256 C tok) scope))
           (\<lambda>e. quit_with (''sashiki token: '' @ err_text e) exit_error)
           (\<lambda>_. tell (''token '' @ ticks name @ '' (scope '' @ scope
              @ '') was issued. This text is not shown again:'' @ [newline, newline] @ ''  '' @ tok
              @ [newline, newline] @ ''Keep it in GitHub Secrets or the like.'')))))"

definition minute_time :: "int \<Rightarrow> string" where
  "minute_time t = (let sec = t div second in case civil_date (sec div 86400) of (y, m, d) \<Rightarrow>
     pad 4 y @ ''-'' @ pad 2 m @ ''-'' @ pad 2 d @ '' '' @ pad 2 (sec mod 86400 div 3600) @ '':''
       @ pad 2 (sec mod 3600 div 60))"

definition cmd_token_list :: "'w cli_env \<Rightarrow> string \<Rightarrow> ('w, int) cact" where
  "cmd_token_list C path = handle_err (cli_sql C path list_tokens)
     (\<lambda>e. quit_with (''sashiki token: '' @ err_text e) exit_error)
     (\<lambda>ts. then_do (say_table ([''NAME'', ''SCOPE'', ''CREATED'', ''LAST_USED'']
         # map (\<lambda>t. [tk_name t, tk_scope t, minute_time (tk_created t),
             (case tk_last_used t of None \<Rightarrow> ''-'' | Some u \<Rightarrow> minute_time u)]) ts))
       (ret exit_ok))"

definition cmd_token_revoke :: "'w cli_env \<Rightarrow> string \<Rightarrow> string list \<Rightarrow> ('w, int) cact" where
  "cmd_token_revoke C path args = parsing (parse_args args [''--config''] []) ''token revoke'' (\<lambda>(pos, opts).
     case pos of
       [name] \<Rightarrow> handle_err (cli_sql C path (revoke_token name))
         (\<lambda>e. quit_with (''sashiki token: '' @ err_text e)
            (if err_is e ENotFound then exit_not_found else exit_error))
         (\<lambda>_. tell (''token '' @ ticks name @ '' was revoked''))
     | _ \<Rightarrow> usage_token)"

definition cmd_token :: "'w cli_env \<Rightarrow> string list \<Rightarrow> ('w, int) cact" where
  "cmd_token C args = (case args of [] \<Rightarrow> usage_token
     | sub # rest \<Rightarrow>
        (let failed = (\<lambda>pre e. quit_with (''sashiki token: '' @ pre @ err_text e) exit_error) in
         handle_err (check (token_config_path C rest) (require_config_path C)) (failed []) (\<lambda>cfg_path.
         if \<not> h_is_root (ce_machine C) \<and> has_prefix cfg_path ''/etc/'' then
           quit_with ''sashiki token: run it as root'' exit_error
         else handle_err (outside (load_config (ce_machine C) (ce_decoder C) cfg_path)) (failed ''config: '') (\<lambda>conf.
         handle_err (outside (ce_open_db C (g_state_db conf))) (failed ''state db: '') (\<lambda>_.
         if sub = ''create'' then cmd_token_create C (g_state_db conf) rest
         else if sub = ''list'' then (case parse_args rest [''--config''] [] of
             Inr ([], opts) \<Rightarrow> cmd_token_list C (g_state_db conf) | _ \<Rightarrow> usage_token)
         else if sub = ''revoke'' then cmd_token_revoke C (g_state_db conf) rest
         else usage_token)))))"

section \<open>The dispatch\<close>

record 'w machine_commands =
  mx_init :: "string list \<Rightarrow> ('w, int) cact"
  mx_import :: "string list \<Rightarrow> ('w, int) cact"
  mx_export :: "string list \<Rightarrow> ('w, int) cact"
  mx_import_stream :: "string list \<Rightarrow> ('w, int) cact"

definition cmd_baseline :: "'w cli_env \<Rightarrow> 'w machine_commands \<Rightarrow> string list \<Rightarrow> ('w, int) cact" where
  "cmd_baseline C M args = (case args of [] \<Rightarrow> usage_baseline
     | sub # rest \<Rightarrow>
        if sub = ''import'' then mx_import M rest
        else if sub = ''list'' then cmd_baseline_list C rest
        else if sub = ''set'' then cmd_baseline_set C rest
        else if sub = ''gc'' then cmd_baseline_gc C rest
        else if sub = ''refresh'' then cmd_baseline_refresh C rest
        else if sub = ''build'' then cmd_baseline_build C rest
        else if sub \<in> {''validate'', ''publish'', ''delete''} then cmd_baseline_stage C rest sub
        else if sub = ''export'' then mx_export M rest
        else if sub = ''import-stream'' then mx_import_stream M rest
        else if sub = ''promote'' then cmd_baseline_promote C rest
        else usage_baseline)"

definition run_command :: "'w cli_env \<Rightarrow> 'w machine_commands \<Rightarrow> string \<Rightarrow> string list \<Rightarrow> ('w, int) cact" where
  "run_command C M cmd rest =
     (if cmd = ''create'' then cmd_create C rest
      else if cmd = ''delete'' then cmd_delete C rest
      else if cmd \<in> {''reset'', ''recreate'', ''retry''} then cmd_simple_branch C rest cmd
      else if cmd \<in> {''sleep'', ''wake''} then cmd_sync_branch C rest cmd
      else if cmd = ''lease'' then cmd_lease C rest
      else if cmd = ''hooks'' then cmd_hooks C rest
      else if cmd = ''list'' then cmd_list C rest
      else if cmd = ''show'' then cmd_show C rest
      else if cmd = ''connect'' then cmd_connect C rest
      else if cmd = ''env'' then cmd_env C rest
      else if cmd = ''init'' then mx_init M rest
      else if cmd = ''baseline'' then cmd_baseline C M rest
      else if cmd = ''token'' then cmd_token C rest
      else if cmd = ''op'' then cmd_op C rest
      else if cmd = ''capacity'' then cmd_capacity C rest
      else if cmd = ''doctor'' then cmd_doctor C rest
      else if cmd = ''gc'' then cmd_gc C rest
      else if cmd = ''drain'' then cmd_drain C rest
      else if cmd = ''version'' then tell (''sashiki '' @ ce_version C)
      else usage)"

definition choose_host :: "'w cli_env \<Rightarrow> string \<Rightarrow> ('w, unit) cact" where
  "choose_host C flag = (let name = (if flag = [] then environ C ''SASHIKI_HOST'' else flag) in
     if name \<noteq> [] then select_host C name else select_default_host C)"

definition run_cli :: "'w cli_env \<Rightarrow> 'w machine_commands \<Rightarrow> string list \<Rightarrow> ('w, int) cact" where
  "run_cli C M args = (let failed = (\<lambda>e. quit_with (''sashiki: '' @ err_text e) exit_usage) in
     case extract_host_flag args [] of
       Inl e \<Rightarrow> failed e
     | Inr (rest, flag) \<Rightarrow> handle_err (choose_host C flag) failed (\<lambda>_.
         case rest of [] \<Rightarrow> usage | cmd # r \<Rightarrow> run_command C M cmd r))"

end
