(* ===== verification/CliSample.thy ===== *)
theory CliSample
  imports CliRun
begin

text \<open>
  A machine for the examples: two hosts in hosts.yaml, an API that accepts every change as operation
  \<^verbatim>\<open>op-1\<close>, tells that it completed, and shows one branch. Texts that are not interesting
  stand for the JSON values they decode to.
\<close>

definition sample_branch_json :: json where
  "sample_branch_json = JObj [(''name'', JStr ''pr-1''), (''port'', JInt 3306), (''host'', JStr ''db''),
     (''user'', JStr ''dev@pr-1''), (''engine'', JStr ''mysql'')]"

definition sample_parse :: "string \<Rightarrow> json option" where
  "sample_parse t =
     (if t = ''accepted'' then Some (JObj [(''operation_id'', JStr ''op-1'')])
      else if t = ''completed'' then Some (JObj [(''operation_id'', JStr ''op-1''), (''state'', JStr ''completed'')])
      else if t = ''branch'' then Some sample_branch_json
      else None)"

definition sample_answer :: "http_call \<Rightarrow> int \<times> string \<times> err option" where
  "sample_answer q =
     (if hq_method q \<noteq> ''GET'' then (202, ''accepted'', None)
      else if has_suffix (hq_url q) ''/v1/operations/op-1'' then (200, ''completed'', None)
      else (200, ''branch'', None))"

definition sample_hosts :: hosts_file where
  "sample_hosts = \<lparr>hf_default = [], hf_hosts =
     [(''dev'', \<lparr>ho_url = ''http://dev:8080'', ho_token = ''t1'', ho_token_env = [], ho_token_file = []\<rparr>),
      (''prod'', \<lparr>ho_url = ''http://prod:8080'', ho_token = ''t2'', ho_token_env = [], ho_token_file = []\<rparr>)]\<rparr>"

definition sample_cli :: "int cli_env" where
  "sample_cli = \<lparr>ce_machine = sample_host\<lparr>h_environ := [''HOME=/home/a'', ''SASHIKI_DB_PASSWORD=secret'']\<rparr>,
     ce_read = (\<lambda>p w. ((FsOk, []), w)), ce_hosts = (\<lambda>t. Inr sample_hosts),
     ce_http = (\<lambda>q w. (sample_answer q, w)), ce_parse = sample_parse, ce_print = (\<lambda>j. []),
     ce_now = (\<lambda>w. (w, w)), ce_sleep = (\<lambda>d w. ((), w + d)),
     ce_duration = (\<lambda>s. Inl (EText ''time: invalid duration'')), ce_show_duration = show_int,
     ce_percent = (\<lambda>r. ''0%''), ce_order = id, ce_random = (\<lambda>n. succeed (replicate n (CHR 0x00))),
     ce_sha256 = id, ce_look_path = (\<lambda>p. succeed (''/usr/bin/'' @ p)), ce_exec = (\<lambda>p a e. succeed 0),
     ce_mode = (\<lambda>p. succeed 384), ce_create_temp = (\<lambda>d p. succeed (d @ ''/tmp'')),
     ce_write = (\<lambda>p t. succeed ()), ce_close = (\<lambda>p. succeed ()), ce_chmod = (\<lambda>p m. succeed ()),
     ce_rename = (\<lambda>p q. succeed ()), ce_decoder = sample_decoder, ce_open_db = (\<lambda>p. succeed ()),
     ce_db = (\<lambda>p w. open_db), ce_set_db = (\<lambda>p d w. w), ce_db_fault = (\<lambda>w. (None, w)),
     ce_goos = ''linux'', ce_version = ''dev'', ce_rounds = 1000000000000\<rparr>"

definition sample_commands :: "int machine_commands" where
  "sample_commands = \<lparr>mx_init = (\<lambda>xs. ret 0), mx_import = (\<lambda>xs. ret 0), mx_export = (\<lambda>xs. ret 0),
     mx_import_stream = (\<lambda>xs. ret 0)\<rparr>"

end
