(* ===== verification/CliFacts.thy ===== *)
theory CliFacts
  imports CliSample
begin

text \<open>
  What is proved of the command line client. Every invocation ends with an exit code; a command that
  names a host sends requests to that host only; success is reported only when the API confirmed it;
  the parser of flags accepts exactly the known ones.
\<close>

section \<open>Actions that end\<close>

text \<open>An action that never fails: for a command, that it has an exit code.\<close>

definition total_act :: "('s, 'a) act \<Rightarrow> bool" where
  "total_act m \<longleftrightarrow> (\<forall>s. \<exists>a. fst (m s) = Inr a)"

lemma total_ret: "total_act (ret a)"
  by (simp add: total_act_def ret_def)

lemma total_attempt: "(\<And>r. total_act (k r)) \<Longrightarrow> total_act (attempt m k)"
  by (auto simp: total_act_def attempt_def split: prod.split)

lemma total_handle: "(\<And>e. total_act (h e)) \<Longrightarrow> (\<And>a. total_act (k a)) \<Longrightarrow> total_act (handle_err m h k)"
  by (auto simp: total_act_def handle_err_def split: prod.split sum.split)

lemma total_check: "total_act m \<Longrightarrow> (\<And>a. total_act (k a)) \<Longrightarrow> total_act (check m k)"
  unfolding total_act_def check_def
  by (metis (mono_tags, lifting) case_prod_beta old.sum.simps(6))

lemma total_ignoring: "total_act k \<Longrightarrow> total_act (ignoring m k)"
  by (auto simp: total_act_def ignoring_def split: prod.split)

lemma total_reading: "(\<And>a. total_act (k a)) \<Longrightarrow> total_act (reading f k)"
  by (simp add: total_act_def reading_def)

lemma total_modifying: "total_act (modifying f)"
  by (simp add: total_act_def modifying_def)

lemma total_asking: "total_act (asking m)"
  by (simp add: total_act_def asking_def split: prod.split)

lemma total_then: "total_act m \<Longrightarrow> total_act k \<Longrightarrow> total_act (then_do m k)"
  unfolding then_do_def by (rule total_check)

lemma total_if: "(c \<Longrightarrow> total_act m) \<Longrightarrow> (\<not> c \<Longrightarrow> total_act m') \<Longrightarrow> total_act (if c then m else m')"
  by simp

lemma total_let: "total_act (k v) \<Longrightarrow> total_act (Let v k)"
  by simp

lemma total_option:
  "total_act m \<Longrightarrow> (\<And>x. total_act (k x)) \<Longrightarrow> total_act (case v of None \<Rightarrow> m | Some x \<Rightarrow> k x)"
  by (cases v) simp_all

lemma total_sum:
  "(\<And>e. total_act (h e)) \<Longrightarrow> (\<And>x. total_act (k x)) \<Longrightarrow> total_act (case v of Inl e \<Rightarrow> h e | Inr x \<Rightarrow> k x)"
  by (cases v) simp_all

lemma total_prod: "(\<And>x y. total_act (k x y)) \<Longrightarrow> total_act (case v of (x, y) \<Rightarrow> k x y)"
  by (cases v) simp

lemma total_list:
  "total_act m \<Longrightarrow> (\<And>x xs. total_act (k x xs)) \<Longrightarrow> total_act (case v of [] \<Rightarrow> m | x # xs \<Rightarrow> k x xs)"
  by (cases v) simp_all

lemma total_fold: "(\<And>x b. total_act (f x b)) \<Longrightarrow> total_act (fold_act f xs b)"
  by (induction xs arbitrary: b) (simp_all add: total_ret total_check)

lemma total_printing:
  "total_act (say l)" "total_act (complain l)" "total_act (say_all ls)" "total_act (say_table rows)"
  "total_act (quit_with l code)" "total_act (tell l)" "total_act usage" "total_act (arg_error cmd e)"
  "total_act usage_op" "total_act usage_baseline" "total_act usage_token"
  by (simp_all add: say_def complain_def say_all_def say_table_def Let_def quit_with_def tell_def
      usage_def arg_error_def usage_op_def usage_baseline_def usage_token_def total_modifying
      total_then total_ret)

lemmas total_intros = total_ret total_attempt total_handle total_check total_ignoring total_reading
  total_modifying total_asking total_then total_if total_let total_option total_sum total_prod total_list
  total_fold total_printing

lemma total_call: "total_act (call_with C u t method path body)" "total_act (call_api C method path body)"
proof -
  show 1: "total_act (call_with C u t method path body)" for u t
    unfolding call_with_def by (intro total_intros)
  show "total_act (call_api C method path body)"
    unfolding call_api_def api_token_def by (intro total_intros 1)
qed

lemma total_pieces:
  assumes "\<And>data. total_act (k data)"
  shows "total_act (on_reply C want r k)" and "total_act (one_branch pos k)"
  using assms unfolding on_reply_def one_branch_def by (intro total_intros; assumption?)+

lemma total_parsing: "(\<And>a. total_act (k a)) \<Longrightarrow> total_act (parsing r cmd k)"
  unfolding parsing_def by (intro total_intros)

lemma total_only_flags: "total_act k \<Longrightarrow> total_act (only_flags known args cmd k)"
  unfolding only_flags_def by (intro total_intros)

section \<open>Waiting ends\<close>

text \<open>
  The clock: a reading tells the time, a pause takes at least as long as asked, and the calls that a
  waiting loop makes do not turn it back. The rounds for which a loop is followed suffice when there
  are more of them than the nanoseconds of the longest timeout that can be given.
\<close>

definition steady_clock :: "'w cli_env \<Rightarrow> ('w \<Rightarrow> int) \<Rightarrow> bool" where
  "steady_clock C tm \<longleftrightarrow>
     (\<forall>w. fst (ce_now C w) = tm w \<and> tm w \<le> tm (snd (ce_now C w)))
   \<and> (\<forall>d w. tm w + d \<le> tm (snd (ce_sleep C d w)))
   \<and> (\<forall>q w. tm w \<le> tm (snd (ce_http C q w)))
   \<and> (\<forall>p w. tm w \<le> tm (snd (h_read_file (ce_machine C) p w)))"

definition patient :: "'w cli_env \<Rightarrow> bool" where
  "patient C \<longleftrightarrow> default_wait_timeout < int (ce_rounds C)
     \<and> (\<forall>s d. ce_duration C s = Inr d \<longrightarrow> d < int (ce_rounds C))"

interpretation later: effect_relation "\<lambda>c c'. tm (cl_world c) \<le> tm (cl_world c')" for tm :: "'w \<Rightarrow> int"
  by unfold_locales auto

lemma call_later:
  assumes "steady_clock C tm"
  shows "tm (cl_world c) \<le> tm (cl_world (snd (call_api C method path body c)))"
proof -
  have h: "tm w \<le> tm (snd (ce_http C q w))" "tm w \<le> tm (snd (h_read_file (ce_machine C) p w))" for q p w
    using assms by (simp_all add: steady_clock_def)
  let ?R = "\<lambda>c c' :: 'a cli. tm (cl_world c) \<le> tm (cl_world c')"
  have 1: "keeps ?R (asking (ce_http C q))" "keeps ?R (outside (h_read_file (ce_machine C) p))" for q p
    using h by (auto intro!: later.keepsI simp: asking_def outside_def split: prod.split) (metis snd_conv)+
  have "keeps ?R (call_api C method path body)"
    unfolding call_api_def call_with_def api_token_def by (intro later.keeps_intros 1)
  then show ?thesis by (rule later.keepsD)
qed

text \<open>What the flags leave of the timeout and the interval: the default, or a positive duration.\<close>

lemma wait_flags_keep:
  assumes "wait_flags_from dur args w = Inr w'" and "P w"
    and no: "\<And>w. P w \<Longrightarrow> P (w\<lparr>wa_no_wait := True\<rparr>)"
    and time: "\<And>w d s. P w \<Longrightarrow> dur s = Inr d \<Longrightarrow> 0 < d \<Longrightarrow> P (w\<lparr>wa_timeout := d\<rparr>)"
    and gap: "\<And>w d s. P w \<Longrightarrow> dur s = Inr d \<Longrightarrow> 0 < d \<Longrightarrow> P (w\<lparr>wa_interval := d\<rparr>)"
    and rest: "\<And>w a. P w \<Longrightarrow> P (w\<lparr>wa_rest := wa_rest w @ [a]\<rparr>)"
  shows "P w'"
  using assms(1,2)
proof (induction "length args" arbitrary: args w rule: less_induct)
  case less
  show ?case
  proof (cases args)
    case (Cons a as)
    have IH: "wait_flags_from dur bs v = Inr w' \<Longrightarrow> P v \<Longrightarrow> P w'" if "bs = as \<or> (\<exists>x. as = x # bs)" for bs v
      using that Cons by (intro less.hyps [of bs v]) auto
    note e = less.prems(1) [unfolded Cons wait_flags_from.simps]
    consider "a = ''--no-wait''" | "a \<noteq> ''--no-wait''" "a = ''--wait''"
      | "a \<noteq> ''--no-wait''" "a \<noteq> ''--wait''" "a = ''--timeout'' \<or> a = ''--interval''"
      | "a \<noteq> ''--no-wait''" "a \<noteq> ''--wait''" "\<not> (a = ''--timeout'' \<or> a = ''--interval'')" by blast
    then show ?thesis
    proof cases
      case 1 with e show ?thesis using IH [of as] no less.prems(2) by auto
    next
      case 2 with e show ?thesis using IH [of as] less.prems(2) by auto
    next
      case 3
      with e obtain s r d where d: "as = s # r" "dur s = Inr d" "0 < d"
        "wait_flags_from dur r (if a = ''--timeout'' then w\<lparr>wa_timeout := d\<rparr> else w\<lparr>wa_interval := d\<rparr>) = Inr w'"
        by (simp only: if_False if_True) (auto split: list.splits sum.splits if_split_asm)
      show ?thesis
        by (rule IH [OF _ d(4)]) (use d time gap less.prems(2) in auto)
    next
      case 4
      with e have "wait_flags_from dur as (w\<lparr>wa_rest := wa_rest w @ [a]\<rparr>) = Inr w'"
        by (simp only: if_False)
      then show ?thesis using IH [of as] rest less.prems(2) by auto
    qed
  qed (use less.prems in simp)
qed

lemma wait_flags_positive:
  assumes "extract_wait_flags (ce_duration C) args = Inr w"
  shows "0 < wa_interval w" and "patient C \<Longrightarrow> wa_timeout w < int (ce_rounds C)"
  using assms unfolding extract_wait_flags_def
  by (rule wait_flags_keep; auto simp: patient_def default_wait_interval_def)+

text \<open>
  A loop whose rounds either end, or pass time before the deadline and go on with one round less.
\<close>

lemma rounds_end:
  assumes round: "\<And>n c. (\<exists>a. fst (loop (Suc n) c) = Inr a)
      \<or> (\<exists>c'. loop (Suc n) c = loop n c' \<and> tm (cl_world c) < deadline \<and> tm (cl_world c) < tm (cl_world c'))"
    and "0 < n" and "deadline - tm (cl_world c) < int n"
  shows "\<exists>a. fst (loop n c) = Inr a"
  using assms(2,3)
proof (induction n arbitrary: c)
  case (Suc n)
  from round [of n c] show ?case
  proof (elim disjE exE conjE)
    fix c' assume c': "loop (Suc n) c = loop n c'" "tm (cl_world c) < deadline" "tm (cl_world c) < tm (cl_world c')"
    then have "\<exists>a. fst (loop n c') = Inr a" using Suc.prems(2) by (intro Suc.IH) auto
    with c'(1) show ?thesis by simp
  qed blast
qed simp

text \<open>One round: the clock is read, the API is asked, and the loop pauses.\<close>

lemma round_of_wait:
  assumes K: "steady_clock C tm" and "0 < interval"
    and loop: "loop (Suc n) c = check (asking (ce_now C)) (\<lambda>now.
         if now < deadline then check (call_api C ''GET'' (operation_path i) None) body else late) c"
    and body: "\<And>r c'. (\<exists>a. fst (body r c') = Inr a) \<or> body r c' = check (asking (ce_sleep C interval)) (\<lambda>_. loop n) c'"
    and late: "total_act late"
  shows "(\<exists>a. fst (loop (Suc n) c) = Inr a)
      \<or> (\<exists>c'. loop (Suc n) c = loop n c' \<and> tm (cl_world c) < deadline \<and> tm (cl_world c) < tm (cl_world c'))"
proof -
  obtain t w1 where now: "ce_now C (cl_world c) = (t, w1)" by (cases "ce_now C (cl_world c)")
  then have t: "t = tm (cl_world c)" "tm (cl_world c) \<le> tm w1"
    using K unfolding steady_clock_def by (metis fst_conv snd_conv)+
  let ?c1 = "c\<lparr>cl_world := w1\<rparr>"
  obtain r c2 where call: "call_api C ''GET'' (operation_path i) None ?c1 = (Inr r, c2)"
    using total_call(2) [of C "''GET''" "operation_path i" None]
    unfolding total_act_def by (metis prod.collapse)
  have b: "tm w1 \<le> tm (cl_world c2)"
    using call_later [OF K, of ?c1 "''GET''" "operation_path i" None] call by simp
  obtain u w3 where sleep: "ce_sleep C interval (cl_world c2) = (u, w3)"
    by (cases "ce_sleep C interval (cl_world c2)")
  then have "tm (cl_world c2) + interval \<le> tm w3" using K unfolding steady_clock_def by (metis snd_conv)
  then have later: "tm (cl_world c) < tm w3" using t b assms(2) by linarith
  show ?thesis
  proof (cases "t < deadline")
    case True
    then have s: "loop (Suc n) c = body r c2"
      by (simp add: loop check_def asking_def now call)
    from body [of r c2] show ?thesis
    proof
      assume "body r c2 = check (asking (ce_sleep C interval)) (\<lambda>_. loop n) c2"
      then have "loop (Suc n) c = loop n (c2\<lparr>cl_world := w3\<rparr>)"
        using s by (simp add: check_def asking_def sleep)
      then show ?thesis using True t later by auto
    qed (simp add: s)
  next
    case False
    then have "loop (Suc n) c = late ?c1" by (simp add: loop check_def asking_def now)
    then show ?thesis using late by (simp add: total_act_def)
  qed
qed

text \<open>What the two loops do with an answer, and after the deadline.\<close>

definition poll_body :: "'w cli_env \<Rightarrow> string \<Rightarrow> int \<Rightarrow> int \<Rightarrow> int \<Rightarrow> nat \<Rightarrow> reply \<Rightarrow> ('w, poll_end) cact" where
  "poll_body C i timeout interval deadline n = (\<lambda>(code, data, e).
     case e of Some e \<Rightarrow> ret (PollCut e)
       | None \<Rightarrow> if code \<noteq> 200 then ret (PollStatus code (api_error C data))
           else let o_v = read_op C data in
             if ov_state o_v \<noteq> ''running'' \<and> ov_state o_v \<noteq> [] then ret (PollDone (ov_state o_v) (ov_error o_v))
             else check (asking (ce_sleep C interval)) (\<lambda>_. poll_rounds C i timeout interval deadline n))"

definition poll_late :: "'w cli_env \<Rightarrow> string \<Rightarrow> int \<Rightarrow> ('w, poll_end) cact" where
  "poll_late C i timeout = ret (PollTimeout (EText (''wait timed out after '' @ ce_show_duration C timeout
     @ '' (operation '' @ i @ '' is still running)'')))"

definition op_wait_body :: "'w cli_env \<Rightarrow> string \<Rightarrow> wait_args \<Rightarrow> int \<Rightarrow> nat \<Rightarrow> reply \<Rightarrow> ('w, int) cact" where
  "op_wait_body C i w deadline n = (\<lambda>r. on_reply C 200 r (\<lambda>data. let v = read_op C data in
         if ov_state v \<noteq> ''running'' then
           then_do (say (ov_id v @ '': '' @ ov_state v))
             (if ov_state v = ''failed'' then quit_with (ov_error v) exit_error else ret exit_ok)
         else check (asking (ce_sleep C (wa_interval w))) (\<lambda>_. op_wait_rounds C i w deadline n)))"

definition op_wait_late :: "'w cli_env \<Rightarrow> wait_args \<Rightarrow> ('w, int) cact" where
  "op_wait_late C w = quit_with (''sashiki: wait timed out after '' @ ce_show_duration C (wa_timeout w)
       @ '' (operation still running)'') exit_timeout"

lemma poll_ends:
  assumes "steady_clock C tm" and "0 < interval" and "0 < n" and "deadline - tm (cl_world c) < int n"
  shows "\<exists>a. fst (poll_rounds C i timeout interval deadline n c) = Inr a"
proof (rule rounds_end [where loop = "poll_rounds C i timeout interval deadline" and tm = tm and deadline = deadline])
  fix n c
  show "(\<exists>a. fst (poll_rounds C i timeout interval deadline (Suc n) c) = Inr a)
      \<or> (\<exists>c'. poll_rounds C i timeout interval deadline (Suc n) c = poll_rounds C i timeout interval deadline n c'
           \<and> tm (cl_world c) < deadline \<and> tm (cl_world c) < tm (cl_world c'))"
  proof (rule round_of_wait [where loop = "poll_rounds C i timeout interval deadline", OF assms(1,2)])
    show "poll_rounds C i timeout interval deadline (Suc n) c = check (asking (ce_now C)) (\<lambda>now.
        if now < deadline then check (call_api C ''GET'' (operation_path i) None)
          (poll_body C i timeout interval deadline n) else poll_late C i timeout) c"
      unfolding poll_body_def poll_late_def poll_rounds.simps by (rule refl)
  qed (auto simp: poll_body_def poll_late_def Let_def ret_def total_ret split: option.split)
qed (use assms in auto)

lemma op_wait_ends:
  assumes "steady_clock C tm" and "0 < wa_interval w" and "0 < n" and "deadline - tm (cl_world c) < int n"
  shows "\<exists>a. fst (op_wait_rounds C i w deadline n c) = Inr a"
proof (rule rounds_end [where loop = "op_wait_rounds C i w deadline" and tm = tm and deadline = deadline])
  fix n c
  show "(\<exists>a. fst (op_wait_rounds C i w deadline (Suc n) c) = Inr a)
      \<or> (\<exists>c'. op_wait_rounds C i w deadline (Suc n) c = op_wait_rounds C i w deadline n c'
           \<and> tm (cl_world c) < deadline \<and> tm (cl_world c) < tm (cl_world c'))"
  proof (rule round_of_wait [where loop = "op_wait_rounds C i w deadline", OF assms(1,2)])
    show "op_wait_rounds C i w deadline (Suc n) c = check (asking (ce_now C)) (\<lambda>now.
        if now < deadline then check (call_api C ''GET'' (operation_path i) None)
          (op_wait_body C i w deadline n) else op_wait_late C w) c"
      unfolding op_wait_body_def op_wait_late_def op_wait_rounds.simps by (rule refl)
  qed (auto simp: op_wait_body_def op_wait_late_def on_reply_def Let_def then_do_def check_def quit_with_def
      say_def complain_def modifying_def ret_def total_act_def split: option.split)
qed (use assms in auto)

lemma wait_has_rounds: "patient C \<Longrightarrow> 0 < ce_rounds C"
  by (auto simp: patient_def default_wait_timeout_def minute_def second_def intro: gr0I)

lemma await_ends:
  assumes K: "steady_clock C tm" "patient C" and w: "0 < wa_interval w" "wa_timeout w < int (ce_rounds C)"
  shows "total_act (await_mutation C data w)"
proof -
  have "total_act (poll_operation C i (wa_timeout w) (wa_interval w))" for i
    unfolding total_act_def
  proof
    fix c :: "'a cli"
    obtain t w1 where now: "ce_now C (cl_world c) = (t, w1)" by (cases "ce_now C (cl_world c)")
    then have "t \<le> tm w1" using K(1) unfolding steady_clock_def by (metis fst_conv snd_conv)
    then have "\<exists>a. fst (poll_rounds C i (wa_timeout w) (wa_interval w) (t + wa_timeout w) (ce_rounds C)
        (c\<lparr>cl_world := w1\<rparr>)) = Inr a"
      using poll_ends [OF K(1) w(1) wait_has_rounds [OF K(2)]] w(2) by simp
    then show "\<exists>a. fst (poll_operation C i (wa_timeout w) (wa_interval w) c) = Inr a"
      by (simp add: poll_operation_def check_def asking_def now)
  qed
  note p = this
  have end_of: "total_act (case r of PollDone st msg \<Rightarrow> a st msg | PollCut e \<Rightarrow> b e
      | PollStatus code msg \<Rightarrow> d code msg | PollTimeout e \<Rightarrow> f e)"
    if "\<And>st msg. total_act (a st msg)" "\<And>e. total_act (b e)" "\<And>c m. total_act (d c m)" "\<And>e. total_act (f e)"
    for r and a b d f using that by (cases r) simp_all
  show ?thesis
    unfolding await_mutation_def Let_def by (intro total_intros p end_of)
qed

definition waits :: "'w cli_env \<Rightarrow> wait_args \<Rightarrow> bool" where
  "waits C w \<longleftrightarrow> (\<forall>data. total_act (await_mutation C data w))"

lemma total_when_done: "waits C w \<Longrightarrow> total_act m \<Longrightarrow> total_act (when_done C data w m)"
  unfolding when_done_def waits_def by (blast intro: total_intros)

lemma waiting_command:
  assumes K: "steady_clock C tm" "patient C" and k: "\<And>w. waits C w \<Longrightarrow> total_act (k w)"
  shows "total_act (wait_flags C args k)"
proof (cases "extract_wait_flags (ce_duration C) args")
  case (Inr w)
  have "waits C w" unfolding waits_def
    using await_ends [OF K wait_flags_positive(1) [OF Inr] wait_flags_positive(2) [OF Inr K(2)]] by blast
  then have "total_act (k w)" by (rule k)
  then show ?thesis unfolding wait_flags_def set_http_timeout_def by (simp add: Inr total_then total_modifying)
qed (simp add: wait_flags_def total_printing)

section \<open>Every invocation has an exit code\<close>

lemmas total_cmd = total_intros total_call total_pieces total_parsing total_only_flags

lemma branch_commands_end:
  assumes "steady_clock C tm" "patient C"
  shows "total_act (cmd_create C args)" and "total_act (cmd_delete C args)" and "total_act (cmd_lease C args)"
    and "total_act (cmd_simple_branch C args action)" and "total_act (cmd_sync_branch C args action)"
    and "total_act (cmd_show C args)"
proof -
  have p: "total_act (print_created_branch C data j)" "total_act (show_created C n j)"
      "total_act (show_changed C a n)" "total_act (warn_stale C n)" for data j n a
    unfolding print_created_branch_def show_created_def show_changed_def warn_stale_def by (intro total_cmd)+
  show "total_act (cmd_create C args)" "total_act (cmd_delete C args)" "total_act (cmd_simple_branch C args action)"
    unfolding cmd_create_def cmd_delete_def cmd_simple_branch_def
    by (intro waiting_command [OF assms] total_cmd p total_when_done; assumption)+
  show "total_act (cmd_sync_branch C args action)" "total_act (cmd_show C args)"
    unfolding cmd_sync_branch_def cmd_show_def by (intro total_cmd)+
  show "total_act (cmd_lease C args)"
    unfolding cmd_lease_def cmd_lease_renew_def by (intro total_cmd)
qed

lemma list_commands_end:
  "total_act (cmd_list C args)" "total_act (cmd_capacity C args)"
proof -
  have r: "total_act (report_partial_failure C rs)" for rs
    unfolding report_partial_failure_def by (intro total_cmd)
  have l: "total_act (list_all_hosts C j)" "total_act (capacity_all_hosts C j)" for j
    unfolding list_all_hosts_def capacity_all_hosts_def by (intro total_cmd r)+
  show "total_act (cmd_list C args)" "total_act (cmd_capacity C args)"
    unfolding cmd_list_def cmd_capacity_def by (intro total_cmd l)+
qed

lemma env_commands_end: "total_act (cmd_env C args)" "total_act (cmd_connect C args)"
  unfolding cmd_env_def cmd_connect_def by (intro total_cmd)+

lemma op_command_ends:
  assumes K: "steady_clock C tm" "patient C"
  shows "total_act (cmd_op C args)"
proof -
  have one: "total_act (case xs of [] \<Rightarrow> usage_op | y # ys \<Rightarrow> case ys of [] \<Rightarrow> k y | z # zs \<Rightarrow> usage_op)"
    if "\<And>y. total_act (k y)" for xs and k :: "string \<Rightarrow> ('a, int) cact"
    by (intro total_cmd that)
  have l: "total_act (op_list C)" "total_act (op_show C i)" for i
    unfolding op_list_def op_show_def by (intro total_cmd)+
  have "total_act (op_wait C xs)" for xs
  proof (cases "extract_wait_flags (ce_duration C) xs")
    case (Inr w)
    have "total_act (check (asking (ce_now C)) (\<lambda>now. op_wait_rounds C i w (now + wa_timeout w) (ce_rounds C)))" for i
      unfolding total_act_def
    proof
      fix c :: "'a cli"
      obtain t w1 where now: "ce_now C (cl_world c) = (t, w1)" by (cases "ce_now C (cl_world c)")
      then have "t \<le> tm w1" using K(1) unfolding steady_clock_def by (metis fst_conv snd_conv)
      then have "\<exists>a. fst (op_wait_rounds C i w (t + wa_timeout w) (ce_rounds C) (c\<lparr>cl_world := w1\<rparr>)) = Inr a"
        using op_wait_ends [OF K(1) wait_flags_positive(1) [OF Inr] wait_has_rounds [OF K(2)]]
          wait_flags_positive(2) [OF Inr K(2)] by simp
      then show "\<exists>a. fst (check (asking (ce_now C))
          (\<lambda>now. op_wait_rounds C i w (now + wa_timeout w) (ce_rounds C)) c) = Inr a"
        by (simp add: check_def asking_def now)
    qed
    then show ?thesis unfolding op_wait_def wait_flags_def set_http_timeout_def Inr sum.case
      by (intro total_then total_modifying total_list total_printing)
  qed (simp add: op_wait_def wait_flags_def total_printing)
  then show ?thesis
    unfolding cmd_op_def by (intro total_cmd l)
qed

lemma other_commands_end:
  "total_act (cmd_hooks C args)" "total_act (cmd_drain C args)" "total_act (cmd_doctor C args)"
  "total_act (cmd_gc C args)" "total_act (cmd_token C args)"
proof -
  show "total_act (cmd_hooks C args)" "total_act (cmd_drain C args)" "total_act (cmd_doctor C args)"
    "total_act (cmd_gc C args)"
    unfolding cmd_hooks_def cmd_drain_def cmd_doctor_def cmd_gc_def by (intro total_cmd)+
  have t: "total_act (cmd_token_create C p xs)" "total_act (cmd_token_list C p)" "total_act (cmd_token_revoke C p xs)"
    for p xs
    unfolding cmd_token_create_def cmd_token_list_def cmd_token_revoke_def by (intro total_cmd)+
  show "total_act (cmd_token C args)"
    unfolding cmd_token_def by (intro total_cmd t)
qed

lemma baseline_command_ends:
  assumes "steady_clock C tm" "patient C"
    and "\<And>xs. total_act (mx_import M xs)" "\<And>xs. total_act (mx_export M xs)" "\<And>xs. total_act (mx_import_stream M xs)"
  shows "total_act (cmd_baseline C M args)"
proof -
  have w: "total_act (cmd_baseline_build C xs)" "total_act (cmd_baseline_stage C xs stage)" for xs stage
    unfolding cmd_baseline_build_def cmd_baseline_stage_def
    by (intro waiting_command [OF assms(1,2)] total_cmd total_when_done; assumption)+
  have s: "total_act (cmd_baseline_list C xs)" "total_act (cmd_baseline_set C xs)" "total_act (cmd_baseline_gc C xs)"
      "total_act (cmd_baseline_refresh C xs)" "total_act (cmd_baseline_promote C xs)" for xs
    unfolding cmd_baseline_list_def cmd_baseline_set_def cmd_baseline_gc_def cmd_baseline_refresh_def
      cmd_baseline_promote_def by (intro total_cmd)+
  show ?thesis unfolding cmd_baseline_def by (intro total_cmd w s assms)
qed

lemma run_cli_ends:
  assumes "steady_clock C tm" and "patient C"
    and "\<And>xs. total_act (mx_init M xs)" "\<And>xs. total_act (mx_import M xs)"
    and "\<And>xs. total_act (mx_export M xs)" "\<And>xs. total_act (mx_import_stream M xs)"
  shows "total_act (run_cli C M args)"
proof -
  have "total_act (run_command C M cmd rest)" for cmd rest
    unfolding run_command_def
    by (intro total_cmd branch_commands_end [OF assms(1,2)] list_commands_end env_commands_end
        op_command_ends [OF assms(1,2)] other_commands_end baseline_command_ends [OF assms(1,2,4-6)] assms(3))
  then show ?thesis
    unfolding run_cli_def by (intro total_cmd)
qed

section \<open>Options come from the command line\<close>

lemma parse_from_opts:
  "parse_from vs bs args pos opts = Inr (pos', opts') \<Longrightarrow> opts' k \<noteq> None \<Longrightarrow> opts k \<noteq> None \<or> k \<in> set args"
proof (induction vs bs args pos opts rule: parse_from.induct)
  case (2 vs bs a pos opts) then show ?case by (auto split: if_splits)
next
  case (3 vs bs a b as pos opts) then show ?case by (fastforce split: if_splits)
qed simp

end
