(* ===== verification/CliHosts.thy ===== *)
theory CliHosts
  imports CliFacts
begin

text \<open>
  A command that names a host sends its requests to that host: replacing what every other address
  answers changes nothing. The proof compares two runs statement by statement, as a relational logic
  does: both runs stay equal as long as the selection of the host is the one that was made.
\<close>

section \<open>Two runs that stay equal\<close>

definition on_host :: "string \<Rightarrow> 'w cli \<Rightarrow> bool" where
  "on_host u c \<longleftrightarrow> cl_explicit c \<and> cl_url c = u"

definition agree :: "string \<Rightarrow> ('w, 'a) cact \<Rightarrow> ('w, 'a) cact \<Rightarrow> bool" where
  "agree u m m' \<longleftrightarrow> (\<forall>c. on_host u c \<longrightarrow> m c = m' c \<and> on_host u (snd (m c)))"

lemma agree_ret: "agree u (ret a) (ret a)"
  by (simp add: agree_def ret_def)

lemma agree_throw: "agree u (throw e) (throw e)"
  by (simp add: agree_def throw_def)

lemma agree_attempt: "agree u m m' \<Longrightarrow> (\<And>r. agree u (k r) (k' r)) \<Longrightarrow> agree u (attempt m k) (attempt m' k')"
  unfolding agree_def attempt_def by (metis (mono_tags, lifting) case_prod_beta)

lemma agree_check: "agree u m m' \<Longrightarrow> (\<And>a. agree u (k a) (k' a)) \<Longrightarrow> agree u (check m k) (check m' k')"
  unfolding check_as_attempt by (rule agree_attempt) (simp_all add: agree_throw split: sum.split)

lemma agree_handle:
  "agree u m m' \<Longrightarrow> (\<And>e. agree u (h e) (h' e)) \<Longrightarrow> (\<And>a. agree u (k a) (k' a))
     \<Longrightarrow> agree u (handle_err m h k) (handle_err m' h' k')"
  unfolding handle_as_attempt by (rule agree_attempt) (simp_all split: sum.split)

lemma agree_then: "agree u m m' \<Longrightarrow> agree u k k' \<Longrightarrow> agree u (then_do m k) (then_do m' k')"
  unfolding then_do_def by (rule agree_check)

lemma agree_wrapping: "agree u m m' \<Longrightarrow> agree u (wrapping f m) (wrapping f m')"
  unfolding wrapping_as_attempt
  by (rule agree_attempt) (simp_all add: agree_throw agree_ret split: sum.split)

lemma agree_ignoring: "agree u m m' \<Longrightarrow> agree u k k' \<Longrightarrow> agree u (ignoring m k) (ignoring m' k')"
  unfolding ignoring_as_attempt by (rule agree_attempt)

lemma agree_if: "agree u m m' \<Longrightarrow> agree u k k' \<Longrightarrow> agree u (if b then m else k) (if b then m' else k')"
  by simp

lemma agree_let: "agree u (k v) (k' v) \<Longrightarrow> agree u (Let v k) (Let v k')"
  by simp

lemma agree_option:
  "agree u m m' \<Longrightarrow> (\<And>x. agree u (k x) (k' x))
     \<Longrightarrow> agree u (case v of None \<Rightarrow> m | Some x \<Rightarrow> k x) (case v of None \<Rightarrow> m' | Some x \<Rightarrow> k' x)"
  by (cases v) simp_all

lemma agree_sum:
  "(\<And>e. agree u (h e) (h' e)) \<Longrightarrow> (\<And>x. agree u (k x) (k' x))
     \<Longrightarrow> agree u (case v of Inl e \<Rightarrow> h e | Inr x \<Rightarrow> k x) (case v of Inl e \<Rightarrow> h' e | Inr x \<Rightarrow> k' x)"
  by (cases v) simp_all

lemma agree_prod:
  "(\<And>x y. agree u (k x y) (k' x y)) \<Longrightarrow> agree u (case v of (x, y) \<Rightarrow> k x y) (case v of (x, y) \<Rightarrow> k' x y)"
  by (cases v) simp

lemma agree_list:
  "agree u m m' \<Longrightarrow> (\<And>x xs. agree u (k x xs) (k' x xs))
     \<Longrightarrow> agree u (case v of [] \<Rightarrow> m | x # xs \<Rightarrow> k x xs) (case v of [] \<Rightarrow> m' | x # xs \<Rightarrow> k' x xs)"
  by (cases v) simp_all

lemma agree_fs:
  "agree u a a' \<Longrightarrow> (\<And>e. agree u (b e) (b' e)) \<Longrightarrow> (\<And>e. agree u (p e) (p' e)) \<Longrightarrow> (\<And>e. agree u (f e) (f' e))
     \<Longrightarrow> agree u (case v of FsOk \<Rightarrow> a | FsNotExist e \<Rightarrow> b e | FsPermission e \<Rightarrow> p e | FsFailed e \<Rightarrow> f e)
          (case v of FsOk \<Rightarrow> a' | FsNotExist e \<Rightarrow> b' e | FsPermission e \<Rightarrow> p' e | FsFailed e \<Rightarrow> f' e)"
  by (cases v) simp_all

text \<open>What is done outside the client leaves the selection alone, and so does printing.\<close>

lemma agree_outside: "agree u (outside m) (outside m)" "agree u (asking q) (asking q)"
  by (auto simp: agree_def outside_def asking_def on_host_def split: prod.split)

lemma agree_printing:
  "agree u (say l) (say l)" "agree u (complain l) (complain l)" "agree u (say_all ls) (say_all ls)"
  "agree u (say_table rows) (say_table rows)" "agree u (quit_with l code) (quit_with l code)"
  "agree u (tell l) (tell l)" "agree u usage usage" "agree u (arg_error cmd e) (arg_error cmd e)"
  "agree u usage_op usage_op" "agree u usage_baseline usage_baseline" "agree u usage_token usage_token"
  "agree u (set_http_timeout d) (set_http_timeout d)"
  by (auto simp: agree_def say_def complain_def say_all_def say_table_def Let_def quit_with_def tell_def
      usage_def arg_error_def usage_op_def usage_baseline_def usage_token_def then_do_def check_def
      modifying_def set_http_timeout_def ret_def on_host_def)

lemmas agree_intros = agree_ret agree_throw agree_attempt agree_check agree_handle agree_then agree_wrapping
  agree_ignoring agree_if agree_let agree_option agree_sum agree_prod agree_list agree_fs agree_outside agree_printing

section \<open>Another network\<close>

text \<open>The same machine, whose network answers otherwise, except below one address.\<close>

definition with_http :: "'w cli_env \<Rightarrow> (http_call \<Rightarrow> 'w \<Rightarrow> (int \<times> string \<times> err option) \<times> 'w) \<Rightarrow> 'w cli_env" where
  "with_http C h = C\<lparr>ce_http := h\<rparr>"

lemma with_http_fields [simp]:
  "ce_machine (with_http C h) = ce_machine C" "ce_read (with_http C h) = ce_read C"
  "ce_hosts (with_http C h) = ce_hosts C" "ce_parse (with_http C h) = ce_parse C"
  "ce_print (with_http C h) = ce_print C" "ce_now (with_http C h) = ce_now C"
  "ce_sleep (with_http C h) = ce_sleep C" "ce_duration (with_http C h) = ce_duration C"
  "ce_show_duration (with_http C h) = ce_show_duration C" "ce_percent (with_http C h) = ce_percent C"
  "ce_order (with_http C h) = ce_order C" "ce_random (with_http C h) = ce_random C"
  "ce_sha256 (with_http C h) = ce_sha256 C" "ce_look_path (with_http C h) = ce_look_path C"
  "ce_exec (with_http C h) = ce_exec C" "ce_mode (with_http C h) = ce_mode C"
  "ce_create_temp (with_http C h) = ce_create_temp C" "ce_write (with_http C h) = ce_write C"
  "ce_close (with_http C h) = ce_close C" "ce_chmod (with_http C h) = ce_chmod C"
  "ce_rename (with_http C h) = ce_rename C" "ce_decoder (with_http C h) = ce_decoder C"
  "ce_open_db (with_http C h) = ce_open_db C" "ce_db (with_http C h) = ce_db C"
  "ce_set_db (with_http C h) = ce_set_db C" "ce_db_fault (with_http C h) = ce_db_fault C"
  "ce_goos (with_http C h) = ce_goos C" "ce_version (with_http C h) = ce_version C"
  "ce_rounds (with_http C h) = ce_rounds C" "ce_http (with_http C h) = h"
  by (simp_all add: with_http_def)

definition same_below :: "'w cli_env \<Rightarrow> string \<Rightarrow> (http_call \<Rightarrow> 'w \<Rightarrow> (int \<times> string \<times> err option) \<times> 'w) \<Rightarrow> bool" where
  "same_below C u h \<longleftrightarrow> (\<forall>q. has_prefix (hq_url q) u \<longrightarrow> h q = ce_http C q)"

lemma network_free_1:
  "environ (with_http C h) = environ C" "read_field (with_http C h) key d zero = read_field C key d zero"
  "unmarshal (with_http C h) d zero = unmarshal C d zero" "load_hosts_from (with_http C h) = load_hosts_from C"
  "marshal (with_http C h) = marshal C" "api_error (with_http C h) = api_error C"
  "read_capacity (with_http C h) = read_capacity C" "capacity_lines (with_http C h) = capacity_lines C"
  "replace_file (with_http C h) = replace_file C"
  by ((intro ext)?; unfold environ_def read_field_def unmarshal_def load_hosts_from_def marshal_def marshal_arg_def
      api_error_def read_capacity_def capacity_lines_def replace_file_def with_http_fields; rule refl)+

lemma network_free_2:
  "user_home (with_http C h) = user_home C" "read_branch (with_http C h) = read_branch C"
  "read_op (with_http C h) = read_op C" "read_ops (with_http C h) = read_ops C"
  "read_branches (with_http C h) = read_branches C" "operation_id_from (with_http C h) = operation_id_from C"
  "read_doctor (with_http C h) = read_doctor C" "drain_lines (with_http C h) = drain_lines C"
  "call_err (with_http C h) = call_err C" "api_url (with_http C h) = api_url C"
  "connect_host (with_http C h) = connect_host C" "env_host (with_http C h) = env_host C"
  "db_name_for (with_http C h) = db_name_for C" "write_dotenv (with_http C h) = write_dotenv C"
  by ((intro ext)?; unfold user_home_def read_branch_def read_op_def read_ops_def read_branches_def operation_id_from_def
      read_doctor_def drain_lines_def call_err_def api_url_def connect_host_def env_host_def db_name_for_def
      write_dotenv_def with_http_fields network_free_1; rule refl)+

lemma network_free_3:
  "hosts_file_path (with_http C h) = hosts_file_path C" "home_relative (with_http C h) = home_relative C"
  "api_token (with_http C h) = api_token C" "print_created_branch (with_http C h) = print_created_branch C"
  "client_call (with_http C h) = client_call C" "conn_url (with_http C h) = conn_url C"
  "default_config_path (with_http C h) = default_config_path C"
  "require_config_path (with_http C h) = require_config_path C"
  by ((intro ext)?; unfold hosts_file_path_def api_token_def default_config_path_def home_relative_def print_created_branch_def client_call_def conn_url_def
      require_config_path_def config_found_def with_http_fields network_free_1 network_free_2; rule refl)+

lemma network_free_4:
  "resolve_token (with_http C h) = resolve_token C" "env_entries (with_http C h) = env_entries C"
  "cli_sql (with_http C h) path q = cli_sql C path q"
  "token_config_path (with_http C h) = token_config_path C"
  by ((intro ext)?; unfold resolve_token_def env_entries_def cli_sql_def token_config_path_def with_http_fields
      network_free_1 network_free_2 network_free_3; rule refl)+

lemma network_free_5:
  "emit_env (with_http C h) = emit_env C" "cmd_token_create (with_http C h) = cmd_token_create C"
  "cmd_token_list (with_http C h) = cmd_token_list C" "cmd_token_revoke (with_http C h) = cmd_token_revoke C"
  "select_host (with_http C h) = select_host C" "select_default_host (with_http C h) = select_default_host C"
  by ((intro ext)?; unfold select_default_host_def emit_env_def cmd_token_create_def cmd_token_list_def cmd_token_revoke_def select_host_def
      with_http_fields network_free_1 network_free_2 network_free_3 network_free_4; rule refl)+

lemma network_free_6:
  "cmd_token (with_http C h) = cmd_token C" "choose_host (with_http C h) = choose_host C"
  by ((intro ext)?; unfold cmd_token_def choose_host_def with_http_fields network_free_1 network_free_3
      network_free_4 network_free_5; rule refl)+

lemmas network_free = with_http_fields network_free_1 network_free_2 network_free_3 network_free_4
  network_free_5 network_free_6

section \<open>Every command asks the selected host\<close>

lemma agree_reading: "(\<And>a. agree u (k a) (k' a)) \<Longrightarrow> agree u (reading f k) (reading f k')"
  unfolding agree_def reading_def by blast

lemma agree_call:
  assumes "same_below C u h"
  shows "agree u (call_api (with_http C h) method path body) (call_api C method path body)"
proof -
  have w: "agree u (call_with (with_http C h) u t method path body) (call_with C u t method path body)" for t
  proof -
    have "agree u (asking (h q)) (asking (ce_http C q))" if "hq_url q = u @ path" for q
      using assms that by (simp add: same_below_def agree_outside)
    then show ?thesis unfolding call_with_def network_free by (intro agree_intros agree_reading) simp
  qed
  have t: "agree u (api_token C) (api_token C)"
    unfolding api_token_def by (intro agree_intros agree_reading)
  have both: "agree u (check (api_token C) (\<lambda>t. call_with (with_http C h) u t method path body))
      (check (api_token C) (\<lambda>t. call_with C u t method path body))"
    by (intro agree_check t w)
  have url: "api_url C c = u" if "on_host u c" for c
    using that by (simp add: api_url_def on_host_def)
  show ?thesis
    unfolding agree_def call_api_def reading_def network_free
  proof (intro allI impI)
    fix c :: "'a cli" assume c: "on_host u c"
    show "check (api_token C) (\<lambda>t. call_with (with_http C h) (api_url C c) t method path body) c
        = check (api_token C) (\<lambda>t. call_with C (api_url C c) t method path body) c
      \<and> on_host u (snd (check (api_token C) (\<lambda>t. call_with (with_http C h) (api_url C c) t method path body) c))"
      unfolding url [OF c] using both c unfolding agree_def by blast
  qed
qed

lemma agree_pieces:
  assumes "\<And>a. agree u (k a) (k' a)"
  shows "agree u (on_reply (with_http C h) want r k) (on_reply C want r k')"
    and "agree u (one_branch pos k) (one_branch pos k')"
  using assms unfolding on_reply_def one_branch_def network_free by (intro agree_intros; assumption?)+

lemma agree_parsing: "(\<And>a. agree u (k a) (k' a)) \<Longrightarrow> agree u (parsing r cmd k) (parsing r cmd k')"
  unfolding parsing_def by (intro agree_intros)

lemma agree_only_flags:
  "agree u k k' \<Longrightarrow> agree u (only_flags known args cmd k) (only_flags known args cmd k')"
  unfolding only_flags_def by (intro agree_intros)

lemma agree_poll_end:
  "(\<And>st m. agree u (a st m) (a' st m)) \<Longrightarrow> (\<And>e. agree u (b e) (b' e)) \<Longrightarrow> (\<And>x m. agree u (d x m) (d' x m))
     \<Longrightarrow> (\<And>e. agree u (f e) (f' e))
     \<Longrightarrow> agree u (case r of PollDone st m \<Rightarrow> a st m | PollCut e \<Rightarrow> b e | PollStatus x m \<Rightarrow> d x m | PollTimeout e \<Rightarrow> f e)
          (case r of PollDone st m \<Rightarrow> a' st m | PollCut e \<Rightarrow> b' e | PollStatus x m \<Rightarrow> d' x m | PollTimeout e \<Rightarrow> f' e)"
  by (cases r) simp_all

lemma agree_loops:
  assumes "same_below C u h"
  shows "agree u (poll_rounds (with_http C h) i timeout interval deadline n) (poll_rounds C i timeout interval deadline n)"
    and "agree u (op_wait_rounds (with_http C h) i w deadline n) (op_wait_rounds C i w deadline n)"
proof -
  show "agree u (poll_rounds (with_http C h) i timeout interval deadline n) (poll_rounds C i timeout interval deadline n)"
  proof (induction n)
    case (Suc n) then show ?case
      unfolding poll_rounds.simps network_free by (intro agree_intros agree_call [OF assms])
  qed (simp add: agree_throw)
  show "agree u (op_wait_rounds (with_http C h) i w deadline n) (op_wait_rounds C i w deadline n)"
  proof (induction n)
    case (Suc n) then show ?case
      unfolding op_wait_rounds.simps network_free by (intro agree_intros agree_call [OF assms] agree_pieces)
  qed (simp add: agree_throw)
qed

lemma agree_waiting:
  assumes "same_below C u h"
  shows "agree u k k' \<Longrightarrow> agree u (when_done (with_http C h) data w k) (when_done C data w k')"
    and "(\<And>w. agree u (g w) (g' w)) \<Longrightarrow> agree u (wait_flags (with_http C h) args g) (wait_flags C args g')"
proof -
  have p: "agree u (poll_operation (with_http C h) i timeout interval) (poll_operation C i timeout interval)"
    for i timeout interval
    unfolding poll_operation_def network_free by (intro agree_intros agree_loops [OF assms])
  have "agree u (await_mutation (with_http C h) data w) (await_mutation C data w)"
    unfolding await_mutation_def network_free Let_def by (intro agree_intros agree_poll_end p)
  then show "agree u k k' \<Longrightarrow> agree u (when_done (with_http C h) data w k) (when_done C data w k')"
    unfolding when_done_def by (intro agree_intros)
  show "(\<And>w. agree u (g w) (g' w)) \<Longrightarrow> agree u (wait_flags (with_http C h) args g) (wait_flags C args g')"
    unfolding wait_flags_def network_free by (intro agree_intros)
qed

lemmas agree_cmd = agree_intros agree_call agree_pieces agree_parsing agree_only_flags agree_waiting

lemma branch_commands_agree:
  assumes "same_below C u h"
  shows "agree u (cmd_create (with_http C h) args) (cmd_create C args)"
    and "agree u (cmd_delete (with_http C h) args) (cmd_delete C args)"
    and "agree u (cmd_lease (with_http C h) args) (cmd_lease C args)"
    and "agree u (cmd_simple_branch (with_http C h) args action) (cmd_simple_branch C args action)"
    and "agree u (cmd_sync_branch (with_http C h) args action) (cmd_sync_branch C args action)"
    and "agree u (cmd_show (with_http C h) args) (cmd_show C args)"
    and "agree u (cmd_env (with_http C h) args) (cmd_env C args)"
    and "agree u (cmd_connect (with_http C h) args) (cmd_connect C args)"
proof -
  have p: "agree u (print_created_branch C data j) (print_created_branch C data j)" for data j
    unfolding print_created_branch_def by (intro agree_cmd)
  have q: "agree u (show_created (with_http C h) n j) (show_created C n j)"
      "agree u (show_changed (with_http C h) a n) (show_changed C a n)"
      "agree u (warn_stale (with_http C h) n) (warn_stale C n)" for n j a
    unfolding show_created_def show_changed_def warn_stale_def network_free
    by (intro agree_cmd p assms)+
  have e: "agree u (emit_env C b x v d f) (emit_env C b x v d f)" for b x v d f
    unfolding emit_env_def write_dotenv_def replace_file_def by (intro agree_cmd)
  show "agree u (cmd_create (with_http C h) args) (cmd_create C args)"
    "agree u (cmd_delete (with_http C h) args) (cmd_delete C args)"
    "agree u (cmd_lease (with_http C h) args) (cmd_lease C args)"
    "agree u (cmd_simple_branch (with_http C h) args action) (cmd_simple_branch C args action)"
    "agree u (cmd_sync_branch (with_http C h) args action) (cmd_sync_branch C args action)"
    "agree u (cmd_show (with_http C h) args) (cmd_show C args)"
    "agree u (cmd_env (with_http C h) args) (cmd_env C args)"
    "agree u (cmd_connect (with_http C h) args) (cmd_connect C args)"
    unfolding cmd_create_def cmd_delete_def cmd_lease_def cmd_lease_renew_def cmd_simple_branch_def
      cmd_sync_branch_def cmd_show_def cmd_env_def cmd_connect_def network_free
    by (intro agree_cmd p q e assms)+
qed

lemma other_commands_agree:
  assumes "same_below C u h"
  shows "agree u (cmd_op (with_http C h) args) (cmd_op C args)"
    and "agree u (cmd_hooks (with_http C h) args) (cmd_hooks C args)"
    and "agree u (cmd_drain (with_http C h) args) (cmd_drain C args)"
    and "agree u (cmd_doctor (with_http C h) args) (cmd_doctor C args)"
    and "agree u (cmd_gc (with_http C h) args) (cmd_gc C args)"
proof -
  have o_f: "agree u (op_list (with_http C h)) (op_list C)"
      "agree u (op_show (with_http C h) i) (op_show C i)"
      "agree u (op_wait (with_http C h) xs) (op_wait C xs)" for i xs
    unfolding op_list_def op_show_def op_wait_def network_free
    by (intro agree_cmd agree_loops assms)+
  show "agree u (cmd_op (with_http C h) args) (cmd_op C args)"
    "agree u (cmd_hooks (with_http C h) args) (cmd_hooks C args)"
    "agree u (cmd_drain (with_http C h) args) (cmd_drain C args)"
    "agree u (cmd_doctor (with_http C h) args) (cmd_doctor C args)"
    "agree u (cmd_gc (with_http C h) args) (cmd_gc C args)"
    unfolding cmd_op_def cmd_hooks_def cmd_drain_def cmd_doctor_def cmd_gc_def network_free
    by (intro agree_cmd o_f assms)+
qed

lemma baseline_commands_agree:
  assumes "same_below C u h"
  shows "agree u (cmd_baseline_build (with_http C h) args) (cmd_baseline_build C args)"
    and "agree u (cmd_baseline_stage (with_http C h) args stage) (cmd_baseline_stage C args stage)"
    and "agree u (cmd_baseline_list (with_http C h) args) (cmd_baseline_list C args)"
    and "agree u (cmd_baseline_set (with_http C h) args) (cmd_baseline_set C args)"
    and "agree u (cmd_baseline_gc (with_http C h) args) (cmd_baseline_gc C args)"
    and "agree u (cmd_baseline_refresh (with_http C h) args) (cmd_baseline_refresh C args)"
    and "agree u (cmd_baseline_promote (with_http C h) args) (cmd_baseline_promote C args)"
  unfolding cmd_baseline_build_def cmd_baseline_stage_def cmd_baseline_list_def cmd_baseline_set_def
    cmd_baseline_gc_def cmd_baseline_refresh_def cmd_baseline_promote_def network_free
  by (intro agree_cmd assms)+

text \<open>Without \<^verbatim>\<open>--all-hosts\<close> the two listing commands ask one host as well.\<close>

lemma listing_commands_agree:
  assumes "same_below C u h" and a: "''--all-hosts'' \<notin> set args"
  shows "agree u (cmd_list (with_http C h) args) (cmd_list C args)"
    and "agree u (cmd_capacity (with_http C h) args) (cmd_capacity C args)"
proof -
  have none: "opt_of opts ''--all-hosts'' \<noteq> ''true''"
    if "parse_args args [] [''--json'', ''--all-hosts''] = Inr (pos, opts)" for pos opts
    using parse_from_opts [OF that [unfolded parse_args_def], of "''--all-hosts''"] a
    by (cases "opts ''--all-hosts''") (auto simp: opt_of_def)
  show "agree u (cmd_list (with_http C h) args) (cmd_list C args)"
  proof (cases "parse_args args [] [''--json'', ''--all-hosts'']")
    case (Inr r)
    obtain pos opts where r: "r = (pos, opts)" by (cases r)
    then have n: "(opt_of opts ''--all-hosts'' = ''true'') = False" using none Inr by blast
    show ?thesis
      unfolding cmd_list_def parsing_def Inr r sum.case prod.case n if_False network_free
      by (intro agree_cmd assms(1))
  qed (simp add: cmd_list_def parsing_def agree_printing)
  have c: "(''--all-hosts'' \<in> set args) = False" using a by simp
  show "agree u (cmd_capacity (with_http C h) args) (cmd_capacity C args)"
    unfolding cmd_capacity_def c if_False network_free by (intro agree_cmd assms(1))
qed

lemma agreeD: "agree u m m' \<Longrightarrow> on_host u c \<Longrightarrow> m c = m' c"
  by (simp add: agree_def)

lemma run_command_agrees:
  assumes S: "same_below C u h" and c: "on_host u c" and a: "''--all-hosts'' \<notin> set rest"
  shows "run_command (with_http C h) M cmd rest c = run_command C M cmd rest c"
proof -
  have b: "cmd_baseline (with_http C h) M rest c = cmd_baseline C M rest c"
    unfolding cmd_baseline_def
    by (cases rest) (simp_all add: baseline_commands_agree [OF S, THEN agreeD, OF c])
  show ?thesis
    unfolding run_command_def network_free
    by (simp add: b branch_commands_agree [OF S, THEN agreeD, OF c] other_commands_agree [OF S, THEN agreeD, OF c]
        listing_commands_agree [OF S a, THEN agreeD, OF c])
qed

lemma select_host_selects:
  assumes "select_host C name c = (Inr (), c1)"
  shows "on_host (cl_url c1) c1
    \<and> (\<exists>text f e. ce_hosts C text = Inr f \<and> map_of (hf_hosts f) name = Some e \<and> cl_url c1 = ho_url e)"
proof -
  obtain r b w where rd: "ce_read C (hosts_file_path C) (cl_world c) = ((r, b), w)"
    by (cases "ce_read C (hosts_file_path C) (cl_world c)") auto
  with assms obtain f e where f: "ce_hosts C b = Inr f" "map_of (hf_hosts f) name = Some e"
      "check (wrapping (\<lambda>x. EWrap (''host '' @ name @ '': '') x []) (resolve_token C e))
         (\<lambda>tok. select_entry e tok True) (c\<lparr>cl_world := w\<rparr>) = (Inr (), c1)"
    by (auto simp: select_host_def load_hosts_from_def check_def asking_def throw_def ret_def
        split: fs_result.splits sum.splits option.splits prod.splits)
  from f(3) have "on_host (cl_url c1) c1 \<and> cl_url c1 = ho_url e"
    by (auto simp: check_def select_entry_def modifying_def on_host_def split: prod.splits sum.splits)
  with f(1,2) show ?thesis by blast
qed



end
