(* ===== verification/CliOutcomes.thy ===== *)
theory CliOutcomes
  imports CliFacts
begin

text \<open>
  What the exit codes of the client mean, the flags it accepts, the dotenv file it edits, the secrets
  it prints, and the token it issues.
\<close>

section \<open>Success\<close>

text \<open>Actions whose value has a property whenever there is one.\<close>

definition gives :: "('a \<Rightarrow> bool) \<Rightarrow> ('s, 'a) act \<Rightarrow> bool" where
  "gives P m \<longleftrightarrow> (\<forall>s a. fst (m s) = Inr a \<longrightarrow> P a)"

lemma gives_ret: "P a \<Longrightarrow> gives P (ret a)"
  by (simp add: gives_def ret_def)

lemma gives_throw: "gives P (throw e)"
  by (simp add: gives_def throw_def)

lemma gives_check: "gives Q m \<Longrightarrow> (\<And>a. Q a \<Longrightarrow> gives P (k a)) \<Longrightarrow> gives P (check m k)"
  unfolding gives_def check_def
  by (auto split: prod.splits sum.splits) (metis fst_conv)+

lemma gives_any: "gives (\<lambda>_. True) m"
  by (simp add: gives_def)

lemma gives_then: "gives P k \<Longrightarrow> gives P (then_do m k)"
  unfolding then_do_def by (rule gives_check [OF gives_any])

lemma gives_if: "(c \<Longrightarrow> gives P m) \<Longrightarrow> (\<not> c \<Longrightarrow> gives P k) \<Longrightarrow> gives P (if c then m else k)"
  by simp

lemma gives_quit: "P code \<Longrightarrow> gives P (quit_with l code)"
  unfolding quit_with_def by (intro gives_then gives_ret)

lemma gives_usage: "P exit_usage \<Longrightarrow> gives P usage"
  unfolding usage_def by (rule gives_quit)

lemma gives_sum:
  "(\<And>e. gives P (h e)) \<Longrightarrow> (\<And>x. gives P (k x)) \<Longrightarrow> gives P (case v of Inl e \<Rightarrow> h e | Inr x \<Rightarrow> k x)"
  by (cases v) simp_all

lemma gives_list:
  "gives P m \<Longrightarrow> (\<And>x xs. gives P (k x xs)) \<Longrightarrow> gives P (case v of [] \<Rightarrow> m | x # xs \<Rightarrow> k x xs)"
  by (cases v) simp_all

lemma status_exit_nonzero: "status_to_exit code \<noteq> 0"
  by (simp add: status_to_exit_def exit_not_found_def exit_exists_def exit_capacity_def exit_error_def)

lemmas exit_nonzero = status_exit_nonzero exit_usage_def exit_error_def exit_timeout_def

text \<open>What a call can return: an answer of the network to that method, or a failure of its own.\<close>

definition replies :: "'w cli_env \<Rightarrow> string \<Rightarrow> reply \<Rightarrow> bool" where
  "replies C method r \<longleftrightarrow>
     (\<exists>q w. hq_method q = method \<and> fst (ce_http C q w) = r) \<or> (\<exists>e. r = (0, [], Some e))"

lemma gives_reply: "gives (replies C method) (call_api C method path body)"
proof -
  have "gives (replies C method) (call_with C u t method path body)" for u t
    by (auto simp: gives_def call_with_def reading_def asking_def ret_def replies_def Let_def
        split: sum.splits prod.splits) (metis fst_conv http_call.select_convs(2))+
  then show ?thesis
    unfolding call_api_def gives_def reading_def check_def
    by (fastforce split: prod.splits sum.splits)
qed

text \<open>An API that never tells of a completed operation, and never answers a change with 200.\<close>

definition never_completes :: "'w cli_env \<Rightarrow> bool" where
  "never_completes C \<longleftrightarrow>
     (\<forall>q w. case fst (ce_http C q w) of (code, data, e) \<Rightarrow> e = None \<and> code = 200 \<longrightarrow>
        hq_method q = ''GET'' \<and> ov_state (read_op C data) \<noteq> ''completed'')"

lemma never_completesD:
  assumes "never_completes C" and "replies C method (200, data, None)"
  shows "method = ''GET'' \<and> ov_state (read_op C data) \<noteq> ''completed''"
proof -
  from assms(2) obtain q w where "hq_method q = method" "fst (ce_http C q w) = (200, data, None)"
    by (auto simp: replies_def)
  with assms(1) [unfolded never_completes_def, rule_format, of q w] show ?thesis by simp
qed

lemma poll_not_completed:
  assumes N: "never_completes C"
  shows "gives (\<lambda>r. \<forall>st m. r = PollDone st m \<longrightarrow> st \<noteq> ''completed'') (poll_rounds C i timeout interval deadline n)"
proof (induction n)
  case (Suc n)
  have "gives (\<lambda>r. \<forall>st m. r = PollDone st m \<longrightarrow> st \<noteq> ''completed'') (poll_body C i timeout interval deadline n r)"
    if "replies C ''GET'' r" for r
    using that never_completesD [OF N, of "''GET''"] Suc.IH unfolding poll_body_def
    by (auto simp: Let_def split: prod.split option.split intro!: gives_ret gives_check [OF gives_any] gives_if)
  then show ?case
    unfolding poll_rounds.simps
    by (fold poll_body_def) (intro gives_check [OF gives_any] gives_if gives_check [OF gives_reply] gives_ret; simp)
qed (simp add: gives_throw)

lemma await_not_done:
  assumes N: "never_completes C" and "\<not> wa_no_wait w"
  shows "gives (\<lambda>(done, exit). \<not> done \<and> exit \<noteq> 0) (await_mutation C data w)"
proof -
  have "gives (\<lambda>r. \<forall>st m. r = PollDone st m \<longrightarrow> st \<noteq> ''completed'') (poll_operation C i (wa_timeout w) (wa_interval w))" for i
    unfolding poll_operation_def by (intro gives_check [OF gives_any] poll_not_completed [OF N])
  then show ?thesis
    unfolding await_mutation_def Let_def
    by (intro gives_if gives_then gives_ret)
       (auto simp: assms(2) exit_nonzero intro!: gives_check gives_then gives_ret gives_if split: poll_end.split)
qed

lemma when_done_nonzero:
  assumes "never_completes C" and "\<not> wa_no_wait w"
  shows "gives (\<lambda>code. code \<noteq> 0) (when_done C data w k)"
  unfolding when_done_def
  by (rule gives_check [OF await_not_done [OF assms]]) (auto intro: gives_ret)

lemma on_reply_nonzero:
  assumes "\<And>data. r = (want, data, None) \<Longrightarrow> gives (\<lambda>code. code \<noteq> 0) (k data)"
  shows "gives (\<lambda>code. code \<noteq> 0) (on_reply C want r k)"
  using assms unfolding on_reply_def
  by (auto simp: exit_nonzero intro!: gives_quit split: prod.split option.split)

lemma gives_wait_flags:
  assumes "extract_wait_flags (ce_duration C) args = Inr w" and "gives P (k w)"
  shows "gives P (wait_flags C args k)"
  using assms by (simp add: wait_flags_def gives_then)

lemma gives_parsing:
  "P exit_usage \<Longrightarrow> (\<And>a. gives P (k a)) \<Longrightarrow> gives P (parsing r cmd k)"
  by (cases r) (simp_all add: parsing_def arg_error_def gives_quit)

lemma gives_one_branch: "P exit_usage \<Longrightarrow> (\<And>a. gives P (k a)) \<Longrightarrow> gives P (one_branch pos k)"
  by (auto simp: one_branch_def split: list.split intro: gives_usage)


definition stuck_cli :: "int cli_env" where
  "stuck_cli = sample_cli\<lparr>ce_http := (\<lambda>q w. ((if hq_method q = ''GET'' then (200, ''garbled'', None)
     else (202, ''accepted'', None)), w))\<rparr>"


section \<open>The flags that are accepted\<close>

text \<open>A command line is read as a list of items: known flags, options with their value, and positions.\<close>

datatype item = FlagItem string | OptItem string string | PosItem string

fun item_ok :: "string list \<Rightarrow> string list \<Rightarrow> item \<Rightarrow> bool" where
  "item_ok vs bs (FlagItem a) \<longleftrightarrow> a \<in> set bs"
| "item_ok vs bs (OptItem a v) \<longleftrightarrow> a \<in> set vs \<and> a \<notin> set bs"
| "item_ok vs bs (PosItem a) \<longleftrightarrow> a \<notin> set bs \<and> a \<notin> set vs \<and> (has_prefix a ''-'' \<longrightarrow> a = ''-'')"

fun words_of :: "item \<Rightarrow> string list" where
  "words_of (FlagItem a) = [a]"
| "words_of (OptItem a v) = [a, v]"
| "words_of (PosItem a) = [a]"

fun positions :: "item list \<Rightarrow> string list" where
  "positions [] = []"
| "positions (PosItem a # xs) = a # positions xs"
| "positions (_ # xs) = positions xs"

fun store_item :: "item \<Rightarrow> (string \<rightharpoonup> string) \<Rightarrow> (string \<rightharpoonup> string)" where
  "store_item (FlagItem a) m = m(a \<mapsto> ''true'')"
| "store_item (OptItem a v) m = m(a \<mapsto> v)"
| "store_item (PosItem a) m = m"

lemma parse_items:
  "list_all (item_ok vs bs) xs \<Longrightarrow>
     parse_from vs bs (concat (map words_of xs)) pos opts = Inr (pos @ positions xs, fold store_item xs opts)"
proof (induction xs arbitrary: pos opts)
  case (Cons x xs)
  have skip: "parse_from vs bs (a # rest) pos opts = parse_from vs bs rest pos (opts(a \<mapsto> ''true''))"
    if "a \<in> set bs" for a rest using that by (cases rest) simp_all
  have keep: "parse_from vs bs (a # rest) pos opts = parse_from vs bs rest (pos @ [a]) opts"
    if "item_ok vs bs (PosItem a)" for a rest using that by (cases rest) auto
  from Cons show ?case
    by (cases x) (simp_all add: skip keep del: parse_from.simps(2,3) item_ok.simps(3),
        auto simp: parse_from.simps)
qed simp

lemma parse_sound:
  "parse_from vs bs args pos opts = Inr (pos', opts') \<Longrightarrow>
     \<exists>xs. list_all (item_ok vs bs) xs \<and> args = concat (map words_of xs)
        \<and> pos' = pos @ positions xs \<and> opts' = fold store_item xs opts"
proof (induction vs bs args pos opts rule: parse_from.induct)
  case (1 vs bs pos opts) then show ?case by (intro exI [of _ "[]"]) simp
next
  case (2 vs bs a pos opts)
  show ?case
  proof (cases "a \<in> set bs")
    case True with 2 show ?thesis by (intro exI [of _ "[FlagItem a]"]) simp
  next
    case False with 2 show ?thesis by (intro exI [of _ "[PosItem a]"]) (auto split: if_splits)
  qed
next
  case (3 vs bs a b as pos opts)
  consider "a \<in> set bs" | "a \<notin> set bs" "a \<in> set vs"
    | "a \<notin> set bs" "a \<notin> set vs" "\<not> (has_prefix a ''-'' \<and> a \<noteq> ''-'')"
    using 3(4) by (fastforce split: if_splits)
  then show ?case
  proof cases
    case 1
    then have "parse_from vs bs (b # as) pos (opts(a \<mapsto> ''true'')) = Inr (pos', opts')"
      using "3.prems" by simp
    from "3.IH"(1) [OF 1 this] obtain xs where "list_all (item_ok vs bs) xs" "b # as = concat (map words_of xs)"
      "pos' = pos @ positions xs" "opts' = fold store_item xs (opts(a \<mapsto> ''true''))" by blast
    then show ?thesis using 1 by (intro exI [of _ "FlagItem a # xs"]) simp
  next
    case 2
    then have "parse_from vs bs as pos (opts(a \<mapsto> b)) = Inr (pos', opts')"
      using "3.prems" by simp
    from "3.IH"(2) [OF 2 this] obtain xs where "list_all (item_ok vs bs) xs" "as = concat (map words_of xs)"
      "pos' = pos @ positions xs" "opts' = fold store_item xs (opts(a \<mapsto> b))" by blast
    then show ?thesis using 2 by (intro exI [of _ "OptItem a b # xs"]) simp
  next
    case 3
    with "3.IH"(3) "3.prems" obtain xs where "list_all (item_ok vs bs) xs" "b # as = concat (map words_of xs)"
      "pos' = (pos @ [a]) @ positions xs" "opts' = fold store_item xs opts" by auto
    then show ?thesis using 3 by (intro exI [of _ "PosItem a # xs"]) auto
  qed
qed

text \<open>The parser of flags accepts exactly the command lines made of known flags, options with a value and
  positions, and reads them as such: an unknown flag is never taken for a position, and the last value
  of an option counts.\<close>

theorem parse_args_exact:
  "parse_args args vs bs = Inr (pos, opts) \<longleftrightarrow>
     (\<exists>xs. list_all (item_ok vs bs) xs \<and> args = concat (map words_of xs)
        \<and> pos = positions xs \<and> opts = fold store_item xs Map.empty)"
  unfolding parse_args_def using parse_items [of vs bs _ "[]" Map.empty] parse_sound [of vs bs args "[]" Map.empty pos opts]
  by (metis append_Nil)

end
