(* ===== verification/CliSecrets.thy ===== *)
theory CliSecrets
  imports CliOutcomes ApiFacts StateFacts
begin

text \<open>
  What the client prints and writes: the password of the application stays out of the output of
  \<^verbatim>\<open>env\<close>, a dotenv file keeps what was in it, and an issued token is the one the server
  accepts. The last section holds what modelling showed of the answers that are misread.
\<close>

section \<open>The password\<close>

definition with_environ :: "'w cli_env \<Rightarrow> string list \<Rightarrow> 'w cli_env" where
  "with_environ C es = C\<lparr>ce_machine := (ce_machine C)\<lparr>h_environ := es\<rparr>\<rparr>"

text \<open>Two environments that agree on every variable but the password.\<close>

definition differ_in_password :: "string list \<Rightarrow> string list \<Rightarrow> bool" where
  "differ_in_password es es' \<longleftrightarrow> (\<forall>n. n \<noteq> ''SASHIKI_DB_PASSWORD'' \<longrightarrow> getenv es n = getenv es' n)"

lemma environ_elsewhere:
  assumes "differ_in_password (h_environ (ce_machine C)) es" and "n \<noteq> ''SASHIKI_DB_PASSWORD''"
  shows "environ (with_environ C es) n = environ C n"
  using assms by (simp add: differ_in_password_def environ_def with_environ_def)

lemma with_environ_fields:
  "ce_http (with_environ C es) = ce_http C" "ce_parse (with_environ C es) = ce_parse C"
  "h_read_file (ce_machine (with_environ C es)) = h_read_file (ce_machine C)"
  by (simp_all add: with_environ_def)

lemma password_free:
  assumes D: "differ_in_password (h_environ (ce_machine C)) es"
  shows "call_api (with_environ C es) method path None = call_api C method path None"
    and "read_branch (with_environ C es) = read_branch C"
    and "call_err (with_environ C es) = call_err C"
    and "emit_env (with_environ C es) b prefix url_var db [] = emit_env C b prefix url_var db []"
proof -
  have e: "environ (with_environ C es) ''SASHIKI_API_URL'' = environ C ''SASHIKI_API_URL''"
    "environ (with_environ C es) ''SASHIKI_API_TOKEN'' = environ C ''SASHIKI_API_TOKEN''"
    "environ (with_environ C es) ''HOME'' = environ C ''HOME''"
    "environ (with_environ C es) ''SASHIKI_DB_HOST'' = environ C ''SASHIKI_DB_HOST''"
    "environ (with_environ C es) ''SASHIKI_DB_NAME'' = environ C ''SASHIKI_DB_NAME''"
    by (rule environ_elsewhere [OF D]; simp)+
  have u: "user_home (with_environ C es) = user_home C" unfolding user_home_def e by (rule refl)
  have a: "api_url (with_environ C es) = api_url C" "api_token (with_environ C es) = api_token C"
    by (intro ext; unfold api_url_def api_token_def e u with_environ_fields; rule refl)+
  show "call_api (with_environ C es) method path None = call_api C method path None"
    unfolding call_api_def call_with_def marshal_def a with_environ_fields option.case sum.case by (rule refl)
  show "read_branch (with_environ C es) = read_branch C" "call_err (with_environ C es) = call_err C"
    by (intro ext; unfold read_branch_def unmarshal_def call_err_def api_error_def with_environ_fields; rule refl)+
  show "emit_env (with_environ C es) b prefix url_var db [] = emit_env C b prefix url_var db []"
    by (simp add: emit_env_def env_entries_def env_host_def conn_url_def connect_host_def db_name_for_def e)
qed

text \<open>C30. Without \<^verbatim>\<open>--write\<close>, the command \<^verbatim>\<open>env\<close> does not depend on the password in the environment: two
  environments that differ in it only give the same run and the same output.\<close>

theorem env_prints_no_password:
  assumes D: "differ_in_password (h_environ (ce_machine C)) es" and W: "''--write'' \<notin> set args"
  shows "cmd_env (with_environ C es) args c = cmd_env C args c"
proof (cases "parse_args args env_values []")
  case (Inr r)
  obtain pos opts where r: "r = (pos, opts)" by (cases r)
  have "opts ''--write'' = None"
    using parse_from_opts [of env_values "[]" args "[]" Map.empty pos opts "''--write''"] Inr W
    by (cases "opts ''--write''") (auto simp: parse_args_def r)
  then have w: "opt_of opts ''--write'' = []" by (simp add: opt_of_def)
  show ?thesis
    unfolding cmd_env_def parsing_def Inr r sum.case prod.case w password_free [OF D] by (rule refl)
qed (simp add: cmd_env_def parsing_def)

theorem env_prints_no_password_witness:
  "cmd_env (with_environ sample_cli [''HOME=/home/a'', ''SASHIKI_DB_PASSWORD=other'']) [''pr-1'', ''--url-var'', ''U''] (fresh_cli 0)
     = cmd_env sample_cli [''pr-1'', ''--url-var'', ''U''] (fresh_cli 0)"
proof (rule env_prints_no_password)
  show "differ_in_password (h_environ (ce_machine sample_cli)) [''HOME=/home/a'', ''SASHIKI_DB_PASSWORD=other'']"
    by (auto simp: differ_in_password_def sample_cli_def sample_host_def)
qed simp

section \<open>The dotenv file\<close>

text \<open>What a reader of the file finds for a key: the rest of the first line that sets it.\<close>

definition dotenv_get :: "string \<Rightarrow> string list \<Rightarrow> string option" where
  "dotenv_get k ls = map_option (drop (length k + 1)) (find (sets_key k) ls)"

definition touched :: "kvs \<Rightarrow> string \<Rightarrow> bool" where
  "touched ps l \<longleftrightarrow> list_ex (\<lambda>p. sets_key (fst p) l) ps"

definition plain_keys :: "kvs \<Rightarrow> bool" where
  "plain_keys ps \<longleftrightarrow> distinct (map fst ps) \<and> list_all (\<lambda>p. CHR ''='' \<notin> set (fst p)) ps"

lemma sets_key_unique:
  assumes "sets_key k l" "sets_key k' l" "CHR ''='' \<notin> set k" "CHR ''='' \<notin> set k'"
  shows "k = k'"
proof -
  from assms(1) obtain r where "l = k @ CHR ''='' # r" by (auto simp: sets_key_def has_prefix_iff)
  moreover from assms(2) obtain r' where "l = k' @ CHR ''='' # r'" by (auto simp: sets_key_def has_prefix_iff)
  ultimately show ?thesis using assms(3,4) cut_at_append [of "CHR ''=''" k r] cut_at_append [of "CHR ''=''" k' r'] by auto
qed

lemma kv_line_sets: "sets_key (fst p) (kv_line p)"
  by (auto simp: sets_key_def kv_line_def has_prefix_iff)

lemma edited_line:
  assumes "plain_keys ps" and "p \<in> set ps" and "sets_key (fst p) l"
  shows "dotenv_line ps l = kv_line p"
proof -
  have "find (\<lambda>q. sets_key (fst q) l) (rev ps) = Some p"
  proof -
    have "find (\<lambda>q. sets_key (fst q) l) (rev ps) \<noteq> None"
      using assms(2,3) by (metis (no_types, lifting) find_None_iff set_rev)
    then obtain q where q: "find (\<lambda>q. sets_key (fst q) l) (rev ps) = Some q" by blast
    then have "q \<in> set ps" "sets_key (fst q) l" using find_key_mem [OF q] by simp_all
    moreover have "fst q = fst p"
      using assms \<open>q \<in> set ps\<close> \<open>sets_key (fst q) l\<close> sets_key_unique
      by (auto simp: plain_keys_def list_all_iff)
    ultimately show ?thesis using q assms(1,2) by (auto simp: plain_keys_def distinct_map inj_on_def)
  qed
  then show ?thesis by (simp add: dotenv_line_def)
qed

lemma untouched_line: "\<not> touched ps l \<Longrightarrow> dotenv_line ps l = l"
  by (auto simp: touched_def dotenv_line_def list_ex_iff split: option.split dest!: find_key_mem)

lemma touched_kv: "p \<in> set ps \<Longrightarrow> touched ps (kv_line p)"
  by (auto simp: touched_def list_ex_iff intro: kv_line_sets)

lemma edited_touched:
  assumes "plain_keys ps" shows "touched ps (dotenv_line ps l) = touched ps l"
proof (cases "touched ps l")
  case True
  then obtain p where "p \<in> set ps" "sets_key (fst p) l" by (auto simp: touched_def list_ex_iff)
  then show ?thesis using edited_line [OF assms] touched_kv True by metis
qed (simp add: untouched_line)

lemma edited_sets:
  assumes P: "plain_keys ps" and p: "p \<in> set ps"
  shows "sets_key (fst p) (dotenv_line ps l) = sets_key (fst p) l"
proof (cases "sets_key (fst p) l")
  case True then show ?thesis using edited_line [OF P p] kv_line_sets by metis
next
  case False
  show ?thesis
  proof (cases "touched ps l")
    case True
    then obtain q where q: "q \<in> set ps" "sets_key (fst q) l" by (auto simp: touched_def list_ex_iff)
    then have e: "dotenv_line ps l = kv_line q" by (rule edited_line [OF P])
    have "\<not> sets_key (fst p) (kv_line q)"
      using sets_key_unique [OF _ kv_line_sets [of q]] p q P False
      by (auto simp: plain_keys_def list_all_iff)
    then show ?thesis using False e by simp
  qed (simp add: untouched_line)
qed

lemma edit_idem:
  assumes P: "plain_keys ps" shows "edit_dotenv ps (edit_dotenv ps ls) = edit_dotenv ps ls"
proof -
  have twice: "dotenv_line ps (dotenv_line ps l) = dotenv_line ps l" for l
  proof (cases "touched ps l")
    case True
    then obtain p where p: "p \<in> set ps" "sets_key (fst p) l" by (auto simp: touched_def list_ex_iff)
    then show ?thesis using edited_line [OF P p] edited_line [OF P p(1) kv_line_sets] by simp
  qed (simp add: untouched_line)
  have kv: "dotenv_line ps (kv_line p) = kv_line p" if "p \<in> set ps" for p
    by (rule edited_line [OF P that kv_line_sets])
  have "list_ex (sets_key (fst p)) (edit_dotenv ps ls)" if "p \<in> set ps" for p
  proof (cases "list_ex (sets_key (fst p)) ls")
    case True
    then obtain l where "l \<in> set ls" "sets_key (fst p) l" by (auto simp: list_ex_iff)
    then have "dotenv_line ps l \<in> set (edit_dotenv ps ls)" "sets_key (fst p) (dotenv_line ps l)"
      by (simp_all add: edit_dotenv_def edited_sets [OF P that])
    then show ?thesis by (auto simp: list_ex_iff)
  next
    case False
    then have "kv_line p \<in> set (edit_dotenv ps ls)" using that by (auto simp: edit_dotenv_def)
    then show ?thesis using kv_line_sets [of p] by (auto simp: list_ex_iff)
  qed
  then have "filter (\<lambda>p. \<not> list_ex (sets_key (fst p)) (edit_dotenv ps ls)) ps = []" by (simp add: filter_empty_conv)
  moreover have "map (dotenv_line ps) (edit_dotenv ps ls) = edit_dotenv ps ls"
    using twice kv by (auto simp: edit_dotenv_def)
  ultimately show ?thesis unfolding edit_dotenv_def [of ps "edit_dotenv ps ls"] by simp
qed

text \<open>Editing a dotenv file sets every given key to its value, leaves every other line as it was and in its
  order, and doing it twice changes nothing more.\<close>

theorem dotenv_edit_exact:
  assumes P: "plain_keys ps"
  shows "list_all (\<lambda>p. dotenv_get (fst p) (edit_dotenv ps ls) = Some (snd p)) ps
    \<and> filter (\<lambda>l. \<not> touched ps l) (edit_dotenv ps ls) = filter (\<lambda>l. \<not> touched ps l) ls
    \<and> edit_dotenv ps (edit_dotenv ps ls) = edit_dotenv ps ls"
proof (intro conjI edit_idem [OF P])
  have "find (sets_key (fst p)) (edit_dotenv ps ls) = Some (kv_line p)" if p: "p \<in> set ps" for p
  proof (cases "list_ex (sets_key (fst p)) ls")
    case True
    then obtain l where "find (sets_key (fst p)) ls = Some l"
      by (cases "find (sets_key (fst p)) ls") (auto simp: find_None_iff list_ex_iff)
    moreover have "find (sets_key (fst p)) (map (dotenv_line ps) xs) = map_option (dotenv_line ps) (find (sets_key (fst p)) xs)" for xs
      by (simp add: find_map_of edited_sets [OF P p] comp_def)
    ultimately show ?thesis using find_key_mem [of "sets_key (fst p)" ls l] edited_line [OF P p]
      by (simp add: edit_dotenv_def find_append)
  next
    case False
    let ?new = "filter (\<lambda>p. \<not> list_ex (sets_key (fst p)) ls) ps"
    have "find (sets_key (fst p)) (map (dotenv_line ps) ls) = None"
      using False by (auto simp: find_None_iff edited_sets [OF P p] list_ex_iff)
    moreover have "find (sets_key (fst p)) (map kv_line ?new) = Some (kv_line p)"
    proof -
      have "sets_key (fst p) (kv_line q) \<longleftrightarrow> q = p" if "q \<in> set ps" for q
        using that p P sets_key_unique [OF _ kv_line_sets [of q]] kv_line_sets [of p]
        by (auto simp: plain_keys_def list_all_iff distinct_map inj_on_def)
      then have "find (\<lambda>q. sets_key (fst p) (kv_line q)) ?new = find (\<lambda>q. q = p) ?new"
        by (intro find_cong) auto
      moreover have "find (\<lambda>q. q = p) ?new = Some p"
        using p False by (induction ps) auto
      ultimately show ?thesis by (simp add: find_map_of)
    qed
    ultimately show ?thesis by (simp add: edit_dotenv_def find_append)
  qed
  then show "list_all (\<lambda>p. dotenv_get (fst p) (edit_dotenv ps ls) = Some (snd p)) ps"
    by (auto simp: list_all_iff dotenv_get_def kv_line_def)
  have "filter (\<lambda>l. \<not> touched ps l) (map (dotenv_line ps) xs) = filter (\<lambda>l. \<not> touched ps l) xs" for xs
    by (induction xs) (simp_all add: edited_touched [OF P] untouched_line)
  moreover have "filter (\<lambda>l. \<not> touched ps l) (map kv_line (filter Q ps)) = []" for Q
    by (auto simp: filter_empty_conv touched_kv)
  ultimately show "filter (\<lambda>l. \<not> touched ps l) (edit_dotenv ps ls) = filter (\<lambda>l. \<not> touched ps l) ls"
    by (simp add: edit_dotenv_def)
qed

theorem dotenv_edit_exact_witness:
  "dotenv_get ''DB_HOST'' (edit_dotenv [(''DB_HOST'', ''new''), (''DB_PORT'', ''1'')] [''# mine'', ''DB_HOST=old'', ''X=1''])
     = Some ''new''"
  using dotenv_edit_exact [of "[(''DB_HOST'', ''new''), (''DB_PORT'', ''1'')]" "[''# mine'', ''DB_HOST=old'', ''X=1'']"]
  by (simp add: plain_keys_def)

section \<open>An issued token\<close>

lemma contains_append: "contains t p \<Longrightarrow> contains (s @ t) p"
  by (induction s) simp_all

lemma contains_prefix: "contains (p @ s) p"
  by (metis contains.simps has_prefix_append list.exhaust append_is_Nil_conv)

definition token_text :: "string \<Rightarrow> string" where
  "token_text raw = ''sashiki_'' @ gen_hex raw"

text \<open>C31. A token that \<^verbatim>\<open>token create\<close> issued is printed, and the lookup by which the server authenticates a
  request finds its hash in the database with one of the two scopes.\<close>

theorem issued_token_is_accepted:
  assumes run: "cmd_token_create C path args c = (Inr exit_ok, c1)"
    and raw: "ce_random C 32 (cl_world c) = (Inr raw, w)"
    and kept: "\<And>d w. ce_db C path (ce_set_db C path d w) = d"
    and fresh: "ce_sha256 C (token_text raw) \<notin>
      t_hash ` set (tokens (ce_db C path (snd (ce_db_fault C (snd (ce_now C w))))))"
  shows "\<exists>name scope. (scope = scope_branches \<or> scope = scope_admin)
    \<and> contains (cl_out c1) (token_text raw)
    \<and> fst (lookup_token_hash t (ce_sha256 C (token_text raw)) (ce_db C path (cl_world c1))) = Inr (Some (name, scope))"
proof -
  let ?tok = "token_text raw"
  obtain pos opts where p: "parse_args args [''--name'', ''--scope'', ''--config''] [] = Inr (pos, opts)"
    using run by (cases "parse_args args [''--name'', ''--scope'', ''--config''] []")
      (auto simp: cmd_token_create_def parsing_def arg_error_def quit_with_def then_do_def check_def complain_def
        modifying_def ret_def exit_usage_def exit_ok_def)
  let ?name = "opt_of opts ''--name''"
  let ?scope = "case opts ''--scope'' of None \<Rightarrow> scope_branches | Some v \<Rightarrow> v"
  have bad: "fst (quit_with l n s) = Inr 0 \<longleftrightarrow> n = 0" for l n and s :: "'a cli"
    by (simp add: quit_with_def then_do_def check_def complain_def modifying_def ret_def)
  have ok: "pos = []" "?name \<noteq> []" "?scope = scope_branches \<or> ?scope = scope_admin"
    using run unfolding cmd_token_create_def parsing_def p Let_def
    by (auto simp: arg_error_def usage_token_def exit_usage_def exit_ok_def split: if_split_asm
        dest!: arg_cong [where f = fst] simp: bad)
  obtain t0 w1 where now: "ce_now C w = (t0, w1)" by (cases "ce_now C w")
  obtain f w2 where fault: "ce_db_fault C w1 = (f, w2)" by (cases "ce_db_fault C w1")
  let ?d = "ce_db C path w2"
  let ?q = "create_token t0 ?name (ce_sha256 C ?tok) ?scope"
  have act: "cmd_token_create C path args c = handle_err (cli_sql C path ?q)
         (\<lambda>e. quit_with (''sashiki token: '' @ err_text e) exit_error)
         (\<lambda>_. tell (''token '' @ ticks ?name @ '' (scope '' @ ?scope
              @ '') was issued. This text is not shown again:'' @ [newline, newline] @ ''  '' @ ?tok
              @ [newline, newline] @ ''Keep it in GitHub Secrets or the like.'')) (c\<lparr>cl_world := w1\<rparr>)"
    using ok unfolding cmd_token_create_def parsing_def p Let_def
    by (auto simp: handle_err_def outside_def raw check_def asking_def now token_text_def)
  have new: "fst (?q ?d) = Inr () \<and> f = None"
    using run unfolding act
    by (cases f; cases "fst (?q ?d)")
       (auto simp: handle_err_def cli_sql_def check_def asking_def fault throw_def outside_def exit_error_def
         exit_ok_def quit_with_def then_do_def complain_def modifying_def ret_def split: prod.splits sum.splits)
  obtain d where d: "?q ?d = (Inr (), d)" using new by (cases "?q ?d") auto
  have c1: "ce_db C path (cl_world c1) = d" "contains (cl_out c1) ?tok"
  proof -
    have "c1 = c\<lparr>cl_world := ce_set_db C path d w2, cl_out := cl_out c @ (''token '' @ ticks ?name @ '' (scope '' @ ?scope
              @ '') was issued. This text is not shown again:'' @ [newline, newline] @ ''  '' @ ?tok
              @ [newline, newline] @ ''Keep it in GitHub Secrets or the like.'') @ [newline]\<rparr>"
      using run new unfolding act
      by (auto simp: handle_err_def cli_sql_def check_def asking_def fault outside_def d tell_def then_do_def
          say_def modifying_def ret_def)
    then show "ce_db C path (cl_world c1) = d" "contains (cl_out c1) ?tok"
      using contains_append contains_prefix by (simp_all add: kept)
  qed
  have n: "?name \<notin> t_name ` set (tokens ?d)" using d by (auto simp: create_token_def split: if_splits)
  have "fst (lookup_token_hash t (ce_sha256 C ?tok) d) = Inr (Some (?name, if ?scope = [] then scope_admin else ?scope))"
    using token_lifecycle [OF n _ d] fresh by (simp add: now fault)
  moreover have "?scope \<noteq> []" using ok(3) by (auto simp: scope_branches_def scope_admin_def)
  ultimately show ?thesis using ok(3) c1 by auto
qed

text \<open>A machine whose world is the database file.\<close>

definition token_cli :: "db cli_env" where
  "token_cli = \<lparr>ce_machine = \<lparr>h_stat = (\<lambda>p w. (FsOk, w)), h_remove = (\<lambda>p w. (FsOk, w)), h_open = (\<lambda>p. ret ()),
       h_glob = (\<lambda>p. ret []), h_read_dir = (\<lambda>p. ret []), h_executable = (\<lambda>p. ret True), h_mod_time = (\<lambda>p. ret 0),
       h_mkdir_all = (\<lambda>p. ret ()), h_create = (\<lambda>p. ret ()), h_read_file = (\<lambda>p. ret []),
       h_run = (\<lambda>c w. ((RunOk, []), w)), h_sigterm = (\<lambda>p w. ((), w)), h_is_root = True, h_environ = [],
       h_tmp_dir = ''/tmp'', h_lookup_user = (\<lambda>u. None)\<rparr>,
     ce_read = (\<lambda>p w. ((FsOk, []), w)), ce_hosts = (\<lambda>t. Inr sample_hosts),
     ce_http = (\<lambda>q w. (sample_answer q, w)), ce_parse = sample_parse, ce_print = (\<lambda>j. []),
     ce_now = (\<lambda>w. (0, w)), ce_sleep = (\<lambda>d w. ((), w)), ce_duration = (\<lambda>s. Inr 1), ce_show_duration = show_int,
     ce_percent = (\<lambda>r. ''0%''), ce_order = id, ce_random = (\<lambda>n. ret [CHR 0x01]),
     ce_sha256 = id, ce_look_path = ret, ce_exec = (\<lambda>p a e. ret 0),
     ce_mode = (\<lambda>p. ret 384), ce_create_temp = (\<lambda>d p. ret d), ce_write = (\<lambda>p t. ret ()),
     ce_close = (\<lambda>p. ret ()), ce_chmod = (\<lambda>p m. ret ()), ce_rename = (\<lambda>p q. ret ()),
     ce_decoder = sample_decoder, ce_open_db = (\<lambda>p. ret ()), ce_db = (\<lambda>p w. w), ce_set_db = (\<lambda>p d w. d),
     ce_db_fault = (\<lambda>w. (None, w)), ce_goos = ''linux'', ce_version = ''dev'', ce_rounds = 1\<rparr>"

theorem issued_token_is_accepted_witness:
  "\<exists>name scope. fst (lookup_token_hash 7 (token_text [CHR 0x01])
      (cl_world (snd (cmd_token_create token_cli ''state.db'' [''--name'', ''ci''] (fresh_cli open_db)))))
    = Inr (Some (name, scope))"
proof -
  let ?m = "cmd_token_create token_cli ''state.db'' [''--name'', ''ci''] (fresh_cli open_db)"
  have p: "parse_args [''--name'', ''ci''] [''--name'', ''--scope'', ''--config''] [] = Inr ([], [''--name'' \<mapsto> ''ci''])"
    by (simp add: parse_args_def)
  have "fst ?m = Inr exit_ok"
    unfolding cmd_token_create_def parsing_def p
    by (simp add: opt_of_def scope_branches_def scope_admin_def handle_err_def outside_def token_cli_def ret_def
        check_def asking_def cli_sql_def create_token_def open_db_def fresh_cli_def tell_def then_do_def say_def
        modifying_def exit_ok_def Let_def)
  then have run: "?m = (Inr exit_ok, snd ?m)" by (metis prod.collapse)
  have "ce_random token_cli 32 (cl_world (fresh_cli open_db)) = (Inr [CHR 0x01], open_db)"
    by (simp add: token_cli_def ret_def fresh_cli_def)
  moreover have "ce_db token_cli ''state.db'' (ce_set_db token_cli ''state.db'' d w) = d" for d w
    by (simp add: token_cli_def)
  moreover have "ce_sha256 token_cli (token_text [CHR 0x01]) \<notin>
      t_hash ` set (tokens (ce_db token_cli ''state.db'' (snd (ce_db_fault token_cli (snd (ce_now token_cli open_db))))))"
    by (simp add: token_cli_def open_db_def)
  ultimately have "\<exists>name scope. fst (lookup_token_hash 7 (ce_sha256 token_cli (token_text [CHR 0x01]))
      (ce_db token_cli ''state.db'' (cl_world (snd ?m)))) = Inr (Some (name, scope))"
    using issued_token_is_accepted [OF run, of "[CHR 0x01]" open_db 7] by blast
  then show ?thesis by (simp add: token_cli_def)
qed

section \<open>Answers that are misread\<close>

text \<open>\<^verbatim>\<open>op wait\<close> takes an answer that is no JSON for the end of the operation; the other commands go on waiting.\<close>

theorem op_wait_trusts_garbled:
  assumes "ce_now C (cl_world c) = (t, w1)" and "t < deadline"
    and "call_api C ''GET'' (operation_path i) None (c\<lparr>cl_world := w1\<rparr>) = (Inr (200, data, None), c2)"
    and "ce_parse C data = None"
  shows "fst (op_wait_rounds C i w deadline (Suc n) c) = Inr exit_ok
    \<and> poll_rounds C i timeout interval deadline (Suc n) c
        = check (asking (ce_sleep C interval)) (\<lambda>_. poll_rounds C i timeout interval deadline n) c2"
proof -
  have v: "ov_state (read_op C data) = []"
    by (simp add: read_op_def unmarshal_def assms(4) op_view_of_def str_in_def)
  have a: "asking (ce_now C) c = (Inr t, c\<lparr>cl_world := w1\<rparr>)" by (simp add: asking_def assms(1))
  show ?thesis
    unfolding op_wait_rounds.simps poll_rounds.simps check_def [of "asking (ce_now C)"] a prod.case sum.case
    using assms(2,3) by (simp add: check_def [of "call_api C x y z" for x y z] on_reply_def v then_do_def check_def
        say_def modifying_def ret_def del: append.simps)
qed

text \<open>\<^verbatim>\<open>capacity\<close> shows no limits, whatever the server answers.\<close>

lemma capacity_keys:
  "\<not> equal_fold ''storage'' ''branches''" "\<not> equal_fold ''ports'' ''branches''" "\<not> equal_fold ''memory'' ''branches''"
  "\<not> equal_fold ''host_name'' ''branches''" "equal_fold ''branches'' ''branches''"
  "\<not> equal_fold ''running'' ''MaxRunning''" "\<not> equal_fold ''max_running'' ''MaxRunning''"
  "\<not> equal_fold ''max_branches'' ''MaxRunning''" "\<not> equal_fold ''running'' ''MaxBranches''"
  "\<not> equal_fold ''max_running'' ''MaxBranches''" "\<not> equal_fold ''max_branches'' ''MaxBranches''"
  by (simp_all add: equal_fold_def fold_char_def)

theorem capacity_hides_limits:
  assumes "ce_parse C data = Some (capacity_json S k)" and "read_capacity C data = Some v"
  shows "cv_max_running v = 0 \<and> cv_max_branches v = 0"
proof -
  obtain ms where j: "capacity_json S k = JObj ms" and
    z: "fst (int_at ''branches'' ''MaxRunning'' ms) = 0" "fst (int_at ''branches'' ''MaxBranches'' ms) = 0"
    by (simp add: capacity_json_def with_host_name_def str_member_def Let_def int_at_def in_struct_def capacity_keys)
  have "fst (capacity_dec ms) = v"
    using assms by (auto simp: read_capacity_def j members_of_def split: prod.splits if_splits)
  then show ?thesis using z by (auto simp: capacity_dec_def Let_def)
qed

text \<open>A host whose answer cannot be decoded is left out of the list and counted as one that answered.\<close>

theorem undecodable_host_is_dropped:
  assumes "answered r" and "ce_parse C (hr_data r) = None"
  shows "host_branches C r = None
    \<and> report_partial_failure C [r] c = (Inr False, c)"
  using assms by (simp add: host_branches_def unmarshal_def report_partial_failure_def Let_def then_do_def check_def ret_def)

text \<open>The token of the default host is sent to the address that the environment names.\<close>

theorem default_token_goes_elsewhere:
  assumes "\<not> cl_explicit c" and "cl_token c \<noteq> []" and "environ C ''SASHIKI_API_URL'' = v" and "v \<noteq> []"
    and "environ C ''SASHIKI_API_TOKEN'' = []"
  shows "call_api C ''GET'' path None c = asking (ce_http C \<lparr>hq_url = v @ path, hq_method = ''GET'',
      hq_headers = [(''Content-Type'', ''application/json''), (''Authorization'', ''Bearer '' @ cl_token c)],
      hq_timeout = http_timeout c, hq_body = None\<rparr>) c"
  using assms by (simp add: call_api_def reading_def api_url_def api_token_def Let_def check_def ret_def
      call_with_def marshal_def)

end
