(* ===== verification/CliMachine.thy ===== *)
theory CliMachine
  imports CliRun LocalStore
begin

text \<open>
  cmd/sashiki: the commands that work on the machine itself. The first section is what these commands
  use of the operating system besides the theories Host and CliClient; then come the helpers that run
  programs (baseline.go, init.go, initdarwin.go), the streams of dumps (stream.go) and the choice of the
  local backend (internal/localstore).
\<close>

section \<open>The machine\<close>

text \<open>
  \<open>wk_is_dir\<close> is \<^verbatim>\<open>os.Stat\<close> with \<^verbatim>\<open>IsDir\<close>; \<open>wk_walk\<close> lists what \<^verbatim>\<open>filepath.WalkDir\<close> visits with
  its errors; \<open>wk_head\<close> reads the first bytes of a file. \<open>wk_pick\<close> is the scheduler: whenever several
  goroutines can go on, it says which one does. A stream is the process's own standard input or output,
  the pipe of a child, or a file; \<open>wk_feed\<close> runs a command that reads a stream, \<open>wk_pour\<close> one that
  writes to a stream, and \<open>wk_copy\<close> is \<^verbatim>\<open>io.Copy\<close> of a stream into a file.
\<close>

datatype stream = OwnStdio | Child nat string | OnDisk string

record 'w works =
  wk_fs :: "'w local_fs"
  wk_ssm :: "'w ssm_api"
  wk_is_dir :: "string \<Rightarrow> ('w, bool) ext"
  wk_walk :: "string \<Rightarrow> 'w \<Rightarrow> (string \<times> err option) list \<times> 'w"
  wk_chown :: "string \<Rightarrow> nat \<times> nat \<Rightarrow> ('w, unit) ext"
  wk_head :: "string \<Rightarrow> nat \<Rightarrow> ('w, string) ext"
  wk_cpus :: nat
  wk_pick :: "'w \<Rightarrow> nat \<times> 'w"
  wk_pipe :: "('w, unit) ext"
  wk_start :: "string \<Rightarrow> string list \<Rightarrow> ('w, nat) ext"
  wk_feed :: "stream \<Rightarrow> cmd \<Rightarrow> 'w \<Rightarrow> (run_result \<times> string) \<times> 'w"
  wk_pour :: "stream \<Rightarrow> cmd \<Rightarrow> 'w \<Rightarrow> run_result \<times> 'w"
  wk_copy :: "stream \<Rightarrow> string \<Rightarrow> ('w, unit) ext"
  wk_close_file :: "string \<Rightarrow> ('w, unit) ext"
  wk_close_pipe :: "nat \<Rightarrow> ('w, unit) ext"
  wk_wait :: "nat \<Rightarrow> ('w, unit) ext"

text \<open>\<^verbatim>\<open>defer\<close>: what is done at the end whatever the outcome; its own error is dropped.\<close>

definition deferring :: "('s, 'b) act \<Rightarrow> ('s, 'a) act \<Rightarrow> ('s, 'a) act" where
  "deferring d m = attempt m (\<lambda>r. ignoring d (case r of Inl e \<Rightarrow> throw e | Inr a \<Rightarrow> ret a))"

definition when_do :: "bool \<Rightarrow> ('s, unit) act \<Rightarrow> ('s, unit) act" where
  "when_do b m = (if b then m else ret ())"

section \<open>Running programs\<close>

definition running :: "'w cli_env \<Rightarrow> cmd \<Rightarrow> ('w, run_result \<times> string) cact" where
  "running C cm = asking (h_run (ce_machine C) cm)"

definition combined_text :: "string \<Rightarrow> run_result \<times> string \<Rightarrow> ('w, string) cact" where
  "combined_text pre r = (case run_error (fst r) of
      None \<Rightarrow> ret (snd r) | Some e \<Rightarrow> throw (EWrap pre e ('': '' @ trim_space (snd r))))"

text \<open>\<^verbatim>\<open>CombinedOutput\<close> whose error carries the output, and \<^verbatim>\<open>Run\<close> or \<^verbatim>\<open>Output\<close>.\<close>

definition combined :: "'w cli_env \<Rightarrow> string \<Rightarrow> cmd \<Rightarrow> ('w, unit) cact" where
  "combined C pre cm = check (check (running C cm) (combined_text pre)) (\<lambda>_. ret ())"

definition plain_run :: "'w cli_env \<Rightarrow> cmd \<Rightarrow> ('w, string) cact" where
  "plain_run C cm = check (running C cm) (\<lambda>(r, out). case run_error r of None \<Rightarrow> ret out | Some e \<Rightarrow> throw e)"

definition succeeds :: "'w cli_env \<Rightarrow> string \<Rightarrow> string list \<Rightarrow> ('w, bool) cact" where
  "succeeds C name args = check (running C (bare_cmd name args)) (\<lambda>(r, out). ret (run_error r = None))"

definition run_out :: "'w cli_env \<Rightarrow> string \<Rightarrow> string list \<Rightarrow> ('w, unit) cact" where
  "run_out C name args = combined C (name @ '': '') (bare_cmd name args)"

definition run_out_env :: "'w cli_env \<Rightarrow> string list \<Rightarrow> string \<Rightarrow> string list \<Rightarrow> ('w, unit) cact" where
  "run_out_env C added name args = combined C (name @ '': '')
     ((bare_cmd name args)\<lparr>cmd_env := Some (h_environ (ce_machine C) @ added)\<rparr>)"

definition run_with_env :: "'w cli_env \<Rightarrow> string list \<Rightarrow> string \<Rightarrow> string list \<Rightarrow> ('w, unit) cact" where
  "run_with_env C added name args = combined C (name @ '' '' @ join_with '' '' args @ '': '')
     ((bare_cmd name args)\<lparr>cmd_env := Some (h_environ (ce_machine C) @ added)\<rparr>)"

text \<open>A user is a pair of a user and a group identifier; \<open>None\<close> is the user of the command itself.\<close>

definition as_user :: "(nat \<times> nat) option \<Rightarrow> cmd \<Rightarrow> cmd" where
  "as_user u cm = cm\<lparr>cmd_user := u\<rparr>"

definition run_as_user :: "'w cli_env \<Rightarrow> (nat \<times> nat) option \<Rightarrow> string \<Rightarrow> string list \<Rightarrow> ('w, unit) cact" where
  "run_as_user C u name args = combined C (name @ '': '') (as_user u (bare_cmd name args))"

definition run_as_user_env ::
  "'w cli_env \<Rightarrow> (nat \<times> nat) option \<Rightarrow> string list \<Rightarrow> string \<Rightarrow> string list \<Rightarrow> ('w, unit) cact" where
  "run_as_user_env C u added name args = combined C (name @ '': '')
     (as_user u ((bare_cmd name args)\<lparr>cmd_env := Some (h_environ (ce_machine C) @ added)\<rparr>))"

text \<open>Without a pipe: the output goes to the streams of the command itself.\<close>

definition run_as_user_no_pipe ::
  "'w cli_env \<Rightarrow> (nat \<times> nat) option \<Rightarrow> string \<Rightarrow> string list \<Rightarrow> ('w, unit) cact" where
  "run_as_user_no_pipe C u name args = check (plain_run C (as_user u (bare_cmd name args))) (\<lambda>_. ret ())"

definition bin_exists :: "'w cli_env \<Rightarrow> string \<Rightarrow> ('w, bool) cact" where
  "bin_exists C p = attempt (outside (h_executable (ce_machine C) p)) (\<lambda>r. ret (r = Inr True))"

definition file_exists :: "'w cli_env \<Rightarrow> string \<Rightarrow> ('w, bool) cact" where
  "file_exists C p = check (asking (h_stat (ce_machine C) p)) (\<lambda>r. ret (r = FsOk))"

text \<open>\<^verbatim>\<open>os.Stat\<close> whose error is returned.\<close>

fun fs_error :: "fs_result \<Rightarrow> err option" where
  "fs_error FsOk = None"
| "fs_error (FsNotExist e) = Some e"
| "fs_error (FsPermission e) = Some e"
| "fs_error (FsFailed e) = Some e"

definition must_exist :: "'w cli_env \<Rightarrow> string \<Rightarrow> ('w, unit) cact" where
  "must_exist C p = check (asking (h_stat (ce_machine C) p)) (\<lambda>r. case fs_error r of
      None \<Rightarrow> ret () | Some e \<Rightarrow> throw e)"

definition dir_non_empty :: "'w cli_env \<Rightarrow> string \<Rightarrow> ('w, bool) cact" where
  "dir_non_empty C p = attempt (outside (h_read_dir (ce_machine C) p)) (\<lambda>r. ret (case r of
      Inl e \<Rightarrow> False | Inr ents \<Rightarrow> ents \<noteq> []))"

text \<open>\<^verbatim>\<open>os.Remove\<close> of a file that need not be there.\<close>

definition remove_if_there :: "'w cli_env \<Rightarrow> string \<Rightarrow> ('w, unit) cact" where
  "remove_if_there C p = check (asking (h_remove (ce_machine C) p)) (\<lambda>r. case r of
      FsOk \<Rightarrow> ret () | FsNotExist e \<Rightarrow> ret () | FsPermission e \<Rightarrow> throw e | FsFailed e \<Rightarrow> throw e)"

definition chown_r :: "'w cli_env \<Rightarrow> 'w works \<Rightarrow> string \<Rightarrow> nat \<times> nat \<Rightarrow> ('w, unit) cact" where
  "chown_r C X base u = check (asking (wk_walk X base)) (\<lambda>visits.
     fold_act (\<lambda>v _. case v of (p, e) \<Rightarrow>
       (case e of Some e \<Rightarrow> throw e | None \<Rightarrow> outside (wk_chown X p u))) visits ())"

definition lookup_mysql_user :: "'w cli_env \<Rightarrow> ('w, nat \<times> nat) cact" where
  "lookup_mysql_user C = (case h_lookup_user (ce_machine C) ''mysql'' of
      None \<Rightarrow> throw (EText ''no user mysql (is mysql-server installed?)'') | Some u \<Rightarrow> ret u)"

definition lookup_os_user :: "'w cli_env \<Rightarrow> string \<Rightarrow> ('w, nat \<times> nat) cact" where
  "lookup_os_user C name = (case h_lookup_user (ce_machine C) name of
      None \<Rightarrow> throw (EText (''no user '' @ name @ '' (is postgresql installed?)'')) | Some u \<Rightarrow> ret u)"

text \<open>\<^verbatim>\<open>filepath.Join(p, "..")\<close>\<close>

definition parent_of :: "string \<Rightarrow> string" where
  "parent_of p = dir_name (drop_slashes p)"

text \<open>
  \<^verbatim>\<open>for time.Now().Before(deadline) { \<dots>; time.Sleep(pause) }\<close>: a probe that may end the wait.
\<close>

primrec wait_until ::
  "'w cli_env \<Rightarrow> int \<Rightarrow> int \<Rightarrow> ('w, bool) cact \<Rightarrow> err \<Rightarrow> nat \<Rightarrow> ('w, unit) cact" where
  "wait_until C deadline pause probe late 0 = throw out_of_fuel"
| "wait_until C deadline pause probe late (Suc n) = check (asking (ce_now C)) (\<lambda>t.
     if \<not> t < deadline then throw late
     else check probe (\<lambda>done. if done then ret ()
       else check (asking (ce_sleep C pause)) (\<lambda>_. wait_until C deadline pause probe late n)))"

definition waiting :: "'w cli_env \<Rightarrow> int \<Rightarrow> int \<Rightarrow> ('w, bool) cact \<Rightarrow> err \<Rightarrow> ('w, unit) cact" where
  "waiting C timeout pause probe late = check (asking (ce_now C)) (\<lambda>t.
     wait_until C (t + timeout) pause probe late (ce_rounds C))"

section \<open>Streams (stream.go)\<close>

definition is_s3 :: "string \<Rightarrow> bool" where
  "is_s3 p = has_prefix p ''s3://''"

definition is_stdio :: "string \<Rightarrow> bool" where
  "is_stdio p \<longleftrightarrow> p = ''-''"

definition require_aws_cli :: "'w cli_env \<Rightarrow> ('w, unit) cact" where
  "require_aws_cli C = check (wrapping (\<lambda>e. EWrap ''s3:// needs the aws CLI: '' e [])
     (outside (ce_look_path C ''aws''))) (\<lambda>_. ret ())"

text \<open>A child with a pipe: what is told of it in an error.\<close>

definition start_aws :: "'w cli_env \<Rightarrow> 'w works \<Rightarrow> string list \<Rightarrow> ('w, stream) cact" where
  "start_aws C X args = (let what = join_with '' '' (''aws'' # args) in
     check (require_aws_cli C) (\<lambda>_. check (outside (wk_pipe X)) (\<lambda>_.
     check (wrapping (\<lambda>e. EWrap (what @ '': '') e []) (outside (wk_start X ''aws'' args))) (\<lambda>pid.
     ret (Child pid what)))))"

definition open_source :: "'w cli_env \<Rightarrow> 'w works \<Rightarrow> string \<Rightarrow> ('w, stream) cact" where
  "open_source C X p =
     (if is_stdio p then ret OwnStdio
      else if is_s3 p then start_aws C X [''s3'', ''cp'', p, ''-'']
      else check (outside (h_open (ce_machine C) p)) (\<lambda>_. ret (OnDisk p)))"

definition create_sink :: "'w cli_env \<Rightarrow> 'w works \<Rightarrow> string \<Rightarrow> ('w, stream) cact" where
  "create_sink C X p =
     (if is_stdio p then ret OwnStdio
      else if is_s3 p then start_aws C X [''s3'', ''cp'', ''-'', p]
      else check (outside (h_create (ce_machine C) p)) (\<lambda>_. ret (OnDisk p)))"

text \<open>
  Closing what was read: the pipe, then the child is waited for. Closing what was written: a pipe that
  cannot be closed is an error by itself. The process's own streams stay open.
\<close>

definition await_child :: "'w works \<Rightarrow> nat \<Rightarrow> string \<Rightarrow> ('w, unit) cact" where
  "await_child X pid what = wrapping (\<lambda>e. EWrap (what @ '': '') e []) (outside (wk_wait X pid))"

definition close_source :: "'w works \<Rightarrow> stream \<Rightarrow> ('w, unit) cact" where
  "close_source X src = (case src of
      OwnStdio \<Rightarrow> ret ()
    | Child pid what \<Rightarrow> ignoring (outside (wk_close_pipe X pid)) (await_child X pid what)
    | OnDisk p \<Rightarrow> outside (wk_close_file X p))"

definition close_sink :: "'w works \<Rightarrow> stream \<Rightarrow> ('w, unit) cact" where
  "close_sink X dst = (case dst of
      OwnStdio \<Rightarrow> ret ()
    | Child pid what \<Rightarrow> handle_err (outside (wk_close_pipe X pid))
        (\<lambda>e. ignoring (outside (wk_wait X pid)) (throw e)) (\<lambda>_. await_child X pid what)
    | OnDisk p \<Rightarrow> outside (wk_close_file X p))"

text \<open>\<^verbatim>\<open>materialize\<close>: the local path, and the temporary file that the cleanup removes.\<close>

definition materialize :: "'w cli_env \<Rightarrow> 'w works \<Rightarrow> string \<Rightarrow> string \<Rightarrow> ('w, string \<times> string option) cact" where
  "materialize C X path pattern =
     (if \<not> is_s3 path \<and> \<not> is_stdio path then ret (path, None)
      else check (open_source C X path) (\<lambda>src. deferring (close_source X src)
        (check (outside (ce_create_temp C [] pattern)) (\<lambda>tmp.
         let drop_tmp = asking (h_remove (ce_machine C) tmp) in
         handle_err (outside (wk_copy X src tmp))
           (\<lambda>e. ignoring (outside (ce_close C tmp)) (ignoring drop_tmp
              (throw (EWrap (''cannot fetch '' @ path @ '': '') e []))))
           (\<lambda>_. handle_err (outside (ce_close C tmp)) (\<lambda>e. ignoring drop_tmp (throw e))
              (\<lambda>_. ret (tmp, Some tmp)))))))"

definition clean_up :: "'w cli_env \<Rightarrow> string option \<Rightarrow> ('w, unit) cact" where
  "clean_up C tmp = (case tmp of None \<Rightarrow> ret ()
     | Some p \<Rightarrow> check (asking (h_remove (ce_machine C) p)) (\<lambda>_. ret ()))"

section \<open>The local backend (internal/localstore)\<close>

definition local_linux :: "string \<Rightarrow> string \<Rightarrow> string \<Rightarrow> err + copy_kind \<times> local_cfg" where
  "local_linux backend base tag =
     (if backend = ''apfs'' then Inl (EText (''backend '' @ go_quote backend @ '' is for macOS (use reflink on Linux)''))
      else Inr (reflink_copy, new_local \<lparr>lc_root = base, lc_baseline = tag, lc_cp = []\<rparr>))"

definition local_darwin :: "string \<Rightarrow> string \<Rightarrow> string \<Rightarrow> err + copy_kind \<times> local_cfg" where
  "local_darwin backend base tag =
     (if backend = ''reflink'' then Inl (EText (''backend '' @ go_quote backend @ '' is for Linux (use apfs on macOS)''))
      else Inr (apfs_copy, new_local \<lparr>lc_root = base, lc_baseline = tag, lc_cp = []\<rparr>))"

definition snapshot_local ::
  "'w cli_env \<Rightarrow> 'w works \<Rightarrow> string \<Rightarrow> string \<Rightarrow> string \<Rightarrow> ('w, string) cact" where
  "snapshot_local C X backend base tag =
     (case (if ce_goos C = ''darwin'' then local_darwin else local_linux) backend base tag of
        Inl e \<Rightarrow> throw e
      | Inr (k, l) \<Rightarrow> wrapping (\<lambda>e. EWrap ''snapshot: '' e [])
          (outside (local_snapshot_base (ce_machine C) (wk_fs X) k l tag)))"

end
