(* ===== verification/CliImport.thy ===== *)
theory CliImport
  imports CliMachine
begin

text \<open>
  cmd/sashiki: \<^verbatim>\<open>baseline import\<close> for MySQL (baseline.go). A temporary server is initialised on
  the base datadir, a dump is loaded into it, the application user is made, the server is stopped, and
  only then is the snapshot taken and registered. The files of a dump directory are loaded by several
  goroutines; the scheduler is a parameter, and a load takes effect when its goroutine ends.
\<close>

section \<open>Loading a dump\<close>

definition bulk_args :: "string \<Rightarrow> string \<Rightarrow> string list" where
  "bulk_args sock db = [''-uroot'', ''-S'', sock,
     ''--init-command=SET unique_checks=0, foreign_key_checks=0, sql_log_bin=0'']
     @ (if db \<noteq> [] then [db] else [])"

definition load_one_file :: "'w cli_env \<Rightarrow> string \<Rightarrow> string \<Rightarrow> string \<Rightarrow> string \<Rightarrow> ('w, unit) cact" where
  "load_one_file C mysql sock db path = check (outside (h_open (ce_machine C) path)) (\<lambda>_.
     combined C (''load '' @ base_name path @ '': '')
       ((bare_cmd mysql (bulk_args sock db))\<lparr>cmd_stdin := Some path\<rparr>))"

definition load_reader :: "'w works \<Rightarrow> string \<Rightarrow> string \<Rightarrow> string \<Rightarrow> stream \<Rightarrow> ('w, unit) cact" where
  "load_reader X mysql sock db src =
     check (check (asking (wk_feed X src (bare_cmd mysql (bulk_args sock db)))) (combined_text ''load stream: ''))
       (\<lambda>_. ret ())"

subsection \<open>A directory, on several threads\<close>

text \<open>
  The goroutine that starts the loads looks at the first error, waits for a place, and starts a load;
  at the end it waits for all. \<open>par_choices\<close> counts the goroutines that can go on, \<open>par_step\<close> is the
  step of one of them; it names the file whose load ends with it.
\<close>

datatype load_starter = NextOf "string list" | PlaceFor string "string list" | WaitAll

record par =
  pa_starter :: load_starter
  pa_running :: "string list"
  pa_error :: "err option"

definition starter_ready :: "nat \<Rightarrow> par \<Rightarrow> bool" where
  "starter_ready n st = (case pa_starter st of
      NextOf ps \<Rightarrow> True | PlaceFor p ps \<Rightarrow> length (pa_running st) < n | WaitAll \<Rightarrow> False)"

definition par_choices :: "nat \<Rightarrow> par \<Rightarrow> nat" where
  "par_choices n st = (if starter_ready n st then 1 else 0) + length (pa_running st)"

definition starter_step :: "par \<Rightarrow> par" where
  "starter_step st = (case pa_starter st of
      NextOf [] \<Rightarrow> st\<lparr>pa_starter := WaitAll\<rparr>
    | NextOf (p # ps) \<Rightarrow> st\<lparr>pa_starter := (if pa_error st = None then PlaceFor p ps else WaitAll)\<rparr>
    | PlaceFor p ps \<Rightarrow> st\<lparr>pa_starter := NextOf ps, pa_running := pa_running st @ [p]\<rparr>
    | WaitAll \<Rightarrow> st)"

definition without :: "nat \<Rightarrow> 'a list \<Rightarrow> 'a list" where
  "without i xs = take i xs @ drop (Suc i) xs"

definition par_step :: "nat \<Rightarrow> nat \<Rightarrow> par \<Rightarrow> par \<times> string option" where
  "par_step n k st =
     (if starter_ready n st \<and> k = 0 then (starter_step st, None)
      else let i = (if starter_ready n st then k - 1 else k) in
        (st\<lparr>pa_running := without i (pa_running st)\<rparr>, Some (pa_running st ! i)))"

definition note_error :: "err + unit \<Rightarrow> par \<Rightarrow> par" where
  "note_error r st = (case r of Inl e \<Rightarrow> st\<lparr>pa_error := (if pa_error st = None then Some e else pa_error st)\<rparr>
     | Inr u \<Rightarrow> st)"

fun starter_weight :: "load_starter \<Rightarrow> nat" where
  "starter_weight (NextOf ps) = 3 * length ps + 1"
| "starter_weight (PlaceFor p ps) = 3 * length ps + 3"
| "starter_weight WaitAll = 0"

definition par_weight :: "par \<Rightarrow> nat" where
  "par_weight st = starter_weight (pa_starter st) + length (pa_running st)"

lemma par_step_weight:
  assumes "k < par_choices n st"
  shows "par_weight (fst (par_step n k st)) < par_weight st"
proof (cases "starter_ready n st \<and> k = 0")
  case True
  then show ?thesis
    by (auto simp: par_step_def starter_step_def starter_ready_def par_weight_def
        split: load_starter.splits list.splits)
next
  case False
  define i where "i = (if starter_ready n st then k - 1 else k)"
  have "i < length (pa_running st)" using assms False by (auto simp: par_choices_def i_def split: if_splits)
  then have "length (without i (pa_running st)) < length (pa_running st)" by (auto simp: without_def)
  then show ?thesis using False unfolding par_step_def i_def [symmetric] Let_def
    by (auto simp: par_weight_def i_def)
qed

lemma note_error_weight [simp]: "par_weight (note_error r st) = par_weight st"
  by (cases r) (simp_all add: note_error_def par_weight_def)

function load_parallel ::
  "'w works \<Rightarrow> (string \<Rightarrow> ('w, unit) cact) \<Rightarrow> nat \<Rightarrow> par \<Rightarrow> ('w, unit) cact" where
  "load_parallel X load n st c =
     (if par_choices n st = 0 then ((case pa_error st of None \<Rightarrow> Inr () | Some e \<Rightarrow> Inl e), c)
      else case wk_pick X (cl_world c) of (k, w) \<Rightarrow>
        (case par_step n (k mod par_choices n st) st of
           (st', None) \<Rightarrow> load_parallel X load n st' (c\<lparr>cl_world := w\<rparr>)
         | (st', Some p) \<Rightarrow> (case load p (c\<lparr>cl_world := w\<rparr>) of (r, c') \<Rightarrow>
             load_parallel X load n (note_error r st') c')))"
  by pat_completeness auto

termination
proof (relation "measure (\<lambda>(X, load, n, st, c). par_weight st)")
  fix X :: "'w works" and load :: "string \<Rightarrow> ('w, unit) cact" and n :: nat and st :: par and c :: "'w cli"
    and x k w y st' z
  assume m: "par_choices n st \<noteq> 0" and y: "(st', z) = par_step n (k mod par_choices n st) st"
  then have "k mod par_choices n st < par_choices n st" by simp
  from par_step_weight [OF this] y have w: "par_weight st' < par_weight st" by (metis fst_conv)
  show "((X, load, n, st', c\<lparr>cl_world := w\<rparr>), X, load, n, st, c) \<in> measure (\<lambda>(X, load, n, st, c). par_weight st)"
    for w using w by simp
  show "((X, load, n, note_error r st', c'), X, load, n, st, c) \<in> measure (\<lambda>(X, load, n, st, c). par_weight st)"
    for r c' using w by simp
qed auto

declare load_parallel.simps [simp del]

definition is_sql :: "string \<times> bool \<Rightarrow> bool" where
  "is_sql e \<longleftrightarrow> \<not> snd e \<and> has_suffix (to_lower (fst e)) ''.sql''"

definition is_schema :: "string \<Rightarrow> bool" where
  "is_schema n \<longleftrightarrow> contains (to_lower n) ''schema''"

definition dump_files :: "string \<Rightarrow> (string \<times> bool) list \<Rightarrow> string list \<times> string list" where
  "dump_files dir ents = (let ns = map fst (filter is_sql ents) in
     (sort (map (in_dir dir) (filter is_schema ns)), sort (map (in_dir dir) (filter (\<lambda>n. \<not> is_schema n) ns))))"

definition load_dump_dir ::
  "'w cli_env \<Rightarrow> 'w works \<Rightarrow> string \<Rightarrow> string \<Rightarrow> string \<Rightarrow> string \<Rightarrow> int \<Rightarrow> ('w, unit) cact" where
  "load_dump_dir C X mysql sock dir db threads = check (outside (h_read_dir (ce_machine C) dir)) (\<lambda>ents.
     case dump_files dir ents of (schema, data) \<Rightarrow>
       if schema = [] \<and> data = [] then throw (EText (''no *.sql in '' @ dir))
       else check (fold_act (\<lambda>p _. then_do (say (''-> schema ('' @ base_name p @ '')''))
           (load_one_file C mysql sock db p)) schema ()) (\<lambda>_.
         let n = (if threads < 1 then 1 else nat threads) in
         then_do (say (''-> data ('' @ show_nat (length data) @ '' files, '' @ show_nat n @ '' at a time)''))
           (load_parallel X (load_one_file C mysql sock db) n
             \<lparr>pa_starter = NextOf data, pa_running = [], pa_error = None\<rparr>)))"

definition mysql_cmd :: "string \<Rightarrow> string \<Rightarrow> string list \<Rightarrow> cmd" where
  "mysql_cmd mysql sock args = bare_cmd mysql ([''-uroot'', ''-S'', sock] @ args)"

definition load_dump ::
  "'w cli_env \<Rightarrow> 'w works \<Rightarrow> string \<Rightarrow> string \<Rightarrow> string \<Rightarrow> string \<Rightarrow> int \<Rightarrow> ('w, unit) cact" where
  "load_dump C X mysql sock dump db threads =
     check (when_do (db \<noteq> []) (combined C (''create database '' @ db @ '': '')
         (mysql_cmd mysql sock [''-e'', ''CREATE DATABASE IF NOT EXISTS `'' @ db @ ''`'']))) (\<lambda>_.
     if is_s3 dump \<or> is_stdio dump then
       check (open_source C X dump) (\<lambda>src. deferring (close_source X src)
         (then_do (say (''-> load ('' @ dump @ '', stream)''))
           (check (load_reader X mysql sock db src) (\<lambda>_. close_source X src))))
     else check (outside (wk_is_dir X dump)) (\<lambda>dir.
       if dir then load_dump_dir C X mysql sock dump db threads
       else then_do (say (''-> load ('' @ dump @ '')'')) (load_one_file C mysql sock db dump)))"

section \<open>The application user\<close>

definition major_version :: "string \<Rightarrow> int option" where
  "major_version v = (case cut_at (CHR ''.'') v of
      (m, Some _) \<Rightarrow> if m = [] then None else atoi m | (_, None) \<Rightarrow> None)"

definition plugin_for_version :: "string \<Rightarrow> string" where
  "plugin_for_version v =
     (if contains v ''MariaDB'' then ''mysql_native_password''
      else case major_version v of
        Some n \<Rightarrow> if n < 8 then ''mysql_native_password'' else ''caching_sha2_password''
      | None \<Rightarrow> ''caching_sha2_password'')"

definition auth_plugin_for :: "'w cli_env \<Rightarrow> string \<Rightarrow> string \<Rightarrow> ('w, string) cact" where
  "auth_plugin_for C mysql sock =
     handle_err (plain_run C (mysql_cmd mysql sock [''-N'', ''-B'', ''-e'', ''SELECT @@version'']))
       (\<lambda>_. ret ''caching_sha2_password'') (\<lambda>out. ret (plugin_for_version (trim_space out)))"

definition literal_escapes :: "(char \<times> string) list" where
  "literal_escapes = [(CHR 0x5C, [CHR 0x5C, CHR 0x5C]), (CHR 0x27, [CHR 0x5C, CHR 0x27]),
     (CHR 0x00, [CHR 0x5C, CHR ''0'']), (CHR 0x0A, [CHR 0x5C, CHR ''n'']), (CHR 0x0D, [CHR 0x5C, CHR ''r''])]"

definition string_literal :: "string \<Rightarrow> string" where
  "string_literal s = ticks (concat (map (\<lambda>c. case map_of literal_escapes c of None \<Rightarrow> [c] | Some r \<Rightarrow> r) s))"

definition create_app_user_sql :: "string \<Rightarrow> string \<Rightarrow> string \<Rightarrow> string" where
  "create_app_user_sql user plugin pass = (let u = string_literal user @ ''@'' @ ticks ''%'';
       by = '' IDENTIFIED WITH '' @ plugin @ '' BY '' @ string_literal pass in
     ''CREATE USER IF NOT EXISTS '' @ u @ by @ ''; ALTER USER '' @ u @ by
     @ ''; GRANT ALL PRIVILEGES ON *.* TO '' @ u @ ''; FLUSH PRIVILEGES;'')"

section \<open>The temporary server\<close>

record import_opts =
  im_from :: string
  im_config :: string
  im_db :: string
  im_cnf :: string
  im_threads :: int

definition mysqld_bin_or :: "config \<Rightarrow> string" where
  "mysqld_bin_or conf = or_else (mc_mysqld_bin (ec_mysql (g_engine conf))) ''/usr/sbin/mysqld''"

definition mysql_client_bin :: "'w cli_env \<Rightarrow> string \<Rightarrow> string \<Rightarrow> ('w, string) cact" where
  "mysql_client_bin C mysqld name =
     (if CHR ''/'' \<in> set mysqld then (let p = in_dir (dir_name mysqld) name in
        check (bin_exists C p) (\<lambda>x. ret (if x then p else name)))
      else ret name)"

definition wait_socket :: "'w cli_env \<Rightarrow> string \<Rightarrow> int \<Rightarrow> string \<Rightarrow> ('w, unit) cact" where
  "wait_socket C sock timeout admin = waiting C timeout 500000000
     (check (running C (mysql_cmd admin sock [''ping''])) (\<lambda>(r, out). ret (run_error r = None)))
     (EText (''mysqld did not become ready within '' @ ce_show_duration C timeout))"

definition wait_gone_file :: "'w cli_env \<Rightarrow> string \<Rightarrow> int \<Rightarrow> ('w, unit) cact" where
  "wait_gone_file C pid timeout = waiting C timeout 200000000
     (check (asking (h_stat (ce_machine C) pid)) (\<lambda>r. ret (case r of FsNotExist e \<Rightarrow> True | _ \<Rightarrow> False)))
     (EText (''mysqld was not seen to stop ('' @ pid @ '' is left)''))"

definition initialize_args :: "string \<Rightarrow> string \<Rightarrow> string list" where
  "initialize_args data errlog = [''--initialize-insecure'', ''--datadir='' @ data, ''--log-error='' @ errlog]"

definition temp_server_args :: "string \<Rightarrow> string \<Rightarrow> string \<Rightarrow> string \<Rightarrow> string list" where
  "temp_server_args data sock pid errlog = [''--datadir='' @ data, ''--port=0'', ''--skip-networking'',
     ''--socket='' @ sock, ''--pid-file='' @ pid, ''--log-error='' @ errlog, ''--daemonize'']"

text \<open>\<^verbatim>\<open>defer func() { if !stopped { \<dots> } }()\<close>: what fails before the server is stopped stops it.\<close>

definition or_stop :: "('s, 'b) act \<Rightarrow> ('s, 'a) act \<Rightarrow> ('s, 'a) act" where
  "or_stop stop m = handle_err m (\<lambda>e. ignoring stop (throw e)) ret"

text \<open>What the two imports do once the server was started: work with it, stop it, and remove auto.cnf.\<close>

record temp_server =
  ts_mysql :: string
  ts_admin :: string
  ts_socket :: string
  ts_pid :: string
  ts_data :: string

definition shutdown_cmd :: "temp_server \<Rightarrow> cmd" where
  "shutdown_cmd S = mysql_cmd (ts_admin S) (ts_socket S) [''shutdown'']"

definition create_import_user :: "'w cli_env \<Rightarrow> config \<Rightarrow> temp_server \<Rightarrow> ('w, unit) cact" where
  "create_import_user C conf S = (let m = ec_mysql (g_engine conf) in
     then_do (say (''-> user '' @ mc_proxy_user m))
      (check (auth_plugin_for C (ts_mysql S) (ts_socket S)) (\<lambda>plugin.
       combined C ''create user: '' (mysql_cmd (ts_mysql S) (ts_socket S)
         [''-e'', create_app_user_sql (mc_proxy_user m) plugin (mc_proxy_pass m)]))))"

definition import_session ::
  "'w cli_env \<Rightarrow> 'w works \<Rightarrow> config \<Rightarrow> import_opts \<Rightarrow> temp_server \<Rightarrow> ('w, unit) cact" where
  "import_session C X conf im S =
     check (or_stop (running C (shutdown_cmd S))
       (check (wait_socket C (ts_socket S) (60 * second) (ts_admin S)) (\<lambda>_.
        check (when_do (im_from im \<noteq> [])
          (load_dump C X (ts_mysql S) (ts_socket S) (im_from im) (im_db im) (im_threads im))) (\<lambda>_.
        check (create_import_user C conf S) (\<lambda>_.
        then_do (say ''-> shutdown'') (combined C ''shutdown: '' (shutdown_cmd S))))))) (\<lambda>_.
     check (wait_gone_file C (ts_pid S) (30 * second)) (\<lambda>_.
     then_do (say ''-> remove auto.cnf'')
       (wrapping (\<lambda>e. EWrap ''remove auto.cnf: '' e []) (remove_if_there C (in_dir (ts_data S) ''auto.cnf'')))))"

section \<open>The ledger\<close>

definition warn :: "string \<Rightarrow> ('w, unit) cact" where
  "warn l = complain (''warning: '' @ l)"

definition imported_provenance :: "string \<Rightarrow> provenance" where
  "imported_provenance data_as_of = \<lparr>p_source_rev = [], p_schema_rev = [], p_data_as_of = data_as_of,
     p_masked = False, p_mask_version = [], p_validated = False\<rparr>"

definition register_imported ::
  "'w cli_env \<Rightarrow> string \<Rightarrow> string \<Rightarrow> string \<Rightarrow> ('w, unit) cact" where
  "register_imported C path snap data_as_of =
     handle_err (outside (ce_open_db C path))
       (\<lambda>e. warn (''cannot register the baseline: open '' @ path @ '': '' @ err_text e)) (\<lambda>_.
     check (asking (ce_now C)) (\<lambda>t.
     handle_err (cli_sql C path (register_baseline t snap (imported_provenance data_as_of)))
       (\<lambda>e. warn (''the baseline was not registered: '' @ err_text e)) (\<lambda>_.
     check (asking (ce_now C)) (\<lambda>t.
     handle_err (cli_sql C path (set_current_baseline t snap))
       (\<lambda>e. warn (''the current baseline was not set: '' @ err_text e)) ret))))"

section \<open>The import on a local backend\<close>

definition prepare_local_base_data :: "'w cli_env \<Rightarrow> 'w works \<Rightarrow> string \<Rightarrow> bool \<Rightarrow> ('w, unit) cact" where
  "prepare_local_base_data C X data replacing =
     check (when_do replacing (say ''-> the present baseline stays, a new tag becomes current'')) (\<lambda>_.
     check (dir_non_empty C data) (\<lambda>full.
     if \<not> full then ret ()
     else check (file_exists C (in_dir data ''mysqld.pid'')) (\<lambda>a.
       check (if a then ret True else file_exists C (in_dir data ''postmaster.pid'')) (\<lambda>up.
       if up then throw (EText (''a database runs on '' @ data @ ''; stop it first''))
       else then_do (say (''-> initialise '' @ data @ '' again''))
         (wrapping (\<lambda>e. EWrap (''clear '' @ data @ '': '') e []) (outside (lf_remove_all (wk_fs X) data)))))))"

definition local_tag_or :: "config \<Rightarrow> string" where
  "local_tag_or conf = or_else (lo_baseline (sc_local (g_storage conf))) ''baseline''"

text \<open>Root runs the server as another user, and gives that user the base directory.\<close>

definition user_if_root ::
  "'w cli_env \<Rightarrow> ('w, nat \<times> nat) cact \<Rightarrow> ('w, (nat \<times> nat) option) cact" where
  "user_if_root C look = (if h_is_root (ce_machine C) then check look (\<lambda>u. ret (Some u)) else ret None)"

definition chown_if ::
  "'w cli_env \<Rightarrow> 'w works \<Rightarrow> string \<Rightarrow> (nat \<times> nat) option \<Rightarrow> ('w, unit) cact" where
  "chown_if C X base u = (case u of None \<Rightarrow> ret () | Some ids \<Rightarrow> chown_r C X base ids)"

definition start_temp_server ::
  "'w cli_env \<Rightarrow> (nat \<times> nat) option \<Rightarrow> string \<Rightarrow> string list \<Rightarrow> temp_server \<Rightarrow> string \<Rightarrow> ('w, unit) cact" where
  "start_temp_server C u mysqld defaults S errlog =
     then_do (say ''-> initialise mysqld'')
      (check (wrapping (\<lambda>e. EWrap ''initialize: '' e [])
         (run_as_user C u mysqld (defaults @ initialize_args (ts_data S) errlog))) (\<lambda>_.
       then_do (say ''-> start mysqld'')
        (wrapping (\<lambda>e. EWrap ''start: '' e [])
         (run_as_user C u mysqld (defaults @ temp_server_args (ts_data S) (ts_socket S) (ts_pid S) errlog)))))"

definition the_temp_server :: "'w cli_env \<Rightarrow> config \<Rightarrow> string \<Rightarrow> string \<Rightarrow> ('w, temp_server) cact" where
  "the_temp_server C conf mysqld data =
     check (mysql_client_bin C mysqld ''mysql'') (\<lambda>mysql.
     check (mysql_client_bin C mysqld ''mysqladmin'') (\<lambda>admin.
     ret \<lparr>ts_mysql = mysql, ts_admin = admin, ts_socket = runtime_path C conf ''sashiki-baseline.sock'',
       ts_pid = runtime_path C conf ''sashiki-baseline.pid'', ts_data = data\<rparr>))"

definition import_done :: "('w, unit) cact" where
  "import_done = say ''baseline import finished. sashiki create <name> makes a branch''"

definition snapshot_and_register_local ::
  "'w cli_env \<Rightarrow> 'w works \<Rightarrow> config \<Rightarrow> string \<Rightarrow> string \<Rightarrow> ('w, unit) cact" where
  "snapshot_and_register_local C X conf base tag =
     then_do (say (''-> snapshot '' @ in_dir (in_dir (in_dir base ''base'') ''snap'') tag))
      (check (snapshot_local C X (sc_backend (g_storage conf)) base tag) (\<lambda>snap.
       then_do (register_imported C (g_state_db conf) snap tag) import_done))"

definition run_local_import :: "'w cli_env \<Rightarrow> 'w works \<Rightarrow> config \<Rightarrow> import_opts \<Rightarrow> ('w, unit) cact" where
  "run_local_import C X conf im =
     (let base = lo_root (sc_local (g_storage conf)); data = in_dir (in_dir base ''base'') ''data'';
          mysqld = mysqld_bin_or conf in
      if base = [] then throw (EText ''storage.local.root is not set (apfs/reflink need it)'')
      else check (local_baseline_tag C (in_dir (in_dir base ''base'') ''snap'') (local_tag_or conf)) (\<lambda>(tag, replacing).
        check (prepare_local_base_data C X data replacing) (\<lambda>_.
        check (user_if_root C (lookup_mysql_user C)) (\<lambda>u.
        check (outside (h_mkdir_all (ce_machine C) data)) (\<lambda>_.
        check (chown_if C X (in_dir base ''base'') u) (\<lambda>_.
        check (the_temp_server C conf mysqld data) (\<lambda>S.
        check (start_temp_server C u mysqld
            (if im_cnf im \<noteq> [] then [''--defaults-file='' @ im_cnf im] else []) S (in_dir base ''baseline.err'')) (\<lambda>_.
        check (import_session C X conf im S) (\<lambda>_.
        snapshot_and_register_local C X conf base tag)))))))))"

section \<open>The import on zfs\<close>

definition zfs_snapshot_absent :: "'w cli_env \<Rightarrow> string \<Rightarrow> ('w, unit) cact" where
  "zfs_snapshot_absent C snap = check (succeeds C ''zfs'' [''list'', snap]) (\<lambda>there.
     if there then throw (EText (''the snapshot '' @ snap @ '' exists already; use sashiki baseline refresh''))
     else ret ())"

definition zfs_base_data :: "'w cli_env \<Rightarrow> string \<Rightarrow> ('w, string) cact" where
  "zfs_base_data C base =
     handle_err (plain_run C (bare_cmd ''zfs'' [''get'', ''-H'', ''-o'', ''value'', ''mountpoint'', base]))
       (\<lambda>_. throw (EText (''no dataset '' @ base @ ''; run sashiki init first''))) (\<lambda>out.
     let data = in_dir (trim_space out) ''data'' in
     check (dir_non_empty C data) (\<lambda>full.
     if full then throw (EText (data @ '' is not empty; an initialised base cannot be imported into''))
     else ret data))"

definition import_defaults :: "config \<Rightarrow> import_opts \<Rightarrow> string list" where
  "import_defaults conf im = (let extra = mc_extra_cnf (ec_mysql (g_engine conf)) in
     if im_cnf im \<noteq> [] then [''--defaults-file='' @ im_cnf im]
     else if extra \<noteq> [] then [''--defaults-file='' @ extra] else [])"

definition zfs_snapshot_and_register :: "'w cli_env \<Rightarrow> config \<Rightarrow> string \<Rightarrow> ('w, unit) cact" where
  "zfs_snapshot_and_register C conf snap =
     then_do (say (''-> snapshot '' @ snap))
      (check (combined C ''snapshot: '' (bare_cmd ''zfs'' [''snapshot'', snap])) (\<lambda>_.
       then_do (register_imported C (g_state_db conf) snap (zf_baseline (sc_zfs (g_storage conf)))) import_done))"

definition zfs_target :: "config \<Rightarrow> string" where
  "zfs_target conf = (let z = sc_zfs (g_storage conf) in zf_base z @ ''@'' @ zf_baseline z)"

definition run_zfs_import :: "'w cli_env \<Rightarrow> 'w works \<Rightarrow> config \<Rightarrow> import_opts \<Rightarrow> ('w, unit) cact" where
  "run_zfs_import C X conf im =
     (let mysqld = mysqld_bin_or conf in
      check (zfs_snapshot_absent C (zfs_target conf)) (\<lambda>_.
      check (zfs_base_data C (zf_base (sc_zfs (g_storage conf)))) (\<lambda>data.
      check (lookup_mysql_user C) (\<lambda>u.
      check (outside (h_mkdir_all (ce_machine C) data)) (\<lambda>_.
      check (chown_r C X (dir_name data) u) (\<lambda>_.
      check (the_temp_server C conf mysqld data) (\<lambda>S.
      check (start_temp_server C (Some u) mysqld (import_defaults conf im) S
          (in_dir (parent_of (hc_log_dir (g_hooks conf))) ''baseline.err'')) (\<lambda>_.
      check (import_session C X conf im S) (\<lambda>_.
      zfs_snapshot_and_register C conf (zfs_target conf))))))))))"

section \<open>The command\<close>

definition local_backend_used :: "config \<Rightarrow> bool" where
  "local_backend_used conf \<longleftrightarrow> sc_backend (g_storage conf) \<in> {''apfs'', ''reflink''}"

end
