(* ===== verification/CliImportPg.thy ===== *)
theory CliImportPg
  imports CliImport
begin

text \<open>
  cmd/sashiki: \<^verbatim>\<open>baseline import\<close> for PostgreSQL (baseline_postgres.go), the dispatch of
  \<^verbatim>\<open>runBaselineImport\<close>, and the command itself (baseline.go).
\<close>

section \<open>Tools\<close>

definition pg_import_port :: string where
  "pg_import_port = ''5499''"

definition pg_import_socket :: string where
  "pg_import_socket = ''/tmp''"

definition pg_import_log :: string where
  "pg_import_log = ''/tmp/sashiki-baseline-pg.log''"

definition pg_import_env :: "string list" where
  "pg_import_env = [''PGHOST='' @ pg_import_socket, ''PGPORT='' @ pg_import_port, ''PGCONNECT_TIMEOUT=10'']"

definition pg_tool :: "'w cli_env \<Rightarrow> string \<Rightarrow> string \<Rightarrow> ('w, string) cact" where
  "pg_tool C dir name =
     (if dir \<noteq> [] then check (bin_exists C (in_dir dir name)) (\<lambda>x. ret (if x then in_dir dir name else name))
      else ret name)"

record pg_tools =
  pt_initdb :: string
  pt_ctl :: string
  pt_psql :: string
  pt_restore :: string

definition the_pg_tools :: "'w cli_env \<Rightarrow> string \<Rightarrow> ('w, pg_tools) cact" where
  "the_pg_tools C dir = check (pg_tool C dir ''initdb'') (\<lambda>i. check (pg_tool C dir ''pg_ctl'') (\<lambda>c.
     check (pg_tool C dir ''psql'') (\<lambda>p. check (pg_tool C dir ''pg_restore'') (\<lambda>r.
     ret \<lparr>pt_initdb = i, pt_ctl = c, pt_psql = p, pt_restore = r\<rparr>))))"

definition quote_with :: "char \<Rightarrow> string \<Rightarrow> string" where
  "quote_with q s = [q] @ concat (map (\<lambda>c. if c = q then [q, q] else [c]) s) @ [q]"

definition quote_ident :: "string \<Rightarrow> string" where
  "quote_ident s = quote_with (CHR 0x22) s"

definition quote_literal :: "string \<Rightarrow> string" where
  "quote_literal s = quote_with (CHR 0x27) s"

definition pg_sql :: "'w cli_env \<Rightarrow> (nat \<times> nat) option \<Rightarrow> string \<Rightarrow> string \<Rightarrow> ('w, unit) cact" where
  "pg_sql C u psql q = run_as_user_env C u pg_import_env psql
     [''-w'', ''-v'', ''ON_ERROR_STOP=1'', ''-d'', ''postgres'', ''-c'', q]"

section \<open>Loading a dump\<close>

definition is_pg_custom_dump :: "'w works \<Rightarrow> string \<Rightarrow> ('w, bool) cact" where
  "is_pg_custom_dump X path = attempt (outside (wk_head X path 5)) (\<lambda>r. ret (r = Inr ''PGDMP''))"

definition pg_load_dump :: "'w cli_env \<Rightarrow> 'w works \<Rightarrow> (nat \<times> nat) option \<Rightarrow> pg_tools \<Rightarrow>
    string \<Rightarrow> string \<Rightarrow> int \<Rightarrow> int \<Rightarrow> ('w, unit) cact" where
  "pg_load_dump C X u T dump db threads shown =
     (let restore = run_as_user_env C u pg_import_env (pt_restore T) in
      check (outside (wk_is_dir X dump)) (\<lambda>dir.
      if dir then then_do (say (''-> load ('' @ dump @ '', directory, '' @ show_int shown @ '' at a time)''))
        (restore [''-w'', ''-d'', db, ''--no-owner'', ''-j'', show_int (max threads 1), dump])
      else check (is_pg_custom_dump X dump) (\<lambda>custom.
        if custom then then_do (say (''-> load ('' @ dump @ '', custom format)''))
          (restore [''-w'', ''-d'', db, ''--no-owner'', dump])
        else then_do (say (''-> load ('' @ dump @ '', plain SQL)''))
          (run_as_user_env C u pg_import_env (pt_psql T)
            [''-w'', ''-v'', ''ON_ERROR_STOP=1'', ''-d'', db, ''-f'', dump]))))"

definition pg_resolve_dump :: "'w cli_env \<Rightarrow> 'w works \<Rightarrow> string \<Rightarrow> ('w, string \<times> string option) cact" where
  "pg_resolve_dump C X dump =
     (if \<not> is_s3 dump \<and> \<not> is_stdio dump then ret (dump, None)
      else then_do (say (''-> fetching '' @ dump)) (materialize C X dump ''sashiki-pg-dump-*.dump''))"

section \<open>The temporary cluster\<close>

definition pg_stop_args :: "string \<Rightarrow> string \<Rightarrow> string list" where
  "pg_stop_args data mode = [''stop'', ''-D'', data, ''-m'', mode, ''-w'']"

definition pg_start_options :: string where
  "pg_start_options = ''-p '' @ pg_import_port @ '' -c listen_addresses='' @ ticks []
     @ '' -c unix_socket_directories='' @ pg_import_socket"

definition pg_import_start_args :: "string \<Rightarrow> string list" where
  "pg_import_start_args data = [''start'', ''-D'', data, ''-o'', pg_start_options, ''-l'', pg_import_log, ''-w'']"

definition start_temp_cluster ::
  "'w cli_env \<Rightarrow> config \<Rightarrow> (nat \<times> nat) option \<Rightarrow> pg_tools \<Rightarrow> string \<Rightarrow> ('w, unit) cact" where
  "start_temp_cluster C conf u T data =
     then_do (say ''-> initdb'')
      (check (wrapping (\<lambda>e. EWrap ''initdb: '' e []) (run_as_user C u (pt_initdb T)
         ([''-D'', data, ''--auth-host=scram-sha-256'', ''--auth-local=trust'']
          @ pq_initdb_args (ec_postgres (g_engine conf))))) (\<lambda>_.
       then_do (say ''-> start postgres'')
        (wrapping (\<lambda>e. EWrap ''pg_ctl start: '' e ('' (see '' @ pg_import_log @ '')''))
         (run_as_user_no_pipe C u (pt_ctl T) (pg_import_start_args data)))))"

definition pg_create_role ::
  "'w cli_env \<Rightarrow> config \<Rightarrow> (nat \<times> nat) option \<Rightarrow> pg_tools \<Rightarrow> string \<Rightarrow> ('w, unit) cact" where
  "pg_create_role C conf u T db = (let user = app_user conf in
     then_do (say (''-> role '' @ user))
      (check (wrapping (\<lambda>e. EWrap (''create role '' @ user @ '': '') e [])
         (pg_sql C u (pt_psql T) (''CREATE ROLE '' @ quote_ident user @ '' LOGIN SUPERUSER PASSWORD ''
            @ quote_literal (app_pass conf)))) (\<lambda>_.
       when_do (db \<noteq> []) (wrapping (\<lambda>e. EWrap ''alter database owner: '' e [])
         (pg_sql C u (pt_psql T) (''ALTER DATABASE '' @ quote_ident db @ '' OWNER TO '' @ quote_ident user))))))"

text \<open>
  What fails before the cluster is stopped stops it at once, after the temporary copy of the dump was
  removed; that copy goes at the very end otherwise.
\<close>

definition pg_import_session :: "'w cli_env \<Rightarrow> 'w works \<Rightarrow> config \<Rightarrow> import_opts \<Rightarrow> (nat \<times> nat) option \<Rightarrow>
    pg_tools \<Rightarrow> string \<Rightarrow> int \<Rightarrow> ('w, unit) cact \<Rightarrow> ('w, unit) cact" where
  "pg_import_session C X conf im u T data shown finish =
     (let stop = run_as_user C u (pt_ctl T) (pg_stop_args data ''immediate'') in
      check (or_stop stop
        (check (when_do (im_db im \<noteq> []) (then_do (say (''-> database '' @ im_db im))
            (wrapping (\<lambda>e. EWrap (''create database '' @ im_db im @ '': '') e [])
              (pg_sql C u (pt_psql T) (''CREATE DATABASE '' @ quote_ident (im_db im)))))) (\<lambda>_.
         if im_from im \<noteq> [] then pg_resolve_dump C X (im_from im) else ret ([], None)))) (\<lambda>(path, tmp).
      check (deferring (clean_up C tmp)
        (attempt
          (check (when_do (im_from im \<noteq> []) (pg_load_dump C X u T path (or_else (im_db im) ''postgres'')
              (im_threads im) shown)) (\<lambda>_.
           check (pg_create_role C conf u T (im_db im)) (\<lambda>_.
           then_do (say ''-> shutdown'') (wrapping (\<lambda>e. EWrap ''pg_ctl stop: '' e [])
             (run_as_user C u (pt_ctl T) (pg_stop_args data ''fast'')))))) (\<lambda>r. case r of
             Inl e \<Rightarrow> ret (Some e)
           | Inr done \<Rightarrow> check finish (\<lambda>_. ret None)))) (\<lambda>failed. case failed of
        Some e \<Rightarrow> ignoring stop (throw e)
      | None \<Rightarrow> ret ())))"

definition pg_run_user :: "config \<Rightarrow> string" where
  "pg_run_user conf = or_else (engine_run_user conf) ''postgres''"

definition run_pg_zfs_import :: "'w cli_env \<Rightarrow> 'w works \<Rightarrow> config \<Rightarrow> import_opts \<Rightarrow> ('w, unit) cact" where
  "run_pg_zfs_import C X conf im =
     check (zfs_snapshot_absent C (zfs_target conf)) (\<lambda>_.
     check (zfs_base_data C (zf_base (sc_zfs (g_storage conf)))) (\<lambda>data.
     check (lookup_os_user C (pg_run_user conf)) (\<lambda>u.
     check (outside (h_mkdir_all (ce_machine C) data)) (\<lambda>_.
     check (chown_r C X (dir_name data) u) (\<lambda>_.
     check (outside (ce_chmod C data 448)) (\<lambda>_.
     check (the_pg_tools C (pq_bin_dir (ec_postgres (g_engine conf)))) (\<lambda>T.
     check (start_temp_cluster C conf (Some u) T data) (\<lambda>_.
     pg_import_session C X conf im (Some u) T data (im_threads im)
       (zfs_snapshot_and_register C conf (zfs_target conf))))))))))"

definition run_pg_local_import :: "'w cli_env \<Rightarrow> 'w works \<Rightarrow> config \<Rightarrow> import_opts \<Rightarrow> ('w, unit) cact" where
  "run_pg_local_import C X conf im =
     (let base = lo_root (sc_local (g_storage conf)); data = in_dir (in_dir base ''base'') ''data'' in
      if base = [] then throw (EText ''storage.local.root is not set (apfs/reflink need it)'')
      else check (local_baseline_tag C (in_dir (in_dir base ''base'') ''snap'') (local_tag_or conf)) (\<lambda>(tag, replacing).
        check (prepare_local_base_data C X data replacing) (\<lambda>_.
        check (user_if_root C (lookup_os_user C (pg_run_user conf))) (\<lambda>u.
        check (outside (h_mkdir_all (ce_machine C) data)) (\<lambda>_.
        check (chown_if C X (in_dir base ''base'') u) (\<lambda>_.
        check (outside (ce_chmod C data 448)) (\<lambda>_.
        check (the_pg_tools C (pq_bin_dir (ec_postgres (g_engine conf)))) (\<lambda>T.
        check (start_temp_cluster C conf u T data) (\<lambda>_.
        pg_import_session C X conf im u T data (max (im_threads im) 1)
          (snapshot_and_register_local C X conf base tag))))))))))"

definition run_pg_import :: "'w cli_env \<Rightarrow> 'w works \<Rightarrow> config \<Rightarrow> import_opts \<Rightarrow> ('w, unit) cact" where
  "run_pg_import C X conf im =
     (if local_backend_used conf then run_pg_local_import C X conf im else run_pg_zfs_import C X conf im)"

section \<open>The command\<close>

definition run_baseline_import :: "'w cli_env \<Rightarrow> 'w works \<Rightarrow> config \<Rightarrow> import_opts \<Rightarrow> ('w, unit) cact" where
  "run_baseline_import C X conf im =
     (if ec_type (g_engine conf) = ''postgres'' then run_pg_import C X conf im
      else if local_backend_used conf then run_local_import C X conf im
      else run_zfs_import C X conf im)"

text \<open>A bad command line shows the usage, or one message of its own.\<close>

fun import_flags :: "string list \<Rightarrow> import_opts \<Rightarrow> err option + import_opts" where
  "import_flags [] im = Inr im"
| "import_flags (a # as) im =
     (if a \<in> {''--from'', ''--config'', ''--db'', ''--import-cnf'', ''--threads''} then
        (case as of [] \<Rightarrow> Inl None
         | v # bs \<Rightarrow>
            if a = ''--from'' then import_flags bs (im\<lparr>im_from := v\<rparr>)
            else if a = ''--config'' then import_flags bs (im\<lparr>im_config := v\<rparr>)
            else if a = ''--db'' then import_flags bs (im\<lparr>im_db := v\<rparr>)
            else if a = ''--import-cnf'' then import_flags bs (im\<lparr>im_cnf := v\<rparr>)
            else (case atoi v of
                None \<Rightarrow> Inl (Some (EText ''--threads is an integer of at least 1''))
              | Some n \<Rightarrow> if n < 1 then Inl (Some (EText ''--threads is an integer of at least 1''))
                  else import_flags bs (im\<lparr>im_threads := n\<rparr>)))
      else Inl None)"

definition flag_exists :: "'w cli_env \<Rightarrow> string \<Rightarrow> string \<Rightarrow> ('w, unit) cact" where
  "flag_exists C flag p = wrapping (\<lambda>e. EWrap (flag @ '' '' @ p @ '': '') e []) (must_exist C p)"

text \<open>Every error is printed after the name of the command, but one that concerns the path only.\<close>

definition named :: "string \<Rightarrow> ('w, 'a) cact \<Rightarrow> ('w, 'a) cact" where
  "named cmd m = wrapping (\<lambda>e. EWrap (cmd @ '': '') e []) m"

definition config_at :: "'w cli_env \<Rightarrow> string \<Rightarrow> string \<Rightarrow> ('w, config) cact" where
  "config_at C cmd p = check (named ''sashiki'' (require_config_path C p)) (\<lambda>path.
     named cmd (wrapping (\<lambda>e. EWrap ''config: '' e [])
       (outside (load_config (ce_machine C) (ce_decoder C) path))))"

definition import_cmd_name :: string where
  "import_cmd_name = ''sashiki baseline import''"

definition import_settings :: "'w cli_env \<Rightarrow> 'w works \<Rightarrow> import_opts \<Rightarrow> ('w, config) cact" where
  "import_settings C X im =
     check (named import_cmd_name (check
       (when_do (im_from im \<noteq> [] \<and> \<not> is_s3 (im_from im) \<and> \<not> is_stdio (im_from im))
         (flag_exists C ''--from'' (im_from im))) (\<lambda>_.
       when_do (im_cnf im \<noteq> []) (flag_exists C ''--import-cnf'' (im_cnf im))))) (\<lambda>_.
     check (config_at C import_cmd_name (im_config im)) (\<lambda>conf.
     named import_cmd_name (check (outside (resolve_app_pass (ce_machine C) (wk_ssm X) conf)) (\<lambda>conf.
     if \<not> local_backend_used conf \<and> \<not> h_is_root (ce_machine C) then throw (EText ''run it as root'')
     else ret conf))))"

definition cmd_baseline_import :: "'w cli_env \<Rightarrow> 'w works \<Rightarrow> string list \<Rightarrow> ('w, int) cact" where
  "cmd_baseline_import C X args = check (default_config_path C) (\<lambda>config.
     case import_flags args \<lparr>im_from = [], im_config = config, im_db = [], im_cnf = [],
         im_threads = int (wk_cpus X)\<rparr> of
       Inl None \<Rightarrow> usage_baseline
     | Inl (Some e) \<Rightarrow> quit_with (import_cmd_name @ '': '' @ err_text e) exit_usage
     | Inr im \<Rightarrow> handle_err
         (check (import_settings C X im) (\<lambda>conf. named import_cmd_name (run_baseline_import C X conf im)))
         (\<lambda>e. quit_with (err_text e) exit_error) (\<lambda>_. ret exit_ok))"

end
