(* ===== verification/CliStream.thy ===== *)
theory CliStream
  imports CliImportPg
begin

text \<open>
  cmd/sashiki: a baseline as a stream of \<^verbatim>\<open>zfs send\<close> (baseline_stream.go). The export writes one
  snapshot; the import replaces the base dataset, only when it is absent or may be destroyed and no
  branch is left, and registers the snapshot that was received.
\<close>

section \<open>Command lines\<close>

record stream_opts =
  sp_path :: string
  sp_config :: string
  sp_snapshot :: string
  sp_force :: bool

fun export_flags :: "string list \<Rightarrow> stream_opts \<Rightarrow> stream_opts option" where
  "export_flags [] sp = Some sp"
| "export_flags (a # as) sp =
     (if a \<in> {''--to'', ''--config'', ''--snapshot''} then
        (case as of [] \<Rightarrow> None
         | v # bs \<Rightarrow> export_flags bs (if a = ''--to'' then sp\<lparr>sp_path := v\<rparr>
             else if a = ''--config'' then sp\<lparr>sp_config := v\<rparr> else sp\<lparr>sp_snapshot := v\<rparr>))
      else None)"

fun stream_flags :: "string list \<Rightarrow> stream_opts \<Rightarrow> stream_opts option" where
  "stream_flags [] sp = Some sp"
| "stream_flags (a # as) sp =
     (if a = ''--force'' then stream_flags as (sp\<lparr>sp_force := True\<rparr>)
      else if a \<in> {''--from'', ''--config''} then
        (case as of [] \<Rightarrow> None
         | v # bs \<Rightarrow> stream_flags bs (if a = ''--from'' then sp\<lparr>sp_path := v\<rparr> else sp\<lparr>sp_config := v\<rparr>))
      else None)"

definition no_stream :: "string \<Rightarrow> stream_opts" where
  "no_stream config = \<lparr>sp_path = [], sp_config = config, sp_snapshot = [], sp_force = False\<rparr>"

section \<open>Looking at zfs\<close>

definition require_zfs_backend :: "config \<Rightarrow> string \<Rightarrow> ('w, unit) cact" where
  "require_zfs_backend conf what = (let b = sc_backend (g_storage conf) in
     if b \<in> {''ebs-zfs'', ''fsx-zfs''} then ret ()
     else throw (EText (''baseline '' @ what @ '' is for the zfs backends (backend='' @ b
       @ ''); with apfs / reflink use baseline import'')))"

definition zfs_lines :: "string \<Rightarrow> string list" where
  "zfs_lines out = map trim_space (split_on newline (trim_space out))"

definition list_child_datasets :: "'w cli_env \<Rightarrow> string \<Rightarrow> ('w, string list) cact" where
  "list_child_datasets C parent = check
     (plain_run C (bare_cmd ''zfs'' [''list'', ''-H'', ''-o'', ''name'', ''-t'', ''filesystem'', ''-r'', parent])) (\<lambda>out.
     ret (filter (\<lambda>n. n \<noteq> [] \<and> n \<noteq> parent) (zfs_lines out)))"

definition last_of_dataset :: "string \<Rightarrow> string list \<Rightarrow> string option" where
  "last_of_dataset dataset ls = find (\<lambda>l. has_prefix l (dataset @ ''@'')) (rev ls)"

definition latest_snapshot :: "'w cli_env \<Rightarrow> string \<Rightarrow> ('w, string) cact" where
  "latest_snapshot C dataset = check (wrapping (\<lambda>e. EWrap ''cannot see the received snapshot: '' e [])
     (plain_run C (bare_cmd ''zfs'' [''list'', ''-H'', ''-o'', ''name'', ''-t'', ''snapshot'', ''-s'', ''creation'',
        ''-r'', dataset]))) (\<lambda>out.
     case last_of_dataset dataset (zfs_lines out) of
       Some s \<Rightarrow> ret s
     | None \<Rightarrow> throw (EText (''no snapshot of '' @ dataset @ '' (is the stream empty?)'')))"

section \<open>Export\<close>

definition run_baseline_export :: "'w cli_env \<Rightarrow> 'w works \<Rightarrow> config \<Rightarrow> stream_opts \<Rightarrow> ('w, unit) cact" where
  "run_baseline_export C X conf sp = check (require_zfs_backend conf ''export'') (\<lambda>_.
     let z = sc_zfs (g_storage conf); snap = zf_base z @ ''@'' @ or_else (sp_snapshot sp) (zf_baseline z) in
     check (succeeds C ''zfs'' [''list'', ''-t'', ''snapshot'', snap]) (\<lambda>there.
     if \<not> there then throw (EText (''no snapshot '' @ snap @ '' (see baseline list)''))
     else check (create_sink C X (sp_path sp)) (\<lambda>dst.
       then_do (complain (''-> zfs send '' @ snap @ '' -> '' @ sp_path sp))
        (check (asking (wk_pour X dst (bare_cmd ''zfs'' [''send'', snap]))) (\<lambda>r. case run_error r of
            Some e \<Rightarrow> ignoring (close_sink X dst) (throw (EWrap (''zfs send '' @ snap @ '': '') e []))
          | None \<Rightarrow> check (close_sink X dst) (\<lambda>_. complain ''baseline export finished''))))))"

definition export_cmd_name :: string where
  "export_cmd_name = ''sashiki baseline export''"

definition cmd_baseline_export :: "'w cli_env \<Rightarrow> 'w works \<Rightarrow> string list \<Rightarrow> ('w, int) cact" where
  "cmd_baseline_export C X args = check (default_config_path C) (\<lambda>config.
     case export_flags args (no_stream config) of
       None \<Rightarrow> usage_baseline
     | Some sp \<Rightarrow>
        if sp_path sp = [] then quit_with (export_cmd_name @ '': --to <path|s3://...|-> is needed'') exit_usage
        else handle_err (check (config_at C export_cmd_name (sp_config sp)) (\<lambda>conf.
            named export_cmd_name (run_baseline_export C X conf sp)))
          (\<lambda>e. quit_with (err_text e) exit_error) (\<lambda>_. ret exit_ok))"

section \<open>Import\<close>

definition make_room :: "'w cli_env \<Rightarrow> string \<Rightarrow> bool \<Rightarrow> ('w, unit) cact" where
  "make_room C base force = check (succeeds C ''zfs'' [''list'', base]) (\<lambda>there.
     if \<not> there then ret ()
     else if \<not> force then throw (EText (base @ '' exists already; --force replaces it (its snapshots are lost)''))
     else then_do (complain (''-> destroy '' @ base @ '' (--force)''))
       (combined C ''cannot destroy the base: '' (bare_cmd ''zfs'' [''destroy'', ''-r'', base])))"

definition snapshot_tag :: "string \<Rightarrow> string" where
  "snapshot_tag snap = (case cut_at (CHR ''@'') snap of (_, Some t) \<Rightarrow> t | (_, None) \<Rightarrow> snap)"

definition run_import_stream :: "'w cli_env \<Rightarrow> 'w works \<Rightarrow> config \<Rightarrow> stream_opts \<Rightarrow> ('w, unit) cact" where
  "run_import_stream C X conf sp = check (require_zfs_backend conf ''import-stream'') (\<lambda>_.
     let z = sc_zfs (g_storage conf); base = zf_base z in
     attempt (list_child_datasets C (zf_parent z)) (\<lambda>bs. case bs of
         Inr (b # rest) \<Rightarrow> throw (EText (show_nat (length (b # rest)) @ '' branches are left; delete them first: ''
           @ join_with '', '' (b # rest)))
       | _ \<Rightarrow> check (make_room C base (sp_force sp)) (\<lambda>_.
         check (open_source C X (sp_path sp)) (\<lambda>src. deferring (close_source X src)
           (then_do (complain (''-> zfs recv '' @ base @ '' <- '' @ sp_path sp))
            (check (asking (wk_feed X src (bare_cmd ''zfs'' [''recv'', base]))) (\<lambda>(r, out). case run_error r of
                Some e \<Rightarrow> throw (EWrap (''zfs recv '' @ base @ '': '') e [])
              | None \<Rightarrow> check (close_source X src) (\<lambda>_.
                  check (latest_snapshot C base) (\<lambda>snap.
                  then_do (register_imported C (g_state_db conf) snap (snapshot_tag snap))
                    (complain (''baseline import-stream finished (current = '' @ snap
                       @ ''). sashiki create <name> makes a branch'')))))))))))"

definition import_stream_cmd_name :: string where
  "import_stream_cmd_name = ''sashiki baseline import-stream''"

definition cmd_baseline_import_stream :: "'w cli_env \<Rightarrow> 'w works \<Rightarrow> string list \<Rightarrow> ('w, int) cact" where
  "cmd_baseline_import_stream C X args = check (default_config_path C) (\<lambda>config.
     case stream_flags args (no_stream config) of
       None \<Rightarrow> usage_baseline
     | Some sp \<Rightarrow>
        if sp_path sp = [] then quit_with (import_stream_cmd_name @ '': --from <path|s3://...|-> is needed'') exit_usage
        else handle_err (check (config_at C import_stream_cmd_name (sp_config sp)) (\<lambda>conf.
            named import_stream_cmd_name (run_import_stream C X conf sp)))
          (\<lambda>e. quit_with (err_text e) exit_error) (\<lambda>_. ret exit_ok))"

end
