(* ===== verification/CliImportFacts.thy ===== *)
theory CliImportFacts
  imports CliStream CliFacts
begin

text \<open>
  What is proved of \<^verbatim>\<open>baseline import\<close>: in every run, whatever fails, a snapshot is taken only
  after the temporary server was stopped, and no server that was started is left without an attempt to
  stop it. The parallel loading of a directory keeps its bound and loads each file once.
\<close>

section \<open>A machine that keeps a log\<close>

text \<open>
  The commands that were run, with their success, and the files that were found absent. Every machine
  can be given such a log; nothing else is asked of it.
\<close>

datatype cli_event = Ran cmd bool | Absent string

definition untouched :: "('w \<Rightarrow> cli_event list) \<Rightarrow> ('w \<Rightarrow> 'a \<times> 'w) \<Rightarrow> bool" where
  "untouched ev f \<longleftrightarrow> (\<forall>w. ev (snd (f w)) = ev w)"

definition logs_files :: "'w host \<Rightarrow> 'w works \<Rightarrow> ('w \<Rightarrow> cli_event list) \<Rightarrow> bool" where
  "logs_files H X ev \<longleftrightarrow> (\<forall>p u n. untouched ev (h_remove H p) \<and> untouched ev (h_open H p)
     \<and> untouched ev (h_read_dir H p) \<and> untouched ev (h_executable H p) \<and> untouched ev (h_mkdir_all H p)
     \<and> untouched ev (h_create H p)
     \<and> untouched ev (wk_is_dir X p) \<and> untouched ev (wk_walk X p) \<and> untouched ev (wk_chown X p u)
     \<and> untouched ev (wk_head X p n) \<and> untouched ev (lf_remove_all (wk_fs X) p) \<and> untouched ev (wk_close_file X p))"

definition logs_process :: "'w cli_env \<Rightarrow> 'w works \<Rightarrow> ('w \<Rightarrow> cli_event list) \<Rightarrow> bool" where
  "logs_process C X ev \<longleftrightarrow> (\<forall>p q d n src xs. untouched ev (ce_now C) \<and> untouched ev (ce_sleep C d)
     \<and> untouched ev (ce_look_path C p) \<and> untouched ev (ce_create_temp C p q) \<and> untouched ev (ce_close C p)
     \<and> untouched ev (ce_chmod C p n) \<and> untouched ev (ce_open_db C p) \<and> untouched ev (ce_db_fault C)
     \<and> untouched ev (wk_pick X) \<and> untouched ev (wk_pipe X) \<and> untouched ev (wk_start X p xs)
     \<and> untouched ev (wk_copy X src p) \<and> untouched ev (wk_close_pipe X n) \<and> untouched ev (wk_wait X n))
   \<and> (\<forall>p v w. ev (ce_set_db C p v w) = ev w)"

definition logs_commands :: "'w cli_env \<Rightarrow> 'w works \<Rightarrow> ('w \<Rightarrow> cli_event list) \<Rightarrow> bool" where
  "logs_commands C X ev \<longleftrightarrow>
     (\<forall>cm w. ev (snd (h_run (ce_machine C) cm w))
        = ev w @ [Ran cm (run_error (fst (fst (h_run (ce_machine C) cm w))) = None)])
   \<and> (\<forall>src cm w. ev (snd (wk_feed X src cm w)) = ev w @ [Ran cm (run_error (fst (fst (wk_feed X src cm w))) = None)])
   \<and> (\<forall>p w. ev (snd (h_stat (ce_machine C) p w))
        = ev w @ (case fst (h_stat (ce_machine C) p w) of FsNotExist e \<Rightarrow> [Absent p] | _ \<Rightarrow> []))
   \<and> logs_files (ce_machine C) X ev \<and> logs_process C X ev"

section \<open>What an observer of the log knows of the server\<close>

text \<open>
  Commands are told apart by their arguments. The state of the temporary server: not started, running,
  running after a failed attempt to stop it, stopped, and its pid file found absent.
\<close>

definition is_start :: "cmd \<Rightarrow> bool" where
  "is_start cm \<longleftrightarrow> (let as = cmd_args cm in take 1 as = [''start'']
     \<or> take 1 as \<noteq> [''-D''] \<and> take 2 (drop (length as - 6) as) = [''--port=0'', ''--skip-networking''])"

definition is_stop :: "cmd \<Rightarrow> bool" where
  "is_stop cm \<longleftrightarrow> (take 1 (cmd_args cm) = [''-uroot''] \<and> drop 3 (cmd_args cm) = [''shutdown''])
     \<or> take 1 (cmd_args cm) = [''stop'']"

definition takes_snapshot :: "cmd \<Rightarrow> bool" where
  "takes_snapshot cm \<longleftrightarrow> (cmd_path cm = ''zfs'' \<and> take 1 (cmd_args cm) = [''snapshot''])
     \<or> (cmd_path cm = ''cp'' \<and> take 1 (cmd_args cm) \<in> {[''-a''], [''-Rc'']})"

datatype phase = NotStarted | Up | StopFailed | Stopped | Gone

definition next_phase :: "string \<Rightarrow> cli_event \<Rightarrow> phase \<Rightarrow> phase" where
  "next_phase pid e ph = (case e of
      Ran cm good \<Rightarrow> if is_start cm \<and> good then Up
        else if is_stop cm \<and> ph \<in> {Up, StopFailed} then (if good then Stopped else StopFailed) else ph
    | Absent p \<Rightarrow> if p = pid \<and> ph = Stopped then Gone else ph)"

text \<open>PostgreSQL's \<^verbatim>\<open>pg_ctl stop -w\<close> waits for the end itself; for mysqld the pid file is looked at.\<close>

definition may_snapshot :: "bool \<Rightarrow> phase \<Rightarrow> bool" where
  "may_snapshot postgres ph \<longleftrightarrow> ph = (if postgres then Stopped else Gone)"

definition watch :: "bool \<Rightarrow> string \<Rightarrow> cli_event \<Rightarrow> phase \<times> bool \<Rightarrow> phase \<times> bool" where
  "watch postgres pid e s = (next_phase pid e (fst s),
     snd s \<and> (case e of Ran cm good \<Rightarrow> takes_snapshot cm \<longrightarrow> may_snapshot postgres (fst s) | Absent p \<Rightarrow> True))"

definition observed :: "bool \<Rightarrow> string \<Rightarrow> cli_event list \<Rightarrow> phase \<times> bool" where
  "observed postgres pid es = fold (watch postgres pid) es (NotStarted, True)"

definition seen :: "('w \<Rightarrow> cli_event list) \<Rightarrow> bool \<Rightarrow> string \<Rightarrow> 'w cli \<Rightarrow> phase \<times> bool" where
  "seen ev postgres pid c = observed postgres pid (ev (cl_world c))"

section \<open>What leaves the observation as it is\<close>

abbreviation placid :: "('w \<Rightarrow> cli_event list) \<Rightarrow> bool \<Rightarrow> string \<Rightarrow> ('w, 'a) cact \<Rightarrow> bool" where
  "placid ev postgres pid \<equiv> keeps (\<lambda>c c'. seen ev postgres pid c' = seen ev postgres pid c)"

abbreviation nearly_placid :: "('w \<Rightarrow> cli_event list) \<Rightarrow> bool \<Rightarrow> string \<Rightarrow> ('w, 'a) cact \<Rightarrow> bool" where
  "nearly_placid ev postgres pid \<equiv> keeps (\<lambda>c c'. fst (seen ev postgres pid c) \<noteq> Stopped \<longrightarrow>
     seen ev postgres pid c' = seen ev postgres pid c)"

interpretation placid: effect_relation "\<lambda>c c'. seen ev postgres pid c' = seen ev postgres pid c"
  for ev :: "'w \<Rightarrow> cli_event list" and postgres pid
  by unfold_locales auto

interpretation almost: effect_relation "\<lambda>c c'. fst (seen ev postgres pid c) \<noteq> Stopped \<longrightarrow>
     seen ev postgres pid c' = seen ev postgres pid c"
  for ev :: "'w \<Rightarrow> cli_event list" and postgres pid
  by unfold_locales auto

lemma calm_almost: "placid ev pg pid m \<Longrightarrow> nearly_placid ev pg pid m"
  by (simp add: keeps_def)

lemma calm_outside: "untouched ev m \<Longrightarrow> placid ev pg pid (outside m)"
  by (simp add: untouched_def keeps_def outside_def seen_def split: prod.split) (metis snd_conv)

lemma calm_asking: "untouched ev m \<Longrightarrow> placid ev pg pid (asking m)"
  by (simp add: untouched_def keeps_def asking_def seen_def split: prod.split) (metis snd_conv)

lemma calm_modifying: "(\<And>c. cl_world (f c) = cl_world c) \<Longrightarrow> placid ev pg pid (modifying f)"
  by (simp add: keeps_def modifying_def seen_def)

lemma calm_then: "placid ev pg pid m \<Longrightarrow> placid ev pg pid k \<Longrightarrow> placid ev pg pid (then_do m k)"
  unfolding then_do_def by (rule placid.keeps_check)

lemma calm_say: "placid ev pg pid (say l)" "placid ev pg pid (complain l)" "placid ev pg pid (warn l)"
  unfolding say_def complain_def warn_def by (rule calm_modifying; simp)+

lemma calm_when: "placid ev pg pid m \<Longrightarrow> placid ev pg pid (when_do b m)"
  by (simp add: when_do_def placid.keeps_ret)

lemma calm_defer: "placid ev pg pid d \<Longrightarrow> placid ev pg pid m \<Longrightarrow> placid ev pg pid (deferring d m)"
  unfolding deferring_def by (intro placid.keeps_intros)

lemmas calm_kit = placid.keeps_intros calm_then calm_say calm_when calm_defer

lemma almost_then: "nearly_placid ev pg pid m \<Longrightarrow> nearly_placid ev pg pid k \<Longrightarrow> nearly_placid ev pg pid (then_do m k)"
  unfolding then_do_def by (rule almost.keeps_check)

lemma almost_when: "nearly_placid ev pg pid m \<Longrightarrow> nearly_placid ev pg pid (when_do b m)"
  by (simp add: when_do_def almost.keeps_ret)

lemmas almost_kit = almost.keeps_intros almost_then almost_when calm_say [THEN calm_almost]

section \<open>The calls\<close>

lemma logs_calls:
  assumes "logs_commands C X ev"
  shows "untouched ev (h_remove (ce_machine C) p)" "untouched ev (h_open (ce_machine C) p)"
    "untouched ev (h_read_dir (ce_machine C) p)" "untouched ev (h_executable (ce_machine C) p)"
    "untouched ev (h_mkdir_all (ce_machine C) p)"
    "untouched ev (wk_is_dir X p)" "untouched ev (wk_walk X p)" "untouched ev (wk_chown X p u)"
    "untouched ev (wk_head X p n)" "untouched ev (lf_remove_all (wk_fs X) p)" "untouched ev (wk_close_file X p)"
    "untouched ev (ce_now C)" "untouched ev (ce_sleep C d)" "untouched ev (ce_look_path C p)"
    "untouched ev (ce_create_temp C p q)" "untouched ev (ce_close C p)" "untouched ev (ce_chmod C p n)"
    "untouched ev (ce_open_db C p)" "untouched ev (ce_db_fault C)" "untouched ev (wk_pick X)"
    "untouched ev (wk_pipe X)" "untouched ev (wk_start X p xs)" "untouched ev (wk_copy X src p)"
    "untouched ev (wk_close_pipe X n)" "untouched ev (wk_wait X n)"
  using assms unfolding logs_commands_def logs_files_def logs_process_def by blast+

lemma seen_step:
  assumes "\<And>w. ev (snd (f w)) = ev w @ [Ran cm (run_error (fst (fst (f w))) = None)]"
  shows "triple (\<lambda>c. seen ev pg pid c = s) (asking f)
     (\<lambda>r c. seen ev pg pid c = watch pg pid (Ran cm (run_error (fst r) = None)) s) (\<lambda>_ _. False)"
  unfolding triple_def
proof (intro allI impI)
  fix c assume s: "seen ev pg pid c = s"
  obtain r w where h: "f (cl_world c) = (r, w)" by (cases "f (cl_world c)")
  then have "ev w = ev (cl_world c) @ [Ran cm (run_error (fst r) = None)]"
    using assms [of "cl_world c"] by simp
  with s h show "case asking f c of (Inl e, s') \<Rightarrow> False
      | (Inr r, c) \<Rightarrow> seen ev pg pid c = watch pg pid (Ran cm (run_error (fst r) = None)) s"
    by (auto simp: asking_def seen_def observed_def)
qed

lemma seen_run:
  assumes "logs_commands C X ev"
  shows "triple (\<lambda>c. seen ev pg pid c = s) (running C cm)
     (\<lambda>r c. seen ev pg pid c = watch pg pid (Ran cm (run_error (fst r) = None)) s) (\<lambda>_ _. False)"
  unfolding running_def by (rule seen_step) (use assms in \<open>unfold logs_commands_def, blast\<close>)

lemma seen_feed:
  assumes "logs_commands C X ev"
  shows "triple (\<lambda>c. seen ev pg pid c = s) (asking (wk_feed X src cm))
     (\<lambda>r c. seen ev pg pid c = watch pg pid (Ran cm (run_error (fst r) = None)) s) (\<lambda>_ _. False)"
  by (rule seen_step) (use assms in \<open>unfold logs_commands_def, blast\<close>)

lemma seen_stat:
  assumes "logs_commands C X ev"
  shows "triple (\<lambda>c. seen ev pg pid c = s) (asking (h_stat (ce_machine C) p))
     (\<lambda>r c. seen ev pg pid c = (case r of FsNotExist e \<Rightarrow> watch pg pid (Absent p) s | _ \<Rightarrow> s)) (\<lambda>_ _. False)"
  unfolding triple_def
proof (intro allI impI)
  fix c assume s: "seen ev pg pid c = s"
  obtain r w where h: "h_stat (ce_machine C) p (cl_world c) = (r, w)" by (cases "h_stat (ce_machine C) p (cl_world c)")
  then have "ev w = ev (cl_world c) @ (case r of FsNotExist e \<Rightarrow> [Absent p] | _ \<Rightarrow> [])"
    using assms unfolding logs_commands_def by (metis fst_conv snd_conv)
  with s h show "case asking (h_stat (ce_machine C) p) c of (Inl e, s') \<Rightarrow> False
      | (Inr r, c) \<Rightarrow> seen ev pg pid c = (case r of FsNotExist e \<Rightarrow> watch pg pid (Absent p) s | _ \<Rightarrow> s)"
    by (auto simp: asking_def seen_def observed_def split: fs_result.split)
qed

section \<open>Commands\<close>

definition neutral :: "cmd \<Rightarrow> bool" where
  "neutral cm \<longleftrightarrow> \<not> is_start cm \<and> \<not> is_stop cm \<and> \<not> takes_snapshot cm"

lemma watch_neutral: "neutral cm \<Longrightarrow> watch pg pid (Ran cm good) s = s"
  by (cases s) (simp add: neutral_def watch_def next_phase_def)

lemmas kind_simps = is_start_def is_stop_def takes_snapshot_def Let_def as_user_def bare_cmd_def

lemma neutral_stdin [simp]: "neutral (cm\<lparr>cmd_stdin := x\<rparr>) = neutral cm" "neutral (cm\<lparr>cmd_env := y\<rparr>) = neutral cm"
    "neutral (cm\<lparr>cmd_user := u\<rparr>) = neutral cm" "neutral (as_user u cm) = neutral cm"
  by (simp_all add: neutral_def kind_simps)

lemma neutral_mysql:
  "neutral (bare_cmd p (bulk_args sock db))"
  "neutral (mysql_cmd p sock [''-e'', q])" "neutral (mysql_cmd p sock [''ping''])"
  "neutral (mysql_cmd p sock [''-N'', ''-B'', ''-e'', q])"
  by (simp_all add: neutral_def kind_simps mysql_cmd_def bulk_args_def)

lemma neutral_initialize:
  assumes "defaults = [] \<or> (\<exists>f. defaults = [''--defaults-file='' @ f])"
  shows "neutral (bare_cmd p (defaults @ initialize_args data errlog))"
  using assms by (auto simp: neutral_def kind_simps initialize_args_def)

lemma neutral_zfs:
  "neutral (bare_cmd ''zfs'' [''list'', x])" "neutral (bare_cmd ''zfs'' [''get'', ''-H'', ''-o'', ''value'', ''mountpoint'', x])"
  by (simp_all add: neutral_def kind_simps)

lemma neutral_pg:
  "neutral (bare_cmd p (''-w'' # ''-v'' # ''ON_ERROR_STOP=1'' # ''-d'' # d # f # [q]))"
  "neutral (bare_cmd p [''-w'', ''-d'', d, ''--no-owner'', ''-j'', n, dump])"
  "neutral (bare_cmd p [''-w'', ''-d'', d, ''--no-owner'', dump])"
  "neutral (bare_cmd p (''-D'' # xs))"
  by (simp_all add: neutral_def kind_simps)

lemma calm_from:
  assumes "\<And>s. triple (\<lambda>c. seen ev pg pid c = s) m (\<lambda>_ c. seen ev pg pid c = s) (\<lambda>_ c. seen ev pg pid c = s)"
  shows "placid ev pg pid m"
  unfolding keeps_def
proof
  fix c
  show "seen ev pg pid (snd (m c)) = seen ev pg pid c"
    using assms [of "seen ev pg pid c"] by (cases "m c"; cases "fst (m c)") (auto simp: triple_def dest: spec [of _ c])
qed

lemma calm_running:
  assumes "logs_commands C X ev" and "neutral cm"
  shows "placid ev pg pid (running C cm)"
  by (rule calm_from, rule triple_weaken [OF seen_run [OF assms(1)]]) (auto simp: watch_neutral [OF assms(2)])

lemma calm_feed:
  assumes "logs_commands C X ev" and "neutral cm"
  shows "placid ev pg pid (asking (wk_feed X src cm))"
  by (rule calm_from, rule triple_weaken [OF seen_feed [OF assms(1)]]) (auto simp: watch_neutral [OF assms(2)])

lemma calm_text: "placid ev pg pid (combined_text pre r)"
  unfolding combined_text_def by (intro calm_kit)

lemma calm_commands:
  assumes "logs_commands C X ev" and "neutral cm"
  shows "placid ev pg pid (combined C pre cm)" and "placid ev pg pid (plain_run C cm)"
  unfolding combined_def plain_run_def
  by (intro calm_kit calm_text calm_running [OF assms])+

lemma calm_users:
  assumes "logs_commands C X ev" and "neutral (bare_cmd name args)"
  shows "placid ev pg pid (run_as_user C u name args)" and "placid ev pg pid (run_as_user_env C u added name args)"
    and "placid ev pg pid (succeeds C name args)"
  unfolding run_as_user_def run_as_user_env_def succeeds_def
  by (intro calm_kit calm_commands [OF assms(1)] calm_running [OF assms(1)]; simp add: assms(2))+

text \<open>A command that is not neutral, and its outcome.\<close>

lemma seen_combined:
  assumes "logs_commands C X ev"
  shows "triple (\<lambda>c. seen ev pg pid c = s) (combined C pre cm)
     (\<lambda>_ c. seen ev pg pid c = watch pg pid (Ran cm True) s) (\<lambda>_ c. seen ev pg pid c = watch pg pid (Ran cm False) s)"
  unfolding combined_def combined_text_def
  by (intro triple_check [where M = "\<lambda>_ c. seen ev pg pid c = watch pg pid (Ran cm True) s"]
        triple_check [OF triple_false [OF seen_run [OF assms]]] triple_ret)
     (auto intro!: triple_ret triple_throw split: option.split)

lemma seen_plain:
  assumes "logs_commands C X ev"
  shows "triple (\<lambda>c. seen ev pg pid c = s) (plain_run C cm)
     (\<lambda>_ c. seen ev pg pid c = watch pg pid (Ran cm True) s) (\<lambda>_ c. seen ev pg pid c = watch pg pid (Ran cm False) s)"
  unfolding plain_run_def
  by (rule triple_check [OF triple_false [OF seen_run [OF assms]]])
     (auto intro!: triple_ret triple_throw split: option.split)

lemma calm_triple: "placid ev pg pid m \<Longrightarrow> triple (\<lambda>c. seen ev pg pid c = s) m
     (\<lambda>_ c. seen ev pg pid c = s) (\<lambda>_ c. seen ev pg pid c = s)"
  by (rule triple_keeps) (simp add: keeps_def)

lemma almost_triple: "nearly_placid ev pg pid m \<Longrightarrow> fst s \<noteq> Stopped \<Longrightarrow>
   triple (\<lambda>c. seen ev pg pid c = s) m (\<lambda>_ c. seen ev pg pid c = s) (\<lambda>_ c. seen ev pg pid c = s)"
  by (rule triple_keeps) (simp add: keeps_def)

lemma almost_stat:
  assumes "logs_commands C X ev"
  shows "nearly_placid ev pg pid (asking (h_stat (ce_machine C) p))"
  unfolding keeps_def
proof (intro allI impI)
  fix c assume n: "fst (seen ev pg pid c) \<noteq> Stopped"
  then have "watch pg pid (Absent p) (seen ev pg pid c) = seen ev pg pid c"
    by (cases "seen ev pg pid c") (simp add: watch_def next_phase_def)
  moreover obtain r c' where h: "asking (h_stat (ce_machine C) p) c = (r, c')" by force
  moreover have "case r of Inr a \<Rightarrow> seen ev pg pid c' = (case a of FsNotExist e \<Rightarrow> watch pg pid (Absent p) (seen ev pg pid c)
      | _ \<Rightarrow> seen ev pg pid c) | Inl e \<Rightarrow> False"
    using tripleD [OF seen_stat [OF assms, of pg pid "seen ev pg pid c" p] refl h] by simp
  ultimately show "seen ev pg pid (snd (asking (h_stat (ce_machine C) p) c)) = seen ev pg pid c"
    by (cases r; cases "projr r") auto
qed

section \<open>The helpers\<close>

lemma calm_helpers:
  assumes L: "logs_commands C X ev"
  shows "placid ev pg pid (bin_exists C p)" "placid ev pg pid (dir_non_empty C p)"
    "placid ev pg pid (remove_if_there C p)" "placid ev pg pid (chown_r C X p u)" "placid ev pg pid (chown_if C X p v)"
    "placid ev pg pid (lookup_mysql_user C)" "placid ev pg pid (lookup_os_user C n)"
    "placid ev pg pid (open_source C X p)" "placid ev pg pid (close_source X src)" "placid ev pg pid (clean_up C tmp)"
    "placid ev pg pid (materialize C X p q)"
proof -
  note calls = logs_calls [OF L]
  note k = calm_kit calm_outside calm_asking calls
  have fs: "placid ev pg pid (case r of FsOk \<Rightarrow> a | FsNotExist e \<Rightarrow> b e | FsPermission e \<Rightarrow> d e | FsFailed e \<Rightarrow> f e)"
    if "placid ev pg pid a" "\<And>e. placid ev pg pid (b e)" "\<And>e. placid ev pg pid (d e)" "\<And>e. placid ev pg pid (f e)"
    for r and a :: "('a, unit) cact" and b d f using that by (cases r) simp_all
  have st: "placid ev pg pid (case src of OwnStdio \<Rightarrow> a | Child n what \<Rightarrow> b n what | OnDisk p \<Rightarrow> d p)"
    if "placid ev pg pid a" "\<And>n w. placid ev pg pid (b n w)" "\<And>p. placid ev pg pid (d p)"
    for src and a :: "('a, unit) cact" and b d using that by (cases src) simp_all
  show "placid ev pg pid (bin_exists C p)" "placid ev pg pid (dir_non_empty C p)"
    "placid ev pg pid (remove_if_there C p)" "placid ev pg pid (clean_up C tmp)" for p tmp
    unfolding bin_exists_def dir_non_empty_def remove_if_there_def clean_up_def by (intro k fs)+
  show "placid ev pg pid (chown_r C X p u)" "placid ev pg pid (chown_if C X p v)"
    "placid ev pg pid (lookup_mysql_user C)" "placid ev pg pid (lookup_os_user C n)" for p u v n
    unfolding chown_if_def chown_r_def lookup_mysql_user_def lookup_os_user_def by (intro k; assumption?)+
  show o_s: "placid ev pg pid (open_source C X p)" and c_s: "placid ev pg pid (close_source X src)" for p src
    unfolding open_source_def start_aws_def require_aws_cli_def close_source_def await_child_def by (intro k st)+
  show "placid ev pg pid (materialize C X p q)" for p q
    unfolding materialize_def Let_def by (intro k o_s c_s)
qed

lemma calm_waiting:
  assumes L: "logs_commands C X ev" and "placid ev pg pid probe"
  shows "placid ev pg pid (waiting C timeout pause probe late)"
proof -
  have "placid ev pg pid (wait_until C deadline pause probe late n)" for deadline n
    by (induction n) (auto intro!: calm_kit calm_asking logs_calls [OF L] assms(2))
  then show ?thesis unfolding waiting_def by (intro calm_kit calm_asking logs_calls [OF L])
qed

lemma calm_load_parallel:
  assumes L: "logs_commands C X ev" and load: "\<And>p. placid ev pg pid (load p)"
  shows "seen ev pg pid (snd (load_parallel X load n st c)) = seen ev pg pid c"
proof (induction st arbitrary: c rule: measure_induct_rule [of par_weight])
  case (less st)
  show ?case
  proof (cases "par_choices n st = 0")
    case False
    obtain k w where k: "wk_pick X (cl_world c) = (k, w)" by force
    obtain st' f where st': "par_step n (k mod par_choices n st) st = (st', f)" by force
    have "par_weight st' < par_weight st"
      using par_step_weight [of "k mod par_choices n st" n st] False st' by simp
    note IH = less.IH [OF this] less.IH [of "note_error r st'" for r, simplified, OF this]
    have c: "seen ev pg pid (c\<lparr>cl_world := w\<rparr>) = seen ev pg pid c"
      using logs_calls(20) [OF L] k unfolding untouched_def seen_def by (metis cli.select_convs(1) cli.surjective cli.update_convs(1) snd_conv)
    show ?thesis
    proof (cases f)
      case None
      then have "load_parallel X load n st c = load_parallel X load n st' (c\<lparr>cl_world := w\<rparr>)"
        using False k st' by (subst load_parallel.simps) simp
      then show ?thesis using IH(1) c by simp
    next
      case (Some p)
      obtain r c' where l: "load p (c\<lparr>cl_world := w\<rparr>) = (r, c')" by force
      have "load_parallel X load n st c = load_parallel X load n (note_error r st') c'"
        using False k st' Some l by (subst load_parallel.simps) simp
      moreover have "seen ev pg pid c' = seen ev pg pid (c\<lparr>cl_world := w\<rparr>)"
        using load [of p] l unfolding keeps_def by (metis snd_conv)
      ultimately show ?thesis using IH(2) c by simp
    qed
  qed (subst load_parallel.simps, simp)
qed

lemma calm_loading:
  assumes L: "logs_commands C X ev"
  shows "placid ev pg pid (load_one_file C mysql sock db p)" and "placid ev pg pid (load_dump C X mysql sock dump db threads)"
proof -
  note k = calm_kit calm_outside calm_asking logs_calls [OF L] calm_commands [OF L]
  show one: "placid ev pg pid (load_one_file C mysql sock db p)" for p
    unfolding load_one_file_def by (intro k) (simp add: neutral_mysql)
  have par: "placid ev pg pid (load_parallel X (load_one_file C mysql sock db) n st)" for n st
    unfolding keeps_def by (intro allI calm_load_parallel [OF L] one)
  have "placid ev pg pid (load_dump_dir C X mysql sock dump db threads)"
    unfolding load_dump_dir_def Let_def by (intro k one par)
  moreover have "placid ev pg pid (load_reader X mysql sock db src)" for src
    unfolding load_reader_def by (intro k calm_text calm_feed [OF L] neutral_mysql)
  ultimately show "placid ev pg pid (load_dump C X mysql sock dump db threads)"
    unfolding load_dump_def by (intro k one neutral_mysql calm_helpers [OF L])
qed

lemma calm_session_parts:
  assumes L: "logs_commands C X ev"
  shows "placid ev pg pid (create_import_user C conf S)" "placid ev pg pid (wait_socket C sock timeout admin)"
    "placid ev pg pid (the_temp_server C conf mysqld data)" "placid ev pg pid (zfs_snapshot_absent C snap)"
    "placid ev pg pid (zfs_base_data C base)" "placid ev pg pid (register_imported C path snap tag)"
    "placid ev pg pid import_done" "placid ev pg pid (user_if_root C (lookup_mysql_user C))"
    "placid ev pg pid (user_if_root C (lookup_os_user C n))"
proof -
  note k = calm_kit calm_outside calm_asking logs_calls [OF L] calm_commands [OF L] calm_running [OF L]
    neutral_mysql neutral_zfs calm_helpers [OF L] calm_users [OF L] calm_waiting [OF L]
  show "placid ev pg pid (create_import_user C conf S)" "placid ev pg pid (wait_socket C sock timeout admin)"
    "placid ev pg pid (the_temp_server C conf mysqld data)"
    unfolding create_import_user_def auth_plugin_for_def wait_socket_def the_temp_server_def mysql_client_bin_def Let_def
    by (intro k)+
  show "placid ev pg pid (zfs_snapshot_absent C snap)" "placid ev pg pid (zfs_base_data C base)"
    "placid ev pg pid import_done" "placid ev pg pid (user_if_root C (lookup_mysql_user C))"
    "placid ev pg pid (user_if_root C (lookup_os_user C n))"
    unfolding zfs_snapshot_absent_def zfs_base_data_def import_done_def user_if_root_def Let_def by (intro k)+
  have "untouched ev (\<lambda>w. case q (ce_db C path w) of (r, d) \<Rightarrow> (r, ce_set_db C path d w))" for q :: "unit sql"
    using L unfolding untouched_def logs_commands_def logs_process_def by (simp split: prod.split)
  then have sql: "placid ev pg pid (cli_sql C path q)" for q :: "unit sql"
    unfolding cli_sql_def by (intro k)
  show "placid ev pg pid (register_imported C path snap tag)"
    unfolding register_imported_def by (intro k sql)
qed

lemma almost_parts:
  assumes L: "logs_commands C X ev"
  shows "nearly_placid ev pg pid (local_baseline_tag C dir tag)" and "nearly_placid ev pg pid (prepare_local_base_data C X data b)"
proof -
  note k = almost_kit almost_stat [OF L] calm_outside [THEN calm_almost] calm_asking [THEN calm_almost]
    logs_calls [OF L] calm_helpers [OF L, THEN calm_almost]
  show "nearly_placid ev pg pid (local_baseline_tag C dir tag)" "nearly_placid ev pg pid (prepare_local_base_data C X data b)"
    unfolding local_baseline_tag_def config_found_def prepare_local_base_data_def file_exists_def by (intro k)+
qed

section \<open>A run of the temporary server\<close>

abbreviation sees_phase :: "('w \<Rightarrow> cli_event list) \<Rightarrow> bool \<Rightarrow> string \<Rightarrow> phase \<Rightarrow> 'w cli \<Rightarrow> bool" where
  "sees_phase ev pg pid ph c \<equiv> seen ev pg pid c = (ph, True)"

definition wound_up :: "phase \<times> bool \<Rightarrow> bool" where
  "wound_up s \<longleftrightarrow> snd s \<and> fst s \<noteq> Up"

lemma calm_then_triple:
  "placid ev pg pid m \<Longrightarrow> (\<And>a. triple (\<lambda>c. seen ev pg pid c = s) (k a) Q E) \<Longrightarrow>
   (\<And>e c. seen ev pg pid c = s \<Longrightarrow> E e c) \<Longrightarrow> triple (\<lambda>c. seen ev pg pid c = s) (check m k) Q E"
  by (rule triple_check [where M = "\<lambda>_ c. seen ev pg pid c = s"], rule triple_weaken [OF calm_triple]) auto

lemma triple_some: "(\<And>x. x \<in> A \<Longrightarrow> triple (P x) m Q E) \<Longrightarrow> triple (\<lambda>c. \<exists>x \<in> A. P x c) m Q E"
  by (fastforce simp: triple_def split: prod.split)

lemma say_then_triple:
  "triple (\<lambda>c. seen ev pg pid c = s) m Q E \<Longrightarrow> triple (\<lambda>c. seen ev pg pid c = s) (then_do (say l) m) Q E"
  unfolding then_do_def
  by (rule triple_check [where M = "\<lambda>_ c. seen ev pg pid c = s"])
     (auto simp: triple_def say_def modifying_def seen_def)

lemma mysqld_starts:
  assumes L: "logs_commands C X ev" and d: "defaults = [] \<or> (\<exists>f. defaults = [''--defaults-file='' @ f])"
  shows "triple (sees_phase ev pg pid NotStarted) (start_temp_server C u mysqld defaults S errlog)
     (\<lambda>_. sees_phase ev pg pid Up) (\<lambda>_. sees_phase ev pg pid NotStarted)"
proof -
  have w: "watch pg pid (Ran (as_user u (bare_cmd mysqld (defaults @ temp_server_args d s p l))) good) (NotStarted, True)
      = (if good then Up else NotStarted, True)" for d s p l good
    using assms(2) by (auto simp: watch_def next_phase_def kind_simps temp_server_args_def)
  show ?thesis
    unfolding start_temp_server_def run_as_user_def
    by (intro say_then_triple calm_then_triple placid.keeps_wrapping calm_commands [OF L] triple_wrapping
          triple_weaken [OF seen_combined [OF L, where s = "(NotStarted, True)"]])
       (auto simp: w neutral_initialize [OF d])
qed

lemma watch_shutdown:
  "ph \<in> {Up, StopFailed} \<Longrightarrow> watch pg pid (Ran (shutdown_cmd S) good) (ph, True)
     = (if good then Stopped else StopFailed, True)"
  by (auto simp: watch_def next_phase_def kind_simps shutdown_cmd_def mysql_cmd_def)

lemma pid_file_gone:
  assumes L: "logs_commands C X ev"
  shows "triple (sees_phase ev pg pid Stopped) (wait_gone_file C pid timeout) (\<lambda>_. sees_phase ev pg pid Gone)
     (\<lambda>_ c. wound_up (seen ev pg pid c))"
proof -
  note k = calm_asking logs_calls [OF L]
  have probe: "triple (sees_phase ev pg pid Stopped)
     (check (asking (h_stat (ce_machine C) pid)) (\<lambda>r. ret (case r of FsNotExist e \<Rightarrow> True | _ \<Rightarrow> False)))
     (\<lambda>b. sees_phase ev pg pid (if b then Gone else Stopped)) (\<lambda>_ c. wound_up (seen ev pg pid c))"
    by (rule triple_check [OF triple_false [OF seen_stat [OF L]]], rule triple_ret)
       (auto simp: watch_def next_phase_def split: fs_result.splits)
  have late: "triple (sees_phase ev pg pid Stopped) (throw e) Q (\<lambda>_ c. wound_up (seen ev pg pid c))" for e Q
    by (rule triple_throw) (simp add: wound_up_def)
  have "triple (sees_phase ev pg pid Stopped) (wait_until C deadline pause
      (check (asking (h_stat (ce_machine C) pid)) (\<lambda>r. ret (case r of FsNotExist e \<Rightarrow> True | _ \<Rightarrow> False))) e n)
      (\<lambda>_. sees_phase ev pg pid Gone) (\<lambda>_ c. wound_up (seen ev pg pid c))" for deadline pause e n
  proof (induction n)
    case (Suc n)
    have again: "triple (sees_phase ev pg pid (if b then Gone else Stopped))
         (if b then ret () else check (asking (ce_sleep C pause)) (\<lambda>_. wait_until C deadline pause
            (check (asking (h_stat (ce_machine C) pid)) (\<lambda>r. ret (case r of FsNotExist e \<Rightarrow> True | _ \<Rightarrow> False))) e n))
         (\<lambda>_. sees_phase ev pg pid Gone) (\<lambda>_ c. wound_up (seen ev pg pid c))" for b
      using Suc by (cases b) (auto intro!: triple_ret calm_then_triple k simp: wound_up_def)
    show ?case unfolding wait_until.simps
      by (rule calm_then_triple, intro k, rule triple_if, rule late, rule triple_check [OF probe again])
         (simp add: wound_up_def)
  qed (simp add: late)
  then show ?thesis unfolding wait_gone_file_def waiting_def
    by (intro calm_then_triple k) (auto simp: wound_up_def)
qed

lemma or_stop_triple:
  assumes "triple P m Q E" and "\<And>e. triple (E e) stop (\<lambda>_. F) (\<lambda>_. F)"
  shows "triple P (or_stop stop m) Q (\<lambda>_. F)"
  unfolding or_stop_def
  by (rule triple_handle [OF assms(1)])
     (auto intro: triple_ignoring [OF assms(2)] triple_throw triple_ret)

lemma import_session_run:
  assumes L: "logs_commands C X ev"
  shows "triple (sees_phase ev pg (ts_pid S) Up) (import_session C X conf im S)
     (\<lambda>_. sees_phase ev pg (ts_pid S) Gone) (\<lambda>_ c. wound_up (seen ev pg (ts_pid S) c))"
proof -
  let ?pid = "ts_pid S"
  have stopping: "triple (sees_phase ev pg ?pid Up) (combined C ''shutdown: '' (shutdown_cmd S))
      (\<lambda>_. sees_phase ev pg ?pid Stopped) (\<lambda>_ c. \<exists>ph \<in> {Up, StopFailed}. sees_phase ev pg ?pid ph c)"
    by (rule triple_weaken [OF seen_combined [OF L, where s = "(Up, True)"]]) (auto simp: watch_shutdown)
  have abort: "triple (\<lambda>c. \<exists>ph \<in> {Up, StopFailed}. sees_phase ev pg ?pid ph c) (running C (shutdown_cmd S))
      (\<lambda>_ c. wound_up (seen ev pg ?pid c)) (\<lambda>_ c. wound_up (seen ev pg ?pid c))"
    by (rule triple_some, rule triple_weaken [OF triple_false [OF seen_run [OF L]]])
       (auto simp: watch_shutdown wound_up_def split: if_splits)
  have work: "triple (sees_phase ev pg ?pid Up)
     (check (wait_socket C (ts_socket S) (60 * second) (ts_admin S)) (\<lambda>_.
        check (when_do (im_from im \<noteq> [])
          (load_dump C X (ts_mysql S) (ts_socket S) (im_from im) (im_db im) (im_threads im))) (\<lambda>_.
        check (create_import_user C conf S) (\<lambda>_.
        then_do (say ''-> shutdown'') (combined C ''shutdown: '' (shutdown_cmd S))))))
     (\<lambda>_. sees_phase ev pg ?pid Stopped) (\<lambda>_ c. \<exists>ph \<in> {Up, StopFailed}. sees_phase ev pg ?pid ph c)"
    by (intro calm_then_triple calm_when calm_session_parts [OF L] calm_loading [OF L] say_then_triple stopping) auto
  show ?thesis
    unfolding import_session_def
    by (intro triple_check [OF or_stop_triple [OF work abort]] triple_check [OF pid_file_gone [OF L]]
          say_then_triple triple_weaken [OF calm_triple [OF placid.keeps_wrapping [OF calm_helpers(3) [OF L]]]])
       (auto simp: wound_up_def)
qed

section \<open>Whole imports\<close>

lemma outside_check: "outside (check m k) = check (outside m) (\<lambda>a. outside (k a))"
  by (auto simp: outside_def check_def fun_eq_iff split: prod.splits sum.splits)

lemma outside_ret: "outside (ret a) = ret a"
  by (simp add: outside_def ret_def fun_eq_iff)

lemma watch_snapshot:
  assumes "takes_snapshot cm" "\<not> is_start cm" "\<not> is_stop cm" and "may_snapshot pg ph"
  shows "watch pg pid (Ran cm good) (ph, True) = (ph, True)"
  using assms by (simp add: watch_def next_phase_def)

lemma local_snapshot_run:
  assumes L: "logs_commands C X ev" and "may_snapshot pg ph"
  shows "triple (sees_phase ev pg pid ph) (snapshot_local C X backend base tag) (\<lambda>_. sees_phase ev pg pid ph) (\<lambda>_. sees_phase ev pg pid ph)"
proof -
  note k = calm_outside logs_calls [OF L]
  have copy: "outside (clone_tree (ce_machine C) ki l src dst) = check (outside (h_mkdir_all (ce_machine C) (dir_name dst)))
     (\<lambda>_. check (running C (copy_cmd ki l src dst)) (\<lambda>(r, out). case run_error r of
        Some e \<Rightarrow> throw (EWrap (ck_label ki @ '' '' @ src @ '' -> '' @ dst @ '': '') e ('': '' @ trim_space out))
      | None \<Rightarrow> ret ()))" for ki l src dst
    by (auto simp: clone_tree_def outside_def running_def asking_def check_def throw_def ret_def fun_eq_iff
        split: prod.split sum.split option.split)
  have kind: "takes_snapshot (copy_cmd ki l src dst)" "\<not> is_start (copy_cmd ki l src dst)" "\<not> is_stop (copy_cmd ki l src dst)"
    if "ki = reflink_copy \<or> ki = apfs_copy" "lc_cp l = ''cp''" for ki l src dst
    using that by (auto simp: copy_cmd_def reflink_copy_def apfs_copy_def kind_simps)
  have snap: "triple (sees_phase ev pg pid ph) (outside (local_snapshot_base (ce_machine C) (wk_fs X) ki l tag))
      (\<lambda>_. sees_phase ev pg pid ph) (\<lambda>_. sees_phase ev pg pid ph)" if "ki = reflink_copy \<or> ki = apfs_copy" "lc_cp l = ''cp''" for ki l
    unfolding local_snapshot_base_def replace_tree_def Let_def outside_check outside_ret copy
    by (rule triple_check [where M = "\<lambda>_. sees_phase ev pg pid ph"])
       (intro calm_then_triple k triple_ret triple_check [OF triple_false [OF seen_run [OF L]]];
        auto simp: watch_snapshot [OF kind [OF that] assms(2)] intro!: triple_ret triple_throw split: option.split)+
  have chosen: "triple (sees_phase ev pg pid ph) (case r of Inl e \<Rightarrow> throw e
      | Inr (ki, l) \<Rightarrow> wrapping (\<lambda>e. EWrap ''snapshot: '' e []) (outside (local_snapshot_base (ce_machine C) (wk_fs X) ki l tag)))
      (\<lambda>_. sees_phase ev pg pid ph) (\<lambda>_. sees_phase ev pg pid ph)"
    if "\<And>ki l. r = Inr (ki, l) \<Longrightarrow> (ki = reflink_copy \<or> ki = apfs_copy) \<and> lc_cp l = ''cp''" for r
    by (intro triple_sum triple_prod triple_wrapping snap triple_throw) (use that in auto)
  show ?thesis
    unfolding snapshot_local_def by (rule chosen)
      (auto simp: local_linux_def local_darwin_def new_local_def split: if_splits)
qed

lemma finish_runs:
  assumes L: "logs_commands C X ev" and "may_snapshot pg ph"
  shows "triple (sees_phase ev pg pid ph) (snapshot_and_register_local C X conf base tag) (\<lambda>_. sees_phase ev pg pid ph) (\<lambda>_. sees_phase ev pg pid ph)"
    and "triple (sees_phase ev pg pid ph) (zfs_snapshot_and_register C conf snap) (\<lambda>_. sees_phase ev pg pid ph) (\<lambda>_. sees_phase ev pg pid ph)"
proof -
  have placid: "placid ev pg pid (then_do (register_imported C p s t) import_done)" for p s t
    by (intro calm_then calm_session_parts [OF L])
  show "triple (sees_phase ev pg pid ph) (snapshot_and_register_local C X conf base tag) (\<lambda>_. sees_phase ev pg pid ph) (\<lambda>_. sees_phase ev pg pid ph)"
    unfolding snapshot_and_register_local_def
    by (intro say_then_triple triple_check [OF local_snapshot_run [OF assms]] calm_triple placid)
  have w: "watch pg pid (Ran (bare_cmd ''zfs'' [''snapshot'', snap]) good) (ph, True) = (ph, True)" for good
    by (rule watch_snapshot) (simp_all add: kind_simps assms(2))
  have taken: "triple (sees_phase ev pg pid ph) (combined C pre (bare_cmd ''zfs'' [''snapshot'', snap]))
      (\<lambda>_. sees_phase ev pg pid ph) (\<lambda>_. sees_phase ev pg pid ph)" for pre
    using seen_combined [OF L, of pg pid "(ph, True)" pre "bare_cmd ''zfs'' [''snapshot'', snap]"] by (simp only: w)
  show "triple (sees_phase ev pg pid ph) (zfs_snapshot_and_register C conf snap) (\<lambda>_. sees_phase ev pg pid ph) (\<lambda>_. sees_phase ev pg pid ph)"
    unfolding zfs_snapshot_and_register_def by (intro say_then_triple triple_check [OF taken] calm_triple placid)
qed

text \<open>The server's part of an import: start, session, snapshot.\<close>

lemma mysql_import_core:
  assumes L: "logs_commands C X ev" and d: "defaults = [] \<or> (\<exists>f. defaults = [''--defaults-file='' @ f])"
    and pid: "pid = runtime_path C conf ''sashiki-baseline.pid''"
    and fin: "triple (sees_phase ev False pid Gone) finish (\<lambda>_. sees_phase ev False pid Gone) (\<lambda>_. sees_phase ev False pid Gone)"
  shows "triple (sees_phase ev False pid NotStarted) (check (the_temp_server C conf mysqld data) (\<lambda>S.
      check (start_temp_server C u mysqld defaults S errlog) (\<lambda>_. check (import_session C X conf im S) (\<lambda>_. finish))))
      (\<lambda>_. sees_phase ev False pid Gone) (\<lambda>_ c. wound_up (seen ev False pid c))"
proof -
  have the: "triple (sees_phase ev False pid NotStarted) (the_temp_server C conf mysqld data)
      (\<lambda>S c. sees_phase ev False pid NotStarted c \<and> ts_pid S = pid) (\<lambda>_ c. wound_up (seen ev False pid c))"
  proof -
    have "triple (\<lambda>_. True) (the_temp_server C conf mysqld data) (\<lambda>S _. ts_pid S = pid) (\<lambda>_ _. True)"
      unfolding the_temp_server_def pid
      by (rule triple_check [where M = "\<lambda>_ _. True"], simp add: triple_def split: prod.split sum.split,
          rule triple_check [where M = "\<lambda>_ _. True"], simp add: triple_def split: prod.split sum.split,
          rule triple_ret, simp)
    from triple_both [OF calm_triple [OF calm_session_parts(3) [OF L], of False pid "(NotStarted, True)"] this]
    show ?thesis by (rule triple_weaken) (auto simp: wound_up_def)
  qed
  have started: "triple (sees_phase ev False pid NotStarted) (start_temp_server C u mysqld defaults S errlog)
      (\<lambda>_. sees_phase ev False pid Up) (\<lambda>_ c. wound_up (seen ev False pid c))" for S
    by (rule triple_weaken [OF mysqld_starts [OF L d]]) (auto simp: wound_up_def)
  show ?thesis
  proof (rule triple_check [OF the])
    fix S
    show "triple (\<lambda>c. sees_phase ev False pid NotStarted c \<and> ts_pid S = pid)
       (check (start_temp_server C u mysqld defaults S errlog) (\<lambda>_. check (import_session C X conf im S) (\<lambda>_. finish)))
       (\<lambda>_. sees_phase ev False pid Gone) (\<lambda>_ c. wound_up (seen ev False pid c))"
    proof (rule triple_pure)
      assume "ts_pid S = pid"
      note session = import_session_run [OF L, of False S conf im, unfolded this]
      show "triple (sees_phase ev False pid NotStarted)
         (check (start_temp_server C u mysqld defaults S errlog) (\<lambda>_. check (import_session C X conf im S) (\<lambda>_. finish)))
         (\<lambda>_. sees_phase ev False pid Gone) (\<lambda>_ c. wound_up (seen ev False pid c))"
        by (rule triple_check [OF started], rule triple_check [OF session], rule triple_weaken [OF fin])
          (auto simp: wound_up_def)
    qed
  qed
qed

lemma mysql_imports:
  assumes L: "logs_commands C X ev" and pid: "pid = runtime_path C conf ''sashiki-baseline.pid''"
  shows "triple (sees_phase ev False pid NotStarted) (run_local_import C X conf im)
      (\<lambda>_. sees_phase ev False pid Gone) (\<lambda>_ c. wound_up (seen ev False pid c))"
    and "triple (sees_phase ev False pid NotStarted) (run_zfs_import C X conf im)
      (\<lambda>_. sees_phase ev False pid Gone) (\<lambda>_ c. wound_up (seen ev False pid c))"
proof -
  have err: "triple (sees_phase ev False pid NotStarted) (throw e) Q (\<lambda>_ c. wound_up (seen ev False pid c))" for e Q
    by (rule triple_throw) (simp add: wound_up_def)
  note k = calm_outside logs_calls [OF L] calm_helpers [OF L] calm_session_parts [OF L]
  have almost: "triple (sees_phase ev False pid NotStarted) m (\<lambda>_. sees_phase ev False pid NotStarted) (\<lambda>_ c. wound_up (seen ev False pid c))"
    if "nearly_placid ev False pid m" for m :: "('a, 'x) cact"
    by (rule triple_weaken [OF almost_triple [OF that]]) (auto simp: wound_up_def)
  note core = mysql_import_core [OF L _ pid]
  show "triple (sees_phase ev False pid NotStarted) (run_local_import C X conf im)
      (\<lambda>_. sees_phase ev False pid Gone) (\<lambda>_ c. wound_up (seen ev False pid c))"
    unfolding run_local_import_def Let_def
    by (intro triple_if err triple_check [OF almost [OF almost_parts(1) [OF L]]] triple_prod
          triple_check [OF almost [OF almost_parts(2) [OF L]]] calm_then_triple k core finish_runs [OF L])
       (auto simp: wound_up_def may_snapshot_def)
  show "triple (sees_phase ev False pid NotStarted) (run_zfs_import C X conf im)
      (\<lambda>_. sees_phase ev False pid Gone) (\<lambda>_ c. wound_up (seen ev False pid c))"
    unfolding run_zfs_import_def Let_def
    by (intro calm_then_triple k core finish_runs [OF L])
       (auto simp: wound_up_def may_snapshot_def import_defaults_def Let_def)
qed

section \<open>PostgreSQL\<close>

lemma cluster_starts:
  assumes L: "logs_commands C X ev"
  shows "triple (sees_phase ev pg pid NotStarted) (start_temp_cluster C conf u T data)
     (\<lambda>_. sees_phase ev pg pid Up) (\<lambda>_ c. wound_up (seen ev pg pid c))"
proof -
  have w: "watch pg pid (Ran (as_user u (bare_cmd p (pg_import_start_args data))) good) (NotStarted, True)
      = (if good then Up else NotStarted, True)" for p good
    by (auto simp: watch_def next_phase_def kind_simps pg_import_start_args_def)
  have started: "triple (sees_phase ev pg pid NotStarted) (run_as_user_no_pipe C u p (pg_import_start_args data))
      (\<lambda>_. sees_phase ev pg pid Up) (\<lambda>_. sees_phase ev pg pid NotStarted)" for p
    unfolding run_as_user_no_pipe_def
  proof (rule triple_check [where M = "\<lambda>_. sees_phase ev pg pid Up"])
    show "triple (sees_phase ev pg pid NotStarted) (plain_run C (as_user u (bare_cmd p (pg_import_start_args data))))
        (\<lambda>_. sees_phase ev pg pid Up) (\<lambda>_. sees_phase ev pg pid NotStarted)"
      by (rule triple_weaken [OF seen_plain [OF L]]) (auto simp: w)
  qed (rule triple_ret)
  show ?thesis
    unfolding start_temp_cluster_def
    by (intro say_then_triple calm_then_triple placid.keeps_wrapping calm_users [OF L] triple_wrapping
          triple_weaken [OF started]) (auto simp: wound_up_def neutral_pg)
qed

lemma defer_triple:
  assumes "triple P m (\<lambda>a c. Q a (seen ev pg pid c)) (\<lambda>e c. E (seen ev pg pid c))" and "placid ev pg pid d"
  shows "triple P (deferring d m) (\<lambda>a c. Q a (seen ev pg pid c)) (\<lambda>e c. E (seen ev pg pid c))"
proof -
  have d: "triple (\<lambda>c. R (seen ev pg pid c)) d (\<lambda>_ c. R (seen ev pg pid c)) (\<lambda>_ c. R (seen ev pg pid c))" for R
    using assms(2) by (intro triple_keeps) (simp add: keeps_def)
  show ?thesis
    unfolding deferring_def
    by (rule triple_attempt [where M = "case_sum (\<lambda>e c. E (seen ev pg pid c)) (\<lambda>a c. Q a (seen ev pg pid c))"])
       (auto intro!: assms(1) triple_ignoring [OF d] triple_throw triple_ret split: sum.split)
qed

lemma calm_pg_parts:
  assumes L: "logs_commands C X ev"
  shows "placid ev pg pid (pg_resolve_dump C X dump)" "placid ev pg pid (pg_load_dump C X u T dump db n k)"
    "placid ev pg pid (pg_create_role C conf u T db)" "placid ev pg pid (the_pg_tools C dir)"
    "placid ev pg pid (pg_sql C u psql q)"
proof -
  note k = calm_kit calm_outside calm_asking logs_calls [OF L] calm_users [OF L] neutral_pg calm_helpers [OF L]
  show sql: "placid ev pg pid (pg_sql C u psql q)" for psql q
    unfolding pg_sql_def by (intro k)
  show "placid ev pg pid (pg_resolve_dump C X dump)" "placid ev pg pid (pg_load_dump C X u T dump db n k)"
    "placid ev pg pid (pg_create_role C conf u T db)" "placid ev pg pid (the_pg_tools C dir)"
    unfolding pg_resolve_dump_def pg_load_dump_def pg_create_role_def the_pg_tools_def pg_tool_def
      is_pg_custom_dump_def Let_def by (intro k sql)+
qed

lemma watch_pg_stop:
  "ph \<in> {Up, StopFailed} \<Longrightarrow> watch pg pid (Ran (as_user u (bare_cmd p (pg_stop_args data mode))) good) (ph, True)
     = (if good then Stopped else StopFailed, True)"
  by (auto simp: watch_def next_phase_def kind_simps pg_stop_args_def)

lemma pg_session_run:
  assumes L: "logs_commands C X ev"
    and fin: "triple (sees_phase ev pg pid Stopped) finish (\<lambda>_. sees_phase ev pg pid Stopped) (\<lambda>_. sees_phase ev pg pid Stopped)"
  shows "triple (sees_phase ev pg pid Up) (pg_import_session C X conf im u T data shown finish)
     (\<lambda>_. sees_phase ev pg pid Stopped) (\<lambda>_ c. wound_up (seen ev pg pid c))"
proof -
  let ?halting = "\<lambda>s. \<exists>ph \<in> {Up, StopFailed}. s = (ph, True)"
  note k = calm_kit calm_pg_parts [OF L]
  have abort: "triple (\<lambda>c. ?halting (seen ev pg pid c)) (run_as_user C u p (pg_stop_args data mode))
      (\<lambda>_ c. wound_up (seen ev pg pid c)) (\<lambda>_ c. wound_up (seen ev pg pid c))" for p mode
    unfolding run_as_user_def by (rule triple_some, rule triple_weaken [OF seen_combined [OF L]])
      (auto simp: watch_pg_stop wound_up_def)
  have stopping: "triple (sees_phase ev pg pid Up) (run_as_user C u p (pg_stop_args data mode))
      (\<lambda>_. sees_phase ev pg pid Stopped) (\<lambda>_ c. ?halting (seen ev pg pid c))" for p mode
    unfolding run_as_user_def by (rule triple_weaken [OF seen_combined [OF L]]) (auto simp: watch_pg_stop)
  have calm_up: "triple (sees_phase ev pg pid Up) m (\<lambda>_. sees_phase ev pg pid Up) (\<lambda>_ c. ?halting (seen ev pg pid c))"
    if "placid ev pg pid m" for m :: "('a, 'x) cact"
    by (rule triple_weaken [OF calm_triple [OF that]]) auto
  have work: "triple (sees_phase ev pg pid Up)
      (check (when_do (im_from im \<noteq> []) (pg_load_dump C X u T path db n shown)) (\<lambda>_.
       check (pg_create_role C conf u T (im_db im)) (\<lambda>_.
       then_do (say ''-> shutdown'') (wrapping (\<lambda>e. EWrap ''pg_ctl stop: '' e [])
         (run_as_user C u (pt_ctl T) (pg_stop_args data ''fast''))))))
      (\<lambda>_. sees_phase ev pg pid Stopped) (\<lambda>_ c. ?halting (seen ev pg pid c))" for path db n
    by (intro triple_check [OF calm_up] k say_then_triple triple_wrapping stopping)
  have body: "triple (sees_phase ev pg pid Up) (attempt
      (check (when_do (im_from im \<noteq> []) (pg_load_dump C X u T path db n shown)) (\<lambda>_.
       check (pg_create_role C conf u T (im_db im)) (\<lambda>_.
       then_do (say ''-> shutdown'') (wrapping (\<lambda>e. EWrap ''pg_ctl stop: '' e [])
         (run_as_user C u (pt_ctl T) (pg_stop_args data ''fast''))))))
      (\<lambda>r. case r of Inl e \<Rightarrow> ret (Some e) | Inr done \<Rightarrow> check finish (\<lambda>_. ret None)))
      (\<lambda>v c. (case v of None \<Rightarrow> (\<lambda>s. s = (Stopped, True)) | Some e \<Rightarrow> ?halting) (seen ev pg pid c))
      (\<lambda>_ c. wound_up (seen ev pg pid c))" for path db n
    by (rule triple_attempt [where M = "case_sum (\<lambda>e c. ?halting (seen ev pg pid c)) (\<lambda>a. sees_phase ev pg pid Stopped)"],
        unfold sum.case, rule work)
       (auto intro!: triple_ret triple_check [OF triple_weaken [OF fin]] simp: wound_up_def split: sum.split)
  have opened: "triple (sees_phase ev pg pid Up)
      (check (when_do (im_db im \<noteq> []) (then_do (say l) (wrapping f (pg_sql C u (pt_psql T) q)))) (\<lambda>_.
         if im_from im \<noteq> [] then pg_resolve_dump C X (im_from im) else ret ([], None)))
      (\<lambda>_. sees_phase ev pg pid Up) (\<lambda>_ c. ?halting (seen ev pg pid c))" for l f q
    by (rule calm_up) (intro k)
  show ?thesis
    unfolding pg_import_session_def Let_def
  proof (rule triple_check [OF or_stop_triple [OF opened abort]], rule triple_prod)
    fix path tmp
    show "triple (sees_phase ev pg pid Up) (check (deferring (clean_up C tmp) (attempt
       (check (when_do (im_from im \<noteq> []) (pg_load_dump C X u T path (or_else (im_db im) ''postgres'') (im_threads im) shown)) (\<lambda>_.
        check (pg_create_role C conf u T (im_db im)) (\<lambda>_.
        then_do (say ''-> shutdown'') (wrapping (\<lambda>e. EWrap ''pg_ctl stop: '' e [])
          (run_as_user C u (pt_ctl T) (pg_stop_args data ''fast''))))))
       (\<lambda>r. case r of Inl e \<Rightarrow> ret (Some e) | Inr done \<Rightarrow> check finish (\<lambda>_. ret None))))
       (\<lambda>failed. case failed of None \<Rightarrow> ret ()
          | Some e \<Rightarrow> ignoring (run_as_user C u (pt_ctl T) (pg_stop_args data ''immediate'')) (throw e)))
       (\<lambda>_. sees_phase ev pg pid Stopped) (\<lambda>_ c. wound_up (seen ev pg pid c))"
    proof (rule triple_check [OF defer_triple [OF body calm_helpers(10) [OF L]]])
      fix v
      show "triple (\<lambda>c. (case v of None \<Rightarrow> (\<lambda>s. s = (Stopped, True)) | Some e \<Rightarrow> ?halting) (seen ev pg pid c))
         (case v of None \<Rightarrow> ret ()
          | Some e \<Rightarrow> ignoring (run_as_user C u (pt_ctl T) (pg_stop_args data ''immediate'')) (throw e))
         (\<lambda>_. sees_phase ev pg pid Stopped) (\<lambda>_ c. wound_up (seen ev pg pid c))"
      proof (cases v)
        case (Some e)
        show ?thesis unfolding Some option.case by (rule triple_ignoring [OF abort], rule triple_throw)
      qed (simp add: triple_ret)
    qed
  qed
qed

lemma pg_imports:
  assumes L: "logs_commands C X ev"
  shows "triple (sees_phase ev True pid NotStarted) (run_pg_import C X conf im)
      (\<lambda>_. sees_phase ev True pid Stopped) (\<lambda>_ c. wound_up (seen ev True pid c))"
proof -
  have err: "triple (sees_phase ev True pid NotStarted) (throw e) Q (\<lambda>_ c. wound_up (seen ev True pid c))" for e Q
    by (rule triple_throw) (simp add: wound_up_def)
  note k = calm_outside logs_calls [OF L] calm_helpers [OF L] calm_session_parts [OF L] calm_pg_parts [OF L]
  have almost: "triple (sees_phase ev True pid NotStarted) m (\<lambda>_. sees_phase ev True pid NotStarted) (\<lambda>_ c. wound_up (seen ev True pid c))"
    if "nearly_placid ev True pid m" for m :: "('a, 'x) cact"
    by (rule triple_weaken [OF almost_triple [OF that]]) (auto simp: wound_up_def)
  have fin: "triple (sees_phase ev True pid Stopped) (snapshot_and_register_local C X conf base tag)
      (\<lambda>_. sees_phase ev True pid Stopped) (\<lambda>_. sees_phase ev True pid Stopped)"
      "triple (sees_phase ev True pid Stopped) (zfs_snapshot_and_register C conf snap)
      (\<lambda>_. sees_phase ev True pid Stopped) (\<lambda>_. sees_phase ev True pid Stopped)" for base tag snap
    by (rule finish_runs [OF L], simp add: may_snapshot_def)+
  show ?thesis
    unfolding run_pg_import_def run_pg_local_import_def run_pg_zfs_import_def Let_def
    by (intro triple_if err triple_check [OF almost [OF almost_parts(1) [OF L]]] triple_prod
          triple_check [OF almost [OF almost_parts(2) [OF L]]] calm_then_triple k
          triple_check [OF cluster_starts [OF L]] pg_session_run [OF L] fin)
       (simp_all add: wound_up_def)
qed

end
