(* ===== verification/CliInit.thy ===== *)
theory CliInit
  imports CliStream
begin

text \<open>
  cmd/sashiki: \<^verbatim>\<open>init\<close> on Linux (init.go, init_postgres.go, hardening.go): a list of steps, each with
  a check that lets a later run skip it. Comments of the generated files are given in English.
\<close>

section \<open>What the installer uses besides\<close>

text \<open>
  \<open>in_write\<close> is \<^verbatim>\<open>os.WriteFile\<close> with a mode, \<open>in_perm\<close> the permission bits of a file and, where the
  system tells it, its owner, \<open>in_poke\<close> writes into a file that exists and ignores failures. The embedded
  files are found by name; of a YAML document \<open>in_pools\<close> and \<open>in_root_helper\<close> decode what the installer
  looks at. \<open>in_answer\<close> is a line of the terminal, \<open>in_kill\<close> tells whether the signal was delivered.
\<close>

record 'w installer =
  in_write :: "string \<Rightarrow> string \<Rightarrow> nat \<Rightarrow> ('w, unit) ext"
  in_perm :: "string \<Rightarrow> ('w, nat \<times> (nat \<times> nat) option) ext"
  in_poke :: "string \<Rightarrow> string \<Rightarrow> 'w \<Rightarrow> unit \<times> 'w"
  in_lstat :: "string \<Rightarrow> 'w \<Rightarrow> bool \<times> 'w"
  in_symlink :: "string \<Rightarrow> string \<Rightarrow> ('w, unit) ext"
  in_group :: "string \<Rightarrow> string option"
  in_asset :: "string \<Rightarrow> string"
  in_pools :: "string \<Rightarrow> (string \<times> string) option"
  in_root_helper :: "string \<Rightarrow> string option"
  in_answer :: "'w \<Rightarrow> string \<times> 'w"
  in_hostname :: "('w, string) ext"
  in_executable :: "('w, string) ext"
  in_statfs :: "string \<Rightarrow> ('w, string) ext"
  in_abs :: "string \<Rightarrow> string"
  in_kill :: "int \<Rightarrow> bool \<Rightarrow> 'w \<Rightarrow> bool \<times> 'w"

text \<open>\<^verbatim>\<open>text/template\<close> with actions of the form \<^verbatim>\<open>{{.Name}}\<close> only.\<close>

function fill :: "(string \<Rightarrow> err + string) \<Rightarrow> string option \<Rightarrow> string \<Rightarrow> err + string" where
  "fill v None s =
     (if s = [] then Inr []
      else if has_prefix s ''{{.'' then fill v (Some []) (drop 3 s)
      else map_sum id (Cons (hd s)) (fill v None (tl s)))"
| "fill v (Some k) s =
     (if s = [] then Inl (EText ''template: unclosed action'')
      else if has_prefix s ''}}'' then
        (case v k of Inl e \<Rightarrow> Inl e | Inr t \<Rightarrow> map_sum id ((@) t) (fill v None (drop 2 s)))
      else fill v (Some (k @ [hd s])) (tl s))"
  by pat_completeness auto

termination by (relation "measure (\<lambda>(v, k, s). length s)") auto

definition field_of :: "(string \<times> string) list \<Rightarrow> string \<Rightarrow> err + string" where
  "field_of kvs k = (case map_of kvs k of
      Some v \<Rightarrow> Inr v | None \<Rightarrow> Inl (EText (''template: no field '' @ k)))"

definition of_sum :: "err + 'a \<Rightarrow> ('s, 'a) act" where
  "of_sum r = (case r of Inl e \<Rightarrow> throw e | Inr a \<Rightarrow> ret a)"

section \<open>Steps\<close>

record 'w step =
  sx_name :: string
  sx_done :: "('w, bool) cact option"
  sx_run :: "('w, unit) cact"

definition always :: "string \<Rightarrow> ('w, unit) cact \<Rightarrow> 'w step" where
  "always n m = \<lparr>sx_name = n, sx_done = None, sx_run = m\<rparr>"

definition unless_done :: "string \<Rightarrow> ('w, bool) cact \<Rightarrow> ('w, unit) cact \<Rightarrow> 'w step" where
  "unless_done n d m = \<lparr>sx_name = n, sx_done = Some d, sx_run = m\<rparr>"

definition step_skipped :: "'w step \<Rightarrow> ('w, bool) cact" where
  "step_skipped s = (case sx_done s of None \<Rightarrow> ret False | Some d \<Rightarrow> d)"

primrec run_steps :: "'w step list \<Rightarrow> ('w, int) cact \<Rightarrow> ('w, int) cact" where
  "run_steps [] k = k"
| "run_steps (s # ss) k = check (step_skipped s) (\<lambda>skip.
     if skip then then_do (say (''  done already: '' @ sx_name s)) (run_steps ss k)
     else then_do (say (''  -> '' @ sx_name s))
       (handle_err (sx_run s)
         (\<lambda>e. quit_with (''sashiki init: '' @ sx_name s @ '': '' @ err_text e) exit_error)
         (\<lambda>_. run_steps ss k)))"

section \<open>Files\<close>

definition file_equal :: "'w cli_env \<Rightarrow> string \<Rightarrow> string \<Rightarrow> ('w, bool) cact" where
  "file_equal C p want = attempt (outside (h_read_file (ce_machine C) p)) (\<lambda>r. ret (r = Inr want))"

definition write_mode :: "'w installer \<Rightarrow> string \<Rightarrow> string \<Rightarrow> nat \<Rightarrow> ('w, unit) cact" where
  "write_mode I p text mode = outside (in_write I p text mode)"

definition config_file :: string where
  "config_file = ''/etc/sashiki/config.yaml''"

definition app_pass_file_path :: string where
  "app_pass_file_path = ''/etc/sashiki/app_pass''"

text \<open>The mode and the group of the configuration: 0640 for the group sashiki, 0600 without it.\<close>

definition config_perm :: "'w installer \<Rightarrow> nat \<times> int" where
  "config_perm I = (case in_group I ''sashiki'' of None \<Rightarrow> (384, 0)
     | Some g \<Rightarrow> (case atoi g of None \<Rightarrow> (384, 0) | Some n \<Rightarrow> (416, n)))"

definition config_perm_ok :: "'w installer \<Rightarrow> string \<Rightarrow> ('w, bool) cact" where
  "config_perm_ok I p = attempt (outside (in_perm I p)) (\<lambda>r. ret (case r of
      Inl e \<Rightarrow> False
    | Inr (mode, owner) \<Rightarrow> (case config_perm I of (want, gid) \<Rightarrow>
        mode = want \<and> (case owner of None \<Rightarrow> True | Some (u, g) \<Rightarrow> u = 0 \<and> int g = gid))))"

definition fix_config_perm :: "'w cli_env \<Rightarrow> 'w works \<Rightarrow> 'w installer \<Rightarrow> string \<Rightarrow> ('w, unit) cact" where
  "fix_config_perm C X I p = (case config_perm I of (mode, gid) \<Rightarrow>
     check (outside (wk_chown X p (0, nat gid))) (\<lambda>_. outside (ce_chmod C p mode)))"

definition write_config_file ::
  "'w cli_env \<Rightarrow> 'w works \<Rightarrow> 'w installer \<Rightarrow> string \<Rightarrow> string \<Rightarrow> ('w, unit) cact" where
  "write_config_file C X I p text = check (write_mode I p text 384) (\<lambda>_. fix_config_perm C X I p)"

definition write_app_pass_file ::
  "'w cli_env \<Rightarrow> 'w works \<Rightarrow> 'w installer \<Rightarrow> string \<Rightarrow> string \<Rightarrow> ('w, unit) cact" where
  "write_app_pass_file C X I p pass = check (file_exists C p) (\<lambda>there.
     if there then ret ()
     else check (write_mode I p (pass @ [newline]) 384) (\<lambda>_. fix_config_perm C X I p))"

definition config_perm_step :: "'w cli_env \<Rightarrow> 'w works \<Rightarrow> 'w installer \<Rightarrow> string \<Rightarrow> 'w step" where
  "config_perm_step C X I p = unless_done (p @ '' permissions (root:sashiki 0640, or 0600)'')
     (config_perm_ok I p) (fix_config_perm C X I p)"

text \<open>\<^verbatim>\<open>yamlQuote\<close>, on the bytes of a valid text: only ASCII characters are replaced.\<close>

definition yaml_quote :: "string \<Rightarrow> string" where
  "yaml_quote s = [CHR 0x22] @ concat (map (\<lambda>c.
     if c = CHR 0x5C then [CHR 0x5C, CHR 0x5C] else if c = CHR 0x22 then [CHR 0x5C, CHR 0x22]
     else if c = CHR 0x0A then [CHR 0x5C, CHR ''n''] else if c = CHR 0x09 then [CHR 0x5C, CHR ''t'']
     else [c]) s) @ [CHR 0x22]"

definition random_password :: "'w cli_env \<Rightarrow> ('w, string) cact" where
  "random_password C = check (outside (ce_random C 16)) (\<lambda>raw. ret (gen_hex raw))"

section \<open>sudoers (hardening.go)\<close>

definition sudoers_path :: string where
  "sudoers_path = ''/etc/sudoers.d/sashiki''"

definition sudoers_tmp_path :: string where
  "sudoers_tmp_path = ''/etc/sudoers.d/.sashiki.tmp''"

definition root_helper_bin :: string where
  "root_helper_bin = ''/usr/local/bin/sashiki-root-helper''"

definition allowed_line :: "string \<Rightarrow> string" where
  "allowed_line what = ''sashiki ALL=(root) NOPASSWD: '' @ what"

definition text_of :: "string list \<Rightarrow> string" where
  "text_of ls = join_with [newline] ls @ [newline]"

definition sudoers_content :: "string \<Rightarrow> string" where
  "sudoers_content pool = text_of
     [''# sashiki: root operations only through sashiki-root-helper (made by sashiki init)'',
      ''# the helper checks zfs / zpool / systemctl against /etc/sashiki/root-helper.yaml'',
      ''# (internal/roothelper). pool: '' @ pool,
      allowed_line (root_helper_bin @ '' *'')]"

definition unit_lines :: "string \<Rightarrow> string" where
  "unit_lines u = (let c = (\<lambda>verb. ''/usr/bin/systemctl '' @ verb @ '' '' @ u @ CHR 0x40 # ''*'') in
     join_with '', '' [c ''start'', c ''stop'', c ''kill -s SIGKILL'', c ''is-active''])"

definition sudoers_legacy_content :: "string \<Rightarrow> string" where
  "sudoers_legacy_content pool = (let base = pool @ ''/base''; br = pool @ ''/branches''; sep = [CHR 0x40];
       zfs = (\<lambda>args. allowed_line (''/usr/sbin/zfs '' @ args)) in text_of
     [''# sashiki: limited root operations (made by sashiki init; the old way)'',
      ''# the calls are those of internal/storage/ebszfs/zfs.go and internal/engine'',
      ''# note: the * of sudoers spans spaces, so a pattern at the end is no full limit'',
      zfs (''clone '' @ base @ sep @ ''* '' @ br @ ''/*''),
      zfs (''clone '' @ br @ ''/*'' @ sep @ ''baseline-* '' @ br @ ''/*''),
      zfs (''snapshot '' @ br @ ''/*'' @ sep @ ''init''),
      zfs (''snapshot '' @ base @ sep @ ''*''),
      zfs (''snapshot '' @ br @ ''/*'' @ sep @ ''baseline-*''),
      zfs (''rollback -r '' @ br @ ''/*'' @ sep @ ''init''),
      zfs (''destroy -r '' @ br @ ''/*''),
      zfs (''destroy '' @ base @ sep @ ''*''),
      zfs (''rename '' @ br @ ''/* '' @ br @ ''/*''),
      zfs ''get *'', zfs ''list *'',
      allowed_line ''/usr/sbin/zpool list *'',
      allowed_line (unit_lines ''mysqld''),
      allowed_line (unit_lines ''postgres-sashiki'')])"

definition sudoers_for :: "string \<Rightarrow> bool \<Rightarrow> string" where
  "sudoers_for pool use_helper = (if use_helper then sudoers_content pool else sudoers_legacy_content pool)"

definition root_helper_config_content :: "string \<Rightarrow> string" where
  "root_helper_config_content pool = text_of
     [''# what sashiki-root-helper allows (made by sashiki init)'', ''pool: '' @ pool,
      ''base_dataset: '' @ pool @ ''/base'', ''branch_parent: '' @ pool @ ''/branches'',
      ''units: [mysqld, postgres-sashiki]'']"

definition run_init :: "'w cli_env \<Rightarrow> string \<Rightarrow> string list \<Rightarrow> ('w, unit) cact" where
  "run_init C name args = run_with_env C [] name args"

definition install_sudoers :: "'w cli_env \<Rightarrow> 'w installer \<Rightarrow> string \<Rightarrow> bool \<Rightarrow> ('w, unit) cact" where
  "install_sudoers C I pool use_helper =
     check (write_mode I sudoers_tmp_path (sudoers_for pool use_helper) 288) (\<lambda>_.
     handle_err (run_init C ''visudo'' [''-cf'', sudoers_tmp_path])
       (\<lambda>e. check (asking (h_remove (ce_machine C) sudoers_tmp_path)) (\<lambda>_.
          throw (EWrap ''visudo refused the sudoers (the old file is kept): '' e [])))
       (\<lambda>_. outside (ce_rename C sudoers_tmp_path sudoers_path)))"

text \<open>Whether the helper is used: no configuration yet, or one that names it.\<close>

definition existing_root_helper :: "'w cli_env \<Rightarrow> 'w installer \<Rightarrow> string \<Rightarrow> ('w, string) cact" where
  "existing_root_helper C I p = attempt (outside (h_read_file (ce_machine C) p)) (\<lambda>r. ret (case r of
      Inl e \<Rightarrow> [] | Inr text \<Rightarrow> (case in_root_helper I text of None \<Rightarrow> [] | Some h \<Rightarrow> h)))"

definition use_root_helper :: "'w cli_env \<Rightarrow> 'w installer \<Rightarrow> string \<Rightarrow> ('w, bool) cact" where
  "use_root_helper C I p = check (file_exists C p) (\<lambda>there.
     if \<not> there then ret True else check (existing_root_helper C I p) (\<lambda>h. ret (h \<noteq> [])))"

definition existing_pool :: "'w cli_env \<Rightarrow> 'w installer \<Rightarrow> string \<Rightarrow> ('w, string) cact" where
  "existing_pool C I p = attempt (outside (h_read_file (ce_machine C) p)) (\<lambda>r. ret (case r of
      Inl e \<Rightarrow> []
    | Inr text \<Rightarrow> (case in_pools I text of None \<Rightarrow> [] | Some (pool, legacy) \<Rightarrow> or_else pool legacy)))"

definition sudoers_step :: "'w cli_env \<Rightarrow> 'w installer \<Rightarrow> string \<Rightarrow> 'w step" where
  "sudoers_step C I pool = unless_done ''sudoers: root operations of the user sashiki only by sashiki-root-helper''
     (check (use_root_helper C I config_file) (\<lambda>h. file_equal C sudoers_path (sudoers_for pool h)))
     (check (use_root_helper C I config_file) (\<lambda>h.
        check (when_do (\<not> h) (say ''  (the config has no root_helper: the old sudoers are kept)'')) (\<lambda>_.
        install_sudoers C I pool h)))"

definition root_helper_config_path :: string where
  "root_helper_config_path = ''/etc/sashiki/root-helper.yaml''"

definition root_helper_config_step :: "'w cli_env \<Rightarrow> 'w installer \<Rightarrow> string \<Rightarrow> 'w step" where
  "root_helper_config_step C I pool = unless_done ''root helper configuration (/etc/sashiki/root-helper.yaml)''
     (file_equal C root_helper_config_path (root_helper_config_content pool))
     (check (outside (h_mkdir_all (ce_machine C) ''/etc/sashiki'')) (\<lambda>_.
      check (bin_exists C root_helper_bin) (\<lambda>x.
      check (when_do (\<not> x) (complain (''sashiki init: warning: no '' @ root_helper_bin))) (\<lambda>_.
      write_mode I root_helper_config_path (root_helper_config_content pool) 384))))"

section \<open>AppArmor (hardening.go)\<close>

definition apparmor_profile_path :: string where
  "apparmor_profile_path = ''/etc/apparmor.d/sashiki-mysqld''"

definition apparmor_stock_profile :: string where
  "apparmor_stock_profile = ''etc/apparmor.d/usr.sbin.mysqld''"

definition apparmor_stock_disable_link :: string where
  "apparmor_stock_disable_link = ''etc/apparmor.d/disable/usr.sbin.mysqld''"

definition apparmor_head :: "string list" where
  "apparmor_head =
     [''abi <abi/3.0>,'', [], ''#include <tunables/global>'', [],
      ''profile sashiki-mysqld /usr/sbin/mysqld flags=(attach_disconnected) {'',
      ''  #include <abstractions/base>'', ''  #include <abstractions/nameservice>'',
      ''  #include <abstractions/user-tmp>'', ''  #include <abstractions/mysql>'', []]
     @ map (\<lambda>c. ''  capability '' @ c @ '','') [''chown'', ''dac_override'', ''dac_read_search'', ''fowner'',
        ''fsetid'', ''setgid'', ''setuid'', ''sys_nice'', ''sys_resource'']
     @ [[]] @ map (\<lambda>n. ''  network '' @ n @ '','') [''inet stream'', ''inet6 stream'', ''inet dgram'',
        ''inet6 dgram'', ''unix stream'', ''unix dgram'', ''netlink raw'']"

text \<open>The paths of the profile with what may be done there; an at sign before a brace names a variable.\<close>

definition in_braces :: "string \<Rightarrow> string" where
  "in_braces n = [CHR 0x40, CHR 0x7B] @ n @ [CHR 0x7D]"

definition apparmor_paths :: "string \<Rightarrow> string list" where
  "apparmor_paths pool = (let proc = in_braces ''PROC''; own = proc @ ''/'' @ in_braces ''pid'' in
     [[], ''/usr/sbin/mysqld mr'', ''/usr/lib/mysql/plugin/ r'', ''/usr/lib/mysql/plugin/** mr'',
      ''/usr/share/mysql*/ r'', ''/usr/share/mysql*/** r'', ''/etc/mysql/ r'', ''/etc/mysql/** r'',
      ''/etc/sashiki/ r'', ''/etc/sashiki/*.cnf r'', ''/etc/hosts.allow r'', ''/etc/hosts.deny r'',
      ''/etc/ssl/openssl.cnf r'', [],
      ''# datadir: only branches and base may be written'', ''/'' @ pool @ ''/ r'', ''/'' @ pool @ ''/branches/ r'',
      ''/'' @ pool @ ''/branches/** rwk'', ''/'' @ pool @ ''/base/ r'', ''/'' @ pool @ ''/base/** rwk'', [],
      ''# logs and files of the run time'', ''/var/log/sashiki/ r'', ''/var/log/sashiki/** rw'',
      ''/run/sashiki/ r'', ''/run/sashiki/** rw'', [],
      ''# secure_file_priv of the deb'', ''/var/lib/mysql-files/ r'', [],
      ''# log_error of the deb'', ''/var/log/mysql/ rw'', ''/var/log/mysql/** rw'', [],
      ''# sockets of mysqlx'', ''/run/mysqld/ rw'', ''/run/mysqld/** rwk'', [],
      ''# sockets and pid files'', ''/tmp/mysql-*.sock* rwk'', ''/tmp/mysql-*.pid rwk'',
      ''/tmp/sashiki-*.sock* rwk'', ''/tmp/sashiki-*.pid rwk'', [],
      ''# what InnoDB reads of the kernel'', proc @ ''/ r'', own @ ''/status r'', own @ ''/mounts r'', own @ ''/cgroup r'',
      proc @ ''/sys/vm/overcommit_memory r'', proc @ ''/sys/fs/aio-max-nr r'',
      ''/sys/devices/system/cpu/ r'', ''/sys/devices/system/cpu/** r'', ''/sys/devices/system/node/ r'',
      ''/sys/devices/system/node/** r'', ''/sys/fs/cgroup/ r'', ''/sys/fs/cgroup/** r''])"

definition apparmor_line :: "string \<Rightarrow> string" where
  "apparmor_line l = (if l = [] then [] else if has_prefix l ''#'' then ''  '' @ l else ''  '' @ l @ '','')"

definition apparmor_profile :: "string \<Rightarrow> string" where
  "apparmor_profile pool = text_of
     ([''# AppArmor profile of mysqld made by sashiki init.'',
       ''# writing outside of the datadirs (/'' @ pool @ ''/branches, /'' @ pool @ ''/base) is refused.'']
      @ apparmor_head @ map apparmor_line (apparmor_paths pool) @ [''}''])"

definition disable_stock_profile :: "'w cli_env \<Rightarrow> 'w installer \<Rightarrow> string \<Rightarrow> ('w, unit) cact" where
  "disable_stock_profile C I base = (let link = base @ apparmor_stock_disable_link in
     check (asking (h_stat (ce_machine C) (base @ apparmor_stock_profile))) (\<lambda>r. case r of
         FsNotExist e \<Rightarrow> ret ()
       | FsPermission e \<Rightarrow> throw e
       | FsFailed e \<Rightarrow> throw e
       | FsOk \<Rightarrow> check (asking (in_lstat I link)) (\<lambda>there.
           if there then ret ()
           else check (outside (h_mkdir_all (ce_machine C) (dir_name link))) (\<lambda>_.
             outside (in_symlink I (''/'' @ apparmor_stock_profile) link)))))"

definition install_apparmor_profile :: "'w cli_env \<Rightarrow> 'w installer \<Rightarrow> string \<Rightarrow> ('w, unit) cact" where
  "install_apparmor_profile C I pool =
     check (asking (in_poke I ''/sys/kernel/security/apparmor/.remove'' ''/usr/sbin/mysqld'')) (\<lambda>_.
     check (handle_err (disable_stock_profile C I ''/'')
       (\<lambda>e. complain (''sashiki init: warning: the stock AppArmor profile could not be disabled: '' @ err_text e)) ret) (\<lambda>_.
     check (write_mode I apparmor_profile_path (apparmor_profile pool) 420) (\<lambda>_.
     handle_err (run_init C ''apparmor_parser'' [''-r'', apparmor_profile_path])
       (\<lambda>e. complain (''sashiki init: warning: the AppArmor profile could not be loaded: '' @ err_text e)) ret)))"

section \<open>The steps for MySQL\<close>

definition apt_install :: "'w cli_env \<Rightarrow> string list \<Rightarrow> ('w, unit) cact" where
  "apt_install C pkgs = run_with_env C [''DEBIAN_FRONTEND=noninteractive''] ''apt-get''
     ([''install'', ''-y'', ''-q'', ''zfsutils-linux''] @ pkgs)"

definition service_off :: "'w cli_env \<Rightarrow> string \<Rightarrow> 'w step" where
  "service_off C u = unless_done (''stop and disable the default service '' @ u)
     (check (succeeds C ''systemctl'' [''is-enabled'', ''--quiet'', u]) (\<lambda>b. ret (\<not> b)))
     (ignoring (run_init C ''systemctl'' [''stop'', u]) (run_init C ''systemctl'' [''disable'', u]))"

text \<open>\<^verbatim>\<open>importExistingPool\<close>: by the device first, then wherever zpool looks.\<close>

definition import_existing_pool :: "'w cli_env \<Rightarrow> string \<Rightarrow> string \<Rightarrow> ('w, bool) cact" where
  "import_existing_pool C pool dev =
     attempt (run_init C ''zpool'' [''import'', ''-f'', ''-d'', dev, pool]) (\<lambda>r.
     if r = Inr () then ret True
     else attempt (run_init C ''zpool'' [''import'', ''-f'', pool]) (\<lambda>r. ret (r = Inr ())))"

record init_opts =
  io_pool :: string
  io_device :: string
  io_skip_packages :: bool
  io_explicit :: bool
  io_yes :: bool
  io_platform :: string
  io_root :: string
  io_engine :: string
  io_pass :: string

definition zpool_step :: "'w cli_env \<Rightarrow> init_opts \<Rightarrow> 'w step" where
  "zpool_step C im = (let pool = io_pool im in unless_done (''zpool '' @ pool)
     (succeeds C ''zpool'' [''list'', pool])
     (if io_device im = [] then throw (EText (''no pool '' @ go_quote pool @ ''; give --device <dev>''))
      else check (import_existing_pool C pool (io_device im)) (\<lambda>found.
        check (if found then say ''    imported the existing pool''
          else run_init C ''zpool'' [''create'', ''-o'', ''ashift=12'', pool, io_device im]) (\<lambda>_.
        run_init C ''zfs'' [''set'', ''compression=lz4'', ''atime=off'', pool]))))"

definition dataset_step :: "'w cli_env \<Rightarrow> string \<Rightarrow> string list \<Rightarrow> 'w step" where
  "dataset_step C ds options = unless_done (''dataset '' @ ds) (succeeds C ''zfs'' [''list'', ds])
     (run_init C ''zfs'' ([''create''] @ options @ [ds]))"

definition recordsize :: "string \<Rightarrow> string list" where
  "recordsize n = [''-o'', ''recordsize='' @ n, ''-o'', ''logbias=throughput'']"

definition make_dirs :: "'w cli_env \<Rightarrow> string list \<Rightarrow> ('w, unit) cact" where
  "make_dirs C ds = fold_act (\<lambda>d _. outside (h_mkdir_all (ce_machine C) d)) ds ()"

definition dirs_step :: "'w cli_env \<Rightarrow> string \<Rightarrow> 'w step" where
  "dirs_step C user = always ''directories (/etc/sashiki, /var/lib/sashiki, /var/log/sashiki)''
     (check (make_dirs C [''/etc/sashiki/hooks'', ''/var/lib/sashiki/branches'', ''/var/log/sashiki/hooks'']) (\<lambda>_.
      run_init C ''chown'' [''-R'', user @ '':'' @ user, ''/var/log/sashiki'']))"

definition unit_step :: "'w cli_env \<Rightarrow> 'w installer \<Rightarrow> string \<Rightarrow> 'w step" where
  "unit_step C I u = (let p = ''/etc/systemd/system/'' @ u; text = in_asset I u in
     unless_done (''systemd unit '' @ u) (file_equal C p text)
      (check (write_mode I p text 420) (\<lambda>_. run_init C ''systemctl'' [''daemon-reload''])))"

definition app_pass_step :: "'w cli_env \<Rightarrow> 'w works \<Rightarrow> 'w installer \<Rightarrow> string \<Rightarrow> 'w step" where
  "app_pass_step C X I pass = unless_done ''/etc/sashiki/app_pass (the password is not in the config)''
     (file_exists C app_pass_file_path) (write_app_pass_file C X I app_pass_file_path pass)"

definition render_config_app :: "'w installer \<Rightarrow> string \<Rightarrow> string \<Rightarrow> err + string" where
  "render_config_app I pool pass_file =
     fill (field_of [(''Pool'', pool), (''AppPassFile'', pass_file)]) None (in_asset I ''config.yaml.tmpl'')"

definition config_step :: "'w cli_env \<Rightarrow> 'w works \<Rightarrow> 'w installer \<Rightarrow> ('w, string) cact \<Rightarrow> 'w step" where
  "config_step C X I text = unless_done ''/etc/sashiki/config.yaml'' (file_exists C config_file)
     (check text (write_config_file C X I config_file))"

definition mysqld_unit_file :: string where
  "mysqld_unit_file = ''mysqld'' @ CHR 0x40 # ''.service''"

definition init_steps :: "'w cli_env \<Rightarrow> 'w works \<Rightarrow> 'w installer \<Rightarrow> init_opts \<Rightarrow> 'w step list" where
  "init_steps C X I im = (let pool = io_pool im in
     (if io_skip_packages im then []
      else [unless_done ''packages (zfsutils-linux, mysql-server-8.0, mysql-client-8.0)''
        (check (succeeds C ''zfs'' [''version'']) (\<lambda>b. if \<not> b then ret False else bin_exists C ''/usr/sbin/mysqld''))
        (apt_install C [''mysql-server-8.0'', ''mysql-client-8.0''])])
     @ [service_off C ''mysql'', zpool_step C im, dataset_step C (pool @ ''/base'') (recordsize ''16k''),
        dataset_step C (pool @ ''/branches'') [],
        unless_done ''AppArmor: a profile that keeps mysqld in its datadirs (enforced)''
          (file_equal C apparmor_profile_path (apparmor_profile pool)) (install_apparmor_profile C I pool),
        root_helper_config_step C I pool, sudoers_step C I pool, dirs_step C ''mysql'',
        unit_step C I mysqld_unit_file, app_pass_step C X I (io_pass im),
        config_step C X I (of_sum (render_config_app I pool app_pass_file_path)),
        config_perm_step C X I config_file])"

section \<open>The steps for PostgreSQL (init_postgres.go)\<close>

text \<open>The leading digits, and whether there are any; \<^verbatim>\<open>int\<close> wraps around at 64 bits.\<close>

definition pg_major :: "string \<Rightarrow> int \<times> bool" where
  "pg_major v = (let ds = takeWhile is_digit v in
     (sint (word_of_int (int (read_digits 0 ds)) :: 64 word), ds \<noteq> []))"

definition pg_version_less :: "string \<Rightarrow> string \<Rightarrow> bool" where
  "pg_version_less a b = (case pg_major a of (i, x) \<Rightarrow> case pg_major b of (j, y) \<Rightarrow>
     if x \<and> y then i < j else a < b)"

text \<open>The last element after \<^verbatim>\<open>sort.Slice\<close>, which inserts one element after the other (below twelve).\<close>

definition newest :: "(string \<Rightarrow> string \<Rightarrow> bool) \<Rightarrow> string list \<Rightarrow> string" where
  "newest older vs = fold (\<lambda>v best. if older v best then best else v) (tl vs) (hd vs)"

definition pg_versions_dir :: string where
  "pg_versions_dir = ''/usr/lib/postgresql''"

definition find_pg_bin_dir :: "'w cli_env \<Rightarrow> ('w, string) cact" where
  "find_pg_bin_dir C = attempt (outside (h_read_dir (ce_machine C) pg_versions_dir)) (\<lambda>r. case r of
      Inl e \<Rightarrow> ret []
    | Inr ents \<Rightarrow> check (fold_act (\<lambda>e vs. if \<not> snd e then ret vs
          else check (bin_exists C (in_dir (in_dir (in_dir pg_versions_dir (fst e)) ''bin'') ''postgres''))
            (\<lambda>x. ret (if x then vs @ [fst e] else vs))) ents []) (\<lambda>vs.
        ret (if vs = [] then [] else in_dir (in_dir pg_versions_dir (newest pg_version_less vs)) ''bin'')))"

definition render_postgres_config_app ::
  "'w cli_env \<Rightarrow> 'w installer \<Rightarrow> string \<Rightarrow> string \<Rightarrow> ('w, string) cact" where
  "render_postgres_config_app C I pool pass_file = check (find_pg_bin_dir C) (\<lambda>dir.
     of_sum (fill (field_of [(''Pool'', pool), (''PgBinDir'', or_else dir ''/usr/lib/postgresql/16/bin''),
        (''AppPassFile'', pass_file)]) None (in_asset I ''config.postgres.yaml.tmpl'')))"

definition postgres_unit_file :: string where
  "postgres_unit_file = ''postgres-sashiki'' @ CHR 0x40 # ''.service''"

definition init_steps_postgres :: "'w cli_env \<Rightarrow> 'w works \<Rightarrow> 'w installer \<Rightarrow> init_opts \<Rightarrow> 'w step list" where
  "init_steps_postgres C X I im = (let pool = io_pool im in
     (if io_skip_packages im then []
      else [unless_done ''packages (zfsutils-linux, postgresql, postgresql-client)''
        (check (succeeds C ''zfs'' [''version'']) (\<lambda>b. if \<not> b then ret False
           else check (find_pg_bin_dir C) (\<lambda>d. ret (d \<noteq> []))))
        (apt_install C [''postgresql'', ''postgresql-client''])])
     @ [service_off C ''postgresql'', zpool_step C im, dataset_step C (pool @ ''/base'') (recordsize ''8k''),
        dataset_step C (pool @ ''/branches'') (recordsize ''8k''),
        root_helper_config_step C I pool, sudoers_step C I pool, dirs_step C ''postgres'',
        unit_step C I postgres_unit_file, app_pass_step C X I (io_pass im),
        config_step C X I (render_postgres_config_app C I pool app_pass_file_path),
        config_perm_step C X I config_file])"

section \<open>The command\<close>

fun init_flags :: "string list \<Rightarrow> init_opts \<Rightarrow> init_opts option" where
  "init_flags [] im = Some im"
| "init_flags (a # as) im =
     (if a = ''--skip-packages'' then init_flags as (im\<lparr>io_skip_packages := True\<rparr>)
      else if a = ''--yes'' \<or> a = ''-y'' then init_flags as (im\<lparr>io_yes := True\<rparr>)
      else if a \<in> {''--pool'', ''--device'', ''--platform'', ''--root'', ''--engine'', ''--app-pass''} then
        (case as of [] \<Rightarrow> None
         | v # bs \<Rightarrow> init_flags bs
            (if a = ''--pool'' then im\<lparr>io_pool := v, io_explicit := True\<rparr>
             else if a = ''--device'' then im\<lparr>io_device := v\<rparr>
             else if a = ''--platform'' then im\<lparr>io_platform := v\<rparr>
             else if a = ''--root'' then im\<lparr>io_root := v\<rparr>
             else if a = ''--engine'' then im\<lparr>io_engine := v\<rparr>
             else im\<lparr>io_pass := v\<rparr>))
      else None)"

definition or_dash :: "string \<Rightarrow> string" where
  "or_dash s = (if s = [] then ''-'' else s)"

text \<open>An answer that begins with y goes on; the prompt ends without a newline.\<close>

definition print_out :: "string \<Rightarrow> ('w, unit) cact" where
  "print_out l = modifying (\<lambda>c. c\<lparr>cl_out := cl_out c @ l\<rparr>)"

definition confirmed :: "'w installer \<Rightarrow> bool \<Rightarrow> (string \<Rightarrow> bool) \<Rightarrow> ('w, bool) cact" where
  "confirmed I yes good = (if yes then ret True
     else then_do (print_out ''Go on? [y/N]: '') (check (asking (in_answer I)) (\<lambda>ans. ret (good ans))))"

definition says_yes :: "string \<Rightarrow> bool" where
  "says_yes ans = has_prefix (to_lower ans) ''y''"

text \<open>Without \<^verbatim>\<open>--pool\<close> the pool of an existing configuration is used; another one is warned of.\<close>

definition choose_pool :: "'w cli_env \<Rightarrow> 'w installer \<Rightarrow> init_opts \<Rightarrow> ('w, string) cact" where
  "choose_pool C I im = check (existing_pool C I config_file) (\<lambda>p.
     if p = [] \<or> p = io_pool im then ret (io_pool im)
     else if \<not> io_explicit im then
       then_do (say (''sashiki init: using the pool '' @ go_quote p @ '' of the existing config'')) (ret p)
     else then_do (complain (''sashiki init: warning: --pool '' @ io_pool im @ '' is not the pool '' @ p
         @ '' of the existing config'')) (ret (io_pool im)))"

definition choose_pass :: "'w cli_env \<Rightarrow> string \<Rightarrow> ('w, string \<times> bool) cact" where
  "choose_pass C given = (if given \<noteq> [] then ret (given, False)
     else check (wrapping (\<lambda>e. EWrap ''sashiki init: app_pass: '' e []) (random_password C)) (\<lambda>p. ret (p, True)))"

definition next_steps :: "string \<Rightarrow> string" where
  "next_steps engine = text_of
     [[], ''init finished. Next:'',
      ''  1. load data and make the baseline (as root, for ZFS):'',
      ''       sudo sashiki baseline import --from prod-dump.sql''
        @ (if engine = ''postgres'' then ''   # or the custom / directory format of pg_dump'' else []),
      ''  2. start sashikid: sudo systemctl enable --now sashikid'',
      ''  3. make a branch: sashiki create pr-1'']"

definition password_note :: "string \<Rightarrow> string" where
  "password_note pass = text_of
     [[], ''password of the app user dev (its -p):'', ''  '' @ pass,
      ''It is in '' @ app_pass_file_path @ '' (0640) and not in config.yaml;'',
      ''app_pass_ssm / app_pass_env of the config take it from elsewhere.'',
      ''sashiki init --app-pass <value> sets it before the first init (an existing value is kept).'']"

definition init_linux :: "'w cli_env \<Rightarrow> 'w works \<Rightarrow> 'w installer \<Rightarrow> init_opts \<Rightarrow> ('w, int) cact" where
  "init_linux C X I im0 = check (choose_pool C I im0) (\<lambda>pool.
     handle_err (choose_pass C (io_pass im0)) (\<lambda>e. quit_with (err_text e) exit_error) (\<lambda>(pass, generated).
     let im = im0\<lparr>io_pool := pool, io_pass := pass,
                   io_engine := (if io_engine im0 = ''postgres'' then ''postgres'' else ''mysql'')\<rparr>;
         steps = (if io_engine im = ''postgres'' then init_steps_postgres C X I im else init_steps C X I im) in
     check (file_exists C config_file) (\<lambda>existed.
     then_do (say (''sashiki init: engine='' @ io_engine im @ '' pool='' @ pool @ '' device='' @ or_dash (io_device im)))
      (check (confirmed I (io_yes im) says_yes) (\<lambda>go.
       if \<not> go then then_do (say ''stopped'') (ret exit_error)
       else run_steps steps
        (then_do (print_out (next_steps (io_engine im)))
         (then_do (when_do (generated \<and> \<not> existed) (print_out (password_note pass))) (ret exit_ok))))))))"

definition init_defaults :: "'w cli_env \<Rightarrow> init_opts" where
  "init_defaults C = \<lparr>io_pool = ''dbpool'', io_device = [], io_skip_packages = False, io_explicit = False,
     io_yes = False, io_platform = ce_goos C, io_root = [], io_engine = ''mysql'', io_pass = []\<rparr>"

end
