(* ===== verification/CliInitDarwin.thy ===== *)
theory CliInitDarwin
  imports CliInit
begin

text \<open>
  cmd/sashiki: \<^verbatim>\<open>init\<close> on macOS (initdarwin.go, initdarwin_postgres.go, darwinroot_*.go), the
  command with its choice of the platform (init.go), and with it all commands that work on the machine.
\<close>

section \<open>Finding programs\<close>

definition first_existing :: "'w cli_env \<Rightarrow> string list \<Rightarrow> ('w, string option) cact" where
  "first_existing C ps = fold_act (\<lambda>p found. if found \<noteq> None then ret found
     else check (bin_exists C p) (\<lambda>x. ret (if x then Some p else None))) ps None"

definition mysql_at_8 :: string where
  "mysql_at_8 = ''mysql'' @ CHR 0x40 # ''8.0''"

definition resolve_mysqld :: "'w cli_env \<Rightarrow> ('w, string) cact" where
  "resolve_mysqld C = attempt (plain_run C (bare_cmd ''brew'' [''--prefix'', mysql_at_8])) (\<lambda>r.
     check (first_existing C ((case r of Inl e \<Rightarrow> [] | Inr out \<Rightarrow> [in_dir (in_dir (trim_space out) ''bin'') ''mysqld''])
       @ map (\<lambda>p. in_dir p ''bin/mysqld'') [''/opt/homebrew/opt/'' @ mysql_at_8, ''/usr/local/opt/'' @ mysql_at_8,
            ''/opt/homebrew/opt/mysql'', ''/usr/local/opt/mysql''])) (\<lambda>found. case found of
         Some p \<Rightarrow> ret p
       | None \<Rightarrow> handle_err (outside (ce_look_path C ''mysqld''))
           (\<lambda>_. throw (EText (''no mysqld; run brew install '' @ mysql_at_8))) ret))"

definition resolve_sashikid :: "'w cli_env \<Rightarrow> 'w installer \<Rightarrow> ('w, string) cact" where
  "resolve_sashikid C I = attempt (outside (in_executable I)) (\<lambda>r.
     check (first_existing C (case r of Inl e \<Rightarrow> [] | Inr exe \<Rightarrow> [in_dir (dir_name exe) ''sashikid''])) (\<lambda>found.
       case found of Some p \<Rightarrow> ret p
       | None \<Rightarrow> handle_err (outside (ce_look_path C ''sashikid''))
           (\<lambda>_. throw (EText ''no sashikid (put it next to sashiki)'')) ret))"

definition default_host_name :: "'w installer \<Rightarrow> ('w, string) cact" where
  "default_host_name I = attempt (outside (in_hostname I)) (\<lambda>r. ret (case r of
      Inl e \<Rightarrow> ''sashiki''
    | Inr h \<Rightarrow> if h = [] then ''sashiki'' else (case cut_suffix h ''.local'' of Some x \<Rightarrow> x | None \<Rightarrow> h)))"

section \<open>The root directory (darwinroot_darwin.go, darwinroot_other.go)\<close>

definition fs_type_of :: "'w installer \<Rightarrow> string \<Rightarrow> ('w, string) cact" where
  "fs_type_of I p = check (outside (in_statfs I p)) (\<lambda>name. ret (takeWhile (\<lambda>c. c \<noteq> CHR 0x00) name))"

definition prepare_darwin_root :: "'w cli_env \<Rightarrow> 'w installer \<Rightarrow> string \<Rightarrow> ('w, unit) cact" where
  "prepare_darwin_root C I base = check (outside (h_mkdir_all (ce_machine C) base)) (\<lambda>_.
     check (wrapping (\<lambda>e. EWrap (''statfs '' @ base @ '': '') e []) (fs_type_of I base)) (\<lambda>fs.
     if fs \<noteq> ''apfs'' then throw (EText (base @ '' is on '' @ fs @ ''; APFS (clonefile) is needed; choose another --root''))
     else handle_err (run_out C ''tmutil'' [''addexclusion'', in_abs I base])
       (\<lambda>e. complain (''sashiki init: warning: Time Machine does not leave out '' @ in_abs I base @ '': '' @ err_text e))
       (\<lambda>_. say (''  left out of Time Machine: '' @ in_abs I base))))"

definition prepare_other_root :: "string \<Rightarrow> ('w, unit) cact" where
  "prepare_other_root base = ret ()"

definition prepare_root :: "'w cli_env \<Rightarrow> 'w installer \<Rightarrow> string \<Rightarrow> ('w, unit) cact" where
  "prepare_root C I base = (if ce_goos C = ''darwin'' then prepare_darwin_root C I base else prepare_other_root base)"

section \<open>The application user of the first baseline\<close>

text \<open>\<^verbatim>\<open>provisionDevUser\<close>: at most a hundred attempts, and at most ten seconds of waiting for the end.\<close>

definition dev_user_sql :: "string \<Rightarrow> string \<Rightarrow> string" where
  "dev_user_sql plugin pass = (let u = ticks ''dev'' @ CHR 0x40 # ticks ''%'' in
     ''CREATE USER IF NOT EXISTS '' @ u @ '' IDENTIFIED WITH '' @ plugin @ '' BY '' @ string_literal pass @ '';''
     @ ''GRANT ALL PRIVILEGES ON *.* TO '' @ u @ '' WITH GRANT OPTION;''
     @ ''CREATE DATABASE IF NOT EXISTS app;FLUSH PRIVILEGES;'')"

definition init_socket :: string where
  "init_socket = ''/tmp/sashiki-init.sock''"

primrec dev_user_attempts :: "'w cli_env \<Rightarrow> string \<Rightarrow> string \<Rightarrow> nat \<Rightarrow> err \<Rightarrow> ('w, unit) cact" where
  "dev_user_attempts C client pass 0 e = throw (EText (''could not make the user dev: '' @ err_text e))"
| "dev_user_attempts C client pass (Suc n) e =
     check (auth_plugin_for C client init_socket) (\<lambda>plugin.
     handle_err (combined C [] (bare_cmd client
         [''--socket='' @ init_socket, ''-uroot'', ''-e'', dev_user_sql plugin pass]))
       (\<lambda>e. check (asking (ce_sleep C 100000000)) (\<lambda>_. dev_user_attempts C client pass n e)) ret)"

primrec await_exit :: "'w cli_env \<Rightarrow> 'w installer \<Rightarrow> int \<Rightarrow> nat \<Rightarrow> ('w, unit) cact" where
  "await_exit C I pid 0 = ret ()"
| "await_exit C I pid (Suc n) = check (asking (in_kill I pid False)) (\<lambda>alive.
     if \<not> alive then ret ()
     else check (asking (ce_sleep C 100000000)) (\<lambda>_. await_exit C I pid n))"

definition end_init_server :: "'w cli_env \<Rightarrow> 'w installer \<Rightarrow> string \<Rightarrow> ('w, unit) cact" where
  "end_init_server C I pid_file = attempt (outside (h_read_file (ce_machine C) pid_file)) (\<lambda>r.
     check (case r of Inl e \<Rightarrow> ret ()
       | Inr b \<Rightarrow> (case atoi (trim_space b) of None \<Rightarrow> ret ()
         | Some p \<Rightarrow> check (asking (in_kill I p True)) (\<lambda>_. await_exit C I p 100))) (\<lambda>_.
     check (asking (h_remove (ce_machine C) init_socket)) (\<lambda>_. ret ())))"

definition init_server_args :: "string \<Rightarrow> string list" where
  "init_server_args data = [''--no-defaults'', ''--datadir='' @ data, ''--socket='' @ init_socket,
     ''--pid-file='' @ in_dir data ''init.pid'', ''--skip-networking'',
     ''--log-error='' @ in_dir data ''init.err.log'', ''--daemonize'']"

definition provision_dev_user :: "'w cli_env \<Rightarrow> 'w installer \<Rightarrow> string \<Rightarrow> string \<Rightarrow> string \<Rightarrow> ('w, unit) cact" where
  "provision_dev_user C I mysqld data pass = (let pid_file = in_dir data ''init.pid'' in
     check (asking (h_remove (ce_machine C) init_socket)) (\<lambda>_.
     check (asking (h_remove (ce_machine C) pid_file)) (\<lambda>_.
     check (combined C ''start of the temporary mysqld: '' (bare_cmd mysqld (init_server_args data))) (\<lambda>_.
     deferring (end_init_server C I pid_file)
       (dev_user_attempts C (in_dir (dir_name mysqld) ''mysql'') pass 100 (EText ''<nil>''))))))"

section \<open>Steps of both engines\<close>

definition render_tmpl :: "string \<Rightarrow> (string \<times> string) list \<Rightarrow> err + string" where
  "render_tmpl tmpl kvs = fill (\<lambda>k. Inr (case map_of kvs k of Some v \<Rightarrow> v | None \<Rightarrow> ''<no value>'')) None tmpl"

definition darwin_dirs_step :: "'w cli_env \<Rightarrow> string \<Rightarrow> 'w step" where
  "darwin_dirs_step C base = always ''directories (base / branches / run / log / hooks)''
     (make_dirs C (in_dir (in_dir base ''base'') ''snap'' # map (in_dir base) [''branches'', ''run'', ''log'', ''hooks'']))"

definition baseline_present :: "'w cli_env \<Rightarrow> string \<Rightarrow> ('w, bool) cact" where
  "baseline_present C base = file_exists C (in_dir base ''base/snap/baseline'')"

definition copy_baseline :: "'w cli_env \<Rightarrow> string \<Rightarrow> ('w, unit) cact" where
  "copy_baseline C base = run_out C ''cp'' [''-Rc'', in_dir base ''base/data'', in_dir base ''base/snap/baseline'']"

definition joined :: "string \<Rightarrow> string \<Rightarrow> string" where
  "joined d n = (if d = [] then n else in_dir d n)"

definition launchd_step ::
  "'w cli_env \<Rightarrow> 'w installer \<Rightarrow> string \<Rightarrow> string \<Rightarrow> string \<Rightarrow> string \<Rightarrow> (string \<Rightarrow> string) \<Rightarrow> 'w step" where
  "launchd_step C I label sashikid config log_dir change = always (''register sashikid with launchd ('' @ label @ '')'')
     (let agents = joined (case user_home C of Inl e \<Rightarrow> [] | Inr h \<Rightarrow> h) ''Library/LaunchAgents'';
          plist = in_dir agents (label @ ''.plist'') in
      check (outside (h_mkdir_all (ce_machine C) agents)) (\<lambda>_.
      check (of_sum (render_tmpl (in_asset I ''sashikid.plist.tmpl'')
         [(''SashikidBin'', sashikid), (''Config'', config), (''Log'', log_dir)])) (\<lambda>text.
      check (write_mode I plist (change text) 420) (\<lambda>_.
      check (running C (bare_cmd ''launchctl'' [''unload'', plist])) (\<lambda>_.
      run_out C ''launchctl'' [''load'', ''-w'', plist])))))"

definition darwin_config_step ::
  "'w cli_env \<Rightarrow> 'w installer \<Rightarrow> string \<Rightarrow> string \<Rightarrow> (string \<times> string) list \<Rightarrow> 'w step" where
  "darwin_config_step C I config asset kvs = unless_done ''config.yaml'' (file_exists C config)
     (check (default_host_name I) (\<lambda>host.
      check (of_sum (render_tmpl (in_asset I asset) (kvs @ [(''HostName'', host)]))) (\<lambda>text.
      write_mode I config text 384)))"

definition says_y :: "string \<Rightarrow> bool" where
  "says_y ans \<longleftrightarrow> take 1 ans = ''y'' \<or> take 1 ans = ''Y''"

text \<open>The directory: as given, or below the home directory.\<close>

definition darwin_root :: "'w cli_env \<Rightarrow> init_opts \<Rightarrow> string \<Rightarrow> err + string" where
  "darwin_root C im name = (if io_root im \<noteq> [] then Inr (io_root im)
     else case user_home C of Inl e \<Rightarrow> Inl e | Inr h \<Rightarrow> Inr (h @ ''/Library/Application Support/'' @ name))"

definition init_failed :: "err \<Rightarrow> ('w, int) cact" where
  "init_failed e = quit_with (''sashiki init: '' @ err_text e) exit_error"

section \<open>MySQL (initdarwin.go)\<close>

definition darwin_steps ::
  "'w cli_env \<Rightarrow> 'w installer \<Rightarrow> string \<Rightarrow> string \<Rightarrow> string \<Rightarrow> string \<Rightarrow> 'w step list" where
  "darwin_steps C I base mysqld sashikid pass =
     (let data = in_dir base ''base/data''; config = in_dir base ''config.yaml'' in
      [darwin_dirs_step C base,
       unless_done ''initialise the base datadir (mysqld --initialize-insecure)'' (dir_non_empty C data)
         (check (outside (h_mkdir_all (ce_machine C) data)) (\<lambda>_.
          run_out C mysqld [''--no-defaults'', ''--initialize-insecure'', ''--datadir='' @ data])),
       unless_done ''make the app user (dev) of the baseline'' (baseline_present C base)
         (provision_dev_user C I mysqld data pass),
       unless_done ''baseline snapshot (clonefile)'' (baseline_present C base)
         (check (remove_if_there C (in_dir data ''auto.cnf'')) (\<lambda>_. copy_baseline C base)),
       darwin_config_step C I config ''config.darwin.yaml.tmpl''
         [(''Root'', base), (''MysqldBin'', mysqld), (''AppPass'', yaml_quote pass)],
       launchd_step C I ''dev.sashiki.sashikid'' sashikid config (in_dir base ''log'') id])"

definition init_darwin_mysql :: "'w cli_env \<Rightarrow> 'w installer \<Rightarrow> init_opts \<Rightarrow> ('w, int) cact" where
  "init_darwin_mysql C I im =
     handle_err (resolve_mysqld C) init_failed (\<lambda>mysqld.
     handle_err (of_sum (darwin_root C im ''sashiki'')) init_failed (\<lambda>base.
     handle_err (resolve_sashikid C I) init_failed (\<lambda>sashikid.
     then_do (say (''sashiki init (darwin): root='' @ base @ '' mysqld='' @ mysqld))
      (check (confirmed I (io_yes im) says_y) (\<lambda>go.
       if \<not> go then then_do (say ''stopped'') (ret exit_error)
       else handle_err (prepare_root C I base) init_failed (\<lambda>_.
         run_steps (darwin_steps C I base mysqld sashikid (or_else (io_pass im) ''dev''))
           (tell (''init finished (darwin). sashikid runs under launchd; the config is ''
              @ in_dir base ''config.yaml''))))))))"

section \<open>PostgreSQL (initdarwin_postgres.go)\<close>

definition pg_init_port :: string where
  "pg_init_port = ''5497''"

definition formula_prefix :: string where
  "formula_prefix = ''postgresql'' @ [CHR 0x40]"

definition bare_version :: "string \<Rightarrow> string" where
  "bare_version n = (case cut_prefix n formula_prefix of Some v \<Rightarrow> v | None \<Rightarrow> n)"

text \<open>
  The formulae, newest first: \<^verbatim>\<open>sort.Slice\<close>, which inserts one after the other (below twelve) from
  the end. The list under construction is kept with its end first.
\<close>

fun insert_formula :: "string \<Rightarrow> string list \<Rightarrow> string list" where
  "insert_formula x [] = [x]"
| "insert_formula x (y # ys) =
     (if pg_version_less (bare_version y) (bare_version x) then y # insert_formula x ys else x # y # ys)"

definition newest_formulae :: "string list \<Rightarrow> string list" where
  "newest_formulae ns = rev (fold insert_formula ns [])"

definition brew_postgres_formulae :: "'w cli_env \<Rightarrow> ('w, string list) cact" where
  "brew_postgres_formulae C = attempt (plain_run C (bare_cmd ''brew'' [''list'', ''--formula''])) (\<lambda>r. case r of
      Inl e \<Rightarrow> ret (map (\<lambda>v. formula_prefix @ v) [''18'', ''17'', ''16'', ''15''] @ [''postgresql''])
    | Inr out \<Rightarrow> (let names = map trim_space (split_on newline out) in
        ret (newest_formulae (filter (\<lambda>n. has_prefix n formula_prefix) names)
          @ (if ''postgresql'' \<in> set names then [''postgresql''] else []))))"

definition resolve_postgres_bin_dir :: "'w cli_env \<Rightarrow> ('w, string) cact" where
  "resolve_postgres_bin_dir C = check (brew_postgres_formulae C) (\<lambda>fs.
     check (fold_act (\<lambda>f found. attempt (plain_run C (bare_cmd ''brew'' [''--prefix'', f])) (\<lambda>r. case r of
         Inl e \<Rightarrow> ret found
       | Inr out \<Rightarrow> (let p = in_dir (trim_space out) ''bin'' in
           check (bin_exists C (in_dir p ''initdb'')) (\<lambda>x. ret (if x then found @ [p] else found))))) fs []) (\<lambda>found.
     if found \<noteq> [] then ret (hd found)
     else handle_err (outside (ce_look_path C ''initdb''))
       (\<lambda>_. throw (EText ''no postgres; run brew install postgresql'')) (\<lambda>p. ret (dir_name p))))"

definition with_temp_postgres ::
  "'w cli_env \<Rightarrow> string \<Rightarrow> string \<Rightarrow> string \<Rightarrow> ('w, unit) cact \<Rightarrow> ('w, unit) cact" where
  "with_temp_postgres C dir data log_dir work =
     (let log_path = in_dir log_dir ''init-postgres.log''; ctl = in_dir dir ''pg_ctl'';
          options = ''-p '' @ pg_init_port @ '' -c listen_addresses='' @ ticks []
            @ '' -c unix_socket_directories='' @ h_tmp_dir (ce_machine C) in
      check (wrapping (\<lambda>e. EWrap ''pg_ctl start: '' e ('' (see '' @ log_path @ '')''))
        (plain_run C (bare_cmd ctl [''start'', ''-D'', data, ''-o'', options, ''-l'', log_path, ''-w'', ''-t'', ''60'']))) (\<lambda>_.
      attempt work (\<lambda>done.
      attempt (plain_run C (bare_cmd ctl [''stop'', ''-D'', data, ''-m'', ''fast'', ''-w'', ''-t'', ''60''])) (\<lambda>stop.
      case (done, stop) of
        (Inl e, _) \<Rightarrow> throw e
      | (Inr u, Inl e) \<Rightarrow> throw (EWrap ''pg_ctl stop: '' e [])
      | (Inr u, Inr out) \<Rightarrow> ret ()))))"

fun replace_prefixes :: "nat \<Rightarrow> string \<Rightarrow> string \<Rightarrow> string \<Rightarrow> string" where
  "replace_prefixes 0 old new s = s"
| "replace_prefixes (Suc n) old new s =
     (if s = [] then [] else if has_prefix s old then new @ replace_prefixes n old new (drop (length old) s)
      else hd s # replace_prefixes n old new (tl s))"

text \<open>\<^verbatim>\<open>strings.ReplaceAll\<close> for a pattern that is not empty.\<close>

definition replace_all :: "string \<Rightarrow> string \<Rightarrow> string \<Rightarrow> string" where
  "replace_all old new s = replace_prefixes (length s) old new s"

definition pg_label :: string where
  "pg_label = ''dev.sashiki.sashikid-pg''"

definition darwin_pg_sql :: "'w cli_env \<Rightarrow> string \<Rightarrow> string \<Rightarrow> ('w, unit) cact" where
  "darwin_pg_sql C dir q = run_out_env C [''PGHOST='' @ h_tmp_dir (ce_machine C), ''PGPORT='' @ pg_init_port,
       ''PGCONNECT_TIMEOUT=10''] (in_dir dir ''psql'')
     [''-w'', ''-v'', ''ON_ERROR_STOP=1'', ''-d'', ''postgres'', ''-c'', q]"

definition darwin_pg_steps ::
  "'w cli_env \<Rightarrow> 'w installer \<Rightarrow> string \<Rightarrow> string \<Rightarrow> string \<Rightarrow> string \<Rightarrow> 'w step list" where
  "darwin_pg_steps C I base dir sashikid pass =
     (let data = in_dir base ''base/data''; config = in_dir base ''config.yaml''; log_dir = in_dir base ''log'' in
      [darwin_dirs_step C base,
       unless_done ''initialise the base cluster (initdb)'' (dir_non_empty C data)
         (check (outside (h_mkdir_all (ce_machine C) data)) (\<lambda>_.
          run_out C (in_dir dir ''initdb'') [''-D'', data, ''--auth-host=scram-sha-256'', ''--auth-local=trust''])),
       unless_done ''make the role (dev) and the database app of the baseline'' (baseline_present C base)
         (with_temp_postgres C dir data log_dir
           (check (darwin_pg_sql C dir (''CREATE ROLE '' @ quote_ident ''dev'' @ '' LOGIN SUPERUSER PASSWORD ''
               @ quote_literal pass)) (\<lambda>_.
            darwin_pg_sql C dir (''CREATE DATABASE '' @ quote_ident ''app'' @ '' OWNER '' @ quote_ident ''dev'')))),
       unless_done ''baseline snapshot (clonefile)'' (baseline_present C base) (copy_baseline C base),
       darwin_config_step C I config ''config.darwin.postgres.yaml.tmpl''
         [(''Root'', base), (''PgBinDir'', dir), (''AppPass'', yaml_quote pass)],
       launchd_step C I pg_label sashikid config log_dir (replace_all ''dev.sashiki.sashikid'' pg_label)])"

definition init_darwin_postgres :: "'w cli_env \<Rightarrow> 'w installer \<Rightarrow> init_opts \<Rightarrow> ('w, int) cact" where
  "init_darwin_postgres C I im =
     handle_err (resolve_postgres_bin_dir C) init_failed (\<lambda>dir.
     handle_err (of_sum (darwin_root C im ''sashiki-pg'')) init_failed (\<lambda>base.
     handle_err (resolve_sashikid C I) init_failed (\<lambda>sashikid.
     let pass = or_else (io_pass im) ''dev'' in
     then_do (say (''sashiki init (darwin/postgres): root='' @ base @ '' bin_dir='' @ dir))
      (check (confirmed I (io_yes im) says_y) (\<lambda>go.
       if \<not> go then then_do (say ''stopped'') (ret exit_error)
       else handle_err (prepare_root C I base) init_failed (\<lambda>_.
         run_steps (darwin_pg_steps C I base dir sashikid pass)
           (tell (''init finished (darwin/postgres, API on :8081). PGPASSWORD='' @ pass @ '' psql ...; the config is ''
              @ in_dir base ''config.yaml''))))))))"

section \<open>The commands\<close>

definition init_darwin :: "'w cli_env \<Rightarrow> 'w installer \<Rightarrow> init_opts \<Rightarrow> ('w, int) cact" where
  "init_darwin C I im = (if io_engine im = ''postgres'' then init_darwin_postgres C I im else init_darwin_mysql C I im)"

definition cmd_init :: "'w cli_env \<Rightarrow> 'w works \<Rightarrow> 'w installer \<Rightarrow> string list \<Rightarrow> ('w, int) cact" where
  "cmd_init C X I args = (case init_flags args (init_defaults C) of
       None \<Rightarrow> usage
     | Some im \<Rightarrow>
        if io_engine im \<notin> {[], ''mysql'', ''postgres''} then
          quit_with (''sashiki init: --engine '' @ go_quote (io_engine im) @ '' is not supported (mysql | postgres)'') exit_usage
        else if io_platform im = ''darwin'' then init_darwin C I im
        else if \<not> h_is_root (ce_machine C) then
          quit_with ''sashiki init: run it as root (sudo sashiki init ...)'' exit_error
        else init_linux C X I im)"

definition machine_of :: "'w cli_env \<Rightarrow> 'w works \<Rightarrow> 'w installer \<Rightarrow> 'w machine_commands" where
  "machine_of C X I = \<lparr>mx_init = cmd_init C X I, mx_import = cmd_baseline_import C X,
     mx_export = cmd_baseline_export C X, mx_import_stream = cmd_baseline_import_stream C X\<rparr>"

end
