(* ===== verification/CliWorkSample.thy ===== *)
theory CliWorkSample
  imports CliImportFacts CliInitDarwin
begin

text \<open>
  A machine for the examples: it keeps the log of the commands and of the files found absent, every
  command but \<^verbatim>\<open>list\<close> succeeds, and no file exists.
\<close>

definition log_run :: "cmd \<Rightarrow> cli_event list \<Rightarrow> (run_result \<times> string) \<times> cli_event list" where
  "log_run cm w = (let r = (if take 1 (cmd_args cm) = [''list''] then RunExit 1 (EText ''not found'') else RunOk)
     in ((r, if take 1 (cmd_args cm) = [''get''] then ''/pool/base'' else []), w @ [Ran cm (run_error r = None)]))"

definition log_host :: "cli_event list host" where
  "log_host = \<lparr>h_stat = (\<lambda>p w. (FsNotExist ENotFound, w @ [Absent p])), h_remove = (\<lambda>p w. (FsOk, w)),
     h_open = (\<lambda>p. ret ()), h_glob = (\<lambda>p. ret []), h_read_dir = (\<lambda>p. ret []), h_executable = (\<lambda>p. ret False),
     h_mod_time = (\<lambda>p. ret 0), h_mkdir_all = (\<lambda>p. ret ()), h_create = (\<lambda>p. ret ()),
     h_read_file = (\<lambda>p. throw ENotFound), h_run = log_run, h_sigterm = (\<lambda>p w. ((), w)), h_is_root = True,
     h_environ = [], h_tmp_dir = ''/tmp'', h_lookup_user = (\<lambda>u. Some (999, 999))\<rparr>"

definition log_cli :: "cli_event list cli_env" where
  "log_cli = \<lparr>ce_machine = log_host, ce_read = (\<lambda>p w. ((FsOk, []), w)), ce_hosts = (\<lambda>t. Inr sample_hosts),
     ce_http = (\<lambda>q w. (sample_answer q, w)), ce_parse = sample_parse, ce_print = (\<lambda>j. []),
     ce_now = (\<lambda>w. (0, w)), ce_sleep = (\<lambda>d w. ((), w)),
     ce_duration = (\<lambda>s. Inl (EText ''time: invalid duration'')), ce_show_duration = (\<lambda>d. ''1m0s''),
     ce_percent = (\<lambda>r. ''0%''), ce_order = id, ce_random = (\<lambda>n. ret (replicate n (CHR 0x00))),
     ce_sha256 = id, ce_look_path = (\<lambda>p. ret (''/usr/bin/'' @ p)), ce_exec = (\<lambda>p a e. ret 0),
     ce_mode = (\<lambda>p. ret 384), ce_create_temp = (\<lambda>d p. ret (d @ ''/tmp'')),
     ce_write = (\<lambda>p t. ret ()), ce_close = (\<lambda>p. ret ()), ce_chmod = (\<lambda>p m. ret ()),
     ce_rename = (\<lambda>p q. ret ()), ce_decoder = sample_decoder, ce_open_db = (\<lambda>p. ret ()),
     ce_db = (\<lambda>p w. open_db), ce_set_db = (\<lambda>p d w. w), ce_db_fault = (\<lambda>w. (None, w)),
     ce_goos = ''linux'', ce_version = ''dev'', ce_rounds = 1\<rparr>"

definition log_feed :: "stream \<Rightarrow> cmd \<Rightarrow> cli_event list \<Rightarrow> (run_result \<times> string) \<times> cli_event list" where
  "log_feed src = log_run"

definition log_works :: "cli_event list works" where
  "log_works = \<lparr>wk_fs = \<lparr>lf_remove_all = (\<lambda>p. ret ()), lf_rename = (\<lambda>p q. ret ()), lf_missing = (\<lambda>e. True)\<rparr>,
     wk_ssm = \<lparr>sm_config = ret (), sm_get = (\<lambda>p. ret None)\<rparr>, wk_is_dir = (\<lambda>p. ret True), wk_walk = (\<lambda>p w. ([], w)),
     wk_chown = (\<lambda>p u. ret ()), wk_head = (\<lambda>p n. ret []), wk_cpus = 4, wk_pick = (\<lambda>w. (0, w)),
     wk_pipe = ret (), wk_start = (\<lambda>p xs. ret 1), wk_feed = log_feed, wk_pour = (\<lambda>s c w. (RunOk, w)),
     wk_copy = (\<lambda>s p. ret ()), wk_close_file = (\<lambda>p. ret ()), wk_close_pipe = (\<lambda>n. ret ()),
     wk_wait = (\<lambda>n. ret ())\<rparr>"

lemma log_machine: "logs_commands log_cli log_works id"
  by (simp add: logs_commands_def logs_files_def logs_process_def untouched_def log_cli_def log_works_def
      log_host_def log_feed_def log_run_def Let_def ret_def)

definition plain_import :: import_opts where
  "plain_import = \<lparr>im_from = [], im_config = [], im_db = [], im_cnf = [], im_threads = 4\<rparr>"

end
