(* ===== verification/CliWorkFacts.thy ===== *)
theory CliWorkFacts
  imports CliWorkSample LoaderFacts "HOL-Library.Multiset"
begin

text \<open>
  The properties of \<^verbatim>\<open>baseline import\<close>: the order of the commands around the temporary server, and
  what the parallel loading of a dump directory runs.
\<close>

section \<open>The temporary server\<close>

text \<open>C25. In every run of baseline import, for both engines and every backend, whatever fails, each
  snapshot is taken when the temporary server was stopped by a command that succeeded (and for mysqld its
  pid file was found absent afterwards); at the end no server that was started is left without an
  attempt to stop it; and when the import succeeds, the server was stopped.\<close>

theorem import_snapshots_stopped_server:
  assumes "logs_commands C X ev" and "ev (cl_world c) = []"
  shows "case run_baseline_import C X conf im c of (r, c') \<Rightarrow>
    let postgres = (ec_type (g_engine conf) = ''postgres'');
        s = observed postgres (runtime_path C conf ''sashiki-baseline.pid'') (ev (cl_world c'))
    in snd s \<and> fst s \<noteq> Up \<and> (r = Inr () \<longrightarrow> may_snapshot postgres (fst s))"
proof -
  let ?pg = "ec_type (g_engine conf) = ''postgres''" and ?pid = "runtime_path C conf ''sashiki-baseline.pid''"
  have "triple (sees_phase ev ?pg ?pid NotStarted) (run_baseline_import C X conf im)
      (\<lambda>_. sees_phase ev ?pg ?pid (if ?pg then Stopped else Gone)) (\<lambda>_ c. wound_up (seen ev ?pg ?pid c))"
    unfolding run_baseline_import_def
    using pg_imports [OF assms(1)] mysql_imports [OF assms(1) refl] by simp
  moreover have "sees_phase ev ?pg ?pid NotStarted c"
    using assms(2) by (simp add: seen_def observed_def)
  moreover obtain r c' where run: "run_baseline_import C X conf im c = (r, c')" by force
  ultimately have "case r of Inr u \<Rightarrow> sees_phase ev ?pg ?pid (if ?pg then Stopped else Gone) c'
      | Inl e \<Rightarrow> wound_up (seen ev ?pg ?pid c')"
    by (rule tripleD)
  then show ?thesis
    by (cases r) (auto simp: run Let_def wound_up_def seen_def may_snapshot_def)
qed

theorem import_snapshots_stopped_server_witness:
  "case run_baseline_import log_cli log_works default_config plain_import (fresh_cli []) of (r, c') \<Rightarrow>
    let postgres = (ec_type (g_engine default_config) = ''postgres'');
        s = observed postgres (runtime_path log_cli default_config ''sashiki-baseline.pid'') (id (cl_world c'))
    in snd s \<and> fst s \<noteq> Up \<and> (r = Inr () \<longrightarrow> may_snapshot postgres (fst s))"
  by (rule import_snapshots_stopped_server [OF log_machine]) (simp add: fresh_cli_def)

section \<open>Loading a dump directory\<close>

text \<open>What a load leaves in the log: the file it was given, and whether it succeeded.\<close>

definition load_event :: "string \<Rightarrow> string \<Rightarrow> string \<Rightarrow> string \<times> bool \<Rightarrow> cli_event" where
  "load_event mysql sock db q = Ran ((bare_cmd mysql (bulk_args sock db))\<lparr>cmd_stdin := Some (fst q)\<rparr>) (snd q)"

definition loads_logged :: "('w \<Rightarrow> cli_event list) \<Rightarrow> (string \<times> bool \<Rightarrow> cli_event) \<Rightarrow> (string \<Rightarrow> ('w, unit) cact) \<Rightarrow> bool" where
  "loads_logged ev shown load \<longleftrightarrow> (\<forall>p c r c'. load p c = (r, c') \<longrightarrow>
     (\<exists>qs. ev (cl_world c') = ev (cl_world c) @ map shown qs
        \<and> (if r = Inr () then qs = [(p, True)] else qs = [] \<or> qs = [(p, False)])))"

lemma load_one_logged:
  assumes L: "logs_commands C X ev"
  shows "loads_logged ev (load_event mysql sock db) (load_one_file C mysql sock db)"
  unfolding loads_logged_def
proof (intro allI impI)
  fix p c r c' assume run: "load_one_file C mysql sock db p c = (r, c')"
  let ?cm = "(bare_cmd mysql (bulk_args sock db))\<lparr>cmd_stdin := Some p\<rparr>"
  obtain opened w where o: "h_open (ce_machine C) p (cl_world c) = (opened, w)" by force
  then have w: "ev w = ev (cl_world c)"
    using logs_calls(2) [OF L, of p] unfolding untouched_def by (metis snd_conv)
  obtain res out w' where h: "h_run (ce_machine C) ?cm w = ((res, out), w')" by (metis prod.exhaust)
  then have w': "ev w' = ev w @ [Ran ?cm (run_error res = None)]"
    using L unfolding logs_commands_def by (metis fst_conv snd_conv)
  show "\<exists>qs. ev (cl_world c') = ev (cl_world c) @ map (load_event mysql sock db) qs
      \<and> (if r = Inr () then qs = [(p, True)] else qs = [] \<or> qs = [(p, False)])"
  proof (cases opened)
    case (Inl e)
    then show ?thesis using run o w
      by (auto simp: load_one_file_def check_def outside_def)
  next
    case (Inr u)
    then have "cl_world c' = w'" and "r = (case run_error res of None \<Rightarrow> Inr () | Some e \<Rightarrow>
        Inl (EWrap (''load '' @ base_name p @ '': '') e ('': '' @ trim_space out)))"
      using run o h by (auto simp: load_one_file_def check_def outside_def combined_def running_def asking_def
          combined_text_def throw_def ret_def split: option.splits)
    then show ?thesis using w w'
      by (intro exI [of _ "[(p, run_error res = None)]"]) (auto simp: load_event_def split: option.split)
  qed
qed

fun unstarted :: "load_starter \<Rightarrow> string list" where
  "unstarted (NextOf ps) = ps"
| "unstarted (PlaceFor p ps) = p # ps"
| "unstarted WaitAll = []"

definition to_load :: "par \<Rightarrow> string multiset" where
  "to_load st = mset (unstarted (pa_starter st)) + mset (pa_running st)"

lemma mset_without: "i < length xs \<Longrightarrow> add_mset (xs ! i) (mset (without i xs)) = mset xs"
  unfolding without_def by (metis id_take_nth_drop mset.simps(2) mset_append union_mset_add_mset_right)

lemma note_error_simps [simp]: "to_load (note_error r st) = to_load st"
    "pa_error (note_error r st) = None \<longleftrightarrow> r = Inr () \<and> pa_error st = None"
  by (auto simp: note_error_def to_load_def split: sum.split)

text \<open>A step of the starter drops files only after an error; a load that ends is a file less.\<close>

lemma par_step_to_load:
  assumes "k < par_choices n st" and "par_step n k st = (st', done)"
  shows "pa_error st' = pa_error st"
    and "to_load st' + (case done of None \<Rightarrow> {#} | Some p \<Rightarrow> {#p#}) \<subseteq># to_load st"
    and "pa_error st = None \<Longrightarrow> to_load st' + (case done of None \<Rightarrow> {#} | Some p \<Rightarrow> {#p#}) = to_load st"
proof -
  have "pa_error st' = pa_error st \<and>
    to_load st' + (case done of None \<Rightarrow> {#} | Some p \<Rightarrow> {#p#}) \<subseteq># to_load st \<and>
    (pa_error st = None \<longrightarrow> to_load st' + (case done of None \<Rightarrow> {#} | Some p \<Rightarrow> {#p#}) = to_load st)"
  proof (cases "starter_ready n st \<and> k = 0")
    case True
    then show ?thesis using assms(2)
      by (auto simp: par_step_def starter_step_def starter_ready_def to_load_def
          split: load_starter.splits list.splits)
  next
    case False
    define i where "i = (if starter_ready n st then k - 1 else k)"
    have i: "i < length (pa_running st)" using assms(1) False by (auto simp: par_choices_def i_def split: if_splits)
    then have "st' = st\<lparr>pa_running := without i (pa_running st)\<rparr>" "done = Some (pa_running st ! i)"
      using assms(2) False unfolding par_step_def i_def [symmetric] Let_def by (auto simp: i_def)
    then show ?thesis using mset_without [OF i] by (simp add: to_load_def)
  qed
  then show "pa_error st' = pa_error st"
    and "to_load st' + (case done of None \<Rightarrow> {#} | Some p \<Rightarrow> {#p#}) \<subseteq># to_load st"
    and "pa_error st = None \<Longrightarrow> to_load st' + (case done of None \<Rightarrow> {#} | Some p \<Rightarrow> {#p#}) = to_load st"
    by blast+
qed

lemma par_choices_end: "1 \<le> n \<Longrightarrow> par_choices n st = 0 \<Longrightarrow> to_load st = {#}"
  by (auto simp: par_choices_def starter_ready_def to_load_def split: if_splits load_starter.splits)

definition loaded :: "(string \<times> bool) list \<Rightarrow> par \<Rightarrow> err + unit \<Rightarrow> bool" where
  "loaded qs st r \<longleftrightarrow> mset (map fst qs) \<subseteq># to_load st
     \<and> (r = Inr () \<longrightarrow> pa_error st = None \<and> mset (map fst qs) = to_load st \<and> list_all snd qs)"

lemma loaded_step:
  assumes "k < par_choices n st" and "par_step n k st = (st', None)" and "loaded qs st' r"
  shows "loaded qs st r"
proof -
  note s = par_step_to_load [OF assms(1,2)]
  have "to_load st' \<subseteq># to_load st" using s(2) by simp
  then show ?thesis using assms(3) s(1) s(3) unfolding loaded_def by (auto intro: subset_mset.order_trans)
qed

lemma loaded_more:
  assumes "k < par_choices n st" and "par_step n k st = (st', Some p)" and "loaded qs (note_error res st') r"
    and "if res = Inr () then q = [(p, True)] else q = [] \<or> q = [(p, False)]"
  shows "loaded (q @ qs) st r"
proof -
  note s = par_step_to_load [OF assms(1,2)]
  have q: "mset (map fst q) \<subseteq># {#p#}" using assms(4) by (auto split: if_splits)
  have "mset (map fst qs) \<subseteq># to_load st'" using assms(3) by (simp add: loaded_def)
  with q have "mset (map fst (q @ qs)) \<subseteq># to_load st' + {#p#}"
    using subset_mset.add_mono [of "mset (map fst qs)" "to_load st'" "mset (map fst q)" "{#p#}"]
    by (simp add: union_commute)
  then have "mset (map fst (q @ qs)) \<subseteq># to_load st"
    using s(2) by (auto intro: subset_mset.order_trans)
  moreover have "pa_error st = None \<and> mset (map fst (q @ qs)) = to_load st \<and> list_all snd (q @ qs)" if "r = Inr ()"
  proof -
    from that assms(3) have *: "res = Inr ()" "pa_error st' = None" "mset (map fst qs) = to_load st'" "list_all snd qs"
      by (auto simp: loaded_def)
    then show ?thesis using s(1) s(3) assms(4) by auto
  qed
  ultimately show ?thesis by (simp add: loaded_def)
qed

lemma load_parallel_log:
  assumes load: "loads_logged ev shown load" and n: "1 \<le> n" and pick: "\<And>w. ev (snd (wk_pick X w)) = ev w"
  shows "load_parallel X load n st c = (r, c') \<Longrightarrow>
    \<exists>qs. ev (cl_world c') = ev (cl_world c) @ map shown qs \<and> loaded qs st r"
proof (induction "par_weight st" arbitrary: st c r c' rule: less_induct)
  case less
  show ?case
  proof (cases "par_choices n st = 0")
    case True
    with less.prems par_choices_end [OF n True] show ?thesis
      by (intro exI [of _ "[]"]) (auto simp: load_parallel.simps [of X load n st c] loaded_def split: option.splits)
  next
    case False
    obtain k w where k: "wk_pick X (cl_world c) = (k, w)" by force
    then have w: "ev w = ev (cl_world c)" using pick [of "cl_world c"] by simp
    define j where "j = k mod par_choices n st"
    have j: "j < par_choices n st" using False by (simp add: j_def)
    obtain st' d where st': "par_step n j st = (st', d)" by force
    then have wt: "par_weight st' < par_weight st" using par_step_weight [OF j] by simp
    show ?thesis
    proof (cases d)
      case None
      then have "load_parallel X load n st' (c\<lparr>cl_world := w\<rparr>) = (r, c')"
        using less.prems False k st' by (simp add: load_parallel.simps [of X load n st c] j_def)
      then show ?thesis using less.hyps [OF wt] loaded_step [OF j] st' None w by fastforce
    next
      case (Some p)
      obtain res c1 where l: "load p (c\<lparr>cl_world := w\<rparr>) = (res, c1)" by force
      obtain q where q: "ev (cl_world c1) = ev w @ map shown q"
          "if res = Inr () then q = [(p, True)] else q = [] \<or> q = [(p, False)]"
        using load l unfolding loads_logged_def by (metis cli.select_convs(1) cli.surjective cli.update_convs(1))
      have rest: "load_parallel X load n (note_error res st') c1 = (r, c')"
        using less.prems False k st' Some l by (simp add: load_parallel.simps [of X load n st c] j_def)
      obtain qs where "ev (cl_world c') = ev (cl_world c1) @ map shown qs" "loaded qs (note_error res st') r"
        using less.hyps [OF _ rest] wt by auto
      then show ?thesis using loaded_more [OF j _ _ q(2)] st' Some q(1) w
        by (intro exI [of _ "q @ qs"]) auto
    qed
  qed
qed

lemma say_then: "then_do (say l) m c = m (c\<lparr>cl_out := cl_out c @ l @ [newline]\<rparr>)"
  by (simp add: then_do_def check_def say_def modifying_def)

lemma schema_log:
  assumes load: "loads_logged ev shown load"
  shows "fold_act (\<lambda>p _. then_do (say (f p)) (load p)) ps () c = (r, c') \<Longrightarrow>
    \<exists>qs. ev (cl_world c') = ev (cl_world c) @ map shown qs \<and> map fst qs = take (length qs) ps
      \<and> (r = Inr () \<longrightarrow> map fst qs = ps \<and> list_all snd qs)"
proof (induction ps arbitrary: c)
  case (Cons p ps)
  obtain res c1 where l: "load p (c\<lparr>cl_out := cl_out c @ f p @ [newline]\<rparr>) = (res, c1)" by force
  obtain q where q: "ev (cl_world c1) = ev (cl_world c) @ map shown q"
      "if res = Inr () then q = [(p, True)] else q = [] \<or> q = [(p, False)]"
    using load [unfolded loads_logged_def, rule_format, OF l] by auto
  show ?case
  proof (cases res)
    case (Inl e)
    then show ?thesis using Cons.prems l q
      by (intro exI [of _ q]) (auto simp: check_def say_then [of "f p" "load p" c])
  next
    case (Inr u)
    then have "fold_act (\<lambda>p _. then_do (say (f p)) (load p)) ps () c1 = (r, c')"
      using Cons.prems l by (simp add: check_def say_then [of "f p" "load p" c])
    then obtain qs where qs: "ev (cl_world c') = ev (cl_world c1) @ map shown qs"
        "map fst qs = take (length qs) ps" "r = Inr () \<longrightarrow> map fst qs = ps \<and> list_all snd qs"
      using Cons.IH by blast
    show ?thesis using qs q Inr by (intro exI [of _ "q @ qs"]) auto
  qed
qed (auto simp: ret_def)

lemma mset_split: "mset (map f (filter P xs)) + mset (map f (filter (\<lambda>x. \<not> P x) xs)) = mset (map f xs)"
  by (induction xs) auto

lemma dump_files_all:
  "dump_files dir ents = (schema, data) \<Longrightarrow>
    mset (schema @ data) = mset (map (\<lambda>e. in_dir dir (fst e)) (filter is_sql ents))"
  using mset_split [of "in_dir dir" is_schema "map fst (filter is_sql ents)"]
  by (auto simp: dump_files_def Let_def comp_def simp del: mset_map mset_filter)

text \<open>C26. Loading a dump directory on any number of threads, under every scheduler and whatever fails:
  first the schema files run one by one in their sorted order; a data file is loaded only when all
  schema files succeeded; no file is loaded twice; and success means that every .sql file of the directory was
  loaded exactly once and its load succeeded. A directory that cannot be listed is an error that loads nothing.\<close>

theorem dump_dir_loads_each_file_once:
  assumes "logs_commands C X ev" and "load_dump_dir C X mysql sock dir db threads c = (r, c')"
  shows "case fst (h_read_dir (ce_machine C) dir (cl_world c)) of
      Inl e \<Rightarrow> r = Inl e \<and> ev (cl_world c') = ev (cl_world c)
    | Inr ents \<Rightarrow> (case dump_files dir ents of (schema, data) \<Rightarrow> \<exists>ss ds.
        ev (cl_world c') = ev (cl_world c) @ map (load_event mysql sock db) (ss @ ds)
      \<and> map fst ss = take (length ss) schema \<and> mset (map fst ds) \<subseteq># mset data
      \<and> (ds \<noteq> [] \<longrightarrow> map fst ss = schema \<and> list_all snd ss)
      \<and> (r = Inr () \<longrightarrow> map fst ss = schema \<and> list_all snd (ss @ ds)
          \<and> mset (map fst (ss @ ds)) = mset (map (\<lambda>e. in_dir dir (fst e)) (filter is_sql ents))))"
proof -
  note load = load_one_logged [OF assms(1), of mysql sock db]
  obtain listed w where d: "h_read_dir (ce_machine C) dir (cl_world c) = (listed, w)" by force
  then have w: "ev w = ev (cl_world c)"
    using logs_calls(3) [OF assms(1), of dir] unfolding untouched_def by (metis snd_conv)
  show ?thesis
  proof (cases listed)
    case (Inl e)
    then show ?thesis using assms(2) d w by (auto simp: load_dump_dir_def check_def outside_def)
  next
    case (Inr ents)
    obtain schema data where sd: "dump_files dir ents = (schema, data)" by force
    let ?load = "load_one_file C mysql sock db" and ?n = "if threads < 1 then 1 else nat threads"
    let ?schema = "fold_act (\<lambda>p _. then_do (say (''-> schema ('' @ base_name p @ '')'')) (?load p)) schema ()"
    let ?start = "\<lparr>pa_starter = NextOf data, pa_running = [], pa_error = None\<rparr>"
    have pick: "\<And>w. ev (snd (wk_pick X w)) = ev w"
      using logs_calls(20) [OF assms(1)] by (simp add: untouched_def)
    have n: "1 \<le> ?n" by auto
    obtain rs cs where s: "?schema (c\<lparr>cl_world := w\<rparr>) = (rs, cs)" by force
    obtain ss where ss: "ev (cl_world cs) = ev w @ map (load_event mysql sock db) ss"
        "map fst ss = take (length ss) schema" "rs = Inr () \<longrightarrow> map fst ss = schema \<and> list_all snd ss"
      using schema_log [OF load s] by auto
    have "\<exists>ds. ev (cl_world c') = ev w @ map (load_event mysql sock db) (ss @ ds) \<and>
        mset (map fst ds) \<subseteq># mset data \<and> (ds \<noteq> [] \<longrightarrow> rs = Inr ()) \<and>
        (r = Inr () \<longrightarrow> rs = Inr () \<and> mset (map fst ds) = mset data \<and> list_all snd ds)"
    proof (cases "schema = [] \<and> data = [] \<or> rs \<noteq> Inr ()")
      case True
      then show ?thesis using assms(2) d Inr sd s ss(1,2)
        by (intro exI [of _ "[]"]) (cases rs; auto simp: load_dump_dir_def check_def [of "outside _"]
            check_def [of "fold_act _ _ _"] outside_def throw_def ret_def split: if_splits)
    next
      case False
      then have "load_parallel X ?load ?n ?start (cs\<lparr>cl_out := cl_out cs @
          (''-> data ('' @ show_nat (length data) @ '' files, '' @ show_nat ?n @ '' at a time)'') @ [newline]\<rparr>) = (r, c')"
        using assms(2) d Inr sd s
        by (auto simp: load_dump_dir_def check_def [of "outside _"] check_def [of "fold_act _ _ _"] outside_def
            say_then Let_def simp del: if_split)
      from load_parallel_log [OF load n pick this] obtain ds where
        "ev (cl_world c') = ev (cl_world cs) @ map (load_event mysql sock db) ds" "loaded ds ?start r" by fastforce
      then show ?thesis using ss(1) False
        by (intro exI [of _ ds]) (auto simp: loaded_def to_load_def)
    qed
    then obtain ds where ds: "ev (cl_world c') = ev (cl_world c) @ map (load_event mysql sock db) (ss @ ds)"
        "mset (map fst ds) \<subseteq># mset data" "ds \<noteq> [] \<longrightarrow> rs = Inr ()"
        "r = Inr () \<longrightarrow> rs = Inr () \<and> mset (map fst ds) = mset data \<and> list_all snd ds"
      unfolding w by blast
    have "map fst ss = schema \<and> list_all snd (ss @ ds)
        \<and> mset (map fst (ss @ ds)) = mset (map (\<lambda>e. in_dir dir (fst e)) (filter is_sql ents))" if "r = Inr ()"
      using that ds(4) ss(3) unfolding dump_files_all [OF sd, symmetric] by simp
    with ds(1-3) ss(2,3) have "\<exists>ss ds.
        ev (cl_world c') = ev (cl_world c) @ map (load_event mysql sock db) (ss @ ds)
      \<and> map fst ss = take (length ss) schema \<and> mset (map fst ds) \<subseteq># mset data
      \<and> (ds \<noteq> [] \<longrightarrow> map fst ss = schema \<and> list_all snd ss)
      \<and> (r = Inr () \<longrightarrow> map fst ss = schema \<and> list_all snd (ss @ ds)
          \<and> mset (map fst (ss @ ds)) = mset (map (\<lambda>e. in_dir dir (fst e)) (filter is_sql ents)))"
      by blast
    then show ?thesis by (simp only: d Inr sd fst_conv sum.case prod.case)
  qed
qed

definition dump_machine :: "cli_event list cli_env" where
  "dump_machine = log_cli\<lparr>ce_machine := log_host\<lparr>h_read_dir :=
     (\<lambda>p. ret [(''b.sql'', False), (''notes.txt'', False), (''db-schema.sql'', False), (''a.SQL'', False)])\<rparr>\<rparr>"

lemma dump_machine_logs: "logs_commands dump_machine log_works id"
  by (simp add: logs_commands_def logs_files_def logs_process_def untouched_def dump_machine_def log_cli_def
      log_works_def log_host_def log_feed_def log_run_def Let_def ret_def)

theorem dump_dir_loads_each_file_once_witness:
  "\<exists>r c'. load_dump_dir dump_machine log_works ''mysql'' ''/run/s'' ''/dump'' ''app'' 2 (fresh_cli []) = (r, c')
    \<and> (\<exists>ss ds. cl_world c' = map (load_event ''mysql'' ''/run/s'' ''app'') (ss @ ds)
      \<and> map fst ss = take (length ss) [''/dump/db-schema.sql''] \<and> mset (map fst ds) \<subseteq># {# ''/dump/a.SQL'', ''/dump/b.sql'' #})"
proof -
  obtain r c' where run: "load_dump_dir dump_machine log_works ''mysql'' ''/run/s'' ''/dump'' ''app'' 2 (fresh_cli []) = (r, c')"
    by force
  have d: "fst (h_read_dir (ce_machine dump_machine) ''/dump'' (cl_world (fresh_cli ([] :: cli_event list)))) =
      Inr [(''b.sql'', False), (''notes.txt'', False), (''db-schema.sql'', False), (''a.SQL'', False)]"
    by (simp add: dump_machine_def log_cli_def log_host_def ret_def)
  have "dump_files ''/dump'' [(''b.sql'', False), (''notes.txt'', False), (''db-schema.sql'', False), (''a.SQL'', False)]
      = ([''/dump/db-schema.sql''], [''/dump/a.SQL'', ''/dump/b.sql''])"
    by code_simp
  with dump_dir_loads_each_file_once [OF dump_machine_logs run] d run show ?thesis
    by (auto simp: fresh_cli_def)
qed

section \<open>The application user\<close>

lemma plugin_agrees: "plugin_for_version v = auth_plugin v"
  by (simp add: plugin_for_version_def auth_plugin_def major_version_def split: prod.split option.split)

lemma literal_agrees: "string_literal s = mysql_literal s"
proof -
  have "(case map_of literal_escapes c of None \<Rightarrow> [c] | Some r \<Rightarrow> r) = mysql_escape c" for c
    by (simp add: literal_escapes_def mysql_escape_def)
  then show ?thesis
    by (simp add: string_literal_def mysql_literal_def ticks_def quote1_def)
qed


end
