(* ===== verification/CliEnds.thy ===== *)
theory CliEnds
  imports CliWorkSample
begin

text \<open>
  The commands that work on the machine end: each has an exit code, the waits of an import end with what
  was waited for or with their timeout, and so every invocation of the command has an exit code.
\<close>

section \<open>Every invocation ends\<close>

lemma total_when: "total_act m \<Longrightarrow> total_act (when_do b m)"
  by (simp add: when_do_def total_ret)

lemma total_prints: "total_act (print_out l)" "total_act (init_failed e)"
  by (simp_all add: print_out_def init_failed_def total_modifying total_printing)

lemma total_bool: "total_act (file_exists C p)" "total_act (bin_exists C p)" "total_act (dir_non_empty C p)"
    "total_act (succeeds C n as)" "total_act (file_equal C p t)" "total_act (config_perm_ok I p)"
    "total_act (baseline_present C b)" "total_act (use_root_helper C I p)" "total_act (existing_pool C I p)"
    "total_act (default_config_path C)" "total_act (confirmed I yes good)"
    "total_act (choose_pool C I im)"
proof -
  show "total_act (bin_exists C p)" "total_act (dir_non_empty C p)"
    "total_act (succeeds C n as)" "total_act (file_equal C p t)" "total_act (config_perm_ok I p)"
    unfolding file_exists_def bin_exists_def dir_non_empty_def succeeds_def running_def file_equal_def
      config_perm_ok_def by (intro total_intros)+
  show f: "total_act (file_exists C p)" for p
    unfolding file_exists_def by (intro total_intros)
  show "total_act (baseline_present C b)"
    unfolding baseline_present_def by (rule f)
  show e: "total_act (existing_pool C I p)" for p
    unfolding existing_pool_def by (intro total_intros)
  show "total_act (use_root_helper C I p)"
    unfolding use_root_helper_def existing_root_helper_def by (intro total_intros f)
  show "total_act (default_config_path C)"
    unfolding default_config_path_def config_found_def by (intro total_intros f)
  show "total_act (confirmed I yes good)" unfolding confirmed_def by (intro total_intros total_prints)
  show "total_act (choose_pool C I im)" unfolding choose_pool_def by (intro total_intros e)
qed

text \<open>The steps of an installation end when the checks that skip them never fail.\<close>

definition checks_total :: "'w step list \<Rightarrow> bool" where
  "checks_total ss \<longleftrightarrow> (\<forall>s \<in> set ss. total_act (step_skipped s))"

lemma steps_end: "checks_total ss \<Longrightarrow> total_act k \<Longrightarrow> total_act (run_steps ss k)"
  by (induction ss) (auto simp: checks_total_def intro!: total_intros)

lemma check_simps [simp]: "checks_total []" "checks_total (s # ss) \<longleftrightarrow> total_act (step_skipped s) \<and> checks_total ss"
    "checks_total (xs @ ys) \<longleftrightarrow> checks_total xs \<and> checks_total ys"
  by (auto simp: checks_total_def)

lemma skipped_simps [simp]: "step_skipped (always n m) = ret False" "step_skipped (unless_done n d m) = d"
  by (simp_all add: step_skipped_def always_def unless_done_def)

lemmas step_defs = service_off_def zpool_step_def dataset_step_def dirs_step_def unit_step_def app_pass_step_def
  config_step_def config_perm_step_def root_helper_config_step_def sudoers_step_def darwin_dirs_step_def
  darwin_config_step_def launchd_step_def Let_def

lemma pg_bin_dir_found: "total_act (find_pg_bin_dir C)"
  unfolding find_pg_bin_dir_def by (intro total_intros total_bool)

lemma linux_checks: "checks_total (init_steps C X I im)" "checks_total (init_steps_postgres C X I im)"
  by (auto simp: init_steps_def init_steps_postgres_def step_defs intro!: total_intros total_bool pg_bin_dir_found)

lemma darwin_checks: "checks_total (darwin_steps C I b m s p)" "checks_total (darwin_pg_steps C I b d s p)"
  by (auto simp: darwin_steps_def darwin_pg_steps_def step_defs intro!: total_intros total_bool)

lemma init_ends: "total_act (cmd_init C X I args)"
  unfolding cmd_init_def init_darwin_def init_darwin_mysql_def init_darwin_postgres_def init_linux_def
  by (intro total_intros total_bool total_prints total_when steps_end linux_checks darwin_checks)
    (auto intro!: linux_checks)

lemma baseline_work_ends: "total_act (cmd_baseline_import C X args)" "total_act (cmd_baseline_export C X args)"
    "total_act (cmd_baseline_import_stream C X args)"
  unfolding cmd_baseline_import_def cmd_baseline_export_def cmd_baseline_import_stream_def
  by (intro total_intros total_bool)+

section \<open>The waits of an import end\<close>

text \<open>A clock that pauses and the commands that are asked meanwhile do not turn back.\<close>

definition steady_work :: "'w cli_env \<Rightarrow> ('w \<Rightarrow> int) \<Rightarrow> bool" where
  "steady_work C tm \<longleftrightarrow>
     (\<forall>w. fst (ce_now C w) = tm w \<and> tm w \<le> tm (snd (ce_now C w)))
   \<and> (\<forall>d w. tm w + d \<le> tm (snd (ce_sleep C d w)))
   \<and> (\<forall>q w. tm w \<le> tm (snd (h_run (ce_machine C) q w)))
   \<and> (\<forall>p w. tm w \<le> tm (snd (h_stat (ce_machine C) p w)))"

definition steady_probe :: "('w \<Rightarrow> int) \<Rightarrow> ('w, bool) cact \<Rightarrow> bool" where
  "steady_probe tm m \<longleftrightarrow> (\<forall>c. \<exists>b c'. m c = (Inr b, c') \<and> tm (cl_world c) \<le> tm (cl_world c'))"

lemma wait_until_ends:
  assumes "steady_work C tm" and "steady_probe tm probe" and "1 \<le> pause"
  shows "0 < n \<Longrightarrow> deadline - tm (cl_world c) < int n \<Longrightarrow>
    fst (wait_until C deadline pause probe late n c) \<in> {Inr (), Inl late}"
proof (induction n arbitrary: c)
  case (Suc n)
  obtain t w where t: "ce_now C (cl_world c) = (t, w)" by force
  then have now: "t = tm (cl_world c)" "tm (cl_world c) \<le> tm w"
    using assms(1) unfolding steady_work_def by (metis fst_conv, metis snd_conv)
  obtain b c1 where b: "probe (c\<lparr>cl_world := w\<rparr>) = (Inr b, c1)" "tm w \<le> tm (cl_world c1)"
    using assms(2) unfolding steady_probe_def by (metis cli.select_convs(1) cli.surjective cli.update_convs(1))
  obtain u w2 where s: "ce_sleep C pause (cl_world c1) = (u, w2)" by (metis prod.exhaust)
  then have "tm (cl_world c1) + pause \<le> tm w2" using assms(1) unfolding steady_work_def by (metis snd_conv)
  then have "deadline - tm (cl_world (c1\<lparr>cl_world := w2\<rparr>)) < int n"
    using Suc.prems now b assms(3) by simp
  from Suc.IH [OF _ this] show ?case
    using t b s Suc.prems now by (auto simp: check_def asking_def throw_def ret_def)
qed simp

lemma waiting_ends:
  assumes "steady_work C tm" and "steady_probe tm probe" and "1 \<le> pause" and "0 \<le> timeout" and "timeout < int (ce_rounds C)"
  shows "fst (waiting C timeout pause probe late c) \<in> {Inr (), Inl late}"
proof -
  obtain t w where t: "ce_now C (cl_world c) = (t, w)" by force
  then have "t = tm (cl_world c)" "tm (cl_world c) \<le> tm w"
    using assms(1) unfolding steady_work_def by (metis fst_conv, metis snd_conv)
  then have "t + timeout - tm (cl_world (c\<lparr>cl_world := w\<rparr>)) < int (ce_rounds C)" "0 < ce_rounds C"
    using assms(4,5) by simp_all
  from wait_until_ends [OF assms(1-3) this(2,1)] show ?thesis
    using t by (simp add: waiting_def check_def asking_def)
qed

lemma probes_steady:
  assumes "steady_work (C :: 'a cli_env) tm"
  shows "steady_probe tm (check (running C cm) (\<lambda>(r, out). ret (run_error r = None)))"
    "steady_probe tm (check (asking (h_stat (ce_machine C) p)) (\<lambda>r. ret (case r of FsNotExist e \<Rightarrow> True | _ \<Rightarrow> False)))"
proof -
  show "steady_probe tm (check (running C cm) (\<lambda>(r, out). ret (run_error r = None)))"
    unfolding steady_probe_def
  proof
    fix c :: "'a cli"
    obtain r out w where "h_run (ce_machine C) cm (cl_world c) = ((r, out), w)" by (metis prod.exhaust)
    then show "\<exists>b c'. check (running C cm) (\<lambda>(r, out). ret (run_error r = None)) c = (Inr b, c')
        \<and> tm (cl_world c) \<le> tm (cl_world c')"
      using assms unfolding steady_work_def
      by (auto simp: check_def running_def asking_def ret_def dest!: spec [of _ "cl_world c"] spec [of _ cm])
  qed
  show "steady_probe tm (check (asking (h_stat (ce_machine C) p)) (\<lambda>r. ret (case r of FsNotExist e \<Rightarrow> True | _ \<Rightarrow> False)))"
    unfolding steady_probe_def
  proof
    fix c :: "'a cli"
    obtain r w where "h_stat (ce_machine C) p (cl_world c) = (r, w)" by force
    then show "\<exists>b c'. check (asking (h_stat (ce_machine C) p)) (\<lambda>r. ret (case r of FsNotExist e \<Rightarrow> True | _ \<Rightarrow> False)) c = (Inr b, c')
        \<and> tm (cl_world c) \<le> tm (cl_world c')"
      using assms unfolding steady_work_def by (simp add: check_def asking_def ret_def) (metis snd_conv)
  qed
qed

text \<open>The waits of an import end: with a clock that advances at least by the pauses, waiting for the socket
  and for the pid file to go away ends, within the rounds for which the loop is followed, either with what was
  waited for or with the message of its timeout, whatever the server does.\<close>

lemma import_waits_end:
  assumes "steady_work C tm" and "60 * second < int (ce_rounds C)"
  shows "fst (wait_socket C sock (60 * second) admin c)
      \<in> {Inr (), Inl (EText (''mysqld did not become ready within '' @ ce_show_duration C (60 * second)))}
    \<and> fst (wait_gone_file C pid (30 * second) c)
      \<in> {Inr (), Inl (EText (''mysqld was not seen to stop ('' @ pid @ '' is left)''))}"
proof -
  have "0 \<le> 60 * second" "0 \<le> 30 * second" "30 * second < int (ce_rounds C)"
    using assms(2) by (simp_all add: second_def)
  then show ?thesis
    unfolding wait_socket_def wait_gone_file_def
    by (intro conjI waiting_ends [OF assms(1)] probes_steady [OF assms(1)] assms(2)) simp_all
qed

lemma import_waits_end_witness:
  "fst (wait_gone_file sample_cli ''/run/p'' (30 * second) (fresh_cli 0))
      \<in> {Inr (), Inl (EText (''mysqld was not seen to stop (/run/p is left)''))}"
proof -
  have "steady_work sample_cli (\<lambda>w. w)"
    by (simp add: steady_work_def sample_cli_def sample_host_def succeed_def)
  then show ?thesis
    using import_waits_end [of sample_cli "\<lambda>w. w" _ _ "fresh_cli 0" "''/run/p''"]
    by (simp add: sample_cli_def second_def)
qed


definition sample_works :: "int works" where
  "sample_works = \<lparr>wk_fs = \<lparr>lf_remove_all = (\<lambda>p. ret ()), lf_rename = (\<lambda>p q. ret ()), lf_missing = (\<lambda>e. True)\<rparr>,
     wk_ssm = \<lparr>sm_config = ret (), sm_get = (\<lambda>p. ret None)\<rparr>, wk_is_dir = (\<lambda>p. ret True), wk_walk = (\<lambda>p w. ([], w)),
     wk_chown = (\<lambda>p u. ret ()), wk_head = (\<lambda>p n. ret []), wk_cpus = 4, wk_pick = (\<lambda>w. (0, w)),
     wk_pipe = ret (), wk_start = (\<lambda>p xs. ret 1), wk_feed = (\<lambda>s q w. ((RunOk, []), w)),
     wk_pour = (\<lambda>s q w. (RunOk, w)), wk_copy = (\<lambda>s p. ret ()), wk_close_file = (\<lambda>p. ret ()),
     wk_close_pipe = (\<lambda>n. ret ()), wk_wait = (\<lambda>n. ret ())\<rparr>"

definition sample_installer :: "int installer" where
  "sample_installer = \<lparr>in_write = (\<lambda>p t m. ret ()), in_perm = (\<lambda>p. ret (420, None)), in_poke = (\<lambda>p t w. ((), w)),
     in_lstat = (\<lambda>p w. (False, w)), in_symlink = (\<lambda>p q. ret ()), in_group = (\<lambda>g. None), in_asset = id,
     in_pools = (\<lambda>t. None), in_root_helper = (\<lambda>t. None), in_answer = (\<lambda>w. (''y'', w)), in_hostname = ret ''box'',
     in_executable = ret ''/usr/local/bin/sashiki'', in_statfs = (\<lambda>p. ret ''apfs''), in_abs = id,
     in_kill = (\<lambda>p b w. (False, w))\<rparr>"


text \<open>
  A pid file that cannot be read: the temporary server of the first baseline gets no signal, and the step that
  made the user goes on without an error.
\<close>

lemma init_server_is_left_running:
  assumes "h_read_file (ce_machine C) pid_file (cl_world c) = (Inl e, w)"
  shows "end_init_server C I pid_file c
    = check (asking (h_remove (ce_machine C) init_socket)) (\<lambda>_. ret ()) (c\<lparr>cl_world := w\<rparr>)"
  using assms by (simp add: end_init_server_def attempt_def outside_def check_def ret_def)

end
