(* ===== verification/CliStreamFacts.thy ===== *)
theory CliStreamFacts
  imports CliEnds
begin

text \<open>
  What is proved of \<^verbatim>\<open>baseline import-stream\<close>: the base is destroyed only when this was asked for, and
  a stream is received only into a base that was absent or has just been destroyed.
\<close>

section \<open>What an action adds to the log\<close>

definition logging :: "('w \<Rightarrow> cli_event list) \<Rightarrow> (err + 'a \<Rightarrow> cli_event list \<Rightarrow> bool) \<Rightarrow> ('w, 'a) cact \<Rightarrow> bool" where
  "logging ev T m \<longleftrightarrow> (\<forall>c r c'. m c = (r, c') \<longrightarrow> (\<exists>es. ev (cl_world c') = ev (cl_world c) @ es \<and> T r es))"

lemma logging_attempt:
  assumes "logging ev T m" and "\<And>r. logging ev (U r) (k r)" and "\<And>r xs r' ys. T r xs \<Longrightarrow> U r r' ys \<Longrightarrow> W r' (xs @ ys)"
  shows "logging ev W (attempt m k)"
  unfolding logging_def
proof (intro allI impI)
  fix c r' c' assume run: "attempt m k c = (r', c')"
  obtain r c1 where m: "m c = (r, c1)" by force
  then obtain xs where xs: "ev (cl_world c1) = ev (cl_world c) @ xs" "T r xs"
    using assms(1) unfolding logging_def by blast
  have "k r c1 = (r', c')" using run m by (simp add: attempt_def)
  then obtain ys where "ev (cl_world c') = ev (cl_world c1) @ ys" "U r r' ys"
    using assms(2) unfolding logging_def by blast
  then show "\<exists>es. ev (cl_world c') = ev (cl_world c) @ es \<and> W r' es"
    using xs assms(3) by (metis append.assoc)
qed

lemma logging_weaken: "logging ev T m \<Longrightarrow> (\<And>r es. T r es \<Longrightarrow> U r es) \<Longrightarrow> logging ev U m"
  unfolding logging_def by blast

lemma logging_ret: "T (Inr a) [] \<Longrightarrow> logging ev T (ret a)"
  by (auto simp: logging_def ret_def)

lemma logging_throw: "T (Inl e) [] \<Longrightarrow> logging ev T (throw e)"
  by (auto simp: logging_def throw_def)

text \<open>A statement that may fail, and then what follows.\<close>

lemma logging_check:
  assumes "logging ev T m" and "\<And>e xs. T (Inl e) xs \<Longrightarrow> W (Inl e) xs"
    and "\<And>a. logging ev (\<lambda>r ys. \<forall>xs. T (Inr a) xs \<longrightarrow> W r (xs @ ys)) (k a)"
  shows "logging ev W (check m k)"
  unfolding check_as_attempt
proof (rule logging_attempt [OF assms(1)])
  show "logging ev (\<lambda>r' ys. \<forall>xs. T r xs \<longrightarrow> W r' (xs @ ys)) (case_sum throw k r)" for r
    using assms(2,3) by (cases r) (auto intro: logging_throw)
qed blast

text \<open>What does not touch the log adds nothing.\<close>

lemma logging_still:
  assumes "\<And>c. ev (cl_world (snd (m c))) = ev (cl_world c)"
  shows "logging ev (\<lambda>r es. es = []) m"
  using assms unfolding logging_def by (metis append_Nil2 snd_conv)

lemma logging_run:
  assumes "logs_commands C X ev"
  shows "logging ev (\<lambda>r es. \<exists>a. r = Inr a \<and> es = [Ran cm (run_error (fst a) = None)]) (running C cm)"
    and "logging ev (\<lambda>r es. \<exists>a. r = Inr a \<and> es = [Ran cm (run_error (fst a) = None)]) (asking (wk_feed X src cm))"
proof -
  have h: "ev (snd (h_run (ce_machine C) cm w)) = ev w @ [Ran cm (run_error (fst (fst (h_run (ce_machine C) cm w))) = None)]"
      "ev (snd (wk_feed X src cm w)) = ev w @ [Ran cm (run_error (fst (fst (wk_feed X src cm w))) = None)]" for w
    using assms unfolding logs_commands_def by blast+
  show "logging ev (\<lambda>r es. \<exists>a. r = Inr a \<and> es = [Ran cm (run_error (fst a) = None)]) (running C cm)"
    and "logging ev (\<lambda>r es. \<exists>a. r = Inr a \<and> es = [Ran cm (run_error (fst a) = None)]) (asking (wk_feed X src cm))"
    using h by (auto simp: logging_def running_def asking_def split: prod.splits) (metis fst_conv snd_conv)+
qed

section \<open>What adds nothing\<close>

abbreviation quiet :: "('w \<Rightarrow> cli_event list) \<Rightarrow> ('w, 'a) cact \<Rightarrow> bool" where
  "quiet ev \<equiv> keeps (\<lambda>c c'. ev (cl_world c') = ev (cl_world c))"

interpretation quiet: effect_relation "\<lambda>c c'. ev (cl_world c') = ev (cl_world c)" for ev :: "'w \<Rightarrow> cli_event list"
  by unfold_locales auto

lemma quiet_logging: "quiet ev m \<Longrightarrow> logging ev (\<lambda>r es. es = []) m"
  by (rule logging_still) (simp add: keeps_def)

lemma quiet_calls: "untouched ev f \<Longrightarrow> quiet ev (outside f)" "untouched ev g \<Longrightarrow> quiet ev (asking g)"
  by (simp_all add: untouched_def keeps_def outside_def asking_def split: prod.split) (metis snd_conv)+

lemma quiet_print: "quiet ev (say l)" "quiet ev (complain l)" "quiet ev (warn l)"
  by (simp_all add: say_def complain_def warn_def keeps_def modifying_def)

lemma quiet_then: "quiet ev m \<Longrightarrow> quiet ev k \<Longrightarrow> quiet ev (then_do m k)"
  unfolding then_do_def by (rule quiet.keeps_check)

lemma quiet_defer: "quiet ev d \<Longrightarrow> quiet ev m \<Longrightarrow> quiet ev (deferring d m)"
  unfolding deferring_def by (intro quiet.keeps_intros)

lemmas quiet_kit = quiet.keeps_intros quiet_then quiet_print quiet_calls

lemma quiet_streams:
  assumes L: "logs_commands C X ev"
  shows "quiet ev (open_source C X p)" "quiet ev (close_source X src)" "quiet ev (register_imported C path snap tag)"
    "quiet ev (require_zfs_backend conf what)"
proof -
  note k = quiet_kit logs_calls [OF L]
  have st: "quiet ev (case src of OwnStdio \<Rightarrow> a | Child n what \<Rightarrow> b n what | OnDisk p \<Rightarrow> d p)"
    if "quiet ev a" "\<And>n w. quiet ev (b n w)" "\<And>p. quiet ev (d p)"
    for src and a :: "('a, unit) cact" and b d using that by (cases src) simp_all
  show "quiet ev (open_source C X p)" "quiet ev (close_source X src)" "quiet ev (require_zfs_backend conf what)"
    unfolding open_source_def start_aws_def require_aws_cli_def close_source_def await_child_def
      require_zfs_backend_def Let_def by (intro k st)+
  have "untouched ev (\<lambda>w. case q (ce_db C path w) of (r, d) \<Rightarrow> (r, ce_set_db C path d w))" for q :: "unit sql"
    using L unfolding untouched_def logs_commands_def logs_process_def by (simp split: prod.split)
  then have sql: "quiet ev (cli_sql C path q)" for q :: "unit sql"
    unfolding cli_sql_def by (intro k)
  show "quiet ev (register_imported C path snap tag)"
    unfolding register_imported_def by (intro k sql)
qed

lemma logging_first: "quiet ev m \<Longrightarrow> (\<And>e. W (Inl e) []) \<Longrightarrow>
    (\<And>a. logging ev W (k a)) \<Longrightarrow> logging ev W (check m k)"
  by (rule logging_check [OF quiet_logging]) auto

text \<open>A deferred call that adds nothing, after the action.\<close>

lemma logging_defer: "quiet ev d \<Longrightarrow> logging ev W m \<Longrightarrow> logging ev W (deferring d m)"
  unfolding logging_def deferring_def
  by (auto simp: attempt_def ignoring_def keeps_def throw_def ret_def split: prod.splits sum.splits) (metis snd_conv)+

section \<open>The run\<close>

abbreviation children_cmd :: "string \<Rightarrow> cmd" where
  "children_cmd parent \<equiv> bare_cmd ''zfs'' [''list'', ''-H'', ''-o'', ''name'', ''-t'', ''filesystem'', ''-r'', parent]"

abbreviation base_cmd :: "string \<Rightarrow> cmd" where
  "base_cmd base \<equiv> bare_cmd ''zfs'' [''list'', base]"

abbreviation destroy_cmd :: "string \<Rightarrow> cmd" where
  "destroy_cmd base \<equiv> bare_cmd ''zfs'' [''destroy'', ''-r'', base]"

abbreviation recv_cmd :: "string \<Rightarrow> cmd" where
  "recv_cmd base \<equiv> bare_cmd ''zfs'' [''recv'', base]"

abbreviation newest_cmd :: "string \<Rightarrow> cmd" where
  "newest_cmd base \<equiv> bare_cmd ''zfs'' [''list'', ''-H'', ''-o'', ''name'', ''-t'', ''snapshot'', ''-s'', ''creation'', ''-r'', base]"

definition room_log :: "string \<Rightarrow> bool \<Rightarrow> err + unit \<Rightarrow> cli_event list \<Rightarrow> bool" where
  "room_log base force r es \<longleftrightarrow> (es = [Ran (base_cmd base) False] \<and> r = Inr ())
     \<or> (es = [Ran (base_cmd base) True] \<and> r \<noteq> Inr ())
     \<or> (force \<and> (\<exists>g. es = [Ran (base_cmd base) True, Ran (destroy_cmd base) g] \<and> (r = Inr () \<longleftrightarrow> g)))"

definition recv_log :: "string \<Rightarrow> err + unit \<Rightarrow> cli_event list \<Rightarrow> bool" where
  "recv_log base r es \<longleftrightarrow> (es = [] \<and> r \<noteq> Inr ()) \<or> (\<exists>g. es = [Ran (recv_cmd base) g] \<and> r \<noteq> Inr ())
     \<or> (\<exists>g. es = [Ran (recv_cmd base) True, Ran (newest_cmd base) g])"

lemma logging_plain:
  assumes L: "logs_commands C X ev"
  shows "logging ev (\<lambda>r es. (\<exists>out. r = Inr out \<and> es = [Ran cm True]) \<or> (\<exists>e. r = Inl e \<and> es = [Ran cm False])) (plain_run C cm)"
  unfolding plain_run_def
  by (rule logging_check [OF logging_run(1) [OF L]]) (auto intro!: logging_ret logging_throw split: option.split)

lemma make_room_log:
  assumes L: "logs_commands C X ev"
  shows "logging ev (room_log base force) (make_room C base force)"
proof -
  have probe: "logging ev (\<lambda>r es. \<exists>g. r = Inr g \<and> es = [Ran (base_cmd base) g]) (succeeds C ''zfs'' [''list'', base])"
    unfolding succeeds_def
    by (rule logging_check [OF logging_run(1) [OF L]]) (auto intro: logging_ret)
  have destroy: "logging ev (\<lambda>r es. (r = Inr () \<and> es = [Ran (destroy_cmd base) True])
      \<or> (r \<noteq> Inr () \<and> es = [Ran (destroy_cmd base) False])) (combined C pre (destroy_cmd base))" for pre
    unfolding combined_def
    by (rule logging_check [where T = "\<lambda>r es. (\<exists>a. r = Inr a \<and> es = [Ran (destroy_cmd base) True])
          \<or> (\<exists>e. r = Inl e \<and> es = [Ran (destroy_cmd base) False])"],
        rule logging_check [OF logging_run(1) [OF L]])
      (auto simp: combined_text_def intro!: logging_ret logging_throw split: option.split)
  show ?thesis
    unfolding make_room_def
  proof (rule logging_check [OF probe])
    fix there
    show "logging ev (\<lambda>r ys. \<forall>xs. (\<exists>g. Inr there = Inr g \<and> xs = [Ran (base_cmd base) g]) \<longrightarrow> room_log base force r (xs @ ys))
       (if \<not> there then ret ()
        else if \<not> force then throw (EText (base @ '' exists already; --force replaces it (its snapshots are lost)''))
        else then_do (complain (''-> destroy '' @ base @ '' (--force)''))
          (combined C ''cannot destroy the base: '' (destroy_cmd base)))"
      unfolding then_do_def
      by (auto intro!: logging_ret logging_throw logging_check [OF quiet_logging [OF quiet_print(2)]]
            logging_weaken [OF destroy] simp: room_log_def)
  qed simp
qed

definition received :: "'w cli_env \<Rightarrow> 'w works \<Rightarrow> config \<Rightarrow> stream_opts \<Rightarrow> string \<Rightarrow> ('w, unit) cact" where
  "received C X conf sp base = check (open_source C X (sp_path sp)) (\<lambda>src. deferring (close_source X src)
     (then_do (complain (''-> zfs recv '' @ base @ '' <- '' @ sp_path sp))
      (check (asking (wk_feed X src (bare_cmd ''zfs'' [''recv'', base]))) (\<lambda>(r, out). case run_error r of
          Some e \<Rightarrow> throw (EWrap (''zfs recv '' @ base @ '': '') e [])
        | None \<Rightarrow> check (close_source X src) (\<lambda>_.
            check (latest_snapshot C base) (\<lambda>snap.
            then_do (register_imported C (g_state_db conf) snap (snapshot_tag snap))
              (complain (''baseline import-stream finished (current = '' @ snap
                 @ ''). sashiki create <name> makes a branch''))))))))"

lemma received_log:
  assumes L: "logs_commands C X ev"
  shows "logging ev (recv_log base) (received C X conf sp base)"
proof -
  note q = quiet_streams [OF L]
  have told: "logging ev (\<lambda>r es. \<exists>g. es = [Ran cm g]) (wrapping f (plain_run C cm))" for cm f
    unfolding wrapping_as_attempt
    by (rule logging_attempt [OF logging_plain [OF L], where U = "\<lambda>r r' ys. ys = []"])
      (auto intro!: logging_ret logging_throw split: sum.split)
  have newest: "logging ev (\<lambda>r es. \<exists>g. es = [Ran (newest_cmd base) g]) (latest_snapshot C base)"
    unfolding latest_snapshot_def
    by (rule logging_check [OF told]) (auto intro!: logging_ret logging_throw split: option.split)
  have rest: "quiet ev (then_do (register_imported C path snap tag) (complain l))" for path snap tag l
    by (intro quiet_then q quiet_print)
  have last: "logging ev (\<lambda>r es. es = [] \<and> r \<noteq> Inr () \<or> (\<exists>g. es = [Ran (newest_cmd base) g]))
      (check (close_source X src) (\<lambda>_. check (latest_snapshot C base) (\<lambda>snap.
         then_do (register_imported C path snap (tag snap)) (complain (l snap)))))" for src path tag l
    by (rule logging_check [OF quiet_logging [OF q(2)]], simp,
        rule logging_check [OF newest], simp, rule logging_weaken [OF quiet_logging [OF rest]]) auto
  have fed: "logging ev (recv_log base) (check (asking (wk_feed X src (recv_cmd base))) (\<lambda>v. case v of (r, out) \<Rightarrow>
        case run_error r of Some e \<Rightarrow> throw (f e)
        | None \<Rightarrow> check (close_source X src) (\<lambda>_. check (latest_snapshot C base) (\<lambda>snap.
            then_do (register_imported C path snap (tag snap)) (complain (l snap))))))" for src f path tag l
    by (rule logging_check [OF logging_run(2) [OF L]])
      (auto simp: recv_log_def intro!: logging_throw logging_weaken [OF last] split: option.split)
  show ?thesis
    unfolding received_def then_do_def [of "complain _"]
    by (rule logging_check [OF quiet_logging [OF q(1)]], simp add: recv_log_def,
        rule logging_weaken [where T = "recv_log base"], rule logging_defer [OF q(2)],
        rule logging_check [OF quiet_logging [OF quiet_print(2)]], simp add: recv_log_def,
        rule logging_weaken [OF fed]) auto
qed

definition stream_log :: "config \<Rightarrow> bool \<Rightarrow> err + unit \<Rightarrow> cli_event list \<Rightarrow> bool" where
  "stream_log conf force r es \<longleftrightarrow> (let base = zf_base (sc_zfs (g_storage conf)) in
     (es = [] \<and> r \<noteq> Inr ()) \<or> (\<exists>g rest. es = Ran (children_cmd (zf_parent (sc_zfs (g_storage conf)))) g # rest
       \<and> ((rest = [] \<and> r \<noteq> Inr ()) \<or> (r \<noteq> Inr () \<and> room_log base force r rest)
         \<or> (\<exists>xs ys. rest = xs @ ys \<and> room_log base force (Inr ()) xs \<and> recv_log base r ys))))"

lemma run_stream_as:
  "run_import_stream C X conf sp = check (require_zfs_backend conf ''import-stream'') (\<lambda>_.
     attempt (list_child_datasets C (zf_parent (sc_zfs (g_storage conf)))) (\<lambda>bs. case bs of
         Inr (b # rest) \<Rightarrow> throw (EText (show_nat (length (b # rest)) @ '' branches are left; delete them first: ''
           @ join_with '', '' (b # rest)))
       | _ \<Rightarrow> check (make_room C (zf_base (sc_zfs (g_storage conf))) (sp_force sp)) (\<lambda>_.
         received C X conf sp (zf_base (sc_zfs (g_storage conf))))))"
  unfolding run_import_stream_def received_def Let_def by (rule refl)

lemma run_stream_log:
  assumes L: "logs_commands C X ev"
  shows "logging ev (stream_log conf (sp_force sp)) (run_import_stream C X conf sp)"
proof -
  let ?z = "sc_zfs (g_storage conf)" and ?f = "sp_force sp"
  have listing: "logging ev (\<lambda>r es. \<exists>g. es = [Ran (children_cmd (zf_parent ?z)) g]) (list_child_datasets C (zf_parent ?z))"
    unfolding list_child_datasets_def
    by (rule logging_check [OF logging_plain [OF L]]) (auto intro!: logging_ret)
  let ?W = "\<lambda>r es. (es = [] \<and> r \<noteq> Inr ()) \<or> (r \<noteq> Inr () \<and> room_log (zf_base ?z) ?f r es)
      \<or> (\<exists>xs ys. es = xs @ ys \<and> room_log (zf_base ?z) ?f (Inr ()) xs \<and> recv_log (zf_base ?z) r ys)"
  have work: "logging ev ?W (check (make_room C (zf_base ?z) ?f) (\<lambda>_. received C X conf sp (zf_base ?z)))"
    by (rule logging_check [OF make_room_log [OF L]], simp, rule logging_weaken [OF received_log [OF L]]) auto
  show ?thesis
    unfolding run_stream_as
  proof (rule logging_check [OF quiet_logging [OF quiet_streams(4) [OF L]]], simp add: stream_log_def Let_def,
      rule logging_weaken [where T = "stream_log conf ?f"], rule logging_attempt [OF listing, where U = "\<lambda>_. ?W"])
    show "logging ev ?W (case bs of Inr (b # rest) \<Rightarrow> throw (EText (show_nat (length (b # rest))
          @ '' branches are left; delete them first: '' @ join_with '', '' (b # rest)))
        | _ \<Rightarrow> check (make_room C (zf_base ?z) ?f) (\<lambda>_. received C X conf sp (zf_base ?z)))" for bs
      using work by (auto intro!: logging_throw split: sum.split list.split)
  qed (auto simp: stream_log_def Let_def)
qed

lemma branches_stop_stream:
  assumes L: "logs_commands C X ev" and run: "run_import_stream C X conf sp c = (r, c')"
    and listed: "fst (h_run (ce_machine C) (children_cmd (zf_parent (sc_zfs (g_storage conf)))) (cl_world c)) = (RunOk, out)"
    and bs: "filter (\<lambda>n. n \<noteq> [] \<and> n \<noteq> zf_parent (sc_zfs (g_storage conf))) (zfs_lines out) \<noteq> []"
  shows "r \<noteq> Inr () \<and> (\<forall>es. ev (cl_world c') = ev (cl_world c) @ es \<longrightarrow>
     set es \<subseteq> {Ran (children_cmd (zf_parent (sc_zfs (g_storage conf)))) True})"
proof -
  let ?cm = "children_cmd (zf_parent (sc_zfs (g_storage conf)))"
  obtain w where h: "h_run (ce_machine C) ?cm (cl_world c) = ((RunOk, out), w)" using listed by (metis prod.collapse)
  have "ev (snd (h_run (ce_machine C) ?cm (cl_world c))) = ev (cl_world c)
      @ [Ran ?cm (run_error (fst (fst (h_run (ce_machine C) ?cm (cl_world c)))) = None)]"
    using L unfolding logs_commands_def by blast
  with h have w: "ev w = ev (cl_world c) @ [Ran ?cm True]" by simp
  obtain b rest where f: "filter (\<lambda>n. n \<noteq> [] \<and> n \<noteq> zf_parent (sc_zfs (g_storage conf))) (zfs_lines out) = b # rest"
    using bs by (cases "filter (\<lambda>n. n \<noteq> [] \<and> n \<noteq> zf_parent (sc_zfs (g_storage conf))) (zfs_lines out)") auto
  have lc: "list_child_datasets C (zf_parent (sc_zfs (g_storage conf))) c = (Inr (b # rest), c\<lparr>cl_world := w\<rparr>)"
    using h f by (simp add: list_child_datasets_def plain_run_def running_def asking_def check_def ret_def)
  have "(\<exists>e. r = Inl e) \<and> (c' = c \<or> c' = c\<lparr>cl_world := w\<rparr>)"
  proof (cases "require_zfs_backend conf ''import-stream'' c")
    case (Pair z d)
    then have d: "d = c"
      by (simp add: require_zfs_backend_def ret_def throw_def Let_def split: if_splits)
    show ?thesis
    proof (cases z)
      case (Inl e)
      have "run_import_stream C X conf sp c = (Inl e, d)"
        by (simp only: run_stream_as check_def Pair Inl prod.case sum.case)
      then show ?thesis using run d by simp
    next
      case (Inr u)
      have "\<exists>m. run_import_stream C X conf sp c = throw (EText m) (c\<lparr>cl_world := w\<rparr>)"
        by (rule exI, simp only: run_stream_as check_def [of "require_zfs_backend _ _"] attempt_def Pair [unfolded d] Inr lc
            prod.case sum.case list.case)
      then show ?thesis using run by (auto simp: throw_def)
    qed
  qed
  then show ?thesis using w by auto
qed

text \<open>C27. Importing a baseline as a stream, with whatever fails on the way: the only thing that is ever destroyed
  is the base, and only with --force; the stream is received only when the base was absent or was just
  destroyed successfully; success means that it was received; and when the listing names branches, nothing is
  destroyed or received at all.\<close>

theorem stream_import_is_guarded:
  assumes "logs_commands C X ev" and "run_import_stream C X conf sp c = (r, c')"
  shows "\<exists>es. ev (cl_world c') = ev (cl_world c) @ es \<and>
    (let z = sc_zfs (g_storage conf) in
      (\<forall>cm g. Ran cm g \<in> set es \<longrightarrow> take 1 (cmd_args cm) = [''destroy''] \<longrightarrow> sp_force sp \<and> cm = destroy_cmd (zf_base z))
    \<and> (\<forall>g. Ran (recv_cmd (zf_base z)) g \<in> set es \<longrightarrow>
        Ran (base_cmd (zf_base z)) False \<in> set es \<or> Ran (destroy_cmd (zf_base z)) True \<in> set es)
    \<and> (r = Inr () \<longrightarrow> Ran (recv_cmd (zf_base z)) True \<in> set es)
    \<and> (case fst (h_run (ce_machine C) (children_cmd (zf_parent z)) (cl_world c)) of (res, out) \<Rightarrow>
        res = RunOk \<and> filter (\<lambda>n. n \<noteq> [] \<and> n \<noteq> zf_parent z) (zfs_lines out) \<noteq> [] \<longrightarrow>
        r \<noteq> Inr () \<and> set es \<subseteq> {Ran (children_cmd (zf_parent z)) True}))"
proof -
  let ?z = "sc_zfs (g_storage conf)"
  obtain es where es: "ev (cl_world c') = ev (cl_world c) @ es" and s: "stream_log conf (sp_force sp) r es"
    using run_stream_log [OF assms(1)] assms(2) unfolding logging_def by blast
  obtain res out where h: "fst (h_run (ce_machine C) (children_cmd (zf_parent ?z)) (cl_world c)) = (res, out)" by force
  have "res = RunOk \<and> filter (\<lambda>n. n \<noteq> [] \<and> n \<noteq> zf_parent ?z) (zfs_lines out) \<noteq> [] \<longrightarrow>
        r \<noteq> Inr () \<and> set es \<subseteq> {Ran (children_cmd (zf_parent ?z)) True}"
    using branches_stop_stream [OF assms] h es by blast
  moreover have "(\<forall>cm g. Ran cm g \<in> set es \<longrightarrow> take 1 (cmd_args cm) = [''destroy''] \<longrightarrow> sp_force sp \<and> cm = destroy_cmd (zf_base ?z))"
      "(\<forall>g. Ran (recv_cmd (zf_base ?z)) g \<in> set es \<longrightarrow>
        Ran (base_cmd (zf_base ?z)) False \<in> set es \<or> Ran (destroy_cmd (zf_base ?z)) True \<in> set es)"
      "r = Inr () \<longrightarrow> Ran (recv_cmd (zf_base ?z)) True \<in> set es"
    using s unfolding stream_log_def room_log_def recv_log_def Let_def
    by (auto simp: bare_cmd_def)
  ultimately show ?thesis using es h by (auto simp: Let_def)
qed

theorem stream_import_is_guarded_witness:
  "\<exists>r c' es. run_import_stream log_cli log_works default_config (no_stream []) (fresh_cli []) = (r, c') \<and> cl_world c' = es \<and>
    (Ran (destroy_cmd (zf_base (sc_zfs (g_storage default_config)))) True \<notin> set es)"
proof -
  obtain r c' where run: "run_import_stream log_cli log_works default_config (no_stream []) (fresh_cli []) = (r, c')" by force
  obtain es where "cl_world c' = es" and d: "\<forall>cm g. Ran cm g \<in> set es \<longrightarrow> take 1 (cmd_args cm) = [''destroy''] \<longrightarrow> sp_force (no_stream [])
      \<and> cm = destroy_cmd (zf_base (sc_zfs (g_storage default_config)))"
    using stream_import_is_guarded [OF log_machine run] unfolding Let_def by (auto simp: fresh_cli_def simp del: take_Suc_Cons)
  moreover have "\<not> sp_force (no_stream [])" "take 1 (cmd_args (destroy_cmd x)) = [''destroy'']" for x
    by (simp_all add: no_stream_def bare_cmd_def)
  ultimately show ?thesis using run by blast
qed

text \<open>A listing that fails does not stop the import: the base is destroyed without knowing of branches.\<close>

lemma failed_listing_is_ignored:
  assumes "require_zfs_backend conf ''import-stream'' c = (Inr (), c)"
    and "list_child_datasets C (zf_parent (sc_zfs (g_storage conf))) c = (Inl e, c')"
  shows "run_import_stream C X conf sp c
    = check (make_room C (zf_base (sc_zfs (g_storage conf))) (sp_force sp))
        (\<lambda>_. received C X conf sp (zf_base (sc_zfs (g_storage conf)))) c'"
  by (simp only: run_stream_as check_def [of "require_zfs_backend _ _"] attempt_def assms prod.case sum.case)

end
