(* ===== verification/CliInitFacts.thy ===== *)
theory CliInitFacts
  imports CliEnds
begin

text \<open>
  What is proved of \<^verbatim>\<open>init\<close>: the sudoers file is only ever replaced by a text that visudo has just
  accepted, and a stored application password is never overwritten, whatever fails on the way.
\<close>

section \<open>The files that are looked at\<close>

text \<open>
  \<open>V\<close> is the content of a file. What the calls do to the three files: a write leaves its text when it
  succeeds and anything when it fails, a rename moves a content, visudo accepts only what is valid, and
  no other call and no command changes them.
\<close>

type_synonym 'w contents = "'w \<Rightarrow> string \<Rightarrow> string option"

abbreviation guarded_paths :: "string set" where
  "guarded_paths \<equiv> {sudoers_path, sudoers_tmp_path, app_pass_file_path}"

definition changes_only :: "'w contents \<Rightarrow> string set \<Rightarrow> ('w \<Rightarrow> 'a \<times> 'w) \<Rightarrow> bool" where
  "changes_only V ps f \<longleftrightarrow> (\<forall>w. \<forall>q \<in> guarded_paths - ps. V (snd (f w)) q = V w q)"

definition leaves_files :: "'w cli_env \<Rightarrow> 'w works \<Rightarrow> 'w installer \<Rightarrow> 'w contents \<Rightarrow> bool" where
  "leaves_files C X I V \<longleftrightarrow> (\<forall>p q n u cm d k b. let H = ce_machine C in
       changes_only V {} (h_stat H p) \<and> changes_only V {} (h_read_file H p)
     \<and> changes_only V {} (h_read_dir H p) \<and> changes_only V {} (h_executable H p)
     \<and> changes_only V {} (h_mkdir_all H p) \<and> changes_only V {} (h_run H cm) \<and> changes_only V {p} (h_remove H p)
     \<and> changes_only V {} (ce_random C n) \<and> changes_only V {} (ce_look_path C p)
     \<and> changes_only V {} (ce_sleep C d) \<and> changes_only V {} (ce_chmod C p n)
     \<and> changes_only V {} (wk_chown X p u) \<and> changes_only V {} (in_perm I p)
     \<and> changes_only V {p} (in_poke I p q) \<and> changes_only V {} (in_lstat I p)
     \<and> changes_only V {p} (in_symlink I q p) \<and> changes_only V {} (in_answer I) \<and> changes_only V {} (in_hostname I)
     \<and> changes_only V {} (in_executable I) \<and> changes_only V {} (in_statfs I p) \<and> changes_only V {} (in_kill I k b)
     \<and> changes_only V {p} (in_write I p q n) \<and> changes_only V {p, q} (ce_rename C p q))"

definition files_behave ::
  "'w cli_env \<Rightarrow> 'w works \<Rightarrow> 'w installer \<Rightarrow> 'w contents \<Rightarrow> (string \<Rightarrow> bool) \<Rightarrow> bool" where
  "files_behave C X I V valid \<longleftrightarrow> leaves_files C X I V
   \<and> (\<forall>p t n w w'. in_write I p t n w = (Inr (), w') \<longrightarrow> V w' p = Some t)
   \<and> (\<forall>p q w r w'. ce_rename C p q w = (r, w') \<longrightarrow> (if r = Inr () then V w' q = V w p else V w' p = V w p \<and> V w' q = V w q))
   \<and> (\<forall>p w. V w p \<noteq> None \<longrightarrow> fst (h_stat (ce_machine C) p w) = FsOk)
   \<and> (\<forall>cm w r out w'. h_run (ce_machine C) cm w = ((r, out), w') \<longrightarrow> cmd_path cm = ''visudo'' \<longrightarrow>
        cmd_args cm = [''-cf'', sudoers_tmp_path] \<longrightarrow> run_error r = None \<longrightarrow>
        (\<exists>t. V w sudoers_tmp_path = Some t \<and> valid t))"

definition files_kept :: "(string \<Rightarrow> bool) \<Rightarrow> (string \<Rightarrow> string option) \<Rightarrow> (string \<Rightarrow> string option) \<Rightarrow> bool" where
  "files_kept valid v v' \<longleftrightarrow>
     (v' sudoers_path = v sudoers_path
      \<or> (\<exists>pool h. v' sudoers_path = Some (sudoers_for pool h) \<and> valid (sudoers_for pool h)))
   \<and> (\<forall>t. v app_pass_file_path = Some t \<longrightarrow> v' app_pass_file_path = Some t)"

abbreviation keeps_files :: "'w contents \<Rightarrow> (string \<Rightarrow> bool) \<Rightarrow> ('w, 'a) cact \<Rightarrow> bool" where
  "keeps_files V valid \<equiv> keeps (\<lambda>c c'. files_kept valid (V (cl_world c)) (V (cl_world c')))"

interpretation kept: effect_relation "\<lambda>c c'. files_kept valid (V (cl_world c)) (V (cl_world c'))"
  for V :: "'w contents" and valid
  by unfold_locales (auto simp: files_kept_def)

section \<open>The calls\<close>

lemma paths_differ [simp]: "sudoers_path \<noteq> sudoers_tmp_path" "sudoers_path \<noteq> app_pass_file_path"
    "sudoers_tmp_path \<noteq> app_pass_file_path" "app_pass_file_path \<noteq> sudoers_tmp_path"
    "sudoers_tmp_path \<noteq> sudoers_path" "app_pass_file_path \<noteq> sudoers_path"
  by (simp_all add: sudoers_path_def sudoers_tmp_path_def app_pass_file_path_def)

lemma world_after [simp]: "cl_world (snd (outside f c)) = snd (f (cl_world c))"
    "cl_world (snd (asking g c)) = snd (g (cl_world c))"
  by (simp_all add: outside_def asking_def split: prod.split)

lemma kept_call:
  assumes "changes_only V ps f" and "ps \<inter> {sudoers_path, app_pass_file_path} = {}"
  shows "files_kept valid (V w) (V (snd (f w)))"
proof -
  have "V (snd (f w)) sudoers_path = V w sudoers_path" "V (snd (f w)) app_pass_file_path = V w app_pass_file_path"
    using assms by (auto simp: changes_only_def)
  then show ?thesis by (simp add: files_kept_def)
qed

lemma kept_still:
  assumes "changes_only V {} f"
  shows "files_kept valid (V w) (V (snd (f w)))"
  using assms by (rule kept_call) simp

lemma kept_outside: "changes_only V {} f \<Longrightarrow> keeps_files V valid (outside f)"
    and kept_asking: "changes_only V {} g \<Longrightarrow> keeps_files V valid (asking g)"
  by (simp_all add: keeps_def kept_still)

lemma kept_outside_at:
  "changes_only V {p} f \<Longrightarrow> p \<notin> {sudoers_path, app_pass_file_path} \<Longrightarrow> keeps_files V valid (outside f)"
    and kept_asking_at:
  "changes_only V {p} g \<Longrightarrow> p \<notin> {sudoers_path, app_pass_file_path} \<Longrightarrow> keeps_files V valid (asking g)"
  by (simp_all add: keeps_def kept_call)

lemma files_calls:
  assumes "files_behave C X I V valid"
  shows "changes_only V {} (h_stat (ce_machine C) p)" "changes_only V {} (h_read_file (ce_machine C) p)"
    "changes_only V {} (h_read_dir (ce_machine C) p)" "changes_only V {} (h_executable (ce_machine C) p)"
    "changes_only V {} (h_mkdir_all (ce_machine C) p)" "changes_only V {} (h_run (ce_machine C) cm)"
    "changes_only V {} (ce_random C n)" "changes_only V {} (ce_look_path C p)" "changes_only V {} (ce_sleep C d)"
    "changes_only V {} (ce_chmod C p n)" "changes_only V {} (wk_chown X p u)" "changes_only V {} (in_perm I p)"
    "changes_only V {} (in_lstat I p)" "changes_only V {} (in_answer I)" "changes_only V {} (in_hostname I)"
    "changes_only V {} (in_executable I)" "changes_only V {} (in_statfs I p)" "changes_only V {} (in_kill I k b)"
  and "changes_only V {p} (h_remove (ce_machine C) p)" "changes_only V {p} (in_poke I p q)"
    "changes_only V {p} (in_symlink I q p)" "changes_only V {p} (in_write I p q n)"
    "changes_only V {p, q} (ce_rename C p q)"
proof -
  have "leaves_files C X I V" using assms by (simp add: files_behave_def)
  note L = this [unfolded leaves_files_def Let_def, rule_format, where p = p and q = q and n = n and u = u and cm = cm and d = d and k = k and b = b]
  show "changes_only V {} (h_stat (ce_machine C) p)" "changes_only V {} (h_read_file (ce_machine C) p)"
    "changes_only V {} (h_read_dir (ce_machine C) p)" "changes_only V {} (h_executable (ce_machine C) p)"
    "changes_only V {} (h_mkdir_all (ce_machine C) p)" "changes_only V {} (h_run (ce_machine C) cm)"
    "changes_only V {} (ce_random C n)" "changes_only V {} (ce_look_path C p)" "changes_only V {} (ce_sleep C d)"
    "changes_only V {} (ce_chmod C p n)" "changes_only V {} (wk_chown X p u)" "changes_only V {} (in_perm I p)"
    "changes_only V {} (in_lstat I p)" "changes_only V {} (in_answer I)" "changes_only V {} (in_hostname I)"
    "changes_only V {} (in_executable I)" "changes_only V {} (in_statfs I p)" "changes_only V {} (in_kill I k b)"
    "changes_only V {p} (h_remove (ce_machine C) p)" "changes_only V {p} (in_poke I p q)"
    "changes_only V {p} (in_symlink I q p)" "changes_only V {p} (in_write I p q n)"
    "changes_only V {p, q} (ce_rename C p q)"
    using L by blast+
qed

lemma kept_then: "keeps_files V valid m \<Longrightarrow> keeps_files V valid k \<Longrightarrow> keeps_files V valid (then_do m k)"
  unfolding then_do_def by (rule kept.keeps_check)

lemma kept_modifying: "(\<And>c. cl_world (f c) = cl_world c) \<Longrightarrow> keeps_files V valid (modifying f)"
  by (simp add: keeps_def modifying_def files_kept_def)

lemma kept_prints: "keeps_files V valid (say l)" "keeps_files V valid (complain l)" "keeps_files V valid (print_out l)"
  unfolding say_def complain_def print_out_def by (rule kept_modifying; simp)+

lemma kept_ends: "keeps_files V valid (quit_with l n)" "keeps_files V valid (tell l)" "keeps_files V valid (init_failed e)"
    "keeps_files V valid usage"
  unfolding quit_with_def tell_def init_failed_def usage_def
  by (intro kept_then kept_prints kept.keeps_intros kept_modifying; simp)+

lemma kept_when: "keeps_files V valid m \<Longrightarrow> keeps_files V valid (when_do b m)"
  by (simp add: when_do_def kept.keeps_ret)

lemma kept_defer: "keeps_files V valid d \<Longrightarrow> keeps_files V valid m \<Longrightarrow> keeps_files V valid (deferring d m)"
  unfolding deferring_def by (intro kept.keeps_intros)

lemma kept_of_sum: "keeps_files V valid (of_sum r)"
  unfolding of_sum_def by (intro kept.keeps_intros)

lemmas kept_kit = kept.keeps_intros kept_then kept_prints kept_ends kept_when kept_defer kept_of_sum

section \<open>Programs and other files\<close>

lemma kept_commands:
  assumes "files_behave C X I V valid"
  shows "keeps_files V valid (running C cm)" "keeps_files V valid (combined C pre cm)"
    "keeps_files V valid (plain_run C cm)" "keeps_files V valid (succeeds C n as)"
    "keeps_files V valid (run_init C n as)" "keeps_files V valid (run_with_env C es n as)"
    "keeps_files V valid (run_out C n as)" "keeps_files V valid (run_out_env C es n as)"
proof -
  show r: "keeps_files V valid (running C cm)" for cm
    unfolding running_def by (intro kept_asking files_calls [OF assms])
  show c: "keeps_files V valid (combined C pre cm)" for pre cm
    unfolding combined_def combined_text_def by (intro kept_kit r)
  show "keeps_files V valid (plain_run C cm)"
    unfolding plain_run_def by (intro kept_kit r)
  show "keeps_files V valid (succeeds C n as)"
    unfolding succeeds_def by (intro kept_kit r)
  show w: "keeps_files V valid (run_with_env C es n as)" for es
    unfolding run_with_env_def by (rule c)
  then show "keeps_files V valid (run_init C n as)"
    unfolding run_init_def by simp
  show "keeps_files V valid (run_out C n as)" "keeps_files V valid (run_out_env C es n as)"
    unfolding run_out_def run_out_env_def by (rule c)+
qed

lemma kept_reads:
  assumes "files_behave C X I V valid"
  shows "keeps_files V valid (file_exists C p)" "keeps_files V valid (bin_exists C p)"
    "keeps_files V valid (dir_non_empty C p)" "keeps_files V valid (file_equal C p t)"
    "keeps_files V valid (config_perm_ok I p)" "keeps_files V valid (existing_root_helper C I p)"
    "keeps_files V valid (existing_pool C I p)" "keeps_files V valid (find_pg_bin_dir C)"
    "keeps_files V valid (fix_config_perm C X I p)"
  unfolding file_exists_def bin_exists_def dir_non_empty_def file_equal_def config_perm_ok_def
    existing_root_helper_def existing_pool_def find_pg_bin_dir_def fix_config_perm_def
  by (intro kept_kit kept_asking kept_outside files_calls [OF assms])+

lemma kept_more_reads:
  assumes "files_behave C X I V valid"
  shows "keeps_files V valid (use_root_helper C I p)" "keeps_files V valid (baseline_present C b)"
    "keeps_files V valid (first_existing C ps)" "keeps_files V valid (make_dirs C ds)"
    "keeps_files V valid (choose_pool C I im)" "keeps_files V valid (confirmed I yes good)"
    "keeps_files V valid (random_password C)" "keeps_files V valid (choose_pass C given)"
  unfolding use_root_helper_def baseline_present_def first_existing_def make_dirs_def choose_pool_def
    confirmed_def random_password_def choose_pass_def
  by (intro kept_kit kept_asking kept_outside kept_reads [OF assms] files_calls [OF assms])+

lemma other_path: "last p \<notin> {CHR ''i'', CHR ''s''} \<Longrightarrow> p \<notin> {sudoers_path, app_pass_file_path}"
  by (auto simp: sudoers_path_def app_pass_file_path_def)

lemma kept_writes:
  assumes "files_behave C X I V valid" and "last p \<notin> {CHR ''i'', CHR ''s''}"
  shows "keeps_files V valid (write_mode I p t n)" "keeps_files V valid (asking (h_remove (ce_machine C) p))"
    "keeps_files V valid (asking (in_poke I p t))" "keeps_files V valid (outside (in_symlink I t p))"
    "keeps_files V valid (remove_if_there C p)"
proof -
  note p = other_path [OF assms(2)]
  show r: "keeps_files V valid (asking (h_remove (ce_machine C) p))"
    and "keeps_files V valid (asking (in_poke I p t))"
    by (rule kept_asking_at [OF _ p], rule files_calls [OF assms(1)])+
  show "keeps_files V valid (write_mode I p t n)" and "keeps_files V valid (outside (in_symlink I t p))"
    unfolding write_mode_def by (rule kept_outside_at [OF _ p], rule files_calls [OF assms(1)])+
  have "keeps_files V valid (case r of FsOk \<Rightarrow> ret () | FsNotExist e \<Rightarrow> ret () | FsPermission e \<Rightarrow> throw e
      | FsFailed e \<Rightarrow> throw e)" for r
    by (cases r) (simp_all add: kept.keeps_ret kept.keeps_throw)
  then show "keeps_files V valid (remove_if_there C p)"
    unfolding remove_if_there_def by (intro kept_kit r)
qed

section \<open>The two files\<close>

lemma keeps_from_triple:
  assumes "\<And>v. triple (\<lambda>c. V (cl_world c) = v) m (\<lambda>_ c. files_kept valid v (V (cl_world c)))
      (\<lambda>_ c. files_kept valid v (V (cl_world c)))"
  shows "keeps_files V valid m"
  unfolding keeps_def
proof
  fix c
  show "files_kept valid (V (cl_world c)) (V (cl_world (snd (m c))))"
    using assms [of "V (cl_world c)"] by (cases "m c"; cases "fst (m c)") (auto simp: triple_def dest: spec [of _ c])
qed

lemma triple_outside:
  assumes "\<And>w r w'. f w = (r, w') \<Longrightarrow> P w \<Longrightarrow> (case r of Inr a \<Rightarrow> Q a w' | Inl e \<Rightarrow> E e w')"
  shows "triple (\<lambda>c. P (cl_world c)) (outside f) (\<lambda>a c. Q a (cl_world c)) (\<lambda>e c. E e (cl_world c))"
  using assms by (fastforce simp: triple_def outside_def split: prod.splits sum.splits)

lemma triple_asking:
  assumes "\<And>w a w'. f w = (a, w') \<Longrightarrow> P w \<Longrightarrow> Q a w'"
  shows "triple (\<lambda>c. P (cl_world c)) (asking f) (\<lambda>a c. Q a (cl_world c)) E"
  using assms by (fastforce simp: triple_def asking_def split: prod.splits)

text \<open>What is known between the steps: the text is in the temporary file, the two files are as before.\<close>

definition put_aside :: "(string \<Rightarrow> string option) \<Rightarrow> string \<Rightarrow> (string \<Rightarrow> string option) \<Rightarrow> bool" where
  "put_aside v t v' \<longleftrightarrow> v' sudoers_tmp_path = Some t \<and> v' sudoers_path = v sudoers_path
     \<and> v' app_pass_file_path = v app_pass_file_path"

lemma put_aside_kept: "put_aside v t v' \<Longrightarrow> files_kept valid v v'"
  by (simp add: put_aside_def files_kept_def)

lemma files_kept_trans: "files_kept valid u v \<Longrightarrow> files_kept valid v w \<Longrightarrow> files_kept valid u w"
  by (auto simp: files_kept_def)

lemma changes_none: "changes_only V ps f \<Longrightarrow> f w = (r, w') \<Longrightarrow> q \<in> guarded_paths - ps \<Longrightarrow> V w' q = V w q"
  unfolding changes_only_def by (metis snd_conv)

lemma visudo_aside:
  assumes F: "files_behave C X I V valid"
  shows "triple (\<lambda>c. put_aside v t (V (cl_world c))) (run_init C ''visudo'' [''-cf'', sudoers_tmp_path])
     (\<lambda>_ c. put_aside v t (V (cl_world c)) \<and> valid t) (\<lambda>_ c. put_aside v t (V (cl_world c)))"
proof -
  let ?cm = "(bare_cmd ''visudo'' [''-cf'', sudoers_tmp_path])\<lparr>cmd_env := Some (h_environ (ce_machine C) @ [])\<rparr>"
  have v: "run_error (fst r) = None \<Longrightarrow> valid t"
    if "h_run (ce_machine C) ?cm w = (r, w')" "put_aside v t (V w)" for r w w'
  proof -
    assume ok: "run_error (fst r) = None"
    obtain res out where r: "r = (res, out)" by force
    from F have "\<forall>cm w r out w'. h_run (ce_machine C) cm w = ((r, out), w') \<longrightarrow> cmd_path cm = ''visudo'' \<longrightarrow>
        cmd_args cm = [''-cf'', sudoers_tmp_path] \<longrightarrow> run_error r = None \<longrightarrow>
        (\<exists>t. V w sudoers_tmp_path = Some t \<and> valid t)"
      by (simp add: files_behave_def)
    from this [rule_format, OF that(1) [unfolded r]] ok r that(2) show "valid t"
      by (auto simp: bare_cmd_def put_aside_def)
  qed
  have run: "triple (\<lambda>c. put_aside v t (V (cl_world c))) (running C ?cm)
     (\<lambda>r c. put_aside v t (V (cl_world c)) \<and> (run_error (fst r) = None \<longrightarrow> valid t)) (\<lambda>_ c. put_aside v t (V (cl_world c)))"
    unfolding running_def
  proof (rule triple_asking [where P = "\<lambda>w. put_aside v t (V w)"])
    fix w a w' assume h: "h_run (ce_machine C) ?cm w = (a, w')" and s: "put_aside v t (V w)"
    from changes_none [OF files_calls(6) [OF F] h] have "V w' q = V w q" if "q \<in> guarded_paths" for q
      using that by blast
    then show "put_aside v t (V w') \<and> (run_error (fst a) = None \<longrightarrow> valid t)"
      using s v [OF h s] by (simp add: put_aside_def)
  qed
  have told: "triple (\<lambda>c. put_aside v t (V (cl_world c)) \<and> (run_error (fst r) = None \<longrightarrow> valid t)) (combined_text pre r)
     (\<lambda>_ c. put_aside v t (V (cl_world c)) \<and> valid t) (\<lambda>_ c. put_aside v t (V (cl_world c)))" for r pre
    unfolding combined_text_def by (cases "run_error (fst r)") (auto intro: triple_ret triple_throw)
  show ?thesis
    unfolding run_init_def run_with_env_def combined_def
    by (rule triple_check [OF triple_check [OF run told]], rule triple_ret)
qed

lemma kept_install:
  assumes F: "files_behave C X I V valid"
  shows "keeps_files V valid (install_sudoers C I pool h)"
proof (rule keeps_from_triple)
  fix v
  let ?t = "sudoers_for pool h" and ?kept = "\<lambda>c. files_kept valid v (V (cl_world c))"
  have writing: "triple (\<lambda>c. V (cl_world c) = v) (write_mode I sudoers_tmp_path ?t 288)
      (\<lambda>_ c. put_aside v ?t (V (cl_world c))) (\<lambda>_ c. files_kept valid v (V (cl_world c)))"
    unfolding write_mode_def
  proof (rule triple_outside [where P = "\<lambda>w. V w = v"])
    fix w r w' assume h: "in_write I sudoers_tmp_path ?t 288 w = (r, w')" and s: "V w = v"
    have same: "V w' sudoers_path = v sudoers_path" "V w' app_pass_file_path = v app_pass_file_path"
      using changes_none [OF files_calls(22) [OF F] h] s by simp_all
    have "V w' sudoers_tmp_path = Some ?t" if "r = Inr ()"
      using F h that unfolding files_behave_def by blast
    with same show "case r of Inl e \<Rightarrow> files_kept valid v (V w') | Inr a \<Rightarrow> put_aside v ?t (V w')"
      by (cases r) (simp_all add: put_aside_def files_kept_def)
  qed
  have move: "triple (\<lambda>c. put_aside v ?t (V (cl_world c)) \<and> valid ?t) (outside (ce_rename C sudoers_tmp_path sudoers_path))
      (\<lambda>_. ?kept) (\<lambda>_. ?kept)"
  proof (rule triple_outside [where P = "\<lambda>w. put_aside v ?t (V w) \<and> valid ?t"])
    fix w r w' assume h: "ce_rename C sudoers_tmp_path sudoers_path w = (r, w')" and s: "put_aside v ?t (V w) \<and> valid ?t"
    have "V w' app_pass_file_path = V w app_pass_file_path"
      using changes_none [OF files_calls(23) [OF F] h] by simp
    moreover have "if r = Inr () then V w' sudoers_path = V w sudoers_tmp_path
        else V w' sudoers_tmp_path = V w sudoers_tmp_path \<and> V w' sudoers_path = V w sudoers_path"
    proof -
      have "\<forall>p q w r w'. ce_rename C p q w = (r, w') \<longrightarrow>
          (if r = Inr () then V w' q = V w p else V w' p = V w p \<and> V w' q = V w q)"
        using F by (simp add: files_behave_def)
      from this [rule_format, OF h] show ?thesis .
    qed
    ultimately show "case r of Inl e \<Rightarrow> files_kept valid v (V w') | Inr a \<Rightarrow> files_kept valid v (V w')"
      using s by (auto simp: put_aside_def files_kept_def split: if_splits sum.splits)
  qed
  have remove: "triple (\<lambda>c. put_aside v ?t (V (cl_world c))) (asking (h_remove (ce_machine C) sudoers_tmp_path))
      (\<lambda>_. ?kept) (\<lambda>_. ?kept)"
  proof (rule triple_asking [where P = "\<lambda>w. put_aside v ?t (V w)"])
    fix w r w' assume h: "h_remove (ce_machine C) sudoers_tmp_path w = (r, w')" and s: "put_aside v ?t (V w)"
    have "V w' q = V w q" if "q \<in> guarded_paths - {sudoers_tmp_path}" for q
      using changes_none [OF files_calls(19) [OF F] h] that by blast
    then show "files_kept valid v (V w')" using s by (simp add: put_aside_def files_kept_def)
  qed
  show "triple (\<lambda>c. V (cl_world c) = v) (install_sudoers C I pool h) (\<lambda>_. ?kept) (\<lambda>_. ?kept)"
    unfolding install_sudoers_def
    by (rule triple_check [OF writing], rule triple_handle [OF visudo_aside [OF F]],
        rule triple_check [OF remove], rule triple_throw, assumption, rule move)
qed

lemma kept_app_pass:
  assumes F: "files_behave C X I V valid"
  shows "keeps_files V valid (write_app_pass_file C X I app_pass_file_path pass)"
proof (rule keeps_from_triple)
  fix v
  let ?kept = "\<lambda>c. files_kept valid v (V (cl_world c))" and ?none = "v app_pass_file_path = None"
  have look: "triple (\<lambda>c. V (cl_world c) = v) (file_exists C app_pass_file_path)
      (\<lambda>there c. ?kept c \<and> (\<not> there \<longrightarrow> ?none)) (\<lambda>_. ?kept)"
  proof -
    have "triple (\<lambda>c. V (cl_world c) = v) (asking (h_stat (ce_machine C) app_pass_file_path))
      (\<lambda>r c. ?kept c \<and> (r \<noteq> FsOk \<longrightarrow> ?none)) (\<lambda>_. ?kept)"
    proof (rule triple_asking [where P = "\<lambda>w. V w = v"])
      fix w r w' assume h: "h_stat (ce_machine C) app_pass_file_path w = (r, w')" and s: "V w = v"
      have "V w app_pass_file_path \<noteq> None \<longrightarrow> fst (h_stat (ce_machine C) app_pass_file_path w) = FsOk"
        using F unfolding files_behave_def by blast
      then show "files_kept valid v (V w') \<and> (r \<noteq> FsOk \<longrightarrow> ?none)"
        using kept_still [OF files_calls(1) [OF F, of app_pass_file_path], of valid w] h s by auto
    qed
    then show ?thesis
      unfolding file_exists_def by (rule triple_check) (rule triple_ret, simp)
  qed
  have writing: "triple (\<lambda>c. ?kept c \<and> ?none) (write_mode I app_pass_file_path t n) (\<lambda>_. ?kept) (\<lambda>_. ?kept)" for t n
    unfolding write_mode_def
  proof (rule triple_outside [where P = "\<lambda>w. files_kept valid v (V w) \<and> ?none"])
    fix w r w' assume h: "in_write I app_pass_file_path t n w = (r, w')" and s: "files_kept valid v (V w) \<and> ?none"
    have "V w' sudoers_path = V w sudoers_path"
      using changes_none [OF files_calls(22) [OF F] h] by simp
    then show "case r of Inl e \<Rightarrow> files_kept valid v (V w') | Inr a \<Rightarrow> files_kept valid v (V w')"
      using s by (auto simp: files_kept_def split: sum.split)
  qed
  have "keeps (\<lambda>c c'. ?kept c \<longrightarrow> ?kept c') (fix_config_perm C X I app_pass_file_path)"
    using kept_reads(9) [OF F, of app_pass_file_path] unfolding keeps_def by (blast intro: files_kept_trans)
  then have perm: "triple ?kept (fix_config_perm C X I app_pass_file_path) (\<lambda>_. ?kept) (\<lambda>_. ?kept)"
    by (rule triple_keeps)
  show "triple (\<lambda>c. V (cl_world c) = v) (write_app_pass_file C X I app_pass_file_path pass) (\<lambda>_. ?kept) (\<lambda>_. ?kept)"
    unfolding write_app_pass_file_def
    by (rule triple_check [OF look], rule triple_if, rule triple_ret, simp,
        rule triple_check [OF triple_weaken [OF writing] perm]) auto
qed

section \<open>The steps\<close>

definition steps_keep :: "'w contents \<Rightarrow> (string \<Rightarrow> bool) \<Rightarrow> 'w step list \<Rightarrow> bool" where
  "steps_keep V valid ss \<longleftrightarrow>
     (\<forall>s \<in> set ss. keeps_files V valid (step_skipped s) \<and> keeps_files V valid (sx_run s))"

lemma steps_kept: "steps_keep V valid ss \<Longrightarrow> keeps_files V valid k \<Longrightarrow> keeps_files V valid (run_steps ss k)"
  by (induction ss) (auto simp: steps_keep_def intro!: kept_kit)

lemma steps_keep_simps [simp]: "steps_keep V valid []"
    "steps_keep V valid (s # ss) \<longleftrightarrow>
      keeps_files V valid (step_skipped s) \<and> keeps_files V valid (sx_run s) \<and> steps_keep V valid ss"
    "steps_keep V valid (xs @ ys) \<longleftrightarrow> steps_keep V valid xs \<and> steps_keep V valid ys"
    "sx_run (always n m) = m" "sx_run (unless_done n d m) = m"
  by (auto simp: steps_keep_def always_def unless_done_def)

lemma last_in_dir: "n \<noteq> [] \<Longrightarrow> last (in_dir d n) = last n"
  by (simp add: in_dir_def)

lemmas path_ends = last_in_dir config_file_def root_helper_config_path_def apparmor_profile_path_def init_socket_def
  mysqld_unit_file_def postgres_unit_file_def apparmor_stock_disable_link_def

lemma kept_hardening:
  assumes F: "files_behave C X I V valid"
  shows "keeps_files V valid (disable_stock_profile C I ''/'')" "keeps_files V valid (install_apparmor_profile C I pool)"
    "steps_keep V valid [root_helper_config_step C I pool, sudoers_step C I pool]"
proof -
  note k = kept_kit kept_commands [OF F] kept_reads [OF F] kept_more_reads [OF F] kept_install [OF F]
    kept_outside kept_asking files_calls [OF F]
  have l: "last (''/'' @ apparmor_stock_disable_link) \<notin> {CHR ''i'', CHR ''s''}"
      "last apparmor_profile_path \<notin> {CHR ''i'', CHR ''s''}" "last root_helper_config_path \<notin> {CHR ''i'', CHR ''s''}"
      "last ''/sys/kernel/security/apparmor/.remove'' \<notin> {CHR ''i'', CHR ''s''}"
    by (simp_all add: path_ends)
  have fs: "keeps_files V valid (case r of FsNotExist e \<Rightarrow> ret () | FsPermission e \<Rightarrow> throw e | FsFailed e \<Rightarrow> throw e
      | FsOk \<Rightarrow> m)" if "keeps_files V valid m" for r and m :: "('a, unit) cact"
    using that by (cases r) (simp_all add: kept.keeps_ret kept.keeps_throw)
  show d: "keeps_files V valid (disable_stock_profile C I ''/'')"
    unfolding disable_stock_profile_def Let_def
    by (intro kept.keeps_check fs k kept_writes [OF F l(1)])
  show "keeps_files V valid (install_apparmor_profile C I pool)"
    unfolding install_apparmor_profile_def
    by (intro k d kept_writes [OF F l(2)] kept_writes [OF F l(4)])
  show "steps_keep V valid [root_helper_config_step C I pool, sudoers_step C I pool]"
    unfolding root_helper_config_step_def sudoers_step_def
    by (simp only: steps_keep_simps skipped_simps, intro conjI TrueI k kept_writes [OF F l(3)])
qed

lemma kept_linux_steps:
  assumes F: "files_behave C X I V valid"
  shows "steps_keep V valid [service_off C u, zpool_step C im, dataset_step C ds os, dirs_step C user]"
    "steps_keep V valid [unit_step C I mysqld_unit_file, unit_step C I postgres_unit_file]"
    "steps_keep V valid [app_pass_step C X I pass, config_perm_step C X I p]"
    "keeps_files V valid m \<Longrightarrow> steps_keep V valid [config_step C X I m]"
    "keeps_files V valid (apt_install C ps)"
proof -
  note k = kept_kit kept_commands [OF F] kept_reads [OF F] kept_more_reads [OF F] kept_app_pass [OF F]
  have l: "last (''/etc/systemd/system/'' @ mysqld_unit_file) \<notin> {CHR ''i'', CHR ''s''}"
      "last (''/etc/systemd/system/'' @ postgres_unit_file) \<notin> {CHR ''i'', CHR ''s''}"
      "last config_file \<notin> {CHR ''i'', CHR ''s''}"
    by (simp_all add: path_ends)
  show "steps_keep V valid [service_off C u, zpool_step C im, dataset_step C ds os, dirs_step C user]"
    unfolding service_off_def zpool_step_def dataset_step_def dirs_step_def import_existing_pool_def Let_def
    by (simp only: steps_keep_simps skipped_simps, intro conjI TrueI k)
  show "steps_keep V valid [unit_step C I mysqld_unit_file, unit_step C I postgres_unit_file]"
    unfolding unit_step_def Let_def by (simp only: steps_keep_simps skipped_simps, intro conjI TrueI k kept_writes [OF F l(1)] kept_writes [OF F l(2)])
  show "steps_keep V valid [app_pass_step C X I pass, config_perm_step C X I p]"
    unfolding app_pass_step_def config_perm_step_def by (simp only: steps_keep_simps skipped_simps, intro conjI TrueI k)
  show "steps_keep V valid [config_step C X I m]" if "keeps_files V valid m"
    unfolding config_step_def write_config_file_def
    by (simp only: steps_keep_simps skipped_simps, intro conjI TrueI k that kept_writes [OF F l(3)])
  show "keeps_files V valid (apt_install C ps)"
    unfolding apt_install_def by (rule kept_commands [OF F])
qed

lemma kept_init_steps:
  assumes F: "files_behave C X I V valid"
  shows "steps_keep V valid (init_steps C X I im)" "steps_keep V valid (init_steps_postgres C X I im)"
proof -
  note k = kept_kit kept_commands [OF F] kept_reads [OF F] kept_hardening [OF F] kept_linux_steps(5) [OF F]
  have texts: "keeps_files V valid (render_postgres_config_app C I pool pf)" "keeps_files V valid (of_sum r)" for pool pf r
    unfolding render_postgres_config_app_def by (intro k)+
  note s = kept_linux_steps [OF F] kept_hardening(3) [OF F]
  show "steps_keep V valid (init_steps C X I im)"
    unfolding init_steps_def Let_def using s(1-3) s(4) [OF texts(2)] s(6)
    by (auto intro!: k)
  show "steps_keep V valid (init_steps_postgres C X I im)"
    unfolding init_steps_postgres_def Let_def using s(1-3) s(4) [OF texts(1)] s(6)
    by (auto intro!: k)
qed

section \<open>On macOS\<close>

lemma kept_init_server:
  assumes F: "files_behave C X I V valid"
  shows "keeps_files V valid (auth_plugin_for C client sock)" "keeps_files V valid (dev_user_attempts C client pass n e)"
    "keeps_files V valid (await_exit C I pid n)" "keeps_files V valid (end_init_server C I p)"
    "keeps_files V valid (provision_dev_user C I mysqld data pass)"
proof -
  note k = kept_kit kept_commands [OF F] kept_outside kept_asking files_calls [OF F]
  have l: "last init_socket \<notin> {CHR ''i'', CHR ''s''}" "last (in_dir data ''init.pid'') \<notin> {CHR ''i'', CHR ''s''}"
    by (simp_all add: path_ends)
  show a: "keeps_files V valid (auth_plugin_for C client sock)" for client sock
    unfolding auth_plugin_for_def by (intro k)
  show d: "keeps_files V valid (dev_user_attempts C client pass n e)" for client n e
    by (induction n arbitrary: e) (simp_all, (intro k a; assumption)+)
  show w: "keeps_files V valid (await_exit C I pid n)" for pid n
    by (induction n) (simp_all, (intro k; assumption)+)
  show s: "keeps_files V valid (end_init_server C I p)" for p
    unfolding end_init_server_def by (intro k w kept_writes [OF F l(1)])
  show "keeps_files V valid (provision_dev_user C I mysqld data pass)"
    unfolding provision_dev_user_def Let_def by (intro k s d kept_writes [OF F l(1)] kept_writes [OF F l(2)])
qed

lemma kept_darwin_parts:
  assumes F: "files_behave C X I V valid"
  shows "steps_keep V valid [darwin_dirs_step C b, launchd_step C I lab sd cf ld chg]"
    "steps_keep V valid [darwin_config_step C I (in_dir b ''config.yaml'') a kvs]"
    "keeps_files V valid (copy_baseline C b)" "keeps_files V valid (prepare_root C I b)"
    "keeps_files V valid m \<Longrightarrow> keeps_files V valid (with_temp_postgres C dir data ld m)"
proof -
  note k = kept_kit kept_commands [OF F] kept_reads [OF F] kept_more_reads [OF F] kept_outside kept_asking files_calls [OF F]
  have l: "last (in_dir d (lab @ ''.plist'')) \<notin> {CHR ''i'', CHR ''s''}"
      "last (in_dir b ''config.yaml'') \<notin> {CHR ''i'', CHR ''s''}" for d
    by (simp_all add: path_ends)
  show "steps_keep V valid [darwin_dirs_step C b, launchd_step C I lab sd cf ld chg]"
    unfolding darwin_dirs_step_def launchd_step_def Let_def
    by (simp only: steps_keep_simps skipped_simps, intro conjI TrueI k kept_writes [OF F l(1)])
  show "steps_keep V valid [darwin_config_step C I (in_dir b ''config.yaml'') a kvs]"
    unfolding darwin_config_step_def default_host_name_def
    by (simp only: steps_keep_simps skipped_simps, intro conjI TrueI k kept_writes [OF F l(2)])
  show "keeps_files V valid (copy_baseline C b)"
    unfolding copy_baseline_def by (intro k)
  show "keeps_files V valid (prepare_root C I b)"
    unfolding prepare_root_def prepare_darwin_root_def prepare_other_root_def fs_type_of_def by (intro k)
  show "keeps_files V valid (with_temp_postgres C dir data ld m)" if "keeps_files V valid m"
    unfolding with_temp_postgres_def Let_def by (intro k that)
qed

lemma kept_darwin_steps:
  assumes F: "files_behave C X I V valid"
  shows "steps_keep V valid (darwin_steps C I b m sd pass)" "steps_keep V valid (darwin_pg_steps C I b d sd pass)"
proof -
  note k = kept_kit kept_commands [OF F] kept_reads [OF F] kept_more_reads [OF F] kept_outside files_calls [OF F]
    kept_darwin_parts [OF F] kept_init_server(5) [OF F]
  have l: "last (in_dir (in_dir b ''base/data'') ''auto.cnf'') \<notin> {CHR ''i'', CHR ''s''}"
    by (simp add: path_ends)
  have q: "keeps_files V valid (darwin_pg_sql C d t)" for t
    unfolding darwin_pg_sql_def by (intro k)
  note parts = kept_darwin_parts(1,2) [OF F, unfolded steps_keep_simps]
  show "steps_keep V valid (darwin_steps C I b m sd pass)"
    unfolding darwin_steps_def Let_def
    by (simp only: steps_keep_simps skipped_simps, intro conjI TrueI k kept_writes [OF F l], insert parts, blast+)
  show "steps_keep V valid (darwin_pg_steps C I b d sd pass)"
    unfolding darwin_pg_steps_def Let_def
    by (simp only: steps_keep_simps skipped_simps, intro conjI TrueI k q, insert parts, blast+)
qed

lemma kept_init:
  assumes F: "files_behave C X I V valid"
  shows "keeps_files V valid (cmd_init C X I args)"
proof -
  note k = kept_kit kept_commands [OF F] kept_reads [OF F] kept_more_reads [OF F] kept_outside files_calls [OF F]
  have found: "keeps_files V valid (resolve_mysqld C)" "keeps_files V valid (resolve_sashikid C I)"
      "keeps_files V valid (resolve_postgres_bin_dir C)"
    unfolding resolve_mysqld_def resolve_sashikid_def resolve_postgres_bin_dir_def brew_postgres_formulae_def Let_def
    by (intro k)+
  have linux: "steps_keep V valid (if b then init_steps_postgres C X I im else init_steps C X I im)" for b im
    using kept_init_steps [OF F] by simp
  show ?thesis
    unfolding cmd_init_def init_darwin_def init_darwin_mysql_def init_darwin_postgres_def init_linux_def Let_def
    by (intro k found steps_kept linux kept_darwin_steps [OF F] kept_darwin_parts(4) [OF F])
qed

section \<open>The property\<close>

text \<open>C28. In every run of init, for both engines and both platforms, with whatever options and whatever fails on the
  way: the sudoers file of sashiki is left as it was, or it holds one of the two generated texts and visudo
  has accepted that text; and an application password that was stored before is still the same.\<close>

theorem init_protects_files:
  assumes "files_behave C X I V valid"
  shows "let v = V (cl_world c); v' = V (cl_world (snd (cmd_init C X I args c))) in
    (v' sudoers_path = v sudoers_path
      \<or> (\<exists>pool h. v' sudoers_path = Some (sudoers_for pool h) \<and> valid (sudoers_for pool h)))
    \<and> (v app_pass_file_path \<noteq> None \<longrightarrow> v' app_pass_file_path = v app_pass_file_path)"
  using kept_init [OF assms] by (fastforce simp: keeps_def files_kept_def Let_def)

type_synonym disk = "string \<Rightarrow> string option"

definition on_disk :: "disk \<Rightarrow> string \<Rightarrow> string option" where
  "on_disk w = w"

definition starts_as_comment :: "string \<Rightarrow> bool" where
  "starts_as_comment t = has_prefix t ''#''"

definition disk_run :: "cmd \<Rightarrow> disk \<Rightarrow> (run_result \<times> string) \<times> disk" where
  "disk_run cm w = ((if cmd_path cm = ''visudo''
       then (case w sudoers_tmp_path of Some t \<Rightarrow> if starts_as_comment t then RunOk else RunExit 1 (EText ''syntax error'')
             | None \<Rightarrow> RunExit 1 (EText ''no file''))
     else if take 1 (cmd_args cm) = [''list''] then RunExit 1 (EText ''not found'') else RunOk, []), w)"

definition disk_host :: "disk host" where
  "disk_host = \<lparr>h_stat = (\<lambda>p w. (if w p = None then FsNotExist ENotFound else FsOk, w)),
     h_remove = (\<lambda>p w. (FsOk, w(p := None))),
     h_open = (\<lambda>p. ret ()), h_glob = (\<lambda>p. ret []), h_read_dir = (\<lambda>p. ret []), h_executable = (\<lambda>p. ret False),
     h_mod_time = (\<lambda>p. ret 0), h_mkdir_all = (\<lambda>p. ret ()), h_create = (\<lambda>p. ret ()),
     h_read_file = (\<lambda>p w. (case w p of None \<Rightarrow> Inl ENotFound | Some t \<Rightarrow> Inr t, w)), h_run = disk_run,
     h_sigterm = (\<lambda>p w. ((), w)), h_is_root = True,
     h_environ = [], h_tmp_dir = ''/tmp'', h_lookup_user = (\<lambda>u. Some (999, 999))\<rparr>"

definition disk_cli :: "disk cli_env" where
  "disk_cli = \<lparr>ce_machine = disk_host, ce_read = (\<lambda>p w. ((FsOk, []), w)), ce_hosts = (\<lambda>t. Inr sample_hosts),
     ce_http = (\<lambda>q w. (sample_answer q, w)), ce_parse = sample_parse, ce_print = (\<lambda>j. []),
     ce_now = (\<lambda>w. (0, w)), ce_sleep = (\<lambda>d w. ((), w)),
     ce_duration = (\<lambda>s. Inl (EText ''time: invalid duration'')), ce_show_duration = (\<lambda>d. ''1m0s''),
     ce_percent = (\<lambda>r. ''0%''), ce_order = id, ce_random = (\<lambda>n. ret (replicate n (CHR 0x00))),
     ce_sha256 = id, ce_look_path = (\<lambda>p. ret (''/usr/bin/'' @ p)), ce_exec = (\<lambda>p a e. ret 0),
     ce_mode = (\<lambda>p. ret 384), ce_create_temp = (\<lambda>d p. ret (d @ ''/tmp'')),
     ce_write = (\<lambda>p t. ret ()), ce_close = (\<lambda>p. ret ()), ce_chmod = (\<lambda>p m. ret ()),
     ce_rename = (\<lambda>p q w. (Inr (), w(p := None, q := w p))), ce_decoder = sample_decoder, ce_open_db = (\<lambda>p. ret ()),
     ce_db = (\<lambda>p w. open_db), ce_set_db = (\<lambda>p d w. w), ce_db_fault = (\<lambda>w. (None, w)),
     ce_goos = ''linux'', ce_version = ''dev'', ce_rounds = 1\<rparr>"

definition disk_works :: "disk works" where
  "disk_works = \<lparr>wk_fs = \<lparr>lf_remove_all = (\<lambda>p. ret ()), lf_rename = (\<lambda>p q. ret ()), lf_missing = (\<lambda>e. True)\<rparr>,
     wk_ssm = \<lparr>sm_config = ret (), sm_get = (\<lambda>p. ret None)\<rparr>, wk_is_dir = (\<lambda>p. ret True), wk_walk = (\<lambda>p w. ([], w)),
     wk_chown = (\<lambda>p u. ret ()), wk_head = (\<lambda>p n. ret []), wk_cpus = 4, wk_pick = (\<lambda>w. (0, w)),
     wk_pipe = ret (), wk_start = (\<lambda>p xs. ret 1), wk_feed = (\<lambda>s q w. ((RunOk, []), w)),
     wk_pour = (\<lambda>s q w. (RunOk, w)), wk_copy = (\<lambda>s p. ret ()), wk_close_file = (\<lambda>p. ret ()),
     wk_close_pipe = (\<lambda>n. ret ()), wk_wait = (\<lambda>n. ret ())\<rparr>"

definition disk_installer :: "disk installer" where
  "disk_installer = \<lparr>in_write = (\<lambda>p t m w. (Inr (), w(p := Some t))), in_perm = (\<lambda>p. ret (384, Some (0, 0))),
     in_poke = (\<lambda>p t w. ((), w)), in_lstat = (\<lambda>p w. (False, w)), in_symlink = (\<lambda>p q. ret ()), in_group = (\<lambda>g. None),
     in_asset = id, in_pools = (\<lambda>t. None), in_root_helper = (\<lambda>t. None), in_answer = (\<lambda>w. (''y'', w)),
     in_hostname = ret ''box'', in_executable = ret ''/usr/local/bin/sashiki'', in_statfs = (\<lambda>p. ret ''apfs''),
     in_abs = id, in_kill = (\<lambda>p b w. (False, w))\<rparr>"

lemma disk_behaves: "files_behave disk_cli disk_works disk_installer on_disk starts_as_comment"
proof -
  have "leaves_files disk_cli disk_works disk_installer on_disk"
    by (simp add: leaves_files_def changes_only_def disk_cli_def disk_host_def disk_works_def disk_installer_def
        disk_run_def on_disk_def ret_def Let_def)
  then show ?thesis
    by (auto simp: files_behave_def disk_cli_def disk_host_def disk_installer_def disk_run_def on_disk_def
        split: if_splits option.splits)
qed

theorem init_protects_files_witness:
  "let v = (\<lambda>p. if p = app_pass_file_path then Some ''old'' else None) :: disk;
       v' = cl_world (snd (cmd_init disk_cli disk_works disk_installer [''--yes'', ''--app-pass'', ''new''] (fresh_cli v))) in
    (v' sudoers_path = None
      \<or> (\<exists>pool h. v' sudoers_path = Some (sudoers_for pool h) \<and> starts_as_comment (sudoers_for pool h)))
    \<and> v' app_pass_file_path = Some ''old''"
  using init_protects_files [OF disk_behaves, of "fresh_cli (\<lambda>p. if p = app_pass_file_path then Some ''old'' else None)"
      "[''--yes'', ''--app-pass'', ''new'']"]
  by (simp add: on_disk_def fresh_cli_def Let_def)

end
