(* ===== verification/OpLog.thy ===== *)
theory OpLog
  imports Prelude
begin

text \<open>
  internal/oplog: what a log line tells of the operation it belongs to. A context is the operation it
  carries, \<open>None\<close> when it carries none (or is nil). The default logger of slog is the function \<open>out\<close>.
\<close>

record 'v op_info =
  oi_id :: string
  oi_type :: string
  oi_branch :: string
  oi_extra :: "'v list"

type_synonym 'v op_context = "'v op_info option"

definition with_operation :: "'v op_context \<Rightarrow> 'v op_info \<Rightarrow> 'v op_context" where
  "with_operation ctx oi = Some oi"

definition no_operation :: "'v op_info" where
  "no_operation = \<lparr>oi_id = [], oi_type = [], oi_branch = [], oi_extra = []\<rparr>"

definition from_context :: "'v op_context \<Rightarrow> 'v op_info \<times> bool" where
  "from_context ctx = (case ctx of None \<Rightarrow> (no_operation, False) | Some oi \<Rightarrow> (oi, True))"

definition with_branch :: "'v op_context \<Rightarrow> string \<Rightarrow> 'v op_context" where
  "with_branch ctx b = (case from_context ctx of (oi, ok) \<Rightarrow> with_operation ctx (oi\<lparr>oi_branch := b\<rparr>))"

text \<open>The attributes are keys and values in turn, both texts; what was given besides comes last.\<close>

definition log_pair :: "(string \<Rightarrow> 'v) \<Rightarrow> string \<Rightarrow> string \<Rightarrow> 'v list" where
  "log_pair txt k v = (if v \<noteq> [] then [txt k, txt v] else [])"

definition log_attrs :: "(string \<Rightarrow> 'v) \<Rightarrow> 'v op_context \<Rightarrow> 'v list" where
  "log_attrs txt ctx = (case from_context ctx of (oi, ok) \<Rightarrow> if \<not> ok then []
     else log_pair txt ''operation_id'' (oi_id oi) @ log_pair txt ''operation_type'' (oi_type oi)
       @ log_pair txt ''branch'' (oi_branch oi) @ oi_extra oi)"

datatype log_level = InfoLevel | ErrorLevel

definition logf ::
  "(log_level \<Rightarrow> string \<Rightarrow> 'v list \<Rightarrow> 'w \<Rightarrow> 'w) \<Rightarrow> (string \<Rightarrow> 'v) \<Rightarrow> 'v op_context \<Rightarrow> string \<Rightarrow> 'w \<Rightarrow> 'w" where
  "logf out txt ctx line = out InfoLevel line (log_attrs txt ctx)"

definition errorf ::
  "(log_level \<Rightarrow> string \<Rightarrow> 'v list \<Rightarrow> 'w \<Rightarrow> 'w) \<Rightarrow> (string \<Rightarrow> 'v) \<Rightarrow> 'v op_context \<Rightarrow> string \<Rightarrow> 'w \<Rightarrow> 'w" where
  "errorf out txt ctx line = out ErrorLevel line (log_attrs txt ctx)"

text \<open>A branch that is set later leaves the identifier and the type of the operation on the line.\<close>

lemma with_branch_attrs:
  "log_attrs txt (with_branch (Some oi) b) = log_pair txt ''operation_id'' (oi_id oi)
     @ log_pair txt ''operation_type'' (oi_type oi) @ log_pair txt ''branch'' b @ oi_extra oi"
  "log_attrs txt (with_branch None b) = log_pair txt ''branch'' b"
  by (simp_all add: log_attrs_def with_branch_def from_context_def with_operation_def no_operation_def log_pair_def)

lemma no_empty_attrs:
  "oi_extra oi = [] \<Longrightarrow> inj txt \<Longrightarrow> txt [] \<notin> set (log_attrs txt (Some oi))"
  by (auto simp: log_attrs_def from_context_def log_pair_def inj_eq split: if_splits)

end
